(* ===== verification/Prelude.thy ===== *)
theory Prelude
  imports "HOL-Library.Word"
begin

text \<open>
  Shared vocabulary of the development: the machine types of the C sources and of the
  Verilog modules, packed lanes (little-endian concatenation of equally wide words), the
  C counting loop, and the generic facts the components use.
\<close>

unbundle bit_operations_syntax

named_theorems lane_simps \<open>reading lanes back out of packed words\<close>
named_theorems loop_simps \<open>C counting loops as folds\<close>

type_synonym i8 = "8 word"
type_synonym i16 = "16 word"
type_synonym i32 = "32 word"
type_synonym i64 = "64 word"

section \<open>Packed lanes\<close>

text \<open>
  Lane \<open>k\<close> of a word is the part-select \<open>x[k*w +: w]\<close> of Verilog, with \<open>w\<close> the width of the
  result type.  \<open>pack_lanes\<close> concatenates lanes, the head of the list in the least
  significant position: a Verilog concatenation read from right to left, and a
  little-endian load of consecutive array elements.
\<close>

definition lane :: "nat \<Rightarrow> 'b::len word \<Rightarrow> 'a::len word" where
  "lane k x = ucast (drop_bit (k * LENGTH('a)) x)"

fun pack_lanes :: "'a::len word list \<Rightarrow> 'b::len word" where
  "pack_lanes [] = 0"
| "pack_lanes (x # xs) = ucast x OR push_bit LENGTH('a) (pack_lanes xs)"

lemma bit_pack_lanes:
  fixes xs :: "'a::len word list"
  shows "bit (pack_lanes xs :: 'b::len word) n \<longleftrightarrow>
    n < LENGTH('b) \<and> n div LENGTH('a) < length xs \<and> bit (xs ! (n div LENGTH('a))) (n mod LENGTH('a))"
proof (induction xs arbitrary: n)
  case Nil
  then show ?case by simp
next
  case (Cons x xs)
  show ?case
  proof (cases "n < LENGTH('a)")
    case True
    then show ?thesis by (auto simp: bit_simps)
  next
    case False
    then obtain m where m: "n = LENGTH('a) + m"
      by (metis le_add_diff_inverse linorder_not_less)
    have "\<not> bit x n" using False by (auto dest: bit_imp_le_length)
    moreover have "(LENGTH('a) + m) div LENGTH('a) = Suc (m div LENGTH('a))" using div_add_self1 [of "LENGTH('a)" m] by simp
    ultimately show ?thesis
      using Cons.IH [of m] by (auto simp: m bit_simps)
  qed
qed

lemma lane_pack_lanes [lane_simps]:
  fixes xs :: "'a::len word list"
  assumes "k < length xs" "length xs * LENGTH('a) \<le> LENGTH('b)"
  shows "lane k (pack_lanes xs :: 'b::len word) = xs ! k"
proof (rule bit_word_eqI)
  fix n assume n: "n < LENGTH('a)"
  have "k * LENGTH('a) + n < LENGTH('b)"
  proof -
    have "Suc k * LENGTH('a) \<le> length xs * LENGTH('a)"
      using assms(1) by (intro mult_le_mono1) simp
    with assms(2) n show ?thesis by simp
  qed
  with n assms(1) show "bit (lane k (pack_lanes xs :: 'b word) :: 'a word) n \<longleftrightarrow> bit (xs ! k) n"
    by (simp add: lane_def bit_simps bit_pack_lanes)
qed

lemma pack_lanes_of_lanes:
  fixes w :: "'b::len word"
  assumes "LENGTH('b) = m * LENGTH('a::len)"
  shows "pack_lanes (map (\<lambda>i. lane i w :: 'a word) [0..<m]) = w"
proof (rule bit_word_eqI)
  fix n assume n: "n < LENGTH('b)"
  then have "n div LENGTH('a) < m"
    using assms by (simp add: less_mult_imp_div_less)
  moreover have "n div LENGTH('a) * LENGTH('a) + n mod LENGTH('a) = n"
    by (rule div_mult_mod_eq)
  ultimately show "bit (pack_lanes (map (\<lambda>i. lane i w :: 'a word) [0..<m]) :: 'b word) n \<longleftrightarrow> bit w n"
    using n by (simp add: bit_pack_lanes lane_def bit_simps)
qed

lemma pack_lanes_inject:
  fixes xs ys :: "'a::len word list"
  assumes "(pack_lanes xs :: 'b::len word) = pack_lanes ys"
    "length xs = length ys" "length xs * LENGTH('a) \<le> LENGTH('b)"
  shows "xs = ys"
proof (rule nth_equalityI)
  fix i assume "i < length xs"
  with assms lane_pack_lanes [of i xs, where 'b = 'b] lane_pack_lanes [of i ys, where 'b = 'b]
  show "xs ! i = ys ! i" by simp
qed (use assms in simp)

section \<open>Counting loops\<close>

text \<open>
  \<open>for_loop i n k body s\<close> is \<open>for (; i < n; i += k) body\<close> on a loop state \<open>s\<close>.  Every
  loop of the sources has a positive constant stride; the guard \<open>0 < k\<close> only makes the
  recursion well founded.
\<close>

function for_loop :: "nat \<Rightarrow> nat \<Rightarrow> nat \<Rightarrow> (nat \<Rightarrow> 's \<Rightarrow> 's) \<Rightarrow> 's \<Rightarrow> 's" where
  "for_loop i n k body s =
     (if i < n \<and> 0 < k then for_loop (i + k) n k body (body i s) else s)"
  by pat_completeness auto
termination
  by (relation "measure (\<lambda>(i, n, k, body, s). n - i)") auto

declare for_loop.simps [simp del]

lemma for_loop_stop: "n \<le> i \<Longrightarrow> for_loop i n k body s = s"
  by (simp add: for_loop.simps)

lemma for_loop_step: "i < n \<Longrightarrow> 0 < k \<Longrightarrow>
    for_loop i n k body s = for_loop (i + k) n k body (body i s)"
  by (subst for_loop.simps) simp

lemma for_loop_fold_from:
  "0 < k \<Longrightarrow> for_loop (t * k) ((t + m) * k) k body s = fold (\<lambda>u. body (u * k)) [t..<t + m] s"
proof (induction m arbitrary: t s)
  case 0
  then show ?case by (simp add: for_loop_stop)
next
  case (Suc m)
  have "for_loop (t * k) ((t + Suc m) * k) k body s
      = for_loop (Suc t * k) ((Suc t + m) * k) k body (body (t * k) s)"
    using Suc.prems by (subst for_loop_step) (auto simp: algebra_simps)
  also have "\<dots> = fold (\<lambda>u. body (u * k)) [Suc t..<Suc t + m] (body (t * k) s)"
    by (rule Suc.IH [OF Suc.prems])
  also have "\<dots> = fold (\<lambda>u. body (u * k)) [t..<t + Suc m] s"
    by (simp add: upt_conv_Cons del: upt_Suc)
  finally show ?case .
qed

lemma for_loop_fold [loop_simps]:
  "0 < k \<Longrightarrow> n = m * k \<Longrightarrow> for_loop 0 n k body s = fold (\<lambda>u. body (u * k)) [0..<m] s"
  using for_loop_fold_from [of k 0 m body s] by simp

lemma for_loop_fold1 [loop_simps]: "for_loop 0 n (Suc 0) body s = fold body [0..<n] s"
  using for_loop_fold_from [of "Suc 0" 0 n body s] by simp

lemma for_loop_fold1_fun: "for_loop 0 n (Suc 0) body = fold body [0..<n]"
  by (rule ext) (rule for_loop_fold1)

lemma for_loop_fold1_from: "i \<le> n \<Longrightarrow> for_loop i n (Suc 0) body s = fold body [i..<n] s"
  using for_loop_fold_from [of "Suc 0" i "n - i" body s] by simp

lemma let_pair: "(let (a, b) = (x, y) in f a b) = f x y"
  by simp

text \<open>A loop that fills an array slot by slot computes the list of its values.\<close>

lemma fold_upd_fill:
  assumes "n \<le> length xs"
  shows "fold (\<lambda>j ys. ys[j := f j]) [0..<n] xs = map f [0..<n] @ drop n xs"
  using assms
proof (induction n)
  case 0
  then show ?case by simp
next
  case (Suc n)
  then have "drop n xs = xs ! n # drop (Suc n) xs"
    by (simp add: Cons_nth_drop_Suc)
  with Suc show ?case by (simp add: list_update_append)
qed

lemma fold_add_sum:
  fixes f :: "'i \<Rightarrow> 'a::comm_monoid_add"
  shows "fold (\<lambda>i a. a + f i) is a = a + sum_list (map f is)"
  by (induction "is" arbitrary: a) (simp_all add: add.assoc)

section \<open>Sign extension\<close>

text \<open>
  \<open>scast x\<close> is \<open>word_of_int (sint x)\<close> (\<open>scast_eq\<close>); the simplifier prefers the first form,
  so these rules are stated to be used by unfolding.
\<close>

lemma scast_mult: "(scast (x :: 'a::len word) * scast (y :: 'b::len word) :: 'c::len word) = word_of_int (sint x * sint y)"
  unfolding scast_eq of_int_mult ..

lemma scast_add: "(scast (x :: 'a::len word) + scast (y :: 'b::len word) :: 'c::len word) = word_of_int (sint x + sint y)"
  unfolding scast_eq of_int_add ..

lemma word_of_int_sint_add: "(word_of_int (sint x + sint y) :: 'a::len word) = x + y"
  unfolding of_int_add by simp

lemma ucast_word_of_int:
  "LENGTH('b) \<le> LENGTH('a) \<Longrightarrow> (ucast (word_of_int k :: 'a::len word) :: 'b::len word) = word_of_int k"
  by (rule bit_word_eqI) (auto simp: bit_simps)

lemma sint_range8: "- 128 \<le> sint (x :: i8)" "sint (x :: i8) \<le> 127"
  using sint_greater_eq [of x] sint_less [of x] by simp_all

lemma sint_byte_product: "sint (scast (x :: i8) * scast (y :: i8) :: i16) = sint x * sint y"
proof -
  have "\<bar>sint x\<bar> \<le> 128" "\<bar>sint y\<bar> \<le> 128"
    using sint_range8 [of x] sint_range8 [of y] by auto
  then have "\<bar>sint x * sint y\<bar> \<le> 128 * 128"
    unfolding abs_mult by (intro mult_mono) auto
  then have "signed_take_bit (LENGTH(16) - 1) (sint x * sint y) = sint x * sint y"
    by (intro signed_take_bit_int_eq_self) (simp_all add: abs_le_iff)
  then show ?thesis unfolding scast_mult sint_sbintrunc' .
qed

lemma scast_byte_product: "(scast (scast (x :: i8) * scast (y :: i8) :: i16) :: 'a::len word) = word_of_int (sint x * sint y)"
  unfolding scast_eq [of "_ * _"] sint_byte_product ..

lemma word2_cases:
  fixes s :: "2 word"
  obtains "s = 0" | "s = 1" | "s = 2" | "s = 3"
proof -
  have "unat s < 4" using unsigned_less [of s, where 'a = nat] by simp
  then have "unat s \<in> {0, 1, 2, 3}" by auto
  moreover have "(word_of_nat k :: 2 word) \<in> {0, 1, 2, 3}" if "k \<in> {0, 1, 2, 3}" for k
    using that by auto
  ultimately have "(word_of_nat (unat s) :: 2 word) \<in> {0, 1, 2, 3}" by blast
  then have "s \<in> {0, 1, 2, 3}" by (simp only: of_nat_unat ucast_id)
  then show thesis using that by auto
qed

lemma upt_lanes [lane_simps]:
  "[0..<8] = [0, Suc 0, 2, 3, 4, 5, 6, 7]" "[0..<4] = [0, Suc 0, 2, 3]" "[0..<2] = [0, Suc 0]"
  by (simp_all add: upt_rec)

lemma all_less_lanes:
  "(\<forall>i<8. P i) \<longleftrightarrow> P 0 \<and> P (Suc 0) \<and> P 2 \<and> P 3 \<and> P 4 \<and> P 5 \<and> P 6 \<and> P (7::nat)"
  "(\<forall>i<4. P i) \<longleftrightarrow> P 0 \<and> P (Suc 0) \<and> P 2 \<and> P (3::nat)"
  "(\<forall>i<2. P i) \<longleftrightarrow> P 0 \<and> P (Suc (0::nat))"
  by (simp_all add: All_less_Suc numeral_eq_Suc) blast+

end
