(* ===== verification/Exec_Handshake.thy ===== *)
theory Exec_Handshake
  imports Prelude
begin

text \<open>
  The handshake between the core's EXEC state (ucrv32.v) and a multi-cycle unit (vmac.v,
  valu.v, vlsu.v): one function for the three, and the contract of a unit as a locale.
\<close>

section \<open>Waiting in EXEC\<close>

text \<open>
  In EXEC the core raises the unit's start line for one cycle when it is not busy
  (\<open>if (!busy) begin valid_in <= 1; busy <= 1; end else valid_in <= 0;\<close>) and stays in EXEC
  until the unit reports completion; the cycle that sees the report takes the result,
  clears \<open>busy\<close> and the start line, and leaves for WB.  Core and unit registers change on
  the same clock edge, so the unit takes its step with the start line as it was before the
  edge.  The result is the value taken, the number of EXEC cycles so far and the unit's
  state after the last edge; \<open>None\<close> means that the fuel ran out.
\<close>

fun unit_exec :: "nat \<Rightarrow> (bool \<Rightarrow> 'u \<Rightarrow> 'u) \<Rightarrow> ('u \<Rightarrow> bool) \<Rightarrow> ('u \<Rightarrow> 'r)
    \<Rightarrow> bool \<Rightarrow> bool \<Rightarrow> nat \<Rightarrow> 'u \<Rightarrow> ('r \<times> nat \<times> 'u) option" where
  "unit_exec 0 step valid res busy start n u = None"
| "unit_exec (Suc fuel) step valid res busy start n u =
     (if valid u then Some (res u, Suc n, step start u)
      else unit_exec fuel step valid res True (\<not> busy) (Suc n) (step start u))"

lemma unit_exec_numeral [simp]:
  "unit_exec (numeral k) step valid res busy start n u =
     (if valid u then Some (res u, Suc n, step start u)
      else unit_exec (pred_numeral k) step valid res True (\<not> busy) (Suc n) (step start u))"
  by (simp add: numeral_eq_Suc)

lemma unit_exec_more_fuel:
  "unit_exec fuel step valid res busy start n u = Some r \<Longrightarrow> fuel \<le> fuel' \<Longrightarrow>
   unit_exec fuel' step valid res busy start n u = Some r"
proof (induction fuel arbitrary: fuel' busy start n u)
  case 0
  then show ?case by simp
next
  case (Suc fuel)
  then obtain k where "fuel' = Suc k" "fuel \<le> k" by (cases fuel') auto
  with Suc show ?case by (auto split: if_splits)
qed

text \<open>A program that keeps one unit busy: operations issued one after the other.\<close>

fun unit_exec_list :: "nat \<Rightarrow> ('op \<Rightarrow> bool \<Rightarrow> 'u \<Rightarrow> 'u) \<Rightarrow> ('u \<Rightarrow> bool) \<Rightarrow> ('u \<Rightarrow> 'r)
    \<Rightarrow> 'op list \<Rightarrow> nat \<Rightarrow> 'u \<Rightarrow> ('r list \<times> nat \<times> 'u) option" where
  "unit_exec_list fuel step valid res [] n u = Some ([], n, u)"
| "unit_exec_list fuel step valid res (opn # opns) n u =
     (case unit_exec fuel (step opn) valid res False False n u of
        None \<Rightarrow> None
      | Some (r, n', u') \<Rightarrow>
          (case unit_exec_list fuel step valid res opns n' u' of
             None \<Rightarrow> None
           | Some (rs, n'', u'') \<Rightarrow> Some (r # rs, n'', u'')))"

section \<open>The contract of a unit\<close>

text \<open>
  A unit that is idle, is asked for an operation it supports and is given as many EXEC
  cycles as the operation's latency delivers the specified result in exactly that many
  cycles and is idle again; \<open>view\<close> is the part of its state that survives an operation
  (the memory behind the load/store unit, nothing for the arithmetic units).
\<close>

fun spec_list :: "('op \<Rightarrow> 'm \<Rightarrow> 'r \<times> 'm) \<Rightarrow> 'op list \<Rightarrow> 'm \<Rightarrow> 'r list \<times> 'm" where
  "spec_list spec [] m = ([], m)"
| "spec_list spec (opn # opns) m =
     (let (r, m') = spec opn m; (rs, m'') = spec_list spec opns m' in (r # rs, m''))"

locale exec_unit =
  fixes step :: "'op \<Rightarrow> bool \<Rightarrow> 'u \<Rightarrow> 'u"
    and valid :: "'u \<Rightarrow> bool"
    and res :: "'u \<Rightarrow> 'r"
    and idle :: "'u \<Rightarrow> bool"
    and view :: "'u \<Rightarrow> 'm"
    and supported :: "'op \<Rightarrow> bool"
    and spec :: "'op \<Rightarrow> 'm \<Rightarrow> 'r \<times> 'm"
    and latency :: "'op \<Rightarrow> nat"
  assumes exec_latency: "idle u \<Longrightarrow> supported opn \<Longrightarrow>
    \<exists>u'. unit_exec (latency opn) (step opn) valid res False False n u
           = Some (fst (spec opn (view u)), n + latency opn, u')
         \<and> idle u' \<and> view u' = snd (spec opn (view u))"
begin

lemma exec_enough_fuel:
  assumes "idle u" "supported opn" "latency opn \<le> fuel"
  obtains u' where "unit_exec fuel (step opn) valid res False False n u
        = Some (fst (spec opn (view u)), n + latency opn, u')"
    "idle u'" "view u' = snd (spec opn (view u))"
  using exec_latency [OF assms(1,2)] unit_exec_more_fuel [OF _ assms(3)] by metis

lemma exec_sequence:
  assumes "idle u" "\<forall>opn \<in> set opns. supported opn \<and> latency opn \<le> fuel"
  shows "\<exists>u'. unit_exec_list fuel step valid res opns n u
      = Some (fst (spec_list spec opns (view u)), n + sum_list (map latency opns), u')
    \<and> idle u' \<and> view u' = snd (spec_list spec opns (view u))"
  using assms
proof (induction opns arbitrary: n u)
  case Nil
  then show ?case by simp
next
  case (Cons opn opns)
  then have opn: "supported opn" "latency opn \<le> fuel" by auto
  obtain u1 where u1: "unit_exec fuel (step opn) valid res False False n u
      = Some (fst (spec opn (view u)), n + latency opn, u1)"
    "idle u1" "view u1 = snd (spec opn (view u))"
    by (rule exec_enough_fuel [OF Cons.prems(1) opn])
  from Cons.IH [of u1 "n + latency opn"] u1(2) Cons.prems(2) obtain u2 where
    "unit_exec_list fuel step valid res opns (n + latency opn) u1
       = Some (fst (spec_list spec opns (view u1)),
               n + latency opn + sum_list (map latency opns), u2)"
    "idle u2" "view u2 = snd (spec_list spec opns (view u1))"
    by auto
  with u1 show ?case by (auto simp: split_beta Let_def)
qed

end

end
