(* ===== verification/Vmac_Unit.thy ===== *)
theory Vmac_Unit
  imports Exec_Handshake
begin

text \<open>
  The packed 32-bit multiply-accumulate unit \<open>vmac\<close> (vmac.v) and the handshake with which
  the core drives it from its EXEC state (ucrv32.v).  Nonblocking assignments read the
  state before the clock edge, so one clock edge is one application of \<open>vmac_step\<close>.
\<close>

section \<open>State and clock step\<close>

record vmac_state =
  vm_cycle_counter :: "3 word"
  vm_computing :: bool
  vm_result :: i32
  vm_valid_out :: bool
  vm_mult_results :: "nat \<Rightarrow> i16"

text \<open>\<open>{{8{a0[7]}}, a0}\<close> and its siblings: byte \<open>i\<close> of the operand, sign-extended.\<close>

definition sx_byte :: "nat \<Rightarrow> i32 \<Rightarrow> i16" where
  "sx_byte i a = scast (lane i a :: i8)"

definition vmac_pvadd_result :: "i32 \<Rightarrow> i32 \<Rightarrow> i32" where
  "vmac_pvadd_result a b =
     pack_lanes [ucast (sx_byte 0 a + sx_byte 0 b) :: i8, ucast (sx_byte 1 a + sx_byte 1 b),
                 ucast (sx_byte 2 a + sx_byte 2 b), ucast (sx_byte 3 a + sx_byte 3 b)]"

text \<open>\<open>{m[15] ? 16'hFFFF : 16'h0000, m}\<close>: a product sign-extended to the accumulator width.\<close>

definition sx_product :: "i16 \<Rightarrow> i32" where
  "sx_product m = pack_lanes [m, if bit m 15 then 0xFFFF else 0]"

definition vmac_step :: "bool \<Rightarrow> 2 word \<Rightarrow> i32 \<Rightarrow> i32 \<Rightarrow> bool \<Rightarrow> vmac_state \<Rightarrow> vmac_state" where
  "vmac_step rst_n ctrl a b valid_in s =
    (let prod = (\<lambda>i. sx_byte i a * sx_byte i b);
         m = vm_mult_results s;
         finish = (\<lambda>r. s\<lparr>vm_result := r, vm_valid_out := True, vm_computing := False,
                         vm_cycle_counter := 0\<rparr>)
     in
     if \<not> rst_n then
       s\<lparr>vm_cycle_counter := 0, vm_computing := False, vm_result := 0, vm_valid_out := False\<rparr>
     else if valid_in \<and> \<not> vm_computing s then
       s\<lparr>vm_computing := True, vm_cycle_counter := 0\<rparr>
     else if vm_computing s then
       (if ctrl = 0 then
          s\<lparr>vm_result := vmac_pvadd_result a b, vm_valid_out := True, vm_computing := False\<rparr>
        else if ctrl = 1 then
          (if vm_cycle_counter s = 0 then
             s\<lparr>vm_mult_results := m(0 := prod 0, 1 := prod 1),
               vm_cycle_counter := vm_cycle_counter s + 1\<rparr>
           else if vm_cycle_counter s = 1 then finish (pack_lanes [m 0, m 1])
           else s)
        else if ctrl = 2 then
          (if vm_cycle_counter s = 0 then
             s\<lparr>vm_mult_results := m(0 := prod 0, 1 := prod 1, 2 := prod 2, 3 := prod 3),
               vm_cycle_counter := vm_cycle_counter s + 1\<rparr>
           else if vm_cycle_counter s = 1 then
             finish (sx_product (m 0) + sx_product (m 1) + sx_product (m 2) + sx_product (m 3))
           else s)
        else
          (if vm_cycle_counter s = 0 then
             s\<lparr>vm_mult_results := m(0 := prod 2, 1 := prod 3),
               vm_cycle_counter := vm_cycle_counter s + 1\<rparr>
           else if vm_cycle_counter s = 1 then finish (pack_lanes [m 0, m 1])
           else s))
     else if vm_valid_out s then s\<lparr>vm_valid_out := False\<rparr>
     else s)"

section \<open>Operations and their results\<close>

text \<open>An operation of the unit: the control code and the two operands the core holds.\<close>

type_synonym vmac_op = "2 word \<times> i32 \<times> i32"

definition vmac_op_step :: "vmac_op \<Rightarrow> bool \<Rightarrow> vmac_state \<Rightarrow> vmac_state" where
  "vmac_op_step opn valid_in u = (case opn of (ctrl, a, b) \<Rightarrow> vmac_step True ctrl a b valid_in u)"

definition vmac_idle :: "vmac_state \<Rightarrow> bool" where
  "vmac_idle u \<longleftrightarrow> \<not> vm_computing u \<and> \<not> vm_valid_out u"

definition packed_dot :: "i8 list \<Rightarrow> i8 list \<Rightarrow> i32" where
  "packed_dot xs ys = (\<Sum>(x, y) \<leftarrow> zip xs ys. word_of_int (sint x * sint y))"

definition byte_lanes4 :: "i32 \<Rightarrow> i8 list" where
  "byte_lanes4 a = [lane 0 a, lane 1 a, lane 2 a, lane 3 a]"

text \<open>The result each \<open>ctrl\<close> code is specified to deliver.\<close>

definition vmac_spec :: "2 word \<Rightarrow> i32 \<Rightarrow> i32 \<Rightarrow> i32" where
  "vmac_spec ctrl a b =
    (let x = byte_lanes4 a; y = byte_lanes4 b; mul16 = (\<lambda>i. word_of_int (sint (x ! i) * sint (y ! i)) :: i16)
     in if ctrl = 0 then pack_lanes (map2 (+) x y)
        else if ctrl = 1 then pack_lanes [mul16 0, mul16 1]
        else if ctrl = 2 then packed_dot x y
        else pack_lanes [mul16 2, mul16 3])"

definition vmac_latency :: "vmac_op \<Rightarrow> nat" where
  "vmac_latency opn = (if fst opn = 0 then 4 else 5)"

lemma sx_product_scast: "sx_product m = scast m"
proof (rule bit_word_eqI)
  fix n assume "n < LENGTH(32)"
  then consider "n < 16" | "16 \<le> n" "n - 16 < 16" by fastforce
  then show "bit (sx_product m) n \<longleftrightarrow> bit (scast m :: i32) n"
  proof cases
    case 1
    then have "min 15 n = n" by simp
    with 1 show ?thesis by (simp add: sx_product_def bit_pack_lanes bit_simps)
  next
    case 2
    have ones: "(0xFFFF :: i16) = - 1" by simp
    have "bit (0xFFFF :: i16) (n - 16)" unfolding ones using 2 by simp
    moreover have "\<not> bit m n" using 2 by (auto dest: bit_imp_le_length)
    ultimately show ?thesis
      using 2 by (auto simp: sx_product_def bit_pack_lanes bit_simps)
  qed
qed

lemma sx_byte_product: "sx_byte i a * sx_byte i b = word_of_int (sint (lane i a :: i8) * sint (lane i b :: i8))"
  unfolding sx_byte_def scast_mult ..

lemma sx_product_bytes: "sx_product (sx_byte i a * sx_byte i b) = word_of_int (sint (lane i a :: i8) * sint (lane i b :: i8))"
  unfolding sx_product_scast sx_byte_def scast_eq [of "_ * _"] sint_byte_product ..

lemma ucast_sx_byte_add: "(ucast (sx_byte i a + sx_byte i b) :: i8) = lane i a + lane i b"
  unfolding sx_byte_def scast_add by (subst ucast_word_of_int) (simp_all add: word_of_int_sint_add)

lemmas vmac_run_simps =
  vmac_latency_def vmac_idle_def vmac_step_def vmac_op_step_def Let_def

lemma vmac_exec_latency:
  assumes "vmac_idle u"
  shows "\<exists>u'. unit_exec (vmac_latency (ctrl, a, b)) (vmac_op_step (ctrl, a, b)) vm_valid_out vm_result
      False False n u = Some (vmac_spec ctrl a b, n + vmac_latency (ctrl, a, b), u') \<and> vmac_idle u'"
proof -
  consider "ctrl = 0" | "ctrl = 1" | "ctrl = 2" | "ctrl \<noteq> 0" "ctrl \<noteq> 1" "ctrl \<noteq> 2" by blast
  then show ?thesis
  proof cases
    case 1
    with assms show ?thesis
      by (simp add: vmac_run_simps vmac_spec_def vmac_pvadd_result_def ucast_sx_byte_add
          byte_lanes4_def)
  next
    case 2
    with assms show ?thesis
      by (simp add: vmac_run_simps vmac_spec_def sx_byte_product byte_lanes4_def)
  next
    case 3
    with assms show ?thesis
      by (simp add: vmac_run_simps vmac_spec_def sx_product_bytes packed_dot_def byte_lanes4_def
          add.assoc)
  next
    case 4
    with assms show ?thesis
      by (simp add: vmac_run_simps vmac_spec_def sx_byte_product byte_lanes4_def)
  qed
qed

interpretation vmac: exec_unit vmac_op_step vm_valid_out vm_result vmac_idle "\<lambda>_. ()"
  "\<lambda>_. True" "\<lambda>(ctrl, a, b) m. (vmac_spec ctrl a b, m)" vmac_latency
  by unfold_locales (use vmac_exec_latency in \<open>fastforce split: prod.splits\<close>)

end
