(* ===== verification/Valu_Unit.thy ===== *)
theory Valu_Unit
  imports Exec_Handshake
begin

text \<open>
  The 64-bit vector ALU \<open>valu\<close> (valu.v): VADD, VSUB, VMUL and VMAC on 8 x int8, 4 x int16 or
  2 x int32 lanes, with four multipliers shared over several cycles.
\<close>

section \<open>State and clock step\<close>

record valu_state =
  va_mul_counter :: "3 word"
  va_computing :: bool
  va_result :: i64
  va_valid_out :: bool
  va_mul8 :: "nat \<Rightarrow> i8"
  va_mul16 :: "nat \<Rightarrow> i16"
  va_mul32 :: "nat \<Rightarrow> i32"
  va_mac8_prod :: "nat \<Rightarrow> i16"
  va_mac16_prod :: "nat \<Rightarrow> i32"
  va_mac32_prod :: "nat \<Rightarrow> i64"

text \<open>\<open>vadd_result\<close> and \<open>vsub_result\<close>: every element width computed, selected by \<open>sew\<close>.\<close>

definition vadd_result :: "2 word \<Rightarrow> i64 \<Rightarrow> i64 \<Rightarrow> i64" where
  "vadd_result sew a b =
    (if sew = 0 then pack_lanes (map (\<lambda>i. lane i a + lane i b :: i8) [0..<8])
     else if sew = 1 then pack_lanes (map (\<lambda>i. lane i a + lane i b :: i16) [0..<4])
     else pack_lanes (map (\<lambda>i. lane i a + lane i b :: i32) [0..<2]))"

definition vsub_result :: "2 word \<Rightarrow> i64 \<Rightarrow> i64 \<Rightarrow> i64" where
  "vsub_result sew a b =
    (if sew = 0 then pack_lanes (map (\<lambda>i. lane i a - lane i b :: i8) [0..<8])
     else if sew = 1 then pack_lanes (map (\<lambda>i. lane i a - lane i b :: i16) [0..<4])
     else pack_lanes (map (\<lambda>i. lane i a - lane i b :: i32) [0..<2]))"

text \<open>The summing cycle of VMAC: the products, extended or truncated to 32 bits, below 32 zeros.\<close>

definition vmac_sum8 :: "(nat \<Rightarrow> i16) \<Rightarrow> i64" where
  "vmac_sum8 p = ucast (scast (p 0) + scast (p 1) + scast (p 2) + scast (p 3) + scast (p 4)
     + scast (p 5) + scast (p 6) + scast (p 7) :: i32)"

definition vmac_sum16 :: "(nat \<Rightarrow> i32) \<Rightarrow> i64" where
  "vmac_sum16 p = ucast (p 0 + p 1 + p 2 + p 3)"

definition vmac_sum32 :: "(nat \<Rightarrow> i64) \<Rightarrow> i64" where
  "vmac_sum32 p = ucast (ucast (p 0) + ucast (p 1) :: i32)"

text \<open>The branches of the clocked block while \<open>computing\<close>, one per operation.\<close>

definition valu_finish :: "i64 \<Rightarrow> valu_state \<Rightarrow> valu_state" where
  "valu_finish r s = s\<lparr>va_result := r, va_valid_out := True, va_computing := False, va_mul_counter := 0\<rparr>"

definition valu_vmac_step :: "2 word \<Rightarrow> i64 \<Rightarrow> i64 \<Rightarrow> valu_state \<Rightarrow> valu_state" where
  "valu_vmac_step sew a b s =
    (let c = va_mul_counter s;
         p8 = (\<lambda>i. scast (lane i a :: i8) * scast (lane i b :: i8) :: i16);
         p16 = (\<lambda>i. scast (lane i a :: i16) * scast (lane i b :: i16) :: i32);
         p32 = (\<lambda>i. scast (lane i a :: i32) * scast (lane i b :: i32) :: i64)
     in
     if sew = 0 then
       (if c = 0 then s\<lparr>va_mac8_prod := (va_mac8_prod s)(0 := p8 0, 1 := p8 1, 2 := p8 2, 3 := p8 3),
                        va_mul_counter := c + 1\<rparr>
        else if c = 1 then s\<lparr>va_mac8_prod := (va_mac8_prod s)(4 := p8 4, 5 := p8 5, 6 := p8 6, 7 := p8 7),
                             va_mul_counter := c + 1\<rparr>
        else if c = 2 then valu_finish (vmac_sum8 (va_mac8_prod s)) s
        else s\<lparr>va_mul_counter := 0\<rparr>)
     else if sew = 1 then
       (if c = 0 then s\<lparr>va_mac16_prod := (va_mac16_prod s)(0 := p16 0, 1 := p16 1, 2 := p16 2, 3 := p16 3),
                        va_mul_counter := c + 1\<rparr>
        else if c = 1 then valu_finish (vmac_sum16 (va_mac16_prod s)) s
        else s\<lparr>va_mul_counter := 0\<rparr>)
     else if sew = 2 then
       (if c = 0 then s\<lparr>va_mac32_prod := (va_mac32_prod s)(0 := p32 0, 1 := p32 1),
                        va_mul_counter := c + 1\<rparr>
        else if c = 1 then valu_finish (vmac_sum32 (va_mac32_prod s)) s
        else s\<lparr>va_mul_counter := 0\<rparr>)
     else s\<lparr>va_valid_out := True, va_computing := False\<rparr>)"

definition valu_vmul_step :: "2 word \<Rightarrow> i64 \<Rightarrow> i64 \<Rightarrow> valu_state \<Rightarrow> valu_state" where
  "valu_vmul_step sew a b s =
    (let c = va_mul_counter s;
         p8 = (\<lambda>i. lane i a * lane i b :: i8);
         p16 = (\<lambda>i. lane i a * lane i b :: i16);
         p32 = (\<lambda>i. lane i a * lane i b :: i32)
     in
     if sew = 0 then
       (if c = 0 then s\<lparr>va_mul8 := (va_mul8 s)(0 := p8 0, 1 := p8 1, 2 := p8 2, 3 := p8 3),
                        va_mul_counter := c + 1\<rparr>
        else if c = 1 then s\<lparr>va_mul8 := (va_mul8 s)(4 := p8 4, 5 := p8 5, 6 := p8 6, 7 := p8 7),
                             va_mul_counter := c + 1\<rparr>
        else if c = 2 then valu_finish (pack_lanes (map (va_mul8 s) [0..<8])) s
        else s\<lparr>va_mul_counter := 0\<rparr>)
     else if sew = 1 then
       (if c = 0 then s\<lparr>va_mul16 := (va_mul16 s)(0 := p16 0, 1 := p16 1, 2 := p16 2, 3 := p16 3),
                        va_mul_counter := c + 1\<rparr>
        else if c = 1 then valu_finish (pack_lanes (map (va_mul16 s) [0..<4])) s
        else s\<lparr>va_mul_counter := 0\<rparr>)
     else if sew = 2 then
       (if c = 0 then s\<lparr>va_mul32 := (va_mul32 s)(0 := p32 0, 1 := p32 1),
                        va_mul_counter := c + 1\<rparr>
        else if c = 1 then valu_finish (pack_lanes (map (va_mul32 s) [0..<2])) s
        else s\<lparr>va_mul_counter := 0\<rparr>)
     else s\<lparr>va_valid_out := True, va_computing := False\<rparr>)"

definition valu_step :: "bool \<Rightarrow> 2 word \<Rightarrow> 2 word \<Rightarrow> i64 \<Rightarrow> i64 \<Rightarrow> bool \<Rightarrow> valu_state \<Rightarrow> valu_state" where
  "valu_step rst_n opc sew a b valid_in s =
    (if \<not> rst_n then
       s\<lparr>va_mul_counter := 0, va_computing := False, va_result := 0, va_valid_out := False\<rparr>
     else if valid_in \<and> \<not> va_computing s then
       s\<lparr>va_computing := True, va_mul_counter := 0, va_valid_out := False\<rparr>
     else if va_computing s then
       (if opc = 0 then s\<lparr>va_result := vadd_result sew a b, va_valid_out := True, va_computing := False\<rparr>
        else if opc = 1 then s\<lparr>va_result := vsub_result sew a b, va_valid_out := True, va_computing := False\<rparr>
        else if opc = 3 then valu_vmac_step sew a b s
        else valu_vmul_step sew a b s)
     else if va_valid_out s then s\<lparr>va_valid_out := False\<rparr>
     else s)"

section \<open>Operations and their results\<close>

text \<open>Operation code, element width and the two vector operands the core holds.\<close>

type_synonym valu_op = "2 word \<times> 2 word \<times> i64 \<times> i64"

definition valu_op_step :: "valu_op \<Rightarrow> bool \<Rightarrow> valu_state \<Rightarrow> valu_state" where
  "valu_op_step opn valid_in u =
    (case opn of (opc, sew, a, b) \<Rightarrow> valu_step True opc sew a b valid_in u)"

definition valu_idle :: "valu_state \<Rightarrow> bool" where
  "valu_idle u \<longleftrightarrow> \<not> va_computing u \<and> \<not> va_valid_out u"

text \<open>
  The specified result, lane by lane.  \<open>SEW = 11\<close> is reserved: VADD and VSUB treat it as
  32-bit, VMUL and VMAC finish without a result, so it is not a supported operation there.
\<close>

definition lanewise :: "2 word \<Rightarrow> (int \<Rightarrow> int \<Rightarrow> int) \<Rightarrow> i64 \<Rightarrow> i64 \<Rightarrow> i64" where
  "lanewise sew f a b =
    (if sew = 0 then pack_lanes (map (\<lambda>i. word_of_int (f (sint (lane i a :: i8)) (sint (lane i b :: i8))) :: i8) [0..<8])
     else if sew = 1 then pack_lanes (map (\<lambda>i. word_of_int (f (sint (lane i a :: i16)) (sint (lane i b :: i16))) :: i16) [0..<4])
     else pack_lanes (map (\<lambda>i. word_of_int (f (sint (lane i a :: i32)) (sint (lane i b :: i32))) :: i32) [0..<2]))"

definition lane_dot :: "2 word \<Rightarrow> i64 \<Rightarrow> i64 \<Rightarrow> int" where
  "lane_dot sew a b =
    (if sew = 0 then \<Sum>i \<leftarrow> [0..<8]. sint (lane i a :: i8) * sint (lane i b :: i8)
     else if sew = 1 then \<Sum>i \<leftarrow> [0..<4]. sint (lane i a :: i16) * sint (lane i b :: i16)
     else \<Sum>i \<leftarrow> [0..<2]. sint (lane i a :: i32) * sint (lane i b :: i32))"

definition valu_spec :: "2 word \<Rightarrow> 2 word \<Rightarrow> i64 \<Rightarrow> i64 \<Rightarrow> i64" where
  "valu_spec opc sew a b =
    (if opc = 0 then lanewise sew (+) a b
     else if opc = 1 then lanewise sew (-) a b
     else if opc = 3 then ucast (word_of_int (lane_dot sew a b) :: i32)
     else lanewise sew (*) a b)"

definition valu_supported :: "valu_op \<Rightarrow> bool" where
  "valu_supported opn = (case opn of (opc, sew, a, b) \<Rightarrow> opc = 0 \<or> opc = 1 \<or> sew \<noteq> 3)"

definition valu_latency :: "valu_op \<Rightarrow> nat" where
  "valu_latency opn =
    (case opn of (opc, sew, a, b) \<Rightarrow> if opc = 0 \<or> opc = 1 then 4 else if sew = 0 then 6 else 5)"

section \<open>Correctness\<close>

lemma word_of_int_sint_arith:
  "(word_of_int (sint x - sint y) :: 'a::len word) = x - y"
  "(word_of_int (sint x * sint y) :: 'a::len word) = x * y"
  unfolding of_int_diff of_int_mult by simp_all

lemma vadd_result_lanewise: "vadd_result sew a b = lanewise sew (+) a b"
  unfolding vadd_result_def lanewise_def word_of_int_sint_add ..

lemma vsub_result_lanewise: "vsub_result sew a b = lanewise sew (-) a b"
  unfolding vsub_result_def lanewise_def word_of_int_sint_arith ..

lemma ucast_scast_mult: "(ucast (scast (x :: i32) * scast (y :: i32) :: i64) :: i32) = x * y"
  unfolding scast_mult by (subst ucast_word_of_int) (simp_all add: word_of_int_sint_arith del: of_int_mult)

lemma vmac_sum8_dot:
  "vmac_sum8 p = ucast (word_of_int (lane_dot 0 a b) :: i32)"
  if "\<forall>i<8. p i = scast (lane i a :: i8) * scast (lane i b :: i8)"
  using that by (simp add: vmac_sum8_def lane_dot_def scast_byte_product lane_simps algebra_simps)

lemma vmac_sum16_dot:
  "vmac_sum16 p = ucast (word_of_int (lane_dot 1 a b) :: i32)"
  if "\<forall>i<4. p i = scast (lane i a :: i16) * scast (lane i b :: i16)"
  using that by (simp add: vmac_sum16_def lane_dot_def lane_simps algebra_simps)

lemma vmac_sum32_dot:
  "vmac_sum32 p = ucast (word_of_int (lane_dot 2 a b) :: i32)"
  if "\<forall>i<2. p i = scast (lane i a :: i32) * scast (lane i b :: i32)"
  using that by (simp add: vmac_sum32_def lane_dot_def ucast_scast_mult lane_simps)

lemmas valu_run_simps =
  valu_latency_def valu_idle_def valu_step_def valu_op_step_def valu_finish_def

lemma valu_exec_addsub:
  assumes "valu_idle u" "opc = 0 \<or> opc = 1"
  shows "\<exists>u'. unit_exec (valu_latency (opc, sew, a, b)) (valu_op_step (opc, sew, a, b)) va_valid_out va_result
      False False n u = Some (valu_spec opc sew a b, n + valu_latency (opc, sew, a, b), u') \<and> valu_idle u'"
  using assms
  by (auto simp: valu_run_simps valu_spec_def vadd_result_lanewise vsub_result_lanewise)

lemma valu_exec_vmac:
  assumes "valu_idle u" "sew \<noteq> 3"
  shows "\<exists>u'. unit_exec (valu_latency (3, sew, a, b)) (valu_op_step (3, sew, a, b)) va_valid_out va_result
      False False n u = Some (valu_spec 3 sew a b, n + valu_latency (3, sew, a, b), u') \<and> valu_idle u'"
proof (cases sew rule: word2_cases)
  case 1
  with assms(1) show ?thesis
    by (simp add: valu_run_simps valu_vmac_step_def Let_def valu_spec_def)
      (rule vmac_sum8_dot, simp add: all_less_lanes)
next
  case 2
  with assms(1) show ?thesis
    by (simp add: valu_run_simps valu_vmac_step_def Let_def valu_spec_def)
      (rule vmac_sum16_dot, simp add: all_less_lanes)
next
  case 3
  with assms(1) show ?thesis
    by (simp add: valu_run_simps valu_vmac_step_def Let_def valu_spec_def)
      (rule vmac_sum32_dot, simp add: all_less_lanes)
next
  case 4
  with assms(2) show ?thesis by simp
qed

lemma valu_exec_vmul:
  assumes "valu_idle u" "sew \<noteq> 3"
  shows "\<exists>u'. unit_exec (valu_latency (2, sew, a, b)) (valu_op_step (2, sew, a, b)) va_valid_out va_result
      False False n u = Some (valu_spec 2 sew a b, n + valu_latency (2, sew, a, b), u') \<and> valu_idle u'"
proof (cases sew rule: word2_cases)
  case 4
  with assms(2) show ?thesis by simp
qed (use assms(1) in \<open>simp add: valu_run_simps valu_vmul_step_def Let_def valu_spec_def
       lanewise_def word_of_int_sint_arith lane_simps\<close>)+

lemma valu_exec_latency:
  assumes "valu_idle u" "valu_supported (opc, sew, a, b)"
  shows "\<exists>u'. unit_exec (valu_latency (opc, sew, a, b)) (valu_op_step (opc, sew, a, b)) va_valid_out va_result
      False False n u = Some (valu_spec opc sew a b, n + valu_latency (opc, sew, a, b), u') \<and> valu_idle u'"
proof (cases opc rule: word2_cases)
  case 3
  with assms valu_exec_vmul show ?thesis by (simp add: valu_supported_def)
next
  case 4
  with assms valu_exec_vmac show ?thesis by (simp add: valu_supported_def)
qed (use assms valu_exec_addsub in simp)+

interpretation valu: exec_unit valu_op_step va_valid_out va_result valu_idle "\<lambda>_. ()"
  valu_supported "\<lambda>(opc, sew, a, b) m. (valu_spec opc sew a b, m)" valu_latency
  by unfold_locales (use valu_exec_latency in \<open>fastforce split: prod.splits\<close>)

end
