(* ===== verification/Vlsu_Unit.thy ===== *)
theory Vlsu_Unit
  imports Exec_Handshake
begin

text \<open>
  The vector load/store unit \<open>vlsu\<close> (vlsu.v) in front of the data port of the memory
  \<open>sram\<close> (sram.v): a 64-bit vector moves over the 32-bit bus in two transfers.
\<close>

section \<open>The memory\<close>

record sram_state =
  sr_mem :: "22 word \<Rightarrow> i32"
  sr_dmem_addr_reg :: i32
  sr_dmem_resp_valid_reg :: bool

text \<open>\<open>addr[23:2]\<close>: the word index; the byte offset and the high address byte are dropped.\<close>

definition word_index :: "i32 \<Rightarrow> 22 word" where
  "word_index addr = ucast (drop_bit 2 addr)"

definition sram_rdata :: "sram_state \<Rightarrow> i32" where
  "sram_rdata m = sr_mem m (word_index (sr_dmem_addr_reg m))"

text \<open>The four byte-enabled writes of one clock edge.\<close>

definition masked_write :: "4 word \<Rightarrow> i32 \<Rightarrow> i32 \<Rightarrow> i32" where
  "masked_write wmask wdata old =
     pack_lanes (map (\<lambda>i. if bit wmask i then lane i wdata else lane i old :: i8) [0..<4])"

definition sram_step :: "i32 \<Rightarrow> i32 \<Rightarrow> 4 word \<Rightarrow> bool \<Rightarrow> bool \<Rightarrow> sram_state \<Rightarrow> sram_state" where
  "sram_step addr wdata wmask write valid m =
     m\<lparr>sr_dmem_addr_reg := (if valid \<and> \<not> write then addr else sr_dmem_addr_reg m),
       sr_dmem_resp_valid_reg := (valid \<and> \<not> write),
       sr_mem := (if valid \<and> write
          then (sr_mem m)(word_index addr := masked_write wmask wdata (sr_mem m (word_index addr)))
          else sr_mem m)\<rparr>"

section \<open>The load/store state machine\<close>

datatype vlsu_fsm = IDLE | REQ_WORD0 | WAIT_WORD0 | REQ_WORD1 | WAIT_WORD1 | COMPLETE

record vlsu_state =
  vl_state :: vlsu_fsm
  vl_addr_reg :: i32
  vl_data_reg :: i64
  vl_is_store_reg :: bool
  vl_done :: bool
  vl_load_data :: i64
  vl_mem_addr :: i32
  vl_mem_wdata :: i32
  vl_mem_wmask :: "4 word"
  vl_mem_write :: bool
  vl_mem_valid :: bool

definition set_low :: "i32 \<Rightarrow> i64 \<Rightarrow> i64" where
  "set_low w d = pack_lanes [w, lane 1 d]"

definition set_high :: "i32 \<Rightarrow> i64 \<Rightarrow> i64" where
  "set_high w d = pack_lanes [lane 0 d, w]"

definition vlsu_step :: "bool \<Rightarrow> bool \<Rightarrow> bool \<Rightarrow> i32 \<Rightarrow> i64 \<Rightarrow> bool \<Rightarrow> bool \<Rightarrow> i32 \<Rightarrow> vlsu_state \<Rightarrow> vlsu_state" where
  "vlsu_step rst_n start is_store base_addr store_data mem_ready resp_valid resp_rdata s =
    (if \<not> rst_n then
       s\<lparr>vl_state := IDLE, vl_done := False, vl_load_data := 0, vl_mem_addr := 0, vl_mem_wdata := 0,
         vl_mem_wmask := 0, vl_mem_write := False, vl_mem_valid := False, vl_addr_reg := 0,
         vl_data_reg := 0, vl_is_store_reg := False\<rparr>
     else case vl_state s of
       IDLE \<Rightarrow>
         (if start
          then s\<lparr>vl_done := False, vl_addr_reg := base_addr, vl_data_reg := store_data,
                 vl_is_store_reg := is_store, vl_state := REQ_WORD0\<rparr>
          else s\<lparr>vl_done := False\<rparr>)
     | REQ_WORD0 \<Rightarrow>
         s\<lparr>vl_mem_addr := vl_addr_reg s, vl_mem_valid := True, vl_mem_write := vl_is_store_reg s,
           vl_mem_wdata := (if vl_is_store_reg s then lane 0 (vl_data_reg s) else 0),
           vl_mem_wmask := (if vl_is_store_reg s then 0xF else 0),
           vl_state := WAIT_WORD0\<rparr>
     | WAIT_WORD0 \<Rightarrow>
         (if mem_ready then
            (if vl_is_store_reg s then s\<lparr>vl_mem_valid := False, vl_state := REQ_WORD1\<rparr>
             else if resp_valid
             then s\<lparr>vl_mem_valid := False, vl_data_reg := set_low resp_rdata (vl_data_reg s),
                    vl_state := REQ_WORD1\<rparr>
             else s\<lparr>vl_mem_valid := False\<rparr>)
          else if \<not> vl_is_store_reg s \<and> resp_valid
          then s\<lparr>vl_data_reg := set_low resp_rdata (vl_data_reg s)\<rparr>
          else s)
     | REQ_WORD1 \<Rightarrow>
         s\<lparr>vl_mem_addr := vl_addr_reg s + 4, vl_mem_valid := True, vl_mem_write := vl_is_store_reg s,
           vl_mem_wdata := (if vl_is_store_reg s then lane 1 (vl_data_reg s) else 0),
           vl_mem_wmask := (if vl_is_store_reg s then 0xF else 0),
           vl_state := WAIT_WORD1\<rparr>
     | WAIT_WORD1 \<Rightarrow>
         (if mem_ready then
            (if vl_is_store_reg s then s\<lparr>vl_mem_valid := False, vl_state := COMPLETE\<rparr>
             else if resp_valid
             then s\<lparr>vl_mem_valid := False, vl_data_reg := set_high resp_rdata (vl_data_reg s),
                    vl_state := COMPLETE\<rparr>
             else s\<lparr>vl_mem_valid := False\<rparr>)
          else if \<not> vl_is_store_reg s \<and> resp_valid
          then s\<lparr>vl_data_reg := set_high resp_rdata (vl_data_reg s)\<rparr>
          else s)
     | COMPLETE \<Rightarrow>
         s\<lparr>vl_load_data := (if vl_is_store_reg s then vl_load_data s else vl_data_reg s),
           vl_done := True, vl_state := IDLE\<rparr>)"

section \<open>Unit and memory together\<close>

text \<open>
  An operation: store or load, the base address and the vector to store.  Outside the UART
  page \<open>top.v\<close> ties \<open>dmem_req_ready\<close> to 1 and routes requests and responses to the memory.
\<close>

type_synonym vlsu_op = "bool \<times> i32 \<times> i64"

definition vlsu_op_step :: "vlsu_op \<Rightarrow> bool \<Rightarrow> vlsu_state \<times> sram_state \<Rightarrow> vlsu_state \<times> sram_state" where
  "vlsu_op_step opn start vm =
    (case opn of (is_store, base, d) \<Rightarrow> case vm of (v, m) \<Rightarrow>
      (vlsu_step True start is_store base d True (sr_dmem_resp_valid_reg m) (sram_rdata m) v,
       sram_step (vl_mem_addr v) (vl_mem_wdata v) (vl_mem_wmask v) (vl_mem_write v) (vl_mem_valid v) m))"

definition vlsu_idle :: "vlsu_state \<times> sram_state \<Rightarrow> bool" where
  "vlsu_idle vm \<longleftrightarrow> vl_state (fst vm) = IDLE \<and> \<not> vl_done (fst vm) \<and> \<not> vl_mem_valid (fst vm)
     \<and> \<not> sr_dmem_resp_valid_reg (snd vm)"

definition vlsu_view :: "vlsu_state \<times> sram_state \<Rightarrow> i64 \<times> (22 word \<Rightarrow> i32)" where
  "vlsu_view vm = (vl_load_data (fst vm), sr_mem (snd vm))"

text \<open>The 64-bit value at an address: two consecutive words, the lower address in the low half.\<close>

definition mem_load64 :: "(22 word \<Rightarrow> i32) \<Rightarrow> i32 \<Rightarrow> i64" where
  "mem_load64 mem a = pack_lanes [mem (word_index a), mem (word_index (a + 4))]"

definition mem_store64 :: "i32 \<Rightarrow> i64 \<Rightarrow> (22 word \<Rightarrow> i32) \<Rightarrow> (22 word \<Rightarrow> i32)" where
  "mem_store64 a d mem = mem(word_index a := lane 0 d, word_index (a + 4) := lane 1 d)"

definition vlsu_spec :: "vlsu_op \<Rightarrow> i64 \<times> (22 word \<Rightarrow> i32) \<Rightarrow> i64 \<times> (i64 \<times> (22 word \<Rightarrow> i32))" where
  "vlsu_spec opn lm = (case opn of (is_store, base, d) \<Rightarrow> case lm of (ld, mem) \<Rightarrow>
     if is_store then (ld, (ld, mem_store64 base d mem))
     else (mem_load64 mem base, (mem_load64 mem base, mem)))"

definition vlsu_latency :: "vlsu_op \<Rightarrow> nat" where
  "vlsu_latency opn = (if fst opn then 8 else 10)"

section \<open>Correctness\<close>

lemma masked_write_full: "masked_write 0xF w old = w"
proof -
  have "masked_write 0xF w old = pack_lanes (map (\<lambda>i. lane i w :: i8) [0..<4])"
    by (simp add: masked_write_def lane_simps)
  also have "\<dots> = w" by (rule pack_lanes_of_lanes) simp
  finally show ?thesis .
qed

lemma set_high_low: "set_high w1 (set_low w0 d) = pack_lanes [w0, w1]"
  by (simp add: set_high_def set_low_def lane_pack_lanes del: pack_lanes.simps)

lemmas vlsu_run_simps =
  vlsu_latency_def vlsu_idle_def vlsu_view_def vlsu_spec_def vlsu_op_step_def vlsu_step_def
  sram_step_def sram_rdata_def set_high_low masked_write_full mem_load64_def mem_store64_def

lemma vlsu_exec_latency:
  assumes "vlsu_idle u"
  shows "\<exists>u'. unit_exec (vlsu_latency opn) (vlsu_op_step opn) (vl_done \<circ> fst) (vl_load_data \<circ> fst) False False n u
      = Some (fst (vlsu_spec opn (vlsu_view u)), n + vlsu_latency opn, u')
      \<and> vlsu_idle u' \<and> vlsu_view u' = snd (vlsu_spec opn (vlsu_view u))"
proof -
  obtain v m is_store base d where "u = (v, m)" "opn = (is_store, base, d)"
    by (cases u; cases opn) auto
  with assms show ?thesis
    by (cases is_store) (simp_all add: vlsu_run_simps del: pack_lanes.simps)
qed

interpretation vlsu: exec_unit vlsu_op_step "vl_done \<circ> fst" "vl_load_data \<circ> fst" vlsu_idle vlsu_view
  "\<lambda>_. True" vlsu_spec vlsu_latency
  by unfold_locales (rule vlsu_exec_latency)

text \<open>A vector stored and loaded back at the same word-aligned address is unchanged.\<close>

lemma word_index_int: "word_index a = word_of_int (drop_bit 2 (uint a))"
  unfolding word_index_def by (rule bit_word_eqI) (simp add: bit_simps)

lemma word_index_next: "word_index (a + 4) = word_index a + 1"
proof -
  have "uint (a + 4) = take_bit 32 (uint a + 4)" by (simp add: uint_word_ariths take_bit_eq_mod)
  then have "drop_bit 2 (uint (a + 4)) = take_bit 30 (drop_bit 2 (uint a + 4))"
    by (simp add: drop_bit_take_bit)
  also have "drop_bit 2 (uint a + 4) = drop_bit 2 (uint a) + 1"
    by (simp add: drop_bit_eq_div)
  finally have "take_bit 22 (drop_bit 2 (uint (a + 4))) = take_bit 22 (drop_bit 2 (uint a) + 1)"
    by simp
  then have "(word_of_int (drop_bit 2 (uint (a + 4))) :: 22 word) = word_of_int (drop_bit 2 (uint a) + 1)"
    by (simp add: word_of_int_eq_iff del: of_int_add)
  then show ?thesis unfolding word_index_int by simp
qed

lemma mem_load_store64: "mem_load64 (mem_store64 a d mem) a = d"
proof -
  have "mem_load64 (mem_store64 a d mem) a = pack_lanes (map (\<lambda>i. lane i d :: i32) [0..<2])"
    by (simp add: mem_load64_def mem_store64_def word_index_next lane_simps del: pack_lanes.simps)
  also have "\<dots> = d" by (rule pack_lanes_of_lanes) simp
  finally show ?thesis .
qed

end
