(* ===== verification/Decoder.thy ===== *)
theory Decoder
  imports Prelude
begin

text \<open>
  The combined decoder and control unit \<open>decoder_control\<close> (decoder_control.v): the fields of
  an instruction word, its immediate, and the control signals of the datapath.  A signal that
  the source drives with \<open>x\<close> (unknown) in some branch is an option, with \<open>None\<close> for \<open>x\<close>.
\<close>

section \<open>Fields\<close>

text \<open>The part-select \<open>insn[lo + w - 1 : lo]\<close>, with \<open>w\<close> the width of the result type.\<close>

definition field :: "nat \<Rightarrow> i32 \<Rightarrow> 'a::len word" where
  "field lo insn = ucast (drop_bit lo insn)"

definition opcode_of :: "i32 \<Rightarrow> 7 word" where "opcode_of insn = field 0 insn"
definition funct3_of :: "i32 \<Rightarrow> 3 word" where "funct3_of insn = field 12 insn"
definition funct7_of :: "i32 \<Rightarrow> 7 word" where "funct7_of insn = field 25 insn"

definition vop_of :: "i32 \<Rightarrow> 5 word" where "vop_of insn = field 25 insn"
definition sew_of :: "i32 \<Rightarrow> 2 word" where "sew_of insn = field 30 insn"

section \<open>Instruction types\<close>

definition is_r_type :: "i32 \<Rightarrow> bool" where "is_r_type insn \<longleftrightarrow> opcode_of insn = 0b0110011"
definition is_i_type :: "i32 \<Rightarrow> bool" where
  "is_i_type insn \<longleftrightarrow> opcode_of insn = 0b0010011 \<or> opcode_of insn = 0b0000011 \<or>
     opcode_of insn = 0b1100111 \<or> opcode_of insn = 0b1110011"
definition is_s_type :: "i32 \<Rightarrow> bool" where "is_s_type insn \<longleftrightarrow> opcode_of insn = 0b0100011"
definition is_b_type :: "i32 \<Rightarrow> bool" where "is_b_type insn \<longleftrightarrow> opcode_of insn = 0b1100011"
definition is_u_type :: "i32 \<Rightarrow> bool" where
  "is_u_type insn \<longleftrightarrow> opcode_of insn = 0b0110111 \<or> opcode_of insn = 0b0010111"
definition is_j_type :: "i32 \<Rightarrow> bool" where "is_j_type insn \<longleftrightarrow> opcode_of insn = 0b1101111"
definition is_vmac_type :: "i32 \<Rightarrow> bool" where
  "is_vmac_type insn \<longleftrightarrow> opcode_of insn = 0b1011011 \<and> funct3_of insn = 0b001"
definition is_rdwrctr_type :: "i32 \<Rightarrow> bool" where
  "is_rdwrctr_type insn \<longleftrightarrow> opcode_of insn = 0b1011011 \<and> funct3_of insn = 0b000"
definition is_vec_type :: "i32 \<Rightarrow> bool" where
  "is_vec_type insn \<longleftrightarrow> opcode_of insn = 0b1011011 \<and> funct3_of insn = 0b010"

text \<open>Vector operation codes, \<open>funct7[4:0]\<close>.\<close>

definition VOP_VADD :: "5 word" where "VOP_VADD = 0b00000"
definition VOP_VSUB :: "5 word" where "VOP_VSUB = 0b00001"
definition VOP_VMUL :: "5 word" where "VOP_VMUL = 0b00010"
definition VOP_VMAC :: "5 word" where "VOP_VMAC = 0b00011"
definition VOP_VLD :: "5 word" where "VOP_VLD = 0b00100"
definition VOP_VST :: "5 word" where "VOP_VST = 0b00101"
definition VOP_VMOV_S2V :: "5 word" where "VOP_VMOV_S2V = 0b01000"
definition VOP_VMOV_V2S :: "5 word" where "VOP_VMOV_V2S = 0b01001"

lemmas vop_defs = VOP_VADD_def VOP_VSUB_def VOP_VMUL_def VOP_VMAC_def VOP_VLD_def VOP_VST_def
  VOP_VMOV_S2V_def VOP_VMOV_V2S_def

section \<open>Immediates\<close>

text \<open>\<open>{{n{insn[31]}}, \<dots>}\<close> replicates the sign bit: a sign extension of the field that follows.\<close>

definition imm_i :: "i32 \<Rightarrow> i32" where
  "imm_i insn = scast (field 20 insn :: 12 word)"
definition imm_s :: "i32 \<Rightarrow> i32" where
  "imm_s insn = scast (word_cat (field 25 insn :: 7 word) (field 7 insn :: 5 word) :: 12 word)"
definition imm_b :: "i32 \<Rightarrow> i32" where
  "imm_b insn = scast (word_cat (field 31 insn :: 1 word) (word_cat (field 7 insn :: 1 word)
     (word_cat (field 25 insn :: 6 word) (word_cat (field 8 insn :: 4 word) (0 :: 1 word)
       :: 5 word) :: 11 word) :: 12 word) :: 13 word)"
definition imm_u :: "i32 \<Rightarrow> i32" where
  "imm_u insn = word_cat (field 12 insn :: 20 word) (0 :: 12 word)"
definition imm_j :: "i32 \<Rightarrow> i32" where
  "imm_j insn = scast (word_cat (field 31 insn :: 1 word) (word_cat (field 12 insn :: 8 word)
     (word_cat (field 20 insn :: 1 word) (word_cat (field 21 insn :: 10 word) (0 :: 1 word)
       :: 11 word) :: 12 word) :: 20 word) :: 21 word)"

definition dec_imm :: "i32 \<Rightarrow> i32" where
  "dec_imm insn =
    (if is_i_type insn then imm_i insn else if is_s_type insn then imm_s insn
     else if is_b_type insn then imm_b insn else if is_u_type insn then imm_u insn
     else if is_j_type insn then imm_j insn else 0)"

section \<open>ALU and vector control\<close>

definition dec_alu_ctrl :: "i32 \<Rightarrow> 4 word option" where
  "dec_alu_ctrl insn =
    (let f3 = funct3_of insn; f7 = funct7_of insn in
     if is_r_type insn then
       (if (f7, f3) = (0b0000000, 0b000) then Some 0b0000
        else if (f7, f3) = (0b0100000, 0b000) then Some 0b0001
        else if (f7, f3) = (0b0000000, 0b111) then Some 0b0010
        else if (f7, f3) = (0b0000000, 0b110) then Some 0b0011
        else if (f7, f3) = (0b0000000, 0b100) then Some 0b0100
        else if (f7, f3) = (0b0000000, 0b001) then Some 0b0101
        else if (f7, f3) = (0b0000000, 0b101) then Some 0b0110
        else if (f7, f3) = (0b0100000, 0b101) then Some 0b0111
        else if (f7, f3) = (0b0000000, 0b010) then Some 0b1000
        else if (f7, f3) = (0b0000000, 0b011) then Some 0b1001
        else None)
     else if is_i_type insn \<and> opcode_of insn = 0b0010011 then
       (if f3 = 0b000 then Some 0b0000 else if f3 = 0b111 then Some 0b0010
        else if f3 = 0b110 then Some 0b0011 else if f3 = 0b100 then Some 0b0100
        else if f3 = 0b010 then Some 0b1000 else if f3 = 0b011 then Some 0b1001
        else if f3 = 0b001 then Some 0b0101
        else if f7 = 0b0000000 then Some 0b0110
        else if f7 = 0b0100000 then Some 0b0111 else None)
     else if is_b_type insn then
       (if f3 = 0b000 \<or> f3 = 0b001 then Some 0b0001
        else if f3 = 0b100 \<or> f3 = 0b101 then Some 0b1000
        else if f3 = 0b110 \<or> f3 = 0b111 then Some 0b1001 else None)
     else if is_vmac_type insn \<or> is_vec_type insn then None
     else Some 0b0000)"

definition dec_vec_sew :: "i32 \<Rightarrow> 2 word" where
  "dec_vec_sew insn = (if is_vec_type insn then sew_of insn else 0)"

definition dec_vec_op :: "i32 \<Rightarrow> 3 word" where
  "dec_vec_op insn =
    (if is_vec_type insn then
       (if vop_of insn = VOP_VADD then 0b000 else if vop_of insn = VOP_VSUB then 0b001
        else if vop_of insn = VOP_VMUL then 0b010 else if vop_of insn = VOP_VMAC then 0b011
        else if vop_of insn = VOP_VLD then 0b100 else if vop_of insn = VOP_VST then 0b101
        else if vop_of insn = VOP_VMOV_S2V then 0b110 else if vop_of insn = VOP_VMOV_V2S then 0b111
        else 0b000)
     else 0b000)"

definition dec_mem_mask :: "i32 \<Rightarrow> i32" where
  "dec_mem_mask insn =
    (let f3 = funct3_of insn in
     if f3 = 0b000 then 0x000000FF else if f3 = 0b001 then 0x0000FFFF
     else if f3 = 0b010 then 0xFFFFFFFF else if f3 = 0b100 then 0x000000FF
     else if f3 = 0b101 then 0x0000FFFF else 0)"

definition dec_vmac_ctrl :: "i32 \<Rightarrow> 2 word option" where
  "dec_vmac_ctrl insn =
    (if is_vmac_type insn then
       (if funct7_of insn = 0b0000000 then Some 0b00 else if funct7_of insn = 0b0000001 then Some 0b01
        else if funct7_of insn = 0b0000010 then Some 0b10 else if funct7_of insn = 0b0000011 then Some 0b11
        else None)
     else Some 0b00)"

section \<open>All outputs\<close>

record decoded =
  d_rd :: "5 word"
  d_rs1 :: "5 word"
  d_rs2 :: "5 word"
  d_imm :: i32
  d_alu_ctrl :: "4 word option"
  d_alu_src2_sel :: bool
  d_mem_write :: bool
  d_mem_read :: bool
  d_wb_from_mem :: bool
  d_mem_mask :: i32
  d_mem_sign_extend :: bool
  d_is_branch :: bool
  d_branch_if_set :: bool
  d_is_branch_compare :: bool
  d_is_jal :: bool
  d_is_jalr :: bool
  d_is_auipc :: bool
  d_is_lui :: bool
  d_reg_write :: bool
  d_ebreak_hit :: bool
  d_is_vmac :: bool
  d_vmac_ctrl :: "2 word option"
  d_is_rdwrctr :: bool
  d_rdwrctr_wen :: bool
  d_rdwrctr_ctr_id :: "2 word"
  d_is_vec_op :: bool
  d_vec_op :: "3 word"
  d_vec_sew :: "2 word"
  d_is_vec_load :: bool
  d_is_vec_store :: bool
  d_vec_reg_write :: bool
  d_is_vec_vmac :: bool

definition decoder_control :: "i32 \<Rightarrow> decoded" where
  "decoder_control insn =
    (let mem_read = (is_i_type insn \<and> opcode_of insn = 0b0000011);
         is_vec_vmac = (is_vec_type insn \<and> vop_of insn = VOP_VMAC)
     in \<lparr>d_rd = field 7 insn,
         d_rs1 = (if is_u_type insn then 0 else field 15 insn),
         d_rs2 = field 20 insn,
         d_imm = dec_imm insn,
         d_alu_ctrl = dec_alu_ctrl insn,
         d_alu_src2_sel = (is_i_type insn \<or> is_s_type insn \<or> is_u_type insn),
         d_mem_write = is_s_type insn,
         d_mem_read = mem_read,
         d_wb_from_mem = mem_read,
         d_mem_mask = dec_mem_mask insn,
         d_mem_sign_extend = (mem_read \<and> \<not> bit (funct3_of insn) 2),
         d_is_branch = is_b_type insn,
         d_branch_if_set = bit (funct3_of insn) 0,
         d_is_branch_compare = (is_b_type insn \<and> bit (funct3_of insn) 2),
         d_is_jal = is_j_type insn,
         d_is_jalr = (is_i_type insn \<and> opcode_of insn = 0b1100111),
         d_is_auipc = (is_u_type insn \<and> opcode_of insn = 0b0010111),
         d_is_lui = (is_u_type insn \<and> opcode_of insn = 0b0110111),
         d_reg_write = ((\<not> is_b_type insn \<and> \<not> is_s_type insn \<and> \<not> is_vec_type insn)
           \<or> is_vmac_type insn \<or> (is_rdwrctr_type insn \<and> \<not> bit insn 31) \<or> is_vec_vmac),
         d_ebreak_hit = (is_i_type insn \<and> opcode_of insn = 0b1110011 \<and> funct3_of insn = 0b000),
         d_is_vmac = is_vmac_type insn,
         d_vmac_ctrl = dec_vmac_ctrl insn,
         d_is_rdwrctr = is_rdwrctr_type insn,
         d_rdwrctr_wen = (is_rdwrctr_type insn \<and> bit insn 31),
         d_rdwrctr_ctr_id = field 20 insn,
         d_is_vec_op = is_vec_type insn,
         d_vec_op = dec_vec_op insn,
         d_vec_sew = dec_vec_sew insn,
         d_is_vec_load = (is_vec_type insn \<and> vop_of insn = VOP_VLD),
         d_is_vec_store = (is_vec_type insn \<and> vop_of insn = VOP_VST),
         d_vec_reg_write = (is_vec_type insn \<and>
            (vop_of insn = VOP_VADD \<or> vop_of insn = VOP_VSUB \<or> vop_of insn = VOP_VMUL
             \<or> vop_of insn = VOP_VLD \<or> vop_of insn = VOP_VMOV_S2V)),
         d_is_vec_vmac = is_vec_vmac\<rparr>)"

lemmas type_defs = is_r_type_def is_i_type_def is_s_type_def is_b_type_def is_u_type_def
  is_j_type_def is_vmac_type_def is_rdwrctr_type_def is_vec_type_def

lemmas field_defs = opcode_of_def funct3_of_def funct7_of_def vop_of_def sew_of_def field_def

lemma bit_field: "bit (field lo insn :: 'a::len word) n \<longleftrightarrow> n < LENGTH('a) \<and> bit insn (lo + n)"
  by (simp add: field_def bit_simps)

end
