(* ===== verification/Simd_Core.thy ===== *)
theory Simd_Core
  imports Vmac_Unit Valu_Unit Vlsu_Unit Decoder
begin

text \<open>
  The SIMD side of the core (ucrv32.v): the vector register file (vreg_file.v), the three
  multi-cycle units and the part of DECODE, EXEC and WB that runs a custom-2 instruction on
  them; the architectural effect of such an instruction; and the proof that the core
  implements it.
\<close>

section \<open>Vector register file\<close>

type_synonym vregs = "5 word \<Rightarrow> i64"

definition vrf_read :: "vregs \<Rightarrow> 5 word \<Rightarrow> i64" where
  "vrf_read vr r = (if r \<noteq> 0 then vr r else 0)"

definition vrf_write :: "bool \<Rightarrow> 5 word \<Rightarrow> i64 \<Rightarrow> vregs \<Rightarrow> vregs" where
  "vrf_write wen vd d vr = (if wen \<and> vd \<noteq> 0 then vr(vd := d) else vr)"

lemma vrf_read_write:
  "vrf_read (vrf_write wen vd d vr) r = (if wen \<and> vd \<noteq> 0 \<and> r = vd then d else vrf_read vr r)"
  by (auto simp: vrf_read_def vrf_write_def)

section \<open>Running one instruction on the units\<close>

record simd_state =
  ss_vregs :: vregs
  ss_vmac :: vmac_state
  ss_valu :: valu_state
  ss_vlsu :: vlsu_state
  ss_sram :: sram_state

text \<open>
  \<open>simd_exec fuel insn rs1 rs2 s\<close>: DECODE reads the two scalar operands \<open>rs1\<close>, \<open>rs2\<close> and the
  two vector operands; EXEC drives the unit the decoder selects until it reports completion;
  WB writes the vector register (\<open>vec_reg_write_reg\<close>) or delivers the scalar result
  (\<open>alu_out_reg\<close>, when \<open>reg_write_reg\<close>).  The value is the scalar written to \<open>rd\<close>, if any,
  the number of EXEC cycles and the new state; \<open>None\<close> means that the instruction is not one
  of the SIMD units', that the unit's control code is \<open>x\<close>, or that \<open>fuel\<close> EXEC cycles were
  not enough.  A unit that is not selected sees no start and holds its state.
\<close>

definition simd_exec :: "nat \<Rightarrow> i32 \<Rightarrow> i32 \<Rightarrow> i32 \<Rightarrow> simd_state \<Rightarrow> (i32 option \<times> nat \<times> simd_state) option" where
  "simd_exec fuel insn rs1 rs2 s =
    (let d = decoder_control insn;
         vs1 = vrf_read (ss_vregs s) (d_rs1 d);
         vs2 = vrf_read (ss_vregs s) (d_rs2 d)
     in
     if d_is_vec_op d then
       (if d_is_vec_load d \<or> d_is_vec_store d then
          (case unit_exec fuel (vlsu_op_step (d_is_vec_store d, rs1, vs2)) (vl_done \<circ> fst)
                  (vl_load_data \<circ> fst) False False 0 (ss_vlsu s, ss_sram s) of
             None \<Rightarrow> None
           | Some (r, n, vl, sr) \<Rightarrow>
               Some (None, n, s\<lparr>ss_vlsu := vl, ss_sram := sr,
                 ss_vregs := vrf_write (d_vec_reg_write d) (d_rd d) r (ss_vregs s)\<rparr>))
        else
          (case unit_exec fuel (valu_op_step (ucast (d_vec_op d), d_vec_sew d, vs1, vs2))
                  va_valid_out va_result False False 0 (ss_valu s) of
             None \<Rightarrow> None
           | Some (r, n, va) \<Rightarrow>
               Some (if d_is_vec_vmac d then Some (lane 0 r) else None, n,
                 s\<lparr>ss_valu := va,
                   ss_vregs := vrf_write (d_vec_reg_write d) (d_rd d) r (ss_vregs s)\<rparr>)))
     else if d_is_vmac d then
       (case d_vmac_ctrl d of
          None \<Rightarrow> None
        | Some ctrl \<Rightarrow>
            (case unit_exec fuel (vmac_op_step (ctrl, rs1, rs2)) vm_valid_out vm_result
                    False False 0 (ss_vmac s) of
               None \<Rightarrow> None
             | Some (r, n, vm) \<Rightarrow> Some (Some r, n, s\<lparr>ss_vmac := vm\<rparr>)))
     else None)"

text \<open>A straight-line sequence of SIMD instructions, each with its scalar operands.\<close>

fun simd_run :: "nat \<Rightarrow> (i32 \<times> i32 \<times> i32) list \<Rightarrow> simd_state \<Rightarrow> (i32 option list \<times> nat \<times> simd_state) option" where
  "simd_run fuel [] s = Some ([], 0, s)"
| "simd_run fuel ((insn, rs1, rs2) # prog) s =
     (case simd_exec fuel insn rs1 rs2 s of
        None \<Rightarrow> None
      | Some (r, n, s') \<Rightarrow>
          (case simd_run fuel prog s' of
             None \<Rightarrow> None
           | Some (rs, n', s'') \<Rightarrow> Some (r # rs, n + n', s'')))"

definition simd_idle :: "simd_state \<Rightarrow> bool" where
  "simd_idle s \<longleftrightarrow> vmac_idle (ss_vmac s) \<and> valu_idle (ss_valu s) \<and> vlsu_idle (ss_vlsu s, ss_sram s)"

text \<open>A unit that is idle and not started holds its state over a clock edge.\<close>

lemma idle_units_hold:
  "vmac_idle u \<Longrightarrow> vmac_op_step o1 False u = u"
  "valu_idle v \<Longrightarrow> valu_op_step o2 False v = v"
  by (auto simp: vmac_run_simps valu_run_simps split: prod.splits)

section \<open>The architectural effect\<close>

type_synonym mem_words = "22 word \<Rightarrow> i32"

definition simd_supported :: "i32 \<Rightarrow> bool" where
  "simd_supported insn =
    (let d = decoder_control insn in
     if d_is_vec_op d then
       d_is_vec_load d \<or> d_is_vec_store d \<or> valu_supported (ucast (d_vec_op d), d_vec_sew d, 0, 0)
     else d_is_vmac d \<and> d_vmac_ctrl d \<noteq> None)"

text \<open>
  What a supported instruction does to the scalar destination, the vector registers and the
  memory, and how many EXEC cycles it takes.
\<close>

definition simd_spec :: "i32 \<Rightarrow> i32 \<Rightarrow> i32 \<Rightarrow> vregs \<Rightarrow> mem_words \<Rightarrow> i32 option \<times> vregs \<times> mem_words" where
  "simd_spec insn rs1 rs2 vr mem =
    (let d = decoder_control insn; vs1 = vrf_read vr (d_rs1 d); vs2 = vrf_read vr (d_rs2 d) in
     if d_is_vec_op d then
       (if d_is_vec_store d then (None, vr, mem_store64 rs1 vs2 mem)
        else if d_is_vec_load d then
          (None, vrf_write (d_vec_reg_write d) (d_rd d) (mem_load64 mem rs1) vr, mem)
        else let r = valu_spec (ucast (d_vec_op d)) (d_vec_sew d) vs1 vs2 in
          (if d_is_vec_vmac d then Some (lane 0 r) else None,
           vrf_write (d_vec_reg_write d) (d_rd d) r vr, mem))
     else case d_vmac_ctrl d of
            None \<Rightarrow> (None, vr, mem)
          | Some ctrl \<Rightarrow> (Some (vmac_spec ctrl rs1 rs2), vr, mem))"

fun simd_spec_run :: "(i32 \<times> i32 \<times> i32) list \<Rightarrow> vregs \<Rightarrow> mem_words \<Rightarrow> i32 option list \<times> vregs \<times> mem_words" where
  "simd_spec_run [] vr mem = ([], vr, mem)"
| "simd_spec_run ((insn, rs1, rs2) # prog) vr mem =
     (case simd_spec insn rs1 rs2 vr mem of (r, vr', mem') \<Rightarrow>
        case simd_spec_run prog vr' mem' of (rs, vm) \<Rightarrow> (r # rs, vm))"

definition simd_latency :: "i32 \<Rightarrow> nat" where
  "simd_latency insn =
    (let d = decoder_control insn in
     if d_is_vec_op d then
       (if d_is_vec_load d \<or> d_is_vec_store d then vlsu_latency (d_is_vec_store d, 0, 0)
        else valu_latency (ucast (d_vec_op d), d_vec_sew d, 0, 0))
     else case d_vmac_ctrl d of None \<Rightarrow> 0 | Some ctrl \<Rightarrow> vmac_latency (ctrl, 0, 0))"

definition simd_arch :: "simd_state \<Rightarrow> vregs \<times> mem_words" where
  "simd_arch s = (ss_vregs s, sr_mem (ss_sram s))"

section \<open>The core implements the architecture\<close>

lemma latency_operands:
  "vmac_latency (ctrl, a, b) = vmac_latency (ctrl, 0, 0)"
  "valu_latency (opc, sew, v, w) = valu_latency (opc, sew, 0, 0)"
  "vlsu_latency (st, a, v) = vlsu_latency (st, 0, 0)"
  by (simp_all add: vmac_latency_def valu_latency_def vlsu_latency_def)

lemma valu_supported_operands: "valu_supported (opc, sew, v, w) = valu_supported (opc, sew, 0, 0)"
  by (simp add: valu_supported_def)

lemma load_not_store: "d_is_vec_load (decoder_control insn) \<Longrightarrow> \<not> d_is_vec_store (decoder_control insn)"
  by (simp add: decoder_control_def Let_def vop_defs)

lemma store_no_vreg_write: "d_is_vec_store (decoder_control insn) \<Longrightarrow> \<not> d_vec_reg_write (decoder_control insn)"
  by (simp add: decoder_control_def Let_def vop_defs)

lemma simd_exec_vlsu:
  assumes "simd_idle s" "d_is_vec_op (decoder_control insn)" "simd_latency insn \<le> fuel"
    "d_is_vec_load (decoder_control insn) \<or> d_is_vec_store (decoder_control insn)"
  shows "\<exists>s'. simd_exec fuel insn rs1 rs2 s
      = Some (fst (simd_spec insn rs1 rs2 (fst (simd_arch s)) (snd (simd_arch s))), simd_latency insn, s')
    \<and> simd_idle s' \<and> simd_arch s' = snd (simd_spec insn rs1 rs2 (fst (simd_arch s)) (snd (simd_arch s)))"
proof -
  let ?d = "decoder_control insn"
  let ?opn = "(d_is_vec_store ?d, rs1, vrf_read (ss_vregs s) (d_rs2 ?d))"
  have lat: "simd_latency insn = vlsu_latency ?opn"
    using assms(2,4) latency_operands(3) [of "d_is_vec_store ?d" rs1 "vrf_read (ss_vregs s) (d_rs2 ?d)"]
    by (auto simp: simd_latency_def Let_def)
  have idle: "vlsu_idle (ss_vlsu s, ss_sram s)" using assms(1) by (simp add: simd_idle_def)
  from assms(3) lat have le: "vlsu_latency ?opn \<le> fuel" by simp
  obtain u' where u': "unit_exec fuel (vlsu_op_step ?opn) (vl_done \<circ> fst) (vl_load_data \<circ> fst) False False 0
        (ss_vlsu s, ss_sram s) = Some (fst (vlsu_spec ?opn (vlsu_view (ss_vlsu s, ss_sram s))), 0 + vlsu_latency ?opn, u')"
      "vlsu_idle u'" "vlsu_view u' = snd (vlsu_spec ?opn (vlsu_view (ss_vlsu s, ss_sram s)))"
    by (rule vlsu.exec_enough_fuel [OF idle _ le]) simp
  obtain vl sr where [simp]: "u' = (vl, sr)" by (cases u')
  show ?thesis
    using assms(1,2,4) u' lat load_not_store [of insn] store_no_vreg_write [of insn]
    by (auto simp: simd_exec_def simd_spec_def simd_arch_def simd_idle_def Let_def vlsu_spec_def
        vlsu_view_def vrf_write_def)
qed

lemma simd_exec_valu:
  assumes "simd_idle s" "d_is_vec_op (decoder_control insn)" "simd_latency insn \<le> fuel"
    "\<not> d_is_vec_load (decoder_control insn)" "\<not> d_is_vec_store (decoder_control insn)"
    "simd_supported insn"
  shows "\<exists>s'. simd_exec fuel insn rs1 rs2 s
      = Some (fst (simd_spec insn rs1 rs2 (fst (simd_arch s)) (snd (simd_arch s))), simd_latency insn, s')
    \<and> simd_idle s' \<and> simd_arch s' = snd (simd_spec insn rs1 rs2 (fst (simd_arch s)) (snd (simd_arch s)))"
proof -
  let ?d = "decoder_control insn"
  let ?opn = "(ucast (d_vec_op ?d), d_vec_sew ?d, vrf_read (ss_vregs s) (d_rs1 ?d), vrf_read (ss_vregs s) (d_rs2 ?d))"
  have lat: "simd_latency insn = valu_latency ?opn"
    using assms(2,4,5) by (simp add: simd_latency_def Let_def latency_operands(2) [of _ _ "vrf_read _ _"])
  have idle: "valu_idle (ss_valu s)" using assms(1) by (simp add: simd_idle_def)
  have sup: "valu_supported ?opn"
    using assms(2,4,5,6) by (simp add: simd_supported_def Let_def valu_supported_operands [of _ _ "vrf_read _ _"])
  from assms(3) lat have le: "valu_latency ?opn \<le> fuel" by simp
  obtain u' where u': "unit_exec fuel (valu_op_step ?opn) va_valid_out va_result False False 0 (ss_valu s)
      = Some (valu_spec (ucast (d_vec_op ?d)) (d_vec_sew ?d) (vrf_read (ss_vregs s) (d_rs1 ?d))
               (vrf_read (ss_vregs s) (d_rs2 ?d)), 0 + valu_latency ?opn, u')"
      "valu_idle u'"
    by (rule valu.exec_enough_fuel [OF idle sup le, where n = 0]) simp
  show ?thesis
    using assms(1,2,4,5) u' lat
    by (auto simp: simd_exec_def simd_spec_def simd_arch_def simd_idle_def Let_def)
qed

lemma simd_exec_vmac:
  assumes "simd_idle s" "\<not> d_is_vec_op (decoder_control insn)" "simd_latency insn \<le> fuel"
    "simd_supported insn"
  shows "\<exists>s'. simd_exec fuel insn rs1 rs2 s
      = Some (fst (simd_spec insn rs1 rs2 (fst (simd_arch s)) (snd (simd_arch s))), simd_latency insn, s')
    \<and> simd_idle s' \<and> simd_arch s' = snd (simd_spec insn rs1 rs2 (fst (simd_arch s)) (snd (simd_arch s)))"
proof -
  let ?d = "decoder_control insn"
  from assms(2,4) obtain ctrl where ctrl: "d_is_vmac ?d" "d_vmac_ctrl ?d = Some ctrl"
    by (auto simp: simd_supported_def Let_def)
  have lat: "simd_latency insn = vmac_latency (ctrl, rs1, rs2)"
    using assms(2) ctrl latency_operands(1) [of ctrl rs1 rs2] by (simp add: simd_latency_def Let_def)
  have idle: "vmac_idle (ss_vmac s)" using assms(1) by (simp add: simd_idle_def)
  from assms(3) lat have le: "vmac_latency (ctrl, rs1, rs2) \<le> fuel" by simp
  obtain u' where u': "unit_exec fuel (vmac_op_step (ctrl, rs1, rs2)) vm_valid_out vm_result False False 0 (ss_vmac s)
      = Some (vmac_spec ctrl rs1 rs2, 0 + vmac_latency (ctrl, rs1, rs2), u')" "vmac_idle u'"
    by (rule vmac.exec_enough_fuel [OF idle _ le, where n = 0]) simp_all
  show ?thesis
    using assms(1,2) ctrl u' lat
    by (auto simp: simd_exec_def simd_spec_def simd_arch_def simd_idle_def Let_def)
qed

lemma simd_exec_implements:
  assumes "simd_idle s" "simd_supported insn" "simd_latency insn \<le> fuel"
  shows "\<exists>s'. simd_exec fuel insn rs1 rs2 s
      = Some (fst (simd_spec insn rs1 rs2 (fst (simd_arch s)) (snd (simd_arch s))), simd_latency insn, s')
    \<and> simd_idle s' \<and> simd_arch s' = snd (simd_spec insn rs1 rs2 (fst (simd_arch s)) (snd (simd_arch s)))"
  using assms simd_exec_vlsu simd_exec_valu simd_exec_vmac by blast

lemma simd_latency_le: "simd_latency insn \<le> 10"
  by (auto simp: simd_latency_def Let_def vlsu_latency_def valu_latency_def vmac_latency_def
      split: option.splits)

lemma simd_run_implements:
  assumes "simd_idle s" "\<forall>x \<in> set prog. simd_supported (fst x)"
  shows "\<exists>s'. simd_run 10 prog s
      = Some (fst (simd_spec_run prog (fst (simd_arch s)) (snd (simd_arch s))), (\<Sum>(insn, _) \<leftarrow> prog. simd_latency insn), s')
    \<and> simd_idle s' \<and> simd_arch s' = snd (simd_spec_run prog (fst (simd_arch s)) (snd (simd_arch s)))"
  using assms
proof (induction prog arbitrary: s)
  case Nil
  then show ?case by simp
next
  case (Cons x prog)
  obtain insn rs1 rs2 where x: "x = (insn, rs1, rs2)" by (cases x)
  let ?e = "simd_spec insn rs1 rs2 (fst (simd_arch s)) (snd (simd_arch s))"
  obtain s1 where s1: "simd_exec 10 insn rs1 rs2 s = Some (fst ?e, simd_latency insn, s1)"
    "simd_idle s1" "simd_arch s1 = snd ?e"
    using simd_exec_implements [OF Cons.prems(1) _ simd_latency_le] Cons.prems(2) x by fastforce
  have "\<forall>x \<in> set prog. simd_supported (fst x)" using Cons.prems(2) by simp
  from Cons.IH [OF s1(2) this] s1 show ?case by (auto simp: x split_beta)
qed

end
