(* ===== verification/Simd_Intrinsics.thy ===== *)
theory Simd_Intrinsics
  imports Simd_Core
begin

text \<open>
  The inline-assembly intrinsics of the MNIST firmware (sw/mnist-newlib): the instruction
  words \<open>.insn\<close> assembles, their effect on the core, C arrays in the data memory, and the
  contract of a multiply-accumulate kernel on which every vectorised dot product rests.
\<close>

section \<open>Instruction words\<close>

text \<open>\<open>.insn r opcode, funct3, funct7, rd, rs1, rs2\<close> and \<open>.insn i opcode, funct3, rd, rs1, simm12\<close>.\<close>

definition insn_r :: "7 word \<Rightarrow> 3 word \<Rightarrow> 7 word \<Rightarrow> 5 word \<Rightarrow> 5 word \<Rightarrow> 5 word \<Rightarrow> i32" where
  "insn_r opc f3 f7 rd rs1 rs2 =
     ucast opc OR push_bit 7 (ucast rd) OR push_bit 12 (ucast f3) OR push_bit 15 (ucast rs1)
     OR push_bit 20 (ucast rs2) OR push_bit 25 (ucast f7)"

definition insn_i :: "7 word \<Rightarrow> 3 word \<Rightarrow> 5 word \<Rightarrow> 5 word \<Rightarrow> 12 word \<Rightarrow> i32" where
  "insn_i opc f3 rd rs1 imm =
     ucast opc OR push_bit 7 (ucast rd) OR push_bit 12 (ucast f3) OR push_bit 15 (ucast rs1)
     OR push_bit 20 (ucast imm)"

lemma bit_beyond: "LENGTH('a) \<le> n \<Longrightarrow> \<not> bit (x :: 'a::len word) n"
  by (auto dest: bit_imp_le_length)

lemma insn_r_fields [simp]:
  "opcode_of (insn_r opc f3 f7 rd rs1 rs2) = opc"
  "field 7 (insn_r opc f3 f7 rd rs1 rs2) = rd"
  "funct3_of (insn_r opc f3 f7 rd rs1 rs2) = f3"
  "field 15 (insn_r opc f3 f7 rd rs1 rs2) = rs1"
  "field 20 (insn_r opc f3 f7 rd rs1 rs2) = rs2"
  "funct7_of (insn_r opc f3 f7 rd rs1 rs2) = f7"
  unfolding opcode_of_def funct3_of_def funct7_of_def
  by (rule bit_word_eqI, auto simp: bit_field insn_r_def bit_simps bit_beyond)+

lemma insn_i_fields [simp]:
  "opcode_of (insn_i opc f3 rd rs1 imm) = opc"
  "field 7 (insn_i opc f3 rd rs1 imm) = rd"
  "funct3_of (insn_i opc f3 rd rs1 imm) = f3"
  "field 15 (insn_i opc f3 rd rs1 imm) = rs1"
  "field 20 (insn_i opc f3 rd rs1 imm) = imm"
  unfolding opcode_of_def funct3_of_def
  by (rule bit_word_eqI, auto simp: bit_field insn_i_def bit_simps bit_beyond)+

lemma vop_sew_funct7: "vop_of insn = ucast (funct7_of insn)" "sew_of insn = ucast (drop_bit 5 (funct7_of insn))"
  unfolding vop_of_def sew_of_def funct7_of_def
  by (rule bit_word_eqI, auto simp: bit_field bit_simps)+

section \<open>C arrays in memory\<close>

text \<open>
  Byte-addressed little-endian view of the data memory.  \<open>array_at mem a xs\<close>: the memory from
  address \<open>a\<close> on holds the elements of the C array \<open>xs\<close>.  \<open>array_word\<close> and \<open>array_dword\<close> are
  the 32 and 64 bits at \<open>&xs[i]\<close>.
\<close>

definition mem_byte :: "mem_words \<Rightarrow> i32 \<Rightarrow> i8" where
  "mem_byte mem a = lane (unat a mod 4) (mem (word_index a))"

definition mem_elem :: "mem_words \<Rightarrow> i32 \<Rightarrow> 'a::len word" where
  "mem_elem mem a = pack_lanes (map (\<lambda>b. mem_byte mem (a + word_of_nat b)) [0..<LENGTH('a) div 8])"

definition elem_addr :: "'a::len word itself \<Rightarrow> i32 \<Rightarrow> nat \<Rightarrow> i32" where
  "elem_addr t a i = a + word_of_nat (i * (LENGTH('a) div 8))"

definition array_at :: "mem_words \<Rightarrow> i32 \<Rightarrow> 'a::len word list \<Rightarrow> bool" where
  "array_at mem a xs \<longleftrightarrow> (\<forall>i < length xs. mem_elem mem (elem_addr TYPE('a word) a i) = xs ! i)"

definition array_word :: "'a::len word list \<Rightarrow> nat \<Rightarrow> i32" where
  "array_word xs i = pack_lanes (take (32 div LENGTH('a)) (drop i xs))"

definition array_dword :: "'a::len word list \<Rightarrow> nat \<Rightarrow> i64" where
  "array_dword xs i = pack_lanes (take (64 div LENGTH('a)) (drop i xs))"

lemma aligned_byte:
  fixes a :: i32
  assumes "unat a mod 4 = 0" "q < 4"
  shows "word_index (a + word_of_nat q) = word_index a" "unat (a + word_of_nat q) mod 4 = q"
proof -
  from assms(1) obtain t where t: "unat a = 4 * t" by auto
  have "unat a < 2 ^ 32" using unsigned_less [of a, where 'a = nat] by simp
  with t assms(2) have lt: "unat a + q < 2 ^ 32" by simp
  have q: "unat (word_of_nat q :: i32) = q" using assms(2) by (simp add: unat_of_nat)
  have sum: "unat (a + word_of_nat q) = 4 * t + q"
    using lt q t unat_add_lem [of a "word_of_nat q"] by simp
  from sum assms(2) show "unat (a + word_of_nat q) mod 4 = q" by simp
  have "unat (drop_bit 2 (a + word_of_nat q)) = unat (drop_bit 2 a)"
    unfolding unat_drop_bit_eq sum t using assms(2) by (simp add: drop_bit_eq_div)
  then have "drop_bit 2 (a + word_of_nat q) = drop_bit 2 a" by (simp only: word_unat_eq_iff)
  then show "word_index (a + word_of_nat q) = word_index a" by (simp add: word_index_def)
qed

lemma mem_byte_aligned:
  assumes "unat a mod 4 = 0" "q < 4"
  shows "mem_byte mem (a + word_of_nat q) = lane q (mem (word_index a))"
  using aligned_byte [OF assms] by (simp add: mem_byte_def)

lemma aligned_next: "unat (a :: i32) mod 4 = 0 \<Longrightarrow> unat (a + 4) mod 4 = 0"
  by (simp add: unat_word_ariths mod_mod_cancel mod_add_left_eq [symmetric, of "unat a"])

lemma mem_load64_bytes:
  assumes "unat a mod 4 = 0"
  shows "mem_load64 mem a = pack_lanes (map (\<lambda>b. mem_byte mem (a + word_of_nat b)) [0..<8])"
proof (rule bit_word_eqI)
  fix n assume n: "n < LENGTH(64)"
  show "bit (mem_load64 mem a) n \<longleftrightarrow> bit (pack_lanes (map (\<lambda>b. mem_byte mem (a + word_of_nat b)) [0..<8]) :: i64) n"
  proof (cases "n < 32")
    case True
    then have "n div 8 < 4" by simp
    then show ?thesis
      using True mem_byte_aligned [OF assms, of "n div 8" mem]
      by (simp add: mem_load64_def bit_pack_lanes lane_def bit_simps del: pack_lanes.simps)
  next
    case False
    with n have q: "n div 8 - 4 < 4" "4 \<le> n div 8" "n div 8 < 8" "n div 32 = Suc 0" "n mod 32 = n - 32"
      by (auto simp: mod_if)
    have "(word_of_nat (n div 8) :: i32) = 4 + word_of_nat (n div 8 - 4)"
      using q(2) by (metis le_add_diff_inverse of_nat_add of_nat_numeral)
    then have "mem_byte mem (a + word_of_nat (n div 8)) = lane (n div 8 - 4) (mem (word_index (a + 4)))"
      using mem_byte_aligned [OF aligned_next [OF assms] q(1), of mem] by (simp add: add.assoc)
    moreover have "(n div 8 - 4) * 8 + n mod 8 = n - 32" using q(2) by presburger
    ultimately show ?thesis
      using n q by (simp add: mem_load64_def bit_pack_lanes lane_def bit_simps del: pack_lanes.simps)
  qed
qed

lemma bit_mem_elem:
  "bit (mem_elem mem a :: 'a::len word) p \<longleftrightarrow>
     p < LENGTH('a) \<and> p div 8 < LENGTH('a) div 8 \<and> bit (mem_byte mem (a + word_of_nat (p div 8))) (p mod 8)"
  by (auto simp: mem_elem_def bit_pack_lanes)

lemma div_mod_bytes:
  fixes n w s :: nat
  assumes "w = 8 * s" "0 < s"
  shows "n div w * s + n mod w div 8 = n div 8" "n mod w mod 8 = n mod 8" "n mod w div 8 < s"
proof -
  have "n = n div w * w + n mod w" by simp
  then have "n = 8 * (n div w * s) + n mod w" using assms(1) by (simp add: algebra_simps)
  then show "n div w * s + n mod w div 8 = n div 8"
    by (metis div_mult_self4 add.commute zero_neq_numeral)
  show "n mod w mod 8 = n mod 8" using assms(1) by (simp add: mod_mod_cancel)
  show "n mod w div 8 < s" using assms by (simp add: div_less_iff_less_mult mult.commute)
qed

lemma array_dword_load:
  fixes xs :: "'a::len word list"
  assumes "array_at mem a xs" "LENGTH('a) = 8 * s" "64 = m * LENGTH('a)" "i + m \<le> length xs"
    and aligned: "unat (elem_addr TYPE('a word) a i) mod 4 = 0"
  shows "mem_load64 mem (elem_addr TYPE('a word) a i) = array_dword xs i"
proof (rule bit_word_eqI)
  fix n assume n: "n < LENGTH(64)"
  let ?w = "LENGTH('a)"
  have s: "0 < s" using assms(2) by (metis len_gt_0 mult_0_right neq0_conv)
  have m: "64 div ?w = m" by (subst assms(3)) simp
  have k: "n div ?w < m" using n assms(3) by (simp add: less_mult_imp_div_less)
  then have "mem_elem mem (elem_addr TYPE('a word) a (i + n div ?w)) = xs ! (i + n div ?w)"
    using assms(1,4) by (simp add: array_at_def)
  moreover have "elem_addr TYPE('a word) a (i + n div ?w) + word_of_nat (n mod ?w div 8)
      = elem_addr TYPE('a word) a i + word_of_nat (n div 8)"
    unfolding elem_addr_def div_mod_bytes(1) [OF assms(2) s, of n, symmetric]
    using assms(2) by (simp add: algebra_simps)
  moreover have "n mod ?w < ?w" by simp
  ultimately have "bit (xs ! (i + n div ?w)) (n mod ?w)
      \<longleftrightarrow> bit (mem_byte mem (elem_addr TYPE('a word) a i + word_of_nat (n div 8))) (n mod 8)"
    using div_mod_bytes [OF assms(2) s, of n] assms(2)
      bit_mem_elem [of mem "elem_addr TYPE('a word) a (i + n div ?w)" "n mod ?w", where 'a = 'a]
    by simp
  moreover have "n div 8 < 8" using n by simp
  ultimately show "bit (mem_load64 mem (elem_addr TYPE('a word) a i)) n \<longleftrightarrow> bit (array_dword xs i) n"
    using n k m assms(4)
    by (simp add: mem_load64_bytes [OF aligned] array_dword_def bit_pack_lanes)
qed

section \<open>Intrinsics\<close>

text \<open>
  The \<open>asm volatile\<close> statements.  The scalar registers are the compiler's choice
  (\<open>a0\<close>, \<open>a0\<close>, \<open>a1\<close> here, as in the hand-written \<open>pvmac\<close> of hal.S); the lemmas below hold for
  every choice.  \<open>asm_result\<close> is the value of the output operand.  The pointer operand of a
  vector load is an array and an index, \<open>&xs[i]\<close>; \<open>vld_v1_exec\<close> relates it to the memory.
\<close>

definition asm_result :: "i32 option \<times> vregs \<times> mem_words \<Rightarrow> i32" where
  "asm_result e = (case fst e of Some r \<Rightarrow> r | None \<Rightarrow> 0)"

definition PVMAC_INSN :: i32 where "PVMAC_INSN = insn_r 0x5B 1 2 10 10 11"
definition VLD_V1_INSN :: i32 where "VLD_V1_INSN = insn_r 0x5B 2 4 1 10 0"
definition VLD_V2_INSN :: i32 where "VLD_V2_INSN = insn_r 0x5B 2 4 2 10 0"
definition VMAC_B_INSN :: i32 where "VMAC_B_INSN = insn_r 0x5B 2 0x03 10 1 2"
definition VMAC_H_INSN :: i32 where "VMAC_H_INSN = insn_r 0x5B 2 0x23 10 1 2"
definition VMAC_W_INSN :: i32 where "VMAC_W_INSN = insn_r 0x5B 2 0x43 10 1 2"

definition pvmac :: "i32 \<Rightarrow> i32 \<Rightarrow> i32" where
  "pvmac a b = asm_result (simd_spec PVMAC_INSN a b (\<lambda>_. 0) (\<lambda>_. 0))"

definition vld_v1 :: "'a::len word list \<Rightarrow> nat \<Rightarrow> vregs \<Rightarrow> vregs" where
  "vld_v1 xs i vr = vrf_write True 1 (array_dword xs i) vr"

definition vld_v2 :: "'a::len word list \<Rightarrow> nat \<Rightarrow> vregs \<Rightarrow> vregs" where
  "vld_v2 xs i vr = vrf_write True 2 (array_dword xs i) vr"

definition vmac_b :: "vregs \<Rightarrow> i32" where
  "vmac_b vr = asm_result (simd_spec VMAC_B_INSN 0 0 vr (\<lambda>_. 0))"

definition vmac_h :: "vregs \<Rightarrow> i32" where
  "vmac_h vr = asm_result (simd_spec VMAC_H_INSN 0 0 vr (\<lambda>_. 0))"

definition vmac_w :: "vregs \<Rightarrow> i32" where
  "vmac_w vr = asm_result (simd_spec VMAC_W_INSN 0 0 vr (\<lambda>_. 0))"

lemmas simd_insn_defs = PVMAC_INSN_def VLD_V1_INSN_def VLD_V2_INSN_def VMAC_B_INSN_def
  VMAC_H_INSN_def VMAC_W_INSN_def

lemmas decode_simps = decoder_control_def Let_def type_defs vop_sew_funct7 vop_defs
  dec_vec_op_def dec_vec_sew_def dec_vmac_ctrl_def

lemma low_half_of_extended: "(lane 0 (ucast (x :: i32) :: i64) :: i32) = x"
  by (rule bit_word_eqI) (simp add: lane_def bit_simps)

lemma pvmac_insn_spec:
  "simd_spec (insn_r 0x5B 1 2 rd r1 r2) a b vr mem = (Some (packed_dot (byte_lanes4 a) (byte_lanes4 b)), vr, mem)"
  by (simp add: simd_spec_def decode_simps vmac_spec_def)

lemma vld_insn_spec:
  "simd_spec (insn_r 0x5B 2 4 vd r1 r2) a b vr mem = (None, vrf_write True vd (mem_load64 mem a) vr, mem)"
  by (simp add: simd_spec_def decode_simps)

lemma vmac_insn_spec:
  "simd_spec (insn_r 0x5B 2 0x03 rd v1 v2) a b vr mem
     = (Some (word_of_int (lane_dot 0 (vrf_read vr v1) (vrf_read vr v2))), vr, mem)"
  "simd_spec (insn_r 0x5B 2 0x23 rd v1 v2) a b vr mem
     = (Some (word_of_int (lane_dot 1 (vrf_read vr v1) (vrf_read vr v2))), vr, mem)"
  "simd_spec (insn_r 0x5B 2 0x43 rd v1 v2) a b vr mem
     = (Some (word_of_int (lane_dot 2 (vrf_read vr v1) (vrf_read vr v2))), vr, mem)"
  by (simp_all add: simd_spec_def decode_simps valu_spec_def low_half_of_extended vrf_write_def)

lemmas insn_spec_simps = pvmac_insn_spec vld_insn_spec vmac_insn_spec asm_result_def

lemma pvmac_dot: "pvmac a b = packed_dot (byte_lanes4 a) (byte_lanes4 b)"
  by (simp add: pvmac_def simd_insn_defs insn_spec_simps)

lemma vmac_dot:
  "vmac_b vr = word_of_int (lane_dot 0 (vrf_read vr 1) (vrf_read vr 2))"
  "vmac_h vr = word_of_int (lane_dot 1 (vrf_read vr 1) (vrf_read vr 2))"
  "vmac_w vr = word_of_int (lane_dot 2 (vrf_read vr 1) (vrf_read vr 2))"
  by (simp_all add: vmac_b_def vmac_h_def vmac_w_def simd_insn_defs insn_spec_simps)

lemma vld_v1_exec:
  fixes xs :: "'a::len word list"
  assumes "array_at mem a xs" "LENGTH('a) = 8 * s" "64 = m * LENGTH('a)" "i + m \<le> length xs"
    "unat (elem_addr TYPE('a word) a i) mod 4 = 0"
  shows "simd_spec VLD_V1_INSN (elem_addr TYPE('a word) a i) b vr mem = (None, vld_v1 xs i vr, mem)"
    "simd_spec VLD_V2_INSN (elem_addr TYPE('a word) a i) b vr mem = (None, vld_v2 xs i vr, mem)"
  using array_dword_load [OF assms] by (simp_all add: simd_insn_defs insn_spec_simps vld_v1_def vld_v2_def)

section \<open>Performance counters\<close>

text \<open>
  The four counters of the core and the EXEC cycle of RDWRCTR: bit 31 of the instruction
  selects a write of \<open>rs1\<close>, bits 21:20 the counter.  \<open>cycle_counter\<close> advances on every clock
  edge unless it is being written.  A read delivers the counter as it was before the edge.
\<close>

record perf_counters =
  cycle_counter :: i32
  insn_counter :: i32
  load_counter :: i32
  store_counter :: i32

definition rdwrctr_exec :: "i32 \<Rightarrow> i32 \<Rightarrow> perf_counters \<Rightarrow> i32 option \<times> perf_counters" where
  "rdwrctr_exec insn rs1 c =
    (let d = decoder_control insn; ticked = c\<lparr>cycle_counter := cycle_counter c + 1\<rparr>;
         ctr = d_rdwrctr_ctr_id d
     in if d_rdwrctr_wen d then
          (None, if ctr = 0 then c\<lparr>cycle_counter := rs1\<rparr>
                 else if ctr = 1 then ticked\<lparr>insn_counter := rs1\<rparr>
                 else if ctr = 2 then ticked\<lparr>load_counter := rs1\<rparr>
                 else ticked\<lparr>store_counter := rs1\<rparr>)
        else
          (Some (if ctr = 0 then cycle_counter c else if ctr = 1 then insn_counter c
                 else if ctr = 2 then load_counter c else store_counter c), ticked))"

definition read_counter :: "12 word \<Rightarrow> perf_counters \<Rightarrow> i32 \<times> perf_counters" where
  "read_counter k c =
    (case rdwrctr_exec (insn_i 0x5B 0 10 0 k) 0 c of (r, c') \<Rightarrow> (case r of Some v \<Rightarrow> v | None \<Rightarrow> 0, c'))"

definition read_cycle_counter :: "perf_counters \<Rightarrow> i32 \<times> perf_counters" where
  "read_cycle_counter = read_counter 0"
definition read_insn_counter :: "perf_counters \<Rightarrow> i32 \<times> perf_counters" where
  "read_insn_counter = read_counter 1"
definition read_load_counter :: "perf_counters \<Rightarrow> i32 \<times> perf_counters" where
  "read_load_counter = read_counter 2"
definition read_store_counter :: "perf_counters \<Rightarrow> i32 \<times> perf_counters" where
  "read_store_counter = read_counter 3"

section \<open>Multiply-accumulate kernels\<close>

text \<open>
  The contract every vectorised loop relies on: \<open>kernel xs ys i\<close> adds up the products of the
  next \<open>lanes\<close> elements.  Inside the contract, the strided loop over a kernel is the exact dot
  product, reduced modulo \<open>2 ^ 32\<close> only once at the end.
\<close>

definition dot_int :: "nat \<Rightarrow> 'a::len word list \<Rightarrow> 'a word list \<Rightarrow> int" where
  "dot_int n xs ys = (\<Sum>i \<leftarrow> [0..<n]. sint (xs ! i) * sint (ys ! i))"

lemma sum_list_blocks:
  fixes f :: "nat \<Rightarrow> 'a::comm_monoid_add"
  shows "(\<Sum>u \<leftarrow> [0..<m]. \<Sum>k \<leftarrow> [0..<l]. f (u * l + k)) = (\<Sum>i \<leftarrow> [0..<m * l]. f i)"
proof (induction m)
  case 0
  then show ?case by simp
next
  case (Suc m)
  have "[0..<Suc m * l] = [0..<m * l] @ map (\<lambda>k. m * l + k) [0..<l]"
    using upt_add_eq_append [of 0 "m * l" l] map_add_upt [of "m * l" l]
    by (simp add: add.commute)
  with Suc show ?case by (simp add: o_def)
qed

lemma of_int_sum_list_map: "of_int (\<Sum>x \<leftarrow> xs. f x) = (\<Sum>x \<leftarrow> xs. of_int (f x))"
  by (induction xs) simp_all

locale mac_kernel =
  fixes lanes :: nat and kernel :: "'a::len word list \<Rightarrow> 'a word list \<Rightarrow> nat \<Rightarrow> i32"
  assumes lanes_pos: "0 < lanes"
    and kernel_dot: "i + lanes \<le> length xs \<Longrightarrow> i + lanes \<le> length ys \<Longrightarrow>
      kernel xs ys i = word_of_int (\<Sum>k \<leftarrow> [0..<lanes]. sint (xs ! (i + k)) * sint (ys ! (i + k)))"
begin

lemma kernel_loop:
  assumes "n = m * lanes" "n \<le> length xs" "n \<le> length ys"
  shows "for_loop 0 n lanes (\<lambda>i acc. acc + kernel xs ys i) 0 = word_of_int (dot_int n xs ys)"
proof -
  have k: "kernel xs ys (u * lanes) = word_of_int (\<Sum>k \<leftarrow> [0..<lanes]. sint (xs ! (u * lanes + k)) * sint (ys ! (u * lanes + k)))"
    if "u < m" for u
  proof -
    have "Suc u * lanes \<le> n" unfolding assms(1) using that by (intro mult_le_mono1) simp
    then show ?thesis using assms by (intro kernel_dot) simp_all
  qed
  have "for_loop 0 n lanes (\<lambda>i acc. acc + kernel xs ys i) 0 = (\<Sum>u \<leftarrow> [0..<m]. kernel xs ys (u * lanes))"
    by (simp add: for_loop_fold [OF lanes_pos assms(1)] fold_add_sum)
  also have "\<dots> = (\<Sum>u \<leftarrow> [0..<m]. word_of_int (\<Sum>k \<leftarrow> [0..<lanes]. sint (xs ! (u * lanes + k)) * sint (ys ! (u * lanes + k))))"
    using k by (intro arg_cong [where f = sum_list] map_cong) auto
  also have "\<dots> = word_of_int (\<Sum>u \<leftarrow> [0..<m]. \<Sum>k \<leftarrow> [0..<lanes]. sint (xs ! (u * lanes + k)) * sint (ys ! (u * lanes + k)))"
    by (rule of_int_sum_list_map [symmetric])
  also have "\<dots> = word_of_int (dot_int n xs ys)"
    unfolding sum_list_blocks [of "\<lambda>i. sint (xs ! i) * sint (ys ! i)"] dot_int_def assms(1) ..
  finally show ?thesis .
qed

end

end
