(* ===== verification/Mlp_Common.thy ===== *)
theory Mlp_Common
  imports Simd_Intrinsics
begin

text \<open>
  What the MNIST benchmarks (sw/mnist-newlib, sw/mnist-host) share: the network's sizes, the
  int8 activation, the argmax loops, the dot-product kernels as instances of the
  \<open>mac_kernel\<close> contract, and the reference forward pass over exact integers.
\<close>

section \<open>Constants and scalar helpers\<close>

definition INPUT_SIZE :: nat where "INPUT_SIZE = 784"
definition HIDDEN_SIZE :: nat where "HIDDEN_SIZE = 32"
definition OUTPUT_SIZE :: nat where "OUTPUT_SIZE = 10"

lemmas size_defs = INPUT_SIZE_def HIDDEN_SIZE_def OUTPUT_SIZE_def

definition relu_int8 :: "i32 \<Rightarrow> i8" where
  "relu_int8 x = (if x <s 0 then 0 else if 127 <s x then 127 else ucast x)"

text \<open>\<open>for (int i = 1; i < n; i++) if (output[i] > output[pred]) pred = i;\<close>\<close>

definition argmax_pred :: "nat \<Rightarrow> 'a::len word list \<Rightarrow> nat" where
  "argmax_pred n xs = for_loop 1 n 1 (\<lambda>i pred. if xs ! pred <s xs ! i then i else pred) 0"

text \<open>The other form, with the running maximum in an \<open>int32_t\<close> variable.\<close>

definition argmax_max_val :: "nat \<Rightarrow> 'a::len word list \<Rightarrow> nat" where
  "argmax_max_val n xs =
     fst (for_loop 1 n 1 (\<lambda>i (predicted_class, max_val).
            if max_val <s (scast (xs ! i) :: i32) then (i, scast (xs ! i)) else (predicted_class, max_val))
          (0, scast (xs ! 0)))"

section \<open>Activation\<close>

text \<open>Clamping to \<open>[0, hi]\<close>, the value of a rectified linear unit with saturation.\<close>

definition clamp :: "int \<Rightarrow> int \<Rightarrow> int" where
  "clamp hi v = max 0 (min hi v)"

definition fits :: "'a::len itself \<Rightarrow> int \<Rightarrow> bool" where
  "fits t v \<longleftrightarrow> - (2 ^ (LENGTH('a) - 1)) \<le> v \<and> v < 2 ^ (LENGTH('a) - 1)"

lemma sint_word_of_int_fits: "fits TYPE('a::len) v \<Longrightarrow> sint (word_of_int v :: 'a word) = v"
  by (simp add: fits_def sint_sbintrunc' signed_take_bit_int_eq_self)

lemma word_of_int_of_sint: "(ucast (x :: 'a::len word) :: 'b::len word) = word_of_int (sint x)" if "LENGTH('b) \<le> LENGTH('a)"
  using ucast_word_of_int [OF that, of "sint x"] by simp

lemma relu_int8_clamp: "fits TYPE(32) v \<Longrightarrow> relu_int8 (word_of_int v) = word_of_int (clamp 127 v)"
  using word_of_int_of_sint [of "word_of_int v :: i32", where 'b = 8]
  by (auto simp: relu_int8_def clamp_def word_sless_alt sint_word_of_int_fits max_def min_def)

lemma relu_int8_range: "0 \<le> sint (relu_int8 x)"
proof -
  have "fits TYPE(32) (sint x)" using sint_greater_eq [of x] sint_less [of x] by (simp add: fits_def)
  from relu_int8_clamp [OF this] have "relu_int8 x = word_of_int (clamp 127 (sint x))" by simp
  moreover have "fits TYPE(8) (clamp 127 (sint x))" by (auto simp: fits_def clamp_def)
  ultimately show ?thesis by (simp add: sint_word_of_int_fits clamp_def)
qed

section \<open>Argmax\<close>

definition first_max :: "nat \<Rightarrow> 'a::len word list \<Rightarrow> nat \<Rightarrow> bool" where
  "first_max n xs p \<longleftrightarrow> p < n \<and> (\<forall>i<n. sint (xs ! i) \<le> sint (xs ! p)) \<and> (\<forall>i<p. sint (xs ! i) < sint (xs ! p))"

lemma first_max_unique: "first_max n xs p \<Longrightarrow> first_max n xs q \<Longrightarrow> p = q"
  unfolding first_max_def by (metis linorder_neqE_nat not_less)

lemma argmax_fold:
  "first_max (Suc n) xs (fold (\<lambda>i pred. if xs ! pred <s xs ! i then i else pred) [1..<Suc n] 0)"
proof (induction n)
  case 0
  then show ?case by (simp add: first_max_def)
next
  case (Suc n)
  then show ?case by (auto simp: first_max_def word_sless_alt less_Suc_eq le_less_trans)
qed

lemma argmax_pred_first_max: "0 < n \<Longrightarrow> first_max n xs (argmax_pred n xs)"
  using argmax_fold [of "n - 1" xs] by (simp add: argmax_pred_def for_loop_fold1_from)

lemma sint_scast: "LENGTH('a) \<le> LENGTH('b) \<Longrightarrow> sint (scast (x :: 'a::len word) :: 'b::len word) = sint x"
  by (rule bit_eqI) (auto simp: bit_simps min_def intro!: arg_cong [where f = "bit x"])

lemma argmax_max_val_fold:
  fixes xs :: "'a::len word list"
  assumes "LENGTH('a) \<le> 32"
  shows "fold (\<lambda>i (predicted_class, max_val).
            if max_val <s (scast (xs ! i) :: i32) then (i, scast (xs ! i)) else (predicted_class, max_val)) is
          (p, scast (xs ! p))
    = (let q = fold (\<lambda>i pred. if xs ! pred <s xs ! i then i else pred) is p in (q, scast (xs ! q)))"
  by (induction "is" arbitrary: p) (simp_all add: word_sless_alt assms sint_scast Let_def)

lemma argmax_max_val_pred:
  fixes xs :: "'a::len word list"
  assumes "LENGTH('a) \<le> 32" "0 < n"
  shows "argmax_max_val n xs = argmax_pred n xs"
  using assms(2) argmax_max_val_fold [OF assms(1), of xs "[1..<n]" 0]
  by (simp add: argmax_max_val_def argmax_pred_def for_loop_fold1_from Let_def)

section \<open>Kernels\<close>

lemma sum_upt_lanes:
  fixes f :: "nat \<Rightarrow> 'a::comm_monoid_add"
  shows "(\<Sum>k \<leftarrow> [0..<8]. f k) = f 0 + (f 1 + (f 2 + (f 3 + (f 4 + (f 5 + (f 6 + f 7))))))"
    "(\<Sum>k \<leftarrow> [0..<4]. f k) = f 0 + (f 1 + (f 2 + f 3))"
    "(\<Sum>k \<leftarrow> [0..<2]. f k) = f 0 + f 1"
  by (simp_all add: upt_lanes)

lemma lane_pack_slice:
  fixes xs :: "'a::len word list"
  assumes "k < m" "i + m \<le> length xs" "m * LENGTH('a) \<le> LENGTH('b::len)"
  shows "lane k (pack_lanes (take m (drop i xs)) :: 'b word) = xs ! (i + k)"
  using assms by (simp add: lane_pack_lanes)

lemma lane_array_word:
  fixes xs :: "'a::len word list"
  assumes "32 = m * LENGTH('a)" "k < m" "i + m \<le> length xs"
  shows "lane k (array_word xs i) = xs ! (i + k)"
proof -
  have m: "32 div LENGTH('a) = m" by (subst assms(1)) simp
  show ?thesis unfolding array_word_def m using assms by (intro lane_pack_slice) simp_all
qed

lemma lane_array_dword:
  fixes xs :: "'a::len word list"
  assumes "64 = m * LENGTH('a)" "k < m" "i + m \<le> length xs"
  shows "lane k (array_dword xs i) = xs ! (i + k)"
proof -
  have m: "64 div LENGTH('a) = m" by (subst assms(1)) simp
  show ?thesis unfolding array_dword_def m using assms by (intro lane_pack_slice) simp_all
qed

lemma vld_operands:
  "vrf_read (vld_v2 ys i (vld_v1 xs i vr)) 1 = array_dword xs i"
  "vrf_read (vld_v2 ys i (vld_v1 xs i vr)) 2 = array_dword ys i"
  by (simp_all add: vld_v1_def vld_v2_def vrf_read_write)

lemma packed_dot_byte_lanes:
  "packed_dot (byte_lanes4 a) (byte_lanes4 b) = word_of_int (\<Sum>k \<leftarrow> [0..<4]. sint (lane k a :: i8) * sint (lane k b :: i8))"
  unfolding of_int_sum_list_map by (simp add: packed_dot_def byte_lanes4_def sum_upt_lanes)

interpretation scalar_mac: mac_kernel 1 "\<lambda>xs ys i. scast (xs ! i) * scast (ys ! i)"
proof
  show "scast (xs ! i) * scast (ys ! i) = word_of_int (\<Sum>k \<leftarrow> [0..<1]. sint (xs ! (i + k)) * sint (ys ! (i + k)))" for xs ys i
    unfolding scast_mult by simp
qed simp

interpretation pvmac_kernel: mac_kernel 4 "\<lambda>(xs :: i8 list) ys i. pvmac (array_word xs i) (array_word ys i)"
  by unfold_locales (simp_all add: pvmac_dot packed_dot_byte_lanes sum_upt_lanes lane_array_word [where m = 4])

interpretation vmac_b_kernel: mac_kernel 8 "\<lambda>(xs :: i8 list) ys i. vmac_b (vld_v2 ys i (vld_v1 xs i vr))" for vr
  by unfold_locales (simp_all add: vmac_dot vld_operands lane_dot_def sum_upt_lanes lane_array_dword [where m = 8])

interpretation vmac_h_kernel: mac_kernel 4 "\<lambda>(xs :: i16 list) ys i. vmac_h (vld_v2 ys i (vld_v1 xs i vr))" for vr
  by unfold_locales (simp_all add: vmac_dot vld_operands lane_dot_def sum_upt_lanes lane_array_dword [where m = 4])

interpretation vmac_w_kernel: mac_kernel 2 "\<lambda>(xs :: i32 list) ys i. vmac_w (vld_v2 ys i (vld_v1 xs i vr))" for vr
  by unfold_locales (simp_all add: vmac_dot vld_operands lane_dot_def sum_upt_lanes lane_array_dword [where m = 2])

section \<open>Vector loops that carry the vector registers\<close>

text \<open>
  The vector registers are loop state of the C functions; the accumulator does not depend on
  what they held before.
\<close>

lemma for_loop_vregs:
  assumes "0 < l" "n = m * l" "\<And>u vr. u < m \<Longrightarrow> g (f (u * l) vr) = k (u * l)"
  shows "fst (for_loop 0 n l (\<lambda>i (acc, vr). (acc + g (f i vr), f i vr)) (a, vr)) = for_loop 0 n l (\<lambda>i acc. acc + k i) a"
proof -
  have "fst (fold (\<lambda>u (acc, vr). (acc + g (f (u * l) vr), f (u * l) vr)) us (a, vr)) = fold (\<lambda>u acc. acc + k (u * l)) us a"
    if "set us \<subseteq> {..<m}" for us a vr
    using that assms(3) by (induction us arbitrary: a vr) simp_all
  from this [of "[0..<m]"] show ?thesis
    by (simp add: for_loop_fold [OF assms(1,2)] atLeast0LessThan)
qed

lemma layer_fold_vregs:
  assumes "\<And>j vr. j < n \<Longrightarrow> fst (row j vr) = acc j" "length h = n"
  shows "fst (for_loop 0 n 1 (\<lambda>j (h, vr). case row j vr of (a, vr') \<Rightarrow> (h[j := act a], vr')) (h, vr))
     = map (act \<circ> acc) [0..<n]"
proof -
  have "fst (fold (\<lambda>j (h, vr). case row j vr of (a, vr') \<Rightarrow> (h[j := act a], vr')) js (h, vr))
      = fold (\<lambda>j h. h[j := act (acc j)]) js h" if "set js \<subseteq> {..<n}" for js vr h
    using that
  proof (induction js arbitrary: h vr)
    case Nil
    then show ?case by simp
  next
    case (Cons j js)
    then show ?case using assms(1) [of j vr] by (auto split: prod.splits)
  qed
  from this [of "[0..<n]" h vr] show ?thesis
    using fold_upd_fill [of n h "act \<circ> acc"] assms(2)
    by (auto simp: for_loop_fold1 atLeast0LessThan o_def)
qed

lemma layer_fold:
  assumes "\<And>j. j < n \<Longrightarrow> row j = acc j" "length h = n"
  shows "for_loop 0 n 1 (\<lambda>j h. h[j := act (row j)]) h = map (act \<circ> acc) [0..<n]"
  using fold_upd_fill [of n h "act \<circ> row"] assms by (simp add: for_loop_fold1 o_def)

section \<open>The reference forward pass\<close>

text \<open>
  \<open>forward_spec act W1 W2 input\<close>: both layers with exact integer dot products (rows of \<open>W1\<close> and
  \<open>W2\<close> are the weights of one neuron), the activation applied to the low 32 bits, and the index
  of the first maximal output.
\<close>

definition layer_spec :: "(i32 \<Rightarrow> 'a::len word) \<Rightarrow> nat \<Rightarrow> nat \<Rightarrow> 'a word list list \<Rightarrow> 'a word list \<Rightarrow> 'a word list" where
  "layer_spec act n_in n_out W xs = map (\<lambda>j. act (word_of_int (dot_int n_in xs (W ! j)))) [0..<n_out]"

definition forward_spec :: "(i32 \<Rightarrow> 'a::len word) \<Rightarrow> 'a word list list \<Rightarrow> 'a word list list \<Rightarrow> 'a word list
    \<Rightarrow> nat \<times> 'a word list \<times> 'a word list" where
  "forward_spec act W1 W2 input =
    (let hidden = layer_spec act INPUT_SIZE HIDDEN_SIZE W1 input;
         output = layer_spec act HIDDEN_SIZE OUTPUT_SIZE W2 hidden
     in (argmax_pred OUTPUT_SIZE output, hidden, output))"

lemma length_layer_spec [simp]: "length (layer_spec act n_in n_out W xs) = n_out"
  by (simp add: layer_spec_def)

text \<open>Weight matrices and buffers of the declared sizes.\<close>

definition mlp_dims :: "'a list list \<Rightarrow> 'a list list \<Rightarrow> 'a list \<Rightarrow> 'a list \<Rightarrow> 'a list \<Rightarrow> bool" where
  "mlp_dims W1 W2 input hidden output \<longleftrightarrow>
     length W1 = HIDDEN_SIZE \<and> (\<forall>j<HIDDEN_SIZE. length (W1 ! j) = INPUT_SIZE) \<and>
     length W2 = OUTPUT_SIZE \<and> (\<forall>j<OUTPUT_SIZE. length (W2 ! j) = HIDDEN_SIZE) \<and>
     length input = INPUT_SIZE \<and> length hidden = HIDDEN_SIZE \<and> length output = OUTPUT_SIZE"

end
