(* ===== verification/Mnist_Sew.thy ===== *)
theory Mnist_Sew
  imports Mlp_Common
begin

text \<open>
  The scalar/vector comparison benchmark sw/mnist-newlib/benchmark_mnist_sew.c: weight
  preparation and the five forward passes (scalar, PVMAC, VMAC.B, VMAC.H, VMAC.W).  Arrays are
  lists; global weight arrays are arguments; the vector registers are threaded through the
  functions that use them.  Each forward pass returns the predicted class and the final
  contents of \<open>hidden\<close> and \<open>output\<close> (and the vector registers).
\<close>

section \<open>Weight preparation\<close>

record packed_weights =
  W1_packed :: "i8 list list"
  W2_packed :: "i8 list list"
  W1_packed_h :: "i16 list list"
  W2_packed_h :: "i16 list list"
  W1_packed_w :: "i32 list list"
  W2_packed_w :: "i32 list list"

definition set2 :: "nat \<Rightarrow> nat \<Rightarrow> 'a \<Rightarrow> 'a list list \<Rightarrow> 'a list list" where
  "set2 j i v M = M[j := (M ! j)[i := v]]"

definition prepare_weights :: "i8 list list \<Rightarrow> i8 list list \<Rightarrow> packed_weights \<Rightarrow> packed_weights" where
  "prepare_weights W1_i8 W2_i8 w =
    (let w1 = for_loop 0 HIDDEN_SIZE 1 (\<lambda>j. for_loop 0 INPUT_SIZE 1 (\<lambda>i w.
           w\<lparr>W1_packed := set2 j i (W1_i8 ! i ! j) (W1_packed w),
             W1_packed_h := set2 j i (scast (W1_i8 ! i ! j)) (W1_packed_h w),
             W1_packed_w := set2 j i (scast (W1_i8 ! i ! j)) (W1_packed_w w)\<rparr>)) w
     in for_loop 0 OUTPUT_SIZE 1 (\<lambda>j. for_loop 0 HIDDEN_SIZE 1 (\<lambda>i w.
           w\<lparr>W2_packed := set2 j i (W2_i8 ! i ! j) (W2_packed w),
             W2_packed_h := set2 j i (scast (W2_i8 ! i ! j)) (W2_packed_h w),
             W2_packed_w := set2 j i (scast (W2_i8 ! i ! j)) (W2_packed_w w)\<rparr>)) w1)"

section \<open>Forward passes\<close>

definition mlp_forward_scalar :: "i8 list list \<Rightarrow> i8 list list \<Rightarrow> i8 list \<Rightarrow> i8 list \<Rightarrow> i8 list
    \<Rightarrow> nat \<times> i8 list \<times> i8 list" where
  "mlp_forward_scalar W1p W2p input hidden output =
    (let hidden = for_loop 0 HIDDEN_SIZE 1 (\<lambda>j hidden. hidden[j := relu_int8
           (for_loop 0 INPUT_SIZE 1 (\<lambda>i acc. acc + scast (input ! i) * scast (W1p ! j ! i)) 0)]) hidden;
         output = for_loop 0 OUTPUT_SIZE 1 (\<lambda>j output. output[j := relu_int8
           (for_loop 0 HIDDEN_SIZE 1 (\<lambda>i acc. acc + scast (hidden ! i) * scast (W2p ! j ! i)) 0)]) output
     in (argmax_pred OUTPUT_SIZE output, hidden, output))"

definition mlp_forward_pvmac :: "i8 list list \<Rightarrow> i8 list list \<Rightarrow> i8 list \<Rightarrow> i8 list \<Rightarrow> i8 list
    \<Rightarrow> nat \<times> i8 list \<times> i8 list" where
  "mlp_forward_pvmac W1p W2p input hidden output =
    (let hidden = for_loop 0 HIDDEN_SIZE 1 (\<lambda>j hidden. hidden[j := relu_int8
           (for_loop 0 INPUT_SIZE 4 (\<lambda>i acc. acc + pvmac (array_word input i) (array_word (W1p ! j) i)) 0)]) hidden;
         output = for_loop 0 OUTPUT_SIZE 1 (\<lambda>j output. output[j := relu_int8
           (for_loop 0 HIDDEN_SIZE 4 (\<lambda>i acc. acc + pvmac (array_word hidden i) (array_word (W2p ! j) i)) 0)]) output
     in (argmax_pred OUTPUT_SIZE output, hidden, output))"

definition mlp_forward_vmac_b :: "i8 list list \<Rightarrow> i8 list list \<Rightarrow> i8 list \<Rightarrow> i8 list \<Rightarrow> i8 list \<Rightarrow> vregs
    \<Rightarrow> (nat \<times> i8 list \<times> i8 list) \<times> vregs" where
  "mlp_forward_vmac_b W1p W2p input hidden output vr =
    (let (hidden, vr) = for_loop 0 HIDDEN_SIZE 1 (\<lambda>j (hidden, vr).
           case for_loop 0 INPUT_SIZE 8 (\<lambda>i (acc, vr).
                  let vr = vld_v1 input i vr; vr = vld_v2 (W1p ! j) i vr in (acc + vmac_b vr, vr)) (0, vr)
           of (acc, vr) \<Rightarrow> (hidden[j := relu_int8 acc], vr)) (hidden, vr);
         (output, vr) = for_loop 0 OUTPUT_SIZE 1 (\<lambda>j (output, vr).
           case for_loop 0 HIDDEN_SIZE 8 (\<lambda>i (acc, vr).
                  let vr = vld_v1 hidden i vr; vr = vld_v2 (W2p ! j) i vr in (acc + vmac_b vr, vr)) (0, vr)
           of (acc, vr) \<Rightarrow> (output[j := relu_int8 acc], vr)) (output, vr)
     in ((argmax_pred OUTPUT_SIZE output, hidden, output), vr))"

text \<open>\<open>(acc < 0) ? 0 : (acc > 32767 ? 32767 : (int16_t)acc)\<close> and \<open>(acc < 0) ? 0 : acc\<close>.\<close>

definition relu_int16 :: "i32 \<Rightarrow> i16" where
  "relu_int16 acc = (if acc <s 0 then 0 else if 32767 <s acc then 32767 else ucast acc)"

definition relu_int32 :: "i32 \<Rightarrow> i32" where
  "relu_int32 acc = (if acc <s 0 then 0 else acc)"

definition mlp_forward_vmac_h :: "i16 list list \<Rightarrow> i16 list list \<Rightarrow> i16 list \<Rightarrow> i16 list \<Rightarrow> i16 list \<Rightarrow> vregs
    \<Rightarrow> (nat \<times> i16 list \<times> i16 list) \<times> vregs" where
  "mlp_forward_vmac_h W1p W2p input hidden output vr =
    (let (hidden, vr) = for_loop 0 HIDDEN_SIZE 1 (\<lambda>j (hidden, vr).
           case for_loop 0 INPUT_SIZE 4 (\<lambda>i (acc, vr).
                  let vr = vld_v1 input i vr; vr = vld_v2 (W1p ! j) i vr in (acc + vmac_h vr, vr)) (0, vr)
           of (acc, vr) \<Rightarrow> (hidden[j := relu_int16 acc], vr)) (hidden, vr);
         (output, vr) = for_loop 0 OUTPUT_SIZE 1 (\<lambda>j (output, vr).
           case for_loop 0 HIDDEN_SIZE 4 (\<lambda>i (acc, vr).
                  let vr = vld_v1 hidden i vr; vr = vld_v2 (W2p ! j) i vr in (acc + vmac_h vr, vr)) (0, vr)
           of (acc, vr) \<Rightarrow> (output[j := relu_int16 acc], vr)) (output, vr)
     in ((argmax_pred OUTPUT_SIZE output, hidden, output), vr))"

definition mlp_forward_vmac_w :: "i32 list list \<Rightarrow> i32 list list \<Rightarrow> i32 list \<Rightarrow> i32 list \<Rightarrow> i32 list \<Rightarrow> vregs
    \<Rightarrow> (nat \<times> i32 list \<times> i32 list) \<times> vregs" where
  "mlp_forward_vmac_w W1p W2p input hidden output vr =
    (let (hidden, vr) = for_loop 0 HIDDEN_SIZE 1 (\<lambda>j (hidden, vr).
           case for_loop 0 INPUT_SIZE 2 (\<lambda>i (acc, vr).
                  let vr = vld_v1 input i vr; vr = vld_v2 (W1p ! j) i vr in (acc + vmac_w vr, vr)) (0, vr)
           of (acc, vr) \<Rightarrow> (hidden[j := relu_int32 acc], vr)) (hidden, vr);
         (output, vr) = for_loop 0 OUTPUT_SIZE 1 (\<lambda>j (output, vr).
           case for_loop 0 HIDDEN_SIZE 2 (\<lambda>i (acc, vr).
                  let vr = vld_v1 hidden i vr; vr = vld_v2 (W2p ! j) i vr in (acc + vmac_w vr, vr)) (0, vr)
           of (acc, vr) \<Rightarrow> (output[j := relu_int32 acc], vr)) (output, vr)
     in ((argmax_pred OUTPUT_SIZE output, hidden, output), vr))"

section \<open>Main\<close>

text \<open>
  The buffers of \<open>main\<close> and its globals.  \<open>img\<close> is the quantised test image: the value of
  \<open>(int8_t)(test_images[0][i] * 127.0f)\<close> for pixel \<open>i\<close>, whose floating-point arithmetic is that
  of the C library.  The cycle counter is read six times; \<open>cycles k\<close> is the value of the
  \<open>k\<close>-th read, which no later statement uses.
\<close>

record sew_state =
  sw_input :: "i8 list"
  sw_hidden :: "i8 list"
  sw_output :: "i8 list"
  sw_input_h :: "i16 list"
  sw_hidden_h :: "i16 list"
  sw_output_h :: "i16 list"
  sw_input_w :: "i32 list"
  sw_hidden_w :: "i32 list"
  sw_output_w :: "i32 list"
  sw_weights :: packed_weights
  sw_vregs :: vregs
  sw_counters :: "i32 list"
  sw_stdout :: string

definition run_scalar :: "sew_state \<Rightarrow> sew_state" where
  "run_scalar s = (case mlp_forward_scalar (W1_packed (sw_weights s)) (W2_packed (sw_weights s))
       (sw_input s) (sw_hidden s) (sw_output s)
     of (pred, h, out) \<Rightarrow> s\<lparr>sw_hidden := h, sw_output := out\<rparr>)"

definition run_pvmac :: "sew_state \<Rightarrow> sew_state" where
  "run_pvmac s = (case mlp_forward_pvmac (W1_packed (sw_weights s)) (W2_packed (sw_weights s))
       (sw_input s) (sw_hidden s) (sw_output s)
     of (pred, h, out) \<Rightarrow> s\<lparr>sw_hidden := h, sw_output := out\<rparr>)"

definition run_vmac_b :: "sew_state \<Rightarrow> sew_state" where
  "run_vmac_b s = (case mlp_forward_vmac_b (W1_packed (sw_weights s)) (W2_packed (sw_weights s))
       (sw_input s) (sw_hidden s) (sw_output s) (sw_vregs s)
     of ((pred, h, out), vr) \<Rightarrow> s\<lparr>sw_hidden := h, sw_output := out, sw_vregs := vr\<rparr>)"

definition run_vmac_h :: "sew_state \<Rightarrow> sew_state" where
  "run_vmac_h s = (case mlp_forward_vmac_h (W1_packed_h (sw_weights s)) (W2_packed_h (sw_weights s))
       (sw_input_h s) (sw_hidden_h s) (sw_output_h s) (sw_vregs s)
     of ((pred, h, out), vr) \<Rightarrow> s\<lparr>sw_hidden_h := h, sw_output_h := out, sw_vregs := vr\<rparr>)"

definition run_vmac_w :: "sew_state \<Rightarrow> sew_state" where
  "run_vmac_w s = (case mlp_forward_vmac_w (W1_packed_w (sw_weights s)) (W2_packed_w (sw_weights s))
       (sw_input_w s) (sw_hidden_w s) (sw_output_w s) (sw_vregs s)
     of ((pred, h, out), vr) \<Rightarrow> s\<lparr>sw_hidden_w := h, sw_output_w := out, sw_vregs := vr\<rparr>)"

definition read_counter_at :: "(nat \<Rightarrow> i32) \<Rightarrow> nat \<Rightarrow> sew_state \<Rightarrow> sew_state" where
  "read_counter_at cycles k s = s\<lparr>sw_counters := sw_counters s @ [cycles k]\<rparr>"

definition prepare_input :: "(nat \<Rightarrow> i8) \<Rightarrow> sew_state \<Rightarrow> sew_state" where
  "prepare_input img = for_loop 0 INPUT_SIZE 1 (\<lambda>i s. let val = img i in
     s\<lparr>sw_input := (sw_input s)[i := val], sw_input_h := (sw_input_h s)[i := scast val],
       sw_input_w := (sw_input_w s)[i := scast val]\<rparr>)"

definition sew_main :: "(nat \<Rightarrow> i8) \<Rightarrow> i8 list list \<Rightarrow> i8 list list \<Rightarrow> (nat \<Rightarrow> i32) \<Rightarrow> sew_state \<Rightarrow> sew_state" where
  "sew_main img W1_i8 W2_i8 cycles s =
    (let s = s\<lparr>sw_stdout := sw_stdout s @ ''=== SEW Compare ==='' @ [CHR 0x0A]\<rparr>;
         s = prepare_input img s;
         s = s\<lparr>sw_weights := prepare_weights W1_i8 W2_i8 (sw_weights s)\<rparr>;
         s = run_vmac_w (run_vmac_h (run_vmac_b (run_pvmac (run_scalar s))));
         s = run_scalar (read_counter_at cycles 0 s);
         s = run_pvmac (read_counter_at cycles 1 s);
         s = run_vmac_b (read_counter_at cycles 2 s);
         s = run_vmac_h (read_counter_at cycles 3 s);
         s = run_vmac_w (read_counter_at cycles 4 s);
         s = read_counter_at cycles 5 s
     in s\<lparr>sw_stdout := sw_stdout s @ ''Done.'' @ [CHR 0x0A]\<rparr>)"

section \<open>Every pass computes the reference network\<close>

lemma layer_spec_comp: "layer_spec act n_in n_out W xs = map (act \<circ> (\<lambda>j. word_of_int (dot_int n_in xs (W ! j)))) [0..<n_out]"
  by (simp add: layer_spec_def o_def)

lemma scalar_layer:
  fixes xs :: "i8 list"
  assumes "n_in \<le> length xs" "\<forall>j<n_out. n_in \<le> length (W ! j)" "length h = n_out"
  shows "for_loop 0 n_out 1 (\<lambda>j h. h[j := act
      (for_loop 0 n_in 1 (\<lambda>i acc. acc + scast (xs ! i) * scast (W ! j ! i)) 0)]) h = layer_spec act n_in n_out W xs"
  unfolding layer_spec_comp using assms by (intro layer_fold scalar_mac.kernel_loop) simp_all

lemma pvmac_layer:
  fixes xs :: "i8 list"
  assumes "n_in = m * 4" "n_in \<le> length xs" "\<forall>j<n_out. n_in \<le> length (W ! j)" "length h = n_out"
  shows "for_loop 0 n_out 1 (\<lambda>j h. h[j := act
      (for_loop 0 n_in 4 (\<lambda>i acc. acc + pvmac (array_word xs i) (array_word (W ! j) i)) 0)]) h
     = layer_spec act n_in n_out W xs"
  unfolding layer_spec_comp using assms by (intro layer_fold pvmac_kernel.kernel_loop) simp_all

text \<open>A vectorised layer, for any kernel that meets the contract whatever the registers hold.\<close>

lemma vec_row:
  fixes xs :: "'a::len word list"
  assumes ker: "\<And>vr. mac_kernel l (\<lambda>(xs :: 'a word list) ys i. g (vld_v2 ys i (vld_v1 xs i vr)))"
    and n: "n = m * l" "n \<le> length xs" "n \<le> length ys"
  shows "fst (for_loop 0 n l (\<lambda>i (acc, vr).
      let vr = vld_v1 xs i vr; vr = vld_v2 ys i vr in (acc + g vr, vr)) (0, vr)) = word_of_int (dot_int n xs ys)"
proof -
  let ?f = "\<lambda>i vr. vld_v2 ys i (vld_v1 xs i vr)"
  have pos: "0 < l" using ker mac_kernel.lanes_pos by blast
  have "g (?f (u * l) vr) = g (?f (u * l) (\<lambda>_. 0))" if "u < m" for u vr
  proof -
    have "Suc u * l \<le> n" unfolding n(1) using that by (intro mult_le_mono1) simp
    then have "u * l + l \<le> length xs" "u * l + l \<le> length ys" using n by simp_all
    then show ?thesis by (simp only: mac_kernel.kernel_dot [OF ker])
  qed
  then have "fst (for_loop 0 n l (\<lambda>i (acc, vr). (acc + g (?f i vr), ?f i vr)) (0, vr))
      = for_loop 0 n l (\<lambda>i acc. acc + g (?f i (\<lambda>_. 0))) 0"
    by (intro for_loop_vregs [OF pos n(1)])
  also have "\<dots> = word_of_int (dot_int n xs ys)" by (rule mac_kernel.kernel_loop [OF ker n])
  finally show ?thesis by (simp add: Let_def)
qed

lemma vec_layer:
  fixes xs :: "'a::len word list"
  assumes ker: "\<And>vr. mac_kernel l (\<lambda>(xs :: 'a word list) ys i. g (vld_v2 ys i (vld_v1 xs i vr)))"
    and "n_in = m * l" "n_in \<le> length xs" "\<forall>j<n_out. n_in \<le> length (W ! j)" "length h = n_out"
  shows "fst (for_loop 0 n_out 1 (\<lambda>j (h, vr).
           case for_loop 0 n_in l (\<lambda>i (acc, vr).
                  let vr = vld_v1 xs i vr; vr = vld_v2 (W ! j) i vr in (acc + g vr, vr)) (0, vr)
           of (acc, vr) \<Rightarrow> (h[j := act acc], vr)) (h, vr)) = layer_spec act n_in n_out W xs"
proof -
  have "fst (for_loop 0 n_in l (\<lambda>i (acc, vr).
      let vr = vld_v1 xs i vr; vr = vld_v2 (W ! j) i vr in (acc + g vr, vr)) (0, vr))
    = word_of_int (dot_int n_in xs (W ! j))" if "j < n_out" for j vr
    by (rule vec_row [OF ker assms(2,3)]) (use that assms(4) in blast)
  then show ?thesis unfolding layer_spec_comp using assms(5) by (intro layer_fold_vregs) simp_all
qed

lemma scalar_forward:
  "mlp_dims W1 W2 input hidden output \<Longrightarrow> mlp_forward_scalar W1 W2 input hidden output = forward_spec relu_int8 W1 W2 input"
  by (simp add: mlp_forward_scalar_def forward_spec_def mlp_dims_def scalar_layer [simplified] Let_def)

lemma dims_blocks: "INPUT_SIZE = 196 * 4" "HIDDEN_SIZE = 8 * 4" "INPUT_SIZE = 98 * 8" "HIDDEN_SIZE = 4 * 8"
  "INPUT_SIZE = 392 * 2" "HIDDEN_SIZE = 16 * 2"
  by (simp_all add: size_defs)

lemma pvmac_forward:
  "mlp_dims W1 W2 input hidden output \<Longrightarrow> mlp_forward_pvmac W1 W2 input hidden output = forward_spec relu_int8 W1 W2 input"
  by (simp add: mlp_forward_pvmac_def forward_spec_def mlp_dims_def Let_def
      pvmac_layer [OF dims_blocks(1), simplified] pvmac_layer [OF dims_blocks(2), simplified])

lemma vec_forward:
  fixes input :: "'a::len word list"
  assumes ker: "\<And>vr. mac_kernel l (\<lambda>(xs :: 'a word list) ys i. g (vld_v2 ys i (vld_v1 xs i vr)))"
    and blocks: "INPUT_SIZE = m1 * l" "HIDDEN_SIZE = m2 * l" and dims: "mlp_dims W1 W2 input hidden output"
  shows "fst (let (hidden, vr) = for_loop 0 HIDDEN_SIZE 1 (\<lambda>j (hidden, vr).
           case for_loop 0 INPUT_SIZE l (\<lambda>i (acc, vr).
                  let vr = vld_v1 input i vr; vr = vld_v2 (W1 ! j) i vr in (acc + g vr, vr)) (0, vr)
           of (acc, vr) \<Rightarrow> (hidden[j := act acc], vr)) (hidden, vr);
         (output, vr) = for_loop 0 OUTPUT_SIZE 1 (\<lambda>j (output, vr).
           case for_loop 0 HIDDEN_SIZE l (\<lambda>i (acc, vr).
                  let vr = vld_v1 hidden i vr; vr = vld_v2 (W2 ! j) i vr in (acc + g vr, vr)) (0, vr)
           of (acc, vr) \<Rightarrow> (output[j := act acc], vr)) (output, vr)
     in ((argmax_pred OUTPUT_SIZE output, hidden, output), vr)) = forward_spec act W1 W2 input"
    (is "fst (let (hidden, vr) = ?H; (out, vr) = ?O hidden vr in ((argmax_pred OUTPUT_SIZE out, hidden, out), vr)) = _")
proof -
  have H: "fst ?H = layer_spec act INPUT_SIZE HIDDEN_SIZE W1 input"
    by (rule vec_layer [OF ker blocks(1)]) (use dims in \<open>simp_all add: mlp_dims_def\<close>)
  have O: "fst (?O h vr) = layer_spec act HIDDEN_SIZE OUTPUT_SIZE W2 h" if "length h = HIDDEN_SIZE" for h vr
    by (rule vec_layer [OF ker blocks(2)]) (use dims that in \<open>simp_all add: mlp_dims_def\<close>)
  obtain hid vr1 where HE: "?H = (hid, vr1)" by fastforce
  with H have hid: "hid = layer_spec act INPUT_SIZE HIDDEN_SIZE W1 input" by simp
  obtain out vr2 where OE: "?O hid vr1 = (out, vr2)" by fastforce
  with O [of hid vr1] hid have "out = layer_spec act HIDDEN_SIZE OUTPUT_SIZE W2 hid" by simp
  then show ?thesis unfolding HE let_pair OE using hid by (simp add: forward_spec_def Let_def)
qed

lemma vmac_b_forward:
  "mlp_dims W1 W2 input hidden output \<Longrightarrow>
   fst (mlp_forward_vmac_b W1 W2 input hidden output vr) = forward_spec relu_int8 W1 W2 input"
  unfolding mlp_forward_vmac_b_def by (rule vec_forward [OF vmac_b_kernel.mac_kernel_axioms dims_blocks(3,4)])

lemma vmac_h_forward:
  "mlp_dims W1 W2 input hidden output \<Longrightarrow>
   fst (mlp_forward_vmac_h W1 W2 input hidden output vr) = forward_spec relu_int16 W1 W2 input"
  unfolding mlp_forward_vmac_h_def by (rule vec_forward [OF vmac_h_kernel.mac_kernel_axioms dims_blocks(1,2)])

lemma vmac_w_forward:
  "mlp_dims W1 W2 input hidden output \<Longrightarrow>
   fst (mlp_forward_vmac_w W1 W2 input hidden output vr) = forward_spec relu_int32 W1 W2 input"
  unfolding mlp_forward_vmac_w_def by (rule vec_forward [OF vmac_w_kernel.mac_kernel_axioms dims_blocks(5,6)])

section \<open>Weight preparation transposes and widens\<close>

definition packed_rows :: "(i8 \<Rightarrow> 'a::len word) \<Rightarrow> nat \<Rightarrow> nat \<Rightarrow> i8 list list \<Rightarrow> 'a word list list" where
  "packed_rows f n_in n_out W = map (\<lambda>j. map (\<lambda>i. f (W ! i ! j)) [0..<n_in]) [0..<n_out]"

definition matrix_dims :: "nat \<Rightarrow> nat \<Rightarrow> 'a list list \<Rightarrow> bool" where
  "matrix_dims r c M \<longleftrightarrow> length M = r \<and> (\<forall>row \<in> set M. length row = c)"

lemma set2_fill_row:
  "j < length M \<Longrightarrow> length (M ! j) = n \<Longrightarrow> fold (\<lambda>i. set2 j i (f i)) [0..<n] M = M[j := map f [0..<n]]"
proof -
  assume M: "j < length M" "length (M ! j) = n"
  have "fold (\<lambda>i. set2 j i (f i)) js M = M[j := fold (\<lambda>i r. r[i := f i]) js (M ! j)]" for js
    using M(1) by (induction js arbitrary: M) (simp_all add: set2_def)
  then show ?thesis using M fold_upd_fill [of n "M ! j" f] by simp
qed

lemma matrix_fill:
  assumes "matrix_dims m n M"
  shows "fold (\<lambda>j. fold (\<lambda>i. set2 j i (f i j)) [0..<n]) [0..<m] M = map (\<lambda>j. map (\<lambda>i. f i j) [0..<n]) [0..<m]"
proof -
  have "fold (\<lambda>j. fold (\<lambda>i. set2 j i (f i j)) [0..<n]) [0..<k] M = map (\<lambda>j. map (\<lambda>i. f i j) [0..<n]) [0..<k] @ drop k M"
    if "k \<le> m" for k
    using that
  proof (induction k)
    case 0
    then show ?case by simp
  next
    case (Suc k)
    then have "k < length M" using assms by (simp add: matrix_dims_def)
    moreover from this have "length (M ! k) = n" using assms by (simp add: matrix_dims_def)
    moreover have "drop k M = M ! k # drop (Suc k) M" using \<open>k < length M\<close> by (simp add: Cons_nth_drop_Suc)
    ultimately show ?case
      using Suc by (simp add: set2_fill_row nth_append list_update_append)
  qed
  from this [of m] show ?thesis using assms by (simp add: matrix_dims_def)
qed

definition weights_dims :: "packed_weights \<Rightarrow> bool" where
  "weights_dims w \<longleftrightarrow>
     matrix_dims HIDDEN_SIZE INPUT_SIZE (W1_packed w) \<and> matrix_dims OUTPUT_SIZE HIDDEN_SIZE (W2_packed w) \<and>
     matrix_dims HIDDEN_SIZE INPUT_SIZE (W1_packed_h w) \<and> matrix_dims OUTPUT_SIZE HIDDEN_SIZE (W2_packed_h w) \<and>
     matrix_dims HIDDEN_SIZE INPUT_SIZE (W1_packed_w w) \<and> matrix_dims OUTPUT_SIZE HIDDEN_SIZE (W2_packed_w w)"

lemma fold_proj:
  assumes "\<And>i w. P (u i w) = v i (P w)"
  shows "P (fold u js w) = fold v js (P w)"
  by (induction js arbitrary: w) (simp_all add: assms)

lemma nested_proj:
  assumes "\<And>i j w. P (u j i w) = v j i (P w)"
  shows "P (fold (\<lambda>j. fold (u j) is) js w) = fold (\<lambda>j. fold (v j) is) js (P w)"
  using assms by (intro fold_proj)

lemma nested_keep: "(\<And>i j w. P (u j i w) = P w) \<Longrightarrow> P (fold (\<lambda>j. fold (u j) is) js w) = P w"
proof -
  assume keep: "\<And>i j w. P (u j i w) = P w"
  have inner: "P (fold (u j) is w) = P w" for j w
    by (induction "is" arbitrary: w) (simp_all add: keep)
  show ?thesis by (induction js arbitrary: w) (simp_all add: inner)
qed

lemma prepare_weights_fields:
  fixes W1_i8 W2_i8 w
  defines "w' \<equiv> prepare_weights W1_i8 W2_i8 w"
  shows "W1_packed w' = fold (\<lambda>j. fold (\<lambda>i. set2 j i (W1_i8 ! i ! j)) [0..<INPUT_SIZE]) [0..<HIDDEN_SIZE] (W1_packed w)"
    "W1_packed_h w' = fold (\<lambda>j. fold (\<lambda>i. set2 j i (scast (W1_i8 ! i ! j))) [0..<INPUT_SIZE]) [0..<HIDDEN_SIZE] (W1_packed_h w)"
    "W1_packed_w w' = fold (\<lambda>j. fold (\<lambda>i. set2 j i (scast (W1_i8 ! i ! j))) [0..<INPUT_SIZE]) [0..<HIDDEN_SIZE] (W1_packed_w w)"
    "W2_packed w' = fold (\<lambda>j. fold (\<lambda>i. set2 j i (W2_i8 ! i ! j)) [0..<HIDDEN_SIZE]) [0..<OUTPUT_SIZE] (W2_packed w)"
    "W2_packed_h w' = fold (\<lambda>j. fold (\<lambda>i. set2 j i (scast (W2_i8 ! i ! j))) [0..<HIDDEN_SIZE]) [0..<OUTPUT_SIZE] (W2_packed_h w)"
    "W2_packed_w w' = fold (\<lambda>j. fold (\<lambda>i. set2 j i (scast (W2_i8 ! i ! j))) [0..<HIDDEN_SIZE]) [0..<OUTPUT_SIZE] (W2_packed_w w)"
  unfolding w'_def prepare_weights_def Let_def One_nat_def for_loop_fold1
  subgoal by (subst nested_keep, simp, rule nested_proj, simp)
  subgoal by (subst nested_keep, simp, rule nested_proj, simp)
  subgoal by (subst nested_keep, simp, rule nested_proj, simp)
  subgoal by (rule trans [OF nested_proj], simp, subst nested_keep [where P = W2_packed], simp_all)
  subgoal by (rule trans [OF nested_proj], simp, subst nested_keep [where P = W2_packed_h], simp_all)
  subgoal by (rule trans [OF nested_proj], simp, subst nested_keep [where P = W2_packed_w], simp_all)
  done

lemma prepare_weights_packed:
  assumes "weights_dims w"
  shows "prepare_weights W1_i8 W2_i8 w =
    \<lparr>W1_packed = packed_rows id INPUT_SIZE HIDDEN_SIZE W1_i8, W2_packed = packed_rows id HIDDEN_SIZE OUTPUT_SIZE W2_i8,
     W1_packed_h = packed_rows scast INPUT_SIZE HIDDEN_SIZE W1_i8, W2_packed_h = packed_rows scast HIDDEN_SIZE OUTPUT_SIZE W2_i8,
     W1_packed_w = packed_rows scast INPUT_SIZE HIDDEN_SIZE W1_i8, W2_packed_w = packed_rows scast HIDDEN_SIZE OUTPUT_SIZE W2_i8\<rparr>"
  using assms
  by (simp add: packed_weights.equality prepare_weights_fields weights_dims_def packed_rows_def
      matrix_fill [where f = "\<lambda>i j. W1_i8 ! i ! j"] matrix_fill [where f = "\<lambda>i j. W2_i8 ! i ! j"]
      matrix_fill [where f = "\<lambda>i j. scast (W1_i8 ! i ! j)"] matrix_fill [where f = "\<lambda>i j. scast (W2_i8 ! i ! j)"])

section \<open>Exactness\<close>

text \<open>Products of \<open>int8\<close> values are small enough that no accumulator of the network overflows.\<close>

lemma dot_int_bound:
  fixes xs ys :: "'a::len word list"
  assumes "\<forall>i<n. \<bar>sint (xs ! i)\<bar> \<le> a" "\<forall>i<n. \<bar>sint (ys ! i)\<bar> \<le> b" "0 \<le> a"
  shows "\<bar>dot_int n xs ys\<bar> \<le> int n * (a * b)"
  using assms(1,2)
proof (induction n)
  case 0
  then show ?case by (simp add: dot_int_def)
next
  case (Suc n)
  have "\<bar>sint (xs ! n) * sint (ys ! n)\<bar> \<le> a * b"
    unfolding abs_mult using Suc.prems assms(3) by (intro mult_mono) auto
  moreover have "\<bar>dot_int n xs ys\<bar> \<le> int n * (a * b)" using Suc by simp
  moreover have "dot_int (Suc n) xs ys = dot_int n xs ys + sint (xs ! n) * sint (ys ! n)"
    by (simp add: dot_int_def)
  ultimately show ?case by (simp add: algebra_simps)
qed

lemma sint_abs8: "\<bar>sint (x :: i8)\<bar> \<le> 128"
  using sint_range8 [of x] by auto

lemma dot_int8_fits: "n \<le> INPUT_SIZE \<Longrightarrow> fits TYPE(32) (dot_int n (xs :: i8 list) ys)"
  using dot_int_bound [of n xs 128 ys 128] by (auto simp: fits_def sint_abs8 size_defs)

definition exact_forward :: "i8 list list \<Rightarrow> i8 list list \<Rightarrow> i8 list \<Rightarrow> i8 list \<times> i8 list" where
  "exact_forward W1 W2 input =
    (let hidden = map (\<lambda>j. word_of_int (clamp 127 (dot_int INPUT_SIZE input (W1 ! j)))) [0..<HIDDEN_SIZE]
     in (hidden, map (\<lambda>j. word_of_int (clamp 127 (dot_int HIDDEN_SIZE hidden (W2 ! j)))) [0..<OUTPUT_SIZE]))"

lemma forward_exact: "snd (forward_spec relu_int8 W1 W2 input) = exact_forward W1 W2 input"
  by (simp add: forward_spec_def exact_forward_def layer_spec_def Let_def relu_int8_clamp dot_int8_fits size_defs
      cong: map_cong)

section \<open>Main, end to end\<close>

definition sew_dims :: "sew_state \<Rightarrow> bool" where
  "sew_dims s \<longleftrightarrow> length (sw_input s) = INPUT_SIZE \<and> length (sw_input_h s) = INPUT_SIZE \<and> length (sw_input_w s) = INPUT_SIZE \<and>
     length (sw_hidden s) = HIDDEN_SIZE \<and> length (sw_hidden_h s) = HIDDEN_SIZE \<and> length (sw_hidden_w s) = HIDDEN_SIZE \<and>
     length (sw_output s) = OUTPUT_SIZE \<and> length (sw_output_h s) = OUTPUT_SIZE \<and> length (sw_output_w s) = OUTPUT_SIZE \<and>
     weights_dims (sw_weights s)"

text \<open>What one run of each pass leaves in the buffers.\<close>

definition after_b :: "sew_state \<Rightarrow> i8 list \<times> i8 list" where
  "after_b s = snd (forward_spec relu_int8 (W1_packed (sw_weights s)) (W2_packed (sw_weights s)) (sw_input s))"

definition after_h :: "sew_state \<Rightarrow> i16 list \<times> i16 list" where
  "after_h s = snd (forward_spec relu_int16 (W1_packed_h (sw_weights s)) (W2_packed_h (sw_weights s)) (sw_input_h s))"

definition after_w :: "sew_state \<Rightarrow> i32 list \<times> i32 list" where
  "after_w s = snd (forward_spec relu_int32 (W1_packed_w (sw_weights s)) (W2_packed_w (sw_weights s)) (sw_input_w s))"

lemma dims_of_state:
  assumes "sew_dims s"
  shows "mlp_dims (W1_packed (sw_weights s)) (W2_packed (sw_weights s)) (sw_input s) (sw_hidden s) (sw_output s)"
    "mlp_dims (W1_packed_h (sw_weights s)) (W2_packed_h (sw_weights s)) (sw_input_h s) (sw_hidden_h s) (sw_output_h s)"
    "mlp_dims (W1_packed_w (sw_weights s)) (W2_packed_w (sw_weights s)) (sw_input_w s) (sw_hidden_w s) (sw_output_w s)"
  using assms by (auto simp: sew_dims_def mlp_dims_def weights_dims_def matrix_dims_def)

lemma run_i8:
  assumes "sew_dims s"
  shows "run_scalar s = s\<lparr>sw_hidden := fst (after_b s), sw_output := snd (after_b s)\<rparr>"
    "run_pvmac s = s\<lparr>sw_hidden := fst (after_b s), sw_output := snd (after_b s)\<rparr>"
    "\<exists>vr. run_vmac_b s = s\<lparr>sw_hidden := fst (after_b s), sw_output := snd (after_b s), sw_vregs := vr\<rparr>"
proof -
  note dims = dims_of_state(1) [OF assms]
  show "run_scalar s = s\<lparr>sw_hidden := fst (after_b s), sw_output := snd (after_b s)\<rparr>"
    "run_pvmac s = s\<lparr>sw_hidden := fst (after_b s), sw_output := snd (after_b s)\<rparr>"
    by (simp_all add: run_scalar_def run_pvmac_def after_b_def scalar_forward [OF dims] pvmac_forward [OF dims] split_beta)
  show "\<exists>vr. run_vmac_b s = s\<lparr>sw_hidden := fst (after_b s), sw_output := snd (after_b s), sw_vregs := vr\<rparr>"
    unfolding run_vmac_b_def after_b_def vmac_b_forward [OF dims, of "sw_vregs s", symmetric]
    by (auto simp: split_beta)
qed

lemma run_i16_i32:
  assumes "sew_dims s"
  shows "\<exists>vr. run_vmac_h s = s\<lparr>sw_hidden_h := fst (after_h s), sw_output_h := snd (after_h s), sw_vregs := vr\<rparr>"
    "\<exists>vr. run_vmac_w s = s\<lparr>sw_hidden_w := fst (after_w s), sw_output_w := snd (after_w s), sw_vregs := vr\<rparr>"
  unfolding run_vmac_h_def after_h_def vmac_h_forward [OF dims_of_state(2) [OF assms], of "sw_vregs s", symmetric]
    run_vmac_w_def after_w_def vmac_w_forward [OF dims_of_state(3) [OF assms], of "sw_vregs s", symmetric]
  by (auto simp: split_beta)

text \<open>
  The passes do not touch what they read, so every further run leaves the buffers as the first
  one did.
\<close>

definition same_data :: "sew_state \<Rightarrow> sew_state \<Rightarrow> bool" where
  "same_data s t \<longleftrightarrow> sew_dims t \<and> sw_weights t = sw_weights s \<and> sw_input t = sw_input s \<and>
     sw_input_h t = sw_input_h s \<and> sw_input_w t = sw_input_w s \<and> sw_stdout t = sw_stdout s"

definition all_results :: "sew_state \<Rightarrow> (i8 list \<times> i8 list) \<times> (i16 list \<times> i16 list) \<times> (i32 list \<times> i32 list)" where
  "all_results s = ((sw_hidden s, sw_output s), (sw_hidden_h s, sw_output_h s), (sw_hidden_w s, sw_output_w s))"

lemma length_forward_spec [simp]:
  "length (fst (snd (forward_spec act W1 W2 input))) = HIDDEN_SIZE"
  "length (snd (snd (forward_spec act W1 W2 input))) = OUTPUT_SIZE"
  by (simp_all add: forward_spec_def Let_def)

lemma run_step:
  assumes "same_data s t"
  shows "same_data s (run_scalar t) \<and> all_results (run_scalar t) = (after_b s, snd (all_results t))"
    "same_data s (run_pvmac t) \<and> all_results (run_pvmac t) = (after_b s, snd (all_results t))"
    "same_data s (run_vmac_b t) \<and> all_results (run_vmac_b t) = (after_b s, snd (all_results t))"
    "same_data s (run_vmac_h t) \<and> all_results (run_vmac_h t) = (fst (all_results t), after_h s, snd (snd (all_results t)))"
    "same_data s (run_vmac_w t) \<and> all_results (run_vmac_w t) = (fst (all_results t), fst (snd (all_results t)), after_w s)"
    "same_data s (read_counter_at cycles k t) \<and> all_results (read_counter_at cycles k t) = all_results t"
proof -
  have t: "sew_dims t" using assms by (simp add: same_data_def)
  note simps = all_results_def after_b_def after_h_def after_w_def same_data_def sew_dims_def
  show "same_data s (run_scalar t) \<and> all_results (run_scalar t) = (after_b s, snd (all_results t))"
    "same_data s (run_pvmac t) \<and> all_results (run_pvmac t) = (after_b s, snd (all_results t))"
    using assms by (auto simp: run_i8(1,2) [OF t] simps)
  show "same_data s (run_vmac_b t) \<and> all_results (run_vmac_b t) = (after_b s, snd (all_results t))"
    using assms run_i8(3) [OF t] by (auto simp: simps)
  show "same_data s (run_vmac_h t) \<and> all_results (run_vmac_h t) = (fst (all_results t), after_h s, snd (snd (all_results t)))"
    using assms run_i16_i32(1) [OF t] by (auto simp: simps)
  show "same_data s (run_vmac_w t) \<and> all_results (run_vmac_w t) = (fst (all_results t), fst (snd (all_results t)), after_w s)"
    using assms run_i16_i32(2) [OF t] by (auto simp: simps)
  show "same_data s (read_counter_at cycles k t) \<and> all_results (read_counter_at cycles k t) = all_results t"
    using assms by (auto simp: read_counter_at_def simps)
qed

lemma prepare_input_fields:
  fixes img s
  defines "s' \<equiv> prepare_input img s"
  assumes "length (sw_input s) = INPUT_SIZE" "length (sw_input_h s) = INPUT_SIZE" "length (sw_input_w s) = INPUT_SIZE"
  shows "s' = s\<lparr>sw_input := map img [0..<INPUT_SIZE], sw_input_h := map (scast \<circ> img) [0..<INPUT_SIZE],
      sw_input_w := map (scast \<circ> img) [0..<INPUT_SIZE]\<rparr>"
proof -
  have "fold (\<lambda>i s. s\<lparr>sw_input := (sw_input s)[i := img i], sw_input_h := (sw_input_h s)[i := scast (img i)],
       sw_input_w := (sw_input_w s)[i := scast (img i)]\<rparr>) js s
    = s\<lparr>sw_input := fold (\<lambda>i xs. xs[i := img i]) js (sw_input s),
        sw_input_h := fold (\<lambda>i xs. xs[i := (scast \<circ> img) i]) js (sw_input_h s),
        sw_input_w := fold (\<lambda>i xs. xs[i := (scast \<circ> img) i]) js (sw_input_w s)\<rparr>" for js
    by (induction js arbitrary: s) simp_all
  then show ?thesis
    using assms by (simp add: prepare_input_def for_loop_fold1 Let_def fold_upd_fill)
qed

lemma weights_dims_prepared:
  "weights_dims w \<Longrightarrow> weights_dims (prepare_weights W1_i8 W2_i8 w)"
  by (auto simp: prepare_weights_packed weights_dims_def matrix_dims_def packed_rows_def)

lemma same_data_refl: "sew_dims s \<Longrightarrow> same_data s s"
  by (simp add: same_data_def)

text \<open>All ten runs of \<open>main\<close> from a state whose weights and input are prepared.\<close>

lemma all_runs:
  fixes s cycles
  assumes "sew_dims s"
  defines "t \<equiv> run_vmac_w (run_vmac_h (run_vmac_b (run_pvmac (run_scalar s))))"
  defines "t' \<equiv> read_counter_at cycles 5 (run_vmac_w (read_counter_at cycles 4 (run_vmac_h (read_counter_at cycles 3
     (run_vmac_b (read_counter_at cycles 2 (run_pvmac (read_counter_at cycles 1 (run_scalar (read_counter_at cycles 0 t))))))))))"
  shows "same_data s t' \<and> all_results t' = (after_b s, after_h s, after_w s)"
proof -
  note step = run_step [of s, THEN conjunct1]
  have "same_data s t" unfolding t_def by (intro step same_data_refl assms(1))
  then show ?thesis unfolding t'_def by (simp add: run_step [of s])
qed

text \<open>
  C27.  The firmware's \<open>main\<close>: whatever the image and the weights, the int8 buffers end up with
  the two layers computed in exact integer arithmetic and clamped to \<open>[0, 127]\<close> (no accumulator
  overflows, no SIMD lane interferes with another), the int16 and int32 buffers with the
  reference network on the widened data, and the two messages are printed.
\<close>

theorem sew_main_result:
  assumes "sew_dims s"
  shows "let s' = sew_main img W1_i8 W2_i8 cycles s in
    (sw_hidden s', sw_output s') = exact_forward (packed_rows id INPUT_SIZE HIDDEN_SIZE W1_i8)
        (packed_rows id HIDDEN_SIZE OUTPUT_SIZE W2_i8) (map img [0..<INPUT_SIZE])
    \<and> (sw_hidden_h s', sw_output_h s') = snd (forward_spec relu_int16 (packed_rows scast INPUT_SIZE HIDDEN_SIZE W1_i8)
        (packed_rows scast HIDDEN_SIZE OUTPUT_SIZE W2_i8) (map (scast \<circ> img) [0..<INPUT_SIZE]))
    \<and> (sw_hidden_w s', sw_output_w s') = snd (forward_spec relu_int32 (packed_rows scast INPUT_SIZE HIDDEN_SIZE W1_i8)
        (packed_rows scast HIDDEN_SIZE OUTPUT_SIZE W2_i8) (map (scast \<circ> img) [0..<INPUT_SIZE]))
    \<and> sw_stdout s' = sw_stdout s @ ''=== SEW Compare ==='' @ [CHR 0x0A] @ ''Done.'' @ [CHR 0x0A]"
proof -
  define s0 where "s0 = prepare_input img (s\<lparr>sw_stdout := sw_stdout s @ ''=== SEW Compare ==='' @ [CHR 0x0A]\<rparr>)"
  define s1 where "s1 = s0\<lparr>sw_weights := prepare_weights W1_i8 W2_i8 (sw_weights s0)\<rparr>"
  have s0: "s0 = s\<lparr>sw_stdout := sw_stdout s @ ''=== SEW Compare ==='' @ [CHR 0x0A], sw_input := map img [0..<INPUT_SIZE],
      sw_input_h := map (scast \<circ> img) [0..<INPUT_SIZE], sw_input_w := map (scast \<circ> img) [0..<INPUT_SIZE]\<rparr>"
    unfolding s0_def using assms(1) by (subst prepare_input_fields) (simp_all add: sew_dims_def)
  then have dims: "sew_dims s1" using assms(1) by (simp add: s1_def sew_dims_def weights_dims_prepared)
  have s1: "s1 = s0\<lparr>sw_weights := \<lparr>W1_packed = packed_rows id INPUT_SIZE HIDDEN_SIZE W1_i8,
      W2_packed = packed_rows id HIDDEN_SIZE OUTPUT_SIZE W2_i8,
      W1_packed_h = packed_rows scast INPUT_SIZE HIDDEN_SIZE W1_i8, W2_packed_h = packed_rows scast HIDDEN_SIZE OUTPUT_SIZE W2_i8,
      W1_packed_w = packed_rows scast INPUT_SIZE HIDDEN_SIZE W1_i8, W2_packed_w = packed_rows scast HIDDEN_SIZE OUTPUT_SIZE W2_i8\<rparr>\<rparr>"
    unfolding s1_def using assms(1) s0 by (subst prepare_weights_packed) (simp_all add: sew_dims_def)
  show ?thesis
    using all_runs [OF dims, of cycles] unfolding sew_main_def Let_def
    by (fold s0_def, fold s1_def)
      (simp add: all_results_def same_data_def after_b_def after_h_def after_w_def forward_exact, simp add: s1 s0)
qed

text \<open>The state before \<open>main\<close>: zero-initialised globals of the declared sizes.\<close>

definition sew_initial :: sew_state where
  "sew_initial = \<lparr>sw_input = replicate INPUT_SIZE 0, sw_hidden = replicate HIDDEN_SIZE 0, sw_output = replicate OUTPUT_SIZE 0,
     sw_input_h = replicate INPUT_SIZE 0, sw_hidden_h = replicate HIDDEN_SIZE 0, sw_output_h = replicate OUTPUT_SIZE 0,
     sw_input_w = replicate INPUT_SIZE 0, sw_hidden_w = replicate HIDDEN_SIZE 0, sw_output_w = replicate OUTPUT_SIZE 0,
     sw_weights = \<lparr>W1_packed = replicate HIDDEN_SIZE (replicate INPUT_SIZE 0), W2_packed = replicate OUTPUT_SIZE (replicate HIDDEN_SIZE 0),
       W1_packed_h = replicate HIDDEN_SIZE (replicate INPUT_SIZE 0), W2_packed_h = replicate OUTPUT_SIZE (replicate HIDDEN_SIZE 0),
       W1_packed_w = replicate HIDDEN_SIZE (replicate INPUT_SIZE 0), W2_packed_w = replicate OUTPUT_SIZE (replicate HIDDEN_SIZE 0)\<rparr>,
     sw_vregs = (\<lambda>_. 0), sw_counters = [], sw_stdout = []\<rparr>"

lemma sew_initial_dims: "sew_dims sew_initial"
  by (simp add: sew_initial_def sew_dims_def weights_dims_def matrix_dims_def)

theorem sew_main_result_witness:
  "sew_dims sew_initial \<and>
   sw_stdout (sew_main (\<lambda>i. word_of_nat i) (replicate INPUT_SIZE (replicate HIDDEN_SIZE 1))
     (replicate HIDDEN_SIZE (replicate OUTPUT_SIZE 1)) (\<lambda>k. word_of_nat k) sew_initial)
   = ''=== SEW Compare ==='' @ [CHR 0x0A] @ ''Done.'' @ [CHR 0x0A]"
proof -
  have "sw_stdout sew_initial = []" by (simp add: sew_initial_def)
  then show ?thesis
    using sew_main_result [OF sew_initial_dims, of "\<lambda>i. word_of_nat i" "replicate INPUT_SIZE (replicate HIDDEN_SIZE 1)"
      "replicate HIDDEN_SIZE (replicate OUTPUT_SIZE 1)" "\<lambda>k. word_of_nat k"] sew_initial_dims by (simp add: Let_def)
qed

section \<open>Properties of the passes\<close>

text \<open>Weights and buffers for the concrete instances below.\<close>

definition demo_W1 :: "i8 list list" where "demo_W1 = replicate HIDDEN_SIZE (replicate INPUT_SIZE 1)"
definition demo_W2 :: "i8 list list" where "demo_W2 = replicate OUTPUT_SIZE (replicate HIDDEN_SIZE (- 1))"
definition demo_input :: "i8 list" where "demo_input = replicate INPUT_SIZE 3"
definition demo_hidden :: "i8 list" where "demo_hidden = replicate HIDDEN_SIZE 0"
definition demo_output :: "i8 list" where "demo_output = replicate OUTPUT_SIZE 0"

lemmas demo_defs = demo_W1_def demo_W2_def demo_input_def demo_hidden_def demo_output_def

lemma demo_dims: "mlp_dims demo_W1 demo_W2 demo_input demo_hidden demo_output"
  by (simp add: mlp_dims_def demo_defs)

text \<open>
  C2.  The vectorised passes are equivalent to the scalar one: for all weights, inputs and
  initial register contents, PVMAC (4 lanes) and VMAC.B (8 lanes) return the same class and
  leave the same hidden and output buffers as the scalar loops.
\<close>

theorem simd_forward_agree:
  assumes "mlp_dims W1 W2 input hidden output"
  shows "mlp_forward_pvmac W1 W2 input hidden output = mlp_forward_scalar W1 W2 input hidden output
    \<and> fst (mlp_forward_vmac_b W1 W2 input hidden output vr) = mlp_forward_scalar W1 W2 input hidden output"
  using assms by (simp add: scalar_forward pvmac_forward vmac_b_forward)

theorem simd_forward_agree_witness:
  "mlp_dims demo_W1 demo_W2 demo_input demo_hidden demo_output \<and>
   fst (mlp_forward_vmac_b demo_W1 demo_W2 demo_input demo_hidden demo_output (\<lambda>_. 0))
     = mlp_forward_scalar demo_W1 demo_W2 demo_input demo_hidden demo_output"
  using simd_forward_agree [OF demo_dims] demo_dims by blast

text \<open>
  C28.  The scalar pass is exact: no int32 accumulator overflows, every activation is the integer
  dot product clamped to \<open>[0, 127]\<close>, and the returned class is the first index of a maximal
  output.
\<close>

theorem scalar_forward_exact:
  assumes "mlp_dims W1 W2 input hidden output"
  shows "let (pred, h, out) = mlp_forward_scalar W1 W2 input hidden output in
    (h, out) = exact_forward W1 W2 input \<and> first_max OUTPUT_SIZE out pred"
proof -
  have "first_max OUTPUT_SIZE xs (argmax_pred OUTPUT_SIZE xs)" for xs :: "i8 list"
    by (rule argmax_pred_first_max) (simp add: size_defs)
  then show ?thesis
    using forward_exact [of W1 W2 input] by (auto simp: scalar_forward [OF assms] forward_spec_def Let_def)
qed

theorem scalar_forward_exact_witness:
  "mlp_dims demo_W1 demo_W2 demo_input demo_hidden demo_output \<and>
   first_max OUTPUT_SIZE (snd (snd (mlp_forward_scalar demo_W1 demo_W2 demo_input demo_hidden demo_output)))
     (fst (mlp_forward_scalar demo_W1 demo_W2 demo_input demo_hidden demo_output))"
  using scalar_forward_exact [OF demo_dims] demo_dims by (auto simp: split_beta Let_def)

text \<open>
  \<open>prepare_weights\<close> transposes both weight matrices and sign-extends them to the three element
  widths, for every entry.
\<close>

theorem prepare_weights_entries:
  assumes "weights_dims w" "i < INPUT_SIZE" "j < HIDDEN_SIZE" "k < OUTPUT_SIZE"
  shows "let w' = prepare_weights W1_i8 W2_i8 w in weights_dims w' \<and>
    W1_packed w' ! j ! i = W1_i8 ! i ! j \<and> sint (W1_packed_h w' ! j ! i) = sint (W1_i8 ! i ! j)
      \<and> sint (W1_packed_w w' ! j ! i) = sint (W1_i8 ! i ! j) \<and>
    W2_packed w' ! k ! j = W2_i8 ! j ! k \<and> sint (W2_packed_h w' ! k ! j) = sint (W2_i8 ! j ! k)
      \<and> sint (W2_packed_w w' ! k ! j) = sint (W2_i8 ! j ! k)"
  using assms weights_dims_prepared [OF assms(1)]
  by (simp add: Let_def prepare_weights_packed packed_rows_def sint_scast)

theorem prepare_weights_entries_witness:
  "weights_dims (sw_weights sew_initial) \<and>
   W1_packed (prepare_weights (replicate INPUT_SIZE (replicate HIDDEN_SIZE 7)) (replicate HIDDEN_SIZE (replicate OUTPUT_SIZE 9))
     (sw_weights sew_initial)) ! 31 ! 783 = 7"
proof -
  have dims: "weights_dims (sw_weights sew_initial)" using sew_initial_dims by (simp add: sew_dims_def)
  then show ?thesis
    using prepare_weights_entries [of "sw_weights sew_initial" 783 31 0 "replicate INPUT_SIZE (replicate HIDDEN_SIZE 7)"
        "replicate HIDDEN_SIZE (replicate OUTPUT_SIZE 9)"]
    by (simp add: Let_def size_defs)
qed

section \<open>The wider element types\<close>

definition small :: "'a::len word list \<Rightarrow> bool" where
  "small xs \<longleftrightarrow> (\<forall>x \<in> set xs. \<bar>sint x\<bar> \<le> 128)"

lemma relu_int16_clamp: "fits TYPE(32) v \<Longrightarrow> relu_int16 (word_of_int v) = word_of_int (clamp 32767 v)"
  using word_of_int_of_sint [of "word_of_int v :: i32", where 'b = 16]
  by (auto simp: relu_int16_def clamp_def word_sless_alt sint_word_of_int_fits max_def min_def)

lemma sint_clamp16: "\<bar>sint (word_of_int (clamp 32767 v) :: i16)\<bar> \<le> 32767"
proof -
  have "fits TYPE(16) (clamp 32767 v)" by (auto simp: fits_def clamp_def)
  then show ?thesis by (simp add: sint_word_of_int_fits) (auto simp: clamp_def)
qed

lemma small_nth: "small xs \<Longrightarrow> i < length xs \<Longrightarrow> \<bar>sint (xs ! i)\<bar> \<le> 128"
  by (simp add: small_def)

lemma dot_small_fits:
  fixes xs ys :: "'a::len word list"
  assumes "n \<le> INPUT_SIZE" "n \<le> length xs" "n \<le> length ys" "small xs" "small ys"
  shows "fits TYPE(32) (dot_int n xs ys)"
  using dot_int_bound [of n xs 128 ys 128] assms by (auto simp: fits_def size_defs small_nth)

lemma dot_clamped_fits:
  fixes ys :: "i16 list"
  assumes "length ys = HIDDEN_SIZE" "small ys"
  shows "fits TYPE(32) (dot_int HIDDEN_SIZE (map (\<lambda>j. word_of_int (clamp 32767 (f j))) [0..<HIDDEN_SIZE]) ys)"
  using dot_int_bound [of HIDDEN_SIZE "map (\<lambda>j. word_of_int (clamp 32767 (f j))) [0..<HIDDEN_SIZE]" 32767 ys 128] assms
  by (auto simp: fits_def size_defs small_nth sint_clamp16)

definition exact_forward_h :: "i16 list list \<Rightarrow> i16 list list \<Rightarrow> i16 list \<Rightarrow> i16 list \<times> i16 list" where
  "exact_forward_h W1 W2 input =
    (let hidden = map (\<lambda>j. word_of_int (clamp 32767 (dot_int INPUT_SIZE input (W1 ! j)))) [0..<HIDDEN_SIZE]
     in (hidden, map (\<lambda>j. word_of_int (clamp 32767 (dot_int HIDDEN_SIZE hidden (W2 ! j)))) [0..<OUTPUT_SIZE]))"

text \<open>
  The int16 pass is exact on data that fits in int8 (as \<open>prepare_weights\<close> and \<open>main\<close>
  provide it): hidden values saturate at 32767 and the outputs at 32767, with no overflow.
\<close>

theorem vmac_h_exact:
  assumes "mlp_dims W1 W2 input hidden output" "small input"
    "\<forall>j<HIDDEN_SIZE. small (W1 ! j)" "\<forall>j<OUTPUT_SIZE. small (W2 ! j)"
  shows "snd (fst (mlp_forward_vmac_h W1 W2 input hidden output vr)) = exact_forward_h W1 W2 input"
proof -
  let ?h = "map (\<lambda>j. word_of_int (clamp 32767 (dot_int INPUT_SIZE input (W1 ! j)))) [0..<HIDDEN_SIZE] :: i16 list"
  have h: "layer_spec relu_int16 INPUT_SIZE HIDDEN_SIZE W1 input = ?h"
    using assms by (simp add: layer_spec_def relu_int16_clamp dot_small_fits mlp_dims_def)
  have "layer_spec relu_int16 HIDDEN_SIZE OUTPUT_SIZE W2 ?h
      = map (\<lambda>j. word_of_int (clamp 32767 (dot_int HIDDEN_SIZE ?h (W2 ! j)))) [0..<OUTPUT_SIZE]"
    unfolding layer_spec_def using assms(1,4)
    by (intro map_cong refl relu_int16_clamp dot_clamped_fits) (simp_all add: mlp_dims_def)
  then show ?thesis
    by (simp add: vmac_h_forward [OF assms(1)] forward_spec_def exact_forward_h_def h Let_def)
qed

theorem vmac_h_exact_witness:
  "small (replicate INPUT_SIZE (3 :: i16)) \<and>
   snd (fst (mlp_forward_vmac_h (replicate HIDDEN_SIZE (replicate INPUT_SIZE 1)) (replicate OUTPUT_SIZE (replicate HIDDEN_SIZE 2))
     (replicate INPUT_SIZE 3) (replicate HIDDEN_SIZE 0) (replicate OUTPUT_SIZE 0) (\<lambda>_. 0)))
   = exact_forward_h (replicate HIDDEN_SIZE (replicate INPUT_SIZE 1)) (replicate OUTPUT_SIZE (replicate HIDDEN_SIZE 2)) (replicate INPUT_SIZE 3)"
proof -
  have "small (replicate INPUT_SIZE (3 :: i16))" by (simp add: small_def)
  then show ?thesis
    using vmac_h_exact [of "replicate HIDDEN_SIZE (replicate INPUT_SIZE 1)" "replicate OUTPUT_SIZE (replicate HIDDEN_SIZE 2)"
        "replicate INPUT_SIZE 3" "replicate HIDDEN_SIZE 0" "replicate OUTPUT_SIZE 0" "\<lambda>_. 0"]
    by (simp add: mlp_dims_def small_def)
qed

lemma dot_int_replicate: "n \<le> m \<Longrightarrow> dot_int n (replicate m a) (replicate m b) = int n * (sint a * sint b)"
  by (induction n) (simp_all add: dot_int_def algebra_simps)

lemma layer_replicate:
  "layer_spec act n_in n_out (replicate n_out (replicate n_in b)) (replicate n_in a)
     = replicate n_out (act (word_of_int (int n_in * (sint a * sint b))))"
  by (rule nth_equalityI) (simp_all add: layer_spec_def dot_int_replicate del: of_int_mult)

text \<open>
  C34.  The int32 pass is not exact: it does not clamp the hidden layer, so with all weights and
  inputs at 127 the second layer's exact sums are 51389832704, the int32 accumulator wraps to a
  negative value, and every output is rectified to 0.
\<close>

theorem vmac_w_wraps:
  "let (pred, h, out) = fst (mlp_forward_vmac_w (replicate HIDDEN_SIZE (replicate INPUT_SIZE 127)) (replicate OUTPUT_SIZE (replicate HIDDEN_SIZE 127))
      (replicate INPUT_SIZE 127) (replicate HIDDEN_SIZE 0) (replicate OUTPUT_SIZE 0) vr) in
    dot_int HIDDEN_SIZE h (replicate HIDDEN_SIZE 127) = 51389832704 \<and> out = replicate OUTPUT_SIZE 0"
proof -
  have "mlp_dims (replicate HIDDEN_SIZE (replicate INPUT_SIZE 127)) (replicate OUTPUT_SIZE (replicate HIDDEN_SIZE 127))
      (replicate INPUT_SIZE 127) (replicate HIDDEN_SIZE 0) (replicate OUTPUT_SIZE (0 :: i32))"
    by (simp add: mlp_dims_def)
  then show ?thesis
    by (simp add: vmac_w_forward forward_spec_def layer_replicate dot_int_replicate Let_def)
      (simp add: size_defs relu_int32_def word_sless_alt)
qed

end
