(* ===== verification/Stdio.thy ===== *)
theory Stdio
  imports Prelude
begin

text \<open>
  The benchmarks print through the C library's \<open>printf\<close>, which is not part of the repository:
  a call is an event with its format string and its arguments, in the order of the calls.
  Floating-point values are of an arbitrary type; the C library computes them.
\<close>

datatype 'f parg = PInt int | PStr string | PDbl 'f

datatype 'f event = Printf string "'f parg list" | Fflush

type_synonym 'f stdout = "'f event list"

definition nl :: string where "nl = [CHR 0x0A]"

text \<open>The UTF-8 bytes of the check mark and the ballot cross in the benchmarks' messages.\<close>

definition CHECK :: string where "CHECK = [CHR 0xE2, CHR 0x9C, CHR 0x93]"
definition CROSS :: string where "CROSS = [CHR 0xE2, CHR 0x9C, CHR 0x97]"

text \<open>The literal text of a run of events: what argument-free calls print.\<close>

fun literal_text :: "'f stdout \<Rightarrow> string" where
  "literal_text [] = []"
| "literal_text (Printf fmt [] # es) = fmt @ literal_text es"
| "literal_text (Printf fmt (a # as) # es) = literal_text es"
| "literal_text (Fflush # es) = literal_text es"

lemma literal_text_append [simp]: "literal_text (es @ fs) = literal_text es @ literal_text fs"
  by (induction es rule: literal_text.induct) simp_all

end
