(* ===== verification/Matmul.thy ===== *)
theory Matmul
  imports Mnist_Sew Stdio
begin

text \<open>
  The 8x8 integer matrix-multiplication benchmark (sw/mnist-newlib/matmul.c): the routine on
  arbitrary matrices, the test matrices, and the whole program with its self-check.  The
  performance counters are the values of the four \<open>rdcycle\<close>/\<open>rdinstret\<close> reads, and the two
  floating-point divisions of the report are arguments.
\<close>

definition N :: nat where "N = 8"

definition matmul_A :: "i32 list list" where
  "matmul_A =
   [[1, 2, 3, 4, 5, 6, 7, 8],
    [2, 3, 4, 5, 6, 7, 8, 1],
    [3, 4, 5, 6, 7, 8, 1, 2],
    [4, 5, 6, 7, 8, 1, 2, 3],
    [5, 6, 7, 8, 1, 2, 3, 4],
    [6, 7, 8, 1, 2, 3, 4, 5],
    [7, 8, 1, 2, 3, 4, 5, 6],
    [8, 1, 2, 3, 4, 5, 6, 7]]"

definition matmul_B :: "i32 list list" where
  "matmul_B =
   [[8, 7, 6, 5, 4, 3, 2, 1],
    [7, 6, 5, 4, 3, 2, 1, 8],
    [6, 5, 4, 3, 2, 1, 8, 7],
    [5, 4, 3, 2, 1, 8, 7, 6],
    [4, 3, 2, 1, 8, 7, 6, 5],
    [3, 2, 1, 8, 7, 6, 5, 4],
    [2, 1, 8, 7, 6, 5, 4, 3],
    [1, 8, 7, 6, 5, 4, 3, 2]]"

definition matmul :: "i32 list list \<Rightarrow> i32 list list \<Rightarrow> i32 list list \<Rightarrow> i32 list list" where
  "matmul A B C =
    for_loop 0 N 1 (\<lambda>i. for_loop 0 N 1 (\<lambda>j C.
      let sum = for_loop 0 N 1 (\<lambda>k sum. sum + A ! i ! k * B ! k ! j) 0
      in set2 i j sum C)) C"

definition print_matrix :: "string \<Rightarrow> i32 list list \<Rightarrow> 'f stdout" where
  "print_matrix name M =
    Printf (''%s (first 4x4):'' @ nl) [PStr name] #
    for_loop 0 4 1 (\<lambda>i out.
      for_loop 0 4 1 (\<lambda>j out. out @ [Printf ''%6ld '' [PInt (sint (M ! i ! j))]]) out @ [Printf nl []]) []
    @ [Printf nl []]"

text \<open>The values of the counter reads, and the divisions \<open>(float)cycles / instret\<close> and \<open>cycles / 500.0\<close>.\<close>

record 'f matmul_env =
  start_cycle :: i32
  start_inst :: i32
  end_cycle :: i32
  end_inst :: i32
  cpi_of :: "i32 \<Rightarrow> i32 \<Rightarrow> 'f"
  ms_of :: "i32 \<Rightarrow> 'f"

definition matmul_main :: "'f matmul_env \<Rightarrow> i32 list list \<Rightarrow> int \<times> i32 list list \<times> 'f stdout" where
  "matmul_main E C =
    (let out =
       [Printf (nl @ ''=== Matrix Multiplication Benchmark (%dx%d int32) ==='' @ nl) [PInt (int N), PInt (int N)],
        Printf (''Total multiplications: %d'' @ nl) [PInt (int N * int N * int N)],
        Printf (''Operation: C = A * B'' @ nl @ nl) []];
         C = matmul matmul_A matmul_B C;
         C = matmul matmul_A matmul_B C;
         out = out @ print_matrix ''Matrix A'' matmul_A @ print_matrix ''Matrix B'' matmul_B @ print_matrix ''Result C'' C;
         cycles = end_cycle E - start_cycle E;
         instret = end_inst E - start_inst E;
         out = out @
           [Printf (''=== Performance ==='' @ nl) [],
            Printf (''Instructions: %lu'' @ nl) [PInt (uint instret)],
            Printf (''Cycles: %lu'' @ nl) [PInt (uint cycles)]] @
           (if 0 < instret then [Printf (''CPI: %.2f'' @ nl) [PDbl (cpi_of E cycles instret)]] else []) @
           [Printf (''Time @500kHz: %.2f ms'' @ nl) [PDbl (ms_of E cycles)]];
         expected = 204
     in (0, C, out @
          [if C ! 0 ! 0 = expected
           then Printf (nl @ ''Result verification: PASS (C[0][0]=%ld)'' @ nl) [PInt (sint (C ! 0 ! 0))]
           else Printf (nl @ ''Result verification: FAIL (C[0][0]=%ld, expected %ld)'' @ nl)
                  [PInt (sint (C ! 0 ! 0)), PInt (sint expected)]]))"

section \<open>Correctness\<close>

definition int_matmul_entry :: "i32 list list \<Rightarrow> i32 list list \<Rightarrow> nat \<Rightarrow> nat \<Rightarrow> int" where
  "int_matmul_entry A B i j = (\<Sum>k\<leftarrow>[0..<N]. sint (A ! i ! k) * sint (B ! k ! j))"

lemma matmul_entries:
  assumes "matrix_dims N N C"
  shows "matmul A B C = map (\<lambda>i. map (\<lambda>j. word_of_int (int_matmul_entry A B i j)) [0..<N]) [0..<N]"
proof -
  have "sum_list (map (\<lambda>k. A ! i ! k * B ! k ! j) ks) = word_of_int (\<Sum>k\<leftarrow>ks. sint (A ! i ! k) * sint (B ! k ! j))"
    for i j ks by (induction ks) simp_all
  then show ?thesis
    using matrix_fill [OF assms, of "\<lambda>j i. sum_list (map (\<lambda>k. A ! i ! k * B ! k ! j) [0..<N])"]
    by (simp add: matmul_def for_loop_fold1_fun fold_add_sum int_matmul_entry_def)
qed

lemma int_matmul_entry_bound:
  assumes "\<And>k. k < N \<Longrightarrow> \<bar>sint (A ! i ! k)\<bar> \<le> 2 ^ 13" "\<And>k. k < N \<Longrightarrow> \<bar>sint (B ! k ! j)\<bar> \<le> 2 ^ 13"
  shows "\<bar>int_matmul_entry A B i j\<bar> \<le> 2 ^ 29"
proof -
  have "\<bar>\<Sum>k\<leftarrow>ks. sint (A ! i ! k) * sint (B ! k ! j)\<bar> \<le> 2 ^ 26 * int (length ks)" if "set ks \<subseteq> {..<N}" for ks
    using that
  proof (induction ks)
    case Nil
    then show ?case by simp
  next
    case (Cons k ks)
    have "\<bar>sint (A ! i ! k) * sint (B ! k ! j)\<bar> \<le> 2 ^ 13 * 2 ^ 13"
      unfolding abs_mult using Cons.prems assms [of k] by (intro mult_mono) auto
    with Cons show ?case by (simp add: algebra_simps)
  qed
  moreover have "set [0..<N] \<subseteq> {..<N}" by auto
  ultimately have "\<bar>\<Sum>k\<leftarrow>[0..<N]. sint (A ! i ! k) * sint (B ! k ! j)\<bar> \<le> 2 ^ 26 * int (length [0..<N])" by blast
  then show ?thesis by (simp add: int_matmul_entry_def N_def)
qed

text \<open>
  \<open>matmul\<close> computes the exact integer matrix product, whatever \<open>C\<close> held before, as long as
  the entries are at most \<open>2^13\<close> in magnitude (the product of 8x8 matrices then stays in int32).
\<close>

theorem matmul_exact:
  assumes "matrix_dims N N C" "i < N" "j < N"
    and "\<forall>k<N. \<bar>sint (A ! i ! k)\<bar> \<le> 2 ^ 13 \<and> \<bar>sint (B ! k ! j)\<bar> \<le> 2 ^ 13"
  shows "matrix_dims N N (matmul A B C) \<and>
    sint (matmul A B C ! i ! j) = (\<Sum>k = 0..<N. sint (A ! i ! k) * sint (B ! k ! j))"
proof -
  have "\<bar>int_matmul_entry A B i j\<bar> \<le> 2 ^ 29" using assms(4) by (intro int_matmul_entry_bound) auto
  then have "sint (word_of_int (int_matmul_entry A B i j) :: i32) = int_matmul_entry A B i j"
    unfolding sint_sbintrunc' by (intro signed_take_bit_int_eq_self) (auto simp: abs_le_iff)
  moreover have "int_matmul_entry A B i j = (\<Sum>k = 0..<N. sint (A ! i ! k) * sint (B ! k ! j))"
    by (simp add: int_matmul_entry_def interv_sum_list_conv_sum_set_nat)
  ultimately show ?thesis
    using assms(2,3) by (simp add: matmul_entries [OF assms(1)] matrix_dims_def)
qed

theorem matmul_exact_witness:
  "sint (matmul matmul_A matmul_B (replicate N (replicate N 0)) ! 0 ! 0)
   = (\<Sum>k = 0..<N. sint (matmul_A ! 0 ! k) * sint (matmul_B ! k ! 0))"
  using matmul_exact [of "replicate N (replicate N 0)" 0 0 matmul_A matmul_B]
  by (simp add: matrix_dims_def N_def matmul_A_def matmul_B_def All_less_Suc numeral_eq_Suc)

text \<open>
  C39.  The self-check of the benchmark never passes: on the program's own matrices \<open>C[0][0]\<close> is 120,
  not the 204 "calculated offline", so \<open>main\<close> ends by printing FAIL, for all counter values and
  whatever the result matrix held.
\<close>

theorem matmul_main_fails:
  assumes "matrix_dims N N C"
  shows "last (snd (snd (matmul_main E C))) =
    Printf (nl @ ''Result verification: FAIL (C[0][0]=%ld, expected %ld)'' @ nl) [PInt 120, PInt 204]"
proof -
  have A00: "matmul matmul_A matmul_B C' ! 0 ! 0 = 120" if "matrix_dims N N C'" for C'
    by (simp add: matmul_entries [OF that] int_matmul_entry_def N_def upt_rec matmul_A_def matmul_B_def numeral_eq_Suc)
  have "matrix_dims N N (matmul matmul_A matmul_B C)"
    by (simp add: matmul_entries [OF assms] matrix_dims_def)
  from A00 [OF this] show ?thesis by (simp add: matmul_main_def Let_def)
qed

theorem matmul_main_fails_witness:
  "last (snd (snd (matmul_main \<lparr>start_cycle = 100, start_inst = 20, end_cycle = 9000, end_inst = 2000,
       cpi_of = \<lambda>c n. uint c * 100 div uint n, ms_of = \<lambda>c. uint c div 500\<rparr> (replicate N (replicate N 0))))) =
    Printf (nl @ ''Result verification: FAIL (C[0][0]=%ld, expected %ld)'' @ nl) [PInt 120, PInt 204]"
  by (rule matmul_main_fails) (simp add: matrix_dims_def)

end
