(* ===== verification/Mnist_Variants.thy ===== *)
theory Mnist_Variants
  imports Mnist_Sew
begin

text \<open>
  The two single-kernel benchmarks, sw/mnist-newlib/benchmark_pvmac.c (PVMAC on words packed by
  \<open>pack4\<close>) and benchmark_wide_vec.c (VLD and VMAC.B on temporary arrays), and the synthetic dot
  products of benchmark_sew_compare.c.  The first two read the weights in their original
  row-major layout.
\<close>

section \<open>benchmark_pvmac.c\<close>

definition pack4 :: "i8 \<Rightarrow> i8 \<Rightarrow> i8 \<Rightarrow> i8 \<Rightarrow> i32" where
  "pack4 a b c d = push_bit 24 (ucast d) OR push_bit 16 (ucast c) OR push_bit 8 (ucast b) OR ucast a"

definition mlp_forward_pack4 :: "i8 list list \<Rightarrow> i8 list list \<Rightarrow> i8 list \<Rightarrow> i8 list \<Rightarrow> i8 list
    \<Rightarrow> nat \<times> i8 list \<times> i8 list" where
  "mlp_forward_pack4 W1_i8 W2_i8 input_i8 hidden output =
    (let hidden = for_loop 0 HIDDEN_SIZE 1 (\<lambda>j hidden. hidden[j := relu_int8
           (for_loop 0 INPUT_SIZE 4 (\<lambda>i acc.
              let input_vec = pack4 (input_i8 ! i) (input_i8 ! (i + 1)) (input_i8 ! (i + 2)) (input_i8 ! (i + 3));
                  weight_vec = pack4 (W1_i8 ! i ! j) (W1_i8 ! (i + 1) ! j) (W1_i8 ! (i + 2) ! j) (W1_i8 ! (i + 3) ! j)
              in acc + pvmac input_vec weight_vec) 0)]) hidden;
         output = for_loop 0 OUTPUT_SIZE 1 (\<lambda>j output. output[j := relu_int8
           (for_loop 0 HIDDEN_SIZE 4 (\<lambda>i acc.
              let hidden_vec = pack4 (hidden ! i) (hidden ! (i + 1)) (hidden ! (i + 2)) (hidden ! (i + 3));
                  weight_vec = pack4 (W2_i8 ! i ! j) (W2_i8 ! (i + 1) ! j) (W2_i8 ! (i + 2) ! j) (W2_i8 ! (i + 3) ! j)
              in acc + pvmac hidden_vec weight_vec) 0)]) output
     in (argmax_max_val OUTPUT_SIZE output, hidden, output))"

section \<open>benchmark_wide_vec.c\<close>

definition vmac_b_v1_v2 :: "vregs \<Rightarrow> i32" where
  "vmac_b_v1_v2 vr = asm_result (simd_spec (insn_r 0x5B 2 3 10 1 2) 0 0 vr (\<lambda>_. 0))"

definition vec_mac_8 :: "i8 list \<Rightarrow> i8 list \<Rightarrow> vregs \<Rightarrow> i32 \<times> vregs" where
  "vec_mac_8 input_ptr weight_ptr vr =
    (let vr = vld_v1 input_ptr 0 vr; vr = vld_v2 weight_ptr 0 vr in (vmac_b_v1_v2 vr, vr))"

text \<open>
  The inner loop that fills the two aligned temporaries; \<open>tmp\<close> is what the uninitialised
  stack slots hold.
\<close>

definition fill8 :: "i8 list \<Rightarrow> i8 list list \<Rightarrow> nat \<Rightarrow> nat \<Rightarrow> i8 list \<times> i8 list \<Rightarrow> i8 list \<times> i8 list" where
  "fill8 xs W i j = for_loop 0 8 1 (\<lambda>k (input_vec, weight_vec).
     (input_vec[k := xs ! (i + k)], weight_vec[k := W ! (i + k) ! j]))"

definition mlp_forward_wide_vec :: "(i8 list \<times> i8 list) \<Rightarrow> i8 list list \<Rightarrow> i8 list list \<Rightarrow> i8 list \<Rightarrow> i8 list \<Rightarrow> i8 list \<Rightarrow> vregs
    \<Rightarrow> (nat \<times> i8 list \<times> i8 list) \<times> vregs" where
  "mlp_forward_wide_vec tmp W1_i8 W2_i8 input_i8 hidden output vr =
    (let (hidden, vr) = for_loop 0 HIDDEN_SIZE 1 (\<lambda>j (hidden, vr).
           case for_loop 0 INPUT_SIZE 8 (\<lambda>i (acc, vr).
                  let (input_vec, weight_vec) = fill8 input_i8 W1_i8 i j tmp;
                      (r, vr) = vec_mac_8 input_vec weight_vec vr
                  in (acc + r, vr)) (0, vr)
           of (acc, vr) \<Rightarrow> (hidden[j := relu_int8 acc], vr)) (hidden, vr);
         (output, vr) = for_loop 0 OUTPUT_SIZE 1 (\<lambda>j (output, vr).
           case for_loop 0 HIDDEN_SIZE 8 (\<lambda>i (acc, vr).
                  let (hidden_vec, weight_vec) = fill8 hidden W2_i8 i j tmp;
                      (r, vr) = vec_mac_8 hidden_vec weight_vec vr
                  in (acc + r, vr)) (0, vr)
           of (acc, vr) \<Rightarrow> (output[j := relu_int8 acc], vr)) (output, vr)
     in ((argmax_max_val OUTPUT_SIZE output, hidden, output), vr))"

section \<open>benchmark_sew_compare.c\<close>

definition TEST_SIZE :: nat where "TEST_SIZE = 64"

record sew_test_data =
  test_a :: "i8 list"
  test_b :: "i8 list"
  test_a16 :: "i16 list"
  test_b16 :: "i16 list"
  test_a32 :: "i32 list"
  test_b32 :: "i32 list"

definition init_test_data :: "sew_test_data \<Rightarrow> sew_test_data" where
  "init_test_data d =
    (let d = for_loop 0 TEST_SIZE 1 (\<lambda>i d. d\<lparr>test_a := (test_a d)[i := word_of_int (int (i mod 10) - 5)],
                 test_b := (test_b d)[i := word_of_int (int (i mod 7) - 3)]\<rparr>) d;
         d = for_loop 0 (TEST_SIZE div 2) 1 (\<lambda>i d. d\<lparr>test_a16 := (test_a16 d)[i := word_of_int (int (i mod 100) - 50)],
                 test_b16 := (test_b16 d)[i := word_of_int (int (i mod 70) - 35)]\<rparr>) d
     in for_loop 0 (TEST_SIZE div 4) 1 (\<lambda>i d. d\<lparr>test_a32 := (test_a32 d)[i := word_of_int (int (i mod 1000) - 500)],
                 test_b32 := (test_b32 d)[i := word_of_int (int (i mod 700) - 350)]\<rparr>) d)"

definition dot_product_pvmac :: "sew_test_data \<Rightarrow> i32" where
  "dot_product_pvmac d = for_loop 0 TEST_SIZE 4 (\<lambda>i sum.
     let a_packed = push_bit 24 (ucast (test_a d ! (i + 3))) OR push_bit 16 (ucast (test_a d ! (i + 2)))
                    OR push_bit 8 (ucast (test_a d ! (i + 1))) OR ucast (test_a d ! i);
         b_packed = push_bit 24 (ucast (test_b d ! (i + 3))) OR push_bit 16 (ucast (test_b d ! (i + 2)))
                    OR push_bit 8 (ucast (test_b d ! (i + 1))) OR ucast (test_b d ! i)
     in sum + pvmac a_packed b_packed) 0"

definition dot_product_vmac_b :: "sew_test_data \<Rightarrow> vregs \<Rightarrow> i32 \<times> vregs" where
  "dot_product_vmac_b d vr = for_loop 0 TEST_SIZE 8 (\<lambda>i (sum, vr).
     let vr = vld_v1 (test_a d) i vr; vr = vld_v2 (test_b d) i vr in (sum + vmac_b vr, vr)) (0, vr)"

definition dot_product_vmac_h :: "sew_test_data \<Rightarrow> vregs \<Rightarrow> i32 \<times> vregs" where
  "dot_product_vmac_h d vr = for_loop 0 (TEST_SIZE div 2) 4 (\<lambda>i (sum, vr).
     let vr = vld_v1 (test_a16 d) i vr; vr = vld_v2 (test_b16 d) i vr in (sum + vmac_h vr, vr)) (0, vr)"

definition dot_product_vmac_w :: "sew_test_data \<Rightarrow> vregs \<Rightarrow> i32 \<times> vregs" where
  "dot_product_vmac_w d vr = for_loop 0 (TEST_SIZE div 4) 2 (\<lambda>i (sum, vr).
     let vr = vld_v1 (test_a32 d) i vr; vr = vld_v2 (test_b32 d) i vr in (sum + vmac_w vr, vr)) (0, vr)"

text \<open>
  \<open>main\<close>: the warm-up calls and the four measured loops of a hundred calls each; the results
  are the four volatile globals.  The counter reads, whose values no statement uses, are left
  out of the state.
\<close>

record sew_results =
  result_pvmac :: i32
  result_vmac_b :: i32
  result_vmac_h :: i32
  result_vmac_w :: i32
  sr_vregs :: vregs
  sr_stdout :: string

definition sew_compare_main :: "sew_test_data \<Rightarrow> sew_results \<Rightarrow> sew_test_data \<times> sew_results" where
  "sew_compare_main d r =
    (let r = r\<lparr>sr_stdout := sr_stdout r @ ''=== SEW Comparison ==='' @ [CHR 0x0A]\<rparr>;
         d = init_test_data d;
         vr = snd (dot_product_vmac_w d (snd (dot_product_vmac_h d (snd (dot_product_vmac_b d (sr_vregs r))))));
         r = r\<lparr>sr_vregs := vr\<rparr>;
         r = for_loop 0 100 1 (\<lambda>_ r. r\<lparr>result_pvmac := dot_product_pvmac d\<rparr>) r;
         r = for_loop 0 100 1 (\<lambda>_ r. case dot_product_vmac_b d (sr_vregs r) of (x, vr) \<Rightarrow> r\<lparr>result_vmac_b := x, sr_vregs := vr\<rparr>) r;
         r = for_loop 0 100 1 (\<lambda>_ r. case dot_product_vmac_h d (sr_vregs r) of (x, vr) \<Rightarrow> r\<lparr>result_vmac_h := x, sr_vregs := vr\<rparr>) r;
         r = for_loop 0 100 1 (\<lambda>_ r. case dot_product_vmac_w d (sr_vregs r) of (x, vr) \<Rightarrow> r\<lparr>result_vmac_w := x, sr_vregs := vr\<rparr>) r
     in (d, r\<lparr>sr_stdout := sr_stdout r @ ''Done.'' @ [CHR 0x0A]\<rparr>))"

section \<open>Packing\<close>

lemma pack4_lanes: "pack4 a b c d = pack_lanes [a, b, c, d]"
  by (rule bit_word_eqI) (auto simp: pack4_def bit_simps bit_beyond)

lemma array_word_pack4:
  assumes "i + 4 \<le> length xs"
  shows "array_word xs i = pack4 (xs ! i) (xs ! (i + 1)) (xs ! (i + 2)) (xs ! (i + 3))"
proof -
  have "take 4 (drop i xs) = map (\<lambda>k. xs ! (i + k)) [0..<4]"
    using assms by (intro nth_equalityI) simp_all
  then show ?thesis by (simp add: array_word_def pack4_lanes upt_lanes del: pack_lanes.simps)
qed

lemma for_loop_cong:
  assumes "0 < k" "n = m * k" "\<And>u s. u < m \<Longrightarrow> f (u * k) s = g (u * k) s"
  shows "for_loop 0 n k f s = for_loop 0 n k g s"
  unfolding for_loop_fold [OF assms(1,2)] using assms(3) by (intro fold_cong) auto

lemma nth_packed_rows:
  "j < n_out \<Longrightarrow> length (packed_rows f n_in n_out W ! j) = n_in"
  "j < n_out \<Longrightarrow> i < n_in \<Longrightarrow> packed_rows f n_in n_out W ! j ! i = f (W ! i ! j)"
  by (simp_all add: packed_rows_def)

section \<open>The variants compute the same network\<close>

lemma pack4_row:
  fixes xs :: "i8 list"
  assumes "n_in = m * 4" "n_in \<le> length xs" "j < n_out"
  shows "for_loop 0 n_in 4 (\<lambda>i acc.
        let v = pack4 (xs ! i) (xs ! (i + 1)) (xs ! (i + 2)) (xs ! (i + 3));
            w = pack4 (W ! i ! j) (W ! (i + 1) ! j) (W ! (i + 2) ! j) (W ! (i + 3) ! j)
        in acc + pvmac v w) 0 = word_of_int (dot_int n_in xs (packed_rows id n_in n_out W ! j))"
proof -
  let ?row = "packed_rows id n_in n_out W ! j"
  have "for_loop 0 n_in 4 (\<lambda>i acc.
        let v = pack4 (xs ! i) (xs ! (i + 1)) (xs ! (i + 2)) (xs ! (i + 3));
            w = pack4 (W ! i ! j) (W ! (i + 1) ! j) (W ! (i + 2) ! j) (W ! (i + 3) ! j)
        in acc + pvmac v w) 0 = for_loop 0 n_in 4 (\<lambda>i acc. acc + pvmac (array_word xs i) (array_word ?row i)) 0"
  proof (rule for_loop_cong [OF _ assms(1)])
    fix u and acc :: i32 assume "u < m"
    with assms(1) have le: "u * 4 + 4 \<le> n_in" by simp
    moreover from this assms(2) have "u * 4 + 4 \<le> length xs" by simp
    ultimately show "(let v = pack4 (xs ! (u * 4)) (xs ! (u * 4 + 1)) (xs ! (u * 4 + 2)) (xs ! (u * 4 + 3));
            w = pack4 (W ! (u * 4) ! j) (W ! (u * 4 + 1) ! j) (W ! (u * 4 + 2) ! j) (W ! (u * 4 + 3) ! j)
        in acc + pvmac v w) = acc + pvmac (array_word xs (u * 4)) (array_word ?row (u * 4))"
      using assms(3) by (simp add: array_word_pack4 nth_packed_rows)
  qed simp
  also have "\<dots> = word_of_int (dot_int n_in xs ?row)"
    using assms by (intro pvmac_kernel.kernel_loop [OF assms(1,2)]) (simp add: nth_packed_rows)
  finally show ?thesis .
qed

lemma pack4_layer:
  fixes xs :: "i8 list"
  assumes "n_in = m * 4" "n_in \<le> length xs" "length h = n_out"
  shows "for_loop 0 n_out 1 (\<lambda>j h. h[j := act (for_loop 0 n_in 4 (\<lambda>i acc.
        let v = pack4 (xs ! i) (xs ! (i + 1)) (xs ! (i + 2)) (xs ! (i + 3));
            w = pack4 (W ! i ! j) (W ! (i + 1) ! j) (W ! (i + 2) ! j) (W ! (i + 3) ! j)
        in acc + pvmac v w) 0)]) h = layer_spec act n_in n_out (packed_rows id n_in n_out W) xs"
  unfolding layer_spec_comp using assms by (intro layer_fold pack4_row) simp_all

lemma argmax_max_val_i8: "argmax_max_val OUTPUT_SIZE (xs :: i8 list) = argmax_pred OUTPUT_SIZE xs"
  by (rule argmax_max_val_pred) (simp_all add: size_defs)

lemma pack4_forward:
  assumes "length input_i8 = INPUT_SIZE" "length hidden = HIDDEN_SIZE" "length output = OUTPUT_SIZE"
  shows "mlp_forward_pack4 W1_i8 W2_i8 input_i8 hidden output
    = forward_spec relu_int8 (packed_rows id INPUT_SIZE HIDDEN_SIZE W1_i8) (packed_rows id HIDDEN_SIZE OUTPUT_SIZE W2_i8) input_i8"
proof -
  let ?H = "layer_spec relu_int8 INPUT_SIZE HIDDEN_SIZE (packed_rows id INPUT_SIZE HIDDEN_SIZE W1_i8) input_i8"
  have len: "INPUT_SIZE \<le> length input_i8" "HIDDEN_SIZE \<le> length ?H" using assms(1) by simp_all
  note layer1 = pack4_layer [OF dims_blocks(1) len(1) assms(2)]
  note layer2 = pack4_layer [OF dims_blocks(2) len(2) assms(3)]
  show ?thesis
    unfolding mlp_forward_pack4_def layer1 Let_def [where s = ?H] layer2
    by (simp add: forward_spec_def argmax_max_val_i8 Let_def)
qed

lemma fill8_slices:
  assumes "length (fst tmp) = 8" "length (snd tmp) = 8" "i + 8 \<le> length xs" "i + 8 \<le> n_in" "j < n_out"
  shows "fill8 xs W i j tmp = (take 8 (drop i xs), take 8 (drop i (packed_rows id n_in n_out W ! j)))"
proof -
  have "fold (\<lambda>k (iv, wv). (iv[k := f k], wv[k := g k])) ks t
      = (fold (\<lambda>k v. v[k := f k]) ks (fst t), fold (\<lambda>k v. v[k := g k]) ks (snd t))"
    for f g :: "nat \<Rightarrow> i8" and ks t
    by (induction ks arbitrary: t) (auto split: prod.splits)
  then have "fill8 xs W i j tmp = (map (\<lambda>k. xs ! (i + k)) [0..<8], map (\<lambda>k. W ! (i + k) ! j) [0..<8])"
    using assms(1,2) by (simp add: fill8_def for_loop_fold1 fold_upd_fill)
  moreover have "map (\<lambda>k. xs ! (i + k)) [0..<8] = take 8 (drop i xs)"
    using assms(3) by (intro nth_equalityI) simp_all
  moreover have "map (\<lambda>k. W ! (i + k) ! j) [0..<8] = take 8 (drop i (packed_rows id n_in n_out W ! j))"
    using assms(4,5) by (intro nth_equalityI) (simp_all add: nth_packed_rows)
  ultimately show ?thesis by simp
qed

lemma vec_mac_8_slices:
  "vec_mac_8 (take 8 (drop i xs)) (take 8 (drop i ys)) vr
     = (vmac_b (vld_v2 ys i (vld_v1 xs i vr)), vld_v2 ys i (vld_v1 xs i vr))"
  by (simp add: vec_mac_8_def vld_v1_def vld_v2_def array_dword_def vmac_b_v1_v2_def vmac_b_def VMAC_B_INSN_def Let_def)

lemma wide_row:
  fixes xs :: "i8 list"
  assumes "length (fst tmp) = 8" "length (snd tmp) = 8" "n_in = m * 8" "n_in \<le> length xs" "j < n_out"
  shows "for_loop 0 n_in 8 (\<lambda>i (acc, vr). let (v, w) = fill8 xs W i j tmp; (r, vr) = vec_mac_8 v w vr in (acc + r, vr)) s
    = for_loop 0 n_in 8 (\<lambda>i (acc, vr). let vr = vld_v1 xs i vr; vr = vld_v2 (packed_rows id n_in n_out W ! j) i vr
        in (acc + vmac_b vr, vr)) s"
proof (rule for_loop_cong [OF _ assms(3)])
  fix u and s :: "i32 \<times> vregs" assume "u < m"
  with assms(3) have "u * 8 + 8 \<le> n_in" by simp
  with assms show "(case s of (acc, vr) \<Rightarrow> let (v, w) = fill8 xs W (u * 8) j tmp; (r, vr) = vec_mac_8 v w vr in (acc + r, vr))
    = (case s of (acc, vr) \<Rightarrow> let vr = vld_v1 xs (u * 8) vr; vr = vld_v2 (packed_rows id n_in n_out W ! j) (u * 8) vr in (acc + vmac_b vr, vr))"
    by (simp add: fill8_slices vec_mac_8_slices Let_def split: prod.splits)
qed simp

lemma wide_layer:
  fixes xs :: "i8 list"
  assumes "length (fst tmp) = 8" "length (snd tmp) = 8" "n_in = m * 8" "n_in \<le> length xs"
  shows "for_loop 0 n_out 1 (\<lambda>j (h, vr).
      case for_loop 0 n_in 8 (\<lambda>i (acc, vr). let (v, w) = fill8 xs W i j tmp; (r, vr) = vec_mac_8 v w vr in (acc + r, vr)) (0, vr)
      of (acc, vr) \<Rightarrow> (h[j := act acc], vr)) s
   = for_loop 0 n_out 1 (\<lambda>j (h, vr).
      case for_loop 0 n_in 8 (\<lambda>i (acc, vr). let vr = vld_v1 xs i vr; vr = vld_v2 (packed_rows id n_in n_out W ! j) i vr
        in (acc + vmac_b vr, vr)) (0, vr)
      of (acc, vr) \<Rightarrow> (h[j := act acc], vr)) s"
proof (rule for_loop_cong [where m = n_out])
  fix u s assume "u < n_out"
  then have u: "u * 1 < n_out" by simp
  show "(case s of (h, vr) \<Rightarrow>
      case for_loop 0 n_in 8 (\<lambda>i (acc, vr). let (v, w) = fill8 xs W i (u * 1) tmp; (r, vr) = vec_mac_8 v w vr in (acc + r, vr)) (0, vr)
      of (acc, vr) \<Rightarrow> (h[u * 1 := act acc], vr))
   = (case s of (h, vr) \<Rightarrow>
      case for_loop 0 n_in 8 (\<lambda>i (acc, vr). let vr = vld_v1 xs i vr; vr = vld_v2 (packed_rows id n_in n_out W ! (u * 1)) i vr
        in (acc + vmac_b vr, vr)) (0, vr)
      of (acc, vr) \<Rightarrow> (h[u * 1 := act acc], vr))"
    unfolding wide_row [OF assms u] ..
qed simp_all

lemma wide_forward:
  assumes "length (fst tmp) = 8" "length (snd tmp) = 8"
    and "length input_i8 = INPUT_SIZE" "length hidden = HIDDEN_SIZE" "length output = OUTPUT_SIZE"
  shows "mlp_forward_wide_vec tmp W1_i8 W2_i8 input_i8 hidden output vr
    = mlp_forward_vmac_b (packed_rows id INPUT_SIZE HIDDEN_SIZE W1_i8) (packed_rows id HIDDEN_SIZE OUTPUT_SIZE W2_i8) input_i8 hidden output vr"
    (is "?l = _")
proof -
  let ?loop = "for_loop 0 HIDDEN_SIZE 1 (\<lambda>j (hidden, vr).
           case for_loop 0 INPUT_SIZE 8 (\<lambda>i (acc, vr).
                  let vr = vld_v1 input_i8 i vr; vr = vld_v2 (packed_rows id INPUT_SIZE HIDDEN_SIZE W1_i8 ! j) i vr in (acc + vmac_b vr, vr)) (0, vr)
           of (acc, vr) \<Rightarrow> (hidden[j := relu_int8 acc], vr)) (hidden, vr)"
  have in_len: "INPUT_SIZE \<le> length input_i8" using assms(3) by simp
  obtain h vr1 where h: "?loop = (h, vr1)" by fastforce
  have "fst ?loop = layer_spec relu_int8 INPUT_SIZE HIDDEN_SIZE (packed_rows id INPUT_SIZE HIDDEN_SIZE W1_i8) input_i8"
    by (rule vec_layer [OF vmac_b_kernel.mac_kernel_axioms dims_blocks(3) in_len])
      (simp_all add: nth_packed_rows assms)
  with h have "HIDDEN_SIZE \<le> length h" by simp
  note layer2 = wide_layer [OF assms(1,2) dims_blocks(4) this]
  show ?thesis
    unfolding mlp_forward_wide_vec_def mlp_forward_vmac_b_def wide_layer [OF assms(1,2) dims_blocks(3) in_len] h let_pair
      layer2 argmax_max_val_i8 ..
qed

section \<open>The dot products of benchmark_sew_compare.c\<close>

definition sew_data_dims :: "sew_test_data \<Rightarrow> bool" where
  "sew_data_dims d \<longleftrightarrow> length (test_a d) = TEST_SIZE \<and> length (test_b d) = TEST_SIZE \<and>
     length (test_a16 d) = TEST_SIZE div 2 \<and> length (test_b16 d) = TEST_SIZE div 2 \<and>
     length (test_a32 d) = TEST_SIZE div 4 \<and> length (test_b32 d) = TEST_SIZE div 4"

lemma dot_product_pvmac_dot:
  assumes "sew_data_dims d"
  shows "dot_product_pvmac d = word_of_int (dot_int TEST_SIZE (test_a d) (test_b d))"
proof -
  have ts: "TEST_SIZE = 16 * 4" by (simp add: TEST_SIZE_def)
  have "dot_product_pvmac d = for_loop 0 TEST_SIZE 4 (\<lambda>i acc. acc + pvmac (array_word (test_a d) i) (array_word (test_b d) i)) 0"
    unfolding dot_product_pvmac_def
    using assms ts by (intro for_loop_cong [OF _ ts]) (simp_all add: sew_data_dims_def array_word_pack4 pack4_def)
  also have "\<dots> = word_of_int (dot_int TEST_SIZE (test_a d) (test_b d))"
    using assms by (intro pvmac_kernel.kernel_loop [OF ts]) (simp_all add: sew_data_dims_def)
  finally show ?thesis .
qed

lemma dot_product_vmac_dot:
  assumes "sew_data_dims d"
  shows "fst (dot_product_vmac_b d vr) = word_of_int (dot_int TEST_SIZE (test_a d) (test_b d))"
    "fst (dot_product_vmac_h d vr) = word_of_int (dot_int (TEST_SIZE div 2) (test_a16 d) (test_b16 d))"
    "fst (dot_product_vmac_w d vr) = word_of_int (dot_int (TEST_SIZE div 4) (test_a32 d) (test_b32 d))"
  unfolding dot_product_vmac_b_def dot_product_vmac_h_def dot_product_vmac_w_def
  subgoal by (rule vec_row [OF vmac_b_kernel.mac_kernel_axioms, where m = 8])
      (use assms in \<open>simp_all add: sew_data_dims_def TEST_SIZE_def\<close>)
  subgoal by (rule vec_row [OF vmac_h_kernel.mac_kernel_axioms, where m = 8])
      (use assms in \<open>simp_all add: sew_data_dims_def TEST_SIZE_def\<close>)
  subgoal by (rule vec_row [OF vmac_w_kernel.mac_kernel_axioms, where m = 8])
      (use assms in \<open>simp_all add: sew_data_dims_def TEST_SIZE_def\<close>)
  done

definition test_vec :: "nat \<Rightarrow> nat \<Rightarrow> int \<Rightarrow> 'a::len word list" where
  "test_vec n m c = map (\<lambda>i. word_of_int (int (i mod m) - c)) [0..<n]"

lemma init_test_data_fields:
  assumes "sew_data_dims d"
  shows "init_test_data d = \<lparr>test_a = test_vec TEST_SIZE 10 5, test_b = test_vec TEST_SIZE 7 3,
     test_a16 = test_vec (TEST_SIZE div 2) 100 50, test_b16 = test_vec (TEST_SIZE div 2) 70 35,
     test_a32 = test_vec (TEST_SIZE div 4) 1000 500, test_b32 = test_vec (TEST_SIZE div 4) 700 350\<rparr>"
proof -
  have A: "fold (\<lambda>i d. d\<lparr>test_a := (test_a d)[i := f i], test_b := (test_b d)[i := g i]\<rparr>) is d
      = d\<lparr>test_a := fold (\<lambda>i x. x[i := f i]) is (test_a d), test_b := fold (\<lambda>i x. x[i := g i]) is (test_b d)\<rparr>" for f g "is" d
    by (induction "is" arbitrary: d) simp_all
  have B: "fold (\<lambda>i d. d\<lparr>test_a16 := (test_a16 d)[i := f i], test_b16 := (test_b16 d)[i := g i]\<rparr>) is d
      = d\<lparr>test_a16 := fold (\<lambda>i x. x[i := f i]) is (test_a16 d), test_b16 := fold (\<lambda>i x. x[i := g i]) is (test_b16 d)\<rparr>" for f g "is" d
    by (induction "is" arbitrary: d) simp_all
  have C: "fold (\<lambda>i d. d\<lparr>test_a32 := (test_a32 d)[i := f i], test_b32 := (test_b32 d)[i := g i]\<rparr>) is d
      = d\<lparr>test_a32 := fold (\<lambda>i x. x[i := f i]) is (test_a32 d), test_b32 := fold (\<lambda>i x. x[i := g i]) is (test_b32 d)\<rparr>" for f g "is" d
    by (induction "is" arbitrary: d) simp_all
  show ?thesis
    unfolding init_test_data_def Let_def One_nat_def for_loop_fold1 A B C test_vec_def
    using assms by (simp add: sew_data_dims_def fold_upd_fill)
qed

lemma init_test_data_dims: "sew_data_dims d \<Longrightarrow> sew_data_dims (init_test_data d)"
  unfolding init_test_data_fields by (simp add: sew_data_dims_def test_vec_def)

lemma dot_int_test_vec:
  fixes t :: "'a::len itself"
  assumes "\<forall>i<n. fits TYPE('a) (int (i mod m) - c)" "\<forall>i<n. fits TYPE('a) (int (i mod m') - c')"
  shows "dot_int n (test_vec n m c :: 'a word list) (test_vec n m' c') = (\<Sum>i \<leftarrow> [0..<n]. (int (i mod m) - c) * (int (i mod m') - c'))"
  unfolding dot_int_def test_vec_def using assms
  by (intro arg_cong [where f = sum_list] map_cong) (simp_all add: sint_word_of_int_fits del: of_int_diff)

lemma test_dots:
  "dot_int TEST_SIZE (test_vec TEST_SIZE 10 5 :: i8 list) (test_vec TEST_SIZE 7 3) = - 22"
  "dot_int (TEST_SIZE div 2) (test_vec (TEST_SIZE div 2) 100 50 :: i16 list) (test_vec (TEST_SIZE div 2) 70 35) = 24256"
  "dot_int (TEST_SIZE div 4) (test_vec (TEST_SIZE div 4) 1000 500 :: i32 list) (test_vec (TEST_SIZE div 4) 700 350) = 2699240"
  subgoal by (subst dot_int_test_vec) (auto simp: fits_def TEST_SIZE_def, code_simp)
  subgoal by (subst dot_int_test_vec) (auto simp: fits_def TEST_SIZE_def, code_simp)
  subgoal by (subst dot_int_test_vec) (auto simp: fits_def TEST_SIZE_def, code_simp)
  done

text \<open>A measured loop leaves the result of its last call.\<close>

lemma repeat_calls:
  assumes "\<And>vr. fst (f vr) = v" "\<And>x vr r. vregs_of (upd x vr r) = vr" "\<And>x vr y vr' r. upd x vr (upd y vr' r) = upd x vr r"
  shows "\<exists>vr. for_loop 0 (Suc n) 1 (\<lambda>_ r. case f (vregs_of r) of (x, vr) \<Rightarrow> upd x vr r) r = upd v vr r"
proof (induction n)
  case 0
  then show ?case using assms(1) [of "vregs_of r"]
    by (auto simp: for_loop_fold1 split: prod.splits)
next
  case (Suc n)
  then obtain vr where vr: "fold (\<lambda>_ r. case f (vregs_of r) of (x, vr) \<Rightarrow> upd x vr r) [0..<Suc n] r = upd v vr r"
    unfolding One_nat_def for_loop_fold1 by blast
  have "for_loop 0 (Suc (Suc n)) 1 (\<lambda>_ r. case f (vregs_of r) of (x, vr) \<Rightarrow> upd x vr r) r
      = (case f (vregs_of (upd v vr r)) of (x, vr') \<Rightarrow> upd x vr' (upd v vr r))"
    unfolding One_nat_def for_loop_fold1 upt_Suc [of 0 "Suc n"] using vr by simp
  then show ?case using assms(1) [of vr] by (auto simp: assms(2,3) split: prod.splits)
qed

lemma repeat_pvmac: "for_loop 0 100 1 (\<lambda>_ r. r\<lparr>result_pvmac := x\<rparr>) r = r\<lparr>result_pvmac := x\<rparr>"
proof -
  have "for_loop 0 (Suc n) 1 (\<lambda>_ r. r\<lparr>result_pvmac := x\<rparr>) r = r\<lparr>result_pvmac := x\<rparr>" for n
    unfolding One_nat_def for_loop_fold1 by (induction n) simp_all
  from this [of 99] show ?thesis by simp
qed

lemma sew_values:
  assumes "sew_data_dims d"
  shows "dot_product_pvmac (init_test_data d) = - 22" "fst (dot_product_vmac_b (init_test_data d) vr) = - 22"
    "fst (dot_product_vmac_h (init_test_data d) vr) = 24256" "fst (dot_product_vmac_w (init_test_data d) vr) = 2699240"
  using init_test_data_dims [OF assms]
  by (simp_all add: dot_product_pvmac_dot dot_product_vmac_dot)
    (simp_all add: init_test_data_fields [OF assms] test_dots)

lemma measured_loops:
  assumes "sew_data_dims d"
  shows "\<exists>vr. for_loop 0 100 1 (\<lambda>_ r. case dot_product_vmac_b (init_test_data d) (sr_vregs r) of (x, vr) \<Rightarrow> r\<lparr>result_vmac_b := x, sr_vregs := vr\<rparr>) r
      = r\<lparr>result_vmac_b := - 22, sr_vregs := vr\<rparr>"
    "\<exists>vr. for_loop 0 100 1 (\<lambda>_ r. case dot_product_vmac_h (init_test_data d) (sr_vregs r) of (x, vr) \<Rightarrow> r\<lparr>result_vmac_h := x, sr_vregs := vr\<rparr>) r
      = r\<lparr>result_vmac_h := 24256, sr_vregs := vr\<rparr>"
    "\<exists>vr. for_loop 0 100 1 (\<lambda>_ r. case dot_product_vmac_w (init_test_data d) (sr_vregs r) of (x, vr) \<Rightarrow> r\<lparr>result_vmac_w := x, sr_vregs := vr\<rparr>) r
      = r\<lparr>result_vmac_w := 2699240, sr_vregs := vr\<rparr>"
  using repeat_calls [of "dot_product_vmac_b (init_test_data d)" "- 22" sr_vregs "\<lambda>x vr r. r\<lparr>result_vmac_b := x, sr_vregs := vr\<rparr>" 99 r]
    repeat_calls [of "dot_product_vmac_h (init_test_data d)" 24256 sr_vregs "\<lambda>x vr r. r\<lparr>result_vmac_h := x, sr_vregs := vr\<rparr>" 99 r]
    repeat_calls [of "dot_product_vmac_w (init_test_data d)" 2699240 sr_vregs "\<lambda>x vr r. r\<lparr>result_vmac_w := x, sr_vregs := vr\<rparr>" 99 r]
  by (simp_all add: sew_values [OF assms])

text \<open>
  The synthetic benchmark: after \<open>main\<close> the four result globals hold the exact dot products
  of the generated vectors, the two int8 variants agree, and no lane width overflows.
\<close>

theorem sew_compare_results:
  assumes "sew_data_dims d"
  shows "let r' = snd (sew_compare_main d r) in
    sint (result_pvmac r') = - 22 \<and> sint (result_vmac_b r') = - 22 \<and>
    result_vmac_h r' = 24256 \<and> result_vmac_w r' = 2699240 \<and>
    sr_stdout r' = sr_stdout r @ ''=== SEW Comparison ==='' @ [CHR 0x0A] @ ''Done.'' @ [CHR 0x0A]"
proof -
  define d' where "d' = init_test_data d"
  note loops = measured_loops [OF assms, folded d'_def, unfolded One_nat_def]
  define r0 where "r0 = r\<lparr>sr_stdout := sr_stdout r @ ''=== SEW Comparison ==='' @ [CHR 0x0A],
      sr_vregs := snd (dot_product_vmac_w d' (snd (dot_product_vmac_h d' (snd (dot_product_vmac_b d' (sr_vregs r)))))),
      result_pvmac := - 22\<rparr>"
  obtain v1 where v1: "for_loop 0 100 (Suc 0) (\<lambda>_ r. case dot_product_vmac_b d' (sr_vregs r) of (x, vr) \<Rightarrow> r\<lparr>result_vmac_b := x, sr_vregs := vr\<rparr>) r0
      = r0\<lparr>result_vmac_b := - 22, sr_vregs := v1\<rparr>" using loops(1) by blast
  define r1 where "r1 = r0\<lparr>result_vmac_b := - 22, sr_vregs := v1\<rparr>"
  obtain v2 where v2: "for_loop 0 100 (Suc 0) (\<lambda>_ r. case dot_product_vmac_h d' (sr_vregs r) of (x, vr) \<Rightarrow> r\<lparr>result_vmac_h := x, sr_vregs := vr\<rparr>) r1
      = r1\<lparr>result_vmac_h := 24256, sr_vregs := v2\<rparr>" using loops(2) by blast
  define r2 where "r2 = r1\<lparr>result_vmac_h := 24256, sr_vregs := v2\<rparr>"
  obtain v3 where v3: "for_loop 0 100 (Suc 0) (\<lambda>_ r. case dot_product_vmac_w d' (sr_vregs r) of (x, vr) \<Rightarrow> r\<lparr>result_vmac_w := x, sr_vregs := vr\<rparr>) r2
      = r2\<lparr>result_vmac_w := 2699240, sr_vregs := v3\<rparr>" using loops(3) by blast
  have r0: "for_loop 0 100 (Suc 0) (\<lambda>_ r. r\<lparr>result_pvmac := dot_product_pvmac d'\<rparr>)
      (r\<lparr>sr_stdout := sr_stdout r @ ''=== SEW Comparison ==='' @ [CHR 0x0A],
      sr_vregs := snd (dot_product_vmac_w d' (snd (dot_product_vmac_h d' (snd (dot_product_vmac_b d' (sr_vregs r))))))\<rparr>) = r0"
    unfolding r0_def d'_def sew_values [OF assms] by (simp add: repeat_pvmac [unfolded One_nat_def])
  have "snd (sew_compare_main d r) = r2\<lparr>result_vmac_w := 2699240, sr_vregs := v3, sr_stdout := sr_stdout r2 @ ''Done.'' @ [CHR 0x0A]\<rparr>"
    using r0 v1 v2 v3 by (simp add: sew_compare_main_def Let_def r1_def r2_def flip: d'_def)
  then show ?thesis by (simp add: Let_def r0_def r1_def r2_def)
qed

definition sew_data_initial :: sew_test_data where
  "sew_data_initial = \<lparr>test_a = replicate TEST_SIZE 0, test_b = replicate TEST_SIZE 0,
     test_a16 = replicate (TEST_SIZE div 2) 0, test_b16 = replicate (TEST_SIZE div 2) 0,
     test_a32 = replicate (TEST_SIZE div 4) 0, test_b32 = replicate (TEST_SIZE div 4) 0\<rparr>"

definition sew_results_initial :: sew_results where
  "sew_results_initial = \<lparr>result_pvmac = 0, result_vmac_b = 0, result_vmac_h = 0, result_vmac_w = 0,
     sr_vregs = (\<lambda>_. 0), sr_stdout = []\<rparr>"

theorem sew_compare_results_witness:
  "sew_data_dims sew_data_initial \<and> result_vmac_h (snd (sew_compare_main sew_data_initial sew_results_initial)) = 24256"
proof -
  have "sew_data_dims sew_data_initial" by (simp add: sew_data_dims_def sew_data_initial_def)
  then show ?thesis using sew_compare_results [of sew_data_initial sew_results_initial] by (simp add: Let_def)
qed

text \<open>
  C29.  The single-kernel benchmarks compute the same network from the original weight layout:
  \<open>pack4\<close> with PVMAC, and VLD/VMAC.B on temporaries with arbitrary initial contents, both return
  what the scalar pass of benchmark_mnist_sew.c returns on the weights \<open>prepare_weights\<close> makes.
\<close>

theorem variants_agree_with_scalar:
  assumes "weights_dims w" "length input_i8 = INPUT_SIZE" "length hidden = HIDDEN_SIZE" "length output = OUTPUT_SIZE"
    "length (fst tmp) = 8" "length (snd tmp) = 8"
  shows "let w' = prepare_weights W1_i8 W2_i8 w;
        ref = mlp_forward_scalar (W1_packed w') (W2_packed w') input_i8 hidden output
    in mlp_forward_pack4 W1_i8 W2_i8 input_i8 hidden output = ref
     \<and> fst (mlp_forward_wide_vec tmp W1_i8 W2_i8 input_i8 hidden output vr) = ref"
proof -
  have "mlp_dims (packed_rows id INPUT_SIZE HIDDEN_SIZE W1_i8) (packed_rows id HIDDEN_SIZE OUTPUT_SIZE W2_i8) input_i8 hidden output"
    using assms by (simp add: mlp_dims_def packed_rows_def)
  then show ?thesis
    using assms by (simp add: Let_def prepare_weights_packed pack4_forward wide_forward scalar_forward vmac_b_forward)
qed

theorem variants_agree_with_scalar_witness:
  "weights_dims (sw_weights sew_initial) \<and>
   fst (mlp_forward_pack4 (replicate INPUT_SIZE (replicate HIDDEN_SIZE 1)) (replicate HIDDEN_SIZE (replicate OUTPUT_SIZE 1))
      demo_input demo_hidden demo_output)
   = fst (fst (mlp_forward_wide_vec (replicate 8 0, replicate 8 0) (replicate INPUT_SIZE (replicate HIDDEN_SIZE 1))
      (replicate HIDDEN_SIZE (replicate OUTPUT_SIZE 1)) demo_input demo_hidden demo_output (\<lambda>_. 0)))"
proof -
  have "weights_dims (sw_weights sew_initial)" using sew_initial_dims by (simp add: sew_dims_def)
  then show ?thesis
    using variants_agree_with_scalar [of "sw_weights sew_initial" demo_input demo_hidden demo_output "(replicate 8 0, replicate 8 0)"
      "replicate INPUT_SIZE (replicate HIDDEN_SIZE 1)" "replicate HIDDEN_SIZE (replicate OUTPUT_SIZE 1)" "\<lambda>_. 0"]
    by (simp add: Let_def demo_defs)
qed

end
