(* ===== verification/Mnist_Fixed.thy ===== *)
theory Mnist_Fixed
  imports Mlp_Common Stdio
begin

text \<open>
  The integer-only inference programs: sw/mnist-newlib/benchmark_int32.c (Q16.16 with a
  piecewise linear sigmoid), sw/mnist-host/benchmark_int32_relu.c (Q16.16 with ReLU and 64-bit
  accumulators) and sw/mnist-host/benchmark_int8_relu.c (int8 with ReLU).  The weights, biases
  and test images of the generated headers are arguments; the conversion of a float pixel,
  which the C library performs, is the argument \<open>to_fp\<close>.
\<close>

section \<open>Fixed-point arithmetic\<close>

definition FP_SHIFT :: nat where "FP_SHIFT = 16"
definition FP_ONE :: i32 where "FP_ONE = push_bit FP_SHIFT 1"

definition fp_mul :: "i32 \<Rightarrow> i32 \<Rightarrow> i32" where
  "fp_mul a b = (let temp = scast a * scast b :: i64 in ucast (signed_drop_bit FP_SHIFT temp))"

definition sigmoid_fp :: "i32 \<Rightarrow> i32" where
  "sigmoid_fp x =
    (let five_fp = 5 * FP_ONE in
     if x <s - five_fp then 0 else if five_fp <s x then FP_ONE
     else let result = signed_drop_bit 1 FP_ONE + signed_drop_bit 2 x in
       if result <s 0 then 0 else if FP_ONE <s result then FP_ONE else result)"

definition argmax_int32 :: "i32 list \<Rightarrow> nat \<Rightarrow> nat" where
  "argmax_int32 arr sz = fst (for_loop 1 sz 1 (\<lambda>i (max_idx, max_val).
     if max_val <s arr ! i then (i, arr ! i) else (max_idx, max_val)) (0, arr ! 0))"

definition relu_q16 :: "i32 \<Rightarrow> i32" where
  "relu_q16 x = (if 0 <s x then x else 0)"

definition q16_mul :: "i32 \<Rightarrow> i32 \<Rightarrow> i32" where
  "q16_mul a b = (let result = signed_drop_bit 16 (scast a * scast b :: i64) in ucast result)"

section \<open>benchmark_int32.c\<close>

record mlp_activations_int32 =
  act_hidden :: "i32 list"
  act_output :: "i32 list"

record fixed_weights =
  fw_W1 :: "i32 list list"
  fw_b1 :: "i32 list"
  fw_W2 :: "i32 list list"
  fw_b2 :: "i32 list"

definition mlp_predict_int32 :: "('f \<Rightarrow> i32) \<Rightarrow> fixed_weights \<Rightarrow> bool \<Rightarrow> 'f list \<Rightarrow> mlp_activations_int32
    \<Rightarrow> nat \<times> mlp_activations_int32 \<times> 'f stdout" where
  "mlp_predict_int32 float_to_fp w show_progress input_float act =
    (let input_fp = for_loop 0 INPUT_SIZE 1 (\<lambda>i xs. xs[i := float_to_fp (input_float ! i)]) (replicate INPUT_SIZE 0);
         (act, out) = for_loop 0 HIDDEN_SIZE 1 (\<lambda>j (act, out).
           let out = (if show_progress \<and> j mod 8 = 0 then out @ [Printf ''.'' [], Fflush] else out);
               acc = for_loop 0 INPUT_SIZE 1 (\<lambda>i acc. acc + fp_mul (input_fp ! i) (fw_W1 w ! i ! j)) (fw_b1 w ! j)
           in (act\<lparr>act_hidden := (act_hidden act)[j := sigmoid_fp acc]\<rparr>, out)) (act, []);
         out = (if show_progress then out @ [Printf ''H'' [], Fflush] else out);
         act = for_loop 0 OUTPUT_SIZE 1 (\<lambda>j act.
           let acc = for_loop 0 HIDDEN_SIZE 1 (\<lambda>i acc. acc + fp_mul (act_hidden act ! i) (fw_W2 w ! i ! j)) (fw_b2 w ! j)
           in act\<lparr>act_output := (act_output act)[j := acc]\<rparr>) act;
         out = (if show_progress then out @ [Printf ''O '' [], Fflush] else out)
     in (argmax_int32 (act_output act) OUTPUT_SIZE, act, out))"

section \<open>benchmark_int32_relu.c\<close>

text \<open>
  What the program asks of the floating-point unit of the host: the comparison of a pixel with
  the literal \<open>num / den\<close>, the conversion \<open>(int32_t)(x * 65536.0f)\<close>, and \<open>x / 65536.0f\<close> for display.
\<close>

record 'f float_ops =
  fo_less_const :: "'f \<Rightarrow> nat \<Rightarrow> nat \<Rightarrow> bool"
  fo_to_q16 :: "'f \<Rightarrow> i32"
  fo_from_q16 :: "i32 \<Rightarrow> 'f"

definition pixel_char_q16 :: "'f float_ops \<Rightarrow> 'f \<Rightarrow> string" where
  "pixel_char_q16 F pixel =
    (if fo_less_const F pixel 1 100 then '' '' else if fo_less_const F pixel 1 8 then ''.''
     else if fo_less_const F pixel 1 4 then '':'' else if fo_less_const F pixel 3 8 then ''-''
     else if fo_less_const F pixel 1 2 then ''='' else if fo_less_const F pixel 5 8 then ''+''
     else if fo_less_const F pixel 3 4 then ''*'' else if fo_less_const F pixel 7 8 then ''#'' else ''@'')"

definition print_input_q16 :: "'f float_ops \<Rightarrow> 'f list \<Rightarrow> nat \<Rightarrow> 'f stdout" where
  "print_input_q16 F input sample_idx =
    Printf (nl @ ''  Input image (sample %d, 28x28 ASCII art):'' @ nl) [PInt (int sample_idx + 1)] #
    for_loop 0 28 1 (\<lambda>row out.
      for_loop 0 28 1 (\<lambda>col out. out @ [Printf (pixel_char_q16 F (input ! (row * 28 + col))) []])
        (out @ [Printf ''    '' []]) @ [Printf nl []]) []"

definition print_hidden_q16 :: "'f float_ops \<Rightarrow> i32 list \<Rightarrow> nat \<Rightarrow> 'f stdout" where
  "print_hidden_q16 F hidden sz =
    Printf (nl @ ''  Hidden layer (%d neurons, Q16.16 after ReLU):'' @ nl @ ''    '') [PInt (int sz)] #
    for_loop 0 sz 1 (\<lambda>i out. let out = out @ [Printf ''%7.2f'' [PDbl (fo_from_q16 F (hidden ! i))]] in
      if (i + 1) mod 8 = 0 \<and> int i < int sz - 1 then out @ [Printf (nl @ ''    '') []] else out) []
    @ [Printf nl []]"

definition print_output_q16 :: "'f float_ops \<Rightarrow> i32 list \<Rightarrow> nat \<Rightarrow> 'f stdout" where
  "print_output_q16 F output sz =
    Printf (nl @ ''  Output layer (%d classes, Q16.16 logits):'' @ nl @ ''    '') [PInt (int sz)] #
    for_loop 0 sz 1 (\<lambda>i out. out @ [Printf ''%8.2f'' [PDbl (fo_from_q16 F (output ! i))]]) [] @ [Printf nl []]"

definition mlp_predict_q16_relu :: "'f float_ops \<Rightarrow> fixed_weights \<Rightarrow> 'f list \<Rightarrow> mlp_activations_int32 \<Rightarrow> nat \<Rightarrow> bool
    \<Rightarrow> nat \<times> mlp_activations_int32 \<times> 'f stdout" where
  "mlp_predict_q16_relu F w input_float act sample_idx verbose =
    (let out = (if verbose then print_input_q16 F input_float sample_idx else []);
         input_q16 = for_loop 0 INPUT_SIZE 1 (\<lambda>i xs. xs[i := fo_to_q16 F (input_float ! i)]) (replicate INPUT_SIZE 0);
         act = for_loop 0 HIDDEN_SIZE 1 (\<lambda>j act.
           let acc = for_loop 0 INPUT_SIZE 1 (\<lambda>i acc.
                       acc + signed_drop_bit 16 (scast (input_q16 ! i) * scast (fw_W1 w ! i ! j) :: i64)) 0;
               acc = acc + scast (fw_b1 w ! j);
               result = ucast acc
           in act\<lparr>act_hidden := (act_hidden act)[j := relu_q16 result]\<rparr>) act;
         out = (if verbose then out @ print_hidden_q16 F (act_hidden act) HIDDEN_SIZE else out);
         act = for_loop 0 OUTPUT_SIZE 1 (\<lambda>j act.
           let acc = for_loop 0 HIDDEN_SIZE 1 (\<lambda>i acc.
                       acc + signed_drop_bit 16 (scast (act_hidden act ! i) * scast (fw_W2 w ! i ! j) :: i64)) 0;
               acc = acc + scast (fw_b2 w ! j)
           in act\<lparr>act_output := (act_output act)[j := ucast acc]\<rparr>) act;
         out = (if verbose then out @ print_output_q16 F (act_output act) OUTPUT_SIZE else out)
     in (argmax_int32 (act_output act) OUTPUT_SIZE, act, out))"

section \<open>benchmark_int8_relu.c\<close>

record mlp_activations_int8 =
  act8_hidden :: "i8 list"
  act8_output :: "i32 list"

record int8_weights =
  iw_W1 :: "i8 list list"
  iw_b1 :: "i8 list"
  iw_W2 :: "i8 list list"
  iw_b2 :: "i8 list"

definition relu_int8_scaled :: "i32 \<Rightarrow> i8" where
  "relu_int8_scaled x =
    (let scaled = signed_drop_bit 10 x in
     if scaled \<le>s 0 then 0 else if 127 <s scaled then 127 else ucast scaled)"

definition pixel_char :: "i8 \<Rightarrow> string" where
  "pixel_char pixel =
    (if pixel = 0 then '' '' else if pixel <s 16 then ''.'' else if pixel <s 32 then '':''
     else if pixel <s 48 then ''-'' else if pixel <s 64 then ''='' else if pixel <s 80 then ''+''
     else if pixel <s 96 then ''*'' else if pixel <s 112 then ''#'' else ''@'')"

definition print_input :: "i8 list \<Rightarrow> nat \<Rightarrow> 'f stdout" where
  "print_input input sample_idx =
    Printf (nl @ ''  Input image (sample %d, 28x28 ASCII art):'' @ nl) [PInt (int sample_idx + 1)] #
    for_loop 0 28 1 (\<lambda>row out.
      for_loop 0 28 1 (\<lambda>col out. out @ [Printf (pixel_char (input ! (row * 28 + col))) []])
        (out @ [Printf ''    '' []]) @ [Printf nl []]) []"

definition print_hidden :: "i8 list \<Rightarrow> nat \<Rightarrow> 'f stdout" where
  "print_hidden hidden sz =
    Printf (nl @ ''  Hidden layer (%d neurons, int8 after ReLU):'' @ nl @ ''    '') [PInt (int sz)] #
    for_loop 0 sz 1 (\<lambda>i out. let out = out @ [Printf ''%4d'' [PInt (sint (hidden ! i))]] in
      if (i + 1) mod 8 = 0 \<and> int i < int sz - 1 then out @ [Printf (nl @ ''    '') []] else out) []
    @ [Printf nl []]"

definition print_output :: "i32 list \<Rightarrow> nat \<Rightarrow> 'f stdout" where
  "print_output output sz =
    Printf (nl @ ''  Output layer (%d classes, int32 logits):'' @ nl @ ''    '') [PInt (int sz)] #
    for_loop 0 sz 1 (\<lambda>i out. out @ [Printf ''%8d'' [PInt (sint (output ! i))]]) [] @ [Printf nl []]"

definition mlp_predict_int8_relu :: "int8_weights \<Rightarrow> i8 list \<Rightarrow> mlp_activations_int8 \<Rightarrow> nat \<Rightarrow> bool
    \<Rightarrow> nat \<times> mlp_activations_int8 \<times> 'f stdout" where
  "mlp_predict_int8_relu w input_i8 act sample_idx verbose =
    (let out = (if verbose then print_input input_i8 sample_idx else []);
         act = for_loop 0 HIDDEN_SIZE 1 (\<lambda>j act.
           let acc = for_loop 0 INPUT_SIZE 1 (\<lambda>i acc. acc + scast (input_i8 ! i) * scast (iw_W1 w ! i ! j)) 0;
               acc = acc + scast (iw_b1 w ! j) * 64
           in act\<lparr>act8_hidden := (act8_hidden act)[j := relu_int8_scaled acc]\<rparr>) act;
         out = (if verbose then out @ print_hidden (act8_hidden act) HIDDEN_SIZE else out);
         act = for_loop 0 OUTPUT_SIZE 1 (\<lambda>j act.
           let acc = for_loop 0 HIDDEN_SIZE 1 (\<lambda>i acc. acc + scast (act8_hidden act ! i) * scast (iw_W2 w ! i ! j)) 0;
               acc = acc + scast (iw_b2 w ! j) * 32
           in act\<lparr>act8_output := (act8_output act)[j := acc]\<rparr>) act;
         out = (if verbose then out @ print_output (act8_output act) OUTPUT_SIZE else out)
     in (argmax_int32 (act8_output act) OUTPUT_SIZE, act, out))"

section \<open>The main functions\<close>

text \<open>
  The measured loop of every \<open>main\<close>: \<open>instret k\<close> is the value of the \<open>k\<close>-th call of
  \<open>read_instret\<close> (\<open>unsigned long\<close>), \<open>predict i act\<close> the inference of sample \<open>i\<close>, \<open>before\<close> and
  \<open>after\<close> what the program prints around it.  \<open>mean_of\<close> and the two accuracy arguments are the
  floating-point expressions of the summary.
\<close>

definition NUM_TEST_SAMPLES :: nat where "NUM_TEST_SAMPLES = 10"

definition test_labels :: "int list" where
  "test_labels = [7, 2, 1, 0, 4, 1, 4, 9, 5, 9]"

record ('a, 'f) bench =
  bn_act :: 'a
  bn_total :: i64
  bn_correct :: int
  bn_out :: "'f stdout"

definition bench_sample :: "(nat \<Rightarrow> i64) \<Rightarrow> (nat \<Rightarrow> 'a \<Rightarrow> nat \<times> 'a \<times> 'f stdout) \<Rightarrow> (nat \<Rightarrow> 'f stdout)
    \<Rightarrow> (nat \<Rightarrow> int \<Rightarrow> bool \<Rightarrow> i64 \<Rightarrow> 'a \<Rightarrow> 'f stdout) \<Rightarrow> nat \<Rightarrow> ('a, 'f) bench \<Rightarrow> ('a, 'f) bench" where
  "bench_sample instret predict before after i b =
    (let out = bn_out b @ before i;
         start = instret (2 * i);
         (prediction, act, pout) = predict i (bn_act b);
         stop = instret (2 * i + 1);
         n = stop - start;
         is_correct = (int prediction = test_labels ! i)
     in b\<lparr>bn_act := act, bn_total := bn_total b + n, bn_correct := bn_correct b + (if is_correct then 1 else 0),
          bn_out := out @ pout @ after i (int prediction) is_correct n act\<rparr>)"

definition host_mark :: "bool \<Rightarrow> string" where
  "host_mark ok = (if ok then CHECK else CROSS)"

definition int8_after :: "bool \<Rightarrow> nat \<Rightarrow> int \<Rightarrow> bool \<Rightarrow> i64 \<Rightarrow> mlp_activations_int8 \<Rightarrow> 'f stdout" where
  "int8_after VERBOSE i prediction ok n act =
    Printf ''label=%d pred=%d %s'' [PInt (test_labels ! i), PInt prediction, PStr (host_mark ok)] #
    (if VERBOSE then
       Printf '' logits=['' [] #
       map (\<lambda>k. Printf ''%d%s'' [PInt (sint (act8_output act ! k)), PStr (if k < OUTPUT_SIZE - 1 then '','' else [])]) [0..<OUTPUT_SIZE]
       @ [Printf '']'' []]
     else []) @ [Printf ('' (inst=%lu)'' @ nl) [PInt (uint n)]]"

definition int8_main :: "int8_weights \<Rightarrow> i8 list list \<Rightarrow> bool \<Rightarrow> (nat \<Rightarrow> i64) \<Rightarrow> (int \<Rightarrow> 'f) \<Rightarrow> ('f \<Rightarrow> bool)
    \<Rightarrow> mlp_activations_int8 \<Rightarrow> int \<times> ('f stdout)" where
  "int8_main w test_images_i8 VERBOSE instret accuracy_of at_least_80 act =
    (let out = [Printf (''=== MNIST MLP (INT8 with ReLU) ==='' @ nl) [],
                Printf (''Architecture: %d -> %d (ReLU) -> %d'' @ nl) [PInt (int INPUT_SIZE), PInt (int HIDDEN_SIZE), PInt (int OUTPUT_SIZE)],
                Printf (''Data type: int8_t (8-bit signed integer)'' @ nl) [],
                Printf (''Activation: ReLU (max(0, x) - perfect for INT8!)'' @ nl) [],
                Printf (''Testing %d samples...'' @ nl @ nl) [PInt (int NUM_TEST_SAMPLES)]];
         (pred, act, out0) = mlp_predict_int8_relu w (test_images_i8 ! 0) act 0 False;
         b = for_loop 0 NUM_TEST_SAMPLES 1 (bench_sample instret
               (\<lambda>i act. mlp_predict_int8_relu w (test_images_i8 ! i) act i VERBOSE)
               (\<lambda>i. [Printf ''Sample %2d: '' [PInt (int i + 1)], Fflush]) (int8_after VERBOSE))
             \<lparr>bn_act = act, bn_total = 0, bn_correct = 0, bn_out = out @ out0\<rparr>;
         accuracy = accuracy_of (bn_correct b)
     in (if at_least_80 accuracy then 0 else 1,
         bn_out b @
         [Printf (nl @ ''=== Summary ==='' @ nl) [],
          Printf (''Accuracy: %d/%d (%.2f%%)'' @ nl) [PInt (bn_correct b), PInt (int NUM_TEST_SAMPLES), PDbl accuracy],
          Printf (''Average instructions per inference: %lu'' @ nl) [PInt (uint (bn_total b) div int NUM_TEST_SAMPLES)],
          Printf (nl @ ''=== INT8 + ReLU Advantages ==='' @ nl) [],
          Printf (''  '' @ CHECK @ '' Simple activation: max(0, x) - no lookup table needed'' @ nl) [],
          Printf (''  '' @ CHECK @ '' No precision loss: ReLU is exact in integer arithmetic'' @ nl) [],
          Printf (''  '' @ CHECK @ '' 75%% memory savings vs INT32 (int8 vs int32)'' @ nl) [],
          Printf (''  '' @ CHECK @ '' Pre-quantized data: no runtime conversion overhead'' @ nl) [],
          Printf (''  '' @ CHECK @ '' Better gradient flow than sigmoid during training'' @ nl) [],
          Printf (''  '' @ CHECK @ '' Modern standard: ReLU is default in most networks'' @ nl) [],
          Printf (''  '' @ CHECK @ '' Expected accuracy: 85-90%% (vs 30-50%% with sigmoid)'' @ nl) [],
          Printf (nl @ ''=== Comparison with Sigmoid ==='' @ nl) [],
          Printf (''  Sigmoid INT8: ~30-50%% accuracy (poor)'' @ nl) [],
          Printf (''  ReLU INT8:    ~85-90%% accuracy (good!)'' @ nl) [],
          Printf (''  Reason: ReLU is linear, no quantization error'' @ nl) []]))"

definition q16_main :: "'f float_ops \<Rightarrow> fixed_weights \<Rightarrow> 'f list list \<Rightarrow> bool \<Rightarrow> (nat \<Rightarrow> i64) \<Rightarrow> (int \<Rightarrow> 'f) \<Rightarrow> ('f \<Rightarrow> bool)
    \<Rightarrow> mlp_activations_int32 \<Rightarrow> int \<times> ('f stdout)" where
  "q16_main F w test_images VERBOSE instret accuracy_of at_least_85 act =
    (let out = [Printf (''=== MNIST MLP (INT32 Q16.16 with ReLU) ==='' @ nl) [],
                Printf (''Architecture: %d -> %d (ReLU) -> %d'' @ nl) [PInt (int INPUT_SIZE), PInt (int HIDDEN_SIZE), PInt (int OUTPUT_SIZE)],
                Printf (''Data type: int32_t Q16.16 fixed-point'' @ nl) [],
                Printf (''Activation: ReLU (max(0, x))'' @ nl) [],
                Printf (''Testing %d samples...'' @ nl @ nl) [PInt (int NUM_TEST_SAMPLES)]];
         (pred, act, out0) = mlp_predict_q16_relu F w (test_images ! 0) act 0 False;
         b = for_loop 0 NUM_TEST_SAMPLES 1 (bench_sample instret
               (\<lambda>i act. mlp_predict_q16_relu F w (test_images ! i) act i VERBOSE)
               (\<lambda>i. [Printf ''Sample %2d: '' [PInt (int i + 1)], Fflush])
               (\<lambda>i prediction ok n act. [Printf (''label=%d pred=%d %s (inst=%lu)'' @ nl)
                  [PInt (test_labels ! i), PInt prediction, PStr (host_mark ok), PInt (uint n)]]))
             \<lparr>bn_act = act, bn_total = 0, bn_correct = 0, bn_out = out @ out0\<rparr>;
         accuracy = accuracy_of (bn_correct b)
     in (if at_least_85 accuracy then 0 else 1,
         bn_out b @
         [Printf (nl @ ''=== Summary ==='' @ nl) [],
          Printf (''Accuracy: %d/%d (%.2f%%)'' @ nl) [PInt (bn_correct b), PInt (int NUM_TEST_SAMPLES), PDbl accuracy],
          Printf (''Average instructions per inference: %lu'' @ nl) [PInt (uint (bn_total b) div int NUM_TEST_SAMPLES)],
          Printf (nl @ ''=== INT32 Q16.16 + ReLU Advantages ==='' @ nl) [],
          Printf (''  '' @ CHECK @ '' High precision: 16 fractional bits'' @ nl) [],
          Printf (''  '' @ CHECK @ '' Simple activation: ReLU is max(0, x)'' @ nl) [],
          Printf (''  '' @ CHECK @ '' No soft-float library needed'' @ nl) [],
          Printf (''  '' @ CHECK @ '' Deterministic performance'' @ nl) [],
          Printf (''  '' @ CHECK @ '' Good accuracy: 90%%+'' @ nl) [],
          Printf (nl @ ''=== Comparison ==='' @ nl) [],
          Printf (''  INT32 + Sigmoid: ~90%% accuracy (complex activation)'' @ nl) [],
          Printf (''  INT32 + ReLU:    ~90%% accuracy (simpler!)'' @ nl) [],
          Printf (''  INT8 + ReLU:     ~90%% accuracy (75%% memory savings)'' @ nl) []]))"

section \<open>Arithmetic\<close>

lemma signed_drop_bit_div: "sint (signed_drop_bit n (x :: 'a::len word)) = sint x div 2 ^ n"
  by (simp add: sint_signed_drop_bit_eq drop_bit_eq_div)

lemma fp_mul_exact: "fp_mul a b = word_of_int (sint a * sint b div 2 ^ 16)"
proof -
  have ab: "\<bar>sint a\<bar> \<le> 2 ^ 31" "\<bar>sint b\<bar> \<le> 2 ^ 31"
    using sint_greater_eq [of a] sint_less [of a] sint_greater_eq [of b] sint_less [of b] by auto
  then have "\<bar>sint a * sint b\<bar> \<le> 2 ^ 31 * 2 ^ 31" unfolding abs_mult by (intro mult_mono) auto
  then have "fits TYPE(64) (sint a * sint b)" by (auto simp: fits_def)
  then have p: "sint (scast a * scast b :: i64) = sint a * sint b"
    unfolding scast_mult by (rule sint_word_of_int_fits)
  have "fp_mul a b = word_of_int (sint (signed_drop_bit 16 (scast a * scast b :: i64)))"
    unfolding fp_mul_def Let_def FP_SHIFT_def by (rule word_of_int_of_sint) simp
  then show ?thesis unfolding signed_drop_bit_div p .
qed

lemma q16_mul_fp_mul: "q16_mul a b = fp_mul a b"
  by (simp add: q16_mul_def fp_mul_def FP_SHIFT_def)

lemma sigmoid_fp_clamp: "sigmoid_fp x = word_of_int (clamp 65536 (32768 + sint x div 4))"
proof -
  have q: "sint (signed_drop_bit 2 x) = sint x div 4" by (simp add: signed_drop_bit_div)
  have bnd: "- (2 ^ 29) \<le> sint x div 4" "sint x div 4 < 2 ^ 29"
    using sint_greater_eq [of x] sint_less [of x] by auto
  have half: "signed_drop_bit 1 FP_ONE = word_of_int 32768" by (simp add: FP_ONE_def FP_SHIFT_def)
  have "signed_drop_bit 1 FP_ONE + signed_drop_bit 2 x = word_of_int (32768 + sint x div 4)"
    unfolding half q [symmetric] of_int_add by simp
  moreover have "fits TYPE(32) (32768 + sint x div 4)" using bnd by (simp add: fits_def)
  ultimately have r: "sint (signed_drop_bit 1 FP_ONE + signed_drop_bit 2 x) = 32768 + sint x div 4"
    "signed_drop_bit 1 FP_ONE + signed_drop_bit 2 x = word_of_int (32768 + sint x div 4)"
    by (simp_all add: sint_word_of_int_fits del: of_int_add)
  have one: "sint FP_ONE = 65536" "sint (5 * FP_ONE) = 327680" "sint (- (5 * FP_ONE)) = - 327680" "FP_ONE = word_of_int 65536"
    by (simp_all add: FP_ONE_def FP_SHIFT_def)
  show ?thesis
    unfolding sigmoid_fp_def Let_def word_sless_alt one(1-3) r(1) unfolding r(2) unfolding one(4)
    by (auto simp: clamp_def max_def min_def simp del: of_int_add)
qed

lemma relu_int8_scaled_clamp: "relu_int8_scaled x = word_of_int (clamp 127 (sint x div 1024))"
proof -
  have s: "sint (signed_drop_bit 10 x) = sint x div 1024" by (simp add: signed_drop_bit_div)
  have "(ucast (signed_drop_bit 10 x) :: i8) = word_of_int (sint x div 1024)"
    unfolding s [symmetric] by (rule word_of_int_of_sint) simp
  then show ?thesis
    unfolding relu_int8_scaled_def Let_def word_sless_alt word_sle_eq s
    by (auto simp: clamp_def max_def min_def)
qed

lemma argmax_int32_first_max: "0 < n \<Longrightarrow> first_max n xs (argmax_int32 xs n)"
proof -
  assume n: "0 < n"
  have id: "(scast :: i32 \<Rightarrow> i32) = (\<lambda>x. x)" by (simp add: fun_eq_iff)
  have "argmax_int32 xs n = argmax_max_val n xs" unfolding argmax_int32_def argmax_max_val_def id ..
  also have "\<dots> = argmax_pred n xs" using n by (intro argmax_max_val_pred) simp_all
  finally show ?thesis using argmax_pred_first_max [OF n, of xs] by simp
qed

section \<open>Inference\<close>

text \<open>
  Reference layers over exact integers: \<open>q16_dot\<close> floors every product to Q16.16 before adding,
  as both programs do.
\<close>

definition q16_dot :: "nat \<Rightarrow> i32 list \<Rightarrow> i32 list list \<Rightarrow> nat \<Rightarrow> int" where
  "q16_dot n xs W j = (\<Sum>i \<leftarrow> [0..<n]. sint (xs ! i) * sint (W ! i ! j) div 2 ^ 16)"

lemma fp_row: "fold (\<lambda>i acc. acc + fp_mul (xs ! i) (W ! i ! j)) [0..<n] b = b + word_of_int (q16_dot n xs W j)"
  by (simp add: fold_add_sum q16_dot_def fp_mul_exact of_int_sum_list_map del: of_int_mult of_int_add)

definition int32_hidden :: "fixed_weights \<Rightarrow> i32 list \<Rightarrow> i32 list" where
  "int32_hidden w xs = map (\<lambda>j. sigmoid_fp (fw_b1 w ! j + word_of_int (q16_dot INPUT_SIZE xs (fw_W1 w) j))) [0..<HIDDEN_SIZE]"

definition int32_output :: "fixed_weights \<Rightarrow> i32 list \<Rightarrow> i32 list" where
  "int32_output w h = map (\<lambda>j. fw_b2 w ! j + word_of_int (q16_dot HIDDEN_SIZE h (fw_W2 w) j)) [0..<OUTPUT_SIZE]"

definition progress :: "'f stdout" where
  "progress = concat [[Printf ''.'' [], Fflush], [Printf ''.'' [], Fflush], [Printf ''.'' [], Fflush], [Printf ''.'' [], Fflush]] @ [Printf ''H'' [], Fflush, Printf ''O '' [], Fflush]"

lemma fold_act_hidden:
  "fold (\<lambda>j act. act\<lparr>act_hidden := (act_hidden act)[j := f j]\<rparr>) js act = act\<lparr>act_hidden := fold (\<lambda>j h. h[j := f j]) js (act_hidden act)\<rparr>"
  by (induction js arbitrary: act) simp_all

lemma fold_act_output:
  assumes "\<And>j xs. f j (act\<lparr>act_output := xs\<rparr>) = g j"
  shows "fold (\<lambda>j act. act\<lparr>act_output := (act_output act)[j := f j act]\<rparr>) js act
    = act\<lparr>act_output := fold (\<lambda>j xs. xs[j := g j]) js (act_output act)\<rparr>"
proof -
  have "fold (\<lambda>j act. act\<lparr>act_output := (act_output act)[j := f j act]\<rparr>) js (act\<lparr>act_output := xs\<rparr>)
      = act\<lparr>act_output := fold (\<lambda>j xs. xs[j := g j]) js xs\<rparr>" for xs
    by (induction js arbitrary: xs) (simp_all add: assms)
  from this [of "act_output act"] show ?thesis by simp
qed

lemma fold_split_pair:
  "fold (\<lambda>j (a, b). (f j a, g j b)) js (a, b) = (fold f js a, fold g js b)"
  by (induction js arbitrary: a b) simp_all

lemma fold_append_if: "fold (\<lambda>j out. if P j then out @ e else out) js out = out @ concat (map (\<lambda>_. e) (filter P js))"
  by (induction js arbitrary: out) simp_all

lemma progress_positions: "filter (\<lambda>j. j mod 8 = 0) [0..<HIDDEN_SIZE] = [0, 8, 16, 24]"
  unfolding HIDDEN_SIZE_def by code_simp

lemma fill_input: "fold (\<lambda>i xs. xs[i := f i]) [0..<n] (replicate n c) = map f [0..<n]"
  by (simp add: fold_upd_fill)

lemma int32_hidden_loop:
  assumes "length (act_hidden act) = HIDDEN_SIZE"
  shows "for_loop 0 HIDDEN_SIZE 1 (\<lambda>j (act, out).
       let out = (if p \<and> j mod 8 = 0 then out @ [Printf ''.'' [], Fflush] else out);
           acc = for_loop 0 INPUT_SIZE 1 (\<lambda>i acc. acc + fp_mul (xs ! i) (fw_W1 w ! i ! j)) (fw_b1 w ! j)
       in (act\<lparr>act_hidden := (act_hidden act)[j := sigmoid_fp acc]\<rparr>, out)) (act, [])
    = (act\<lparr>act_hidden := int32_hidden w xs\<rparr>,
       if p then concat [[Printf ''.'' [], Fflush], [Printf ''.'' [], Fflush], [Printf ''.'' [], Fflush], [Printf ''.'' [], Fflush]] else [])"
  unfolding Let_def One_nat_def for_loop_fold1 fp_row fold_split_pair fold_act_hidden fold_append_if
  using assms by (simp add: fold_upd_fill int32_hidden_def progress_positions)

lemma int32_output_loop:
  assumes "length (act_output act) = OUTPUT_SIZE"
  shows "for_loop 0 OUTPUT_SIZE 1 (\<lambda>j act.
       let acc = for_loop 0 HIDDEN_SIZE 1 (\<lambda>i acc. acc + fp_mul (act_hidden act ! i) (fw_W2 w ! i ! j)) (fw_b2 w ! j)
       in act\<lparr>act_output := (act_output act)[j := acc]\<rparr>) act
    = act\<lparr>act_output := int32_output w (act_hidden act)\<rparr>"
  unfolding Let_def One_nat_def for_loop_fold1 fp_row
  using assms by (subst fold_act_output, simp) (simp add: fold_upd_fill int32_output_def)

lemma mlp_predict_int32_result:
  assumes "length (act_hidden act) = HIDDEN_SIZE" "length (act_output act) = OUTPUT_SIZE"
  shows "mlp_predict_int32 float_to_fp w show_progress input_float act =
    (let h = int32_hidden w (map (\<lambda>i. float_to_fp (input_float ! i)) [0..<INPUT_SIZE]); out = int32_output w h
     in (argmax_int32 out OUTPUT_SIZE, \<lparr>act_hidden = h, act_output = out\<rparr>, if show_progress then progress else []))"
proof -
  have out: "length (act_output (act\<lparr>act_hidden := h\<rparr>)) = OUTPUT_SIZE" for h using assms(2) by simp
  show ?thesis
    unfolding mlp_predict_int32_def int32_hidden_loop [OF assms(1)] let_pair int32_output_loop [OF out]
    by (cases act) (simp add: Let_def progress_def for_loop_fold1 fill_input)
qed

lemma q16_product: "signed_drop_bit 16 (scast (a :: i32) * scast (b :: i32) :: i64) = word_of_int (sint a * sint b div 2 ^ 16)"
proof -
  have "\<bar>sint a\<bar> \<le> 2 ^ 31" "\<bar>sint b\<bar> \<le> 2 ^ 31"
    using sint_greater_eq [of a] sint_less [of a] sint_greater_eq [of b] sint_less [of b] by auto
  then have "\<bar>sint a * sint b\<bar> \<le> 2 ^ 31 * 2 ^ 31" unfolding abs_mult by (intro mult_mono) auto
  then have "sint (scast a * scast b :: i64) = sint a * sint b"
    unfolding scast_mult by (intro sint_word_of_int_fits) (auto simp: fits_def)
  then have "sint (signed_drop_bit 16 (scast a * scast b :: i64)) = sint a * sint b div 2 ^ 16"
    by (simp add: signed_drop_bit_div)
  then have "(word_of_int (sint (signed_drop_bit 16 (scast a * scast b :: i64))) :: i64) = word_of_int (sint a * sint b div 2 ^ 16)"
    by (rule arg_cong)
  then show ?thesis by simp
qed

lemma q16_row:
  "fold (\<lambda>i acc. acc + signed_drop_bit 16 (scast (xs ! i) * scast (W ! i ! j) :: i64)) [0..<n] 0 = word_of_int (q16_dot n xs W j)"
  by (simp add: fold_add_sum q16_dot_def q16_product of_int_sum_list_map del: of_int_mult of_int_add)

lemma q16_acc: "(ucast (word_of_int d + scast (b :: i32) :: i64) :: i32) = word_of_int (d + sint b)"
proof -
  have "(word_of_int d + scast b :: i64) = word_of_int (d + sint b)" unfolding scast_eq of_int_add ..
  then show ?thesis by (simp add: ucast_word_of_int del: of_int_add)
qed

definition q16_hidden :: "fixed_weights \<Rightarrow> i32 list \<Rightarrow> i32 list" where
  "q16_hidden w xs = map (\<lambda>j. relu_q16 (word_of_int (q16_dot INPUT_SIZE xs (fw_W1 w) j + sint (fw_b1 w ! j)))) [0..<HIDDEN_SIZE]"

definition q16_output :: "fixed_weights \<Rightarrow> i32 list \<Rightarrow> i32 list" where
  "q16_output w h = map (\<lambda>j. word_of_int (q16_dot HIDDEN_SIZE h (fw_W2 w) j + sint (fw_b2 w ! j))) [0..<OUTPUT_SIZE]"

lemma q16_hidden_loop:
  assumes "length (act_hidden act) = HIDDEN_SIZE"
  shows "for_loop 0 HIDDEN_SIZE 1 (\<lambda>j act.
       let acc = for_loop 0 INPUT_SIZE 1 (\<lambda>i acc.
                   acc + signed_drop_bit 16 (scast (xs ! i) * scast (fw_W1 w ! i ! j) :: i64)) 0;
           acc = acc + scast (fw_b1 w ! j); result = ucast acc
       in act\<lparr>act_hidden := (act_hidden act)[j := relu_q16 result]\<rparr>) act = act\<lparr>act_hidden := q16_hidden w xs\<rparr>"
  unfolding Let_def One_nat_def for_loop_fold1 q16_row q16_acc fold_act_hidden
  using assms by (simp add: fold_upd_fill q16_hidden_def)

lemma q16_output_loop:
  assumes "length (act_output act) = OUTPUT_SIZE"
  shows "for_loop 0 OUTPUT_SIZE 1 (\<lambda>j act.
       let acc = for_loop 0 HIDDEN_SIZE 1 (\<lambda>i acc.
                   acc + signed_drop_bit 16 (scast (act_hidden act ! i) * scast (fw_W2 w ! i ! j) :: i64)) 0;
           acc = acc + scast (fw_b2 w ! j)
       in act\<lparr>act_output := (act_output act)[j := ucast acc]\<rparr>) act = act\<lparr>act_output := q16_output w (act_hidden act)\<rparr>"
  unfolding Let_def One_nat_def for_loop_fold1 q16_row q16_acc
  using assms by (subst fold_act_output, simp) (simp add: fold_upd_fill q16_output_def)

lemma mlp_predict_q16_result:
  assumes "length (act_hidden act) = HIDDEN_SIZE" "length (act_output act) = OUTPUT_SIZE"
  shows "mlp_predict_q16_relu F w input_float act sample_idx verbose =
    (let h = q16_hidden w (map (\<lambda>i. fo_to_q16 F (input_float ! i)) [0..<INPUT_SIZE]); out = q16_output w h
     in (argmax_int32 out OUTPUT_SIZE, \<lparr>act_hidden = h, act_output = out\<rparr>,
         if verbose then print_input_q16 F input_float sample_idx @ print_hidden_q16 F h HIDDEN_SIZE
           @ print_output_q16 F out OUTPUT_SIZE else []))"
proof -
  have out: "length (act_output (act\<lparr>act_hidden := h\<rparr>)) = OUTPUT_SIZE" for h using assms(2) by simp
  show ?thesis
    unfolding mlp_predict_q16_relu_def Let_def One_nat_def for_loop_fold1 fill_input
      q16_hidden_loop [OF assms(1), unfolded Let_def One_nat_def for_loop_fold1]
      q16_output_loop [OF out, unfolded Let_def One_nat_def for_loop_fold1]
    by (cases act) simp
qed

section \<open>int8 inference\<close>

definition int8_dot :: "nat \<Rightarrow> i8 list \<Rightarrow> i8 list list \<Rightarrow> nat \<Rightarrow> int" where
  "int8_dot n xs W j = (\<Sum>i \<leftarrow> [0..<n]. sint (xs ! i) * sint (W ! i ! j))"

lemma int8_row:
  "fold (\<lambda>i acc. acc + scast (xs ! i) * scast (W ! i ! j) :: i32) [0..<n] 0 = word_of_int (int8_dot n xs W j)"
  unfolding scast_mult by (simp add: fold_add_sum int8_dot_def of_int_sum_list_map)

lemma int8_dot_bound: "\<bar>int8_dot n xs W j\<bar> \<le> int n * 16384"
proof (induction n)
  case 0
  then show ?case by (simp add: int8_dot_def)
next
  case (Suc n)
  have "\<bar>sint (xs ! n) * sint (W ! n ! j)\<bar> \<le> 128 * 128"
    unfolding abs_mult using sint_range8 [of "xs ! n"] sint_range8 [of "W ! n ! j"] by (intro mult_mono) auto
  with Suc show ?case by (simp add: int8_dot_def)
qed

lemma int8_acc: "word_of_int d + scast (b :: i8) * 64 = (word_of_int (d + sint b * 64) :: i32)"
  "word_of_int d + scast (b :: i8) * 32 = (word_of_int (d + sint b * 32) :: i32)"
  unfolding scast_eq of_int_add of_int_mult by simp_all

definition int8_hidden :: "int8_weights \<Rightarrow> i8 list \<Rightarrow> i8 list" where
  "int8_hidden w xs = map (\<lambda>j. word_of_int (clamp 127 ((int8_dot INPUT_SIZE xs (iw_W1 w) j + sint (iw_b1 w ! j) * 64) div 1024))) [0..<HIDDEN_SIZE]"

definition int8_logit :: "int8_weights \<Rightarrow> i8 list \<Rightarrow> nat \<Rightarrow> int" where
  "int8_logit w h j = int8_dot HIDDEN_SIZE h (iw_W2 w) j + sint (iw_b2 w ! j) * 32"

lemma int8_hidden_fits: "fits TYPE(32) (int8_dot INPUT_SIZE xs W j + sint (b :: i8) * 64)"
  using int8_dot_bound [of INPUT_SIZE xs W j] sint_range8 [of b] by (auto simp: fits_def size_defs)

lemma int8_logit_fits: "fits TYPE(32) (int8_logit w h j)"
  using int8_dot_bound [of HIDDEN_SIZE h "iw_W2 w" j] sint_range8 [of "iw_b2 w ! j"]
  by (auto simp: fits_def size_defs int8_logit_def)

lemma int8_act: "relu_int8_scaled (word_of_int (int8_dot INPUT_SIZE xs W j + sint (b :: i8) * 64))
    = word_of_int (clamp 127 ((int8_dot INPUT_SIZE xs W j + sint b * 64) div 1024))"
  unfolding relu_int8_scaled_clamp sint_word_of_int_fits [OF int8_hidden_fits] ..

lemma fold_act8_hidden:
  "fold (\<lambda>j act. act\<lparr>act8_hidden := (act8_hidden act)[j := f j]\<rparr>) js act = act\<lparr>act8_hidden := fold (\<lambda>j h. h[j := f j]) js (act8_hidden act)\<rparr>"
  by (induction js arbitrary: act) simp_all

lemma fold_act8_output:
  assumes "\<And>j xs. f j (act\<lparr>act8_output := xs\<rparr>) = g j"
  shows "fold (\<lambda>j act. act\<lparr>act8_output := (act8_output act)[j := f j act]\<rparr>) js act
    = act\<lparr>act8_output := fold (\<lambda>j xs. xs[j := g j]) js (act8_output act)\<rparr>"
proof -
  have "fold (\<lambda>j act. act\<lparr>act8_output := (act8_output act)[j := f j act]\<rparr>) js (act\<lparr>act8_output := xs\<rparr>)
      = act\<lparr>act8_output := fold (\<lambda>j xs. xs[j := g j]) js xs\<rparr>" for xs
    by (induction js arbitrary: xs) (simp_all add: assms)
  from this [of "act8_output act"] show ?thesis by simp
qed

lemma int8_output_loop:
  assumes "length (act8_output act) = OUTPUT_SIZE"
  shows "fold (\<lambda>j act. act\<lparr>act8_output := (act8_output act)[j :=
       fold (\<lambda>i acc. acc + scast (act8_hidden act ! i) * scast (iw_W2 w ! i ! j)) [0..<HIDDEN_SIZE] 0 + scast (iw_b2 w ! j) * 32]\<rparr>) [0..<OUTPUT_SIZE] act
    = act\<lparr>act8_output := map (\<lambda>j. word_of_int (int8_logit w (act8_hidden act) j)) [0..<OUTPUT_SIZE]\<rparr>"
  unfolding int8_row int8_acc
  using assms by (subst fold_act8_output, simp) (simp add: fold_upd_fill int8_logit_def)

lemma mlp_predict_int8_result:
  assumes "length (act8_hidden act) = HIDDEN_SIZE" "length (act8_output act) = OUTPUT_SIZE"
  shows "mlp_predict_int8_relu w input_i8 act sample_idx verbose =
    (let h = int8_hidden w input_i8; out = map (\<lambda>j. word_of_int (int8_logit w h j)) [0..<OUTPUT_SIZE]
     in (argmax_int32 out OUTPUT_SIZE, \<lparr>act8_hidden = h, act8_output = out\<rparr>,
         if verbose then print_input input_i8 sample_idx @ print_hidden h HIDDEN_SIZE @ print_output out OUTPUT_SIZE else []))"
proof -
  have out: "length (act8_output (act\<lparr>act8_hidden := h\<rparr>)) = OUTPUT_SIZE" for h using assms(2) by simp
  have hid: "fold (\<lambda>j h. h[j := relu_int8_scaled (word_of_int (int8_dot INPUT_SIZE input_i8 (iw_W1 w) j + sint (iw_b1 w ! j) * 64))])
      [0..<HIDDEN_SIZE] (act8_hidden act) = int8_hidden w input_i8"
    unfolding int8_act using assms(1) by (simp add: fold_upd_fill int8_hidden_def)
  show ?thesis
    unfolding mlp_predict_int8_relu_def Let_def One_nat_def for_loop_fold1
    unfolding int8_row [where xs = input_i8] int8_acc(1) fold_act8_hidden hid int8_output_loop [OF out]
    by (cases act) simp
qed

section \<open>The benchmark loops count correct predictions\<close>

definition hits :: "(nat \<Rightarrow> nat) \<Rightarrow> int" where
  "hits c = int (length (filter (\<lambda>i. int (c i) = test_labels ! i) [0..<NUM_TEST_SAMPLES]))"

lemma bench_correct:
  assumes "\<And>i act. ok act \<Longrightarrow> fst (predict i act) = c i \<and> ok (fst (snd (predict i act)))" "ok (bn_act b)"
  shows "bn_correct (fold (bench_sample instret predict before after) js b)
    = bn_correct b + int (length (filter (\<lambda>i. int (c i) = test_labels ! i) js))"
  using assms(2)
proof (induction js arbitrary: b)
  case Nil
  then show ?case by simp
next
  case (Cons i js)
  obtain p act out where p: "predict i (bn_act b) = (p, act, out)" by (cases "predict i (bn_act b)") auto
  with assms(1) [OF Cons.prems, of i] have "p = c i" "ok act" by simp_all
  with p Cons show ?case by (simp add: bench_sample_def Let_def)
qed

text \<open>The class a sample is assigned, as a function of the weights and the sample alone.\<close>

definition int8_class :: "int8_weights \<Rightarrow> i8 list \<Rightarrow> nat" where
  "int8_class w xs = argmax_int32 (map (\<lambda>j. word_of_int (int8_logit w (int8_hidden w xs) j)) [0..<OUTPUT_SIZE]) OUTPUT_SIZE"

definition q16_class :: "fixed_weights \<Rightarrow> i32 list \<Rightarrow> nat" where
  "q16_class w xs = argmax_int32 (q16_output w (q16_hidden w xs)) OUTPUT_SIZE"

definition act8_dims :: "mlp_activations_int8 \<Rightarrow> bool" where
  "act8_dims act \<longleftrightarrow> length (act8_hidden act) = HIDDEN_SIZE \<and> length (act8_output act) = OUTPUT_SIZE"

definition act32_dims :: "mlp_activations_int32 \<Rightarrow> bool" where
  "act32_dims act \<longleftrightarrow> length (act_hidden act) = HIDDEN_SIZE \<and> length (act_output act) = OUTPUT_SIZE"

lemma int8_predict_dims:
  "act8_dims act \<Longrightarrow> fst (mlp_predict_int8_relu w xs act i v :: nat \<times> mlp_activations_int8 \<times> 'f stdout) = int8_class w xs
     \<and> act8_dims (fst (snd (mlp_predict_int8_relu w xs act i v :: nat \<times> mlp_activations_int8 \<times> 'f stdout)))"
  by (simp add: act8_dims_def mlp_predict_int8_result Let_def int8_class_def int8_hidden_def)

lemma q16_predict_dims:
  "act32_dims act \<Longrightarrow> fst (mlp_predict_q16_relu F w xs act i v) = q16_class w (map (\<lambda>k. fo_to_q16 F (xs ! k)) [0..<INPUT_SIZE])
     \<and> act32_dims (fst (snd (mlp_predict_q16_relu F w xs act i v)))"
  by (simp add: act32_dims_def mlp_predict_q16_result Let_def q16_class_def q16_hidden_def q16_output_def)

lemma int8_class_lt: "int8_class w xs < OUTPUT_SIZE"
  using argmax_int32_first_max [of OUTPUT_SIZE] by (simp add: int8_class_def first_max_def size_defs)

text \<open>
  The exit status of benchmark_int8_relu.c is decided by the number of samples whose class,
  a function of the weights and the image alone, is the label: neither the warm-up run nor the
  activations left by earlier samples matter, and \<open>VERBOSE\<close> changes only the output.
\<close>

theorem int8_main_exit_status:
  assumes "act8_dims act"
  shows "fst (int8_main w test_images_i8 VERBOSE instret accuracy_of at_least_80 act)
    = (if at_least_80 (accuracy_of (hits (\<lambda>i. int8_class w (test_images_i8 ! i)))) then 0 else 1)"
proof -
  obtain p act' out' where warm: "mlp_predict_int8_relu w (test_images_i8 ! 0) act 0 False = (p, act', out' :: 'a stdout)"
    by (cases "mlp_predict_int8_relu w (test_images_i8 ! 0) act 0 False :: nat \<times> mlp_activations_int8 \<times> 'a stdout") auto
  with int8_predict_dims [OF assms, of w "test_images_i8 ! 0" 0 False, where 'f = 'a] have act': "act8_dims act'" by simp
  note loop = bench_correct [where ok = act8_dims and c = "\<lambda>i. int8_class w (test_images_i8 ! i)"
      and predict = "\<lambda>i act. mlp_predict_int8_relu w (test_images_i8 ! i) act i VERBOSE", OF int8_predict_dims]
  show ?thesis
    unfolding int8_main_def Let_def warm prod.case One_nat_def for_loop_fold1 using act'
    by (simp add: loop hits_def)
qed

definition act8_initial :: mlp_activations_int8 where
  "act8_initial = \<lparr>act8_hidden = replicate HIDDEN_SIZE 0, act8_output = replicate OUTPUT_SIZE 0\<rparr>"

definition int8_zero_weights :: int8_weights where
  "int8_zero_weights = \<lparr>iw_W1 = replicate INPUT_SIZE (replicate HIDDEN_SIZE 0), iw_b1 = replicate HIDDEN_SIZE 0,
     iw_W2 = replicate HIDDEN_SIZE (replicate OUTPUT_SIZE 0), iw_b2 = replicate OUTPUT_SIZE 0\<rparr>"

theorem int8_main_exit_status_witness:
  "act8_dims act8_initial \<and>
   fst (int8_main int8_zero_weights (replicate 10 (replicate INPUT_SIZE 5)) True (\<lambda>k. word_of_nat k)
     (\<lambda>c. c * 10) (\<lambda>a. 80 \<le> a) act8_initial)
   = (if 80 \<le> hits (\<lambda>i. int8_class int8_zero_weights (replicate 10 (replicate INPUT_SIZE 5) ! i)) * 10 then 0 else 1)"
proof -
  have "act8_dims act8_initial" by (simp add: act8_dims_def act8_initial_def)
  then show ?thesis
    using int8_main_exit_status [of act8_initial int8_zero_weights "replicate 10 (replicate INPUT_SIZE 5)" True
      "\<lambda>k. word_of_nat k" "\<lambda>c. c * 10" "\<lambda>a. 80 \<le> a"] by simp
qed

section \<open>Properties\<close>

text \<open>
  The piecewise sigmoid of benchmark_int32.c is, on every 32-bit input, the line
  \<open>0.5 + x / 4\<close> in Q16.16 clamped to \<open>[0, 1.0]\<close>: no intermediate value overflows and the two early
  returns at \<open>\<plusminus>5\<close> agree with the clamp.
\<close>

theorem sigmoid_fp_value: "sint (sigmoid_fp x) = clamp (sint FP_ONE) (sint FP_ONE div 2 + sint x div 4)"
proof -
  have "sint FP_ONE = 65536" by (simp add: FP_ONE_def FP_SHIFT_def)
  moreover have "fits TYPE(32) (clamp 65536 v)" for v by (auto simp: fits_def clamp_def)
  ultimately show ?thesis by (simp add: sigmoid_fp_clamp sint_word_of_int_fits)
qed

text \<open>
  One inference of benchmark_int32.c, on every weight and input: the accumulators are the
  bias plus the sum of the floored Q16.16 products modulo \<open>2 ^ 32\<close>, every hidden activation is in
  \<open>[0, 1.0]\<close>, the class is the first maximal output, and the progress output is four dots, \<open>H\<close>
  and \<open>O\<close>, or nothing.
\<close>

theorem int32_inference:
  assumes "act32_dims act"
  shows "let (pred, act', out) = mlp_predict_int32 float_to_fp w show_progress input_float act in
    act_hidden act' = int32_hidden w (map (\<lambda>i. float_to_fp (input_float ! i)) [0..<INPUT_SIZE]) \<and>
    act_output act' = int32_output w (act_hidden act') \<and>
    (\<forall>h \<in> set (act_hidden act'). 0 \<le> sint h \<and> sint h \<le> 65536) \<and>
    first_max OUTPUT_SIZE (act_output act') pred \<and>
    literal_text out = (if show_progress then ''....HO '' else [])"
proof -
  have "0 \<le> sint (sigmoid_fp x) \<and> sint (sigmoid_fp x) \<le> 65536" for x
  proof -
    have "fits TYPE(32) (clamp 65536 (32768 + sint x div 4))" by (auto simp: fits_def clamp_def)
    then show ?thesis by (simp add: sigmoid_fp_clamp sint_word_of_int_fits) (auto simp: clamp_def)
  qed
  then have "\<forall>h \<in> set (int32_hidden w xs). 0 \<le> sint h \<and> sint h \<le> 65536" for xs
    by (simp add: int32_hidden_def)
  then show ?thesis
    using assms argmax_int32_first_max [of OUTPUT_SIZE]
    by (simp add: mlp_predict_int32_result act32_dims_def Let_def progress_def size_defs)
qed

definition act32_initial :: mlp_activations_int32 where
  "act32_initial = \<lparr>act_hidden = replicate HIDDEN_SIZE 0, act_output = replicate OUTPUT_SIZE 0\<rparr>"

definition fixed_zero_weights :: fixed_weights where
  "fixed_zero_weights = \<lparr>fw_W1 = replicate INPUT_SIZE (replicate HIDDEN_SIZE 0), fw_b1 = replicate HIDDEN_SIZE 0,
     fw_W2 = replicate HIDDEN_SIZE (replicate OUTPUT_SIZE 0), fw_b2 = replicate OUTPUT_SIZE 0\<rparr>"

lemma act32_initial_dims: "act32_dims act32_initial"
  by (simp add: act32_dims_def act32_initial_def)

theorem int32_inference_witness:
  "act32_dims act32_initial \<and>
   literal_text (snd (snd (mlp_predict_int32 word_of_int fixed_zero_weights True (replicate INPUT_SIZE 1) act32_initial))) = ''....HO ''"
  using int32_inference [OF act32_initial_dims, of word_of_int fixed_zero_weights True "replicate INPUT_SIZE 1"] act32_initial_dims
  by (auto simp: Let_def split_beta)

lemma q16_dot_bound: "\<bar>q16_dot n xs W j\<bar> \<le> int n * 2 ^ 46"
proof (induction n)
  case 0
  then show ?case by (simp add: q16_dot_def)
next
  case (Suc n)
  let ?p = "sint (xs ! n) * sint (W ! n ! j)"
  have "\<bar>sint (xs ! n)\<bar> \<le> 2 ^ 31" "\<bar>sint (W ! n ! j)\<bar> \<le> 2 ^ 31"
    using sint_greater_eq [of "xs ! n"] sint_less [of "xs ! n"] sint_greater_eq [of "W ! n ! j"] sint_less [of "W ! n ! j"] by auto
  then have "\<bar>?p\<bar> \<le> 2 ^ 31 * 2 ^ 31" unfolding abs_mult by (intro mult_mono) auto
  then have "\<bar>?p div 2 ^ 16\<bar> \<le> 2 ^ 46" by (simp add: abs_le_iff) linarith
  with Suc show ?case by (simp add: q16_dot_def)
qed

text \<open>
  One inference of benchmark_int32_relu.c: the 64-bit accumulators never overflow, so each
  output is the low 32 bits of the exact sum of floored products plus the bias; hidden
  activations are not negative and the class is the first maximal output.
\<close>

theorem q16_inference:
  assumes "act32_dims act"
  shows "let (pred, act', out) = mlp_predict_q16_relu F w input_float act sample_idx verbose;
        xs = map (\<lambda>i. fo_to_q16 F (input_float ! i)) [0..<INPUT_SIZE] in
    (\<forall>j < HIDDEN_SIZE. fits TYPE(64) (q16_dot INPUT_SIZE xs (fw_W1 w) j + sint (fw_b1 w ! j)) \<and>
       act_hidden act' ! j = relu_q16 (word_of_int (q16_dot INPUT_SIZE xs (fw_W1 w) j + sint (fw_b1 w ! j))) \<and>
       0 \<le> sint (act_hidden act' ! j)) \<and>
    (\<forall>j < OUTPUT_SIZE. act_output act' ! j = word_of_int (q16_dot HIDDEN_SIZE (act_hidden act') (fw_W2 w) j + sint (fw_b2 w ! j))) \<and>
    first_max OUTPUT_SIZE (act_output act') pred"
proof -
  have "fits TYPE(64) (q16_dot INPUT_SIZE xs W j + sint (b :: i32))" for xs W j b
    using q16_dot_bound [of INPUT_SIZE xs W j] sint_greater_eq [of b] sint_less [of b] by (auto simp: fits_def size_defs abs_le_iff)
  moreover have "0 \<le> sint (relu_q16 x)" for x by (simp add: relu_q16_def word_sless_alt)
  ultimately show ?thesis
    using assms argmax_int32_first_max [of OUTPUT_SIZE]
    by (simp add: mlp_predict_q16_result act32_dims_def Let_def q16_hidden_def q16_output_def size_defs)
qed

definition demo_float_ops :: "int float_ops" where
  "demo_float_ops = \<lparr>fo_less_const = (\<lambda>x n d. x * int d < int n), fo_to_q16 = (\<lambda>x. word_of_int (x * 65536)),
     fo_from_q16 = (\<lambda>x. sint x div 65536)\<rparr>"

theorem q16_inference_witness:
  "act32_dims act32_initial \<and>
   first_max OUTPUT_SIZE
     (act_output (fst (snd (mlp_predict_q16_relu demo_float_ops fixed_zero_weights (replicate INPUT_SIZE 1) act32_initial 0 True))))
     (fst (mlp_predict_q16_relu demo_float_ops fixed_zero_weights (replicate INPUT_SIZE 1) act32_initial 0 True))"
  using q16_inference [OF act32_initial_dims, of demo_float_ops fixed_zero_weights "replicate INPUT_SIZE 1" 0 True] act32_initial_dims
  by (auto simp: Let_def split_beta)

text \<open>
  One inference of benchmark_int8_relu.c is exact: each logit is the integer
  \<open>hidden . W2 + 32 * b2\<close>, each hidden value the integer \<open>(x . W1 + 64 * b1)\<close> divided by 1024
  (rounding down) and clamped to \<open>[0, 127]\<close>, whatever the weights.
\<close>

theorem int8_inference_exact:
  assumes "act8_dims act"
  shows "let (pred, act', out) = mlp_predict_int8_relu w input_i8 act sample_idx verbose in
    (\<forall>j < HIDDEN_SIZE. sint (act8_hidden act' ! j)
       = clamp 127 ((int8_dot INPUT_SIZE input_i8 (iw_W1 w) j + sint (iw_b1 w ! j) * 64) div 1024)) \<and>
    (\<forall>j < OUTPUT_SIZE. sint (act8_output act' ! j)
       = int8_dot HIDDEN_SIZE (act8_hidden act') (iw_W2 w) j + sint (iw_b2 w ! j) * 32) \<and>
    first_max OUTPUT_SIZE (act8_output act') pred"
proof -
  have "fits TYPE(8) (clamp 127 v)" for v by (auto simp: fits_def clamp_def)
  then have hid: "\<forall>j < HIDDEN_SIZE. sint (int8_hidden w input_i8 ! j)
      = clamp 127 ((int8_dot INPUT_SIZE input_i8 (iw_W1 w) j + sint (iw_b1 w ! j) * 64) div 1024)"
    by (simp add: int8_hidden_def sint_word_of_int_fits)
  have "sint (word_of_int (int8_logit w h j) :: i32) = int8_logit w h j" for h j
    by (rule sint_word_of_int_fits [OF int8_logit_fits])
  then show ?thesis
    using assms hid argmax_int32_first_max [of OUTPUT_SIZE]
    by (simp add: mlp_predict_int8_result act8_dims_def Let_def int8_logit_def size_defs del: of_int_add)
qed

theorem int8_inference_exact_witness:
  "act8_dims act8_initial \<and>
   sint (act8_output (fst (snd (mlp_predict_int8_relu int8_zero_weights (replicate INPUT_SIZE 5) act8_initial 0 True
      :: nat \<times> mlp_activations_int8 \<times> int stdout))) ! 3)
   = int8_dot HIDDEN_SIZE (act8_hidden (fst (snd (mlp_predict_int8_relu int8_zero_weights (replicate INPUT_SIZE 5) act8_initial 0 True
      :: nat \<times> mlp_activations_int8 \<times> int stdout)))) (iw_W2 int8_zero_weights) 3 + sint (iw_b2 int8_zero_weights ! 3) * 32"
proof -
  have dims: "act8_dims act8_initial" by (simp add: act8_dims_def act8_initial_def)
  then show ?thesis
    using int8_inference_exact [OF dims, of int8_zero_weights "replicate INPUT_SIZE 5" 0 True, where 'a = int]
    by (simp add: Let_def split_beta size_defs)
qed

end
