(* ===== verification/Mnist_Mains.thy ===== *)
theory Mnist_Mains
  imports Mnist_Variants Mnist_Fixed
begin

text \<open>
  The main programs of benchmark_pvmac.c, benchmark_wide_vec.c and benchmark_int32.c
  (sw/mnist-newlib), in their RISC-V configuration.  The floating-point test images, the
  conversions of a pixel, the counter reads and the floating-point values that are only printed
  are arguments; \<open>ebreak\<close> ends a program.
\<close>

section \<open>The single-kernel programs\<close>

text \<open>\<open>quantise\<close> is the conversion \<open>(int8_t)(x * 127.0f)\<close> of a pixel of \<open>test_images[0]\<close>.\<close>

definition convert_input :: "('f \<Rightarrow> i8) \<Rightarrow> 'f list \<Rightarrow> i8 list \<Rightarrow> i8 list" where
  "convert_input quantise image0 input_i8 =
    for_loop 0 INPUT_SIZE 1 (\<lambda>i xs. xs[i := quantise (image0 ! i)]) input_i8"

definition read_counters :: "perf_counters \<Rightarrow> i32 list \<times> perf_counters" where
  "read_counters c =
    (let (cyc, c) = read_cycle_counter c; (ins, c) = read_insn_counter c;
         (lds, c) = read_load_counter c; (sts, c) = read_store_counter c
     in ([cyc, ins, lds, sts], c))"

definition pvmac_main :: "('f \<Rightarrow> i8) \<Rightarrow> 'f list \<Rightarrow> i8 list list \<Rightarrow> i8 list list \<Rightarrow> i8 list \<times> i8 list \<times> i8 list
    \<Rightarrow> perf_counters \<Rightarrow> 'f stdout" where
  "pvmac_main quantise image0 W1_i8 W2_i8 = (\<lambda>(input_i8, hidden, output) c.
    (let out = [Printf (''=== MNIST MLP Benchmark (PVMAC) ==='' @ nl @ nl) []];
         input_i8 = convert_input quantise image0 input_i8;
         (pred, hidden, output) = mlp_forward_pack4 W1_i8 W2_i8 input_i8 hidden output;
         (starts, c) = read_counters c;
         (predicted, hidden, output) = mlp_forward_pack4 W1_i8 W2_i8 input_i8 hidden output;
         (ends, c) = read_counters c
     in out @ [Printf (''Predicted class: %d'' @ nl) [PInt (int predicted)],
               Printf (''Done. See RDWRCTR output for counters.'' @ nl) []]))"

definition wide_vec_main :: "('f \<Rightarrow> i8) \<Rightarrow> 'f list \<Rightarrow> i8 list list \<Rightarrow> i8 list list \<Rightarrow> i8 list \<times> i8 list \<times> i8 list
    \<Rightarrow> i8 list \<times> i8 list \<Rightarrow> vregs \<Rightarrow> perf_counters \<Rightarrow> 'f stdout" where
  "wide_vec_main quantise image0 W1_i8 W2_i8 = (\<lambda>(input_i8, hidden, output) tmp vr c.
    (let out = [Printf (''=== MNIST MLP Benchmark (Wide Vector 64-bit) ==='' @ nl @ nl) []];
         input_i8 = convert_input quantise image0 input_i8;
         ((pred, hidden, output), vr) = mlp_forward_wide_vec tmp W1_i8 W2_i8 input_i8 hidden output vr;
         (starts, c) = read_counters c;
         ((predicted, hidden, output), vr) = mlp_forward_wide_vec tmp W1_i8 W2_i8 input_i8 hidden output vr;
         (ends, c) = read_counters c
     in out @ [Printf (''Predicted class: %d'' @ nl) [PInt (int predicted)],
               Printf (''Done. See RDWRCTR output for counters.'' @ nl) []]))"

section \<open>benchmark_int32.c\<close>

text \<open>
  \<open>instret k\<close> is the value of the \<open>k\<close>-th \<open>rdinstret\<close>; \<open>ms_of\<close> is the division by \<open>500.0\<close>,
  \<open>accuracy_of\<close> the percentage and \<open>throughput_of\<close> the quotient \<open>500000.0 / avg_cycles\<close>.
\<close>

record 'f int32_env =
  instret :: "nat \<Rightarrow> i32"
  ms_of :: "i32 \<Rightarrow> 'f"
  accuracy_of :: "int \<Rightarrow> 'f"
  throughput_of :: "i32 \<Rightarrow> 'f"

record 'f int32_bench =
  ib_act :: mlp_activations_int32
  ib_total :: i32
  ib_correct :: int
  ib_out :: "'f stdout"

definition int32_sample :: "'f int32_env \<Rightarrow> ('f \<Rightarrow> i32) \<Rightarrow> fixed_weights \<Rightarrow> 'f list list \<Rightarrow> nat \<Rightarrow> 'f int32_bench \<Rightarrow> 'f int32_bench" where
  "int32_sample E float_to_fp w test_images i b =
    (let out = ib_out b @
           [Printf (''[%d/%d] ----HO'' @ nl) [PInt (int i + 1), PInt (int NUM_TEST_SAMPLES)],
            Printf ''[%d/%d] Processing...'' [PInt (int i + 1), PInt (int NUM_TEST_SAMPLES)], Fflush];
         start = instret E (2 * i);
         (prediction, act, pout) = mlp_predict_int32 float_to_fp w True (test_images ! i) (ib_act b);
         stop = instret E (2 * i + 1);
         n = stop - start;
         is_correct = (int prediction = test_labels ! i);
         cycles = n * 5
     in \<lparr>ib_act = act, ib_total = ib_total b + n, ib_correct = ib_correct b + (if is_correct then 1 else 0),
         ib_out = out @ pout @
           [Printf ([CHR 0x0D] @ ''Sample %d: label=%d pred=%d %s'' @ nl)
              [PInt (int i + 1), PInt (test_labels ! i), PInt (int prediction), PStr (if is_correct then ''[OK]'' else ''[FAIL]'')],
            Printf (''  Instructions: %lu'' @ nl) [PInt (uint n)],
            Printf (''  Cycles (CPI=5): %lu'' @ nl) [PInt (uint cycles)],
            Printf (''  Time @500kHz: %.2f ms'' @ nl) [PDbl (ms_of E cycles)]]\<rparr>)"

definition PLUSMINUS :: string where "PLUSMINUS = [CHR 0xC2, CHR 0xB1]"

definition int32_main :: "'f int32_env \<Rightarrow> ('f \<Rightarrow> i32) \<Rightarrow> fixed_weights \<Rightarrow> 'f list list \<Rightarrow> mlp_activations_int32
    \<Rightarrow> int \<times> 'f int32_bench" where
  "int32_main E float_to_fp w test_images act =
    (let out =
       [Printf (''=== MNIST MLP Benchmark (INT32 Q16.16 Fixed-Point) ==='' @ nl) [],
        Printf (''Architecture: %d -> %d -> %d'' @ nl) [PInt (int INPUT_SIZE), PInt (int HIDDEN_SIZE), PInt (int OUTPUT_SIZE)],
        Printf (''Data type: int32_t (Q16.16: 16 integer + 16 fractional bits)'' @ nl) [],
        Printf (''Weights: Pre-quantized offline (no runtime quantization)'' @ nl) [],
        Printf (''Testing %d samples...'' @ nl @ nl) [PInt (int NUM_TEST_SAMPLES)]];
         b = for_loop 0 NUM_TEST_SAMPLES 1 (int32_sample E float_to_fp w test_images)
               \<lparr>ib_act = act, ib_total = 0, ib_correct = 0, ib_out = out\<rparr>;
         average = ib_total b div word_of_nat NUM_TEST_SAMPLES;
         avg_cycles = average * 5
     in (0, b\<lparr>ib_out := ib_out b @
       [Printf (nl @ ''=== Summary ==='' @ nl) [],
        Printf (''Accuracy: %d/%d (%.2f%%)'' @ nl) [PInt (ib_correct b), PInt (int NUM_TEST_SAMPLES), PDbl (accuracy_of E (ib_correct b))],
        Printf (''Average instructions per inference: %lu'' @ nl) [PInt (uint average)],
        Printf (''Average cycles per inference (CPI=5): %lu'' @ nl) [PInt (uint avg_cycles)],
        Printf (''Average time per inference @500kHz: %.2f ms'' @ nl) [PDbl (ms_of E avg_cycles)],
        Printf (''Throughput @500kHz: %.2f inferences/sec'' @ nl) [PDbl (throughput_of E avg_cycles)],
        Printf (nl @ ''=== INT32 Q16.16 Advantages ==='' @ nl) [],
        Printf (''  - No soft-float library needed'' @ nl) [],
        Printf (''  - High precision (16 fractional bits)'' @ nl) [],
        Printf (''  - Wide range ('' @ PLUSMINUS @ ''32K integer part)'' @ nl) [],
        Printf (''  - Simple multiply: (a*b)>>16'' @ nl) [],
        Printf (''  - RV32IM hardware multiply'' @ nl) [],
        Printf (''  - Good accuracy vs floating-point'' @ nl) []]\<rparr>))"

section \<open>Correctness\<close>

definition buffers_ok :: "i8 list \<times> i8 list \<times> i8 list \<Rightarrow> bool" where
  "buffers_ok = (\<lambda>(input_i8, hidden, output).
     length input_i8 = INPUT_SIZE \<and> length hidden = HIDDEN_SIZE \<and> length output = OUTPUT_SIZE)"

text \<open>The class of an image under the original (untransposed) weights.\<close>

definition kernel_class :: "i8 list list \<Rightarrow> i8 list list \<Rightarrow> i8 list \<Rightarrow> nat" where
  "kernel_class W1_i8 W2_i8 xs = fst (forward_spec relu_int8
     (packed_rows id INPUT_SIZE HIDDEN_SIZE W1_i8) (packed_rows id HIDDEN_SIZE OUTPUT_SIZE W2_i8) xs)"

lemma convert_input_map:
  "length input_i8 = INPUT_SIZE \<Longrightarrow> convert_input quantise image0 input_i8 = map (\<lambda>i. quantise (image0 ! i)) [0..<INPUT_SIZE]"
  by (simp add: convert_input_def for_loop_fold1 fold_upd_fill)

lemma forward_spec_dims:
  "forward_spec act W1 W2 xs = (p, h, out) \<Longrightarrow> length h = HIDDEN_SIZE \<and> length out = OUTPUT_SIZE"
  by (auto simp: forward_spec_def Let_def)

lemma wide_result:
  assumes "length (fst tmp) = 8" "length (snd tmp) = 8"
    and "length xs = INPUT_SIZE" "length hidden = HIDDEN_SIZE" "length out = OUTPUT_SIZE"
  shows "\<exists>vr'. mlp_forward_wide_vec tmp W1_i8 W2_i8 xs hidden out vr = (forward_spec relu_int8
     (packed_rows id INPUT_SIZE HIDDEN_SIZE W1_i8) (packed_rows id HIDDEN_SIZE OUTPUT_SIZE W2_i8) xs, vr')"
proof -
  have "mlp_dims (packed_rows id INPUT_SIZE HIDDEN_SIZE W1_i8) (packed_rows id HIDDEN_SIZE OUTPUT_SIZE W2_i8) xs hidden out"
    using assms by (simp add: mlp_dims_def packed_rows_def)
  then have "fst (mlp_forward_wide_vec tmp W1_i8 W2_i8 xs hidden out vr) = forward_spec relu_int8
     (packed_rows id INPUT_SIZE HIDDEN_SIZE W1_i8) (packed_rows id HIDDEN_SIZE OUTPUT_SIZE W2_i8) xs"
    by (simp add: wide_forward assms vmac_b_forward)
  then show ?thesis by (metis prod.collapse)
qed

text \<open>
  The PVMAC program and the wide-vector program end by announcing the same class, whatever the
  buffers, the vector registers and the counters held: the class of the quantised first test
  image in the exact int8 network.
\<close>

theorem single_kernel_programs:
  assumes "buffers_ok bufs" "length (fst tmp) = 8" "length (snd tmp) = 8"
  shows "let k = kernel_class W1_i8 W2_i8 (map (\<lambda>i. quantise (image0 ! i)) [0..<INPUT_SIZE]);
           tail = [Printf (''Predicted class: %d'' @ nl) [PInt (int k)], Printf (''Done. See RDWRCTR output for counters.'' @ nl) []]
    in tl (pvmac_main quantise image0 W1_i8 W2_i8 bufs c) = tail \<and>
       tl (wide_vec_main quantise image0 W1_i8 W2_i8 bufs tmp vr c') = tail"
proof -
  obtain input_i8 hidden out where b: "bufs = (input_i8, hidden, out)" by (cases bufs) auto
  let ?xs = "map (\<lambda>i. quantise (image0 ! i)) [0..<INPUT_SIZE]"
  let ?spec = "forward_spec relu_int8 (packed_rows id INPUT_SIZE HIDDEN_SIZE W1_i8) (packed_rows id HIDDEN_SIZE OUTPUT_SIZE W2_i8) ?xs"
  obtain p h ou where s: "?spec = (p, h, ou)" by (cases ?spec) auto
  note hl = forward_spec_dims [OF s]
  have len: "length input_i8 = INPUT_SIZE" "length hidden = HIDDEN_SIZE" "length out = OUTPUT_SIZE"
    using assms(1) by (simp_all add: b buffers_ok_def)
  obtain vr1 where v1: "mlp_forward_wide_vec tmp W1_i8 W2_i8 ?xs hidden out vr = ((p, h, ou), vr1)"
    using wide_result [OF assms(2,3), of ?xs hidden out W1_i8 W2_i8 vr] len s by auto
  obtain vr2 where v2: "mlp_forward_wide_vec tmp W1_i8 W2_i8 ?xs h ou vr1 = ((p, h, ou), vr2)"
    using wide_result [OF assms(2,3), of ?xs h ou W1_i8 W2_i8 vr1] hl s by auto
  have pk: "mlp_forward_pack4 W1_i8 W2_i8 ?xs hidden out = (p, h, ou)" "mlp_forward_pack4 W1_i8 W2_i8 ?xs h ou = (p, h, ou)"
    using pack4_forward [of ?xs hidden out W1_i8 W2_i8] pack4_forward [of ?xs h ou W1_i8 W2_i8] len hl s by simp_all
  show ?thesis
    by (simp add: b pvmac_main_def wide_vec_main_def convert_input_map len pk v1 v2 kernel_class_def s split_beta Let_def)
qed

theorem single_kernel_programs_witness:
  "tl (pvmac_main id (replicate INPUT_SIZE 3) (replicate INPUT_SIZE (replicate HIDDEN_SIZE 1)) (replicate HIDDEN_SIZE (replicate OUTPUT_SIZE 1))
      (replicate INPUT_SIZE 0, replicate HIDDEN_SIZE 0, replicate OUTPUT_SIZE 0)
      \<lparr>cycle_counter = 0, insn_counter = 0, load_counter = 0, store_counter = 0\<rparr>)
   = [Printf (''Predicted class: %d'' @ nl) [PInt (int (kernel_class (replicate INPUT_SIZE (replicate HIDDEN_SIZE 1))
        (replicate HIDDEN_SIZE (replicate OUTPUT_SIZE 1)) (map (\<lambda>i. id (replicate INPUT_SIZE 3 ! i)) [0..<INPUT_SIZE])))],
      Printf (''Done. See RDWRCTR output for counters.'' @ nl) []]"
  using single_kernel_programs [of "(replicate INPUT_SIZE 0, replicate HIDDEN_SIZE 0, replicate OUTPUT_SIZE 0)"
      "(replicate 8 0, replicate 8 0)" "replicate INPUT_SIZE (replicate HIDDEN_SIZE 1)" "replicate HIDDEN_SIZE (replicate OUTPUT_SIZE 1)" id
      "replicate INPUT_SIZE 3" "\<lparr>cycle_counter = 0, insn_counter = 0, load_counter = 0, store_counter = 0\<rparr>" "\<lambda>_. 0"]
  by (simp only: buffers_ok_def prod.case length_replicate fst_conv snd_conv Let_def simp_thms HOL.TrueI)

definition int32_class :: "fixed_weights \<Rightarrow> i32 list \<Rightarrow> nat" where
  "int32_class w xs = argmax_int32 (int32_output w (int32_hidden w xs)) OUTPUT_SIZE"

lemma int32_predict_dims:
  "act32_dims act \<Longrightarrow> fst (mlp_predict_int32 f w v xs act) = int32_class w (map (\<lambda>k. f (xs ! k)) [0..<INPUT_SIZE])
     \<and> act32_dims (fst (snd (mlp_predict_int32 f w v xs act)))"
  by (simp add: act32_dims_def mlp_predict_int32_result Let_def int32_class_def int32_hidden_def int32_output_def)

lemma int32_samples:
  assumes "act32_dims (ib_act b)"
  shows "ib_correct (fold (int32_sample E f w test_images) js b) = ib_correct b +
      int (length (filter (\<lambda>i. int (int32_class w (map (\<lambda>k. f (test_images ! i ! k)) [0..<INPUT_SIZE])) = test_labels ! i) js)) \<and>
    ib_total (fold (int32_sample E f w test_images) js b) = ib_total b + (\<Sum>i\<leftarrow>js. instret E (2 * i + 1) - instret E (2 * i))"
  using assms
proof (induction js arbitrary: b)
  case Nil
  then show ?case by simp
next
  case (Cons i js)
  obtain p act out where p: "mlp_predict_int32 f w True (test_images ! i) (ib_act b) = (p, act, out :: 'a stdout)"
    by (cases "mlp_predict_int32 f w True (test_images ! i) (ib_act b) :: nat \<times> mlp_activations_int32 \<times> 'a stdout") auto
  with int32_predict_dims [OF Cons.prems, of f w True "test_images ! i"]
  have "p = int32_class w (map (\<lambda>k. f (test_images ! i ! k)) [0..<INPUT_SIZE])" "act32_dims act" by simp_all
  with p Cons show ?case by (simp add: int32_sample_def Let_def add.assoc)
qed

text \<open>
  The report of benchmark_int32.c: the accuracy counts exactly the samples whose class, computed
  from the weights and that sample alone, is the label (nothing leaks from one sample to the
  next through the activation buffers), and the average is a tenth of the summed \<open>instret\<close>
  differences.
\<close>

theorem int32_main_report:
  assumes "act32_dims act"
  shows "let r = int32_main E f w test_images act in fst r = 0 \<and>
     ib_correct (snd r) = hits (\<lambda>i. int32_class w (map (\<lambda>k. f (test_images ! i ! k)) [0..<INPUT_SIZE])) \<and>
     ib_total (snd r) = (\<Sum>i\<leftarrow>[0..<10]. instret E (2 * i + 1) - instret E (2 * i)) \<and>
     Printf (''Average instructions per inference: %lu'' @ nl) [PInt (uint (ib_total (snd r)) div 10)] \<in> set (ib_out (snd r))"
  using assms int32_samples [of "\<lparr>ib_act = act, ib_total = 0, ib_correct = 0, ib_out = out\<rparr>" for out]
  by (simp add: int32_main_def Let_def for_loop_fold1 hits_def NUM_TEST_SAMPLES_def uint_div)

theorem int32_main_report_witness:
  "ib_total (snd (int32_main \<lparr>instret = (\<lambda>k. word_of_nat (k * k)), ms_of = uint, accuracy_of = id, throughput_of = uint\<rparr>
      word_of_int fixed_zero_weights (replicate 10 (replicate INPUT_SIZE 5)) act32_initial))
   = (\<Sum>i\<leftarrow>[0..<10]. word_of_nat ((2 * i + 1) * (2 * i + 1)) - word_of_nat (2 * i * (2 * i)))"
  using int32_main_report [OF act32_initial_dims, of "\<lparr>instret = (\<lambda>k. word_of_nat (k * k)), ms_of = uint, accuracy_of = id, throughput_of = uint\<rparr>"
      word_of_int fixed_zero_weights "replicate 10 (replicate INPUT_SIZE 5)"]
  by (simp only: Let_def int32_env.simps simp_thms)

end
