(* ===== verification/Mnist_Float.thy ===== *)
theory Mnist_Float
  imports Mnist_Mains
begin

text \<open>
  The floating-point benchmark (sw/mnist-newlib/benchmark.c).  The C \<open>float\<close> type and \<open>expf\<close> come
  from the compiler's soft-float and math libraries: they are a type and a record of operations,
  and the theorems hold for any such operations, rounding included.  Evaluation order is the
  program's, since floating-point addition is not associative.
\<close>

record 'f fp_ops =
  f_zero :: 'f
  f_one :: 'f
  f_m20 :: 'f
  f_20 :: 'f
  f_add :: "'f \<Rightarrow> 'f \<Rightarrow> 'f"
  f_sub :: "'f \<Rightarrow> 'f \<Rightarrow> 'f"
  f_mul :: "'f \<Rightarrow> 'f \<Rightarrow> 'f"
  f_div :: "'f \<Rightarrow> 'f \<Rightarrow> 'f"
  f_neg :: "'f \<Rightarrow> 'f"
  f_less :: "'f \<Rightarrow> 'f \<Rightarrow> bool"
  expf :: "'f \<Rightarrow> 'f"

record 'f MLPWeights =
  wt_W1 :: "'f list list"
  wt_b1 :: "'f list"
  wt_W2 :: "'f list list"
  wt_b2 :: "'f list"

record 'f MLPActivations =
  af_hidden :: "'f list"
  af_output :: "'f list"

definition sigmoid :: "'f fp_ops \<Rightarrow> 'f \<Rightarrow> 'f" where
  "sigmoid F x =
    (if f_less F x (f_m20 F) then f_zero F
     else if f_less F (f_20 F) x then f_one F
     else f_div F (f_one F) (f_add F (f_one F) (expf F (f_neg F x))))"

definition softmax :: "'f fp_ops \<Rightarrow> 'f list \<Rightarrow> nat \<Rightarrow> 'f list" where
  "softmax F output size' =
    (let max_val = for_loop 1 size' 1 (\<lambda>i max_val. if f_less F max_val (output ! i) then output ! i else max_val) (output ! 0);
         (output, sum) = for_loop 0 size' 1 (\<lambda>i (output, sum).
           let e = expf F (f_sub F (output ! i) max_val) in (output[i := e], f_add F sum e)) (output, f_zero F)
     in for_loop 0 size' 1 (\<lambda>i output. output[i := f_div F (output ! i) sum]) output)"

definition mlp_predict :: "'f fp_ops \<Rightarrow> 'f list \<Rightarrow> 'f MLPWeights \<Rightarrow> 'f MLPActivations \<Rightarrow> nat \<times> 'f MLPActivations" where
  "mlp_predict F input weights act =
    (let act = for_loop 0 HIDDEN_SIZE 1 (\<lambda>j act.
           let z = for_loop 0 INPUT_SIZE 1 (\<lambda>i z. f_add F z (f_mul F (input ! i) (wt_W1 weights ! i ! j))) (wt_b1 weights ! j)
           in act\<lparr>af_hidden := (af_hidden act)[j := sigmoid F z]\<rparr>) act;
         act = for_loop 0 OUTPUT_SIZE 1 (\<lambda>j act.
           let z = for_loop 0 HIDDEN_SIZE 1 (\<lambda>i z. f_add F z (f_mul F (af_hidden act ! i) (wt_W2 weights ! i ! j))) (wt_b2 weights ! j)
           in act\<lparr>af_output := (af_output act)[j := z]\<rparr>) act;
         act = act\<lparr>af_output := softmax F (af_output act) OUTPUT_SIZE\<rparr>;
         (predicted_class, max_prob) = for_loop 1 OUTPUT_SIZE 1 (\<lambda>i (predicted_class, max_prob).
           if f_less F max_prob (af_output act ! i) then (i, af_output act ! i) else (predicted_class, max_prob))
           (0, af_output act ! 0)
     in (predicted_class, act))"

record 'f float_bench =
  fb_act :: "'f MLPActivations"
  fb_total :: i32
  fb_correct :: int
  fb_out :: "'f stdout"

definition float_sample :: "'f int32_env \<Rightarrow> 'f fp_ops \<Rightarrow> 'f MLPWeights \<Rightarrow> 'f list list \<Rightarrow> nat \<Rightarrow> 'f float_bench \<Rightarrow> 'f float_bench" where
  "float_sample E F weights test_images i b =
    (let start = instret E (2 * i);
         (prediction, act) = mlp_predict F (test_images ! i) weights (fb_act b);
         stop = instret E (2 * i + 1);
         n = stop - start;
         is_correct = (int prediction = test_labels ! i);
         cycles = n * 5
     in \<lparr>fb_act = act, fb_total = fb_total b + n, fb_correct = fb_correct b + (if is_correct then 1 else 0),
         fb_out = fb_out b @
           [Printf (''Sample %d: label=%d pred=%d %s'' @ nl)
              [PInt (int i + 1), PInt (test_labels ! i), PInt (int prediction), PStr (if is_correct then CHECK else CROSS)],
            Printf (''  Instructions: %lu'' @ nl) [PInt (uint n)],
            Printf (''  Cycles (CPI=5): %lu'' @ nl) [PInt (uint cycles)],
            Printf (''  Time @500kHz: %.2f ms'' @ nl) [PDbl (ms_of E cycles)]]\<rparr>)"

definition theory_report :: "'f int32_env \<Rightarrow> 'f stdout" where
  "theory_report E =
    (let matmul1_ops = word_of_nat (INPUT_SIZE * HIDDEN_SIZE * 2) :: i32;
         sigmoid_ops = word_of_nat (HIDDEN_SIZE * 10);
         matmul2_ops = word_of_nat (HIDDEN_SIZE * OUTPUT_SIZE * 2);
         softmax_ops = word_of_nat (OUTPUT_SIZE * 10);
         total_ops = matmul1_ops + sigmoid_ops + matmul2_ops + softmax_ops
     in [Printf (nl @ ''=== Theoretical Analysis ==='' @ nl) [],
         Printf (''Operations per inference:'' @ nl) [],
         Printf (''  Hidden layer matmul (784x32): %lu'' @ nl) [PInt (uint matmul1_ops)],
         Printf (''  Sigmoid activations (32): %lu'' @ nl) [PInt (uint sigmoid_ops)],
         Printf (''  Output layer matmul (32x10): %lu'' @ nl) [PInt (uint matmul2_ops)],
         Printf (''  Softmax (10): %lu'' @ nl) [PInt (uint softmax_ops)],
         Printf (''  Total: %lu operations'' @ nl) [PInt (uint total_ops)],
         Printf (nl @ ''Assuming ~3 instructions per operation: ~%lu instructions'' @ nl) [PInt (uint (total_ops * 3))],
         Printf (''With CPI=5: ~%lu cycles'' @ nl) [PInt (uint (total_ops * 3 * 5))],
         Printf (''Time @500kHz: ~%.2f ms'' @ nl) [PDbl (ms_of E (total_ops * 3 * 5))]])"

definition float_main :: "'f int32_env \<Rightarrow> 'f fp_ops \<Rightarrow> 'f MLPWeights \<Rightarrow> 'f list list \<Rightarrow> 'f MLPActivations \<Rightarrow> int \<times> 'f float_bench" where
  "float_main E F weights test_images act =
    (let out =
       [Printf (''=== MNIST MLP Benchmark ==='' @ nl) [],
        Printf (''Architecture: %d -> %d -> %d'' @ nl) [PInt (int INPUT_SIZE), PInt (int HIDDEN_SIZE), PInt (int OUTPUT_SIZE)],
        Printf (''Testing %d samples...'' @ nl @ nl) [PInt (int NUM_TEST_SAMPLES)]];
         (pred, act) = mlp_predict F (test_images ! 0) weights act;
         b = for_loop 0 NUM_TEST_SAMPLES 1 (float_sample E F weights test_images)
               \<lparr>fb_act = act, fb_total = 0, fb_correct = 0, fb_out = out\<rparr>;
         average = fb_total b div word_of_nat NUM_TEST_SAMPLES;
         avg_cycles = average * 5
     in (0, b\<lparr>fb_out := fb_out b @
       [Printf (nl @ ''=== Summary ==='' @ nl) [],
        Printf (''Accuracy: %d/%d (%.2f%%)'' @ nl) [PInt (fb_correct b), PInt (int NUM_TEST_SAMPLES), PDbl (accuracy_of E (fb_correct b))],
        Printf (''Average instructions per inference: %lu'' @ nl) [PInt (uint average)],
        Printf (''Average cycles per inference (CPI=5): %lu'' @ nl) [PInt (uint avg_cycles)],
        Printf (''Average time per inference @500kHz: %.2f ms'' @ nl) [PDbl (ms_of E avg_cycles)],
        Printf (''Throughput @500kHz: %.2f inferences/sec'' @ nl) [PDbl (throughput_of E avg_cycles)]] @ theory_report E\<rparr>))"

section \<open>Correctness\<close>

text \<open>One neuron in the program's order of additions, the two layers, and softmax.\<close>

definition f_row :: "'f fp_ops \<Rightarrow> nat \<Rightarrow> 'f list \<Rightarrow> 'f list list \<Rightarrow> 'f list \<Rightarrow> nat \<Rightarrow> 'f" where
  "f_row F n xs W b j = foldl (f_add F) (b ! j) (map (\<lambda>i. f_mul F (xs ! i) (W ! i ! j)) [0..<n])"

definition f_max :: "'f fp_ops \<Rightarrow> 'f list \<Rightarrow> 'f" where
  "f_max F zs = foldl (\<lambda>m z. if f_less F m z then z else m) (hd zs) (tl zs)"

definition softmax_spec :: "'f fp_ops \<Rightarrow> 'f list \<Rightarrow> 'f list" where
  "softmax_spec F zs =
    (let es = map (\<lambda>z. expf F (f_sub F z (f_max F zs))) zs in map (\<lambda>e. f_div F e (foldl (f_add F) (f_zero F) es)) es)"

definition float_hidden :: "'f fp_ops \<Rightarrow> 'f MLPWeights \<Rightarrow> 'f list \<Rightarrow> 'f list" where
  "float_hidden F w xs = map (\<lambda>j. sigmoid F (f_row F INPUT_SIZE xs (wt_W1 w) (wt_b1 w) j)) [0..<HIDDEN_SIZE]"

definition float_output :: "'f fp_ops \<Rightarrow> 'f MLPWeights \<Rightarrow> 'f list \<Rightarrow> 'f list" where
  "float_output F w xs = softmax_spec F (map (f_row F HIDDEN_SIZE (float_hidden F w xs) (wt_W2 w) (wt_b2 w)) [0..<OUTPUT_SIZE])"

lemma fold_foldl_map: "fold (\<lambda>i z. f z (g i)) js b = foldl f b (map g js)"
  by (induction js arbitrary: b) simp_all

lemma f_row_loop: "for_loop 0 n (Suc 0) (\<lambda>i z. f_add F z (f_mul F (xs ! i) (W ! i ! j))) (b ! j) = f_row F n xs W b j"
  unfolding for_loop_fold1 f_row_def by (rule fold_foldl_map)

lemma map_nth_from_1: "map ((!) xs) [Suc 0..<length xs] = tl xs"
  by (rule nth_equalityI) (simp_all add: nth_tl)

lemma max_loop:
  assumes "0 < length zs"
  shows "for_loop 1 (length zs) (Suc 0) (\<lambda>i m. if f_less F m (zs ! i) then zs ! i else m) (zs ! 0) = f_max F zs"
  using assms fold_foldl_map [of "\<lambda>m z. if f_less F m z then z else m" "(!) zs" "[Suc 0..<length zs]" "zs ! 0"]
  by (simp add: for_loop_fold1_from f_max_def map_nth_from_1 hd_conv_nth Suc_le_eq)

lemma exp_loop:
  assumes "n \<le> length zs"
  shows "fold (\<lambda>i (out, sum). let e = g (out ! i) in (out[i := e], f_add F sum e)) [0..<n] (zs, s)
    = (map g (take n zs) @ drop n zs, foldl (f_add F) s (map g (take n zs)))"
  using assms
proof (induction n)
  case 0
  then show ?case by simp
next
  case (Suc n)
  moreover from Suc.prems have "drop n zs = zs ! n # drop (Suc n) zs" by (simp add: Cons_nth_drop_Suc)
  ultimately show ?case by (simp add: Let_def nth_append list_update_append take_Suc_conv_app_nth)
qed

lemma upd_loop:
  assumes "n \<le> length zs"
  shows "fold (\<lambda>i out. out[i := g (out ! i)]) [0..<n] zs = map g (take n zs) @ drop n zs"
  using assms
proof (induction n)
  case 0
  then show ?case by simp
next
  case (Suc n)
  moreover from Suc.prems have "drop n zs = zs ! n # drop (Suc n) zs" by (simp add: Cons_nth_drop_Suc)
  ultimately show ?case by (simp add: nth_append list_update_append take_Suc_conv_app_nth)
qed

lemma softmax_result: "0 < length zs \<Longrightarrow> softmax F zs (length zs) = softmax_spec F zs"
  unfolding softmax_def One_nat_def max_loop [unfolded One_nat_def] for_loop_fold1 Let_def [of "f_max F zs"]
    exp_loop [OF order_refl, where g = "\<lambda>z. expf F (f_sub F z (f_max F zs))"] prod.case
    upd_loop [where g = "\<lambda>z. f_div F z c" for c]
  by (simp add: upd_loop [where g = "\<lambda>z. f_div F z c" for c] softmax_spec_def Let_def)

definition f_first_max :: "('f \<Rightarrow> 'k::linorder) \<Rightarrow> 'f list \<Rightarrow> nat \<Rightarrow> bool" where
  "f_first_max key xs p \<longleftrightarrow> p < length xs \<and> (\<forall>i<length xs. key (xs ! i) \<le> key (xs ! p)) \<and> (\<forall>i<p. key (xs ! i) < key (xs ! p))"

definition class_loop :: "'f fp_ops \<Rightarrow> 'f list \<Rightarrow> nat" where
  "class_loop F xs = fst (fold (\<lambda>i (c, m). if f_less F m (xs ! i) then (i, xs ! i) else (c, m)) [Suc 0..<length xs] (0, xs ! 0))"

lemma class_loop_first_max:
  assumes "\<forall>x y. f_less F x y \<longleftrightarrow> key x < key y" "0 < length xs"
  shows "f_first_max key xs (class_loop F xs)"
proof -
  have "fold (\<lambda>i (c, m). if f_less F m (xs ! i) then (i, xs ! i) else (c, m)) [Suc 0..<Suc n] (0, xs ! 0) = (c, m) \<Longrightarrow>
      m = xs ! c \<and> c \<le> n \<and> (\<forall>i\<le>n. key (xs ! i) \<le> key (xs ! c)) \<and> (\<forall>i<c. key (xs ! i) < key (xs ! c))" for n c m
  proof (induction n arbitrary: c m)
    case 0
    then show ?case by simp
  next
    case (Suc n)
    obtain c' m' where p: "fold (\<lambda>i (c, m). if f_less F m (xs ! i) then (i, xs ! i) else (c, m)) [Suc 0..<Suc n] (0, xs ! 0) = (c', m')"
      by fastforce
    from Suc.IH [OF p] p Suc.prems show ?case
      by (auto simp: assms(1) le_Suc_eq less_Suc_eq_le split: if_splits intro: le_less_trans less_imp_le order_trans)
  qed
  note inv = this
  obtain c m where cm: "fold (\<lambda>i (c, m). if f_less F m (xs ! i) then (i, xs ! i) else (c, m)) [Suc 0..<length xs] (0, xs ! 0) = (c, m)"
    by fastforce
  obtain n where n: "length xs = Suc n" using assms(2) by (cases "length xs") auto
  from inv [of n c m] cm show ?thesis
    unfolding n by (simp add: f_first_max_def class_loop_def n less_Suc_eq_le del: upt_Suc)
qed

definition af_dims :: "'f MLPActivations \<Rightarrow> bool" where
  "af_dims act \<longleftrightarrow> length (af_hidden act) = HIDDEN_SIZE \<and> length (af_output act) = OUTPUT_SIZE"

lemma hidden_fill:
  "length (af_hidden act) = n \<Longrightarrow> fold (\<lambda>j act. act\<lparr>af_hidden := (af_hidden act)[j := f j]\<rparr>) [0..<n] act = act\<lparr>af_hidden := map f [0..<n]\<rparr>"
proof -
  assume "length (af_hidden act) = n"
  moreover have "fold (\<lambda>j act. act\<lparr>af_hidden := (af_hidden act)[j := f j]\<rparr>) js act
      = act\<lparr>af_hidden := fold (\<lambda>j xs. xs[j := f j]) js (af_hidden act)\<rparr>" for js
    by (induction js arbitrary: act) simp_all
  ultimately show ?thesis by (simp add: fold_upd_fill)
qed

lemma output_fill:
  assumes "length (af_output act) = n"
  shows "fold (\<lambda>j act. act\<lparr>af_output := (af_output act)[j := f (af_hidden act) j]\<rparr>) [0..<n] act
    = act\<lparr>af_output := map (f (af_hidden act)) [0..<n]\<rparr>"
proof -
  have "fold (\<lambda>j act. act\<lparr>af_output := (af_output act)[j := f (af_hidden act) j]\<rparr>) js act
      = act\<lparr>af_output := fold (\<lambda>j xs. xs[j := f (af_hidden act) j]) js (af_output act)\<rparr>" for js
    by (induction js arbitrary: act) simp_all
  then show ?thesis using assms by (simp add: fold_upd_fill)
qed

lemma mlp_predict_result:
  assumes "af_dims act"
  shows "mlp_predict F xs w act = (class_loop F (float_output F w xs), \<lparr>af_hidden = float_hidden F w xs, af_output = float_output F w xs\<rparr>)"
proof -
  have len: "length (float_output F w xs) = OUTPUT_SIZE" by (simp add: float_output_def softmax_spec_def Let_def)
  have sm: "softmax F (map f [0..<OUTPUT_SIZE]) OUTPUT_SIZE = softmax_spec F (map f [0..<OUTPUT_SIZE])" for f
    using softmax_result [of "map f [0..<OUTPUT_SIZE]" F] by (simp add: size_defs)
  have "Suc 0 \<le> OUTPUT_SIZE" by (simp add: size_defs)
  then show ?thesis
    using assms len
    unfolding mlp_predict_def One_nat_def f_row_loop
    by (cases act) (simp add: Let_def for_loop_fold1 hidden_fill af_dims_def sm
        output_fill [where f = "\<lambda>h. f_row F HIDDEN_SIZE h (wt_W2 w) (wt_b2 w)"]
        float_hidden_def [symmetric] float_output_def [symmetric] for_loop_fold1_from class_loop_def split_beta
        cong: if_cong)
qed

lemma float_samples:
  assumes "af_dims (fb_act b)"
  shows "fb_correct (fold (float_sample E F w test_images) js b) = fb_correct b +
    int (length (filter (\<lambda>i. int (class_loop F (float_output F w (test_images ! i))) = test_labels ! i) js))"
  using assms
proof (induction js arbitrary: b)
  case Nil
  then show ?case by simp
next
  case (Cons i js)
  have "af_dims \<lparr>af_hidden = float_hidden F w xs, af_output = float_output F w xs\<rparr>" for xs
    by (simp add: af_dims_def float_hidden_def float_output_def softmax_spec_def Let_def)
  with Cons show ?case by (simp add: float_sample_def Let_def mlp_predict_result)
qed

text \<open>
  The floating-point network, for every implementation of the float operations: the hidden
  activations and the softmax outputs are those of the reference (each neuron summed from its
  bias in input order, the maximum subtracted before \<open>expf\<close>, one common divisor), independent of
  what the buffers held, and where the comparison orders the values involved (no NaN), the class
  is the first of largest probability.
\<close>

theorem float_inference:
  assumes "af_dims act" "\<forall>x y. f_less F x y \<longleftrightarrow> key x < key y"
  shows "let (pred, act') = mlp_predict F input w act in
    act' = \<lparr>af_hidden = float_hidden F w input, af_output = float_output F w input\<rparr> \<and>
    length (af_output act') = OUTPUT_SIZE \<and> f_first_max key (af_output act') pred"
proof -
  have "length (float_output F w input) = OUTPUT_SIZE" by (simp add: float_output_def softmax_spec_def Let_def)
  then show ?thesis
    using class_loop_first_max [OF assms(2), of "float_output F w input"]
    by (simp add: mlp_predict_result [OF assms(1)] size_defs)
qed

text \<open>Integer operations with \<open>2 ^ x\<close> in the place of \<open>expf\<close>, for the witnesses.\<close>

definition demo_fp :: "int fp_ops" where
  "demo_fp = \<lparr>f_zero = 0, f_one = 1, f_m20 = - 20, f_20 = 20, f_add = (+), f_sub = (-), f_mul = (*), f_div = (div),
     f_neg = uminus, f_less = (<), expf = (\<lambda>x. 2 ^ nat (x + 20))\<rparr>"

definition demo_mlp :: "int MLPWeights" where
  "demo_mlp = \<lparr>wt_W1 = replicate INPUT_SIZE (replicate HIDDEN_SIZE 1), wt_b1 = replicate HIDDEN_SIZE 0,
     wt_W2 = replicate HIDDEN_SIZE (replicate OUTPUT_SIZE 1), wt_b2 = [0..9]\<rparr>"

definition demo_act :: "int MLPActivations" where
  "demo_act = \<lparr>af_hidden = replicate HIDDEN_SIZE 0, af_output = replicate OUTPUT_SIZE 0\<rparr>"

lemma demo_act_dims: "af_dims demo_act"
  by (simp add: af_dims_def demo_act_def)

theorem float_inference_witness:
  "af_dims demo_act \<and> f_first_max (\<lambda>x. x) (float_output demo_fp demo_mlp (replicate INPUT_SIZE 1))
     (fst (mlp_predict demo_fp (replicate INPUT_SIZE 1) demo_mlp demo_act))"
proof -
  have "\<forall>x y. f_less demo_fp x y \<longleftrightarrow> (\<lambda>x. x) x < (\<lambda>x. x) y" by (simp add: demo_fp_def)
  from float_inference [OF demo_act_dims this, of "replicate INPUT_SIZE 1" demo_mlp] demo_act_dims
  show ?thesis by (auto simp: Let_def split: prod.splits)
qed

text \<open>
  The accuracy benchmark.c prints counts the samples whose class under the reference network is
  the label, and its "theoretical" totals are the constants 51236 operations, 153708 instructions
  and 768540 cycles.
\<close>

theorem float_main_report:
  assumes "af_dims act"
  shows "let (status, b) = float_main E F w test_images act in
    status = 0 \<and> fb_correct b = hits (\<lambda>i. class_loop F (float_output F w (test_images ! i))) \<and>
    {Printf (''  Total: %lu operations'' @ nl) [PInt 51236],
     Printf (nl @ ''Assuming ~3 instructions per operation: ~%lu instructions'' @ nl) [PInt 153708],
     Printf (''With CPI=5: ~%lu cycles'' @ nl) [PInt 768540]} \<subseteq> set (fb_out b)"
proof -
  have "af_dims \<lparr>af_hidden = float_hidden F w xs, af_output = float_output F w xs\<rparr>" for xs
    by (simp add: af_dims_def float_hidden_def float_output_def softmax_spec_def Let_def)
  then show ?thesis
    by (simp add: float_main_def Let_def mlp_predict_result [OF assms] for_loop_fold1 float_samples hits_def
        theory_report_def size_defs)
qed

theorem float_main_report_witness:
  "fb_correct (snd (float_main \<lparr>instret = (\<lambda>k. 0), ms_of = uint, accuracy_of = id, throughput_of = uint\<rparr>
      demo_fp demo_mlp (replicate 10 (replicate INPUT_SIZE 1)) demo_act))
   = hits (\<lambda>i. class_loop demo_fp (float_output demo_fp demo_mlp (replicate 10 (replicate INPUT_SIZE 1) ! i)))"
  using float_main_report [OF demo_act_dims, of "\<lparr>instret = (\<lambda>k. 0), ms_of = uint, accuracy_of = id, throughput_of = uint\<rparr>"
      demo_fp demo_mlp "replicate 10 (replicate INPUT_SIZE 1)"]
  by (simp only: Let_def split_beta simp_thms)

end
