(* ===== verification/Print.thy ===== *)
theory Print
  imports Prelude "HOL-Library.Signed_Division" "HOL-Library.Char_ord"
begin

text \<open>
  The console library of the test firmware (sw/test/print.c): \<open>puts\<close>, \<open>printint\<close> and
  \<open>printf\<close>.  \<open>putchar\<close> (hal.S) stores one byte to the UART, so a call is the string it sends.
  \<open>None\<close> is undefined behaviour: an access outside \<open>digits\<close> or \<open>buf\<close>, a division by zero, or
  a variadic argument that is missing or of the wrong type.
\<close>

definition CHR_NUL :: char where "CHR_NUL = CHR 0x00"
definition CHR_NL :: char where "CHR_NL = CHR 0x0A"
definition CHR_PERCENT :: char where "CHR_PERCENT = CHR 0x25"

text \<open>A C string ends at its first NUL.\<close>

fun puts_loop :: "string \<Rightarrow> string" where
  "puts_loop [] = []"
| "puts_loop (c # s) = (if c = CHR_NUL then [] else c # puts_loop s)"

definition puts :: "string \<Rightarrow> string" where
  "puts s = puts_loop s @ [CHR_NL]"

definition digits :: string where "digits = ''0123456789ABCDEF'' @ [CHR_NUL]"

definition digit_at :: "int \<Rightarrow> char option" where
  "digit_at k = (if 0 \<le> k \<and> k < int (length digits) then Some (digits ! nat k) else None)"

definition BUF_SIZE :: nat where "BUF_SIZE = 16"

text \<open>\<open>do { buf[i++] = digits[x % base]; } while ((x /= base) != 0)\<close>, with \<open>i\<close> the length of \<open>buf\<close>.\<close>

function printint_loop :: "i32 \<Rightarrow> i32 \<Rightarrow> string \<Rightarrow> string option" where
  "printint_loop base x buf =
    (if base = 0 \<or> BUF_SIZE \<le> length buf then None
     else case digit_at (sint x smod sint base) of
       None \<Rightarrow> None
     | Some d \<Rightarrow>
         (let buf = buf @ [d]; x = word_of_int (sint x sdiv sint base) in
          if x = 0 then Some buf else printint_loop base x buf))"
  by pat_completeness auto
termination
  by (relation "measure (\<lambda>(base, x, buf). BUF_SIZE - length buf)") auto

declare printint_loop.simps [simp del]

definition printint :: "i32 \<Rightarrow> i32 \<Rightarrow> bool \<Rightarrow> string option" where
  "printint xx base sgnd =
    (let neg = (sgnd \<and> sint xx < 0);
         x = (if neg then - xx else xx)
     in case printint_loop base x [] of
          None \<Rightarrow> None
        | Some buf \<Rightarrow>
            if neg then (if BUF_SIZE \<le> length buf then None else Some (rev (buf @ ''-'')))
            else Some (rev buf))"

text \<open>The variadic arguments, in order: an \<open>int\<close> or a \<open>char *\<close> (\<open>None\<close> is the null pointer).\<close>

datatype varg = VInt i32 | VStr "string option"

fun take_int :: "varg list \<Rightarrow> (i32 \<times> varg list) option" where
  "take_int (VInt i # as) = Some (i, as)"
| "take_int _ = None"

fun take_str :: "varg list \<Rightarrow> (string option \<times> varg list) option" where
  "take_str (VStr s # as) = Some (s, as)"
| "take_str _ = None"

definition printf_directive :: "char \<Rightarrow> varg list \<Rightarrow> (string \<times> varg list) option" where
  "printf_directive c ap =
    (if c = CHR ''d'' then
       (case take_int ap of None \<Rightarrow> None | Some (i, ap) \<Rightarrow> map_option (\<lambda>t. (t, ap)) (printint i 10 True))
     else if c = CHR ''x'' \<or> c = CHR ''p'' then
       (case take_int ap of None \<Rightarrow> None | Some (i, ap) \<Rightarrow> map_option (\<lambda>t. (t, ap)) (printint i 16 False))
     else if c = CHR ''s'' then
       (case take_str ap of None \<Rightarrow> None
        | Some (s, ap) \<Rightarrow> Some (puts_loop (case s of None \<Rightarrow> ''(null)'' | Some s \<Rightarrow> s), ap))
     else if c = CHR_PERCENT then Some ([CHR_PERCENT], ap)
     else Some ([CHR_PERCENT, c], ap))"

fun printf :: "string \<Rightarrow> varg list \<Rightarrow> string option" where
  "printf [] ap = Some []"
| "printf [c] ap = (if c = CHR_NUL \<or> c = CHR_PERCENT then Some [] else Some [c])"
| "printf (c # d # fmt) ap =
    (if c = CHR_NUL then Some []
     else if c \<noteq> CHR_PERCENT then map_option (\<lambda>t. c # t) (printf (d # fmt) ap)
     else if d = CHR_NUL then Some []
     else case printf_directive d ap of
            None \<Rightarrow> None
          | Some (t, ap) \<Rightarrow> map_option (\<lambda>u. t @ u) (printf fmt ap))"

section \<open>Positional numerals\<close>

definition digit_char :: "nat \<Rightarrow> char" where "digit_char k = digits ! k"

text \<open>The usual numeral of a natural number, most significant digit first.\<close>

function numeral_of :: "nat \<Rightarrow> nat \<Rightarrow> string" where
  "numeral_of b n = (if b < 2 \<or> n < b then [digit_char n] else numeral_of b (n div b) @ [digit_char (n mod b)])"
  by pat_completeness auto
termination
  by (relation "measure snd") (auto intro: div_less_dividend)

declare numeral_of.simps [simp del]

definition decimal_of :: "int \<Rightarrow> string" where
  "decimal_of k = (if k < 0 then ''-'' @ numeral_of 10 (nat (- k)) else numeral_of 10 (nat k))"

lemma digit_at_digit_char: "k < 16 \<Longrightarrow> digit_at (int k) = Some (digit_char k)"
  by (simp add: digit_at_def digit_char_def digits_def)

lemma smod_sdiv_nonneg: "0 \<le> (a::int) \<Longrightarrow> 0 < b \<Longrightarrow> a smod b = a mod b \<and> a sdiv b = a div b"
  by (cases "a = 0") (simp_all add: signed_modulo_int_def signed_divide_int_def sgn_if)

lemma smod_sdiv_neg: "(a::int) < 0 \<Longrightarrow> 0 < b \<Longrightarrow> a smod b = - ((- a) mod b) \<and> a sdiv b = - ((- a) div b)"
  by (simp add: signed_modulo_int_def signed_divide_int_def sgn_if)

lemma sint_word_of_int32: "- (2 ^ 31) \<le> k \<Longrightarrow> k < 2 ^ 31 \<Longrightarrow> sint (word_of_int k :: i32) = k"
  by (simp add: sint_sbintrunc' signed_take_bit_int_eq_self)

lemma length_numeral_of_le:
  assumes "2 \<le> b" "n < b ^ k" "0 < k"
  shows "length (numeral_of b n) \<le> k"
  using assms(2,3)
proof (induction k arbitrary: n)
  case 0
  then show ?case by simp
next
  case (Suc k)
  show ?case
  proof (cases "n < b")
    case True
    then show ?thesis by (simp add: numeral_of.simps)
  next
    case False
    then have "0 < k" using Suc.prems by (cases k) auto
    moreover have "n div b < b ^ k" using Suc.prems by (simp add: less_mult_imp_div_less mult.commute)
    ultimately show ?thesis
      using False Suc.IH [of "n div b"] by (subst numeral_of.simps) simp
  qed
qed

lemma printint_loop_nat:
  assumes "2 \<le> b" "b \<le> 16" "int n < 2 ^ 31" "length buf + length (numeral_of b n) \<le> BUF_SIZE"
  shows "printint_loop (word_of_nat b) (word_of_nat n) buf = Some (buf @ rev (numeral_of b n))"
  using assms(3,4)
proof (induction n arbitrary: buf rule: less_induct)
  case (less n)
  have sint_nat: "sint (word_of_nat k :: i32) = int k" if "int k < 2 ^ 31" for k
    using that sint_word_of_int32 [of "int k"] by simp
  have b: "sint (word_of_nat b :: i32) = int b" "(word_of_nat b :: i32) \<noteq> 0"
    using assms(1,2) sint_nat [of b] by auto
  have digit: "digit_at (sint (word_of_nat n :: i32) smod sint (word_of_nat b :: i32)) = Some (digit_char (n mod b))"
    using assms(1,2) b less.prems digit_at_digit_char [of "n mod b"] smod_sdiv_nonneg [of "int n" "int b"]
    by (simp add: sint_nat zmod_int less_le_trans [OF mod_less_divisor])
  have quot: "(word_of_int (sint (word_of_nat n :: i32) sdiv sint (word_of_nat b :: i32)) :: i32) = word_of_nat (n div b)"
    using assms(1) b less.prems smod_sdiv_nonneg [of "int n" "int b"] by (simp add: sint_nat flip: zdiv_int)
  have room: "length buf < BUF_SIZE" using less.prems(2) by (subst (asm) numeral_of.simps) (auto split: if_splits)
  show ?case
  proof (cases "n < b")
    case True
    then show ?thesis
      using b digit quot room assms(1) by (subst printint_loop.simps) (simp add: numeral_of.simps)
  next
    case False
    have "int (n div b) < 2 ^ 31" using less.prems(1)
      by (meson div_le_dividend le_less_trans of_nat_le_iff)
    moreover have "n div b < n" using False assms(1) by (simp add: div_less_dividend)
    moreover have nz: "(word_of_nat (n div b) :: i32) \<noteq> 0"
      using False assms(1) sint_nat [OF \<open>int (n div b) < 2 ^ 31\<close>]
      by (metis div_eq_0_iff of_nat_eq_0_iff sint_0 not_numeral_le_zero)
    moreover have num: "numeral_of b n = numeral_of b (n div b) @ [digit_char (n mod b)]"
      using False assms(1) by (subst numeral_of.simps) simp
    ultimately show ?thesis
      using less.IH [of "n div b" "buf @ [digit_char (n mod b)]"] less.prems b digit quot room
      by (subst printint_loop.simps) (simp add: Let_def)
  qed
qed


text \<open>A negative value indexes \<open>digits\<close> with a negative remainder sooner or later.\<close>

lemma printint_loop_neg:
  assumes "sint x < 0" "2 \<le> sint base"
  shows "printint_loop base x buf = None"
  using assms(1)
proof (induction "nat (- sint x)" arbitrary: x buf rule: less_induct)
  case less
  note rem = smod_sdiv_neg [OF less.prems, of "sint base"]
  show ?case
  proof (cases "(- sint x) mod sint base = 0")
    case False
    then have "0 < (- sint x) mod sint base" using assms(2) by (simp add: le_neq_trans)
    then show ?thesis using rem assms(2) by (subst printint_loop.simps) (simp add: digit_at_def)
  next
    case True
    let ?q = "- ((- sint x) div sint base)"
    have q: "?q < 0" "- ?q < - sint x"
      using True less.prems assms(2) by (auto simp: pos_imp_zdiv_pos_iff int_div_less_self zdvd_imp_le mod_eq_0_iff_dvd)
    then have "sint (word_of_int ?q :: i32) = ?q"
      using sint_ge [of x] by (intro sint_word_of_int32) simp_all
    moreover from this q have "printint_loop base (word_of_int ?q) (buf @ [d]) = None" for d
      by (intro less.hyps) simp_all
    moreover have "(word_of_int ?q :: i32) \<noteq> 0" using calculation(1) q by (metis sint_0 less_irrefl)
    ultimately show ?thesis
      using rem assms(2) by (subst printint_loop.simps) (auto simp: Let_def split: option.split)
  qed
qed

lemma length_numeral_of_32:
  assumes "10 \<le> b" "int n < 2 ^ 31"
  shows "length (numeral_of b n) \<le> 10"
proof (rule length_numeral_of_le)
  have "n < 10 ^ 10" using assms(2) by simp
  also have "(10::nat) ^ 10 \<le> b ^ 10" using assms(1) by (rule power_mono) simp
  finally show "n < b ^ 10" .
qed (use assms(1) in auto)

lemma printint_nonneg:
  assumes "0 \<le> sint xx" "10 \<le> b" "b \<le> 16"
  shows "printint_loop (word_of_nat b) xx [] = Some (rev (numeral_of b (nat (sint xx))))"
proof -
  have "xx = word_of_nat (nat (sint xx))" using assms(1) by (simp flip: word_of_int_nat)
  moreover have "int (nat (sint xx)) < 2 ^ 31" using assms(1) sint_less [of xx] by simp
  ultimately show ?thesis
    using printint_loop_nat [of b "nat (sint xx)" "[]"] length_numeral_of_32 [of b "nat (sint xx)"] assms(2,3)
    by (simp add: BUF_SIZE_def)
qed

definition INT_MIN :: i32 where "INT_MIN = 0x80000000"

lemma INT_MIN_iff: "xx = INT_MIN \<longleftrightarrow> sint xx = - (2 ^ 31)"
proof
  assume "sint xx = - (2 ^ 31)"
  then have "(word_of_int (sint xx) :: i32) = word_of_int (- (2 ^ 31))" by (rule arg_cong)
  then have "xx = word_of_int (- (2 ^ 31))" by simp
  then show "xx = INT_MIN" by (simp add: INT_MIN_def)
qed (simp add: INT_MIN_def)

lemma sint_uminus: "sint xx \<noteq> - (2 ^ 31) \<Longrightarrow> sint (- xx :: i32) = - sint xx"
  using sint_word_of_int32 [of "- sint xx"] sint_ge [of xx] sint_less [of xx] by simp

lemma numeral_of_nonempty: "numeral_of b n \<noteq> []"
  by (subst numeral_of.simps) simp

lemma printint_facts:
  "printint xx 10 True = (if xx = INT_MIN then None else Some (decimal_of (sint xx))) \<and>
   printint xx 16 False = (if sint xx < 0 then None else Some (numeral_of 16 (nat (sint xx))))"
proof (cases "sint xx < 0")
  case True
  show ?thesis
  proof (cases "xx = INT_MIN")
    case min: True
    then have "printint_loop 10 (- xx) [] = None"
      by (intro printint_loop_neg) (simp_all add: INT_MIN_def)
    with True min printint_loop_neg [OF True, of 16 "[]"] show ?thesis by (simp add: printint_def)
  next
    case False
    then have neg: "sint (- xx) = - sint xx" and lt: "int (nat (- sint xx)) < 2 ^ 31"
      using True sint_ge [of xx] by (simp_all add: INT_MIN_iff sint_uminus)
    from True False neg show ?thesis
      using printint_loop_neg [OF True, of 16 "[]"] printint_nonneg [of "- xx" 10]
        length_numeral_of_32 [OF _ lt, of 10]
      by (simp add: printint_def decimal_of_def BUF_SIZE_def)
  qed
next
  case False
  then show ?thesis
    using printint_nonneg [of xx 10] printint_nonneg [of xx 16]
    by (auto simp: printint_def decimal_of_def INT_MIN_def)
qed

section \<open>Reading numerals back\<close>

definition digit_value :: "char \<Rightarrow> nat" where
  "digit_value c = (if c \<le> CHR ''9'' then of_char c - of_char (CHR ''0'') else of_char c - of_char (CHR ''A'') + 10)"

definition parse_nat :: "nat \<Rightarrow> string \<Rightarrow> nat" where
  "parse_nat b s = foldl (\<lambda>n c. n * b + digit_value c) 0 s"

definition parse_decimal :: "string \<Rightarrow> int" where
  "parse_decimal s = (if s \<noteq> [] \<and> hd s = CHR ''-'' then - int (parse_nat 10 (tl s)) else int (parse_nat 10 s))"

lemma digit_value_digit_char: "k < 16 \<Longrightarrow> digit_value (digit_char k) = k"
proof -
  have "\<forall>k<16. digit_value (digit_char k) = k"
    by (simp add: All_less_Suc numeral_eq_Suc digit_value_def digit_char_def digits_def less_eq_char_def)
  then show "k < 16 \<Longrightarrow> digit_value (digit_char k) = k" by blast
qed

lemma parse_numeral_of: "2 \<le> b \<Longrightarrow> b \<le> 16 \<Longrightarrow> parse_nat b (numeral_of b n) = n"
proof (induction n rule: less_induct)
  case (less n)
  show ?case
  proof (cases "n < b")
    case True
    then show ?thesis using less.prems by (simp add: numeral_of.simps parse_nat_def digit_value_digit_char)
  next
    case False
    then have "parse_nat b (numeral_of b (n div b)) = n div b" using less by simp
    moreover have "digit_value (digit_char (n mod b)) = n mod b"
      using less.prems by (intro digit_value_digit_char) (simp add: less_le_trans [OF mod_less_divisor])
    ultimately show ?thesis
      using False less.prems by (subst numeral_of.simps) (simp add: parse_nat_def)
  qed
qed

lemma hd_numeral_of: "2 \<le> b \<Longrightarrow> b \<le> 16 \<Longrightarrow> hd (numeral_of b n) \<noteq> CHR ''-''"
proof (induction n rule: less_induct)
  case (less n)
  have "\<forall>k<16. digit_char k \<noteq> CHR ''-''"
    by (simp add: All_less_Suc numeral_eq_Suc digit_char_def digits_def)
  with less show ?case
    by (subst numeral_of.simps) (auto simp: hd_append numeral_of_nonempty)
qed

text \<open>
  C35.  \<open>printint\<close> with base 10 prints the decimal numeral of every int except \<open>INT_MIN\<close>, and with
  base 16, as \<open>%x\<close> and \<open>%p\<close> call it, the hexadecimal numeral of every non-negative int; on the
  other values (\<open>INT_MIN\<close> and every negative hexadecimal) it reads outside \<open>digits\<close>.  The 16-byte
  buffer is never overrun.
\<close>

theorem printint_correct:
  "printint xx 10 True = (if xx = INT_MIN then None else Some (decimal_of (sint xx))) \<and>
   printint xx 16 False = (if sint xx < 0 then None else Some (numeral_of 16 (nat (sint xx))))"
  by (rule printint_facts)

section \<open>Format strings\<close>

text \<open>The parts of a format string with the arguments they take and the text they print.\<close>

datatype fpart = Lit char | Dec i32 | Hex i32 | Str "string option" | Pct

fun part_fmt :: "fpart \<Rightarrow> string" where
  "part_fmt (Lit c) = [c]"
| "part_fmt (Dec i) = [CHR_PERCENT, CHR ''d'']"
| "part_fmt (Hex i) = [CHR_PERCENT, CHR ''x'']"
| "part_fmt (Str s) = [CHR_PERCENT, CHR ''s'']"
| "part_fmt Pct = [CHR_PERCENT, CHR_PERCENT]"

fun part_args :: "fpart \<Rightarrow> varg list" where
  "part_args (Dec i) = [VInt i]"
| "part_args (Hex i) = [VInt i]"
| "part_args (Str s) = [VStr s]"
| "part_args _ = []"

fun part_text :: "fpart \<Rightarrow> string" where
  "part_text (Lit c) = [c]"
| "part_text (Dec i) = decimal_of (sint i)"
| "part_text (Hex i) = numeral_of 16 (nat (sint i))"
| "part_text (Str s) = puts_loop (case s of None \<Rightarrow> ''(null)'' | Some s \<Rightarrow> s)"
| "part_text Pct = [CHR_PERCENT]"

fun part_ok :: "fpart \<Rightarrow> bool" where
  "part_ok (Lit c) = (c \<noteq> CHR_PERCENT \<and> c \<noteq> CHR_NUL)"
| "part_ok (Dec i) = (i \<noteq> INT_MIN)"
| "part_ok (Hex i) = (0 \<le> sint i)"
| "part_ok _ = True"

lemma CHR_distinct [simp]:
  "CHR_PERCENT \<noteq> CHR_NUL" "CHR ''d'' \<noteq> CHR_NUL" "CHR ''x'' \<noteq> CHR_NUL" "CHR ''s'' \<noteq> CHR_NUL"
  "CHR_PERCENT \<noteq> CHR ''d''" "CHR_PERCENT \<noteq> CHR ''x''" "CHR_PERCENT \<noteq> CHR ''p''" "CHR_PERCENT \<noteq> CHR ''s''"
  by (simp_all add: CHR_PERCENT_def CHR_NUL_def)

lemma printf_Lit: "c \<noteq> CHR_PERCENT \<Longrightarrow> c \<noteq> CHR_NUL \<Longrightarrow> printf (c # fmt) ap = map_option (\<lambda>t. c # t) (printf fmt ap)"
  by (cases fmt) simp_all

lemma directive_part:
  assumes "part_ok p" "\<And>c. p \<noteq> Lit c"
  shows "printf (part_fmt p @ fmt) (part_args p @ ap) = map_option (\<lambda>u. part_text p @ u) (printf fmt ap)"
  using assms by (cases p; cases "printf fmt ap") (auto simp: printf_directive_def printint_facts)

text \<open>
  \<open>printf\<close> interprets every format string made of literal characters and the directives
  \<open>%d %x %s %%\<close>: it prints the parts in order, consumes exactly their arguments, a null \<open>%s\<close>
  argument prints \<open>(null)\<close>, and nothing outside the arguments is read.
\<close>

theorem printf_formats:
  assumes "list_all part_ok ps"
  shows "printf (concat (map part_fmt ps)) (concat (map part_args ps) @ ap) = Some (concat (map part_text ps))"
  using assms
proof (induction ps)
  case Nil
  then show ?case by simp
next
  case (Cons p ps)
  then show ?case
    using directive_part [of p] by (cases "\<exists>c. p = Lit c") (auto simp: printf_Lit)
qed

theorem printf_formats_witness:
  "printf (concat (map part_fmt [Lit (CHR ''a''), Dec (- 42), Pct, Hex 255, Str None]))
     ([VInt (- 42), VInt 255, VStr None] @ []) = Some (''a'' @ decimal_of (- 42) @ [CHR_PERCENT] @ numeral_of 16 255 @ ''(null)'')"
  using printf_formats [of "[Lit (CHR ''a''), Dec (- 42), Pct, Hex 255, Str None]" "[]"]
  by (simp add: INT_MIN_def CHR_PERCENT_def CHR_NUL_def)

text \<open>
  What \<open>printint\<close> prints reads back as the number printed, in both bases.
\<close>

theorem printint_roundtrip:
  "(xx \<noteq> INT_MIN \<longrightarrow> map_option parse_decimal (printint xx 10 True) = Some (sint xx)) \<and>
   (0 \<le> sint xx \<longrightarrow> map_option (parse_nat 16) (printint xx 16 False) = Some (nat (sint xx)))"
  by (simp add: printint_facts parse_decimal_def decimal_of_def parse_numeral_of numeral_of_nonempty hd_numeral_of)

theorem printint_roundtrip_witness:
  "map_option parse_decimal (printint (- 1234) 10 True) = Some (- 1234) \<and>
   map_option (parse_nat 16) (printint 48879 16 False) = Some 48879"
  using printint_roundtrip [of "- 1234"] printint_roundtrip [of 48879] by (simp add: INT_MIN_def)

end
