(* ===== verification/Alu.thy ===== *)
theory Alu
  imports Prelude
begin

text \<open>
  The scalar arithmetic unit (alu.v): a ripple-carry adder built of full adders, a five-stage
  barrel shifter that reverses its data for left shifts, and the unit \<open>alu\<close> that shares them
  between its operations; and the proof that it computes the operations of the base instruction
  set.
\<close>

section \<open>Gates\<close>

text \<open>A bus assembled from its bits, the way the source drives it bit by bit.\<close>

definition bus :: "(nat \<Rightarrow> bool) \<Rightarrow> i32" where
  "bus f = horner_sum of_bool 2 (map f [0..<32])"

lemma bit_bus [simp]: "bit (bus f) n \<longleftrightarrow> n < 32 \<and> f n"
  by (auto simp: bus_def bit_horner_sum_bit_iff)

definition fa_sum :: "bool \<Rightarrow> bool \<Rightarrow> bool \<Rightarrow> bool" where
  "fa_sum a b cin \<longleftrightarrow> (a \<noteq> b) \<noteq> cin"

definition fa_cout :: "bool \<Rightarrow> bool \<Rightarrow> bool \<Rightarrow> bool" where
  "fa_cout a b cin \<longleftrightarrow> (a \<and> b) \<or> (a \<and> cin) \<or> (b \<and> cin)"

text \<open>\<open>carry a b cin i\<close> is the carry into full adder \<open>i\<close> of the chain.\<close>

fun carry :: "i32 \<Rightarrow> i32 \<Rightarrow> bool \<Rightarrow> nat \<Rightarrow> bool" where
  "carry a b cin 0 = cin"
| "carry a b cin (Suc i) = fa_cout (bit a i) (bit b i) (carry a b cin i)"

definition ripple_carry_adder_32 :: "i32 \<Rightarrow> i32 \<Rightarrow> bool \<Rightarrow> i32 \<times> bool" where
  "ripple_carry_adder_32 a b cin =
    (bus (\<lambda>i. fa_sum (bit a i) (bit b i) (carry a b cin i)), carry a b cin 32)"

definition reverse_bits :: "i32 \<Rightarrow> i32" where
  "reverse_bits d = bus (\<lambda>i. bit d (31 - i))"

text \<open>One stage: shift right by \<open>k\<close> places with the fill bit, or pass.\<close>

definition shift_stage :: "nat \<Rightarrow> bool \<Rightarrow> bool \<Rightarrow> i32 \<Rightarrow> i32" where
  "shift_stage k fill enable d = (if enable then bus (\<lambda>i. if i + k < 32 then bit d (i + k) else fill) else d)"

definition barrel_shifter :: "i32 \<Rightarrow> 5 word \<Rightarrow> bool \<Rightarrow> bool \<Rightarrow> i32" where
  "barrel_shifter data_in shift_amt shift_left arithmetic =
    (let shift_data = (if shift_left then reverse_bits data_in else data_in);
         fill_bit = (if arithmetic \<and> \<not> shift_left then bit shift_data 31 else False);
         stage0 = shift_stage 1 fill_bit (bit shift_amt 0) shift_data;
         stage1 = shift_stage 2 fill_bit (bit shift_amt 1) stage0;
         stage2 = shift_stage 4 fill_bit (bit shift_amt 2) stage1;
         stage3 = shift_stage 8 fill_bit (bit shift_amt 3) stage2;
         stage4 = shift_stage 16 fill_bit (bit shift_amt 4) stage3
     in if shift_left then reverse_bits stage4 else stage4)"

section \<open>The unit\<close>

definition alu :: "i32 \<Rightarrow> i32 \<Rightarrow> 4 word \<Rightarrow> i32 \<times> bool" where
  "alu op1 op2 alu_ctrl =
    (let subtract = (alu_ctrl = 0b0001 \<or> alu_ctrl = 0b1000 \<or> alu_ctrl = 0b1001);
         op2_modified = (if subtract then NOT op2 else op2);
         (addsub_result, addsub_cout) = ripple_carry_adder_32 op1 op2_modified subtract;
         shift_result = barrel_shifter op1 (ucast op2) (alu_ctrl = 0b0101) (alu_ctrl = 0b0111);
         slt_result = (if bit op1 31 = bit op2 31 then bit addsub_result 31 else bit op1 31);
         sltu_result = (\<not> addsub_cout);
         alu_out =
           (if alu_ctrl = 0b0000 then addsub_result else if alu_ctrl = 0b0001 then addsub_result
            else if alu_ctrl = 0b0010 then op1 AND op2 else if alu_ctrl = 0b0011 then op1 OR op2
            else if alu_ctrl = 0b0100 then op1 XOR op2 else if alu_ctrl = 0b0101 then shift_result
            else if alu_ctrl = 0b0110 then shift_result else if alu_ctrl = 0b0111 then shift_result
            else if alu_ctrl = 0b1000 then of_bool slt_result else if alu_ctrl = 0b1001 then of_bool sltu_result
            else 0)
     in (alu_out, alu_out = 0))"

section \<open>The adder adds\<close>

lemma carry_arith:
  assumes "n \<le> 32"
  shows "take_bit n (uint a) + take_bit n (uint b) + of_bool cin =
     take_bit n (uint (fst (ripple_carry_adder_32 a b cin))) + 2 ^ n * of_bool (carry a b cin n)"
  using assms
proof (induction n)
  case (Suc n)
  have "bit (fst (ripple_carry_adder_32 a b cin)) n \<longleftrightarrow> fa_sum (bit a n) (bit b n) (carry a b cin n)"
    using Suc.prems by (simp add: ripple_carry_adder_32_def)
  then show ?case
    using Suc by (simp add: take_bit_Suc_from_most bit_uint_iff fa_sum_def fa_cout_def of_bool_def
        split: if_splits)
qed simp

lemma adder_sum:
  "uint a + uint b + of_bool cin =
     uint (fst (ripple_carry_adder_32 a b cin)) + 2 ^ 32 * of_bool (snd (ripple_carry_adder_32 a b cin))"
proof -
  have "take_bit 32 (uint x) = uint x" for x :: i32 using take_bit_length_eq [of x] by (simp add: unsigned_take_bit_eq [symmetric])
  then show ?thesis using carry_arith [of 32 a b cin] by (simp add: ripple_carry_adder_32_def)
qed

lemma adder_word: "fst (ripple_carry_adder_32 a b cin) = a + b + of_bool cin"
proof -
  have "word_of_int (uint a + uint b + of_bool cin) = (word_of_int (uint (fst (ripple_carry_adder_32 a b cin))) :: i32)"
    unfolding adder_sum by (simp add: of_bool_def)
  then show ?thesis by (cases cin) simp_all
qed

lemma subtractor:
  "fst (ripple_carry_adder_32 a (NOT b) True) = a - b"
  "snd (ripple_carry_adder_32 a (NOT b) True) \<longleftrightarrow> b \<le> a"
proof -
  have n: "uint (NOT b) = 2 ^ 32 - 1 - uint b"
  proof -
    have "b \<le> - 1" by simp
    then have "uint (- 1 - b) = uint (- 1 :: i32) - uint b" using uint_minus_simple_iff [of "- 1" b] by simp
    moreover have "NOT b = - 1 - b" by (simp add: not_eq_complement)
    ultimately show ?thesis by (simp add: unsigned_minus_1_eq_mask mask_eq_exp_minus_1)
  qed
  show "fst (ripple_carry_adder_32 a (NOT b) True) = a - b"
    by (simp add: adder_word not_eq_complement)
  let ?s = "uint (fst (ripple_carry_adder_32 a (NOT b) True))"
  have "?s < 2 ^ 32" using uint_bounded [of "fst (ripple_carry_adder_32 a (NOT b) True)"] by simp
  moreover have "0 \<le> ?s" by (rule uint_ge_0)
  moreover have "uint a + (2 ^ 32 - 1 - uint b) + 1 = ?s + 2 ^ 32 * of_bool (snd (ripple_carry_adder_32 a (NOT b) True))"
    using adder_sum [of a "NOT b" True] unfolding n by simp
  ultimately show "snd (ripple_carry_adder_32 a (NOT b) True) \<longleftrightarrow> b \<le> a"
    unfolding word_le_def by (cases "snd (ripple_carry_adder_32 a (NOT b) True)"; simp; linarith)
qed

lemma slt_from_difference:
  "(if bit a 31 = bit b 31 then bit (a - b) 31 else bit a 31) \<longleftrightarrow> a <s (b :: i32)"
proof -
  have sign: "bit w 31 \<longleftrightarrow> sint w < 0" for w :: i32
    using bit_last_iff [of w] by simp
  have range: "- (2 ^ 31) \<le> sint w" "sint w < 2 ^ 31" for w :: i32
    using sint_greater_eq [of w] sint_less [of w] by simp_all
  have diff: "sint (a - b) = sint a - sint b" if "bit a 31 = bit b 31"
  proof -
    have "- (2 ^ 31) \<le> sint a - sint b" "sint a - sint b < 2 ^ 31"
      using that range [of a] range [of b] unfolding sign by auto
    then have "signed_take_bit 31 (sint a - sint b) = sint a - sint b"
      by (intro signed_take_bit_int_eq_self) simp_all
    then show ?thesis by (simp add: sint_word_ariths)
  qed
  show ?thesis using diff unfolding sign word_sless_alt by auto
qed

section \<open>The shifter shifts\<close>

lemma bit_shift_stage:
  "bit (shift_stage k fill enable d) n \<longleftrightarrow>
     n < 32 \<and> (if enable then (if n + k < 32 then bit d (n + k) else fill) else bit d n)"
  using bit_imp_le_length [of d n] by (auto simp: shift_stage_def)

lemma reverse_bits_bit: "bit (reverse_bits d) n \<longleftrightarrow> n < 32 \<and> bit d (31 - n)"
  by (simp add: reverse_bits_def)

lemma shift_amount:
  "unat (w :: 5 word) = of_bool (bit w 0) + 2 * of_bool (bit w 1) + 4 * of_bool (bit w 2) + 8 * of_bool (bit w 3) + 16 * of_bool (bit w 4)"
proof -
  have "unat w = take_bit 5 (unat w)" using take_bit_length_eq [of w] by (simp flip: unsigned_take_bit_eq)
  also have "\<dots> = of_bool (bit w 0) + 2 * of_bool (bit w 1) + 4 * of_bool (bit w 2) + 8 * of_bool (bit w 3) + 16 * of_bool (bit w 4)"
    by (simp add: numeral_eq_Suc take_bit_Suc_from_most bit_unsigned_iff)
  finally show ?thesis .
qed

text \<open>The five stages together shift right by the amount.\<close>

lemma bit_stages:
  fixes fill and d :: i32 and amt :: "5 word"
  shows "bit (shift_stage 16 fill (bit amt 4) (shift_stage 8 fill (bit amt 3) (shift_stage 4 fill (bit amt 2)
      (shift_stage 2 fill (bit amt 1) (shift_stage 1 fill (bit amt 0) d))))) n \<longleftrightarrow>
    n < 32 \<and> (if n + unat amt < 32 then bit d (n + unat amt) else fill)"
  unfolding shift_amount
  by (cases "bit amt 0"; cases "bit amt 1"; cases "bit amt 2"; cases "bit amt 3"; cases "bit amt 4")
    (simp_all add: bit_shift_stage ac_simps)

lemmas bit_five_stages = bit_stages [unfolded One_nat_def]

lemma barrel_shifter_right: "barrel_shifter d amt False False = drop_bit (unat amt) d"
  by (rule bit_word_eqI) (auto simp: barrel_shifter_def Let_def bit_five_stages bit_simps ac_simps dest: bit_imp_le_length)

lemma barrel_shifter_arith: "barrel_shifter d amt False True = signed_drop_bit (unat amt) d"
proof (rule bit_word_eqI)
  fix n assume n: "n < LENGTH(32)"
  have "bit (signed_drop_bit (unat amt) d) n \<longleftrightarrow> bit d (if 32 - unat amt \<le> n then 31 else unat amt + n)"
    using n bit_signed_drop_bit_iff [of "unat amt" d n] by simp
  then show "bit (barrel_shifter d amt False True) n \<longleftrightarrow> bit (signed_drop_bit (unat amt) d) n"
    using n by (simp add: barrel_shifter_def Let_def bit_five_stages add.commute le_diff_conv not_less)
qed

lemma barrel_shifter_left: "barrel_shifter d amt True arith = push_bit (unat amt) d"
  by (rule bit_word_eqI) (auto simp: barrel_shifter_def Let_def bit_five_stages bit_simps ac_simps reverse_bits_bit)

section \<open>The unit computes\<close>

text \<open>The operations of the base instruction set under their control codes.\<close>

definition alu_spec :: "4 word \<Rightarrow> i32 \<Rightarrow> i32 \<Rightarrow> i32" where
  "alu_spec ctrl a b =
    (if ctrl = 0 then a + b else if ctrl = 1 then a - b
     else if ctrl = 2 then a AND b else if ctrl = 3 then a OR b else if ctrl = 4 then a XOR b
     else if ctrl = 5 then push_bit (unat b mod 32) a else if ctrl = 6 then drop_bit (unat b mod 32) a
     else if ctrl = 7 then signed_drop_bit (unat b mod 32) a
     else if ctrl = 8 then of_bool (a <s b) else if ctrl = 9 then of_bool (a < b)
     else 0)"

lemma alu_spec_eq: "alu a b ctrl = (alu_spec ctrl a b, alu_spec ctrl a b = 0)"
proof -
  have amt: "unat (ucast b :: 5 word) = unat b mod 32" by (simp add: unsigned_ucast_eq take_bit_eq_mod)
  have slt: "(if bit a 31 = bit b 31 then bit (a - b) 31 else bit a 31) = (a <s b)" by (rule slt_from_difference)
  have "fst (alu a b ctrl) = alu_spec ctrl a b"
    unfolding alu_def alu_spec_def Let_def split_beta
    using slt by (auto simp: adder_word [where cin = False] subtractor barrel_shifter_left barrel_shifter_right
        barrel_shifter_arith amt linorder_not_le split: if_splits)
  moreover have "snd (alu a b ctrl) = (fst (alu a b ctrl) = 0)"
    by (simp add: alu_def Let_def split_beta)
  ultimately show ?thesis by (cases "alu a b ctrl") simp
qed

text \<open>
  C4.  The gates of the arithmetic unit compute the operations of the base instruction set: the
  carry chain adds and, with the inverted operand, subtracts; its sign and carry give the signed
  and unsigned comparison, also where the subtraction overflows; the barrel shifter shifts left,
  right and arithmetically by the low five bits; and the zero flag tells whether the result is 0.
\<close>

theorem alu_correct: "alu a b ctrl = (alu_spec ctrl a b, alu_spec ctrl a b = 0)"
  by (rule alu_spec_eq)

end
