(* ===== verification/Core_Clock.thy ===== *)
theory Core_Clock
  imports Alu Simd_Core
begin

text \<open>
  The whole core \<open>ucrv32\<close> (ucrv32.v) at one clock edge: its five-state machine, scalar register
  file, arithmetic unit, memory interface, control and status registers, performance counters and
  the three SIMD units, all stepping together on the values before the edge.
\<close>

section \<open>State\<close>

datatype fsm = FETCH | DECODE | EXEC | MEM | WB

text \<open>
  \<open>ctl\<close> is the bank of control registers that DECODE loads from the outputs of the decoder
  (\<open>rd_reg\<close>, \<open>imm_reg\<close>, \<open>alu_ctrl_reg\<close>, ..., \<open>vd_reg\<close>); \<open>regs\<close> and \<open>vregs\<close> are the two register files.
\<close>

record core =
  cpu_state :: fsm
  pc_reg :: i32
  pc_saved :: i32
  insn_reg :: i32
  rdata1_reg :: i32
  rdata2_reg :: i32
  alu_out_reg :: i32
  mem_data_reg :: i32
  ctl :: decoded
  mtvec :: i32
  mepc :: i32
  mcause :: i32
  mstatus :: i32
  cycle_counter :: i32
  insn_counter :: i32
  load_counter :: i32
  store_counter :: i32
  vec_busy :: bool
  vec_valid_in_reg :: bool
  vlsu_start_reg :: bool
  vs1_data_reg :: i64
  vs2_data_reg :: i64
  vec_result_reg :: i64
  vmac_busy :: bool
  vmac_valid_in_reg :: bool
  dmem_req_valid_reg :: bool
  dmem_req_write_reg :: bool
  dmem_req_addr_reg :: i32
  dmem_req_wdata_reg :: i32
  dmem_req_wmask_reg :: "4 word"
  trace_pc_reg :: i32
  trace_insn_reg :: i32
  regs :: "5 word \<Rightarrow> i32"
  vregs :: vregs
  vmac_inst :: vmac_state
  valu_inst :: valu_state
  vlsu_inst :: vlsu_state

section \<open>Wires\<close>

definition rf_read :: "(5 word \<Rightarrow> i32) \<Rightarrow> 5 word \<Rightarrow> i32" where
  "rf_read rf r = (if r \<noteq> 0 then rf r else 0)"

definition rf_write :: "bool \<Rightarrow> 5 word \<Rightarrow> i32 \<Rightarrow> (5 word \<Rightarrow> i32) \<Rightarrow> 5 word \<Rightarrow> i32" where
  "rf_write wen waddr wdata rf = (if wen \<and> waddr \<noteq> 0 then rf(waddr := wdata) else rf)"

definition dec :: "core \<Rightarrow> decoded" where "dec c = decoder_control (insn_reg c)"

definition rf_rdata1 :: "core \<Rightarrow> i32" where "rf_rdata1 c = rf_read (regs c) (d_rs1 (dec c))"
definition rf_rdata2 :: "core \<Rightarrow> i32" where "rf_rdata2 c = rf_read (regs c) (d_rs2 (dec c))"

definition alu_op1 :: "core \<Rightarrow> i32" where
  "alu_op1 c = (if d_is_auipc (ctl c) then pc_saved c else rf_rdata1 c)"
definition alu_op2 :: "core \<Rightarrow> i32" where
  "alu_op2 c = (if d_alu_src2_sel (ctl c) then d_imm (ctl c) else rf_rdata2 c)"

text \<open>\<open>alu_out\<close> and \<open>alu_zero\<close>; \<open>None\<close> when the control code is \<open>x\<close>.\<close>

definition alu_wires :: "core \<Rightarrow> (i32 \<times> bool) option" where
  "alu_wires c = (case d_alu_ctrl (ctl c) of None \<Rightarrow> None | Some ctrl \<Rightarrow> Some (alu (alu_op1 c) (alu_op2 c) ctrl))"

definition branch_condition :: "decoded \<Rightarrow> i32 \<Rightarrow> bool \<Rightarrow> bool" where
  "branch_condition d alu_out alu_zero \<longleftrightarrow>
    (if d_is_branch_compare d then bit alu_out 0 \<noteq> d_branch_if_set d else alu_zero \<noteq> d_branch_if_set d)"

definition take_branch :: "decoded \<Rightarrow> i32 \<Rightarrow> bool \<Rightarrow> bool" where
  "take_branch d alu_out alu_zero \<longleftrightarrow> d_is_branch d \<and> branch_condition d alu_out alu_zero"

definition mem_byte_wire :: "core \<Rightarrow> i8" where
  "mem_byte_wire c = lane (unat (alu_out_reg c AND 3)) (mem_data_reg c)"

definition mem_half_wire :: "core \<Rightarrow> i16" where
  "mem_half_wire c = lane (if bit (alu_out_reg c) 1 then 1 else 0) (mem_data_reg c)"

definition mem_data_extended :: "core \<Rightarrow> i32" where
  "mem_data_extended c =
    (if d_mem_sign_extend (ctl c) then
       (if d_mem_mask (ctl c) = 0x000000FF then scast (mem_byte_wire c)
        else if d_mem_mask (ctl c) = 0x0000FFFF then scast (mem_half_wire c) else mem_data_reg c)
     else
       (if d_mem_mask (ctl c) = 0x000000FF then ucast (mem_byte_wire c)
        else if d_mem_mask (ctl c) = 0x0000FFFF then ucast (mem_half_wire c) else mem_data_reg c))"

definition pc_plus_4 :: "core \<Rightarrow> i32" where
  "pc_plus_4 c = fst (ripple_carry_adder_32 (pc_saved c) 4 False)"
definition pc_plus_imm :: "core \<Rightarrow> i32" where
  "pc_plus_imm c = fst (ripple_carry_adder_32 (pc_saved c) (d_imm (ctl c)) False)"

definition wb_data :: "core \<Rightarrow> i32" where
  "wb_data c =
    (if d_is_jal (ctl c) \<or> d_is_jalr (ctl c) then pc_plus_4 c
     else if d_wb_from_mem (ctl c) then mem_data_extended c
     else alu_out_reg c)"

definition wb_enable :: "core \<Rightarrow> bool" where
  "wb_enable c \<longleftrightarrow> cpu_state c = WB \<and> d_reg_write (ctl c)"

definition ebreak_hit :: "core \<Rightarrow> bool" where
  "ebreak_hit c \<longleftrightarrow> d_ebreak_hit (ctl c) \<and> cpu_state c = WB"

definition vrf_wen :: "core \<Rightarrow> bool" where
  "vrf_wen c \<longleftrightarrow> cpu_state c = WB \<and> d_vec_reg_write (ctl c)"

text \<open>The memory interface, shared by the scalar side and the load/store unit.\<close>

definition vec_mem_active :: "core \<Rightarrow> bool" where
  "vec_mem_active c \<longleftrightarrow> (d_is_vec_load (ctl c) \<or> d_is_vec_store (ctl c)) \<and> vec_busy c"

definition dmem_req_valid :: "core \<Rightarrow> bool" where
  "dmem_req_valid c = (if vec_mem_active c then vl_mem_valid (vlsu_inst c) else dmem_req_valid_reg c)"
definition dmem_req_write :: "core \<Rightarrow> bool" where
  "dmem_req_write c = (if vec_mem_active c then vl_mem_write (vlsu_inst c) else dmem_req_write_reg c)"
definition dmem_req_addr :: "core \<Rightarrow> i32" where
  "dmem_req_addr c = (if vec_mem_active c then vl_mem_addr (vlsu_inst c) else dmem_req_addr_reg c)"
definition dmem_req_wdata :: "core \<Rightarrow> i32" where
  "dmem_req_wdata c = (if vec_mem_active c then vl_mem_wdata (vlsu_inst c) else dmem_req_wdata_reg c)"
definition dmem_req_wmask :: "core \<Rightarrow> 4 word" where
  "dmem_req_wmask c = (if vec_mem_active c then vl_mem_wmask (vlsu_inst c) else dmem_req_wmask_reg c)"

text \<open>Alignment of store data and byte enables.\<close>

definition store_wdata :: "i32 \<Rightarrow> i32 \<Rightarrow> i32" where
  "store_wdata mem_mask rdata2 =
    (if mem_mask = 0x000000FF then pack_lanes (replicate 4 (lane 0 rdata2 :: i8))
     else if mem_mask = 0x0000FFFF then pack_lanes (replicate 2 (lane 0 rdata2 :: i16))
     else rdata2)"

definition store_wmask :: "i32 \<Rightarrow> i32 \<Rightarrow> 4 word" where
  "store_wmask mem_mask addr =
    (if mem_mask = 0x000000FF then
       (if addr AND 3 = 0 then 0b0001 else if addr AND 3 = 1 then 0b0010 else if addr AND 3 = 2 then 0b0100 else 0b1000)
     else if mem_mask = 0x0000FFFF then (if bit addr 1 then 0b1100 else 0b0011)
     else 0b1111)"

section \<open>The state machine\<close>

definition fsm_reset :: "core \<Rightarrow> core" where
  "fsm_reset c =
    c\<lparr>cpu_state := FETCH, pc_reg := 0, dmem_req_valid_reg := False,
      ctl := (ctl c)\<lparr>d_reg_write := False, d_ebreak_hit := False, d_is_vmac := False, d_vmac_ctrl := Some 0,
        d_is_rdwrctr := False, d_rdwrctr_wen := False, d_rdwrctr_ctr_id := 0, d_is_vec_op := False, d_vec_op := 0,
        d_vec_sew := 0, d_is_vec_load := False, d_is_vec_store := False, d_is_vec_vmac := False,
        d_vec_reg_write := False\<rparr>,
      vmac_busy := False, vmac_valid_in_reg := False,
      cycle_counter := 0, insn_counter := 0, load_counter := 0, store_counter := 0,
      vec_busy := False, vec_valid_in_reg := False, vlsu_start_reg := False,
      vs1_data_reg := 0, vs2_data_reg := 0, vec_result_reg := 0\<rparr>"

definition fsm_fetch :: "i32 \<Rightarrow> core \<Rightarrow> core" where
  "fsm_fetch imem_rdata c =
    c\<lparr>insn_reg := imem_rdata, pc_saved := pc_reg c, trace_pc_reg := pc_reg c, trace_insn_reg := imem_rdata,
      cpu_state := DECODE\<rparr>"

definition fsm_decode :: "core \<Rightarrow> core" where
  "fsm_decode c =
    c\<lparr>ctl := dec c, rdata1_reg := rf_rdata1 c, rdata2_reg := rf_rdata2 c,
      vs1_data_reg := vrf_read (vregs c) (d_rs1 (dec c)), vs2_data_reg := vrf_read (vregs c) (d_rs2 (dec c)),
      cpu_state := EXEC\<rparr>"

text \<open>\<open>old_cycle\<close> is \<open>cycle_counter\<close> before the edge; the machine has already incremented it.\<close>

definition exec_rdwrctr :: "i32 \<Rightarrow> core \<Rightarrow> core" where
  "exec_rdwrctr old_cycle c =
    (let i = d_rdwrctr_ctr_id (ctl c);
         c' = (if d_rdwrctr_wen (ctl c) then
                 (if i = 0 then c\<lparr>cycle_counter := rdata1_reg c\<rparr> else if i = 1 then c\<lparr>insn_counter := rdata1_reg c\<rparr>
                  else if i = 2 then c\<lparr>load_counter := rdata1_reg c\<rparr> else c\<lparr>store_counter := rdata1_reg c\<rparr>)
               else c\<lparr>alu_out_reg := (if i = 0 then old_cycle else if i = 1 then insn_counter c
                                      else if i = 2 then load_counter c else store_counter c)\<rparr>)
     in c'\<lparr>pc_reg := pc_plus_4 c, cpu_state := WB\<rparr>)"

definition exec_vec :: "core \<Rightarrow> core" where
  "exec_vec c =
    (let mem_op = (d_is_vec_load (ctl c) \<or> d_is_vec_store (ctl c));
         c1 = (if \<not> vec_busy c then
                 (if mem_op then c\<lparr>vec_busy := True, vlsu_start_reg := True\<rparr>
                  else c\<lparr>vec_busy := True, vec_valid_in_reg := True\<rparr>)
               else c\<lparr>vlsu_start_reg := False, vec_valid_in_reg := False\<rparr>)
     in if mem_op then
          (if vl_done (vlsu_inst c) then
             c1\<lparr>vec_result_reg := (if d_is_vec_load (ctl c) then vl_load_data (vlsu_inst c) else vec_result_reg c),
                pc_reg := pc_plus_4 c, vec_busy := False, vlsu_start_reg := False, cpu_state := WB\<rparr>
           else c1\<lparr>cpu_state := EXEC\<rparr>)
        else
          (if va_valid_out (valu_inst c) then
             (if d_is_vec_vmac (ctl c) then c1\<lparr>alu_out_reg := lane 0 (va_result (valu_inst c))\<rparr>
              else c1\<lparr>vec_result_reg := va_result (valu_inst c)\<rparr>)
               \<lparr>pc_reg := pc_plus_4 c, vec_busy := False, vec_valid_in_reg := False, cpu_state := WB\<rparr>
           else c1\<lparr>cpu_state := EXEC\<rparr>))"

definition exec_vmac :: "core \<Rightarrow> core" where
  "exec_vmac c =
    (let c1 = (if \<not> vmac_busy c then c\<lparr>vmac_valid_in_reg := True, vmac_busy := True\<rparr>
               else c\<lparr>vmac_valid_in_reg := False\<rparr>)
     in if vm_valid_out (vmac_inst c) then
          c1\<lparr>alu_out_reg := vm_result (vmac_inst c), pc_reg := pc_plus_4 c, vmac_busy := False,
             vmac_valid_in_reg := False, cpu_state := WB\<rparr>
        else c1\<lparr>cpu_state := EXEC\<rparr>)"

definition exec_alu :: "core \<Rightarrow> core option" where
  "exec_alu c =
    (case alu_wires c of
       None \<Rightarrow> None
     | Some (out, zero) \<Rightarrow>
         let mem = (d_mem_read (ctl c) \<or> d_mem_write (ctl c));
             c1 = c\<lparr>alu_out_reg := out,
                    pc_reg := (if d_is_jal (ctl c) then pc_plus_imm c
                               else if d_is_jalr (ctl c) then out AND NOT 1
                               else if take_branch (ctl c) out zero then pc_plus_imm c
                               else if \<not> mem then pc_plus_4 c else pc_reg c)\<rparr>
         in if mem then
              Some (c1\<lparr>dmem_req_valid_reg := True, dmem_req_write_reg := d_mem_write (ctl c), dmem_req_addr_reg := out,
                dmem_req_wdata_reg := (if d_mem_write (ctl c) then store_wdata (d_mem_mask (ctl c)) (rdata2_reg c)
                                       else dmem_req_wdata_reg c),
                dmem_req_wmask_reg := (if d_mem_write (ctl c) then store_wmask (d_mem_mask (ctl c)) out
                                       else dmem_req_wmask_reg c),
                cpu_state := MEM\<rparr>)
            else Some (c1\<lparr>cpu_state := WB\<rparr>))"

text \<open>A packed operation whose control code is \<open>x\<close> has no defined outcome.\<close>

definition fsm_exec :: "i32 \<Rightarrow> core \<Rightarrow> core option" where
  "fsm_exec old_cycle c =
    (if d_is_rdwrctr (ctl c) then Some (exec_rdwrctr old_cycle c)
     else if d_is_vec_op (ctl c) then Some (exec_vec c)
     else if d_is_vmac (ctl c) then (if d_vmac_ctrl (ctl c) = None then None else Some (exec_vmac c))
     else exec_alu c)"

definition fsm_mem :: "bool \<Rightarrow> bool \<Rightarrow> i32 \<Rightarrow> core \<Rightarrow> core" where
  "fsm_mem req_ready resp_valid resp_rdata c =
    (if dmem_req_valid_reg c \<and> req_ready then
       (if \<not> d_mem_read (ctl c) then
          c\<lparr>dmem_req_valid_reg := False, pc_reg := pc_plus_4 c, cpu_state := WB, store_counter := store_counter c + 1\<rparr>
        else c\<lparr>dmem_req_valid_reg := False\<rparr>)
     else if \<not> dmem_req_valid_reg c \<and> d_mem_read (ctl c) then
       (if resp_valid then
          c\<lparr>mem_data_reg := resp_rdata, pc_reg := pc_plus_4 c, cpu_state := WB, load_counter := load_counter c + 1\<rparr>
        else c)
     else c)"

definition fsm_wb :: "core \<Rightarrow> core" where
  "fsm_wb c =
    c\<lparr>ctl := (ctl c)\<lparr>d_reg_write := False, d_vec_reg_write := False\<rparr>, cpu_state := FETCH,
      insn_counter := insn_counter c + 1\<rparr>"

definition fsm_clock :: "bool \<Rightarrow> i32 \<Rightarrow> bool \<Rightarrow> bool \<Rightarrow> i32 \<Rightarrow> core \<Rightarrow> core option" where
  "fsm_clock resetn imem_rdata req_ready resp_valid resp_rdata c =
    (if \<not> resetn then Some (fsm_reset c)
     else let c' = c\<lparr>cycle_counter := cycle_counter c + 1\<rparr> in
       case cpu_state c of
         FETCH \<Rightarrow> Some (fsm_fetch imem_rdata c')
       | DECODE \<Rightarrow> Some (fsm_decode c')
       | EXEC \<Rightarrow> fsm_exec (cycle_counter c) c'
       | MEM \<Rightarrow> Some (fsm_mem req_ready resp_valid resp_rdata c')
       | WB \<Rightarrow> Some (fsm_wb c'))"

section \<open>Control and status registers\<close>

text \<open>
  In WB the low twelve bits of the immediate of whatever instruction is being completed select
  the register that takes the first source operand.
\<close>

definition csr_clock :: "bool \<Rightarrow> core \<Rightarrow> i32 \<times> i32 \<times> i32 \<times> i32" where
  "csr_clock resetn c =
    (if \<not> resetn then (0, 0, 0, 0)
     else if cpu_state c = WB then
       (let csr_addr = (ucast (d_imm (ctl c)) :: 12 word) in
        if csr_addr = 0x035 then (rdata1_reg c, mepc c, mcause c, mstatus c)
        else if csr_addr = 0x341 then (mtvec c, rdata1_reg c, mcause c, mstatus c)
        else if csr_addr = 0x342 then (mtvec c, mepc c, rdata1_reg c, mstatus c)
        else if csr_addr = 0x300 then (mtvec c, mepc c, mcause c, rdata1_reg c)
        else (mtvec c, mepc c, mcause c, mstatus c))
     else (mtvec c, mepc c, mcause c, mstatus c))"

section \<open>One clock edge\<close>

text \<open>
  Every block takes its inputs from the state before the edge.  The packed unit sees a control
  code of 0 where it is \<open>x\<close>, which it ignores: the state machine never starts it then.
\<close>

definition units_clock :: "bool \<Rightarrow> bool \<Rightarrow> bool \<Rightarrow> i32 \<Rightarrow> core \<Rightarrow> core \<Rightarrow> core" where
  "units_clock resetn req_ready resp_valid resp_rdata c c' =
    (let mem_op = (d_is_vec_load (ctl c) \<or> d_is_vec_store (ctl c)) in
     c'\<lparr>regs := rf_write (wb_enable c) (d_rd (ctl c)) (wb_data c) (regs c),
        vregs := vrf_write (vrf_wen c) (d_rd (ctl c)) (vec_result_reg c) (vregs c),
        vmac_inst := vmac_step resetn (case d_vmac_ctrl (ctl c) of None \<Rightarrow> 0 | Some ctrl \<Rightarrow> ctrl)
          (rdata1_reg c) (rdata2_reg c) (vmac_valid_in_reg c) (vmac_inst c),
        valu_inst := valu_step resetn (ucast (d_vec_op (ctl c))) (d_vec_sew (ctl c)) (vs1_data_reg c) (vs2_data_reg c)
          (vec_valid_in_reg c \<and> \<not> mem_op) (valu_inst c),
        vlsu_inst := vlsu_step resetn (vlsu_start_reg c) (d_is_vec_store (ctl c)) (rdata1_reg c) (vs2_data_reg c)
          req_ready resp_valid resp_rdata (vlsu_inst c)\<rparr>)"

definition cpu_clock :: "bool \<Rightarrow> i32 \<Rightarrow> bool \<Rightarrow> bool \<Rightarrow> i32 \<Rightarrow> core \<Rightarrow> core option" where
  "cpu_clock resetn imem_rdata req_ready resp_valid resp_rdata c =
    (case fsm_clock resetn imem_rdata req_ready resp_valid resp_rdata c of
       None \<Rightarrow> None
     | Some c' \<Rightarrow>
         (case csr_clock resetn c of (tvec, epc, cause, status) \<Rightarrow>
            Some (units_clock resetn req_ready resp_valid resp_rdata c
              (c'\<lparr>mtvec := tvec, mepc := epc, mcause := cause, mstatus := status\<rparr>))))"

end
