(* ===== verification/Uart.thy ===== *)
theory Uart
  imports Prelude
begin

text \<open>
  The serial port \<open>uart\<close> (uart.v): the transmitter and receiver state machines, the response
  register of the bus side, and the proof that a message sent by one port is the message another
  port receives.
\<close>

section \<open>State\<close>

datatype uart_tx_fsm = TX_IDLE | TX_START | TX_DATA | TX_STOP
datatype uart_rx_fsm = RX_IDLE | RX_START | RX_DATA | RX_STOP

record uart_tx =
  tx_state :: uart_tx_fsm
  data_to_send :: i8
  tx_counter :: "3 word"
  tx_baud_counter :: "10 word"

record uart_rx =
  rx_state :: uart_rx_fsm
  rx_counter :: "3 word"
  rx_baud_counter :: "10 word"
  rx_byte :: i8
  rx_line_prev :: bool
  rx_byte_valid :: bool

record uart_state =
  config_loopback :: bool
  uart_resp_data :: i32
  uart_resp_valid :: bool
  uart_tx_regs :: uart_tx
  uart_rx_regs :: uart_rx

text \<open>The bus side of one clock: \<open>req_valid\<close>, \<open>req_addr\<close>, \<open>req_write\<close>, \<open>req_data\<close>.\<close>

record uart_req =
  uq_valid :: bool
  uq_addr :: i8
  uq_write :: bool
  uq_data :: i32

definition CLOCK_DIV :: nat where "CLOCK_DIV = 434"

text \<open>\<open>tx_state\<close> and \<open>rx_state\<close> as the two-bit codes the status register shows.\<close>

fun tx_code :: "uart_tx_fsm \<Rightarrow> 2 word" where
  "tx_code TX_IDLE = 0" | "tx_code TX_START = 1" | "tx_code TX_DATA = 2" | "tx_code TX_STOP = 3"
fun rx_code :: "uart_rx_fsm \<Rightarrow> 2 word" where
  "rx_code RX_IDLE = 0" | "rx_code RX_START = 1" | "rx_code RX_DATA = 2" | "rx_code RX_STOP = 3"

section \<open>Bus side\<close>

definition uart_req_ready :: "uart_state \<Rightarrow> bool" where
  "uart_req_ready u \<longleftrightarrow> tx_state (uart_tx_regs u) = TX_IDLE"

text \<open>
  Only bits 1:0 and 9:8 of \<open>status\<close> have a driver; the others are read as 0, the value they have
  in a two-state simulation.
\<close>

definition uart_status :: "uart_state \<Rightarrow> i32" where
  "uart_status u = ucast (tx_code (tx_state (uart_tx_regs u)))
     OR push_bit 8 (ucast (rx_code (rx_state (uart_rx_regs u))))"

text \<open>The next \<open>resp_data\<close> and \<open>resp_valid\<close>.\<close>

definition uart_resp_step :: "bool \<Rightarrow> uart_req \<Rightarrow> bool \<Rightarrow> uart_state \<Rightarrow> i32 \<times> bool" where
  "uart_resp_step resetn q resp_ready u =
    (if \<not> resetn then (0xdeadbeef, False)
     else if uq_valid q \<and> resp_ready then
       (if uq_addr q = 0x04 then
          (word_cat (of_bool (rx_byte_valid (uart_rx_regs u)) :: 24 word) (rx_byte (uart_rx_regs u)), True)
        else if uq_addr q = 0x08 then (uart_status u, True)
        else (0xdeadbeef, False))
     else (0xdeadbeef, False))"

section \<open>Transmitter\<close>

definition tx_accepts :: "bool \<Rightarrow> uart_req \<Rightarrow> bool" where
  "tx_accepts loopback q \<longleftrightarrow> \<not> loopback \<and> uq_valid q \<and> uq_write q \<and> uq_addr q = 0x00"

definition tx_load :: "i8 \<Rightarrow> uart_tx \<Rightarrow> uart_tx" where
  "tx_load b t = t\<lparr>data_to_send := b, tx_state := TX_START, tx_baud_counter := 0, tx_counter := 0\<rparr>"

definition tx_bit_end :: "uart_tx \<Rightarrow> bool" where
  "tx_bit_end t \<longleftrightarrow> tx_baud_counter t = of_nat (CLOCK_DIV - 1)"

definition uart_tx_step :: "bool \<Rightarrow> bool \<Rightarrow> i8 option \<Rightarrow> uart_req \<Rightarrow> uart_tx \<Rightarrow> uart_tx" where
  "uart_tx_step resetn loopback rxb q t =
    (if \<not> resetn then t\<lparr>tx_state := TX_IDLE, data_to_send := 0\<rparr>
     else case tx_state t of
       TX_IDLE \<Rightarrow>
         (case (if loopback then rxb else None) of
            Some b \<Rightarrow> tx_load b t
          | None \<Rightarrow> if tx_accepts loopback q then tx_load (ucast (uq_data q)) t else t)
     | TX_START \<Rightarrow>
         (if tx_bit_end t then t\<lparr>tx_state := TX_DATA, tx_baud_counter := 0\<rparr>
          else t\<lparr>tx_baud_counter := tx_baud_counter t + 1\<rparr>)
     | TX_DATA \<Rightarrow>
         (if tx_bit_end t then
            (if tx_counter t = 7 then t\<lparr>tx_state := TX_STOP, tx_baud_counter := 0, tx_counter := 0\<rparr>
             else t\<lparr>tx_counter := tx_counter t + 1, tx_baud_counter := 0\<rparr>)
          else t\<lparr>tx_baud_counter := tx_baud_counter t + 1\<rparr>)
     | TX_STOP \<Rightarrow>
         (if tx_bit_end t then t\<lparr>tx_state := TX_IDLE, tx_baud_counter := 0\<rparr>
          else t\<lparr>tx_baud_counter := tx_baud_counter t + 1\<rparr>))"

text \<open>The output pin.\<close>

definition tx_pin :: "uart_tx \<Rightarrow> bool" where
  "tx_pin t = (case tx_state t of
     TX_IDLE \<Rightarrow> True | TX_START \<Rightarrow> False | TX_STOP \<Rightarrow> True
   | TX_DATA \<Rightarrow> bit (data_to_send t) (unat (tx_counter t)))"

section \<open>Receiver\<close>

definition uart_rx_step :: "bool \<Rightarrow> bool \<Rightarrow> uart_rx \<Rightarrow> uart_rx" where
  "uart_rx_step resetn rx r =
    (if \<not> resetn then
       r\<lparr>rx_state := RX_IDLE, rx_baud_counter := 0, rx_counter := 0, rx_byte := 0, rx_line_prev := True,
         rx_byte_valid := False\<rparr>
     else let r' = r\<lparr>rx_line_prev := rx, rx_byte_valid := False\<rparr> in
       case rx_state r of
         RX_IDLE \<Rightarrow>
           (if rx_line_prev r \<and> \<not> rx then r'\<lparr>rx_state := RX_START, rx_baud_counter := 0, rx_byte := 0\<rparr> else r')
       | RX_START \<Rightarrow>
           (if rx_baud_counter r = of_nat (CLOCK_DIV div 2) then
              (if \<not> rx then r'\<lparr>rx_state := RX_DATA, rx_counter := 0, rx_baud_counter := 0\<rparr>
               else r'\<lparr>rx_state := RX_IDLE, rx_baud_counter := 0\<rparr>)
            else r'\<lparr>rx_baud_counter := rx_baud_counter r + 1\<rparr>)
       | RX_DATA \<Rightarrow>
           (if rx_baud_counter r = of_nat (CLOCK_DIV - 1) then
              (let r'' = r'\<lparr>rx_byte := (if rx then set_bit (unat (rx_counter r)) (rx_byte r)
                                        else unset_bit (unat (rx_counter r)) (rx_byte r)),
                            rx_baud_counter := 0\<rparr>
               in if rx_counter r = 7 then r''\<lparr>rx_state := RX_STOP\<rparr>
                  else r''\<lparr>rx_counter := rx_counter r + 1\<rparr>)
            else r'\<lparr>rx_baud_counter := rx_baud_counter r + 1\<rparr>)
       | RX_STOP \<Rightarrow>
           (if rx_baud_counter r = of_nat (CLOCK_DIV - 1) then
              r'\<lparr>rx_byte_valid := rx, rx_state := RX_IDLE, rx_baud_counter := 0\<rparr>
            else r'\<lparr>rx_baud_counter := rx_baud_counter r + 1\<rparr>))"

section \<open>One clock edge\<close>

definition uart_clock :: "bool \<Rightarrow> bool \<Rightarrow> uart_req \<Rightarrow> bool \<Rightarrow> uart_state \<Rightarrow> uart_state" where
  "uart_clock resetn rx q resp_ready u =
    (case uart_resp_step resetn q resp_ready u of (d, v) \<Rightarrow>
      u\<lparr>uart_resp_data := d, uart_resp_valid := v,
        uart_tx_regs := uart_tx_step resetn (config_loopback u)
          (if rx_byte_valid (uart_rx_regs u) then Some (rx_byte (uart_rx_regs u)) else None) q (uart_tx_regs u),
        uart_rx_regs := uart_rx_step resetn rx (uart_rx_regs u)\<rparr>)"

section \<open>The line protocol\<close>

text \<open>
  A frame as the level of the line at each clock: a low start bit, eight data bits with the least
  significant first, a high stop bit, each of \<open>CLOCK_DIV\<close> clocks.
\<close>

definition uart_frame :: "i8 \<Rightarrow> bool list" where
  "uart_frame b = concat (map (replicate CLOCK_DIV) (False # map (bit b) [0..<8] @ [True]))"

text \<open>The levels a port puts on its output pin over a list of clocks, and the state after them.\<close>

fun uart_line :: "(bool \<times> uart_req \<times> bool) list \<Rightarrow> uart_state \<Rightarrow> bool list \<times> uart_state" where
  "uart_line [] u = ([], u)"
| "uart_line ((rx, q, rdy) # ins) u =
     (case uart_line ins (uart_clock True rx q rdy u) of (l, u') \<Rightarrow> (tx_pin (uart_tx_regs u) # l, u'))"

text \<open>The bytes a port reports (\<open>rx_byte_valid\<close>) over a list of clocks with the given line levels.\<close>

fun uart_received :: "bool list \<Rightarrow> (uart_req \<times> bool) list \<Rightarrow> uart_state \<Rightarrow> i8 list" where
  "uart_received (rx # line) ((q, rdy) # ins) u =
     (let u' = uart_clock True rx q rdy u in
      (if rx_byte_valid (uart_rx_regs u') then [rx_byte (uart_rx_regs u')] else []) @ uart_received line ins u')"
| "uart_received _ _ u = []"

text \<open>The bytes the bus hands to a port: the writes to the TX register at a clock with \<open>req_ready\<close>.\<close>

fun uart_accepted :: "(bool \<times> uart_req \<times> bool) list \<Rightarrow> uart_state \<Rightarrow> i8 list" where
  "uart_accepted [] u = []"
| "uart_accepted ((rx, q, rdy) # ins) u =
     (if uart_req_ready u \<and> uq_valid q \<and> uq_write q \<and> uq_addr q = 0x00 then [ucast (uq_data q)] else [])
       @ uart_accepted ins (uart_clock True rx q rdy u)"

section \<open>The transmitter alone\<close>

fun tx_run :: "uart_req list \<Rightarrow> uart_tx \<Rightarrow> bool list \<times> uart_tx" where
  "tx_run [] t = ([], t)"
| "tx_run (q # qs) t = (case tx_run qs (uart_tx_step True False None q t) of (l, t') \<Rightarrow> (tx_pin t # l, t'))"

fun tx_accepted :: "uart_req list \<Rightarrow> uart_tx \<Rightarrow> i8 list" where
  "tx_accepted [] t = []"
| "tx_accepted (q # qs) t =
     (if tx_state t = TX_IDLE \<and> tx_accepts False q then [ucast (uq_data q)] else [])
       @ tx_accepted qs (uart_tx_step True False None q t)"

lemma uart_clock_tx:
  "\<not> config_loopback u \<Longrightarrow> uart_tx_regs (uart_clock True rx q rdy u) = uart_tx_step True False None q (uart_tx_regs u)
     \<and> \<not> config_loopback (uart_clock True rx q rdy u)"
  by (simp add: uart_clock_def uart_tx_step_def split: prod.split uart_tx_fsm.split)

lemma uart_line_tx_run:
  "\<not> config_loopback u \<Longrightarrow>
    fst (uart_line ins u) = fst (tx_run (map (fst \<circ> snd) ins) (uart_tx_regs u))
  \<and> uart_tx_regs (snd (uart_line ins u)) = snd (tx_run (map (fst \<circ> snd) ins) (uart_tx_regs u))"
  by (induction ins u rule: uart_line.induct) (simp_all add: uart_clock_tx split_beta)

lemma uart_accepted_tx:
  "\<not> config_loopback u \<Longrightarrow> uart_accepted ins u = tx_accepted (map (fst \<circ> snd) ins) (uart_tx_regs u)"
  by (induction ins u rule: uart_accepted.induct) (simp_all add: uart_clock_tx uart_req_ready_def tx_accepts_def)

lemma tx_run_append:
  "tx_run (ps @ qs) t = (fst (tx_run ps t) @ fst (tx_run qs (snd (tx_run ps t))), snd (tx_run qs (snd (tx_run ps t))))"
  by (induction ps t rule: tx_run.induct) (simp_all add: split_beta)

text \<open>What the transmitter does at the end of a bit.\<close>

definition tx_next :: "uart_tx \<Rightarrow> uart_tx" where
  "tx_next t = (case tx_state t of
     TX_IDLE \<Rightarrow> t
   | TX_START \<Rightarrow> t\<lparr>tx_state := TX_DATA, tx_baud_counter := 0\<rparr>
   | TX_DATA \<Rightarrow> (if tx_counter t = 7 then t\<lparr>tx_state := TX_STOP, tx_baud_counter := 0, tx_counter := 0\<rparr>
                 else t\<lparr>tx_counter := tx_counter t + 1, tx_baud_counter := 0\<rparr>)
   | TX_STOP \<Rightarrow> t\<lparr>tx_state := TX_IDLE, tx_baud_counter := 0\<rparr>)"

lemma tx_busy_step:
  "tx_state t \<noteq> TX_IDLE \<Longrightarrow> uart_tx_step True False None q t =
    (if tx_baud_counter t = 433 then tx_next t else t\<lparr>tx_baud_counter := tx_baud_counter t + 1\<rparr>)"
  by (cases "tx_state t") (simp_all add: uart_tx_step_def tx_next_def tx_bit_end_def CLOCK_DIV_def)

lemma baud_suc: "(c :: 10 word) \<noteq> 433 \<Longrightarrow> unat c < 433 \<Longrightarrow> unat (c + 1) = Suc (unat c)"
  by (simp add: unat_word_ariths)

lemma tx_count:
  "tx_state t \<noteq> TX_IDLE \<Longrightarrow> unat (tx_baud_counter t) + length qs \<le> 433 \<Longrightarrow>
    tx_run qs t = (replicate (length qs) (tx_pin t), t\<lparr>tx_baud_counter := tx_baud_counter t + of_nat (length qs)\<rparr>)"
proof (induction qs arbitrary: t)
  case Nil
  then show ?case by simp
next
  case (Cons q qs)
  let ?t = "t\<lparr>tx_baud_counter := tx_baud_counter t + 1\<rparr>"
  have lt: "unat (tx_baud_counter t) < 433" using Cons.prems by simp
  then have ne: "tx_baud_counter t \<noteq> 433" by auto
  have "unat (tx_baud_counter ?t) + length qs \<le> 433"
    using Cons.prems(2) baud_suc [OF ne lt] by simp
  moreover have "tx_state ?t \<noteq> TX_IDLE" using Cons.prems by simp
  ultimately have "tx_run qs ?t = (replicate (length qs) (tx_pin ?t),
      ?t\<lparr>tx_baud_counter := tx_baud_counter ?t + of_nat (length qs)\<rparr>)" by (rule Cons.IH [rotated])
  moreover have "tx_pin ?t = tx_pin t" by (simp add: tx_pin_def split: uart_tx_fsm.split)
  ultimately show ?case
    using ne by (simp add: tx_busy_step Cons.prems(1) ac_simps)
qed

lemma tx_bit:
  assumes "tx_state t \<noteq> TX_IDLE" "tx_baud_counter t = 0" "length qs = 434"
  shows "tx_run qs t = (replicate 434 (tx_pin t), tx_next t)"
proof -
  obtain ps q where qs: "qs = ps @ [q]" "length ps = 433"
    using assms(3) by (cases qs rule: rev_cases) auto
  let ?t = "t\<lparr>tx_baud_counter := 433\<rparr>"
  have ps: "tx_run ps t = (replicate 433 (tx_pin t), ?t)"
    using tx_count [of t ps] assms qs(2) by simp
  have "tx_pin ?t = tx_pin t" by (simp add: tx_pin_def split: uart_tx_fsm.split)
  moreover have "tx_next ?t = tx_next t" using assms(1) by (simp add: tx_next_def split: uart_tx_fsm.split)
  moreover have "replicate 433 x @ [x] = replicate 434 x" for x :: bool
    by (simp add: replicate_append_same flip: replicate_Suc)
  ultimately show ?thesis
    using assms(1) by (simp add: qs tx_run_append ps tx_busy_step)
qed

lemma tx_bits:
  assumes "length qs = 434 * k"
    "\<forall>i < k. tx_state ((tx_next ^^ i) t) \<noteq> TX_IDLE \<and> tx_baud_counter ((tx_next ^^ i) t) = 0"
  shows "tx_run qs t = (concat (map (\<lambda>i. replicate 434 (tx_pin ((tx_next ^^ i) t))) [0..<k]), (tx_next ^^ k) t)"
  using assms
proof (induction k arbitrary: qs)
  case 0
  then show ?case by simp
next
  case (Suc k)
  have split: "qs = take (434 * k) qs @ drop (434 * k) qs" by simp
  have "tx_run (take (434 * k) qs) t
      = (concat (map (\<lambda>i. replicate 434 (tx_pin ((tx_next ^^ i) t))) [0..<k]), (tx_next ^^ k) t)"
    using Suc.prems by (intro Suc.IH) simp_all
  moreover have "tx_run (drop (434 * k) qs) ((tx_next ^^ k) t)
      = (replicate 434 (tx_pin ((tx_next ^^ k) t)), tx_next ((tx_next ^^ k) t))"
    using Suc.prems by (intro tx_bit) simp_all
  ultimately show ?case
    by (subst split, subst tx_run_append) simp
qed

definition tx_in :: "uart_tx_fsm \<Rightarrow> i8 \<Rightarrow> 3 word \<Rightarrow> uart_tx \<Rightarrow> uart_tx" where
  "tx_in st b c t = t\<lparr>tx_state := st, data_to_send := b, tx_counter := c, tx_baud_counter := 0\<rparr>"

lemma tx_in_simps [simp]:
  "tx_load b t = tx_in TX_START b 0 t"
  "tx_next (tx_in TX_START b c t) = tx_in TX_DATA b c t"
  "tx_next (tx_in TX_DATA b c t) = (if c = 7 then tx_in TX_STOP b 0 t else tx_in TX_DATA b (c + 1) t)"
  "tx_next (tx_in TX_STOP b c t) = tx_in TX_IDLE b c t"
  "tx_state (tx_in st b c t) = st" "tx_baud_counter (tx_in st b c t) = 0"
  "tx_pin (tx_in st b c t) = (case st of TX_START \<Rightarrow> False | TX_DATA \<Rightarrow> bit b (unat c) | _ \<Rightarrow> True)"
  by (simp_all add: tx_in_def tx_load_def tx_next_def tx_pin_def split: uart_tx_fsm.split)

lemma tx_next_funpow_numeral: "(tx_next ^^ numeral k) t = tx_next ((tx_next ^^ pred_numeral k) t)"
  by (simp add: numeral_eq_Suc)

lemma tx_next_funpow:
  "(tx_next ^^ 0) (tx_in TX_START b 0 t) = tx_in TX_START b 0 t"
  "(tx_next ^^ Suc 0) (tx_in TX_START b 0 t) = tx_in TX_DATA b 0 t"
  "(tx_next ^^ 2) (tx_in TX_START b 0 t) = tx_in TX_DATA b 1 t"
  "(tx_next ^^ 3) (tx_in TX_START b 0 t) = tx_in TX_DATA b 2 t"
  "(tx_next ^^ 4) (tx_in TX_START b 0 t) = tx_in TX_DATA b 3 t"
  "(tx_next ^^ 5) (tx_in TX_START b 0 t) = tx_in TX_DATA b 4 t"
  "(tx_next ^^ 6) (tx_in TX_START b 0 t) = tx_in TX_DATA b 5 t"
  "(tx_next ^^ 7) (tx_in TX_START b 0 t) = tx_in TX_DATA b 6 t"
  "(tx_next ^^ 8) (tx_in TX_START b 0 t) = tx_in TX_DATA b 7 t"
  "(tx_next ^^ 9) (tx_in TX_START b 0 t) = tx_in TX_STOP b 0 t"
  "(tx_next ^^ 10) (tx_in TX_START b 0 t) = tx_in TX_IDLE b 0 t"
  by (simp_all add: tx_next_funpow_numeral)

lemma upt_eight: "[0..<8] = [0, Suc 0, 2, 3, 4, 5, 6, 7]"
  by (simp add: upt_rec)

lemma less_ten: "(i :: nat) < 10 \<Longrightarrow> i \<in> {0, Suc 0, 2, 3, 4, 5, 6, 7, 8, 9}"
  by auto

lemma tx_frame_busy:
  "i < 10 \<Longrightarrow> tx_state ((tx_next ^^ i) (tx_load b t)) \<noteq> TX_IDLE \<and> tx_baud_counter ((tx_next ^^ i) (tx_load b t)) = 0"
  by (drule less_ten, elim insertE emptyE) (simp_all only: tx_next_funpow tx_in_simps, simp_all)

text \<open>Ten bit times after it took a byte, the transmitter has sent its frame, whatever the bus did.\<close>

lemma tx_run_frame:
  assumes "length qs = 10 * CLOCK_DIV"
  shows "tx_run qs (tx_load b t) = (uart_frame b, tx_in TX_IDLE b 0 t)"
proof -
  let ?t = "tx_in TX_START b 0 t"
  have "\<forall>i < 10. tx_state ((tx_next ^^ i) ?t) \<noteq> TX_IDLE \<and> tx_baud_counter ((tx_next ^^ i) ?t) = 0"
    using tx_frame_busy [of _ b t] by simp
  from tx_bits [OF _ this, of qs] assms
  have "tx_run qs ?t = (concat (map (\<lambda>i. replicate 434 (tx_pin ((tx_next ^^ i) ?t))) [0..<10]), (tx_next ^^ 10) ?t)"
    by (simp add: CLOCK_DIV_def)
  also have "[0..<10] = [0, Suc 0, 2, 3, 4, 5, 6, 7, 8, 9]" by (simp add: upt_rec)
  also have "concat (map (\<lambda>i. replicate 434 (tx_pin ((tx_next ^^ i) ?t))) [0, Suc 0, 2, 3, 4, 5, 6, 7, 8, 9]) = uart_frame b"
    by (simp only: list.map tx_next_funpow tx_in_simps)
      (simp add: uart_frame_def CLOCK_DIV_def upt_eight)
  finally show ?thesis by (simp only: tx_next_funpow tx_in_simps)
qed

lemma tx_accepted_append:
  "tx_accepted (ps @ qs) t = tx_accepted ps t @ tx_accepted qs (snd (tx_run ps t))"
  by (induction ps t rule: tx_run.induct) (simp_all add: split_beta)

text \<open>While the output pin carries a frame no byte is taken.\<close>

lemma tx_busy_not_accepted:
  "tx_state t \<noteq> TX_IDLE \<Longrightarrow> unat (tx_baud_counter t) + length qs \<le> 434 \<Longrightarrow> tx_accepted qs t = []"
proof (induction qs arbitrary: t)
  case Nil
  then show ?case by simp
next
  case (Cons q qs)
  show ?case
  proof (cases "tx_baud_counter t = 433")
    case True
    with Cons.prems(2) have "qs = []" by simp
    with Cons.prems(1) show ?thesis by simp
  next
    case False
    then have "unat (tx_baud_counter t) \<noteq> 433" by (simp add: word_unat_eq_iff)
    with Cons.prems(2) have lt: "unat (tx_baud_counter t) < 433" by simp
    have "tx_accepted qs (t\<lparr>tx_baud_counter := tx_baud_counter t + 1\<rparr>) = []"
      using Cons.prems baud_suc [OF False lt] by (intro Cons.IH) simp_all
    with False Cons.prems(1) show ?thesis by (simp add: tx_busy_step)
  qed
qed

lemma tx_bits_not_accepted:
  assumes "length qs = 434 * k"
    "\<forall>i < k. tx_state ((tx_next ^^ i) t) \<noteq> TX_IDLE \<and> tx_baud_counter ((tx_next ^^ i) t) = 0"
  shows "tx_accepted qs t = []"
  using assms
proof (induction k arbitrary: qs)
  case 0
  then show ?case by simp
next
  case (Suc k)
  have split: "qs = take (434 * k) qs @ drop (434 * k) qs" by simp
  have "tx_accepted (take (434 * k) qs) t = []"
    using Suc.prems by (intro Suc.IH) simp_all
  moreover have "snd (tx_run (take (434 * k) qs) t) = (tx_next ^^ k) t"
    using Suc.prems by (subst tx_bits [where k = k]) simp_all
  moreover have "tx_accepted (drop (434 * k) qs) ((tx_next ^^ k) t) = []"
    using Suc.prems by (intro tx_busy_not_accepted) simp_all
  ultimately show ?case
    by (subst split, subst tx_accepted_append) simp
qed

lemma tx_frame_not_accepted: "length qs \<le> 10 * CLOCK_DIV \<Longrightarrow> tx_accepted qs (tx_load b t) = []"
proof -
  assume len: "length qs \<le> 10 * CLOCK_DIV"
  let ?qs = "qs @ replicate (10 * CLOCK_DIV - length qs) undefined"
  have "tx_accepted ?qs (tx_load b t) = []"
    using len tx_frame_busy [of _ b t] by (intro tx_bits_not_accepted [where k = 10]) (auto simp: CLOCK_DIV_def)
  then show ?thesis by (simp add: tx_accepted_append)
qed

text \<open>A frame cut short leaves the transmitter busy.\<close>

lemma tx_short_busy:
  assumes "length qs < 10 * CLOCK_DIV"
  shows "tx_state (snd (tx_run qs (tx_load b t))) \<noteq> TX_IDLE"
proof -
  let ?k = "length qs div 434"
  have k: "?k < 10" using assms by (simp add: CLOCK_DIV_def)
  have split: "qs = take (434 * ?k) qs @ drop (434 * ?k) qs" by simp
  have "\<forall>i < ?k. tx_state ((tx_next ^^ i) (tx_load b t)) \<noteq> TX_IDLE \<and> tx_baud_counter ((tx_next ^^ i) (tx_load b t)) = 0"
    using k tx_frame_busy [of _ b t] by auto
  then have "snd (tx_run (take (434 * ?k) qs) (tx_load b t)) = (tx_next ^^ ?k) (tx_load b t)"
    by (subst tx_bits [where k = ?k]) simp_all
  moreover have "length (drop (434 * ?k) qs) \<le> 433"
  proof -
    have "length qs = 434 * ?k + length qs mod 434" by simp
    moreover have "length qs mod 434 < 434" by simp
    ultimately show ?thesis by (simp only: length_drop)
  qed
  ultimately show ?thesis
    using tx_frame_busy [OF k, of b t] tx_count [of "(tx_next ^^ ?k) (tx_load b t)" "drop (434 * ?k) qs"]
    by (subst split, subst tx_run_append) (simp del: tx_in_simps(1))
qed

section \<open>The receiver alone\<close>

fun rx_run :: "bool list \<Rightarrow> uart_rx \<Rightarrow> i8 list \<times> uart_rx" where
  "rx_run [] r = ([], r)"
| "rx_run (x # xs) r =
     (let r' = uart_rx_step True x r in
      case rx_run xs r' of (bs, r'') \<Rightarrow> ((if rx_byte_valid r' then [rx_byte r'] else []) @ bs, r''))"

lemma uart_received_rx_run:
  "length ins = length line \<Longrightarrow> uart_received line ins u = fst (rx_run line (uart_rx_regs u))"
proof (induction line ins u rule: uart_received.induct)
  case (1 rx line q rdy ins u)
  have "uart_rx_regs (uart_clock True rx q rdy u) = uart_rx_step True rx (uart_rx_regs u)"
    by (simp add: uart_clock_def split: prod.split)
  with 1 show ?case by (simp add: Let_def split_beta)
qed auto

lemma rx_run_append:
  "rx_run (xs @ ys) r = (fst (rx_run xs r) @ fst (rx_run ys (snd (rx_run xs r))), snd (rx_run ys (snd (rx_run xs r))))"
  by (induction xs r rule: rx_run.induct) (simp_all add: split_beta Let_def)

text \<open>The counter value at which a state samples the line.\<close>

definition rx_limit :: "uart_rx_fsm \<Rightarrow> nat" where
  "rx_limit st = (if st = RX_START then CLOCK_DIV div 2 else CLOCK_DIV - 1)"

lemma rx_wait_step:
  "rx_state r \<noteq> RX_IDLE \<Longrightarrow> unat (rx_baud_counter r) < rx_limit (rx_state r) \<Longrightarrow>
    uart_rx_step True x r = r\<lparr>rx_line_prev := x, rx_byte_valid := False, rx_baud_counter := rx_baud_counter r + 1\<rparr>"
  by (cases "rx_state r") (auto simp: uart_rx_step_def rx_limit_def CLOCK_DIV_def Let_def)

lemma rx_wait:
  "rx_state r \<noteq> RX_IDLE \<Longrightarrow> unat (rx_baud_counter r) + length xs \<le> rx_limit (rx_state r) \<Longrightarrow> \<not> rx_byte_valid r \<Longrightarrow>
    rx_run xs r = ([], r\<lparr>rx_line_prev := last (rx_line_prev r # xs),
                      rx_baud_counter := rx_baud_counter r + of_nat (length xs)\<rparr>)"
proof (induction xs arbitrary: r)
  case Nil
  then show ?case by simp
next
  case (Cons x xs)
  let ?r = "r\<lparr>rx_line_prev := x, rx_byte_valid := False, rx_baud_counter := rx_baud_counter r + 1\<rparr>"
  have lt: "unat (rx_baud_counter r) < rx_limit (rx_state r)" using Cons.prems by simp
  then have "unat (rx_baud_counter r) < 433"
    by (cases "rx_state r") (simp_all add: rx_limit_def CLOCK_DIV_def)
  then have "unat (rx_baud_counter r + 1) = Suc (unat (rx_baud_counter r))" by (intro baud_suc) auto
  then have "rx_run xs ?r = ([], ?r\<lparr>rx_line_prev := last (rx_line_prev ?r # xs),
      rx_baud_counter := rx_baud_counter ?r + of_nat (length xs)\<rparr>)"
    using Cons.prems by (intro Cons.IH) simp_all
  then show ?case
    using Cons.prems(1,3) by (simp add: rx_wait_step lt Let_def ac_simps)
qed

text \<open>Waiting until the sampling point and the sample itself.\<close>

lemma rx_sample:
  assumes "rx_state r \<noteq> RX_IDLE" "rx_baud_counter r = 0" "\<not> rx_byte_valid r" "length xs = rx_limit (rx_state r)"
  shows "rx_run (xs @ [x]) r =
    (let r' = uart_rx_step True x (r\<lparr>rx_baud_counter := of_nat (rx_limit (rx_state r))\<rparr>)
     in (if rx_byte_valid r' then [rx_byte r'] else [], r'))"
proof -
  have prev: "uart_rx_step True x (r\<lparr>rx_line_prev := l, rx_baud_counter := c\<rparr>)
      = uart_rx_step True x (r\<lparr>rx_baud_counter := c\<rparr>)" for l c
    using assms(1) by (cases "rx_state r") (auto simp: uart_rx_step_def Let_def)
  show ?thesis
    using assms by (simp add: rx_run_append rx_wait Let_def prev)
qed

definition rx_in :: "uart_rx_fsm \<Rightarrow> 3 word \<Rightarrow> i8 \<Rightarrow> bool \<Rightarrow> uart_rx \<Rightarrow> uart_rx" where
  "rx_in st c b x r = r\<lparr>rx_state := st, rx_counter := c, rx_baud_counter := 0, rx_byte := b, rx_line_prev := x,
     rx_byte_valid := False\<rparr>"

lemma set_next_bit:
  "(if bit b k then set_bit k (take_bit k b) else unset_bit k (take_bit k b)) = take_bit (Suc k) (b :: i8)"
  by (rule bit_word_eqI) (auto simp: bit_simps less_Suc_eq)

lemma rx_data_bit:
  assumes "length xs = 433" "k < 8" "c = of_nat k"
  shows "rx_run (xs @ [bit b k]) (rx_in RX_DATA c (take_bit k b) x r) =
    ([], if k = 7 then rx_in RX_STOP 7 b (bit b k) r
         else rx_in RX_DATA (c + 1) (take_bit (Suc k) b) (bit b k) r)"
proof -
  have c: "unat c = k" using assms(2,3) by (simp add: unat_of_nat)
  then have "c = 7 \<longleftrightarrow> k = 7" by (auto simp: word_unat_eq_iff)
  moreover have "take_bit 8 b = b" using take_bit_length_eq [of b] by simp
  ultimately show ?thesis
    using assms(1) set_next_bit [of b k] c
    by (subst rx_sample) (auto simp: rx_in_def rx_limit_def CLOCK_DIV_def uart_rx_step_def Let_def)
qed

text \<open>The data bits as the receiver cuts them: the end of one bit and the start of the next.\<close>

definition rx_chunk :: "i8 \<Rightarrow> nat \<Rightarrow> bool list" where
  "rx_chunk b k = replicate 215 (k \<noteq> 0 \<and> bit b (k - 1)) @ replicate 219 (bit b k)"

lemma rx_chunk_eq: "rx_chunk b k = (replicate 215 (k \<noteq> 0 \<and> bit b (k - 1)) @ replicate 218 (bit b k)) @ [bit b k]"
  by (simp add: rx_chunk_def replicate_append_same flip: replicate_Suc)

lemma rx_chunks:
  "k < 8 \<Longrightarrow> rx_run (concat (map (rx_chunk b) [0..<k])) (rx_in RX_DATA 0 0 False r) =
    ([], rx_in RX_DATA (of_nat k) (take_bit k b) (k \<noteq> 0 \<and> bit b (k - 1)) r)"
proof (induction k)
  case 0
  then show ?case by (simp add: rx_in_def)
next
  case (Suc k)
  then have "rx_run (rx_chunk b k) (rx_in RX_DATA (of_nat k) (take_bit k b) (k \<noteq> 0 \<and> bit b (k - 1)) r) =
      ([], rx_in RX_DATA (of_nat k + 1) (take_bit (Suc k) b) (bit b k) r)"
    unfolding rx_chunk_eq by (subst rx_data_bit) simp_all
  with Suc show ?case by (simp add: rx_run_append add.commute)
qed

lemma uart_frame_chunks:
  "uart_frame b = [False] @ (replicate 217 False @ [False]) @ concat (map (rx_chunk b) [0..<7]) @ rx_chunk b 7
     @ ((replicate 215 (bit b 7) @ replicate 218 True) @ [True]) @ replicate 215 True"
proof -
  have bit: "replicate 434 x = replicate 219 x @ replicate 215 x" for x :: bool
    by (simp flip: replicate_add)
  have start: "replicate 219 x = [x] @ (replicate 217 x @ [x])" for x :: bool
    by (simp add: replicate_append_same flip: replicate_Suc)
  have stop: "replicate 219 x = replicate 218 x @ [x]" for x :: bool
    by (simp add: replicate_append_same flip: replicate_Suc)
  have upt: "[0..<7] = [0, Suc 0, 2, 3, 4, 5, 6]" by (simp add: upt_rec)
  have frame: "uart_frame b = (replicate 219 False @ replicate 215 False)
      @ concat (map (\<lambda>i. replicate 219 (bit b i) @ replicate 215 (bit b i)) [0, Suc 0, 2, 3, 4, 5, 6, 7])
      @ (replicate 219 True @ replicate 215 True)"
    by (simp add: uart_frame_def CLOCK_DIV_def upt_eight bit)
  have chunks: "rx_chunk b 0 = replicate 215 False @ replicate 219 (bit b 0)"
    "rx_chunk b (Suc 0) = replicate 215 (bit b 0) @ replicate 219 (bit b (Suc 0))"
    "rx_chunk b 2 = replicate 215 (bit b (Suc 0)) @ replicate 219 (bit b 2)"
    "rx_chunk b 3 = replicate 215 (bit b 2) @ replicate 219 (bit b 3)"
    "rx_chunk b 4 = replicate 215 (bit b 3) @ replicate 219 (bit b 4)"
    "rx_chunk b 5 = replicate 215 (bit b 4) @ replicate 219 (bit b 5)"
    "rx_chunk b 6 = replicate 215 (bit b 5) @ replicate 219 (bit b 6)"
    "rx_chunk b 7 = replicate 215 (bit b 6) @ replicate 219 (bit b 7)"
    by (simp_all add: rx_chunk_def)
  show ?thesis
    by (simp only: frame upt list.map concat.simps chunks append_assoc append_Nil2 start [of False] stop [of True]
        append_Nil)
qed

lemma rx_idle_step:
  "rx_state r = RX_IDLE \<Longrightarrow> rx_line_prev r \<Longrightarrow> uart_rx_step True True r = r\<lparr>rx_byte_valid := False\<rparr>"
  by (cases r) (simp add: uart_rx_step_def Let_def)

lemma rx_run_idle:
  "rx_state r = RX_IDLE \<Longrightarrow> rx_line_prev r \<Longrightarrow>
    rx_run (replicate n True) r = ([], if n = 0 then r else r\<lparr>rx_byte_valid := False\<rparr>)"
  by (induction n arbitrary: r) (simp_all add: rx_idle_step Let_def)

lemma rx_run_frame:
  assumes "rx_state r = RX_IDLE" "rx_line_prev r" "\<not> rx_byte_valid r"
  shows "rx_run (uart_frame b) r = ([b], rx_in RX_IDLE 7 b True r)"
proof -
  have s1: "rx_run [False] r = ([], rx_in RX_START (rx_counter r) 0 False r)"
    using assms by (simp add: uart_rx_step_def Let_def rx_in_def)
  have s2: "rx_run (replicate 217 False @ [False]) (rx_in RX_START (rx_counter r) 0 False r)
      = ([], rx_in RX_DATA 0 0 False r)"
    by (subst rx_sample) (simp_all add: rx_in_def rx_limit_def CLOCK_DIV_def uart_rx_step_def Let_def)
  have s3: "rx_run (concat (map (rx_chunk b) [0..<7])) (rx_in RX_DATA 0 0 False r)
      = ([], rx_in RX_DATA 7 (take_bit 7 b) (bit b 6) r)"
    by (subst rx_chunks) simp_all
  have s4: "rx_run (rx_chunk b 7) (rx_in RX_DATA 7 (take_bit 7 b) (bit b 6) r) = ([], rx_in RX_STOP 7 b (bit b 7) r)"
    unfolding rx_chunk_eq by (subst rx_data_bit) simp_all
  have s5: "rx_run ((replicate 215 (bit b 7) @ replicate 218 True) @ [True]) (rx_in RX_STOP 7 b (bit b 7) r)
      = ([b], (rx_in RX_IDLE 7 b True r)\<lparr>rx_byte_valid := True\<rparr>)"
    by (subst rx_sample) (simp_all add: rx_in_def rx_limit_def CLOCK_DIV_def uart_rx_step_def Let_def)
  have s6: "rx_run (replicate 215 True) ((rx_in RX_IDLE 7 b True r)\<lparr>rx_byte_valid := True\<rparr>)
      = ([], rx_in RX_IDLE 7 b True r)"
    using rx_run_idle [of "(rx_in RX_IDLE 7 b True r)\<lparr>rx_byte_valid := True\<rparr>" 215]
    by (simp add: rx_in_def)
  have "rx_run (as @ bs @ cs @ ds @ es @ fs) r = ([b], rx_in RX_IDLE 7 b True r)"
    if "rx_run as r = ([], rx_in RX_START (rx_counter r) 0 False r)"
      "rx_run bs (rx_in RX_START (rx_counter r) 0 False r) = ([], rx_in RX_DATA 0 0 False r)"
      "rx_run es (rx_in RX_STOP 7 b (bit b 7) r) = ([b], (rx_in RX_IDLE 7 b True r)\<lparr>rx_byte_valid := True\<rparr>)"
      "rx_run cs (rx_in RX_DATA 0 0 False r) = ([], rx_in RX_DATA 7 (take_bit 7 b) (bit b 6) r)"
      "rx_run ds (rx_in RX_DATA 7 (take_bit 7 b) (bit b 6) r) = ([], rx_in RX_STOP 7 b (bit b 7) r)"
      "rx_run fs ((rx_in RX_IDLE 7 b True r)\<lparr>rx_byte_valid := True\<rparr>) = ([], rx_in RX_IDLE 7 b True r)"
    for as bs cs ds es fs
    by (simp only: rx_run_append that fst_conv snd_conv append_Nil append_Nil2)
  from this [OF s1 s2 s5 s3 s4 s6] show ?thesis by (simp only: uart_frame_chunks)
qed

section \<open>Both ends of a line\<close>

text \<open>
  A line between bytes is high; each byte is one frame, after at least one high clock.
\<close>

definition line_segment :: "i8 option \<Rightarrow> bool list" where
  "line_segment seg = (case seg of None \<Rightarrow> [True] | Some b \<Rightarrow> True # uart_frame b)"

definition line_of :: "i8 option list \<Rightarrow> bool list" where
  "line_of segs = concat (map line_segment segs)"

definition bytes_of :: "i8 option list \<Rightarrow> i8 list" where
  "bytes_of segs = concat (map (case_option [] (\<lambda>b. [b])) segs)"

lemma line_of_simps [simp]:
  "line_of [] = []" "line_of (None # segs) = True # line_of segs"
  "line_of (Some b # segs) = True # uart_frame b @ line_of segs"
  "bytes_of [] = []" "bytes_of (None # segs) = bytes_of segs" "bytes_of (Some b # segs) = b # bytes_of segs"
  by (simp_all add: line_of_def line_segment_def bytes_of_def)

text \<open>A receiver over the levels of a line: a step delivers the bytes completed at that clock.\<close>

fun line_run :: "(bool \<Rightarrow> 'r \<Rightarrow> 'r \<times> i8 list) \<Rightarrow> bool list \<Rightarrow> 'r \<Rightarrow> 'r \<times> i8 list" where
  "line_run rcv [] r = (r, [])"
| "line_run rcv (x # xs) r = (case rcv x r of (r1, out) \<Rightarrow> case line_run rcv xs r1 of (r2, out') \<Rightarrow> (r2, out @ out'))"

lemma line_run_append:
  "line_run rcv (xs @ ys) r = (case line_run rcv xs r of (r1, out) \<Rightarrow> case line_run rcv ys r1 of (r2, out') \<Rightarrow> (r2, out @ out'))"
  by (induction xs arbitrary: r) (simp_all add: split_beta)

text \<open>
  What makes a receiver correct: between frames it may owe a byte, which it delivers with the next
  high level and then rests; at rest it delivers a frame's byte within the frame or owes it after.
\<close>

locale line_receiver =
  fixes rcv :: "bool \<Rightarrow> 'r \<Rightarrow> 'r \<times> i8 list"
    and owes :: "i8 list \<Rightarrow> 'r \<Rightarrow> bool"
    and rests :: "'r \<Rightarrow> bool"
  assumes high: "owes p r \<Longrightarrow> snd (rcv True r) = p \<and> rests (fst (rcv True r))"
    and rests_owes: "rests r \<Longrightarrow> owes [] r"
    and frame: "rests r \<Longrightarrow> \<exists>p. snd (line_run rcv (uart_frame b) r) @ p = [b] \<and> owes p (fst (line_run rcv (uart_frame b) r))"
begin

lemma line_received:
  "owes p r \<Longrightarrow> \<exists>q. snd (line_run rcv (line_of segs) r) @ q = p @ bytes_of segs \<and> owes q (fst (line_run rcv (line_of segs) r))"
proof (induction segs arbitrary: p r)
  case Nil
  then show ?case by simp
next
  case (Cons seg segs)
  let ?r1 = "fst (rcv True r)"
  have r1: "snd (rcv True r) = p" "rests ?r1" using high [OF Cons.prems] by simp_all
  show ?case
  proof (cases seg)
    case None
    from Cons.IH [OF rests_owes [OF r1(2)]] show ?thesis using r1(1) by (auto simp: None split_beta)
  next
    case (Some b)
    obtain p' where p': "snd (line_run rcv (uart_frame b) ?r1) @ p' = [b]" "owes p' (fst (line_run rcv (uart_frame b) ?r1))"
      using frame [OF r1(2)] by blast
    from Cons.IH [OF p'(2)] obtain q where q:
      "snd (line_run rcv (line_of segs) (fst (line_run rcv (uart_frame b) ?r1))) @ q = p' @ bytes_of segs"
      "owes q (fst (line_run rcv (line_of segs) (fst (line_run rcv (uart_frame b) ?r1))))"
      by blast
    have "snd (line_run rcv (uart_frame b) ?r1) @ p' @ bytes_of segs = b # bytes_of segs"
      using p'(1) by (metis append.assoc append_Cons append_Nil)
    with q r1(1) show ?thesis by (intro exI [of _ q]) (simp add: Some line_run_append split_beta)
  qed
qed

text \<open>One more high level brings out the byte still owed.\<close>

lemma line_delivered:
  assumes "owes [] r"
  shows "snd (line_run rcv (line_of segs @ [True]) r) = bytes_of segs"
proof -
  obtain q where "snd (line_run rcv (line_of segs) r) @ q = bytes_of segs" "owes q (fst (line_run rcv (line_of segs) r))"
    using line_received [OF assms] by auto
  with high show ?thesis by (simp add: line_run_append split_beta)
qed

end

text \<open>The receiver of the port.\<close>

definition uart_rcv :: "bool \<Rightarrow> uart_rx \<Rightarrow> uart_rx \<times> i8 list" where
  "uart_rcv x r = (let r' = uart_rx_step True x r in (r', if rx_byte_valid r' then [rx_byte r'] else []))"

lemma line_run_uart: "line_run uart_rcv xs r = (snd (rx_run xs r), fst (rx_run xs r))"
  by (induction xs arbitrary: r) (simp_all add: uart_rcv_def Let_def split_beta)

interpretation uart_rx_line: line_receiver uart_rcv "\<lambda>p r. p = [] \<and> rx_state r = RX_IDLE"
  "\<lambda>r. rx_state r = RX_IDLE \<and> rx_line_prev r \<and> \<not> rx_byte_valid r"
  by unfold_locales
    (auto simp: uart_rcv_def uart_rx_step_def Let_def line_run_uart rx_run_frame, simp_all add: rx_in_def)

text \<open>The transmitter of the port puts frames on the line, one for every byte it accepts.\<close>

lemma tx_line:
  "tx_state t = TX_IDLE \<Longrightarrow> tx_state (snd (tx_run qs t)) = TX_IDLE \<Longrightarrow>
   \<exists>segs. fst (tx_run qs t) = line_of segs \<and> tx_accepted qs t = bytes_of segs"
proof (induction "length qs" arbitrary: qs t rule: less_induct)
  case less
  show ?case
  proof (cases qs)
    case Nil
    then show ?thesis by (intro exI [of _ "[]"]) simp
  next
    case (Cons q qs')
    have pin: "tx_pin t" using less.prems(1) by (simp add: tx_pin_def)
    show ?thesis
    proof (cases "tx_accepts False q")
      case False
      then have t: "uart_tx_step True False None q t = t" using less.prems(1) by (simp add: uart_tx_step_def)
      have "\<exists>segs. fst (tx_run qs' t) = line_of segs \<and> tx_accepted qs' t = bytes_of segs"
        using less.prems t Cons by (intro less.hyps) (simp_all add: split_beta)
      then obtain segs where "fst (tx_run qs' t) = line_of segs" "tx_accepted qs' t = bytes_of segs" by blast
      then show ?thesis using pin t False by (intro exI [of _ "None # segs"]) (simp add: Cons split_beta)
    next
      case True
      let ?b = "ucast (uq_data q) :: i8"
      have t: "uart_tx_step True False None q t = tx_load ?b t"
        using less.prems(1) True by (simp add: uart_tx_step_def)
      have long: "10 * CLOCK_DIV \<le> length qs'"
        using less.prems(2) tx_short_busy [of qs' ?b t] t
        by (simp add: Cons split_beta linorder_not_less [symmetric] del: tx_in_simps(1)) (metis)
      define ps where "ps = take (10 * CLOCK_DIV) qs'"
      define rs where "rs = drop (10 * CLOCK_DIV) qs'"
      have qs': "qs' = ps @ rs" by (simp add: ps_def rs_def)
      have frame: "tx_run ps (tx_load ?b t) = (uart_frame ?b, tx_in TX_IDLE ?b 0 t)"
        using long by (intro tx_run_frame) (simp add: ps_def)
      have none: "tx_accepted ps (tx_load ?b t) = []"
        by (intro tx_frame_not_accepted) (simp add: ps_def)
      have "\<exists>segs. fst (tx_run rs (tx_in TX_IDLE ?b 0 t)) = line_of segs \<and> tx_accepted rs (tx_in TX_IDLE ?b 0 t) = bytes_of segs"
      proof (rule less.hyps)
        show "length rs < length qs" by (simp add: Cons qs')
        show "tx_state (snd (tx_run rs (tx_in TX_IDLE ?b 0 t))) = TX_IDLE"
          using less.prems(2) t frame by (simp add: Cons qs' tx_run_append split_beta del: tx_in_simps(1))
      qed simp
      then obtain segs where "fst (tx_run rs (tx_in TX_IDLE ?b 0 t)) = line_of segs"
        "tx_accepted rs (tx_in TX_IDLE ?b 0 t) = bytes_of segs" by blast
      then show ?thesis
        using pin t True frame none less.prems(1)
        by (intro exI [of _ "Some ?b # segs"]) (simp add: Cons qs' tx_run_append tx_accepted_append split_beta del: tx_in_simps(1))
    qed
  qed
qed

section \<open>From one port to another\<close>

text \<open>
  C6.  Whatever is done on the buses of two serial ports, if the sender's output pin is wired to
  the receiver's input and the sender is idle at the end, the bytes the receiver reports are
  exactly the bytes the sender accepted, in order: none lost, none invented, none altered.
\<close>

theorem uart_roundtrip:
  assumes "\<not> config_loopback u" "uart_req_ready u" "uart_req_ready (snd (uart_line ins u))"
    "rx_state (uart_rx_regs v) = RX_IDLE" "length ins' = length ins"
  shows "uart_received (fst (uart_line ins u)) ins' v = uart_accepted ins u"
proof -
  have len: "length (fst (uart_line ins u)) = length ins" for ins u
    by (induction ins u rule: uart_line.induct) (simp_all add: split_beta)
  let ?qs = "map (fst \<circ> snd) ins"
  obtain segs where segs: "fst (tx_run ?qs (uart_tx_regs u)) = line_of segs" "tx_accepted ?qs (uart_tx_regs u) = bytes_of segs"
    using tx_line [of "uart_tx_regs u" ?qs] assms uart_line_tx_run [OF assms(1), of ins] by (auto simp: uart_req_ready_def)
  have "fst (rx_run (fst (tx_run ?qs (uart_tx_regs u))) (uart_rx_regs v)) = tx_accepted ?qs (uart_tx_regs u)"
    using uart_rx_line.line_received [of "[]" "uart_rx_regs v" segs] assms(4) by (simp add: segs line_run_uart)
  moreover have "uart_received (fst (uart_line ins u)) ins' v = fst (rx_run (fst (uart_line ins u)) (uart_rx_regs v))"
    by (rule uart_received_rx_run) (simp add: assms(5) len)
  ultimately show ?thesis using assms(1) by (simp add: uart_line_tx_run uart_accepted_tx)
qed

text \<open>A port just out of reset, and a bus that writes one byte to the TX register and then rests.\<close>

definition uart_quiet :: uart_state where
  "uart_quiet = \<lparr>config_loopback = False, uart_resp_data = 0xdeadbeef, uart_resp_valid = False,
     uart_tx_regs = \<lparr>tx_state = TX_IDLE, data_to_send = 0, tx_counter = 0, tx_baud_counter = 0\<rparr>,
     uart_rx_regs = \<lparr>rx_state = RX_IDLE, rx_counter = 0, rx_baud_counter = 0, rx_byte = 0, rx_line_prev = True,
       rx_byte_valid = False\<rparr>\<rparr>"

definition uart_rest :: uart_req where
  "uart_rest = \<lparr>uq_valid = False, uq_addr = 0, uq_write = False, uq_data = 0\<rparr>"

definition uart_write :: "i8 \<Rightarrow> uart_req" where
  "uart_write b = \<lparr>uq_valid = True, uq_addr = 0, uq_write = True, uq_data = ucast b\<rparr>"

definition uart_send_one :: "i8 \<Rightarrow> (bool \<times> uart_req \<times> bool) list" where
  "uart_send_one b = (True, uart_write b, True) # replicate (10 * CLOCK_DIV) (True, uart_rest, True)"

lemma uart_send_one_run:
  "uart_req_ready (snd (uart_line (uart_send_one 0x41) uart_quiet))" "uart_accepted (uart_send_one 0x41) uart_quiet = [0x41]"
proof -
  have loop: "\<not> config_loopback uart_quiet" by (simp add: uart_quiet_def)
  let ?t = "uart_tx_regs uart_quiet"
  have load: "uart_tx_step True False None (uart_write 0x41) ?t = tx_load 0x41 ?t"
    by (simp add: uart_tx_step_def uart_quiet_def uart_write_def tx_accepts_def)
  have run: "tx_run (replicate (10 * CLOCK_DIV) uart_rest) (tx_load 0x41 ?t) = (uart_frame 0x41, tx_in TX_IDLE 0x41 0 ?t)"
    by (rule tx_run_frame) simp
  have reqs: "map (fst \<circ> snd) (uart_send_one 0x41) = uart_write 0x41 # replicate (10 * CLOCK_DIV) uart_rest"
    by (simp add: uart_send_one_def map_replicate)
  show "uart_req_ready (snd (uart_line (uart_send_one 0x41) uart_quiet))"
    using uart_line_tx_run [OF loop, of "uart_send_one 0x41"]
    by (simp add: uart_req_ready_def reqs load run split_beta del: tx_in_simps(1))
  have "uart_accepted (uart_send_one 0x41) uart_quiet = tx_accepted (uart_write 0x41 # replicate (10 * CLOCK_DIV) uart_rest) ?t"
    using uart_accepted_tx [OF loop, of "uart_send_one 0x41"] by (simp only: reqs)
  also have "\<dots> = [0x41]"
    using tx_frame_not_accepted [of "replicate (10 * CLOCK_DIV) uart_rest" "0x41" ?t]
    by (simp add: load del: tx_in_simps(1)) (simp add: uart_quiet_def tx_accepts_def uart_write_def)
  finally show "uart_accepted (uart_send_one 0x41) uart_quiet = [0x41]" .
qed

theorem uart_roundtrip_witness:
  "uart_received (fst (uart_line (uart_send_one 0x41) uart_quiet)) (replicate (Suc (10 * CLOCK_DIV)) (uart_rest, True))
     uart_quiet = [0x41]"
proof -
  have "uart_received (fst (uart_line (uart_send_one 0x41) uart_quiet))
      (replicate (Suc (10 * CLOCK_DIV)) (uart_rest, True)) uart_quiet = uart_accepted (uart_send_one 0x41) uart_quiet"
    using uart_send_one_run by (intro uart_roundtrip) (simp_all add: uart_send_one_def uart_quiet_def uart_req_ready_def)
  then show ?thesis by (simp add: uart_send_one_run)
qed

end
