(* ===== verification/Soc.thy ===== *)
theory Soc
  imports Core_Clock Uart
begin

text \<open>
  The system \<open>top\<close> (top.v): the core, the memory with its instruction port, the serial port, and
  the address decoding between them, stepping together on one clock edge.
\<close>

section \<open>State and inputs\<close>

record soc =
  cpu :: core
  sram0 :: sram_state
  imem_addr_reg :: i32
  dmem_raddr_reg :: i32
  uart0 :: uart_state
  break_hit :: bool
  sim_use_par_txrx :: bool
  par_tx :: i8
  par_tx_valid :: bool
  par_rx_ack :: bool
  par_rx_valid_latch :: bool
  par_rx_latch :: i8

record soc_in =
  in_resetn :: bool
  in_rx :: bool
  in_par_rx :: i8
  in_par_rx_valid :: bool

section \<open>Wires\<close>

text \<open>\<open>addr[31:12] == 20'h10000\<close>\<close>

definition uart_page :: "i32 \<Rightarrow> bool" where
  "uart_page addr \<longleftrightarrow> (ucast (drop_bit 12 addr) :: 20 word) = 0x10000"

definition imem_rdata :: "soc \<Rightarrow> i32" where
  "imem_rdata s = sr_mem (sram0 s) (word_index (imem_addr_reg s))"

definition dmem_resp_rdata :: "soc \<Rightarrow> i32" where
  "dmem_resp_rdata s =
    (if uart_page (dmem_raddr_reg s) \<and> \<not> sim_use_par_txrx s then uart_resp_data (uart0 s)
     else if uart_page (dmem_raddr_reg s) \<and> sim_use_par_txrx s then
       (if (ucast (dmem_raddr_reg s) :: 12 word) = 0x008 then 0
        else word_cat (of_bool (par_rx_valid_latch s) :: 24 word) (par_rx_latch s))
     else sram_rdata (sram0 s))"

definition dmem_resp_valid :: "soc \<Rightarrow> bool" where
  "dmem_resp_valid s =
    (if uart_page (dmem_raddr_reg s) \<and> \<not> sim_use_par_txrx s then uart_resp_valid (uart0 s)
     else sr_dmem_resp_valid_reg (sram0 s))"

definition dmem_req_ready :: "soc \<Rightarrow> bool" where
  "dmem_req_ready s =
    (if uart_page (dmem_req_addr (cpu s)) \<and> \<not> sim_use_par_txrx s then uart_req_ready (uart0 s) else True)"

definition uart_bus :: "soc \<Rightarrow> uart_req" where
  "uart_bus s = \<lparr>uq_valid = (uart_page (dmem_req_addr (cpu s)) \<and> \<not> sim_use_par_txrx s \<and> dmem_req_valid (cpu s)),
     uq_addr = ucast (dmem_req_addr (cpu s)), uq_write = dmem_req_write (cpu s), uq_data = dmem_req_wdata (cpu s)\<rparr>"

section \<open>One clock edge\<close>

text \<open>The parallel port, used in place of the serial port when \<open>sim_use_par_txrx\<close> is set.\<close>

definition par_rx_clock :: "soc_in \<Rightarrow> soc \<Rightarrow> bool \<times> bool \<times> i8" where
  "par_rx_clock i s =
    (if \<not> in_resetn i then (False, par_rx_valid_latch s, par_rx_latch s)
     else if dmem_req_valid (cpu s) \<and> \<not> dmem_req_write (cpu s) \<and> uart_page (dmem_req_addr (cpu s))
        \<and> sim_use_par_txrx s \<and> in_par_rx_valid i
     then (True, in_par_rx_valid i, in_par_rx i) else (False, False, 0))"

definition par_tx_clock :: "soc_in \<Rightarrow> soc \<Rightarrow> i8 \<times> bool" where
  "par_tx_clock i s =
    (if \<not> in_resetn i then (0, False)
     else if dmem_req_valid (cpu s) \<and> dmem_req_write (cpu s) \<and> uart_page (dmem_req_addr (cpu s)) \<and> sim_use_par_txrx s
     then (ucast (dmem_req_wdata (cpu s)), True) else (par_tx s, False))"

definition sram_clock :: "core \<Rightarrow> sram_state \<Rightarrow> sram_state" where
  "sram_clock c m = sram_step (dmem_req_addr c) (dmem_req_wdata c) (dmem_req_wmask c) (dmem_req_write c) (dmem_req_valid c) m"

definition soc_clock :: "soc_in \<Rightarrow> soc \<Rightarrow> soc option" where
  "soc_clock i s =
    (case cpu_clock (in_resetn i) (imem_rdata s) (dmem_req_ready s) (dmem_resp_valid s) (dmem_resp_rdata s) (cpu s) of
       None \<Rightarrow> None
     | Some c \<Rightarrow>
         (case par_rx_clock i s of (ack, rxv, rxl) \<Rightarrow> case par_tx_clock i s of (txb, txv) \<Rightarrow>
            Some \<lparr>cpu = c,
              sram0 = sram_clock (cpu s) (sram0 s),
              imem_addr_reg = pc_reg (cpu s),
              dmem_raddr_reg = (if dmem_req_valid (cpu s) \<and> \<not> dmem_req_write (cpu s) then dmem_req_addr (cpu s)
                                else dmem_raddr_reg s),
              uart0 = uart_clock (in_resetn i) (in_rx i) (uart_bus s) True (uart0 s),
              break_hit = (if \<not> in_resetn i then False else if ebreak_hit (cpu s) then True else break_hit s),
              sim_use_par_txrx = (if \<not> in_resetn i then False else sim_use_par_txrx s),
              par_tx = txb, par_tx_valid = txv, par_rx_ack = ack, par_rx_valid_latch = rxv, par_rx_latch = rxl\<rparr>))"

fun soc_run :: "soc_in list \<Rightarrow> soc \<Rightarrow> soc option" where
  "soc_run [] s = Some s"
| "soc_run (i # ins) s = (case soc_clock i s of None \<Rightarrow> None | Some s' \<Rightarrow> soc_run ins s')"

lemma soc_run_append: "soc_run (is @ js) s = (case soc_run is s of None \<Rightarrow> None | Some s' \<Rightarrow> soc_run js s')"
  by (induction "is" s rule: soc_run.induct) (simp_all split: option.split)

end
