(* ===== verification/Isa.thy ===== *)
theory Isa
  imports Soc
begin

text \<open>
  The instruction set the core implements, as a specification: RV32I by opcode and function
  fields, with a byte-addressed little-endian memory, the packed and vector instructions through
  \<open>simd_spec\<close>, the counter instruction, and the core's own effects that software can see (the
  control and status registers, the counters, the stop flag).  It does not mention the decoder's
  control signals, the states of the core or its clock.
\<close>

section \<open>Architectural state\<close>

record arch =
  a_pc :: i32
  a_regs :: "5 word \<Rightarrow> i32"
  a_vregs :: vregs
  a_mem :: mem_words
  a_cycle :: i32
  a_insn :: i32
  a_load :: i32
  a_store :: i32
  a_mtvec :: i32
  a_mepc :: i32
  a_mcause :: i32
  a_mstatus :: i32
  a_break :: bool

definition xreg :: "arch \<Rightarrow> 5 word \<Rightarrow> i32" where
  "xreg a r = (if r = 0 then 0 else a_regs a r)"

definition set_xreg :: "5 word \<Rightarrow> i32 \<Rightarrow> arch \<Rightarrow> arch" where
  "set_xreg r v a = (if r = 0 then a else a\<lparr>a_regs := (a_regs a)(r := v)\<rparr>)"

text \<open>Byte-addressed memory: byte \<open>k\<close> of a word is its bits \<open>8k+7..8k\<close>.\<close>

definition byte_at :: "mem_words \<Rightarrow> i32 \<Rightarrow> i8" where
  "byte_at mem addr = lane (unat (addr AND 3)) (mem (word_index addr))"

definition put_byte :: "i32 \<Rightarrow> i8 \<Rightarrow> mem_words \<Rightarrow> mem_words" where
  "put_byte addr b mem = mem(word_index addr :=
     pack_lanes (map (\<lambda>k. if k = unat (addr AND 3) then b else lane k (mem (word_index addr))) [0..<4]))"

definition half_at :: "mem_words \<Rightarrow> i32 \<Rightarrow> i16" where
  "half_at mem addr = pack_lanes [byte_at mem addr, byte_at mem (addr + 1)]"

definition word_at :: "mem_words \<Rightarrow> i32 \<Rightarrow> i32" where
  "word_at mem addr = pack_lanes [byte_at mem addr, byte_at mem (addr + 1), byte_at mem (addr + 2), byte_at mem (addr + 3)]"

section \<open>Instructions\<close>

definition isa_fetch :: "arch \<Rightarrow> i32" where
  "isa_fetch a = a_mem a (word_index (a_pc a))"

definition rd_of :: "i32 \<Rightarrow> 5 word" where "rd_of w = field 7 w"
definition rs1_of :: "i32 \<Rightarrow> 5 word" where "rs1_of w = field 15 w"
definition rs2_of :: "i32 \<Rightarrow> 5 word" where "rs2_of w = field 20 w"

text \<open>The operation of OP and OP-IMM; \<open>alt\<close> is bit 30 of the instruction.\<close>

definition op_result :: "3 word \<Rightarrow> bool \<Rightarrow> i32 \<Rightarrow> i32 \<Rightarrow> i32" where
  "op_result f3 alt x y =
    (if f3 = 0b000 then (if alt then x - y else x + y)
     else if f3 = 0b001 then push_bit (unat y mod 32) x
     else if f3 = 0b010 then of_bool (x <s y)
     else if f3 = 0b011 then of_bool (x < y)
     else if f3 = 0b100 then x XOR y
     else if f3 = 0b101 then (if alt then signed_drop_bit (unat y mod 32) x else drop_bit (unat y mod 32) x)
     else if f3 = 0b110 then x OR y
     else x AND y)"

definition branch_taken :: "3 word \<Rightarrow> i32 \<Rightarrow> i32 \<Rightarrow> bool" where
  "branch_taken f3 x y \<longleftrightarrow>
    (if f3 = 0b000 then x = y else if f3 = 0b001 then x \<noteq> y
     else if f3 = 0b100 then x <s y else if f3 = 0b101 then \<not> x <s y
     else if f3 = 0b110 then x < y else \<not> x < y)"

definition load_value :: "3 word \<Rightarrow> mem_words \<Rightarrow> i32 \<Rightarrow> i32" where
  "load_value f3 mem addr =
    (if f3 = 0b000 then scast (byte_at mem addr)
     else if f3 = 0b001 then scast (half_at mem addr)
     else if f3 = 0b100 then ucast (byte_at mem addr)
     else if f3 = 0b101 then ucast (half_at mem addr)
     else word_at mem addr)"

definition store_value :: "3 word \<Rightarrow> i32 \<Rightarrow> i32 \<Rightarrow> mem_words \<Rightarrow> mem_words" where
  "store_value f3 addr v mem =
    (if f3 = 0b000 then put_byte addr (lane 0 v) mem
     else if f3 = 0b001 then put_byte (addr + 1) (lane 1 v) (put_byte addr (lane 0 v) mem)
     else put_byte (addr + 3) (lane 3 v) (put_byte (addr + 2) (lane 2 v)
            (put_byte (addr + 1) (lane 1 v) (put_byte addr (lane 0 v) mem))))"

text \<open>The counter instruction: bit 31 selects writing, bits 21:20 the counter.\<close>

definition counter_read :: "i32 \<Rightarrow> arch \<Rightarrow> i32" where
  "counter_read w a =
    (let i = (field 20 w :: 2 word) in
     if i = 0 then a_cycle a + 2 else if i = 1 then a_insn a else if i = 2 then a_load a else a_store a)"

text \<open>The immediate by format, 0 for an instruction without one.\<close>

definition isa_imm :: "i32 \<Rightarrow> i32" where
  "isa_imm w =
    (let opc = opcode_of w in
     if opc = 0x13 \<or> opc = 0x03 \<or> opc = 0x67 \<or> opc = 0x73 then imm_i w
     else if opc = 0x23 then imm_s w else if opc = 0x63 then imm_b w
     else if opc = 0x37 \<or> opc = 0x17 then imm_u w else if opc = 0x6F then imm_j w else 0)"

text \<open>Registers, memory and program counter after an instruction \<open>w\<close>.\<close>

definition isa_exec :: "i32 \<Rightarrow> arch \<Rightarrow> arch" where
  "isa_exec w a =
    (let opc = opcode_of w; f3 = funct3_of w; x = xreg a (rs1_of w); y = xreg a (rs2_of w);
         imm = isa_imm w; pc = a_pc a; next = a\<lparr>a_pc := pc + 4\<rparr>; rd = rd_of w in
     if opc = 0x33 then set_xreg rd (op_result f3 (bit w 30) x y) next
     else if opc = 0x13 then set_xreg rd (op_result f3 (f3 = 0b101 \<and> bit w 30) x imm) next
     else if opc = 0x03 then set_xreg rd (load_value f3 (a_mem a) (x + imm)) next
     else if opc = 0x23 then next\<lparr>a_mem := store_value f3 (x + imm) y (a_mem a)\<rparr>
     else if opc = 0x63 then (if branch_taken f3 x y then a\<lparr>a_pc := pc + imm\<rparr> else next)
     else if opc = 0x6F then set_xreg rd (pc + 4) (a\<lparr>a_pc := pc + imm\<rparr>)
     else if opc = 0x67 then set_xreg rd (pc + 4) (a\<lparr>a_pc := (x + imm) AND NOT 1\<rparr>)
     else if opc = 0x37 then set_xreg rd imm next
     else if opc = 0x17 then set_xreg rd (pc + imm) next
     else if opc = 0x73 then next\<lparr>a_break := True\<rparr>
     else if opc = 0x5B \<and> f3 = 0b000 then (if bit w 31 then next else set_xreg rd (counter_read w a) next)
     else if opc = 0x5B then
       (case simd_spec w x y (a_vregs a) (a_mem a) of (r, vr, mem) \<Rightarrow>
          (case r of None \<Rightarrow> next | Some v \<Rightarrow> set_xreg rd v next)\<lparr>a_vregs := vr, a_mem := mem\<rparr>)
     else next)"

text \<open>Clock cycles of an instruction.\<close>

definition isa_cycles :: "i32 \<Rightarrow> nat" where
  "isa_cycles w =
    (let opc = opcode_of w in
     if opc = 0x03 then 6 else if opc = 0x23 then 5
     else if opc = 0x5B \<and> funct3_of w \<noteq> 0b000 then 3 + simd_latency w
     else 4)"

text \<open>The four counters: every instruction counts, loads and stores of the base set count, and
  the counter instruction may then write one of them.  The write takes effect one cycle before the
  instruction ends, so the cycle and instruction counters still count its last step.\<close>

definition isa_count :: "i32 \<Rightarrow> arch \<Rightarrow> arch \<Rightarrow> arch" where
  "isa_count w a b =
    (let opc = opcode_of w; x = xreg a (rs1_of w); i = (field 20 w :: 2 word);
         wr = (opc = 0x5B \<and> funct3_of w = 0b000 \<and> bit w 31) in
     b\<lparr>a_cycle := (if wr \<and> i = 0 then x + 1 else a_cycle a + of_nat (isa_cycles w)),
       a_insn := (if wr \<and> i = 1 then x + 1 else a_insn a + 1),
       a_load := (if wr \<and> i = 2 then x else if opc = 0x03 then a_load a + 1 else a_load a),
       a_store := (if wr \<and> i = 3 then x else if opc = 0x23 then a_store a + 1 else a_store a)\<rparr>)"

text \<open>
  The control and status registers: every instruction stores its first source operand in the
  register its immediate's low twelve bits happen to name.
\<close>

definition isa_csr :: "i32 \<Rightarrow> arch \<Rightarrow> arch \<Rightarrow> arch" where
  "isa_csr w a b =
    (let csr = (ucast (isa_imm w) :: 12 word);
         x = (if opcode_of w = 0x37 \<or> opcode_of w = 0x17 then 0 else xreg a (rs1_of w)) in
     b\<lparr>a_mtvec := (if csr = 0x035 then x else a_mtvec a),
       a_mepc := (if csr = 0x341 then x else a_mepc a),
       a_mcause := (if csr = 0x342 then x else a_mcause a),
       a_mstatus := (if csr = 0x300 then x else a_mstatus a)\<rparr>)"

definition isa_step :: "arch \<Rightarrow> arch" where
  "isa_step a = (let w = isa_fetch a in isa_csr w a (isa_count w a (isa_exec w a)))"

section \<open>Supported instructions\<close>

text \<open>
  The legal encodings, except that a FENCE and a counter write name no destination and the
  environment calls are the two of RV32I; a memory access is aligned and outside the page of the serial port; a vector
  instruction has an operation and an element width the units implement.
\<close>

definition aligned :: "3 word \<Rightarrow> i32 \<Rightarrow> bool" where
  "aligned f3 addr \<longleftrightarrow>
    (if f3 = 0b000 \<or> f3 = 0b100 then True else if f3 = 0b001 \<or> f3 = 0b101 then addr AND 1 = 0 else addr AND 3 = 0)"

definition isa_supported :: "arch \<Rightarrow> bool" where
  "isa_supported a \<longleftrightarrow>
    (let w = isa_fetch a; opc = opcode_of w; f3 = funct3_of w; f7 = funct7_of w;
         x = xreg a (rs1_of w); addr = x + isa_imm w in
     if opc = 0x33 then f7 = 0 \<or> f7 = 0x20 \<and> (f3 = 0b000 \<or> f3 = 0b101)
     else if opc = 0x13 then (f3 = 0b001 \<longrightarrow> f7 = 0) \<and> (f3 = 0b101 \<longrightarrow> f7 = 0 \<or> f7 = 0x20)
     else if opc = 0x03 then (f3 = 0b000 \<or> f3 = 0b001 \<or> f3 = 0b010 \<or> f3 = 0b100 \<or> f3 = 0b101)
       \<and> aligned f3 addr \<and> \<not> uart_page addr
     else if opc = 0x23 then (f3 = 0b000 \<or> f3 = 0b001 \<or> f3 = 0b010) \<and> aligned f3 addr \<and> \<not> uart_page addr
     else if opc = 0x63 then f3 \<noteq> 0b010 \<and> f3 \<noteq> 0b011
     else if opc = 0x67 then f3 = 0b000
     else if opc = 0x0F then f3 = 0b000 \<and> rd_of w = 0
     else if opc = 0x73 then w = 0x73 \<or> w = 0x100073
     else if opc = 0x5B then f3 = 0b000 \<and> (bit w 31 \<longrightarrow> rd_of w = 0) \<or> (f3 = 0b001 \<or> f3 = 0b010) \<and> simd_supported w
       \<and> (f3 = 0b010 \<and> (vop_of w = VOP_VLD \<or> vop_of w = VOP_VST) \<longrightarrow> \<not> uart_page x \<and> \<not> uart_page (x + 4))
     else opc = 0x6F \<or> opc = 0x37 \<or> opc = 0x17)"

text \<open>A program run: \<open>k\<close> instructions, each supported in the state it is fetched in.\<close>

fun isa_run :: "nat \<Rightarrow> arch \<Rightarrow> arch" where
  "isa_run 0 a = a"
| "isa_run (Suc k) a = isa_run k (isa_step a)"

fun isa_run_supported :: "nat \<Rightarrow> arch \<Rightarrow> bool" where
  "isa_run_supported 0 a = True"
| "isa_run_supported (Suc k) a \<longleftrightarrow> isa_supported a \<and> isa_run_supported k (isa_step a)"

fun isa_run_cycles :: "nat \<Rightarrow> arch \<Rightarrow> nat" where
  "isa_run_cycles 0 a = 0"
| "isa_run_cycles (Suc k) a = isa_cycles (isa_fetch a) + isa_run_cycles k (isa_step a)"

end
