(* ===== verification/Soc_Steps.thy ===== *)
theory Soc_Steps
  imports Isa
begin

text \<open>
  From the system to the core and its memory: while no request goes to the page of the serial
  port, the rest of the system only answers the core from the memory.  \<open>mach\<close> is the core, the
  memory, the registered instruction address and the stop flag, with inputs fixed accordingly.
\<close>

type_synonym mach = "core \<times> sram_state \<times> i32 \<times> bool"

definition vl_waits :: "core \<Rightarrow> bool" where
  "vl_waits c \<longleftrightarrow> vl_state (vlsu_inst c) = WAIT_WORD0 \<or> vl_state (vlsu_inst c) = WAIT_WORD1"

definition bus_ok :: "core \<Rightarrow> bool" where
  "bus_ok c \<longleftrightarrow> \<not> uart_page (dmem_req_addr c) \<or> (\<not> dmem_req_valid c \<and> cpu_state c \<noteq> MEM \<and> \<not> vl_waits c)"

text \<open>A clock of the core and its memory; \<open>None\<close> too when the access would leave the memory.\<close>

fun mach_clock :: "mach \<Rightarrow> mach option" where
  "mach_clock (c, m, ia, b) =
    (if \<not> bus_ok c then None
     else case cpu_clock True (sr_mem m (word_index ia)) True (sr_dmem_resp_valid_reg m) (sram_rdata m) c of
       None \<Rightarrow> None
     | Some c' \<Rightarrow> Some (c', sram_clock c m, pc_reg c, b \<or> ebreak_hit c))"

fun mach_run :: "nat \<Rightarrow> mach \<Rightarrow> mach option" where
  "mach_run 0 x = Some x"
| "mach_run (Suc n) x = (case mach_clock x of None \<Rightarrow> None | Some x' \<Rightarrow> mach_run n x')"

lemma mach_run_add: "mach_run (m + n) x = (case mach_run m x of None \<Rightarrow> None | Some y \<Rightarrow> mach_run n y)"
  by (induction m x rule: mach_run.induct) (simp_all split: option.split)

lemma mach_run_numeral [simp]:
  "mach_run (numeral k) x = (case mach_clock x of None \<Rightarrow> None | Some x' \<Rightarrow> mach_run (pred_numeral k) x')"
  by (simp add: numeral_eq_Suc)

definition mach_of :: "soc \<Rightarrow> mach" where
  "mach_of s = (cpu s, sram0 s, imem_addr_reg s, break_hit s)"

text \<open>No answer of the serial port is pending, and a pending answer of the memory is to an address of its own.\<close>

definition port_ok :: "soc \<Rightarrow> bool" where
  "port_ok s \<longleftrightarrow> \<not> uart_resp_valid (uart0 s) \<and>
    (sr_dmem_resp_valid_reg (sram0 s) \<longrightarrow> \<not> uart_page (dmem_raddr_reg s))"

lemma cpu_clock_inputs:
  assumes "rdy \<or> cpu_state c \<noteq> MEM \<and> \<not> vl_waits c" "rv \<longrightarrow> rd = rd'"
  shows "cpu_clock True w rdy rv rd c = cpu_clock True w True rv rd' c"
proof -
  have fsm: "fsm_clock True w rdy rv rd c = fsm_clock True w True rv rd' c"
    using assms by (cases "cpu_state c"; cases rv; cases rdy) (simp_all add: fsm_clock_def fsm_mem_def Let_def)
  have vl: "vlsu_step True st iss base d rdy rv rd (vlsu_inst c) = vlsu_step True st iss base d True rv rd' (vlsu_inst c)"
    for st iss base d
  proof (cases "vl_waits c")
    case False
    then show ?thesis
      by (cases "vl_state (vlsu_inst c)")
        (simp_all only: vlsu_step_def vlsu_fsm.case vl_waits_def simp_thms if_False)
  next
    case True
    with assms have "rdy" "rv \<longrightarrow> rd = rd'" by simp_all
    then show ?thesis
      by (cases rv; cases "vl_state (vlsu_inst c)")
        (simp_all only: vlsu_step_def vlsu_fsm.case simp_thms if_False if_True)
  qed
  have "units_clock True rdy rv rd c c' = units_clock True True rv rd' c c'" for c'
    by (simp add: units_clock_def vl)
  then show ?thesis by (simp only: cpu_clock_def fsm)
qed

lemma soc_refines_mach_clock:
  assumes "mach_clock (mach_of s) = Some x" "port_ok s" "in_resetn i"
  shows "\<exists>s'. soc_clock i s = Some s' \<and> mach_of s' = x \<and> port_ok s'"
proof -
  let ?c = "cpu s" and ?m = "sram0 s"
  from assms(1) have ok: "bus_ok ?c" by (simp add: mach_of_def split: if_splits)
  have resp: "dmem_resp_valid s = sr_dmem_resp_valid_reg ?m"
    "sr_dmem_resp_valid_reg ?m \<longrightarrow> dmem_resp_rdata s = sram_rdata ?m"
    using assms(2) by (auto simp: port_ok_def dmem_resp_valid_def dmem_resp_rdata_def)
  have ready: "dmem_req_ready s \<or> cpu_state ?c \<noteq> MEM \<and> \<not> vl_waits ?c"
    using ok by (auto simp: bus_ok_def dmem_req_ready_def)
  have same: "cpu_clock True (imem_rdata s) (dmem_req_ready s) (dmem_resp_valid s) (dmem_resp_rdata s) ?c
      = cpu_clock True (sr_mem ?m (word_index (imem_addr_reg s))) True (sr_dmem_resp_valid_reg ?m) (sram_rdata ?m) ?c"
    unfolding resp(1) imem_rdata_def by (rule cpu_clock_inputs [OF ready resp(2)])
  have nouart: "\<not> (uart_page (dmem_req_addr ?c) \<and> dmem_req_valid ?c)"
    using ok by (auto simp: bus_ok_def)
  obtain c' where c': "cpu_clock True (sr_mem ?m (word_index (imem_addr_reg s))) True (sr_dmem_resp_valid_reg ?m)
      (sram_rdata ?m) ?c = Some c'" "x = (c', sram_clock ?c ?m, pc_reg ?c, break_hit s \<or> ebreak_hit ?c)"
    using assms(1) by (auto simp: mach_of_def ok split: option.splits)
  obtain ack rxv rxl txb txv where par: "par_rx_clock i s = (ack, rxv, rxl)" "par_tx_clock i s = (txb, txv)"
    by (metis prod_cases3 surj_pair)
  have q: "\<not> uart_resp_valid (uart_clock True rx (uart_bus s) True (uart0 s))" for rx
    using nouart by (auto simp: uart_clock_def uart_resp_step_def uart_bus_def split: prod.split)
  show ?thesis
    using assms(3) nouart q c'
    by (auto simp: soc_clock_def same par mach_of_def port_ok_def sram_clock_def sram_step_def)
qed

lemma soc_refines_mach_run:
  assumes "mach_run n (mach_of s) = Some x" "port_ok s" "length ins = n" "\<forall>i \<in> set ins. in_resetn i"
  shows "\<exists>s'. soc_run ins s = Some s' \<and> mach_of s' = x \<and> port_ok s'"
  using assms
proof (induction n arbitrary: s ins)
  case 0
  then show ?case by simp
next
  case (Suc n)
  obtain i js where ins: "ins = i # js" "in_resetn i" "length js = n" "\<forall>i \<in> set js. in_resetn i"
    using Suc.prems(3,4) by (cases ins) auto
  obtain y where y: "mach_clock (mach_of s) = Some y" "mach_run n y = Some x"
    using Suc.prems(1) by (auto split: option.splits)
  obtain s1 where s1: "soc_clock i s = Some s1" "mach_of s1 = y" "port_ok s1"
    using soc_refines_mach_clock [OF y(1) Suc.prems(2) ins(2)] by blast
  from Suc.IH [of s1 js] s1 y(2) ins show ?case by simp
qed

section \<open>Quiet cores\<close>

text \<open>No unit is running or being started, and no memory request is pending.\<close>

definition quiet :: "core \<Rightarrow> bool" where
  "quiet c \<longleftrightarrow> vmac_idle (vmac_inst c) \<and> valu_idle (valu_inst c) \<and> vl_state (vlsu_inst c) = IDLE
     \<and> \<not> vl_done (vlsu_inst c) \<and> \<not> vl_mem_valid (vlsu_inst c)
     \<and> \<not> vec_busy c \<and> \<not> vec_valid_in_reg c \<and> \<not> vlsu_start_reg c \<and> \<not> vmac_busy c \<and> \<not> vmac_valid_in_reg c"

lemma vlsu_idle_hold:
  "vl_state v = IDLE \<Longrightarrow> \<not> vl_done v \<Longrightarrow> vlsu_step True False st a d rdy rv rd v = v"
  by (cases v) (simp add: vlsu_step_def)

lemma vmac_idle_hold: "vmac_idle u \<Longrightarrow> vmac_step True ctrl a b False u = u"
  using idle_units_hold(1) [of u "(ctrl, a, b)"] by (simp add: vmac_op_step_def)

lemma valu_idle_hold: "valu_idle v \<Longrightarrow> valu_step True opc sew a b False v = v"
  using idle_units_hold(2) [of v "(opc, sew, a, b)"] by (simp add: valu_op_step_def)

lemma sram_hold: "\<not> sr_dmem_resp_valid_reg m \<Longrightarrow> sram_step a d k w False m = m"
  by (cases m) (simp add: sram_step_def)

lemma units_quiet:
  assumes "quiet c"
  shows "units_clock True rdy rv rd c c' =
    c'\<lparr>regs := rf_write (wb_enable c) (d_rd (ctl c)) (wb_data c) (regs c),
       vregs := vrf_write (vrf_wen c) (d_rd (ctl c)) (vec_result_reg c) (vregs c),
       vmac_inst := vmac_inst c, valu_inst := valu_inst c, vlsu_inst := vlsu_inst c\<rparr>"
  using assms by (simp add: units_clock_def quiet_def vlsu_idle_hold vmac_idle_hold valu_idle_hold)

end
