(* ===== verification/Core_Timing.thy ===== *)
theory Core_Timing
  imports Soc_Steps
begin

text \<open>
  How the core spends its clocks on one instruction: from the FETCH of a quiet core, through
  DECODE and EXEC (and MEM), to the WB that leaves it ready for the next FETCH, with the
  architectural state the instruction leaves behind in terms of the decoder's signals.
\<close>

section \<open>Ready machines and their architectural state\<close>

fun mach_ready :: "mach \<Rightarrow> bool" where
  "mach_ready (c, m, ia, b) \<longleftrightarrow> cpu_state c = FETCH \<and> ia = pc_reg c \<and> quiet c \<and> \<not> dmem_req_valid_reg c
     \<and> \<not> sr_dmem_resp_valid_reg m"

fun arch_of :: "mach \<Rightarrow> arch" where
  "arch_of (c, m, ia, b) = \<lparr>a_pc = pc_reg c, a_regs = regs c, a_vregs = vregs c, a_mem = sr_mem m,
     a_cycle = cycle_counter c, a_insn = insn_counter c, a_load = load_counter c, a_store = store_counter c,
     a_mtvec = mtvec c, a_mepc = mepc c, a_mcause = mcause c, a_mstatus = mstatus c, a_break = b\<rparr>"

section \<open>Clocks outside WB\<close>

lemma exec_frame:
  "fsm_exec oc c = Some c' \<Longrightarrow>
    (regs c', vregs c', vmac_inst c', valu_inst c', vlsu_inst c', mtvec c', mepc c', mcause c', mstatus c')
      = (regs c, vregs c, vmac_inst c, valu_inst c, vlsu_inst c, mtvec c, mepc c, mcause c, mstatus c)"
  by (auto simp: fsm_exec_def exec_rdwrctr_def exec_vec_def exec_vmac_def exec_alu_def Let_def
      split: if_splits option.splits)

lemma mem_frame:
  "(regs (fsm_mem r v d c), vregs (fsm_mem r v d c), vmac_inst (fsm_mem r v d c), valu_inst (fsm_mem r v d c),
    vlsu_inst (fsm_mem r v d c), mtvec (fsm_mem r v d c), mepc (fsm_mem r v d c), mcause (fsm_mem r v d c),
    mstatus (fsm_mem r v d c))
      = (regs c, vregs c, vmac_inst c, valu_inst c, vlsu_inst c, mtvec c, mepc c, mcause c, mstatus c)"
  by (simp add: fsm_mem_def)

lemma fsm_frame:
  assumes "fsm_clock True w rdy rv rd c = Some c'"
  shows "(regs c', vregs c', vmac_inst c', valu_inst c', vlsu_inst c', mtvec c', mepc c', mcause c', mstatus c')
      = (regs c, vregs c, vmac_inst c, valu_inst c, vlsu_inst c, mtvec c, mepc c, mcause c, mstatus c)"
proof (cases "cpu_state c")
  case EXEC
  with assms exec_frame [of "cycle_counter c" "c\<lparr>cycle_counter := cycle_counter c + 1\<rparr>" c'] show ?thesis
    by (simp add: fsm_clock_def Let_def)
next
  case MEM
  with assms mem_frame [of rdy rv rd "c\<lparr>cycle_counter := cycle_counter c + 1\<rparr>"] show ?thesis
    by (auto simp: fsm_clock_def Let_def)
qed (use assms in \<open>auto simp: fsm_clock_def Let_def fsm_fetch_def fsm_decode_def fsm_wb_def\<close>)

lemma core_same_csrs:
  "mtvec c' = a \<Longrightarrow> mepc c' = b \<Longrightarrow> mcause c' = d \<Longrightarrow> mstatus c' = e \<Longrightarrow>
    c'\<lparr>mtvec := a, mepc := b, mcause := d, mstatus := e\<rparr> = c'"
  by (cases c') simp

lemma core_same_regs: "regs c' = r \<Longrightarrow> vregs c' = v \<Longrightarrow> c'\<lparr>regs := r, vregs := v\<rparr> = c'"
  by (cases c') simp

lemma core_same_units:
  "vmac_inst c' = x \<Longrightarrow> valu_inst c' = y \<Longrightarrow> vlsu_inst c' = z \<Longrightarrow>
    c'\<lparr>vmac_inst := x, valu_inst := y, vlsu_inst := z\<rparr> = c'"
  by (cases c') simp

text \<open>Outside WB a clock is the state machine's, plus the units'.\<close>

lemma cpu_clock_not_wb:
  assumes "cpu_state c \<noteq> WB" "fsm_clock True w rdy rv rd c = Some c'"
  shows "cpu_clock True w rdy rv rd c = Some (units_clock True rdy rv rd c c')"
    and "units_clock True rdy rv rd c c' =
      c'\<lparr>vmac_inst := vmac_step True (case d_vmac_ctrl (ctl c) of None \<Rightarrow> 0 | Some ctrl \<Rightarrow> ctrl)
           (rdata1_reg c) (rdata2_reg c) (vmac_valid_in_reg c) (vmac_inst c),
         valu_inst := valu_step True (ucast (d_vec_op (ctl c))) (d_vec_sew (ctl c)) (vs1_data_reg c) (vs2_data_reg c)
           (vec_valid_in_reg c \<and> \<not> (d_is_vec_load (ctl c) \<or> d_is_vec_store (ctl c))) (valu_inst c),
         vlsu_inst := vlsu_step True (vlsu_start_reg c) (d_is_vec_store (ctl c)) (rdata1_reg c) (vs2_data_reg c)
           rdy rv rd (vlsu_inst c)\<rparr>"
proof -
  have frame: "regs c' = regs c" "vregs c' = vregs c" "mtvec c' = mtvec c" "mepc c' = mepc c"
    "mcause c' = mcause c" "mstatus c' = mstatus c"
    using fsm_frame [OF assms(2)] by simp_all
  show "cpu_clock True w rdy rv rd c = Some (units_clock True rdy rv rd c c')"
    using assms frame by (simp add: cpu_clock_def csr_clock_def core_same_csrs)
  have "rf_write (wb_enable c) (d_rd (ctl c)) (wb_data c) (regs c) = regs c'"
    "vrf_write (vrf_wen c) (d_rd (ctl c)) (vec_result_reg c) (vregs c) = vregs c'"
    using assms(1) frame by (simp_all add: rf_write_def vrf_write_def wb_enable_def vrf_wen_def)
  then show "units_clock True rdy rv rd c c' = c'\<lparr>vmac_inst := vmac_step True (case d_vmac_ctrl (ctl c) of None \<Rightarrow> 0 | Some ctrl \<Rightarrow> ctrl)
           (rdata1_reg c) (rdata2_reg c) (vmac_valid_in_reg c) (vmac_inst c),
         valu_inst := valu_step True (ucast (d_vec_op (ctl c))) (d_vec_sew (ctl c)) (vs1_data_reg c) (vs2_data_reg c)
           (vec_valid_in_reg c \<and> \<not> (d_is_vec_load (ctl c) \<or> d_is_vec_store (ctl c))) (valu_inst c),
         vlsu_inst := vlsu_step True (vlsu_start_reg c) (d_is_vec_store (ctl c)) (rdata1_reg c) (vs2_data_reg c)
           rdy rv rd (vlsu_inst c)\<rparr>"
    unfolding units_clock_def Let_def by (simp only: core_same_regs)
qed

text \<open>A quiet core: the state machine alone.\<close>

lemma cpu_clock_quiet:
  assumes "quiet c" "cpu_state c \<noteq> WB" "fsm_clock True w rdy rv rd c = Some c'"
  shows "cpu_clock True w rdy rv rd c = Some c'"
proof -
  have frame: "vmac_inst c' = vmac_inst c" "valu_inst c' = valu_inst c" "vlsu_inst c' = vlsu_inst c"
    using fsm_frame [OF assms(3)] by simp_all
  have "c'\<lparr>vmac_inst := vmac_inst c, valu_inst := valu_inst c, vlsu_inst := vlsu_inst c\<rparr> = c'"
    using frame by (intro core_same_units) simp_all
  then show ?thesis
    using assms(1) unfolding cpu_clock_not_wb [OF assms(2,3)]
    by (simp add: quiet_def vlsu_idle_hold vmac_idle_hold valu_idle_hold)
qed

text \<open>A quiet core makes no request unless it has one of its own.\<close>

lemma quiet_requests:
  "quiet c \<Longrightarrow> dmem_req_valid c = dmem_req_valid_reg c" "quiet c \<Longrightarrow> dmem_req_addr c = dmem_req_addr_reg c"
  "quiet c \<Longrightarrow> dmem_req_write c = dmem_req_write_reg c" "quiet c \<Longrightarrow> dmem_req_wdata c = dmem_req_wdata_reg c"
  "quiet c \<Longrightarrow> dmem_req_wmask c = dmem_req_wmask_reg c" "quiet c \<Longrightarrow> \<not> vl_waits c"
  by (simp_all add: quiet_def vec_mem_active_def dmem_req_valid_def dmem_req_addr_def dmem_req_write_def
      dmem_req_wdata_def dmem_req_wmask_def vl_waits_def)

lemma mach_clock_quiet:
  assumes "quiet c" "\<not> dmem_req_valid_reg c" "cpu_state c \<noteq> WB" "cpu_state c \<noteq> MEM" "\<not> sr_dmem_resp_valid_reg m"
    "fsm_clock True (sr_mem m (word_index ia)) True False (sram_rdata m) c = Some c'"
  shows "mach_clock (c, m, ia, b) = Some (c', m, pc_reg c, b)"
  using assms quiet_requests [OF assms(1)] cpu_clock_quiet [OF assms(1,3), of "sr_mem m (word_index ia)" True False "sram_rdata m" c']
  by (simp add: bus_ok_def ebreak_hit_def sram_clock_def sram_hold)

section \<open>FETCH and DECODE\<close>

definition exec_start :: "i32 \<Rightarrow> core \<Rightarrow> core" where
  "exec_start w c =
    (let d = decoder_control w in
     c\<lparr>insn_reg := w, pc_saved := pc_reg c, trace_pc_reg := pc_reg c, trace_insn_reg := w, ctl := d,
       rdata1_reg := rf_read (regs c) (d_rs1 d), rdata2_reg := rf_read (regs c) (d_rs2 d),
       vs1_data_reg := vrf_read (vregs c) (d_rs1 d), vs2_data_reg := vrf_read (vregs c) (d_rs2 d),
       cpu_state := EXEC, cycle_counter := cycle_counter c + 2\<rparr>)"

lemma fetch_decode:
  assumes "mach_ready (c, m, ia, b)"
  shows "mach_run 2 (c, m, ia, b) = Some (exec_start (sr_mem m (word_index (pc_reg c))) c, m, pc_reg c, b)"
proof -
  let ?w = "sr_mem m (word_index (pc_reg c))"
  let ?c1 = "fsm_fetch ?w (c\<lparr>cycle_counter := cycle_counter c + 1\<rparr>)"
  have ready: "cpu_state c = FETCH" "ia = pc_reg c" "quiet c" "\<not> dmem_req_valid_reg c" "\<not> sr_dmem_resp_valid_reg m"
    using assms by simp_all
  have "mach_clock (c, m, ia, b) = Some (?c1, m, pc_reg c, b)"
    by (rule mach_clock_quiet) (use ready in \<open>simp_all add: fsm_clock_def Let_def\<close>)
  moreover have "mach_clock (?c1, m, pc_reg c, b) = Some (exec_start ?w c, m, pc_reg c, b)"
  proof -
    have q: "quiet ?c1" using ready(3) by (simp add: quiet_def fsm_fetch_def)
    have "fsm_clock True (sr_mem m (word_index (pc_reg c))) True False (sram_rdata m) ?c1 = Some (exec_start ?w c)"
      by (simp add: fsm_clock_def Let_def fsm_fetch_def fsm_decode_def exec_start_def dec_def rf_rdata1_def rf_rdata2_def
          ac_simps)
    then have "mach_clock (?c1, m, pc_reg c, b) = Some (exec_start ?w c, m, pc_reg ?c1, b)"
      using q ready by (intro mach_clock_quiet) (simp_all add: fsm_fetch_def)
    then show ?thesis by (simp add: fsm_fetch_def)
  qed
  ultimately show ?thesis by (simp del: mach_clock.simps)
qed

section \<open>WB\<close>

text \<open>
  The architectural state after an instruction with control signals \<open>d\<close> that was fetched in
  state \<open>a\<close>, continues at \<open>pc'\<close>, offers \<open>v\<close> and \<open>vv\<close> to the register files, and leaves the
  memory and the counters as given.
\<close>

definition dec_arch :: "decoded \<Rightarrow> arch \<Rightarrow> i32 \<Rightarrow> i32 \<Rightarrow> i64 \<Rightarrow> mem_words \<Rightarrow> i32 \<Rightarrow> i32 \<Rightarrow> i32 \<Rightarrow> i32 \<Rightarrow> arch" where
  "dec_arch d a pc' v vv mem cyc ins ld st =
    (let csr = (ucast (d_imm d) :: 12 word); x = rf_read (a_regs a) (d_rs1 d) in
     \<lparr>a_pc = pc', a_regs = rf_write (d_reg_write d) (d_rd d) v (a_regs a),
      a_vregs = vrf_write (d_vec_reg_write d) (d_rd d) vv (a_vregs a), a_mem = mem,
      a_cycle = cyc, a_insn = ins, a_load = ld, a_store = st,
      a_mtvec = (if csr = 0x035 then x else a_mtvec a), a_mepc = (if csr = 0x341 then x else a_mepc a),
      a_mcause = (if csr = 0x342 then x else a_mcause a), a_mstatus = (if csr = 0x300 then x else a_mstatus a),
      a_break = (a_break a \<or> d_ebreak_hit d)\<rparr>)"

text \<open>What EXEC and MEM leave alone until WB.\<close>

definition in_flight :: "decoded \<Rightarrow> core \<Rightarrow> core \<Rightarrow> bool" where
  "in_flight d c c' \<longleftrightarrow> ctl c' = d \<and> pc_saved c' = pc_reg c \<and> insn_reg c' = insn_reg (exec_start (insn_reg c') c)
     \<and> rdata1_reg c' = rf_read (regs c) (d_rs1 d) \<and> rdata2_reg c' = rf_read (regs c) (d_rs2 d)
     \<and> regs c' = regs c \<and> vregs c' = vregs c
     \<and> mtvec c' = mtvec c \<and> mepc c' = mepc c \<and> mcause c' = mcause c \<and> mstatus c' = mstatus c
     \<and> quiet c' \<and> \<not> dmem_req_valid_reg c'"

lemma wb_clock:
  assumes "in_flight d c c'" "cpu_state c' = WB" "\<not> sr_dmem_resp_valid_reg m'"
  shows "\<exists>x'. mach_clock (c', m', ia', b) = Some x' \<and> mach_ready x' \<and>
    arch_of x' = dec_arch d (arch_of (c, m, ia, b)) (pc_reg c') (wb_data c') (vec_result_reg c') (sr_mem m')
      (cycle_counter c' + 1) (insn_counter c' + 1) (load_counter c') (store_counter c')"
proof -
  have q: "quiet c'" "\<not> dmem_req_valid_reg c'" and d: "ctl c' = d" using assms(1) by (simp_all add: in_flight_def)
  let ?csr = "csr_clock True c'"
  define e where "e = fsm_wb (c'\<lparr>cycle_counter := cycle_counter c' + 1\<rparr>)"
  define f where "f = e\<lparr>mtvec := fst ?csr, mepc := fst (snd ?csr), mcause := fst (snd (snd ?csr)), mstatus := snd (snd (snd ?csr))\<rparr>"
  have clock: "cpu_clock True w True False rd c' = Some (units_clock True True False rd c' f)" for w rd
    by (simp add: cpu_clock_def fsm_clock_def assms(2) e_def f_def Let_def split_beta)
  have "mach_clock (c', m', ia', b) =
      Some (units_clock True True False (sram_rdata m') c' f, m', pc_reg c', b \<or> ebreak_hit c')"
    using q assms(2,3) quiet_requests [OF q(1)] by (simp add: bus_ok_def clock sram_clock_def sram_hold)
  moreover have "mach_ready (units_clock True True False (sram_rdata m') c' f, m', pc_reg c', b \<or> ebreak_hit c')"
    using q assms(3) by (simp add: units_quiet f_def e_def fsm_wb_def quiet_def)
  moreover have "arch_of (units_clock True True False (sram_rdata m') c' f, m', pc_reg c', b \<or> ebreak_hit c')
    = dec_arch d (arch_of (c, m, ia, b)) (pc_reg c') (wb_data c') (vec_result_reg c') (sr_mem m')
      (cycle_counter c' + 1) (insn_counter c' + 1) (load_counter c') (store_counter c')"
    using assms(1,2)
    by (simp add: units_quiet [OF q(1)] f_def e_def fsm_wb_def dec_arch_def Let_def in_flight_def csr_clock_def
        wb_enable_def vrf_wen_def ebreak_hit_def)
  ultimately show ?thesis by blast
qed

section \<open>EXEC without a unit\<close>

lemma exec_start_in_flight:
  "quiet c \<Longrightarrow> \<not> dmem_req_valid_reg c \<Longrightarrow> in_flight (decoder_control w) c (exec_start w c)"
  by (simp add: in_flight_def exec_start_def Let_def quiet_def)

lemma pc_wires: "pc_plus_4 c = pc_saved c + 4" "pc_plus_imm c = pc_saved c + d_imm (ctl c)"
  by (simp_all add: pc_plus_4_def pc_plus_imm_def adder_word)

lemma exec_start_simps [simp]:
  "ctl (exec_start w c) = decoder_control w" "pc_saved (exec_start w c) = pc_reg c"
  "insn_reg (exec_start w c) = w" "cpu_state (exec_start w c) = EXEC" "pc_reg (exec_start w c) = pc_reg c"
  "dec (exec_start w c) = decoder_control w" "regs (exec_start w c) = regs c"
  "rdata1_reg (exec_start w c) = rf_read (regs c) (d_rs1 (decoder_control w))"
  "rdata2_reg (exec_start w c) = rf_read (regs c) (d_rs2 (decoder_control w))"
  "cycle_counter (exec_start w c) = cycle_counter c + 2" "insn_counter (exec_start w c) = insn_counter c"
  "load_counter (exec_start w c) = load_counter c" "store_counter (exec_start w c) = store_counter c"
  "quiet (exec_start w c) = quiet c" "dmem_req_valid_reg (exec_start w c) = dmem_req_valid_reg c"
  by (simp_all add: exec_start_def Let_def dec_def quiet_def)

text \<open>The operands and the result of the arithmetic unit for the instruction in EXEC.\<close>

definition dec_out :: "decoded \<Rightarrow> arch \<Rightarrow> i32" where
  "dec_out d a = (case d_alu_ctrl d of None \<Rightarrow> 0 | Some ctrl \<Rightarrow>
     alu_spec ctrl (if d_is_auipc d then a_pc a else rf_read (a_regs a) (d_rs1 d))
       (if d_alu_src2_sel d then d_imm d else rf_read (a_regs a) (d_rs2 d)))"

lemma exec_start_alu:
  "d_alu_ctrl (decoder_control w) = Some ctrl \<Longrightarrow>
    alu_wires (exec_start w c) = Some (dec_out (decoder_control w) (arch_of (c, m, ia, b)),
      dec_out (decoder_control w) (arch_of (c, m, ia, b)) = 0)"
  by (simp add: alu_wires_def alu_op1_def alu_op2_def rf_rdata1_def rf_rdata2_def dec_out_def alu_spec_eq)

lemma alu_wires_cycle: "alu_wires (c\<lparr>cycle_counter := k\<rparr>) = alu_wires c"
proof -
  have "alu_op1 (c\<lparr>cycle_counter := k\<rparr>) = alu_op1 c" "alu_op2 (c\<lparr>cycle_counter := k\<rparr>) = alu_op2 c"
    by (simp_all add: alu_op1_def alu_op2_def rf_rdata1_def rf_rdata2_def dec_def)
  then show ?thesis by (simp add: alu_wires_def split: option.split)
qed

definition dec_next_pc :: "decoded \<Rightarrow> arch \<Rightarrow> i32" where
  "dec_next_pc d a =
    (let out = dec_out d a in
     if d_is_jal d then a_pc a + d_imm d
     else if d_is_jalr d then out AND NOT 1
     else if take_branch d out (out = 0) then a_pc a + d_imm d else a_pc a + 4)"

definition is_scalar :: "decoded \<Rightarrow> bool" where
  "is_scalar d \<longleftrightarrow> \<not> d_is_rdwrctr d \<and> \<not> d_is_vec_op d \<and> \<not> d_is_vmac d \<and> d_alu_ctrl d \<noteq> None"

text \<open>An instruction is over when the machine is ready again with its architectural state.\<close>

definition runs_to :: "nat \<Rightarrow> mach \<Rightarrow> arch \<Rightarrow> bool" where
  "runs_to n x a \<longleftrightarrow> (\<exists>x'. mach_run n x = Some x' \<and> mach_ready x' \<and> arch_of x' = a)"

lemma runs_to_intro:
  assumes "mach_ready (c, m, ia, b)" "w = sr_mem m (word_index (pc_reg c))"
    "mach_run k (exec_start w c, m, pc_reg c, b) = Some (c', m', ia', b)"
    "in_flight (decoder_control w) c c'" "cpu_state c' = WB" "\<not> sr_dmem_resp_valid_reg m'"
    "a = dec_arch (decoder_control w) (arch_of (c, m, ia, b)) (pc_reg c') (wb_data c') (vec_result_reg c') (sr_mem m')
      (cycle_counter c' + 1) (insn_counter c' + 1) (load_counter c') (store_counter c')"
  shows "runs_to (3 + k) (c, m, ia, b) a"
proof -
  from wb_clock [OF assms(4-6)] obtain x' where x': "mach_clock (c', m', ia', b) = Some x'" "mach_ready x'" "arch_of x' = a"
    using assms(7) by blast
  have "mach_run (2 + (k + 1)) (c, m, ia, b) = Some x'"
    using fetch_decode [OF assms(1)] assms(2,3) x'(1)
    by (simp only: mach_run_add option.case) (simp del: mach_clock.simps)
  moreover have "3 + k = 2 + (k + 1)" by simp
  ultimately have "mach_run (3 + k) (c, m, ia, b) = Some x'" by (simp only:)
  with x' show ?thesis unfolding runs_to_def by (intro exI [of _ x'] conjI)
qed

lemma dec_arch_scalar: "\<not> d_vec_reg_write d \<Longrightarrow> dec_arch d a pc' v vv mem cyc ins ld st = dec_arch d a pc' v 0 mem cyc ins ld st"
  by (simp add: dec_arch_def vrf_write_def)

lemma arch_of_fields:
  assumes "a = arch_of (c, m, ia, b)"
  shows "a_pc a = pc_reg c" "a_regs a = regs c" "a_vregs a = vregs c" "a_mem a = sr_mem m" "a_cycle a = cycle_counter c"
    "a_insn a = insn_counter c" "a_load a = load_counter c" "a_store a = store_counter c"
  using assms by simp_all

lemma timing_alu:
  assumes "mach_ready (c, m, ia, b)" "w = sr_mem m (word_index (pc_reg c))" "d = decoder_control w"
    "is_scalar d" "\<not> d_mem_read d" "\<not> d_mem_write d" "\<not> d_wb_from_mem d" "\<not> d_vec_reg_write d"
    "a = arch_of (c, m, ia, b)"
  shows "runs_to 4 (c, m, ia, b)
    (dec_arch d a (dec_next_pc d a) (if d_is_jal d \<or> d_is_jalr d then a_pc a + 4 else dec_out d a) 0 (a_mem a)
      (a_cycle a + 4) (a_insn a + 1) (a_load a) (a_store a))"
proof -
  have ready: "quiet c" "\<not> dmem_req_valid_reg c" "\<not> sr_dmem_resp_valid_reg m" using assms(1) by simp_all
  obtain ctrl where ctrl: "d_alu_ctrl (decoder_control w) = Some ctrl"
    using assms(3,4) by (auto simp: is_scalar_def)
  let ?c0 = "exec_start w c"
  let ?c' = "?c0\<lparr>alu_out_reg := dec_out d a, pc_reg := dec_next_pc d a, cpu_state := WB, cycle_counter := cycle_counter c + 3\<rparr>"
  let ?c1 = "?c0\<lparr>cycle_counter := cycle_counter c + 3\<rparr>"
  have wires: "alu_wires ?c1 = Some (dec_out d a, dec_out d a = 0)"
    using exec_start_alu [OF ctrl, of c m ia b] assms(3,9)
    by (simp only: alu_wires_cycle)
  have "fsm_clock True (sr_mem m (word_index (pc_reg c))) True False (sram_rdata m) ?c0 = fsm_exec (cycle_counter ?c0) ?c1"
    by (simp add: fsm_clock_def ac_simps)
  also have "\<dots> = exec_alu ?c1"
    using assms(3,4) by (simp add: fsm_exec_def is_scalar_def)
  also have "\<dots> = Some ?c'"
    using assms(3,5,6,9)
    by (simp add: exec_alu_def wires Let_def dec_next_pc_def pc_wires)
  finally have "mach_clock (?c0, m, pc_reg c, b) = Some (?c', m, pc_reg ?c0, b)"
    by (rule mach_clock_quiet [rotated 5]) (use ready in simp_all)
  then have run: "mach_run 1 (?c0, m, pc_reg c, b) = Some (?c', m, pc_reg c, b)"
    by (simp del: mach_clock.simps)
  have fl: "in_flight (decoder_control w) c ?c'"
    using exec_start_in_flight [OF ready(1,2), of w] by (simp add: in_flight_def quiet_def)
  have wb: "wb_data ?c' = (if d_is_jal d \<or> d_is_jalr d then a_pc a + 4 else dec_out d a)"
    using assms(3,7,9) by (auto simp: wb_data_def pc_wires)
  have "runs_to (3 + 1) (c, m, ia, b) (dec_arch (decoder_control w) (arch_of (c, m, ia, b)) (pc_reg ?c') (wb_data ?c')
      (vec_result_reg ?c') (sr_mem m) (cycle_counter ?c' + 1) (insn_counter ?c' + 1) (load_counter ?c') (store_counter ?c'))"
    by (rule runs_to_intro [OF assms(1,2) run fl]) (use ready in simp_all)
  then show ?thesis
    unfolding wb assms(3) [symmetric] assms(9) [symmetric]
    using assms(8) by (simp add: arch_of_fields [OF assms(9)] dec_arch_scalar [where vv = "vec_result_reg _"] ac_simps)
qed

section \<open>The counter instruction\<close>

lemma dec_arch_cong:
  "(d_reg_write d \<Longrightarrow> v = v') \<Longrightarrow> (d_vec_reg_write d \<Longrightarrow> vv = vv') \<Longrightarrow>
    dec_arch d a pc' v vv mem cyc ins ld st = dec_arch d a pc' v' vv' mem cyc ins ld st"
  by (simp add: dec_arch_def rf_write_def vrf_write_def Let_def)

definition dec_counter :: "decoded \<Rightarrow> arch \<Rightarrow> i32" where
  "dec_counter d a =
    (let i = d_rdwrctr_ctr_id d in
     if i = 0 then a_cycle a + 2 else if i = 1 then a_insn a else if i = 2 then a_load a else a_store a)"

lemma timing_rdwrctr:
  assumes "mach_ready (c, m, ia, b)" "w = sr_mem m (word_index (pc_reg c))" "d = decoder_control w"
    "d_is_rdwrctr d" "\<not> d_is_jal d" "\<not> d_is_jalr d" "\<not> d_wb_from_mem d" "\<not> d_vec_reg_write d"
    "a = arch_of (c, m, ia, b)"
    "x = rf_read (a_regs a) (d_rs1 d)" "i = d_rdwrctr_ctr_id d" "wr = d_rdwrctr_wen d"
  shows "runs_to 4 (c, m, ia, b)
    (dec_arch d a (a_pc a + 4) (if wr then alu_out_reg c else dec_counter d a) 0 (a_mem a)
      (if wr \<and> i = 0 then x + 1 else a_cycle a + 4) (if wr \<and> i = 1 then x + 1 else a_insn a + 1)
      (if wr \<and> i = 2 then x else a_load a) (if wr \<and> i \<noteq> 0 \<and> i \<noteq> 1 \<and> i \<noteq> 2 then x else a_store a))"
proof -
  have ready: "quiet c" "\<not> dmem_req_valid_reg c" "\<not> sr_dmem_resp_valid_reg m" using assms(1) by simp_all
  note a = arch_of_fields [OF assms(9)]
  let ?c0 = "exec_start w c"
  let ?c1 = "?c0\<lparr>cycle_counter := cycle_counter c + 3\<rparr>"
  let ?c' = "exec_rdwrctr (cycle_counter c + 2) ?c1"
  have "fsm_clock True (sr_mem m (word_index (pc_reg c))) True False (sram_rdata m) ?c0 = Some ?c'"
    using assms(3,4) by (simp add: fsm_clock_def fsm_exec_def ac_simps)
  then have "mach_clock (?c0, m, pc_reg c, b) = Some (?c', m, pc_reg ?c0, b)"
    by (rule mach_clock_quiet [rotated 5]) (use ready in simp_all)
  then have run: "mach_run 1 (?c0, m, pc_reg c, b) = Some (?c', m, pc_reg c, b)"
    by (simp del: mach_clock.simps)
  have frame: "ctl ?c' = d" "pc_saved ?c' = pc_reg c" "cpu_state ?c' = WB" "pc_reg ?c' = a_pc a + 4"
    "cycle_counter ?c' = (if wr \<and> i = 0 then x else a_cycle a + 3)"
    "insn_counter ?c' = (if wr \<and> i = 1 then x else a_insn a)"
    "load_counter ?c' = (if wr \<and> i = 2 then x else a_load a)"
    "store_counter ?c' = (if wr \<and> i \<noteq> 0 \<and> i \<noteq> 1 \<and> i \<noteq> 2 then x else a_store a)"
    "alu_out_reg ?c' = (if wr then alu_out_reg c else dec_counter d a)"
    using a assms(3,10-12) by (auto simp: exec_start_def exec_rdwrctr_def Let_def pc_wires dec_counter_def)
  have fl: "in_flight (decoder_control w) c ?c'"
    using exec_start_in_flight [OF ready(1,2), of w]
    unfolding exec_rdwrctr_def Let_def
    by (cases "d_rdwrctr_wen (ctl ?c1)"; simp only: if_True if_False) (simp_all add: in_flight_def quiet_def)
  have wb: "wb_data ?c' = (if wr then alu_out_reg c else dec_counter d a)"
    using assms(5-7) frame(1,9) by (auto simp: wb_data_def)
  have "runs_to (3 + 1) (c, m, ia, b) (dec_arch (decoder_control w) (arch_of (c, m, ia, b)) (pc_reg ?c') (wb_data ?c')
      (vec_result_reg ?c') (sr_mem m) (cycle_counter ?c' + 1) (insn_counter ?c' + 1) (load_counter ?c') (store_counter ?c'))"
    by (rule runs_to_intro [OF assms(1,2) run fl]) (use ready frame(3) in simp_all)
  also have "dec_arch (decoder_control w) (arch_of (c, m, ia, b)) (pc_reg ?c') (wb_data ?c')
      (vec_result_reg ?c') (sr_mem m) (cycle_counter ?c' + 1) (insn_counter ?c' + 1) (load_counter ?c') (store_counter ?c')
    = dec_arch d a (a_pc a + 4) (if wr then alu_out_reg c else dec_counter d a) 0 (a_mem a)
      (if wr \<and> i = 0 then x + 1 else a_cycle a + 4) (if wr \<and> i = 1 then x + 1 else a_insn a + 1)
      (if wr \<and> i = 2 then x else a_load a) (if wr \<and> i \<noteq> 0 \<and> i \<noteq> 1 \<and> i \<noteq> 2 then x else a_store a)"
  proof -
    have "dec_arch d a pc' (wb_data ?c') (vec_result_reg ?c') mem cyc ins ld st
        = dec_arch d a pc' (if wr then alu_out_reg c else dec_counter d a) 0 mem cyc ins ld st" for pc' mem cyc ins ld st
      using assms(8) wb by (intro dec_arch_cong) auto
    moreover have "(if p then x else k + 3) + 1 = (if p then x + 1 else k + 4)" "(if p then x else k) + 1 = (if p then x + 1 else k + 1)"
      for p and k :: i32 by simp_all
    ultimately show ?thesis
      unfolding assms(3) [symmetric] assms(9) [symmetric] frame(4-8) a(4) by (simp only:)
  qed
  finally show ?thesis by (simp only: add.commute numeral_plus_one one_plus_numeral arith_simps)
qed

section \<open>Loads and stores\<close>

text \<open>The clock that ends a store, and the two clocks of a load.\<close>

lemma mem_store_clock:
  assumes "cpu_state c' = MEM" "quiet c'" "dmem_req_valid_reg c'" "dmem_req_write_reg c'" "\<not> d_mem_read (ctl c')"
    "\<not> uart_page (dmem_req_addr_reg c')" "\<not> sr_dmem_resp_valid_reg m"
  shows "\<exists>m'. mach_clock (c', m, ia, b) =
      Some (c'\<lparr>cycle_counter := cycle_counter c' + 1, dmem_req_valid_reg := False, pc_reg := pc_plus_4 c', cpu_state := WB,
              store_counter := store_counter c' + 1\<rparr>, m', pc_reg c', b)
    \<and> \<not> sr_dmem_resp_valid_reg m'
    \<and> sr_mem m' = (sr_mem m)(word_index (dmem_req_addr_reg c') :=
          masked_write (dmem_req_wmask_reg c') (dmem_req_wdata_reg c') (sr_mem m (word_index (dmem_req_addr_reg c'))))"
proof -
  have "fsm_clock True w True False rd c' = Some (c'\<lparr>cycle_counter := cycle_counter c' + 1, dmem_req_valid_reg := False,
      pc_reg := pc_plus_4 c', cpu_state := WB, store_counter := store_counter c' + 1\<rparr>)" for w rd
    using assms(1,3,5) by (simp add: fsm_clock_def fsm_mem_def Let_def pc_wires)
  then have "cpu_clock True w True False rd c' = Some (c'\<lparr>cycle_counter := cycle_counter c' + 1, dmem_req_valid_reg := False,
      pc_reg := pc_plus_4 c', cpu_state := WB, store_counter := store_counter c' + 1\<rparr>)" for w rd
    using assms(1,2) by (intro cpu_clock_quiet) simp_all
  then show ?thesis
    using assms quiet_requests [OF assms(2)]
    by (simp add: bus_ok_def ebreak_hit_def sram_clock_def sram_step_def)
qed

lemma mem_load_clocks:
  assumes "cpu_state c' = MEM" "quiet c'" "dmem_req_valid_reg c'" "\<not> dmem_req_write_reg c'" "d_mem_read (ctl c')"
    "\<not> uart_page (dmem_req_addr_reg c')" "\<not> sr_dmem_resp_valid_reg m"
  shows "\<exists>m'. mach_run 2 (c', m, ia, b) =
      Some (c'\<lparr>cycle_counter := cycle_counter c' + 2, dmem_req_valid_reg := False, pc_reg := pc_plus_4 c', cpu_state := WB,
              mem_data_reg := sr_mem m (word_index (dmem_req_addr_reg c')),
              load_counter := load_counter c' + 1\<rparr>, m', pc_reg c', b)
    \<and> \<not> sr_dmem_resp_valid_reg m' \<and> sr_mem m' = sr_mem m"
proof -
  let ?c1 = "c'\<lparr>cycle_counter := cycle_counter c' + 1, dmem_req_valid_reg := False\<rparr>"
  let ?m1 = "m\<lparr>sr_dmem_addr_reg := dmem_req_addr_reg c', sr_dmem_resp_valid_reg := True\<rparr>"
  let ?c2 = "?c1\<lparr>cycle_counter := cycle_counter c' + 2, pc_reg := pc_plus_4 c', cpu_state := WB,
    mem_data_reg := sr_mem m (word_index (dmem_req_addr_reg c')), load_counter := load_counter c' + 1\<rparr>"
  have q1: "quiet ?c1" using assms(2) by (simp add: quiet_def)
  have "cpu_clock True w True False rd c' = Some ?c1" for w rd
    by (rule cpu_clock_quiet [OF assms(2)])
      (use assms(1,3,5) in \<open>simp_all add: fsm_clock_def fsm_mem_def Let_def\<close>)
  then have 1: "mach_clock (c', m, ia, b) = Some (?c1, ?m1, pc_reg c', b)"
    using assms quiet_requests [OF assms(2)]
    by (simp add: bus_ok_def ebreak_hit_def sram_clock_def sram_step_def)
  have "cpu_clock True w True True (sram_rdata ?m1) ?c1 = Some ?c2" for w
    by (rule cpu_clock_quiet [OF q1])
      (use assms(1,3,5) in \<open>simp_all add: fsm_clock_def fsm_mem_def Let_def pc_wires sram_rdata_def\<close>)
  then have "mach_clock (?c1, ?m1, pc_reg c', b) =
      Some (?c2, ?m1\<lparr>sr_dmem_resp_valid_reg := False\<rparr>, pc_reg c', b)"
    using assms quiet_requests [OF q1]
    by (simp add: bus_ok_def ebreak_hit_def sram_clock_def sram_step_def)
  with 1 show ?thesis by (simp del: mach_clock.simps)
qed

text \<open>The EXEC clock of a load or store.\<close>

lemma exec_request:
  assumes "mach_ready (c, m, ia, b)" "d = decoder_control w" "is_scalar d" "d_mem_read d \<or> d_mem_write d"
    "\<not> d_is_jal d" "\<not> d_is_jalr d" "\<not> d_is_branch d" "a = arch_of (c, m, ia, b)"
  shows "mach_clock (exec_start w c, m, pc_reg c, b) = Some ((exec_start w c)\<lparr>alu_out_reg := dec_out d a,
      dmem_req_valid_reg := True, dmem_req_write_reg := d_mem_write d, dmem_req_addr_reg := dec_out d a,
      dmem_req_wdata_reg := (if d_mem_write d then store_wdata (d_mem_mask d) (rf_read (a_regs a) (d_rs2 d))
                             else dmem_req_wdata_reg (exec_start w c)),
      dmem_req_wmask_reg := (if d_mem_write d then store_wmask (d_mem_mask d) (dec_out d a)
                             else dmem_req_wmask_reg (exec_start w c)),
      cpu_state := MEM, cycle_counter := cycle_counter c + 3\<rparr>, m, pc_reg c, b)"
    (is "_ = Some (?c', m, pc_reg c, b)")
proof -
  have ready: "quiet c" "\<not> dmem_req_valid_reg c" "\<not> sr_dmem_resp_valid_reg m" using assms(1) by simp_all
  note a = arch_of_fields [OF assms(8)]
  obtain ctrl where ctrl: "d_alu_ctrl (decoder_control w) = Some ctrl"
    using assms(2,3) by (auto simp: is_scalar_def)
  let ?c0 = "exec_start w c"
  let ?c1 = "?c0\<lparr>cycle_counter := cycle_counter c + 3\<rparr>"
  have wires: "alu_wires ?c1 = Some (dec_out d a, dec_out d a = 0)"
    using exec_start_alu [OF ctrl, of c m ia b] assms(2,8) by (simp only: alu_wires_cycle)
  have "?c0\<lparr>pc_reg := pc_reg c\<rparr> = ?c0" by (simp add: exec_start_def Let_def)
  then have same: "?c1\<lparr>alu_out_reg := dec_out d a, pc_reg := pc_reg c\<rparr> = ?c1\<lparr>alu_out_reg := dec_out d a\<rparr>"
    by (cases "?c0") simp
  have "fsm_clock True (sr_mem m (word_index (pc_reg c))) True False (sram_rdata m) ?c0 = fsm_exec (cycle_counter ?c0) ?c1"
    by (simp add: fsm_clock_def ac_simps)
  also have "\<dots> = exec_alu ?c1"
    using assms(2,3) by (simp add: fsm_exec_def is_scalar_def)
  also have "\<dots> = Some ?c'"
  proof -
    have "exec_alu ?c1 = (let c1 = ?c1\<lparr>alu_out_reg := dec_out d a, pc_reg := pc_reg c\<rparr> in
        Some (c1\<lparr>dmem_req_valid_reg := True, dmem_req_write_reg := d_mem_write d, dmem_req_addr_reg := dec_out d a,
          dmem_req_wdata_reg := (if d_mem_write d then store_wdata (d_mem_mask d) (rdata2_reg ?c1) else dmem_req_wdata_reg ?c1),
          dmem_req_wmask_reg := (if d_mem_write d then store_wmask (d_mem_mask d) (dec_out d a) else dmem_req_wmask_reg ?c1),
          cpu_state := MEM\<rparr>))"
      using assms(2,4-7) unfolding exec_alu_def wires option.case prod.case Let_def
      by (simp add: take_branch_def)
    also have "\<dots> = Some ?c'"
      unfolding Let_def same by (simp add: a assms(2))
    finally show ?thesis .
  qed
  finally have "mach_clock (?c0, m, pc_reg c, b) = Some (?c', m, pc_reg ?c0, b)"
    by (rule mach_clock_quiet [rotated 5]) (use ready in simp_all)
  then show ?thesis by (simp only: exec_start_simps)
qed

lemma timing_store:
  assumes "mach_ready (c, m, ia, b)" "w = sr_mem m (word_index (pc_reg c))" "d = decoder_control w"
    "is_scalar d" "d_mem_write d" "\<not> d_mem_read d" "\<not> d_is_jal d" "\<not> d_is_jalr d" "\<not> d_is_branch d"
    "\<not> d_reg_write d" "\<not> d_vec_reg_write d" "a = arch_of (c, m, ia, b)" "\<not> uart_page (dec_out d a)"
  shows "runs_to 5 (c, m, ia, b)
    (dec_arch d a (a_pc a + 4) 0 0
      ((a_mem a)(word_index (dec_out d a) :=
         masked_write (store_wmask (d_mem_mask d) (dec_out d a)) (store_wdata (d_mem_mask d) (rf_read (a_regs a) (d_rs2 d)))
           (a_mem a (word_index (dec_out d a)))))
      (a_cycle a + 5) (a_insn a + 1) (a_load a) (a_store a + 1))"
proof -
  have ready: "quiet c" "\<not> dmem_req_valid_reg c" "\<not> sr_dmem_resp_valid_reg m" using assms(1) by simp_all
  note a = arch_of_fields [OF assms(12)]
  note req = exec_request [OF assms(1,3,4) _ assms(7-9,12)]
  define c1 where "c1 = (exec_start w c)\<lparr>alu_out_reg := dec_out d a,
      dmem_req_valid_reg := True, dmem_req_write_reg := True, dmem_req_addr_reg := dec_out d a,
      dmem_req_wdata_reg := store_wdata (d_mem_mask d) (rf_read (a_regs a) (d_rs2 d)),
      dmem_req_wmask_reg := store_wmask (d_mem_mask d) (dec_out d a),
      cpu_state := MEM, cycle_counter := cycle_counter c + 3\<rparr>"
  have e: "mach_clock (exec_start w c, m, pc_reg c, b) = Some (c1, m, pc_reg c, b)"
    using req assms(5) by (simp add: c1_def del: mach_clock.simps)
  have c1: "cpu_state c1 = MEM" "quiet c1" "dmem_req_valid_reg c1" "dmem_req_write_reg c1" "\<not> d_mem_read (ctl c1)"
    "\<not> uart_page (dmem_req_addr_reg c1)"
    using assms(3,6,13) ready by (simp_all add: c1_def quiet_def exec_start_def Let_def)
  from mem_store_clock [OF c1 ready(3), of "pc_reg c" b] obtain m' where m': "mach_clock (c1, m, pc_reg c, b) =
      Some (c1\<lparr>cycle_counter := cycle_counter c1 + 1, dmem_req_valid_reg := False, pc_reg := pc_plus_4 c1, cpu_state := WB,
              store_counter := store_counter c1 + 1\<rparr>, m', pc_reg c1, b)"
    "\<not> sr_dmem_resp_valid_reg m'"
    "sr_mem m' = (sr_mem m)(word_index (dmem_req_addr_reg c1) :=
          masked_write (dmem_req_wmask_reg c1) (dmem_req_wdata_reg c1) (sr_mem m (word_index (dmem_req_addr_reg c1))))"
    by blast
  let ?c' = "c1\<lparr>cycle_counter := cycle_counter c1 + 1, dmem_req_valid_reg := False, pc_reg := pc_plus_4 c1, cpu_state := WB,
              store_counter := store_counter c1 + 1\<rparr>"
  have run: "mach_run 2 (exec_start w c, m, pc_reg c, b) = Some (?c', m', pc_reg c1, b)"
    using e m'(1) by (simp del: mach_clock.simps)
  have fl: "in_flight (decoder_control w) c ?c'"
    using exec_start_in_flight [OF ready(1,2), of w] by (simp add: in_flight_def quiet_def c1_def)
  have "runs_to (3 + 2) (c, m, ia, b) (dec_arch (decoder_control w) (arch_of (c, m, ia, b)) (pc_reg ?c') (wb_data ?c')
      (vec_result_reg ?c') (sr_mem m') (cycle_counter ?c' + 1) (insn_counter ?c' + 1) (load_counter ?c') (store_counter ?c'))"
    by (rule runs_to_intro [OF assms(1,2) run fl]) (use m'(2) in simp_all)
  moreover have z: "dec_arch d a pc' (wb_data ?c') (vec_result_reg ?c') mem cyc ins ld st = dec_arch d a pc' 0 0 mem cyc ins ld st"
    for pc' mem cyc ins ld st
    using assms(10,11) by (intro dec_arch_cong) simp_all
  ultimately show ?thesis
    unfolding assms(3) [symmetric] assms(12) [symmetric] m'(3) z
    by (simp add: c1_def pc_wires a ac_simps)
qed

text \<open>The value a load delivers, from the word at the word index of its address.\<close>

definition dec_load :: "decoded \<Rightarrow> i32 \<Rightarrow> i32 \<Rightarrow> i32" where
  "dec_load d addr word =
    (let byte = (lane (unat (addr AND 3)) word :: i8); half = (lane (if bit addr 1 then 1 else 0) word :: i16) in
     if d_mem_mask d = 0x000000FF then (if d_mem_sign_extend d then scast byte else ucast byte)
     else if d_mem_mask d = 0x0000FFFF then (if d_mem_sign_extend d then scast half else ucast half)
     else word)"

lemma mem_data_extended_load: "mem_data_extended c = dec_load (ctl c) (alu_out_reg c) (mem_data_reg c)"
  by (auto simp: mem_data_extended_def dec_load_def mem_byte_wire_def mem_half_wire_def Let_def)

lemma timing_load:
  assumes "mach_ready (c, m, ia, b)" "w = sr_mem m (word_index (pc_reg c))" "d = decoder_control w"
    "is_scalar d" "\<not> d_mem_write d" "d_mem_read d" "d_wb_from_mem d" "\<not> d_is_jal d" "\<not> d_is_jalr d" "\<not> d_is_branch d"
    "\<not> d_vec_reg_write d" "a = arch_of (c, m, ia, b)" "\<not> uart_page (dec_out d a)"
  shows "runs_to 6 (c, m, ia, b)
    (dec_arch d a (a_pc a + 4) (dec_load d (dec_out d a) (a_mem a (word_index (dec_out d a)))) 0 (a_mem a)
      (a_cycle a + 6) (a_insn a + 1) (a_load a + 1) (a_store a))"
proof -
  have ready: "quiet c" "\<not> dmem_req_valid_reg c" "\<not> sr_dmem_resp_valid_reg m" using assms(1) by simp_all
  note a = arch_of_fields [OF assms(12)]
  note req = exec_request [OF assms(1,3,4) _ assms(8-10,12)]
  define c1 where "c1 = (exec_start w c)\<lparr>alu_out_reg := dec_out d a,
      dmem_req_valid_reg := True, dmem_req_write_reg := False, dmem_req_addr_reg := dec_out d a,
      dmem_req_wdata_reg := dmem_req_wdata_reg (exec_start w c), dmem_req_wmask_reg := dmem_req_wmask_reg (exec_start w c),
      cpu_state := MEM, cycle_counter := cycle_counter c + 3\<rparr>"
  have e: "mach_clock (exec_start w c, m, pc_reg c, b) = Some (c1, m, pc_reg c, b)"
    using req assms(5,6) by (simp add: c1_def del: mach_clock.simps)
  have c1: "cpu_state c1 = MEM" "quiet c1" "dmem_req_valid_reg c1" "\<not> dmem_req_write_reg c1" "d_mem_read (ctl c1)"
    "\<not> uart_page (dmem_req_addr_reg c1)"
    using assms(3,6,13) ready by (simp_all add: c1_def quiet_def exec_start_def Let_def)
  from mem_load_clocks [OF c1 ready(3), of "pc_reg c" b] obtain m' where m': "mach_run 2 (c1, m, pc_reg c, b) =
      Some (c1\<lparr>cycle_counter := cycle_counter c1 + 2, dmem_req_valid_reg := False, pc_reg := pc_plus_4 c1, cpu_state := WB,
              mem_data_reg := sr_mem m (word_index (dmem_req_addr_reg c1)),
              load_counter := load_counter c1 + 1\<rparr>, m', pc_reg c1, b)"
    "\<not> sr_dmem_resp_valid_reg m'" "sr_mem m' = sr_mem m"
    by blast
  let ?c' = "c1\<lparr>cycle_counter := cycle_counter c1 + 2, dmem_req_valid_reg := False, pc_reg := pc_plus_4 c1, cpu_state := WB,
              mem_data_reg := sr_mem m (word_index (dmem_req_addr_reg c1)), load_counter := load_counter c1 + 1\<rparr>"
  have "mach_run (1 + 2) (exec_start w c, m, pc_reg c, b) = Some (?c', m', pc_reg c1, b)"
    unfolding mach_run_add using e m'(1) by (simp del: mach_clock.simps mach_run_numeral)
  moreover have "(3 :: nat) = 1 + 2" by simp
  ultimately have run: "mach_run 3 (exec_start w c, m, pc_reg c, b) = Some (?c', m', pc_reg c1, b)" by (simp only:)
  have fl: "in_flight (decoder_control w) c ?c'"
    using exec_start_in_flight [OF ready(1,2), of w] by (simp add: in_flight_def quiet_def c1_def)
  have "runs_to (3 + 3) (c, m, ia, b) (dec_arch (decoder_control w) (arch_of (c, m, ia, b)) (pc_reg ?c') (wb_data ?c')
      (vec_result_reg ?c') (sr_mem m') (cycle_counter ?c' + 1) (insn_counter ?c' + 1) (load_counter ?c') (store_counter ?c'))"
    by (rule runs_to_intro [OF assms(1,2) run fl]) (use m'(2) in simp_all)
  moreover have z: "dec_arch d a pc' (wb_data ?c') (vec_result_reg ?c') mem cyc ins ld st
      = dec_arch d a pc' (dec_load d (dec_out d a) (a_mem a (word_index (dec_out d a)))) 0 mem cyc ins ld st"
    for pc' mem cyc ins ld st
    using assms(3,7-9,11) by (intro dec_arch_cong) (simp_all add: wb_data_def mem_data_extended_load c1_def a)
  ultimately show ?thesis
    unfolding assms(3) [symmetric] assms(12) [symmetric] m'(3) z
    by (simp add: c1_def pc_wires a ac_simps)
qed

end
