(* ===== verification/Core_Units.thy ===== *)
theory Core_Units
  imports Core_Timing
begin

text \<open>
  EXEC while a SIMD unit works: the core clocked with its memory runs the unit exactly as
  \<open>unit_exec\<close> does, so the number of clocks, the result and the memory are those of the unit's
  contract.
\<close>

lemma unit_exec_counts:
  "unit_exec fuel step valid res busy start n u = Some (r, n', u') \<Longrightarrow> n < n'"
proof (induction fuel arbitrary: busy start n u)
  case (Suc fuel)
  from Suc.IH [of True "\<not> busy" "Suc n" "step start u"] Suc.prems show ?case
    by (cases "valid u") simp_all
qed simp

text \<open>One unit steps, the other two hold.\<close>

lemma one_unit:
  "valu_inst c = y \<Longrightarrow> vlsu_inst c = z \<Longrightarrow> c\<lparr>vmac_inst := u, valu_inst := y, vlsu_inst := z\<rparr> = c\<lparr>vmac_inst := u\<rparr>"
  "vmac_inst c = x \<Longrightarrow> vlsu_inst c = z \<Longrightarrow> c\<lparr>vmac_inst := x, valu_inst := v, vlsu_inst := z\<rparr> = c\<lparr>valu_inst := v\<rparr>"
  "vmac_inst c = x \<Longrightarrow> valu_inst c = y \<Longrightarrow> c\<lparr>vmac_inst := x, valu_inst := y, vlsu_inst := t\<rparr> = c\<lparr>vlsu_inst := t\<rparr>"
  by (cases c; simp)+

section \<open>The packed unit\<close>

definition vmac_exec :: "core \<Rightarrow> sram_state \<Rightarrow> 2 word \<Rightarrow> bool" where
  "vmac_exec c m k \<longleftrightarrow> cpu_state c = EXEC \<and> \<not> d_is_rdwrctr (ctl c) \<and> \<not> d_is_vec_op (ctl c) \<and> d_is_vmac (ctl c)
     \<and> d_vmac_ctrl (ctl c) = Some k \<and> \<not> d_is_vec_load (ctl c) \<and> \<not> d_is_vec_store (ctl c)
     \<and> valu_idle (valu_inst c) \<and> vl_state (vlsu_inst c) = IDLE \<and> \<not> vl_done (vlsu_inst c)
     \<and> \<not> vl_mem_valid (vlsu_inst c) \<and> \<not> vec_busy c \<and> \<not> vec_valid_in_reg c \<and> \<not> vlsu_start_reg c
     \<and> \<not> dmem_req_valid_reg c \<and> \<not> sr_dmem_resp_valid_reg m"

text \<open>The state machine's side of one EXEC clock.\<close>

lemma vmac_fsm:
  assumes "vmac_exec c m k"
  shows "fsm_clock True w rdy rv rd c = Some
    (if vm_valid_out (vmac_inst c) then
       c\<lparr>cycle_counter := cycle_counter c + 1, alu_out_reg := vm_result (vmac_inst c), pc_reg := pc_saved c + 4, vmac_busy := False,
         vmac_valid_in_reg := False, cpu_state := WB\<rparr>
     else c\<lparr>cycle_counter := cycle_counter c + 1, vmac_busy := True, vmac_valid_in_reg := \<not> vmac_busy c\<rparr>)"
proof -
  have st: "cpu_state c = EXEC" and d: "\<not> d_is_rdwrctr (ctl c)" "\<not> d_is_vec_op (ctl c)" "d_is_vmac (ctl c)" "d_vmac_ctrl (ctl c) = Some k"
    using assms by (simp_all add: vmac_exec_def)
  have same: "x\<lparr>cpu_state := EXEC\<rparr> = x" if "cpu_state x = EXEC" for x :: core
    using that by (cases x) simp
  have same': "c\<lparr>cycle_counter := k, vmac_busy := True, vmac_valid_in_reg := False\<rparr>
      = c\<lparr>cycle_counter := k, vmac_valid_in_reg := False\<rparr>" if "vmac_busy c" for k
    using that by (cases c) simp
  show ?thesis
    using st d same' [of "cycle_counter c + 1"]
    by (cases "vmac_busy c")
      (auto simp: fsm_clock_def fsm_exec_def exec_vmac_def Let_def pc_wires same)
qed

lemma vmac_exec_clock:
  assumes "vmac_exec c m k"
  shows "mach_clock (c, m, ia, b) = Some
    ((if vm_valid_out (vmac_inst c) then
       c\<lparr>cycle_counter := cycle_counter c + 1, alu_out_reg := vm_result (vmac_inst c), pc_reg := pc_saved c + 4, vmac_busy := False,
         vmac_valid_in_reg := False, cpu_state := WB\<rparr>
     else c\<lparr>cycle_counter := cycle_counter c + 1, vmac_busy := True, vmac_valid_in_reg := \<not> vmac_busy c\<rparr>)
       \<lparr>vmac_inst := vmac_op_step (k, rdata1_reg c, rdata2_reg c) (vmac_valid_in_reg c) (vmac_inst c)\<rparr>, m, pc_reg c, b)"
    (is "_ = Some (?c'\<lparr>vmac_inst := ?u\<rparr>, _, _, _)")
proof -
  note x = assms [unfolded vmac_exec_def]
  have "cpu_clock True w True rv rd c = Some (?c'\<lparr>vmac_inst := ?u\<rparr>)" for w rv rd
  proof -
    have "?c'\<lparr>vmac_inst := ?u, valu_inst := valu_inst c, vlsu_inst := vlsu_inst c\<rparr> = ?c'\<lparr>vmac_inst := ?u\<rparr>"
      by (rule one_unit(1)) simp_all
    moreover have nwb: "cpu_state c \<noteq> WB" using x by simp
    ultimately show ?thesis
      unfolding cpu_clock_not_wb(1) [OF nwb vmac_fsm [OF assms]] cpu_clock_not_wb(2) [OF nwb vmac_fsm [OF assms]]
      using x by (simp add: vlsu_idle_hold valu_idle_hold vmac_op_step_def)
  qed
  then show ?thesis
    using x by (simp add: bus_ok_def ebreak_hit_def vl_waits_def dmem_req_valid_def vec_mem_active_def sram_clock_def sram_hold)
qed

lemma vmac_exec_run:
  "vmac_exec c m k \<Longrightarrow>
   unit_exec fuel (vmac_op_step (k, rdata1_reg c, rdata2_reg c)) vm_valid_out vm_result (vmac_busy c) (vmac_valid_in_reg c) n
     (vmac_inst c) = Some (r, n + j, u) \<Longrightarrow>
   mach_run j (c, m, pc_reg c, b) = Some
     (c\<lparr>cycle_counter := cycle_counter c + of_nat j, alu_out_reg := r, pc_reg := pc_saved c + 4, vmac_busy := False,
        vmac_valid_in_reg := False, cpu_state := WB, vmac_inst := u\<rparr>, m, pc_reg c, b)"
proof (induction fuel arbitrary: c n j)
  case 0
  then show ?case by simp
next
  case (Suc fuel)
  let ?st = "vmac_op_step (k, rdata1_reg c, rdata2_reg c)"
  note clock = vmac_exec_clock [OF Suc.prems(1), of "pc_reg c" b]
  show ?case
  proof (cases "vm_valid_out (vmac_inst c)")
    case True
    with Suc.prems(2) have "r = vm_result (vmac_inst c)" "j = 1" "u = ?st (vmac_valid_in_reg c) (vmac_inst c)"
      by simp_all
    with True clock show ?thesis by (simp del: mach_clock.simps)
  next
    case False
    let ?c = "c\<lparr>cycle_counter := cycle_counter c + 1, vmac_busy := True, vmac_valid_in_reg := \<not> vmac_busy c,
      vmac_inst := ?st (vmac_valid_in_reg c) (vmac_inst c)\<rparr>"
    have "unit_exec fuel ?st vm_valid_out vm_result True (\<not> vmac_busy c) (Suc n) (?st (vmac_valid_in_reg c) (vmac_inst c))
        = Some (r, n + j, u)"
      using False Suc.prems(2) by simp
    moreover from unit_exec_counts [OF this] obtain i where j: "j = Suc i" by (cases j) simp_all
    moreover have "vmac_exec ?c m k" using Suc.prems(1) by (simp add: vmac_exec_def)
    ultimately have "mach_run i (?c, m, pc_reg ?c, b) = Some
     (?c\<lparr>cycle_counter := cycle_counter ?c + of_nat i, alu_out_reg := r, pc_reg := pc_saved ?c + 4, vmac_busy := False,
        vmac_valid_in_reg := False, cpu_state := WB, vmac_inst := u\<rparr>, m, pc_reg ?c, b)"
      by (intro Suc.IH [where n = "Suc n"]) simp_all
    then show ?thesis
      using clock False by (simp add: j ac_simps del: mach_clock.simps)
  qed
qed

section \<open>The vector arithmetic unit\<close>

definition valu_exec :: "core \<Rightarrow> sram_state \<Rightarrow> bool" where
  "valu_exec c m \<longleftrightarrow> cpu_state c = EXEC \<and> \<not> d_is_rdwrctr (ctl c) \<and> d_is_vec_op (ctl c)
     \<and> \<not> d_is_vec_load (ctl c) \<and> \<not> d_is_vec_store (ctl c)
     \<and> vmac_idle (vmac_inst c) \<and> vl_state (vlsu_inst c) = IDLE \<and> \<not> vl_done (vlsu_inst c)
     \<and> \<not> vl_mem_valid (vlsu_inst c) \<and> \<not> vmac_busy c \<and> \<not> vmac_valid_in_reg c \<and> \<not> vlsu_start_reg c
     \<and> \<not> dmem_req_valid_reg c \<and> \<not> sr_dmem_resp_valid_reg m"

definition valu_deliver :: "core \<Rightarrow> i64 \<Rightarrow> core" where
  "valu_deliver c r = (if d_is_vec_vmac (ctl c) then c\<lparr>alu_out_reg := lane 0 r\<rparr> else c\<lparr>vec_result_reg := r\<rparr>)"

lemma valu_fsm:
  assumes "valu_exec c m"
  shows "fsm_clock True w rdy rv rd c = Some
    (if va_valid_out (valu_inst c) then
       (valu_deliver c (va_result (valu_inst c)))\<lparr>cycle_counter := cycle_counter c + 1, pc_reg := pc_saved c + 4, vec_busy := False,
         vec_valid_in_reg := False, cpu_state := WB\<rparr>
     else c\<lparr>cycle_counter := cycle_counter c + 1, vec_busy := True, vec_valid_in_reg := \<not> vec_busy c\<rparr>)"
proof -
  have st: "cpu_state c = EXEC" and d: "\<not> d_is_rdwrctr (ctl c)" "d_is_vec_op (ctl c)" "\<not> d_is_vec_load (ctl c)"
    "\<not> d_is_vec_store (ctl c)" "\<not> vlsu_start_reg c"
    using assms by (simp_all add: valu_exec_def)
  have same: "x\<lparr>cpu_state := EXEC\<rparr> = x" if "cpu_state x = EXEC" for x :: core
    using that by (cases x) simp
  have 1: "c\<lparr>cycle_counter := k, vlsu_start_reg := False, vec_valid_in_reg := False\<rparr>
      = c\<lparr>cycle_counter := k, vec_busy := True, vec_valid_in_reg := False\<rparr>" if "vec_busy c" for k
    using that d(5) by (cases c) simp
  show ?thesis
  proof (cases "va_valid_out (valu_inst c)")
    case True
    then show ?thesis
      using st d by (cases c) (simp add: fsm_clock_def fsm_exec_def exec_vec_def Let_def pc_wires valu_deliver_def)
  next
    case False
    then show ?thesis
      using st d 1 [of "cycle_counter c + 1"] by (cases "vec_busy c") (simp_all add: fsm_clock_def fsm_exec_def exec_vec_def Let_def same)
  qed
qed

definition valu_operands :: "core \<Rightarrow> 2 word \<times> 2 word \<times> i64 \<times> i64" where
  "valu_operands c = (ucast (d_vec_op (ctl c)), d_vec_sew (ctl c), vs1_data_reg c, vs2_data_reg c)"

lemma valu_exec_clock:
  assumes "valu_exec c m"
  shows "mach_clock (c, m, ia, b) = Some
    ((if va_valid_out (valu_inst c) then
       (valu_deliver c (va_result (valu_inst c)))\<lparr>cycle_counter := cycle_counter c + 1, pc_reg := pc_saved c + 4, vec_busy := False,
         vec_valid_in_reg := False, cpu_state := WB\<rparr>
     else c\<lparr>cycle_counter := cycle_counter c + 1, vec_busy := True, vec_valid_in_reg := \<not> vec_busy c\<rparr>)
       \<lparr>valu_inst := valu_op_step (valu_operands c) (vec_valid_in_reg c) (valu_inst c)\<rparr>, m, pc_reg c, b)"
    (is "_ = Some (?c'\<lparr>valu_inst := ?u\<rparr>, _, _, _)")
proof -
  note x = assms [unfolded valu_exec_def]
  have "cpu_clock True w True rv rd c = Some (?c'\<lparr>valu_inst := ?u\<rparr>)" for w rv rd
  proof -
    have "?c'\<lparr>vmac_inst := vmac_inst c, valu_inst := ?u, vlsu_inst := vlsu_inst c\<rparr> = ?c'\<lparr>valu_inst := ?u\<rparr>"
      by (rule one_unit(2)) (simp_all add: valu_deliver_def)
    moreover have nwb: "cpu_state c \<noteq> WB" using x by simp
    moreover have "vmac_step True k y z (vmac_valid_in_reg c) (vmac_inst c) = vmac_inst c" for k y z
      using x by (simp add: vmac_idle_hold)
    moreover have "vlsu_step True (vlsu_start_reg c) g y z True rv rd (vlsu_inst c) = vlsu_inst c" for g y z
      using x by (simp add: vlsu_idle_hold)
    moreover have "valu_step True (ucast (d_vec_op (ctl c))) (d_vec_sew (ctl c)) (vs1_data_reg c) (vs2_data_reg c)
        (vec_valid_in_reg c \<and> \<not> (d_is_vec_load (ctl c) \<or> d_is_vec_store (ctl c))) (valu_inst c) = ?u"
      using x by (simp add: valu_op_step_def valu_operands_def)
    ultimately show ?thesis
      unfolding cpu_clock_not_wb(1) [OF nwb valu_fsm [OF assms]] cpu_clock_not_wb(2) [OF nwb valu_fsm [OF assms]]
      by (simp only:)
  qed
  then show ?thesis
    using x by (simp add: bus_ok_def ebreak_hit_def vl_waits_def dmem_req_valid_def vec_mem_active_def sram_clock_def sram_hold)
qed

lemma valu_exec_run:
  "valu_exec c m \<Longrightarrow>
   unit_exec fuel (valu_op_step (valu_operands c)) va_valid_out va_result (vec_busy c) (vec_valid_in_reg c) n
     (valu_inst c) = Some (r, n + j, u) \<Longrightarrow>
   mach_run j (c, m, pc_reg c, b) = Some
     ((valu_deliver c r)\<lparr>cycle_counter := cycle_counter c + of_nat j, pc_reg := pc_saved c + 4, vec_busy := False,
        vec_valid_in_reg := False, cpu_state := WB, valu_inst := u\<rparr>, m, pc_reg c, b)"
proof (induction fuel arbitrary: c n j)
  case 0
  then show ?case by simp
next
  case (Suc fuel)
  let ?st = "valu_op_step (valu_operands c)"
  note clock = valu_exec_clock [OF Suc.prems(1), of "pc_reg c" b]
  show ?case
  proof (cases "va_valid_out (valu_inst c)")
    case True
    with Suc.prems(2) have "r = va_result (valu_inst c)" "j = 1" "u = ?st (vec_valid_in_reg c) (valu_inst c)"
      by simp_all
    with True clock show ?thesis by (simp del: mach_clock.simps)
  next
    case False
    let ?c = "c\<lparr>cycle_counter := cycle_counter c + 1, vec_busy := True, vec_valid_in_reg := \<not> vec_busy c,
      valu_inst := ?st (vec_valid_in_reg c) (valu_inst c)\<rparr>"
    have st: "valu_operands ?c = valu_operands c" by (simp add: valu_operands_def)
    have "unit_exec fuel ?st va_valid_out va_result True (\<not> vec_busy c) (Suc n) (?st (vec_valid_in_reg c) (valu_inst c))
        = Some (r, n + j, u)"
      using False Suc.prems(2) by simp
    moreover from unit_exec_counts [OF this] obtain i where j: "j = Suc i" by (cases j) simp_all
    moreover have "valu_exec ?c m" using Suc.prems(1) by (simp add: valu_exec_def)
    ultimately have "mach_run i (?c, m, pc_reg ?c, b) = Some
     ((valu_deliver ?c r)\<lparr>cycle_counter := cycle_counter ?c + of_nat i, pc_reg := pc_saved ?c + 4, vec_busy := False,
        vec_valid_in_reg := False, cpu_state := WB, valu_inst := u\<rparr>, m, pc_reg ?c, b)"
      by (intro Suc.IH [where n = "Suc n"]) (simp_all add: st)
    moreover have "(valu_deliver ?c r)\<lparr>cycle_counter := k, pc_reg := p, vec_busy := False, vec_valid_in_reg := False,
        cpu_state := WB, valu_inst := u\<rparr> = (valu_deliver c r)\<lparr>cycle_counter := k, pc_reg := p, vec_busy := False,
        vec_valid_in_reg := False, cpu_state := WB, valu_inst := u\<rparr>" for k p
      by (simp add: valu_deliver_def)
    ultimately show ?thesis
      using clock False by (simp add: j ac_simps del: mach_clock.simps)
  qed
qed

section \<open>The vector load/store unit\<close>

definition vlsu_exec :: "core \<Rightarrow> sram_state \<Rightarrow> bool" where
  "vlsu_exec c m \<longleftrightarrow> cpu_state c = EXEC \<and> \<not> d_is_rdwrctr (ctl c) \<and> d_is_vec_op (ctl c)
     \<and> (d_is_vec_load (ctl c) \<or> d_is_vec_store (ctl c))
     \<and> vmac_idle (vmac_inst c) \<and> valu_idle (valu_inst c) \<and> \<not> vmac_busy c \<and> \<not> vmac_valid_in_reg c
     \<and> \<not> vec_valid_in_reg c \<and> \<not> dmem_req_valid_reg c
     \<and> (let v = vlsu_inst c; base = rdata1_reg c in
        (vl_state v \<noteq> IDLE \<longrightarrow> vec_busy c \<and> vl_addr_reg v = base)
        \<and> (vlsu_start_reg c \<longrightarrow> vec_busy c)
        \<and> (vl_mem_valid v \<longrightarrow> vl_waits c)
        \<and> (vl_state v = WAIT_WORD0 \<longrightarrow> vl_mem_addr v = base)
        \<and> (vl_state v = WAIT_WORD1 \<longrightarrow> vl_mem_addr v = base + 4)
        \<and> \<not> uart_page base \<and> \<not> uart_page (base + 4))"

definition vlsu_operands :: "core \<Rightarrow> vlsu_op" where
  "vlsu_operands c = (d_is_vec_store (ctl c), rdata1_reg c, vs2_data_reg c)"

definition vlsu_deliver :: "core \<Rightarrow> i64 \<Rightarrow> core" where
  "vlsu_deliver c r = c\<lparr>vec_result_reg := (if d_is_vec_load (ctl c) then r else vec_result_reg c)\<rparr>"

lemma vlsu_fsm:
  assumes "vlsu_exec c m"
  shows "fsm_clock True w rdy rv rd c = Some
    (if vl_done (vlsu_inst c) then
       (vlsu_deliver c (vl_load_data (vlsu_inst c)))\<lparr>cycle_counter := cycle_counter c + 1, pc_reg := pc_saved c + 4,
         vec_busy := False, vlsu_start_reg := False, cpu_state := WB\<rparr>
     else c\<lparr>cycle_counter := cycle_counter c + 1, vec_busy := True, vlsu_start_reg := \<not> vec_busy c\<rparr>)"
proof -
  have st: "cpu_state c = EXEC" and d: "\<not> d_is_rdwrctr (ctl c)" "d_is_vec_op (ctl c)"
    "d_is_vec_load (ctl c) \<or> d_is_vec_store (ctl c)" "\<not> vec_valid_in_reg c"
    using assms by (simp_all add: vlsu_exec_def)
  show ?thesis
    using st d by (cases c) (auto simp: fsm_clock_def fsm_exec_def exec_vec_def Let_def pc_wires vlsu_deliver_def)
qed

definition vlsu_both :: "core \<Rightarrow> sram_state \<Rightarrow> vlsu_state \<times> sram_state" where
  "vlsu_both c m = vlsu_op_step (vlsu_operands c) (vlsu_start_reg c) (vlsu_inst c, m)"

text \<open>The requests on the bus are the unit's, and none goes to the serial port.\<close>

lemma vlsu_exec_bus:
  assumes "vlsu_exec c m"
  shows "bus_ok c" "sram_clock c m = snd (vlsu_both c m)"
proof -
  let ?v = "vlsu_inst c"
  have x: "d_is_vec_load (ctl c) \<or> d_is_vec_store (ctl c)" "\<not> dmem_req_valid_reg c" "cpu_state c = EXEC"
    "vl_state ?v \<noteq> IDLE \<Longrightarrow> vec_busy c" "vl_mem_valid ?v \<Longrightarrow> vl_waits c"
    "vl_waits c \<Longrightarrow> \<not> uart_page (vl_mem_addr ?v)"
    using assms by (auto simp: vlsu_exec_def Let_def vl_waits_def)
  have busy: "vl_waits c \<Longrightarrow> vec_busy c" using x(4) by (auto simp: vl_waits_def)
  show "bus_ok c"
    using x busy by (auto simp: bus_ok_def dmem_req_addr_def dmem_req_valid_def vec_mem_active_def)
  show "sram_clock c m = snd (vlsu_both c m)"
  proof (cases "vec_busy c")
    case True
    with x(1) show ?thesis
      by (simp add: sram_clock_def vlsu_both_def vlsu_op_step_def vlsu_operands_def vec_mem_active_def
          dmem_req_addr_def dmem_req_valid_def dmem_req_wdata_def dmem_req_wmask_def dmem_req_write_def)
  next
    case False
    with x busy have "\<not> dmem_req_valid c" "\<not> vl_mem_valid ?v" by (auto simp: dmem_req_valid_def vec_mem_active_def)
    then show ?thesis
      by (simp add: sram_clock_def vlsu_both_def vlsu_op_step_def vlsu_operands_def sram_step_def)
  qed
qed

lemma vlsu_exec_clock:
  assumes "vlsu_exec c m"
  shows "mach_clock (c, m, ia, b) = Some
    ((if vl_done (vlsu_inst c) then
       (vlsu_deliver c (vl_load_data (vlsu_inst c)))\<lparr>cycle_counter := cycle_counter c + 1, pc_reg := pc_saved c + 4,
         vec_busy := False, vlsu_start_reg := False, cpu_state := WB\<rparr>
     else c\<lparr>cycle_counter := cycle_counter c + 1, vec_busy := True, vlsu_start_reg := \<not> vec_busy c\<rparr>)
       \<lparr>vlsu_inst := fst (vlsu_both c m)\<rparr>, snd (vlsu_both c m), pc_reg c, b)"
    (is "_ = Some (?c'\<lparr>vlsu_inst := ?u\<rparr>, _, _, _)")
proof -
  note x = assms [unfolded vlsu_exec_def Let_def]
  have "cpu_clock True w True (sr_dmem_resp_valid_reg m) (sram_rdata m) c = Some (?c'\<lparr>vlsu_inst := ?u\<rparr>)" for w
  proof -
    have "?c'\<lparr>vmac_inst := vmac_inst c, valu_inst := valu_inst c, vlsu_inst := ?u\<rparr> = ?c'\<lparr>vlsu_inst := ?u\<rparr>"
      by (rule one_unit(3)) (simp_all add: vlsu_deliver_def)
    moreover have nwb: "cpu_state c \<noteq> WB" using x by simp
    moreover have "vmac_step True k y z (vmac_valid_in_reg c) (vmac_inst c) = vmac_inst c" for k y z
      using x by (simp add: vmac_idle_hold)
    moreover have "valu_step True e f g h (vec_valid_in_reg c \<and> \<not> (d_is_vec_load (ctl c) \<or> d_is_vec_store (ctl c))) (valu_inst c)
        = valu_inst c" for e f g h
      using x by (simp add: valu_idle_hold)
    moreover have "vlsu_step True (vlsu_start_reg c) (d_is_vec_store (ctl c)) (rdata1_reg c) (vs2_data_reg c) True
        (sr_dmem_resp_valid_reg m) (sram_rdata m) (vlsu_inst c) = ?u"
      by (simp add: vlsu_both_def vlsu_op_step_def vlsu_operands_def)
    ultimately show ?thesis
      unfolding cpu_clock_not_wb(1) [OF nwb vlsu_fsm [OF assms]] cpu_clock_not_wb(2) [OF nwb vlsu_fsm [OF assms]]
      by (simp only:)
  qed
  then have "mach_clock (c, m, ia, b) = Some (?c'\<lparr>vlsu_inst := ?u\<rparr>, snd (vlsu_both c m), pc_reg c, b \<or> ebreak_hit c)"
    using vlsu_exec_bus [OF assms] by simp
  moreover have "\<not> ebreak_hit c" using x by (simp add: ebreak_hit_def)
  ultimately show ?thesis by (simp only: simp_thms)
qed

text \<open>The invariant of a running operation.\<close>

lemma vlsu_exec_step:
  assumes "vlsu_exec c m" "\<not> vl_done (vlsu_inst c)"
  shows "vlsu_exec (c\<lparr>cycle_counter := k, vec_busy := True, vlsu_start_reg := \<not> vec_busy c, vlsu_inst := fst (vlsu_both c m)\<rparr>) m'"
proof -
  note x = assms(1) [unfolded vlsu_exec_def Let_def]
  let ?v = "vlsu_inst c" and ?u = "fst (vlsu_both c m)"
  have u: "?u = vlsu_step True (vlsu_start_reg c) (d_is_vec_store (ctl c)) (rdata1_reg c) (vs2_data_reg c) True
        (sr_dmem_resp_valid_reg m) (sram_rdata m) ?v"
    by (simp add: vlsu_both_def vlsu_op_step_def vlsu_operands_def)
  have "vl_state ?u \<noteq> IDLE \<longrightarrow> vl_addr_reg ?u = rdata1_reg c"
    "vl_mem_valid ?u \<longrightarrow> vl_state ?u = WAIT_WORD0 \<or> vl_state ?u = WAIT_WORD1"
    "vl_state ?u = WAIT_WORD0 \<longrightarrow> vl_mem_addr ?u = rdata1_reg c"
    "vl_state ?u = WAIT_WORD1 \<longrightarrow> vl_mem_addr ?u = rdata1_reg c + 4"
    unfolding u using x by (cases "vl_state ?v"; simp add: vlsu_step_def vl_waits_def)+
  then show ?thesis
    using x by (simp add: vlsu_exec_def Let_def vl_waits_def)
qed

lemma vlsu_exec_run:
  "vlsu_exec c m \<Longrightarrow>
   unit_exec fuel (vlsu_op_step (vlsu_operands c)) (vl_done \<circ> fst) (vl_load_data \<circ> fst) (vec_busy c) (vlsu_start_reg c) n
     (vlsu_inst c, m) = Some (r, n + j, v, m') \<Longrightarrow>
   mach_run j (c, m, pc_reg c, b) = Some
     ((vlsu_deliver c r)\<lparr>cycle_counter := cycle_counter c + of_nat j, pc_reg := pc_saved c + 4, vec_busy := False,
        vlsu_start_reg := False, cpu_state := WB, vlsu_inst := v\<rparr>, m', pc_reg c, b)"
proof (induction fuel arbitrary: c m n j)
  case 0
  then show ?case by simp
next
  case (Suc fuel)
  let ?st = "vlsu_op_step (vlsu_operands c)"
  note clock = vlsu_exec_clock [OF Suc.prems(1), of "pc_reg c" b]
  show ?case
  proof (cases "vl_done (vlsu_inst c)")
    case True
    with Suc.prems(2) have "r = vl_load_data (vlsu_inst c)" "j = 1" "vlsu_both c m = (v, m')"
      by (simp_all add: vlsu_both_def)
    with True clock show ?thesis by (simp del: mach_clock.simps)
  next
    case False
    let ?c = "c\<lparr>cycle_counter := cycle_counter c + 1, vec_busy := True, vlsu_start_reg := \<not> vec_busy c,
      vlsu_inst := fst (vlsu_both c m)\<rparr>" and ?m = "snd (vlsu_both c m)"
    have st: "vlsu_operands ?c = vlsu_operands c" by (simp add: vlsu_operands_def)
    have "unit_exec fuel ?st (vl_done \<circ> fst) (vl_load_data \<circ> fst) True (\<not> vec_busy c) (Suc n) (vlsu_both c m)
        = Some (r, n + j, v, m')"
      using False Suc.prems(2) by (simp add: vlsu_both_def comp_def)
    moreover from unit_exec_counts [OF this] obtain i where j: "j = Suc i" by (cases j) simp_all
    moreover have "vlsu_exec ?c ?m" by (rule vlsu_exec_step [OF Suc.prems(1) False])
    ultimately have "mach_run i (?c, ?m, pc_reg ?c, b) = Some
     ((vlsu_deliver ?c r)\<lparr>cycle_counter := cycle_counter ?c + of_nat i, pc_reg := pc_saved ?c + 4, vec_busy := False,
        vlsu_start_reg := False, cpu_state := WB, vlsu_inst := v\<rparr>, m', pc_reg ?c, b)"
      by (intro Suc.IH [where n = "Suc n"]) (simp_all add: st comp_def)
    moreover have "(vlsu_deliver ?c r)\<lparr>cycle_counter := k, pc_reg := p, vec_busy := False, vlsu_start_reg := False,
        cpu_state := WB, vlsu_inst := v\<rparr> = (vlsu_deliver c r)\<lparr>cycle_counter := k, pc_reg := p, vec_busy := False,
        vlsu_start_reg := False, cpu_state := WB, vlsu_inst := v\<rparr>" for k p
      by (simp add: vlsu_deliver_def)
    ultimately show ?thesis
      using clock False by (simp add: j ac_simps del: mach_clock.simps)
  qed
qed

section \<open>SIMD instructions\<close>

lemma timing_vmac:
  assumes "mach_ready (c, m, ia, b)" "w = sr_mem m (word_index (pc_reg c))" "d = decoder_control w"
    "\<not> d_is_rdwrctr d" "\<not> d_is_vec_op d" "d_is_vmac d" "d_vmac_ctrl d = Some k"
    "\<not> d_is_vec_load d" "\<not> d_is_vec_store d" "\<not> d_is_jal d" "\<not> d_is_jalr d" "\<not> d_wb_from_mem d" "\<not> d_vec_reg_write d"
    "a = arch_of (c, m, ia, b)"
  shows "runs_to (3 + simd_latency w) (c, m, ia, b)
    (dec_arch d a (a_pc a + 4) (vmac_spec k (rf_read (a_regs a) (d_rs1 d)) (rf_read (a_regs a) (d_rs2 d))) 0 (a_mem a)
      (a_cycle a + of_nat (3 + simd_latency w)) (a_insn a + 1) (a_load a) (a_store a))"
proof -
  have ready: "quiet c" "\<not> dmem_req_valid_reg c" "\<not> sr_dmem_resp_valid_reg m" using assms(1) by simp_all
  note a = arch_of_fields [OF assms(14)]
  let ?c0 = "exec_start w c" and ?x = "rf_read (a_regs a) (d_rs1 d)" and ?y = "rf_read (a_regs a) (d_rs2 d)"
  let ?l = "simd_latency w"
  have lat: "?l = vmac_latency (k, ?x, ?y)"
    using assms(3,5,7) by (simp add: simd_latency_def Let_def vmac_latency_def)
  have fields: "vmac_inst ?c0 = vmac_inst c" "\<not> vmac_busy ?c0" "\<not> vmac_valid_in_reg ?c0"
    using ready by (simp_all add: exec_start_def Let_def quiet_def)
  have ex: "vmac_exec ?c0 m k"
    using ready assms(3-9) by (simp add: vmac_exec_def exec_start_def Let_def quiet_def)
  have "vmac_idle (vmac_inst c)" using ready by (simp add: quiet_def)
  then obtain u where u: "unit_exec ?l (vmac_op_step (k, ?x, ?y)) vm_valid_out vm_result False False 0 (vmac_inst c)
      = Some (vmac_spec k ?x ?y, 0 + ?l, u)" "vmac_idle u"
    using vmac.exec_enough_fuel [of "vmac_inst c" "(k, ?x, ?y)" ?l 0] lat by auto
  let ?c' = "?c0\<lparr>cycle_counter := cycle_counter ?c0 + of_nat ?l, alu_out_reg := vmac_spec k ?x ?y, pc_reg := pc_saved ?c0 + 4,
    vmac_busy := False, vmac_valid_in_reg := False, cpu_state := WB, vmac_inst := u\<rparr>"
  have run: "mach_run ?l (?c0, m, pc_reg c, b) = Some (?c', m, pc_reg c, b)"
    using vmac_exec_run [OF ex, of ?l 0 "vmac_spec k ?x ?y" ?l u b] u(1) fields by (simp add: a assms(3))
  have fl: "in_flight (decoder_control w) c ?c'"
    using exec_start_in_flight [OF ready(1,2), of w] u(2) by (simp add: in_flight_def quiet_def)
  have "runs_to (3 + ?l) (c, m, ia, b) (dec_arch (decoder_control w) (arch_of (c, m, ia, b)) (pc_reg ?c') (wb_data ?c')
      (vec_result_reg ?c') (sr_mem m) (cycle_counter ?c' + 1) (insn_counter ?c' + 1) (load_counter ?c') (store_counter ?c'))"
    by (rule runs_to_intro [OF assms(1,2) run fl]) (use ready in simp_all)
  moreover have wb: "wb_data ?c' = vmac_spec k ?x ?y"
    using assms(3,10-12) by (simp add: wb_data_def)
  ultimately show ?thesis
    unfolding assms(3) [symmetric] assms(14) [symmetric] wb
    using assms(13) by (simp add: a dec_arch_scalar [where vv = "vec_result_reg _"] ac_simps)
qed

lemma timing_valu:
  assumes "mach_ready (c, m, ia, b)" "w = sr_mem m (word_index (pc_reg c))" "d = decoder_control w"
    "\<not> d_is_rdwrctr d" "d_is_vec_op d" "simd_supported w"
    "\<not> d_is_vec_load d" "\<not> d_is_vec_store d" "\<not> d_is_jal d" "\<not> d_is_jalr d" "\<not> d_wb_from_mem d"
    "d_reg_write d \<longrightarrow> d_is_vec_vmac d" "d_vec_reg_write d \<longrightarrow> \<not> d_is_vec_vmac d"
    "a = arch_of (c, m, ia, b)"
    "r = valu_spec (ucast (d_vec_op d)) (d_vec_sew d) (vrf_read (a_vregs a) (d_rs1 d)) (vrf_read (a_vregs a) (d_rs2 d))"
  shows "runs_to (3 + simd_latency w) (c, m, ia, b)
    (dec_arch d a (a_pc a + 4) (lane 0 r) r (a_mem a)
      (a_cycle a + of_nat (3 + simd_latency w)) (a_insn a + 1) (a_load a) (a_store a))"
proof -
  have ready: "quiet c" "\<not> dmem_req_valid_reg c" "\<not> sr_dmem_resp_valid_reg m" using assms(1) by simp_all
  note a = arch_of_fields [OF assms(14)]
  let ?c0 = "exec_start w c"
  let ?l = "simd_latency w"
  have lat: "?l = valu_latency (valu_operands ?c0)"
    using assms(3,5,7,8) by (simp add: simd_latency_def Let_def valu_latency_def valu_operands_def)
  have sup: "valu_supported (valu_operands ?c0)"
    using assms(3,5-8) by (simp add: simd_supported_def Let_def valu_supported_def valu_operands_def)
  have fields: "valu_inst ?c0 = valu_inst c" "\<not> vec_busy ?c0" "\<not> vec_valid_in_reg ?c0"
    using ready by (simp_all add: exec_start_def Let_def quiet_def)
  have ex: "valu_exec ?c0 m"
    using ready assms(3-8) by (simp add: valu_exec_def exec_start_def Let_def quiet_def)
  have ops: "valu_operands ?c0 = (ucast (d_vec_op d), d_vec_sew d, vrf_read (a_vregs a) (d_rs1 d), vrf_read (a_vregs a) (d_rs2 d))"
    using assms(3) a by (simp add: valu_operands_def exec_start_def Let_def)
  have "valu_idle (valu_inst c)" using ready by (simp add: quiet_def)
  then obtain u where u: "unit_exec ?l (valu_op_step (valu_operands ?c0)) va_valid_out va_result False False 0 (valu_inst c)
      = Some (r, 0 + ?l, u)" "valu_idle u"
    using valu.exec_enough_fuel [of "valu_inst c" "valu_operands ?c0" ?l 0] lat sup by (auto simp: ops assms(15))
  let ?c' = "(valu_deliver ?c0 r)\<lparr>cycle_counter := cycle_counter ?c0 + of_nat ?l, pc_reg := pc_saved ?c0 + 4,
    vec_busy := False, vec_valid_in_reg := False, cpu_state := WB, valu_inst := u\<rparr>"
  have run: "mach_run ?l (?c0, m, pc_reg c, b) = Some (?c', m, pc_reg c, b)"
    using valu_exec_run [OF ex, of ?l 0 r ?l u b] u(1) fields by simp
  have fl: "in_flight (decoder_control w) c ?c'"
    using exec_start_in_flight [OF ready(1,2), of w] u(2) by (simp add: in_flight_def quiet_def valu_deliver_def)
  have "runs_to (3 + ?l) (c, m, ia, b) (dec_arch (decoder_control w) (arch_of (c, m, ia, b)) (pc_reg ?c') (wb_data ?c')
      (vec_result_reg ?c') (sr_mem m) (cycle_counter ?c' + 1) (insn_counter ?c' + 1) (load_counter ?c') (store_counter ?c'))"
    by (rule runs_to_intro [OF assms(1,2) run fl]) (use ready in simp_all)
  moreover have z: "dec_arch d a pc' (wb_data ?c') (vec_result_reg ?c') mem cyc ins ld st
      = dec_arch d a pc' (lane 0 r) r mem cyc ins ld st" for pc' mem cyc ins ld st
    using assms(3,9-13) by (intro dec_arch_cong) (simp_all add: wb_data_def valu_deliver_def)
  moreover have "cycle_counter ?c' = cycle_counter c + 2 + of_nat ?l" "insn_counter ?c' = insn_counter c"
    "load_counter ?c' = load_counter c" "store_counter ?c' = store_counter c" "pc_reg ?c' = pc_reg c + 4"
    by (simp_all add: valu_deliver_def)
  ultimately show ?thesis
    unfolding assms(3) [symmetric] assms(14) [symmetric] z by (simp add: a ac_simps)
qed

lemma timing_vlsu:
  assumes "mach_ready (c, m, ia, b)" "w = sr_mem m (word_index (pc_reg c))" "d = decoder_control w"
    "\<not> d_is_rdwrctr d" "d_is_vec_op d"
    "d_is_vec_load d \<or> d_is_vec_store d" "d_is_vec_load d \<longleftrightarrow> \<not> d_is_vec_store d"
    "\<not> d_reg_write d" "d_vec_reg_write d \<longrightarrow> d_is_vec_load d"
    "a = arch_of (c, m, ia, b)" "x = rf_read (a_regs a) (d_rs1 d)" "\<not> uart_page x" "\<not> uart_page (x + 4)"
  shows "runs_to (3 + simd_latency w) (c, m, ia, b)
    (dec_arch d a (a_pc a + 4) 0 (mem_load64 (a_mem a) x)
      (if d_is_vec_store d then mem_store64 x (vrf_read (a_vregs a) (d_rs2 d)) (a_mem a) else a_mem a)
      (a_cycle a + of_nat (3 + simd_latency w)) (a_insn a + 1) (a_load a) (a_store a))"
proof -
  have ready: "quiet c" "\<not> dmem_req_valid_reg c" "\<not> sr_dmem_resp_valid_reg m" using assms(1) by simp_all
  note a = arch_of_fields [OF assms(10)]
  let ?c0 = "exec_start w c"
  let ?l = "simd_latency w"
  have lat: "?l = vlsu_latency (vlsu_operands ?c0)"
    using assms(3,5,6) by (auto simp: simd_latency_def Let_def vlsu_latency_def vlsu_operands_def)
  have fields: "vlsu_inst ?c0 = vlsu_inst c" "\<not> vec_busy ?c0" "\<not> vlsu_start_reg ?c0"
    using ready by (simp_all add: exec_start_def Let_def quiet_def)
  have ex: "vlsu_exec ?c0 m"
    using ready assms(3-6,11-13) a by (simp add: vlsu_exec_def exec_start_def Let_def quiet_def vl_waits_def)
  have ops: "vlsu_operands ?c0 = (d_is_vec_store d, x, vrf_read (a_vregs a) (d_rs2 d))"
    using assms(3,11) a by (simp add: vlsu_operands_def exec_start_def Let_def)
  have idle: "vlsu_idle (vlsu_inst c, m)" using ready by (simp add: quiet_def vlsu_idle_def)
  obtain u where u: "unit_exec ?l (vlsu_op_step (vlsu_operands ?c0)) (vl_done \<circ> fst) (vl_load_data \<circ> fst) False False 0 (vlsu_inst c, m)
      = Some (fst (vlsu_spec (vlsu_operands ?c0) (vlsu_view (vlsu_inst c, m))), 0 + ?l, u)" "vlsu_idle u"
    "vlsu_view u = snd (vlsu_spec (vlsu_operands ?c0) (vlsu_view (vlsu_inst c, m)))"
    using vlsu.exec_enough_fuel [of "(vlsu_inst c, m)" "vlsu_operands ?c0" ?l 0] lat idle by auto
  obtain v m' where vm: "u = (v, m')" by (cases u)
  define r where "r = fst (vlsu_spec (vlsu_operands ?c0) (vlsu_view (vlsu_inst c, m)))"
  have r: "d_is_vec_load d \<longrightarrow> r = mem_load64 (a_mem a) x"
    using assms(7) by (simp add: r_def ops vlsu_spec_def vlsu_view_def a)
  have mem: "sr_mem m' = (if d_is_vec_store d then mem_store64 x (vrf_read (a_vregs a) (d_rs2 d)) (a_mem a) else a_mem a)"
    using u(3) by (auto simp: vm ops vlsu_spec_def vlsu_view_def a split: if_splits)
  let ?c' = "(vlsu_deliver ?c0 r)\<lparr>cycle_counter := cycle_counter ?c0 + of_nat ?l, pc_reg := pc_saved ?c0 + 4,
    vec_busy := False, vlsu_start_reg := False, cpu_state := WB, vlsu_inst := v\<rparr>"
  have run: "mach_run ?l (?c0, m, pc_reg c, b) = Some (?c', m', pc_reg c, b)"
    using vlsu_exec_run [OF ex, of ?l 0 r ?l v m' b] u(1) fields by (simp add: vm r_def)
  have fl: "in_flight (decoder_control w) c ?c'"
    using exec_start_in_flight [OF ready(1,2), of w] u(2)
    by (simp add: in_flight_def quiet_def vlsu_deliver_def vm vlsu_idle_def)
  have "runs_to (3 + ?l) (c, m, ia, b) (dec_arch (decoder_control w) (arch_of (c, m, ia, b)) (pc_reg ?c') (wb_data ?c')
      (vec_result_reg ?c') (sr_mem m') (cycle_counter ?c' + 1) (insn_counter ?c' + 1) (load_counter ?c') (store_counter ?c'))"
    by (rule runs_to_intro [OF assms(1,2) run fl]) (use u(2) vm in \<open>simp_all add: vlsu_idle_def\<close>)
  moreover have z: "dec_arch d a pc' (wb_data ?c') (vec_result_reg ?c') mem cyc ins ld st
      = dec_arch d a pc' 0 (mem_load64 (a_mem a) x) mem cyc ins ld st" for pc' mem cyc ins ld st
    using assms(3,8,9) r by (intro dec_arch_cong) (simp_all add: vlsu_deliver_def)
  moreover have "cycle_counter ?c' = cycle_counter c + 2 + of_nat ?l" "insn_counter ?c' = insn_counter c"
    "load_counter ?c' = load_counter c" "store_counter ?c' = store_counter c" "pc_reg ?c' = pc_reg c + 4"
    by (simp_all add: vlsu_deliver_def)
  ultimately show ?thesis
    unfolding assms(3) [symmetric] assms(10) [symmetric] z mem by (simp add: a ac_simps)
qed

end
