(* ===== verification/Isa_Decode.thy ===== *)
theory Isa_Decode
  imports Core_Units
begin

text \<open>
  The decoder, the arithmetic unit and the byte lanes of the memory port against the instruction
  set: what the signals make of each opcode is what the specification says of it.
\<close>

section \<open>Byte lanes\<close>

lemma bit_word_index: "bit (word_index addr) n \<longleftrightarrow> n < 22 \<and> bit addr (n + 2)"
  unfolding word_index_def by (simp only: bit_ucast_iff bit_drop_bit_eq comp_def add.commute) simp

lemma bit_three: "bit (3 :: i32) n \<longleftrightarrow> n < 2"
proof -
  have "(3 :: i32) = mask 2" by (simp add: mask_eq_exp_minus_1)
  then show ?thesis by (simp only: bit_mask_iff) auto
qed

lemma add_low_bits:
  assumes "k AND 3 = k" "addr AND k = (0 :: i32)"
  shows "addr + k = addr OR k" "word_index (addr + k) = word_index addr" "(addr + k) AND 3 = (addr AND 3) OR k"
proof -
  show or: "addr + k = addr OR k"
    using assms(2) by (simp add: disjunctive_add_eq_or)
  have high: "\<not> bit k n" if "2 \<le> n" for n
  proof
    assume "bit k n"
    then have "bit (k AND 3) n" using assms(1) by simp
    with that show False by (simp only: bit_and_iff bit_three) simp
  qed
  show "word_index (addr + k) = word_index addr"
    unfolding or by (rule bit_word_eqI) (simp add: bit_word_index bit_or_iff high)
  show "(addr + k) AND 3 = (addr AND 3) OR k"
    unfolding or by (subst (2) assms(1) [symmetric]) (rule bit_word_eqI, auto simp: bit_simps)
qed

lemma byte_offset: "addr AND 3 = 0 \<or> addr AND 3 = 1 \<or> addr AND 3 = 2 \<or> addr AND 3 = (3 :: i32)"
proof -
  have "unat (addr AND 3) \<le> unat (3 :: i32)" by (simp only: word_le_nat_alt [symmetric] word_and_le1)
  then have "unat (addr AND 3) \<in> {0, 1, 2, 3}" by auto
  then show ?thesis by (auto simp: word_unat_eq_iff)
qed

lemma even_offset:
  assumes "addr AND 1 = (0 :: i32)"
  shows "addr AND 3 = (if bit addr 1 then 2 else 0)"
proof -
  have 1: "addr AND 3 = 1 \<Longrightarrow> False" "addr AND 3 = 3 \<Longrightarrow> False"
    using assms and.assoc [of addr 3 1] by auto
  have "bit (addr AND 3) 1 = bit addr 1" by (simp only: bit_and_iff bit_three) simp
  with byte_offset [of addr] 1 show ?thesis by (auto split: if_splits)
qed

text \<open>The bytes of an aligned half and an aligned word.\<close>

lemma lanes_half:
  fixes u :: i32
  shows "pack_lanes [lane 0 u :: i8, lane (Suc 0) u] = (lane 0 u :: i16)" "pack_lanes [lane 2 u :: i8, lane 3 u] = (lane (Suc 0) u :: i16)"
proof -
  have eight: "n < 8 \<or> (\<exists>m. n = 8 + m)" for n :: nat by (metis le_Suc_ex not_less)
  show "pack_lanes [lane 0 u :: i8, lane (Suc 0) u] = (lane 0 u :: i16)"
  proof (rule bit_word_eqI)
    fix n :: nat assume "n < LENGTH(16)"
    with eight [of n] show "bit (pack_lanes [lane 0 u :: i8, lane (Suc 0) u] :: i16) n = bit (lane 0 u :: i16) n"
      by (auto simp: lane_def bit_simps)
  qed
  show "pack_lanes [lane 2 u :: i8, lane 3 u] = (lane (Suc 0) u :: i16)"
  proof (rule bit_word_eqI)
    fix n :: nat assume "n < LENGTH(16)"
    with eight [of n] show "bit (pack_lanes [lane 2 u :: i8, lane 3 u] :: i16) n = bit (lane (Suc 0) u :: i16) n"
      by (auto simp: lane_def bit_simps)
  qed
qed

lemma half_lane:
  assumes "addr AND 1 = 0"
  shows "half_at mem addr = lane (if bit addr 1 then 1 else 0) (mem (word_index addr))"
  using even_offset [OF assms] add_low_bits [of 1 addr] assms lanes_half [of "mem (word_index addr)"]
  by (cases "bit addr 1") (simp_all add: half_at_def byte_at_def del: pack_lanes.simps)

lemma aligned_bits:
  assumes "addr AND 3 = (0 :: i32)"
  shows "addr AND 1 = 0" "addr AND 2 = 0"
  using and.assoc [of addr 3 1] and.assoc [of addr 3 2] assms by simp_all

lemma word_lane:
  assumes "addr AND 3 = 0"
  shows "word_at mem addr = mem (word_index addr)"
proof -
  have "pack_lanes (map (\<lambda>i. lane i (mem (word_index addr)) :: i8) [0..<4]) = mem (word_index addr)"
    by (rule pack_lanes_of_lanes) simp
  moreover have "[0..<4] = [0, Suc 0, 2, 3 :: nat]" by (simp add: upt_rec)
  ultimately show ?thesis
    using add_low_bits [of 1 addr] add_low_bits [of 2 addr] add_low_bits [of 3 addr] assms aligned_bits [OF assms]
    by (simp add: word_at_def byte_at_def del: pack_lanes.simps)
qed

text \<open>The masked writes of the three store widths are the writes of their bytes.\<close>

lemma upt_four: "[0..<4] = [0, Suc 0, 2, 3 :: nat]"
  by (simp add: upt_rec)

lemma masked_write_bytes:
  "masked_write wm d old = pack_lanes [if bit wm 0 then lane 0 d else lane 0 old :: i8,
     if bit wm (Suc 0) then lane (Suc 0) d else lane (Suc 0) old,
     if bit wm 2 then lane 2 d else lane 2 old, if bit wm 3 then lane 3 d else lane 3 old]"
  by (simp add: masked_write_def upt_four del: pack_lanes.simps)

lemma put_byte_bytes:
  "put_byte addr v mem = mem(word_index addr := pack_lanes
     [if addr AND 3 = 0 then v else lane 0 (mem (word_index addr)), if addr AND 3 = 1 then v else lane (Suc 0) (mem (word_index addr)),
      if addr AND 3 = 2 then v else lane 2 (mem (word_index addr)), if addr AND 3 = 3 then v else lane 3 (mem (word_index addr))])"
  using byte_offset [of addr] by (elim disjE) (simp_all add: put_byte_def upt_four del: pack_lanes.simps)

lemma lane_bytes:
  fixes a b c d :: i8
  shows "lane 0 (pack_lanes [a, b, c, d] :: i32) = a" "lane (Suc 0) (pack_lanes [a, b, c, d] :: i32) = b"
    "lane 2 (pack_lanes [a, b, c, d] :: i32) = c" "lane 3 (pack_lanes [a, b, c, d] :: i32) = d"
  by (simp_all add: lane_pack_lanes del: pack_lanes.simps)

lemma replicate_lanes: "replicate 4 x = [x, x, x, x]" "replicate 2 x = [x, x]"
  by (simp_all add: eval_nat_numeral)

lemma store_byte:
  "mem(word_index addr := masked_write (store_wmask 0xFF addr) (store_wdata 0xFF y) (mem (word_index addr)))
    = put_byte addr (lane 0 y) mem"
  using byte_offset [of addr]
  by (elim disjE)
    (simp_all add: masked_write_bytes put_byte_bytes store_wmask_def store_wdata_def replicate_lanes lane_bytes del: pack_lanes.simps)

lemma bytes_of_halves:
  fixes y :: i32
  shows "lane 0 (pack_lanes [lane 0 y :: i16, lane 0 y] :: i32) = (lane 0 y :: i8)"
    "lane (Suc 0) (pack_lanes [lane 0 y :: i16, lane 0 y] :: i32) = (lane (Suc 0) y :: i8)"
    "lane 2 (pack_lanes [lane 0 y :: i16, lane 0 y] :: i32) = (lane 0 y :: i8)"
    "lane 3 (pack_lanes [lane 0 y :: i16, lane 0 y] :: i32) = (lane (Suc 0) y :: i8)"
  by (rule bit_word_eqI; simp add: lane_def bit_simps; arith?)+

lemma store_half:
  assumes "addr AND 1 = 0"
  shows "mem(word_index addr := masked_write (store_wmask 0xFFFF addr) (store_wdata 0xFFFF y) (mem (word_index addr)))
    = put_byte (addr + 1) (lane 1 y) (put_byte addr (lane 0 y) mem)"
  using even_offset [OF assms] add_low_bits [of 1 addr] assms
  by (cases "bit addr 1")
    (simp_all add: masked_write_bytes put_byte_bytes store_wmask_def store_wdata_def replicate_lanes bytes_of_halves lane_bytes del: pack_lanes.simps)

lemma store_word:
  assumes "addr AND 3 = 0"
  shows "mem(word_index addr := masked_write (store_wmask 0xFFFFFFFF addr) (store_wdata 0xFFFFFFFF y) (mem (word_index addr)))
    = put_byte (addr + 3) (lane 3 y) (put_byte (addr + 2) (lane 2 y) (put_byte (addr + 1) (lane 1 y) (put_byte addr (lane 0 y) mem)))"
  using add_low_bits [of 1 addr] add_low_bits [of 2 addr] add_low_bits [of 3 addr] assms aligned_bits [OF assms]
  by (simp add: masked_write_bytes put_byte_bytes store_wmask_def store_wdata_def lane_bytes del: pack_lanes.simps)

section \<open>Signals\<close>

lemma decoder_fields:
  "d_rd (decoder_control w) = rd_of w"
  "d_rs1 (decoder_control w) = (if is_u_type w then 0 else rs1_of w)" "d_rs2 (decoder_control w) = rs2_of w"
  "d_imm (decoder_control w) = dec_imm w" "d_alu_ctrl (decoder_control w) = dec_alu_ctrl w"
  "d_alu_src2_sel (decoder_control w) = (is_i_type w \<or> is_s_type w \<or> is_u_type w)"
  "d_mem_write (decoder_control w) = is_s_type w" "d_mem_read (decoder_control w) = (opcode_of w = 0x03)"
  "d_wb_from_mem (decoder_control w) = (opcode_of w = 0x03)" "d_mem_mask (decoder_control w) = dec_mem_mask w"
  "d_mem_sign_extend (decoder_control w) = (opcode_of w = 0x03 \<and> \<not> bit (funct3_of w) 2)"
  "d_is_branch (decoder_control w) = is_b_type w" "d_branch_if_set (decoder_control w) = bit (funct3_of w) 0"
  "d_is_branch_compare (decoder_control w) = (is_b_type w \<and> bit (funct3_of w) 2)"
  "d_is_jal (decoder_control w) = is_j_type w" "d_is_jalr (decoder_control w) = (opcode_of w = 0x67)"
  "d_is_auipc (decoder_control w) = (opcode_of w = 0x17)"
  "d_reg_write (decoder_control w) = ((\<not> is_b_type w \<and> \<not> is_s_type w \<and> \<not> is_vec_type w)
     \<or> is_vmac_type w \<or> (is_rdwrctr_type w \<and> \<not> bit w 31) \<or> (is_vec_type w \<and> vop_of w = VOP_VMAC))"
  "d_ebreak_hit (decoder_control w) = (opcode_of w = 0x73 \<and> funct3_of w = 0)"
  "d_is_vmac (decoder_control w) = is_vmac_type w" "d_vmac_ctrl (decoder_control w) = dec_vmac_ctrl w"
  "d_is_rdwrctr (decoder_control w) = is_rdwrctr_type w"
  "d_rdwrctr_wen (decoder_control w) = (is_rdwrctr_type w \<and> bit w 31)"
  "d_rdwrctr_ctr_id (decoder_control w) = field 20 w" "d_is_vec_op (decoder_control w) = is_vec_type w"
  "d_is_vec_load (decoder_control w) = (is_vec_type w \<and> vop_of w = VOP_VLD)"
  "d_is_vec_store (decoder_control w) = (is_vec_type w \<and> vop_of w = VOP_VST)"
  "d_is_vec_vmac (decoder_control w) = (is_vec_type w \<and> vop_of w = VOP_VMAC)"
  "d_vec_reg_write (decoder_control w) = (is_vec_type w \<and> (vop_of w = VOP_VADD \<or> vop_of w = VOP_VSUB
     \<or> vop_of w = VOP_VMUL \<or> vop_of w = VOP_VLD \<or> vop_of w = VOP_VMOV_S2V))"
  by (auto simp: decoder_control_def Let_def rd_of_def rs1_of_def rs2_of_def is_i_type_def is_u_type_def)

lemma dec_imm_isa: "dec_imm w = isa_imm w"
  by (simp add: dec_imm_def isa_imm_def type_defs Let_def)

lemma rf_read_xreg: "rf_read (a_regs a) r = xreg a r"
  by (simp add: rf_read_def xreg_def)

lemma funct3_cases:
  fixes f3 :: "3 word"
  shows "f3 = 0 \<or> f3 = 1 \<or> f3 = 2 \<or> f3 = 3 \<or> f3 = 4 \<or> f3 = 5 \<or> f3 = 6 \<or> f3 = 7"
proof -
  have "unat f3 < 8" using unsigned_less [where ?'a = nat, of f3] by simp
  then have "unat f3 \<in> {0, 1, 2, 3, 4, 5, 6, 7}" by auto
  then show ?thesis by (auto simp: word_unat_eq_iff)
qed

lemma bit30_funct7: "bit w 30 = bit (funct7_of w) 5"
  by (simp add: funct7_of_def bit_field)

text \<open>OP and OP-IMM: the control code stands for the operation of the function fields.\<close>

lemma alu_op:
  assumes "opcode_of w = 0x33" "funct7_of w = 0 \<or> funct7_of w = 0x20 \<and> (funct3_of w = 0b000 \<or> funct3_of w = 0b101)"
  shows "\<exists>ctrl. dec_alu_ctrl w = Some ctrl \<and> alu_spec ctrl x y = op_result (funct3_of w) (bit w 30) x y"
  using assms funct3_cases [of "funct3_of w"]
  by (elim disjE conjE) (simp_all add: dec_alu_ctrl_def type_defs Let_def alu_spec_def op_result_def bit30_funct7)

lemma alu_op_imm:
  assumes "opcode_of w = 0x13" "funct3_of w = 0b101 \<longrightarrow> funct7_of w = 0 \<or> funct7_of w = 0x20"
  shows "\<exists>ctrl. dec_alu_ctrl w = Some ctrl \<and>
    alu_spec ctrl x y = op_result (funct3_of w) (funct3_of w = 0b101 \<and> bit w 30) x y"
  using assms funct3_cases [of "funct3_of w"]
  by (elim disjE) (auto simp: dec_alu_ctrl_def type_defs Let_def alu_spec_def op_result_def bit30_funct7)

lemma alu_add:
  assumes "opcode_of w \<noteq> 0x33" "opcode_of w \<noteq> 0x13" "opcode_of w \<noteq> 0x63" "opcode_of w \<noteq> 0x5B"
  shows "dec_alu_ctrl w = Some 0"
  using assms by (simp add: dec_alu_ctrl_def type_defs Let_def)

lemma alu_branch:
  assumes "opcode_of w = 0x63" "funct3_of w \<noteq> 0b010" "funct3_of w \<noteq> 0b011"
  shows "\<exists>ctrl. dec_alu_ctrl w = Some ctrl \<and>
    take_branch (decoder_control w) (alu_spec ctrl x y) (alu_spec ctrl x y = 0) = branch_taken (funct3_of w) x y"
  using assms funct3_cases [of "funct3_of w"]
  by (elim disjE) (simp_all add: dec_alu_ctrl_def type_defs Let_def alu_spec_def take_branch_def branch_condition_def
      branch_taken_def decoder_fields)

text \<open>Loads.\<close>

lemma dec_load_value:
  assumes "opcode_of w = 0x03" "aligned (funct3_of w) addr"
    "funct3_of w = 0b000 \<or> funct3_of w = 0b001 \<or> funct3_of w = 0b010 \<or> funct3_of w = 0b100 \<or> funct3_of w = 0b101"
  shows "dec_load (decoder_control w) addr (mem (word_index addr)) = load_value (funct3_of w) mem addr"
  using assms(3)
proof (elim disjE)
  assume "funct3_of w = 0b001"
  then show ?thesis using assms(1,2) half_lane [of addr mem]
    by (simp add: dec_load_def load_value_def decoder_fields dec_mem_mask_def aligned_def Let_def)
next
  assume "funct3_of w = 0b101"
  then show ?thesis using assms(1,2) half_lane [of addr mem]
    by (simp add: dec_load_def load_value_def decoder_fields dec_mem_mask_def aligned_def Let_def)
next
  assume "funct3_of w = 0b010"
  then show ?thesis using assms(1,2) word_lane [of addr mem]
    by (simp add: dec_load_def load_value_def decoder_fields dec_mem_mask_def aligned_def Let_def)
qed (use assms(1,2) in \<open>simp_all add: dec_load_def load_value_def byte_at_def decoder_fields dec_mem_mask_def Let_def\<close>)

lemma dec_store_value:
  assumes "aligned (funct3_of w) addr" "funct3_of w = 0b000 \<or> funct3_of w = 0b001 \<or> funct3_of w = 0b010"
  shows "mem(word_index addr := masked_write (store_wmask (dec_mem_mask w) addr) (store_wdata (dec_mem_mask w) y)
      (mem (word_index addr))) = store_value (funct3_of w) addr y mem"
  using assms store_byte [of mem addr y] store_half [of addr mem y] store_word [of addr mem y]
  by (elim disjE) (simp_all add: dec_mem_mask_def store_value_def aligned_def Let_def)

end
