(* ===== verification/Isa_Refinement.thy ===== *)
theory Isa_Refinement
  imports Isa_Decode
begin

text \<open>
  The clocked system implements the instruction set: from a ready state, in the number of clocks
  the specification gives and whatever happens on the serial and parallel inputs, the hardware
  reaches a ready state whose architectural part is the specified step.
\<close>

section \<open>From signals to the specification\<close>

lemma set_xreg_fields [simp]:
  "a_regs (set_xreg r v a) = rf_write True r v (a_regs a)" "a_pc (set_xreg r v a) = a_pc a"
  "a_vregs (set_xreg r v a) = a_vregs a" "a_mem (set_xreg r v a) = a_mem a" "a_break (set_xreg r v a) = a_break a"
  by (simp_all add: set_xreg_def rf_write_def)

lemma rf_write_off [simp]: "rf_write False r v rf = rf" "vrf_write False r y vr = vr"
  by (simp_all add: rf_write_def vrf_write_def)

lemma dec_arch_isa:
  assumes "w = isa_fetch a" "d = decoder_control w"
    "a_pc (isa_exec w a) = pc'" "a_regs (isa_exec w a) = rf_write (d_reg_write d) (d_rd d) v (a_regs a)"
    "a_vregs (isa_exec w a) = vrf_write (d_vec_reg_write d) (d_rd d) vv (a_vregs a)" "a_mem (isa_exec w a) = mem"
    "a_break (isa_exec w a) \<longleftrightarrow> a_break a \<or> d_ebreak_hit d"
    "(cyc, ins, ld, st) = (a_cycle (isa_count w a b), a_insn (isa_count w a b), a_load (isa_count w a b), a_store (isa_count w a b))"
  shows "dec_arch d a pc' v vv mem cyc ins ld st = isa_step a"
proof -
  have x: "rf_read (a_regs a) (d_rs1 d) = (if opcode_of w = 0x37 \<or> opcode_of w = 0x17 then 0 else xreg a (rs1_of w))"
    by (simp add: assms(2) decoder_fields is_u_type_def rf_read_xreg) (simp add: xreg_def)
  have i: "d_imm d = isa_imm w" by (simp add: assms(2) decoder_fields dec_imm_isa)
  show ?thesis
    using assms(3-8) unfolding isa_step_def assms(1) [symmetric] Let_def dec_arch_def isa_csr_def x i
    by (intro arch.equality) (simp_all add: isa_count_def Let_def)
qed

text \<open>The instructions that only pass through the arithmetic unit.\<close>

definition alu_opcode :: "7 word \<Rightarrow> bool" where
  "alu_opcode opc \<longleftrightarrow> opc \<in> {0x33, 0x13, 0x63, 0x6F, 0x67, 0x37, 0x17, 0x73, 0x0F}"

lemma opcode_distinct:
  "alu_opcode opc \<Longrightarrow> opc \<noteq> 0x03 \<and> opc \<noteq> 0x23 \<and> opc \<noteq> 0x5B"
  by (auto simp: alu_opcode_def)

lemma alu_instruction:
  assumes "mach_ready (c, m, ia, b)" "a = arch_of (c, m, ia, b)" "w = isa_fetch a" "isa_supported a" "alu_opcode (opcode_of w)"
    "d = decoder_control w"
    "a_pc (isa_exec w a) = dec_next_pc d a"
    "a_regs (isa_exec w a) = rf_write (d_reg_write d) (d_rd d) (if d_is_jal d \<or> d_is_jalr d then a_pc a + 4 else dec_out d a) (a_regs a)"
    "a_vregs (isa_exec w a) = a_vregs a" "a_mem (isa_exec w a) = a_mem a" "a_break (isa_exec w a) \<longleftrightarrow> a_break a \<or> d_ebreak_hit d"
    "dec_alu_ctrl w \<noteq> None"
  shows "runs_to (isa_cycles w) (c, m, ia, b) (isa_step a)"
proof -
  have opc: "opcode_of w \<noteq> 0x03" "opcode_of w \<noteq> 0x23" "opcode_of w \<noteq> 0x5B"
    using opcode_distinct [OF assms(5)] by simp_all
  have w: "w = sr_mem m (word_index (pc_reg c))" using assms(2,3) by (simp add: isa_fetch_def)
  have d: "is_scalar d" "\<not> d_mem_read d" "\<not> d_mem_write d" "\<not> d_wb_from_mem d" "\<not> d_vec_reg_write d"
    using opc assms(6,12) by (simp_all add: is_scalar_def decoder_fields type_defs)
  have "isa_cycles w = 4" using opc by (simp add: isa_cycles_def)
  moreover have "dec_arch d a (dec_next_pc d a) (if d_is_jal d \<or> d_is_jalr d then a_pc a + 4 else dec_out d a) 0 (a_mem a)
      (a_cycle a + 4) (a_insn a + 1) (a_load a) (a_store a) = isa_step a"
    by (rule dec_arch_isa [OF assms(3,6-8)])
      (use assms(9-11) d opc in \<open>simp_all add: isa_count_def isa_cycles_def Let_def\<close>)
  ultimately show ?thesis using timing_alu [OF assms(1) w assms(6) d assms(2)] by simp
qed

text \<open>The result of the arithmetic unit by opcode.\<close>

lemma dec_out_fields:
  "dec_alu_ctrl w = Some ctrl \<Longrightarrow> dec_out (decoder_control w) a =
    alu_spec ctrl (if opcode_of w = 0x17 then a_pc a else if opcode_of w = 0x37 then 0 else xreg a (rs1_of w))
      (if is_i_type w \<or> is_s_type w \<or> is_u_type w then isa_imm w else xreg a (rs2_of w))"
  by (simp add: dec_out_def decoder_fields dec_imm_isa rf_read_xreg is_u_type_def) (simp add: xreg_def)

lemma dec_out_add:
  assumes "opcode_of w \<in> {0x03, 0x23, 0x67}"
  shows "dec_out (decoder_control w) a = xreg a (rs1_of w) + isa_imm w"
  using assms alu_add [of w] by (auto simp: dec_out_fields type_defs alu_spec_def)

lemma alu_instruction_supported:
  assumes "mach_ready (c, m, ia, b)" "a = arch_of (c, m, ia, b)" "w = isa_fetch a" "isa_supported a" "alu_opcode (opcode_of w)"
  shows "runs_to (isa_cycles w) (c, m, ia, b) (isa_step a)"
proof (rule alu_instruction [OF assms refl])
  let ?d = "decoder_control w" and ?x = "xreg a (rs1_of w)" and ?y = "xreg a (rs2_of w)" and ?f3 = "funct3_of w"
  note sup = assms(4) [unfolded isa_supported_def Let_def, folded assms(3)]
  have opc: "opcode_of w = 0x33 \<or> opcode_of w = 0x13 \<or> opcode_of w = 0x63 \<or> opcode_of w = 0x6F \<or> opcode_of w = 0x67
      \<or> opcode_of w = 0x37 \<or> opcode_of w = 0x17 \<or> opcode_of w = 0x73 \<or> opcode_of w = 0x0F"
    using assms(5) by (simp add: alu_opcode_def)
  have ctrl: "(opcode_of w = 0x33 \<longrightarrow> (\<exists>k. dec_alu_ctrl w = Some k \<and> alu_spec k ?x ?y = op_result ?f3 (bit w 30) ?x ?y))"
    "(opcode_of w = 0x13 \<longrightarrow> (\<exists>k. dec_alu_ctrl w = Some k \<and> alu_spec k ?x (isa_imm w) = op_result ?f3 (?f3 = 0b101 \<and> bit w 30) ?x (isa_imm w)))"
    "(opcode_of w = 0x63 \<longrightarrow> (\<exists>k. dec_alu_ctrl w = Some k \<and> take_branch ?d (alu_spec k ?x ?y) (alu_spec k ?x ?y = 0) = branch_taken ?f3 ?x ?y))"
    "opcode_of w \<notin> {0x33, 0x13, 0x63, 0x5B} \<longrightarrow> dec_alu_ctrl w = Some 0"
    using sup alu_op [of w ?x ?y] alu_op_imm [of w ?x "isa_imm w"] alu_branch [of w ?x ?y] alu_add [of w] by simp_all
  show "dec_alu_ctrl w \<noteq> None" using opc ctrl by (elim disjE) auto
  show "a_vregs (isa_exec w a) = a_vregs a" "a_mem (isa_exec w a) = a_mem a"
    using opc by (elim disjE; simp add: isa_exec_def Let_def)+
  show "a_break (isa_exec w a) = (a_break a \<or> d_ebreak_hit ?d)"
    using opc sup by (elim disjE) (auto simp: isa_exec_def Let_def decoder_fields funct3_of_def field_def)
  show "a_pc (isa_exec w a) = dec_next_pc ?d a"
    using opc
  proof (elim disjE)
    assume "opcode_of w = 0x63"
    with ctrl show ?thesis
      by (auto simp: isa_exec_def dec_next_pc_def Let_def dec_out_fields type_defs decoder_fields dec_imm_isa)
  next
    assume "opcode_of w = 0x67"
    then show ?thesis using dec_out_add [of w a]
      by (simp add: isa_exec_def dec_next_pc_def Let_def type_defs decoder_fields)
  qed (simp_all add: isa_exec_def dec_next_pc_def Let_def type_defs decoder_fields take_branch_def dec_imm_isa)
  show "a_regs (isa_exec w a) = rf_write (d_reg_write ?d) (d_rd ?d) (if d_is_jal ?d \<or> d_is_jalr ?d then a_pc a + 4 else dec_out ?d a) (a_regs a)"
    using opc
  proof (elim disjE)
    assume "opcode_of w = 0x33"
    with ctrl(1) show ?thesis by (auto simp: isa_exec_def Let_def dec_out_fields type_defs decoder_fields)
  next
    assume "opcode_of w = 0x13"
    with ctrl(2) show ?thesis by (auto simp: isa_exec_def Let_def dec_out_fields type_defs decoder_fields)
  next
    assume "opcode_of w = 0x73"
    with sup have "rd_of w = 0" by (auto simp: rd_of_def field_def)
    with \<open>opcode_of w = 0x73\<close> show ?thesis by (simp add: isa_exec_def Let_def decoder_fields type_defs rf_write_def)
  next
    assume "opcode_of w = 0x0F"
    with sup show ?thesis by (simp add: isa_exec_def Let_def decoder_fields type_defs rf_write_def)
  next
    assume "opcode_of w = 0x63"
    then show ?thesis by (simp add: isa_exec_def Let_def decoder_fields type_defs rf_write_def)
  qed (use ctrl(4) in \<open>simp_all add: isa_exec_def Let_def type_defs decoder_fields dec_out_fields alu_spec_def\<close>)
qed

section \<open>The other instructions\<close>

lemma load_instruction:
  assumes "mach_ready (c, m, ia, b)" "a = arch_of (c, m, ia, b)" "w = isa_fetch a" "isa_supported a" "opcode_of w = 0x03"
  shows "runs_to (isa_cycles w) (c, m, ia, b) (isa_step a)"
proof -
  let ?d = "decoder_control w" and ?addr = "xreg a (rs1_of w) + isa_imm w"
  note sup = assms(4) [unfolded isa_supported_def Let_def, folded assms(3)]
  have w: "w = sr_mem m (word_index (pc_reg c))" using assms(2,3) by (simp add: isa_fetch_def)
  have addr: "dec_out ?d a = ?addr" using assms(5) by (simp add: dec_out_add)
  have val: "dec_load ?d ?addr (a_mem a (word_index ?addr)) = load_value (funct3_of w) (a_mem a) ?addr"
    using sup assms(5) by (intro dec_load_value) simp_all
  have page: "\<not> uart_page (dec_out ?d a)" using sup assms(5) addr by simp
  have "dec_arch ?d a (a_pc a + 4) (dec_load ?d (dec_out ?d a) (a_mem a (word_index (dec_out ?d a)))) 0 (a_mem a)
      (a_cycle a + 6) (a_insn a + 1) (a_load a + 1) (a_store a) = isa_step a"
    unfolding addr val
    by (rule dec_arch_isa [OF assms(3) refl])
      (use assms(5) in \<open>simp_all add: isa_exec_def isa_count_def isa_cycles_def Let_def decoder_fields type_defs\<close>)
  moreover have "isa_cycles w = 6" using assms(5) by (simp add: isa_cycles_def)
  moreover have "runs_to 6 (c, m, ia, b)
    (dec_arch ?d a (a_pc a + 4) (dec_load ?d (dec_out ?d a) (a_mem a (word_index (dec_out ?d a)))) 0 (a_mem a)
      (a_cycle a + 6) (a_insn a + 1) (a_load a + 1) (a_store a))"
    by (rule timing_load [OF assms(1) w refl _ _ _ _ _ _ _ _ assms(2) page])
      (use assms(5) alu_add [of w] in \<open>simp_all add: is_scalar_def decoder_fields type_defs\<close>)
  ultimately show ?thesis by simp
qed

lemma store_dec_arch:
  assumes "w = isa_fetch a" "opcode_of w = 0x23" "addr = xreg a (rs1_of w) + isa_imm w" "aligned (funct3_of w) addr"
    "funct3_of w = 0b000 \<or> funct3_of w = 0b001 \<or> funct3_of w = 0b010" "d = decoder_control w"
  shows "dec_arch d a (a_pc a + 4) 0 0
      ((a_mem a)(word_index addr := masked_write (store_wmask (d_mem_mask d) addr)
         (store_wdata (d_mem_mask d) (rf_read (a_regs a) (d_rs2 d))) (a_mem a (word_index addr))))
      (a_cycle a + 5) (a_insn a + 1) (a_load a) (a_store a + 1) = isa_step a"
proof -
  have mem: "(a_mem a)(word_index addr := masked_write (store_wmask (d_mem_mask d) addr)
      (store_wdata (d_mem_mask d) (rf_read (a_regs a) (d_rs2 d))) (a_mem a (word_index addr)))
    = store_value (funct3_of w) addr (xreg a (rs2_of w)) (a_mem a)"
    using assms(4,5) by (simp add: assms(6) decoder_fields rf_read_xreg dec_store_value)
  show ?thesis
    unfolding mem
    by (rule dec_arch_isa [OF assms(1,6)])
      (use assms(2,3,6) in \<open>simp_all add: isa_exec_def isa_count_def isa_cycles_def Let_def decoder_fields type_defs\<close>)
qed

lemma store_instruction:
  assumes "mach_ready (c, m, ia, b)" "a = arch_of (c, m, ia, b)" "w = isa_fetch a" "isa_supported a" "opcode_of w = 0x23"
  shows "runs_to (isa_cycles w) (c, m, ia, b) (isa_step a)"
proof -
  let ?d = "decoder_control w" and ?addr = "xreg a (rs1_of w) + isa_imm w"
  note sup = assms(4) [unfolded isa_supported_def Let_def, folded assms(3)]
  have w: "w = sr_mem m (word_index (pc_reg c))" using assms(2,3) by (simp add: isa_fetch_def)
  have addr: "dec_out ?d a = ?addr" using assms(5) by (simp add: dec_out_add)
  have page: "\<not> uart_page (dec_out ?d a)" using sup assms(5) addr by simp
  have "runs_to 5 (c, m, ia, b) (dec_arch ?d a (a_pc a + 4) 0 0
      ((a_mem a)(word_index (dec_out ?d a) := masked_write (store_wmask (d_mem_mask ?d) (dec_out ?d a))
         (store_wdata (d_mem_mask ?d) (rf_read (a_regs a) (d_rs2 ?d))) (a_mem a (word_index (dec_out ?d a)))))
      (a_cycle a + 5) (a_insn a + 1) (a_load a) (a_store a + 1))"
    by (rule timing_store [OF assms(1) w refl _ _ _ _ _ _ _ _ assms(2) page])
      (use assms(5) alu_add [of w] in \<open>simp_all add: is_scalar_def decoder_fields type_defs\<close>)
  also have "dec_arch ?d a (a_pc a + 4) 0 0
      ((a_mem a)(word_index (dec_out ?d a) := masked_write (store_wmask (d_mem_mask ?d) (dec_out ?d a))
         (store_wdata (d_mem_mask ?d) (rf_read (a_regs a) (d_rs2 ?d))) (a_mem a (word_index (dec_out ?d a)))))
      (a_cycle a + 5) (a_insn a + 1) (a_load a) (a_store a + 1) = isa_step a"
    unfolding addr by (rule store_dec_arch [OF assms(3,5) refl]) (use sup assms(5) in simp_all)
  also have "5 = isa_cycles w" using assms(5) by (simp add: isa_cycles_def)
  finally show ?thesis .
qed

text \<open>A two-bit counter number other than 0, 1, 2 is 3.\<close>

lemma counter_three: "(i :: 2 word) \<noteq> 0 \<Longrightarrow> i \<noteq> 1 \<Longrightarrow> i \<noteq> 2 \<Longrightarrow> i = 3"
proof -
  have "unat i < 4" using unsigned_less [where ?'a = nat, of i] by simp
  then have "unat i \<in> {0, 1, 2, 3}" by auto
  then show "i \<noteq> 0 \<Longrightarrow> i \<noteq> 1 \<Longrightarrow> i \<noteq> 2 \<Longrightarrow> i = 3" by (auto simp: word_unat_eq_iff)
qed

text \<open>A counter write offers the register file whatever the last instruction left in \<open>alu_out_reg\<close>.\<close>

lemma counter_run:
  assumes "mach_ready (c, m, ia, b)" "a = arch_of (c, m, ia, b)" "w = isa_fetch a" "opcode_of w = 0x5B" "funct3_of w = 0"
    "x = xreg a (rs1_of w)" "i = (field 20 w :: 2 word)" "wr = bit w 31" "d = decoder_control w"
  shows "runs_to 4 (c, m, ia, b)
    (dec_arch d a (a_pc a + 4) (if wr then alu_out_reg c else dec_counter d a) 0 (a_mem a)
      (if wr \<and> i = 0 then x + 1 else a_cycle a + 4) (if wr \<and> i = 1 then x + 1 else a_insn a + 1)
      (if wr \<and> i = 2 then x else a_load a) (if wr \<and> i = 3 then x else a_store a))"
proof -
  have w: "w = sr_mem m (word_index (pc_reg c))" using assms(2,3) by (simp add: isa_fetch_def)
  have three: "(i \<noteq> 0 \<and> i \<noteq> 1 \<and> i \<noteq> 2) = (i = 3)" using counter_three [of i] by auto
  have fields: "i = d_rdwrctr_ctr_id d" "wr = d_rdwrctr_wen d" "x = rf_read (a_regs a) (d_rs1 d)"
    using assms(4-9) by (simp_all add: decoder_fields type_defs rf_read_xreg)
  have d: "d_is_rdwrctr d" "\<not> d_is_jal d" "\<not> d_is_jalr d" "\<not> d_wb_from_mem d" "\<not> d_vec_reg_write d"
    using assms(4,5,9) by (simp_all add: decoder_fields type_defs)
  show ?thesis
    using timing_rdwrctr [OF assms(1) w assms(9) d assms(2) fields(3,1,2)] by (simp only: three)
qed

lemma counter_instruction:
  assumes "mach_ready (c, m, ia, b)" "a = arch_of (c, m, ia, b)" "w = isa_fetch a" "isa_supported a"
    "opcode_of w = 0x5B" "funct3_of w = 0"
  shows "runs_to (isa_cycles w) (c, m, ia, b) (isa_step a)"
proof -
  let ?d = "decoder_control w" and ?x = "xreg a (rs1_of w)" and ?i = "field 20 w :: 2 word" and ?wr = "bit w 31"
  have rd: "?wr \<Longrightarrow> rd_of w = 0"
    using assms(4-6) unfolding isa_supported_def Let_def assms(3) [symmetric] by auto
  have "dec_arch ?d a (a_pc a + 4) (if ?wr then alu_out_reg c else dec_counter ?d a) 0 (a_mem a)
      (if ?wr \<and> ?i = 0 then ?x + 1 else a_cycle a + 4) (if ?wr \<and> ?i = 1 then ?x + 1 else a_insn a + 1)
      (if ?wr \<and> ?i = 2 then ?x else a_load a) (if ?wr \<and> ?i = 3 then ?x else a_store a) = isa_step a"
    by (rule dec_arch_isa [OF assms(3) refl])
      (use assms(5,6) rd in \<open>auto simp: isa_exec_def isa_count_def isa_cycles_def Let_def decoder_fields type_defs
        dec_counter_def counter_read_def rf_write_def\<close>)
  moreover have "isa_cycles w = 4" using assms(5,6) by (simp add: isa_cycles_def)
  ultimately show ?thesis using counter_run [OF assms(1-3,5,6) refl refl refl refl] by simp
qed

lemma packed_instruction:
  assumes "mach_ready (c, m, ia, b)" "a = arch_of (c, m, ia, b)" "w = isa_fetch a" "isa_supported a"
    "opcode_of w = 0x5B" "funct3_of w = 1"
  shows "runs_to (isa_cycles w) (c, m, ia, b) (isa_step a)"
proof -
  let ?d = "decoder_control w" and ?x = "xreg a (rs1_of w)" and ?y = "xreg a (rs2_of w)"
  note sup = assms(4) [unfolded isa_supported_def Let_def, folded assms(3)]
  have w: "w = sr_mem m (word_index (pc_reg c))" using assms(2,3) by (simp add: isa_fetch_def)
  obtain k where k: "d_vmac_ctrl ?d = Some k"
    using sup assms(5,6) by (auto simp: simd_supported_def Let_def decoder_fields type_defs)
  have xy: "rf_read (a_regs a) (d_rs1 ?d) = ?x" "rf_read (a_regs a) (d_rs2 ?d) = ?y"
    using assms(5) by (simp_all add: decoder_fields type_defs rf_read_xreg)
  have spec: "simd_spec w ?x ?y (a_vregs a) (a_mem a) = (Some (vmac_spec k ?x ?y), a_vregs a, a_mem a)"
    using k assms(5,6) by (simp add: simd_spec_def Let_def decoder_fields type_defs)
  have cycles: "isa_cycles w = 3 + simd_latency w" using assms(5,6) by (simp add: isa_cycles_def)
  have "runs_to (3 + simd_latency w) (c, m, ia, b)
    (dec_arch ?d a (a_pc a + 4) (vmac_spec k (rf_read (a_regs a) (d_rs1 ?d)) (rf_read (a_regs a) (d_rs2 ?d))) 0 (a_mem a)
      (a_cycle a + of_nat (3 + simd_latency w)) (a_insn a + 1) (a_load a) (a_store a))"
    by (rule timing_vmac [OF assms(1) w refl _ _ _ k _ _ _ _ _ _ assms(2)])
      (use assms(5,6) in \<open>simp_all add: decoder_fields type_defs\<close>)
  also have "dec_arch ?d a (a_pc a + 4) (vmac_spec k (rf_read (a_regs a) (d_rs1 ?d)) (rf_read (a_regs a) (d_rs2 ?d))) 0 (a_mem a)
      (a_cycle a + of_nat (3 + simd_latency w)) (a_insn a + 1) (a_load a) (a_store a) = isa_step a"
    unfolding xy cycles [symmetric]
    by (rule dec_arch_isa [OF assms(3) refl])
      (use assms(5,6) in \<open>simp_all add: isa_exec_def isa_count_def spec Let_def decoder_fields type_defs\<close>)
  finally show ?thesis unfolding cycles .
qed

lemma vector_instruction:
  assumes "mach_ready (c, m, ia, b)" "a = arch_of (c, m, ia, b)" "w = isa_fetch a" "isa_supported a"
    "opcode_of w = 0x5B" "funct3_of w = 2" "vop_of w \<noteq> VOP_VLD" "vop_of w \<noteq> VOP_VST"
  shows "runs_to (isa_cycles w) (c, m, ia, b) (isa_step a)"
proof -
  let ?d = "decoder_control w" and ?x = "xreg a (rs1_of w)" and ?y = "xreg a (rs2_of w)"
  note sup = assms(4) [unfolded isa_supported_def Let_def, folded assms(3)]
  have w: "w = sr_mem m (word_index (pc_reg c))" using assms(2,3) by (simp add: isa_fetch_def)
  define r where "r = valu_spec (ucast (d_vec_op ?d)) (d_vec_sew ?d) (vrf_read (a_vregs a) (d_rs1 ?d)) (vrf_read (a_vregs a) (d_rs2 ?d))"
  have spec: "simd_spec w ?x ?y (a_vregs a) (a_mem a) = (if vop_of w = VOP_VMAC then Some (lane 0 r) else None,
      vrf_write (d_vec_reg_write ?d) (d_rd ?d) r (a_vregs a), a_mem a)"
    using assms(5-8) by (simp add: simd_spec_def r_def Let_def decoder_fields type_defs)
  have cycles: "isa_cycles w = 3 + simd_latency w" using assms(5,6) by (simp add: isa_cycles_def)
  have "runs_to (3 + simd_latency w) (c, m, ia, b) (dec_arch ?d a (a_pc a + 4) (lane 0 r) r (a_mem a)
      (a_cycle a + of_nat (3 + simd_latency w)) (a_insn a + 1) (a_load a) (a_store a))"
    by (rule timing_valu [OF assms(1) w refl _ _ _ _ _ _ _ _ _ _ assms(2) r_def])
      (use assms(5-8) sup in \<open>simp_all add: decoder_fields type_defs vop_defs\<close>)
  also have "dec_arch ?d a (a_pc a + 4) (lane 0 r) r (a_mem a)
      (a_cycle a + of_nat (3 + simd_latency w)) (a_insn a + 1) (a_load a) (a_store a) = isa_step a"
    unfolding cycles [symmetric]
    by (rule dec_arch_isa [OF assms(3) refl])
      (use assms(5,6) in \<open>simp_all add: isa_exec_def isa_count_def spec Let_def decoder_fields type_defs\<close>)
  finally show ?thesis unfolding cycles .
qed

lemma vector_memory_instruction:
  assumes "mach_ready (c, m, ia, b)" "a = arch_of (c, m, ia, b)" "w = isa_fetch a" "isa_supported a"
    "opcode_of w = 0x5B" "funct3_of w = 2" "vop_of w = VOP_VLD \<or> vop_of w = VOP_VST"
  shows "runs_to (isa_cycles w) (c, m, ia, b) (isa_step a)"
proof -
  let ?d = "decoder_control w" and ?x = "xreg a (rs1_of w)" and ?y = "xreg a (rs2_of w)"
  note sup = assms(4) [unfolded isa_supported_def Let_def, folded assms(3)]
  have w: "w = sr_mem m (word_index (pc_reg c))" using assms(2,3) by (simp add: isa_fetch_def)
  let ?mem = "if vop_of w = VOP_VST then mem_store64 ?x (vrf_read (a_vregs a) (d_rs2 ?d)) (a_mem a) else a_mem a"
  have x: "?x = rf_read (a_regs a) (d_rs1 ?d)"
    using assms(5) by (simp_all add: decoder_fields type_defs rf_read_xreg)
  have st: "d_is_vec_store ?d \<longleftrightarrow> vop_of w = VOP_VST" using assms(5,6) by (simp add: decoder_fields type_defs)
  have spec: "simd_spec w ?x ?y (a_vregs a) (a_mem a) = (None,
      vrf_write (d_vec_reg_write ?d) (d_rd ?d) (mem_load64 (a_mem a) ?x) (a_vregs a), ?mem)"
    using assms(5-7) by (auto simp: simd_spec_def Let_def decoder_fields type_defs vop_defs)
  have cycles: "isa_cycles w = 3 + simd_latency w" using assms(5,6) by (simp add: isa_cycles_def)
  have "runs_to (3 + simd_latency w) (c, m, ia, b) (dec_arch ?d a (a_pc a + 4) 0 (mem_load64 (a_mem a) ?x)
      (if d_is_vec_store ?d then mem_store64 ?x (vrf_read (a_vregs a) (d_rs2 ?d)) (a_mem a) else a_mem a)
      (a_cycle a + of_nat (3 + simd_latency w)) (a_insn a + 1) (a_load a) (a_store a))"
    by (rule timing_vlsu [OF assms(1) w refl _ _ _ _ _ _ assms(2) x])
      (use assms(5-7) sup in \<open>auto simp: decoder_fields type_defs vop_defs\<close>)
  also have "dec_arch ?d a (a_pc a + 4) 0 (mem_load64 (a_mem a) ?x)
      (if d_is_vec_store ?d then mem_store64 ?x (vrf_read (a_vregs a) (d_rs2 ?d)) (a_mem a) else a_mem a)
      (a_cycle a + of_nat (3 + simd_latency w)) (a_insn a + 1) (a_load a) (a_store a) = isa_step a"
    unfolding cycles [symmetric] st
    by (rule dec_arch_isa [OF assms(3) refl])
      (use assms(5-7) in \<open>auto simp: isa_exec_def isa_count_def spec Let_def decoder_fields type_defs vop_defs\<close>)
  finally show ?thesis unfolding cycles .
qed

section \<open>Every supported instruction\<close>

lemma isa_instruction:
  assumes "mach_ready x" "isa_supported (arch_of x)"
  shows "runs_to (isa_cycles (isa_fetch (arch_of x))) x (isa_step (arch_of x))"
proof -
  obtain c m ia b where x: "x = (c, m, ia, b)" by (cases x)
  define a where "a = arch_of (c, m, ia, b)"
  define w where "w = isa_fetch a"
  have p: "mach_ready (c, m, ia, b)" "isa_supported a" using assms by (simp_all add: x a_def del: arch_of.simps)
  note sup = p(2) [unfolded isa_supported_def Let_def, folded w_def]
  consider "alu_opcode (opcode_of w)" | "opcode_of w = 0x03" | "opcode_of w = 0x23"
    | "opcode_of w = 0x5B" "funct3_of w = 0" | "opcode_of w = 0x5B" "funct3_of w = 1"
    | "opcode_of w = 0x5B" "funct3_of w = 2" "vop_of w \<noteq> VOP_VLD" "vop_of w \<noteq> VOP_VST"
    | "opcode_of w = 0x5B" "funct3_of w = 2" "vop_of w = VOP_VLD \<or> vop_of w = VOP_VST"
    using sup unfolding alu_opcode_def by (simp split: if_splits) blast+
  then have "runs_to (isa_cycles w) (c, m, ia, b) (isa_step a)"
  proof cases
    case 1 then show ?thesis by (rule alu_instruction_supported [OF p(1) a_def w_def p(2)])
  next
    case 2 then show ?thesis by (rule load_instruction [OF p(1) a_def w_def p(2)])
  next
    case 3 then show ?thesis by (rule store_instruction [OF p(1) a_def w_def p(2)])
  next
    case 4 then show ?thesis by (rule counter_instruction [OF p(1) a_def w_def p(2)])
  next
    case 5 then show ?thesis by (rule packed_instruction [OF p(1) a_def w_def p(2)])
  next
    case 6 then show ?thesis by (rule vector_instruction [OF p(1) a_def w_def p(2)])
  next
    case 7 then show ?thesis by (rule vector_memory_instruction [OF p(1) a_def w_def p(2)])
  qed
  then show ?thesis by (simp add: x a_def w_def del: arch_of.simps)
qed

end
