(* ===== verification/Core_Invariant.thy ===== *)
theory Core_Invariant
  imports Core_Timing
begin

text \<open>
  An invariant of the core over every clock, for every instruction word, whatever the memory and
  the inputs answer, and whatever value a control code takes that the decoder leaves \<open>x\<close>: the busy flags, start lines and request lines agree with the state of the
  machine, so that never two units run, and the scalar side and the load/store unit never drive
  the memory port together.
\<close>

section \<open>Reset\<close>

text \<open>After one clock in reset the core is quiet.\<close>

definition core_is_reset :: "core \<Rightarrow> bool" where
  "core_is_reset c \<longleftrightarrow> cpu_state c = FETCH \<and> pc_reg c = 0 \<and> quiet c \<and> \<not> dmem_req_valid_reg c
     \<and> cycle_counter c = 0 \<and> insn_counter c = 0 \<and> load_counter c = 0 \<and> store_counter c = 0
     \<and> mtvec c = 0 \<and> mepc c = 0 \<and> mcause c = 0 \<and> mstatus c = 0"

lemma unit_resets:
  "vmac_idle (vmac_step False k x y v u)" "valu_idle (valu_step False opc sew p q v' t)"
  "vl_state (vlsu_step False st iss base d rdy rv rd z) = IDLE" "\<not> vl_done (vlsu_step False st iss base d rdy rv rd z)"
  "\<not> vl_mem_valid (vlsu_step False st iss base d rdy rv rd z)"
  by (simp_all only: vmac_idle_def valu_idle_def vmac_step_def valu_step_def vlsu_step_def) simp_all

lemma units_clock_fields:
  "vmac_inst (units_clock False rdy rv rd c f) = vmac_step False (case d_vmac_ctrl (ctl c) of None \<Rightarrow> 0 | Some ctrl \<Rightarrow> ctrl)
     (rdata1_reg c) (rdata2_reg c) (vmac_valid_in_reg c) (vmac_inst c)"
  "\<exists>opc sew p q v. valu_inst (units_clock False rdy rv rd c f) = valu_step False opc sew p q v (valu_inst c)"
  "vlsu_inst (units_clock False rdy rv rd c f) = vlsu_step False (vlsu_start_reg c) (d_is_vec_store (ctl c)) (rdata1_reg c)
     (vs2_data_reg c) rdy rv rd (vlsu_inst c)"
  by (simp_all add: units_clock_def Let_def) blast

lemma cpu_clock_reset: "\<exists>c'. cpu_clock False w rdy rv rd c = Some c' \<and> core_is_reset c'"
proof -
  define f where "f = (fsm_reset c)\<lparr>mtvec := 0, mepc := 0, mcause := 0, mstatus := 0\<rparr>"
  let ?u = "units_clock False rdy rv rd c f"
  have clock: "cpu_clock False w rdy rv rd c = Some ?u"
    by (simp add: cpu_clock_def fsm_clock_def csr_clock_def f_def)
  have "vmac_idle (vmac_inst ?u)" "valu_idle (valu_inst ?u)" "vl_state (vlsu_inst ?u) = IDLE" "\<not> vl_done (vlsu_inst ?u)"
    "\<not> vl_mem_valid (vlsu_inst ?u)"
    using unit_resets units_clock_fields(2) [of rdy rv rd c f] by (auto simp: units_clock_fields(1,3))
  moreover have "cpu_state ?u = cpu_state f" "pc_reg ?u = pc_reg f" "vec_busy ?u = vec_busy f" "vec_valid_in_reg ?u = vec_valid_in_reg f"
    "vlsu_start_reg ?u = vlsu_start_reg f" "vmac_busy ?u = vmac_busy f" "vmac_valid_in_reg ?u = vmac_valid_in_reg f"
    "dmem_req_valid_reg ?u = dmem_req_valid_reg f" "cycle_counter ?u = cycle_counter f" "insn_counter ?u = insn_counter f"
    "load_counter ?u = load_counter f" "store_counter ?u = store_counter f" "mtvec ?u = mtvec f" "mepc ?u = mepc f"
    "mcause ?u = mcause f" "mstatus ?u = mstatus f"
    by (simp_all add: units_clock_def Let_def)
  ultimately have "core_is_reset ?u"
    by (simp add: core_is_reset_def quiet_def f_def fsm_reset_def)
  with clock show ?thesis by blast
qed

section \<open>The invariant\<close>

definition vec_mem_op :: "decoded \<Rightarrow> bool" where
  "vec_mem_op d \<longleftrightarrow> d_is_vec_load d \<or> d_is_vec_store d"

definition core_wf :: "core \<Rightarrow> bool" where
  "core_wf c \<longleftrightarrow>
     (dmem_req_valid_reg c \<longrightarrow> cpu_state c = MEM)
   \<and> (vec_busy c \<longrightarrow> cpu_state c = EXEC \<and> d_is_vec_op (ctl c) \<and> \<not> d_is_rdwrctr (ctl c))
   \<and> (vmac_busy c \<longrightarrow> cpu_state c = EXEC \<and> d_is_vmac (ctl c) \<and> \<not> d_is_vec_op (ctl c) \<and> \<not> d_is_rdwrctr (ctl c))
   \<and> (vec_valid_in_reg c \<longrightarrow> vec_busy c \<and> \<not> vec_mem_op (ctl c))
   \<and> (vmac_valid_in_reg c \<longrightarrow> vmac_busy c)
   \<and> (vlsu_start_reg c \<longrightarrow> vec_busy c \<and> vec_mem_op (ctl c) \<and> vl_state (vlsu_inst c) = IDLE \<and> \<not> vl_done (vlsu_inst c))
   \<and> (vl_state (vlsu_inst c) \<noteq> IDLE \<or> vl_done (vlsu_inst c) \<longrightarrow> vec_busy c \<and> vec_mem_op (ctl c))
   \<and> (vl_done (vlsu_inst c) \<longrightarrow> vl_state (vlsu_inst c) = IDLE)
   \<and> (vl_mem_valid (vlsu_inst c) \<longrightarrow> vl_waits c)"

text \<open>The load/store unit's own part.\<close>

lemma vlsu_step_wf:
  assumes "vl_done v \<longrightarrow> vl_state v = IDLE" "start \<longrightarrow> vl_state v = IDLE \<and> \<not> vl_done v"
    "vl_mem_valid v \<longrightarrow> vl_state v = WAIT_WORD0 \<or> vl_state v = WAIT_WORD1" "u = vlsu_step True start st base d rdy rv rd v"
  shows "vl_done u \<longrightarrow> vl_state u = IDLE" "vl_mem_valid u \<longrightarrow> vl_state u = WAIT_WORD0 \<or> vl_state u = WAIT_WORD1"
    "vl_state v = IDLE \<and> \<not> start \<longrightarrow> vl_state u = IDLE \<and> \<not> vl_done u"
  unfolding assms(4) using assms(1-3)
  by (cases "vl_state v"; simp add: vlsu_step_def)+

text \<open>The state machine's part.\<close>

lemma exec_rdwrctr_flags:
  "dmem_req_valid_reg (exec_rdwrctr k c) = dmem_req_valid_reg c" "vec_busy (exec_rdwrctr k c) = vec_busy c"
  "vmac_busy (exec_rdwrctr k c) = vmac_busy c" "vec_valid_in_reg (exec_rdwrctr k c) = vec_valid_in_reg c"
  "vmac_valid_in_reg (exec_rdwrctr k c) = vmac_valid_in_reg c" "vlsu_start_reg (exec_rdwrctr k c) = vlsu_start_reg c"
  by (simp_all add: exec_rdwrctr_def Let_def)

lemma exec_vec_flags:
  "vec_mem_op (ctl c) \<Longrightarrow> vec_busy (exec_vec c) = (\<not> vl_done (vlsu_inst c))"
  "\<not> vec_mem_op (ctl c) \<Longrightarrow> vec_busy (exec_vec c) = (\<not> va_valid_out (valu_inst c))"
  "vec_mem_op (ctl c) \<Longrightarrow> cpu_state (exec_vec c) = (if vl_done (vlsu_inst c) then WB else EXEC)"
  "\<not> vec_mem_op (ctl c) \<Longrightarrow> cpu_state (exec_vec c) = (if va_valid_out (valu_inst c) then WB else EXEC)"
  "vec_mem_op (ctl c) \<Longrightarrow> vlsu_start_reg (exec_vec c) = (\<not> vl_done (vlsu_inst c) \<and> \<not> vec_busy c)"
  "\<not> vec_mem_op (ctl c) \<Longrightarrow> vlsu_start_reg (exec_vec c) = (\<not> vec_busy c \<and> vlsu_start_reg c)"
  "vec_mem_op (ctl c) \<Longrightarrow> vec_valid_in_reg (exec_vec c) = (\<not> vec_busy c \<and> vec_valid_in_reg c)"
  "\<not> vec_mem_op (ctl c) \<Longrightarrow> vec_valid_in_reg (exec_vec c) = (\<not> va_valid_out (valu_inst c) \<and> \<not> vec_busy c)"
  "ctl (exec_vec c) = ctl c" "dmem_req_valid_reg (exec_vec c) = dmem_req_valid_reg c"
  "vmac_busy (exec_vec c) = vmac_busy c" "vmac_valid_in_reg (exec_vec c) = vmac_valid_in_reg c"
  by (simp_all add: exec_vec_def Let_def vec_mem_op_def)

lemma exec_vmac_flags:
  "vmac_busy (exec_vmac c) = (\<not> vm_valid_out (vmac_inst c))"
  "cpu_state (exec_vmac c) = (if vm_valid_out (vmac_inst c) then WB else EXEC)"
  "vmac_valid_in_reg (exec_vmac c) = (\<not> vm_valid_out (vmac_inst c) \<and> \<not> vmac_busy c)"
  "ctl (exec_vmac c) = ctl c" "dmem_req_valid_reg (exec_vmac c) = dmem_req_valid_reg c" "vec_busy (exec_vmac c) = vec_busy c"
  "vec_valid_in_reg (exec_vmac c) = vec_valid_in_reg c" "vlsu_start_reg (exec_vmac c) = vlsu_start_reg c"
  by (simp_all add: exec_vmac_def Let_def)

lemma exec_alu_flags:
  assumes "exec_alu c = Some f"
  shows "dmem_req_valid_reg f \<longrightarrow> cpu_state f = MEM \<or> dmem_req_valid_reg c" "vec_busy f = vec_busy c" "vmac_busy f = vmac_busy c"
    "vec_valid_in_reg f = vec_valid_in_reg c" "vmac_valid_in_reg f = vmac_valid_in_reg c" "vlsu_start_reg f = vlsu_start_reg c"
    "ctl f = ctl c"
  using assms by (cases "alu_wires c"; auto simp: exec_alu_def Let_def split: if_splits)+

text \<open>The flags the other states leave alone.\<close>

definition flags :: "core \<Rightarrow> bool \<times> bool \<times> bool \<times> bool \<times> bool" where
  "flags c = (vec_busy c, vmac_busy c, vec_valid_in_reg c, vmac_valid_in_reg c, vlsu_start_reg c)"

lemma other_flags:
  "flags (fsm_fetch w c) = flags c" "flags (fsm_decode c) = flags c" "flags (fsm_wb c) = flags c"
  "flags (fsm_mem rdy rv rd c) = flags c" "flags (c\<lparr>cycle_counter := k\<rparr>) = flags c"
  "dmem_req_valid_reg (fsm_fetch w c) = dmem_req_valid_reg c" "dmem_req_valid_reg (fsm_decode c) = dmem_req_valid_reg c"
  "dmem_req_valid_reg (fsm_wb c) = dmem_req_valid_reg c"
  "dmem_req_valid_reg (fsm_mem rdy rv rd c) \<longrightarrow> cpu_state (fsm_mem rdy rv rd c) = cpu_state c"
  by (simp_all add: flags_def fsm_fetch_def fsm_decode_def fsm_wb_def fsm_mem_def)

lemma fsm_wf:
  assumes "core_wf c" "fsm_clock True w rdy rv rd c = Some f"
  shows "dmem_req_valid_reg f \<longrightarrow> cpu_state f = MEM"
    "vec_busy f \<longrightarrow> cpu_state f = EXEC \<and> d_is_vec_op (ctl f) \<and> \<not> d_is_rdwrctr (ctl f)"
    "vmac_busy f \<longrightarrow> cpu_state f = EXEC \<and> d_is_vmac (ctl f) \<and> \<not> d_is_vec_op (ctl f) \<and> \<not> d_is_rdwrctr (ctl f)"
    "vec_valid_in_reg f \<longrightarrow> vec_busy f \<and> \<not> vec_mem_op (ctl f)"
    "vmac_valid_in_reg f \<longrightarrow> vmac_busy f"
    "vlsu_start_reg f \<longrightarrow> vec_busy f \<and> vec_mem_op (ctl f) \<and> \<not> vec_busy c"
    "vec_busy c \<and> vec_mem_op (ctl c) \<and> \<not> vl_done (vlsu_inst c) \<longrightarrow> vec_busy f \<and> vec_mem_op (ctl f)"
proof -
  note wf = assms(1) [unfolded core_wf_def]
  let ?goal = "(dmem_req_valid_reg f \<longrightarrow> cpu_state f = MEM)
    \<and> (vec_busy f \<longrightarrow> cpu_state f = EXEC \<and> d_is_vec_op (ctl f) \<and> \<not> d_is_rdwrctr (ctl f))
    \<and> (vmac_busy f \<longrightarrow> cpu_state f = EXEC \<and> d_is_vmac (ctl f) \<and> \<not> d_is_vec_op (ctl f) \<and> \<not> d_is_rdwrctr (ctl f))
    \<and> (vec_valid_in_reg f \<longrightarrow> vec_busy f \<and> \<not> vec_mem_op (ctl f))
    \<and> (vmac_valid_in_reg f \<longrightarrow> vmac_busy f)
    \<and> (vlsu_start_reg f \<longrightarrow> vec_busy f \<and> vec_mem_op (ctl f) \<and> \<not> vec_busy c)
    \<and> (vec_busy c \<and> vec_mem_op (ctl c) \<and> \<not> vl_done (vlsu_inst c) \<longrightarrow> vec_busy f \<and> vec_mem_op (ctl f))"
  have ?goal
  proof (cases "cpu_state c")
    case EXEC
    then have e: "fsm_exec (cycle_counter c) (c\<lparr>cycle_counter := cycle_counter c + 1\<rparr>) = Some f"
      using assms(2) by (simp add: fsm_clock_def)
    consider "d_is_rdwrctr (ctl c)" | "\<not> d_is_rdwrctr (ctl c)" "d_is_vec_op (ctl c)"
      | "\<not> d_is_rdwrctr (ctl c)" "\<not> d_is_vec_op (ctl c)" "d_is_vmac (ctl c)"
      | "\<not> d_is_rdwrctr (ctl c)" "\<not> d_is_vec_op (ctl c)" "\<not> d_is_vmac (ctl c)" by blast
    then show ?thesis
    proof cases
      case 1
      with e have "f = exec_rdwrctr (cycle_counter c) (c\<lparr>cycle_counter := cycle_counter c + 1\<rparr>)" by (simp add: fsm_exec_def)
      with wf EXEC 1 show ?thesis by (auto simp: exec_rdwrctr_flags)
    next
      case 2
      define g where "g = c\<lparr>cycle_counter := cycle_counter c + 1\<rparr>"
      have "f = exec_vec g" using 2 e by (simp add: fsm_exec_def g_def)
      moreover have "ctl g = ctl c" "vec_busy g = vec_busy c" "vlsu_inst g = vlsu_inst c" "valu_inst g = valu_inst c"
        "vlsu_start_reg g = vlsu_start_reg c" "vec_valid_in_reg g = vec_valid_in_reg c"
        "dmem_req_valid_reg g = dmem_req_valid_reg c" "vmac_busy g = vmac_busy c" "vmac_valid_in_reg g = vmac_valid_in_reg c"
        by (simp_all add: g_def)
      ultimately show ?thesis using 2 wf EXEC by (cases "vec_mem_op (ctl c)"; elim conjE) (simp_all add: exec_vec_flags)
    next
      case 3
      then obtain "f = exec_vmac (c\<lparr>cycle_counter := cycle_counter c + 1\<rparr>)"
        using e by (auto simp: fsm_exec_def split: if_splits)
      with 3 wf EXEC show ?thesis by (elim conjE) (simp add: exec_vmac_flags)
    next
      case 4
      then have "exec_alu (c\<lparr>cycle_counter := cycle_counter c + 1\<rparr>) = Some f" using e by (simp add: fsm_exec_def)
      from exec_alu_flags [OF this] 4 wf EXEC show ?thesis by (elim conjE) simp
    qed
  next
    case MEM
    then have "f = fsm_mem rdy rv rd (c\<lparr>cycle_counter := cycle_counter c + 1\<rparr>)"
      using assms(2) by (simp add: fsm_clock_def)
    then have "flags f = flags c" "dmem_req_valid_reg f \<longrightarrow> cpu_state f = cpu_state c"
      using other_flags(9) [of rdy rv rd "c\<lparr>cycle_counter := cycle_counter c + 1\<rparr>"] by (simp_all add: other_flags)
    with MEM wf show ?thesis by (auto simp: flags_def)
  next
    case FETCH
    with assms(2) have "flags f = flags c" "dmem_req_valid_reg f = dmem_req_valid_reg c"
      by (auto simp: fsm_clock_def Let_def other_flags)
    with FETCH wf show ?thesis by (auto simp: flags_def)
  next
    case DECODE
    with assms(2) have "flags f = flags c" "dmem_req_valid_reg f = dmem_req_valid_reg c"
      by (auto simp: fsm_clock_def Let_def other_flags)
    with DECODE wf show ?thesis by (auto simp: flags_def)
  next
    case WB
    with assms(2) have "flags f = flags c" "dmem_req_valid_reg f = dmem_req_valid_reg c"
      by (auto simp: fsm_clock_def Let_def other_flags)
    with WB wf show ?thesis by (auto simp: flags_def)
  qed
  then show "dmem_req_valid_reg f \<longrightarrow> cpu_state f = MEM"
    "vec_busy f \<longrightarrow> cpu_state f = EXEC \<and> d_is_vec_op (ctl f) \<and> \<not> d_is_rdwrctr (ctl f)"
    "vmac_busy f \<longrightarrow> cpu_state f = EXEC \<and> d_is_vmac (ctl f) \<and> \<not> d_is_vec_op (ctl f) \<and> \<not> d_is_rdwrctr (ctl f)"
    "vec_valid_in_reg f \<longrightarrow> vec_busy f \<and> \<not> vec_mem_op (ctl f)"
    "vmac_valid_in_reg f \<longrightarrow> vmac_busy f"
    "vlsu_start_reg f \<longrightarrow> vec_busy f \<and> vec_mem_op (ctl f) \<and> \<not> vec_busy c"
    "vec_busy c \<and> vec_mem_op (ctl c) \<and> \<not> vl_done (vlsu_inst c) \<longrightarrow> vec_busy f \<and> vec_mem_op (ctl f)"
    by simp_all
qed

lemma core_wf_clock:
  assumes "core_wf c" "cpu_clock resetn w rdy rv rd c = Some c'"
  shows "core_wf c'"
proof (cases resetn)
  case False
  then have "core_is_reset c'"
    using assms(2) cpu_clock_reset [of w rdy rv rd c] by simp
  then show ?thesis by (simp add: core_is_reset_def quiet_def core_wf_def)
next
  case True
  note wf = assms(1) [unfolded core_wf_def]
  obtain f where f: "fsm_clock True w rdy rv rd c = Some f"
    using assms(2) True by (auto simp: cpu_clock_def split: option.splits)
  note fsm = fsm_wf [OF assms(1) f]
  let ?v = "vlsu_step True (vlsu_start_reg c) (d_is_vec_store (ctl c)) (rdata1_reg c) (vs2_data_reg c) rdy rv rd (vlsu_inst c)"
  have same: "vlsu_inst c' = ?v" "dmem_req_valid_reg c' = dmem_req_valid_reg f" "cpu_state c' = cpu_state f"
    "vec_busy c' = vec_busy f" "vmac_busy c' = vmac_busy f" "vec_valid_in_reg c' = vec_valid_in_reg f"
    "vmac_valid_in_reg c' = vmac_valid_in_reg f" "vlsu_start_reg c' = vlsu_start_reg f" "ctl c' = ctl f"
  proof -
    obtain t e u g where "csr_clock True c = (t, e, u, g)" by (cases "csr_clock True c")
    then have "c' = units_clock True rdy rv rd c (f\<lparr>mtvec := t, mepc := e, mcause := u, mstatus := g\<rparr>)"
      using assms(2) True f by (simp add: cpu_clock_def)
    then show "vlsu_inst c' = ?v" "dmem_req_valid_reg c' = dmem_req_valid_reg f" "cpu_state c' = cpu_state f"
      "vec_busy c' = vec_busy f" "vmac_busy c' = vmac_busy f" "vec_valid_in_reg c' = vec_valid_in_reg f"
      "vmac_valid_in_reg c' = vmac_valid_in_reg f" "vlsu_start_reg c' = vlsu_start_reg f" "ctl c' = ctl f"
      by (simp_all only: units_clock_def Let_def) simp_all
  qed
  have v: "vl_done ?v \<longrightarrow> vl_state ?v = IDLE" "vl_mem_valid ?v \<longrightarrow> vl_state ?v = WAIT_WORD0 \<or> vl_state ?v = WAIT_WORD1"
    "vl_state (vlsu_inst c) = IDLE \<and> \<not> vlsu_start_reg c \<longrightarrow> vl_state ?v = IDLE \<and> \<not> vl_done ?v"
    using wf by (intro vlsu_step_wf [OF _ _ _ refl]; simp add: vl_waits_def)+
  have idle: "\<not> vec_busy c \<Longrightarrow> vl_state ?v = IDLE \<and> \<not> vl_done ?v"
    using wf v(3) by blast
  have stop: "vl_done (vlsu_inst c) \<Longrightarrow> vl_state ?v = IDLE \<and> \<not> vl_done ?v"
    using wf v(3) by blast
  have run: "vl_state ?v \<noteq> IDLE \<or> vl_done ?v \<Longrightarrow> vec_busy f \<and> vec_mem_op (ctl f)"
  proof -
    assume a: "vl_state ?v \<noteq> IDLE \<or> vl_done ?v"
    then have "vec_busy c" "\<not> vl_done (vlsu_inst c)" using idle stop by blast+
    moreover from a v(3) wf have "vec_mem_op (ctl c)" by blast
    ultimately show ?thesis using fsm(7) by blast
  qed
  show ?thesis
    unfolding core_wf_def same vl_waits_def using fsm(1-6) v(1,2) idle run by blast
qed

text \<open>The two users of the memory port and the two users of EXEC exclude each other.\<close>

lemma core_wf_exclusive:
  "core_wf c \<Longrightarrow> \<not> (dmem_req_valid_reg c \<and> vl_mem_valid (vlsu_inst c)) \<and> \<not> (vec_busy c \<and> vmac_busy c)
     \<and> (vl_mem_valid (vlsu_inst c) \<longrightarrow> dmem_req_valid c)"
  by (auto simp: core_wf_def vl_waits_def dmem_req_valid_def vec_mem_active_def vec_mem_op_def)

section \<open>Undriven control codes\<close>

text \<open>
  The decoder leaves the control codes of the arithmetic unit and of the packed unit \<open>x\<close> for the words
  it does not know, and \<open>soc_clock\<close> has no value when the machine comes to use such a code.  The registers
  of the hardware, and of a two-state simulation, hold some bits all the same: \<open>drive\<close> gives the codes
  that are \<open>x\<close> the values \<open>v\<close>.  A run with driven codes does so at every clock that would have no value,
  each time with any values; the other clocks it leaves alone.
\<close>

type_synonym codes = "4 word \<times> 2 word"

definition drive :: "codes \<Rightarrow> core \<Rightarrow> core" where
  "drive v c = c\<lparr>ctl := (ctl c)\<lparr>d_alu_ctrl := Some (case d_alu_ctrl (ctl c) of None \<Rightarrow> fst v | Some a \<Rightarrow> a),
     d_vmac_ctrl := Some (case d_vmac_ctrl (ctl c) of None \<Rightarrow> snd v | Some m \<Rightarrow> m)\<rparr>\<rparr>"

definition soc_clock_driven :: "codes \<Rightarrow> soc_in \<Rightarrow> soc \<Rightarrow> soc option" where
  "soc_clock_driven v i s = (case soc_clock i s of None \<Rightarrow> soc_clock i (s\<lparr>cpu := drive v (cpu s)\<rparr>) | Some s' \<Rightarrow> Some s')"

fun soc_run_driven :: "(codes \<times> soc_in) list \<Rightarrow> soc \<Rightarrow> soc option" where
  "soc_run_driven [] s = Some s"
| "soc_run_driven ((v, i) # ins) s = (case soc_clock_driven v i s of None \<Rightarrow> None | Some s' \<Rightarrow> soc_run_driven ins s')"

lemma run_driven_agrees: "soc_run (map snd ins) s = Some s' \<Longrightarrow> soc_run_driven ins s = Some s'"
  by (induction ins s rule: soc_run_driven.induct) (auto simp: soc_clock_driven_def split: option.splits)

lemma drive_wf: "core_wf (drive v c) = core_wf c"
  by (simp add: core_wf_def drive_def vec_mem_op_def vl_waits_def)

lemma cpu_clock_driven: "\<exists>c'. cpu_clock resetn w rdy rv rd (drive v c) = Some c'"
proof -
  have "\<exists>f. fsm_clock resetn w rdy rv rd (drive v c) = Some f"
    by (cases "cpu_state c") (auto simp: fsm_clock_def fsm_exec_def exec_alu_def alu_wires_def drive_def Let_def split: prod.split)
  then show ?thesis by (auto simp: cpu_clock_def split: prod.split)
qed

lemma soc_clock_value: "(\<exists>s'. soc_clock i s = Some s') \<longleftrightarrow> (\<exists>c. cpu_clock (in_resetn i) (imem_rdata s) (dmem_req_ready s)
    (dmem_resp_valid s) (dmem_resp_rdata s) (cpu s) = Some c)"
  by (auto simp: soc_clock_def split: option.split prod.split)

lemma soc_clock_wf: "core_wf (cpu s) \<Longrightarrow> soc_clock i s = Some s' \<Longrightarrow> core_wf (cpu s')"
  using core_wf_clock by (auto simp: soc_clock_def split: option.splits prod.splits)

text \<open>Such a run always has a value.\<close>

lemma soc_clock_driven_wf:
  assumes "core_wf (cpu s)"
  shows "\<exists>s'. soc_clock_driven v i s = Some s' \<and> core_wf (cpu s')"
proof (cases "soc_clock i s")
  case None
  let ?s = "s\<lparr>cpu := drive v (cpu s)\<rparr>"
  obtain s' where s': "soc_clock i ?s = Some s'"
    using soc_clock_value [of i ?s] cpu_clock_driven by auto
  have "core_wf (cpu ?s)" using assms by (simp add: drive_wf)
  then have "core_wf (cpu s')" using s' by (rule soc_clock_wf)
  with None s' show ?thesis by (simp add: soc_clock_driven_def)
next
  case (Some s')
  then show ?thesis using soc_clock_wf [OF assms] by (simp add: soc_clock_driven_def)
qed

lemma core_wf_run_driven:
  "core_wf (cpu s) \<Longrightarrow> \<exists>s'. soc_run_driven ins s = Some s' \<and> core_wf (cpu s')"
proof (induction ins arbitrary: s)
  case (Cons vi ins)
  obtain v i where "vi = (v, i)" by (cases vi)
  moreover obtain s1 where "soc_clock_driven v i s = Some s1" "core_wf (cpu s1)"
    using soc_clock_driven_wf [OF Cons.prems] by blast
  ultimately show ?case using Cons.IH by simp
qed simp

end
