(* ===== verification/Soc_Programs.thy ===== *)
theory Soc_Programs
  imports Isa_Refinement Core_Invariant
begin

text \<open>
  What a program sees of the system: any supported program runs as the instruction set says,
  whatever the outside does; reset; and the places where the core departs from the instruction set.
\<close>

section \<open>Programs\<close>

definition soc_ready :: "soc \<Rightarrow> bool" where
  "soc_ready s \<longleftrightarrow> mach_ready (mach_of s) \<and> port_ok s"

definition soc_arch :: "soc \<Rightarrow> arch" where
  "soc_arch s = arch_of (mach_of s)"

lemma runs_to_soc:
  assumes "runs_to n (mach_of s) a" "port_ok s" "length ins = n" "\<forall>i \<in> set ins. in_resetn i"
  shows "\<exists>s'. soc_run ins s = Some s' \<and> soc_ready s' \<and> soc_arch s' = a"
proof -
  obtain x where x: "mach_run n (mach_of s) = Some x" "mach_ready x" "arch_of x = a"
    using assms(1) by (auto simp: runs_to_def simp del: mach_ready.simps arch_of.simps)
  from soc_refines_mach_run [OF x(1) assms(2-4)] x(2,3) show ?thesis
    by (auto simp: soc_ready_def soc_arch_def simp del: mach_ready.simps arch_of.simps)
qed

lemma soc_runs_program:
  "soc_ready s \<Longrightarrow> isa_run_supported k (soc_arch s) \<Longrightarrow> length ins = isa_run_cycles k (soc_arch s) \<Longrightarrow>
    \<forall>i \<in> set ins. in_resetn i \<Longrightarrow>
    \<exists>s'. soc_run ins s = Some s' \<and> soc_ready s' \<and> soc_arch s' = isa_run k (soc_arch s)"
proof (induction k arbitrary: s ins)
  case 0
  then show ?case by simp
next
  case (Suc k)
  let ?n = "isa_cycles (isa_fetch (soc_arch s))"
  have split: "ins = take ?n ins @ drop ?n ins" by simp
  have "runs_to ?n (mach_of s) (isa_step (soc_arch s))"
    using Suc.prems(1,2) isa_instruction [of "mach_of s"] by (simp add: soc_ready_def soc_arch_def)
  moreover have "length (take ?n ins) = ?n" using Suc.prems(3) by simp
  moreover have "\<forall>i \<in> set (take ?n ins). in_resetn i" using Suc.prems(4) by (auto dest: in_set_takeD)
  ultimately obtain s1 where s1: "soc_run (take ?n ins) s = Some s1" "soc_ready s1" "soc_arch s1 = isa_step (soc_arch s)"
    using runs_to_soc Suc.prems(1) by (metis soc_ready_def)
  have "\<forall>i \<in> set (drop ?n ins). in_resetn i" using Suc.prems(4) by (auto dest: in_set_dropD)
  with Suc.IH [OF s1(2), of "drop ?n ins"] s1(3) Suc.prems(2,3) obtain s2 where
    "soc_run (drop ?n ins) s1 = Some s2" "soc_ready s2" "soc_arch s2 = isa_run k (isa_step (soc_arch s))"
    by auto
  with s1(1) show ?case by (subst split, subst soc_run_append) simp
qed

section \<open>Reset\<close>

lemma soc_clock_reset:
  assumes "\<not> in_resetn i"
  shows "\<exists>s'. soc_clock i s = Some s' \<and> core_is_reset (cpu s') \<and> \<not> uart_resp_valid (uart0 s') \<and> \<not> break_hit s'
    \<and> imem_addr_reg s' = pc_reg (cpu s) \<and> (\<not> dmem_req_valid (cpu s) \<longrightarrow> \<not> sr_dmem_resp_valid_reg (sram0 s'))"
proof -
  obtain c' where "cpu_clock False (imem_rdata s) (dmem_req_ready s) (dmem_resp_valid s) (dmem_resp_rdata s) (cpu s) = Some c'"
    "core_is_reset c'"
    using cpu_clock_reset by blast
  with assms show ?thesis
    by (simp add: soc_clock_def par_rx_clock_def par_tx_clock_def uart_clock_def uart_resp_step_def sram_clock_def sram_step_def)
qed

lemma soc_reset:
  assumes "\<forall>i \<in> set ins. \<not> in_resetn i" "2 \<le> length ins"
  shows "\<exists>s'. soc_run ins s = Some s' \<and> soc_ready s' \<and> core_is_reset (cpu s') \<and> \<not> break_hit s'"
  using assms
proof (induction ins arbitrary: s)
  case Nil
  then show ?case by simp
next
  case (Cons i ins)
  obtain s1 where s1: "soc_clock i s = Some s1" "core_is_reset (cpu s1)"
    using soc_clock_reset [of i s] Cons.prems(1) by auto
  show ?case
  proof (cases "2 \<le> length ins")
    case True
    with Cons s1(1) show ?thesis by simp
  next
    case False
    with Cons.prems(2) have "length ins = Suc 0" by simp
    then obtain j where j: "ins = [j]" by (auto simp: length_Suc_conv)
    with Cons.prems(1) have ins: "ins = [j]" "\<not> in_resetn j" by simp_all
    from soc_clock_reset [OF ins(2), of s1] obtain s2 where s2: "soc_clock j s1 = Some s2" "core_is_reset (cpu s2)"
      "\<not> uart_resp_valid (uart0 s2)" "\<not> break_hit s2" "imem_addr_reg s2 = pc_reg (cpu s1)"
      "\<not> dmem_req_valid (cpu s1) \<longrightarrow> \<not> sr_dmem_resp_valid_reg (sram0 s2)"
      by auto
    have "\<not> dmem_req_valid (cpu s1)"
      using s1(2) quiet_requests(1) [of "cpu s1"] by (simp add: core_is_reset_def)
    with s1 s2 ins show ?thesis
      by (simp add: soc_ready_def mach_of_def port_ok_def core_is_reset_def)
  qed
qed

section \<open>Departures from the instruction set\<close>

text \<open>One instruction that is not in the supported set, in terms of its own words.\<close>

lemma soc_run_runs_to:
  assumes "soc_ready s" "length ins = n" "\<forall>i \<in> set ins. in_resetn i"
    "\<And>c m ia b. mach_of s = (c, m, ia, b) \<Longrightarrow> mach_ready (c, m, ia, b) \<Longrightarrow> soc_arch s = arch_of (c, m, ia, b)
      \<Longrightarrow> runs_to n (c, m, ia, b) a"
  shows "\<exists>s'. soc_run ins s = Some s' \<and> soc_ready s' \<and> soc_arch s' = a"
proof -
  obtain c m ia b where x: "mach_of s = (c, m, ia, b)" by (cases "mach_of s")
  then have "runs_to n (mach_of s) a"
    using assms(1) assms(4) [of c m ia b] by (simp add: soc_ready_def soc_arch_def)
  then show ?thesis using runs_to_soc assms(1-3) by (simp add: soc_ready_def)
qed

lemma counter_write_result:
  assumes "soc_ready s" "w = isa_fetch (soc_arch s)" "opcode_of w = 0x5B" "funct3_of w = 0" "bit w 31"
    "length ins = 4" "\<forall>i \<in> set ins. in_resetn i"
  shows "\<exists>s'. soc_run ins s = Some s' \<and> soc_ready s' \<and>
    xreg (soc_arch s') (rd_of w) = (if rd_of w = 0 then 0 else alu_out_reg (cpu s))"
proof -
  let ?a = "soc_arch s" and ?d = "decoder_control w" and ?i = "field 20 w :: 2 word"
  let ?x = "xreg ?a (rs1_of w)"
  let ?r = "dec_arch ?d ?a (a_pc ?a + 4) (alu_out_reg (cpu s)) 0 (a_mem ?a)
      (if ?i = 0 then ?x + 1 else a_cycle ?a + 4) (if ?i = 1 then ?x + 1 else a_insn ?a + 1)
      (if ?i = 2 then ?x else a_load ?a) (if ?i = 3 then ?x else a_store ?a)"
  have "\<exists>s'. soc_run ins s = Some s' \<and> soc_ready s' \<and> soc_arch s' = ?r"
  proof (rule soc_run_runs_to [OF assms(1,6,7)])
    fix c m ia b assume "mach_of s = (c, m, ia, b)" "mach_ready (c, m, ia, b)" "?a = arch_of (c, m, ia, b)"
    moreover from this(1) have "c = cpu s" by (simp add: mach_of_def)
    ultimately show "runs_to 4 (c, m, ia, b) ?r"
      using counter_run [of c m ia b ?a w ?x ?i True ?d] assms(2-5) by simp
  qed
  moreover have "xreg ?r (rd_of w) = (if rd_of w = 0 then 0 else alu_out_reg (cpu s))"
    using assms(3,4) by (simp add: xreg_def dec_arch_def Let_def decoder_fields type_defs rf_write_def)
  ultimately show ?thesis by metis
qed

text \<open>The instructions on control and status registers deliver a sum with the register's number.\<close>

lemma csr_registers:
  assumes "soc_ready s" "w = isa_fetch (soc_arch s)" "opcode_of w = 0x73" "length ins = 4" "\<forall>i \<in> set ins. in_resetn i"
    "a = soc_arch s" "n = (ucast (imm_i w) :: 12 word)" "x = xreg a (rs1_of w)"
  shows "\<exists>s' a'. soc_run ins s = Some s' \<and> soc_ready s' \<and> a' = soc_arch s' \<and> a_pc a' = a_pc a + 4
    \<and> xreg a' (rd_of w) = (if rd_of w = 0 then 0 else x + imm_i w)
    \<and> a_mtvec a' = (if n = 0x035 then x else a_mtvec a) \<and> a_mepc a' = (if n = 0x341 then x else a_mepc a)
    \<and> a_mcause a' = (if n = 0x342 then x else a_mcause a) \<and> a_mstatus a' = (if n = 0x300 then x else a_mstatus a)"
proof -
  let ?d = "decoder_control w"
  define r where "r = dec_arch ?d a (dec_next_pc ?d a) (if d_is_jal ?d \<or> d_is_jalr ?d then a_pc a + 4 else dec_out ?d a) 0 (a_mem a)
      (a_cycle a + 4) (a_insn a + 1) (a_load a) (a_store a)"
  have "\<exists>s'. soc_run ins s = Some s' \<and> soc_ready s' \<and> soc_arch s' = r"
    unfolding r_def
  proof (rule soc_run_runs_to [OF assms(1,4,5)])
    fix c m ia b assume x: "mach_of s = (c, m, ia, b)" "mach_ready (c, m, ia, b)" "soc_arch s = arch_of (c, m, ia, b)"
    then have "w = sr_mem m (word_index (pc_reg c))" using assms(2) by (simp add: isa_fetch_def)
    then show "runs_to 4 (c, m, ia, b) (dec_arch ?d a (dec_next_pc ?d a)
        (if d_is_jal ?d \<or> d_is_jalr ?d then a_pc a + 4 else dec_out ?d a) 0 (a_mem a) (a_cycle a + 4) (a_insn a + 1) (a_load a) (a_store a))"
      by (rule timing_alu [OF x(2) _ refl _ _ _ _ _ x(3) [folded assms(6)]])
        (use assms(3) alu_add [of w] in \<open>simp_all add: is_scalar_def decoder_fields type_defs\<close>)
  qed
  moreover have "a_pc r = a_pc a + 4"
    using assms(3) by (simp add: r_def dec_arch_def dec_next_pc_def Let_def decoder_fields type_defs take_branch_def)
  moreover have "xreg r (rd_of w) = (if rd_of w = 0 then 0 else x + imm_i w)"
    using assms(3) alu_add [of w]
    by (simp add: r_def assms(8) xreg_def dec_arch_def Let_def decoder_fields type_defs rf_write_def dec_out_fields alu_spec_def isa_imm_def)
  moreover have "a_mtvec r = (if n = 0x035 then x else a_mtvec a) \<and> a_mepc r = (if n = 0x341 then x else a_mepc a)
      \<and> a_mcause r = (if n = 0x342 then x else a_mcause a) \<and> a_mstatus r = (if n = 0x300 then x else a_mstatus a)"
    using assms(3) by (simp add: r_def assms(7,8) dec_arch_def Let_def decoder_fields type_defs dec_imm_def rf_read_xreg)
  ultimately show ?thesis by blast
qed

lemma csr_result:
  assumes "soc_ready s" "w = isa_fetch (soc_arch s)" "opcode_of w = 0x73" "length ins = 4" "\<forall>i \<in> set ins. in_resetn i"
  shows "\<exists>s'. soc_run ins s = Some s' \<and> soc_ready s' \<and> a_pc (soc_arch s') = a_pc (soc_arch s) + 4 \<and>
    xreg (soc_arch s') (rd_of w) = (if rd_of w = 0 then 0 else xreg (soc_arch s) (rs1_of w) + imm_i w) \<and>
    a_mepc (soc_arch s') = (if (ucast (imm_i w) :: 12 word) = 0x341 then xreg (soc_arch s) (rs1_of w) else a_mepc (soc_arch s))"
  using csr_registers [OF assms refl refl refl] by metis

section \<open>A concrete system\<close>

text \<open>A system at rest with a given memory; the bytes of a register are free, so they are 0.\<close>

definition core_at_rest :: core where
  "core_at_rest = \<lparr>cpu_state = FETCH, pc_reg = 0, pc_saved = 0, insn_reg = 0, rdata1_reg = 0, rdata2_reg = 0, alu_out_reg = 0,
     mem_data_reg = 0, ctl = decoder_control 0, mtvec = 0, mepc = 0, mcause = 0, mstatus = 0, cycle_counter = 0,
     insn_counter = 0, load_counter = 0, store_counter = 0, vec_busy = False, vec_valid_in_reg = False, vlsu_start_reg = False,
     vs1_data_reg = 0, vs2_data_reg = 0, vec_result_reg = 0, vmac_busy = False, vmac_valid_in_reg = False,
     dmem_req_valid_reg = False, dmem_req_write_reg = False, dmem_req_addr_reg = 0, dmem_req_wdata_reg = 0,
     dmem_req_wmask_reg = 0, trace_pc_reg = 0, trace_insn_reg = 0, regs = (\<lambda>_. 0), vregs = (\<lambda>_. 0),
     vmac_inst = \<lparr>vm_cycle_counter = 0, vm_computing = False, vm_result = 0, vm_valid_out = False, vm_mult_results = (\<lambda>_. 0)\<rparr>,
     valu_inst = \<lparr>va_mul_counter = 0, va_computing = False, va_result = 0, va_valid_out = False, va_mul8 = (\<lambda>_. 0),
       va_mul16 = (\<lambda>_. 0), va_mul32 = (\<lambda>_. 0), va_mac8_prod = (\<lambda>_. 0), va_mac16_prod = (\<lambda>_. 0), va_mac32_prod = (\<lambda>_. 0)\<rparr>,
     vlsu_inst = \<lparr>vl_state = IDLE, vl_addr_reg = 0, vl_data_reg = 0, vl_is_store_reg = False, vl_done = False, vl_load_data = 0,
       vl_mem_addr = 0, vl_mem_wdata = 0, vl_mem_wmask = 0, vl_mem_write = False, vl_mem_valid = False\<rparr>\<rparr>"

definition soc_at_rest :: "mem_words \<Rightarrow> soc" where
  "soc_at_rest mem = \<lparr>cpu = core_at_rest, sram0 = \<lparr>sr_mem = mem, sr_dmem_addr_reg = 0, sr_dmem_resp_valid_reg = False\<rparr>,
     imem_addr_reg = 0, dmem_raddr_reg = 0, uart0 = uart_quiet, break_hit = False, sim_use_par_txrx = False,
     par_tx = 0, par_tx_valid = False, par_rx_ack = False, par_rx_valid_latch = False, par_rx_latch = 0\<rparr>"

definition run_input :: soc_in where
  "run_input = \<lparr>in_resetn = True, in_rx = True, in_par_rx = 0, in_par_rx_valid = False\<rparr>"
definition reset_input :: soc_in where
  "reset_input = run_input\<lparr>in_resetn := False\<rparr>"

lemma soc_at_rest_ready: "soc_ready (soc_at_rest mem)"
  by (simp add: soc_ready_def mach_of_def soc_at_rest_def core_at_rest_def port_ok_def quiet_def vmac_idle_def valu_idle_def
      uart_quiet_def)

lemma soc_at_rest_arch: "soc_arch (soc_at_rest mem) = \<lparr>a_pc = 0, a_regs = (\<lambda>_. 0), a_vregs = (\<lambda>_. 0), a_mem = mem, a_cycle = 0,
     a_insn = 0, a_load = 0, a_store = 0, a_mtvec = 0, a_mepc = 0, a_mcause = 0, a_mstatus = 0, a_break = False\<rparr>"
  by (simp add: soc_arch_def mach_of_def soc_at_rest_def core_at_rest_def)

text \<open>\<open>addi x1,x0,5; add x2,x1,x1; pvmac x3,x1,x2; sw x3,64(x0)\<close>\<close>

definition demo_mem :: mem_words where
  "demo_mem = (\<lambda>_. 0)(0 := 0x00500093, 1 := 0x00108133, 2 := 0x042091DB, 3 := 0x04302023)"

lemma demo_cycles: "isa_run_supported 4 (soc_arch (soc_at_rest demo_mem)) \<and> isa_run_cycles 4 (soc_arch (soc_at_rest demo_mem)) = 21
    \<and> a_mem (isa_run 4 (soc_arch (soc_at_rest demo_mem))) 16 = 50"
  unfolding soc_at_rest_arch by code_simp

end
