(* ===== verification/Test_Firmware.thy ===== *)
theory Test_Firmware
  imports Print Simd_Intrinsics Soc_Programs "HOL-Library.Monad_Syntax"
begin

text \<open>
  The bare-metal test program (sw/test/main.c, sw/test/trap_handler.c and the PV stubs of hal.S):
  the CSR tests, the report on the packed operations, the echo loop and the trap handler.
  A run is the sequence of its actions on the hart.  The CSR instructions behind \<open>write_csr\<close> and
  \<open>read_csr\<close> act on a CSR file of any type, given by its write and read functions, which may both
  change it; the address of \<open>trap_vector\<close> comes from the linker.  \<open>None\<close> is undefined behaviour of the
  console library.
\<close>

datatype hart_event = Console string | Clear_timer | Ebreak

record 'c csr_ops =
  csrw :: "string \<Rightarrow> i32 \<Rightarrow> 'c \<Rightarrow> 'c"
  csrr :: "string \<Rightarrow> 'c \<Rightarrow> i32 \<times> 'c"

record 'c fw =
  csrs :: 'c
  events :: "hart_event list"

definition emit :: "hart_event \<Rightarrow> 'c fw \<Rightarrow> 'c fw" where
  "emit e s = s\<lparr>events := events s @ [e]\<rparr>"

definition write_csr :: "'c csr_ops \<Rightarrow> string \<Rightarrow> i32 \<Rightarrow> 'c fw \<Rightarrow> 'c fw" where
  "write_csr O' csr val s = s\<lparr>csrs := csrw O' csr val (csrs s)\<rparr>"

definition read_csr :: "'c csr_ops \<Rightarrow> string \<Rightarrow> 'c fw \<Rightarrow> i32 \<times> 'c fw" where
  "read_csr O' csr s = (case csrr O' csr (csrs s) of (v, c) \<Rightarrow> (v, s\<lparr>csrs := c\<rparr>))"

definition fw_puts :: "string \<Rightarrow> 'c fw \<Rightarrow> 'c fw" where
  "fw_puts t s = emit (Console (puts t)) s"

definition fw_printf :: "string \<Rightarrow> varg list \<Rightarrow> 'c fw \<Rightarrow> 'c fw option" where
  "fw_printf fmt ap s = map_option (\<lambda>t. emit (Console t) s) (printf fmt ap)"

definition fw_printint :: "i32 \<Rightarrow> i32 \<Rightarrow> bool \<Rightarrow> 'c fw \<Rightarrow> 'c fw option" where
  "fw_printint xx base sgnd s = map_option (\<lambda>t. emit (Console t) s) (printint xx base sgnd)"

section \<open>CSR tests\<close>



section \<open>Traps\<close>

definition init_trap :: "'c csr_ops \<Rightarrow> i32 \<Rightarrow> 'c fw \<Rightarrow> 'c fw" where
  "init_trap O' trap_vector s = write_csr O' ''mtvec'' trap_vector s"

definition trap_entry :: "'c csr_ops \<Rightarrow> 'c fw \<Rightarrow> 'c fw option" where
  "trap_entry O' s =
    (let s = fw_puts (''Trap occurred!'' @ [CHR_NL]) s;
         (cause, s) = read_csr O' ''mcause'' (fw_puts ''mcause: '' s)
     in do {
       s \<leftarrow> fw_printint cause 16 False s;
       s \<leftarrow> Some (fw_puts [CHR_NL] s);
       Some (if cause = 2 then emit Ebreak (fw_puts (''Illegal instruction trap detected.'' @ [CHR_NL]) s)
             else if cause = 11 then fw_puts (''ECALL detected.'' @ [CHR_NL]) s
             else if cause = 7 then emit Clear_timer (fw_puts (''Timer interrupt detected.'' @ [CHR_NL]) s)
             else fw_puts (''Unknown trap cause.'' @ [CHR_NL]) s)
     })"

section \<open>The packed operations\<close>

text \<open>The PV routines of hal.S: one instruction word on \<open>a0\<close>, \<open>a1\<close>.\<close>

definition hal_pvadd :: "i32 \<Rightarrow> i32 \<Rightarrow> i32" where
  "hal_pvadd a b = asm_result (simd_spec 0x00B5155B a b (\<lambda>_. 0) (\<lambda>_. 0))"
definition hal_pvmul :: "i32 \<Rightarrow> i32 \<Rightarrow> i32" where
  "hal_pvmul a b = asm_result (simd_spec 0x02B5155B a b (\<lambda>_. 0) (\<lambda>_. 0))"
definition hal_pvmul_upper :: "i32 \<Rightarrow> i32 \<Rightarrow> i32" where
  "hal_pvmul_upper a b = asm_result (simd_spec 0x06B5155B a b (\<lambda>_. 0) (\<lambda>_. 0))"
definition hal_pvmac :: "i32 \<Rightarrow> i32 \<Rightarrow> i32" where
  "hal_pvmac a b = asm_result (simd_spec 0x04B5155B a b (\<lambda>_. 0) (\<lambda>_. 0))"

text \<open>The byte and halfword selections of the \<open>printf\<close> calls.\<close>

definition byte_args :: "i32 \<Rightarrow> varg list" where
  "byte_args x = [VInt (drop_bit 24 (x AND 0xFF000000)), VInt (signed_drop_bit 16 (x AND 0x00FF0000)),
     VInt (signed_drop_bit 8 (x AND 0x0000FF00)), VInt (x AND 0x000000FF)]"

definition half_args :: "i32 \<Rightarrow> varg list" where
  "half_args x = [VInt (drop_bit 16 (x AND 0xFFFF0000)), VInt (x AND 0x0000FFFF)]"

definition packed_multiply_accumulate_exact :: "i32 \<Rightarrow> i32 \<Rightarrow> i32" where
  "packed_multiply_accumulate_exact a b =
    (let i8 = (\<lambda>w :: i32. scast (ucast w :: i8) :: i32) in
     ((i8 (a AND 0xFF) * i8 (b AND 0xFF)) AND 0xFF) +
     ((i8 (signed_drop_bit 8 a AND 0xFF) * i8 (signed_drop_bit 8 b AND 0xFF)) AND 0xFF00) +
     (((i8 (signed_drop_bit 16 a AND 0xFF) * i8 (signed_drop_bit 16 b AND 0xFF)) AND 0xFF0000) +
      ((i8 (signed_drop_bit 24 a) * i8 (signed_drop_bit 24 b)) AND 0xFF000000)))"

text \<open>The report of \<open>main\<close> on the packed operations, from its first line to its last.\<close>

definition packed_tests :: "'c fw \<Rightarrow> 'c fw option" where
  "packed_tests s = do {
    s \<leftarrow> Some (fw_puts (''begin: pvadd test'' @ [CHR_NL]) s);
    let a = push_bit 24 1 OR push_bit 16 2 OR push_bit 8 3 OR 4;
    let b = push_bit 24 10 OR push_bit 16 20 OR push_bit 8 30 OR 40;
    let pvadd_result = hal_pvadd a b;
    s \<leftarrow> fw_printf (''PVADD result: %d %d %d %d + %d %d %d %d = %d %d %d %d'' @ [CHR_NL])
          (byte_args a @ byte_args b @ byte_args pvadd_result) s;
    let pvmul_result = hal_pvmul a b;
    s \<leftarrow> fw_printf (''PVMUL result: %d * %d + %d * %d = %d %d'' @ [CHR_NL])
          ([VInt (signed_drop_bit 8 (a AND 0xFF00)), VInt (signed_drop_bit 8 (b AND 0xFF00)), VInt (a AND 0x00FF), VInt (b AND 0x00FF)]
           @ half_args pvmul_result) s;
    let pvmul_upper_result = hal_pvmul_upper a b;
    s \<leftarrow> fw_printf (''PVMUL_UPPER result: %d * %d + %d * %d = %d %d'' @ [CHR_NL])
          ([VInt (drop_bit 24 (a AND 0xFF000000)), VInt (drop_bit 24 (b AND 0xFF000000)),
            VInt (signed_drop_bit 16 (a AND 0x00FF0000)), VInt (signed_drop_bit 16 (b AND 0x00FF0000))]
           @ half_args pvmul_upper_result) s;
    let pvmac_result = hal_pvmac a b;
    s \<leftarrow> fw_printf (''PVMAC result: %d * %d + %d * %d + %d * %d + %d * %d = %d'' @ [CHR_NL])
          ([VInt (drop_bit 24 (a AND 0xFF000000)), VInt (drop_bit 24 (b AND 0xFF000000)),
            VInt (signed_drop_bit 16 (a AND 0x00FF0000)), VInt (signed_drop_bit 16 (b AND 0x00FF0000)),
            VInt (signed_drop_bit 8 (a AND 0x0000FF00)), VInt (signed_drop_bit 8 (b AND 0x0000FF00)),
            VInt (a AND 0x000000FF), VInt (b AND 0x000000FF), VInt pvmac_result]) s;
    fw_printf (''PVMAC exact result: %d'' @ [CHR_NL]) [VInt (packed_multiply_accumulate_exact a b)]
      (fw_puts (''end: pvadd test'' @ [CHR_NL]) s)
  }"

section \<open>Echo\<close>

text \<open>
  The echo loop (not called by \<open>main\<close>), \<open>for (int i = 0; i < 10; i = i * 3)\<close>, over the bytes typed: \<open>q\<close>
  are those not read yet, and in each turn \<open>early\<close> arrive before \<open>getchar\<close> returns and \<open>late\<close> between then
  and the poll of \<open>fflush\<close>.  \<open>getchar\<close> waits for a byte and takes the oldest one; \<open>fflush\<close> takes the oldest
  one too, when there is one, as is proved of their code on the system.
\<close>

datatype 'c echo_end = Returned "'c fw" | Waiting "'c fw" | Going "char list" "'c fw"

fun echo_loop :: "(char list \<times> char list) list \<Rightarrow> i32 \<Rightarrow> char list \<Rightarrow> 'c fw \<Rightarrow> 'c echo_end" where
  "echo_loop [] i q s = (if sint i < 10 then Going q s else Returned s)"
| "echo_loop ((early, late) # ts) i q s =
    (if sint i < 10 then
       let s = fw_puts ''Type a character: '' s in
       case q @ early of [] \<Rightarrow> Waiting s
       | c # q \<Rightarrow> let s = emit (Console [c]) s; s = emit (Console [CHR_NL]) s in echo_loop ts (i * 3) (tl (q @ late)) s
     else Returned s)"

definition echo :: "(char list \<times> char list) list \<Rightarrow> char list \<Rightarrow> 'c fw \<Rightarrow> 'c echo_end" where
  "echo ts q s = echo_loop ts 0 q
     (fw_puts (''Echo test started. Type characters to echo them back. Press Ctrl+C to exit.'' @ [CHR_NL]) s)"

section \<open>The CSR instructions of the core\<close>

text \<open>
  \<open>csrw csr, rs\<close> and \<open>csrr rd, csr\<close> on the core of this repository, over its four registers \<open>mtvec\<close>, \<open>mepc\<close>,
  \<open>mcause\<close> and \<open>mstatus\<close>: the assembler's numbers of the tested registers, what a write reaches, and a
  read that gives the number and writes \<open>x0\<close>.
\<close>

type_synonym core_csr = "i32 \<times> i32 \<times> i32 \<times> i32"

definition csr_number :: "string \<Rightarrow> 12 word" where
  "csr_number csr = (if csr = ''mtvec'' then 0x305 else if csr = ''mepc'' then 0x341 else if csr = ''mstatus'' then 0x300
     else if csr = ''mcause'' then 0x342 else if csr = ''mie'' then 0x304 else 0x344)"

definition core_csr_write :: "12 word \<Rightarrow> i32 \<Rightarrow> core_csr \<Rightarrow> core_csr" where
  "core_csr_write n v = (\<lambda>(tvec, epc, cause, status). (if n = 0x035 then v else tvec, if n = 0x341 then v else epc,
     if n = 0x342 then v else cause, if n = 0x300 then v else status))"

definition core_csrs :: "core_csr csr_ops" where
  "core_csrs = \<lparr>csrw = (\<lambda>csr v. core_csr_write (csr_number csr) v),
     csrr = (\<lambda>csr c. (ucast (csr_number csr), core_csr_write (csr_number csr) 0 c))\<rparr>"

definition csr_view :: "arch \<Rightarrow> core_csr" where
  "csr_view a = (a_mtvec a, a_mepc a, a_mcause a, a_mstatus a)"

text \<open>The words of \<open>csrrw x0,csr,rs\<close> and \<open>csrrs rd,csr,x0\<close> do this on the system.\<close>

lemma imm_of_number: "(ucast (imm_i w) :: 12 word) = csr_number csr \<Longrightarrow> imm_i w = ucast (csr_number csr)"
proof -
  assume n: "(ucast (imm_i w) :: 12 word) = csr_number csr"
  have "imm_i w = scast (ucast (imm_i w) :: 12 word)" unfolding imm_i_def by (rule bit_word_eqI) (auto simp: bit_simps)
  also have "\<dots> = scast (csr_number csr)" by (simp only: n)
  also have "\<dots> = ucast (csr_number csr)" by (simp add: csr_number_def)
  finally show ?thesis .
qed

lemma csr_macros_on_core:
  assumes "soc_ready s" "w = isa_fetch (soc_arch s)" "opcode_of w = 0x73" "(ucast (imm_i w) :: 12 word) = csr_number csr"
    "length ins = 4" "\<forall>i \<in> set ins. in_resetn i"
  shows "\<exists>s'. soc_run ins s = Some s' \<and> soc_ready s'
    \<and> csr_view (soc_arch s') = csrw core_csrs csr (xreg (soc_arch s) (rs1_of w)) (csr_view (soc_arch s))
    \<and> (rs1_of w = 0 \<and> rd_of w \<noteq> 0 \<longrightarrow> (xreg (soc_arch s') (rd_of w), csr_view (soc_arch s')) = csrr core_csrs csr (csr_view (soc_arch s)))"
proof -
  have zero: "xreg a 0 = 0" for a by (simp add: xreg_def)
  obtain s' where s': "soc_run ins s = Some s'" "soc_ready s'"
    "xreg (soc_arch s') (rd_of w) = (if rd_of w = 0 then 0 else xreg (soc_arch s) (rs1_of w) + ucast (csr_number csr))"
    "csr_view (soc_arch s') = core_csr_write (csr_number csr) (xreg (soc_arch s) (rs1_of w)) (csr_view (soc_arch s))"
    using csr_registers [OF assms(1-3,5,6) refl assms(4) [symmetric] refl] unfolding imm_of_number [OF assms(4)] csr_view_def
    by (auto simp: core_csr_write_def)
  then show ?thesis by (simp add: core_csrs_def zero)
qed

section \<open>Correctness\<close>

declare printf.simps [simp del]











text \<open>The words of the two test vectors and the lines the program prints about them.\<close>

lemma test_vectors:
  "push_bit 24 1 OR push_bit 16 2 OR push_bit 8 3 OR 4 = (0x01020304 :: i32)"
  "push_bit 24 10 OR push_bit 16 20 OR push_bit 8 30 OR 40 = (0x0A141E28 :: i32)"
  by code_simp+

definition pv_log :: "string list" where
  "pv_log =
    [''PVADD result: 1 2 3 4 + 10 20 30 40 = 11 22 33 44'' @ [CHR_NL],
     ''PVMUL result: 3 * 30 + 4 * 40 = 90 160'' @ [CHR_NL],
     ''PVMUL_UPPER result: 1 * 10 + 2 * 20 = 10 40'' @ [CHR_NL],
     ''PVMAC result: 1 * 10 + 2 * 20 + 3 * 30 + 4 * 40 = 300'' @ [CHR_NL],
     puts (''end: pvadd test'' @ [CHR_NL]),
     ''PVMAC exact result: 160'' @ [CHR_NL]]"

lemma pv_lines:
  "printf (''PVADD result: %d %d %d %d + %d %d %d %d = %d %d %d %d'' @ [CHR_NL])
     (byte_args 0x01020304 @ byte_args 0x0A141E28 @ byte_args (hal_pvadd 0x01020304 0x0A141E28)) = Some (pv_log ! 0)"
  "printf (''PVMUL result: %d * %d + %d * %d = %d %d'' @ [CHR_NL])
     ([VInt (signed_drop_bit 8 (0x01020304 AND 0xFF00)), VInt (signed_drop_bit 8 (0x0A141E28 AND 0xFF00)),
       VInt (0x01020304 AND 0x00FF), VInt (0x0A141E28 AND 0x00FF)] @ half_args (hal_pvmul 0x01020304 0x0A141E28)) = Some (pv_log ! 1)"
  "printf (''PVMUL_UPPER result: %d * %d + %d * %d = %d %d'' @ [CHR_NL])
     ([VInt (drop_bit 24 (0x01020304 AND 0xFF000000)), VInt (drop_bit 24 (0x0A141E28 AND 0xFF000000)),
       VInt (signed_drop_bit 16 (0x01020304 AND 0x00FF0000)), VInt (signed_drop_bit 16 (0x0A141E28 AND 0x00FF0000))]
      @ half_args (hal_pvmul_upper 0x01020304 0x0A141E28)) = Some (pv_log ! 2)"
  "printf (''PVMAC result: %d * %d + %d * %d + %d * %d + %d * %d = %d'' @ [CHR_NL])
     [VInt (drop_bit 24 (0x01020304 AND 0xFF000000)), VInt (drop_bit 24 (0x0A141E28 AND 0xFF000000)),
      VInt (signed_drop_bit 16 (0x01020304 AND 0x00FF0000)), VInt (signed_drop_bit 16 (0x0A141E28 AND 0x00FF0000)),
      VInt (signed_drop_bit 8 (0x01020304 AND 0x0000FF00)), VInt (signed_drop_bit 8 (0x0A141E28 AND 0x0000FF00)),
      VInt (0x01020304 AND 0x000000FF), VInt (0x0A141E28 AND 0x000000FF), VInt (hal_pvmac 0x01020304 0x0A141E28)] = Some (pv_log ! 3)"
  "printf (''PVMAC exact result: %d'' @ [CHR_NL]) [VInt (packed_multiply_accumulate_exact 0x01020304 0x0A141E28)] = Some (pv_log ! 5)"
  by code_simp+

lemma map_option_Some_eq: "map_option f x = Some y \<longleftrightarrow> (\<exists>z. x = Some z \<and> f z = y)"
  by (cases x) auto

text \<open>
  What the report prints: the sums that the comments announce, but as products 90 160 and 10 40, where the
  comments expect [10,40,90,160] and [20,60], the accumulation 300, and 160 for the "exact" formula.
\<close>

lemma packed_tests_report:
  "map_option events (packed_tests s) = Some (events s @ Console (puts (''begin: pvadd test'' @ [CHR_NL])) # map Console pv_log)"
proof -
  have log: "pv_log = [pv_log ! 0, pv_log ! 1, pv_log ! 2, pv_log ! 3, puts (''end: pvadd test'' @ [CHR_NL]), pv_log ! 5]"
    by (simp add: pv_log_def)
  show ?thesis
    unfolding packed_tests_def test_vectors Let_def fw_printf_def pv_lines
    by (subst log) (simp add: fw_puts_def emit_def)
qed

text \<open>
  The trap handler: a non-negative \<open>mcause\<close> is printed in hexadecimal, cause 2 stops at
  \<open>ebreak\<close>, cause 7 clears the timer, every other cause returns; a cause with its top bit set (an
  interrupt, in the encoding of the privileged architecture) makes the handler read outside
  \<open>digits\<close> before it looks at the cause.
\<close>

lemma trap_entry_outcome:
  "let cause = fst (csrr O' ''mcause'' (csrs s)) in
    (trap_entry O' s = None \<longleftrightarrow> sint cause < 0) \<and>
    (0 \<le> sint cause \<longrightarrow>
      map_option events (trap_entry O' s) = Some (events s @
        map Console [puts (''Trap occurred!'' @ [CHR_NL]), puts ''mcause: '', numeral_of 16 (nat (sint cause)), puts [CHR_NL]] @
        (if cause = 2 then [Console (puts (''Illegal instruction trap detected.'' @ [CHR_NL])), Ebreak]
         else if cause = 11 then [Console (puts (''ECALL detected.'' @ [CHR_NL]))]
         else if cause = 7 then [Console (puts (''Timer interrupt detected.'' @ [CHR_NL])), Clear_timer]
         else [Console (puts (''Unknown trap cause.'' @ [CHR_NL]))])))"
  by (simp add: trap_entry_def Let_def fw_printint_def printint_facts fw_puts_def emit_def read_csr_def split_beta)

section \<open>Echo\<close>

definition echo_banner :: hart_event where
  "echo_banner = Console (puts (''Echo test started. Type characters to echo them back. Press Ctrl+C to exit.'' @ [CHR_NL]))"

definition turn_log :: "char \<Rightarrow> hart_event list" where
  "turn_log c = map Console [puts ''Type a character: '', [c], [CHR_NL]]"

lemma echo_turn: "echo_loop ((early, late) # ts) 0 q s = (case q @ early of [] \<Rightarrow> Waiting (fw_puts ''Type a character: '' s)
    | c # q \<Rightarrow> echo_loop ts 0 (tl (q @ late)) (s\<lparr>events := events s @ turn_log c\<rparr>))"
  by (simp add: fw_puts_def emit_def turn_log_def Let_def split: list.split)

lemma echo_goes_on: "echo_loop ts 0 q s \<noteq> Returned r"
proof (induction ts arbitrary: q s)
  case (Cons t ts)
  then show ?case by (cases t) (simp only: echo_turn split: list.split, simp)
qed simp

lemma echo_ahead:
  "2 * n \<le> length xs + 1 \<Longrightarrow> echo_loop (replicate n ([], [])) 0 xs s
    = Going (drop (2 * n) xs) (s\<lparr>events := events s @ concat (map (\<lambda>k. turn_log (xs ! (2 * k))) [0..<n])\<rparr>)"
proof (induction n arbitrary: xs s)
  case (Suc n)
  then obtain c ys where xs: "xs = c # ys" by (cases xs) auto
  have "2 * n \<le> length (tl ys) + 1" using Suc.prems by (simp add: xs)
  note IH = Suc.IH [OF this]
  have nth: "tl ys ! (2 * k) = xs ! (2 * Suc k)" if "k < n" for k
    using that Suc.prems by (cases ys) (simp_all add: xs)
  have "map (\<lambda>k. turn_log (xs ! (2 * k))) [0..<Suc n] = turn_log c # map (\<lambda>k. turn_log (xs ! (2 * Suc k))) [0..<n]"
    by (simp add: upt_conv_Cons map_Suc_upt [symmetric] comp_def xs del: upt_Suc)
  also have "map (\<lambda>k. turn_log (xs ! (2 * Suc k))) [0..<n] = map (\<lambda>k. turn_log (tl ys ! (2 * k))) [0..<n]"
    using nth by (intro map_cong) simp_all
  finally have "concat (map (\<lambda>k. turn_log (xs ! (2 * k))) [0..<Suc n]) = turn_log c @ concat (map (\<lambda>k. turn_log (tl ys ! (2 * k))) [0..<n])"
    by (simp del: upt_Suc)
  moreover have "drop (2 * n) (tl ys) = drop (2 * Suc n) xs" by (simp add: xs drop_Suc drop_tl [symmetric])
  ultimately show ?case using IH by (simp add: echo_turn xs del: echo_loop.simps(2))
qed simp

lemma echo_waiting:
  "\<forall>(c, late) \<in> set cs. length late \<le> 1 \<Longrightarrow> echo_loop (map (\<lambda>(c, late). ([c], late)) cs) 0 [] s
    = Going [] (s\<lparr>events := events s @ concat (map (turn_log \<circ> fst) cs)\<rparr>)"
proof (induction cs arbitrary: s)
  case (Cons t cs)
  obtain c late where t: "t = (c, late)" by (cases t)
  then have "tl late = []" using Cons.prems by (cases late) auto
  with Cons show ?case by (simp add: t echo_turn del: echo_loop.simps(2))
qed simp

text \<open>
  C38.  \<open>echo\<close> never returns, whatever is typed, and it echoes only what is typed slowly enough.  When the
  bytes \<open>xs\<close> wait at the start and nothing else is typed, its first \<open>n\<close> turns echo every second one of them and
  lose the others to \<open>fflush\<close>; when a byte is typed only after the prompt for it, that byte is echoed, and one
  more that is typed before the line is finished is lost.
\<close>

theorem echo_loses_every_second:
  "(\<forall>ts q r. echo ts q s \<noteq> Returned r)
   \<and> (2 * n \<le> length xs + 1 \<longrightarrow> (\<exists>s'. echo (replicate n ([], [])) xs s = Going (drop (2 * n) xs) s'
      \<and> events s' = events s @ echo_banner # concat (map (\<lambda>k. turn_log (xs ! (2 * k))) [0..<n])))
   \<and> ((\<forall>(c, late) \<in> set cs. length late \<le> 1) \<longrightarrow> (\<exists>s'. echo (map (\<lambda>(c, late). ([c], late)) cs) [] s = Going [] s'
      \<and> events s' = events s @ echo_banner # concat (map (turn_log \<circ> fst) cs)))"
proof -
  have start: "echo ts q s = echo_loop ts 0 q (s\<lparr>events := events s @ [echo_banner]\<rparr>)" for ts q
    by (simp add: echo_def echo_banner_def fw_puts_def emit_def)
  show ?thesis unfolding start
    by (intro conjI allI impI echo_goes_on) (rule exI, rule conjI, erule echo_ahead echo_waiting, simp)+
qed

text \<open>\<open>abcd\<close> typed ahead gives \<open>a\<close> and \<open>c\<close>.\<close>

theorem echo_loses_every_second_witness:
  "(\<exists>s'. echo (replicate 2 ([], [])) ''abcd'' \<lparr>csrs = (), events = []\<rparr> = Going [] s'
      \<and> events s' = echo_banner # turn_log CHR ''a'' @ turn_log CHR ''c'')
   \<and> (\<exists>s'. echo [(''a'', ''b'')] [] \<lparr>csrs = (), events = []\<rparr> = Going [] s' \<and> events s' = echo_banner # turn_log CHR ''a'')"
  using echo_loses_every_second [of "\<lparr>csrs = (), events = []\<rparr>" 2 "''abcd''" "[(CHR ''a'', ''b'')]"]
  by (simp add: eval_nat_numeral)

end
