(* ===== verification/Syscalls.thy ===== *)
theory Syscalls
  imports Prelude
begin

text \<open>
  The C library's system-call stubs (sw/mnist-newlib/syscalls.c; sw/sw-newlib/syscalls.c is the
  same file).  The state is what the stubs touch: the words stored to the UART at
  \<open>0x10000000\<close>, \<open>errno\<close>, the static \<open>heap_end\<close> of \<open>_sbrk\<close>, the byte memory they read, and
  whether an \<open>ebreak\<close> has stopped the machine.  Addresses and sizes are 32-bit.
\<close>

record sys_state =
  uart :: "i32 list"
  sys_errno :: i32
  heap_end :: i32
  sys_mem :: "i32 \<Rightarrow> i8"
  stopped :: bool

definition ENOENT :: i32 where "ENOENT = 2"

definition uart_store :: "i32 \<Rightarrow> sys_state \<Rightarrow> sys_state" where
  "uart_store v s = s\<lparr>uart := uart s @ [v]\<rparr>"

definition UNIMPL_FUNC :: "string list" where
  "UNIMPL_FUNC =
    [''_open'', ''_openat'', ''_lseek'', ''_stat'', ''_lstat'', ''_fstatat'', ''_isatty'', ''_access'',
     ''_faccessat'', ''_link'', ''_unlink'', ''_execve'', ''_getpid'', ''_fork'', ''_kill'', ''_wait'',
     ''_times'', ''_gettimeofday'', ''_ftime'', ''_utime'', ''_chown'', ''_chmod'', ''_chdir'', ''_getcwd'',
     ''_sysconf'']"

fun print_loop :: "string \<Rightarrow> sys_state \<Rightarrow> sys_state" where
  "print_loop [] s = s"
| "print_loop (c # p) s = (if c = CHR 0x00 then s else print_loop p (uart_store (of_char c) s))"

definition unimplemented_syscall :: "sys_state \<Rightarrow> sys_state" where
  "unimplemented_syscall s =
    (let s = print_loop (''Unimplemented system call called!'' @ [CHR 0x0A]) s in s\<lparr>stopped := True\<rparr>)"

definition sys_read :: "i32 \<Rightarrow> i32 \<Rightarrow> i32 \<Rightarrow> sys_state \<Rightarrow> i32 \<times> sys_state" where
  "sys_read file ptr len s = (0, s)"

text \<open>\<open>while (ptr != eptr) *UART = *(char*)(ptr++)\<close>; plain \<open>char\<close> is unsigned on RISC-V.\<close>

function write_loop :: "i32 \<Rightarrow> i32 \<Rightarrow> sys_state \<Rightarrow> sys_state" where
  "write_loop ptr eptr s =
    (if ptr = eptr then s else write_loop (ptr + 1) eptr (uart_store (ucast (sys_mem s ptr)) s))"
  by pat_completeness auto
termination
proof (relation "measure (\<lambda>(ptr, eptr, s). unat (eptr - ptr))")
  fix ptr eptr :: i32 and s :: sys_state
  assume "ptr \<noteq> eptr"
  then have "unat (eptr - ptr - 1) < unat (eptr - ptr)"
    by (metis diff_0_right eq_iff_diff_eq_0 lessI measure_unat word_less_nat_alt)
  then show "((ptr + 1, eptr, uart_store (ucast (sys_mem s ptr)) s), ptr, eptr, s)
      \<in> measure (\<lambda>(ptr, eptr, s). unat (eptr - ptr))"
    by (simp add: algebra_simps)
qed simp

declare write_loop.simps [simp del]

definition sys_write :: "i32 \<Rightarrow> i32 \<Rightarrow> i32 \<Rightarrow> sys_state \<Rightarrow> i32 \<times> sys_state" where
  "sys_write file ptr len s = (let eptr = ptr + len in (len, write_loop ptr eptr s))"

definition sys_close :: "i32 \<Rightarrow> sys_state \<Rightarrow> i32 \<times> sys_state" where
  "sys_close file s = (0, s)"

definition sys_fstat :: "i32 \<Rightarrow> i32 \<Rightarrow> sys_state \<Rightarrow> i32 \<times> sys_state" where
  "sys_fstat file st s = (- 1, s\<lparr>sys_errno := ENOENT\<rparr>)"

text \<open>\<open>_end\<close> is the end of the image, set by the linker.\<close>

definition sys_sbrk :: "i32 \<Rightarrow> i32 \<Rightarrow> sys_state \<Rightarrow> i32 \<times> sys_state" where
  "sys_sbrk end_sym incr s =
    (let s = (if heap_end s = 0 then s\<lparr>heap_end := end_sym\<rparr> else s);
         s = s\<lparr>heap_end := heap_end s + incr\<rparr>
     in (heap_end s - incr, s))"

definition sys_exit :: "i32 \<Rightarrow> sys_state \<Rightarrow> sys_state" where
  "sys_exit exit_status s = s\<lparr>stopped := True\<rparr>"

fun sbrk_run :: "i32 \<Rightarrow> i32 list \<Rightarrow> sys_state \<Rightarrow> i32 list \<times> sys_state" where
  "sbrk_run end_sym [] s = ([], s)"
| "sbrk_run end_sym (n # ns) s =
    (let (p, s) = sys_sbrk end_sym n s; (ps, s) = sbrk_run end_sym ns s in (p # ps, s))"

section \<open>Correctness\<close>

lemma print_loop_text:
  "list_all (\<lambda>c. c \<noteq> CHR 0x00) p \<Longrightarrow> print_loop p s = s\<lparr>uart := uart s @ map of_char p\<rparr>"
  by (induction p arbitrary: s) (simp_all add: uart_store_def)

lemma write_loop_bytes:
  "write_loop ptr (ptr + word_of_nat n) s
   = s\<lparr>uart := uart s @ map (\<lambda>k. ucast (sys_mem s (ptr + word_of_nat k))) [0..<n]\<rparr>" if "n < 2 ^ 32"
  using that
proof (induction n arbitrary: ptr s)
  case 0
  then show ?case by (subst write_loop.simps) simp
next
  case (Suc n)
  have "unat (word_of_nat (Suc n) :: i32) = Suc n"
    using Suc.prems by (simp add: unat_of_nat take_bit_nat_eq_self del: of_nat_Suc)
  then have "(word_of_nat (Suc n) :: i32) \<noteq> 0" by (metis nat.distinct(1) unsigned_0)
  then have ne: "ptr \<noteq> ptr + word_of_nat (Suc n)" by (metis add_cancel_right_right)
  have "write_loop ptr (ptr + word_of_nat (Suc n)) s
      = write_loop (ptr + 1) (ptr + 1 + word_of_nat n) (uart_store (ucast (sys_mem s ptr)) s)"
    using ne by (subst write_loop.simps) (simp add: algebra_simps)
  also have "\<dots> = s\<lparr>uart := uart s @ ucast (sys_mem s ptr) # map (\<lambda>k. ucast (sys_mem s (ptr + 1 + word_of_nat k))) [0..<n]\<rparr>"
    using Suc.prems by (subst Suc.IH) (simp_all add: uart_store_def)
  also have "ucast (sys_mem s ptr) # map (\<lambda>k. ucast (sys_mem s (ptr + 1 + word_of_nat k))) [0..<n]
      = (map (\<lambda>k. ucast (sys_mem s (ptr + word_of_nat k))) [0..<Suc n] :: i32 list)"
    by (simp add: map_upt_Suc algebra_simps del: upt_Suc)
  finally show ?case .
qed

text \<open>
  \<open>_write\<close> always returns, reports every byte written, and sends exactly the bytes of the
  buffer in order, zero-extended, leaving the rest of the state alone, for every address and
  length (also when the buffer wraps around the address space).
\<close>

theorem write_sends_buffer:
  "sys_write file ptr len s =
    (len, s\<lparr>uart := uart s @ map (\<lambda>k. ucast (sys_mem s (ptr + word_of_nat k))) [0..<unat len]\<rparr>)"
  using write_loop_bytes [of "unat len" ptr s] unsigned_less [of len, where 'a = nat]
  by (simp add: sys_write_def)

text \<open>
  Calls of \<open>_sbrk\<close> with increments that keep the heap below the end of the address space
  return adjacent blocks in order, the first at \<open>_end\<close>: block \<open>k\<close> starts at \<open>_end\<close> plus the
  increments before it, so blocks never overlap.
\<close>

theorem sbrk_blocks:
  assumes "heap_end s = 0 \<or> heap_end s = end_sym" "end_sym \<noteq> 0" "unat end_sym + sum_list (map unat ns) < 2 ^ 32"
    and "k < length ns"
  shows "unat (fst (sbrk_run end_sym ns s) ! k) = unat end_sym + sum_list (map unat (take k ns))"
proof -
  have run: "fst (sbrk_run end_sym ns s) ! k = b + sum_list (take k ns)"
    if "(if heap_end s = 0 then end_sym else heap_end s) = b" "b \<noteq> 0" "unat b + sum_list (map unat ns) < 2 ^ 32"
      "k < length ns" for b k ns s
    using that
  proof (induction ns arbitrary: s b k)
    case (Cons n ns)
    have "unat (b + n) = unat b + unat n"
      using Cons.prems(3) by (intro unat_add_lem [THEN iffD1]) simp
    moreover from this Cons.prems(2) have "b + n \<noteq> 0" by (metis add_eq_0_iff_both_eq_0 unat_eq_zero unsigned_0)
    ultimately show ?case
      using Cons.prems Cons.IH [of "s\<lparr>heap_end := b + n\<rparr>" "b + n" "k - 1"]
      by (cases k) (auto simp: sys_sbrk_def Let_def add.assoc split: prod.split if_splits)
  qed simp
  have "unat (b + sum_list ms) = unat b + sum_list (map unat ms)"
    if "unat b + sum_list (map unat ms) < 2 ^ 32" for b :: i32 and ms
    using that
  proof (induction ms arbitrary: b)
    case (Cons m ms)
    then have "unat (b + m) = unat b + unat m" by (intro unat_add_lem [THEN iffD1]) simp
    with Cons show ?case by (simp flip: add.assoc)
  qed simp
  moreover have "sum_list (map unat (take k ns)) \<le> sum_list (map unat ns)"
    by (metis append_take_drop_id le_add1 map_append sum_list_append)
  ultimately show ?thesis
    using run [of s end_sym ns k] assms by auto
qed

theorem sbrk_blocks_witness:
  "unat (fst (sbrk_run 0x2000 [16, 32, 8] \<lparr>uart = [], sys_errno = 0, heap_end = 0, sys_mem = (\<lambda>_. 0), stopped = False\<rparr>) ! 2)
   = unat (0x2000 :: i32) + sum_list (map unat (take 2 [16, 32, 8 :: i32]))"
  by (rule sbrk_blocks) simp_all

text \<open>
  Every stub that is not implemented prints its message and stops the machine.
\<close>

lemma unimplemented_stops:
  "uart (unimplemented_syscall s) = uart s @ map of_char (''Unimplemented system call called!'' @ [CHR 0x0A]) \<and>
   stopped (unimplemented_syscall s) \<and> sys_mem (unimplemented_syscall s) = sys_mem s \<and>
   heap_end (unimplemented_syscall s) = heap_end s \<and> sys_errno (unimplemented_syscall s) = sys_errno s"
  by (simp add: unimplemented_syscall_def Let_def print_loop_text del: print_loop.simps)

end
