(* ===== verification/Riscv_Encoding.thy ===== *)
theory Riscv_Encoding
  imports Decoder
begin

text \<open>
  The instruction encoding of the assembler and disassembler of the repository's customised
  binutils (tools/binutils-2.41/include/opcode/riscv.h): instruction lengths, field access, the
  immediate encodings of every format, and their relation to the hardware decoder.  An \<open>insn_t\<close>
  is a 64-bit word; the C shifts and masks are \<open>push_bit\<close>, \<open>drop_bit\<close> and \<open>AND\<close>.
\<close>

section \<open>Instruction length\<close>

definition RISCV_MAX_INSN_LEN :: nat where "RISCV_MAX_INSN_LEN = 22"

definition riscv_insn_length :: "i64 \<Rightarrow> nat" where
  "riscv_insn_length insn =
    (if insn AND 0x3 \<noteq> 0x3 then 2
     else if insn AND 0x1f \<noteq> 0x1f then 4
     else if insn AND 0x3f = 0x1f then 6
     else if insn AND 0x7f = 0x3f then 8
     else if insn AND 0x7f = 0x7f \<and> insn AND 0x7000 \<noteq> 0x7000 then 10 + unat (drop_bit 11 insn AND 0xe)
     else 2)"

section \<open>Fields\<close>

definition RV_X :: "i64 \<Rightarrow> nat \<Rightarrow> nat \<Rightarrow> i64" where
  "RV_X x s n = drop_bit s x AND (push_bit n 1 - 1)"

definition RV_IMM_SIGN :: "i64 \<Rightarrow> i64" where
  "RV_IMM_SIGN x = - (drop_bit 31 x AND 1)"

definition RV_X_SIGNED :: "i64 \<Rightarrow> nat \<Rightarrow> nat \<Rightarrow> i64" where
  "RV_X_SIGNED x s n = RV_X x s n OR push_bit n (- (RV_X x (s + n - 1) 1))"

definition RISCV_IMM_BITS :: nat where "RISCV_IMM_BITS = 12"

definition INSERT_BITS :: "i64 \<Rightarrow> i64 \<Rightarrow> i64 \<Rightarrow> nat \<Rightarrow> i64" where
  "INSERT_BITS st v m sh = (st AND NOT (push_bit sh m)) OR push_bit sh (v AND m)"

definition EXTRACT_BITS :: "i64 \<Rightarrow> i64 \<Rightarrow> nat \<Rightarrow> i64" where
  "EXTRACT_BITS st m sh = drop_bit sh st AND m"

section \<open>Immediates\<close>

definition EXTRACT_ITYPE_IMM :: "i64 \<Rightarrow> i64" where
  "EXTRACT_ITYPE_IMM x = RV_X x 20 12 OR push_bit 12 (RV_IMM_SIGN x)"

definition EXTRACT_STYPE_IMM :: "i64 \<Rightarrow> i64" where
  "EXTRACT_STYPE_IMM x = RV_X x 7 5 OR push_bit 5 (RV_X x 25 7) OR push_bit 12 (RV_IMM_SIGN x)"

definition EXTRACT_BTYPE_IMM :: "i64 \<Rightarrow> i64" where
  "EXTRACT_BTYPE_IMM x = push_bit 1 (RV_X x 8 4) OR push_bit 5 (RV_X x 25 6) OR push_bit 11 (RV_X x 7 1) OR push_bit 12 (RV_IMM_SIGN x)"

definition EXTRACT_UTYPE_IMM :: "i64 \<Rightarrow> i64" where
  "EXTRACT_UTYPE_IMM x = push_bit 12 (RV_X x 12 20) OR push_bit 32 (RV_IMM_SIGN x)"

definition EXTRACT_JTYPE_IMM :: "i64 \<Rightarrow> i64" where
  "EXTRACT_JTYPE_IMM x = push_bit 1 (RV_X x 21 10) OR push_bit 11 (RV_X x 20 1) OR push_bit 12 (RV_X x 12 8) OR push_bit 20 (RV_IMM_SIGN x)"

definition EXTRACT_CITYPE_IMM :: "i64 \<Rightarrow> i64" where
  "EXTRACT_CITYPE_IMM x = RV_X x 2 5 OR push_bit 5 (- (RV_X x 12 1))"

definition EXTRACT_CITYPE_LUI_IMM :: "i64 \<Rightarrow> i64" where
  "EXTRACT_CITYPE_LUI_IMM x = push_bit RISCV_IMM_BITS (EXTRACT_CITYPE_IMM x)"

definition EXTRACT_CITYPE_ADDI16SP_IMM :: "i64 \<Rightarrow> i64" where
  "EXTRACT_CITYPE_ADDI16SP_IMM x = push_bit 4 (RV_X x 6 1) OR push_bit 5 (RV_X x 2 1) OR push_bit 6 (RV_X x 5 1) OR push_bit 7 (RV_X x 3 2) OR push_bit 9 (- (RV_X x 12 1))"

definition EXTRACT_CITYPE_LWSP_IMM :: "i64 \<Rightarrow> i64" where
  "EXTRACT_CITYPE_LWSP_IMM x = push_bit 2 (RV_X x 4 3) OR push_bit 5 (RV_X x 12 1) OR push_bit 6 (RV_X x 2 2)"

definition EXTRACT_CITYPE_LDSP_IMM :: "i64 \<Rightarrow> i64" where
  "EXTRACT_CITYPE_LDSP_IMM x = push_bit 3 (RV_X x 5 2) OR push_bit 5 (RV_X x 12 1) OR push_bit 6 (RV_X x 2 3)"

definition EXTRACT_CSSTYPE_IMM :: "i64 \<Rightarrow> i64" where
  "EXTRACT_CSSTYPE_IMM x = push_bit 0 (RV_X x 7 6)"

definition EXTRACT_CSSTYPE_SWSP_IMM :: "i64 \<Rightarrow> i64" where
  "EXTRACT_CSSTYPE_SWSP_IMM x = push_bit 2 (RV_X x 9 4) OR push_bit 6 (RV_X x 7 2)"

definition EXTRACT_CSSTYPE_SDSP_IMM :: "i64 \<Rightarrow> i64" where
  "EXTRACT_CSSTYPE_SDSP_IMM x = push_bit 3 (RV_X x 10 3) OR push_bit 6 (RV_X x 7 3)"

definition EXTRACT_CIWTYPE_IMM :: "i64 \<Rightarrow> i64" where
  "EXTRACT_CIWTYPE_IMM x = RV_X x 5 8"

definition EXTRACT_CIWTYPE_ADDI4SPN_IMM :: "i64 \<Rightarrow> i64" where
  "EXTRACT_CIWTYPE_ADDI4SPN_IMM x = push_bit 2 (RV_X x 6 1) OR push_bit 3 (RV_X x 5 1) OR push_bit 4 (RV_X x 11 2) OR push_bit 6 (RV_X x 7 4)"

definition EXTRACT_CLTYPE_IMM :: "i64 \<Rightarrow> i64" where
  "EXTRACT_CLTYPE_IMM x = push_bit 0 (RV_X x 5 2) OR push_bit 2 (RV_X x 10 3)"

definition EXTRACT_CLTYPE_LW_IMM :: "i64 \<Rightarrow> i64" where
  "EXTRACT_CLTYPE_LW_IMM x = push_bit 2 (RV_X x 6 1) OR push_bit 3 (RV_X x 10 3) OR push_bit 6 (RV_X x 5 1)"

definition EXTRACT_CLTYPE_LD_IMM :: "i64 \<Rightarrow> i64" where
  "EXTRACT_CLTYPE_LD_IMM x = push_bit 3 (RV_X x 10 3) OR push_bit 6 (RV_X x 5 2)"

definition EXTRACT_CBTYPE_IMM :: "i64 \<Rightarrow> i64" where
  "EXTRACT_CBTYPE_IMM x = push_bit 1 (RV_X x 3 2) OR push_bit 3 (RV_X x 10 2) OR push_bit 5 (RV_X x 2 1) OR push_bit 6 (RV_X x 5 2) OR push_bit 8 (- (RV_X x 12 1))"

definition EXTRACT_CJTYPE_IMM :: "i64 \<Rightarrow> i64" where
  "EXTRACT_CJTYPE_IMM x = push_bit 1 (RV_X x 3 3) OR push_bit 4 (RV_X x 11 1) OR push_bit 5 (RV_X x 2 1) OR push_bit 6 (RV_X x 7 1) OR push_bit 7 (RV_X x 6 1) OR push_bit 8 (RV_X x 9 2) OR push_bit 10 (RV_X x 8 1) OR push_bit 11 (- (RV_X x 12 1))"

definition EXTRACT_RVV_VI_IMM :: "i64 \<Rightarrow> i64" where
  "EXTRACT_RVV_VI_IMM x = RV_X x 15 5 OR push_bit 5 (- (RV_X x 19 1))"

definition EXTRACT_RVV_VI_UIMM :: "i64 \<Rightarrow> i64" where
  "EXTRACT_RVV_VI_UIMM x = RV_X x 15 5"

definition EXTRACT_RVV_VI_UIMM6 :: "i64 \<Rightarrow> i64" where
  "EXTRACT_RVV_VI_UIMM6 x = RV_X x 15 5 OR push_bit 5 (RV_X x 26 1)"

definition EXTRACT_RVV_OFFSET :: "i64 \<Rightarrow> i64" where
  "EXTRACT_RVV_OFFSET x = RV_X x 29 3"

definition EXTRACT_RVV_VB_IMM :: "i64 \<Rightarrow> i64" where
  "EXTRACT_RVV_VB_IMM x = RV_X x 20 10"

definition EXTRACT_RVV_VC_IMM :: "i64 \<Rightarrow> i64" where
  "EXTRACT_RVV_VC_IMM x = RV_X x 20 11"

definition ENCODE_ITYPE_IMM :: "i64 \<Rightarrow> i64" where
  "ENCODE_ITYPE_IMM x = push_bit 20 (RV_X x 0 12)"

definition ENCODE_STYPE_IMM :: "i64 \<Rightarrow> i64" where
  "ENCODE_STYPE_IMM x = push_bit 7 (RV_X x 0 5) OR push_bit 25 (RV_X x 5 7)"

definition ENCODE_BTYPE_IMM :: "i64 \<Rightarrow> i64" where
  "ENCODE_BTYPE_IMM x = push_bit 8 (RV_X x 1 4) OR push_bit 25 (RV_X x 5 6) OR push_bit 7 (RV_X x 11 1) OR push_bit 31 (RV_X x 12 1)"

definition ENCODE_UTYPE_IMM :: "i64 \<Rightarrow> i64" where
  "ENCODE_UTYPE_IMM x = push_bit 12 (RV_X x 12 20)"

definition ENCODE_JTYPE_IMM :: "i64 \<Rightarrow> i64" where
  "ENCODE_JTYPE_IMM x = push_bit 21 (RV_X x 1 10) OR push_bit 20 (RV_X x 11 1) OR push_bit 12 (RV_X x 12 8) OR push_bit 31 (RV_X x 20 1)"

definition ENCODE_CITYPE_IMM :: "i64 \<Rightarrow> i64" where
  "ENCODE_CITYPE_IMM x = push_bit 2 (RV_X x 0 5) OR push_bit 12 (RV_X x 5 1)"

definition ENCODE_CITYPE_LUI_IMM :: "i64 \<Rightarrow> i64" where
  "ENCODE_CITYPE_LUI_IMM x = ENCODE_CITYPE_IMM (drop_bit RISCV_IMM_BITS x)"

definition ENCODE_CITYPE_ADDI16SP_IMM :: "i64 \<Rightarrow> i64" where
  "ENCODE_CITYPE_ADDI16SP_IMM x = push_bit 6 (RV_X x 4 1) OR push_bit 2 (RV_X x 5 1) OR push_bit 5 (RV_X x 6 1) OR push_bit 3 (RV_X x 7 2) OR push_bit 12 (RV_X x 9 1)"

definition ENCODE_CITYPE_LWSP_IMM :: "i64 \<Rightarrow> i64" where
  "ENCODE_CITYPE_LWSP_IMM x = push_bit 4 (RV_X x 2 3) OR push_bit 12 (RV_X x 5 1) OR push_bit 2 (RV_X x 6 2)"

definition ENCODE_CITYPE_LDSP_IMM :: "i64 \<Rightarrow> i64" where
  "ENCODE_CITYPE_LDSP_IMM x = push_bit 5 (RV_X x 3 2) OR push_bit 12 (RV_X x 5 1) OR push_bit 2 (RV_X x 6 3)"

definition ENCODE_CSSTYPE_IMM :: "i64 \<Rightarrow> i64" where
  "ENCODE_CSSTYPE_IMM x = push_bit 7 (RV_X x 0 6)"

definition ENCODE_CSSTYPE_SWSP_IMM :: "i64 \<Rightarrow> i64" where
  "ENCODE_CSSTYPE_SWSP_IMM x = push_bit 9 (RV_X x 2 4) OR push_bit 7 (RV_X x 6 2)"

definition ENCODE_CSSTYPE_SDSP_IMM :: "i64 \<Rightarrow> i64" where
  "ENCODE_CSSTYPE_SDSP_IMM x = push_bit 10 (RV_X x 3 3) OR push_bit 7 (RV_X x 6 3)"

definition ENCODE_CIWTYPE_IMM :: "i64 \<Rightarrow> i64" where
  "ENCODE_CIWTYPE_IMM x = push_bit 5 (RV_X x 0 8)"

definition ENCODE_CIWTYPE_ADDI4SPN_IMM :: "i64 \<Rightarrow> i64" where
  "ENCODE_CIWTYPE_ADDI4SPN_IMM x = push_bit 6 (RV_X x 2 1) OR push_bit 5 (RV_X x 3 1) OR push_bit 11 (RV_X x 4 2) OR push_bit 7 (RV_X x 6 4)"

definition ENCODE_CLTYPE_IMM :: "i64 \<Rightarrow> i64" where
  "ENCODE_CLTYPE_IMM x = push_bit 5 (RV_X x 0 2) OR push_bit 10 (RV_X x 2 3)"

definition ENCODE_CLTYPE_LW_IMM :: "i64 \<Rightarrow> i64" where
  "ENCODE_CLTYPE_LW_IMM x = push_bit 6 (RV_X x 2 1) OR push_bit 10 (RV_X x 3 3) OR push_bit 5 (RV_X x 6 1)"

definition ENCODE_CLTYPE_LD_IMM :: "i64 \<Rightarrow> i64" where
  "ENCODE_CLTYPE_LD_IMM x = push_bit 10 (RV_X x 3 3) OR push_bit 5 (RV_X x 6 2)"

definition ENCODE_CBTYPE_IMM :: "i64 \<Rightarrow> i64" where
  "ENCODE_CBTYPE_IMM x = push_bit 3 (RV_X x 1 2) OR push_bit 10 (RV_X x 3 2) OR push_bit 2 (RV_X x 5 1) OR push_bit 5 (RV_X x 6 2) OR push_bit 12 (RV_X x 8 1)"

definition ENCODE_CJTYPE_IMM :: "i64 \<Rightarrow> i64" where
  "ENCODE_CJTYPE_IMM x = push_bit 3 (RV_X x 1 3) OR push_bit 11 (RV_X x 4 1) OR push_bit 2 (RV_X x 5 1) OR push_bit 7 (RV_X x 6 1) OR push_bit 6 (RV_X x 7 1) OR push_bit 9 (RV_X x 8 2) OR push_bit 8 (RV_X x 10 1) OR push_bit 12 (RV_X x 11 1)"

definition ENCODE_RVV_VB_IMM :: "i64 \<Rightarrow> i64" where
  "ENCODE_RVV_VB_IMM x = push_bit 20 (RV_X x 0 10)"

definition ENCODE_RVV_VC_IMM :: "i64 \<Rightarrow> i64" where
  "ENCODE_RVV_VC_IMM x = push_bit 20 (RV_X x 0 11)"

definition ENCODE_RVV_VI_UIMM6 :: "i64 \<Rightarrow> i64" where
  "ENCODE_RVV_VI_UIMM6 x = push_bit 15 (RV_X x 0 5) OR push_bit 26 (RV_X x 5 1)"

definition VALID_ITYPE_IMM :: "i64 \<Rightarrow> bool" where
  "VALID_ITYPE_IMM x \<longleftrightarrow> EXTRACT_ITYPE_IMM (ENCODE_ITYPE_IMM x) = x"

definition VALID_STYPE_IMM :: "i64 \<Rightarrow> bool" where
  "VALID_STYPE_IMM x \<longleftrightarrow> EXTRACT_STYPE_IMM (ENCODE_STYPE_IMM x) = x"

definition VALID_BTYPE_IMM :: "i64 \<Rightarrow> bool" where
  "VALID_BTYPE_IMM x \<longleftrightarrow> EXTRACT_BTYPE_IMM (ENCODE_BTYPE_IMM x) = x"

definition VALID_UTYPE_IMM :: "i64 \<Rightarrow> bool" where
  "VALID_UTYPE_IMM x \<longleftrightarrow> EXTRACT_UTYPE_IMM (ENCODE_UTYPE_IMM x) = x"

definition VALID_JTYPE_IMM :: "i64 \<Rightarrow> bool" where
  "VALID_JTYPE_IMM x \<longleftrightarrow> EXTRACT_JTYPE_IMM (ENCODE_JTYPE_IMM x) = x"

definition VALID_CITYPE_IMM :: "i64 \<Rightarrow> bool" where
  "VALID_CITYPE_IMM x \<longleftrightarrow> EXTRACT_CITYPE_IMM (ENCODE_CITYPE_IMM x) = x"

definition VALID_CITYPE_LUI_IMM :: "i64 \<Rightarrow> bool" where
  "VALID_CITYPE_LUI_IMM x \<longleftrightarrow> (ENCODE_CITYPE_LUI_IMM x \<noteq> 0 \<and> EXTRACT_CITYPE_LUI_IMM (ENCODE_CITYPE_LUI_IMM x) = x)"

definition VALID_CITYPE_ADDI16SP_IMM :: "i64 \<Rightarrow> bool" where
  "VALID_CITYPE_ADDI16SP_IMM x \<longleftrightarrow> (ENCODE_CITYPE_ADDI16SP_IMM x \<noteq> 0 \<and> EXTRACT_CITYPE_ADDI16SP_IMM (ENCODE_CITYPE_ADDI16SP_IMM x) = x)"

definition VALID_CITYPE_LWSP_IMM :: "i64 \<Rightarrow> bool" where
  "VALID_CITYPE_LWSP_IMM x \<longleftrightarrow> EXTRACT_CITYPE_LWSP_IMM (ENCODE_CITYPE_LWSP_IMM x) = x"

definition VALID_CITYPE_LDSP_IMM :: "i64 \<Rightarrow> bool" where
  "VALID_CITYPE_LDSP_IMM x \<longleftrightarrow> EXTRACT_CITYPE_LDSP_IMM (ENCODE_CITYPE_LDSP_IMM x) = x"

definition VALID_CSSTYPE_IMM :: "i64 \<Rightarrow> bool" where
  "VALID_CSSTYPE_IMM x \<longleftrightarrow> EXTRACT_CSSTYPE_IMM (ENCODE_CSSTYPE_IMM x) = x"

definition VALID_CSSTYPE_SWSP_IMM :: "i64 \<Rightarrow> bool" where
  "VALID_CSSTYPE_SWSP_IMM x \<longleftrightarrow> EXTRACT_CSSTYPE_SWSP_IMM (ENCODE_CSSTYPE_SWSP_IMM x) = x"

definition VALID_CSSTYPE_SDSP_IMM :: "i64 \<Rightarrow> bool" where
  "VALID_CSSTYPE_SDSP_IMM x \<longleftrightarrow> EXTRACT_CSSTYPE_SDSP_IMM (ENCODE_CSSTYPE_SDSP_IMM x) = x"

definition VALID_CIWTYPE_IMM :: "i64 \<Rightarrow> bool" where
  "VALID_CIWTYPE_IMM x \<longleftrightarrow> EXTRACT_CIWTYPE_IMM (ENCODE_CIWTYPE_IMM x) = x"

definition VALID_CIWTYPE_ADDI4SPN_IMM :: "i64 \<Rightarrow> bool" where
  "VALID_CIWTYPE_ADDI4SPN_IMM x \<longleftrightarrow> EXTRACT_CIWTYPE_ADDI4SPN_IMM (ENCODE_CIWTYPE_ADDI4SPN_IMM x) = x"

definition VALID_CLTYPE_IMM :: "i64 \<Rightarrow> bool" where
  "VALID_CLTYPE_IMM x \<longleftrightarrow> EXTRACT_CLTYPE_IMM (ENCODE_CLTYPE_IMM x) = x"

definition VALID_CLTYPE_LW_IMM :: "i64 \<Rightarrow> bool" where
  "VALID_CLTYPE_LW_IMM x \<longleftrightarrow> EXTRACT_CLTYPE_LW_IMM (ENCODE_CLTYPE_LW_IMM x) = x"

definition VALID_CLTYPE_LD_IMM :: "i64 \<Rightarrow> bool" where
  "VALID_CLTYPE_LD_IMM x \<longleftrightarrow> EXTRACT_CLTYPE_LD_IMM (ENCODE_CLTYPE_LD_IMM x) = x"

definition VALID_CBTYPE_IMM :: "i64 \<Rightarrow> bool" where
  "VALID_CBTYPE_IMM x \<longleftrightarrow> EXTRACT_CBTYPE_IMM (ENCODE_CBTYPE_IMM x) = x"

definition VALID_CJTYPE_IMM :: "i64 \<Rightarrow> bool" where
  "VALID_CJTYPE_IMM x \<longleftrightarrow> EXTRACT_CJTYPE_IMM (ENCODE_CJTYPE_IMM x) = x"

definition VALID_RVV_VB_IMM :: "i64 \<Rightarrow> bool" where
  "VALID_RVV_VB_IMM x \<longleftrightarrow> EXTRACT_RVV_VB_IMM (ENCODE_RVV_VB_IMM x) = x"

definition VALID_RVV_VC_IMM :: "i64 \<Rightarrow> bool" where
  "VALID_RVV_VC_IMM x \<longleftrightarrow> EXTRACT_RVV_VC_IMM (ENCODE_RVV_VC_IMM x) = x"

section \<open>Bits of fields\<close>

lemma RV_X_take_bit: "RV_X x s n = take_bit n (drop_bit s x)"
  by (simp add: RV_X_def take_bit_eq_mask mask_eq_exp_minus_1 push_bit_of_1)

lemma bit_RV_X: "bit (RV_X x s n) k \<longleftrightarrow> k < n \<and> bit x (s + k)"
  by (auto simp: RV_X_take_bit bit_simps)

lemma neg_bit1: "- (RV_X x s 1) = (if bit x s then - 1 else 0)"
proof -
  have "RV_X x s 1 = of_bool (bit x s)"
    by (rule bit_word_eqI) (auto simp: bit_RV_X bit_simps)
  then show ?thesis by simp
qed

lemma RV_IMM_SIGN_bit: "RV_IMM_SIGN x = (if bit x 31 then - 1 else 0)"
  using neg_bit1 [of x 31] by (simp add: RV_IMM_SIGN_def RV_X_def)

lemmas enc_bits = bit_RV_X neg_bit1 RV_IMM_SIGN_bit bit_simps

text \<open>Equality of instruction words and immediates, bit by bit.\<close>

lemma upt_64: "[0..<64] = [0,1,2,3,4,5,6,7,8,9,10,11,12,13,14,15,16,17,18,19,20,21,22,23,24,25,26,27,28,29,30,31,32,33,34,35,36,37,38,39,40,41,42,43,44,45,46,47,48,49,50,51,52,53,54,55,56,57,58,59,60,61,62,63::nat]"
  by code_simp

lemma i64_eqI: "list_all (\<lambda>n. bit x n \<longleftrightarrow> bit y n) [0..<64] \<Longrightarrow> x = (y :: i64)"
  by (rule bit_word_eqI) (simp add: list_all_iff)

lemma roundtrip_I: "EXTRACT_ITYPE_IMM (ENCODE_ITYPE_IMM x) = signed_take_bit 11 x"
  by (rule i64_eqI) (simp add: upt_64 EXTRACT_ITYPE_IMM_def ENCODE_ITYPE_IMM_def enc_bits)

lemma roundtrip_S: "EXTRACT_STYPE_IMM (ENCODE_STYPE_IMM x) = signed_take_bit 11 x"
  by (rule i64_eqI) (simp add: upt_64 EXTRACT_STYPE_IMM_def ENCODE_STYPE_IMM_def enc_bits)

lemma roundtrip_J: "EXTRACT_JTYPE_IMM (ENCODE_JTYPE_IMM x) = signed_take_bit 20 x AND NOT 1"
  by (rule i64_eqI) (simp add: upt_64 EXTRACT_JTYPE_IMM_def ENCODE_JTYPE_IMM_def enc_bits del: push_bit_Suc One_nat_def)


lemma roundtrip_B: "EXTRACT_BTYPE_IMM (ENCODE_BTYPE_IMM x) = signed_take_bit 12 x AND NOT 1"
  by (rule i64_eqI) (simp add: upt_64 EXTRACT_BTYPE_IMM_def ENCODE_BTYPE_IMM_def enc_bits del: push_bit_Suc One_nat_def)

lemma roundtrip_U: "EXTRACT_UTYPE_IMM (ENCODE_UTYPE_IMM x) = push_bit 12 (drop_bit 12 (signed_take_bit 31 x))"
  by (rule i64_eqI) (simp add: upt_64 EXTRACT_UTYPE_IMM_def ENCODE_UTYPE_IMM_def enc_bits)

lemma roundtrip_CJ: "EXTRACT_CJTYPE_IMM (ENCODE_CJTYPE_IMM x) = signed_take_bit 11 x AND NOT 1"
  by (rule i64_eqI) (simp add: upt_64 EXTRACT_CJTYPE_IMM_def ENCODE_CJTYPE_IMM_def enc_bits del: push_bit_Suc One_nat_def)

lemma scast_extract_I: "EXTRACT_ITYPE_IMM (ucast insn) = scast (imm_i insn)"
  by (rule i64_eqI) (simp add: upt_64 EXTRACT_ITYPE_IMM_def imm_i_def field_def enc_bits)

lemma scast_extract_S: "EXTRACT_STYPE_IMM (ucast insn) = scast (imm_s insn)"
  by (rule i64_eqI) (simp add: upt_64 EXTRACT_STYPE_IMM_def imm_s_def bit_field enc_bits)

lemma scast_extract_B: "EXTRACT_BTYPE_IMM (ucast insn) = scast (imm_b insn)"
  by (rule i64_eqI) (simp add: upt_64 EXTRACT_BTYPE_IMM_def imm_b_def bit_field enc_bits del: push_bit_Suc One_nat_def)

lemma scast_extract_U: "EXTRACT_UTYPE_IMM (ucast insn) = scast (imm_u insn)"
  by (rule i64_eqI) (simp add: upt_64 EXTRACT_UTYPE_IMM_def imm_u_def bit_field enc_bits)

lemma scast_extract_J: "EXTRACT_JTYPE_IMM (ucast insn) = scast (imm_j insn)"
  by (rule i64_eqI) (simp add: upt_64 EXTRACT_JTYPE_IMM_def imm_j_def bit_field enc_bits del: push_bit_Suc One_nat_def)

section \<open>Ranges\<close>

lemma sint_signed_take_bit: "n < 63 \<Longrightarrow> sint (signed_take_bit n (x :: i64)) = signed_take_bit n (sint x)"
  by (rule bit_eqI) (auto simp: bit_simps min_def)

lemma signed_take_bit_fixed:
  assumes "n < 63"
  shows "signed_take_bit n (x :: i64) = x \<longleftrightarrow> - (2 ^ n) \<le> sint x \<and> sint x < 2 ^ n"
proof -
  have "signed_take_bit n x = x \<longleftrightarrow> sint (signed_take_bit n x) = sint x"
    by (auto intro: signed_word_eqI)
  then show ?thesis
    using signed_take_bit_int_eq_self_iff [of n "sint x"] assms by (simp only: sint_signed_take_bit)
qed

lemma odd_bit0: "bit (x :: i64) 0 \<longleftrightarrow> odd (sint x)"
  using bit_sint_iff [of x 0] by (simp add: bit_0)

text \<open>Clearing the low \<open>m\<close> bits of \<open>y\<close> gives \<open>x\<close> only if \<open>y\<close> is \<open>x\<close> and had them clear.\<close>

lemma clear_low_eq:
  fixes x y z :: i64
  assumes z: "\<And>k. bit z k \<longleftrightarrow> m \<le> k \<and> bit y k" and low: "\<And>k. k < m \<Longrightarrow> bit y k \<longleftrightarrow> bit x k"
  shows "z = x \<longleftrightarrow> (\<forall>k<m. \<not> bit x k) \<and> y = x"
proof
  assume "z = x"
  then have x: "bit x k \<longleftrightarrow> m \<le> k \<and> bit y k" for k using z by blast
  have "\<forall>k<m. \<not> bit x k" by (subst x) auto
  moreover have "y = x"
  proof (rule bit_word_eqI)
    fix k show "bit y k \<longleftrightarrow> bit x k" by (cases "k < m") (use low x [of k] in auto)
  qed
  ultimately show "(\<forall>k<m. \<not> bit x k) \<and> y = x" ..
next
  assume clear: "(\<forall>k<m. \<not> bit x k) \<and> y = x"
  show "z = x"
  proof (rule bit_word_eqI)
    fix k show "bit z k \<longleftrightarrow> bit x k" using clear by (cases "k < m") (auto simp: z)
  qed
qed

lemma even_range_fixed:
  assumes "n < 63" "0 < n"
  shows "signed_take_bit n x AND NOT 1 = (x :: i64) \<longleftrightarrow> even (sint x) \<and> - (2 ^ n) \<le> sint x \<and> sint x < 2 ^ n"
proof -
  have "signed_take_bit n x AND NOT 1 = x \<longleftrightarrow> (\<forall>k<1. \<not> bit x k) \<and> signed_take_bit n x = x"
    using assms(2) by (intro clear_low_eq) (auto simp: bit_simps dest: bit_imp_le_length)
  then show ?thesis using assms(1) by (simp add: odd_bit0 signed_take_bit_fixed)
qed

lemma utype_fixed:
  "push_bit 12 (drop_bit 12 (signed_take_bit 31 x)) = (x :: i64) \<longleftrightarrow> 2 ^ 12 dvd sint x \<and> - (2 ^ 31) \<le> sint x \<and> sint x < 2 ^ 31"
proof -
  let ?y = "signed_take_bit 31 x"
  have dvd: "2 ^ 12 dvd sint x \<longleftrightarrow> (\<forall>k<12. \<not> bit x k)"
  proof -
    have "2 ^ 12 dvd sint x \<longleftrightarrow> take_bit 12 (sint x) = 0" by (simp add: take_bit_eq_0_iff)
    also have "\<dots> \<longleftrightarrow> (\<forall>k<12. \<not> bit (sint x) k)" by (auto simp: bit_eq_iff bit_simps)
    also have "\<dots> \<longleftrightarrow> (\<forall>k<12. \<not> bit x k)" by (auto simp: bit_sint_iff)
    finally show ?thesis .
  qed
  have "push_bit 12 (drop_bit 12 ?y) = x \<longleftrightarrow> (\<forall>k<12. \<not> bit x k) \<and> ?y = x"
    by (rule clear_low_eq) (auto simp: bit_simps dest: bit_imp_le_length)
  moreover have "?y = x \<longleftrightarrow> - (2 ^ 31) \<le> sint x \<and> sint x < 2 ^ 31" by (rule signed_take_bit_fixed) simp
  ultimately show ?thesis unfolding dvd by blast
qed

section \<open>Compressed formats\<close>

lemma roundtrip_CI: "EXTRACT_CITYPE_IMM (ENCODE_CITYPE_IMM x) = signed_take_bit 5 x"
  by (rule i64_eqI) (simp add: upt_64 EXTRACT_CITYPE_IMM_def ENCODE_CITYPE_IMM_def enc_bits del: One_nat_def)

lemma roundtrip_CB: "EXTRACT_CBTYPE_IMM (ENCODE_CBTYPE_IMM x) = signed_take_bit 8 x AND NOT 1"
  by (rule i64_eqI) (simp add: upt_64 EXTRACT_CBTYPE_IMM_def ENCODE_CBTYPE_IMM_def enc_bits del: push_bit_Suc One_nat_def)

lemma roundtrip_ADDI16SP: "EXTRACT_CITYPE_ADDI16SP_IMM (ENCODE_CITYPE_ADDI16SP_IMM x) = push_bit 4 (drop_bit 4 (signed_take_bit 9 x))"
  by (rule i64_eqI) (simp add: upt_64 EXTRACT_CITYPE_ADDI16SP_IMM_def ENCODE_CITYPE_ADDI16SP_IMM_def enc_bits del: push_bit_Suc One_nat_def)

lemma roundtrip_LWSP: "EXTRACT_CITYPE_LWSP_IMM (ENCODE_CITYPE_LWSP_IMM x) = x AND 0xFC"
  by (rule i64_eqI) (simp add: upt_64 EXTRACT_CITYPE_LWSP_IMM_def ENCODE_CITYPE_LWSP_IMM_def enc_bits del: push_bit_Suc One_nat_def, simp add: numeral_eq_Suc)

lemma roundtrip_LDSP: "EXTRACT_CITYPE_LDSP_IMM (ENCODE_CITYPE_LDSP_IMM x) = x AND 0x1F8"
  by (rule i64_eqI) (simp add: upt_64 EXTRACT_CITYPE_LDSP_IMM_def ENCODE_CITYPE_LDSP_IMM_def enc_bits del: push_bit_Suc One_nat_def, simp add: numeral_eq_Suc)

lemma roundtrip_SWSP: "EXTRACT_CSSTYPE_SWSP_IMM (ENCODE_CSSTYPE_SWSP_IMM x) = x AND 0xFC"
  by (rule i64_eqI) (simp add: upt_64 EXTRACT_CSSTYPE_SWSP_IMM_def ENCODE_CSSTYPE_SWSP_IMM_def enc_bits del: push_bit_Suc One_nat_def, simp add: numeral_eq_Suc)

lemma roundtrip_SDSP: "EXTRACT_CSSTYPE_SDSP_IMM (ENCODE_CSSTYPE_SDSP_IMM x) = x AND 0x1F8"
  by (rule i64_eqI) (simp add: upt_64 EXTRACT_CSSTYPE_SDSP_IMM_def ENCODE_CSSTYPE_SDSP_IMM_def enc_bits del: push_bit_Suc One_nat_def, simp add: numeral_eq_Suc)

lemma roundtrip_ADDI4SPN: "EXTRACT_CIWTYPE_ADDI4SPN_IMM (ENCODE_CIWTYPE_ADDI4SPN_IMM x) = x AND 0x3FC"
  by (rule i64_eqI) (simp add: upt_64 EXTRACT_CIWTYPE_ADDI4SPN_IMM_def ENCODE_CIWTYPE_ADDI4SPN_IMM_def enc_bits del: push_bit_Suc One_nat_def, simp add: numeral_eq_Suc)

lemma roundtrip_CLW: "EXTRACT_CLTYPE_LW_IMM (ENCODE_CLTYPE_LW_IMM x) = x AND 0x7C"
  by (rule i64_eqI) (simp add: upt_64 EXTRACT_CLTYPE_LW_IMM_def ENCODE_CLTYPE_LW_IMM_def enc_bits del: push_bit_Suc One_nat_def, simp add: numeral_eq_Suc)

lemma roundtrip_CLD: "EXTRACT_CLTYPE_LD_IMM (ENCODE_CLTYPE_LD_IMM x) = x AND 0xF8"
  by (rule i64_eqI) (simp add: upt_64 EXTRACT_CLTYPE_LD_IMM_def ENCODE_CLTYPE_LD_IMM_def enc_bits del: push_bit_Suc One_nat_def, simp add: numeral_eq_Suc)

section \<open>Properties\<close>

text \<open>
  The assembler's immediate checks accept exactly the encodable values: a 12-bit signed range
  for I and S, an even 13-bit signed range for B, an even 21-bit signed range for J, and a
  multiple of 4096 in the signed 32-bit range for U.
\<close>

theorem valid_immediates:
  "(VALID_ITYPE_IMM x \<longleftrightarrow> - (2 ^ 11) \<le> sint x \<and> sint x < 2 ^ 11) \<and>
   (VALID_STYPE_IMM x \<longleftrightarrow> - (2 ^ 11) \<le> sint x \<and> sint x < 2 ^ 11) \<and>
   (VALID_BTYPE_IMM x \<longleftrightarrow> even (sint x) \<and> - (2 ^ 12) \<le> sint x \<and> sint x < 2 ^ 12) \<and>
   (VALID_JTYPE_IMM x \<longleftrightarrow> even (sint x) \<and> - (2 ^ 20) \<le> sint x \<and> sint x < 2 ^ 20) \<and>
   (VALID_UTYPE_IMM x \<longleftrightarrow> 2 ^ 12 dvd sint x \<and> - (2 ^ 31) \<le> sint x \<and> sint x < 2 ^ 31)"
  by (simp only: VALID_ITYPE_IMM_def VALID_STYPE_IMM_def VALID_BTYPE_IMM_def VALID_JTYPE_IMM_def VALID_UTYPE_IMM_def
      roundtrip_I roundtrip_S roundtrip_B roundtrip_J roundtrip_U signed_take_bit_fixed utype_fixed even_range_fixed
      numeral_less_iff rel_simps simp_thms)

text \<open>
  C30.  The disassembler and the hardware decoder read the same immediate out of every instruction
  word, for each of the five formats.
\<close>

theorem extract_agrees_with_decoder:
  "EXTRACT_ITYPE_IMM (ucast insn) = scast (imm_i insn) \<and> EXTRACT_STYPE_IMM (ucast insn) = scast (imm_s insn) \<and>
   EXTRACT_BTYPE_IMM (ucast insn) = scast (imm_b insn) \<and> EXTRACT_UTYPE_IMM (ucast insn) = scast (imm_u insn) \<and>
   EXTRACT_JTYPE_IMM (ucast insn) = scast (imm_j insn)"
  by (simp only: scast_extract_I scast_extract_S scast_extract_B scast_extract_U scast_extract_J simp_thms)

text \<open>
  The compressed formats: branches, jumps and immediates accept exactly their signed ranges,
  and the scaled unsigned offsets exactly the values whose bits lie in the encodable positions
  (multiples of 4 below 256 for \<open>c.lwsp\<close> and \<open>c.swsp\<close>, of 8 below 512 for the doubleword
  forms, of 4 below 1024 for \<open>c.addi4spn\<close>, and so on).
\<close>

theorem valid_compressed_immediates:
  "(VALID_CITYPE_IMM x \<longleftrightarrow> - (2 ^ 5) \<le> sint x \<and> sint x < 2 ^ 5) \<and>
   (VALID_CBTYPE_IMM x \<longleftrightarrow> even (sint x) \<and> - (2 ^ 8) \<le> sint x \<and> sint x < 2 ^ 8) \<and>
   (VALID_CJTYPE_IMM x \<longleftrightarrow> even (sint x) \<and> - (2 ^ 11) \<le> sint x \<and> sint x < 2 ^ 11) \<and>
   (VALID_CITYPE_LWSP_IMM x \<longleftrightarrow> x AND 0xFC = x) \<and> (VALID_CITYPE_LDSP_IMM x \<longleftrightarrow> x AND 0x1F8 = x) \<and>
   (VALID_CSSTYPE_SWSP_IMM x \<longleftrightarrow> x AND 0xFC = x) \<and> (VALID_CSSTYPE_SDSP_IMM x \<longleftrightarrow> x AND 0x1F8 = x) \<and>
   (VALID_CIWTYPE_ADDI4SPN_IMM x \<longleftrightarrow> x AND 0x3FC = x) \<and>
   (VALID_CLTYPE_LW_IMM x \<longleftrightarrow> x AND 0x7C = x) \<and> (VALID_CLTYPE_LD_IMM x \<longleftrightarrow> x AND 0xF8 = x)"
  by (simp only: VALID_CITYPE_IMM_def VALID_CBTYPE_IMM_def VALID_CJTYPE_IMM_def VALID_CITYPE_LWSP_IMM_def
      VALID_CITYPE_LDSP_IMM_def VALID_CSSTYPE_SWSP_IMM_def VALID_CSSTYPE_SDSP_IMM_def VALID_CIWTYPE_ADDI4SPN_IMM_def
      VALID_CLTYPE_LW_IMM_def VALID_CLTYPE_LD_IMM_def
      roundtrip_CI roundtrip_CB roundtrip_CJ roundtrip_LWSP roundtrip_LDSP roundtrip_SWSP roundtrip_SDSP
      roundtrip_ADDI4SPN roundtrip_CLW roundtrip_CLD signed_take_bit_fixed even_range_fixed
      numeral_less_iff rel_simps simp_thms)

lemma insn_length_field:
  fixes insn :: i64
  assumes "drop_bit 11 insn AND 0xe = 0xe"
  shows "insn AND 0x7000 = 0x7000"
proof -
  have b: "bit insn 12 \<and> bit insn 13 \<and> bit insn 14"
    using arg_cong [OF assms, of "\<lambda>w. bit w 1"] arg_cong [OF assms, of "\<lambda>w. bit w 2"]
      arg_cong [OF assms, of "\<lambda>w. bit w 3"]
    by (simp add: bit_simps)
  show ?thesis
    by (rule i64_eqI) (simp add: upt_64 enc_bits b del: push_bit_Suc One_nat_def, simp add: numeral_eq_Suc)
qed

lemma unat_eq_numeral_14: "unat (w :: i64) = 14 \<Longrightarrow> w = 0xe"
  by (rule word_unat_eq_iff [THEN iffD2]) simp

text \<open>
  An instruction length is even, between 2 and \<open>RISCV_MAX_INSN_LEN\<close>, and 4 for every word with
  the major-opcode pattern of the 32-bit base encoding, which the core's decoder assumes.
\<close>

lemma insn_length_bounds:
  "even (riscv_insn_length insn) \<and> 2 \<le> riscv_insn_length insn \<and> riscv_insn_length insn \<le> RISCV_MAX_INSN_LEN \<and>
   (riscv_insn_length insn = 4 \<longleftrightarrow> insn AND 0x3 = 0x3 \<and> insn AND 0x1f \<noteq> 0x1f)"
proof -
  have le: "unat (w AND 0xe) \<le> 14" for w :: i64
  proof -
    have "w AND 0xe \<le> 0xe" by (rule word_and_le1)
    then show ?thesis by (simp add: word_le_nat_alt)
  qed
  have ev: "even (unat (w AND 0xe))" for w :: i64
  proof -
    have "\<not> bit (w AND 0xe) 0" by (simp add: bit_simps)
    then have "\<not> bit (unat (w AND 0xe)) 0" by (simp add: bit_unsigned_iff)
    then show ?thesis by (simp only: bit_0 not_not)
  qed
  have le12: "unat (drop_bit 11 insn AND 0xe) \<le> 12" if "insn AND 0x7000 \<noteq> 0x7000"
  proof -
    have "drop_bit 11 insn AND 0xe \<noteq> 0xe"
      using that insn_length_field by blast
    then have "unat (drop_bit 11 insn AND 0xe) \<noteq> 14" by (metis unat_eq_numeral_14)
    moreover have "even (unat (drop_bit 11 insn AND 0xe))" by (rule ev)
    ultimately show ?thesis using le [of "drop_bit 11 insn"] by presburger
  qed
  show ?thesis
    using le12 ev [of "drop_bit 11 insn"]
    by (auto simp: riscv_insn_length_def RISCV_MAX_INSN_LEN_def)
qed

end
