(* ===== verification/Riscv_Opcodes.thy ===== *)
theory Riscv_Opcodes
  imports Riscv_Encoding
begin

text \<open>
  The instruction table of the extended assembler and disassembler (binutils, opcodes/riscv-opc.c
  and include/opcode/riscv.h): operand fields, table rows, the match functions of the rows, and
  the start-up checks of the assembler (gas/config/tc-riscv.c).  The rows themselves, with their
  \<open>MATCH_\<close> and \<open>MASK_\<close> macros expanded, are in the table theories.
\<close>

section \<open>Operand fields\<close>

text \<open>The suffixes of \<open>OP_MASK_\<close> and \<open>OP_SH_\<close>.\<close>

datatype op_field =
  F_OP | F_RS2 | F_RS1 | F_RS3 | F_RD | F_SHAMT | F_SHAMTW | F_RM
| F_PRED | F_SUCC | F_AQ | F_RL | F_CSR | F_FUNCT3 | F_FUNCT7 | F_FUNCT2
| F_OP2 | F_CRS2 | F_CRS1S | F_CRS2S | F_CFUNCT6 | F_CFUNCT4 | F_CFUNCT3 | F_CFUNCT2
| F_BS | F_RNUM | F_VD | F_VS1 | F_VS2 | F_VIMM | F_VMASK | F_VFUNCT6
| F_VLMUL | F_VSEW | F_VTA | F_VMA | F_VWD

fun OP_MASK :: "op_field \<Rightarrow> i64" where
  "OP_MASK F_OP = 0x7f"
| "OP_MASK F_RS2 = 0x1f"
| "OP_MASK F_RS1 = 0x1f"
| "OP_MASK F_RS3 = 0x1f"
| "OP_MASK F_RD = 0x1f"
| "OP_MASK F_SHAMT = 0x3f"
| "OP_MASK F_SHAMTW = 0x1f"
| "OP_MASK F_RM = 0x7"
| "OP_MASK F_PRED = 0xf"
| "OP_MASK F_SUCC = 0xf"
| "OP_MASK F_AQ = 0x1"
| "OP_MASK F_RL = 0x1"
| "OP_MASK F_CSR = 0xfff"
| "OP_MASK F_FUNCT3 = 0x7"
| "OP_MASK F_FUNCT7 = 0x7f"
| "OP_MASK F_FUNCT2 = 0x3"
| "OP_MASK F_OP2 = 0x3"
| "OP_MASK F_CRS2 = 0x1f"
| "OP_MASK F_CRS1S = 0x7"
| "OP_MASK F_CRS2S = 0x7"
| "OP_MASK F_CFUNCT6 = 0x3f"
| "OP_MASK F_CFUNCT4 = 0xf"
| "OP_MASK F_CFUNCT3 = 0x7"
| "OP_MASK F_CFUNCT2 = 0x3"
| "OP_MASK F_BS = 3"
| "OP_MASK F_RNUM = 0xf"
| "OP_MASK F_VD = 0x1f"
| "OP_MASK F_VS1 = 0x1f"
| "OP_MASK F_VS2 = 0x1f"
| "OP_MASK F_VIMM = 0x1f"
| "OP_MASK F_VMASK = 0x1"
| "OP_MASK F_VFUNCT6 = 0x3f"
| "OP_MASK F_VLMUL = 0x7"
| "OP_MASK F_VSEW = 0x7"
| "OP_MASK F_VTA = 0x1"
| "OP_MASK F_VMA = 0x1"
| "OP_MASK F_VWD = 0x1"

fun OP_SH :: "op_field \<Rightarrow> nat" where
  "OP_SH F_OP = 0"
| "OP_SH F_RS2 = 20"
| "OP_SH F_RS1 = 15"
| "OP_SH F_RS3 = 27"
| "OP_SH F_RD = 7"
| "OP_SH F_SHAMT = 20"
| "OP_SH F_SHAMTW = 20"
| "OP_SH F_RM = 12"
| "OP_SH F_PRED = 24"
| "OP_SH F_SUCC = 20"
| "OP_SH F_AQ = 26"
| "OP_SH F_RL = 25"
| "OP_SH F_CSR = 20"
| "OP_SH F_FUNCT3 = 12"
| "OP_SH F_FUNCT7 = 25"
| "OP_SH F_FUNCT2 = 25"
| "OP_SH F_OP2 = 0"
| "OP_SH F_CRS2 = 2"
| "OP_SH F_CRS1S = 7"
| "OP_SH F_CRS2S = 2"
| "OP_SH F_CFUNCT6 = 10"
| "OP_SH F_CFUNCT4 = 12"
| "OP_SH F_CFUNCT3 = 13"
| "OP_SH F_CFUNCT2 = 5"
| "OP_SH F_BS = 30"
| "OP_SH F_RNUM = 20"
| "OP_SH F_VD = 7"
| "OP_SH F_VS1 = 15"
| "OP_SH F_VS2 = 20"
| "OP_SH F_VIMM = 15"
| "OP_SH F_VMASK = 25"
| "OP_SH F_VFUNCT6 = 26"
| "OP_SH F_VLMUL = 0"
| "OP_SH F_VSEW = 3"
| "OP_SH F_VTA = 6"
| "OP_SH F_VMA = 7"
| "OP_SH F_VWD = 26"

text \<open>\<open>MASK_RD\<close>, \<open>MASK_RS1\<close>, ... of riscv-opc.c, and \<open>EXTRACT_OPERAND\<close>.\<close>

definition MASK_FIELD :: "op_field \<Rightarrow> i64" where
  "MASK_FIELD f = push_bit (OP_SH f) (OP_MASK f)"

definition EXTRACT_OPERAND :: "op_field \<Rightarrow> i64 \<Rightarrow> i64" where
  "EXTRACT_OPERAND f insn = EXTRACT_BITS insn (OP_MASK f) (OP_SH f)"

section \<open>Table rows\<close>

datatype riscv_insn_class =
    INSN_CLASS_NONE | INSN_CLASS_I | INSN_CLASS_C | INSN_CLASS_A
  | INSN_CLASS_M | INSN_CLASS_F | INSN_CLASS_D | INSN_CLASS_Q
  | INSN_CLASS_F_AND_C | INSN_CLASS_D_AND_C | INSN_CLASS_ZICOND | INSN_CLASS_ZICSR
  | INSN_CLASS_ZIFENCEI | INSN_CLASS_ZIHINTPAUSE | INSN_CLASS_ZMMUL | INSN_CLASS_ZAWRS
  | INSN_CLASS_F_INX | INSN_CLASS_D_INX | INSN_CLASS_Q_INX | INSN_CLASS_ZFH_INX
  | INSN_CLASS_ZFHMIN | INSN_CLASS_ZFHMIN_INX | INSN_CLASS_ZFHMIN_AND_D_INX | INSN_CLASS_ZFHMIN_AND_Q_INX
  | INSN_CLASS_ZFA | INSN_CLASS_D_AND_ZFA | INSN_CLASS_Q_AND_ZFA | INSN_CLASS_ZFH_AND_ZFA
  | INSN_CLASS_ZBA | INSN_CLASS_ZBB | INSN_CLASS_ZBC | INSN_CLASS_ZBS
  | INSN_CLASS_ZBKB | INSN_CLASS_ZBKC | INSN_CLASS_ZBKX | INSN_CLASS_ZKND
  | INSN_CLASS_ZKNE | INSN_CLASS_ZKNH | INSN_CLASS_ZKSED | INSN_CLASS_ZKSH
  | INSN_CLASS_ZBB_OR_ZBKB | INSN_CLASS_ZBC_OR_ZBKC | INSN_CLASS_ZKND_OR_ZKNE | INSN_CLASS_V
  | INSN_CLASS_ZVEF | INSN_CLASS_ZVBB | INSN_CLASS_ZVBC | INSN_CLASS_ZVKG
  | INSN_CLASS_ZVKNED | INSN_CLASS_ZVKNHA | INSN_CLASS_ZVKNHB | INSN_CLASS_ZVKNHA_OR_ZVKNHB
  | INSN_CLASS_ZVKSED | INSN_CLASS_ZVKSH | INSN_CLASS_SVINVAL | INSN_CLASS_ZICBOM
  | INSN_CLASS_ZICBOP | INSN_CLASS_ZICBOZ | INSN_CLASS_H | INSN_CLASS_XTHEADBA
  | INSN_CLASS_XTHEADBB | INSN_CLASS_XTHEADBS | INSN_CLASS_XTHEADCMO | INSN_CLASS_XTHEADCONDMOV
  | INSN_CLASS_XTHEADFMEMIDX | INSN_CLASS_XTHEADFMV | INSN_CLASS_XTHEADINT | INSN_CLASS_XTHEADMAC
  | INSN_CLASS_XTHEADMEMIDX | INSN_CLASS_XTHEADMEMPAIR | INSN_CLASS_XTHEADSYNC | INSN_CLASS_XVENTANACONDOPS

text \<open>The function pointers of the table.\<close>

datatype match_func =
    Match_opcode | Match_never | Match_rs1_eq_rs2 | Match_rd_nonzero | Match_c_add | Match_c_add_with_hint
  | Match_c_nop | Match_c_addi16sp | Match_c_lui | Match_c_lui_with_hint | Match_c_addi4spn | Match_c_slli
  | Match_slli_as_c_slli | Match_c_slli64 | Match_srxi_as_c_srxi | Match_vs1_eq_vs2 | Match_vd_eq_vs1_eq_vs2
  | Match_th_load_inc | Match_th_load_pair

record riscv_opcode =
  opc_name :: string
  opc_xlen_requirement :: nat
  opc_insn_class :: riscv_insn_class
  opc_args :: string
  opc_match :: i64
  opc_mask :: i64
  opc_match_func :: match_func
  opc_pinfo :: i64

definition insn_row :: "string \<Rightarrow> nat \<Rightarrow> riscv_insn_class \<Rightarrow> string \<Rightarrow> i64 \<Rightarrow> i64 \<Rightarrow> match_func \<Rightarrow> i64 \<Rightarrow> riscv_opcode" where
  "insn_row n x c a mt mk f p =
    \<lparr>opc_name = n, opc_xlen_requirement = x, opc_insn_class = c, opc_args = a, opc_match = mt, opc_mask = mk,
     opc_match_func = f, opc_pinfo = p\<rparr>"

definition INSN_ALIAS :: i64 where "INSN_ALIAS = 0x00000001"
definition INSN_MACRO :: i64 where "INSN_MACRO = 0xffffffff"

section \<open>Match functions\<close>

definition match_opcode :: "riscv_opcode \<Rightarrow> i64 \<Rightarrow> bool" where
  "match_opcode opc insn \<longleftrightarrow> (insn XOR opc_match opc) AND opc_mask opc = 0"

definition match_never :: "riscv_opcode \<Rightarrow> i64 \<Rightarrow> bool" where
  "match_never opc insn = False"

definition match_rs1_eq_rs2 :: "riscv_opcode \<Rightarrow> i64 \<Rightarrow> bool" where
  "match_rs1_eq_rs2 opc insn =
    (let rs1 = drop_bit (OP_SH F_RS1) (insn AND MASK_FIELD F_RS1); rs2 = drop_bit (OP_SH F_RS2) (insn AND MASK_FIELD F_RS2)
     in match_opcode opc insn \<and> rs1 = rs2)"

definition match_rd_nonzero :: "riscv_opcode \<Rightarrow> i64 \<Rightarrow> bool" where
  "match_rd_nonzero opc insn \<longleftrightarrow> match_opcode opc insn \<and> insn AND MASK_FIELD F_RD \<noteq> 0"

definition match_c_add :: "riscv_opcode \<Rightarrow> i64 \<Rightarrow> bool" where
  "match_c_add opc insn \<longleftrightarrow> match_rd_nonzero opc insn \<and> insn AND MASK_FIELD F_CRS2 \<noteq> 0"

definition match_c_add_with_hint :: "riscv_opcode \<Rightarrow> i64 \<Rightarrow> bool" where
  "match_c_add_with_hint opc insn \<longleftrightarrow> match_opcode opc insn \<and> insn AND MASK_FIELD F_CRS2 \<noteq> 0"

definition match_c_nop :: "riscv_opcode \<Rightarrow> i64 \<Rightarrow> bool" where
  "match_c_nop opc insn \<longleftrightarrow> match_opcode opc insn \<and> drop_bit (OP_SH F_RD) (insn AND MASK_FIELD F_RD) = 0"

definition match_c_addi16sp :: "riscv_opcode \<Rightarrow> i64 \<Rightarrow> bool" where
  "match_c_addi16sp opc insn \<longleftrightarrow> match_opcode opc insn \<and> drop_bit (OP_SH F_RD) (insn AND MASK_FIELD F_RD) = 2"

definition match_c_lui :: "riscv_opcode \<Rightarrow> i64 \<Rightarrow> bool" where
  "match_c_lui opc insn \<longleftrightarrow> match_rd_nonzero opc insn \<and> drop_bit (OP_SH F_RD) (insn AND MASK_FIELD F_RD) \<noteq> 2
     \<and> EXTRACT_CITYPE_LUI_IMM insn \<noteq> 0"

definition match_c_lui_with_hint :: "riscv_opcode \<Rightarrow> i64 \<Rightarrow> bool" where
  "match_c_lui_with_hint opc insn \<longleftrightarrow> match_opcode opc insn \<and> drop_bit (OP_SH F_RD) (insn AND MASK_FIELD F_RD) \<noteq> 2
     \<and> EXTRACT_CITYPE_LUI_IMM insn \<noteq> 0"

definition match_c_addi4spn :: "riscv_opcode \<Rightarrow> i64 \<Rightarrow> bool" where
  "match_c_addi4spn opc insn \<longleftrightarrow> match_opcode opc insn \<and> EXTRACT_CIWTYPE_ADDI4SPN_IMM insn \<noteq> 0"

definition match_c_slli :: "riscv_opcode \<Rightarrow> i64 \<Rightarrow> bool" where
  "match_c_slli opc insn \<longleftrightarrow> match_opcode opc insn \<and> EXTRACT_CITYPE_IMM insn \<noteq> 0"

definition match_slli_as_c_slli :: "riscv_opcode \<Rightarrow> i64 \<Rightarrow> bool" where
  "match_slli_as_c_slli opc insn \<longleftrightarrow> match_rd_nonzero opc insn \<and> EXTRACT_CITYPE_IMM insn \<noteq> 0"

definition match_c_slli64 :: "riscv_opcode \<Rightarrow> i64 \<Rightarrow> bool" where
  "match_c_slli64 opc insn \<longleftrightarrow> match_opcode opc insn \<and> EXTRACT_CITYPE_IMM insn = 0"

definition match_srxi_as_c_srxi :: "riscv_opcode \<Rightarrow> i64 \<Rightarrow> bool" where
  "match_srxi_as_c_srxi opc insn \<longleftrightarrow> match_opcode opc insn \<and> EXTRACT_CITYPE_IMM insn \<noteq> 0"

definition match_vs1_eq_vs2 :: "riscv_opcode \<Rightarrow> i64 \<Rightarrow> bool" where
  "match_vs1_eq_vs2 opc insn =
    (let vs1 = drop_bit (OP_SH F_VS1) (insn AND MASK_FIELD F_VS1); vs2 = drop_bit (OP_SH F_VS2) (insn AND MASK_FIELD F_VS2)
     in match_opcode opc insn \<and> vs1 = vs2)"

definition match_vd_eq_vs1_eq_vs2 :: "riscv_opcode \<Rightarrow> i64 \<Rightarrow> bool" where
  "match_vd_eq_vs1_eq_vs2 opc insn =
    (let vd = drop_bit (OP_SH F_VD) (insn AND MASK_FIELD F_VD); vs1 = drop_bit (OP_SH F_VS1) (insn AND MASK_FIELD F_VS1);
         vs2 = drop_bit (OP_SH F_VS2) (insn AND MASK_FIELD F_VS2)
     in match_opcode opc insn \<and> vd = vs1 \<and> vs1 = vs2)"

definition match_th_load_inc :: "riscv_opcode \<Rightarrow> i64 \<Rightarrow> bool" where
  "match_th_load_inc opc insn =
    (let rd = drop_bit (OP_SH F_RD) (insn AND MASK_FIELD F_RD); rs1 = drop_bit (OP_SH F_RS1) (insn AND MASK_FIELD F_RS1)
     in rd \<noteq> rs1 \<and> match_opcode opc insn)"

definition match_th_load_pair :: "riscv_opcode \<Rightarrow> i64 \<Rightarrow> bool" where
  "match_th_load_pair opc insn =
    (let rd1 = drop_bit (OP_SH F_RD) (insn AND MASK_FIELD F_RD); rd2 = drop_bit (OP_SH F_RS2) (insn AND MASK_FIELD F_RS2);
         rs = drop_bit (OP_SH F_RS1) (insn AND MASK_FIELD F_RS1)
     in rd1 \<noteq> rd2 \<and> rd1 \<noteq> rs \<and> rd2 \<noteq> rs \<and> match_opcode opc insn)"

text \<open>The call \<open>(op->match_func) (op, word)\<close>.\<close>

definition match_insn :: "riscv_opcode \<Rightarrow> i64 \<Rightarrow> bool" where
  "match_insn opc insn = (case opc_match_func opc of
     Match_opcode \<Rightarrow> match_opcode opc insn | Match_never \<Rightarrow> match_never opc insn
   | Match_rs1_eq_rs2 \<Rightarrow> match_rs1_eq_rs2 opc insn | Match_rd_nonzero \<Rightarrow> match_rd_nonzero opc insn
   | Match_c_add \<Rightarrow> match_c_add opc insn | Match_c_add_with_hint \<Rightarrow> match_c_add_with_hint opc insn
   | Match_c_nop \<Rightarrow> match_c_nop opc insn | Match_c_addi16sp \<Rightarrow> match_c_addi16sp opc insn
   | Match_c_lui \<Rightarrow> match_c_lui opc insn | Match_c_lui_with_hint \<Rightarrow> match_c_lui_with_hint opc insn
   | Match_c_addi4spn \<Rightarrow> match_c_addi4spn opc insn | Match_c_slli \<Rightarrow> match_c_slli opc insn
   | Match_slli_as_c_slli \<Rightarrow> match_slli_as_c_slli opc insn | Match_c_slli64 \<Rightarrow> match_c_slli64 opc insn
   | Match_srxi_as_c_srxi \<Rightarrow> match_srxi_as_c_srxi opc insn | Match_vs1_eq_vs2 \<Rightarrow> match_vs1_eq_vs2 opc insn
   | Match_vd_eq_vs1_eq_vs2 \<Rightarrow> match_vd_eq_vs1_eq_vs2 opc insn | Match_th_load_inc \<Rightarrow> match_th_load_inc opc insn
   | Match_th_load_pair \<Rightarrow> match_th_load_pair opc insn)"

lemma match_insn_opcode: "match_insn opc insn \<Longrightarrow> match_opcode opc insn"
  by (auto simp: match_insn_def match_never_def match_rs1_eq_rs2_def match_rd_nonzero_def match_c_add_def
      match_c_add_with_hint_def match_c_nop_def match_c_addi16sp_def match_c_lui_def match_c_lui_with_hint_def
      match_c_addi4spn_def match_c_slli_def match_slli_as_c_slli_def match_c_slli64_def match_srxi_as_c_srxi_def
      match_vs1_eq_vs2_def match_vd_eq_vs1_eq_vs2_def match_th_load_inc_def match_th_load_pair_def Let_def
      split: match_func.splits)

end
