(* ===== verification/Riscv_Validate.thy ===== *)
theory Riscv_Validate
  imports Riscv_Opcodes
begin

text \<open>
  The start-up checks of the assembler (gas/config/tc-riscv.c): \<open>validate_riscv_insn\<close>, which
  proves that every bit of an instruction is fixed by its row or filled by an operand, and
  \<open>init_opcode_hash\<close>, which builds the lookup table and stops the assembler on a bad table.
\<close>

section \<open>validate_riscv_insn\<close>

text \<open>\<open>-1U\<close>, the argument of the \<open>ENCODE_\<close> macros in the checks.\<close>

definition ALL_ONES :: i64 where "ALL_ONES = 0xffffffff"

definition USE_IMM :: "nat \<Rightarrow> nat \<Rightarrow> i64" where
  "USE_IMM n s = push_bit s (push_bit n 1 - 1)"

text \<open>\<open>strtol (p, &p, 10)\<close> on an unsigned decimal prefix.\<close>

definition is_digit :: "char \<Rightarrow> bool" where
  "is_digit c \<longleftrightarrow> c \<in> set ''0123456789''"

definition digit_val :: "char \<Rightarrow> nat" where
  "digit_val c = of_char c - 48"

definition strtol10 :: "string \<Rightarrow> nat \<times> string" where
  "strtol10 p = (foldl (\<lambda>n c. n * 10 + digit_val c) 0 (takeWhile is_digit p), dropWhile is_digit p)"

text \<open>
  One round of the loop over \<open>opc->args\<close>: the bits the operand at the head of the string uses and
  the rest of the string; \<open>None\<close> is \<open>goto unknown_validate_operand\<close>.  Reading past the end
  of the string meets its NUL, which is no operand letter.
\<close>

definition validate_C :: "string \<Rightarrow> (i64 \<times> string) option" where
  "validate_C args = (case args of [] \<Rightarrow> None | c # rest \<Rightarrow>
    if c \<in> set ''Ucwxz'' then Some (0, rest)
    else if c \<in> set ''TV'' then Some (MASK_FIELD F_CRS2, rest)
    else if c \<in> set ''Ss'' then Some (MASK_FIELD F_CRS1S, rest)
    else if c \<in> set ''Dt'' then Some (MASK_FIELD F_CRS2S, rest)
    else if c \<in> set ''>uvoj'' then Some (ENCODE_CITYPE_IMM ALL_ONES, rest)
    else if c = CHR ''L'' then Some (ENCODE_CITYPE_ADDI16SP_IMM ALL_ONES, rest)
    else if c = CHR ''m'' then Some (ENCODE_CITYPE_LWSP_IMM ALL_ONES, rest)
    else if c = CHR ''n'' then Some (ENCODE_CITYPE_LDSP_IMM ALL_ONES, rest)
    else if c = CHR ''6'' then Some (ENCODE_CSSTYPE_IMM ALL_ONES, rest)
    else if c = CHR ''M'' then Some (ENCODE_CSSTYPE_SWSP_IMM ALL_ONES, rest)
    else if c = CHR ''N'' then Some (ENCODE_CSSTYPE_SDSP_IMM ALL_ONES, rest)
    else if c = CHR ''8'' then Some (ENCODE_CIWTYPE_IMM ALL_ONES, rest)
    else if c = CHR ''K'' then Some (ENCODE_CIWTYPE_ADDI4SPN_IMM ALL_ONES, rest)
    else if c = CHR ''5'' then Some (ENCODE_CLTYPE_IMM ALL_ONES, rest)
    else if c = CHR ''k'' then Some (ENCODE_CLTYPE_LW_IMM ALL_ONES, rest)
    else if c = CHR ''l'' then Some (ENCODE_CLTYPE_LD_IMM ALL_ONES, rest)
    else if c = CHR ''p'' then Some (ENCODE_CBTYPE_IMM ALL_ONES, rest)
    else if c = CHR ''a'' then Some (ENCODE_CJTYPE_IMM ALL_ONES, rest)
    else if c = CHR ''F'' then
      (case rest of [] \<Rightarrow> None | d # rest \<Rightarrow>
         if d = CHR ''6'' then Some (MASK_FIELD F_CFUNCT6, rest)
         else if d = CHR ''4'' then Some (MASK_FIELD F_CFUNCT4, rest)
         else if d = CHR ''3'' then Some (MASK_FIELD F_CFUNCT3, rest)
         else if d = CHR ''2'' then Some (MASK_FIELD F_CFUNCT2, rest)
         else None)
    else None)"

definition validate_V :: "string \<Rightarrow> (i64 \<times> string) option" where
  "validate_V args = (case args of [] \<Rightarrow> None | c # rest \<Rightarrow>
    if c \<in> set ''df'' then Some (MASK_FIELD F_VD, rest)
    else if c = CHR ''e'' then Some (MASK_FIELD F_VWD, rest)
    else if c = CHR ''s'' then Some (MASK_FIELD F_VS1, rest)
    else if c = CHR ''t'' then Some (MASK_FIELD F_VS2, rest)
    else if c = CHR ''u'' then Some (MASK_FIELD F_VS1 OR MASK_FIELD F_VS2, rest)
    else if c = CHR ''v'' then Some (MASK_FIELD F_VD OR MASK_FIELD F_VS1 OR MASK_FIELD F_VS2, rest)
    else if c = CHR ''0'' then Some (0, rest)
    else if c = CHR ''b'' then Some (ENCODE_RVV_VB_IMM ALL_ONES, rest)
    else if c = CHR ''c'' then Some (ENCODE_RVV_VC_IMM ALL_ONES, rest)
    else if c \<in> set ''ijk'' then Some (MASK_FIELD F_VIMM, rest)
    else if c = CHR ''l'' then Some (ENCODE_RVV_VI_UIMM6 ALL_ONES, rest)
    else if c = CHR ''m'' then Some (MASK_FIELD F_VMASK, rest)
    else if c \<in> set ''MT'' then Some (0, rest)
    else None)"

definition validate_F :: "string \<Rightarrow> (i64 \<times> string) option" where
  "validate_F args = (case args of [] \<Rightarrow> None | c # rest \<Rightarrow>
    if c = CHR ''7'' then Some (MASK_FIELD F_FUNCT7, rest)
    else if c = CHR ''3'' then Some (MASK_FIELD F_FUNCT3, rest)
    else if c = CHR ''2'' then Some (MASK_FIELD F_FUNCT2, rest)
    else None)"

definition validate_O :: "string \<Rightarrow> (i64 \<times> string) option" where
  "validate_O args = (case args of [] \<Rightarrow> None | c # rest \<Rightarrow>
    if c = CHR ''4'' then Some (MASK_FIELD F_OP, rest)
    else if c = CHR ''2'' then Some (MASK_FIELD F_OP2, rest)
    else None)"

definition validate_W :: "string \<Rightarrow> (i64 \<times> string) option" where
  "validate_W args = (case args of c # d # rest \<Rightarrow>
      if c = CHR ''i'' \<and> d = CHR ''f'' then Some (ENCODE_STYPE_IMM ALL_ONES, rest)
      else if c = CHR ''f'' \<and> d = CHR ''v'' then Some (MASK_FIELD F_RS1, rest)
      else None
    | _ \<Rightarrow> None)"

definition validate_X :: "string \<Rightarrow> (i64 \<times> string) option" where
  "validate_X args = (case args of [] \<Rightarrow> None | c # rest \<Rightarrow>
    if c = CHR ''l'' then Some (0, dropWhile (\<lambda>d. d \<noteq> CHR '','') rest)
    else if c \<in> set ''su'' then
      (case strtol10 rest of (n, rest) \<Rightarrow>
        (case rest of [] \<Rightarrow> None | d # rest \<Rightarrow>
          if d = CHR ''@'' then (case strtol10 rest of (s, rest) \<Rightarrow> Some (USE_IMM n s, rest)) else None))
    else None)"

definition validate_operand :: "char \<Rightarrow> string \<Rightarrow> (i64 \<times> string) option" where
  "validate_operand c rest =
    (if c = CHR '','' then Some (0, rest)
     else if c = CHR ''C'' then validate_C rest
     else if c = CHR ''V'' then validate_V rest
     else if c \<in> set ''Dd'' then Some (MASK_FIELD F_RD, rest)
     else if c \<in> set ''ZSs'' then Some (MASK_FIELD F_RS1, rest)
     else if c \<in> set ''Tt'' then Some (MASK_FIELD F_RS2, rest)
     else if c = CHR ''U'' then Some (MASK_FIELD F_RS1 OR MASK_FIELD F_RS2, rest)
     else if c \<in> set ''()ABcIz[]01'' then Some (0, rest)
     else if c = CHR ''<'' then Some (MASK_FIELD F_SHAMTW, rest)
     else if c = CHR ''>'' then Some (MASK_FIELD F_SHAMT, rest)
     else if c = CHR ''y'' then Some (MASK_FIELD F_BS, rest)
     else if c = CHR ''Y'' then Some (MASK_FIELD F_RNUM, rest)
     else if c \<in> set ''Rr'' then Some (MASK_FIELD F_RS3, rest)
     else if c = CHR ''m'' then Some (MASK_FIELD F_RM, rest)
     else if c = CHR ''E'' then Some (MASK_FIELD F_CSR, rest)
     else if c = CHR ''P'' then Some (MASK_FIELD F_PRED, rest)
     else if c = CHR ''Q'' then Some (MASK_FIELD F_SUCC, rest)
     else if c \<in> set ''oj'' then Some (ENCODE_ITYPE_IMM ALL_ONES, rest)
     else if c = CHR ''a'' then Some (ENCODE_JTYPE_IMM ALL_ONES, rest)
     else if c = CHR ''p'' then Some (ENCODE_BTYPE_IMM ALL_ONES, rest)
     else if c = CHR ''q'' then Some (ENCODE_STYPE_IMM ALL_ONES, rest)
     else if c = CHR ''u'' then Some (ENCODE_UTYPE_IMM ALL_ONES, rest)
     else if c = CHR ''F'' then validate_F rest
     else if c = CHR ''O'' then validate_O rest
     else if c = CHR ''W'' then validate_W rest
     else if c = CHR ''X'' then validate_X rest
     else None)"

lemma strtol10_length: "length (snd (strtol10 p)) \<le> length p"
  by (simp add: strtol10_def length_dropWhile_le)

lemma validate_operand_length:
  assumes "validate_operand c rest = Some (b, rest')"
  shows "length rest' \<le> length rest"
proof -
  have X: "length r' \<le> length r" if "validate_X r = Some (b, r')" for r r'
  proof (cases r)
    case (Cons x xs)
    note strtol10_length [of xs] strtol10_length [of "tl (snd (strtol10 xs))"]
    moreover have "length (dropWhile P xs) \<le> length xs" for P :: "char \<Rightarrow> bool" by (rule length_dropWhile_le)
    ultimately show ?thesis
      using that Cons by (auto simp: validate_X_def split: if_splits list.splits prod.splits intro: le_SucI)
  qed (use that in \<open>simp add: validate_X_def\<close>)
  show ?thesis
    using assms X
    by (auto simp: validate_operand_def validate_C_def validate_V_def validate_F_def validate_O_def validate_W_def
        split: if_splits list.splits)
qed

function validate_args :: "string \<Rightarrow> i64 \<Rightarrow> i64 option" where
  "validate_args [] used_bits = Some used_bits"
| "validate_args (c # rest) used_bits =
    (case validate_operand c rest of
       None \<Rightarrow> None
     | Some (b, rest') \<Rightarrow> validate_args rest' (used_bits OR b))"
  by pat_completeness auto
termination
  by (relation "measure (\<lambda>(args, b). length args)") (auto dest: validate_operand_length)

definition validate_riscv_insn :: "riscv_opcode \<Rightarrow> nat \<Rightarrow> bool" where
  "validate_riscv_insn opc len =
    (let used_bits = opc_mask opc;
         len = (if len = 0 then riscv_insn_length (opc_match opc) else len);
         len = (if 8 < len then 8 else len);
         insn_width = 8 * len;
         required_bits = drop_bit (64 - insn_width) (- 1) :: i64
     in if used_bits AND opc_match opc \<noteq> opc_match opc AND required_bits then False
        else case validate_args (opc_args opc) used_bits of
               None \<Rightarrow> False
             | Some used_bits \<Rightarrow> used_bits = required_bits)"

section \<open>init_opcode_hash\<close>

datatype init_error = Duplicate string | Broken_assembler string | Macro_in_insn_types string

text \<open>
  The hash maps a name to the address of its first row, as the suffix of the table that starts
  there; the table ends where the list ends.
\<close>

type_synonym opcode_hash = "string \<Rightarrow> riscv_opcode list option"

text \<open>The inner \<open>do\<close> loop: check the rows of one name.\<close>

fun check_group :: "bool \<Rightarrow> riscv_opcode list \<Rightarrow> init_error + unit" where
  "check_group insn_directive_p [] = Inr ()"
| "check_group insn_directive_p (opc # opcs) =
    (if opc_pinfo opc \<noteq> INSN_MACRO then
       if validate_riscv_insn opc
            (if insn_directive_p then (if take 1 (opc_name opc) = ''c'' then 2 else 4) else 0)
       then check_group insn_directive_p opcs else Inl (Broken_assembler (opc_name opc))
     else if insn_directive_p then Inl (Macro_in_insn_types (opc_name opc)) else check_group insn_directive_p opcs)"

function init_opcode_hash :: "bool \<Rightarrow> riscv_opcode list \<Rightarrow> opcode_hash \<Rightarrow> init_error + opcode_hash" where
  "init_opcode_hash insn_directive_p [] hash = Inr hash"
| "init_opcode_hash insn_directive_p (opc # opcs) hash =
    (let name = opc_name opc in
     if hash name \<noteq> None then Inl (Duplicate name)
     else case check_group insn_directive_p (opc # takeWhile (\<lambda>q. opc_name q = name) opcs) of
            Inl e \<Rightarrow> Inl e
          | Inr _ \<Rightarrow> init_opcode_hash insn_directive_p (dropWhile (\<lambda>q. opc_name q = name) opcs) (hash(name \<mapsto> opc # opcs)))"
  by pat_completeness auto
termination
  by (relation "measure (\<lambda>(b, opcs, h). length opcs)") (auto simp: le_imp_less_Suc length_dropWhile_le)

section \<open>What a successful start means\<close>

definition row_ok :: "bool \<Rightarrow> riscv_opcode \<Rightarrow> bool" where
  "row_ok insn_directive_p opc \<longleftrightarrow>
    (if opc_pinfo opc = INSN_MACRO then \<not> insn_directive_p
     else validate_riscv_insn opc (if insn_directive_p then (if take 1 (opc_name opc) = ''c'' then 2 else 4) else 0))"

lemma check_group_ok: "list_all (row_ok d) g \<Longrightarrow> check_group d g = Inr ()"
  by (induction g) (auto simp: row_ok_def)

text \<open>The names that start a group of rows.\<close>

function group_names :: "riscv_opcode list \<Rightarrow> string list" where
  "group_names [] = []"
| "group_names (opc # opcs) = opc_name opc # group_names (dropWhile (\<lambda>q. opc_name q = opc_name opc) opcs)"
  by pat_completeness auto
termination
  by (relation "measure length") (auto simp: le_imp_less_Suc length_dropWhile_le)

lemma set_group_names: "set (group_names opcs) = opc_name ` set opcs"
proof (induction opcs rule: group_names.induct)
  case (2 opc opcs)
  have "opc_name ` set (dropWhile (\<lambda>q. opc_name q = opc_name opc) opcs) \<union> {opc_name opc} = opc_name ` set opcs \<union> {opc_name opc}"
    by (induction opcs) auto
  with 2 show ?case by auto
qed simp

lemma group_names_append:
  assumes "xs \<noteq> []" "ys \<noteq> []" "opc_name (last xs) \<noteq> opc_name (hd ys)"
  shows "group_names (xs @ ys) = group_names xs @ group_names ys"
  using assms
proof (induction xs rule: group_names.induct)
  case (2 opc xs)
  let ?P = "\<lambda>q. opc_name q = opc_name opc"
  show ?case
  proof (cases "dropWhile ?P xs = []")
    case True
    then have all: "\<forall>x\<in>set xs. ?P x" by (simp add: dropWhile_eq_Nil_conv)
    then have "opc_name (last (opc # xs)) = opc_name opc" by (cases xs) (auto dest: last_in_set)
    with 2(4) have "\<not> ?P (hd ys)" by auto
    then have "dropWhile ?P ys = ys" using \<open>ys \<noteq> []\<close> by (cases ys) auto
    moreover have "dropWhile ?P (xs @ ys) = dropWhile ?P ys" by (intro dropWhile_append2) (use all in auto)
    moreover have "group_names (dropWhile ?P xs) = []" unfolding True by simp
    ultimately show ?thesis by simp
  next
    case False
    then have "dropWhile ?P (xs @ ys) = dropWhile ?P xs @ ys"
      by (metis dropWhile_append1 dropWhile_eq_Nil_conv)
    moreover have "last (dropWhile ?P xs) = last xs" using False by (metis last_appendR takeWhile_dropWhile_id)
    moreover have "xs \<noteq> []" using False by auto
    ultimately show ?thesis using 2 False by auto
  qed
qed simp

text \<open>
  With contiguous groups and valid rows the table loads, and every lookup finds the first row of
  its name, followed at once by all the others of that name.
\<close>

lemma init_opcode_hash_loads:
  assumes "distinct (group_names opcs)" "list_all (row_ok d) opcs" "\<forall>n \<in> opc_name ` set opcs. hash n = None"
  shows "init_opcode_hash d opcs hash =
    Inr (\<lambda>n. if n \<in> opc_name ` set opcs then Some (dropWhile (\<lambda>q. opc_name q \<noteq> n) opcs) else hash n)"
  using assms
proof (induction d opcs hash rule: init_opcode_hash.induct)
  case (1 d hash)
  then show ?case by simp
next
  case (2 d opc opcs hash)
  let ?same = "\<lambda>q. opc_name q = opc_name opc" and ?name = "opc_name opc"
  let ?rest = "dropWhile ?same opcs" and ?hash = "hash(?name \<mapsto> opc # opcs)"
  have split: "opcs = takeWhile ?same opcs @ ?rest" by simp
  have "list_all (row_ok d) (opc # takeWhile ?same opcs)" "list_all (row_ok d) ?rest"
    using 2(3) by (auto simp: list_all_iff dest: set_takeWhileD set_dropWhileD)
  then have ok: "check_group d (opc # takeWhile ?same opcs) = Inr ()" "list_all (row_ok d) ?rest"
    by (simp_all only: check_group_ok)
  have new: "?name \<notin> opc_name ` set ?rest" using 2(2) by (simp add: set_group_names)
  have fresh: "\<forall>n \<in> opc_name ` set ?rest. ?hash n = None"
  proof
    fix n assume n: "n \<in> opc_name ` set ?rest"
    then have "n \<in> opc_name ` set (opc # opcs)" by (auto dest: set_dropWhileD)
    with 2(4) have "hash n = None" by (rule bspec)
    moreover have "n \<noteq> ?name" using n new by blast
    ultimately show "?hash n = None" by simp
  qed
  have names: "opc_name ` set (opc # opcs) = insert ?name (opc_name ` set ?rest)"
    using set_group_names [of "opc # opcs"] set_group_names [of ?rest] by simp
  have skip: "dropWhile (\<lambda>q. opc_name q \<noteq> n) opcs = dropWhile (\<lambda>q. opc_name q \<noteq> n) ?rest" if "n \<noteq> ?name" for n
    by (subst split, rule dropWhile_append2) (use that in \<open>auto dest: set_takeWhileD\<close>)
  have "init_opcode_hash d (opc # opcs) hash = init_opcode_hash d ?rest ?hash"
    using 2(4) ok(1) by (simp add: Let_def)
  also have "\<dots> = Inr (\<lambda>n. if n \<in> opc_name ` set ?rest then Some (dropWhile (\<lambda>q. opc_name q \<noteq> n) ?rest) else ?hash n)"
    by (rule 2(1) [OF refl _ ok(1) _ ok(2) fresh]) (use 2(2,4) in simp_all)
  also have "\<dots> = Inr (\<lambda>n. if n \<in> opc_name ` set (opc # opcs) then Some (dropWhile (\<lambda>q. opc_name q \<noteq> n) (opc # opcs)) else hash n)"
    unfolding names using new by (auto simp: fun_eq_iff skip)
  finally show ?case .
qed

lemma group_contiguous:
  assumes "distinct (group_names opcs)"
  shows "takeWhile (\<lambda>q. opc_name q = n) (dropWhile (\<lambda>q. opc_name q \<noteq> n) opcs) = filter (\<lambda>q. opc_name q = n) opcs"
  using assms
proof (induction opcs rule: group_names.induct)
  case (2 opc opcs)
  let ?same = "\<lambda>q. opc_name q = opc_name opc"
  let ?rest = "dropWhile ?same opcs"
  have split: "opcs = takeWhile ?same opcs @ ?rest" by simp
  show ?case
  proof (cases "n = opc_name opc")
    case True
    have "opc_name opc \<notin> opc_name ` set ?rest" using 2(2) by (simp add: set_group_names)
    then have "filter ?same ?rest = []" by (intro filter_False) (metis imageI)
    moreover have "filter ?same (takeWhile ?same opcs) = takeWhile ?same opcs" by (auto simp: filter_id_conv dest: set_takeWhileD)
    ultimately have "filter ?same opcs = takeWhile ?same opcs" by (metis append_Nil2 filter_append split)
    with True show ?thesis by simp
  next
    case False
    have "filter (\<lambda>q. opc_name q = n) (takeWhile ?same opcs) = []" using False by (auto simp: filter_empty_conv dest: set_takeWhileD)
    then have "filter (\<lambda>q. opc_name q = n) opcs = filter (\<lambda>q. opc_name q = n) ?rest" by (metis append_Nil filter_append split)
    moreover have "dropWhile (\<lambda>q. opc_name q \<noteq> n) opcs = dropWhile (\<lambda>q. opc_name q \<noteq> n) ?rest"
      by (subst split, rule dropWhile_append2) (use False in \<open>auto dest: set_takeWhileD\<close>)
    ultimately show ?thesis using 2 False by auto
  qed
qed simp

section \<open>Evaluation on concrete rows\<close>

lemma bits_eval:
  "MASK_FIELD F_CRS2 = 0x7c"
  "MASK_FIELD F_CRS1S = 0x380"
  "MASK_FIELD F_CRS2S = 0x1c"
  "MASK_FIELD F_CFUNCT6 = 0xfc00"
  "MASK_FIELD F_CFUNCT4 = 0xf000"
  "MASK_FIELD F_CFUNCT3 = 0xe000"
  "MASK_FIELD F_CFUNCT2 = 0x60"
  "MASK_FIELD F_VD = 0xf80"
  "MASK_FIELD F_VWD = 0x4000000"
  "MASK_FIELD F_VS1 = 0xf8000"
  "MASK_FIELD F_VS2 = 0x1f00000"
  "MASK_FIELD F_VIMM = 0xf8000"
  "MASK_FIELD F_VMASK = 0x2000000"
  "MASK_FIELD F_FUNCT7 = 0xfe000000"
  "MASK_FIELD F_FUNCT3 = 0x7000"
  "MASK_FIELD F_FUNCT2 = 0x6000000"
  "MASK_FIELD F_OP = 0x7f"
  "MASK_FIELD F_OP2 = 0x3"
  "MASK_FIELD F_RD = 0xf80"
  "MASK_FIELD F_RS1 = 0xf8000"
  "MASK_FIELD F_RS2 = 0x1f00000"
  "MASK_FIELD F_SHAMTW = 0x1f00000"
  "MASK_FIELD F_SHAMT = 0x3f00000"
  "MASK_FIELD F_BS = 0xc0000000"
  "MASK_FIELD F_RNUM = 0xf00000"
  "MASK_FIELD F_RS3 = 0xf8000000"
  "MASK_FIELD F_RM = 0x7000"
  "MASK_FIELD F_CSR = 0xfff00000"
  "MASK_FIELD F_PRED = 0xf000000"
  "MASK_FIELD F_SUCC = 0xf00000"
  "ENCODE_CITYPE_IMM ALL_ONES = 0x107c"
  "ENCODE_CITYPE_ADDI16SP_IMM ALL_ONES = 0x107c"
  "ENCODE_CITYPE_LWSP_IMM ALL_ONES = 0x107c"
  "ENCODE_CITYPE_LDSP_IMM ALL_ONES = 0x107c"
  "ENCODE_CSSTYPE_IMM ALL_ONES = 0x1f80"
  "ENCODE_CSSTYPE_SWSP_IMM ALL_ONES = 0x1f80"
  "ENCODE_CSSTYPE_SDSP_IMM ALL_ONES = 0x1f80"
  "ENCODE_CIWTYPE_IMM ALL_ONES = 0x1fe0"
  "ENCODE_CIWTYPE_ADDI4SPN_IMM ALL_ONES = 0x1fe0"
  "ENCODE_CLTYPE_IMM ALL_ONES = 0x1c60"
  "ENCODE_CLTYPE_LW_IMM ALL_ONES = 0x1c60"
  "ENCODE_CLTYPE_LD_IMM ALL_ONES = 0x1c60"
  "ENCODE_CBTYPE_IMM ALL_ONES = 0x1c7c"
  "ENCODE_CJTYPE_IMM ALL_ONES = 0x1ffc"
  "ENCODE_RVV_VB_IMM ALL_ONES = 0x3ff00000"
  "ENCODE_RVV_VC_IMM ALL_ONES = 0x7ff00000"
  "ENCODE_RVV_VI_UIMM6 ALL_ONES = 0x40f8000"
  "ENCODE_ITYPE_IMM ALL_ONES = 0xfff00000"
  "ENCODE_JTYPE_IMM ALL_ONES = 0xfffff000"
  "ENCODE_BTYPE_IMM ALL_ONES = 0xfe000f80"
  "ENCODE_STYPE_IMM ALL_ONES = 0xfe000f80"
  "ENCODE_UTYPE_IMM ALL_ONES = 0xfffff000"
  by code_simp+

text \<open>The bits each operand uses, for evaluating the checks on concrete rows.\<close>

lemma operand_bits [simp]:
  "validate_operand (CHR '','') rest = Some (0x0, rest)"
  "validate_operand (CHR ''('') rest = Some (0x0, rest)"
  "validate_operand (CHR '')'') rest = Some (0x0, rest)"
  "validate_operand (CHR ''A'') rest = Some (0x0, rest)"
  "validate_operand (CHR ''B'') rest = Some (0x0, rest)"
  "validate_operand (CHR ''c'') rest = Some (0x0, rest)"
  "validate_operand (CHR ''I'') rest = Some (0x0, rest)"
  "validate_operand (CHR ''z'') rest = Some (0x0, rest)"
  "validate_operand (CHR ''['') rest = Some (0x0, rest)"
  "validate_operand (CHR '']'') rest = Some (0x0, rest)"
  "validate_operand (CHR ''0'') rest = Some (0x0, rest)"
  "validate_operand (CHR ''1'') rest = Some (0x0, rest)"
  "validate_operand (CHR ''D'') rest = Some (0xf80, rest)"
  "validate_operand (CHR ''d'') rest = Some (0xf80, rest)"
  "validate_operand (CHR ''Z'') rest = Some (0xf8000, rest)"
  "validate_operand (CHR ''S'') rest = Some (0xf8000, rest)"
  "validate_operand (CHR ''s'') rest = Some (0xf8000, rest)"
  "validate_operand (CHR ''T'') rest = Some (0x1f00000, rest)"
  "validate_operand (CHR ''t'') rest = Some (0x1f00000, rest)"
  "validate_operand (CHR ''<'') rest = Some (0x1f00000, rest)"
  "validate_operand (CHR ''>'') rest = Some (0x3f00000, rest)"
  "validate_operand (CHR ''y'') rest = Some (0xc0000000, rest)"
  "validate_operand (CHR ''Y'') rest = Some (0xf00000, rest)"
  "validate_operand (CHR ''R'') rest = Some (0xf8000000, rest)"
  "validate_operand (CHR ''r'') rest = Some (0xf8000000, rest)"
  "validate_operand (CHR ''m'') rest = Some (0x7000, rest)"
  "validate_operand (CHR ''E'') rest = Some (0xfff00000, rest)"
  "validate_operand (CHR ''P'') rest = Some (0xf000000, rest)"
  "validate_operand (CHR ''Q'') rest = Some (0xf00000, rest)"
  "validate_operand (CHR ''U'') rest = Some (0x1ff8000, rest)"
  "validate_operand (CHR ''o'') rest = Some (0xfff00000, rest)"
  "validate_operand (CHR ''j'') rest = Some (0xfff00000, rest)"
  "validate_operand (CHR ''a'') rest = Some (0xfffff000, rest)"
  "validate_operand (CHR ''p'') rest = Some (0xfe000f80, rest)"
  "validate_operand (CHR ''q'') rest = Some (0xfe000f80, rest)"
  "validate_operand (CHR ''u'') rest = Some (0xfffff000, rest)"
  by (simp_all add: validate_operand_def bits_eval)

lemma operand_bits_C [simp]:
  "validate_operand (CHR ''C'') (CHR ''U'' # rest) = Some (0x0, rest)"
  "validate_operand (CHR ''C'') (CHR ''c'' # rest) = Some (0x0, rest)"
  "validate_operand (CHR ''C'') (CHR ''w'' # rest) = Some (0x0, rest)"
  "validate_operand (CHR ''C'') (CHR ''x'' # rest) = Some (0x0, rest)"
  "validate_operand (CHR ''C'') (CHR ''z'' # rest) = Some (0x0, rest)"
  "validate_operand (CHR ''C'') (CHR ''T'' # rest) = Some (0x7c, rest)"
  "validate_operand (CHR ''C'') (CHR ''V'' # rest) = Some (0x7c, rest)"
  "validate_operand (CHR ''C'') (CHR ''S'' # rest) = Some (0x380, rest)"
  "validate_operand (CHR ''C'') (CHR ''s'' # rest) = Some (0x380, rest)"
  "validate_operand (CHR ''C'') (CHR ''D'' # rest) = Some (0x1c, rest)"
  "validate_operand (CHR ''C'') (CHR ''t'' # rest) = Some (0x1c, rest)"
  "validate_operand (CHR ''C'') (CHR ''>'' # rest) = Some (0x107c, rest)"
  "validate_operand (CHR ''C'') (CHR ''u'' # rest) = Some (0x107c, rest)"
  "validate_operand (CHR ''C'') (CHR ''v'' # rest) = Some (0x107c, rest)"
  "validate_operand (CHR ''C'') (CHR ''o'' # rest) = Some (0x107c, rest)"
  "validate_operand (CHR ''C'') (CHR ''j'' # rest) = Some (0x107c, rest)"
  "validate_operand (CHR ''C'') (CHR ''L'' # rest) = Some (0x107c, rest)"
  "validate_operand (CHR ''C'') (CHR ''m'' # rest) = Some (0x107c, rest)"
  "validate_operand (CHR ''C'') (CHR ''n'' # rest) = Some (0x107c, rest)"
  "validate_operand (CHR ''C'') (CHR ''6'' # rest) = Some (0x1f80, rest)"
  "validate_operand (CHR ''C'') (CHR ''M'' # rest) = Some (0x1f80, rest)"
  "validate_operand (CHR ''C'') (CHR ''N'' # rest) = Some (0x1f80, rest)"
  "validate_operand (CHR ''C'') (CHR ''8'' # rest) = Some (0x1fe0, rest)"
  "validate_operand (CHR ''C'') (CHR ''K'' # rest) = Some (0x1fe0, rest)"
  "validate_operand (CHR ''C'') (CHR ''5'' # rest) = Some (0x1c60, rest)"
  "validate_operand (CHR ''C'') (CHR ''k'' # rest) = Some (0x1c60, rest)"
  "validate_operand (CHR ''C'') (CHR ''l'' # rest) = Some (0x1c60, rest)"
  "validate_operand (CHR ''C'') (CHR ''p'' # rest) = Some (0x1c7c, rest)"
  "validate_operand (CHR ''C'') (CHR ''a'' # rest) = Some (0x1ffc, rest)"
  "validate_operand (CHR ''C'') (CHR ''F'' # CHR ''6'' # rest) = Some (0xfc00, rest)"
  "validate_operand (CHR ''C'') (CHR ''F'' # CHR ''4'' # rest) = Some (0xf000, rest)"
  "validate_operand (CHR ''C'') (CHR ''F'' # CHR ''3'' # rest) = Some (0xe000, rest)"
  "validate_operand (CHR ''C'') (CHR ''F'' # CHR ''2'' # rest) = Some (0x60, rest)"
  by (simp_all add: validate_operand_def validate_C_def bits_eval)

lemma operand_bits_V [simp]:
  "validate_operand (CHR ''V'') (CHR ''d'' # rest) = Some (0xf80, rest)"
  "validate_operand (CHR ''V'') (CHR ''f'' # rest) = Some (0xf80, rest)"
  "validate_operand (CHR ''V'') (CHR ''e'' # rest) = Some (0x4000000, rest)"
  "validate_operand (CHR ''V'') (CHR ''s'' # rest) = Some (0xf8000, rest)"
  "validate_operand (CHR ''V'') (CHR ''t'' # rest) = Some (0x1f00000, rest)"
  "validate_operand (CHR ''V'') (CHR ''u'' # rest) = Some (0x1ff8000, rest)"
  "validate_operand (CHR ''V'') (CHR ''v'' # rest) = Some (0x1ff8f80, rest)"
  "validate_operand (CHR ''V'') (CHR ''i'' # rest) = Some (0xf8000, rest)"
  "validate_operand (CHR ''V'') (CHR ''j'' # rest) = Some (0xf8000, rest)"
  "validate_operand (CHR ''V'') (CHR ''k'' # rest) = Some (0xf8000, rest)"
  "validate_operand (CHR ''V'') (CHR ''m'' # rest) = Some (0x2000000, rest)"
  "validate_operand (CHR ''V'') (CHR ''0'' # rest) = Some (0x0, rest)"
  "validate_operand (CHR ''V'') (CHR ''M'' # rest) = Some (0x0, rest)"
  "validate_operand (CHR ''V'') (CHR ''T'' # rest) = Some (0x0, rest)"
  "validate_operand (CHR ''V'') (CHR ''b'' # rest) = Some (0x3ff00000, rest)"
  "validate_operand (CHR ''V'') (CHR ''c'' # rest) = Some (0x7ff00000, rest)"
  "validate_operand (CHR ''V'') (CHR ''l'' # rest) = Some (0x40f8000, rest)"
  by (simp_all add: validate_operand_def validate_V_def bits_eval)

lemma operand_bits_FOW [simp]:
  "validate_operand (CHR ''F'') (CHR ''7'' # rest) = Some (0xfe000000, rest)"
  "validate_operand (CHR ''F'') (CHR ''3'' # rest) = Some (0x7000, rest)"
  "validate_operand (CHR ''F'') (CHR ''2'' # rest) = Some (0x6000000, rest)"
  "validate_operand (CHR ''O'') (CHR ''4'' # rest) = Some (0x7f, rest)"
  "validate_operand (CHR ''O'') (CHR ''2'' # rest) = Some (0x3, rest)"
  "validate_operand (CHR ''W'') (CHR ''i'' # CHR ''f'' # rest) = Some (0xfe000f80, rest)"
  "validate_operand (CHR ''W'') (CHR ''f'' # CHR ''v'' # rest) = Some (0xf8000, rest)"
  by (simp_all add: validate_operand_def validate_F_def validate_O_def validate_W_def bits_eval)

lemma operand_bits_X [simp]:
  "validate_operand (CHR ''X'') (CHR ''l'' # CHR ''3'' # []) = Some (0x0, [])"
  "validate_operand (CHR ''X'') (CHR ''l'' # CHR ''4'' # []) = Some (0x0, [])"
  "validate_operand (CHR ''X'') (CHR ''s'' # CHR ''5'' # CHR ''@'' # CHR ''2'' # CHR ''0'' # CHR '','' # rest) = Some (0x1f00000, CHR '','' # rest)"
  "validate_operand (CHR ''X'') (CHR ''u'' # CHR ''2'' # CHR ''@'' # CHR ''2'' # CHR ''5'' # CHR '','' # rest) = Some (0x6000000, CHR '','' # rest)"
  "validate_operand (CHR ''X'') (CHR ''u'' # CHR ''2'' # CHR ''@'' # CHR ''2'' # CHR ''5'' # []) = Some (0x6000000, [])"
  "validate_operand (CHR ''X'') (CHR ''u'' # CHR ''5'' # CHR ''@'' # CHR ''2'' # CHR ''0'' # []) = Some (0x1f00000, [])"
  "validate_operand (CHR ''X'') (CHR ''u'' # CHR ''6'' # CHR ''@'' # CHR ''2'' # CHR ''0'' # []) = Some (0x3f00000, [])"
  "validate_operand (CHR ''X'') (CHR ''u'' # CHR ''6'' # CHR ''@'' # CHR ''2'' # CHR ''6'' # CHR '','' # rest) = Some (0xfc000000, CHR '','' # rest)"
  by (simp_all add: validate_operand_def validate_X_def strtol10_def is_digit_def digit_val_def USE_IMM_def)

lemma required_eval: "mask 32 = (0xffffffff :: i64)" "mask 16 = (0xffff :: i64)"
  by code_simp+

lemma insn_row_name: "opc_name (insn_row n x c a mt mk f p) = n"
  by (simp add: insn_row_def)

lemmas row_eval = row_ok_def validate_riscv_insn_def riscv_insn_length_def insn_row_def INSN_MACRO_def required_eval Let_def

text \<open>
  A hash of a name, to compare many of them quickly; the modulus and the factor are chosen so that
  the names of the table have different hashes, and nothing else depends on them.
\<close>

definition name_key :: "string \<Rightarrow> int" where
  "name_key s = foldl (\<lambda>h c. (h * 107 + of_char c) mod 262139) 0 s"

text \<open>Distinctness is checked class by class, a class being the hashes with one residue modulo 16.\<close>

definition key_class :: "int \<Rightarrow> int list \<Rightarrow> int list" where
  "key_class c ks = filter (\<lambda>k. k mod 16 = c) ks"

lemma key_class_concat: "key_class c (concat kss) = concat (map (key_class c) kss)"
  by (simp add: key_class_def [abs_def] filter_concat)

lemma distinct_by_class:
  assumes "\<forall>c \<in> {0..15}. distinct (key_class c ks)"
  shows "distinct ks"
proof (rule ccontr)
  assume "\<not> distinct ks"
  then obtain xs ys zs k where "ks = xs @ [k] @ ys @ [k] @ zs" by (metis not_distinct_decomp)
  then have "\<not> distinct (key_class (k mod 16) ks)" by (simp add: key_class_def)
  moreover have "k mod 16 \<in> {0..15}" by simp
  ultimately show False using assms by blast
qed

lemma classes_16: "(\<forall>c \<in> {0..15::int}. P c) \<longleftrightarrow>
    P 0 \<and> P 1 \<and> P 2 \<and> P 3 \<and> P 4 \<and> P 5 \<and> P 6 \<and> P 7 \<and> P 8 \<and> P 9 \<and> P 10 \<and> P 11 \<and> P 12 \<and> P 13 \<and> P 14 \<and> P 15"
proof -
  have "[0..15::int] = [0, 1, 2, 3, 4, 5, 6, 7, 8, 9, 10, 11, 12, 13, 14, 15]" by code_simp
  then show ?thesis by (simp flip: set_upto)
qed

lemma distinct_names: "distinct (map name_key ns) \<Longrightarrow> distinct ns"
  by (simp add: distinct_map)

section \<open>Tables the assembler accepts\<close>

text \<open>
  The contract of an instruction table: the rows of a name are contiguous and every row passes the
  check.  Start-up on such a table succeeds, and the hash it leaves finds the rows of each name.
\<close>

definition table_hash :: "riscv_opcode list \<Rightarrow> opcode_hash" where
  "table_hash opcs n = (if n \<in> opc_name ` set opcs then Some (dropWhile (\<lambda>q. opc_name q \<noteq> n) opcs) else None)"

locale opcode_table =
  fixes insn_directive_p :: bool and opcs :: "riscv_opcode list"
  assumes names_contiguous: "distinct (group_names opcs)"
    and rows_valid: "list_all (row_ok insn_directive_p) opcs"
begin

lemma table_loads: "init_opcode_hash insn_directive_p opcs Map.empty = Inr (table_hash opcs)"
  unfolding table_hash_def by (rule init_opcode_hash_loads [OF names_contiguous rows_valid]) simp

lemma table_hash_unknown: "table_hash opcs n = None \<longleftrightarrow> n \<notin> opc_name ` set opcs"
  by (simp add: table_hash_def)

lemma table_hash_rows: "table_hash opcs n = Some rows \<Longrightarrow> takeWhile (\<lambda>q. opc_name q = n) rows = filter (\<lambda>q. opc_name q = n) opcs"
  by (auto simp: table_hash_def group_contiguous [OF names_contiguous] split: if_splits)

end

end
