(* ===== verification/Riscv_Table1.thy ===== *)
theory Riscv_Table1
  imports Riscv_Validate
begin

text \<open>
  Rows of \<open>riscv_opcodes\<close> (opcodes/riscv-opc.c, lines 337 to 818), in the order of the source, with the macros
  of include/opcode/riscv-opc.h expanded; each part is checked against \<open>validate_riscv_insn\<close>.
\<close>

definition riscv_opcodes_1 :: "riscv_opcode list" where
  "riscv_opcodes_1 =
  [
   insn_row ''prefetch.i'' 0 INSN_CLASS_ZICBOP ''Wif(s)'' 0x6013 0x1f07fff Match_opcode 0x0,
   insn_row ''prefetch.r'' 0 INSN_CLASS_ZICBOP ''Wif(s)'' 0x106013 0x1f07fff Match_opcode 0x0,
   insn_row ''prefetch.w'' 0 INSN_CLASS_ZICBOP ''Wif(s)'' 0x306013 0x1f07fff Match_opcode 0x0,
   insn_row ''pause'' 0 INSN_CLASS_ZIHINTPAUSE '''' 0x100000f 0xffffffff Match_opcode 0x0,
   insn_row ''pvadd'' 0 INSN_CLASS_I ''d,s,t'' 0x105b 0xfe00707f Match_opcode 0x0,
   insn_row ''pvmul'' 0 INSN_CLASS_I ''d,s,t'' 0x200105b 0xfe00707f Match_opcode 0x0,
   insn_row ''pvmac'' 0 INSN_CLASS_I ''d,s,t'' 0x400105b 0xfe00707f Match_opcode 0x0,
   insn_row ''pvmul_upper'' 0 INSN_CLASS_I ''d,s,t'' 0x600105b 0xfe00707f Match_opcode 0x0,
   insn_row ''vadd.b'' 0 INSN_CLASS_I ''d,s,t'' 0x205b 0xfe00707f Match_opcode 0x0,
   insn_row ''vadd.h'' 0 INSN_CLASS_I ''d,s,t'' 0x4000205b 0xfe00707f Match_opcode 0x0,
   insn_row ''vadd.w'' 0 INSN_CLASS_I ''d,s,t'' 0x8000205b 0xfe00707f Match_opcode 0x0,
   insn_row ''vsub.b'' 0 INSN_CLASS_I ''d,s,t'' 0x200205b 0xfe00707f Match_opcode 0x0,
   insn_row ''vsub.h'' 0 INSN_CLASS_I ''d,s,t'' 0x4200205b 0xfe00707f Match_opcode 0x0,
   insn_row ''vsub.w'' 0 INSN_CLASS_I ''d,s,t'' 0x8200205b 0xfe00707f Match_opcode 0x0,
   insn_row ''vmul.b'' 0 INSN_CLASS_I ''d,s,t'' 0x400205b 0xfe00707f Match_opcode 0x0,
   insn_row ''vmul.h'' 0 INSN_CLASS_I ''d,s,t'' 0x4400205b 0xfe00707f Match_opcode 0x0,
   insn_row ''vmul.w'' 0 INSN_CLASS_I ''d,s,t'' 0x8400205b 0xfe00707f Match_opcode 0x0,
   insn_row ''vmac.b'' 0 INSN_CLASS_I ''d,s,t'' 0x600205b 0xfe00707f Match_opcode 0x0,
   insn_row ''vmac.h'' 0 INSN_CLASS_I ''d,s,t'' 0x2600205b 0xfe00707f Match_opcode 0x0,
   insn_row ''vmac.w'' 0 INSN_CLASS_I ''d,s,t'' 0x4600205b 0xfe00707f Match_opcode 0x0,
   insn_row ''vld'' 0 INSN_CLASS_I ''d,s'' 0x800205b 0xfff0707f Match_opcode 0x0,
   insn_row ''vst'' 0 INSN_CLASS_I ''d,s,t'' 0xa00205b 0xfe00707f Match_opcode 0x0,
   insn_row ''unimp'' 0 INSN_CLASS_C '''' 0x0 0xffff Match_opcode 0x1,
   insn_row ''unimp'' 0 INSN_CLASS_I '''' 0xc0001073 0xffffffff Match_opcode 0x0,
   insn_row ''ebreak'' 0 INSN_CLASS_C '''' 0x9002 0xffff Match_opcode 0x1,
   insn_row ''ebreak'' 0 INSN_CLASS_I '''' 0x100073 0xffffffff Match_opcode 0x0,
   insn_row ''sbreak'' 0 INSN_CLASS_C '''' 0x9002 0xffff Match_opcode 0x1,
   insn_row ''sbreak'' 0 INSN_CLASS_I '''' 0x100073 0xffffffff Match_opcode 0x1,
   insn_row ''ret'' 0 INSN_CLASS_C '''' 0x8082 0xffff Match_opcode 0x3,
   insn_row ''ret'' 0 INSN_CLASS_I '''' 0x8067 0xffffffff Match_opcode 0x3,
   insn_row ''jr'' 0 INSN_CLASS_C ''d'' 0x8002 0xf07f Match_rd_nonzero 0x3,
   insn_row ''jr'' 0 INSN_CLASS_I ''s'' 0x67 0xfff07fff Match_opcode 0x3,
   insn_row ''jr'' 0 INSN_CLASS_I ''o(s)'' 0x67 0x7fff Match_opcode 0x3,
   insn_row ''jr'' 0 INSN_CLASS_I ''s,j'' 0x67 0x7fff Match_opcode 0x3,
   insn_row ''jalr'' 0 INSN_CLASS_C ''d'' 0x9002 0xf07f Match_rd_nonzero 0x7,
   insn_row ''jalr'' 0 INSN_CLASS_I ''s'' 0xe7 0xfff07fff Match_opcode 0x7,
   insn_row ''jalr'' 0 INSN_CLASS_I ''o(s)'' 0xe7 0x7fff Match_opcode 0x7,
   insn_row ''jalr'' 0 INSN_CLASS_I ''s,j'' 0xe7 0x7fff Match_opcode 0x7,
   insn_row ''jalr'' 0 INSN_CLASS_I ''d,s'' 0x67 0xfff0707f Match_opcode 0x7,
   insn_row ''jalr'' 0 INSN_CLASS_I ''d,o(s)'' 0x67 0x707f Match_opcode 0x6,
   insn_row ''jalr'' 0 INSN_CLASS_I ''d,s,j'' 0x67 0x707f Match_opcode 0x6,
   insn_row ''j'' 0 INSN_CLASS_C ''Ca'' 0xa001 0xe003 Match_opcode 0x3,
   insn_row ''j'' 0 INSN_CLASS_I ''a'' 0x6f 0xfff Match_opcode 0x3,
   insn_row ''jal'' 32 INSN_CLASS_C ''Ca'' 0x2001 0xe003 Match_opcode 0x7,
   insn_row ''jal'' 0 INSN_CLASS_I ''a'' 0xef 0xfff Match_opcode 0x7,
   insn_row ''jal'' 0 INSN_CLASS_I ''d,a'' 0x6f 0x7f Match_opcode 0x6,
   insn_row ''call'' 0 INSN_CLASS_I ''d,c'' 0x30000 0x16 Match_never 0xffffffff,
   insn_row ''call'' 0 INSN_CLASS_I ''c'' 0x8080 0x16 Match_never 0xffffffff,
   insn_row ''tail'' 0 INSN_CLASS_I ''c'' 0x30000 0x16 Match_never 0xffffffff,
   insn_row ''jump'' 0 INSN_CLASS_I ''c,s'' 0x0 0x16 Match_never 0xffffffff,
   insn_row ''nop'' 0 INSN_CLASS_C '''' 0x1 0xffff Match_opcode 0x1,
   insn_row ''nop'' 0 INSN_CLASS_I '''' 0x13 0xffffffff Match_opcode 0x1,
   insn_row ''lui'' 0 INSN_CLASS_C ''d,Cu'' 0x6001 0xe003 Match_c_lui 0x1,
   insn_row ''lui'' 0 INSN_CLASS_I ''d,u'' 0x37 0x7f Match_opcode 0x0,
   insn_row ''li'' 0 INSN_CLASS_C ''d,Cv'' 0x6001 0xe003 Match_c_lui 0x1,
   insn_row ''li'' 0 INSN_CLASS_C ''d,Co'' 0x4001 0xe003 Match_rd_nonzero 0x1,
   insn_row ''li'' 0 INSN_CLASS_I ''d,j'' 0x13 0xff07f Match_opcode 0x1,
   insn_row ''li'' 0 INSN_CLASS_I ''d,I'' 0x0 0x18 Match_never 0xffffffff,
   insn_row ''mv'' 0 INSN_CLASS_C ''d,CV'' 0x8002 0xf003 Match_c_add 0x1,
   insn_row ''mv'' 0 INSN_CLASS_I ''d,s'' 0x13 0xfff0707f Match_opcode 0x1,
   insn_row ''move'' 0 INSN_CLASS_C ''d,CV'' 0x8002 0xf003 Match_c_add 0x1,
   insn_row ''move'' 0 INSN_CLASS_I ''d,s'' 0x13 0xfff0707f Match_opcode 0x1,
   insn_row ''zext.b'' 0 INSN_CLASS_I ''d,s'' 0xff07013 0xfff0707f Match_opcode 0x1,
   insn_row ''and'' 0 INSN_CLASS_C ''Cs,Cw,Ct'' 0x8c61 0xfc63 Match_opcode 0x1,
   insn_row ''and'' 0 INSN_CLASS_C ''Cs,Ct,Cw'' 0x8c61 0xfc63 Match_opcode 0x1,
   insn_row ''and'' 0 INSN_CLASS_C ''Cs,Cw,Co'' 0x8801 0xec03 Match_opcode 0x1,
   insn_row ''and'' 0 INSN_CLASS_I ''d,s,t'' 0x7033 0xfe00707f Match_opcode 0x0,
   insn_row ''and'' 0 INSN_CLASS_I ''d,s,j'' 0x7013 0x707f Match_opcode 0x1,
   insn_row ''andi'' 0 INSN_CLASS_C ''Cs,Cw,Co'' 0x8801 0xec03 Match_opcode 0x1,
   insn_row ''andi'' 0 INSN_CLASS_I ''d,s,j'' 0x7013 0x707f Match_opcode 0x0,
   insn_row ''beqz'' 0 INSN_CLASS_C ''Cs,Cp'' 0xc001 0xe003 Match_opcode 0x5,
   insn_row ''beqz'' 0 INSN_CLASS_I ''s,p'' 0x63 0x1f0707f Match_opcode 0x5,
   insn_row ''beq'' 0 INSN_CLASS_C ''Cs,Cz,Cp'' 0xc001 0xe003 Match_opcode 0x5,
   insn_row ''beq'' 0 INSN_CLASS_I ''s,t,p'' 0x63 0x707f Match_opcode 0x4,
   insn_row ''blez'' 0 INSN_CLASS_I ''t,p'' 0x5063 0xff07f Match_opcode 0x5,
   insn_row ''bgez'' 0 INSN_CLASS_I ''s,p'' 0x5063 0x1f0707f Match_opcode 0x5,
   insn_row ''bge'' 0 INSN_CLASS_I ''s,t,p'' 0x5063 0x707f Match_opcode 0x4,
   insn_row ''bgeu'' 0 INSN_CLASS_I ''s,t,p'' 0x7063 0x707f Match_opcode 0x4,
   insn_row ''ble'' 0 INSN_CLASS_I ''t,s,p'' 0x5063 0x707f Match_opcode 0x5,
   insn_row ''bleu'' 0 INSN_CLASS_I ''t,s,p'' 0x7063 0x707f Match_opcode 0x5,
   insn_row ''bltz'' 0 INSN_CLASS_I ''s,p'' 0x4063 0x1f0707f Match_opcode 0x5,
   insn_row ''bgtz'' 0 INSN_CLASS_I ''t,p'' 0x4063 0xff07f Match_opcode 0x5,
   insn_row ''blt'' 0 INSN_CLASS_I ''s,t,p'' 0x4063 0x707f Match_opcode 0x4,
   insn_row ''bltu'' 0 INSN_CLASS_I ''s,t,p'' 0x6063 0x707f Match_opcode 0x4,
   insn_row ''bgt'' 0 INSN_CLASS_I ''t,s,p'' 0x4063 0x707f Match_opcode 0x5,
   insn_row ''bgtu'' 0 INSN_CLASS_I ''t,s,p'' 0x6063 0x707f Match_opcode 0x5,
   insn_row ''bnez'' 0 INSN_CLASS_C ''Cs,Cp'' 0xe001 0xe003 Match_opcode 0x5,
   insn_row ''bnez'' 0 INSN_CLASS_I ''s,p'' 0x1063 0x1f0707f Match_opcode 0x5,
   insn_row ''bne'' 0 INSN_CLASS_C ''Cs,Cz,Cp'' 0xe001 0xe003 Match_opcode 0x5,
   insn_row ''bne'' 0 INSN_CLASS_I ''s,t,p'' 0x1063 0x707f Match_opcode 0x4,
   insn_row ''add'' 0 INSN_CLASS_C ''d,CU,CV'' 0x9002 0xf003 Match_c_add 0x1,
   insn_row ''add'' 0 INSN_CLASS_C ''d,CV,CU'' 0x9002 0xf003 Match_c_add 0x1,
   insn_row ''add'' 0 INSN_CLASS_C ''d,CU,Co'' 0x1 0xe003 Match_rd_nonzero 0x1,
   insn_row ''add'' 0 INSN_CLASS_C ''Ct,Cc,CK'' 0x0 0xe003 Match_c_addi4spn 0x1,
   insn_row ''add'' 0 INSN_CLASS_C ''Cc,Cc,CL'' 0x6101 0xef83 Match_c_addi16sp 0x1,
   insn_row ''add'' 0 INSN_CLASS_C ''d,Cz,CV'' 0x8002 0xf003 Match_c_add 0x1,
   insn_row ''add'' 0 INSN_CLASS_I ''d,s,t'' 0x33 0xfe00707f Match_opcode 0x0,
   insn_row ''add'' 0 INSN_CLASS_I ''d,s,t,1'' 0x33 0xfe00707f Match_opcode 0x0,
   insn_row ''add'' 0 INSN_CLASS_I ''d,s,j'' 0x13 0x707f Match_opcode 0x1,
   insn_row ''addi'' 0 INSN_CLASS_C ''Ct,Cc,CK'' 0x0 0xe003 Match_c_addi4spn 0x1,
   insn_row ''addi'' 0 INSN_CLASS_C ''d,CU,Cj'' 0x1 0xe003 Match_rd_nonzero 0x1,
   insn_row ''addi'' 0 INSN_CLASS_C ''d,CU,z'' 0x1 0xf07f Match_c_nop 0x1,
   insn_row ''addi'' 0 INSN_CLASS_C ''Cc,Cc,CL'' 0x6101 0xef83 Match_c_addi16sp 0x1,
   insn_row ''addi'' 0 INSN_CLASS_C ''d,Cz,Co'' 0x4001 0xe003 Match_rd_nonzero 0x1,
   insn_row ''addi'' 0 INSN_CLASS_C ''d,CV,z'' 0x8002 0xf003 Match_c_add 0x1,
   insn_row ''addi'' 0 INSN_CLASS_I ''d,s,j'' 0x13 0x707f Match_opcode 0x0,
   insn_row ''la'' 0 INSN_CLASS_I ''d,B'' 0x0 0x0 Match_never 0xffffffff,
   insn_row ''lla'' 0 INSN_CLASS_I ''d,B'' 0x0 0x1 Match_never 0xffffffff,
   insn_row ''lga'' 0 INSN_CLASS_I ''d,B'' 0x0 0x2 Match_never 0xffffffff,
   insn_row ''la.tls.gd'' 0 INSN_CLASS_I ''d,A'' 0x0 0x3 Match_never 0xffffffff,
   insn_row ''la.tls.ie'' 0 INSN_CLASS_I ''d,A'' 0x0 0x4 Match_never 0xffffffff,
   insn_row ''neg'' 0 INSN_CLASS_I ''d,t'' 0x40000033 0xfe0ff07f Match_opcode 0x1]"

definition riscv_opcodes_2 :: "riscv_opcode list" where
  "riscv_opcodes_2 =
  [
   insn_row ''sll'' 0 INSN_CLASS_C ''d,CU,C>'' 0x2 0xe003 Match_slli_as_c_slli 0x1,
   insn_row ''sll'' 0 INSN_CLASS_I ''d,s,t'' 0x1033 0xfe00707f Match_opcode 0x0,
   insn_row ''sll'' 0 INSN_CLASS_I ''d,s,>'' 0x1013 0xfc00707f Match_opcode 0x1,
   insn_row ''slli'' 0 INSN_CLASS_C ''d,CU,C>'' 0x2 0xe003 Match_slli_as_c_slli 0x1,
   insn_row ''slli'' 0 INSN_CLASS_I ''d,s,>'' 0x1013 0xfc00707f Match_opcode 0x0,
   insn_row ''srl'' 0 INSN_CLASS_C ''Cs,Cw,C>'' 0x8001 0xec03 Match_srxi_as_c_srxi 0x1,
   insn_row ''srl'' 0 INSN_CLASS_I ''d,s,t'' 0x5033 0xfe00707f Match_opcode 0x0,
   insn_row ''srl'' 0 INSN_CLASS_I ''d,s,>'' 0x5013 0xfc00707f Match_opcode 0x1,
   insn_row ''srli'' 0 INSN_CLASS_C ''Cs,Cw,C>'' 0x8001 0xec03 Match_srxi_as_c_srxi 0x1,
   insn_row ''srli'' 0 INSN_CLASS_I ''d,s,>'' 0x5013 0xfc00707f Match_opcode 0x0,
   insn_row ''sra'' 0 INSN_CLASS_C ''Cs,Cw,C>'' 0x8401 0xec03 Match_srxi_as_c_srxi 0x1,
   insn_row ''sra'' 0 INSN_CLASS_I ''d,s,t'' 0x40005033 0xfe00707f Match_opcode 0x0,
   insn_row ''sra'' 0 INSN_CLASS_I ''d,s,>'' 0x40005013 0xfc00707f Match_opcode 0x1,
   insn_row ''srai'' 0 INSN_CLASS_C ''Cs,Cw,C>'' 0x8401 0xec03 Match_srxi_as_c_srxi 0x1,
   insn_row ''srai'' 0 INSN_CLASS_I ''d,s,>'' 0x40005013 0xfc00707f Match_opcode 0x0,
   insn_row ''sub'' 0 INSN_CLASS_C ''Cs,Cw,Ct'' 0x8c01 0xfc63 Match_opcode 0x1,
   insn_row ''sub'' 0 INSN_CLASS_I ''d,s,t'' 0x40000033 0xfe00707f Match_opcode 0x0,
   insn_row ''lb'' 0 INSN_CLASS_I ''d,o(s)'' 0x3 0x707f Match_opcode 0x18,
   insn_row ''lb'' 0 INSN_CLASS_I ''d,A'' 0x0 0x5 Match_never 0xffffffff,
   insn_row ''lbu'' 0 INSN_CLASS_I ''d,o(s)'' 0x4003 0x707f Match_opcode 0x18,
   insn_row ''lbu'' 0 INSN_CLASS_I ''d,A'' 0x0 0x6 Match_never 0xffffffff,
   insn_row ''lh'' 0 INSN_CLASS_I ''d,o(s)'' 0x1003 0x707f Match_opcode 0x28,
   insn_row ''lh'' 0 INSN_CLASS_I ''d,A'' 0x0 0x7 Match_never 0xffffffff,
   insn_row ''lhu'' 0 INSN_CLASS_I ''d,o(s)'' 0x5003 0x707f Match_opcode 0x28,
   insn_row ''lhu'' 0 INSN_CLASS_I ''d,A'' 0x0 0x8 Match_never 0xffffffff,
   insn_row ''lw'' 0 INSN_CLASS_C ''d,Cm(Cc)'' 0x4002 0xe003 Match_rd_nonzero 0x39,
   insn_row ''lw'' 0 INSN_CLASS_C ''Ct,Ck(Cs)'' 0x4000 0xe003 Match_opcode 0x39,
   insn_row ''lw'' 0 INSN_CLASS_I ''d,o(s)'' 0x2003 0x707f Match_opcode 0x38,
   insn_row ''lw'' 0 INSN_CLASS_I ''d,A'' 0x0 0x9 Match_never 0xffffffff,
   insn_row ''not'' 0 INSN_CLASS_I ''d,s'' 0xfff04013 0xfff0707f Match_opcode 0x1,
   insn_row ''or'' 0 INSN_CLASS_I ''d,s,j'' 0x6013 0x707f Match_opcode 0x1,
   insn_row ''or'' 0 INSN_CLASS_C ''Cs,Cw,Ct'' 0x8c41 0xfc63 Match_opcode 0x1,
   insn_row ''or'' 0 INSN_CLASS_C ''Cs,Ct,Cw'' 0x8c41 0xfc63 Match_opcode 0x1,
   insn_row ''or'' 0 INSN_CLASS_I ''d,s,t'' 0x6033 0xfe00707f Match_opcode 0x0,
   insn_row ''ori'' 0 INSN_CLASS_I ''d,s,j'' 0x6013 0x707f Match_opcode 0x0,
   insn_row ''auipc'' 0 INSN_CLASS_I ''d,u'' 0x17 0x7f Match_opcode 0x0,
   insn_row ''seqz'' 0 INSN_CLASS_I ''d,s'' 0x103013 0xfff0707f Match_opcode 0x1,
   insn_row ''snez'' 0 INSN_CLASS_I ''d,t'' 0x3033 0xfe0ff07f Match_opcode 0x1,
   insn_row ''sltz'' 0 INSN_CLASS_I ''d,s'' 0x2033 0xfff0707f Match_opcode 0x1,
   insn_row ''sgtz'' 0 INSN_CLASS_I ''d,t'' 0x2033 0xfe0ff07f Match_opcode 0x1,
   insn_row ''slti'' 0 INSN_CLASS_I ''d,s,j'' 0x2013 0x707f Match_opcode 0x0,
   insn_row ''slt'' 0 INSN_CLASS_I ''d,s,t'' 0x2033 0xfe00707f Match_opcode 0x0,
   insn_row ''slt'' 0 INSN_CLASS_I ''d,s,j'' 0x2013 0x707f Match_opcode 0x1,
   insn_row ''sltiu'' 0 INSN_CLASS_I ''d,s,j'' 0x3013 0x707f Match_opcode 0x0,
   insn_row ''sltu'' 0 INSN_CLASS_I ''d,s,t'' 0x3033 0xfe00707f Match_opcode 0x0,
   insn_row ''sltu'' 0 INSN_CLASS_I ''d,s,j'' 0x3013 0x707f Match_opcode 0x1,
   insn_row ''sgt'' 0 INSN_CLASS_I ''d,t,s'' 0x2033 0xfe00707f Match_opcode 0x1,
   insn_row ''sgtu'' 0 INSN_CLASS_I ''d,t,s'' 0x3033 0xfe00707f Match_opcode 0x1,
   insn_row ''sb'' 0 INSN_CLASS_I ''t,q(s)'' 0x23 0x707f Match_opcode 0x18,
   insn_row ''sb'' 0 INSN_CLASS_I ''t,A,s'' 0x0 0xc Match_never 0xffffffff,
   insn_row ''sh'' 0 INSN_CLASS_I ''t,q(s)'' 0x1023 0x707f Match_opcode 0x28,
   insn_row ''sh'' 0 INSN_CLASS_I ''t,A,s'' 0x0 0xd Match_never 0xffffffff,
   insn_row ''sw'' 0 INSN_CLASS_C ''CV,CM(Cc)'' 0xc002 0xe003 Match_opcode 0x39,
   insn_row ''sw'' 0 INSN_CLASS_C ''Ct,Ck(Cs)'' 0xc000 0xe003 Match_opcode 0x39,
   insn_row ''sw'' 0 INSN_CLASS_I ''t,q(s)'' 0x2023 0x707f Match_opcode 0x38,
   insn_row ''sw'' 0 INSN_CLASS_I ''t,A,s'' 0x0 0xe Match_never 0xffffffff,
   insn_row ''fence'' 0 INSN_CLASS_I '''' 0xff0000f 0xffffffff Match_opcode 0x1,
   insn_row ''fence'' 0 INSN_CLASS_I ''P,Q'' 0xf 0xf00fffff Match_opcode 0x0,
   insn_row ''fence.i'' 0 INSN_CLASS_ZIFENCEI '''' 0x100f 0xffffffff Match_opcode 0x0,
   insn_row ''fence.tso'' 0 INSN_CLASS_I '''' 0x8330000f 0xffffffff Match_opcode 0x0,
   insn_row ''rdcycle'' 0 INSN_CLASS_I ''d'' 0xc0002073 0xfffff07f Match_opcode 0x1,
   insn_row ''rdinstret'' 0 INSN_CLASS_I ''d'' 0xc0202073 0xfffff07f Match_opcode 0x1,
   insn_row ''rdtime'' 0 INSN_CLASS_I ''d'' 0xc0102073 0xfffff07f Match_opcode 0x1,
   insn_row ''rdcycleh'' 32 INSN_CLASS_I ''d'' 0xc8002073 0xfffff07f Match_opcode 0x1,
   insn_row ''rdinstreth'' 32 INSN_CLASS_I ''d'' 0xc8202073 0xfffff07f Match_opcode 0x1,
   insn_row ''rdtimeh'' 32 INSN_CLASS_I ''d'' 0xc8102073 0xfffff07f Match_opcode 0x1,
   insn_row ''ecall'' 0 INSN_CLASS_I '''' 0x73 0xffffffff Match_opcode 0x0,
   insn_row ''scall'' 0 INSN_CLASS_I '''' 0x73 0xffffffff Match_opcode 0x0,
   insn_row ''xor'' 0 INSN_CLASS_I ''d,s,j'' 0x4013 0x707f Match_opcode 0x1,
   insn_row ''xor'' 0 INSN_CLASS_C ''Cs,Cw,Ct'' 0x8c21 0xfc63 Match_opcode 0x1,
   insn_row ''xor'' 0 INSN_CLASS_C ''Cs,Ct,Cw'' 0x8c21 0xfc63 Match_opcode 0x1,
   insn_row ''xor'' 0 INSN_CLASS_I ''d,s,t'' 0x4033 0xfe00707f Match_opcode 0x0,
   insn_row ''xori'' 0 INSN_CLASS_I ''d,s,j'' 0x4013 0x707f Match_opcode 0x0,
   insn_row ''lwu'' 64 INSN_CLASS_I ''d,o(s)'' 0x6003 0x707f Match_opcode 0x38,
   insn_row ''lwu'' 64 INSN_CLASS_I ''d,A'' 0x0 0xa Match_never 0xffffffff,
   insn_row ''ld'' 64 INSN_CLASS_C ''d,Cn(Cc)'' 0x6002 0xe003 Match_rd_nonzero 0x49,
   insn_row ''ld'' 64 INSN_CLASS_C ''Ct,Cl(Cs)'' 0x6000 0xe003 Match_opcode 0x49,
   insn_row ''ld'' 64 INSN_CLASS_I ''d,o(s)'' 0x3003 0x707f Match_opcode 0x48,
   insn_row ''ld'' 64 INSN_CLASS_I ''d,A'' 0x0 0xb Match_never 0xffffffff,
   insn_row ''sd'' 64 INSN_CLASS_C ''CV,CN(Cc)'' 0xe002 0xe003 Match_opcode 0x49,
   insn_row ''sd'' 64 INSN_CLASS_C ''Ct,Cl(Cs)'' 0xe000 0xe003 Match_opcode 0x49,
   insn_row ''sd'' 64 INSN_CLASS_I ''t,q(s)'' 0x3023 0x707f Match_opcode 0x48,
   insn_row ''sd'' 64 INSN_CLASS_I ''t,A,s'' 0x0 0xf Match_never 0xffffffff,
   insn_row ''sext.w'' 64 INSN_CLASS_C ''d,CU'' 0x2001 0xf07f Match_rd_nonzero 0x1,
   insn_row ''sext.w'' 64 INSN_CLASS_I ''d,s'' 0x1b 0xfff0707f Match_opcode 0x1,
   insn_row ''addw'' 64 INSN_CLASS_C ''Cs,Cw,Ct'' 0x9c21 0xfc63 Match_opcode 0x1,
   insn_row ''addw'' 64 INSN_CLASS_C ''Cs,Ct,Cw'' 0x9c21 0xfc63 Match_opcode 0x1,
   insn_row ''addw'' 64 INSN_CLASS_C ''d,CU,Co'' 0x2001 0xe003 Match_rd_nonzero 0x1,
   insn_row ''addw'' 64 INSN_CLASS_I ''d,s,t'' 0x3b 0xfe00707f Match_opcode 0x0,
   insn_row ''addw'' 64 INSN_CLASS_I ''d,s,j'' 0x1b 0x707f Match_opcode 0x1,
   insn_row ''addiw'' 64 INSN_CLASS_C ''d,CU,Co'' 0x2001 0xe003 Match_rd_nonzero 0x1,
   insn_row ''addiw'' 64 INSN_CLASS_I ''d,s,j'' 0x1b 0x707f Match_opcode 0x0,
   insn_row ''negw'' 64 INSN_CLASS_I ''d,t'' 0x4000003b 0xfe0ff07f Match_opcode 0x1,
   insn_row ''sllw'' 64 INSN_CLASS_I ''d,s,t'' 0x103b 0xfe00707f Match_opcode 0x0,
   insn_row ''sllw'' 64 INSN_CLASS_I ''d,s,<'' 0x101b 0xfe00707f Match_opcode 0x1,
   insn_row ''slliw'' 64 INSN_CLASS_I ''d,s,<'' 0x101b 0xfe00707f Match_opcode 0x0,
   insn_row ''srlw'' 64 INSN_CLASS_I ''d,s,t'' 0x503b 0xfe00707f Match_opcode 0x0,
   insn_row ''srlw'' 64 INSN_CLASS_I ''d,s,<'' 0x501b 0xfe00707f Match_opcode 0x1,
   insn_row ''srliw'' 64 INSN_CLASS_I ''d,s,<'' 0x501b 0xfe00707f Match_opcode 0x0,
   insn_row ''sraw'' 64 INSN_CLASS_I ''d,s,t'' 0x4000503b 0xfe00707f Match_opcode 0x0,
   insn_row ''sraw'' 64 INSN_CLASS_I ''d,s,<'' 0x4000501b 0xfe00707f Match_opcode 0x1,
   insn_row ''sraiw'' 64 INSN_CLASS_I ''d,s,<'' 0x4000501b 0xfe00707f Match_opcode 0x0,
   insn_row ''subw'' 64 INSN_CLASS_C ''Cs,Cw,Ct'' 0x9c01 0xfc63 Match_opcode 0x1,
   insn_row ''subw'' 64 INSN_CLASS_I ''d,s,t'' 0x4000003b 0xfe00707f Match_opcode 0x0,
   insn_row ''lr.w'' 0 INSN_CLASS_A ''d,0(s)'' 0x1000202f 0xfff0707f Match_opcode 0x38,
   insn_row ''sc.w'' 0 INSN_CLASS_A ''d,t,0(s)'' 0x1800202f 0xfe00707f Match_opcode 0x38,
   insn_row ''amoadd.w'' 0 INSN_CLASS_A ''d,t,0(s)'' 0x202f 0xfe00707f Match_opcode 0x38,
   insn_row ''amoswap.w'' 0 INSN_CLASS_A ''d,t,0(s)'' 0x800202f 0xfe00707f Match_opcode 0x38,
   insn_row ''amoand.w'' 0 INSN_CLASS_A ''d,t,0(s)'' 0x6000202f 0xfe00707f Match_opcode 0x38,
   insn_row ''amoor.w'' 0 INSN_CLASS_A ''d,t,0(s)'' 0x4000202f 0xfe00707f Match_opcode 0x38,
   insn_row ''amoxor.w'' 0 INSN_CLASS_A ''d,t,0(s)'' 0x2000202f 0xfe00707f Match_opcode 0x38,
   insn_row ''amomax.w'' 0 INSN_CLASS_A ''d,t,0(s)'' 0xa000202f 0xfe00707f Match_opcode 0x38,
   insn_row ''amomaxu.w'' 0 INSN_CLASS_A ''d,t,0(s)'' 0xe000202f 0xfe00707f Match_opcode 0x38,
   insn_row ''amomin.w'' 0 INSN_CLASS_A ''d,t,0(s)'' 0x8000202f 0xfe00707f Match_opcode 0x38,
   insn_row ''amominu.w'' 0 INSN_CLASS_A ''d,t,0(s)'' 0xc000202f 0xfe00707f Match_opcode 0x38,
   insn_row ''lr.w.aq'' 0 INSN_CLASS_A ''d,0(s)'' 0x1400202f 0xfff0707f Match_opcode 0x38,
   insn_row ''sc.w.aq'' 0 INSN_CLASS_A ''d,t,0(s)'' 0x1c00202f 0xfe00707f Match_opcode 0x38,
   insn_row ''amoadd.w.aq'' 0 INSN_CLASS_A ''d,t,0(s)'' 0x400202f 0xfe00707f Match_opcode 0x38]"

definition riscv_opcodes_3 :: "riscv_opcode list" where
  "riscv_opcodes_3 =
  [
   insn_row ''amoswap.w.aq'' 0 INSN_CLASS_A ''d,t,0(s)'' 0xc00202f 0xfe00707f Match_opcode 0x38,
   insn_row ''amoand.w.aq'' 0 INSN_CLASS_A ''d,t,0(s)'' 0x6400202f 0xfe00707f Match_opcode 0x38,
   insn_row ''amoor.w.aq'' 0 INSN_CLASS_A ''d,t,0(s)'' 0x4400202f 0xfe00707f Match_opcode 0x38,
   insn_row ''amoxor.w.aq'' 0 INSN_CLASS_A ''d,t,0(s)'' 0x2400202f 0xfe00707f Match_opcode 0x38,
   insn_row ''amomax.w.aq'' 0 INSN_CLASS_A ''d,t,0(s)'' 0xa400202f 0xfe00707f Match_opcode 0x38,
   insn_row ''amomaxu.w.aq'' 0 INSN_CLASS_A ''d,t,0(s)'' 0xe400202f 0xfe00707f Match_opcode 0x38,
   insn_row ''amomin.w.aq'' 0 INSN_CLASS_A ''d,t,0(s)'' 0x8400202f 0xfe00707f Match_opcode 0x38,
   insn_row ''amominu.w.aq'' 0 INSN_CLASS_A ''d,t,0(s)'' 0xc400202f 0xfe00707f Match_opcode 0x38,
   insn_row ''lr.w.rl'' 0 INSN_CLASS_A ''d,0(s)'' 0x1200202f 0xfff0707f Match_opcode 0x38,
   insn_row ''sc.w.rl'' 0 INSN_CLASS_A ''d,t,0(s)'' 0x1a00202f 0xfe00707f Match_opcode 0x38,
   insn_row ''amoadd.w.rl'' 0 INSN_CLASS_A ''d,t,0(s)'' 0x200202f 0xfe00707f Match_opcode 0x38,
   insn_row ''amoswap.w.rl'' 0 INSN_CLASS_A ''d,t,0(s)'' 0xa00202f 0xfe00707f Match_opcode 0x38,
   insn_row ''amoand.w.rl'' 0 INSN_CLASS_A ''d,t,0(s)'' 0x6200202f 0xfe00707f Match_opcode 0x38,
   insn_row ''amoor.w.rl'' 0 INSN_CLASS_A ''d,t,0(s)'' 0x4200202f 0xfe00707f Match_opcode 0x38,
   insn_row ''amoxor.w.rl'' 0 INSN_CLASS_A ''d,t,0(s)'' 0x2200202f 0xfe00707f Match_opcode 0x38,
   insn_row ''amomax.w.rl'' 0 INSN_CLASS_A ''d,t,0(s)'' 0xa200202f 0xfe00707f Match_opcode 0x38,
   insn_row ''amomaxu.w.rl'' 0 INSN_CLASS_A ''d,t,0(s)'' 0xe200202f 0xfe00707f Match_opcode 0x38,
   insn_row ''amomin.w.rl'' 0 INSN_CLASS_A ''d,t,0(s)'' 0x8200202f 0xfe00707f Match_opcode 0x38,
   insn_row ''amominu.w.rl'' 0 INSN_CLASS_A ''d,t,0(s)'' 0xc200202f 0xfe00707f Match_opcode 0x38,
   insn_row ''lr.w.aqrl'' 0 INSN_CLASS_A ''d,0(s)'' 0x1600202f 0xfff0707f Match_opcode 0x38,
   insn_row ''sc.w.aqrl'' 0 INSN_CLASS_A ''d,t,0(s)'' 0x1e00202f 0xfe00707f Match_opcode 0x38,
   insn_row ''amoadd.w.aqrl'' 0 INSN_CLASS_A ''d,t,0(s)'' 0x600202f 0xfe00707f Match_opcode 0x38,
   insn_row ''amoswap.w.aqrl'' 0 INSN_CLASS_A ''d,t,0(s)'' 0xe00202f 0xfe00707f Match_opcode 0x38,
   insn_row ''amoand.w.aqrl'' 0 INSN_CLASS_A ''d,t,0(s)'' 0x6600202f 0xfe00707f Match_opcode 0x38,
   insn_row ''amoor.w.aqrl'' 0 INSN_CLASS_A ''d,t,0(s)'' 0x4600202f 0xfe00707f Match_opcode 0x38,
   insn_row ''amoxor.w.aqrl'' 0 INSN_CLASS_A ''d,t,0(s)'' 0x2600202f 0xfe00707f Match_opcode 0x38,
   insn_row ''amomax.w.aqrl'' 0 INSN_CLASS_A ''d,t,0(s)'' 0xa600202f 0xfe00707f Match_opcode 0x38,
   insn_row ''amomaxu.w.aqrl'' 0 INSN_CLASS_A ''d,t,0(s)'' 0xe600202f 0xfe00707f Match_opcode 0x38,
   insn_row ''amomin.w.aqrl'' 0 INSN_CLASS_A ''d,t,0(s)'' 0x8600202f 0xfe00707f Match_opcode 0x38,
   insn_row ''amominu.w.aqrl'' 0 INSN_CLASS_A ''d,t,0(s)'' 0xc600202f 0xfe00707f Match_opcode 0x38,
   insn_row ''lr.d'' 64 INSN_CLASS_A ''d,0(s)'' 0x1000302f 0xfff0707f Match_opcode 0x48,
   insn_row ''sc.d'' 64 INSN_CLASS_A ''d,t,0(s)'' 0x1800302f 0xfe00707f Match_opcode 0x48,
   insn_row ''amoadd.d'' 64 INSN_CLASS_A ''d,t,0(s)'' 0x302f 0xfe00707f Match_opcode 0x48,
   insn_row ''amoswap.d'' 64 INSN_CLASS_A ''d,t,0(s)'' 0x800302f 0xfe00707f Match_opcode 0x48,
   insn_row ''amoand.d'' 64 INSN_CLASS_A ''d,t,0(s)'' 0x6000302f 0xfe00707f Match_opcode 0x48,
   insn_row ''amoor.d'' 64 INSN_CLASS_A ''d,t,0(s)'' 0x4000302f 0xfe00707f Match_opcode 0x48,
   insn_row ''amoxor.d'' 64 INSN_CLASS_A ''d,t,0(s)'' 0x2000302f 0xfe00707f Match_opcode 0x48,
   insn_row ''amomax.d'' 64 INSN_CLASS_A ''d,t,0(s)'' 0xa000302f 0xfe00707f Match_opcode 0x48,
   insn_row ''amomaxu.d'' 64 INSN_CLASS_A ''d,t,0(s)'' 0xe000302f 0xfe00707f Match_opcode 0x48,
   insn_row ''amomin.d'' 64 INSN_CLASS_A ''d,t,0(s)'' 0x8000302f 0xfe00707f Match_opcode 0x48,
   insn_row ''amominu.d'' 64 INSN_CLASS_A ''d,t,0(s)'' 0xc000302f 0xfe00707f Match_opcode 0x48,
   insn_row ''lr.d.aq'' 64 INSN_CLASS_A ''d,0(s)'' 0x1400302f 0xfff0707f Match_opcode 0x48,
   insn_row ''sc.d.aq'' 64 INSN_CLASS_A ''d,t,0(s)'' 0x1c00302f 0xfe00707f Match_opcode 0x48,
   insn_row ''amoadd.d.aq'' 64 INSN_CLASS_A ''d,t,0(s)'' 0x400302f 0xfe00707f Match_opcode 0x48,
   insn_row ''amoswap.d.aq'' 64 INSN_CLASS_A ''d,t,0(s)'' 0xc00302f 0xfe00707f Match_opcode 0x48,
   insn_row ''amoand.d.aq'' 64 INSN_CLASS_A ''d,t,0(s)'' 0x6400302f 0xfe00707f Match_opcode 0x48,
   insn_row ''amoor.d.aq'' 64 INSN_CLASS_A ''d,t,0(s)'' 0x4400302f 0xfe00707f Match_opcode 0x48,
   insn_row ''amoxor.d.aq'' 64 INSN_CLASS_A ''d,t,0(s)'' 0x2400302f 0xfe00707f Match_opcode 0x48,
   insn_row ''amomax.d.aq'' 64 INSN_CLASS_A ''d,t,0(s)'' 0xa400302f 0xfe00707f Match_opcode 0x48,
   insn_row ''amomaxu.d.aq'' 64 INSN_CLASS_A ''d,t,0(s)'' 0xe400302f 0xfe00707f Match_opcode 0x48,
   insn_row ''amomin.d.aq'' 64 INSN_CLASS_A ''d,t,0(s)'' 0x8400302f 0xfe00707f Match_opcode 0x48,
   insn_row ''amominu.d.aq'' 64 INSN_CLASS_A ''d,t,0(s)'' 0xc400302f 0xfe00707f Match_opcode 0x48,
   insn_row ''lr.d.rl'' 64 INSN_CLASS_A ''d,0(s)'' 0x1200302f 0xfff0707f Match_opcode 0x48,
   insn_row ''sc.d.rl'' 64 INSN_CLASS_A ''d,t,0(s)'' 0x1a00302f 0xfe00707f Match_opcode 0x48,
   insn_row ''amoadd.d.rl'' 64 INSN_CLASS_A ''d,t,0(s)'' 0x200302f 0xfe00707f Match_opcode 0x48,
   insn_row ''amoswap.d.rl'' 64 INSN_CLASS_A ''d,t,0(s)'' 0xa00302f 0xfe00707f Match_opcode 0x48,
   insn_row ''amoand.d.rl'' 64 INSN_CLASS_A ''d,t,0(s)'' 0x6200302f 0xfe00707f Match_opcode 0x48,
   insn_row ''amoor.d.rl'' 64 INSN_CLASS_A ''d,t,0(s)'' 0x4200302f 0xfe00707f Match_opcode 0x48,
   insn_row ''amoxor.d.rl'' 64 INSN_CLASS_A ''d,t,0(s)'' 0x2200302f 0xfe00707f Match_opcode 0x48,
   insn_row ''amomax.d.rl'' 64 INSN_CLASS_A ''d,t,0(s)'' 0xa200302f 0xfe00707f Match_opcode 0x48,
   insn_row ''amomaxu.d.rl'' 64 INSN_CLASS_A ''d,t,0(s)'' 0xe200302f 0xfe00707f Match_opcode 0x48,
   insn_row ''amomin.d.rl'' 64 INSN_CLASS_A ''d,t,0(s)'' 0x8200302f 0xfe00707f Match_opcode 0x48,
   insn_row ''amominu.d.rl'' 64 INSN_CLASS_A ''d,t,0(s)'' 0xc200302f 0xfe00707f Match_opcode 0x48,
   insn_row ''lr.d.aqrl'' 64 INSN_CLASS_A ''d,0(s)'' 0x1600302f 0xfff0707f Match_opcode 0x48,
   insn_row ''sc.d.aqrl'' 64 INSN_CLASS_A ''d,t,0(s)'' 0x1e00302f 0xfe00707f Match_opcode 0x48,
   insn_row ''amoadd.d.aqrl'' 64 INSN_CLASS_A ''d,t,0(s)'' 0x600302f 0xfe00707f Match_opcode 0x48,
   insn_row ''amoswap.d.aqrl'' 64 INSN_CLASS_A ''d,t,0(s)'' 0xe00302f 0xfe00707f Match_opcode 0x48,
   insn_row ''amoand.d.aqrl'' 64 INSN_CLASS_A ''d,t,0(s)'' 0x6600302f 0xfe00707f Match_opcode 0x48,
   insn_row ''amoor.d.aqrl'' 64 INSN_CLASS_A ''d,t,0(s)'' 0x4600302f 0xfe00707f Match_opcode 0x48,
   insn_row ''amoxor.d.aqrl'' 64 INSN_CLASS_A ''d,t,0(s)'' 0x2600302f 0xfe00707f Match_opcode 0x48,
   insn_row ''amomax.d.aqrl'' 64 INSN_CLASS_A ''d,t,0(s)'' 0xa600302f 0xfe00707f Match_opcode 0x48,
   insn_row ''amomaxu.d.aqrl'' 64 INSN_CLASS_A ''d,t,0(s)'' 0xe600302f 0xfe00707f Match_opcode 0x48,
   insn_row ''amomin.d.aqrl'' 64 INSN_CLASS_A ''d,t,0(s)'' 0x8600302f 0xfe00707f Match_opcode 0x48,
   insn_row ''amominu.d.aqrl'' 64 INSN_CLASS_A ''d,t,0(s)'' 0xc600302f 0xfe00707f Match_opcode 0x48,
   insn_row ''mul'' 0 INSN_CLASS_ZMMUL ''d,s,t'' 0x2000033 0xfe00707f Match_opcode 0x0,
   insn_row ''mulh'' 0 INSN_CLASS_ZMMUL ''d,s,t'' 0x2001033 0xfe00707f Match_opcode 0x0,
   insn_row ''mulhu'' 0 INSN_CLASS_ZMMUL ''d,s,t'' 0x2003033 0xfe00707f Match_opcode 0x0,
   insn_row ''mulhsu'' 0 INSN_CLASS_ZMMUL ''d,s,t'' 0x2002033 0xfe00707f Match_opcode 0x0,
   insn_row ''div'' 0 INSN_CLASS_M ''d,s,t'' 0x2004033 0xfe00707f Match_opcode 0x0,
   insn_row ''divu'' 0 INSN_CLASS_M ''d,s,t'' 0x2005033 0xfe00707f Match_opcode 0x0,
   insn_row ''rem'' 0 INSN_CLASS_M ''d,s,t'' 0x2006033 0xfe00707f Match_opcode 0x0,
   insn_row ''remu'' 0 INSN_CLASS_M ''d,s,t'' 0x2007033 0xfe00707f Match_opcode 0x0,
   insn_row ''mulw'' 64 INSN_CLASS_ZMMUL ''d,s,t'' 0x200003b 0xfe00707f Match_opcode 0x0,
   insn_row ''divw'' 64 INSN_CLASS_M ''d,s,t'' 0x200403b 0xfe00707f Match_opcode 0x0,
   insn_row ''divuw'' 64 INSN_CLASS_M ''d,s,t'' 0x200503b 0xfe00707f Match_opcode 0x0,
   insn_row ''remw'' 64 INSN_CLASS_M ''d,s,t'' 0x200603b 0xfe00707f Match_opcode 0x0,
   insn_row ''remuw'' 64 INSN_CLASS_M ''d,s,t'' 0x200703b 0xfe00707f Match_opcode 0x0,
   insn_row ''flh'' 0 INSN_CLASS_ZFHMIN ''D,o(s)'' 0x1007 0x707f Match_opcode 0x28,
   insn_row ''flh'' 0 INSN_CLASS_ZFHMIN ''D,A,s'' 0x0 0x1f Match_never 0xffffffff,
   insn_row ''fsh'' 0 INSN_CLASS_ZFHMIN ''T,q(s)'' 0x1027 0x707f Match_opcode 0x28,
   insn_row ''fsh'' 0 INSN_CLASS_ZFHMIN ''T,A,s'' 0x0 0x20 Match_never 0xffffffff,
   insn_row ''fmv.x.h'' 0 INSN_CLASS_ZFHMIN ''d,S'' 0xe4000053 0xfff0707f Match_opcode 0x0,
   insn_row ''fmv.h.x'' 0 INSN_CLASS_ZFHMIN ''D,s'' 0xf4000053 0xfff0707f Match_opcode 0x0,
   insn_row ''fmv.h'' 0 INSN_CLASS_ZFH_INX ''D,U'' 0x24000053 0xfe00707f Match_rs1_eq_rs2 0x1,
   insn_row ''fneg.h'' 0 INSN_CLASS_ZFH_INX ''D,U'' 0x24001053 0xfe00707f Match_rs1_eq_rs2 0x1,
   insn_row ''fabs.h'' 0 INSN_CLASS_ZFH_INX ''D,U'' 0x24002053 0xfe00707f Match_rs1_eq_rs2 0x1,
   insn_row ''fsgnj.h'' 0 INSN_CLASS_ZFH_INX ''D,S,T'' 0x24000053 0xfe00707f Match_opcode 0x0,
   insn_row ''fsgnjn.h'' 0 INSN_CLASS_ZFH_INX ''D,S,T'' 0x24001053 0xfe00707f Match_opcode 0x0,
   insn_row ''fsgnjx.h'' 0 INSN_CLASS_ZFH_INX ''D,S,T'' 0x24002053 0xfe00707f Match_opcode 0x0,
   insn_row ''fadd.h'' 0 INSN_CLASS_ZFH_INX ''D,S,T'' 0x4007053 0xfe00707f Match_opcode 0x0,
   insn_row ''fadd.h'' 0 INSN_CLASS_ZFH_INX ''D,S,T,m'' 0x4000053 0xfe00007f Match_opcode 0x0,
   insn_row ''fsub.h'' 0 INSN_CLASS_ZFH_INX ''D,S,T'' 0xc007053 0xfe00707f Match_opcode 0x0,
   insn_row ''fsub.h'' 0 INSN_CLASS_ZFH_INX ''D,S,T,m'' 0xc000053 0xfe00007f Match_opcode 0x0,
   insn_row ''fmul.h'' 0 INSN_CLASS_ZFH_INX ''D,S,T'' 0x14007053 0xfe00707f Match_opcode 0x0,
   insn_row ''fmul.h'' 0 INSN_CLASS_ZFH_INX ''D,S,T,m'' 0x14000053 0xfe00007f Match_opcode 0x0,
   insn_row ''fdiv.h'' 0 INSN_CLASS_ZFH_INX ''D,S,T'' 0x1c007053 0xfe00707f Match_opcode 0x0,
   insn_row ''fdiv.h'' 0 INSN_CLASS_ZFH_INX ''D,S,T,m'' 0x1c000053 0xfe00007f Match_opcode 0x0,
   insn_row ''fsqrt.h'' 0 INSN_CLASS_ZFH_INX ''D,S'' 0x5c007053 0xfff0707f Match_opcode 0x0,
   insn_row ''fsqrt.h'' 0 INSN_CLASS_ZFH_INX ''D,S,m'' 0x5c000053 0xfff0007f Match_opcode 0x0,
   insn_row ''fmin.h'' 0 INSN_CLASS_ZFH_INX ''D,S,T'' 0x2c000053 0xfe00707f Match_opcode 0x0,
   insn_row ''fmax.h'' 0 INSN_CLASS_ZFH_INX ''D,S,T'' 0x2c001053 0xfe00707f Match_opcode 0x0,
   insn_row ''fmadd.h'' 0 INSN_CLASS_ZFH_INX ''D,S,T,R'' 0x4007043 0x600707f Match_opcode 0x0,
   insn_row ''fmadd.h'' 0 INSN_CLASS_ZFH_INX ''D,S,T,R,m'' 0x4000043 0x600007f Match_opcode 0x0,
   insn_row ''fnmadd.h'' 0 INSN_CLASS_ZFH_INX ''D,S,T,R'' 0x400704f 0x600707f Match_opcode 0x0,
   insn_row ''fnmadd.h'' 0 INSN_CLASS_ZFH_INX ''D,S,T,R,m'' 0x400004f 0x600007f Match_opcode 0x0,
   insn_row ''fmsub.h'' 0 INSN_CLASS_ZFH_INX ''D,S,T,R'' 0x4007047 0x600707f Match_opcode 0x0,
   insn_row ''fmsub.h'' 0 INSN_CLASS_ZFH_INX ''D,S,T,R,m'' 0x4000047 0x600007f Match_opcode 0x0]"

definition riscv_opcodes_4 :: "riscv_opcode list" where
  "riscv_opcodes_4 =
  [
   insn_row ''fnmsub.h'' 0 INSN_CLASS_ZFH_INX ''D,S,T,R'' 0x400704b 0x600707f Match_opcode 0x0,
   insn_row ''fnmsub.h'' 0 INSN_CLASS_ZFH_INX ''D,S,T,R,m'' 0x400004b 0x600007f Match_opcode 0x0,
   insn_row ''fcvt.w.h'' 0 INSN_CLASS_ZFH_INX ''d,S'' 0xc4007053 0xfff0707f Match_opcode 0x0,
   insn_row ''fcvt.w.h'' 0 INSN_CLASS_ZFH_INX ''d,S,m'' 0xc4000053 0xfff0007f Match_opcode 0x0,
   insn_row ''fcvt.wu.h'' 0 INSN_CLASS_ZFH_INX ''d,S'' 0xc4107053 0xfff0707f Match_opcode 0x0,
   insn_row ''fcvt.wu.h'' 0 INSN_CLASS_ZFH_INX ''d,S,m'' 0xc4100053 0xfff0007f Match_opcode 0x0,
   insn_row ''fcvt.h.w'' 0 INSN_CLASS_ZFH_INX ''D,s'' 0xd4007053 0xfff0707f Match_opcode 0x0,
   insn_row ''fcvt.h.w'' 0 INSN_CLASS_ZFH_INX ''D,s,m'' 0xd4000053 0xfff0007f Match_opcode 0x0,
   insn_row ''fcvt.h.wu'' 0 INSN_CLASS_ZFH_INX ''D,s'' 0xd4107053 0xfff0707f Match_opcode 0x0,
   insn_row ''fcvt.h.wu'' 0 INSN_CLASS_ZFH_INX ''D,s,m'' 0xd4100053 0xfff0007f Match_opcode 0x0,
   insn_row ''fcvt.s.h'' 0 INSN_CLASS_ZFHMIN_INX ''D,S'' 0x40200053 0xfff0707f Match_opcode 0x0,
   insn_row ''fcvt.d.h'' 0 INSN_CLASS_ZFHMIN_AND_D_INX ''D,S'' 0x42200053 0xfff0707f Match_opcode 0x0,
   insn_row ''fcvt.q.h'' 0 INSN_CLASS_ZFHMIN_AND_Q_INX ''D,S'' 0x46200053 0xfff0707f Match_opcode 0x0,
   insn_row ''fcvt.h.s'' 0 INSN_CLASS_ZFHMIN_INX ''D,S'' 0x44007053 0xfff0707f Match_opcode 0x0,
   insn_row ''fcvt.h.s'' 0 INSN_CLASS_ZFHMIN_INX ''D,S,m'' 0x44000053 0xfff0007f Match_opcode 0x0,
   insn_row ''fcvt.h.d'' 0 INSN_CLASS_ZFHMIN_AND_D_INX ''D,S'' 0x44107053 0xfff0707f Match_opcode 0x0,
   insn_row ''fcvt.h.d'' 0 INSN_CLASS_ZFHMIN_AND_D_INX ''D,S,m'' 0x44100053 0xfff0007f Match_opcode 0x0,
   insn_row ''fcvt.h.q'' 0 INSN_CLASS_ZFHMIN_AND_Q_INX ''D,S'' 0x44307053 0xfff0707f Match_opcode 0x0,
   insn_row ''fcvt.h.q'' 0 INSN_CLASS_ZFHMIN_AND_Q_INX ''D,S,m'' 0x44300053 0xfff0007f Match_opcode 0x0,
   insn_row ''fclass.h'' 0 INSN_CLASS_ZFH_INX ''d,S'' 0xe4001053 0xfff0707f Match_opcode 0x0,
   insn_row ''feq.h'' 0 INSN_CLASS_ZFH_INX ''d,S,T'' 0xa4002053 0xfe00707f Match_opcode 0x0,
   insn_row ''flt.h'' 0 INSN_CLASS_ZFH_INX ''d,S,T'' 0xa4001053 0xfe00707f Match_opcode 0x0,
   insn_row ''fle.h'' 0 INSN_CLASS_ZFH_INX ''d,S,T'' 0xa4000053 0xfe00707f Match_opcode 0x0,
   insn_row ''fgt.h'' 0 INSN_CLASS_ZFH_INX ''d,T,S'' 0xa4001053 0xfe00707f Match_opcode 0x0,
   insn_row ''fge.h'' 0 INSN_CLASS_ZFH_INX ''d,T,S'' 0xa4000053 0xfe00707f Match_opcode 0x0,
   insn_row ''fcvt.l.h'' 64 INSN_CLASS_ZFH_INX ''d,S'' 0xc4207053 0xfff0707f Match_opcode 0x0,
   insn_row ''fcvt.l.h'' 64 INSN_CLASS_ZFH_INX ''d,S,m'' 0xc4200053 0xfff0007f Match_opcode 0x0,
   insn_row ''fcvt.lu.h'' 64 INSN_CLASS_ZFH_INX ''d,S'' 0xc4307053 0xfff0707f Match_opcode 0x0,
   insn_row ''fcvt.lu.h'' 64 INSN_CLASS_ZFH_INX ''d,S,m'' 0xc4300053 0xfff0007f Match_opcode 0x0,
   insn_row ''fcvt.h.l'' 64 INSN_CLASS_ZFH_INX ''D,s'' 0xd4207053 0xfff0707f Match_opcode 0x0,
   insn_row ''fcvt.h.l'' 64 INSN_CLASS_ZFH_INX ''D,s,m'' 0xd4200053 0xfff0007f Match_opcode 0x0,
   insn_row ''fcvt.h.lu'' 64 INSN_CLASS_ZFH_INX ''D,s'' 0xd4307053 0xfff0707f Match_opcode 0x0,
   insn_row ''fcvt.h.lu'' 64 INSN_CLASS_ZFH_INX ''D,s,m'' 0xd4300053 0xfff0007f Match_opcode 0x0,
   insn_row ''frcsr'' 0 INSN_CLASS_F_INX ''d'' 0x302073 0xfffff07f Match_opcode 0x1,
   insn_row ''frsr'' 0 INSN_CLASS_F_INX ''d'' 0x302073 0xfffff07f Match_opcode 0x1,
   insn_row ''fscsr'' 0 INSN_CLASS_F_INX ''s'' 0x301073 0xfff07fff Match_opcode 0x1,
   insn_row ''fscsr'' 0 INSN_CLASS_F_INX ''d,s'' 0x301073 0xfff0707f Match_opcode 0x1,
   insn_row ''fssr'' 0 INSN_CLASS_F_INX ''s'' 0x301073 0xfff07fff Match_opcode 0x1,
   insn_row ''fssr'' 0 INSN_CLASS_F_INX ''d,s'' 0x301073 0xfff0707f Match_opcode 0x1,
   insn_row ''frrm'' 0 INSN_CLASS_F_INX ''d'' 0x202073 0xfffff07f Match_opcode 0x1,
   insn_row ''fsrm'' 0 INSN_CLASS_F_INX ''s'' 0x201073 0xfff07fff Match_opcode 0x1,
   insn_row ''fsrm'' 0 INSN_CLASS_F_INX ''d,s'' 0x201073 0xfff0707f Match_opcode 0x1,
   insn_row ''fsrmi'' 0 INSN_CLASS_F_INX ''d,Z'' 0x205073 0xfff0707f Match_opcode 0x1,
   insn_row ''fsrmi'' 0 INSN_CLASS_F_INX ''Z'' 0x205073 0xfff07fff Match_opcode 0x1,
   insn_row ''frflags'' 0 INSN_CLASS_F_INX ''d'' 0x102073 0xfffff07f Match_opcode 0x1,
   insn_row ''fsflags'' 0 INSN_CLASS_F_INX ''s'' 0x101073 0xfff07fff Match_opcode 0x1,
   insn_row ''fsflags'' 0 INSN_CLASS_F_INX ''d,s'' 0x101073 0xfff0707f Match_opcode 0x1,
   insn_row ''fsflagsi'' 0 INSN_CLASS_F_INX ''d,Z'' 0x105073 0xfff0707f Match_opcode 0x1,
   insn_row ''fsflagsi'' 0 INSN_CLASS_F_INX ''Z'' 0x105073 0xfff07fff Match_opcode 0x1,
   insn_row ''flw'' 32 INSN_CLASS_F_AND_C ''D,Cm(Cc)'' 0x6002 0xe003 Match_opcode 0x39,
   insn_row ''flw'' 32 INSN_CLASS_F_AND_C ''CD,Ck(Cs)'' 0x6000 0xe003 Match_opcode 0x39,
   insn_row ''flw'' 0 INSN_CLASS_F ''D,o(s)'' 0x2007 0x707f Match_opcode 0x38,
   insn_row ''flw'' 0 INSN_CLASS_F ''D,A,s'' 0x0 0x10 Match_never 0xffffffff,
   insn_row ''fsw'' 32 INSN_CLASS_F_AND_C ''CT,CM(Cc)'' 0xe002 0xe003 Match_opcode 0x39,
   insn_row ''fsw'' 32 INSN_CLASS_F_AND_C ''CD,Ck(Cs)'' 0xe000 0xe003 Match_opcode 0x39,
   insn_row ''fsw'' 0 INSN_CLASS_F ''T,q(s)'' 0x2027 0x707f Match_opcode 0x38,
   insn_row ''fsw'' 0 INSN_CLASS_F ''T,A,s'' 0x0 0x13 Match_never 0xffffffff,
   insn_row ''fmv.x.w'' 0 INSN_CLASS_F ''d,S'' 0xe0000053 0xfff0707f Match_opcode 0x0,
   insn_row ''fmv.w.x'' 0 INSN_CLASS_F ''D,s'' 0xf0000053 0xfff0707f Match_opcode 0x0,
   insn_row ''fmv.x.s'' 0 INSN_CLASS_F ''d,S'' 0xe0000053 0xfff0707f Match_opcode 0x0,
   insn_row ''fmv.s.x'' 0 INSN_CLASS_F ''D,s'' 0xf0000053 0xfff0707f Match_opcode 0x0,
   insn_row ''fmv.s'' 0 INSN_CLASS_F_INX ''D,U'' 0x20000053 0xfe00707f Match_rs1_eq_rs2 0x1,
   insn_row ''fneg.s'' 0 INSN_CLASS_F_INX ''D,U'' 0x20001053 0xfe00707f Match_rs1_eq_rs2 0x1,
   insn_row ''fabs.s'' 0 INSN_CLASS_F_INX ''D,U'' 0x20002053 0xfe00707f Match_rs1_eq_rs2 0x1,
   insn_row ''fsgnj.s'' 0 INSN_CLASS_F_INX ''D,S,T'' 0x20000053 0xfe00707f Match_opcode 0x0,
   insn_row ''fsgnjn.s'' 0 INSN_CLASS_F_INX ''D,S,T'' 0x20001053 0xfe00707f Match_opcode 0x0,
   insn_row ''fsgnjx.s'' 0 INSN_CLASS_F_INX ''D,S,T'' 0x20002053 0xfe00707f Match_opcode 0x0,
   insn_row ''fadd.s'' 0 INSN_CLASS_F_INX ''D,S,T'' 0x7053 0xfe00707f Match_opcode 0x0,
   insn_row ''fadd.s'' 0 INSN_CLASS_F_INX ''D,S,T,m'' 0x53 0xfe00007f Match_opcode 0x0,
   insn_row ''fsub.s'' 0 INSN_CLASS_F_INX ''D,S,T'' 0x8007053 0xfe00707f Match_opcode 0x0,
   insn_row ''fsub.s'' 0 INSN_CLASS_F_INX ''D,S,T,m'' 0x8000053 0xfe00007f Match_opcode 0x0,
   insn_row ''fmul.s'' 0 INSN_CLASS_F_INX ''D,S,T'' 0x10007053 0xfe00707f Match_opcode 0x0,
   insn_row ''fmul.s'' 0 INSN_CLASS_F_INX ''D,S,T,m'' 0x10000053 0xfe00007f Match_opcode 0x0,
   insn_row ''fdiv.s'' 0 INSN_CLASS_F_INX ''D,S,T'' 0x18007053 0xfe00707f Match_opcode 0x0,
   insn_row ''fdiv.s'' 0 INSN_CLASS_F_INX ''D,S,T,m'' 0x18000053 0xfe00007f Match_opcode 0x0,
   insn_row ''fsqrt.s'' 0 INSN_CLASS_F_INX ''D,S'' 0x58007053 0xfff0707f Match_opcode 0x0,
   insn_row ''fsqrt.s'' 0 INSN_CLASS_F_INX ''D,S,m'' 0x58000053 0xfff0007f Match_opcode 0x0,
   insn_row ''fmin.s'' 0 INSN_CLASS_F_INX ''D,S,T'' 0x28000053 0xfe00707f Match_opcode 0x0,
   insn_row ''fmax.s'' 0 INSN_CLASS_F_INX ''D,S,T'' 0x28001053 0xfe00707f Match_opcode 0x0,
   insn_row ''fmadd.s'' 0 INSN_CLASS_F_INX ''D,S,T,R'' 0x7043 0x600707f Match_opcode 0x0,
   insn_row ''fmadd.s'' 0 INSN_CLASS_F_INX ''D,S,T,R,m'' 0x43 0x600007f Match_opcode 0x0,
   insn_row ''fnmadd.s'' 0 INSN_CLASS_F_INX ''D,S,T,R'' 0x704f 0x600707f Match_opcode 0x0,
   insn_row ''fnmadd.s'' 0 INSN_CLASS_F_INX ''D,S,T,R,m'' 0x4f 0x600007f Match_opcode 0x0,
   insn_row ''fmsub.s'' 0 INSN_CLASS_F_INX ''D,S,T,R'' 0x7047 0x600707f Match_opcode 0x0,
   insn_row ''fmsub.s'' 0 INSN_CLASS_F_INX ''D,S,T,R,m'' 0x47 0x600007f Match_opcode 0x0,
   insn_row ''fnmsub.s'' 0 INSN_CLASS_F_INX ''D,S,T,R'' 0x704b 0x600707f Match_opcode 0x0,
   insn_row ''fnmsub.s'' 0 INSN_CLASS_F_INX ''D,S,T,R,m'' 0x4b 0x600007f Match_opcode 0x0,
   insn_row ''fcvt.w.s'' 0 INSN_CLASS_F_INX ''d,S'' 0xc0007053 0xfff0707f Match_opcode 0x0,
   insn_row ''fcvt.w.s'' 0 INSN_CLASS_F_INX ''d,S,m'' 0xc0000053 0xfff0007f Match_opcode 0x0,
   insn_row ''fcvt.wu.s'' 0 INSN_CLASS_F_INX ''d,S'' 0xc0107053 0xfff0707f Match_opcode 0x0,
   insn_row ''fcvt.wu.s'' 0 INSN_CLASS_F_INX ''d,S,m'' 0xc0100053 0xfff0007f Match_opcode 0x0,
   insn_row ''fcvt.s.w'' 0 INSN_CLASS_F_INX ''D,s'' 0xd0007053 0xfff0707f Match_opcode 0x0,
   insn_row ''fcvt.s.w'' 0 INSN_CLASS_F_INX ''D,s,m'' 0xd0000053 0xfff0007f Match_opcode 0x0,
   insn_row ''fcvt.s.wu'' 0 INSN_CLASS_F_INX ''D,s'' 0xd0107053 0xfff0707f Match_opcode 0x0,
   insn_row ''fcvt.s.wu'' 0 INSN_CLASS_F_INX ''D,s,m'' 0xd0100053 0xfff0007f Match_opcode 0x0,
   insn_row ''fclass.s'' 0 INSN_CLASS_F_INX ''d,S'' 0xe0001053 0xfff0707f Match_opcode 0x0,
   insn_row ''feq.s'' 0 INSN_CLASS_F_INX ''d,S,T'' 0xa0002053 0xfe00707f Match_opcode 0x0,
   insn_row ''flt.s'' 0 INSN_CLASS_F_INX ''d,S,T'' 0xa0001053 0xfe00707f Match_opcode 0x0,
   insn_row ''fle.s'' 0 INSN_CLASS_F_INX ''d,S,T'' 0xa0000053 0xfe00707f Match_opcode 0x0,
   insn_row ''fgt.s'' 0 INSN_CLASS_F_INX ''d,T,S'' 0xa0001053 0xfe00707f Match_opcode 0x0,
   insn_row ''fge.s'' 0 INSN_CLASS_F_INX ''d,T,S'' 0xa0000053 0xfe00707f Match_opcode 0x0,
   insn_row ''fcvt.l.s'' 64 INSN_CLASS_F_INX ''d,S'' 0xc0207053 0xfff0707f Match_opcode 0x0,
   insn_row ''fcvt.l.s'' 64 INSN_CLASS_F_INX ''d,S,m'' 0xc0200053 0xfff0007f Match_opcode 0x0,
   insn_row ''fcvt.lu.s'' 64 INSN_CLASS_F_INX ''d,S'' 0xc0307053 0xfff0707f Match_opcode 0x0,
   insn_row ''fcvt.lu.s'' 64 INSN_CLASS_F_INX ''d,S,m'' 0xc0300053 0xfff0007f Match_opcode 0x0,
   insn_row ''fcvt.s.l'' 64 INSN_CLASS_F_INX ''D,s'' 0xd0207053 0xfff0707f Match_opcode 0x0,
   insn_row ''fcvt.s.l'' 64 INSN_CLASS_F_INX ''D,s,m'' 0xd0200053 0xfff0007f Match_opcode 0x0,
   insn_row ''fcvt.s.lu'' 64 INSN_CLASS_F_INX ''D,s'' 0xd0307053 0xfff0707f Match_opcode 0x0,
   insn_row ''fcvt.s.lu'' 64 INSN_CLASS_F_INX ''D,s,m'' 0xd0300053 0xfff0007f Match_opcode 0x0,
   insn_row ''fld'' 0 INSN_CLASS_D_AND_C ''D,Cn(Cc)'' 0x2002 0xe003 Match_opcode 0x49,
   insn_row ''fld'' 0 INSN_CLASS_D_AND_C ''CD,Cl(Cs)'' 0x2000 0xe003 Match_opcode 0x49,
   insn_row ''fld'' 0 INSN_CLASS_D ''D,o(s)'' 0x3007 0x707f Match_opcode 0x48,
   insn_row ''fld'' 0 INSN_CLASS_D ''D,A,s'' 0x0 0x11 Match_never 0xffffffff,
   insn_row ''fsd'' 0 INSN_CLASS_D_AND_C ''CT,CN(Cc)'' 0xa002 0xe003 Match_opcode 0x49,
   insn_row ''fsd'' 0 INSN_CLASS_D_AND_C ''CD,Cl(Cs)'' 0xa000 0xe003 Match_opcode 0x49,
   insn_row ''fsd'' 0 INSN_CLASS_D ''T,q(s)'' 0x3027 0x707f Match_opcode 0x48,
   insn_row ''fsd'' 0 INSN_CLASS_D ''T,A,s'' 0x0 0x14 Match_never 0xffffffff]"

lemma rows_ok_1: "list_all (row_ok False) riscv_opcodes_1"
  by (simp add: riscv_opcodes_1_def row_eval)

lemma ends_1 [simp]:
  "riscv_opcodes_1 \<noteq> []" "opc_name (hd riscv_opcodes_1) = ''prefetch.i''" "opc_name (last riscv_opcodes_1) = ''neg''"
  unfolding riscv_opcodes_1_def
  by (simp_all only: list.sel last.simps list.distinct if_False if_True refl insn_row_name not_False_eq_True simp_thms)

definition keys_1 :: "int list" where
  "keys_1 = [
    108075, 108084, 108089, 204204, 9899, 149114, 146965, 237939, 253664, 253670, 253685, 5056, 5062, 5077, 58940,
    58946, 58961, 96105, 96111, 96126, 51943, 52708, 51770, 106119, 33355, 5414, 11456, 169420, 106, 175525, 244700,
    98990, 136366, 222823, 200560, 11661, 11781, 73807, 203911, 73867, 39704, 114558, 84366, 193417, 136172, 84568,
    136167, 85103, 193412, 195022, 137777, 85118, 195017, 84583, 137772, 216315, 85317, 72797, 187353, 11653, 199589,
    199054, 239307, 239522, 221744]"

lemma group_keys_1: "map name_key (group_names riscv_opcodes_1) = keys_1"
  by code_simp

lemma key_classes_1:
  "key_class 0 keys_1 = [253664, 5056, 11456, 200560, 221744]"
  "key_class 1 keys_1 = [58961, 137777]"
  "key_class 2 keys_1 = [58946, 239522]"
  "key_class 3 keys_1 = [237939]"
  "key_class 4 keys_1 = [108084, 52708, 193412]"
  "key_class 5 keys_1 = [146965, 253685, 5077, 175525, 11781, 85317, 11653, 199589]"
  "key_class 6 keys_1 = [253670, 5062, 5414]"
  "key_class 7 keys_1 = [51943, 106119, 222823, 203911, 136167, 84583]"
  "key_class 8 keys_1 = [39704, 84568]"
  "key_class 9 keys_1 = [108089, 96105, 193417, 195017, 187353]"
  "key_class 10 keys_1 = [149114, 51770, 106]"
  "key_class 11 keys_1 = [108075, 9899, 33355, 73867, 216315, 239307]"
  "key_class 12 keys_1 = [204204, 58940, 169420, 244700, 136172, 137772]"
  "key_class 13 keys_1 = [11661, 72797]"
  "key_class 14 keys_1 = [96126, 98990, 136366, 114558, 84366, 195022, 85118, 199054]"
  "key_class 15 keys_1 = [96111, 73807, 85103]"
  by code_simp+

lemma rows_ok_2: "list_all (row_ok False) riscv_opcodes_2"
  by (simp add: riscv_opcodes_2_def row_eval)

lemma ends_2 [simp]:
  "riscv_opcodes_2 \<noteq> []" "opc_name (hd riscv_opcodes_2) = ''sll''" "opc_name (last riscv_opcodes_2) = ''amoadd.w.aq''"
  unfolding riscv_opcodes_2_def
  by (simp_all only: list.sel last.simps list.distinct if_False if_True refl insn_row_name not_False_eq_True simp_thms)

definition keys_2 :: "int list" where
  "keys_2 = [
    17604, 48760, 18246, 117454, 18235, 116277, 18557, 11654, 198539, 11660, 199181, 11675, 222827, 11991, 234586,
    36911, 231308, 70926, 49633, 254527, 49616, 17612, 66249, 49628, 17077, 254522, 12403, 12409, 12424, 203009,
    130694, 164549, 176154, 215796, 159215, 236713, 22044, 259213, 216345, 95620, 75176, 179767, 200786, 11656, 12405,
    240314, 187367, 124326, 134217, 48774, 236798, 117468, 247164, 116291, 121225, 150745, 186120, 201238, 132970,
    14646, 62867, 90997, 107685, 215840, 45418, 202551, 196329, 183774, 1359, 19561]"

lemma group_keys_2: "map name_key (group_names riscv_opcodes_2) = keys_2"
  by code_simp

lemma key_classes_2:
  "key_class 0 keys_2 = [49616, 215840]"
  "key_class 1 keys_2 = [49633, 203009]"
  "key_class 2 keys_2 = [200786]"
  "key_class 3 keys_2 = [12403, 116291, 62867]"
  "key_class 4 keys_2 = [17604, 215796, 95620]"
  "key_class 5 keys_2 = [116277, 17077, 164549, 12405, 90997, 107685]"
  "key_class 6 keys_2 = [18246, 11654, 130694, 124326, 48774, 201238, 14646]"
  "key_class 7 keys_2 = [11991, 179767, 187367, 202551]"
  "key_class 8 keys_2 = [48760, 12424, 75176, 11656, 186120]"
  "key_class 9 keys_2 = [66249, 12409, 236713, 216345, 134217, 121225, 150745, 196329, 19561]"
  "key_class 10 keys_2 = [234586, 254522, 176154, 240314, 132970, 45418]"
  "key_class 11 keys_2 = [18235, 198539, 11675, 222827]"
  "key_class 12 keys_2 = [11660, 231308, 17612, 49628, 22044, 117468, 247164]"
  "key_class 13 keys_2 = [18557, 199181, 259213]"
  "key_class 14 keys_2 = [117454, 70926, 236798, 183774]"
  "key_class 15 keys_2 = [36911, 254527, 159215, 1359]"
  by code_simp+

lemma rows_ok_3: "list_all (row_ok False) riscv_opcodes_3"
  by (simp add: riscv_opcodes_3_def row_eval)

lemma ends_3 [simp]:
  "riscv_opcodes_3 \<noteq> []" "opc_name (hd riscv_opcodes_3) = ''amoswap.w.aq''" "opc_name (last riscv_opcodes_3) = ''fmsub.h''"
  unfolding riscv_opcodes_3_def
  by (simp_all only: list.sel last.simps list.distinct if_False if_True refl insn_row_name not_False_eq_True simp_thms)

definition keys_3 :: "int list" where
  "keys_3 = [
    150930, 187922, 116711, 200102, 238163, 13092, 260053, 258210, 185588, 3173, 21375, 152744, 189736, 118525,
    201916, 239977, 14906, 261867, 260024, 113218, 105296, 99489, 251727, 156511, 114062, 147383, 232754, 221245,
    246480, 117093, 186101, 201219, 132951, 14627, 62848, 90978, 107666, 215821, 45399, 202532, 196310, 238328, 55913,
    74115, 205484, 242476, 171265, 254656, 30578, 67646, 52468, 50625, 240142, 57727, 75929, 207298, 244290, 173079,
    256470, 32392, 69460, 54282, 52439, 24727, 16805, 10998, 163236, 68020, 25571, 58892, 144263, 132754, 157989,
    28602, 212012, 141434, 191632, 57685, 107697, 251719, 5407, 54388, 141449, 251721, 195874, 54390, 52577, 130902,
    131651, 245955, 62787, 127995, 79801, 80693, 150851, 90795, 205285, 261932, 13324, 67208, 70057, 23743, 69374,
    82663, 160287, 75021, 173818]"

lemma group_keys_3: "map name_key (group_names riscv_opcodes_3) = keys_3"
  by code_simp

lemma key_classes_3:
  "key_class 0 keys_3 = [105296, 246480, 62848, 254656, 191632]"
  "key_class 1 keys_3 = [99489, 171265, 50625, 107697, 52577]"
  "key_class 2 keys_3 = [150930, 187922, 258210, 113218, 232754, 90978, 107666, 30578, 207298, 244290, 132754, 195874]"
  "key_class 3 keys_3 = [238163, 201219, 14627, 74115, 25571, 131651, 245955, 62787, 150851]"
  "key_class 4 keys_3 = [13092, 185588, 202532, 52468, 69460, 163236, 68020, 54388]"
  "key_class 5 keys_3 = [260053, 3173, 117093, 186101, 16805, 157989, 57685, 80693, 205285]"
  "key_class 6 keys_3 = [200102, 196310, 256470, 10998, 54390, 130902]"
  "key_class 7 keys_3 = [116711, 147383, 132951, 45399, 173079, 52439, 24727, 144263, 251719, 82663]"
  "key_class 8 keys_3 = [152744, 189736, 260024, 238328, 32392, 67208]"
  "key_class 9 keys_3 = [239977, 55913, 75929, 141449, 251721, 79801, 70057]"
  "key_class 10 keys_3 = [14906, 54282, 28602, 141434, 173818]"
  "key_class 11 keys_3 = [261867, 127995, 90795]"
  "key_class 12 keys_3 = [201916, 205484, 242476, 58892, 212012, 261932, 13324]"
  "key_class 13 keys_3 = [118525, 221245, 215821, 75021]"
  "key_class 14 keys_3 = [114062, 67646, 240142, 69374]"
  "key_class 15 keys_3 = [21375, 251727, 156511, 57727, 5407, 23743, 160287]"
  by code_simp+

lemma rows_ok_4: "list_all (row_ok False) riscv_opcodes_4"
  by (simp add: riscv_opcodes_4_def row_eval)

lemma ends_4 [simp]:
  "riscv_opcodes_4 \<noteq> []" "opc_name (hd riscv_opcodes_4) = ''fnmsub.h''" "opc_name (last riscv_opcodes_4) = ''fsd''"
  unfolding riscv_opcodes_4_def
  by (simp_all only: list.sel last.simps list.distinct if_False if_True refl insn_row_name not_False_eq_True simp_thms)

definition keys_4 :: "int list" where
  "keys_4 = [
    88552, 207886, 244486, 36166, 199933, 162090, 252494, 139192, 36162, 36147, 36160, 29009, 231688, 190749, 19014,
    94731, 185135, 81947, 138102, 36155, 198756, 13875, 183132, 190362, 194581, 183020, 194469, 99307, 182872, 215123,
    212173, 130917, 131666, 245970, 234522, 245966, 188726, 128006, 79812, 80704, 150862, 90806, 205296, 261943,
    13335, 67219, 70068, 23754, 69385, 82674, 160298, 75032, 173829, 88563, 207897, 244497, 162105, 44178, 29020,
    231699, 190760, 19025, 94742, 185146, 81958, 138113, 162094, 43001, 130898, 131647]"

lemma group_keys_4: "map name_key (group_names riscv_opcodes_4) = keys_4"
  by code_simp

lemma key_classes_4:
  "key_class 0 keys_4 = [36160, 80704, 205296]"
  "key_class 1 keys_4 = [29009, 244497, 19025, 138113]"
  "key_class 2 keys_4 = [36162, 131666, 245970, 82674, 44178, 130898]"
  "key_class 3 keys_4 = [36147, 13875, 215123, 67219, 88563, 231699]"
  "key_class 4 keys_4 = [198756, 79812, 70068]"
  "key_class 5 keys_4 = [194581, 194469, 130917, 173829]"
  "key_class 6 keys_4 = [244486, 36166, 19014, 138102, 188726, 128006, 90806, 94742, 81958]"
  "key_class 7 keys_4 = [261943, 13335]"
  "key_class 8 keys_4 = [88552, 139192, 231688, 182872, 75032, 190760]"
  "key_class 9 keys_4 = [69385, 207897, 162105, 43001]"
  "key_class 10 keys_4 = [162090, 190362, 234522, 23754, 160298, 185146]"
  "key_class 11 keys_4 = [94731, 81947, 36155, 99307]"
  "key_class 12 keys_4 = [183132, 183020, 29020]"
  "key_class 13 keys_4 = [199933, 190749, 212173]"
  "key_class 14 keys_4 = [207886, 252494, 245966, 150862, 162094]"
  "key_class 15 keys_4 = [185135, 131647]"
  by code_simp+

end
