(* ===== verification/Riscv_Table2.thy ===== *)
theory Riscv_Table2
  imports Riscv_Validate
begin

text \<open>
  Rows of \<open>riscv_opcodes\<close> (opcodes/riscv-opc.c, lines 819 to 1298), in the order of the source, with the macros
  of include/opcode/riscv-opc.h expanded; each part is checked against \<open>validate_riscv_insn\<close>.
\<close>

definition riscv_opcodes_5 :: "riscv_opcode list" where
  "riscv_opcodes_5 =
  [
   insn_row ''fmv.d'' 0 INSN_CLASS_D_INX ''D,U'' 0x22000053 0xfe00707f Match_rs1_eq_rs2 0x1,
   insn_row ''fneg.d'' 0 INSN_CLASS_D_INX ''D,U'' 0x22001053 0xfe00707f Match_rs1_eq_rs2 0x1,
   insn_row ''fabs.d'' 0 INSN_CLASS_D_INX ''D,U'' 0x22002053 0xfe00707f Match_rs1_eq_rs2 0x1,
   insn_row ''fsgnj.d'' 0 INSN_CLASS_D_INX ''D,S,T'' 0x22000053 0xfe00707f Match_opcode 0x0,
   insn_row ''fsgnjn.d'' 0 INSN_CLASS_D_INX ''D,S,T'' 0x22001053 0xfe00707f Match_opcode 0x0,
   insn_row ''fsgnjx.d'' 0 INSN_CLASS_D_INX ''D,S,T'' 0x22002053 0xfe00707f Match_opcode 0x0,
   insn_row ''fadd.d'' 0 INSN_CLASS_D_INX ''D,S,T'' 0x2007053 0xfe00707f Match_opcode 0x0,
   insn_row ''fadd.d'' 0 INSN_CLASS_D_INX ''D,S,T,m'' 0x2000053 0xfe00007f Match_opcode 0x0,
   insn_row ''fsub.d'' 0 INSN_CLASS_D_INX ''D,S,T'' 0xa007053 0xfe00707f Match_opcode 0x0,
   insn_row ''fsub.d'' 0 INSN_CLASS_D_INX ''D,S,T,m'' 0xa000053 0xfe00007f Match_opcode 0x0,
   insn_row ''fmul.d'' 0 INSN_CLASS_D_INX ''D,S,T'' 0x12007053 0xfe00707f Match_opcode 0x0,
   insn_row ''fmul.d'' 0 INSN_CLASS_D_INX ''D,S,T,m'' 0x12000053 0xfe00007f Match_opcode 0x0,
   insn_row ''fdiv.d'' 0 INSN_CLASS_D_INX ''D,S,T'' 0x1a007053 0xfe00707f Match_opcode 0x0,
   insn_row ''fdiv.d'' 0 INSN_CLASS_D_INX ''D,S,T,m'' 0x1a000053 0xfe00007f Match_opcode 0x0,
   insn_row ''fsqrt.d'' 0 INSN_CLASS_D_INX ''D,S'' 0x5a007053 0xfff0707f Match_opcode 0x0,
   insn_row ''fsqrt.d'' 0 INSN_CLASS_D_INX ''D,S,m'' 0x5a000053 0xfff0007f Match_opcode 0x0,
   insn_row ''fmin.d'' 0 INSN_CLASS_D_INX ''D,S,T'' 0x2a000053 0xfe00707f Match_opcode 0x0,
   insn_row ''fmax.d'' 0 INSN_CLASS_D_INX ''D,S,T'' 0x2a001053 0xfe00707f Match_opcode 0x0,
   insn_row ''fmadd.d'' 0 INSN_CLASS_D_INX ''D,S,T,R'' 0x2007043 0x600707f Match_opcode 0x0,
   insn_row ''fmadd.d'' 0 INSN_CLASS_D_INX ''D,S,T,R,m'' 0x2000043 0x600007f Match_opcode 0x0,
   insn_row ''fnmadd.d'' 0 INSN_CLASS_D_INX ''D,S,T,R'' 0x200704f 0x600707f Match_opcode 0x0,
   insn_row ''fnmadd.d'' 0 INSN_CLASS_D_INX ''D,S,T,R,m'' 0x200004f 0x600007f Match_opcode 0x0,
   insn_row ''fmsub.d'' 0 INSN_CLASS_D_INX ''D,S,T,R'' 0x2007047 0x600707f Match_opcode 0x0,
   insn_row ''fmsub.d'' 0 INSN_CLASS_D_INX ''D,S,T,R,m'' 0x2000047 0x600007f Match_opcode 0x0,
   insn_row ''fnmsub.d'' 0 INSN_CLASS_D_INX ''D,S,T,R'' 0x200704b 0x600707f Match_opcode 0x0,
   insn_row ''fnmsub.d'' 0 INSN_CLASS_D_INX ''D,S,T,R,m'' 0x200004b 0x600007f Match_opcode 0x0,
   insn_row ''fcvt.w.d'' 0 INSN_CLASS_D_INX ''d,S'' 0xc2007053 0xfff0707f Match_opcode 0x0,
   insn_row ''fcvt.w.d'' 0 INSN_CLASS_D_INX ''d,S,m'' 0xc2000053 0xfff0007f Match_opcode 0x0,
   insn_row ''fcvt.wu.d'' 0 INSN_CLASS_D_INX ''d,S'' 0xc2107053 0xfff0707f Match_opcode 0x0,
   insn_row ''fcvt.wu.d'' 0 INSN_CLASS_D_INX ''d,S,m'' 0xc2100053 0xfff0007f Match_opcode 0x0,
   insn_row ''fcvt.d.w'' 0 INSN_CLASS_D_INX ''D,s'' 0xd2000053 0xfff0707f Match_opcode 0x0,
   insn_row ''fcvt.d.wu'' 0 INSN_CLASS_D_INX ''D,s'' 0xd2100053 0xfff0707f Match_opcode 0x0,
   insn_row ''fcvt.d.s'' 0 INSN_CLASS_D_INX ''D,S'' 0x42000053 0xfff0707f Match_opcode 0x0,
   insn_row ''fcvt.s.d'' 0 INSN_CLASS_D_INX ''D,S'' 0x40107053 0xfff0707f Match_opcode 0x0,
   insn_row ''fcvt.s.d'' 0 INSN_CLASS_D_INX ''D,S,m'' 0x40100053 0xfff0007f Match_opcode 0x0,
   insn_row ''fclass.d'' 0 INSN_CLASS_D_INX ''d,S'' 0xe2001053 0xfff0707f Match_opcode 0x0,
   insn_row ''feq.d'' 0 INSN_CLASS_D_INX ''d,S,T'' 0xa2002053 0xfe00707f Match_opcode 0x0,
   insn_row ''flt.d'' 0 INSN_CLASS_D_INX ''d,S,T'' 0xa2001053 0xfe00707f Match_opcode 0x0,
   insn_row ''fle.d'' 0 INSN_CLASS_D_INX ''d,S,T'' 0xa2000053 0xfe00707f Match_opcode 0x0,
   insn_row ''fgt.d'' 0 INSN_CLASS_D_INX ''d,T,S'' 0xa2001053 0xfe00707f Match_opcode 0x0,
   insn_row ''fge.d'' 0 INSN_CLASS_D_INX ''d,T,S'' 0xa2000053 0xfe00707f Match_opcode 0x0,
   insn_row ''fmv.x.d'' 64 INSN_CLASS_D ''d,S'' 0xe2000053 0xfff0707f Match_opcode 0x0,
   insn_row ''fmv.d.x'' 64 INSN_CLASS_D ''D,s'' 0xf2000053 0xfff0707f Match_opcode 0x0,
   insn_row ''fcvt.l.d'' 64 INSN_CLASS_D_INX ''d,S'' 0xc2207053 0xfff0707f Match_opcode 0x0,
   insn_row ''fcvt.l.d'' 64 INSN_CLASS_D_INX ''d,S,m'' 0xc2200053 0xfff0007f Match_opcode 0x0,
   insn_row ''fcvt.lu.d'' 64 INSN_CLASS_D_INX ''d,S'' 0xc2307053 0xfff0707f Match_opcode 0x0,
   insn_row ''fcvt.lu.d'' 64 INSN_CLASS_D_INX ''d,S,m'' 0xc2300053 0xfff0007f Match_opcode 0x0,
   insn_row ''fcvt.d.l'' 64 INSN_CLASS_D_INX ''D,s'' 0xd2207053 0xfff0707f Match_opcode 0x0,
   insn_row ''fcvt.d.l'' 64 INSN_CLASS_D_INX ''D,s,m'' 0xd2200053 0xfff0007f Match_opcode 0x0,
   insn_row ''fcvt.d.lu'' 64 INSN_CLASS_D_INX ''D,s'' 0xd2307053 0xfff0707f Match_opcode 0x0,
   insn_row ''fcvt.d.lu'' 64 INSN_CLASS_D_INX ''D,s,m'' 0xd2300053 0xfff0007f Match_opcode 0x0,
   insn_row ''flq'' 0 INSN_CLASS_Q ''D,o(s)'' 0x4007 0x707f Match_opcode 0x58,
   insn_row ''flq'' 0 INSN_CLASS_Q ''D,A,s'' 0x0 0x12 Match_never 0xffffffff,
   insn_row ''fsq'' 0 INSN_CLASS_Q ''T,q(s)'' 0x4027 0x707f Match_opcode 0x58,
   insn_row ''fsq'' 0 INSN_CLASS_Q ''T,A,s'' 0x0 0x15 Match_never 0xffffffff,
   insn_row ''fmv.q'' 0 INSN_CLASS_Q_INX ''D,U'' 0x26000053 0xfe00707f Match_rs1_eq_rs2 0x1,
   insn_row ''fneg.q'' 0 INSN_CLASS_Q_INX ''D,U'' 0x26001053 0xfe00707f Match_rs1_eq_rs2 0x1,
   insn_row ''fabs.q'' 0 INSN_CLASS_Q_INX ''D,U'' 0x26002053 0xfe00707f Match_rs1_eq_rs2 0x1,
   insn_row ''fsgnj.q'' 0 INSN_CLASS_Q_INX ''D,S,T'' 0x26000053 0xfe00707f Match_opcode 0x0,
   insn_row ''fsgnjn.q'' 0 INSN_CLASS_Q_INX ''D,S,T'' 0x26001053 0xfe00707f Match_opcode 0x0,
   insn_row ''fsgnjx.q'' 0 INSN_CLASS_Q_INX ''D,S,T'' 0x26002053 0xfe00707f Match_opcode 0x0,
   insn_row ''fadd.q'' 0 INSN_CLASS_Q_INX ''D,S,T'' 0x6007053 0xfe00707f Match_opcode 0x0,
   insn_row ''fadd.q'' 0 INSN_CLASS_Q_INX ''D,S,T,m'' 0x6000053 0xfe00007f Match_opcode 0x0,
   insn_row ''fsub.q'' 0 INSN_CLASS_Q_INX ''D,S,T'' 0xe007053 0xfe00707f Match_opcode 0x0,
   insn_row ''fsub.q'' 0 INSN_CLASS_Q_INX ''D,S,T,m'' 0xe000053 0xfe00007f Match_opcode 0x0,
   insn_row ''fmul.q'' 0 INSN_CLASS_Q_INX ''D,S,T'' 0x16007053 0xfe00707f Match_opcode 0x0,
   insn_row ''fmul.q'' 0 INSN_CLASS_Q_INX ''D,S,T,m'' 0x16000053 0xfe00007f Match_opcode 0x0,
   insn_row ''fdiv.q'' 0 INSN_CLASS_Q_INX ''D,S,T'' 0x1e007053 0xfe00707f Match_opcode 0x0,
   insn_row ''fdiv.q'' 0 INSN_CLASS_Q_INX ''D,S,T,m'' 0x1e000053 0xfe00007f Match_opcode 0x0,
   insn_row ''fsqrt.q'' 0 INSN_CLASS_Q_INX ''D,S'' 0x5e007053 0xfff0707f Match_opcode 0x0,
   insn_row ''fsqrt.q'' 0 INSN_CLASS_Q_INX ''D,S,m'' 0x5e000053 0xfff0007f Match_opcode 0x0,
   insn_row ''fmin.q'' 0 INSN_CLASS_Q_INX ''D,S,T'' 0x2e000053 0xfe00707f Match_opcode 0x0,
   insn_row ''fmax.q'' 0 INSN_CLASS_Q_INX ''D,S,T'' 0x2e001053 0xfe00707f Match_opcode 0x0,
   insn_row ''fmadd.q'' 0 INSN_CLASS_Q_INX ''D,S,T,R'' 0x6007043 0x600707f Match_opcode 0x0,
   insn_row ''fmadd.q'' 0 INSN_CLASS_Q_INX ''D,S,T,R,m'' 0x6000043 0x600007f Match_opcode 0x0,
   insn_row ''fnmadd.q'' 0 INSN_CLASS_Q_INX ''D,S,T,R'' 0x600704f 0x600707f Match_opcode 0x0,
   insn_row ''fnmadd.q'' 0 INSN_CLASS_Q_INX ''D,S,T,R,m'' 0x600004f 0x600007f Match_opcode 0x0,
   insn_row ''fmsub.q'' 0 INSN_CLASS_Q_INX ''D,S,T,R'' 0x6007047 0x600707f Match_opcode 0x0,
   insn_row ''fmsub.q'' 0 INSN_CLASS_Q_INX ''D,S,T,R,m'' 0x6000047 0x600007f Match_opcode 0x0,
   insn_row ''fnmsub.q'' 0 INSN_CLASS_Q_INX ''D,S,T,R'' 0x600704b 0x600707f Match_opcode 0x0,
   insn_row ''fnmsub.q'' 0 INSN_CLASS_Q_INX ''D,S,T,R,m'' 0x600004b 0x600007f Match_opcode 0x0,
   insn_row ''fcvt.w.q'' 0 INSN_CLASS_Q_INX ''d,S'' 0xc6007053 0xfff0707f Match_opcode 0x0,
   insn_row ''fcvt.w.q'' 0 INSN_CLASS_Q_INX ''d,S,m'' 0xc6000053 0xfff0007f Match_opcode 0x0,
   insn_row ''fcvt.wu.q'' 0 INSN_CLASS_Q_INX ''d,S'' 0xc6107053 0xfff0707f Match_opcode 0x0,
   insn_row ''fcvt.wu.q'' 0 INSN_CLASS_Q_INX ''d,S,m'' 0xc6100053 0xfff0007f Match_opcode 0x0,
   insn_row ''fcvt.q.w'' 0 INSN_CLASS_Q_INX ''D,s'' 0xd6000053 0xfff0707f Match_opcode 0x0,
   insn_row ''fcvt.q.wu'' 0 INSN_CLASS_Q_INX ''D,s'' 0xd6100053 0xfff0707f Match_opcode 0x0,
   insn_row ''fcvt.q.s'' 0 INSN_CLASS_Q_INX ''D,S'' 0x46000053 0xfff0707f Match_opcode 0x0,
   insn_row ''fcvt.q.d'' 0 INSN_CLASS_Q_INX ''D,S'' 0x46100053 0xfff0707f Match_opcode 0x0,
   insn_row ''fcvt.s.q'' 0 INSN_CLASS_Q_INX ''D,S'' 0x40307053 0xfff0707f Match_opcode 0x0,
   insn_row ''fcvt.s.q'' 0 INSN_CLASS_Q_INX ''D,S,m'' 0x40300053 0xfff0007f Match_opcode 0x0,
   insn_row ''fcvt.d.q'' 0 INSN_CLASS_Q_INX ''D,S'' 0x42307053 0xfff0707f Match_opcode 0x0,
   insn_row ''fcvt.d.q'' 0 INSN_CLASS_Q_INX ''D,S,m'' 0x42300053 0xfff0007f Match_opcode 0x0,
   insn_row ''fclass.q'' 0 INSN_CLASS_Q_INX ''d,S'' 0xe6001053 0xfff0707f Match_opcode 0x0,
   insn_row ''feq.q'' 0 INSN_CLASS_Q_INX ''d,S,T'' 0xa6002053 0xfe00707f Match_opcode 0x0,
   insn_row ''flt.q'' 0 INSN_CLASS_Q_INX ''d,S,T'' 0xa6001053 0xfe00707f Match_opcode 0x0,
   insn_row ''fle.q'' 0 INSN_CLASS_Q_INX ''d,S,T'' 0xa6000053 0xfe00707f Match_opcode 0x0,
   insn_row ''fgt.q'' 0 INSN_CLASS_Q_INX ''d,T,S'' 0xa6001053 0xfe00707f Match_opcode 0x0,
   insn_row ''fge.q'' 0 INSN_CLASS_Q_INX ''d,T,S'' 0xa6000053 0xfe00707f Match_opcode 0x0,
   insn_row ''fcvt.l.q'' 64 INSN_CLASS_Q_INX ''d,S'' 0xc6207053 0xfff0707f Match_opcode 0x0,
   insn_row ''fcvt.l.q'' 64 INSN_CLASS_Q_INX ''d,S,m'' 0xc6200053 0xfff0007f Match_opcode 0x0,
   insn_row ''fcvt.lu.q'' 64 INSN_CLASS_Q_INX ''d,S'' 0xc6307053 0xfff0707f Match_opcode 0x0,
   insn_row ''fcvt.lu.q'' 64 INSN_CLASS_Q_INX ''d,S,m'' 0xc6300053 0xfff0007f Match_opcode 0x0,
   insn_row ''fcvt.q.l'' 64 INSN_CLASS_Q_INX ''D,s'' 0xd6200053 0xfff0707f Match_opcode 0x0,
   insn_row ''fcvt.q.l'' 64 INSN_CLASS_Q_INX ''D,s,m'' 0xd6200053 0xfff0007f Match_opcode 0x0,
   insn_row ''fcvt.q.lu'' 64 INSN_CLASS_Q_INX ''D,s'' 0xd6300053 0xfff0707f Match_opcode 0x0,
   insn_row ''fcvt.q.lu'' 64 INSN_CLASS_Q_INX ''D,s,m'' 0xd6300053 0xfff0007f Match_opcode 0x0,
   insn_row ''c.unimp'' 0 INSN_CLASS_C '''' 0x0 0xffff Match_opcode 0x0,
   insn_row ''c.ebreak'' 0 INSN_CLASS_C '''' 0x9002 0xffff Match_opcode 0x0,
   insn_row ''c.jr'' 0 INSN_CLASS_C ''d'' 0x8002 0xf07f Match_rd_nonzero 0x2,
   insn_row ''c.jalr'' 0 INSN_CLASS_C ''d'' 0x9002 0xf07f Match_rd_nonzero 0x6,
   insn_row ''c.j'' 0 INSN_CLASS_C ''Ca'' 0xa001 0xe003 Match_opcode 0x2,
   insn_row ''c.jal'' 32 INSN_CLASS_C ''Ca'' 0x2001 0xe003 Match_opcode 0x6,
   insn_row ''c.beqz'' 0 INSN_CLASS_C ''Cs,Cp'' 0xc001 0xe003 Match_opcode 0x4,
   insn_row ''c.bnez'' 0 INSN_CLASS_C ''Cs,Cp'' 0xe001 0xe003 Match_opcode 0x4,
   insn_row ''c.lwsp'' 0 INSN_CLASS_C ''d,Cm(Cc)'' 0x4002 0xe003 Match_rd_nonzero 0x0]"

definition riscv_opcodes_6 :: "riscv_opcode list" where
  "riscv_opcodes_6 =
  [
   insn_row ''c.lw'' 0 INSN_CLASS_C ''Ct,Ck(Cs)'' 0x4000 0xe003 Match_opcode 0x38,
   insn_row ''c.swsp'' 0 INSN_CLASS_C ''CV,CM(Cc)'' 0xc002 0xe003 Match_opcode 0x38,
   insn_row ''c.sw'' 0 INSN_CLASS_C ''Ct,Ck(Cs)'' 0xc000 0xe003 Match_opcode 0x38,
   insn_row ''c.nop'' 0 INSN_CLASS_C '''' 0x1 0xffff Match_opcode 0x1,
   insn_row ''c.nop'' 0 INSN_CLASS_C ''Cj'' 0x1 0xef83 Match_opcode 0x1,
   insn_row ''c.mv'' 0 INSN_CLASS_C ''d,CV'' 0x8002 0xf003 Match_c_add_with_hint 0x0,
   insn_row ''c.lui'' 0 INSN_CLASS_C ''d,Cu'' 0x6001 0xe003 Match_c_lui_with_hint 0x0,
   insn_row ''c.li'' 0 INSN_CLASS_C ''d,Co'' 0x4001 0xe003 Match_opcode 0x0,
   insn_row ''c.addi4spn'' 0 INSN_CLASS_C ''Ct,Cc,CK'' 0x0 0xe003 Match_c_addi4spn 0x0,
   insn_row ''c.addi16sp'' 0 INSN_CLASS_C ''Cc,CL'' 0x6101 0xef83 Match_c_addi16sp 0x0,
   insn_row ''c.addi'' 0 INSN_CLASS_C ''d,Co'' 0x1 0xe003 Match_opcode 0x0,
   insn_row ''c.add'' 0 INSN_CLASS_C ''d,CV'' 0x9002 0xf003 Match_c_add_with_hint 0x0,
   insn_row ''c.sub'' 0 INSN_CLASS_C ''Cs,Ct'' 0x8c01 0xfc63 Match_opcode 0x0,
   insn_row ''c.and'' 0 INSN_CLASS_C ''Cs,Ct'' 0x8c61 0xfc63 Match_opcode 0x0,
   insn_row ''c.or'' 0 INSN_CLASS_C ''Cs,Ct'' 0x8c41 0xfc63 Match_opcode 0x0,
   insn_row ''c.xor'' 0 INSN_CLASS_C ''Cs,Ct'' 0x8c21 0xfc63 Match_opcode 0x0,
   insn_row ''c.slli'' 0 INSN_CLASS_C ''d,C>'' 0x2 0xe003 Match_c_slli 0x0,
   insn_row ''c.srli'' 0 INSN_CLASS_C ''Cs,C>'' 0x8001 0xec03 Match_c_slli 0x0,
   insn_row ''c.srai'' 0 INSN_CLASS_C ''Cs,C>'' 0x8401 0xec03 Match_c_slli 0x0,
   insn_row ''c.slli64'' 0 INSN_CLASS_C ''d'' 0x2 0xf07f Match_c_slli64 0x0,
   insn_row ''c.srli64'' 0 INSN_CLASS_C ''Cs'' 0x8001 0xfc7f Match_c_slli64 0x0,
   insn_row ''c.srai64'' 0 INSN_CLASS_C ''Cs'' 0x8401 0xfc7f Match_c_slli64 0x0,
   insn_row ''c.andi'' 0 INSN_CLASS_C ''Cs,Co'' 0x8801 0xec03 Match_opcode 0x0,
   insn_row ''c.addiw'' 64 INSN_CLASS_C ''d,Co'' 0x2001 0xe003 Match_rd_nonzero 0x0,
   insn_row ''c.addw'' 64 INSN_CLASS_C ''Cs,Ct'' 0x9c21 0xfc63 Match_opcode 0x0,
   insn_row ''c.subw'' 64 INSN_CLASS_C ''Cs,Ct'' 0x9c01 0xfc63 Match_opcode 0x0,
   insn_row ''c.ldsp'' 64 INSN_CLASS_C ''d,Cn(Cc)'' 0x6002 0xe003 Match_rd_nonzero 0x48,
   insn_row ''c.ld'' 64 INSN_CLASS_C ''Ct,Cl(Cs)'' 0x6000 0xe003 Match_opcode 0x48,
   insn_row ''c.sdsp'' 64 INSN_CLASS_C ''CV,CN(Cc)'' 0xe002 0xe003 Match_opcode 0x48,
   insn_row ''c.sd'' 64 INSN_CLASS_C ''Ct,Cl(Cs)'' 0xe000 0xe003 Match_opcode 0x48,
   insn_row ''c.fldsp'' 0 INSN_CLASS_D_AND_C ''D,Cn(Cc)'' 0x2002 0xe003 Match_opcode 0x48,
   insn_row ''c.fld'' 0 INSN_CLASS_D_AND_C ''CD,Cl(Cs)'' 0x2000 0xe003 Match_opcode 0x48,
   insn_row ''c.fsdsp'' 0 INSN_CLASS_D_AND_C ''CT,CN(Cc)'' 0xa002 0xe003 Match_opcode 0x48,
   insn_row ''c.fsd'' 0 INSN_CLASS_D_AND_C ''CD,Cl(Cs)'' 0xa000 0xe003 Match_opcode 0x48,
   insn_row ''c.flwsp'' 32 INSN_CLASS_F_AND_C ''D,Cm(Cc)'' 0x6002 0xe003 Match_opcode 0x38,
   insn_row ''c.flw'' 32 INSN_CLASS_F_AND_C ''CD,Ck(Cs)'' 0x6000 0xe003 Match_opcode 0x38,
   insn_row ''c.fswsp'' 32 INSN_CLASS_F_AND_C ''CT,CM(Cc)'' 0xe002 0xe003 Match_opcode 0x38,
   insn_row ''c.fsw'' 32 INSN_CLASS_F_AND_C ''CD,Ck(Cs)'' 0xe000 0xe003 Match_opcode 0x38,
   insn_row ''cbo.clean'' 0 INSN_CLASS_ZICBOM ''0(s)'' 0x10200f 0xfff07fff Match_opcode 0x0,
   insn_row ''cbo.flush'' 0 INSN_CLASS_ZICBOM ''0(s)'' 0x20200f 0xfff07fff Match_opcode 0x0,
   insn_row ''cbo.inval'' 0 INSN_CLASS_ZICBOM ''0(s)'' 0x200f 0xfff07fff Match_opcode 0x0,
   insn_row ''cbo.zero'' 0 INSN_CLASS_ZICBOZ ''0(s)'' 0x40200f 0xfff07fff Match_opcode 0x0,
   insn_row ''czero.eqz'' 0 INSN_CLASS_ZICOND ''d,s,t'' 0xe005033 0xfe00707f Match_opcode 0x0,
   insn_row ''czero.nez'' 0 INSN_CLASS_ZICOND ''d,s,t'' 0xe007033 0xfe00707f Match_opcode 0x0,
   insn_row ''wrs.nto'' 0 INSN_CLASS_ZAWRS '''' 0xd00073 0xffffffff Match_opcode 0x0,
   insn_row ''wrs.sto'' 0 INSN_CLASS_ZAWRS '''' 0x1d00073 0xffffffff Match_opcode 0x0,
   insn_row ''fli.s'' 0 INSN_CLASS_ZFA ''D,Wfv'' 0xf0100053 0xfff0707f Match_opcode 0x0,
   insn_row ''fli.d'' 0 INSN_CLASS_D_AND_ZFA ''D,Wfv'' 0xf2100053 0xfff0707f Match_opcode 0x0,
   insn_row ''fli.q'' 0 INSN_CLASS_Q_AND_ZFA ''D,Wfv'' 0xf6100053 0xfff0707f Match_opcode 0x0,
   insn_row ''fli.h'' 0 INSN_CLASS_ZFH_AND_ZFA ''D,Wfv'' 0xf4100053 0xfff0707f Match_opcode 0x0,
   insn_row ''fminm.s'' 0 INSN_CLASS_ZFA ''D,S,T'' 0x28002053 0xfe00707f Match_opcode 0x0,
   insn_row ''fmaxm.s'' 0 INSN_CLASS_ZFA ''D,S,T'' 0x28003053 0xfe00707f Match_opcode 0x0,
   insn_row ''fminm.d'' 0 INSN_CLASS_D_AND_ZFA ''D,S,T'' 0x2a002053 0xfe00707f Match_opcode 0x0,
   insn_row ''fmaxm.d'' 0 INSN_CLASS_D_AND_ZFA ''D,S,T'' 0x2a003053 0xfe00707f Match_opcode 0x0,
   insn_row ''fminm.q'' 0 INSN_CLASS_Q_AND_ZFA ''D,S,T'' 0x2e002053 0xfe00707f Match_opcode 0x0,
   insn_row ''fmaxm.q'' 0 INSN_CLASS_Q_AND_ZFA ''D,S,T'' 0x2e003053 0xfe00707f Match_opcode 0x0,
   insn_row ''fminm.h'' 0 INSN_CLASS_ZFH_AND_ZFA ''D,S,T'' 0x2c002053 0xfe00707f Match_opcode 0x0,
   insn_row ''fmaxm.h'' 0 INSN_CLASS_ZFH_AND_ZFA ''D,S,T'' 0x2c003053 0xfe00707f Match_opcode 0x0,
   insn_row ''fround.s'' 0 INSN_CLASS_ZFA ''D,S'' 0x40407053 0xfff0707f Match_opcode 0x0,
   insn_row ''fround.s'' 0 INSN_CLASS_ZFA ''D,S,m'' 0x40400053 0xfff0007f Match_opcode 0x0,
   insn_row ''froundnx.s'' 0 INSN_CLASS_ZFA ''D,S'' 0x40507053 0xfff0707f Match_opcode 0x0,
   insn_row ''froundnx.s'' 0 INSN_CLASS_ZFA ''D,S,m'' 0x40500053 0xfff0007f Match_opcode 0x0,
   insn_row ''fround.d'' 0 INSN_CLASS_D_AND_ZFA ''D,S'' 0x42407053 0xfff0707f Match_opcode 0x0,
   insn_row ''fround.d'' 0 INSN_CLASS_D_AND_ZFA ''D,S,m'' 0x42400053 0xfff0007f Match_opcode 0x0,
   insn_row ''froundnx.d'' 0 INSN_CLASS_D_AND_ZFA ''D,S'' 0x42507053 0xfff0707f Match_opcode 0x0,
   insn_row ''froundnx.d'' 0 INSN_CLASS_D_AND_ZFA ''D,S,m'' 0x42500053 0xfff0007f Match_opcode 0x0,
   insn_row ''fround.q'' 0 INSN_CLASS_Q_AND_ZFA ''D,S'' 0x46407053 0xfff0707f Match_opcode 0x0,
   insn_row ''fround.q'' 0 INSN_CLASS_Q_AND_ZFA ''D,S,m'' 0x46400053 0xfff0007f Match_opcode 0x0,
   insn_row ''froundnx.q'' 0 INSN_CLASS_Q_AND_ZFA ''D,S'' 0x46507053 0xfff0707f Match_opcode 0x0,
   insn_row ''froundnx.q'' 0 INSN_CLASS_Q_AND_ZFA ''D,S,m'' 0x46500053 0xfff0007f Match_opcode 0x0,
   insn_row ''fround.h'' 0 INSN_CLASS_ZFH_AND_ZFA ''D,S'' 0x44407053 0xfff0707f Match_opcode 0x0,
   insn_row ''fround.h'' 0 INSN_CLASS_ZFH_AND_ZFA ''D,S,m'' 0x44400053 0xfff0007f Match_opcode 0x0,
   insn_row ''froundnx.h'' 0 INSN_CLASS_ZFH_AND_ZFA ''D,S'' 0x44507053 0xfff0707f Match_opcode 0x0,
   insn_row ''froundnx.h'' 0 INSN_CLASS_ZFH_AND_ZFA ''D,S,m'' 0x44500053 0xfff0007f Match_opcode 0x0,
   insn_row ''fcvtmod.w.d'' 0 INSN_CLASS_D_AND_ZFA ''d,S,m'' 0xc2801053 0xfff0707f Match_opcode 0x0,
   insn_row ''fmvh.x.d'' 32 INSN_CLASS_D_AND_ZFA ''d,S'' 0xe2100053 0xfff0707f Match_opcode 0x0,
   insn_row ''fmvp.d.x'' 32 INSN_CLASS_D_AND_ZFA ''D,s,t'' 0xb2000053 0xfe00707f Match_opcode 0x0,
   insn_row ''fmvh.x.q'' 64 INSN_CLASS_Q_AND_ZFA ''d,S'' 0xe6100053 0xfff0707f Match_opcode 0x0,
   insn_row ''fmvp.q.x'' 64 INSN_CLASS_Q_AND_ZFA ''D,s,t'' 0xb6000053 0xfe00707f Match_opcode 0x0,
   insn_row ''fltq.s'' 0 INSN_CLASS_ZFA ''d,S,T'' 0xa0005053 0xfe00707f Match_opcode 0x0,
   insn_row ''fleq.s'' 0 INSN_CLASS_ZFA ''d,S,T'' 0xa0004053 0xfe00707f Match_opcode 0x0,
   insn_row ''fltq.d'' 0 INSN_CLASS_D_AND_ZFA ''d,S,T'' 0xa2005053 0xfe00707f Match_opcode 0x0,
   insn_row ''fleq.d'' 0 INSN_CLASS_D_AND_ZFA ''d,S,T'' 0xa2004053 0xfe00707f Match_opcode 0x0,
   insn_row ''fltq.q'' 0 INSN_CLASS_Q_AND_ZFA ''d,S,T'' 0xa6005053 0xfe00707f Match_opcode 0x0,
   insn_row ''fleq.q'' 0 INSN_CLASS_Q_AND_ZFA ''d,S,T'' 0xa6004053 0xfe00707f Match_opcode 0x0,
   insn_row ''fltq.h'' 0 INSN_CLASS_ZFH_AND_ZFA ''d,S,T'' 0xa4005053 0xfe00707f Match_opcode 0x0,
   insn_row ''fleq.h'' 0 INSN_CLASS_ZFH_AND_ZFA ''d,S,T'' 0xa4004053 0xfe00707f Match_opcode 0x0,
   insn_row ''clz'' 0 INSN_CLASS_ZBB ''d,s'' 0x60001013 0xfff0707f Match_opcode 0x0,
   insn_row ''ctz'' 0 INSN_CLASS_ZBB ''d,s'' 0x60101013 0xfff0707f Match_opcode 0x0,
   insn_row ''cpop'' 0 INSN_CLASS_ZBB ''d,s'' 0x60201013 0xfff0707f Match_opcode 0x0,
   insn_row ''min'' 0 INSN_CLASS_ZBB ''d,s,t'' 0xa004033 0xfe00707f Match_opcode 0x0,
   insn_row ''max'' 0 INSN_CLASS_ZBB ''d,s,t'' 0xa006033 0xfe00707f Match_opcode 0x0,
   insn_row ''minu'' 0 INSN_CLASS_ZBB ''d,s,t'' 0xa005033 0xfe00707f Match_opcode 0x0,
   insn_row ''maxu'' 0 INSN_CLASS_ZBB ''d,s,t'' 0xa007033 0xfe00707f Match_opcode 0x0,
   insn_row ''sext.b'' 0 INSN_CLASS_ZBB ''d,s'' 0x60401013 0xfff0707f Match_opcode 0x0,
   insn_row ''sext.b'' 0 INSN_CLASS_I ''d,s'' 0x0 0x1b Match_never 0xffffffff,
   insn_row ''sext.h'' 0 INSN_CLASS_ZBB ''d,s'' 0x60501013 0xfff0707f Match_opcode 0x0,
   insn_row ''sext.h'' 0 INSN_CLASS_I ''d,s'' 0x0 0x1c Match_never 0xffffffff,
   insn_row ''zext.h'' 32 INSN_CLASS_ZBB ''d,s'' 0x8004033 0xfff0707f Match_opcode 0x0,
   insn_row ''zext.h'' 64 INSN_CLASS_ZBB ''d,s'' 0x800403b 0xfff0707f Match_opcode 0x0,
   insn_row ''zext.h'' 0 INSN_CLASS_I ''d,s'' 0x0 0x19 Match_never 0xffffffff,
   insn_row ''orc.b'' 0 INSN_CLASS_ZBB ''d,s'' 0x28705013 0xfff0707f Match_opcode 0x0,
   insn_row ''clzw'' 64 INSN_CLASS_ZBB ''d,s'' 0x6000101b 0xfff0707f Match_opcode 0x0,
   insn_row ''ctzw'' 64 INSN_CLASS_ZBB ''d,s'' 0x6010101b 0xfff0707f Match_opcode 0x0,
   insn_row ''cpopw'' 64 INSN_CLASS_ZBB ''d,s'' 0x6020101b 0xfff0707f Match_opcode 0x0,
   insn_row ''brev8'' 32 INSN_CLASS_ZBKB ''d,s'' 0x68705013 0xfff0707f Match_opcode 0x0,
   insn_row ''brev8'' 64 INSN_CLASS_ZBKB ''d,s'' 0x68705013 0xfff0707f Match_opcode 0x0,
   insn_row ''zip'' 32 INSN_CLASS_ZBKB ''d,s'' 0x8f01013 0xfff0707f Match_opcode 0x0,
   insn_row ''unzip'' 32 INSN_CLASS_ZBKB ''d,s'' 0x8f05013 0xfff0707f Match_opcode 0x0,
   insn_row ''pack'' 0 INSN_CLASS_ZBKB ''d,s,t'' 0x8004033 0xfe00707f Match_opcode 0x0]"

definition riscv_opcodes_7 :: "riscv_opcode list" where
  "riscv_opcodes_7 =
  [
   insn_row ''packh'' 0 INSN_CLASS_ZBKB ''d,s,t'' 0x8007033 0xfe00707f Match_opcode 0x0,
   insn_row ''packw'' 64 INSN_CLASS_ZBKB ''d,s,t'' 0x800403b 0xfe00707f Match_opcode 0x0,
   insn_row ''andn'' 0 INSN_CLASS_ZBB_OR_ZBKB ''d,s,t'' 0x40007033 0xfe00707f Match_opcode 0x0,
   insn_row ''orn'' 0 INSN_CLASS_ZBB_OR_ZBKB ''d,s,t'' 0x40006033 0xfe00707f Match_opcode 0x0,
   insn_row ''xnor'' 0 INSN_CLASS_ZBB_OR_ZBKB ''d,s,t'' 0x40004033 0xfe00707f Match_opcode 0x0,
   insn_row ''rol'' 0 INSN_CLASS_ZBB_OR_ZBKB ''d,s,t'' 0x60001033 0xfe00707f Match_opcode 0x0,
   insn_row ''ror'' 0 INSN_CLASS_ZBB_OR_ZBKB ''d,s,t'' 0x60005033 0xfe00707f Match_opcode 0x0,
   insn_row ''ror'' 0 INSN_CLASS_ZBB_OR_ZBKB ''d,s,>'' 0x60005013 0xfc00707f Match_opcode 0x1,
   insn_row ''rori'' 0 INSN_CLASS_ZBB_OR_ZBKB ''d,s,>'' 0x60005013 0xfc00707f Match_opcode 0x0,
   insn_row ''rev8'' 32 INSN_CLASS_ZBB_OR_ZBKB ''d,s'' 0x69805013 0xfff0707f Match_opcode 0x0,
   insn_row ''rev8'' 64 INSN_CLASS_ZBB_OR_ZBKB ''d,s'' 0x6b805013 0xfff0707f Match_opcode 0x0,
   insn_row ''rolw'' 64 INSN_CLASS_ZBB_OR_ZBKB ''d,s,t'' 0x6000103b 0xfe00707f Match_opcode 0x0,
   insn_row ''rorw'' 64 INSN_CLASS_ZBB_OR_ZBKB ''d,s,t'' 0x6000503b 0xfe00707f Match_opcode 0x0,
   insn_row ''rorw'' 64 INSN_CLASS_ZBB_OR_ZBKB ''d,s,<'' 0x6000501b 0xfe00707f Match_opcode 0x1,
   insn_row ''roriw'' 64 INSN_CLASS_ZBB_OR_ZBKB ''d,s,<'' 0x6000501b 0xfe00707f Match_opcode 0x0,
   insn_row ''sh1add'' 0 INSN_CLASS_ZBA ''d,s,t'' 0x20002033 0xfe00707f Match_opcode 0x0,
   insn_row ''sh2add'' 0 INSN_CLASS_ZBA ''d,s,t'' 0x20004033 0xfe00707f Match_opcode 0x0,
   insn_row ''sh3add'' 0 INSN_CLASS_ZBA ''d,s,t'' 0x20006033 0xfe00707f Match_opcode 0x0,
   insn_row ''sh1add.uw'' 64 INSN_CLASS_ZBA ''d,s,t'' 0x2000203b 0xfe00707f Match_opcode 0x0,
   insn_row ''sh2add.uw'' 64 INSN_CLASS_ZBA ''d,s,t'' 0x2000403b 0xfe00707f Match_opcode 0x0,
   insn_row ''sh3add.uw'' 64 INSN_CLASS_ZBA ''d,s,t'' 0x2000603b 0xfe00707f Match_opcode 0x0,
   insn_row ''zext.w'' 64 INSN_CLASS_ZBA ''d,s'' 0x800003b 0xfff0707f Match_opcode 0x1,
   insn_row ''zext.w'' 64 INSN_CLASS_I ''d,s'' 0x0 0x1a Match_never 0xffffffff,
   insn_row ''add.uw'' 64 INSN_CLASS_ZBA ''d,s,t'' 0x800003b 0xfe00707f Match_opcode 0x0,
   insn_row ''slli.uw'' 64 INSN_CLASS_ZBA ''d,s,>'' 0x800101b 0xfc00707f Match_opcode 0x0,
   insn_row ''clmul'' 0 INSN_CLASS_ZBC_OR_ZBKC ''d,s,t'' 0xa001033 0xfe00707f Match_opcode 0x0,
   insn_row ''clmulh'' 0 INSN_CLASS_ZBC_OR_ZBKC ''d,s,t'' 0xa003033 0xfe00707f Match_opcode 0x0,
   insn_row ''clmulr'' 0 INSN_CLASS_ZBC ''d,s,t'' 0xa002033 0xfe00707f Match_opcode 0x0,
   insn_row ''bclr'' 0 INSN_CLASS_ZBS ''d,s,t'' 0x48001033 0xfe00707f Match_opcode 0x0,
   insn_row ''bclr'' 0 INSN_CLASS_ZBS ''d,s,>'' 0x48001013 0xfc00707f Match_opcode 0x1,
   insn_row ''bclri'' 0 INSN_CLASS_ZBS ''d,s,>'' 0x48001013 0xfc00707f Match_opcode 0x0,
   insn_row ''bset'' 0 INSN_CLASS_ZBS ''d,s,t'' 0x28001033 0xfe00707f Match_opcode 0x0,
   insn_row ''bset'' 0 INSN_CLASS_ZBS ''d,s,>'' 0x28001013 0xfc00707f Match_opcode 0x1,
   insn_row ''bseti'' 0 INSN_CLASS_ZBS ''d,s,>'' 0x28001013 0xfc00707f Match_opcode 0x0,
   insn_row ''binv'' 0 INSN_CLASS_ZBS ''d,s,t'' 0x68001033 0xfe00707f Match_opcode 0x0,
   insn_row ''binv'' 0 INSN_CLASS_ZBS ''d,s,>'' 0x68001013 0xfc00707f Match_opcode 0x1,
   insn_row ''binvi'' 0 INSN_CLASS_ZBS ''d,s,>'' 0x68001013 0xfc00707f Match_opcode 0x0,
   insn_row ''bext'' 0 INSN_CLASS_ZBS ''d,s,t'' 0x48005033 0xfe00707f Match_opcode 0x0,
   insn_row ''bext'' 0 INSN_CLASS_ZBS ''d,s,>'' 0x48005013 0xfc00707f Match_opcode 0x1,
   insn_row ''bexti'' 0 INSN_CLASS_ZBS ''d,s,>'' 0x48005013 0xfc00707f Match_opcode 0x0,
   insn_row ''xperm4'' 0 INSN_CLASS_ZBKX ''d,s,t'' 0x28002033 0xfe00707f Match_opcode 0x0,
   insn_row ''xperm8'' 0 INSN_CLASS_ZBKX ''d,s,t'' 0x28004033 0xfe00707f Match_opcode 0x0,
   insn_row ''aes32dsi'' 32 INSN_CLASS_ZKND ''d,s,t,y'' 0x2a000033 0x3e00707f Match_opcode 0x0,
   insn_row ''aes32dsmi'' 32 INSN_CLASS_ZKND ''d,s,t,y'' 0x2e000033 0x3e00707f Match_opcode 0x0,
   insn_row ''aes64ds'' 64 INSN_CLASS_ZKND ''d,s,t'' 0x3a000033 0xfe00707f Match_opcode 0x0,
   insn_row ''aes64dsm'' 64 INSN_CLASS_ZKND ''d,s,t'' 0x3e000033 0xfe00707f Match_opcode 0x0,
   insn_row ''aes64im'' 64 INSN_CLASS_ZKND ''d,s'' 0x30001013 0xfff0707f Match_opcode 0x0,
   insn_row ''aes64ks1i'' 64 INSN_CLASS_ZKND_OR_ZKNE ''d,s,Y'' 0x31001013 0xff00707f Match_opcode 0x0,
   insn_row ''aes64ks2'' 64 INSN_CLASS_ZKND_OR_ZKNE ''d,s,t'' 0x7e000033 0xfe00707f Match_opcode 0x0,
   insn_row ''aes32esi'' 32 INSN_CLASS_ZKNE ''d,s,t,y'' 0x22000033 0x3e00707f Match_opcode 0x0,
   insn_row ''aes32esmi'' 32 INSN_CLASS_ZKNE ''d,s,t,y'' 0x26000033 0x3e00707f Match_opcode 0x0,
   insn_row ''aes64es'' 64 INSN_CLASS_ZKNE ''d,s,t'' 0x32000033 0xfe00707f Match_opcode 0x0,
   insn_row ''aes64esm'' 64 INSN_CLASS_ZKNE ''d,s,t'' 0x36000033 0xfe00707f Match_opcode 0x0,
   insn_row ''sha256sig0'' 0 INSN_CLASS_ZKNH ''d,s'' 0x10201013 0xfff0707f Match_opcode 0x0,
   insn_row ''sha256sig1'' 0 INSN_CLASS_ZKNH ''d,s'' 0x10301013 0xfff0707f Match_opcode 0x0,
   insn_row ''sha256sum0'' 0 INSN_CLASS_ZKNH ''d,s'' 0x10001013 0xfff0707f Match_opcode 0x0,
   insn_row ''sha256sum1'' 0 INSN_CLASS_ZKNH ''d,s'' 0x10101013 0xfff0707f Match_opcode 0x0,
   insn_row ''sha512sig0h'' 32 INSN_CLASS_ZKNH ''d,s,t'' 0x5c000033 0xfe00707f Match_opcode 0x0,
   insn_row ''sha512sig0l'' 32 INSN_CLASS_ZKNH ''d,s,t'' 0x54000033 0xfe00707f Match_opcode 0x0,
   insn_row ''sha512sig1h'' 32 INSN_CLASS_ZKNH ''d,s,t'' 0x5e000033 0xfe00707f Match_opcode 0x0,
   insn_row ''sha512sig1l'' 32 INSN_CLASS_ZKNH ''d,s,t'' 0x56000033 0xfe00707f Match_opcode 0x0,
   insn_row ''sha512sum0r'' 32 INSN_CLASS_ZKNH ''d,s,t'' 0x50000033 0xfe00707f Match_opcode 0x0,
   insn_row ''sha512sum1r'' 32 INSN_CLASS_ZKNH ''d,s,t'' 0x52000033 0xfe00707f Match_opcode 0x0,
   insn_row ''sha512sig0'' 64 INSN_CLASS_ZKNH ''d,s'' 0x10601013 0xfff0707f Match_opcode 0x0,
   insn_row ''sha512sig1'' 64 INSN_CLASS_ZKNH ''d,s'' 0x10701013 0xfff0707f Match_opcode 0x0,
   insn_row ''sha512sum0'' 64 INSN_CLASS_ZKNH ''d,s'' 0x10401013 0xfff0707f Match_opcode 0x0,
   insn_row ''sha512sum1'' 64 INSN_CLASS_ZKNH ''d,s'' 0x10501013 0xfff0707f Match_opcode 0x0,
   insn_row ''sm4ed'' 0 INSN_CLASS_ZKSED ''d,s,t,y'' 0x30000033 0x3e00707f Match_opcode 0x0,
   insn_row ''sm4ks'' 0 INSN_CLASS_ZKSED ''d,s,t,y'' 0x34000033 0x3e00707f Match_opcode 0x0,
   insn_row ''sm3p0'' 0 INSN_CLASS_ZKSH ''d,s'' 0x10801013 0xfff0707f Match_opcode 0x0,
   insn_row ''sm3p1'' 0 INSN_CLASS_ZKSH ''d,s'' 0x10901013 0xfff0707f Match_opcode 0x0,
   insn_row ''vsetvl'' 0 INSN_CLASS_V ''d,s,t'' 0x80007057 0xfe00707f Match_opcode 0x0,
   insn_row ''vsetvli'' 0 INSN_CLASS_V ''d,s,Vc'' 0x7057 0x8000707f Match_opcode 0x0,
   insn_row ''vsetivli'' 0 INSN_CLASS_V ''d,Z,Vb'' 0xc0007057 0xc000707f Match_opcode 0x0,
   insn_row ''vlm.v'' 0 INSN_CLASS_V ''Vd,0(s)'' 0x2b00007 0xfff0707f Match_opcode 0x8,
   insn_row ''vsm.v'' 0 INSN_CLASS_V ''Vd,0(s)'' 0x2b00027 0xfff0707f Match_opcode 0x8,
   insn_row ''vle1.v'' 0 INSN_CLASS_V ''Vd,0(s)'' 0x2b00007 0xfff0707f Match_opcode 0x9,
   insn_row ''vse1.v'' 0 INSN_CLASS_V ''Vd,0(s)'' 0x2b00027 0xfff0707f Match_opcode 0x9,
   insn_row ''vle8.v'' 0 INSN_CLASS_V ''Vd,0(s)Vm'' 0x7 0xfdf0707f Match_opcode 0x8,
   insn_row ''vle16.v'' 0 INSN_CLASS_V ''Vd,0(s)Vm'' 0x5007 0xfdf0707f Match_opcode 0x8,
   insn_row ''vle32.v'' 0 INSN_CLASS_V ''Vd,0(s)Vm'' 0x6007 0xfdf0707f Match_opcode 0x8,
   insn_row ''vle64.v'' 0 INSN_CLASS_V ''Vd,0(s)Vm'' 0x7007 0xfdf0707f Match_opcode 0x10000008,
   insn_row ''vse8.v'' 0 INSN_CLASS_V ''Vd,0(s)Vm'' 0x27 0xfdf0707f Match_opcode 0x8,
   insn_row ''vse16.v'' 0 INSN_CLASS_V ''Vd,0(s)Vm'' 0x5027 0xfdf0707f Match_opcode 0x8,
   insn_row ''vse32.v'' 0 INSN_CLASS_V ''Vd,0(s)Vm'' 0x6027 0xfdf0707f Match_opcode 0x8,
   insn_row ''vse64.v'' 0 INSN_CLASS_V ''Vd,0(s)Vm'' 0x7027 0xfdf0707f Match_opcode 0x10000008,
   insn_row ''vlse8.v'' 0 INSN_CLASS_V ''Vd,0(s),tVm'' 0x8000007 0xfc00707f Match_opcode 0x8,
   insn_row ''vlse16.v'' 0 INSN_CLASS_V ''Vd,0(s),tVm'' 0x8005007 0xfc00707f Match_opcode 0x8,
   insn_row ''vlse32.v'' 0 INSN_CLASS_V ''Vd,0(s),tVm'' 0x8006007 0xfc00707f Match_opcode 0x8,
   insn_row ''vlse64.v'' 0 INSN_CLASS_V ''Vd,0(s),tVm'' 0x8007007 0xfc00707f Match_opcode 0x10000008,
   insn_row ''vsse8.v'' 0 INSN_CLASS_V ''Vd,0(s),tVm'' 0x8000027 0xfc00707f Match_opcode 0x8,
   insn_row ''vsse16.v'' 0 INSN_CLASS_V ''Vd,0(s),tVm'' 0x8005027 0xfc00707f Match_opcode 0x8,
   insn_row ''vsse32.v'' 0 INSN_CLASS_V ''Vd,0(s),tVm'' 0x8006027 0xfc00707f Match_opcode 0x8,
   insn_row ''vsse64.v'' 0 INSN_CLASS_V ''Vd,0(s),tVm'' 0x8007027 0xfc00707f Match_opcode 0x10000008]"

definition riscv_opcodes_8 :: "riscv_opcode list" where
  "riscv_opcodes_8 =
  [
   insn_row ''vloxei8.v'' 0 INSN_CLASS_V ''Vd,0(s),VtVm'' 0xc000007 0xfc00707f Match_opcode 0x8,
   insn_row ''vloxei16.v'' 0 INSN_CLASS_V ''Vd,0(s),VtVm'' 0xc005007 0xfc00707f Match_opcode 0x8,
   insn_row ''vloxei32.v'' 0 INSN_CLASS_V ''Vd,0(s),VtVm'' 0xc006007 0xfc00707f Match_opcode 0x8,
   insn_row ''vloxei64.v'' 0 INSN_CLASS_V ''Vd,0(s),VtVm'' 0xc007007 0xfc00707f Match_opcode 0x10000008,
   insn_row ''vsoxei8.v'' 0 INSN_CLASS_V ''Vd,0(s),VtVm'' 0xc000027 0xfc00707f Match_opcode 0x8,
   insn_row ''vsoxei16.v'' 0 INSN_CLASS_V ''Vd,0(s),VtVm'' 0xc005027 0xfc00707f Match_opcode 0x8,
   insn_row ''vsoxei32.v'' 0 INSN_CLASS_V ''Vd,0(s),VtVm'' 0xc006027 0xfc00707f Match_opcode 0x8,
   insn_row ''vsoxei64.v'' 0 INSN_CLASS_V ''Vd,0(s),VtVm'' 0xc007027 0xfc00707f Match_opcode 0x10000008,
   insn_row ''vluxei8.v'' 0 INSN_CLASS_V ''Vd,0(s),VtVm'' 0x4000007 0xfc00707f Match_opcode 0x8,
   insn_row ''vluxei16.v'' 0 INSN_CLASS_V ''Vd,0(s),VtVm'' 0x4005007 0xfc00707f Match_opcode 0x8,
   insn_row ''vluxei32.v'' 0 INSN_CLASS_V ''Vd,0(s),VtVm'' 0x4006007 0xfc00707f Match_opcode 0x8,
   insn_row ''vluxei64.v'' 0 INSN_CLASS_V ''Vd,0(s),VtVm'' 0x4007007 0xfc00707f Match_opcode 0x10000008,
   insn_row ''vsuxei8.v'' 0 INSN_CLASS_V ''Vd,0(s),VtVm'' 0x4000027 0xfc00707f Match_opcode 0x8,
   insn_row ''vsuxei16.v'' 0 INSN_CLASS_V ''Vd,0(s),VtVm'' 0x4005027 0xfc00707f Match_opcode 0x8,
   insn_row ''vsuxei32.v'' 0 INSN_CLASS_V ''Vd,0(s),VtVm'' 0x4006027 0xfc00707f Match_opcode 0x8,
   insn_row ''vsuxei64.v'' 0 INSN_CLASS_V ''Vd,0(s),VtVm'' 0x4007027 0xfc00707f Match_opcode 0x10000008,
   insn_row ''vle8ff.v'' 0 INSN_CLASS_V ''Vd,0(s)Vm'' 0x1000007 0xfdf0707f Match_opcode 0x8,
   insn_row ''vle16ff.v'' 0 INSN_CLASS_V ''Vd,0(s)Vm'' 0x1005007 0xfdf0707f Match_opcode 0x8,
   insn_row ''vle32ff.v'' 0 INSN_CLASS_V ''Vd,0(s)Vm'' 0x1006007 0xfdf0707f Match_opcode 0x8,
   insn_row ''vle64ff.v'' 0 INSN_CLASS_V ''Vd,0(s)Vm'' 0x1007007 0xfdf0707f Match_opcode 0x10000008,
   insn_row ''vlseg2e8.v'' 0 INSN_CLASS_V ''Vd,0(s)Vm'' 0x20000007 0xfdf0707f Match_opcode 0x8,
   insn_row ''vsseg2e8.v'' 0 INSN_CLASS_V ''Vd,0(s)Vm'' 0x20000027 0xfdf0707f Match_opcode 0x8,
   insn_row ''vlseg3e8.v'' 0 INSN_CLASS_V ''Vd,0(s)Vm'' 0x40000007 0xfdf0707f Match_opcode 0x8,
   insn_row ''vsseg3e8.v'' 0 INSN_CLASS_V ''Vd,0(s)Vm'' 0x40000027 0xfdf0707f Match_opcode 0x8,
   insn_row ''vlseg4e8.v'' 0 INSN_CLASS_V ''Vd,0(s)Vm'' 0x60000007 0xfdf0707f Match_opcode 0x8,
   insn_row ''vsseg4e8.v'' 0 INSN_CLASS_V ''Vd,0(s)Vm'' 0x60000027 0xfdf0707f Match_opcode 0x8,
   insn_row ''vlseg5e8.v'' 0 INSN_CLASS_V ''Vd,0(s)Vm'' 0x80000007 0xfdf0707f Match_opcode 0x8,
   insn_row ''vsseg5e8.v'' 0 INSN_CLASS_V ''Vd,0(s)Vm'' 0x80000027 0xfdf0707f Match_opcode 0x8,
   insn_row ''vlseg6e8.v'' 0 INSN_CLASS_V ''Vd,0(s)Vm'' 0xa0000007 0xfdf0707f Match_opcode 0x8,
   insn_row ''vsseg6e8.v'' 0 INSN_CLASS_V ''Vd,0(s)Vm'' 0xa0000027 0xfdf0707f Match_opcode 0x8,
   insn_row ''vlseg7e8.v'' 0 INSN_CLASS_V ''Vd,0(s)Vm'' 0xc0000007 0xfdf0707f Match_opcode 0x8,
   insn_row ''vsseg7e8.v'' 0 INSN_CLASS_V ''Vd,0(s)Vm'' 0xc0000027 0xfdf0707f Match_opcode 0x8,
   insn_row ''vlseg8e8.v'' 0 INSN_CLASS_V ''Vd,0(s)Vm'' 0xe0000007 0xfdf0707f Match_opcode 0x8,
   insn_row ''vsseg8e8.v'' 0 INSN_CLASS_V ''Vd,0(s)Vm'' 0xe0000027 0xfdf0707f Match_opcode 0x8,
   insn_row ''vlseg2e16.v'' 0 INSN_CLASS_V ''Vd,0(s)Vm'' 0x20005007 0xfdf0707f Match_opcode 0x8,
   insn_row ''vsseg2e16.v'' 0 INSN_CLASS_V ''Vd,0(s)Vm'' 0x20005027 0xfdf0707f Match_opcode 0x8,
   insn_row ''vlseg3e16.v'' 0 INSN_CLASS_V ''Vd,0(s)Vm'' 0x40005007 0xfdf0707f Match_opcode 0x8,
   insn_row ''vsseg3e16.v'' 0 INSN_CLASS_V ''Vd,0(s)Vm'' 0x40005027 0xfdf0707f Match_opcode 0x8,
   insn_row ''vlseg4e16.v'' 0 INSN_CLASS_V ''Vd,0(s)Vm'' 0x60005007 0xfdf0707f Match_opcode 0x8,
   insn_row ''vsseg4e16.v'' 0 INSN_CLASS_V ''Vd,0(s)Vm'' 0x60005027 0xfdf0707f Match_opcode 0x8,
   insn_row ''vlseg5e16.v'' 0 INSN_CLASS_V ''Vd,0(s)Vm'' 0x80005007 0xfdf0707f Match_opcode 0x8,
   insn_row ''vsseg5e16.v'' 0 INSN_CLASS_V ''Vd,0(s)Vm'' 0x80005027 0xfdf0707f Match_opcode 0x8,
   insn_row ''vlseg6e16.v'' 0 INSN_CLASS_V ''Vd,0(s)Vm'' 0xa0005007 0xfdf0707f Match_opcode 0x8,
   insn_row ''vsseg6e16.v'' 0 INSN_CLASS_V ''Vd,0(s)Vm'' 0xa0005027 0xfdf0707f Match_opcode 0x8,
   insn_row ''vlseg7e16.v'' 0 INSN_CLASS_V ''Vd,0(s)Vm'' 0xc0005007 0xfdf0707f Match_opcode 0x8,
   insn_row ''vsseg7e16.v'' 0 INSN_CLASS_V ''Vd,0(s)Vm'' 0xc0005027 0xfdf0707f Match_opcode 0x8,
   insn_row ''vlseg8e16.v'' 0 INSN_CLASS_V ''Vd,0(s)Vm'' 0xe0005007 0xfdf0707f Match_opcode 0x8,
   insn_row ''vsseg8e16.v'' 0 INSN_CLASS_V ''Vd,0(s)Vm'' 0xe0005027 0xfdf0707f Match_opcode 0x8,
   insn_row ''vlseg2e32.v'' 0 INSN_CLASS_V ''Vd,0(s)Vm'' 0x20006007 0xfdf0707f Match_opcode 0x8,
   insn_row ''vsseg2e32.v'' 0 INSN_CLASS_V ''Vd,0(s)Vm'' 0x20006027 0xfdf0707f Match_opcode 0x8,
   insn_row ''vlseg3e32.v'' 0 INSN_CLASS_V ''Vd,0(s)Vm'' 0x40006007 0xfdf0707f Match_opcode 0x8,
   insn_row ''vsseg3e32.v'' 0 INSN_CLASS_V ''Vd,0(s)Vm'' 0x40006027 0xfdf0707f Match_opcode 0x8,
   insn_row ''vlseg4e32.v'' 0 INSN_CLASS_V ''Vd,0(s)Vm'' 0x60006007 0xfdf0707f Match_opcode 0x8,
   insn_row ''vsseg4e32.v'' 0 INSN_CLASS_V ''Vd,0(s)Vm'' 0x60006027 0xfdf0707f Match_opcode 0x8,
   insn_row ''vlseg5e32.v'' 0 INSN_CLASS_V ''Vd,0(s)Vm'' 0x80006007 0xfdf0707f Match_opcode 0x8,
   insn_row ''vsseg5e32.v'' 0 INSN_CLASS_V ''Vd,0(s)Vm'' 0x80006027 0xfdf0707f Match_opcode 0x8,
   insn_row ''vlseg6e32.v'' 0 INSN_CLASS_V ''Vd,0(s)Vm'' 0xa0006007 0xfdf0707f Match_opcode 0x8,
   insn_row ''vsseg6e32.v'' 0 INSN_CLASS_V ''Vd,0(s)Vm'' 0xa0006027 0xfdf0707f Match_opcode 0x8,
   insn_row ''vlseg7e32.v'' 0 INSN_CLASS_V ''Vd,0(s)Vm'' 0xc0006007 0xfdf0707f Match_opcode 0x8,
   insn_row ''vsseg7e32.v'' 0 INSN_CLASS_V ''Vd,0(s)Vm'' 0xc0006027 0xfdf0707f Match_opcode 0x8,
   insn_row ''vlseg8e32.v'' 0 INSN_CLASS_V ''Vd,0(s)Vm'' 0xe0006007 0xfdf0707f Match_opcode 0x8,
   insn_row ''vsseg8e32.v'' 0 INSN_CLASS_V ''Vd,0(s)Vm'' 0xe0006027 0xfdf0707f Match_opcode 0x8,
   insn_row ''vlseg2e64.v'' 0 INSN_CLASS_V ''Vd,0(s)Vm'' 0x20007007 0xfdf0707f Match_opcode 0x10000008,
   insn_row ''vsseg2e64.v'' 0 INSN_CLASS_V ''Vd,0(s)Vm'' 0x20007027 0xfdf0707f Match_opcode 0x10000008,
   insn_row ''vlseg3e64.v'' 0 INSN_CLASS_V ''Vd,0(s)Vm'' 0x40007007 0xfdf0707f Match_opcode 0x10000008,
   insn_row ''vsseg3e64.v'' 0 INSN_CLASS_V ''Vd,0(s)Vm'' 0x40007027 0xfdf0707f Match_opcode 0x10000008,
   insn_row ''vlseg4e64.v'' 0 INSN_CLASS_V ''Vd,0(s)Vm'' 0x60007007 0xfdf0707f Match_opcode 0x10000008,
   insn_row ''vsseg4e64.v'' 0 INSN_CLASS_V ''Vd,0(s)Vm'' 0x60007027 0xfdf0707f Match_opcode 0x10000008,
   insn_row ''vlseg5e64.v'' 0 INSN_CLASS_V ''Vd,0(s)Vm'' 0x80007007 0xfdf0707f Match_opcode 0x10000008,
   insn_row ''vsseg5e64.v'' 0 INSN_CLASS_V ''Vd,0(s)Vm'' 0x80007027 0xfdf0707f Match_opcode 0x10000008,
   insn_row ''vlseg6e64.v'' 0 INSN_CLASS_V ''Vd,0(s)Vm'' 0xa0007007 0xfdf0707f Match_opcode 0x10000008,
   insn_row ''vsseg6e64.v'' 0 INSN_CLASS_V ''Vd,0(s)Vm'' 0xa0007027 0xfdf0707f Match_opcode 0x10000008,
   insn_row ''vlseg7e64.v'' 0 INSN_CLASS_V ''Vd,0(s)Vm'' 0xc0007007 0xfdf0707f Match_opcode 0x10000008,
   insn_row ''vsseg7e64.v'' 0 INSN_CLASS_V ''Vd,0(s)Vm'' 0xc0007027 0xfdf0707f Match_opcode 0x10000008,
   insn_row ''vlseg8e64.v'' 0 INSN_CLASS_V ''Vd,0(s)Vm'' 0xe0007007 0xfdf0707f Match_opcode 0x10000008,
   insn_row ''vsseg8e64.v'' 0 INSN_CLASS_V ''Vd,0(s)Vm'' 0xe0007027 0xfdf0707f Match_opcode 0x10000008,
   insn_row ''vlsseg2e8.v'' 0 INSN_CLASS_V ''Vd,0(s),tVm'' 0x28000007 0xfc00707f Match_opcode 0x8,
   insn_row ''vssseg2e8.v'' 0 INSN_CLASS_V ''Vd,0(s),tVm'' 0x28000027 0xfc00707f Match_opcode 0x8,
   insn_row ''vlsseg3e8.v'' 0 INSN_CLASS_V ''Vd,0(s),tVm'' 0x48000007 0xfc00707f Match_opcode 0x8,
   insn_row ''vssseg3e8.v'' 0 INSN_CLASS_V ''Vd,0(s),tVm'' 0x48000027 0xfc00707f Match_opcode 0x8,
   insn_row ''vlsseg4e8.v'' 0 INSN_CLASS_V ''Vd,0(s),tVm'' 0x68000007 0xfc00707f Match_opcode 0x8,
   insn_row ''vssseg4e8.v'' 0 INSN_CLASS_V ''Vd,0(s),tVm'' 0x68000027 0xfc00707f Match_opcode 0x8,
   insn_row ''vlsseg5e8.v'' 0 INSN_CLASS_V ''Vd,0(s),tVm'' 0x88000007 0xfc00707f Match_opcode 0x8,
   insn_row ''vssseg5e8.v'' 0 INSN_CLASS_V ''Vd,0(s),tVm'' 0x88000027 0xfc00707f Match_opcode 0x8,
   insn_row ''vlsseg6e8.v'' 0 INSN_CLASS_V ''Vd,0(s),tVm'' 0xa8000007 0xfc00707f Match_opcode 0x8,
   insn_row ''vssseg6e8.v'' 0 INSN_CLASS_V ''Vd,0(s),tVm'' 0xa8000027 0xfc00707f Match_opcode 0x8,
   insn_row ''vlsseg7e8.v'' 0 INSN_CLASS_V ''Vd,0(s),tVm'' 0xc8000007 0xfc00707f Match_opcode 0x8,
   insn_row ''vssseg7e8.v'' 0 INSN_CLASS_V ''Vd,0(s),tVm'' 0xc8000027 0xfc00707f Match_opcode 0x8,
   insn_row ''vlsseg8e8.v'' 0 INSN_CLASS_V ''Vd,0(s),tVm'' 0xe8000007 0xfc00707f Match_opcode 0x8,
   insn_row ''vssseg8e8.v'' 0 INSN_CLASS_V ''Vd,0(s),tVm'' 0xe8000027 0xfc00707f Match_opcode 0x8,
   insn_row ''vlsseg2e16.v'' 0 INSN_CLASS_V ''Vd,0(s),tVm'' 0x28005007 0xfc00707f Match_opcode 0x8,
   insn_row ''vssseg2e16.v'' 0 INSN_CLASS_V ''Vd,0(s),tVm'' 0x28005027 0xfc00707f Match_opcode 0x8,
   insn_row ''vlsseg3e16.v'' 0 INSN_CLASS_V ''Vd,0(s),tVm'' 0x48005007 0xfc00707f Match_opcode 0x8,
   insn_row ''vssseg3e16.v'' 0 INSN_CLASS_V ''Vd,0(s),tVm'' 0x48005027 0xfc00707f Match_opcode 0x8,
   insn_row ''vlsseg4e16.v'' 0 INSN_CLASS_V ''Vd,0(s),tVm'' 0x68005007 0xfc00707f Match_opcode 0x8,
   insn_row ''vssseg4e16.v'' 0 INSN_CLASS_V ''Vd,0(s),tVm'' 0x68005027 0xfc00707f Match_opcode 0x8,
   insn_row ''vlsseg5e16.v'' 0 INSN_CLASS_V ''Vd,0(s),tVm'' 0x88005007 0xfc00707f Match_opcode 0x8,
   insn_row ''vssseg5e16.v'' 0 INSN_CLASS_V ''Vd,0(s),tVm'' 0x88005027 0xfc00707f Match_opcode 0x8,
   insn_row ''vlsseg6e16.v'' 0 INSN_CLASS_V ''Vd,0(s),tVm'' 0xa8005007 0xfc00707f Match_opcode 0x8,
   insn_row ''vssseg6e16.v'' 0 INSN_CLASS_V ''Vd,0(s),tVm'' 0xa8005027 0xfc00707f Match_opcode 0x8,
   insn_row ''vlsseg7e16.v'' 0 INSN_CLASS_V ''Vd,0(s),tVm'' 0xc8005007 0xfc00707f Match_opcode 0x8,
   insn_row ''vssseg7e16.v'' 0 INSN_CLASS_V ''Vd,0(s),tVm'' 0xc8005027 0xfc00707f Match_opcode 0x8,
   insn_row ''vlsseg8e16.v'' 0 INSN_CLASS_V ''Vd,0(s),tVm'' 0xe8005007 0xfc00707f Match_opcode 0x8,
   insn_row ''vssseg8e16.v'' 0 INSN_CLASS_V ''Vd,0(s),tVm'' 0xe8005027 0xfc00707f Match_opcode 0x8,
   insn_row ''vlsseg2e32.v'' 0 INSN_CLASS_V ''Vd,0(s),tVm'' 0x28006007 0xfc00707f Match_opcode 0x8,
   insn_row ''vssseg2e32.v'' 0 INSN_CLASS_V ''Vd,0(s),tVm'' 0x28006027 0xfc00707f Match_opcode 0x8,
   insn_row ''vlsseg3e32.v'' 0 INSN_CLASS_V ''Vd,0(s),tVm'' 0x48006007 0xfc00707f Match_opcode 0x8,
   insn_row ''vssseg3e32.v'' 0 INSN_CLASS_V ''Vd,0(s),tVm'' 0x48006027 0xfc00707f Match_opcode 0x8,
   insn_row ''vlsseg4e32.v'' 0 INSN_CLASS_V ''Vd,0(s),tVm'' 0x68006007 0xfc00707f Match_opcode 0x8]"

lemma rows_ok_5: "list_all (row_ok False) riscv_opcodes_5"
  by (simp add: riscv_opcodes_5_def row_eval)

lemma ends_5 [simp]:
  "riscv_opcodes_5 \<noteq> []" "opc_name (hd riscv_opcodes_5) = ''fmv.d''" "opc_name (last riscv_opcodes_5) = ''c.lwsp''"
  unfolding riscv_opcodes_5_def
  by (simp_all only: list.sel last.simps list.distinct if_False if_True refl insn_row_name not_False_eq_True simp_thms)

definition keys_5 :: "int list" where
  "keys_5 = [
    127991, 79797, 80689, 150847, 90791, 205281, 261928, 13320, 67204, 70053, 23739, 69370, 82659, 160283, 75017,
    173814, 88548, 207882, 244482, 252509, 18263, 252505, 162086, 29005, 231684, 190745, 19010, 94727, 185131, 245951,
    16991, 81943, 138098, 252498, 17086, 130911, 131660, 128004, 79810, 80702, 150860, 90804, 205294, 261941, 13333,
    67217, 70066, 23752, 69383, 82672, 160296, 75030, 173827, 88561, 207895, 244495, 139207, 215482, 139203, 139188,
    162099, 252503, 29018, 231697, 190758, 19023, 94740, 185144, 81956, 138111, 139196, 214305, 30208, 158236, 184871,
    156969, 89923, 119061, 102107, 203864, 238290]"

lemma group_keys_5: "map name_key (group_names riscv_opcodes_5) = keys_5"
  by code_simp

lemma key_classes_5:
  "key_class 0 keys_5 = [82672, 30208]"
  "key_class 1 keys_5 = [80689, 205281, 67217, 88561, 231697, 214305]"
  "key_class 2 keys_5 = [244482, 19010, 138098, 252498, 79810, 70066, 238290]"
  "key_class 3 keys_5 = [82659, 173827, 139203, 162099, 89923]"
  "key_class 4 keys_5 = [67204, 88548, 231684, 128004, 90804, 139188, 94740, 81956]"
  "key_class 5 keys_5 = [79797, 70053, 261941, 13333, 119061]"
  "key_class 6 keys_5 = [173814, 162086, 75030, 190758]"
  "key_class 7 keys_5 = [127991, 90791, 18263, 94727, 81943, 69383, 207895, 139207, 252503, 184871]"
  "key_class 8 keys_5 = [261928, 13320, 23752, 160296, 185144, 203864]"
  "key_class 9 keys_5 = [75017, 252505, 190745, 156969]"
  "key_class 10 keys_5 = [69370, 207882, 215482, 29018]"
  "key_class 11 keys_5 = [23739, 160283, 185131, 102107]"
  "key_class 12 keys_5 = [131660, 150860, 139196, 158236]"
  "key_class 13 keys_5 = [252509, 29005]"
  "key_class 14 keys_5 = [17086, 80702, 205294]"
  "key_class 15 keys_5 = [150847, 245951, 16991, 130911, 244495, 19023, 138111]"
  by code_simp+

lemma rows_ok_6: "list_all (row_ok False) riscv_opcodes_6"
  by (simp add: riscv_opcodes_6_def row_eval)

lemma ends_6 [simp]:
  "riscv_opcodes_6 \<noteq> []" "opc_name (hd riscv_opcodes_6) = ''c.lw''" "opc_name (last riscv_opcodes_6) = ''pack''"
  unfolding riscv_opcodes_6_def
  by (simp_all only: list.sel last.simps list.distinct if_False if_True refl insn_row_name not_False_eq_True simp_thms)

definition keys_6 :: "int list" where
  "keys_6 = [
    185090, 163004, 185839, 166359, 185196, 144096, 185076, 150874, 234042, 174902, 16333, 224232, 17403, 185406,
    18712, 36309, 105003, 103826, 217256, 15723, 171478, 27253, 102764, 174916, 138294, 20759, 185071, 207612, 185820,
    255533, 74434, 180247, 75183, 210925, 74453, 135639, 75202, 233827, 187095, 55621, 200006, 19605, 121362, 215347,
    10453, 64821, 64806, 64819, 64810, 11905, 123133, 11890, 123118, 11903, 123131, 11894, 123122, 181512, 240508,
    181497, 240493, 181510, 240506, 181501, 240497, 99903, 4341, 118328, 4354, 5026, 200015, 174100, 200000, 174085,
    200013, 174098, 200004, 174089, 96573, 97429, 154621, 210730, 209884, 4273, 175890, 240293, 240299, 203917, 97385,
    110009, 201601, 29809, 258771, 97430, 245975, 178816]"

lemma group_keys_6: "map name_key (group_names riscv_opcodes_6) = keys_6"
  by code_simp

lemma key_classes_6:
  "key_class 0 keys_6 = [144096, 200000, 178816]"
  "key_class 1 keys_6 = [11905, 240497, 4273, 201601, 29809]"
  "key_class 2 keys_6 = [185090, 103826, 74434, 75202, 121362, 11890, 123122, 4354, 5026, 174098, 175890]"
  "key_class 3 keys_6 = [233827, 215347, 64819, 258771]"
  "key_class 4 keys_6 = [185076, 174916, 174100, 200004]"
  "key_class 5 keys_6 = [36309, 27253, 74453, 55621, 19605, 10453, 64821, 4341, 174085, 97429, 240293]"
  "key_class 6 keys_6 = [174902, 171478, 138294, 200006, 64806, 11894, 181510, 97430]"
  "key_class 7 keys_6 = [166359, 20759, 180247, 135639, 187095, 245975]"
  "key_class 8 keys_6 = [224232, 18712, 217256, 181512, 118328]"
  "key_class 9 keys_6 = [181497, 174089, 97385, 110009]"
  "key_class 10 keys_6 = [150874, 234042, 64810, 240506, 210730]"
  "key_class 11 keys_6 = [17403, 105003, 15723, 123131, 240299]"
  "key_class 12 keys_6 = [163004, 185196, 102764, 207612, 185820, 240508, 209884]"
  "key_class 13 keys_6 = [16333, 255533, 210925, 123133, 240493, 181501, 200013, 96573, 154621, 203917]"
  "key_class 14 keys_6 = [185406, 123118]"
  "key_class 15 keys_6 = [185839, 185071, 75183, 11903, 99903, 200015]"
  by code_simp+

lemma rows_ok_7: "list_all (row_ok False) riscv_opcodes_7"
  by (simp add: riscv_opcodes_7_def row_eval)

lemma ends_7 [simp]:
  "riscv_opcodes_7 \<noteq> []" "opc_name (hd riscv_opcodes_7) = ''packh''" "opc_name (last riscv_opcodes_7) = ''vsse64.v''"
  unfolding riscv_opcodes_7_def
  by (simp_all only: list.sel last.simps list.distinct if_False if_True refl insn_row_name not_False_eq_True simp_thms)

definition keys_7 :: "int list" where
  "keys_7 = [
    259408, 259423, 39709, 234591, 168006, 6476, 6482, 169401, 55290, 168773, 169415, 38435, 110940, 25288, 201775,
    58745, 101795, 144845, 203932, 44624, 22042, 87904, 230967, 230977, 91117, 50481, 11415, 172954, 160029, 84173,
    115301, 16779, 26732, 26736, 72951, 204259, 119408, 194093, 119937, 239508, 12038, 84400, 118607, 119515, 205542,
    24451, 24452, 162481, 162482, 143728, 143732, 143835, 143839, 233164, 233271, 246332, 246333, 122223, 122224,
    33833, 34490, 23509, 23510, 16450, 187421, 49180, 10097, 196950, 219522, 28090, 37526, 242489, 25389, 53470,
    108233, 206107, 251146, 17088, 147121, 172899, 217938, 246019, 110739, 212110, 257149, 23091]"

lemma group_keys_7: "map name_key (group_names riscv_opcodes_7) = keys_7"
  by code_simp

lemma key_classes_7:
  "key_class 0 keys_7 = [259408, 44624, 87904, 26736, 119408, 84400, 143728, 122224, 17088]"
  "key_class 1 keys_7 = [230977, 50481, 119937, 162481, 10097, 147121]"
  "key_class 2 keys_7 = [6482, 162482, 16450, 219522, 217938]"
  "key_class 3 keys_7 = [38435, 101795, 204259, 24451, 172899, 246019, 110739, 23091]"
  "key_class 4 keys_7 = [239508, 24452, 143732]"
  "key_class 5 keys_7 = [168773, 115301, 23509]"
  "key_class 6 keys_7 = [168006, 12038, 205542, 23510, 196950, 37526]"
  "key_class 7 keys_7 = [169415, 230967, 11415, 72951, 233271]"
  "key_class 8 keys_7 = [25288]"
  "key_class 9 keys_7 = [169401, 58745, 33833, 242489, 108233]"
  "key_class 10 keys_7 = [55290, 22042, 172954, 34490, 28090, 251146]"
  "key_class 11 keys_7 = [16779, 119515, 143835, 206107]"
  "key_class 12 keys_7 = [6476, 110940, 203932, 26732, 233164, 246332, 49180]"
  "key_class 13 keys_7 = [39709, 144845, 91117, 160029, 84173, 194093, 246333, 187421, 25389, 257149]"
  "key_class 14 keys_7 = [53470, 212110]"
  "key_class 15 keys_7 = [259423, 234591, 201775, 118607, 143839, 122223]"
  by code_simp+

lemma rows_ok_8: "list_all (row_ok False) riscv_opcodes_8"
  by (simp add: riscv_opcodes_8_def row_eval)

lemma ends_8 [simp]:
  "riscv_opcodes_8 \<noteq> []" "opc_name (hd riscv_opcodes_8) = ''vloxei8.v''" "opc_name (last riscv_opcodes_8) = ''vlsseg4e32.v''"
  unfolding riscv_opcodes_8_def
  by (simp_all only: list.sel last.simps list.distinct if_False if_True refl insn_row_name not_False_eq_True simp_thms)

definition keys_8 :: "int list" where
  "keys_8 = [
    604, 223920, 6820, 34901, 1957, 106552, 151591, 179672, 258904, 75286, 120325, 148406, 260257, 220057, 2957,
    31038, 257477, 210536, 234634, 89450, 64500, 209271, 74601, 219372, 84702, 229473, 94803, 239574, 104904, 249675,
    115005, 259776, 125106, 7738, 245178, 7335, 15290, 39586, 47541, 71837, 79792, 104088, 112043, 136339, 144294,
    168590, 176545, 200841, 28078, 52374, 60329, 84625, 92580, 116876, 124831, 149127, 157082, 181378, 189333, 213629,
    221584, 245880, 56159, 80455, 88410, 112706, 120661, 144957, 152912, 177208, 185163, 209459, 217414, 241710,
    249665, 11822, 70598, 94894, 80699, 104995, 90800, 115096, 100901, 125197, 111002, 135298, 121103, 145399, 131204,
    155500, 111247, 89529, 143498, 121780, 175749, 154031, 208000, 186282, 240251, 218533, 10363, 250784, 42614,
    20896, 156286, 134568, 188537, 166819, 220788]"

lemma group_keys_8: "map name_key (group_names riscv_opcodes_8) = keys_8"
  by code_simp

lemma key_classes_8:
  "key_class 0 keys_8 = [223920, 259776, 79792, 221584, 152912, 90800, 208000, 250784, 20896]"
  "key_class 1 keys_8 = [260257, 229473, 176545, 84625, 249665]"
  "key_class 2 keys_8 = [125106, 39586, 181378, 112706, 135298]"
  "key_class 3 keys_8 = [94803, 136339, 209459, 104995, 166819]"
  "key_class 4 keys_8 = [6820, 64500, 92580, 131204, 121780, 220788]"
  "key_class 5 keys_8 = [34901, 1957, 120325, 257477, 47541, 189333, 120661, 100901, 175749, 218533]"
  "key_class 6 keys_8 = [75286, 148406, 239574, 144294, 52374, 217414, 70598, 42614]"
  "key_class 7 keys_8 = [151591, 209271, 7335, 149127, 80455, 145399]"
  "key_class 8 keys_8 = [106552, 179672, 258904, 210536, 104904, 104088, 245880, 177208, 115096, 134568]"
  "key_class 9 keys_8 = [220057, 74601, 200841, 60329, 89529, 188537]"
  "key_class 10 keys_8 = [234634, 89450, 7738, 245178, 15290, 157082, 88410, 111002, 143498, 186282]"
  "key_class 11 keys_8 = [249675, 112043, 185163, 80699, 240251, 10363]"
  "key_class 12 keys_8 = [604, 219372, 116876, 155500]"
  "key_class 13 keys_8 = [2957, 115005, 71837, 213629, 144957, 125197]"
  "key_class 14 keys_8 = [31038, 84702, 168590, 28078, 241710, 11822, 94894, 156286]"
  "key_class 15 keys_8 = [124831, 56159, 121103, 111247, 154031]"
  by code_simp+

end
