(* ===== verification/Riscv_Table3.thy ===== *)
theory Riscv_Table3
  imports Riscv_Validate
begin

text \<open>
  Rows of \<open>riscv_opcodes\<close> (opcodes/riscv-opc.c, lines 1299 to 1778), in the order of the source, with the macros
  of include/opcode/riscv-opc.h expanded; each part is checked against \<open>validate_riscv_insn\<close>.
\<close>

definition riscv_opcodes_9 :: "riscv_opcode list" where
  "riscv_opcodes_9 =
  [
   insn_row ''vssseg4e32.v'' 0 INSN_CLASS_V ''Vd,0(s),tVm'' 0x68006027 0xfc00707f Match_opcode 0x8,
   insn_row ''vlsseg5e32.v'' 0 INSN_CLASS_V ''Vd,0(s),tVm'' 0x88006007 0xfc00707f Match_opcode 0x8,
   insn_row ''vssseg5e32.v'' 0 INSN_CLASS_V ''Vd,0(s),tVm'' 0x88006027 0xfc00707f Match_opcode 0x8,
   insn_row ''vlsseg6e32.v'' 0 INSN_CLASS_V ''Vd,0(s),tVm'' 0xa8006007 0xfc00707f Match_opcode 0x8,
   insn_row ''vssseg6e32.v'' 0 INSN_CLASS_V ''Vd,0(s),tVm'' 0xa8006027 0xfc00707f Match_opcode 0x8,
   insn_row ''vlsseg7e32.v'' 0 INSN_CLASS_V ''Vd,0(s),tVm'' 0xc8006007 0xfc00707f Match_opcode 0x8,
   insn_row ''vssseg7e32.v'' 0 INSN_CLASS_V ''Vd,0(s),tVm'' 0xc8006027 0xfc00707f Match_opcode 0x8,
   insn_row ''vlsseg8e32.v'' 0 INSN_CLASS_V ''Vd,0(s),tVm'' 0xe8006007 0xfc00707f Match_opcode 0x8,
   insn_row ''vssseg8e32.v'' 0 INSN_CLASS_V ''Vd,0(s),tVm'' 0xe8006027 0xfc00707f Match_opcode 0x8,
   insn_row ''vlsseg2e64.v'' 0 INSN_CLASS_V ''Vd,0(s),tVm'' 0x28007007 0xfc00707f Match_opcode 0x10000008,
   insn_row ''vssseg2e64.v'' 0 INSN_CLASS_V ''Vd,0(s),tVm'' 0x28007027 0xfc00707f Match_opcode 0x10000008,
   insn_row ''vlsseg3e64.v'' 0 INSN_CLASS_V ''Vd,0(s),tVm'' 0x48007007 0xfc00707f Match_opcode 0x10000008,
   insn_row ''vssseg3e64.v'' 0 INSN_CLASS_V ''Vd,0(s),tVm'' 0x48007027 0xfc00707f Match_opcode 0x10000008,
   insn_row ''vlsseg4e64.v'' 0 INSN_CLASS_V ''Vd,0(s),tVm'' 0x68007007 0xfc00707f Match_opcode 0x10000008,
   insn_row ''vssseg4e64.v'' 0 INSN_CLASS_V ''Vd,0(s),tVm'' 0x68007027 0xfc00707f Match_opcode 0x10000008,
   insn_row ''vlsseg5e64.v'' 0 INSN_CLASS_V ''Vd,0(s),tVm'' 0x88007007 0xfc00707f Match_opcode 0x10000008,
   insn_row ''vssseg5e64.v'' 0 INSN_CLASS_V ''Vd,0(s),tVm'' 0x88007027 0xfc00707f Match_opcode 0x10000008,
   insn_row ''vlsseg6e64.v'' 0 INSN_CLASS_V ''Vd,0(s),tVm'' 0xa8007007 0xfc00707f Match_opcode 0x10000008,
   insn_row ''vssseg6e64.v'' 0 INSN_CLASS_V ''Vd,0(s),tVm'' 0xa8007027 0xfc00707f Match_opcode 0x10000008,
   insn_row ''vlsseg7e64.v'' 0 INSN_CLASS_V ''Vd,0(s),tVm'' 0xc8007007 0xfc00707f Match_opcode 0x10000008,
   insn_row ''vssseg7e64.v'' 0 INSN_CLASS_V ''Vd,0(s),tVm'' 0xc8007027 0xfc00707f Match_opcode 0x10000008,
   insn_row ''vlsseg8e64.v'' 0 INSN_CLASS_V ''Vd,0(s),tVm'' 0xe8007007 0xfc00707f Match_opcode 0x10000008,
   insn_row ''vssseg8e64.v'' 0 INSN_CLASS_V ''Vd,0(s),tVm'' 0xe8007027 0xfc00707f Match_opcode 0x10000008,
   insn_row ''vloxseg2ei8.v'' 0 INSN_CLASS_V ''Vd,0(s),VtVm'' 0x2c000007 0xfc00707f Match_opcode 0x8,
   insn_row ''vsoxseg2ei8.v'' 0 INSN_CLASS_V ''Vd,0(s),VtVm'' 0x2c000027 0xfc00707f Match_opcode 0x8,
   insn_row ''vloxseg3ei8.v'' 0 INSN_CLASS_V ''Vd,0(s),VtVm'' 0x4c000007 0xfc00707f Match_opcode 0x8,
   insn_row ''vsoxseg3ei8.v'' 0 INSN_CLASS_V ''Vd,0(s),VtVm'' 0x4c000027 0xfc00707f Match_opcode 0x8,
   insn_row ''vloxseg4ei8.v'' 0 INSN_CLASS_V ''Vd,0(s),VtVm'' 0x6c000007 0xfc00707f Match_opcode 0x8,
   insn_row ''vsoxseg4ei8.v'' 0 INSN_CLASS_V ''Vd,0(s),VtVm'' 0x6c000027 0xfc00707f Match_opcode 0x8,
   insn_row ''vloxseg5ei8.v'' 0 INSN_CLASS_V ''Vd,0(s),VtVm'' 0x8c000007 0xfc00707f Match_opcode 0x8,
   insn_row ''vsoxseg5ei8.v'' 0 INSN_CLASS_V ''Vd,0(s),VtVm'' 0x8c000027 0xfc00707f Match_opcode 0x8,
   insn_row ''vloxseg6ei8.v'' 0 INSN_CLASS_V ''Vd,0(s),VtVm'' 0xac000007 0xfc00707f Match_opcode 0x8,
   insn_row ''vsoxseg6ei8.v'' 0 INSN_CLASS_V ''Vd,0(s),VtVm'' 0xac000027 0xfc00707f Match_opcode 0x8,
   insn_row ''vloxseg7ei8.v'' 0 INSN_CLASS_V ''Vd,0(s),VtVm'' 0xcc000007 0xfc00707f Match_opcode 0x8,
   insn_row ''vsoxseg7ei8.v'' 0 INSN_CLASS_V ''Vd,0(s),VtVm'' 0xcc000027 0xfc00707f Match_opcode 0x8,
   insn_row ''vloxseg8ei8.v'' 0 INSN_CLASS_V ''Vd,0(s),VtVm'' 0xec000007 0xfc00707f Match_opcode 0x8,
   insn_row ''vsoxseg8ei8.v'' 0 INSN_CLASS_V ''Vd,0(s),VtVm'' 0xec000027 0xfc00707f Match_opcode 0x8,
   insn_row ''vloxseg2ei16.v'' 0 INSN_CLASS_V ''Vd,0(s),VtVm'' 0x2c005007 0xfc00707f Match_opcode 0x8,
   insn_row ''vsoxseg2ei16.v'' 0 INSN_CLASS_V ''Vd,0(s),VtVm'' 0x2c005027 0xfc00707f Match_opcode 0x8,
   insn_row ''vloxseg3ei16.v'' 0 INSN_CLASS_V ''Vd,0(s),VtVm'' 0x4c005007 0xfc00707f Match_opcode 0x8,
   insn_row ''vsoxseg3ei16.v'' 0 INSN_CLASS_V ''Vd,0(s),VtVm'' 0x4c005027 0xfc00707f Match_opcode 0x8,
   insn_row ''vloxseg4ei16.v'' 0 INSN_CLASS_V ''Vd,0(s),VtVm'' 0x6c005007 0xfc00707f Match_opcode 0x8,
   insn_row ''vsoxseg4ei16.v'' 0 INSN_CLASS_V ''Vd,0(s),VtVm'' 0x6c005027 0xfc00707f Match_opcode 0x8,
   insn_row ''vloxseg5ei16.v'' 0 INSN_CLASS_V ''Vd,0(s),VtVm'' 0x8c005007 0xfc00707f Match_opcode 0x8,
   insn_row ''vsoxseg5ei16.v'' 0 INSN_CLASS_V ''Vd,0(s),VtVm'' 0x8c005027 0xfc00707f Match_opcode 0x8,
   insn_row ''vloxseg6ei16.v'' 0 INSN_CLASS_V ''Vd,0(s),VtVm'' 0xac005007 0xfc00707f Match_opcode 0x8,
   insn_row ''vsoxseg6ei16.v'' 0 INSN_CLASS_V ''Vd,0(s),VtVm'' 0xac005027 0xfc00707f Match_opcode 0x8,
   insn_row ''vloxseg7ei16.v'' 0 INSN_CLASS_V ''Vd,0(s),VtVm'' 0xcc005007 0xfc00707f Match_opcode 0x8,
   insn_row ''vsoxseg7ei16.v'' 0 INSN_CLASS_V ''Vd,0(s),VtVm'' 0xcc005027 0xfc00707f Match_opcode 0x8,
   insn_row ''vloxseg8ei16.v'' 0 INSN_CLASS_V ''Vd,0(s),VtVm'' 0xec005007 0xfc00707f Match_opcode 0x8,
   insn_row ''vsoxseg8ei16.v'' 0 INSN_CLASS_V ''Vd,0(s),VtVm'' 0xec005027 0xfc00707f Match_opcode 0x8,
   insn_row ''vloxseg2ei32.v'' 0 INSN_CLASS_V ''Vd,0(s),VtVm'' 0x2c006007 0xfc00707f Match_opcode 0x8,
   insn_row ''vsoxseg2ei32.v'' 0 INSN_CLASS_V ''Vd,0(s),VtVm'' 0x2c006027 0xfc00707f Match_opcode 0x8,
   insn_row ''vloxseg3ei32.v'' 0 INSN_CLASS_V ''Vd,0(s),VtVm'' 0x4c006007 0xfc00707f Match_opcode 0x8,
   insn_row ''vsoxseg3ei32.v'' 0 INSN_CLASS_V ''Vd,0(s),VtVm'' 0x4c006027 0xfc00707f Match_opcode 0x8,
   insn_row ''vloxseg4ei32.v'' 0 INSN_CLASS_V ''Vd,0(s),VtVm'' 0x6c006007 0xfc00707f Match_opcode 0x8,
   insn_row ''vsoxseg4ei32.v'' 0 INSN_CLASS_V ''Vd,0(s),VtVm'' 0x6c006027 0xfc00707f Match_opcode 0x8,
   insn_row ''vloxseg5ei32.v'' 0 INSN_CLASS_V ''Vd,0(s),VtVm'' 0x8c006007 0xfc00707f Match_opcode 0x8,
   insn_row ''vsoxseg5ei32.v'' 0 INSN_CLASS_V ''Vd,0(s),VtVm'' 0x8c006027 0xfc00707f Match_opcode 0x8,
   insn_row ''vloxseg6ei32.v'' 0 INSN_CLASS_V ''Vd,0(s),VtVm'' 0xac006007 0xfc00707f Match_opcode 0x8,
   insn_row ''vsoxseg6ei32.v'' 0 INSN_CLASS_V ''Vd,0(s),VtVm'' 0xac006027 0xfc00707f Match_opcode 0x8,
   insn_row ''vloxseg7ei32.v'' 0 INSN_CLASS_V ''Vd,0(s),VtVm'' 0xcc006007 0xfc00707f Match_opcode 0x8,
   insn_row ''vsoxseg7ei32.v'' 0 INSN_CLASS_V ''Vd,0(s),VtVm'' 0xcc006027 0xfc00707f Match_opcode 0x8,
   insn_row ''vloxseg8ei32.v'' 0 INSN_CLASS_V ''Vd,0(s),VtVm'' 0xec006007 0xfc00707f Match_opcode 0x8,
   insn_row ''vsoxseg8ei32.v'' 0 INSN_CLASS_V ''Vd,0(s),VtVm'' 0xec006027 0xfc00707f Match_opcode 0x8,
   insn_row ''vloxseg2ei64.v'' 0 INSN_CLASS_V ''Vd,0(s),VtVm'' 0x2c007007 0xfc00707f Match_opcode 0x10000008,
   insn_row ''vsoxseg2ei64.v'' 0 INSN_CLASS_V ''Vd,0(s),VtVm'' 0x2c007027 0xfc00707f Match_opcode 0x10000008,
   insn_row ''vloxseg3ei64.v'' 0 INSN_CLASS_V ''Vd,0(s),VtVm'' 0x4c007007 0xfc00707f Match_opcode 0x10000008,
   insn_row ''vsoxseg3ei64.v'' 0 INSN_CLASS_V ''Vd,0(s),VtVm'' 0x4c007027 0xfc00707f Match_opcode 0x10000008,
   insn_row ''vloxseg4ei64.v'' 0 INSN_CLASS_V ''Vd,0(s),VtVm'' 0x6c007007 0xfc00707f Match_opcode 0x10000008,
   insn_row ''vsoxseg4ei64.v'' 0 INSN_CLASS_V ''Vd,0(s),VtVm'' 0x6c007027 0xfc00707f Match_opcode 0x10000008,
   insn_row ''vloxseg5ei64.v'' 0 INSN_CLASS_V ''Vd,0(s),VtVm'' 0x8c007007 0xfc00707f Match_opcode 0x10000008,
   insn_row ''vsoxseg5ei64.v'' 0 INSN_CLASS_V ''Vd,0(s),VtVm'' 0x8c007027 0xfc00707f Match_opcode 0x10000008,
   insn_row ''vloxseg6ei64.v'' 0 INSN_CLASS_V ''Vd,0(s),VtVm'' 0xac007007 0xfc00707f Match_opcode 0x10000008,
   insn_row ''vsoxseg6ei64.v'' 0 INSN_CLASS_V ''Vd,0(s),VtVm'' 0xac007027 0xfc00707f Match_opcode 0x10000008,
   insn_row ''vloxseg7ei64.v'' 0 INSN_CLASS_V ''Vd,0(s),VtVm'' 0xcc007007 0xfc00707f Match_opcode 0x10000008,
   insn_row ''vsoxseg7ei64.v'' 0 INSN_CLASS_V ''Vd,0(s),VtVm'' 0xcc007027 0xfc00707f Match_opcode 0x10000008,
   insn_row ''vloxseg8ei64.v'' 0 INSN_CLASS_V ''Vd,0(s),VtVm'' 0xec007007 0xfc00707f Match_opcode 0x10000008,
   insn_row ''vsoxseg8ei64.v'' 0 INSN_CLASS_V ''Vd,0(s),VtVm'' 0xec007027 0xfc00707f Match_opcode 0x10000008,
   insn_row ''vluxseg2ei8.v'' 0 INSN_CLASS_V ''Vd,0(s),VtVm'' 0x24000007 0xfc00707f Match_opcode 0x8,
   insn_row ''vsuxseg2ei8.v'' 0 INSN_CLASS_V ''Vd,0(s),VtVm'' 0x24000027 0xfc00707f Match_opcode 0x8,
   insn_row ''vluxseg3ei8.v'' 0 INSN_CLASS_V ''Vd,0(s),VtVm'' 0x44000007 0xfc00707f Match_opcode 0x8,
   insn_row ''vsuxseg3ei8.v'' 0 INSN_CLASS_V ''Vd,0(s),VtVm'' 0x44000027 0xfc00707f Match_opcode 0x8,
   insn_row ''vluxseg4ei8.v'' 0 INSN_CLASS_V ''Vd,0(s),VtVm'' 0x64000007 0xfc00707f Match_opcode 0x8,
   insn_row ''vsuxseg4ei8.v'' 0 INSN_CLASS_V ''Vd,0(s),VtVm'' 0x64000027 0xfc00707f Match_opcode 0x8,
   insn_row ''vluxseg5ei8.v'' 0 INSN_CLASS_V ''Vd,0(s),VtVm'' 0x84000007 0xfc00707f Match_opcode 0x8,
   insn_row ''vsuxseg5ei8.v'' 0 INSN_CLASS_V ''Vd,0(s),VtVm'' 0x84000027 0xfc00707f Match_opcode 0x8,
   insn_row ''vluxseg6ei8.v'' 0 INSN_CLASS_V ''Vd,0(s),VtVm'' 0xa4000007 0xfc00707f Match_opcode 0x8,
   insn_row ''vsuxseg6ei8.v'' 0 INSN_CLASS_V ''Vd,0(s),VtVm'' 0xa4000027 0xfc00707f Match_opcode 0x8,
   insn_row ''vluxseg7ei8.v'' 0 INSN_CLASS_V ''Vd,0(s),VtVm'' 0xc4000007 0xfc00707f Match_opcode 0x8,
   insn_row ''vsuxseg7ei8.v'' 0 INSN_CLASS_V ''Vd,0(s),VtVm'' 0xc4000027 0xfc00707f Match_opcode 0x8,
   insn_row ''vluxseg8ei8.v'' 0 INSN_CLASS_V ''Vd,0(s),VtVm'' 0xe4000007 0xfc00707f Match_opcode 0x8,
   insn_row ''vsuxseg8ei8.v'' 0 INSN_CLASS_V ''Vd,0(s),VtVm'' 0xe4000027 0xfc00707f Match_opcode 0x8,
   insn_row ''vluxseg2ei16.v'' 0 INSN_CLASS_V ''Vd,0(s),VtVm'' 0x24005007 0xfc00707f Match_opcode 0x8,
   insn_row ''vsuxseg2ei16.v'' 0 INSN_CLASS_V ''Vd,0(s),VtVm'' 0x24005027 0xfc00707f Match_opcode 0x8,
   insn_row ''vluxseg3ei16.v'' 0 INSN_CLASS_V ''Vd,0(s),VtVm'' 0x44005007 0xfc00707f Match_opcode 0x8,
   insn_row ''vsuxseg3ei16.v'' 0 INSN_CLASS_V ''Vd,0(s),VtVm'' 0x44005027 0xfc00707f Match_opcode 0x8,
   insn_row ''vluxseg4ei16.v'' 0 INSN_CLASS_V ''Vd,0(s),VtVm'' 0x64005007 0xfc00707f Match_opcode 0x8,
   insn_row ''vsuxseg4ei16.v'' 0 INSN_CLASS_V ''Vd,0(s),VtVm'' 0x64005027 0xfc00707f Match_opcode 0x8,
   insn_row ''vluxseg5ei16.v'' 0 INSN_CLASS_V ''Vd,0(s),VtVm'' 0x84005007 0xfc00707f Match_opcode 0x8,
   insn_row ''vsuxseg5ei16.v'' 0 INSN_CLASS_V ''Vd,0(s),VtVm'' 0x84005027 0xfc00707f Match_opcode 0x8,
   insn_row ''vluxseg6ei16.v'' 0 INSN_CLASS_V ''Vd,0(s),VtVm'' 0xa4005007 0xfc00707f Match_opcode 0x8,
   insn_row ''vsuxseg6ei16.v'' 0 INSN_CLASS_V ''Vd,0(s),VtVm'' 0xa4005027 0xfc00707f Match_opcode 0x8,
   insn_row ''vluxseg7ei16.v'' 0 INSN_CLASS_V ''Vd,0(s),VtVm'' 0xc4005007 0xfc00707f Match_opcode 0x8,
   insn_row ''vsuxseg7ei16.v'' 0 INSN_CLASS_V ''Vd,0(s),VtVm'' 0xc4005027 0xfc00707f Match_opcode 0x8,
   insn_row ''vluxseg8ei16.v'' 0 INSN_CLASS_V ''Vd,0(s),VtVm'' 0xe4005007 0xfc00707f Match_opcode 0x8,
   insn_row ''vsuxseg8ei16.v'' 0 INSN_CLASS_V ''Vd,0(s),VtVm'' 0xe4005027 0xfc00707f Match_opcode 0x8,
   insn_row ''vluxseg2ei32.v'' 0 INSN_CLASS_V ''Vd,0(s),VtVm'' 0x24006007 0xfc00707f Match_opcode 0x8,
   insn_row ''vsuxseg2ei32.v'' 0 INSN_CLASS_V ''Vd,0(s),VtVm'' 0x24006027 0xfc00707f Match_opcode 0x8,
   insn_row ''vluxseg3ei32.v'' 0 INSN_CLASS_V ''Vd,0(s),VtVm'' 0x44006007 0xfc00707f Match_opcode 0x8,
   insn_row ''vsuxseg3ei32.v'' 0 INSN_CLASS_V ''Vd,0(s),VtVm'' 0x44006027 0xfc00707f Match_opcode 0x8,
   insn_row ''vluxseg4ei32.v'' 0 INSN_CLASS_V ''Vd,0(s),VtVm'' 0x64006007 0xfc00707f Match_opcode 0x8]"

definition riscv_opcodes_10 :: "riscv_opcode list" where
  "riscv_opcodes_10 =
  [
   insn_row ''vsuxseg4ei32.v'' 0 INSN_CLASS_V ''Vd,0(s),VtVm'' 0x64006027 0xfc00707f Match_opcode 0x8,
   insn_row ''vluxseg5ei32.v'' 0 INSN_CLASS_V ''Vd,0(s),VtVm'' 0x84006007 0xfc00707f Match_opcode 0x8,
   insn_row ''vsuxseg5ei32.v'' 0 INSN_CLASS_V ''Vd,0(s),VtVm'' 0x84006027 0xfc00707f Match_opcode 0x8,
   insn_row ''vluxseg6ei32.v'' 0 INSN_CLASS_V ''Vd,0(s),VtVm'' 0xa4006007 0xfc00707f Match_opcode 0x8,
   insn_row ''vsuxseg6ei32.v'' 0 INSN_CLASS_V ''Vd,0(s),VtVm'' 0xa4006027 0xfc00707f Match_opcode 0x8,
   insn_row ''vluxseg7ei32.v'' 0 INSN_CLASS_V ''Vd,0(s),VtVm'' 0xc4006007 0xfc00707f Match_opcode 0x8,
   insn_row ''vsuxseg7ei32.v'' 0 INSN_CLASS_V ''Vd,0(s),VtVm'' 0xc4006027 0xfc00707f Match_opcode 0x8,
   insn_row ''vluxseg8ei32.v'' 0 INSN_CLASS_V ''Vd,0(s),VtVm'' 0xe4006007 0xfc00707f Match_opcode 0x8,
   insn_row ''vsuxseg8ei32.v'' 0 INSN_CLASS_V ''Vd,0(s),VtVm'' 0xe4006027 0xfc00707f Match_opcode 0x8,
   insn_row ''vluxseg2ei64.v'' 0 INSN_CLASS_V ''Vd,0(s),VtVm'' 0x24007007 0xfc00707f Match_opcode 0x10000008,
   insn_row ''vsuxseg2ei64.v'' 0 INSN_CLASS_V ''Vd,0(s),VtVm'' 0x24007027 0xfc00707f Match_opcode 0x10000008,
   insn_row ''vluxseg3ei64.v'' 0 INSN_CLASS_V ''Vd,0(s),VtVm'' 0x44007007 0xfc00707f Match_opcode 0x10000008,
   insn_row ''vsuxseg3ei64.v'' 0 INSN_CLASS_V ''Vd,0(s),VtVm'' 0x44007027 0xfc00707f Match_opcode 0x10000008,
   insn_row ''vluxseg4ei64.v'' 0 INSN_CLASS_V ''Vd,0(s),VtVm'' 0x64007007 0xfc00707f Match_opcode 0x10000008,
   insn_row ''vsuxseg4ei64.v'' 0 INSN_CLASS_V ''Vd,0(s),VtVm'' 0x64007027 0xfc00707f Match_opcode 0x10000008,
   insn_row ''vluxseg5ei64.v'' 0 INSN_CLASS_V ''Vd,0(s),VtVm'' 0x84007007 0xfc00707f Match_opcode 0x10000008,
   insn_row ''vsuxseg5ei64.v'' 0 INSN_CLASS_V ''Vd,0(s),VtVm'' 0x84007027 0xfc00707f Match_opcode 0x10000008,
   insn_row ''vluxseg6ei64.v'' 0 INSN_CLASS_V ''Vd,0(s),VtVm'' 0xa4007007 0xfc00707f Match_opcode 0x10000008,
   insn_row ''vsuxseg6ei64.v'' 0 INSN_CLASS_V ''Vd,0(s),VtVm'' 0xa4007027 0xfc00707f Match_opcode 0x10000008,
   insn_row ''vluxseg7ei64.v'' 0 INSN_CLASS_V ''Vd,0(s),VtVm'' 0xc4007007 0xfc00707f Match_opcode 0x10000008,
   insn_row ''vsuxseg7ei64.v'' 0 INSN_CLASS_V ''Vd,0(s),VtVm'' 0xc4007027 0xfc00707f Match_opcode 0x10000008,
   insn_row ''vluxseg8ei64.v'' 0 INSN_CLASS_V ''Vd,0(s),VtVm'' 0xe4007007 0xfc00707f Match_opcode 0x10000008,
   insn_row ''vsuxseg8ei64.v'' 0 INSN_CLASS_V ''Vd,0(s),VtVm'' 0xe4007027 0xfc00707f Match_opcode 0x10000008,
   insn_row ''vlseg2e8ff.v'' 0 INSN_CLASS_V ''Vd,0(s)Vm'' 0x21000007 0xfdf0707f Match_opcode 0x8,
   insn_row ''vlseg3e8ff.v'' 0 INSN_CLASS_V ''Vd,0(s)Vm'' 0x41000007 0xfdf0707f Match_opcode 0x8,
   insn_row ''vlseg4e8ff.v'' 0 INSN_CLASS_V ''Vd,0(s)Vm'' 0x61000007 0xfdf0707f Match_opcode 0x8,
   insn_row ''vlseg5e8ff.v'' 0 INSN_CLASS_V ''Vd,0(s)Vm'' 0x81000007 0xfdf0707f Match_opcode 0x8,
   insn_row ''vlseg6e8ff.v'' 0 INSN_CLASS_V ''Vd,0(s)Vm'' 0xa1000007 0xfdf0707f Match_opcode 0x8,
   insn_row ''vlseg7e8ff.v'' 0 INSN_CLASS_V ''Vd,0(s)Vm'' 0xc1000007 0xfdf0707f Match_opcode 0x8,
   insn_row ''vlseg8e8ff.v'' 0 INSN_CLASS_V ''Vd,0(s)Vm'' 0xe1000007 0xfdf0707f Match_opcode 0x8,
   insn_row ''vlseg2e16ff.v'' 0 INSN_CLASS_V ''Vd,0(s)Vm'' 0x21005007 0xfdf0707f Match_opcode 0x8,
   insn_row ''vlseg3e16ff.v'' 0 INSN_CLASS_V ''Vd,0(s)Vm'' 0x41005007 0xfdf0707f Match_opcode 0x8,
   insn_row ''vlseg4e16ff.v'' 0 INSN_CLASS_V ''Vd,0(s)Vm'' 0x61005007 0xfdf0707f Match_opcode 0x8,
   insn_row ''vlseg5e16ff.v'' 0 INSN_CLASS_V ''Vd,0(s)Vm'' 0x81005007 0xfdf0707f Match_opcode 0x8,
   insn_row ''vlseg6e16ff.v'' 0 INSN_CLASS_V ''Vd,0(s)Vm'' 0xa1005007 0xfdf0707f Match_opcode 0x8,
   insn_row ''vlseg7e16ff.v'' 0 INSN_CLASS_V ''Vd,0(s)Vm'' 0xc1005007 0xfdf0707f Match_opcode 0x8,
   insn_row ''vlseg8e16ff.v'' 0 INSN_CLASS_V ''Vd,0(s)Vm'' 0xe1005007 0xfdf0707f Match_opcode 0x8,
   insn_row ''vlseg2e32ff.v'' 0 INSN_CLASS_V ''Vd,0(s)Vm'' 0x21006007 0xfdf0707f Match_opcode 0x8,
   insn_row ''vlseg3e32ff.v'' 0 INSN_CLASS_V ''Vd,0(s)Vm'' 0x41006007 0xfdf0707f Match_opcode 0x8,
   insn_row ''vlseg4e32ff.v'' 0 INSN_CLASS_V ''Vd,0(s)Vm'' 0x61006007 0xfdf0707f Match_opcode 0x8,
   insn_row ''vlseg5e32ff.v'' 0 INSN_CLASS_V ''Vd,0(s)Vm'' 0x81006007 0xfdf0707f Match_opcode 0x8,
   insn_row ''vlseg6e32ff.v'' 0 INSN_CLASS_V ''Vd,0(s)Vm'' 0xa1006007 0xfdf0707f Match_opcode 0x8,
   insn_row ''vlseg7e32ff.v'' 0 INSN_CLASS_V ''Vd,0(s)Vm'' 0xc1006007 0xfdf0707f Match_opcode 0x8,
   insn_row ''vlseg8e32ff.v'' 0 INSN_CLASS_V ''Vd,0(s)Vm'' 0xe1006007 0xfdf0707f Match_opcode 0x8,
   insn_row ''vlseg2e64ff.v'' 0 INSN_CLASS_V ''Vd,0(s)Vm'' 0x21007007 0xfdf0707f Match_opcode 0x10000008,
   insn_row ''vlseg3e64ff.v'' 0 INSN_CLASS_V ''Vd,0(s)Vm'' 0x41007007 0xfdf0707f Match_opcode 0x10000008,
   insn_row ''vlseg4e64ff.v'' 0 INSN_CLASS_V ''Vd,0(s)Vm'' 0x61007007 0xfdf0707f Match_opcode 0x10000008,
   insn_row ''vlseg5e64ff.v'' 0 INSN_CLASS_V ''Vd,0(s)Vm'' 0x81007007 0xfdf0707f Match_opcode 0x10000008,
   insn_row ''vlseg6e64ff.v'' 0 INSN_CLASS_V ''Vd,0(s)Vm'' 0xa1007007 0xfdf0707f Match_opcode 0x10000008,
   insn_row ''vlseg7e64ff.v'' 0 INSN_CLASS_V ''Vd,0(s)Vm'' 0xc1007007 0xfdf0707f Match_opcode 0x10000008,
   insn_row ''vlseg8e64ff.v'' 0 INSN_CLASS_V ''Vd,0(s)Vm'' 0xe1007007 0xfdf0707f Match_opcode 0x10000008,
   insn_row ''vl1r.v'' 0 INSN_CLASS_V ''Vd,0(s)'' 0x2800007 0xfff0707f Match_opcode 0x9,
   insn_row ''vl1re8.v'' 0 INSN_CLASS_V ''Vd,0(s)'' 0x2800007 0xfff0707f Match_opcode 0x8,
   insn_row ''vl1re16.v'' 0 INSN_CLASS_V ''Vd,0(s)'' 0x2805007 0xfff0707f Match_opcode 0x8,
   insn_row ''vl1re32.v'' 0 INSN_CLASS_V ''Vd,0(s)'' 0x2806007 0xfff0707f Match_opcode 0x8,
   insn_row ''vl1re64.v'' 0 INSN_CLASS_V ''Vd,0(s)'' 0x2807007 0xfff0707f Match_opcode 0x10000008,
   insn_row ''vl2r.v'' 0 INSN_CLASS_V ''Vd,0(s)'' 0x22800007 0xfff0707f Match_opcode 0x9,
   insn_row ''vl2re8.v'' 0 INSN_CLASS_V ''Vd,0(s)'' 0x22800007 0xfff0707f Match_opcode 0x8,
   insn_row ''vl2re16.v'' 0 INSN_CLASS_V ''Vd,0(s)'' 0x22805007 0xfff0707f Match_opcode 0x8,
   insn_row ''vl2re32.v'' 0 INSN_CLASS_V ''Vd,0(s)'' 0x22806007 0xfff0707f Match_opcode 0x8,
   insn_row ''vl2re64.v'' 0 INSN_CLASS_V ''Vd,0(s)'' 0x22807007 0xfff0707f Match_opcode 0x10000008,
   insn_row ''vl4r.v'' 0 INSN_CLASS_V ''Vd,0(s)'' 0x62800007 0xfff0707f Match_opcode 0x9,
   insn_row ''vl4re8.v'' 0 INSN_CLASS_V ''Vd,0(s)'' 0x62800007 0xfff0707f Match_opcode 0x8,
   insn_row ''vl4re16.v'' 0 INSN_CLASS_V ''Vd,0(s)'' 0x62805007 0xfff0707f Match_opcode 0x8,
   insn_row ''vl4re32.v'' 0 INSN_CLASS_V ''Vd,0(s)'' 0x62806007 0xfff0707f Match_opcode 0x8,
   insn_row ''vl4re64.v'' 0 INSN_CLASS_V ''Vd,0(s)'' 0x62807007 0xfff0707f Match_opcode 0x10000008,
   insn_row ''vl8r.v'' 0 INSN_CLASS_V ''Vd,0(s)'' 0xe2800007 0xfff0707f Match_opcode 0x9,
   insn_row ''vl8re8.v'' 0 INSN_CLASS_V ''Vd,0(s)'' 0xe2800007 0xfff0707f Match_opcode 0x8,
   insn_row ''vl8re16.v'' 0 INSN_CLASS_V ''Vd,0(s)'' 0xe2805007 0xfff0707f Match_opcode 0x8,
   insn_row ''vl8re32.v'' 0 INSN_CLASS_V ''Vd,0(s)'' 0xe2806007 0xfff0707f Match_opcode 0x8,
   insn_row ''vl8re64.v'' 0 INSN_CLASS_V ''Vd,0(s)'' 0xe2807007 0xfff0707f Match_opcode 0x10000008,
   insn_row ''vs1r.v'' 0 INSN_CLASS_V ''Vd,0(s)'' 0x2800027 0xfff0707f Match_opcode 0x8,
   insn_row ''vs2r.v'' 0 INSN_CLASS_V ''Vd,0(s)'' 0x22800027 0xfff0707f Match_opcode 0x8,
   insn_row ''vs4r.v'' 0 INSN_CLASS_V ''Vd,0(s)'' 0x62800027 0xfff0707f Match_opcode 0x8,
   insn_row ''vs8r.v'' 0 INSN_CLASS_V ''Vd,0(s)'' 0xe2800027 0xfff0707f Match_opcode 0x8,
   insn_row ''vneg.v'' 0 INSN_CLASS_V ''Vd,VtVm'' 0xc004057 0xfc0ff07f Match_opcode 0x1,
   insn_row ''vadd.vv'' 0 INSN_CLASS_V ''Vd,Vt,VsVm'' 0x57 0xfc00707f Match_opcode 0x0,
   insn_row ''vadd.vx'' 0 INSN_CLASS_V ''Vd,Vt,sVm'' 0x4057 0xfc00707f Match_opcode 0x0,
   insn_row ''vadd.vi'' 0 INSN_CLASS_V ''Vd,Vt,ViVm'' 0x3057 0xfc00707f Match_opcode 0x0,
   insn_row ''vsub.vv'' 0 INSN_CLASS_V ''Vd,Vt,VsVm'' 0x8000057 0xfc00707f Match_opcode 0x0,
   insn_row ''vsub.vx'' 0 INSN_CLASS_V ''Vd,Vt,sVm'' 0x8004057 0xfc00707f Match_opcode 0x0,
   insn_row ''vrsub.vx'' 0 INSN_CLASS_V ''Vd,Vt,sVm'' 0xc004057 0xfc00707f Match_opcode 0x0,
   insn_row ''vrsub.vi'' 0 INSN_CLASS_V ''Vd,Vt,ViVm'' 0xc003057 0xfc00707f Match_opcode 0x0,
   insn_row ''vwcvt.x.x.v'' 0 INSN_CLASS_V ''Vd,VtVm'' 0xc4006057 0xfc0ff07f Match_opcode 0x1,
   insn_row ''vwcvtu.x.x.v'' 0 INSN_CLASS_V ''Vd,VtVm'' 0xc0006057 0xfc0ff07f Match_opcode 0x1,
   insn_row ''vwaddu.vv'' 0 INSN_CLASS_V ''Vd,Vt,VsVm'' 0xc0002057 0xfc00707f Match_opcode 0x0,
   insn_row ''vwaddu.vx'' 0 INSN_CLASS_V ''Vd,Vt,sVm'' 0xc0006057 0xfc00707f Match_opcode 0x0,
   insn_row ''vwsubu.vv'' 0 INSN_CLASS_V ''Vd,Vt,VsVm'' 0xc8002057 0xfc00707f Match_opcode 0x0,
   insn_row ''vwsubu.vx'' 0 INSN_CLASS_V ''Vd,Vt,sVm'' 0xc8006057 0xfc00707f Match_opcode 0x0,
   insn_row ''vwadd.vv'' 0 INSN_CLASS_V ''Vd,Vt,VsVm'' 0xc4002057 0xfc00707f Match_opcode 0x0,
   insn_row ''vwadd.vx'' 0 INSN_CLASS_V ''Vd,Vt,sVm'' 0xc4006057 0xfc00707f Match_opcode 0x0,
   insn_row ''vwsub.vv'' 0 INSN_CLASS_V ''Vd,Vt,VsVm'' 0xcc002057 0xfc00707f Match_opcode 0x0,
   insn_row ''vwsub.vx'' 0 INSN_CLASS_V ''Vd,Vt,sVm'' 0xcc006057 0xfc00707f Match_opcode 0x0,
   insn_row ''vwaddu.wv'' 0 INSN_CLASS_V ''Vd,Vt,VsVm'' 0xd0002057 0xfc00707f Match_opcode 0x0,
   insn_row ''vwaddu.wx'' 0 INSN_CLASS_V ''Vd,Vt,sVm'' 0xd0006057 0xfc00707f Match_opcode 0x0,
   insn_row ''vwsubu.wv'' 0 INSN_CLASS_V ''Vd,Vt,VsVm'' 0xd8002057 0xfc00707f Match_opcode 0x0,
   insn_row ''vwsubu.wx'' 0 INSN_CLASS_V ''Vd,Vt,sVm'' 0xd8006057 0xfc00707f Match_opcode 0x0,
   insn_row ''vwadd.wv'' 0 INSN_CLASS_V ''Vd,Vt,VsVm'' 0xd4002057 0xfc00707f Match_opcode 0x0,
   insn_row ''vwadd.wx'' 0 INSN_CLASS_V ''Vd,Vt,sVm'' 0xd4006057 0xfc00707f Match_opcode 0x0,
   insn_row ''vwsub.wv'' 0 INSN_CLASS_V ''Vd,Vt,VsVm'' 0xdc002057 0xfc00707f Match_opcode 0x0,
   insn_row ''vwsub.wx'' 0 INSN_CLASS_V ''Vd,Vt,sVm'' 0xdc006057 0xfc00707f Match_opcode 0x0,
   insn_row ''vzext.vf2'' 0 INSN_CLASS_V ''Vd,VtVm'' 0x48032057 0xfc0ff07f Match_opcode 0x0,
   insn_row ''vsext.vf2'' 0 INSN_CLASS_V ''Vd,VtVm'' 0x4803a057 0xfc0ff07f Match_opcode 0x0,
   insn_row ''vzext.vf4'' 0 INSN_CLASS_V ''Vd,VtVm'' 0x48022057 0xfc0ff07f Match_opcode 0x0,
   insn_row ''vsext.vf4'' 0 INSN_CLASS_V ''Vd,VtVm'' 0x4802a057 0xfc0ff07f Match_opcode 0x0]"

definition riscv_opcodes_11 :: "riscv_opcode list" where
  "riscv_opcodes_11 =
  [
   insn_row ''vzext.vf8'' 0 INSN_CLASS_V ''Vd,VtVm'' 0x48012057 0xfc0ff07f Match_opcode 0x0,
   insn_row ''vsext.vf8'' 0 INSN_CLASS_V ''Vd,VtVm'' 0x4801a057 0xfc0ff07f Match_opcode 0x0,
   insn_row ''vadc.vvm'' 0 INSN_CLASS_V ''Vd,Vt,Vs,V0'' 0x40000057 0xfe00707f Match_opcode 0x0,
   insn_row ''vadc.vxm'' 0 INSN_CLASS_V ''Vd,Vt,s,V0'' 0x40004057 0xfe00707f Match_opcode 0x0,
   insn_row ''vadc.vim'' 0 INSN_CLASS_V ''Vd,Vt,Vi,V0'' 0x40003057 0xfe00707f Match_opcode 0x0,
   insn_row ''vmadc.vvm'' 0 INSN_CLASS_V ''Vd,Vt,Vs,V0'' 0x44000057 0xfe00707f Match_opcode 0x0,
   insn_row ''vmadc.vxm'' 0 INSN_CLASS_V ''Vd,Vt,s,V0'' 0x44004057 0xfe00707f Match_opcode 0x0,
   insn_row ''vmadc.vim'' 0 INSN_CLASS_V ''Vd,Vt,Vi,V0'' 0x44003057 0xfe00707f Match_opcode 0x0,
   insn_row ''vmadc.vv'' 0 INSN_CLASS_V ''Vd,Vt,Vs'' 0x46000057 0xfe00707f Match_opcode 0x0,
   insn_row ''vmadc.vx'' 0 INSN_CLASS_V ''Vd,Vt,s'' 0x46004057 0xfe00707f Match_opcode 0x0,
   insn_row ''vmadc.vi'' 0 INSN_CLASS_V ''Vd,Vt,Vi'' 0x46003057 0xfe00707f Match_opcode 0x0,
   insn_row ''vsbc.vvm'' 0 INSN_CLASS_V ''Vd,Vt,Vs,V0'' 0x48000057 0xfe00707f Match_opcode 0x0,
   insn_row ''vsbc.vxm'' 0 INSN_CLASS_V ''Vd,Vt,s,V0'' 0x48004057 0xfe00707f Match_opcode 0x0,
   insn_row ''vmsbc.vvm'' 0 INSN_CLASS_V ''Vd,Vt,Vs,V0'' 0x4c000057 0xfe00707f Match_opcode 0x0,
   insn_row ''vmsbc.vxm'' 0 INSN_CLASS_V ''Vd,Vt,s,V0'' 0x4c004057 0xfe00707f Match_opcode 0x0,
   insn_row ''vmsbc.vv'' 0 INSN_CLASS_V ''Vd,Vt,Vs'' 0x4e000057 0xfe00707f Match_opcode 0x0,
   insn_row ''vmsbc.vx'' 0 INSN_CLASS_V ''Vd,Vt,s'' 0x4e004057 0xfe00707f Match_opcode 0x0,
   insn_row ''vnot.v'' 0 INSN_CLASS_V ''Vd,VtVm'' 0x2c0fb057 0xfc0ff07f Match_opcode 0x1,
   insn_row ''vand.vv'' 0 INSN_CLASS_V ''Vd,Vt,VsVm'' 0x24000057 0xfc00707f Match_opcode 0x0,
   insn_row ''vand.vx'' 0 INSN_CLASS_V ''Vd,Vt,sVm'' 0x24004057 0xfc00707f Match_opcode 0x0,
   insn_row ''vand.vi'' 0 INSN_CLASS_V ''Vd,Vt,ViVm'' 0x24003057 0xfc00707f Match_opcode 0x0,
   insn_row ''vor.vv'' 0 INSN_CLASS_V ''Vd,Vt,VsVm'' 0x28000057 0xfc00707f Match_opcode 0x0,
   insn_row ''vor.vx'' 0 INSN_CLASS_V ''Vd,Vt,sVm'' 0x28004057 0xfc00707f Match_opcode 0x0,
   insn_row ''vor.vi'' 0 INSN_CLASS_V ''Vd,Vt,ViVm'' 0x28003057 0xfc00707f Match_opcode 0x0,
   insn_row ''vxor.vv'' 0 INSN_CLASS_V ''Vd,Vt,VsVm'' 0x2c000057 0xfc00707f Match_opcode 0x0,
   insn_row ''vxor.vx'' 0 INSN_CLASS_V ''Vd,Vt,sVm'' 0x2c004057 0xfc00707f Match_opcode 0x0,
   insn_row ''vxor.vi'' 0 INSN_CLASS_V ''Vd,Vt,ViVm'' 0x2c003057 0xfc00707f Match_opcode 0x0,
   insn_row ''vsll.vv'' 0 INSN_CLASS_V ''Vd,Vt,VsVm'' 0x94000057 0xfc00707f Match_opcode 0x0,
   insn_row ''vsll.vx'' 0 INSN_CLASS_V ''Vd,Vt,sVm'' 0x94004057 0xfc00707f Match_opcode 0x0,
   insn_row ''vsll.vi'' 0 INSN_CLASS_V ''Vd,Vt,VjVm'' 0x94003057 0xfc00707f Match_opcode 0x0,
   insn_row ''vsrl.vv'' 0 INSN_CLASS_V ''Vd,Vt,VsVm'' 0xa0000057 0xfc00707f Match_opcode 0x0,
   insn_row ''vsrl.vx'' 0 INSN_CLASS_V ''Vd,Vt,sVm'' 0xa0004057 0xfc00707f Match_opcode 0x0,
   insn_row ''vsrl.vi'' 0 INSN_CLASS_V ''Vd,Vt,VjVm'' 0xa0003057 0xfc00707f Match_opcode 0x0,
   insn_row ''vsra.vv'' 0 INSN_CLASS_V ''Vd,Vt,VsVm'' 0xa4000057 0xfc00707f Match_opcode 0x0,
   insn_row ''vsra.vx'' 0 INSN_CLASS_V ''Vd,Vt,sVm'' 0xa4004057 0xfc00707f Match_opcode 0x0,
   insn_row ''vsra.vi'' 0 INSN_CLASS_V ''Vd,Vt,VjVm'' 0xa4003057 0xfc00707f Match_opcode 0x0,
   insn_row ''vncvt.x.x.w'' 0 INSN_CLASS_V ''Vd,VtVm'' 0xb0004057 0xfc0ff07f Match_opcode 0x1,
   insn_row ''vnsrl.wv'' 0 INSN_CLASS_V ''Vd,Vt,VsVm'' 0xb0000057 0xfc00707f Match_opcode 0x0,
   insn_row ''vnsrl.wx'' 0 INSN_CLASS_V ''Vd,Vt,sVm'' 0xb0004057 0xfc00707f Match_opcode 0x0,
   insn_row ''vnsrl.wi'' 0 INSN_CLASS_V ''Vd,Vt,VjVm'' 0xb0003057 0xfc00707f Match_opcode 0x0,
   insn_row ''vnsra.wv'' 0 INSN_CLASS_V ''Vd,Vt,VsVm'' 0xb4000057 0xfc00707f Match_opcode 0x0,
   insn_row ''vnsra.wx'' 0 INSN_CLASS_V ''Vd,Vt,sVm'' 0xb4004057 0xfc00707f Match_opcode 0x0,
   insn_row ''vnsra.wi'' 0 INSN_CLASS_V ''Vd,Vt,VjVm'' 0xb4003057 0xfc00707f Match_opcode 0x0,
   insn_row ''vmseq.vv'' 0 INSN_CLASS_V ''Vd,Vt,VsVm'' 0x60000057 0xfc00707f Match_opcode 0x0,
   insn_row ''vmseq.vx'' 0 INSN_CLASS_V ''Vd,Vt,sVm'' 0x60004057 0xfc00707f Match_opcode 0x0,
   insn_row ''vmseq.vi'' 0 INSN_CLASS_V ''Vd,Vt,ViVm'' 0x60003057 0xfc00707f Match_opcode 0x0,
   insn_row ''vmsne.vv'' 0 INSN_CLASS_V ''Vd,Vt,VsVm'' 0x64000057 0xfc00707f Match_opcode 0x0,
   insn_row ''vmsne.vx'' 0 INSN_CLASS_V ''Vd,Vt,sVm'' 0x64004057 0xfc00707f Match_opcode 0x0,
   insn_row ''vmsne.vi'' 0 INSN_CLASS_V ''Vd,Vt,ViVm'' 0x64003057 0xfc00707f Match_opcode 0x0,
   insn_row ''vmsltu.vv'' 0 INSN_CLASS_V ''Vd,Vt,VsVm'' 0x68000057 0xfc00707f Match_opcode 0x0,
   insn_row ''vmsltu.vx'' 0 INSN_CLASS_V ''Vd,Vt,sVm'' 0x68004057 0xfc00707f Match_opcode 0x0,
   insn_row ''vmslt.vv'' 0 INSN_CLASS_V ''Vd,Vt,VsVm'' 0x6c000057 0xfc00707f Match_opcode 0x0,
   insn_row ''vmslt.vx'' 0 INSN_CLASS_V ''Vd,Vt,sVm'' 0x6c004057 0xfc00707f Match_opcode 0x0,
   insn_row ''vmsleu.vv'' 0 INSN_CLASS_V ''Vd,Vt,VsVm'' 0x70000057 0xfc00707f Match_opcode 0x0,
   insn_row ''vmsleu.vx'' 0 INSN_CLASS_V ''Vd,Vt,sVm'' 0x70004057 0xfc00707f Match_opcode 0x0,
   insn_row ''vmsleu.vi'' 0 INSN_CLASS_V ''Vd,Vt,ViVm'' 0x70003057 0xfc00707f Match_opcode 0x0,
   insn_row ''vmsle.vv'' 0 INSN_CLASS_V ''Vd,Vt,VsVm'' 0x74000057 0xfc00707f Match_opcode 0x0,
   insn_row ''vmsle.vx'' 0 INSN_CLASS_V ''Vd,Vt,sVm'' 0x74004057 0xfc00707f Match_opcode 0x0,
   insn_row ''vmsle.vi'' 0 INSN_CLASS_V ''Vd,Vt,ViVm'' 0x74003057 0xfc00707f Match_opcode 0x0,
   insn_row ''vmsgtu.vx'' 0 INSN_CLASS_V ''Vd,Vt,sVm'' 0x78004057 0xfc00707f Match_opcode 0x0,
   insn_row ''vmsgtu.vi'' 0 INSN_CLASS_V ''Vd,Vt,ViVm'' 0x78003057 0xfc00707f Match_opcode 0x0,
   insn_row ''vmsgt.vx'' 0 INSN_CLASS_V ''Vd,Vt,sVm'' 0x7c004057 0xfc00707f Match_opcode 0x0,
   insn_row ''vmsgt.vi'' 0 INSN_CLASS_V ''Vd,Vt,ViVm'' 0x7c003057 0xfc00707f Match_opcode 0x0,
   insn_row ''vmsgt.vv'' 0 INSN_CLASS_V ''Vd,Vs,VtVm'' 0x6c000057 0xfc00707f Match_opcode 0x1,
   insn_row ''vmsgtu.vv'' 0 INSN_CLASS_V ''Vd,Vs,VtVm'' 0x68000057 0xfc00707f Match_opcode 0x1,
   insn_row ''vmsge.vv'' 0 INSN_CLASS_V ''Vd,Vs,VtVm'' 0x74000057 0xfc00707f Match_opcode 0x1,
   insn_row ''vmsgeu.vv'' 0 INSN_CLASS_V ''Vd,Vs,VtVm'' 0x70000057 0xfc00707f Match_opcode 0x1,
   insn_row ''vmslt.vi'' 0 INSN_CLASS_V ''Vd,Vt,VkVm'' 0x74003057 0xfc00707f Match_opcode 0x1,
   insn_row ''vmsltu.vi'' 0 INSN_CLASS_V ''Vd,Vu,0Vm'' 0x64000057 0xfc00707f Match_vs1_eq_vs2 0x1,
   insn_row ''vmsltu.vi'' 0 INSN_CLASS_V ''Vd,Vt,VkVm'' 0x70003057 0xfc00707f Match_opcode 0x1,
   insn_row ''vmsge.vi'' 0 INSN_CLASS_V ''Vd,Vt,VkVm'' 0x7c003057 0xfc00707f Match_opcode 0x1,
   insn_row ''vmsgeu.vi'' 0 INSN_CLASS_V ''Vd,Vu,0Vm'' 0x60000057 0xfc00707f Match_vs1_eq_vs2 0x1,
   insn_row ''vmsgeu.vi'' 0 INSN_CLASS_V ''Vd,Vt,VkVm'' 0x78003057 0xfc00707f Match_opcode 0x1,
   insn_row ''vmsge.vx'' 0 INSN_CLASS_V ''Vd,Vt,sVm'' 0x0 0x1d Match_opcode 0xffffffff,
   insn_row ''vmsge.vx'' 0 INSN_CLASS_V ''Vd,Vt,s,VM,VT'' 0x0 0x1d Match_opcode 0xffffffff,
   insn_row ''vmsgeu.vx'' 0 INSN_CLASS_V ''Vd,Vt,sVm'' 0x0 0x1e Match_opcode 0xffffffff,
   insn_row ''vmsgeu.vx'' 0 INSN_CLASS_V ''Vd,Vt,s,VM,VT'' 0x0 0x1e Match_opcode 0xffffffff,
   insn_row ''vminu.vv'' 0 INSN_CLASS_V ''Vd,Vt,VsVm'' 0x10000057 0xfc00707f Match_opcode 0x0,
   insn_row ''vminu.vx'' 0 INSN_CLASS_V ''Vd,Vt,sVm'' 0x10004057 0xfc00707f Match_opcode 0x0,
   insn_row ''vmin.vv'' 0 INSN_CLASS_V ''Vd,Vt,VsVm'' 0x14000057 0xfc00707f Match_opcode 0x0,
   insn_row ''vmin.vx'' 0 INSN_CLASS_V ''Vd,Vt,sVm'' 0x14004057 0xfc00707f Match_opcode 0x0,
   insn_row ''vmaxu.vv'' 0 INSN_CLASS_V ''Vd,Vt,VsVm'' 0x18000057 0xfc00707f Match_opcode 0x0,
   insn_row ''vmaxu.vx'' 0 INSN_CLASS_V ''Vd,Vt,sVm'' 0x18004057 0xfc00707f Match_opcode 0x0,
   insn_row ''vmax.vv'' 0 INSN_CLASS_V ''Vd,Vt,VsVm'' 0x1c000057 0xfc00707f Match_opcode 0x0,
   insn_row ''vmax.vx'' 0 INSN_CLASS_V ''Vd,Vt,sVm'' 0x1c004057 0xfc00707f Match_opcode 0x0,
   insn_row ''vmul.vv'' 0 INSN_CLASS_V ''Vd,Vt,VsVm'' 0x94002057 0xfc00707f Match_opcode 0x0,
   insn_row ''vmul.vx'' 0 INSN_CLASS_V ''Vd,Vt,sVm'' 0x94006057 0xfc00707f Match_opcode 0x0,
   insn_row ''vmulh.vv'' 0 INSN_CLASS_V ''Vd,Vt,VsVm'' 0x9c002057 0xfc00707f Match_opcode 0x0,
   insn_row ''vmulh.vx'' 0 INSN_CLASS_V ''Vd,Vt,sVm'' 0x9c006057 0xfc00707f Match_opcode 0x0,
   insn_row ''vmulhu.vv'' 0 INSN_CLASS_V ''Vd,Vt,VsVm'' 0x90002057 0xfc00707f Match_opcode 0x0,
   insn_row ''vmulhu.vx'' 0 INSN_CLASS_V ''Vd,Vt,sVm'' 0x90006057 0xfc00707f Match_opcode 0x0,
   insn_row ''vmulhsu.vv'' 0 INSN_CLASS_V ''Vd,Vt,VsVm'' 0x98002057 0xfc00707f Match_opcode 0x0,
   insn_row ''vmulhsu.vx'' 0 INSN_CLASS_V ''Vd,Vt,sVm'' 0x98006057 0xfc00707f Match_opcode 0x0,
   insn_row ''vwmul.vv'' 0 INSN_CLASS_V ''Vd,Vt,VsVm'' 0xec002057 0xfc00707f Match_opcode 0x0,
   insn_row ''vwmul.vx'' 0 INSN_CLASS_V ''Vd,Vt,sVm'' 0xec006057 0xfc00707f Match_opcode 0x0,
   insn_row ''vwmulu.vv'' 0 INSN_CLASS_V ''Vd,Vt,VsVm'' 0xe0002057 0xfc00707f Match_opcode 0x0,
   insn_row ''vwmulu.vx'' 0 INSN_CLASS_V ''Vd,Vt,sVm'' 0xe0006057 0xfc00707f Match_opcode 0x0,
   insn_row ''vwmulsu.vv'' 0 INSN_CLASS_V ''Vd,Vt,VsVm'' 0xe8002057 0xfc00707f Match_opcode 0x0,
   insn_row ''vwmulsu.vx'' 0 INSN_CLASS_V ''Vd,Vt,sVm'' 0xe8006057 0xfc00707f Match_opcode 0x0,
   insn_row ''vmacc.vv'' 0 INSN_CLASS_V ''Vd,Vs,VtVm'' 0xb4002057 0xfc00707f Match_opcode 0x0,
   insn_row ''vmacc.vx'' 0 INSN_CLASS_V ''Vd,s,VtVm'' 0xb4006057 0xfc00707f Match_opcode 0x0,
   insn_row ''vnmsac.vv'' 0 INSN_CLASS_V ''Vd,Vs,VtVm'' 0xbc002057 0xfc00707f Match_opcode 0x0,
   insn_row ''vnmsac.vx'' 0 INSN_CLASS_V ''Vd,s,VtVm'' 0xbc006057 0xfc00707f Match_opcode 0x0,
   insn_row ''vmadd.vv'' 0 INSN_CLASS_V ''Vd,Vs,VtVm'' 0xa4002057 0xfc00707f Match_opcode 0x0,
   insn_row ''vmadd.vx'' 0 INSN_CLASS_V ''Vd,s,VtVm'' 0xa4006057 0xfc00707f Match_opcode 0x0,
   insn_row ''vnmsub.vv'' 0 INSN_CLASS_V ''Vd,Vs,VtVm'' 0xac002057 0xfc00707f Match_opcode 0x0,
   insn_row ''vnmsub.vx'' 0 INSN_CLASS_V ''Vd,s,VtVm'' 0xac006057 0xfc00707f Match_opcode 0x0]"

definition riscv_opcodes_12 :: "riscv_opcode list" where
  "riscv_opcodes_12 =
  [
   insn_row ''vwmaccu.vv'' 0 INSN_CLASS_V ''Vd,Vs,VtVm'' 0xf0002057 0xfc00707f Match_opcode 0x0,
   insn_row ''vwmaccu.vx'' 0 INSN_CLASS_V ''Vd,s,VtVm'' 0xf0006057 0xfc00707f Match_opcode 0x0,
   insn_row ''vwmacc.vv'' 0 INSN_CLASS_V ''Vd,Vs,VtVm'' 0xf4002057 0xfc00707f Match_opcode 0x0,
   insn_row ''vwmacc.vx'' 0 INSN_CLASS_V ''Vd,s,VtVm'' 0xf4006057 0xfc00707f Match_opcode 0x0,
   insn_row ''vwmaccsu.vv'' 0 INSN_CLASS_V ''Vd,Vs,VtVm'' 0xfc002057 0xfc00707f Match_opcode 0x0,
   insn_row ''vwmaccsu.vx'' 0 INSN_CLASS_V ''Vd,s,VtVm'' 0xfc006057 0xfc00707f Match_opcode 0x0,
   insn_row ''vwmaccus.vx'' 0 INSN_CLASS_V ''Vd,s,VtVm'' 0xf8006057 0xfc00707f Match_opcode 0x0,
   insn_row ''vdivu.vv'' 0 INSN_CLASS_V ''Vd,Vt,VsVm'' 0x80002057 0xfc00707f Match_opcode 0x0,
   insn_row ''vdivu.vx'' 0 INSN_CLASS_V ''Vd,Vt,sVm'' 0x80006057 0xfc00707f Match_opcode 0x0,
   insn_row ''vdiv.vv'' 0 INSN_CLASS_V ''Vd,Vt,VsVm'' 0x84002057 0xfc00707f Match_opcode 0x0,
   insn_row ''vdiv.vx'' 0 INSN_CLASS_V ''Vd,Vt,sVm'' 0x84006057 0xfc00707f Match_opcode 0x0,
   insn_row ''vremu.vv'' 0 INSN_CLASS_V ''Vd,Vt,VsVm'' 0x88002057 0xfc00707f Match_opcode 0x0,
   insn_row ''vremu.vx'' 0 INSN_CLASS_V ''Vd,Vt,sVm'' 0x88006057 0xfc00707f Match_opcode 0x0,
   insn_row ''vrem.vv'' 0 INSN_CLASS_V ''Vd,Vt,VsVm'' 0x8c002057 0xfc00707f Match_opcode 0x0,
   insn_row ''vrem.vx'' 0 INSN_CLASS_V ''Vd,Vt,sVm'' 0x8c006057 0xfc00707f Match_opcode 0x0,
   insn_row ''vmerge.vvm'' 0 INSN_CLASS_V ''Vd,Vt,Vs,V0'' 0x5c000057 0xfe00707f Match_opcode 0x0,
   insn_row ''vmerge.vxm'' 0 INSN_CLASS_V ''Vd,Vt,s,V0'' 0x5c004057 0xfe00707f Match_opcode 0x0,
   insn_row ''vmerge.vim'' 0 INSN_CLASS_V ''Vd,Vt,Vi,V0'' 0x5c003057 0xfe00707f Match_opcode 0x0,
   insn_row ''vmv.v.v'' 0 INSN_CLASS_V ''Vd,Vs'' 0x5e000057 0xfff0707f Match_opcode 0x0,
   insn_row ''vmv.v.x'' 0 INSN_CLASS_V ''Vd,s'' 0x5e004057 0xfff0707f Match_opcode 0x0,
   insn_row ''vmv.v.i'' 0 INSN_CLASS_V ''Vd,Vi'' 0x5e003057 0xfff0707f Match_opcode 0x0,
   insn_row ''vsaddu.vv'' 0 INSN_CLASS_V ''Vd,Vt,VsVm'' 0x80000057 0xfc00707f Match_opcode 0x0,
   insn_row ''vsaddu.vx'' 0 INSN_CLASS_V ''Vd,Vt,sVm'' 0x80004057 0xfc00707f Match_opcode 0x0,
   insn_row ''vsaddu.vi'' 0 INSN_CLASS_V ''Vd,Vt,ViVm'' 0x80003057 0xfc00707f Match_opcode 0x0,
   insn_row ''vsadd.vv'' 0 INSN_CLASS_V ''Vd,Vt,VsVm'' 0x84000057 0xfc00707f Match_opcode 0x0,
   insn_row ''vsadd.vx'' 0 INSN_CLASS_V ''Vd,Vt,sVm'' 0x84004057 0xfc00707f Match_opcode 0x0,
   insn_row ''vsadd.vi'' 0 INSN_CLASS_V ''Vd,Vt,ViVm'' 0x84003057 0xfc00707f Match_opcode 0x0,
   insn_row ''vssubu.vv'' 0 INSN_CLASS_V ''Vd,Vt,VsVm'' 0x88000057 0xfc00707f Match_opcode 0x0,
   insn_row ''vssubu.vx'' 0 INSN_CLASS_V ''Vd,Vt,sVm'' 0x88004057 0xfc00707f Match_opcode 0x0,
   insn_row ''vssub.vv'' 0 INSN_CLASS_V ''Vd,Vt,VsVm'' 0x8c000057 0xfc00707f Match_opcode 0x0,
   insn_row ''vssub.vx'' 0 INSN_CLASS_V ''Vd,Vt,sVm'' 0x8c004057 0xfc00707f Match_opcode 0x0,
   insn_row ''vaaddu.vv'' 0 INSN_CLASS_V ''Vd,Vt,VsVm'' 0x20002057 0xfc00707f Match_opcode 0x0,
   insn_row ''vaaddu.vx'' 0 INSN_CLASS_V ''Vd,Vt,sVm'' 0x20006057 0xfc00707f Match_opcode 0x0,
   insn_row ''vaadd.vv'' 0 INSN_CLASS_V ''Vd,Vt,VsVm'' 0x24002057 0xfc00707f Match_opcode 0x0,
   insn_row ''vaadd.vx'' 0 INSN_CLASS_V ''Vd,Vt,sVm'' 0x24006057 0xfc00707f Match_opcode 0x0,
   insn_row ''vasubu.vv'' 0 INSN_CLASS_V ''Vd,Vt,VsVm'' 0x28002057 0xfc00707f Match_opcode 0x0,
   insn_row ''vasubu.vx'' 0 INSN_CLASS_V ''Vd,Vt,sVm'' 0x28006057 0xfc00707f Match_opcode 0x0,
   insn_row ''vasub.vv'' 0 INSN_CLASS_V ''Vd,Vt,VsVm'' 0x2c002057 0xfc00707f Match_opcode 0x0,
   insn_row ''vasub.vx'' 0 INSN_CLASS_V ''Vd,Vt,sVm'' 0x2c006057 0xfc00707f Match_opcode 0x0,
   insn_row ''vsmul.vv'' 0 INSN_CLASS_V ''Vd,Vt,VsVm'' 0x9c000057 0xfc00707f Match_opcode 0x0,
   insn_row ''vsmul.vx'' 0 INSN_CLASS_V ''Vd,Vt,sVm'' 0x9c004057 0xfc00707f Match_opcode 0x0,
   insn_row ''vssrl.vv'' 0 INSN_CLASS_V ''Vd,Vt,VsVm'' 0xa8000057 0xfc00707f Match_opcode 0x0,
   insn_row ''vssrl.vx'' 0 INSN_CLASS_V ''Vd,Vt,sVm'' 0xa8004057 0xfc00707f Match_opcode 0x0,
   insn_row ''vssrl.vi'' 0 INSN_CLASS_V ''Vd,Vt,VjVm'' 0xa8003057 0xfc00707f Match_opcode 0x0,
   insn_row ''vssra.vv'' 0 INSN_CLASS_V ''Vd,Vt,VsVm'' 0xac000057 0xfc00707f Match_opcode 0x0,
   insn_row ''vssra.vx'' 0 INSN_CLASS_V ''Vd,Vt,sVm'' 0xac004057 0xfc00707f Match_opcode 0x0,
   insn_row ''vssra.vi'' 0 INSN_CLASS_V ''Vd,Vt,VjVm'' 0xac003057 0xfc00707f Match_opcode 0x0,
   insn_row ''vnclipu.wv'' 0 INSN_CLASS_V ''Vd,Vt,VsVm'' 0xb8000057 0xfc00707f Match_opcode 0x0,
   insn_row ''vnclipu.wx'' 0 INSN_CLASS_V ''Vd,Vt,sVm'' 0xb8004057 0xfc00707f Match_opcode 0x0,
   insn_row ''vnclipu.wi'' 0 INSN_CLASS_V ''Vd,Vt,VjVm'' 0xb8003057 0xfc00707f Match_opcode 0x0,
   insn_row ''vnclip.wv'' 0 INSN_CLASS_V ''Vd,Vt,VsVm'' 0xbc000057 0xfc00707f Match_opcode 0x0,
   insn_row ''vnclip.wx'' 0 INSN_CLASS_V ''Vd,Vt,sVm'' 0xbc004057 0xfc00707f Match_opcode 0x0,
   insn_row ''vnclip.wi'' 0 INSN_CLASS_V ''Vd,Vt,VjVm'' 0xbc003057 0xfc00707f Match_opcode 0x0,
   insn_row ''vfadd.vv'' 0 INSN_CLASS_ZVEF ''Vd,Vt,VsVm'' 0x1057 0xfc00707f Match_opcode 0x0,
   insn_row ''vfadd.vf'' 0 INSN_CLASS_ZVEF ''Vd,Vt,SVm'' 0x5057 0xfc00707f Match_opcode 0x0,
   insn_row ''vfsub.vv'' 0 INSN_CLASS_ZVEF ''Vd,Vt,VsVm'' 0x8001057 0xfc00707f Match_opcode 0x0,
   insn_row ''vfsub.vf'' 0 INSN_CLASS_ZVEF ''Vd,Vt,SVm'' 0x8005057 0xfc00707f Match_opcode 0x0,
   insn_row ''vfrsub.vf'' 0 INSN_CLASS_ZVEF ''Vd,Vt,SVm'' 0x9c005057 0xfc00707f Match_opcode 0x0,
   insn_row ''vfwadd.vv'' 0 INSN_CLASS_ZVEF ''Vd,Vt,VsVm'' 0xc0001057 0xfc00707f Match_opcode 0x0,
   insn_row ''vfwadd.vf'' 0 INSN_CLASS_ZVEF ''Vd,Vt,SVm'' 0xc0005057 0xfc00707f Match_opcode 0x0,
   insn_row ''vfwsub.vv'' 0 INSN_CLASS_ZVEF ''Vd,Vt,VsVm'' 0xc8001057 0xfc00707f Match_opcode 0x0,
   insn_row ''vfwsub.vf'' 0 INSN_CLASS_ZVEF ''Vd,Vt,SVm'' 0xc8005057 0xfc00707f Match_opcode 0x0,
   insn_row ''vfwadd.wv'' 0 INSN_CLASS_ZVEF ''Vd,Vt,VsVm'' 0xd0001057 0xfc00707f Match_opcode 0x0,
   insn_row ''vfwadd.wf'' 0 INSN_CLASS_ZVEF ''Vd,Vt,SVm'' 0xd0005057 0xfc00707f Match_opcode 0x0,
   insn_row ''vfwsub.wv'' 0 INSN_CLASS_ZVEF ''Vd,Vt,VsVm'' 0xd8001057 0xfc00707f Match_opcode 0x0,
   insn_row ''vfwsub.wf'' 0 INSN_CLASS_ZVEF ''Vd,Vt,SVm'' 0xd8005057 0xfc00707f Match_opcode 0x0,
   insn_row ''vfmul.vv'' 0 INSN_CLASS_ZVEF ''Vd,Vt,VsVm'' 0x90001057 0xfc00707f Match_opcode 0x0,
   insn_row ''vfmul.vf'' 0 INSN_CLASS_ZVEF ''Vd,Vt,SVm'' 0x90005057 0xfc00707f Match_opcode 0x0,
   insn_row ''vfdiv.vv'' 0 INSN_CLASS_ZVEF ''Vd,Vt,VsVm'' 0x80001057 0xfc00707f Match_opcode 0x0,
   insn_row ''vfdiv.vf'' 0 INSN_CLASS_ZVEF ''Vd,Vt,SVm'' 0x80005057 0xfc00707f Match_opcode 0x0,
   insn_row ''vfrdiv.vf'' 0 INSN_CLASS_ZVEF ''Vd,Vt,SVm'' 0x84005057 0xfc00707f Match_opcode 0x0,
   insn_row ''vfwmul.vv'' 0 INSN_CLASS_ZVEF ''Vd,Vt,VsVm'' 0xe0001057 0xfc00707f Match_opcode 0x0,
   insn_row ''vfwmul.vf'' 0 INSN_CLASS_ZVEF ''Vd,Vt,SVm'' 0xe0005057 0xfc00707f Match_opcode 0x0,
   insn_row ''vfmadd.vv'' 0 INSN_CLASS_ZVEF ''Vd,Vs,VtVm'' 0xa0001057 0xfc00707f Match_opcode 0x0,
   insn_row ''vfmadd.vf'' 0 INSN_CLASS_ZVEF ''Vd,S,VtVm'' 0xa0005057 0xfc00707f Match_opcode 0x0,
   insn_row ''vfnmadd.vv'' 0 INSN_CLASS_ZVEF ''Vd,Vs,VtVm'' 0xa4001057 0xfc00707f Match_opcode 0x0,
   insn_row ''vfnmadd.vf'' 0 INSN_CLASS_ZVEF ''Vd,S,VtVm'' 0xa4005057 0xfc00707f Match_opcode 0x0,
   insn_row ''vfmsub.vv'' 0 INSN_CLASS_ZVEF ''Vd,Vs,VtVm'' 0xa8001057 0xfc00707f Match_opcode 0x0,
   insn_row ''vfmsub.vf'' 0 INSN_CLASS_ZVEF ''Vd,S,VtVm'' 0xa8005057 0xfc00707f Match_opcode 0x0,
   insn_row ''vfnmsub.vv'' 0 INSN_CLASS_ZVEF ''Vd,Vs,VtVm'' 0xac001057 0xfc00707f Match_opcode 0x0,
   insn_row ''vfnmsub.vf'' 0 INSN_CLASS_ZVEF ''Vd,S,VtVm'' 0xac005057 0xfc00707f Match_opcode 0x0,
   insn_row ''vfmacc.vv'' 0 INSN_CLASS_ZVEF ''Vd,Vs,VtVm'' 0xb0001057 0xfc00707f Match_opcode 0x0,
   insn_row ''vfmacc.vf'' 0 INSN_CLASS_ZVEF ''Vd,S,VtVm'' 0xb0005057 0xfc00707f Match_opcode 0x0,
   insn_row ''vfnmacc.vv'' 0 INSN_CLASS_ZVEF ''Vd,Vs,VtVm'' 0xb4001057 0xfc00707f Match_opcode 0x0,
   insn_row ''vfnmacc.vf'' 0 INSN_CLASS_ZVEF ''Vd,S,VtVm'' 0xb4005057 0xfc00707f Match_opcode 0x0,
   insn_row ''vfmsac.vv'' 0 INSN_CLASS_ZVEF ''Vd,Vs,VtVm'' 0xb8001057 0xfc00707f Match_opcode 0x0,
   insn_row ''vfmsac.vf'' 0 INSN_CLASS_ZVEF ''Vd,S,VtVm'' 0xb8005057 0xfc00707f Match_opcode 0x0,
   insn_row ''vfnmsac.vv'' 0 INSN_CLASS_ZVEF ''Vd,Vs,VtVm'' 0xbc001057 0xfc00707f Match_opcode 0x0,
   insn_row ''vfnmsac.vf'' 0 INSN_CLASS_ZVEF ''Vd,S,VtVm'' 0xbc005057 0xfc00707f Match_opcode 0x0,
   insn_row ''vfwmacc.vv'' 0 INSN_CLASS_ZVEF ''Vd,Vs,VtVm'' 0xf0001057 0xfc00707f Match_opcode 0x0,
   insn_row ''vfwmacc.vf'' 0 INSN_CLASS_ZVEF ''Vd,S,VtVm'' 0xf0005057 0xfc00707f Match_opcode 0x0,
   insn_row ''vfwnmacc.vv'' 0 INSN_CLASS_ZVEF ''Vd,Vs,VtVm'' 0xf4001057 0xfc00707f Match_opcode 0x0,
   insn_row ''vfwnmacc.vf'' 0 INSN_CLASS_ZVEF ''Vd,S,VtVm'' 0xf4005057 0xfc00707f Match_opcode 0x0,
   insn_row ''vfwmsac.vv'' 0 INSN_CLASS_ZVEF ''Vd,Vs,VtVm'' 0xf8001057 0xfc00707f Match_opcode 0x0,
   insn_row ''vfwmsac.vf'' 0 INSN_CLASS_ZVEF ''Vd,S,VtVm'' 0xf8005057 0xfc00707f Match_opcode 0x0,
   insn_row ''vfwnmsac.vv'' 0 INSN_CLASS_ZVEF ''Vd,Vs,VtVm'' 0xfc001057 0xfc00707f Match_opcode 0x0,
   insn_row ''vfwnmsac.vf'' 0 INSN_CLASS_ZVEF ''Vd,S,VtVm'' 0xfc005057 0xfc00707f Match_opcode 0x0,
   insn_row ''vfsqrt.v'' 0 INSN_CLASS_ZVEF ''Vd,VtVm'' 0x4c001057 0xfc0ff07f Match_opcode 0x0,
   insn_row ''vfrsqrt7.v'' 0 INSN_CLASS_ZVEF ''Vd,VtVm'' 0x4c021057 0xfc0ff07f Match_opcode 0x0,
   insn_row ''vfrsqrte7.v'' 0 INSN_CLASS_ZVEF ''Vd,VtVm'' 0x4c021057 0xfc0ff07f Match_opcode 0x0,
   insn_row ''vfrec7.v'' 0 INSN_CLASS_ZVEF ''Vd,VtVm'' 0x4c029057 0xfc0ff07f Match_opcode 0x0,
   insn_row ''vfrece7.v'' 0 INSN_CLASS_ZVEF ''Vd,VtVm'' 0x4c029057 0xfc0ff07f Match_opcode 0x0,
   insn_row ''vfclass.v'' 0 INSN_CLASS_ZVEF ''Vd,VtVm'' 0x4c081057 0xfc0ff07f Match_opcode 0x0,
   insn_row ''vfmin.vv'' 0 INSN_CLASS_ZVEF ''Vd,Vt,VsVm'' 0x10001057 0xfc00707f Match_opcode 0x0]"

lemma rows_ok_9: "list_all (row_ok False) riscv_opcodes_9"
  by (simp add: riscv_opcodes_9_def row_eval)

lemma ends_9 [simp]:
  "riscv_opcodes_9 \<noteq> []" "opc_name (hd riscv_opcodes_9) = ''vssseg4e32.v''" "opc_name (last riscv_opcodes_9) = ''vluxseg4ei32.v''"
  unfolding riscv_opcodes_9_def
  by (simp_all only: list.sel last.simps list.distinct if_False if_True refl insn_row_name not_False_eq_True simp_thms)

definition keys_9 :: "int list" where
  "keys_9 = [
    199070, 253039, 231321, 23151, 1433, 55402, 33684, 87653, 65935, 184367, 162649, 216618, 194900, 248869, 227151,
    18981, 259402, 51232, 29514, 83483, 61765, 115734, 94016, 210376, 245801, 242627, 15913, 12739, 48164, 44990,
    80415, 77241, 112666, 109492, 144917, 141743, 177168, 125570, 246099, 168620, 27010, 211670, 70060, 254720,
    113110, 35631, 156160, 78681, 199210, 121731, 242260, 170609, 28999, 213659, 72049, 256709, 115099, 37620, 158149,
    80670, 201199, 123720, 244249, 166770, 25160, 198690, 57080, 241740, 100130, 22651, 143180, 65701, 186230, 108751,
    229280, 151801, 10191, 194851, 53241, 229209, 2495, 261460, 34746, 31572, 66997, 63823, 99248, 96074, 131499,
    128325, 163750, 160576, 196001, 43589, 164118, 86639, 207168, 129689, 250218, 172739, 31129, 215789, 74179,
    258839, 117229, 39750, 160279, 88628, 209157, 131678, 252207, 174728]"

lemma group_keys_9: "map name_key (group_names riscv_opcodes_9) = keys_9"
  by code_simp

lemma key_classes_9:
  "key_class 0 keys_9 = [51232, 94016, 177168, 254720, 156160, 229280, 99248, 160576, 207168]"
  "key_class 1 keys_9 = [170609, 72049, 196001]"
  "key_class 2 keys_9 = [125570, 27010, 166770, 198690, 100130]"
  "key_class 3 keys_9 = [242627, 12739, 246099, 121731, 194851, 172739, 74179]"
  "key_class 4 keys_9 = [33684, 194900, 48164, 109492, 242260, 37620, 261460, 31572, 88628]"
  "key_class 5 keys_9 = [87653, 248869, 18981, 61765, 144917, 256709, 158149, 65701, 66997, 128325, 43589, 209157]"
  "key_class 6 keys_9 = [115734, 211670, 113110, 186230, 163750, 164118, 39750]"
  "key_class 7 keys_9 = [28999, 258839, 160279]"
  "key_class 8 keys_9 = [210376, 123720, 25160, 57080, 174728]"
  "key_class 9 keys_9 = [231321, 1433, 162649, 245801, 15913, 77241, 78681, 244249, 151801, 53241, 229209, 129689, 31129]"
  "key_class 10 keys_9 = [55402, 216618, 259402, 29514, 112666, 199210, 34746, 96074, 250218]"
  "key_class 11 keys_9 = [83483, 213659, 115099, 22651, 131499]"
  "key_class 12 keys_9 = [168620, 70060, 241740, 143180]"
  "key_class 13 keys_9 = [215789, 117229]"
  "key_class 14 keys_9 = [199070, 44990, 80670, 131678]"
  "key_class 15 keys_9 = [253039, 23151, 65935, 184367, 227151, 80415, 141743, 35631, 201199, 108751, 10191, 2495, 63823, 86639, 252207]"
  by code_simp+

lemma rows_ok_10: "list_all (row_ok False) riscv_opcodes_10"
  by (simp add: riscv_opcodes_10_def row_eval)

lemma ends_10 [simp]:
  "riscv_opcodes_10 \<noteq> []" "opc_name (hd riscv_opcodes_10) = ''vsuxseg4ei32.v''" "opc_name (last riscv_opcodes_10) = ''vsext.vf4''"
  unfolding riscv_opcodes_10_def
  by (simp_all only: list.sel last.simps list.distinct if_False if_True refl insn_row_name not_False_eq_True simp_thms)

definition keys_10 :: "int list" where
  "keys_10 = [
    33118, 217778, 76168, 260828, 119218, 41739, 162268, 84789, 205318, 116709, 237238, 159759, 18149, 202809, 61199,
    245859, 104249, 26770, 147299, 69820, 190349, 112870, 233399, 20922, 63972, 107022, 150072, 193122, 236172, 17083,
    64495, 214482, 102330, 252317, 140165, 28013, 178000, 88593, 238580, 126428, 14276, 164263, 52111, 202098, 205548,
    93396, 243383, 131231, 19079, 169066, 56914, 174831, 35976, 76639, 121678, 149759, 89179, 68227, 119689, 164728,
    192809, 180014, 132729, 205789, 250828, 16770, 99545, 261733, 115850, 160889, 188970, 245538, 159886, 250721,
    170252, 71553, 143989, 143991, 143976, 18972, 18974, 244066, 244051, 92956, 191900, 44447, 44449, 36717, 36719,
    60053, 60055, 197175, 197177, 44554, 44556, 36824, 36826, 60160, 60162, 197282, 197284, 250775, 249422, 250777,
    249424]"

lemma group_keys_10: "map name_key (group_names riscv_opcodes_10) = keys_10"
  by code_simp

lemma key_classes_10:
  "key_class 0 keys_10 = [178000, 60160, 249424]"
  "key_class 1 keys_10 = [88593, 250721, 71553, 44449]"
  "key_class 2 keys_10 = [217778, 119218, 26770, 193122, 214482, 202098, 56914, 16770, 245538, 244066, 60162, 197282]"
  "key_class 3 keys_10 = [245859, 147299, 68227, 244051]"
  "key_class 4 keys_10 = [63972, 238580, 14276, 93396, 197284]"
  "key_class 5 keys_10 = [84789, 116709, 18149, 140165, 261733, 143989, 60053]"
  "key_class 6 keys_10 = [205318, 237238, 112870]"
  "key_class 7 keys_10 = [233399, 164263, 243383, 19079, 143991, 60055, 197175, 250775]"
  "key_class 8 keys_10 = [76168, 150072, 35976, 164728, 143976, 36824]"
  "key_class 9 keys_10 = [202809, 104249, 119689, 192809, 132729, 99545, 160889, 197177, 250777]"
  "key_class 10 keys_10 = [20922, 102330, 169066, 115850, 188970, 44554, 36826]"
  "key_class 11 keys_10 = [41739, 17083, 89179]"
  "key_class 12 keys_10 = [260828, 162268, 69820, 236172, 126428, 205548, 250828, 170252, 18972, 92956, 191900, 44556]"
  "key_class 13 keys_10 = [190349, 252317, 28013, 205789, 36717]"
  "key_class 14 keys_10 = [33118, 107022, 121678, 180014, 159886, 18974, 249422]"
  "key_class 15 keys_10 = [159759, 61199, 64495, 52111, 131231, 174831, 76639, 149759, 44447, 36719]"
  by code_simp+

lemma rows_ok_11: "list_all (row_ok False) riscv_opcodes_11"
  by (simp add: riscv_opcodes_11_def row_eval)

lemma ends_11 [simp]:
  "riscv_opcodes_11 \<noteq> []" "opc_name (hd riscv_opcodes_11) = ''vzext.vf8''" "opc_name (last riscv_opcodes_11) = ''vnmsub.vx''"
  unfolding riscv_opcodes_11_def
  by (simp_all only: list.sel last.simps list.distinct if_False if_True refl insn_row_name not_False_eq_True simp_thms)

definition keys_11 :: "int list" where
  "keys_11 = [
    250781, 249428, 192769, 192983, 191378, 197307, 197521, 195916, 239483, 239485, 239470, 116750, 116964, 121288,
    121502, 13382, 13384, 150287, 244999, 245001, 244986, 158262, 158264, 158249, 59884, 59886, 59871, 120099, 120101,
    120086, 180705, 180707, 180692, 74321, 74323, 74308, 211513, 233704, 233706, 233691, 127320, 127322, 127307,
    155252, 155254, 155239, 225429, 225431, 225416, 1240, 1242, 231142, 231144, 111864, 111866, 111851, 205227,
    205229, 205214, 102126, 102111, 180639, 180624, 180637, 102124, 154722, 212748, 231129, 1227, 154709, 212735,
    154724, 212750, 105321, 105323, 249264, 249266, 210462, 210464, 98353, 98355, 17502, 17504, 12773, 12775, 228267,
    228269, 197691, 197693, 195705, 195707, 141566, 141568, 95549, 95551, 229382, 229384, 157806, 157808, 153831,
    153833, 183339, 183341]"

lemma group_keys_11: "map name_key (group_names riscv_opcodes_11) = keys_11"
  by code_simp

lemma key_classes_11:
  "key_class 0 keys_11 = [180624, 249264, 210464, 17504, 141568, 157808]"
  "key_class 1 keys_11 = [192769, 197521, 180705, 74321, 98353]"
  "key_class 2 keys_11 = [191378, 154722, 249266]"
  "key_class 3 keys_11 = [120099, 180707, 74323, 98355]"
  "key_class 4 keys_11 = [249428, 116964, 180692, 74308, 155252, 154724]"
  "key_class 5 keys_11 = [120101, 225429, 154709, 12773]"
  "key_class 6 keys_11 = [13382, 158262, 120086, 155254, 231142, 229382]"
  "key_class 7 keys_11 = [192983, 244999, 155239, 225431, 12775, 153831]"
  "key_class 8 keys_11 = [121288, 13384, 158264, 233704, 127320, 225416, 1240, 231144, 111864, 229384]"
  "key_class 9 keys_11 = [245001, 158249, 211513, 231129, 105321, 195705, 153833]"
  "key_class 10 keys_11 = [244986, 233706, 127322, 1242, 111866]"
  "key_class 11 keys_11 = [197307, 239483, 233691, 127307, 111851, 205227, 1227, 105323, 228267, 197691, 195707, 183339]"
  "key_class 12 keys_11 = [195916, 59884, 102124, 212748]"
  "key_class 13 keys_11 = [250781, 239485, 205229, 180637, 228269, 197693, 95549, 183341]"
  "key_class 14 keys_11 = [239470, 116750, 121502, 59886, 205214, 102126, 212750, 210462, 17502, 141566, 157806]"
  "key_class 15 keys_11 = [150287, 59871, 102111, 180639, 212735, 95551]"
  by code_simp+

lemma rows_ok_12: "list_all (row_ok False) riscv_opcodes_12"
  by (simp add: riscv_opcodes_12_def row_eval)

lemma ends_12 [simp]:
  "riscv_opcodes_12 \<noteq> []" "opc_name (hd riscv_opcodes_12) = ''vwmaccu.vv''" "opc_name (last riscv_opcodes_12) = ''vfmin.vv''"
  unfolding riscv_opcodes_12_def
  by (simp_all only: list.sel last.simps list.distinct if_False if_True refl insn_row_name not_False_eq_True simp_thms)

definition keys_12 :: "int list" where
  "keys_12 = [
    93369, 93371, 160956, 160958, 181250, 181252, 110619, 60818, 60820, 60206, 60208, 181466, 181468, 193628, 193630,
    69643, 69857, 68252, 125454, 125456, 125441, 230916, 230918, 230903, 149992, 149994, 149979, 223186, 223188,
    24975, 24977, 152540, 152542, 161509, 161511, 144810, 144812, 36492, 36494, 23505, 23507, 186708, 186710, 186695,
    80324, 80326, 80311, 179500, 179502, 179487, 41822, 41824, 41809, 114620, 114604, 251742, 251726, 247233, 63238,
    63222, 200360, 200344, 63345, 63329, 200467, 200451, 250272, 250256, 30837, 30821, 26328, 198890, 198874, 157016,
    157000, 124873, 124857, 31999, 31983, 261995, 261979, 232567, 232551, 200424, 200408, 6466, 6450, 236462, 236446,
    239612, 239596, 167822, 167806, 13511, 13495, 203860, 203844, 158910, 103317, 132629, 67560, 238715, 72749,
    219895]"

lemma group_keys_12: "map name_key (group_names riscv_opcodes_12) = keys_12"
  by code_simp

lemma key_classes_12:
  "key_class 0 keys_12 = [60208, 125456, 41824, 250272, 250256]"
  "key_class 1 keys_12 = [69857, 125441, 24977, 23505, 41809, 247233, 63345, 63329]"
  "key_class 2 keys_12 = [181250, 60818, 223186, 6466, 6450]"
  "key_class 3 keys_12 = [23507, 200467, 200451]"
  "key_class 4 keys_12 = [181252, 60820, 230916, 223188, 186708, 80324, 203860, 203844]"
  "key_class 5 keys_12 = [161509, 30837, 30821, 103317, 132629]"
  "key_class 6 keys_12 = [230918, 186710, 80326, 63238, 63222]"
  "key_class 7 keys_12 = [230903, 161511, 186695, 80311, 232567, 232551, 13511, 13495, 219895]"
  "key_class 8 keys_12 = [149992, 200360, 200344, 26328, 157016, 157000, 200424, 200408, 67560]"
  "key_class 9 keys_12 = [93369, 124873, 124857]"
  "key_class 10 keys_12 = [181466, 149994, 144810, 198890, 198874]"
  "key_class 11 keys_12 = [93371, 110619, 69643, 149979, 261995, 261979, 238715]"
  "key_class 12 keys_12 = [160956, 181468, 193628, 68252, 152540, 144812, 36492, 179500, 114620, 114604, 239612, 239596]"
  "key_class 13 keys_12 = [72749]"
  "key_class 14 keys_12 = [160958, 60206, 193630, 125454, 152542, 36494, 179502, 41822, 251742, 251726, 236462, 236446, 167822, 167806, 158910]"
  "key_class 15 keys_12 = [24975, 179487, 31999, 31983]"
  by code_simp+

end
