(* ===== verification/Riscv_Table4.thy ===== *)
theory Riscv_Table4
  imports Riscv_Validate
begin

text \<open>
  Rows of \<open>riscv_opcodes\<close> (opcodes/riscv-opc.c, lines 1779 to 2162), in the order of the source, with the macros
  of include/opcode/riscv-opc.h expanded; each part is checked against \<open>validate_riscv_insn\<close>.
\<close>

definition riscv_opcodes_13 :: "riscv_opcode list" where
  "riscv_opcodes_13 =
  [
   insn_row ''vfmin.vf'' 0 INSN_CLASS_ZVEF ''Vd,Vt,SVm'' 0x10005057 0xfc00707f Match_opcode 0x0,
   insn_row ''vfmax.vv'' 0 INSN_CLASS_ZVEF ''Vd,Vt,VsVm'' 0x18001057 0xfc00707f Match_opcode 0x0,
   insn_row ''vfmax.vf'' 0 INSN_CLASS_ZVEF ''Vd,Vt,SVm'' 0x18005057 0xfc00707f Match_opcode 0x0,
   insn_row ''vfneg.v'' 0 INSN_CLASS_ZVEF ''Vd,VuVm'' 0x24001057 0xfc00707f Match_vs1_eq_vs2 0x1,
   insn_row ''vfabs.v'' 0 INSN_CLASS_ZVEF ''Vd,VuVm'' 0x28001057 0xfc00707f Match_vs1_eq_vs2 0x1,
   insn_row ''vfsgnj.vv'' 0 INSN_CLASS_ZVEF ''Vd,Vt,VsVm'' 0x20001057 0xfc00707f Match_opcode 0x0,
   insn_row ''vfsgnj.vf'' 0 INSN_CLASS_ZVEF ''Vd,Vt,SVm'' 0x20005057 0xfc00707f Match_opcode 0x0,
   insn_row ''vfsgnjn.vv'' 0 INSN_CLASS_ZVEF ''Vd,Vt,VsVm'' 0x24001057 0xfc00707f Match_opcode 0x0,
   insn_row ''vfsgnjn.vf'' 0 INSN_CLASS_ZVEF ''Vd,Vt,SVm'' 0x24005057 0xfc00707f Match_opcode 0x0,
   insn_row ''vfsgnjx.vv'' 0 INSN_CLASS_ZVEF ''Vd,Vt,VsVm'' 0x28001057 0xfc00707f Match_opcode 0x0,
   insn_row ''vfsgnjx.vf'' 0 INSN_CLASS_ZVEF ''Vd,Vt,SVm'' 0x28005057 0xfc00707f Match_opcode 0x0,
   insn_row ''vmfeq.vv'' 0 INSN_CLASS_ZVEF ''Vd,Vt,VsVm'' 0x60001057 0xfc00707f Match_opcode 0x0,
   insn_row ''vmfeq.vf'' 0 INSN_CLASS_ZVEF ''Vd,Vt,SVm'' 0x60005057 0xfc00707f Match_opcode 0x0,
   insn_row ''vmfne.vv'' 0 INSN_CLASS_ZVEF ''Vd,Vt,VsVm'' 0x70001057 0xfc00707f Match_opcode 0x0,
   insn_row ''vmfne.vf'' 0 INSN_CLASS_ZVEF ''Vd,Vt,SVm'' 0x70005057 0xfc00707f Match_opcode 0x0,
   insn_row ''vmflt.vv'' 0 INSN_CLASS_ZVEF ''Vd,Vt,VsVm'' 0x6c001057 0xfc00707f Match_opcode 0x0,
   insn_row ''vmflt.vf'' 0 INSN_CLASS_ZVEF ''Vd,Vt,SVm'' 0x6c005057 0xfc00707f Match_opcode 0x0,
   insn_row ''vmfle.vv'' 0 INSN_CLASS_ZVEF ''Vd,Vt,VsVm'' 0x64001057 0xfc00707f Match_opcode 0x0,
   insn_row ''vmfle.vf'' 0 INSN_CLASS_ZVEF ''Vd,Vt,SVm'' 0x64005057 0xfc00707f Match_opcode 0x0,
   insn_row ''vmfgt.vf'' 0 INSN_CLASS_ZVEF ''Vd,Vt,SVm'' 0x74005057 0xfc00707f Match_opcode 0x0,
   insn_row ''vmfge.vf'' 0 INSN_CLASS_ZVEF ''Vd,Vt,SVm'' 0x7c005057 0xfc00707f Match_opcode 0x0,
   insn_row ''vmfgt.vv'' 0 INSN_CLASS_ZVEF ''Vd,Vs,VtVm'' 0x6c001057 0xfc00707f Match_opcode 0x1,
   insn_row ''vmfge.vv'' 0 INSN_CLASS_ZVEF ''Vd,Vs,VtVm'' 0x64001057 0xfc00707f Match_opcode 0x1,
   insn_row ''vfmerge.vfm'' 0 INSN_CLASS_ZVEF ''Vd,Vt,S,V0'' 0x5c005057 0xfe00707f Match_opcode 0x0,
   insn_row ''vfmv.v.f'' 0 INSN_CLASS_ZVEF ''Vd,S'' 0x5e005057 0xfff0707f Match_opcode 0x0,
   insn_row ''vfcvt.xu.f.v'' 0 INSN_CLASS_ZVEF ''Vd,VtVm'' 0x48001057 0xfc0ff07f Match_opcode 0x0,
   insn_row ''vfcvt.x.f.v'' 0 INSN_CLASS_ZVEF ''Vd,VtVm'' 0x48009057 0xfc0ff07f Match_opcode 0x0,
   insn_row ''vfcvt.rtz.xu.f.v'' 0 INSN_CLASS_ZVEF ''Vd,VtVm'' 0x48031057 0xfc0ff07f Match_opcode 0x0,
   insn_row ''vfcvt.rtz.x.f.v'' 0 INSN_CLASS_ZVEF ''Vd,VtVm'' 0x48039057 0xfc0ff07f Match_opcode 0x0,
   insn_row ''vfcvt.f.xu.v'' 0 INSN_CLASS_ZVEF ''Vd,VtVm'' 0x48011057 0xfc0ff07f Match_opcode 0x0,
   insn_row ''vfcvt.f.x.v'' 0 INSN_CLASS_ZVEF ''Vd,VtVm'' 0x48019057 0xfc0ff07f Match_opcode 0x0,
   insn_row ''vfwcvt.xu.f.v'' 0 INSN_CLASS_ZVEF ''Vd,VtVm'' 0x48041057 0xfc0ff07f Match_opcode 0x0,
   insn_row ''vfwcvt.x.f.v'' 0 INSN_CLASS_ZVEF ''Vd,VtVm'' 0x48049057 0xfc0ff07f Match_opcode 0x0,
   insn_row ''vfwcvt.rtz.xu.f.v'' 0 INSN_CLASS_ZVEF ''Vd,VtVm'' 0x48071057 0xfc0ff07f Match_opcode 0x0,
   insn_row ''vfwcvt.rtz.x.f.v'' 0 INSN_CLASS_ZVEF ''Vd,VtVm'' 0x48079057 0xfc0ff07f Match_opcode 0x0,
   insn_row ''vfwcvt.f.xu.v'' 0 INSN_CLASS_ZVEF ''Vd,VtVm'' 0x48051057 0xfc0ff07f Match_opcode 0x0,
   insn_row ''vfwcvt.f.x.v'' 0 INSN_CLASS_ZVEF ''Vd,VtVm'' 0x48059057 0xfc0ff07f Match_opcode 0x0,
   insn_row ''vfwcvt.f.f.v'' 0 INSN_CLASS_ZVEF ''Vd,VtVm'' 0x48061057 0xfc0ff07f Match_opcode 0x0,
   insn_row ''vfncvt.xu.f.w'' 0 INSN_CLASS_ZVEF ''Vd,VtVm'' 0x48081057 0xfc0ff07f Match_opcode 0x0,
   insn_row ''vfncvt.x.f.w'' 0 INSN_CLASS_ZVEF ''Vd,VtVm'' 0x48089057 0xfc0ff07f Match_opcode 0x0,
   insn_row ''vfncvt.rtz.xu.f.w'' 0 INSN_CLASS_ZVEF ''Vd,VtVm'' 0x480b1057 0xfc0ff07f Match_opcode 0x0,
   insn_row ''vfncvt.rtz.x.f.w'' 0 INSN_CLASS_ZVEF ''Vd,VtVm'' 0x480b9057 0xfc0ff07f Match_opcode 0x0,
   insn_row ''vfncvt.f.xu.w'' 0 INSN_CLASS_ZVEF ''Vd,VtVm'' 0x48091057 0xfc0ff07f Match_opcode 0x0,
   insn_row ''vfncvt.f.x.w'' 0 INSN_CLASS_ZVEF ''Vd,VtVm'' 0x48099057 0xfc0ff07f Match_opcode 0x0,
   insn_row ''vfncvt.f.f.w'' 0 INSN_CLASS_ZVEF ''Vd,VtVm'' 0x480a1057 0xfc0ff07f Match_opcode 0x0,
   insn_row ''vfncvt.rod.f.f.w'' 0 INSN_CLASS_ZVEF ''Vd,VtVm'' 0x480a9057 0xfc0ff07f Match_opcode 0x0,
   insn_row ''vredsum.vs'' 0 INSN_CLASS_V ''Vd,Vt,VsVm'' 0x2057 0xfc00707f Match_opcode 0x0,
   insn_row ''vredmaxu.vs'' 0 INSN_CLASS_V ''Vd,Vt,VsVm'' 0x18002057 0xfc00707f Match_opcode 0x0,
   insn_row ''vredmax.vs'' 0 INSN_CLASS_V ''Vd,Vt,VsVm'' 0x1c002057 0xfc00707f Match_opcode 0x0,
   insn_row ''vredminu.vs'' 0 INSN_CLASS_V ''Vd,Vt,VsVm'' 0x10002057 0xfc00707f Match_opcode 0x0,
   insn_row ''vredmin.vs'' 0 INSN_CLASS_V ''Vd,Vt,VsVm'' 0x14002057 0xfc00707f Match_opcode 0x0,
   insn_row ''vredand.vs'' 0 INSN_CLASS_V ''Vd,Vt,VsVm'' 0x4002057 0xfc00707f Match_opcode 0x0,
   insn_row ''vredor.vs'' 0 INSN_CLASS_V ''Vd,Vt,VsVm'' 0x8002057 0xfc00707f Match_opcode 0x0,
   insn_row ''vredxor.vs'' 0 INSN_CLASS_V ''Vd,Vt,VsVm'' 0xc002057 0xfc00707f Match_opcode 0x0,
   insn_row ''vwredsumu.vs'' 0 INSN_CLASS_V ''Vd,Vt,VsVm'' 0xc0000057 0xfc00707f Match_opcode 0x0,
   insn_row ''vwredsum.vs'' 0 INSN_CLASS_V ''Vd,Vt,VsVm'' 0xc4000057 0xfc00707f Match_opcode 0x0,
   insn_row ''vfredosum.vs'' 0 INSN_CLASS_ZVEF ''Vd,Vt,VsVm'' 0xc001057 0xfc00707f Match_opcode 0x0,
   insn_row ''vfredusum.vs'' 0 INSN_CLASS_ZVEF ''Vd,Vt,VsVm'' 0x4001057 0xfc00707f Match_opcode 0x0,
   insn_row ''vfredsum.vs'' 0 INSN_CLASS_ZVEF ''Vd,Vt,VsVm'' 0x4001057 0xfc00707f Match_opcode 0x1,
   insn_row ''vfredmax.vs'' 0 INSN_CLASS_ZVEF ''Vd,Vt,VsVm'' 0x1c001057 0xfc00707f Match_opcode 0x0,
   insn_row ''vfredmin.vs'' 0 INSN_CLASS_ZVEF ''Vd,Vt,VsVm'' 0x14001057 0xfc00707f Match_opcode 0x0,
   insn_row ''vfwredosum.vs'' 0 INSN_CLASS_ZVEF ''Vd,Vt,VsVm'' 0xcc001057 0xfc00707f Match_opcode 0x0,
   insn_row ''vfwredusum.vs'' 0 INSN_CLASS_ZVEF ''Vd,Vt,VsVm'' 0xc4001057 0xfc00707f Match_opcode 0x0,
   insn_row ''vfwredsum.vs'' 0 INSN_CLASS_ZVEF ''Vd,Vt,VsVm'' 0xc4001057 0xfc00707f Match_opcode 0x1,
   insn_row ''vmmv.m'' 0 INSN_CLASS_V ''Vd,Vu'' 0x66002057 0xfe00707f Match_vs1_eq_vs2 0x1,
   insn_row ''vmcpy.m'' 0 INSN_CLASS_V ''Vd,Vu'' 0x66002057 0xfe00707f Match_vs1_eq_vs2 0x1,
   insn_row ''vmclr.m'' 0 INSN_CLASS_V ''Vv'' 0x6e002057 0xfe00707f Match_vd_eq_vs1_eq_vs2 0x1,
   insn_row ''vmset.m'' 0 INSN_CLASS_V ''Vv'' 0x7e002057 0xfe00707f Match_vd_eq_vs1_eq_vs2 0x1,
   insn_row ''vmnot.m'' 0 INSN_CLASS_V ''Vd,Vu'' 0x76002057 0xfe00707f Match_vs1_eq_vs2 0x1,
   insn_row ''vmand.mm'' 0 INSN_CLASS_V ''Vd,Vt,Vs'' 0x66002057 0xfe00707f Match_opcode 0x0,
   insn_row ''vmnand.mm'' 0 INSN_CLASS_V ''Vd,Vt,Vs'' 0x76002057 0xfe00707f Match_opcode 0x0,
   insn_row ''vmandn.mm'' 0 INSN_CLASS_V ''Vd,Vt,Vs'' 0x62002057 0xfe00707f Match_opcode 0x0,
   insn_row ''vmandnot.mm'' 0 INSN_CLASS_V ''Vd,Vt,Vs'' 0x62002057 0xfe00707f Match_opcode 0x1,
   insn_row ''vmxor.mm'' 0 INSN_CLASS_V ''Vd,Vt,Vs'' 0x6e002057 0xfe00707f Match_opcode 0x0,
   insn_row ''vmor.mm'' 0 INSN_CLASS_V ''Vd,Vt,Vs'' 0x6a002057 0xfe00707f Match_opcode 0x0,
   insn_row ''vmnor.mm'' 0 INSN_CLASS_V ''Vd,Vt,Vs'' 0x7a002057 0xfe00707f Match_opcode 0x0,
   insn_row ''vmorn.mm'' 0 INSN_CLASS_V ''Vd,Vt,Vs'' 0x72002057 0xfe00707f Match_opcode 0x0,
   insn_row ''vmornot.mm'' 0 INSN_CLASS_V ''Vd,Vt,Vs'' 0x72002057 0xfe00707f Match_opcode 0x1,
   insn_row ''vmxnor.mm'' 0 INSN_CLASS_V ''Vd,Vt,Vs'' 0x7e002057 0xfe00707f Match_opcode 0x0,
   insn_row ''vcpop.m'' 0 INSN_CLASS_V ''d,VtVm'' 0x40082057 0xfc0ff07f Match_opcode 0x0,
   insn_row ''vpopc.m'' 0 INSN_CLASS_V ''d,VtVm'' 0x40082057 0xfc0ff07f Match_opcode 0x1,
   insn_row ''vfirst.m'' 0 INSN_CLASS_V ''d,VtVm'' 0x4008a057 0xfc0ff07f Match_opcode 0x0,
   insn_row ''vmsbf.m'' 0 INSN_CLASS_V ''Vd,VtVm'' 0x5000a057 0xfc0ff07f Match_opcode 0x0,
   insn_row ''vmsif.m'' 0 INSN_CLASS_V ''Vd,VtVm'' 0x5001a057 0xfc0ff07f Match_opcode 0x0,
   insn_row ''vmsof.m'' 0 INSN_CLASS_V ''Vd,VtVm'' 0x50012057 0xfc0ff07f Match_opcode 0x0,
   insn_row ''viota.m'' 0 INSN_CLASS_V ''Vd,VtVm'' 0x50082057 0xfc0ff07f Match_opcode 0x0,
   insn_row ''vid.v'' 0 INSN_CLASS_V ''VdVm'' 0x5008a057 0xfdfff07f Match_opcode 0x0,
   insn_row ''vmv.x.s'' 0 INSN_CLASS_V ''d,Vt'' 0x42002057 0xfe0ff07f Match_opcode 0x0,
   insn_row ''vmv.s.x'' 0 INSN_CLASS_V ''Vd,s'' 0x42006057 0xfff0707f Match_opcode 0x0,
   insn_row ''vfmv.f.s'' 0 INSN_CLASS_ZVEF ''D,Vt'' 0x42001057 0xfe0ff07f Match_opcode 0x0,
   insn_row ''vfmv.s.f'' 0 INSN_CLASS_ZVEF ''Vd,S'' 0x42005057 0xfff0707f Match_opcode 0x0,
   insn_row ''vslideup.vx'' 0 INSN_CLASS_V ''Vd,Vt,sVm'' 0x38004057 0xfc00707f Match_opcode 0x0,
   insn_row ''vslideup.vi'' 0 INSN_CLASS_V ''Vd,Vt,VjVm'' 0x38003057 0xfc00707f Match_opcode 0x0,
   insn_row ''vslidedown.vx'' 0 INSN_CLASS_V ''Vd,Vt,sVm'' 0x3c004057 0xfc00707f Match_opcode 0x0,
   insn_row ''vslidedown.vi'' 0 INSN_CLASS_V ''Vd,Vt,VjVm'' 0x3c003057 0xfc00707f Match_opcode 0x0,
   insn_row ''vslide1up.vx'' 0 INSN_CLASS_V ''Vd,Vt,sVm'' 0x38006057 0xfc00707f Match_opcode 0x0,
   insn_row ''vslide1down.vx'' 0 INSN_CLASS_V ''Vd,Vt,sVm'' 0x3c006057 0xfc00707f Match_opcode 0x0,
   insn_row ''vfslide1up.vf'' 0 INSN_CLASS_ZVEF ''Vd,Vt,SVm'' 0x38005057 0xfc00707f Match_opcode 0x0,
   insn_row ''vfslide1down.vf'' 0 INSN_CLASS_ZVEF ''Vd,Vt,SVm'' 0x3c005057 0xfc00707f Match_opcode 0x0]"

definition riscv_opcodes_14 :: "riscv_opcode list" where
  "riscv_opcodes_14 =
  [
   insn_row ''vrgather.vv'' 0 INSN_CLASS_V ''Vd,Vt,VsVm'' 0x30000057 0xfc00707f Match_opcode 0x0,
   insn_row ''vrgather.vx'' 0 INSN_CLASS_V ''Vd,Vt,sVm'' 0x30004057 0xfc00707f Match_opcode 0x0,
   insn_row ''vrgather.vi'' 0 INSN_CLASS_V ''Vd,Vt,VjVm'' 0x30003057 0xfc00707f Match_opcode 0x0,
   insn_row ''vrgatherei16.vv'' 0 INSN_CLASS_V ''Vd,Vt,VsVm'' 0x38000057 0xfc00707f Match_opcode 0x0,
   insn_row ''vcompress.vm'' 0 INSN_CLASS_V ''Vd,Vt,Vs'' 0x5e002057 0xfe00707f Match_opcode 0x0,
   insn_row ''vmv1r.v'' 0 INSN_CLASS_V ''Vd,Vt'' 0x9e003057 0xfe0ff07f Match_opcode 0x0,
   insn_row ''vmv2r.v'' 0 INSN_CLASS_V ''Vd,Vt'' 0x9e00b057 0xfe0ff07f Match_opcode 0x0,
   insn_row ''vmv4r.v'' 0 INSN_CLASS_V ''Vd,Vt'' 0x9e01b057 0xfe0ff07f Match_opcode 0x0,
   insn_row ''vmv8r.v'' 0 INSN_CLASS_V ''Vd,Vt'' 0x9e03b057 0xfe0ff07f Match_opcode 0x0,
   insn_row ''vandn.vv'' 0 INSN_CLASS_ZVBB ''Vd,Vt,VsVm'' 0x4000057 0xfc00707f Match_opcode 0x0,
   insn_row ''vandn.vx'' 0 INSN_CLASS_ZVBB ''Vd,Vt,sVm'' 0x4004057 0xfc00707f Match_opcode 0x0,
   insn_row ''vbrev.v'' 0 INSN_CLASS_ZVBB ''Vd,VtVm'' 0x48052057 0xfc0ff07f Match_opcode 0x0,
   insn_row ''vbrev8.v'' 0 INSN_CLASS_ZVBB ''Vd,VtVm'' 0x48042057 0xfc0ff07f Match_opcode 0x0,
   insn_row ''vrev8.v'' 0 INSN_CLASS_ZVBB ''Vd,VtVm'' 0x4804a057 0xfc0ff07f Match_opcode 0x0,
   insn_row ''vclz.v'' 0 INSN_CLASS_ZVBB ''Vd,VtVm'' 0x48062057 0xfc0ff07f Match_opcode 0x0,
   insn_row ''vctz.v'' 0 INSN_CLASS_ZVBB ''Vd,VtVm'' 0x4806a057 0xfc0ff07f Match_opcode 0x0,
   insn_row ''vcpop.v'' 0 INSN_CLASS_ZVBB ''Vd,VtVm'' 0x48072057 0xfc0ff07f Match_opcode 0x0,
   insn_row ''vrol.vv'' 0 INSN_CLASS_ZVBB ''Vd,Vt,VsVm'' 0x54000057 0xfc00707f Match_opcode 0x0,
   insn_row ''vrol.vx'' 0 INSN_CLASS_ZVBB ''Vd,Vt,sVm'' 0x54004057 0xfc00707f Match_opcode 0x0,
   insn_row ''vror.vv'' 0 INSN_CLASS_ZVBB ''Vd,Vt,VsVm'' 0x50000057 0xfc00707f Match_opcode 0x0,
   insn_row ''vror.vx'' 0 INSN_CLASS_ZVBB ''Vd,Vt,sVm'' 0x50004057 0xfc00707f Match_opcode 0x0,
   insn_row ''vror.vi'' 0 INSN_CLASS_ZVBB ''Vd,Vt,VlVm'' 0x50003057 0xf800707f Match_opcode 0x0,
   insn_row ''vwsll.vv'' 0 INSN_CLASS_ZVBB ''Vd,Vt,VsVm'' 0xd4000057 0xfc00707f Match_opcode 0x0,
   insn_row ''vwsll.vx'' 0 INSN_CLASS_ZVBB ''Vd,Vt,sVm'' 0xd4004057 0xfc00707f Match_opcode 0x0,
   insn_row ''vwsll.vi'' 0 INSN_CLASS_ZVBB ''Vd,Vt,VjVm'' 0xd4003057 0xfc00707f Match_opcode 0x0,
   insn_row ''vclmul.vv'' 0 INSN_CLASS_ZVBC ''Vd,Vt,VsVm'' 0x30002057 0xfc00707f Match_opcode 0x0,
   insn_row ''vclmul.vx'' 0 INSN_CLASS_ZVBC ''Vd,Vt,sVm'' 0x30006057 0xfc00707f Match_opcode 0x0,
   insn_row ''vclmulh.vv'' 0 INSN_CLASS_ZVBC ''Vd,Vt,VsVm'' 0x34002057 0xfc00707f Match_opcode 0x0,
   insn_row ''vclmulh.vx'' 0 INSN_CLASS_ZVBC ''Vd,Vt,sVm'' 0x34006057 0xfc00707f Match_opcode 0x0,
   insn_row ''vghsh.vv'' 0 INSN_CLASS_ZVKG ''Vd,Vt,Vs'' 0xb2002077 0xfe00707f Match_opcode 0x0,
   insn_row ''vgmul.vv'' 0 INSN_CLASS_ZVKG ''Vd,Vt'' 0xa208a077 0xfe0ff07f Match_opcode 0x0,
   insn_row ''vaesdf.vv'' 0 INSN_CLASS_ZVKNED ''Vd,Vt'' 0xa200a077 0xfe0ff07f Match_opcode 0x0,
   insn_row ''vaesdf.vs'' 0 INSN_CLASS_ZVKNED ''Vd,Vt'' 0xa600a077 0xfe0ff07f Match_opcode 0x0,
   insn_row ''vaesdm.vv'' 0 INSN_CLASS_ZVKNED ''Vd,Vt'' 0xa2002077 0xfe0ff07f Match_opcode 0x0,
   insn_row ''vaesdm.vs'' 0 INSN_CLASS_ZVKNED ''Vd,Vt'' 0xa6002077 0xfe0ff07f Match_opcode 0x0,
   insn_row ''vaesef.vv'' 0 INSN_CLASS_ZVKNED ''Vd,Vt'' 0xa201a077 0xfe0ff07f Match_opcode 0x0,
   insn_row ''vaesef.vs'' 0 INSN_CLASS_ZVKNED ''Vd,Vt'' 0xa601a077 0xfe0ff07f Match_opcode 0x0,
   insn_row ''vaesem.vv'' 0 INSN_CLASS_ZVKNED ''Vd,Vt'' 0xa2012077 0xfe0ff07f Match_opcode 0x0,
   insn_row ''vaesem.vs'' 0 INSN_CLASS_ZVKNED ''Vd,Vt'' 0xa6012077 0xfe0ff07f Match_opcode 0x0,
   insn_row ''vaeskf1.vi'' 0 INSN_CLASS_ZVKNED ''Vd,Vt,Vj'' 0x8a002077 0xfe00707f Match_opcode 0x0,
   insn_row ''vaeskf2.vi'' 0 INSN_CLASS_ZVKNED ''Vd,Vt,Vj'' 0xaa002077 0xfe00707f Match_opcode 0x0,
   insn_row ''vaesz.vs'' 0 INSN_CLASS_ZVKNED ''Vd,Vt'' 0xa603a077 0xfe0ff07f Match_opcode 0x0,
   insn_row ''vsha2ch.vv'' 0 INSN_CLASS_ZVKNHA_OR_ZVKNHB ''Vd,Vt,Vs'' 0xba002077 0xfe00707f Match_opcode 0x0,
   insn_row ''vsha2cl.vv'' 0 INSN_CLASS_ZVKNHA_OR_ZVKNHB ''Vd,Vt,Vs'' 0xbe002077 0xfe00707f Match_opcode 0x0,
   insn_row ''vsha2ms.vv'' 0 INSN_CLASS_ZVKNHA_OR_ZVKNHB ''Vd,Vt,Vs'' 0xb6002077 0xfe00707f Match_opcode 0x0,
   insn_row ''vsm4k.vi'' 0 INSN_CLASS_ZVKSED ''Vd,Vt,Vj'' 0x86002077 0xfe00707f Match_opcode 0x0,
   insn_row ''vsm4r.vv'' 0 INSN_CLASS_ZVKSED ''Vd,Vt'' 0xa2082077 0xfe0ff07f Match_opcode 0x0,
   insn_row ''vsm4r.vs'' 0 INSN_CLASS_ZVKSED ''Vd,Vt'' 0xa6082077 0xfe0ff07f Match_opcode 0x0,
   insn_row ''vsm3c.vi'' 0 INSN_CLASS_ZVKSH ''Vd,Vt,Vj'' 0xae002077 0xfe00707f Match_opcode 0x0,
   insn_row ''vsm3me.vv'' 0 INSN_CLASS_ZVKSH ''Vd,Vt,Vs'' 0x82002077 0xfe00707f Match_opcode 0x0,
   insn_row ''csrr'' 0 INSN_CLASS_ZICSR ''d,E'' 0x2073 0xff07f Match_opcode 0x1,
   insn_row ''csrw'' 0 INSN_CLASS_ZICSR ''E,s'' 0x1073 0x7fff Match_opcode 0x1,
   insn_row ''csrw'' 0 INSN_CLASS_ZICSR ''E,Z'' 0x5073 0x7fff Match_opcode 0x1,
   insn_row ''csrwi'' 0 INSN_CLASS_ZICSR ''E,Z'' 0x5073 0x7fff Match_opcode 0x1,
   insn_row ''csrs'' 0 INSN_CLASS_ZICSR ''E,s'' 0x2073 0x7fff Match_opcode 0x1,
   insn_row ''csrs'' 0 INSN_CLASS_ZICSR ''E,Z'' 0x6073 0x7fff Match_opcode 0x1,
   insn_row ''csrsi'' 0 INSN_CLASS_ZICSR ''E,Z'' 0x6073 0x7fff Match_opcode 0x1,
   insn_row ''csrc'' 0 INSN_CLASS_ZICSR ''E,s'' 0x3073 0x7fff Match_opcode 0x1,
   insn_row ''csrc'' 0 INSN_CLASS_ZICSR ''E,Z'' 0x7073 0x7fff Match_opcode 0x1,
   insn_row ''csrci'' 0 INSN_CLASS_ZICSR ''E,Z'' 0x7073 0x7fff Match_opcode 0x1,
   insn_row ''csrrw'' 0 INSN_CLASS_ZICSR ''d,E,s'' 0x1073 0x707f Match_opcode 0x0,
   insn_row ''csrrw'' 0 INSN_CLASS_ZICSR ''d,E,Z'' 0x5073 0x707f Match_opcode 0x1,
   insn_row ''csrrwi'' 0 INSN_CLASS_ZICSR ''d,E,Z'' 0x5073 0x707f Match_opcode 0x0,
   insn_row ''csrrs'' 0 INSN_CLASS_ZICSR ''d,E,s'' 0x2073 0x707f Match_opcode 0x0,
   insn_row ''csrrs'' 0 INSN_CLASS_ZICSR ''d,E,Z'' 0x6073 0x707f Match_opcode 0x1,
   insn_row ''csrrsi'' 0 INSN_CLASS_ZICSR ''d,E,Z'' 0x6073 0x707f Match_opcode 0x0,
   insn_row ''csrrc'' 0 INSN_CLASS_ZICSR ''d,E,s'' 0x3073 0x707f Match_opcode 0x0,
   insn_row ''csrrc'' 0 INSN_CLASS_ZICSR ''d,E,Z'' 0x7073 0x707f Match_opcode 0x1,
   insn_row ''csrrci'' 0 INSN_CLASS_ZICSR ''d,E,Z'' 0x7073 0x707f Match_opcode 0x0,
   insn_row ''uret'' 0 INSN_CLASS_I '''' 0x200073 0xffffffff Match_opcode 0x0,
   insn_row ''sret'' 0 INSN_CLASS_I '''' 0x10200073 0xffffffff Match_opcode 0x0,
   insn_row ''hret'' 0 INSN_CLASS_I '''' 0x20200073 0xffffffff Match_opcode 0x0,
   insn_row ''mret'' 0 INSN_CLASS_I '''' 0x30200073 0xffffffff Match_opcode 0x0,
   insn_row ''dret'' 0 INSN_CLASS_I '''' 0x7b200073 0xffffffff Match_opcode 0x0,
   insn_row ''sfence.vm'' 0 INSN_CLASS_I '''' 0x10400073 0xffffffff Match_opcode 0x0,
   insn_row ''sfence.vm'' 0 INSN_CLASS_I ''s'' 0x10400073 0xfff07fff Match_opcode 0x0,
   insn_row ''sfence.vma'' 0 INSN_CLASS_I '''' 0x12000073 0xffffffff Match_opcode 0x1,
   insn_row ''sfence.vma'' 0 INSN_CLASS_I ''s'' 0x12000073 0xfff07fff Match_opcode 0x1,
   insn_row ''sfence.vma'' 0 INSN_CLASS_I ''s,t'' 0x12000073 0xfe007fff Match_opcode 0x0,
   insn_row ''wfi'' 0 INSN_CLASS_I '''' 0x10500073 0xffffffff Match_opcode 0x0,
   insn_row ''sinval.vma'' 0 INSN_CLASS_SVINVAL ''s,t'' 0x16000073 0xfe007fff Match_opcode 0x0,
   insn_row ''sfence.w.inval'' 0 INSN_CLASS_SVINVAL '''' 0x18000073 0xffffffff Match_opcode 0x0,
   insn_row ''sfence.inval.ir'' 0 INSN_CLASS_SVINVAL '''' 0x18100073 0xffffffff Match_opcode 0x0,
   insn_row ''hinval.vvma'' 0 INSN_CLASS_SVINVAL ''s,t'' 0x26000073 0xfe007fff Match_opcode 0x0,
   insn_row ''hinval.gvma'' 0 INSN_CLASS_SVINVAL ''s,t'' 0x66000073 0xfe007fff Match_opcode 0x0,
   insn_row ''hfence.vvma'' 0 INSN_CLASS_H '''' 0x22000073 0xffffffff Match_opcode 0x1,
   insn_row ''hfence.vvma'' 0 INSN_CLASS_H ''s'' 0x22000073 0xfff07fff Match_opcode 0x1,
   insn_row ''hfence.vvma'' 0 INSN_CLASS_H ''s,t'' 0x22000073 0xfe007fff Match_opcode 0x0,
   insn_row ''hfence.gvma'' 0 INSN_CLASS_H '''' 0x62000073 0xffffffff Match_opcode 0x1,
   insn_row ''hfence.gvma'' 0 INSN_CLASS_H ''s'' 0x62000073 0xfff07fff Match_opcode 0x1,
   insn_row ''hfence.gvma'' 0 INSN_CLASS_H ''s,t'' 0x62000073 0xfe007fff Match_opcode 0x0,
   insn_row ''hlv.b'' 0 INSN_CLASS_H ''d,0(s)'' 0x60004073 0xfff0707f Match_opcode 0x18,
   insn_row ''hlv.bu'' 0 INSN_CLASS_H ''d,0(s)'' 0x60104073 0xfff0707f Match_opcode 0x18,
   insn_row ''hlv.h'' 0 INSN_CLASS_H ''d,0(s)'' 0x64004073 0xfff0707f Match_opcode 0x28,
   insn_row ''hlv.hu'' 0 INSN_CLASS_H ''d,0(s)'' 0x64104073 0xfff0707f Match_opcode 0x28,
   insn_row ''hlvx.hu'' 0 INSN_CLASS_H ''d,0(s)'' 0x64304073 0xfff0707f Match_opcode 0x28,
   insn_row ''hlv.w'' 0 INSN_CLASS_H ''d,0(s)'' 0x68004073 0xfff0707f Match_opcode 0x38,
   insn_row ''hlv.wu'' 64 INSN_CLASS_H ''d,0(s)'' 0x68104073 0xfff0707f Match_opcode 0x38]"

definition riscv_opcodes_15 :: "riscv_opcode list" where
  "riscv_opcodes_15 =
  [
   insn_row ''hlvx.wu'' 0 INSN_CLASS_H ''d,0(s)'' 0x68304073 0xfff0707f Match_opcode 0x38,
   insn_row ''hlv.d'' 64 INSN_CLASS_H ''d,0(s)'' 0x6c004073 0xfff0707f Match_opcode 0x48,
   insn_row ''hsv.b'' 0 INSN_CLASS_H ''t,0(s)'' 0x62004073 0xfe007fff Match_opcode 0x18,
   insn_row ''hsv.h'' 0 INSN_CLASS_H ''t,0(s)'' 0x66004073 0xfe007fff Match_opcode 0x28,
   insn_row ''hsv.w'' 0 INSN_CLASS_H ''t,0(s)'' 0x6a004073 0xfe007fff Match_opcode 0x38,
   insn_row ''hsv.d'' 64 INSN_CLASS_H ''t,0(s)'' 0x6e004073 0xfe007fff Match_opcode 0x48,
   insn_row ''th.addsl'' 0 INSN_CLASS_XTHEADBA ''d,s,t,Xu2@25'' 0x100b 0xf800707f Match_opcode 0x0,
   insn_row ''th.srri'' 0 INSN_CLASS_XTHEADBB ''d,s,Xu6@20'' 0x1000100b 0xfc00707f Match_opcode 0x0,
   insn_row ''th.srriw'' 64 INSN_CLASS_XTHEADBB ''d,s,Xu5@20'' 0x1400100b 0xfe00707f Match_opcode 0x0,
   insn_row ''th.ext'' 0 INSN_CLASS_XTHEADBB ''d,s,Xu6@26,Xu6@20'' 0x200b 0x707f Match_opcode 0x0,
   insn_row ''th.extu'' 0 INSN_CLASS_XTHEADBB ''d,s,Xu6@26,Xu6@20'' 0x300b 0x707f Match_opcode 0x0,
   insn_row ''th.ff0'' 0 INSN_CLASS_XTHEADBB ''d,s'' 0x8400100b 0xfff0707f Match_opcode 0x0,
   insn_row ''th.ff1'' 0 INSN_CLASS_XTHEADBB ''d,s'' 0x8600100b 0xfff0707f Match_opcode 0x0,
   insn_row ''th.rev'' 0 INSN_CLASS_XTHEADBB ''d,s'' 0x8200100b 0xfff0707f Match_opcode 0x0,
   insn_row ''th.revw'' 64 INSN_CLASS_XTHEADBB ''d,s'' 0x9000100b 0xfff0707f Match_opcode 0x0,
   insn_row ''th.tstnbz'' 0 INSN_CLASS_XTHEADBB ''d,s'' 0x8000100b 0xfff0707f Match_opcode 0x0,
   insn_row ''th.tst'' 0 INSN_CLASS_XTHEADBS ''d,s,Xu6@20'' 0x8800100b 0xfc00707f Match_opcode 0x0,
   insn_row ''th.dcache.call'' 0 INSN_CLASS_XTHEADCMO '''' 0x10000b 0xffffffff Match_opcode 0x0,
   insn_row ''th.dcache.ciall'' 0 INSN_CLASS_XTHEADCMO '''' 0x30000b 0xffffffff Match_opcode 0x0,
   insn_row ''th.dcache.iall'' 0 INSN_CLASS_XTHEADCMO '''' 0x20000b 0xffffffff Match_opcode 0x0,
   insn_row ''th.dcache.cpa'' 0 INSN_CLASS_XTHEADCMO ''s'' 0x290000b 0xfff07fff Match_opcode 0x0,
   insn_row ''th.dcache.cipa'' 0 INSN_CLASS_XTHEADCMO ''s'' 0x2b0000b 0xfff07fff Match_opcode 0x0,
   insn_row ''th.dcache.ipa'' 0 INSN_CLASS_XTHEADCMO ''s'' 0x2a0000b 0xfff07fff Match_opcode 0x0,
   insn_row ''th.dcache.cva'' 0 INSN_CLASS_XTHEADCMO ''s'' 0x250000b 0xfff07fff Match_opcode 0x0,
   insn_row ''th.dcache.civa'' 0 INSN_CLASS_XTHEADCMO ''s'' 0x270000b 0xfff07fff Match_opcode 0x0,
   insn_row ''th.dcache.iva'' 0 INSN_CLASS_XTHEADCMO ''s'' 0x260000b 0xfff07fff Match_opcode 0x0,
   insn_row ''th.dcache.csw'' 0 INSN_CLASS_XTHEADCMO ''s'' 0x210000b 0xfff07fff Match_opcode 0x0,
   insn_row ''th.dcache.cisw'' 0 INSN_CLASS_XTHEADCMO ''s'' 0x230000b 0xfff07fff Match_opcode 0x0,
   insn_row ''th.dcache.isw'' 0 INSN_CLASS_XTHEADCMO ''s'' 0x220000b 0xfff07fff Match_opcode 0x0,
   insn_row ''th.dcache.cpal1'' 0 INSN_CLASS_XTHEADCMO ''s'' 0x280000b 0xfff07fff Match_opcode 0x0,
   insn_row ''th.dcache.cval1'' 0 INSN_CLASS_XTHEADCMO ''s'' 0x240000b 0xfff07fff Match_opcode 0x0,
   insn_row ''th.icache.iall'' 0 INSN_CLASS_XTHEADCMO '''' 0x100000b 0xffffffff Match_opcode 0x0,
   insn_row ''th.icache.ialls'' 0 INSN_CLASS_XTHEADCMO '''' 0x110000b 0xffffffff Match_opcode 0x0,
   insn_row ''th.icache.ipa'' 0 INSN_CLASS_XTHEADCMO ''s'' 0x380000b 0xfff07fff Match_opcode 0x0,
   insn_row ''th.icache.iva'' 0 INSN_CLASS_XTHEADCMO ''s'' 0x300000b 0xfff07fff Match_opcode 0x0,
   insn_row ''th.l2cache.call'' 0 INSN_CLASS_XTHEADCMO '''' 0x150000b 0xffffffff Match_opcode 0x0,
   insn_row ''th.l2cache.ciall'' 0 INSN_CLASS_XTHEADCMO '''' 0x170000b 0xffffffff Match_opcode 0x0,
   insn_row ''th.l2cache.iall'' 0 INSN_CLASS_XTHEADCMO '''' 0x160000b 0xffffffff Match_opcode 0x0,
   insn_row ''th.mveqz'' 0 INSN_CLASS_XTHEADCONDMOV ''d,s,t'' 0x4000100b 0xfe00707f Match_opcode 0x0,
   insn_row ''th.mvnez'' 0 INSN_CLASS_XTHEADCONDMOV ''d,s,t'' 0x4200100b 0xfe00707f Match_opcode 0x0,
   insn_row ''th.flrd'' 0 INSN_CLASS_XTHEADFMEMIDX ''D,s,t,Xu2@25'' 0x6000600b 0xf800707f Match_opcode 0x0,
   insn_row ''th.flrw'' 0 INSN_CLASS_XTHEADFMEMIDX ''D,s,t,Xu2@25'' 0x4000600b 0xf800707f Match_opcode 0x0,
   insn_row ''th.flurd'' 0 INSN_CLASS_XTHEADFMEMIDX ''D,s,t,Xu2@25'' 0x7000600b 0xf800707f Match_opcode 0x0,
   insn_row ''th.flurw'' 0 INSN_CLASS_XTHEADFMEMIDX ''D,s,t,Xu2@25'' 0x5000600b 0xf800707f Match_opcode 0x0,
   insn_row ''th.fsrd'' 0 INSN_CLASS_XTHEADFMEMIDX ''D,s,t,Xu2@25'' 0x6000700b 0xf800707f Match_opcode 0x0,
   insn_row ''th.fsrw'' 0 INSN_CLASS_XTHEADFMEMIDX ''D,s,t,Xu2@25'' 0x4000700b 0xf800707f Match_opcode 0x0,
   insn_row ''th.fsurd'' 0 INSN_CLASS_XTHEADFMEMIDX ''D,s,t,Xu2@25'' 0x7000700b 0xf800707f Match_opcode 0x0,
   insn_row ''th.fsurw'' 0 INSN_CLASS_XTHEADFMEMIDX ''D,s,t,Xu2@25'' 0x5000700b 0xf800707f Match_opcode 0x0,
   insn_row ''th.fmv.hw.x'' 32 INSN_CLASS_XTHEADFMV ''d,S'' 0x5000100b 0xfff0707f Match_opcode 0x0,
   insn_row ''th.fmv.x.hw'' 32 INSN_CLASS_XTHEADFMV ''d,S'' 0x6000100b 0xfff0707f Match_opcode 0x0,
   insn_row ''th.ipop'' 0 INSN_CLASS_XTHEADINT '''' 0x50000b 0xffffffff Match_opcode 0x0,
   insn_row ''th.ipush'' 0 INSN_CLASS_XTHEADINT '''' 0x40000b 0xffffffff Match_opcode 0x0,
   insn_row ''th.ldia'' 64 INSN_CLASS_XTHEADMEMIDX ''d,(s),Xs5@20,Xu2@25'' 0x7800400b 0xf800707f Match_th_load_inc 0x0,
   insn_row ''th.ldib'' 64 INSN_CLASS_XTHEADMEMIDX ''d,(s),Xs5@20,Xu2@25'' 0x6800400b 0xf800707f Match_th_load_inc 0x0,
   insn_row ''th.lwia'' 0 INSN_CLASS_XTHEADMEMIDX ''d,(s),Xs5@20,Xu2@25'' 0x5800400b 0xf800707f Match_th_load_inc 0x0,
   insn_row ''th.lwib'' 0 INSN_CLASS_XTHEADMEMIDX ''d,(s),Xs5@20,Xu2@25'' 0x4800400b 0xf800707f Match_th_load_inc 0x0,
   insn_row ''th.lwuia'' 64 INSN_CLASS_XTHEADMEMIDX ''d,(s),Xs5@20,Xu2@25'' 0xd800400b 0xf800707f Match_th_load_inc 0x0,
   insn_row ''th.lwuib'' 64 INSN_CLASS_XTHEADMEMIDX ''d,(s),Xs5@20,Xu2@25'' 0xc800400b 0xf800707f Match_th_load_inc 0x0,
   insn_row ''th.lhia'' 0 INSN_CLASS_XTHEADMEMIDX ''d,(s),Xs5@20,Xu2@25'' 0x3800400b 0xf800707f Match_th_load_inc 0x0,
   insn_row ''th.lhib'' 0 INSN_CLASS_XTHEADMEMIDX ''d,(s),Xs5@20,Xu2@25'' 0x2800400b 0xf800707f Match_th_load_inc 0x0,
   insn_row ''th.lhuia'' 0 INSN_CLASS_XTHEADMEMIDX ''d,(s),Xs5@20,Xu2@25'' 0xb800400b 0xf800707f Match_th_load_inc 0x0,
   insn_row ''th.lhuib'' 0 INSN_CLASS_XTHEADMEMIDX ''d,(s),Xs5@20,Xu2@25'' 0xa800400b 0xf800707f Match_th_load_inc 0x0,
   insn_row ''th.lbia'' 0 INSN_CLASS_XTHEADMEMIDX ''d,(s),Xs5@20,Xu2@25'' 0x1800400b 0xf800707f Match_th_load_inc 0x0,
   insn_row ''th.lbib'' 0 INSN_CLASS_XTHEADMEMIDX ''d,(s),Xs5@20,Xu2@25'' 0x800400b 0xf800707f Match_th_load_inc 0x0,
   insn_row ''th.lbuia'' 0 INSN_CLASS_XTHEADMEMIDX ''d,(s),Xs5@20,Xu2@25'' 0x9800400b 0xf800707f Match_th_load_inc 0x0,
   insn_row ''th.lbuib'' 0 INSN_CLASS_XTHEADMEMIDX ''d,(s),Xs5@20,Xu2@25'' 0x8800400b 0xf800707f Match_th_load_inc 0x0,
   insn_row ''th.sdia'' 64 INSN_CLASS_XTHEADMEMIDX ''d,(s),Xs5@20,Xu2@25'' 0x7800500b 0xf800707f Match_opcode 0x0,
   insn_row ''th.sdib'' 64 INSN_CLASS_XTHEADMEMIDX ''d,(s),Xs5@20,Xu2@25'' 0x6800500b 0xf800707f Match_opcode 0x0,
   insn_row ''th.swia'' 0 INSN_CLASS_XTHEADMEMIDX ''d,(s),Xs5@20,Xu2@25'' 0x5800500b 0xf800707f Match_opcode 0x0,
   insn_row ''th.swib'' 0 INSN_CLASS_XTHEADMEMIDX ''d,(s),Xs5@20,Xu2@25'' 0x4800500b 0xf800707f Match_opcode 0x0,
   insn_row ''th.shia'' 0 INSN_CLASS_XTHEADMEMIDX ''d,(s),Xs5@20,Xu2@25'' 0x3800500b 0xf800707f Match_opcode 0x0,
   insn_row ''th.shib'' 0 INSN_CLASS_XTHEADMEMIDX ''d,(s),Xs5@20,Xu2@25'' 0x2800500b 0xf800707f Match_opcode 0x0,
   insn_row ''th.sbia'' 0 INSN_CLASS_XTHEADMEMIDX ''d,(s),Xs5@20,Xu2@25'' 0x1800500b 0xf800707f Match_opcode 0x0,
   insn_row ''th.sbib'' 0 INSN_CLASS_XTHEADMEMIDX ''d,(s),Xs5@20,Xu2@25'' 0x800500b 0xf800707f Match_opcode 0x0,
   insn_row ''th.lrd'' 64 INSN_CLASS_XTHEADMEMIDX ''d,s,t,Xu2@25'' 0x6000400b 0xf800707f Match_opcode 0x0,
   insn_row ''th.lrw'' 0 INSN_CLASS_XTHEADMEMIDX ''d,s,t,Xu2@25'' 0x4000400b 0xf800707f Match_opcode 0x0,
   insn_row ''th.lrwu'' 64 INSN_CLASS_XTHEADMEMIDX ''d,s,t,Xu2@25'' 0xc000400b 0xf800707f Match_opcode 0x0,
   insn_row ''th.lrh'' 0 INSN_CLASS_XTHEADMEMIDX ''d,s,t,Xu2@25'' 0x2000400b 0xf800707f Match_opcode 0x0,
   insn_row ''th.lrhu'' 0 INSN_CLASS_XTHEADMEMIDX ''d,s,t,Xu2@25'' 0xa000400b 0xf800707f Match_opcode 0x0,
   insn_row ''th.lrb'' 0 INSN_CLASS_XTHEADMEMIDX ''d,s,t,Xu2@25'' 0x400b 0xf800707f Match_opcode 0x0,
   insn_row ''th.lrbu'' 0 INSN_CLASS_XTHEADMEMIDX ''d,s,t,Xu2@25'' 0x8000400b 0xf800707f Match_opcode 0x0,
   insn_row ''th.srd'' 64 INSN_CLASS_XTHEADMEMIDX ''d,s,t,Xu2@25'' 0x6000500b 0xf800707f Match_opcode 0x0,
   insn_row ''th.srw'' 0 INSN_CLASS_XTHEADMEMIDX ''d,s,t,Xu2@25'' 0x4000500b 0xf800707f Match_opcode 0x0,
   insn_row ''th.srh'' 0 INSN_CLASS_XTHEADMEMIDX ''d,s,t,Xu2@25'' 0x2000500b 0xf800707f Match_opcode 0x0,
   insn_row ''th.srb'' 0 INSN_CLASS_XTHEADMEMIDX ''d,s,t,Xu2@25'' 0x500b 0xf800707f Match_opcode 0x0,
   insn_row ''th.lurd'' 64 INSN_CLASS_XTHEADMEMIDX ''d,s,t,Xu2@25'' 0x7000400b 0xf800707f Match_opcode 0x0,
   insn_row ''th.lurw'' 0 INSN_CLASS_XTHEADMEMIDX ''d,s,t,Xu2@25'' 0x5000400b 0xf800707f Match_opcode 0x0,
   insn_row ''th.lurwu'' 64 INSN_CLASS_XTHEADMEMIDX ''d,s,t,Xu2@25'' 0xd000400b 0xf800707f Match_opcode 0x0,
   insn_row ''th.lurh'' 0 INSN_CLASS_XTHEADMEMIDX ''d,s,t,Xu2@25'' 0x3000400b 0xf800707f Match_opcode 0x0,
   insn_row ''th.lurhu'' 0 INSN_CLASS_XTHEADMEMIDX ''d,s,t,Xu2@25'' 0xb000400b 0xf800707f Match_opcode 0x0,
   insn_row ''th.lurb'' 0 INSN_CLASS_XTHEADMEMIDX ''d,s,t,Xu2@25'' 0x1000400b 0xf800707f Match_opcode 0x0,
   insn_row ''th.lurbu'' 0 INSN_CLASS_XTHEADMEMIDX ''d,s,t,Xu2@25'' 0x9000400b 0xf800707f Match_opcode 0x0,
   insn_row ''th.surd'' 64 INSN_CLASS_XTHEADMEMIDX ''d,s,t,Xu2@25'' 0x7000500b 0xf800707f Match_opcode 0x0,
   insn_row ''th.surw'' 0 INSN_CLASS_XTHEADMEMIDX ''d,s,t,Xu2@25'' 0x5000500b 0xf800707f Match_opcode 0x0,
   insn_row ''th.surh'' 0 INSN_CLASS_XTHEADMEMIDX ''d,s,t,Xu2@25'' 0x3000500b 0xf800707f Match_opcode 0x0,
   insn_row ''th.surb'' 0 INSN_CLASS_XTHEADMEMIDX ''d,s,t,Xu2@25'' 0x1000500b 0xf800707f Match_opcode 0x0]"

definition riscv_opcodes_16 :: "riscv_opcode list" where
  "riscv_opcodes_16 =
  [
   insn_row ''th.ldd'' 64 INSN_CLASS_XTHEADMEMPAIR ''d,t,(s),Xu2@25,Xl4'' 0xf800400b 0xf800707f Match_th_load_pair 0x0,
   insn_row ''th.lwd'' 0 INSN_CLASS_XTHEADMEMPAIR ''d,t,(s),Xu2@25,Xl3'' 0xe000400b 0xf800707f Match_th_load_pair 0x0,
   insn_row ''th.lwud'' 0 INSN_CLASS_XTHEADMEMPAIR ''d,t,(s),Xu2@25,Xl3'' 0xf000400b 0xf800707f Match_th_load_pair 0x0,
   insn_row ''th.sdd'' 64 INSN_CLASS_XTHEADMEMPAIR ''d,t,(s),Xu2@25,Xl4'' 0xf800500b 0xf800707f Match_opcode 0x0,
   insn_row ''th.swd'' 0 INSN_CLASS_XTHEADMEMPAIR ''d,t,(s),Xu2@25,Xl3'' 0xe000500b 0xf800707f Match_opcode 0x0,
   insn_row ''th.mula'' 0 INSN_CLASS_XTHEADMAC ''d,s,t'' 0x2000100b 0xfe00707f Match_opcode 0x0,
   insn_row ''th.mulah'' 0 INSN_CLASS_XTHEADMAC ''d,s,t'' 0x2800100b 0xfe00707f Match_opcode 0x0,
   insn_row ''th.mulaw'' 64 INSN_CLASS_XTHEADMAC ''d,s,t'' 0x2400100b 0xfe00707f Match_opcode 0x0,
   insn_row ''th.muls'' 0 INSN_CLASS_XTHEADMAC ''d,s,t'' 0x2200100b 0xfe00707f Match_opcode 0x0,
   insn_row ''th.mulsh'' 0 INSN_CLASS_XTHEADMAC ''d,s,t'' 0x2a00100b 0xfe00707f Match_opcode 0x0,
   insn_row ''th.mulsw'' 64 INSN_CLASS_XTHEADMAC ''d,s,t'' 0x2600100b 0xfe00707f Match_opcode 0x0,
   insn_row ''th.sfence.vmas'' 0 INSN_CLASS_XTHEADSYNC ''s,t'' 0x400000b 0xfe007fff Match_opcode 0x0,
   insn_row ''th.sync'' 0 INSN_CLASS_XTHEADSYNC '''' 0x180000b 0xffffffff Match_opcode 0x0,
   insn_row ''th.sync.i'' 0 INSN_CLASS_XTHEADSYNC '''' 0x1a0000b 0xffffffff Match_opcode 0x0,
   insn_row ''th.sync.is'' 0 INSN_CLASS_XTHEADSYNC '''' 0x1b0000b 0xffffffff Match_opcode 0x0,
   insn_row ''th.sync.s'' 0 INSN_CLASS_XTHEADSYNC '''' 0x190000b 0xffffffff Match_opcode 0x0,
   insn_row ''vt.maskc'' 0 INSN_CLASS_XVENTANACONDOPS ''d,s,t'' 0x607b 0xfe00707f Match_opcode 0x0,
   insn_row ''vt.maskcn'' 0 INSN_CLASS_XVENTANACONDOPS ''d,s,t'' 0x707b 0xfe00707f Match_opcode 0x0]"

lemma rows_ok_13: "list_all (row_ok False) riscv_opcodes_13"
  by (simp add: riscv_opcodes_13_def row_eval)

lemma ends_13 [simp]:
  "riscv_opcodes_13 \<noteq> []" "opc_name (hd riscv_opcodes_13) = ''vfmin.vf''" "opc_name (last riscv_opcodes_13) = ''vfslide1down.vf''"
  unfolding riscv_opcodes_13_def
  by (simp_all only: list.sel last.simps list.distinct if_False if_True refl insn_row_name not_False_eq_True simp_thms)

definition keys_13 :: "int list" where
  "keys_13 = [
    219879, 68984, 68968, 179074, 179966, 195920, 195904, 239857, 239841, 169754, 169738, 260267, 260251, 68305,
    68289, 74018, 74002, 48103, 48087, 23497, 259721, 23513, 259737, 95675, 96069, 237045, 52560, 69150, 215134,
    112735, 76824, 544, 234092, 45256, 207561, 138373, 258356, 52274, 103365, 90510, 35359, 28627, 241194, 114774,
    170831, 246886, 115020, 153384, 88017, 48243, 238928, 234663, 96915, 49548, 79166, 239217, 249299, 245460, 142764,
    115761, 4533, 12798, 8959, 62157, 72240, 81899, 82225, 79886, 221417, 253869, 39318, 252096, 230617, 68754,
    228429, 8383, 151406, 55990, 224332, 135452, 47986, 22979, 176556, 101270, 111636, 243140, 164012, 148349, 91109,
    175037, 61722, 67624, 67609, 216856, 216841, 188585, 219008, 117155, 234543]"

lemma group_keys_13: "map name_key (group_names riscv_opcodes_13) = keys_13"
  by code_simp

lemma key_classes_13:
  "key_class 0 keys_13 = [195920, 195904, 52560, 544, 238928, 72240, 252096, 219008]"
  "key_class 1 keys_13 = [239857, 239841, 68305, 68289, 88017, 239217, 115761, 82225]"
  "key_class 2 keys_13 = [179074, 74018, 74002, 52274, 68754, 47986]"
  "key_class 3 keys_13 = [28627, 48243, 96915, 249299, 22979, 117155]"
  "key_class 4 keys_13 = [258356, 245460, 111636, 243140]"
  "key_class 5 keys_13 = [96069, 237045, 138373, 103365, 4533, 91109]"
  "key_class 6 keys_13 = [114774, 246886, 39318, 55990, 101270]"
  "key_class 7 keys_13 = [219879, 48103, 48087, 234663]"
  "key_class 8 keys_13 = [68984, 68968, 76824, 45256, 153384, 67624, 216856]"
  "key_class 9 keys_13 = [23497, 259721, 23513, 259737, 207561, 221417, 230617, 67609, 216841, 188585]"
  "key_class 10 keys_13 = [169754, 169738, 241194, 61722]"
  "key_class 11 keys_13 = [260267, 260251, 95675, 81899]"
  "key_class 12 keys_13 = [234092, 115020, 49548, 142764, 224332, 135452, 176556, 164012]"
  "key_class 13 keys_13 = [62157, 253869, 228429, 148349, 175037]"
  "key_class 14 keys_13 = [179966, 69150, 215134, 90510, 79166, 12798, 79886, 151406]"
  "key_class 15 keys_13 = [112735, 35359, 170831, 8959, 8383, 234543]"
  by code_simp+

lemma rows_ok_14: "list_all (row_ok False) riscv_opcodes_14"
  by (simp add: riscv_opcodes_14_def row_eval)

lemma ends_14 [simp]:
  "riscv_opcodes_14 \<noteq> []" "opc_name (hd riscv_opcodes_14) = ''vrgather.vv''" "opc_name (last riscv_opcodes_14) = ''hlv.wu''"
  unfolding riscv_opcodes_14_def
  by (simp_all only: list.sel last.simps list.distinct if_False if_True refl insn_row_name not_False_eq_True simp_thms)

definition keys_14 :: "int list" where
  "keys_14 = [
    149691, 149693, 149678, 60276, 158657, 84841, 261328, 90024, 9555, 248530, 248532, 70, 114394, 53824, 102687,
    203888, 135461, 118151, 118153, 128517, 128519, 128504, 36163, 36165, 36150, 61796, 61798, 33729, 33731, 192334,
    31183, 258312, 258309, 183026, 183023, 6274, 6271, 193127, 193124, 45784, 222271, 130515, 216925, 136456, 162180,
    238996, 163723, 163720, 127694, 104280, 189291, 189296, 70074, 189292, 69646, 189276, 67934, 69553, 102384, 69549,
    101956, 69533, 100244, 207551, 116716, 10332, 106350, 90801, 223866, 99110, 62755, 139015, 256484, 86383, 221026,
    195111, 145415, 119500, 233843, 118113, 233849, 118755, 198302, 233864, 120360]"

lemma group_keys_14: "map name_key (group_names riscv_opcodes_14) = keys_14"
  by code_simp

lemma key_classes_14:
  "key_class 0 keys_14 = [261328, 53824, 203888, 189296, 102384]"
  "key_class 1 keys_14 = [158657, 33729, 69553, 90801, 118113]"
  "key_class 2 keys_14 = [248530, 183026, 6274, 221026]"
  "key_class 3 keys_14 = [9555, 36163, 33731, 130515, 62755, 233843, 118755]"
  "key_class 4 keys_14 = [60276, 248532, 61796, 193124, 162180, 238996, 101956, 100244, 256484]"
  "key_class 5 keys_14 = [135461, 128517, 36165, 258309]"
  "key_class 6 keys_14 = [70, 36150, 61798, 99110]"
  "key_class 7 keys_14 = [118151, 128519, 193127, 139015, 195111, 145415]"
  "key_class 8 keys_14 = [90024, 128504, 258312, 45784, 136456, 163720, 104280, 233864, 120360]"
  "key_class 9 keys_14 = [84841, 118153, 233849]"
  "key_class 10 keys_14 = [114394, 70074, 223866]"
  "key_class 11 keys_14 = [149691, 163723, 189291]"
  "key_class 12 keys_14 = [189292, 189276, 116716, 10332, 119500]"
  "key_class 13 keys_14 = [149693, 216925, 69549, 69533]"
  "key_class 14 keys_14 = [149678, 192334, 127694, 69646, 67934, 106350, 198302]"
  "key_class 15 keys_14 = [102687, 31183, 183023, 6271, 222271, 207551, 86383]"
  by code_simp+

lemma rows_ok_15: "list_all (row_ok False) riscv_opcodes_15"
  by (simp add: riscv_opcodes_15_def row_eval)

lemma ends_15 [simp]:
  "riscv_opcodes_15 \<noteq> []" "opc_name (hd riscv_opcodes_15) = ''hlvx.wu''" "opc_name (last riscv_opcodes_15) = ''th.surb''"
  unfolding riscv_opcodes_15_def
  by (simp_all only: list.sel last.simps list.distinct if_False if_True refl insn_row_name not_False_eq_True simp_thms)

definition keys_15 :: "int list" where
  "keys_15 = [
    199907, 233845, 158557, 158563, 158578, 158559, 154252, 17920, 82586, 185960, 237412, 195415, 195416, 70627,
    217316, 112283, 95021, 164984, 65345, 175350, 685, 256993, 69379, 1327, 257635, 70021, 1028, 257336, 69722,
    252139, 366, 234734, 213448, 236527, 237169, 194113, 36480, 204479, 55672, 157429, 14141, 14160, 238337, 238356,
    94284, 94303, 163051, 163070, 185060, 82168, 64811, 188282, 194088, 194089, 149480, 149481, 142222, 142223,
    239884, 239885, 116307, 116308, 171190, 171191, 105941, 105942, 118802, 118803, 74194, 74195, 164598, 164599,
    95904, 95905, 3306, 3325, 93753, 3310, 92148, 3304, 91506, 83449, 83468, 83453, 83447, 127548, 127567, 18558,
    127552, 16953, 127546, 16311, 52262, 52281, 52266, 52260]"

lemma group_keys_15: "map name_key (group_names riscv_opcodes_15) = keys_15"
  by code_simp

lemma key_classes_15:
  "key_class 0 keys_15 = [17920, 36480, 14160, 95904, 127552]"
  "key_class 1 keys_15 = [65345, 256993, 237169, 194113, 238337, 95905]"
  "key_class 2 keys_15 = [158578, 118802, 74194, 91506]"
  "key_class 3 keys_15 = [199907, 158563, 70627, 69379, 257635, 116307, 118803, 74195]"
  "key_class 4 keys_15 = [237412, 217316, 1028, 238356, 185060, 116308, 92148, 52260]"
  "key_class 5 keys_15 = [233845, 70021, 157429, 105941]"
  "key_class 6 keys_15 = [175350, 171190, 105942, 164598, 52262]"
  "key_class 7 keys_15 = [195415, 171191, 164599, 83447, 16311]"
  "key_class 8 keys_15 = [185960, 195416, 164984, 257336, 213448, 55672, 82168, 194088, 149480, 3304]"
  "key_class 9 keys_15 = [194089, 149481, 93753, 83449, 16953, 52281]"
  "key_class 10 keys_15 = [82586, 69722, 188282, 3306, 127546, 52266]"
  "key_class 11 keys_15 = [112283, 252139, 163051, 64811]"
  "key_class 12 keys_15 = [154252, 94284, 239884, 83468, 127548]"
  "key_class 13 keys_15 = [158557, 95021, 685, 14141, 239885, 3325, 83453]"
  "key_class 14 keys_15 = [366, 234734, 163070, 142222, 3310, 18558]"
  "key_class 15 keys_15 = [158559, 1327, 236527, 204479, 94303, 142223, 127567]"
  by code_simp+

lemma rows_ok_16: "list_all (row_ok False) riscv_opcodes_16"
  by (simp add: riscv_opcodes_16_def row_eval)

lemma ends_16 [simp]:
  "riscv_opcodes_16 \<noteq> []" "opc_name (hd riscv_opcodes_16) = ''th.ldd''" "opc_name (last riscv_opcodes_16) = ''vt.maskcn''"
  unfolding riscv_opcodes_16_def
  by (simp_all only: list.sel last.simps list.distinct if_False if_True refl insn_row_name not_False_eq_True simp_thms)

definition keys_16 :: "int list" where
  "keys_16 = [
    1808, 3841, 150767, 81951, 83984, 41251, 219737, 219752, 41269, 221663, 221678, 42676, 97629, 260891, 128718,
    260901, 209169, 99378]"

lemma group_keys_16: "map name_key (group_names riscv_opcodes_16) = keys_16"
  by code_simp

lemma key_classes_16:
  "key_class 0 keys_16 = [1808, 83984]"
  "key_class 1 keys_16 = [3841, 209169]"
  "key_class 2 keys_16 = [99378]"
  "key_class 3 keys_16 = [41251]"
  "key_class 4 keys_16 = [42676]"
  "key_class 5 keys_16 = [41269, 260901]"
  "key_class 6 keys_16 = []"
  "key_class 7 keys_16 = []"
  "key_class 8 keys_16 = [219752]"
  "key_class 9 keys_16 = [219737]"
  "key_class 10 keys_16 = []"
  "key_class 11 keys_16 = [260891]"
  "key_class 12 keys_16 = []"
  "key_class 13 keys_16 = [97629]"
  "key_class 14 keys_16 = [221678, 128718]"
  "key_class 15 keys_16 = [150767, 81951, 221663]"
  by code_simp+

end
