(* ===== verification/Riscv_Assembler.thy ===== *)
theory Riscv_Assembler
  imports Riscv_Table1 Riscv_Table2 Riscv_Table3 Riscv_Table4
begin

text \<open>
  The complete instruction tables, the start-up of the assembler on them (\<open>md_begin\<close> of
  gas/config/tc-riscv.c).
\<close>

section \<open>The tables\<close>

definition riscv_opcodes :: "riscv_opcode list" where
  "riscv_opcodes = riscv_opcodes_1 @ riscv_opcodes_2 @ riscv_opcodes_3 @ riscv_opcodes_4 @ riscv_opcodes_5 @ riscv_opcodes_6
     @ riscv_opcodes_7 @ riscv_opcodes_8 @ riscv_opcodes_9 @ riscv_opcodes_10 @ riscv_opcodes_11 @ riscv_opcodes_12
     @ riscv_opcodes_13 @ riscv_opcodes_14 @ riscv_opcodes_15 @ riscv_opcodes_16"

definition riscv_insn_types :: "riscv_opcode list" where
  "riscv_insn_types =
  [
   insn_row ''r'' 0 INSN_CLASS_I ''O4,F3,F7,d,s,t'' 0x0 0x0 Match_opcode 0x0,
   insn_row ''r'' 0 INSN_CLASS_F ''O4,F3,F7,D,s,t'' 0x0 0x0 Match_opcode 0x0,
   insn_row ''r'' 0 INSN_CLASS_F ''O4,F3,F7,d,S,t'' 0x0 0x0 Match_opcode 0x0,
   insn_row ''r'' 0 INSN_CLASS_F ''O4,F3,F7,D,S,t'' 0x0 0x0 Match_opcode 0x0,
   insn_row ''r'' 0 INSN_CLASS_F ''O4,F3,F7,d,s,T'' 0x0 0x0 Match_opcode 0x0,
   insn_row ''r'' 0 INSN_CLASS_F ''O4,F3,F7,D,s,T'' 0x0 0x0 Match_opcode 0x0,
   insn_row ''r'' 0 INSN_CLASS_F ''O4,F3,F7,d,S,T'' 0x0 0x0 Match_opcode 0x0,
   insn_row ''r'' 0 INSN_CLASS_F ''O4,F3,F7,D,S,T'' 0x0 0x0 Match_opcode 0x0,
   insn_row ''r'' 0 INSN_CLASS_I ''O4,F3,F2,d,s,t,r'' 0x0 0x0 Match_opcode 0x0,
   insn_row ''r'' 0 INSN_CLASS_F ''O4,F3,F2,D,s,t,r'' 0x0 0x0 Match_opcode 0x0,
   insn_row ''r'' 0 INSN_CLASS_F ''O4,F3,F2,d,S,t,r'' 0x0 0x0 Match_opcode 0x0,
   insn_row ''r'' 0 INSN_CLASS_F ''O4,F3,F2,D,S,t,r'' 0x0 0x0 Match_opcode 0x0,
   insn_row ''r'' 0 INSN_CLASS_F ''O4,F3,F2,d,s,T,r'' 0x0 0x0 Match_opcode 0x0,
   insn_row ''r'' 0 INSN_CLASS_F ''O4,F3,F2,D,s,T,r'' 0x0 0x0 Match_opcode 0x0,
   insn_row ''r'' 0 INSN_CLASS_F ''O4,F3,F2,d,S,T,r'' 0x0 0x0 Match_opcode 0x0,
   insn_row ''r'' 0 INSN_CLASS_F ''O4,F3,F2,D,S,T,r'' 0x0 0x0 Match_opcode 0x0,
   insn_row ''r'' 0 INSN_CLASS_F ''O4,F3,F2,d,s,t,R'' 0x0 0x0 Match_opcode 0x0,
   insn_row ''r'' 0 INSN_CLASS_F ''O4,F3,F2,D,s,t,R'' 0x0 0x0 Match_opcode 0x0,
   insn_row ''r'' 0 INSN_CLASS_F ''O4,F3,F2,d,S,t,R'' 0x0 0x0 Match_opcode 0x0,
   insn_row ''r'' 0 INSN_CLASS_F ''O4,F3,F2,D,S,t,R'' 0x0 0x0 Match_opcode 0x0,
   insn_row ''r'' 0 INSN_CLASS_F ''O4,F3,F2,d,s,T,R'' 0x0 0x0 Match_opcode 0x0,
   insn_row ''r'' 0 INSN_CLASS_F ''O4,F3,F2,D,s,T,R'' 0x0 0x0 Match_opcode 0x0,
   insn_row ''r'' 0 INSN_CLASS_F ''O4,F3,F2,d,S,T,R'' 0x0 0x0 Match_opcode 0x0,
   insn_row ''r'' 0 INSN_CLASS_F ''O4,F3,F2,D,S,T,R'' 0x0 0x0 Match_opcode 0x0,
   insn_row ''r4'' 0 INSN_CLASS_I ''O4,F3,F2,d,s,t,r'' 0x0 0x0 Match_opcode 0x0,
   insn_row ''r4'' 0 INSN_CLASS_F ''O4,F3,F2,D,s,t,r'' 0x0 0x0 Match_opcode 0x0,
   insn_row ''r4'' 0 INSN_CLASS_F ''O4,F3,F2,d,S,t,r'' 0x0 0x0 Match_opcode 0x0,
   insn_row ''r4'' 0 INSN_CLASS_F ''O4,F3,F2,D,S,t,r'' 0x0 0x0 Match_opcode 0x0,
   insn_row ''r4'' 0 INSN_CLASS_F ''O4,F3,F2,d,s,T,r'' 0x0 0x0 Match_opcode 0x0,
   insn_row ''r4'' 0 INSN_CLASS_F ''O4,F3,F2,D,s,T,r'' 0x0 0x0 Match_opcode 0x0,
   insn_row ''r4'' 0 INSN_CLASS_F ''O4,F3,F2,d,S,T,r'' 0x0 0x0 Match_opcode 0x0,
   insn_row ''r4'' 0 INSN_CLASS_F ''O4,F3,F2,D,S,T,r'' 0x0 0x0 Match_opcode 0x0,
   insn_row ''r4'' 0 INSN_CLASS_F ''O4,F3,F2,d,s,t,R'' 0x0 0x0 Match_opcode 0x0,
   insn_row ''r4'' 0 INSN_CLASS_F ''O4,F3,F2,D,s,t,R'' 0x0 0x0 Match_opcode 0x0,
   insn_row ''r4'' 0 INSN_CLASS_F ''O4,F3,F2,d,S,t,R'' 0x0 0x0 Match_opcode 0x0,
   insn_row ''r4'' 0 INSN_CLASS_F ''O4,F3,F2,D,S,t,R'' 0x0 0x0 Match_opcode 0x0,
   insn_row ''r4'' 0 INSN_CLASS_F ''O4,F3,F2,d,s,T,R'' 0x0 0x0 Match_opcode 0x0,
   insn_row ''r4'' 0 INSN_CLASS_F ''O4,F3,F2,D,s,T,R'' 0x0 0x0 Match_opcode 0x0,
   insn_row ''r4'' 0 INSN_CLASS_F ''O4,F3,F2,d,S,T,R'' 0x0 0x0 Match_opcode 0x0,
   insn_row ''r4'' 0 INSN_CLASS_F ''O4,F3,F2,D,S,T,R'' 0x0 0x0 Match_opcode 0x0,
   insn_row ''i'' 0 INSN_CLASS_I ''O4,F3,d,s,j'' 0x0 0x0 Match_opcode 0x0,
   insn_row ''i'' 0 INSN_CLASS_F ''O4,F3,D,s,j'' 0x0 0x0 Match_opcode 0x0,
   insn_row ''i'' 0 INSN_CLASS_F ''O4,F3,d,S,j'' 0x0 0x0 Match_opcode 0x0,
   insn_row ''i'' 0 INSN_CLASS_F ''O4,F3,D,S,j'' 0x0 0x0 Match_opcode 0x0,
   insn_row ''i'' 0 INSN_CLASS_I ''O4,F3,d,o(s)'' 0x0 0x0 Match_opcode 0x0,
   insn_row ''i'' 0 INSN_CLASS_F ''O4,F3,D,o(s)'' 0x0 0x0 Match_opcode 0x0,
   insn_row ''s'' 0 INSN_CLASS_I ''O4,F3,t,q(s)'' 0x0 0x0 Match_opcode 0x0,
   insn_row ''s'' 0 INSN_CLASS_F ''O4,F3,T,q(s)'' 0x0 0x0 Match_opcode 0x0,
   insn_row ''sb'' 0 INSN_CLASS_I ''O4,F3,s,t,p'' 0x0 0x0 Match_opcode 0x0,
   insn_row ''sb'' 0 INSN_CLASS_F ''O4,F3,S,t,p'' 0x0 0x0 Match_opcode 0x0,
   insn_row ''sb'' 0 INSN_CLASS_F ''O4,F3,s,T,p'' 0x0 0x0 Match_opcode 0x0,
   insn_row ''sb'' 0 INSN_CLASS_F ''O4,F3,S,T,p'' 0x0 0x0 Match_opcode 0x0,
   insn_row ''b'' 0 INSN_CLASS_I ''O4,F3,s,t,p'' 0x0 0x0 Match_opcode 0x0,
   insn_row ''b'' 0 INSN_CLASS_F ''O4,F3,S,t,p'' 0x0 0x0 Match_opcode 0x0,
   insn_row ''b'' 0 INSN_CLASS_F ''O4,F3,s,T,p'' 0x0 0x0 Match_opcode 0x0,
   insn_row ''b'' 0 INSN_CLASS_F ''O4,F3,S,T,p'' 0x0 0x0 Match_opcode 0x0,
   insn_row ''u'' 0 INSN_CLASS_I ''O4,d,u'' 0x0 0x0 Match_opcode 0x0,
   insn_row ''u'' 0 INSN_CLASS_F ''O4,D,u'' 0x0 0x0 Match_opcode 0x0,
   insn_row ''uj'' 0 INSN_CLASS_I ''O4,d,a'' 0x0 0x0 Match_opcode 0x0,
   insn_row ''uj'' 0 INSN_CLASS_F ''O4,D,a'' 0x0 0x0 Match_opcode 0x0,
   insn_row ''j'' 0 INSN_CLASS_I ''O4,d,a'' 0x0 0x0 Match_opcode 0x0,
   insn_row ''j'' 0 INSN_CLASS_F ''O4,D,a'' 0x0 0x0 Match_opcode 0x0,
   insn_row ''cr'' 0 INSN_CLASS_C ''O2,CF4,d,CV'' 0x0 0x0 Match_opcode 0x0,
   insn_row ''cr'' 0 INSN_CLASS_F_AND_C ''O2,CF4,D,CV'' 0x0 0x0 Match_opcode 0x0,
   insn_row ''cr'' 0 INSN_CLASS_F_AND_C ''O2,CF4,d,CT'' 0x0 0x0 Match_opcode 0x0,
   insn_row ''cr'' 0 INSN_CLASS_F_AND_C ''O2,CF4,D,CT'' 0x0 0x0 Match_opcode 0x0,
   insn_row ''ci'' 0 INSN_CLASS_C ''O2,CF3,d,Co'' 0x0 0x0 Match_opcode 0x0,
   insn_row ''ci'' 0 INSN_CLASS_F_AND_C ''O2,CF3,D,Co'' 0x0 0x0 Match_opcode 0x0,
   insn_row ''ciw'' 0 INSN_CLASS_C ''O2,CF3,Ct,C8'' 0x0 0x0 Match_opcode 0x0,
   insn_row ''ciw'' 0 INSN_CLASS_F_AND_C ''O2,CF3,CD,C8'' 0x0 0x0 Match_opcode 0x0,
   insn_row ''css'' 0 INSN_CLASS_C ''O2,CF3,CV,C6'' 0x0 0x0 Match_opcode 0x0,
   insn_row ''css'' 0 INSN_CLASS_F_AND_C ''O2,CF3,CT,C6'' 0x0 0x0 Match_opcode 0x0,
   insn_row ''cl'' 0 INSN_CLASS_C ''O2,CF3,Ct,C5(Cs)'' 0x0 0x0 Match_opcode 0x0,
   insn_row ''cl'' 0 INSN_CLASS_F_AND_C ''O2,CF3,CD,C5(Cs)'' 0x0 0x0 Match_opcode 0x0,
   insn_row ''cl'' 0 INSN_CLASS_F_AND_C ''O2,CF3,Ct,C5(CS)'' 0x0 0x0 Match_opcode 0x0,
   insn_row ''cl'' 0 INSN_CLASS_F_AND_C ''O2,CF3,CD,C5(CS)'' 0x0 0x0 Match_opcode 0x0,
   insn_row ''cs'' 0 INSN_CLASS_C ''O2,CF3,Ct,C5(Cs)'' 0x0 0x0 Match_opcode 0x0,
   insn_row ''cs'' 0 INSN_CLASS_F_AND_C ''O2,CF3,CD,C5(Cs)'' 0x0 0x0 Match_opcode 0x0,
   insn_row ''cs'' 0 INSN_CLASS_F_AND_C ''O2,CF3,Ct,C5(CS)'' 0x0 0x0 Match_opcode 0x0,
   insn_row ''cs'' 0 INSN_CLASS_F_AND_C ''O2,CF3,CD,C5(CS)'' 0x0 0x0 Match_opcode 0x0,
   insn_row ''ca'' 0 INSN_CLASS_C ''O2,CF6,CF2,Cs,Ct'' 0x0 0x0 Match_opcode 0x0,
   insn_row ''ca'' 0 INSN_CLASS_F_AND_C ''O2,CF6,CF2,CS,Ct'' 0x0 0x0 Match_opcode 0x0,
   insn_row ''ca'' 0 INSN_CLASS_F_AND_C ''O2,CF6,CF2,Cs,CD'' 0x0 0x0 Match_opcode 0x0,
   insn_row ''ca'' 0 INSN_CLASS_F_AND_C ''O2,CF6,CF2,CS,CD'' 0x0 0x0 Match_opcode 0x0,
   insn_row ''cb'' 0 INSN_CLASS_C ''O2,CF3,Cs,Cp'' 0x0 0x0 Match_opcode 0x0,
   insn_row ''cb'' 0 INSN_CLASS_F_AND_C ''O2,CF3,CS,Cp'' 0x0 0x0 Match_opcode 0x0,
   insn_row ''cj'' 0 INSN_CLASS_C ''O2,CF3,Ca'' 0x0 0x0 Match_opcode 0x0]"

section \<open>Assembler start-up\<close>

lemma riscv_opcodes_rows_ok: "list_all (row_ok False) riscv_opcodes"
  by (simp only: riscv_opcodes_def list_all_append rows_ok_1 rows_ok_2 rows_ok_3 rows_ok_4 rows_ok_5 rows_ok_6 rows_ok_7 rows_ok_8 rows_ok_9 rows_ok_10 rows_ok_11 rows_ok_12 rows_ok_13 rows_ok_14 rows_ok_15 rows_ok_16 simp_thms)

text \<open>No two adjacent parts share a name, so the groups of the table are the groups of its parts.\<close>

lemma group_names_concat:
  assumes "\<forall>xs \<in> set xss. xs \<noteq> []" "successively (\<lambda>xs ys. opc_name (last xs) \<noteq> opc_name (hd ys)) xss"
  shows "group_names (concat xss) = concat (map group_names xss)"
  using assms
proof (induction xss)
  case (Cons xs xss)
  show ?case
  proof (cases xss)
    case (Cons ys yss)
    then have "concat xss \<noteq> []" "hd (concat xss) = hd ys" using Cons.prems(1) by simp_all
    moreover have "opc_name (last xs) \<noteq> opc_name (hd ys)" using Cons.prems(2) Cons by simp
    ultimately have "group_names (xs @ concat xss) = group_names xs @ group_names (concat xss)"
      using Cons.prems(1) by (intro group_names_append) simp_all
    moreover have "successively (\<lambda>xs ys. opc_name (last xs) \<noteq> opc_name (hd ys)) xss"
      using Cons.prems(2) Cons by simp
    ultimately show ?thesis using Cons.IH Cons.prems(1) by simp
  qed simp
qed simp

definition opcode_parts :: "riscv_opcode list list" where
  "opcode_parts = [riscv_opcodes_1, riscv_opcodes_2, riscv_opcodes_3, riscv_opcodes_4, riscv_opcodes_5, riscv_opcodes_6
    , riscv_opcodes_7, riscv_opcodes_8, riscv_opcodes_9, riscv_opcodes_10, riscv_opcodes_11, riscv_opcodes_12
    , riscv_opcodes_13, riscv_opcodes_14, riscv_opcodes_15, riscv_opcodes_16]"

lemma opcode_parts_concat: "riscv_opcodes = concat opcode_parts"
  by (simp only: riscv_opcodes_def opcode_parts_def concat.simps append_Nil2 append_assoc)

lemma opcode_parts_ends:
  "\<forall>xs \<in> set opcode_parts. xs \<noteq> []"
  "successively (\<lambda>xs ys. opc_name (last xs) \<noteq> opc_name (hd ys)) opcode_parts"
  by (simp_all add: opcode_parts_def)

lemma riscv_opcodes_groups:
  "map name_key (group_names riscv_opcodes) = concat [keys_1, keys_2, keys_3, keys_4, keys_5, keys_6, keys_7, keys_8, keys_9, keys_10, keys_11, keys_12, keys_13, keys_14, keys_15, keys_16]"
  unfolding opcode_parts_concat group_names_concat [OF opcode_parts_ends] map_concat
  by (simp only: opcode_parts_def list.map group_keys_1 group_keys_2 group_keys_3 group_keys_4 group_keys_5 group_keys_6 group_keys_7 group_keys_8 group_keys_9 group_keys_10 group_keys_11 group_keys_12 group_keys_13 group_keys_14 group_keys_15 group_keys_16)

lemma riscv_opcodes_distinct: "distinct (group_names riscv_opcodes)"
proof (intro distinct_names distinct_by_class)
  show "\<forall>c \<in> {0..15}. distinct (key_class c (map name_key (group_names riscv_opcodes)))"
    unfolding riscv_opcodes_groups key_class_concat classes_16 list.map
      key_classes_1 key_classes_2 key_classes_3 key_classes_4 key_classes_5 key_classes_6 key_classes_7 key_classes_8 key_classes_9 key_classes_10 key_classes_11 key_classes_12 key_classes_13 key_classes_14 key_classes_15 key_classes_16
    by (intro conjI) code_simp+
qed

lemma riscv_insn_types_ok: "list_all (row_ok True) riscv_insn_types" "distinct (group_names riscv_insn_types)"
proof -
  show "list_all (row_ok True) riscv_insn_types" by (simp add: riscv_insn_types_def row_eval)
  show "distinct (group_names riscv_insn_types)" by code_simp
qed

interpretation insns: opcode_table False riscv_opcodes
  by unfold_locales (rule riscv_opcodes_distinct, rule riscv_opcodes_rows_ok)

interpretation formats: opcode_table True riscv_insn_types
  by unfold_locales (rule riscv_insn_types_ok(2), rule riscv_insn_types_ok(1))

text \<open>
  C12.  The assembler starts: loading the extended instruction table and the \<open>.insn\<close> formats reports
  no duplicate name, no row with an undefined or doubly defined bit, and no macro among the
  formats, and afterwards the hash finds, for every mnemonic, exactly the rows with that name,
  all of them contiguous from the address it returns.
\<close>

theorem assembler_tables_load:
  "\<exists>op_hash insn_type_hash.
    init_opcode_hash False riscv_opcodes Map.empty = Inr op_hash \<and>
    init_opcode_hash True riscv_insn_types Map.empty = Inr insn_type_hash \<and>
    (\<forall>n. op_hash n = None \<longleftrightarrow> n \<notin> opc_name ` set riscv_opcodes) \<and>
    (\<forall>n rows. op_hash n = Some rows \<longrightarrow> takeWhile (\<lambda>q. opc_name q = n) rows = filter (\<lambda>q. opc_name q = n) riscv_opcodes) \<and>
    (\<forall>n rows. insn_type_hash n = Some rows \<longrightarrow> takeWhile (\<lambda>q. opc_name q = n) rows = filter (\<lambda>q. opc_name q = n) riscv_insn_types)"
  by (intro exI conjI allI impI)
    (rule insns.table_loads, rule formats.table_loads, rule insns.table_hash_unknown, erule insns.table_hash_rows,
     erule formats.table_hash_rows)

lemma pvmac_listed: "''pvmac'' \<in> opc_name ` set riscv_opcodes"
proof -
  have "list_ex (\<lambda>q. opc_name q = ''pvmac'') riscv_opcodes_1" by code_simp
  then obtain q where "q \<in> set riscv_opcodes_1" "opc_name q = ''pvmac''" unfolding list_ex_iff by (elim bexE)
  then have "q \<in> set riscv_opcodes" "''pvmac'' = opc_name q" by (simp_all add: riscv_opcodes_def)
  then show ?thesis by (rule rev_image_eqI)
qed

theorem assembler_tables_load_witness:
  "\<exists>op_hash rows. init_opcode_hash False riscv_opcodes Map.empty = Inr op_hash \<and> op_hash ''pvmac'' = Some rows \<and>
    takeWhile (\<lambda>q. opc_name q = ''pvmac'') rows = filter (\<lambda>q. opc_name q = ''pvmac'') riscv_opcodes"
proof -
  from assembler_tables_load obtain h where h: "init_opcode_hash False riscv_opcodes Map.empty = Inr h"
    "\<forall>n. h n = None \<longleftrightarrow> n \<notin> opc_name ` set riscv_opcodes"
    "\<forall>n rows. h n = Some rows \<longrightarrow> takeWhile (\<lambda>q. opc_name q = n) rows = filter (\<lambda>q. opc_name q = n) riscv_opcodes"
    by (elim exE conjE) (rule that)
  have "h ''pvmac'' \<noteq> None" unfolding h(2) [rule_format] not_not by (rule pvmac_listed)
  then obtain rows where rows: "h ''pvmac'' = Some rows" unfolding not_None_eq by (elim exE)
  show ?thesis by (intro exI conjI) (rule h(1), rule rows, rule h(3) [rule_format, OF rows])
qed

end
