(* ===== verification/Riscv_Disassembler.thy ===== *)
theory Riscv_Disassembler
  imports Riscv_Assembler
begin

text \<open>
  The row search of the disassembler (\<open>riscv_disassemble_insn\<close>, opcodes/riscv-dis.c) over the
  complete table, and the proof that its hash table changes no result.
\<close>

section \<open>Row search\<close>

definition OP_HASH_IDX :: "i64 \<Rightarrow> i64" where
  "OP_HASH_IDX i = i AND (if riscv_insn_length i = 2 then 0x3 else OP_MASK F_OP)"

text \<open>
  \<open>riscv_hash\<close>: the first row of each index, as the suffix of the table that starts there.
\<close>

fun build_riscv_hash :: "riscv_opcode list \<Rightarrow> (i64 \<Rightarrow> riscv_opcode list option) \<Rightarrow> i64 \<Rightarrow> riscv_opcode list option" where
  "build_riscv_hash [] h = h"
| "build_riscv_hash (opc # opcs) h =
    build_riscv_hash opcs (if h (OP_HASH_IDX (opc_match opc)) = None then h(OP_HASH_IDX (opc_match opc) \<mapsto> opc # opcs) else h)"

text \<open>
  The options of a run: \<open>no_aliases\<close>, XLEN, and the instruction classes of the architecture string
  (\<open>riscv_multi_subset_supports\<close>).
\<close>

record dis_options =
  no_aliases :: bool
  dis_xlen :: nat
  supports :: "riscv_insn_class \<Rightarrow> bool"

definition row_accepts :: "dis_options \<Rightarrow> i64 \<Rightarrow> riscv_opcode \<Rightarrow> bool" where
  "row_accepts D word opc \<longleftrightarrow>
    match_insn opc word \<and> \<not> (no_aliases D \<and> opc_pinfo opc AND INSN_ALIAS \<noteq> 0) \<and>
    \<not> (opc_xlen_requirement opc \<noteq> 0 \<and> opc_xlen_requirement opc \<noteq> dis_xlen D) \<and> supports D (opc_insn_class opc)"

fun search_rows :: "dis_options \<Rightarrow> i64 \<Rightarrow> riscv_opcode list \<Rightarrow> riscv_opcode option" where
  "search_rows D word [] = None"
| "search_rows D word (opc # opcs) = (if row_accepts D word opc then Some opc else search_rows D word opcs)"

definition disassemble_row :: "dis_options \<Rightarrow> i64 \<Rightarrow> riscv_opcode option" where
  "disassemble_row D word =
    (case build_riscv_hash riscv_opcodes Map.empty (OP_HASH_IDX word) of
       None \<Rightarrow> None | Some opcs \<Rightarrow> search_rows D word opcs)"

section \<open>The hash loses nothing\<close>

lemma search_rows_find: "search_rows D word opcs = find (row_accepts D word) opcs"
  by (induction opcs) simp_all

lemma build_riscv_hash_lookup:
  "build_riscv_hash opcs h i = (case h i of Some s \<Rightarrow> Some s
     | None \<Rightarrow> (case dropWhile (\<lambda>q. OP_HASH_IDX (opc_match q) \<noteq> i) opcs of [] \<Rightarrow> None | s \<Rightarrow> Some s))"
  by (induction opcs arbitrary: h) (auto split: option.splits)

lemma hash_search: "(case (case ys of [] \<Rightarrow> None | s \<Rightarrow> Some s) of None \<Rightarrow> None | Some opcs \<Rightarrow> find P opcs) = find P ys"
  by (cases ys) simp_all

lemma find_dropWhile: "\<forall>x \<in> set (takeWhile Q xs). \<not> P x \<Longrightarrow> find P (dropWhile Q xs) = find P xs"
  by (induction xs) auto

text \<open>
  The contract of the index: a row in front of the first one with the index of a word does not
  match the word.  Then a search that starts at the index finds what a full search finds.
\<close>

locale indexed_rows =
  fixes rows :: "'r list" and key :: "'r \<Rightarrow> 'k" and index :: "'w \<Rightarrow> 'k" and matches :: "'r \<Rightarrow> 'w \<Rightarrow> bool"
  assumes skipped: "q \<in> set (takeWhile (\<lambda>q. key q \<noteq> index w) rows) \<Longrightarrow> \<not> matches q w"
begin

lemma search_from_index:
  assumes "\<And>q. P q \<Longrightarrow> matches q w"
  shows "find P (dropWhile (\<lambda>q. key q \<noteq> index w) rows) = find P rows"
  by (rule find_dropWhile) (use skipped assms in blast)

end

lemma low_mask_eq:
  fixes w :: i64
  assumes "k = mask n"
  shows "w AND k = v \<longleftrightarrow> unat w mod 2 ^ n = unat v"
  by (simp add: assms word_unat_eq_iff unsigned_take_bit_eq flip: take_bit_eq_mask take_bit_eq_mod)

lemma low_masks:
  fixes w :: i64
  shows "w AND 0x3 = v \<longleftrightarrow> unat w mod 4 = unat v"
    "w AND 0x1f = v \<longleftrightarrow> unat w mod 32 = unat v"
    "w AND 0x3f = v \<longleftrightarrow> unat w mod 64 = unat v"
    "w AND 0x7f = v \<longleftrightarrow> unat w mod 128 = unat v"
  using low_mask_eq [of 3 2 w v] low_mask_eq [of "0x1f" 5 w v] low_mask_eq [of "0x3f" 6 w v] low_mask_eq [of "0x7f" 7 w v]
  by (simp_all add: mask_numeral)

lemma low_bits_cases:
  fixes a :: nat
  assumes "a mod 32 = 31" "a mod 64 \<noteq> 31" "a mod 128 \<noteq> 63"
  shows "a mod 128 = 127"
proof -
  define q where "q = a div 32"
  have a: "a = 32 * q + 31" using div_mult_mod_eq [of a 32] assms(1) unfolding q_def by simp
  have split: "a = 32 * (q mod 4) + 31 + 128 * (q div 4)" "a = 32 * (q mod 4) + 31 + 64 * (2 * (q div 4))"
    using mult_div_mod_eq [of 4 q] unfolding a by linarith+
  have "a mod 128 = (32 * (q mod 4) + 31) mod 128" by (subst split(1)) (rule mod_mult_self2)
  moreover have "a mod 64 = (32 * (q mod 4) + 31) mod 64" by (subst split(2)) (rule mod_mult_self2)
  moreover have "q mod 4 = 0 \<or> q mod 4 = 1 \<or> q mod 4 = 2 \<or> q mod 4 = 3" by linarith
  ultimately show ?thesis using assms(2,3) by auto
qed

lemma long_length: "w AND 3 = 3 \<Longrightarrow> w AND 0x7f \<noteq> 0x7f \<Longrightarrow> riscv_insn_length w \<noteq> 2"
proof -
  assume "w AND 0x7f \<noteq> 0x7f" "w AND 3 = 3"
  moreover have "w AND 31 = 31 \<Longrightarrow> w AND 63 \<noteq> 31 \<Longrightarrow> w AND 127 \<noteq> 63 \<Longrightarrow> w AND 127 = 127"
    unfolding low_masks using low_bits_cases [of "unat w"] by simp
  ultimately show "riscv_insn_length w \<noteq> 2"
    by (auto simp: riscv_insn_length_def)
qed

lemma short_length: "w AND 3 \<noteq> 3 \<Longrightarrow> riscv_insn_length w = 2"
  by (simp add: riscv_insn_length_def)

lemma masked_equal:
  fixes w m k :: i64
  assumes "(w XOR m) AND mk = 0" "mk AND k = k"
  shows "w AND k = m AND k"
proof (rule bit_word_eqI)
  fix n assume "n < LENGTH(64)"
  have "\<not> bit ((w XOR m) AND mk) n" "bit (mk AND k) n \<longleftrightarrow> bit k n" using assms by simp_all
  then show "bit (w AND k) n \<longleftrightarrow> bit (m AND k) n" by (auto simp: bit_simps)
qed

text \<open>
  A row whose mask covers the index bits can only match words with its own index; the few macro
  rows that match by accident (\<open>late_row\<close>) can only match 16-bit words.
\<close>

definition early_row :: "riscv_opcode \<Rightarrow> bool" where
  "early_row opc \<longleftrightarrow> opc_match_func opc = Match_never \<or>
     (if opc_match opc AND 3 = 3 then opc_mask opc AND 0x7f = 0x7f \<and> opc_match opc AND 0x7f \<noteq> 0x7f else opc_mask opc AND 3 = 3)"

definition late_row :: "riscv_opcode \<Rightarrow> bool" where
  "late_row opc \<longleftrightarrow> opc_mask opc AND NOT (opc_match opc) AND 3 \<noteq> 0"

lemma early_row_index:
  assumes "early_row opc" "match_insn opc word"
  shows "OP_HASH_IDX (opc_match opc) = OP_HASH_IDX word"
proof -
  have m: "(word XOR opc_match opc) AND opc_mask opc = 0"
    using match_insn_opcode [OF assms(2)] by (simp add: match_opcode_def)
  have never: "opc_match_func opc \<noteq> Match_never" using assms(2) by (auto simp: match_insn_def match_never_def)
  show ?thesis
  proof (cases "opc_match opc AND 3 = 3")
    case True
    with assms(1) never have k: "opc_mask opc AND 0x7f = 0x7f" "opc_match opc AND 0x7f \<noteq> 0x7f" by (simp_all add: early_row_def)
    have eq: "word AND 0x7f = opc_match opc AND 0x7f" by (rule masked_equal [OF m k(1)])
    have "(word AND 0x7f) AND 3 = (opc_match opc AND 0x7f) AND 3" using eq by simp
    then have "word AND 3 = 3" using True by (simp add: and.assoc)
    with True eq k(2) show ?thesis by (simp add: OP_HASH_IDX_def long_length)
  next
    case False
    with assms(1) never have k: "opc_mask opc AND 3 = 3" by (simp add: early_row_def)
    then have "word AND 3 = opc_match opc AND 3" by (rule masked_equal [OF m])
    with False show ?thesis by (simp add: OP_HASH_IDX_def short_length)
  qed
qed

lemma late_row_short:
  assumes "late_row opc" "match_insn opc word"
  shows "word AND 3 \<noteq> 3"
proof
  assume w: "word AND 3 = 3"
  have m: "(word XOR opc_match opc) AND opc_mask opc = 0"
    using match_insn_opcode [OF assms(2)] by (simp add: match_opcode_def)
  have "opc_mask opc AND NOT (opc_match opc) AND 3 = 0"
  proof (rule bit_word_eqI)
    fix n assume "n < LENGTH(64)"
    have "bit (word AND 3) n \<longleftrightarrow> bit (3 :: i64) n" "\<not> bit ((word XOR opc_match opc) AND opc_mask opc) n" using w m by simp_all
    then show "bit (opc_mask opc AND NOT (opc_match opc) AND 3) n \<longleftrightarrow> bit (0 :: i64) n" by (auto simp: bit_simps)
  qed
  with assms(1) show False by (simp add: late_row_def)
qed

lemmas index_eval = early_row_def late_row_def insn_row_def

lemma rows_indexed_1: "list_all early_row riscv_opcodes_1"
  by (simp add: riscv_opcodes_1_def index_eval)

lemma rows_indexed_2: "list_all (\<lambda>q. early_row q \<or> late_row q) riscv_opcodes_2"
  by (simp add: riscv_opcodes_2_def index_eval)

lemma rows_indexed_3: "list_all (\<lambda>q. early_row q \<or> late_row q) riscv_opcodes_3"
  by (simp add: riscv_opcodes_3_def index_eval)

lemma rows_indexed_4: "list_all (\<lambda>q. early_row q \<or> late_row q) riscv_opcodes_4"
  by (simp add: riscv_opcodes_4_def index_eval)

lemma rows_indexed_5: "list_all (\<lambda>q. early_row q \<or> late_row q) riscv_opcodes_5"
  by (simp add: riscv_opcodes_5_def index_eval)

lemma rows_indexed_6: "list_all (\<lambda>q. early_row q \<or> late_row q) riscv_opcodes_6"
  by (simp add: riscv_opcodes_6_def index_eval)

lemma rows_indexed_7: "list_all (\<lambda>q. early_row q \<or> late_row q) riscv_opcodes_7"
  by (simp add: riscv_opcodes_7_def index_eval)

lemma rows_indexed_8: "list_all (\<lambda>q. early_row q \<or> late_row q) riscv_opcodes_8"
  by (simp add: riscv_opcodes_8_def index_eval)

lemma rows_indexed_9: "list_all (\<lambda>q. early_row q \<or> late_row q) riscv_opcodes_9"
  by (simp add: riscv_opcodes_9_def index_eval)

lemma rows_indexed_10: "list_all (\<lambda>q. early_row q \<or> late_row q) riscv_opcodes_10"
  by (simp add: riscv_opcodes_10_def index_eval)

lemma rows_indexed_11: "list_all (\<lambda>q. early_row q \<or> late_row q) riscv_opcodes_11"
  by (simp add: riscv_opcodes_11_def index_eval)

lemma rows_indexed_12: "list_all (\<lambda>q. early_row q \<or> late_row q) riscv_opcodes_12"
  by (simp add: riscv_opcodes_12_def index_eval)

lemma rows_indexed_13: "list_all (\<lambda>q. early_row q \<or> late_row q) riscv_opcodes_13"
  by (simp add: riscv_opcodes_13_def index_eval)

lemma rows_indexed_14: "list_all (\<lambda>q. early_row q \<or> late_row q) riscv_opcodes_14"
  by (simp add: riscv_opcodes_14_def index_eval)

lemma rows_indexed_15: "list_all (\<lambda>q. early_row q \<or> late_row q) riscv_opcodes_15"
  by (simp add: riscv_opcodes_15_def index_eval)

lemma rows_indexed_16: "list_all (\<lambda>q. early_row q \<or> late_row q) riscv_opcodes_16"
  by (simp add: riscv_opcodes_16_def index_eval)

lemma rows_indexed: "\<forall>q \<in> set riscv_opcodes. early_row q \<or> late_row q"
proof -
  have "list_all (\<lambda>q. early_row q \<or> late_row q) riscv_opcodes_1"
    using rows_indexed_1 by (simp add: list_all_iff)
  then have "list_all (\<lambda>q. early_row q \<or> late_row q) riscv_opcodes"
    by (simp only: riscv_opcodes_def list_all_append rows_indexed_2 rows_indexed_3 rows_indexed_4 rows_indexed_5 rows_indexed_6 rows_indexed_7 rows_indexed_8 rows_indexed_9 rows_indexed_10 rows_indexed_11 rows_indexed_12 rows_indexed_13 rows_indexed_14 rows_indexed_15 rows_indexed_16 simp_thms)
  then show ?thesis by (simp only: list_all_iff)
qed

lemma short_index_listed:
  assumes "w AND 3 \<noteq> (3 :: i64)"
  shows "\<exists>q \<in> set riscv_opcodes_1. OP_HASH_IDX (opc_match q) = OP_HASH_IDX w"
proof -
  have "list_ex (\<lambda>q. OP_HASH_IDX (opc_match q) = 0) riscv_opcodes_1" "list_ex (\<lambda>q. OP_HASH_IDX (opc_match q) = 1) riscv_opcodes_1"
    "list_ex (\<lambda>q. OP_HASH_IDX (opc_match q) = 2) riscv_opcodes_1"
    by code_simp+
  moreover have "OP_HASH_IDX w \<in> {0, 1, 2}"
  proof -
    have "unat (w AND 3) \<le> 3" using word_and_le1 [of w 3] by (simp add: word_le_nat_alt)
    moreover have "unat (w AND 3) \<noteq> 3"
    proof
      assume "unat (w AND 3) = 3"
      then have "unat (w AND 3) = unat (3 :: i64)" by simp
      with assms show False by (simp only: word_unat_eq_iff)
    qed
    ultimately have "unat (w AND 3) \<in> {0, 1, 2}" by auto
    then have "w AND 3 \<in> {0, 1, 2}" by (auto simp: word_unat_eq_iff)
    then show ?thesis using assms by (simp add: OP_HASH_IDX_def short_length)
  qed
  ultimately show ?thesis by (auto simp: list_ex_iff)
qed

lemma skipped_rows:
  assumes "q \<in> set (takeWhile (\<lambda>q. OP_HASH_IDX (opc_match q) \<noteq> OP_HASH_IDX word) riscv_opcodes)"
  shows "\<not> match_insn q word"
proof
  assume m: "match_insn q word"
  let ?Q = "\<lambda>q. OP_HASH_IDX (opc_match q) \<noteq> OP_HASH_IDX word"
  have q: "?Q q" "q \<in> set riscv_opcodes" using assms by (auto dest: set_takeWhileD)
  then have ne: "\<not> early_row q" using m early_row_index by blast
  with q rows_indexed m late_row_short have short: "word AND 3 \<noteq> 3" by blast
  from short_index_listed [OF this] obtain r where "r \<in> set riscv_opcodes_1" "\<not> ?Q r" by blast
  then have "takeWhile ?Q riscv_opcodes = takeWhile ?Q riscv_opcodes_1"
    unfolding riscv_opcodes_def by (rule takeWhile_append1)
  with assms have "q \<in> set riscv_opcodes_1" by (metis set_takeWhileD)
  with ne rows_indexed_1 show False by (simp add: list_all_iff)
qed

interpretation rows: indexed_rows riscv_opcodes "\<lambda>q. OP_HASH_IDX (opc_match q)" OP_HASH_IDX match_insn
  by unfold_locales (rule skipped_rows)

lemma disassemble_row_find:
  "disassemble_row D word = find (row_accepts D word) riscv_opcodes"
proof -
  have "find (row_accepts D word) (dropWhile (\<lambda>q. OP_HASH_IDX (opc_match q) \<noteq> OP_HASH_IDX word) riscv_opcodes) =
    find (row_accepts D word) riscv_opcodes"
    by (rule rows.search_from_index) (simp add: row_accepts_def)
  then show ?thesis
    unfolding disassemble_row_def build_riscv_hash_lookup search_rows_find option.case hash_search .
qed

text \<open>
  C14.  The hash table of the disassembler changes no result: for every word and every option, the
  row it prints is the first row of the whole table that accepts the word.
\<close>

theorem disassembler_hash_exact:
  "disassemble_row D word = find (row_accepts D word) riscv_opcodes"
  by (rule disassemble_row_find)

end
