(* ===== verification/Riscv_Registers.thy ===== *)
theory Riscv_Registers
  imports Prelude
begin

text \<open>
  The register names (opcodes/riscv-opc.c), the name table the assembler builds from them
  (\<open>md_begin\<close> of gas/config/tc-riscv.c), the character classes of a name (gas/read.c), and the
  lookup of a register at the start of the operand text (\<open>reg_lookup\<close>).
\<close>

section \<open>Names\<close>

definition riscv_gpr_names_numeric :: "string list" where
  "riscv_gpr_names_numeric =
   [
    ''x0'', ''x1'', ''x2'', ''x3'', ''x4'', ''x5'', ''x6'', ''x7'',
    ''x8'', ''x9'', ''x10'', ''x11'', ''x12'', ''x13'', ''x14'', ''x15'',
    ''x16'', ''x17'', ''x18'', ''x19'', ''x20'', ''x21'', ''x22'', ''x23'',
    ''x24'', ''x25'', ''x26'', ''x27'', ''x28'', ''x29'', ''x30'', ''x31'']"

definition riscv_gpr_names_abi :: "string list" where
  "riscv_gpr_names_abi =
   [
    ''zero'', ''ra'', ''sp'', ''gp'', ''tp'', ''t0'', ''t1'', ''t2'',
    ''s0'', ''s1'', ''a0'', ''a1'', ''a2'', ''a3'', ''a4'', ''a5'',
    ''a6'', ''a7'', ''s2'', ''s3'', ''s4'', ''s5'', ''s6'', ''s7'',
    ''s8'', ''s9'', ''s10'', ''s11'', ''t3'', ''t4'', ''t5'', ''t6'']"

definition riscv_fpr_names_numeric :: "string list" where
  "riscv_fpr_names_numeric =
   [
    ''f0'', ''f1'', ''f2'', ''f3'', ''f4'', ''f5'', ''f6'', ''f7'',
    ''f8'', ''f9'', ''f10'', ''f11'', ''f12'', ''f13'', ''f14'', ''f15'',
    ''f16'', ''f17'', ''f18'', ''f19'', ''f20'', ''f21'', ''f22'', ''f23'',
    ''f24'', ''f25'', ''f26'', ''f27'', ''f28'', ''f29'', ''f30'', ''f31'']"

definition riscv_fpr_names_abi :: "string list" where
  "riscv_fpr_names_abi =
   [
    ''ft0'', ''ft1'', ''ft2'', ''ft3'', ''ft4'', ''ft5'', ''ft6'', ''ft7'',
    ''fs0'', ''fs1'', ''fa0'', ''fa1'', ''fa2'', ''fa3'', ''fa4'', ''fa5'',
    ''fa6'', ''fa7'', ''fs2'', ''fs3'', ''fs4'', ''fs5'', ''fs6'', ''fs7'',
    ''fs8'', ''fs9'', ''fs10'', ''fs11'', ''ft8'', ''ft9'', ''ft10'', ''ft11'']"

definition riscv_vecr_names_numeric :: "string list" where
  "riscv_vecr_names_numeric =
   [
    ''v0'', ''v1'', ''v2'', ''v3'', ''v4'', ''v5'', ''v6'', ''v7'',
    ''v8'', ''v9'', ''v10'', ''v11'', ''v12'', ''v13'', ''v14'', ''v15'',
    ''v16'', ''v17'', ''v18'', ''v19'', ''v20'', ''v21'', ''v22'', ''v23'',
    ''v24'', ''v25'', ''v26'', ''v27'', ''v28'', ''v29'', ''v30'', ''v31'']"

definition riscv_vecm_names_numeric :: "string list" where
  "riscv_vecm_names_numeric =
   [
    ''v0.t'']"

section \<open>The name table\<close>

text \<open>The classes of \<open>reg_names_hash\<close>; control registers have a table of their own.\<close>

datatype reg_class = RCLASS_GPR | RCLASS_FPR | RCLASS_VECR | RCLASS_VECM

primrec class_code :: "reg_class \<Rightarrow> nat" where
  "class_code RCLASS_GPR = 0"
| "class_code RCLASS_FPR = 1"
| "class_code RCLASS_VECR = 2"
| "class_code RCLASS_VECM = 3"

definition RCLASS_MAX :: nat where "RCLASS_MAX = 4"

definition ENCODE_REG_HASH :: "reg_class \<Rightarrow> nat \<Rightarrow> nat" where
  "ENCODE_REG_HASH cls n = n * RCLASS_MAX + class_code cls + 1"

definition DECODE_REG_CLASS :: "nat \<Rightarrow> nat" where "DECODE_REG_CLASS h = (h - 1) mod RCLASS_MAX"
definition DECODE_REG_NUM :: "nat \<Rightarrow> nat" where "DECODE_REG_NUM h = (h - 1) div RCLASS_MAX"

text \<open>\<open>hash_reg_name\<close> stops the assembler on a name that is already present.\<close>

datatype reg_error = Duplicate_register string

definition hash_reg_name :: "reg_class \<Rightarrow> string \<Rightarrow> nat \<Rightarrow> (string \<rightharpoonup> nat) \<Rightarrow> reg_error + (string \<rightharpoonup> nat)" where
  "hash_reg_name cls name n h =
    (if h name = None then Inr (h(name \<mapsto> ENCODE_REG_HASH cls n)) else Inl (Duplicate_register name))"

fun hash_reg_names_from :: "nat \<Rightarrow> reg_class \<Rightarrow> string list \<Rightarrow> (string \<rightharpoonup> nat) \<Rightarrow> reg_error + (string \<rightharpoonup> nat)" where
  "hash_reg_names_from i cls [] h = Inr h"
| "hash_reg_names_from i cls (name # names) h =
    (case hash_reg_name cls name i h of Inl e \<Rightarrow> Inl e | Inr h' \<Rightarrow> hash_reg_names_from (Suc i) cls names h')"

definition hash_reg_names :: "reg_class \<Rightarrow> string list \<Rightarrow> reg_error + (string \<rightharpoonup> nat) \<Rightarrow> reg_error + (string \<rightharpoonup> nat)" where
  "hash_reg_names cls names r = (case r of Inl e \<Rightarrow> Inl e | Inr h \<Rightarrow> hash_reg_names_from 0 cls names h)"

definition init_reg_names :: "reg_error + (string \<rightharpoonup> nat)" where
  "init_reg_names =
    (case hash_reg_names RCLASS_VECM riscv_vecm_names_numeric
       (hash_reg_names RCLASS_VECR riscv_vecr_names_numeric
       (hash_reg_names RCLASS_FPR riscv_fpr_names_abi
       (hash_reg_names RCLASS_FPR riscv_fpr_names_numeric
       (hash_reg_names RCLASS_GPR riscv_gpr_names_abi
       (hash_reg_names RCLASS_GPR riscv_gpr_names_numeric (Inr Map.empty)))))) of
       Inl e \<Rightarrow> Inl e | Inr h \<Rightarrow> hash_reg_name RCLASS_GPR ''fp'' 8 h)"

section \<open>Characters of a name\<close>

text \<open>\<open>lex_type\<close> with the default character options, which the RISC-V target keeps.\<close>

definition lex_type :: "nat list" where
  "lex_type =
     replicate 32 0
   @ [0, 0, 0, 0, 3, 0, 0, 0, 0, 0, 0, 0, 0, 0, 3, 0]
   @ [1, 1, 1, 1, 1, 1, 1, 1, 1, 1, 0, 0, 0, 0, 0, 0]
   @ [0, 3, 3, 3, 3, 3, 3, 3, 3, 3, 3, 3, 3, 3, 3, 3]
   @ [3, 3, 3, 3, 3, 3, 3, 3, 3, 3, 3, 0, 0, 0, 0, 3]
   @ [0, 3, 3, 3, 3, 3, 3, 3, 3, 3, 3, 3, 3, 3, 3, 3]
   @ [3, 3, 3, 3, 3, 3, 3, 3, 3, 3, 3, 0, 0, 0, 0, 0]
   @ replicate 128 3"

definition LEX_NAME :: nat where "LEX_NAME = 1"
definition LEX_BEGIN_NAME :: nat where "LEX_BEGIN_NAME = 2"

definition is_name_beginner :: "char \<Rightarrow> bool" where
  "is_name_beginner c \<longleftrightarrow> lex_type ! of_char c AND LEX_BEGIN_NAME \<noteq> 0"

definition is_part_of_name :: "char \<Rightarrow> bool" where
  "is_part_of_name c \<longleftrightarrow> lex_type ! of_char c AND LEX_NAME \<noteq> 0"

section \<open>Lookup\<close>

text \<open>
  \<open>rve\<close> is \<open>riscv_subset_supports (&riscv_rps_as, "e")\<close>.  \<open>reg_lookup\<close> returns the register and
  the text after its name.
\<close>

definition reg_lookup_internal :: "(string \<rightharpoonup> nat) \<Rightarrow> bool \<Rightarrow> string \<Rightarrow> reg_class \<Rightarrow> nat option" where
  "reg_lookup_internal names rve s cls =
    (case names s of
       None \<Rightarrow> None
     | Some r \<Rightarrow>
         if DECODE_REG_CLASS r \<noteq> class_code cls then None
         else if rve \<and> cls = RCLASS_GPR \<and> DECODE_REG_NUM r > 15 then None
         else Some (DECODE_REG_NUM r))"

fun name_end :: "string \<Rightarrow> string \<times> string" where
  "name_end s =
    (case s of
       c # s' \<Rightarrow>
         if is_name_beginner c then (c # takeWhile is_part_of_name s', dropWhile is_part_of_name s')
         else (takeWhile is_part_of_name s, dropWhile is_part_of_name s)
     | [] \<Rightarrow> ([], []))"

definition reg_lookup :: "(string \<rightharpoonup> nat) \<Rightarrow> bool \<Rightarrow> string \<Rightarrow> reg_class \<Rightarrow> (nat \<times> string) option" where
  "reg_lookup names rve s cls =
    (case name_end s of (name, rest) \<Rightarrow>
       (case reg_lookup_internal names rve name cls of None \<Rightarrow> None | Some r \<Rightarrow> Some (r, rest)))"

section \<open>Every name is found\<close>

lemma decode_encode [simp]:
  "DECODE_REG_CLASS (ENCODE_REG_HASH cls n) = class_code cls"
  "DECODE_REG_NUM (ENCODE_REG_HASH cls n) = n"
proof -
  have "class_code cls < 4" by (cases cls) simp_all
  then show "DECODE_REG_CLASS (ENCODE_REG_HASH cls n) = class_code cls" "DECODE_REG_NUM (ENCODE_REG_HASH cls n) = n"
    by (simp_all add: DECODE_REG_CLASS_def DECODE_REG_NUM_def ENCODE_REG_HASH_def RCLASS_MAX_def)
qed

text \<open>The table after a group of fresh, distinct names is the old one with one entry per name.\<close>

fun reg_entries :: "reg_class \<Rightarrow> nat \<Rightarrow> string list \<Rightarrow> (string \<times> nat) list" where
  "reg_entries cls i [] = []"
| "reg_entries cls i (name # names) = (name, ENCODE_REG_HASH cls i) # reg_entries cls (Suc i) names"

lemma reg_entries_names [simp]: "map fst (reg_entries cls i names) = names"
  by (induction cls i names rule: reg_entries.induct) simp_all

lemma reg_entries_fst [simp]: "fst ` set (reg_entries cls i names) = set names"
  by (simp flip: set_map)

lemma hash_reg_names_from_entries:
  assumes "distinct (names @ map fst E)"
  shows "hash_reg_names_from i cls names (map_of E) = Inr (map_of (reg_entries cls i names @ E))"
  using assms
proof (induction names arbitrary: i E)
  case Nil
  show ?case by simp
next
  case (Cons a names)
  let ?e = "(a, ENCODE_REG_HASH cls i)"
  have fresh: "map_of E a = None" "a \<notin> fst ` set (reg_entries cls (Suc i) names)"
    using Cons.prems by (simp_all add: map_of_eq_None_iff flip: set_map)
  have "hash_reg_names_from (Suc i) cls names (map_of (?e # E)) = Inr (map_of (reg_entries cls (Suc i) names @ ?e # E))"
    using Cons.prems by (intro Cons.IH) auto
  moreover have "map_of (reg_entries cls (Suc i) names @ ?e # E) = map_of (reg_entries cls i (a # names) @ E)"
    using fresh(2) by (simp add: map_add_upd_left map_of_eq_None_iff dom_map_of_conv_image_fst)
  ultimately show ?case using fresh(1) by (simp add: hash_reg_name_def fun_upd_def)
qed

definition all_entries :: "(string \<times> nat) list" where
  "all_entries = (''fp'', ENCODE_REG_HASH RCLASS_GPR 8) # reg_entries RCLASS_VECM 0 riscv_vecm_names_numeric
     @ reg_entries RCLASS_VECR 0 riscv_vecr_names_numeric @ reg_entries RCLASS_FPR 0 riscv_fpr_names_abi
     @ reg_entries RCLASS_FPR 0 riscv_fpr_names_numeric @ reg_entries RCLASS_GPR 0 riscv_gpr_names_abi
     @ reg_entries RCLASS_GPR 0 riscv_gpr_names_numeric"

lemma all_names_distinct: "distinct (map fst all_entries)"
  by code_simp

lemma init_reg_names_entries: "init_reg_names = Inr (map_of all_entries)"
proof -
  note d = all_names_distinct [unfolded all_entries_def list.map map_append reg_entries_names fst_conv]
  note first = hash_reg_names_from_entries [where E = "[]", simplified]
  show ?thesis
    unfolding init_reg_names_def hash_reg_names_def
    using d by (simp add: first hash_reg_names_from_entries hash_reg_name_def all_entries_def map_of_eq_None_iff image_Un
      del: map_of_append)
qed

text \<open>A register name is read up to the first character that cannot continue a name.\<close>

definition plain_name :: "string \<Rightarrow> bool" where
  "plain_name s \<longleftrightarrow> s \<noteq> [] \<and> is_name_beginner (hd s) \<and> list_all is_part_of_name s"

definition ends_name :: "string \<Rightarrow> bool" where
  "ends_name rest \<longleftrightarrow> rest = [] \<or> \<not> is_part_of_name (hd rest)"

lemma takeWhile_stop: "list_all P xs \<Longrightarrow> ys = [] \<or> \<not> P (hd ys) \<Longrightarrow> takeWhile P (xs @ ys) = xs \<and> dropWhile P (xs @ ys) = ys"
  by (induction xs) (cases ys; auto)+

lemma name_end_plain:
  assumes "plain_name s" "ends_name rest"
  shows "name_end (s @ rest) = (s, rest)"
  using assms takeWhile_stop [of is_part_of_name "tl s" rest]
  by (cases s) (auto simp: plain_name_def ends_name_def)

lemma all_names_plain: "list_all (plain_name \<circ> fst) all_entries"
  by code_simp

lemma reg_lookup_entry:
  assumes "(name, ENCODE_REG_HASH cls n) \<in> set all_entries" "ends_name rest" "\<not> rve \<or> n \<le> 15 \<or> cls \<noteq> RCLASS_GPR"
  shows "reg_lookup (map_of all_entries) rve (name @ rest) cls = Some (n, rest)"
proof -
  have "map_of all_entries name = Some (ENCODE_REG_HASH cls n)" using assms(1) all_names_distinct by simp
  moreover have "plain_name name" using assms(1) all_names_plain by (auto simp: list_all_iff)
  ultimately show ?thesis
    using assms(2,3) by (auto simp: reg_lookup_def reg_lookup_internal_def name_end_plain simp del: name_end.simps)
qed

lemma reg_entries_nth:
  assumes "n < length names"
  shows "(names ! n, ENCODE_REG_HASH cls (i + n)) \<in> set (reg_entries cls i names)"
  using assms
proof (induction cls i names arbitrary: n rule: reg_entries.induct)
  case (2 cls i name names)
  then show ?case by (cases n) (use 2 in \<open>fastforce+\<close>)
qed simp

lemmas reg_entries_nth_0 = reg_entries_nth [where i = 0, simplified]

lemma gpr_entries:
  assumes "n < 32"
  shows "(riscv_gpr_names_abi ! n, ENCODE_REG_HASH RCLASS_GPR n) \<in> set all_entries"
    "(riscv_gpr_names_numeric ! n, ENCODE_REG_HASH RCLASS_GPR n) \<in> set all_entries"
proof -
  have "length riscv_gpr_names_abi = 32" "length riscv_gpr_names_numeric = 32"
    by (simp_all add: riscv_gpr_names_abi_def riscv_gpr_names_numeric_def)
  then show "(riscv_gpr_names_abi ! n, ENCODE_REG_HASH RCLASS_GPR n) \<in> set all_entries"
    "(riscv_gpr_names_numeric ! n, ENCODE_REG_HASH RCLASS_GPR n) \<in> set all_entries"
    using assms by (simp_all add: all_entries_def reg_entries_nth_0)
qed

text \<open>
  The register table of the assembler is built without a duplicate, and in it both names of
  every integer register are found as that register, whatever text that cannot continue a name
  follows; with the RV32E base the registers above x15 are refused.
\<close>

theorem gpr_names_found:
  "\<exists>names. init_reg_names = Inr names \<and>
    (\<forall>n rest rve name. n < 32 \<longrightarrow> ends_name rest \<longrightarrow> name \<in> {riscv_gpr_names_abi ! n, riscv_gpr_names_numeric ! n} \<longrightarrow>
       reg_lookup names rve (name @ rest) RCLASS_GPR = (if rve \<and> n > 15 then None else Some (n, rest)))"
proof (intro exI conjI allI impI)
  show "init_reg_names = Inr (map_of all_entries)" by (rule init_reg_names_entries)
  fix n rest rve name
  assume n: "n < (32 :: nat)" and rest: "ends_name rest" and "name \<in> {riscv_gpr_names_abi ! n, riscv_gpr_names_numeric ! n}"
  then have e: "(name, ENCODE_REG_HASH RCLASS_GPR n) \<in> set all_entries" using gpr_entries [OF n] by auto
  then have "map_of all_entries name = Some (ENCODE_REG_HASH RCLASS_GPR n)" "plain_name name"
    using all_names_distinct all_names_plain by (auto simp: list_all_iff)
  then show "reg_lookup (map_of all_entries) rve (name @ rest) RCLASS_GPR = (if rve \<and> n > 15 then None else Some (n, rest))"
    using rest by (simp add: reg_lookup_def reg_lookup_internal_def name_end_plain del: name_end.simps)
qed

theorem gpr_names_found_witness:
  "\<exists>names. init_reg_names = Inr names \<and> reg_lookup names False ''a0,a1'' RCLASS_GPR = Some (10, '',a1'')"
proof -
  from gpr_names_found obtain names where names: "init_reg_names = Inr names"
    "\<forall>n rest rve name. n < 32 \<longrightarrow> ends_name rest \<longrightarrow> name \<in> {riscv_gpr_names_abi ! n, riscv_gpr_names_numeric ! n} \<longrightarrow>
       reg_lookup names rve (name @ rest) RCLASS_GPR = (if rve \<and> n > 15 then None else Some (n, rest))"
    by (elim exE conjE) (rule that)
  have "ends_name '',a1''" by code_simp
  moreover have "''a0'' = riscv_gpr_names_abi ! 10" by code_simp
  ultimately have "reg_lookup names False (''a0'' @ '',a1'') RCLASS_GPR = Some (10, '',a1'')"
    using names(2) [rule_format, of 10 "'',a1''" "''a0''" False] by simp
  with names(1) show ?thesis by auto
qed

end
