(* ===== verification/Riscv_Text.thy ===== *)
theory Riscv_Text
  imports Riscv_Disassembler Riscv_Registers
begin

text \<open>
  Assembly text: how \<open>riscv_ip\<close> (gas/config/tc-riscv.c) selects a row for a line and fills its
  integer-register operands, and how \<open>riscv_disassemble_insn\<close> (opcodes/riscv-dis.c) prints a word.
  Operand letters for immediates, floating-point, vector and compressed operands are outside this
  theory; a row that uses one gives the value \<open>Other_operand\<close> (assembler) or \<open>None\<close> (printer).
\<close>

section \<open>Assembler\<close>

definition INSERT_OPERAND :: "op_field \<Rightarrow> i64 \<Rightarrow> i64 \<Rightarrow> i64" where
  "INSERT_OPERAND f insn value = INSERT_BITS insn value (OP_MASK f) (OP_SH f)"

definition INSN_V_EEW64 :: i64 where "INSN_V_EEW64 = 0x10000000"

text \<open>
  The options of a run: XLEN, the instruction classes (\<open>riscv_multi_subset_supports\<close>) and single
  extensions (\<open>riscv_subset_supports\<close>) of the architecture string, and \<open>riscv_opts.rvc\<close>.
\<close>

record as_options =
  as_xlen :: nat
  as_class :: "riscv_insn_class \<Rightarrow> bool"
  as_ext :: "string \<Rightarrow> bool"
  as_rvc :: bool

datatype ip_msg = Unrecognized_opcode | Illegal_operands | Illegal_zve32x | Unmodelled char

record ip_error =
  err_msg :: ip_msg
  missing_ext :: "riscv_insn_class option"

datatype operand_result = Accepted i64 | Rejected ip_msg | Other_operand char

text \<open>\<open>strspn (asarg, " \t")\<close> and the blank that may follow a register.\<close>

definition skip_blanks :: "string \<Rightarrow> string" where
  "skip_blanks s = dropWhile (\<lambda>c. c = CHR '' '' \<or> c = CHR 0x09) s"

definition skip_space :: "string \<Rightarrow> string" where
  "skip_space s = (case s of c # s' \<Rightarrow> if c = CHR '' '' then s' else s | [] \<Rightarrow> [])"

text \<open>The checks at the end of the operand string.\<close>

definition ip_end :: "as_options \<Rightarrow> riscv_opcode \<Rightarrow> string \<Rightarrow> i64 \<Rightarrow> operand_result" where
  "ip_end A insn asarg word =
    (if opc_pinfo insn \<noteq> INSN_MACRO \<and> \<not> match_insn insn word then Rejected Illegal_operands
     else if opc_pinfo insn \<noteq> INSN_MACRO \<and>
       riscv_insn_length (if opc_match insn = 0 \<and> opc_mask insn = 0 then word else opc_match insn) = 2 \<and> \<not> as_rvc A
     then Rejected Illegal_operands
     else if opc_pinfo insn \<noteq> INSN_MACRO \<and> opc_pinfo insn AND INSN_V_EEW64 \<noteq> 0 \<and> as_ext A ''zve32x'' \<and> \<not> as_ext A ''zve64x''
     then Rejected Illegal_zve32x
     else if asarg \<noteq> [] then Rejected Illegal_operands
     else Accepted word)"

definition reg_field :: "char \<Rightarrow> op_field option" where
  "reg_field c =
    (if c = CHR ''s'' then Some F_RS1 else if c = CHR ''d'' then Some F_RD
     else if c = CHR ''t'' then Some F_RS2 else if c = CHR ''r'' then Some F_RS3 else None)"

fun ip_operands :: "as_options \<Rightarrow> (string \<rightharpoonup> nat) \<Rightarrow> riscv_opcode \<Rightarrow> string \<Rightarrow> string \<Rightarrow> i64 \<Rightarrow> operand_result" where
  "ip_operands A names insn [] asarg word = ip_end A insn (skip_blanks asarg) word"
| "ip_operands A names insn (c # oparg) asarg word =
    (if c = CHR '','' then
       (case skip_blanks asarg of
          a # asarg' \<Rightarrow> if a = c then ip_operands A names insn oparg asarg' word else Rejected Illegal_operands
        | [] \<Rightarrow> Rejected Illegal_operands)
     else case reg_field c of
       None \<Rightarrow> Other_operand c
     | Some f \<Rightarrow>
         (case reg_lookup names (as_ext A ''e'') (skip_blanks asarg) RCLASS_GPR of
            None \<Rightarrow> Rejected Illegal_operands
          | Some (regno, asarg') \<Rightarrow>
              ip_operands A names insn oparg (skip_space asarg') (INSERT_OPERAND f word (of_nat regno))))"

text \<open>The loop over the rows with the mnemonic; \<open>create_insn\<close> starts each from its match bits.\<close>

fun ip_rows :: "as_options \<Rightarrow> (string \<rightharpoonup> nat) \<Rightarrow> string \<Rightarrow> string \<Rightarrow> riscv_opcode list \<Rightarrow> ip_error \<Rightarrow> ip_error + riscv_opcode \<times> i64" where
  "ip_rows A names str asarg [] e = Inl e"
| "ip_rows A names str asarg (insn # rows) e =
    (if opc_name insn \<noteq> str then Inl e
     else if opc_xlen_requirement insn \<noteq> 0 \<and> as_xlen A \<noteq> opc_xlen_requirement insn then ip_rows A names str asarg rows e
     else if \<not> as_class A (opc_insn_class insn)
     then ip_rows A names str asarg rows (e\<lparr>missing_ext := Some (opc_insn_class insn)\<rparr>)
     else case ip_operands A names insn (opc_args insn) asarg (opc_match insn) of
         Accepted word \<Rightarrow> Inr (insn, word)
       | Rejected m \<Rightarrow> ip_rows A names str asarg rows \<lparr>err_msg = m, missing_ext = None\<rparr>
       | Other_operand c \<Rightarrow> Inl \<lparr>err_msg = Unmodelled c, missing_ext = None\<rparr>)"

definition ISSPACE :: "char \<Rightarrow> bool" where
  "ISSPACE c \<longleftrightarrow> c = CHR '' '' \<or> c = CHR 0x09 \<or> c = CHR 0x0A \<or> c = CHR 0x0B \<or> c = CHR 0x0C \<or> c = CHR 0x0D"

definition riscv_ip :: "as_options \<Rightarrow> (string \<rightharpoonup> nat) \<Rightarrow> opcode_hash \<Rightarrow> string \<Rightarrow> ip_error + riscv_opcode \<times> i64" where
  "riscv_ip A names hash str =
    (let name = takeWhile (\<lambda>c. \<not> ISSPACE c) str; asarg = tl (dropWhile (\<lambda>c. \<not> ISSPACE c) str);
         e = \<lparr>err_msg = Unrecognized_opcode, missing_ext = None\<rparr>
     in case hash name of None \<Rightarrow> Inl e | Some rows \<Rightarrow> ip_rows A names name asarg rows e)"

section \<open>Printer\<close>

definition MATCH_JALR :: i64 where "MATCH_JALR = 0x67"
definition MASK_JALR :: i64 where "MASK_JALR = 0x707f"

text \<open>The text of one operand; the address comment of \<open>jalr\<close> depends on earlier instructions.\<close>

definition print_operand :: "string list \<Rightarrow> i64 \<Rightarrow> char \<Rightarrow> string option" where
  "print_operand names l c =
    (if c = CHR '','' \<or> c = CHR ''('' \<or> c = CHR '')'' \<or> c = CHR ''['' \<or> c = CHR '']'' then Some [c]
     else if c = CHR ''s'' then
       (if l AND MASK_JALR = MATCH_JALR then None else Some (names ! unat (EXTRACT_OPERAND F_RS1 l)))
     else if c = CHR ''t'' then Some (names ! unat (EXTRACT_OPERAND F_RS2 l))
     else if c = CHR ''d'' then Some (names ! unat (EXTRACT_OPERAND F_RD l))
     else if c = CHR ''z'' then Some (names ! 0)
     else None)"

fun print_operands :: "string list \<Rightarrow> i64 \<Rightarrow> string \<Rightarrow> string option" where
  "print_operands names l [] = Some []"
| "print_operands names l (c # oparg) =
    (case print_operand names l c of
       None \<Rightarrow> None
     | Some t \<Rightarrow> (case print_operands names l oparg of None \<Rightarrow> None | Some u \<Rightarrow> Some (t @ u)))"

definition print_insn_args :: "string list \<Rightarrow> string \<Rightarrow> i64 \<Rightarrow> string option" where
  "print_insn_args names oparg l =
    (case print_operands names l oparg of None \<Rightarrow> None | Some t \<Rightarrow> Some ((if oparg = [] then [] else [CHR 0x09]) @ t))"

text \<open>
  A word without a row is printed as an \<open>.insn\<close> directive from the bytes of the packet, two at a
  time from the top; leading zero parcels are left out.
\<close>

definition hex_char :: "nat \<Rightarrow> char" where
  "hex_char d = char_of (if d < 10 then 48 + d else 87 + d)"

definition hex4 :: "nat \<Rightarrow> string" where
  "hex4 w = [hex_char (w div 4096 mod 16), hex_char (w div 256 mod 16), hex_char (w div 16 mod 16), hex_char (w mod 16)]"

text \<open>\<open>bfd_get_bits (packet + i, 16, false)\<close>.\<close>

definition parcel :: "8 word list \<Rightarrow> nat \<Rightarrow> nat" where
  "parcel packet i = unat (packet ! i) + 256 * unat (packet ! (i + 1))"

fun print_parcels :: "8 word list \<Rightarrow> nat \<Rightarrow> bool \<Rightarrow> string" where
  "print_parcels packet (Suc (Suc i)) printed =
    (if parcel packet i = 0 \<and> \<not> printed then print_parcels packet i printed
     else hex4 (parcel packet i) @ print_parcels packet i True)"
| "print_parcels packet i printed = []"

text \<open>\<open>%d\<close> of an instruction length, at most 22.\<close>

definition print_len :: "nat \<Rightarrow> string" where
  "print_len n = (if n < 10 then [] else [char_of (48 + n div 10)]) @ [char_of (48 + n mod 10)]"

definition insn_directive :: "8 word list \<Rightarrow> nat \<Rightarrow> string" where
  "insn_directive packet insnlen =
    ''.insn'' @ [CHR 0x09] @ print_len insnlen @ '', '' @ ''0x'' @ print_parcels packet insnlen False"

definition riscv_disassemble_insn :: "string list \<Rightarrow> dis_options \<Rightarrow> 8 word list \<Rightarrow> i64 \<Rightarrow> string option" where
  "riscv_disassemble_insn names D packet word =
    (case disassemble_row D word of
       Some opc \<Rightarrow>
         (case print_insn_args names (opc_args opc) word of None \<Rightarrow> None | Some t \<Rightarrow> Some (opc_name opc @ t))
     | None \<Rightarrow> Some (insn_directive packet (riscv_insn_length word)))"

section \<open>The digits of an .insn directive\<close>

definition hex_val :: "char \<Rightarrow> nat" where
  "hex_val c = (if of_char c < (97 :: nat) then of_char c - 48 else of_char c - 87)"

definition hex_value :: "string \<Rightarrow> nat" where
  "hex_value s = foldl (\<lambda>v c. 16 * v + hex_val c) 0 s"

lemma hex_val_char [simp]: "d < 16 \<Longrightarrow> hex_val (hex_char d) = d"
  by (simp add: hex_val_def hex_char_def)

fun packet_value :: "8 word list \<Rightarrow> nat \<Rightarrow> nat" where
  "packet_value packet 0 = 0"
| "packet_value packet (Suc n) = packet_value packet n + 256 ^ n * unat (packet ! n)"

lemma parcel_less: "parcel packet i < 65536"
proof -
  have "unat (packet ! i) < 256" "unat (packet ! (i + 1)) < 256"
    using unsigned_less [of "packet ! i"] unsigned_less [of "packet ! (i + 1)"] by simp_all
  then show ?thesis by (simp add: parcel_def)
qed

lemma packet_value_Suc_Suc: "packet_value packet (Suc (Suc i)) = packet_value packet i + 256 ^ i * parcel packet i"
  by (simp add: parcel_def algebra_simps)

lemma foldl_hex4:
  assumes "p < 65536"
  shows "foldl (\<lambda>v c. 16 * v + hex_val c) v (hex4 p) = 65536 * v + p"
proof -
  have "p = 16 * (p div 16) + p mod 16" "p div 16 = 16 * (p div 256) + p div 16 mod 16"
    "p div 256 = 16 * (p div 4096) + p div 256 mod 16" "p div 4096 mod 16 = p div 4096"
    using assms mult_div_mod_eq [of 16 "p div 16"] mult_div_mod_eq [of 16 "p div 256"]
    by (simp_all add: less_mult_imp_div_less flip: div_mult2_eq)
  then have "4096 * (p div 4096) + (256 * (p div 256 mod 16) + (16 * (p div 16 mod 16) + p mod 16)) = p"
    by linarith
  moreover have "p div 4096 < 16" using assms by (simp add: less_mult_imp_div_less)
  ultimately show ?thesis by (simp add: hex4_def)
qed

lemma foldl_print_parcels:
  assumes "even n" "printed \<or> v = 0"
  shows "foldl (\<lambda>v c. 16 * v + hex_val c) v (print_parcels packet n printed) = 256 ^ n * v + packet_value packet n"
  using assms
proof (induction packet n printed arbitrary: v rule: print_parcels.induct)
  case (1 packet i printed)
  show ?case
  proof (cases "parcel packet i = 0 \<and> \<not> printed")
    case True
    then show ?thesis using 1 by (simp add: packet_value_Suc_Suc del: packet_value.simps)
  next
    case False
    have "even i" using 1(3) by simp
    with 1(2) [OF False, of "65536 * v + parcel packet i"]
    have "foldl (\<lambda>v c. 16 * v + hex_val c) (65536 * v + parcel packet i) (print_parcels packet i True) =
      256 ^ i * (65536 * v + parcel packet i) + packet_value packet i" by simp
    with False show ?thesis
      by (simp only: print_parcels.simps if_False foldl_append foldl_hex4 parcel_less packet_value_Suc_Suc)
        (simp add: algebra_simps)
  qed
qed simp_all

lemma print_parcels_Nil: "even n \<Longrightarrow> print_parcels packet n False = [] \<longleftrightarrow> packet_value packet n = 0"
proof (induction packet n False rule: print_parcels.induct)
  case (1 packet i)
  then show ?case by (auto simp: packet_value_Suc_Suc hex4_def simp del: packet_value.simps)
qed simp_all

text \<open>
  A word that no row accepts is printed as an \<open>.insn\<close> directive with its length, whose
  hexadecimal digits denote exactly the little-endian value of the packet; when that value is zero
  no digit at all follows the \<open>0x\<close>.
\<close>

theorem insn_directive_digits:
  assumes "disassemble_row D word = None"
  shows "\<exists>ds. riscv_disassemble_insn names D packet word =
      Some (''.insn'' @ [CHR 0x09] @ print_len (riscv_insn_length word) @ '', 0x'' @ ds) \<and>
    hex_value ds = packet_value packet (riscv_insn_length word) \<and>
    (ds = [] \<longleftrightarrow> packet_value packet (riscv_insn_length word) = 0)"
  using assms insn_length_bounds [of word]
  by (simp add: riscv_disassemble_insn_def insn_directive_def hex_value_def foldl_print_parcels print_parcels_Nil)

lemma no_class_no_row: "disassemble_row \<lparr>no_aliases = a, dis_xlen = x, supports = \<lambda>_. False\<rparr> word = None"
  by (simp add: disassemble_row_find find_None_iff row_accepts_def)

theorem insn_directive_digits_witness:
  "riscv_disassemble_insn riscv_gpr_names_abi \<lparr>no_aliases = False, dis_xlen = 32, supports = \<lambda>_. False\<rparr> [0, 0] 0
    = Some (''.insn'' @ [CHR 0x09] @ ''2, 0x'')"
proof -
  have len: "riscv_insn_length 0 = 2" by (simp add: riscv_insn_length_def)
  have val: "packet_value [0, 0] 2 = 0" by (simp add: numeral_2_eq_2)
  obtain ds where "riscv_disassemble_insn riscv_gpr_names_abi \<lparr>no_aliases = False, dis_xlen = 32, supports = \<lambda>_. False\<rparr> [0, 0] 0 =
      Some (''.insn'' @ [CHR 0x09] @ print_len 2 @ '', 0x'' @ ds)" "ds = []"
    using insn_directive_digits [OF no_class_no_row [of False 32 0], of riscv_gpr_names_abi "[0, 0]"] unfolding len val
    by (elim exE conjE) (simp only: simp_thms that)
  moreover have "print_len 2 = ''2''" by code_simp
  ultimately show ?thesis by simp
qed

end
