(* ===== verification/Riscv_Custom.thy ===== *)
theory Riscv_Custom
  imports Riscv_Text Simd_Intrinsics
begin

text \<open>
  The custom SIMD instructions of the toolchain (the rows of opcodes/riscv-opc.c and the match bits
  of include/opcode/riscv-opc.h) through the assembler, the disassembler and the decoder of the
  core.
\<close>

section \<open>The custom rows\<close>

definition custom_rows :: "riscv_opcode list" where
  "custom_rows = take 18 (drop 4 riscv_opcodes_1)"

lemma custom_rows_nth:
  assumes "i < 18"
  shows "custom_rows ! i = riscv_opcodes_1 ! (4 + i)" "4 + i < length riscv_opcodes_1"
proof -
  have "list_all (\<lambda>k. k < length riscv_opcodes_1) [21]" by code_simp
  then show l: "4 + i < length riscv_opcodes_1" using assms by simp
  then show "custom_rows ! i = riscv_opcodes_1 ! (4 + i)" using assms by (simp add: custom_rows_def)
qed

text \<open>All of them are plain base-class rows; their masks leave open exactly the register fields they use.\<close>

definition custom_shape :: "riscv_opcode \<Rightarrow> bool" where
  "custom_shape q \<longleftrightarrow> opc_pinfo q = 0 \<and> opc_xlen_requirement q = 0 \<and> opc_insn_class q = INSN_CLASS_I \<and>
    opc_match_func q = Match_opcode \<and> opc_match q AND 0x7f = 0x5b \<and> opc_match q AND opc_mask q = opc_match q \<and>
    list_all (\<lambda>c. \<not> ISSPACE c) (opc_name q) \<and>
    (opc_args q = ''d,s,t'' \<and> opc_mask q = 0xfe00707f \<or> opc_args q = ''d,s'' \<and> opc_mask q = 0xfff0707f)"

lemma custom_shapes: "list_all custom_shape custom_rows"
  by code_simp

text \<open>Two rows clash when no word can match both.\<close>

definition clash :: "riscv_opcode \<Rightarrow> riscv_opcode \<Rightarrow> bool" where
  "clash q r \<longleftrightarrow> (opc_match q XOR opc_match r) AND (opc_mask q AND opc_mask r) \<noteq> 0"

lemma clash_excludes:
  assumes "clash q r" "match_insn q w"
  shows "\<not> match_insn r w"
proof
  assume "match_insn r w"
  then have r: "(w XOR opc_match r) AND opc_mask r = 0" and q: "(w XOR opc_match q) AND opc_mask q = 0"
    using assms(2) by (simp_all add: match_insn_opcode match_opcode_def [symmetric])
  have "(opc_match q XOR opc_match r) AND (opc_mask q AND opc_mask r) = 0"
  proof (rule bit_word_eqI)
    fix n assume "n < LENGTH(64)"
    have "\<not> bit ((w XOR opc_match r) AND opc_mask r) n" "\<not> bit ((w XOR opc_match q) AND opc_mask q) n" using r q by simp_all
    then show "bit ((opc_match q XOR opc_match r) AND (opc_mask q AND opc_mask r)) n \<longleftrightarrow> bit (0 :: i64) n"
      by (auto simp: bit_simps)
  qed
  with assms(1) show False by (simp add: clash_def)
qed

lemma custom_rows_clash:
  "sorted_wrt (\<lambda>q r. clash q r \<and> opc_name q \<noteq> opc_name r) (take 22 riscv_opcodes_1)"
  by code_simp

lemma custom_row_first:
  assumes "i < 18" "j < 4 + i"
  shows "clash (riscv_opcodes ! j) (custom_rows ! i)" "opc_name (riscv_opcodes ! j) \<noteq> opc_name (custom_rows ! i)"
    "riscv_opcodes ! (4 + i) = custom_rows ! i" "4 + i < length riscv_opcodes"
proof -
  note n = custom_rows_nth [OF assms(1)]
  have "riscv_opcodes ! k = riscv_opcodes_1 ! k" if "k \<le> 4 + i" for k
    using that n(2) unfolding riscv_opcodes_def by (simp add: nth_append)
  moreover have "take 22 riscv_opcodes_1 ! k = riscv_opcodes_1 ! k" if "k \<le> 4 + i" for k
    using that assms by simp
  moreover have "4 + i < length (take 22 riscv_opcodes_1)" using n(2) assms by simp
  ultimately show "clash (riscv_opcodes ! j) (custom_rows ! i)" "opc_name (riscv_opcodes ! j) \<noteq> opc_name (custom_rows ! i)"
    "riscv_opcodes ! (4 + i) = custom_rows ! i"
    using sorted_wrt_nth_less [OF custom_rows_clash assms(2)] assms(2) n(1) by simp_all
  show "4 + i < length riscv_opcodes" using n(2) by (simp add: riscv_opcodes_def)
qed

lemma custom_row_shape: "i < 18 \<Longrightarrow> custom_shape (custom_rows ! i)"
proof -
  assume "i < 18"
  moreover have "length custom_rows = 18" by code_simp
  ultimately show ?thesis using custom_shapes by (simp add: list_all_length)
qed

text \<open>A word that matches a custom row is printed as that row.\<close>

lemma find_nth: "i < length xs \<Longrightarrow> P (xs ! i) \<Longrightarrow> (\<And>j. j < i \<Longrightarrow> \<not> P (xs ! j)) \<Longrightarrow> find P xs = Some (xs ! i)"
  by (auto simp: find_Some_iff)

lemma custom_row_found:
  assumes "i < 18" "match_insn (custom_rows ! i) w" "supports D INSN_CLASS_I"
  shows "disassemble_row D w = Some (custom_rows ! i)"
proof -
  note first = custom_row_first [OF assms(1)]
  have r: "riscv_opcodes ! (4 + i) = custom_rows ! i" "4 + i < length riscv_opcodes" using first(3,4) [of 0] by simp_all
  have "row_accepts D w (riscv_opcodes ! (4 + i))"
    using assms(2,3) custom_row_shape [OF assms(1)] unfolding r by (simp add: row_accepts_def custom_shape_def)
  moreover have "\<not> row_accepts D w (riscv_opcodes ! j)" if "j < 4 + i" for j
    using clash_excludes [OF first(1) [OF that]] assms(2) by (auto simp: row_accepts_def)
  ultimately show ?thesis
    unfolding disassemble_row_find by (subst find_nth [OF r(2)]) (simp_all only: r not_False_eq_True)
qed

text \<open>The assembler's hash gives the suffix of the table that starts at the row.\<close>

lemma dropWhile_nth: "i < length xs \<Longrightarrow> \<not> P (xs ! i) \<Longrightarrow> (\<And>j. j < i \<Longrightarrow> P (xs ! j)) \<Longrightarrow> dropWhile P xs = xs ! i # drop (Suc i) xs"
proof (induction xs arbitrary: i)
  case (Cons x xs)
  show ?case
  proof (cases i)
    case 0
    then show ?thesis using Cons.prems by simp
  next
    case (Suc k)
    then have "P x" "\<And>j. j < k \<Longrightarrow> P (xs ! j)" using Cons.prems(3) [of 0] Cons.prems(3) [of "Suc j" for j] by auto
    then show ?thesis using Suc Cons.prems Cons.IH [of k] by simp
  qed
qed simp

definition op_hash :: opcode_hash where
  "op_hash = table_hash riscv_opcodes"

lemma op_hash_loaded: "init_opcode_hash False riscv_opcodes Map.empty = Inr op_hash"
  unfolding op_hash_def by (rule insns.table_loads)

lemma op_hash_custom:
  assumes "i < 18"
  shows "op_hash (opc_name (custom_rows ! i)) = Some (custom_rows ! i # drop (5 + i) riscv_opcodes)"
proof -
  note first = custom_row_first [OF assms]
  have r: "riscv_opcodes ! (4 + i) = custom_rows ! i" "4 + i < length riscv_opcodes" using first(3,4) [of 0] by simp_all
  then have "custom_rows ! i \<in> set riscv_opcodes" by (metis nth_mem)
  moreover have "dropWhile (\<lambda>q. opc_name q \<noteq> opc_name (custom_rows ! i)) riscv_opcodes = custom_rows ! i # drop (Suc (4 + i)) riscv_opcodes"
    using first(2) r by (subst dropWhile_nth [OF r(2)]) simp_all
  ultimately show ?thesis by (simp add: op_hash_def table_hash_def)
qed

section \<open>Operands in and out\<close>

lemma insert_extract:
  "INSERT_OPERAND f (w AND m) (EXTRACT_OPERAND f w) = w AND (m AND NOT (MASK_FIELD f) OR MASK_FIELD f)"
  by (rule bit_word_eqI)
    (auto simp: INSERT_OPERAND_def INSERT_BITS_def EXTRACT_OPERAND_def EXTRACT_BITS_def MASK_FIELD_def bit_simps)

lemma register_fields:
  "MASK_FIELD F_RD = 0xf80" "MASK_FIELD F_RS1 = 0xf8000" "MASK_FIELD F_RS2 = 0x1f00000"
  by (simp_all add: MASK_FIELD_def)

lemma operand_less_32: "OP_MASK f = 0x1f \<Longrightarrow> unat (EXTRACT_OPERAND f w) < 32"
proof -
  assume "OP_MASK f = 0x1f"
  then have "EXTRACT_OPERAND f w \<le> 0x1f" by (simp add: EXTRACT_OPERAND_def EXTRACT_BITS_def word_and_le1)
  then show ?thesis by (simp add: word_le_nat_alt)
qed

lemma match_masked: "match_insn q w \<Longrightarrow> opc_match q AND opc_mask q = opc_match q \<Longrightarrow> opc_match q = w AND opc_mask q"
  using masked_equal [of w "opc_match q" "opc_mask q" "opc_mask q"] match_insn_opcode [of q w]
  by (simp add: match_opcode_def)

lemma low_word: "w < 2 ^ 32 \<Longrightarrow> w AND 0xffffffff = (w :: i64)"
  by (simp add: low_mask_eq [of _ 32] mask_numeral word_less_nat_alt)

lemma custom_word:
  assumes "custom_shape q" "match_insn q w" "w < 2 ^ 32"
  shows "opc_args q = ''d,s,t'' \<Longrightarrow> INSERT_OPERAND F_RS2 (INSERT_OPERAND F_RS1 (INSERT_OPERAND F_RD (opc_match q)
      (EXTRACT_OPERAND F_RD w)) (EXTRACT_OPERAND F_RS1 w)) (EXTRACT_OPERAND F_RS2 w) = w"
    "opc_args q = ''d,s'' \<Longrightarrow> INSERT_OPERAND F_RS1 (INSERT_OPERAND F_RD (opc_match q)
      (EXTRACT_OPERAND F_RD w)) (EXTRACT_OPERAND F_RS1 w) = w"
  using assms(1) low_word [OF assms(3)] match_masked [OF assms(2)]
  by (auto simp: custom_shape_def insert_extract register_fields)

lemma gpr_operand:
  assumes "N \<in> {riscv_gpr_names_abi, riscv_gpr_names_numeric}" "OP_MASK f = 0x1f" "reg_field c = Some f"
    "ends_name rest" "\<not> as_ext A ''e''"
  shows "ip_operands A (map_of all_entries) insn (c # oparg) (N ! unat (EXTRACT_OPERAND f w) @ rest) word =
    ip_operands A (map_of all_entries) insn oparg (skip_space rest) (INSERT_OPERAND f word (EXTRACT_OPERAND f w))"
proof -
  let ?n = "unat (EXTRACT_OPERAND f w)"
  have e: "(N ! ?n, ENCODE_REG_HASH RCLASS_GPR ?n) \<in> set all_entries"
    using assms(1) gpr_entries [OF operand_less_32 [OF assms(2)]] by auto
  then have "plain_name (N ! ?n)" using all_names_plain by (auto simp: list_all_iff)
  then obtain a name where name: "N ! ?n = a # name" "is_name_beginner a" by (cases "N ! ?n") (auto simp: plain_name_def)
  have "\<not> is_name_beginner CHR '' ''" "\<not> is_name_beginner CHR 0x09" by code_simp+
  with name have "skip_blanks (N ! ?n @ rest) = N ! ?n @ rest" by (auto simp: skip_blanks_def)
  moreover have "c \<noteq> CHR '',''" using assms(3) by (auto simp: reg_field_def)
  ultimately show ?thesis
    using assms(3) reg_lookup_entry [OF e assms(4), of "as_ext A ''e''"] assms(5) by simp
qed

lemma ends_name_comma: "ends_name (CHR '','' # s)" "ends_name []"
  by code_simp+

lemma skip_comma [simp]: "skip_blanks (CHR '','' # s) = CHR '','' # s" "skip_space (CHR '','' # s) = CHR '','' # s"
  "skip_blanks [] = []" "skip_space [] = []"
  by (simp_all add: skip_blanks_def skip_space_def)

text \<open>The text of a custom word, and what the assembler makes of it.\<close>

definition operand_text :: "string list \<Rightarrow> string \<Rightarrow> i64 \<Rightarrow> string" where
  "operand_text N args w = N ! unat (EXTRACT_OPERAND F_RD w) @ '','' @ N ! unat (EXTRACT_OPERAND F_RS1 w) @
     (if args = ''d,s,t'' then '','' @ N ! unat (EXTRACT_OPERAND F_RS2 w) else [])"

lemma custom_not_jalr:
  assumes "custom_shape q" "match_insn q w"
  shows "w AND MASK_JALR \<noteq> MATCH_JALR"
proof
  assume j: "w AND MASK_JALR = MATCH_JALR"
  have "(w AND MASK_JALR) AND 0x7f = w AND 0x7f" by (simp add: MASK_JALR_def and.assoc)
  then have "w AND 0x7f = 0x67" unfolding j by (simp add: MATCH_JALR_def)
  moreover have "opc_match q AND 0x7f = w AND 0x7f"
    using match_masked [OF assms(2)] assms(1) by (auto simp: custom_shape_def and.assoc)
  ultimately show False using assms(1) by (simp add: custom_shape_def)
qed

lemma print_custom:
  assumes "custom_shape q" "match_insn q w"
  shows "print_insn_args N (opc_args q) w = Some (CHR 0x09 # operand_text N (opc_args q) w)"
  using assms(1) custom_not_jalr [OF assms]
  by (auto simp: custom_shape_def print_insn_args_def print_operand_def operand_text_def)

lemma custom_length: "custom_shape q \<Longrightarrow> riscv_insn_length (opc_match q) \<noteq> 2"
proof (rule long_length)
  assume q: "custom_shape q"
  then show "opc_match q AND 0x7f \<noteq> 0x7f" by (simp add: custom_shape_def)
  have "opc_match q AND 3 = (opc_match q AND 0x7f) AND 3" by (simp add: and.assoc)
  with q show "opc_match q AND 3 = 3" by (simp add: custom_shape_def)
qed

lemma ip_end_custom:
  assumes "custom_shape q" "match_insn q w"
  shows "ip_end A q [] w = Accepted w"
  using assms custom_length [OF assms(1)] by (auto simp: ip_end_def custom_shape_def)

lemma ip_comma [simp]:
  "ip_operands A names insn (CHR '','' # oparg) (CHR '','' # asarg) word = ip_operands A names insn oparg asarg word"
  by simp

lemma ip_operands_custom:
  assumes "custom_shape q" "match_insn q w" "w < 2 ^ 32" "N \<in> {riscv_gpr_names_abi, riscv_gpr_names_numeric}" "\<not> as_ext A ''e''"
  shows "ip_operands A (map_of all_entries) q (opc_args q) (operand_text N (opc_args q) w) (opc_match q) = Accepted w"
proof -
  note step = gpr_operand [OF assms(4) _ _ _ assms(5)]
  have m: "OP_MASK F_RD = 0x1f" "OP_MASK F_RS1 = 0x1f" "OP_MASK F_RS2 = 0x1f" by simp_all
  have f: "reg_field CHR ''d'' = Some F_RD" "reg_field CHR ''s'' = Some F_RS1" "reg_field CHR ''t'' = Some F_RS2"
    by (simp_all add: reg_field_def)
  note d = step [OF m(1) f(1)] and rs1 = step [OF m(2) f(2)] and rs2 = step [OF m(3) f(3)]
  from assms(1) consider "opc_args q = ''d,s,t''" | "opc_args q = ''d,s''" by (auto simp: custom_shape_def)
  then show ?thesis
  proof cases
    case 1
    then show ?thesis
      using rs2 [where rest = "[]", unfolded append_Nil2] custom_word(1) [OF assms(1-3) 1]
      by (simp add: operand_text_def d rs1 ends_name_comma ip_end_custom assms(1,2) del: ip_operands.simps(2))
  next
    case 2
    then show ?thesis
      using rs1 [where rest = "[]", unfolded append_Nil2] custom_word(2) [OF assms(1-3) 2]
      by (simp add: operand_text_def d ends_name_comma ip_end_custom assms(1,2) del: ip_operands.simps(2))
  qed
qed

lemma riscv_ip_custom:
  assumes "i < 18" "match_insn (custom_rows ! i) w" "w < 2 ^ 32" "as_class A INSN_CLASS_I" "\<not> as_ext A ''e''"
    "N \<in> {riscv_gpr_names_abi, riscv_gpr_names_numeric}"
  shows "riscv_ip A (map_of all_entries) op_hash
    (opc_name (custom_rows ! i) @ CHR 0x09 # operand_text N (opc_args (custom_rows ! i)) w) = Inr (custom_rows ! i, w)"
proof -
  let ?q = "custom_rows ! i" and ?t = "operand_text N (opc_args (custom_rows ! i)) w"
  note shape = custom_row_shape [OF assms(1)]
  have "list_all (\<lambda>c. \<not> ISSPACE c) (opc_name ?q)" "ISSPACE CHR 0x09"
    using shape by (simp_all add: custom_shape_def ISSPACE_def)
  then have split: "takeWhile (\<lambda>c. \<not> ISSPACE c) (opc_name ?q @ CHR 0x09 # ?t) = opc_name ?q"
    "dropWhile (\<lambda>c. \<not> ISSPACE c) (opc_name ?q @ CHR 0x09 # ?t) = CHR 0x09 # ?t"
    using takeWhile_stop [of "\<lambda>c. \<not> ISSPACE c" "opc_name ?q" "CHR 0x09 # ?t"] by simp_all
  have ops: "ip_operands A (map_of all_entries) ?q (opc_args ?q) ?t (opc_match ?q) = Accepted w"
    by (rule ip_operands_custom [OF shape assms(2,3,6,5)])
  have row: "opc_xlen_requirement ?q = 0" "opc_insn_class ?q = INSN_CLASS_I" using shape by (simp_all add: custom_shape_def)
  show ?thesis
    unfolding riscv_ip_def Let_def split list.sel op_hash_custom [OF assms(1)] option.case ip_rows.simps
    by (simp add: row assms(4) ops)
qed

text \<open>
  C3.  Printing and assembling the custom instructions are inverse: every 32-bit word that matches
  one of the eighteen custom rows is printed as that row, with either register naming, and the
  assembler, with the tables its start-up built, assembles the printed line back to the same row
  and word.
\<close>

theorem custom_text_roundtrip:
  assumes "i < 18" "match_insn (custom_rows ! i) w" "w < 2 ^ 32" "supports D INSN_CLASS_I"
    "as_class A INSN_CLASS_I" "\<not> as_ext A ''e''" "N \<in> {riscv_gpr_names_abi, riscv_gpr_names_numeric}"
  shows "\<exists>names hash text. init_reg_names = Inr names \<and> init_opcode_hash False riscv_opcodes Map.empty = Inr hash \<and>
    riscv_disassemble_insn N D packet w = Some text \<and> riscv_ip A names hash text = Inr (custom_rows ! i, w)"
proof (intro exI conjI)
  show "init_reg_names = Inr (map_of all_entries)" by (rule init_reg_names_entries)
  show "init_opcode_hash False riscv_opcodes Map.empty = Inr op_hash" by (rule op_hash_loaded)
  show "riscv_disassemble_insn N D packet w =
      Some (opc_name (custom_rows ! i) @ CHR 0x09 # operand_text N (opc_args (custom_rows ! i)) w)"
    by (simp add: riscv_disassemble_insn_def custom_row_found [OF assms(1,2,4)]
      print_custom [OF custom_row_shape [OF assms(1)] assms(2)])
  show "riscv_ip A (map_of all_entries) op_hash
      (opc_name (custom_rows ! i) @ CHR 0x09 # operand_text N (opc_args (custom_rows ! i)) w) = Inr (custom_rows ! i, w)"
    by (rule riscv_ip_custom [OF assms(1,2,3,5,6,7)])
qed

lemma pvmac_word: "match_insn (custom_rows ! 2) 0x04B5155B"
  by code_simp

theorem custom_text_roundtrip_witness:
  "\<exists>names hash text. init_reg_names = Inr names \<and> init_opcode_hash False riscv_opcodes Map.empty = Inr hash \<and>
    riscv_disassemble_insn riscv_gpr_names_abi \<lparr>no_aliases = False, dis_xlen = 32, supports = \<lambda>c. c = INSN_CLASS_I\<rparr> [] 0x04B5155B = Some text \<and>
    riscv_ip \<lparr>as_xlen = 32, as_class = \<lambda>c. c = INSN_CLASS_I, as_ext = \<lambda>x. x = ''i'', as_rvc = False\<rparr> names hash text = Inr (custom_rows ! 2, 0x04B5155B)"
  by (rule custom_text_roundtrip [OF _ pvmac_word]) simp_all

section \<open>The custom rows in the decoder of the core\<close>

text \<open>The operation the control signals of the core select, under the name the toolchain gives it.\<close>

definition sew_suffix :: "2 word \<Rightarrow> string" where
  "sew_suffix sew = (if sew = 0 then ''.b'' else if sew = 1 then ''.h'' else if sew = 2 then ''.w'' else ''.?'')"

definition hw_mnemonic :: "i32 \<Rightarrow> string option" where
  "hw_mnemonic insn =
    (let d = decoder_control insn in
     if d_is_vmac d then
       (if d_vmac_ctrl d = Some 0 then Some ''pvadd'' else if d_vmac_ctrl d = Some 1 then Some ''pvmul''
        else if d_vmac_ctrl d = Some 2 then Some ''pvmac'' else if d_vmac_ctrl d = Some 3 then Some ''pvmul_upper'' else None)
     else if d_is_vec_vmac d then Some (''vmac'' @ sew_suffix (d_vec_sew d))
     else if d_is_vec_load d then Some ''vld''
     else if d_is_vec_store d then Some ''vst''
     else if d_vec_reg_write d \<and> d_vec_op d = 0 then Some (''vadd'' @ sew_suffix (d_vec_sew d))
     else if d_vec_reg_write d \<and> d_vec_op d = 1 then Some (''vsub'' @ sew_suffix (d_vec_sew d))
     else if d_vec_reg_write d \<and> d_vec_op d = 2 then Some (''vmul'' @ sew_suffix (d_vec_sew d))
     else None)"

definition toolchain_mnemonic :: "riscv_opcode \<Rightarrow> string option" where
  "toolchain_mnemonic q =
    (if opc_name q = ''vmac.h'' then None else if opc_name q = ''vmac.w'' then Some ''vmac.h'' else Some (opc_name q))"

lemma hw_mnemonic_code [code]:
  "hw_mnemonic insn =
    (let ctrl = dec_vmac_ctrl insn; vop = vop_of insn; suffix = sew_suffix (dec_vec_sew insn) in
     if is_vmac_type insn then
       (if ctrl = Some 0 then Some ''pvadd'' else if ctrl = Some 1 then Some ''pvmul''
        else if ctrl = Some 2 then Some ''pvmac'' else if ctrl = Some 3 then Some ''pvmul_upper'' else None)
     else if \<not> is_vec_type insn then None
     else if vop = VOP_VMAC then Some (''vmac'' @ suffix)
     else if vop = VOP_VLD then Some ''vld''
     else if vop = VOP_VST then Some ''vst''
     else if vop = VOP_VADD then Some (''vadd'' @ suffix)
     else if vop = VOP_VSUB then Some (''vsub'' @ suffix)
     else if vop = VOP_VMUL then Some (''vmul'' @ suffix)
     else None)"
proof -
  have d: "d_is_vmac (decoder_control insn) = is_vmac_type insn" "d_vmac_ctrl (decoder_control insn) = dec_vmac_ctrl insn"
    "d_is_vec_vmac (decoder_control insn) = (is_vec_type insn \<and> vop_of insn = VOP_VMAC)"
    "d_is_vec_load (decoder_control insn) = (is_vec_type insn \<and> vop_of insn = VOP_VLD)"
    "d_is_vec_store (decoder_control insn) = (is_vec_type insn \<and> vop_of insn = VOP_VST)"
    "d_vec_sew (decoder_control insn) = dec_vec_sew insn" "d_vec_op (decoder_control insn) = dec_vec_op insn"
    "d_vec_reg_write (decoder_control insn) = (is_vec_type insn \<and>
       (vop_of insn = VOP_VADD \<or> vop_of insn = VOP_VSUB \<or> vop_of insn = VOP_VMUL \<or> vop_of insn = VOP_VLD \<or> vop_of insn = VOP_VMOV_S2V))"
    by (simp_all add: decoder_control_def Let_def)
  have o: "VOP_VADD \<noteq> VOP_VSUB" "VOP_VADD \<noteq> VOP_VMUL" "VOP_VSUB \<noteq> VOP_VMUL" "VOP_VMOV_S2V \<notin> {VOP_VADD, VOP_VSUB, VOP_VMUL, VOP_VMAC, VOP_VLD, VOP_VST}"
    by (simp_all add: vop_defs)
  show ?thesis unfolding hw_mnemonic_def Let_def d using o by (auto simp: dec_vec_op_def)
qed

lemma hw_mnemonic_cong:
  assumes "opcode_of a = opcode_of b" "funct3_of a = funct3_of b" "funct7_of a = funct7_of b"
  shows "hw_mnemonic a = hw_mnemonic b"
  unfolding hw_mnemonic_code dec_vmac_ctrl_def dec_vec_sew_def is_vmac_type_def is_vec_type_def vop_sew_funct7 assms by (rule refl)

lemma field_masked:
  fixes w v :: i64
  assumes "w AND m = v AND m" "\<And>n. n < LENGTH('a) \<Longrightarrow> bit m (lo + n)"
  shows "(field lo (ucast w :: i32) :: 'a::len word) = field lo (ucast v)"
proof (rule bit_word_eqI)
  fix n assume n: "n < LENGTH('a)"
  have "bit (w AND m) (lo + n) \<longleftrightarrow> bit (v AND m) (lo + n)" using assms(1) by simp
  with assms(2) [OF n] show "bit (field lo (ucast w :: i32) :: 'a word) n \<longleftrightarrow> bit (field lo (ucast v :: i32) :: 'a word) n"
    by (auto simp: bit_field bit_simps)
qed

lemma custom_rows_decode:
  "list_all (\<lambda>q. hw_mnemonic (ucast (opc_match q)) = toolchain_mnemonic q) custom_rows"
  "list_all (\<lambda>q. opcode_of (ucast (opc_match q)) = 0x5b) custom_rows"
  by code_simp+

lemma field_fixed:
  fixes w v :: i64
  assumes "w AND m = v AND m" "push_bit lo (mask LENGTH('a)) AND m = push_bit lo (mask LENGTH('a))" "lo + LENGTH('a) \<le> 32"
  shows "(field lo (ucast w :: i32) :: 'a::len word) = field lo (ucast v)"
proof (rule field_masked)
  have "w AND (m AND push_bit lo (mask LENGTH('a))) = v AND (m AND push_bit lo (mask LENGTH('a)))"
    using assms(1) by (simp flip: and.assoc)
  then show "w AND (push_bit lo (mask LENGTH('a)) AND m) = v AND (push_bit lo (mask LENGTH('a)) AND m)"
    by (simp only: and.commute)
  show "bit (push_bit lo (mask LENGTH('a)) AND m) (lo + n)" if "n < LENGTH('a)" for n
    unfolding assms(2) using that assms(3) by (simp add: bit_simps)
qed

lemma custom_fields:
  assumes "custom_shape q" "match_insn q w"
  shows "opcode_of (ucast w) = opcode_of (ucast (opc_match q))" "funct3_of (ucast w) = funct3_of (ucast (opc_match q))"
    "funct7_of (ucast w) = funct7_of (ucast (opc_match q))"
proof -
  have eq: "w AND opc_mask q = opc_match q AND opc_mask q"
    using match_masked [OF assms(2)] assms(1) by (simp add: custom_shape_def)
  have m: "opc_mask q = 0xfe00707f \<or> opc_mask q = 0xfff0707f" using assms(1) by (auto simp: custom_shape_def)
  show "opcode_of (ucast w) = opcode_of (ucast (opc_match q))" "funct3_of (ucast w) = funct3_of (ucast (opc_match q))"
    "funct7_of (ucast w) = funct7_of (ucast (opc_match q))"
    unfolding opcode_of_def funct3_of_def funct7_of_def
    by (rule field_fixed [OF eq]; use m in \<open>auto simp: mask_numeral\<close>)+
qed

lemma operand_field:
  "OP_MASK f = 0x1f \<Longrightarrow> OP_SH f \<le> 27 \<Longrightarrow> (field (OP_SH f) (ucast w :: i32) :: 5 word) = ucast (EXTRACT_OPERAND f w)"
proof (rule bit_word_eqI)
  fix n assume f: "OP_MASK f = 0x1f" "OP_SH f \<le> 27" and n: "n < LENGTH(5)"
  have m: "OP_MASK f = mask 5" using f(1) by (simp add: mask_numeral)
  show "bit (field (OP_SH f) (ucast w :: i32) :: 5 word) n \<longleftrightarrow> bit (ucast (EXTRACT_OPERAND f w) :: 5 word) n"
    unfolding EXTRACT_OPERAND_def m using f(2) n by (auto simp: bit_field EXTRACT_BITS_def bit_simps)
qed

lemma custom_row_decoded:
  assumes "i < 18" "match_insn (custom_rows ! i) w"
  shows "hw_mnemonic (ucast w) = (if opc_name (custom_rows ! i) = ''vmac.h'' then None
      else if opc_name (custom_rows ! i) = ''vmac.w'' then Some ''vmac.h'' else Some (opc_name (custom_rows ! i)))"
    "d_rd (decoder_control (ucast w)) = ucast (EXTRACT_OPERAND F_RD w)"
    "d_rs1 (decoder_control (ucast w)) = ucast (EXTRACT_OPERAND F_RS1 w)"
    "d_rs2 (decoder_control (ucast w)) = ucast (EXTRACT_OPERAND F_RS2 w)"
proof -
  note shape = custom_row_shape [OF assms(1)]
  have len: "length custom_rows = 18" by code_simp
  have op: "opcode_of (ucast (opc_match (custom_rows ! i))) = 0x5b"
    using custom_rows_decode(2) assms(1) len by (simp add: list_all_length)
  have "hw_mnemonic (ucast w) = hw_mnemonic (ucast (opc_match (custom_rows ! i)))"
    by (intro hw_mnemonic_cong custom_fields [OF shape assms(2)])
  also have "\<dots> = toolchain_mnemonic (custom_rows ! i)"
    using custom_rows_decode(1) assms(1) len by (simp add: list_all_length)
  finally show "hw_mnemonic (ucast w) = (if opc_name (custom_rows ! i) = ''vmac.h'' then None
      else if opc_name (custom_rows ! i) = ''vmac.w'' then Some ''vmac.h'' else Some (opc_name (custom_rows ! i)))"
    by (simp only: toolchain_mnemonic_def)
  have "\<not> is_u_type (ucast w)"
    using custom_fields(1) [OF shape assms(2)] op by (simp add: is_u_type_def)
  then show "d_rd (decoder_control (ucast w)) = ucast (EXTRACT_OPERAND F_RD w)"
    "d_rs1 (decoder_control (ucast w)) = ucast (EXTRACT_OPERAND F_RS1 w)"
    "d_rs2 (decoder_control (ucast w)) = ucast (EXTRACT_OPERAND F_RS2 w)"
    using operand_field [of F_RD w] operand_field [of F_RS1 w] operand_field [of F_RS2 w]
    by (simp_all add: decoder_control_def Let_def)
qed

text \<open>
  C13.  The core agrees with the toolchain on the custom instructions, two excepted: for every word
  of a custom row the decoder reads the registers the assembler wrote and selects the operation of
  the mnemonic, but the match bits of \<open>vmac.h\<close> select no operation at all and those of \<open>vmac.w\<close>
  select the half-word multiply-accumulate.
\<close>

theorem custom_rows_in_hardware:
  assumes "i < 18" "match_insn (custom_rows ! i) w"
  shows "hw_mnemonic (ucast w) = (if opc_name (custom_rows ! i) = ''vmac.h'' then None
      else if opc_name (custom_rows ! i) = ''vmac.w'' then Some ''vmac.h'' else Some (opc_name (custom_rows ! i))) \<and>
    d_rd (decoder_control (ucast w)) = ucast (EXTRACT_OPERAND F_RD w) \<and>
    d_rs1 (decoder_control (ucast w)) = ucast (EXTRACT_OPERAND F_RS1 w) \<and>
    d_rs2 (decoder_control (ucast w)) = ucast (EXTRACT_OPERAND F_RS2 w)"
  by (intro conjI custom_row_decoded [OF assms])

lemma vmac_w_word: "match_insn (custom_rows ! 15) 0x4620A55B"
  by code_simp

theorem custom_rows_in_hardware_witness:
  "opc_name (custom_rows ! 15) = ''vmac.w'' \<and> hw_mnemonic (ucast (0x4620A55B :: i64)) = Some ''vmac.h''"
proof -
  have "opc_name (custom_rows ! 15) = ''vmac.w''" by code_simp
  then show ?thesis using custom_rows_in_hardware [OF _ vmac_w_word, THEN conjunct1] by simp
qed

section \<open>Every assembled word has a row\<close>

lemma ip_operands_match:
  "ip_operands A names insn oparg asarg v = Accepted w \<Longrightarrow> opc_pinfo insn \<noteq> INSN_MACRO \<Longrightarrow> match_insn insn w"
  by (induction A names insn oparg asarg v rule: ip_operands.induct)
    (auto simp: ip_end_def split: if_splits list.splits option.splits)

lemma ip_rows_sound:
  assumes "ip_rows A names str asarg rows e = Inr (q, w)"
  shows "q \<in> set rows \<and> opc_name q = str \<and> (opc_xlen_requirement q = 0 \<or> opc_xlen_requirement q = as_xlen A) \<and>
    as_class A (opc_insn_class q) \<and> (opc_pinfo q \<noteq> INSN_MACRO \<longrightarrow> match_insn q w)"
  using assms
  by (induction A names str asarg rows e rule: ip_rows.induct)
    (auto simp: ip_operands_match split: if_splits operand_result.splits)

text \<open>
  C17.  What the assembler accepts the disassembler can print: when \<open>riscv_ip\<close>, with the hash its
  start-up built, assembles a line to an instruction that is not a macro, the row carries the
  mnemonic of the line, the word satisfies the row's match function, and the disassembler with the
  same XLEN and instruction classes finds a row for it.
\<close>

theorem assembled_words_have_rows:
  assumes "init_opcode_hash False riscv_opcodes Map.empty = Inr hash"
    "riscv_ip A names hash str = Inr (q, w)" "opc_pinfo q \<noteq> INSN_MACRO"
    "\<not> no_aliases D" "dis_xlen D = as_xlen A" "supports D = as_class A"
  shows "q \<in> set riscv_opcodes \<and> opc_name q = takeWhile (\<lambda>c. \<not> ISSPACE c) str \<and> match_insn q w \<and>
    disassemble_row D w \<noteq> None"
proof -
  let ?name = "takeWhile (\<lambda>c. \<not> ISSPACE c) str"
  have hash: "hash = op_hash" using assms(1) unfolding op_hash_loaded sum.inject by (rule sym)
  obtain rows asarg e where rows: "hash ?name = Some rows" "ip_rows A names ?name asarg rows e = Inr (q, w)"
    using assms(2) unfolding riscv_ip_def Let_def by (cases "hash ?name") auto
  have "rows = dropWhile (\<lambda>p. opc_name p \<noteq> ?name) riscv_opcodes"
    using rows(1) unfolding hash op_hash_def table_hash_def by (simp split: if_splits)
  then have "q \<in> set riscv_opcodes" using ip_rows_sound [OF rows(2)] set_dropWhileD by fast
  moreover have sound: "opc_name q = ?name" "match_insn q w" "opc_xlen_requirement q = 0 \<or> opc_xlen_requirement q = as_xlen A"
    "as_class A (opc_insn_class q)"
    using ip_rows_sound [OF rows(2)] assms(3) by simp_all
  moreover have "row_accepts D w q" using sound(2-4) assms(4-6) by (simp add: row_accepts_def)
  ultimately show ?thesis unfolding disassemble_row_find find_None_iff by fast
qed

theorem assembled_words_have_rows_witness:
  "opc_name (custom_rows ! 2) = ''pvmac'' \<and>
    disassemble_row \<lparr>no_aliases = False, dis_xlen = 32, supports = \<lambda>c. c = INSN_CLASS_I\<rparr> 0x04B5155B \<noteq> None"
proof -
  let ?A = "\<lparr>as_xlen = 32, as_class = \<lambda>c. c = INSN_CLASS_I, as_ext = \<lambda>x. x = ''i'', as_rvc = False\<rparr>"
  have ip: "riscv_ip ?A (map_of all_entries) op_hash
    (opc_name (custom_rows ! 2) @ CHR 0x09 # operand_text riscv_gpr_names_abi (opc_args (custom_rows ! 2)) 0x04B5155B)
      = Inr (custom_rows ! 2, 0x04B5155B)"
    by (rule riscv_ip_custom [OF _ pvmac_word]) simp_all
  have "opc_name (custom_rows ! 2) = ''pvmac''" "opc_pinfo (custom_rows ! 2) \<noteq> INSN_MACRO" by code_simp+
  then show ?thesis using assembled_words_have_rows [OF op_hash_loaded ip] by simp
qed

end
