(* ===== verification/Asm_Code.thy ===== *)
theory Asm_Code
  imports Riscv_Encoding Isa_Decode
begin

text \<open>
  Assembly code as it runs on the core: the encoding macros of include/opcode/riscv.h build the word
  of an instruction, and every such word is proved to execute as its name says.  The routines of the
  assembly files of the repository are lists of these instructions.
\<close>

section \<open>Words of instructions\<close>

definition RISCV_RTYPE :: "i64 \<Rightarrow> i64 \<Rightarrow> i64 \<Rightarrow> i64 \<Rightarrow> i64" where
  "RISCV_RTYPE m rd rs1 rs2 = m OR push_bit 7 rd OR push_bit 15 rs1 OR push_bit 20 rs2"
definition RISCV_ITYPE :: "i64 \<Rightarrow> i64 \<Rightarrow> i64 \<Rightarrow> i64 \<Rightarrow> i64" where
  "RISCV_ITYPE m rd rs1 imm = m OR push_bit 7 rd OR push_bit 15 rs1 OR ENCODE_ITYPE_IMM imm"
definition RISCV_STYPE :: "i64 \<Rightarrow> i64 \<Rightarrow> i64 \<Rightarrow> i64 \<Rightarrow> i64" where
  "RISCV_STYPE m rs1 rs2 imm = m OR push_bit 15 rs1 OR push_bit 20 rs2 OR ENCODE_STYPE_IMM imm"
definition RISCV_BTYPE :: "i64 \<Rightarrow> i64 \<Rightarrow> i64 \<Rightarrow> i64 \<Rightarrow> i64" where
  "RISCV_BTYPE m rs1 rs2 target = m OR push_bit 15 rs1 OR push_bit 20 rs2 OR ENCODE_BTYPE_IMM target"
definition RISCV_UTYPE :: "i64 \<Rightarrow> i64 \<Rightarrow> i64 \<Rightarrow> i64" where
  "RISCV_UTYPE m rd bigimm = m OR push_bit 7 rd OR ENCODE_UTYPE_IMM bigimm"
definition RISCV_JTYPE :: "i64 \<Rightarrow> i64 \<Rightarrow> i64 \<Rightarrow> i64" where
  "RISCV_JTYPE m rd target = m OR push_bit 7 rd OR ENCODE_JTYPE_IMM target"

text \<open>The two parts of a constant, for \<open>%hi\<close> and \<open>%lo\<close>.\<close>

definition RISCV_CONST_HIGH_PART :: "i64 \<Rightarrow> i64" where
  "RISCV_CONST_HIGH_PART v = (v + 0x800) AND NOT 0xfff"
definition RISCV_CONST_LOW_PART :: "i64 \<Rightarrow> i64" where
  "RISCV_CONST_LOW_PART v = v - RISCV_CONST_HIGH_PART v"

lemma const_parts: "RISCV_CONST_HIGH_PART v + RISCV_CONST_LOW_PART v = v"
  by (simp add: RISCV_CONST_LOW_PART_def)

text \<open>
  The instructions of RV32I: registers are numbers, immediates and jump offsets are in bytes, the
  immediates of \<open>LUI\<close> and \<open>AUIPC\<close> are the values they add.  \<open>OP\<close> stands for the ten operations on two
  registers, \<open>FENCE\<close> orders everything, and \<open>DATA\<close> is a \<open>.word\<close>.
\<close>

type_synonym reg = "5 word"

datatype rop = R_ADD | R_SUB | R_SLL | R_SLT | R_SLTU | R_XOR | R_SRL | R_SRA | R_OR | R_AND

datatype asm = LUI reg i64 | AUIPC reg i64 | ADDI reg reg i64 | SLTI reg reg i64 | SLTIU reg reg i64 | XORI reg reg i64
  | ORI reg reg i64 | ANDI reg reg i64 | SLLI reg reg i64 | SRLI reg reg i64 | SRAI reg reg i64 | OP rop reg reg reg
  | LB reg i64 reg | LH reg i64 reg | LW reg i64 reg | LBU reg i64 reg | LHU reg i64 reg
  | SB reg i64 reg | SH reg i64 reg | SW reg i64 reg
  | BEQ reg reg i64 | BNE reg reg i64 | BLT reg reg i64 | BGE reg reg i64 | BLTU reg reg i64 | BGEU reg reg i64
  | JAL reg i64 | JALR reg reg i64 | FENCE | ECALL | EBREAK | DATA i32

text \<open>\<open>ret\<close> is \<open>jalr x0,0(x1)\<close>, \<open>j\<close> is \<open>jal x0\<close>.\<close>

abbreviation "RET \<equiv> JALR 0 1 0"
abbreviation "J target \<equiv> JAL 0 target"

text \<open>The \<open>MATCH_\<close> constants of include/opcode/riscv-opc.h.\<close>

definition rop_match :: "rop \<Rightarrow> i64" where
  "rop_match op = (case op of R_ADD \<Rightarrow> 0x33 | R_SUB \<Rightarrow> 0x40000033 | R_SLL \<Rightarrow> 0x1033 | R_SLT \<Rightarrow> 0x2033 | R_SLTU \<Rightarrow> 0x3033
     | R_XOR \<Rightarrow> 0x4033 | R_SRL \<Rightarrow> 0x5033 | R_SRA \<Rightarrow> 0x40005033 | R_OR \<Rightarrow> 0x6033 | R_AND \<Rightarrow> 0x7033)"

definition asm_word :: "asm \<Rightarrow> i32" where
  "asm_word i = (case i of
     LUI rd imm \<Rightarrow> ucast (RISCV_UTYPE 0x37 (ucast rd) imm)
   | AUIPC rd imm \<Rightarrow> ucast (RISCV_UTYPE 0x17 (ucast rd) imm)
   | SLTI rd rs1 imm \<Rightarrow> ucast (RISCV_ITYPE 0x2013 (ucast rd) (ucast rs1) imm)
   | SLTIU rd rs1 imm \<Rightarrow> ucast (RISCV_ITYPE 0x3013 (ucast rd) (ucast rs1) imm)
   | XORI rd rs1 imm \<Rightarrow> ucast (RISCV_ITYPE 0x4013 (ucast rd) (ucast rs1) imm)
   | ORI rd rs1 imm \<Rightarrow> ucast (RISCV_ITYPE 0x6013 (ucast rd) (ucast rs1) imm)
   | SLLI rd rs1 sh \<Rightarrow> ucast (RISCV_ITYPE 0x1013 (ucast rd) (ucast rs1) (sh AND 0x1f))
   | SRLI rd rs1 sh \<Rightarrow> ucast (RISCV_ITYPE 0x5013 (ucast rd) (ucast rs1) (sh AND 0x1f))
   | OP op rd rs1 rs2 \<Rightarrow> ucast (RISCV_RTYPE (rop_match op) (ucast rd) (ucast rs1) (ucast rs2))
   | LBU rd off rs1 \<Rightarrow> ucast (RISCV_ITYPE 0x4003 (ucast rd) (ucast rs1) off)
   | LHU rd off rs1 \<Rightarrow> ucast (RISCV_ITYPE 0x5003 (ucast rd) (ucast rs1) off)
   | SH rs2 off rs1 \<Rightarrow> ucast (RISCV_STYPE 0x1023 (ucast rs1) (ucast rs2) off)
   | BLT rs1 rs2 target \<Rightarrow> ucast (RISCV_BTYPE 0x4063 (ucast rs1) (ucast rs2) target)
   | BGE rs1 rs2 target \<Rightarrow> ucast (RISCV_BTYPE 0x5063 (ucast rs1) (ucast rs2) target)
   | BLTU rs1 rs2 target \<Rightarrow> ucast (RISCV_BTYPE 0x6063 (ucast rs1) (ucast rs2) target)
   | BGEU rs1 rs2 target \<Rightarrow> ucast (RISCV_BTYPE 0x7063 (ucast rs1) (ucast rs2) target)
   | FENCE \<Rightarrow> 0x0ff0000f
   | ECALL \<Rightarrow> 0x73
   | ADDI rd rs1 imm \<Rightarrow> ucast (RISCV_ITYPE 0x13 (ucast rd) (ucast rs1) imm)
   | ANDI rd rs1 imm \<Rightarrow> ucast (RISCV_ITYPE 0x7013 (ucast rd) (ucast rs1) imm)
   | SRAI rd rs1 sh \<Rightarrow> ucast (RISCV_ITYPE 0x40005013 (ucast rd) (ucast rs1) (sh AND 0x1f))
   | LB rd off rs1 \<Rightarrow> ucast (RISCV_ITYPE 0x3 (ucast rd) (ucast rs1) off)
   | LH rd off rs1 \<Rightarrow> ucast (RISCV_ITYPE 0x1003 (ucast rd) (ucast rs1) off)
   | LW rd off rs1 \<Rightarrow> ucast (RISCV_ITYPE 0x2003 (ucast rd) (ucast rs1) off)
   | SB rs2 off rs1 \<Rightarrow> ucast (RISCV_STYPE 0x23 (ucast rs1) (ucast rs2) off)
   | SW rs2 off rs1 \<Rightarrow> ucast (RISCV_STYPE 0x2023 (ucast rs1) (ucast rs2) off)
   | BEQ rs1 rs2 target \<Rightarrow> ucast (RISCV_BTYPE 0x63 (ucast rs1) (ucast rs2) target)
   | BNE rs1 rs2 target \<Rightarrow> ucast (RISCV_BTYPE 0x1063 (ucast rs1) (ucast rs2) target)
   | JAL rd target \<Rightarrow> ucast (RISCV_JTYPE 0x6f (ucast rd) target)
   | JALR rd rs1 imm \<Rightarrow> ucast (RISCV_ITYPE 0x67 (ucast rd) (ucast rs1) imm)
   | EBREAK \<Rightarrow> 0x100073
   | DATA w \<Rightarrow> w)"

section \<open>Execution by name\<close>

text \<open>The immediate an instruction really has: what is left of its operand in the bits of its format.\<close>

definition asm_imm :: "asm \<Rightarrow> i32" where
  "asm_imm i = (case i of
     LUI rd imm \<Rightarrow> ucast imm AND 0xfffff000
   | AUIPC rd imm \<Rightarrow> ucast imm AND 0xfffff000
   | SLTI rd rs1 imm \<Rightarrow> ucast (signed_take_bit 11 imm)
   | SLTIU rd rs1 imm \<Rightarrow> ucast (signed_take_bit 11 imm)
   | XORI rd rs1 imm \<Rightarrow> ucast (signed_take_bit 11 imm)
   | ORI rd rs1 imm \<Rightarrow> ucast (signed_take_bit 11 imm)
   | SLLI rd rs1 sh \<Rightarrow> ucast (sh AND 0x1f)
   | SRLI rd rs1 sh \<Rightarrow> ucast (sh AND 0x1f)
   | OP op rd rs1 rs2 \<Rightarrow> 0
   | LBU rd off rs1 \<Rightarrow> ucast (signed_take_bit 11 off)
   | LHU rd off rs1 \<Rightarrow> ucast (signed_take_bit 11 off)
   | SH rs2 off rs1 \<Rightarrow> ucast (signed_take_bit 11 off)
   | BLT rs1 rs2 target \<Rightarrow> ucast (signed_take_bit 12 target AND NOT 1)
   | BGE rs1 rs2 target \<Rightarrow> ucast (signed_take_bit 12 target AND NOT 1)
   | BLTU rs1 rs2 target \<Rightarrow> ucast (signed_take_bit 12 target AND NOT 1)
   | BGEU rs1 rs2 target \<Rightarrow> ucast (signed_take_bit 12 target AND NOT 1)
   | FENCE \<Rightarrow> 0
   | ECALL \<Rightarrow> 0
   | ADDI rd rs1 imm \<Rightarrow> ucast (signed_take_bit 11 imm)
   | ANDI rd rs1 imm \<Rightarrow> ucast (signed_take_bit 11 imm)
   | SRAI rd rs1 sh \<Rightarrow> ucast (sh AND 0x1f) OR 0x400
   | LB rd off rs1 \<Rightarrow> ucast (signed_take_bit 11 off)
   | LH rd off rs1 \<Rightarrow> ucast (signed_take_bit 11 off)
   | LW rd off rs1 \<Rightarrow> ucast (signed_take_bit 11 off)
   | SB rs2 off rs1 \<Rightarrow> ucast (signed_take_bit 11 off)
   | SW rs2 off rs1 \<Rightarrow> ucast (signed_take_bit 11 off)
   | BEQ rs1 rs2 target \<Rightarrow> ucast (signed_take_bit 12 target AND NOT 1)
   | BNE rs1 rs2 target \<Rightarrow> ucast (signed_take_bit 12 target AND NOT 1)
   | JAL rd target \<Rightarrow> ucast (signed_take_bit 20 target AND NOT 1)
   | JALR rd rs1 imm \<Rightarrow> ucast (signed_take_bit 11 imm)
   | EBREAK \<Rightarrow> 1
   | DATA w \<Rightarrow> isa_imm w)"

definition rop_result :: "rop \<Rightarrow> i32 \<Rightarrow> i32 \<Rightarrow> i32" where
  "rop_result op x y = (case op of R_ADD \<Rightarrow> x + y | R_SUB \<Rightarrow> x - y | R_SLL \<Rightarrow> push_bit (unat y mod 32) x
     | R_SLT \<Rightarrow> of_bool (x <s y) | R_SLTU \<Rightarrow> of_bool (x < y) | R_XOR \<Rightarrow> x XOR y | R_SRL \<Rightarrow> drop_bit (unat y mod 32) x
     | R_SRA \<Rightarrow> signed_drop_bit (unat y mod 32) x | R_OR \<Rightarrow> x OR y | R_AND \<Rightarrow> x AND y)"

text \<open>Both environment calls set the stop flag of the core and go on behind themselves.\<close>

definition asm_exec :: "asm \<Rightarrow> arch \<Rightarrow> arch" where
  "asm_exec i a =
    (let pc = a_pc a; next = a\<lparr>a_pc := pc + 4\<rparr>; x = xreg a; imm = asm_imm i; mem = a_mem a in case i of
     LUI rd _ \<Rightarrow> set_xreg rd imm next
   | AUIPC rd _ \<Rightarrow> set_xreg rd (pc + imm) next
   | SLTI rd rs1 _ \<Rightarrow> set_xreg rd (of_bool (x rs1 <s imm)) next
   | SLTIU rd rs1 _ \<Rightarrow> set_xreg rd (of_bool (x rs1 < imm)) next
   | XORI rd rs1 _ \<Rightarrow> set_xreg rd (x rs1 XOR imm) next
   | ORI rd rs1 _ \<Rightarrow> set_xreg rd (x rs1 OR imm) next
   | SLLI rd rs1 sh \<Rightarrow> set_xreg rd (push_bit (unat (sh AND 0x1f)) (x rs1)) next
   | SRLI rd rs1 sh \<Rightarrow> set_xreg rd (drop_bit (unat (sh AND 0x1f)) (x rs1)) next
   | OP op rd rs1 rs2 \<Rightarrow> set_xreg rd (rop_result op (x rs1) (x rs2)) next
   | LBU rd _ rs1 \<Rightarrow> set_xreg rd (ucast (byte_at mem (x rs1 + imm))) next
   | LHU rd _ rs1 \<Rightarrow> set_xreg rd (ucast (half_at mem (x rs1 + imm))) next
   | SH rs2 _ rs1 \<Rightarrow> next\<lparr>a_mem := store_value 1 (x rs1 + imm) (x rs2) mem\<rparr>
   | BLT rs1 rs2 _ \<Rightarrow> if x rs1 <s x rs2 then a\<lparr>a_pc := pc + imm\<rparr> else next
   | BGE rs1 rs2 _ \<Rightarrow> if \<not> x rs1 <s x rs2 then a\<lparr>a_pc := pc + imm\<rparr> else next
   | BLTU rs1 rs2 _ \<Rightarrow> if x rs1 < x rs2 then a\<lparr>a_pc := pc + imm\<rparr> else next
   | BGEU rs1 rs2 _ \<Rightarrow> if \<not> x rs1 < x rs2 then a\<lparr>a_pc := pc + imm\<rparr> else next
   | FENCE \<Rightarrow> next
   | ECALL \<Rightarrow> next\<lparr>a_break := True\<rparr>
   | ADDI rd rs1 _ \<Rightarrow> set_xreg rd (x rs1 + imm) next
   | ANDI rd rs1 _ \<Rightarrow> set_xreg rd (x rs1 AND imm) next
   | SRAI rd rs1 sh \<Rightarrow> set_xreg rd (signed_drop_bit (unat (sh AND 0x1f)) (x rs1)) next
   | LB rd _ rs1 \<Rightarrow> set_xreg rd (scast (byte_at mem (x rs1 + imm))) next
   | LH rd _ rs1 \<Rightarrow> set_xreg rd (scast (half_at mem (x rs1 + imm))) next
   | LW rd _ rs1 \<Rightarrow> set_xreg rd (word_at mem (x rs1 + imm)) next
   | SB rs2 _ rs1 \<Rightarrow> next\<lparr>a_mem := store_value 0 (x rs1 + imm) (x rs2) mem\<rparr>
   | SW rs2 _ rs1 \<Rightarrow> next\<lparr>a_mem := store_value 2 (x rs1 + imm) (x rs2) mem\<rparr>
   | BEQ rs1 rs2 _ \<Rightarrow> if x rs1 = x rs2 then a\<lparr>a_pc := pc + imm\<rparr> else next
   | BNE rs1 rs2 _ \<Rightarrow> if x rs1 \<noteq> x rs2 then a\<lparr>a_pc := pc + imm\<rparr> else next
   | JAL rd _ \<Rightarrow> set_xreg rd (pc + 4) (a\<lparr>a_pc := pc + imm\<rparr>)
   | JALR rd rs1 _ \<Rightarrow> set_xreg rd (pc + 4) (a\<lparr>a_pc := (x rs1 + imm) AND NOT 1\<rparr>)
   | EBREAK \<Rightarrow> next\<lparr>a_break := True\<rparr>
   | DATA w \<Rightarrow> isa_exec w a)"

section \<open>Fields of the words\<close>

lemma upt_32: "[0..<32] = [0,1,2,3,4,5,6,7,8,9,10,11,12,13,14,15,16,17,18,19,20,21,22,23,24,25,26,27,28,29,30,31::nat]"
  by code_simp

lemma word_eqI_list:
  "list_all (\<lambda>n. bit x n \<longleftrightarrow> bit y n) [0..<32] \<Longrightarrow> x = (y :: i32)"
  "list_all (\<lambda>n. bit u n \<longleftrightarrow> bit v n) [0..<7] \<Longrightarrow> u = (v :: 7 word)"
  "list_all (\<lambda>n. bit r n \<longleftrightarrow> bit s n) [0..<5] \<Longrightarrow> r = (s :: 5 word)"
  "list_all (\<lambda>n. bit p n \<longleftrightarrow> bit q n) [0..<3] \<Longrightarrow> p = (q :: 3 word)"
  by (rule bit_word_eqI; simp add: list_all_iff)+

lemma short_upts: "[0..<7] = [0,1,2,3,4,5,6::nat]" "[0..<5] = [0,1,2,3,4::nat]" "[0..<3] = [0,1,2::nat]"
  by code_simp+

lemmas asm_bits = RISCV_RTYPE_def RISCV_ITYPE_def RISCV_STYPE_def RISCV_BTYPE_def RISCV_UTYPE_def RISCV_JTYPE_def
  ENCODE_ITYPE_IMM_def ENCODE_STYPE_IMM_def ENCODE_BTYPE_IMM_def ENCODE_UTYPE_IMM_def ENCODE_JTYPE_IMM_def
  opcode_of_def funct3_of_def funct7_of_def rd_of_def rs1_of_def rs2_of_def bit_field enc_bits

lemma reg_bit [simp]: "5 \<le> n \<Longrightarrow> \<not> bit (r :: reg) n"
  by (auto dest: bit_imp_le_length)

lemma asm_opcode:
  "opcode_of (asm_word (LUI rd imm)) = 0x37" "opcode_of (asm_word (ADDI rd rs1 imm)) = 0x13"
  "opcode_of (asm_word (ANDI rd rs1 imm)) = 0x13" "opcode_of (asm_word (SRAI rd rs1 imm)) = 0x13"
  "opcode_of (asm_word (LB rd imm rs1)) = 0x03" "opcode_of (asm_word (LH rd imm rs1)) = 0x03" "opcode_of (asm_word (LW rd imm rs1)) = 0x03"
  "opcode_of (asm_word (SB rs2 imm rs1)) = 0x23" "opcode_of (asm_word (SW rs2 imm rs1)) = 0x23"
  "opcode_of (asm_word (BEQ rs1 rs2 imm)) = 0x63" "opcode_of (asm_word (BNE rs1 rs2 imm)) = 0x63"
  "opcode_of (asm_word (JAL rd imm)) = 0x6f" "opcode_of (asm_word (JALR rd rs1 imm)) = 0x67"
  "opcode_of (asm_word (AUIPC rd imm)) = 0x17" "opcode_of (asm_word (SLTI rd rs1 imm)) = 0x13"
  "opcode_of (asm_word (SLTIU rd rs1 imm)) = 0x13" "opcode_of (asm_word (XORI rd rs1 imm)) = 0x13"
  "opcode_of (asm_word (ORI rd rs1 imm)) = 0x13" "opcode_of (asm_word (SLLI rd rs1 imm)) = 0x13"
  "opcode_of (asm_word (SRLI rd rs1 imm)) = 0x13" "opcode_of (asm_word (LBU rd imm rs1)) = 0x03"
  "opcode_of (asm_word (LHU rd imm rs1)) = 0x03" "opcode_of (asm_word (SH rs2 imm rs1)) = 0x23"
  "opcode_of (asm_word (BLT rs1 rs2 imm)) = 0x63" "opcode_of (asm_word (BGE rs1 rs2 imm)) = 0x63"
  "opcode_of (asm_word (BLTU rs1 rs2 imm)) = 0x63" "opcode_of (asm_word (BGEU rs1 rs2 imm)) = 0x63"
  by (rule word_eqI_list(2); simp add: asm_word_def asm_bits short_upts)+

lemma asm_funct3:
  "funct3_of (asm_word (ADDI rd rs1 imm)) = 0" "funct3_of (asm_word (ANDI rd rs1 imm)) = 7"
  "funct3_of (asm_word (SRAI rd rs1 imm)) = 5" "funct3_of (asm_word (LB rd imm rs1)) = 0"
  "funct3_of (asm_word (LH rd imm rs1)) = 1" "funct3_of (asm_word (LW rd imm rs1)) = 2"
  "funct3_of (asm_word (SB rs2 imm rs1)) = 0" "funct3_of (asm_word (SW rs2 imm rs1)) = 2"
  "funct3_of (asm_word (BEQ rs1 rs2 imm)) = 0" "funct3_of (asm_word (BNE rs1 rs2 imm)) = 1"
  "funct3_of (asm_word (JALR rd rs1 imm)) = 0" "funct3_of (asm_word (SLTI rd rs1 imm)) = 2"
  "funct3_of (asm_word (SLTIU rd rs1 imm)) = 3" "funct3_of (asm_word (XORI rd rs1 imm)) = 4" "funct3_of (asm_word (ORI rd rs1 imm)) = 6"
  "funct3_of (asm_word (SLLI rd rs1 imm)) = 1" "funct3_of (asm_word (SRLI rd rs1 imm)) = 5"
  "funct3_of (asm_word (LBU rd imm rs1)) = 4" "funct3_of (asm_word (LHU rd imm rs1)) = 5" "funct3_of (asm_word (SH rs2 imm rs1)) = 1"
  "funct3_of (asm_word (BLT rs1 rs2 imm)) = 4" "funct3_of (asm_word (BGE rs1 rs2 imm)) = 5"
  "funct3_of (asm_word (BLTU rs1 rs2 imm)) = 6" "funct3_of (asm_word (BGEU rs1 rs2 imm)) = 7"
  by (rule word_eqI_list(4); simp add: asm_word_def asm_bits short_upts)+

lemma asm_rd:
  "rd_of (asm_word (LUI rd imm)) = rd" "rd_of (asm_word (ADDI rd rs1 imm)) = rd" "rd_of (asm_word (ANDI rd rs1 imm)) = rd"
  "rd_of (asm_word (SRAI rd rs1 imm)) = rd" "rd_of (asm_word (LB rd imm rs1)) = rd" "rd_of (asm_word (LH rd imm rs1)) = rd"
  "rd_of (asm_word (LW rd imm rs1)) = rd" "rd_of (asm_word (JAL rd imm)) = rd" "rd_of (asm_word (JALR rd rs1 imm)) = rd"
  "rd_of (asm_word (AUIPC rd imm)) = rd" "rd_of (asm_word (SLTI rd rs1 imm)) = rd" "rd_of (asm_word (SLTIU rd rs1 imm)) = rd"
  "rd_of (asm_word (XORI rd rs1 imm)) = rd" "rd_of (asm_word (ORI rd rs1 imm)) = rd" "rd_of (asm_word (SLLI rd rs1 imm)) = rd"
  "rd_of (asm_word (SRLI rd rs1 imm)) = rd" "rd_of (asm_word (LBU rd imm rs1)) = rd" "rd_of (asm_word (LHU rd imm rs1)) = rd"
  by (rule word_eqI_list(3); simp add: asm_word_def asm_bits short_upts)+

lemma asm_rs1:
  "rs1_of (asm_word (ADDI rd rs1 imm)) = rs1" "rs1_of (asm_word (ANDI rd rs1 imm)) = rs1" "rs1_of (asm_word (SRAI rd rs1 imm)) = rs1"
  "rs1_of (asm_word (LB rd imm rs1)) = rs1" "rs1_of (asm_word (LH rd imm rs1)) = rs1" "rs1_of (asm_word (LW rd imm rs1)) = rs1"
  "rs1_of (asm_word (SB rs2 imm rs1)) = rs1" "rs1_of (asm_word (SW rs2 imm rs1)) = rs1" "rs1_of (asm_word (BEQ rs1 rs2 imm)) = rs1"
  "rs1_of (asm_word (BNE rs1 rs2 imm)) = rs1" "rs1_of (asm_word (JALR rd rs1 imm)) = rs1"
  "rs1_of (asm_word (SLTI rd rs1 imm)) = rs1" "rs1_of (asm_word (SLTIU rd rs1 imm)) = rs1" "rs1_of (asm_word (XORI rd rs1 imm)) = rs1"
  "rs1_of (asm_word (ORI rd rs1 imm)) = rs1" "rs1_of (asm_word (SLLI rd rs1 imm)) = rs1" "rs1_of (asm_word (SRLI rd rs1 imm)) = rs1"
  "rs1_of (asm_word (LBU rd imm rs1)) = rs1" "rs1_of (asm_word (LHU rd imm rs1)) = rs1" "rs1_of (asm_word (SH rs2 imm rs1)) = rs1"
  "rs1_of (asm_word (BLT rs1 rs2 imm)) = rs1" "rs1_of (asm_word (BGE rs1 rs2 imm)) = rs1"
  "rs1_of (asm_word (BLTU rs1 rs2 imm)) = rs1" "rs1_of (asm_word (BGEU rs1 rs2 imm)) = rs1"
  by (rule word_eqI_list(3); simp add: asm_word_def asm_bits short_upts)+

lemma asm_rs2:
  "rs2_of (asm_word (SB rs2 imm rs1)) = rs2" "rs2_of (asm_word (SW rs2 imm rs1)) = rs2"
  "rs2_of (asm_word (BEQ rs1 rs2 imm)) = rs2" "rs2_of (asm_word (BNE rs1 rs2 imm)) = rs2"
  "rs2_of (asm_word (SH rs2 imm rs1)) = rs2" "rs2_of (asm_word (BLT rs1 rs2 imm)) = rs2" "rs2_of (asm_word (BGE rs1 rs2 imm)) = rs2"
  "rs2_of (asm_word (BLTU rs1 rs2 imm)) = rs2" "rs2_of (asm_word (BGEU rs1 rs2 imm)) = rs2"
  by (rule word_eqI_list(3); simp add: asm_word_def asm_bits short_upts)+

text \<open>The fields of an operation on two registers.\<close>

definition rop_fields :: "rop \<Rightarrow> 3 word \<times> bool" where
  "rop_fields op = (case op of R_ADD \<Rightarrow> (0, False) | R_SUB \<Rightarrow> (0, True) | R_SLL \<Rightarrow> (1, False) | R_SLT \<Rightarrow> (2, False)
     | R_SLTU \<Rightarrow> (3, False) | R_XOR \<Rightarrow> (4, False) | R_SRL \<Rightarrow> (5, False) | R_SRA \<Rightarrow> (5, True) | R_OR \<Rightarrow> (6, False)
     | R_AND \<Rightarrow> (7, False))"

lemma op_fields:
  "opcode_of (asm_word (OP op rd rs1 rs2)) = 0x33" "rd_of (asm_word (OP op rd rs1 rs2)) = rd"
  "rs1_of (asm_word (OP op rd rs1 rs2)) = rs1" "rs2_of (asm_word (OP op rd rs1 rs2)) = rs2"
  "funct3_of (asm_word (OP op rd rs1 rs2)) = fst (rop_fields op)" "bit (asm_word (OP op rd rs1 rs2)) 30 = snd (rop_fields op)"
  "funct7_of (asm_word (OP op rd rs1 rs2)) = (if snd (rop_fields op) then 0x20 else 0)"
  subgoal by (cases op) (rule word_eqI_list(2); simp add: asm_word_def rop_match_def asm_bits short_upts)+
  subgoal by (cases op) (rule word_eqI_list(3); simp add: asm_word_def rop_match_def asm_bits short_upts)+
  subgoal by (cases op) (rule word_eqI_list(3); simp add: asm_word_def rop_match_def asm_bits short_upts)+
  subgoal by (cases op) (rule word_eqI_list(3); simp add: asm_word_def rop_match_def asm_bits short_upts)+
  subgoal by (cases op) (rule word_eqI_list(4); simp add: asm_word_def rop_match_def rop_fields_def asm_bits short_upts)+
  subgoal by (cases op) (simp_all add: asm_word_def rop_match_def rop_fields_def asm_bits)
  subgoal by (cases op) (rule word_eqI_list(2); simp add: asm_word_def rop_match_def rop_fields_def asm_bits short_upts)+
  done

lemma op_result_rop: "op_result (fst (rop_fields op)) (snd (rop_fields op)) x y = rop_result op x y"
  by (cases op) (simp_all add: op_result_def rop_fields_def rop_result_def)

lemma bit_one_numeral: "bit (numeral k :: nat) 1 = odd (numeral k div 2 :: nat)" "bit (numeral k :: int) 1 = odd (numeral k div 2 :: int)"
  by (simp_all add: bit_iff_odd)

lemma asm_imm_i:
  "imm_i (asm_word i) = asm_imm i" if "i \<in> {ADDI rd rs1 imm, SLTI rd rs1 imm, SLTIU rd rs1 imm, XORI rd rs1 imm, ORI rd rs1 imm, ANDI rd rs1 imm,
      SLLI rd rs1 imm, SRLI rd rs1 imm, SRAI rd rs1 imm, LB rd imm rs1, LH rd imm rs1, LW rd imm rs1, LBU rd imm rs1, LHU rd imm rs1,
      JALR rd rs1 imm}"
  using that by (elim insertE emptyE; hypsubst)
    (rule word_eqI_list(1); simp add: upt_32 imm_i_def asm_word_def asm_imm_def asm_bits)+

lemma asm_imm_s: "imm_s (asm_word i) = asm_imm i" if "i \<in> {SB rs2 off rs1, SH rs2 off rs1, SW rs2 off rs1}"
  using that by (elim insertE emptyE; hypsubst)
    (rule word_eqI_list(1); simp add: upt_32 imm_s_def asm_word_def asm_imm_def asm_bits; simp add: numeral_2_eq_2)+

lemma asm_imm_b: "imm_b (asm_word i) = asm_imm i" if "i \<in> {BEQ rs1 rs2 target, BNE rs1 rs2 target, BLT rs1 rs2 target,
      BGE rs1 rs2 target, BLTU rs1 rs2 target, BGEU rs1 rs2 target}"
  using that by (elim insertE emptyE; hypsubst)
    (rule word_eqI_list(1); simp add: upt_32 imm_b_def asm_word_def asm_imm_def asm_bits bit_one_numeral del: push_bit_Suc One_nat_def)+

lemma asm_imm_u: "imm_u (asm_word (LUI rd imm)) = asm_imm (LUI rd imm)" "imm_u (asm_word (AUIPC rd imm)) = asm_imm (AUIPC rd imm)"
  by (rule word_eqI_list(1); simp add: upt_32 imm_u_def asm_word_def asm_imm_def asm_bits)+

lemma asm_imm_j: "imm_j (asm_word (JAL rd target)) = asm_imm (JAL rd target)"
  by (rule word_eqI_list(1)) (simp add: upt_32 imm_j_def asm_word_def asm_imm_def asm_bits bit_one_numeral del: push_bit_Suc One_nat_def)

lemma ebreak_fields: "isa_imm 0x100073 = 1" "opcode_of 0x100073 = 0x73" "rs1_of 0x100073 = 0" "rd_of 0x100073 = 0" "funct3_of 0x100073 = 0"
  "isa_imm 0x73 = 0" "opcode_of 0x73 = 0x73" "rd_of 0x73 = 0" "funct3_of 0x73 = 0" "isa_imm 0x0ff0000f = 0" "opcode_of 0x0ff0000f = 0x0f"
  "rd_of 0x0ff0000f = 0" "funct3_of 0x0ff0000f = 0"
  by code_simp+

lemma asm_immediate: "isa_imm (asm_word i) = asm_imm i"
proof (cases "i = EBREAK \<or> i = ECALL \<or> i = FENCE \<or> (\<exists>w. i = DATA w)")
  case True
  then show ?thesis by (auto simp: asm_word_def asm_imm_def ebreak_fields)
next
  case False
  then show ?thesis
    using asm_imm_i [of i] asm_imm_s [of i] asm_imm_b [of i]
    by (cases i) (simp_all add: isa_imm_def asm_opcode op_fields asm_imm_u asm_imm_j, simp add: asm_imm_def)
qed

section \<open>Every word executes as named\<close>

lemma srai_amount: "unat (asm_imm (SRAI rd rs1 sh)) mod 32 = unat (sh AND 0x1f)"
proof -
  have "take_bit 5 (asm_imm (SRAI rd rs1 sh)) = ucast (take_bit 5 sh)"
    by (rule word_eqI_list(1)) (simp add: upt_32 asm_imm_def bit_simps)
  then have "take_bit 5 (unat (asm_imm (SRAI rd rs1 sh))) = unat (ucast (take_bit 5 sh) :: i32)"
    by (metis unsigned_take_bit_eq)
  moreover have "unat (ucast (take_bit 5 sh) :: i32) = unat (take_bit 5 sh)"
    by (simp add: unsigned_ucast_eq unsigned_take_bit_eq)
  moreover have "take_bit 5 sh = sh AND 0x1f"
    by (simp add: take_bit_eq_mask mask_eq_exp_minus_1)
  ultimately show ?thesis by (simp add: take_bit_eq_mod)
qed

lemma shift_amounts: "unat (asm_imm (SLLI rd rs1 sh)) mod 32 = unat (sh AND 0x1f)" "unat (asm_imm (SRLI rd rs1 sh)) mod 32 = unat (sh AND 0x1f)"
proof -
  have amount: "sh AND 0x1f = take_bit 5 sh" by (simp add: take_bit_eq_mask mask_eq_exp_minus_1)
  have less: "unat (take_bit 5 sh) < 32"
    using take_bit_nat_less_exp [of 5 "unat sh"] by (simp only: unsigned_take_bit_eq) simp
  have "unat (ucast (take_bit 5 sh) :: i32) = take_bit 32 (unat (take_bit 5 sh))" by (simp add: unsigned_ucast_eq)
  also have "\<dots> = unat (take_bit 5 sh)" using less by (simp only: take_bit_nat_eq_self_iff) simp
  finally have "unat (ucast (take_bit 5 sh) :: i32) mod 32 = unat (take_bit 5 sh)" using less by simp
  then show "unat (asm_imm (SLLI rd rs1 sh)) mod 32 = unat (sh AND 0x1f)" "unat (asm_imm (SRLI rd rs1 sh)) mod 32 = unat (sh AND 0x1f)"
    by (simp_all add: asm_imm_def amount)
qed

lemma srai_bit30: "bit (asm_word (SRAI rd rs1 sh)) 30" "\<not> bit (asm_word (SRLI rd rs1 sh)) 30"
  by (simp_all add: asm_word_def asm_bits)

lemma op_results:
  "op_result 0 False x y = x + y" "op_result 7 alt x y = (x AND y)" "op_result 5 True x y = signed_drop_bit (unat y mod 32) x"
  "op_result 1 alt x y = push_bit (unat y mod 32) x" "op_result 2 alt x y = of_bool (x <s y)" "op_result 3 alt x y = of_bool (x < y)"
  "op_result 4 alt x y = (x XOR y)" "op_result 5 False x y = drop_bit (unat y mod 32) x" "op_result 6 alt x y = (x OR y)"
  by (simp_all add: op_result_def)

lemma asm_exec_words:
  "isa_exec (asm_word (LUI rd imm)) a = asm_exec (LUI rd imm) a"
  "isa_exec (asm_word (ADDI rd rs1 imm)) a = asm_exec (ADDI rd rs1 imm) a"
  "isa_exec (asm_word (ANDI rd rs1 imm)) a = asm_exec (ANDI rd rs1 imm) a"
  "isa_exec (asm_word (SRAI rd rs1 sh)) a = asm_exec (SRAI rd rs1 sh) a"
  "isa_exec (asm_word (LB rd off rs1)) a = asm_exec (LB rd off rs1) a"
  "isa_exec (asm_word (LH rd off rs1)) a = asm_exec (LH rd off rs1) a"
  "isa_exec (asm_word (LW rd off rs1)) a = asm_exec (LW rd off rs1) a"
  "isa_exec (asm_word (SB rs2 off rs1)) a = asm_exec (SB rs2 off rs1) a"
  "isa_exec (asm_word (SW rs2 off rs1)) a = asm_exec (SW rs2 off rs1) a"
  "isa_exec (asm_word (BEQ rs1 rs2 t)) a = asm_exec (BEQ rs1 rs2 t) a"
  "isa_exec (asm_word (BNE rs1 rs2 t)) a = asm_exec (BNE rs1 rs2 t) a"
  "isa_exec (asm_word (JAL rd t)) a = asm_exec (JAL rd t) a"
  "isa_exec (asm_word (JALR rd rs1 imm)) a = asm_exec (JALR rd rs1 imm) a"
  "isa_exec (asm_word (AUIPC rd imm)) a = asm_exec (AUIPC rd imm) a"
  "isa_exec (asm_word (SLTI rd rs1 imm)) a = asm_exec (SLTI rd rs1 imm) a"
  "isa_exec (asm_word (SLTIU rd rs1 imm)) a = asm_exec (SLTIU rd rs1 imm) a"
  "isa_exec (asm_word (XORI rd rs1 imm)) a = asm_exec (XORI rd rs1 imm) a"
  "isa_exec (asm_word (ORI rd rs1 imm)) a = asm_exec (ORI rd rs1 imm) a"
  "isa_exec (asm_word (SLLI rd rs1 sh)) a = asm_exec (SLLI rd rs1 sh) a"
  "isa_exec (asm_word (SRLI rd rs1 sh)) a = asm_exec (SRLI rd rs1 sh) a"
  "isa_exec (asm_word (LBU rd off rs1)) a = asm_exec (LBU rd off rs1) a"
  "isa_exec (asm_word (LHU rd off rs1)) a = asm_exec (LHU rd off rs1) a"
  "isa_exec (asm_word (SH rs2 off rs1)) a = asm_exec (SH rs2 off rs1) a"
  "isa_exec (asm_word (BLT rs1 rs2 t)) a = asm_exec (BLT rs1 rs2 t) a"
  "isa_exec (asm_word (BGE rs1 rs2 t)) a = asm_exec (BGE rs1 rs2 t) a"
  "isa_exec (asm_word (BLTU rs1 rs2 t)) a = asm_exec (BLTU rs1 rs2 t) a"
  "isa_exec (asm_word (BGEU rs1 rs2 t)) a = asm_exec (BGEU rs1 rs2 t) a"
  by (unfold isa_exec_def asm_exec_def asm_opcode asm_funct3 asm_rd asm_rs1 asm_rs2 asm_immediate Let_def;
      simp add: op_results branch_taken_def load_value_def srai_amount shift_amounts srai_bit30)+

lemma asm_exec_op: "isa_exec (asm_word (OP op rd rs1 rs2)) a = asm_exec (OP op rd rs1 rs2) a"
  by (simp add: isa_exec_def asm_exec_def op_fields op_result_rop Let_def)

lemma asm_exec_system:
  "isa_exec (asm_word FENCE) a = asm_exec FENCE a" "isa_exec (asm_word ECALL) a = asm_exec ECALL a"
  "isa_exec (asm_word EBREAK) a = asm_exec EBREAK a"
  by (simp_all add: asm_word_def asm_exec_def isa_exec_def ebreak_fields Let_def)

lemma asm_exec_word: "isa_exec (asm_word i) a = asm_exec i a"
proof (cases i)
  case (DATA w)
  then show ?thesis by (simp add: asm_word_def asm_exec_def Let_def)
qed (simp_all only: asm_exec_words asm_exec_op asm_exec_system)

text \<open>Clock cycles, and the instructions whose immediate names a control register.\<close>

definition is_load :: "asm \<Rightarrow> bool" where
  "is_load i = (case i of LB _ _ _ \<Rightarrow> True | LH _ _ _ \<Rightarrow> True | LW _ _ _ \<Rightarrow> True | LBU _ _ _ \<Rightarrow> True
     | LHU _ _ _ \<Rightarrow> True | _ \<Rightarrow> False)"
definition is_store :: "asm \<Rightarrow> bool" where
  "is_store i = (case i of SB _ _ _ \<Rightarrow> True | SH _ _ _ \<Rightarrow> True | SW _ _ _ \<Rightarrow> True | _ \<Rightarrow> False)"
definition is_data :: "asm \<Rightarrow> bool" where
  "is_data i = (case i of DATA _ \<Rightarrow> True | _ \<Rightarrow> False)"

lemma asm_kinds [simp]:
  "is_data (DATA w)" "\<not> is_data (LUI r v)" "\<not> is_data (AUIPC r v)" "\<not> is_data (ADDI r b v)"
  "\<not> is_data (SLTI r b v)" "\<not> is_data (SLTIU r b v)" "\<not> is_data (XORI r b v)" "\<not> is_data (ORI r b v)"
  "\<not> is_data (ANDI r b v)" "\<not> is_data (SLLI r b v)" "\<not> is_data (SRLI r b v)" "\<not> is_data (SRAI r b v)"
  "\<not> is_data (OP f r b c)" "\<not> is_data (LB r v b)" "\<not> is_data (LH r v b)" "\<not> is_data (LW r v b)"
  "\<not> is_data (LBU r v b)" "\<not> is_data (LHU r v b)" "\<not> is_data (SB r v b)" "\<not> is_data (SH r v b)"
  "\<not> is_data (SW r v b)" "\<not> is_data (BEQ r b v)" "\<not> is_data (BNE r b v)" "\<not> is_data (BLT r b v)"
  "\<not> is_data (BGE r b v)" "\<not> is_data (BLTU r b v)" "\<not> is_data (BGEU r b v)" "\<not> is_data (JAL r v)"
  "\<not> is_data (JALR r b v)" "\<not> is_data FENCE" "\<not> is_data ECALL" "\<not> is_data EBREAK" "\<not> is_load (LUI r v)"
  "\<not> is_load (AUIPC r v)" "\<not> is_load (ADDI r b v)" "\<not> is_load (SLTI r b v)" "\<not> is_load (SLTIU r b v)"
  "\<not> is_load (XORI r b v)" "\<not> is_load (ORI r b v)" "\<not> is_load (ANDI r b v)" "\<not> is_load (SLLI r b v)"
  "\<not> is_load (SRLI r b v)" "\<not> is_load (SRAI r b v)" "\<not> is_load (OP f r b c)" "is_load (LB r v b)"
  "is_load (LH r v b)" "is_load (LW r v b)" "is_load (LBU r v b)" "is_load (LHU r v b)" "\<not> is_load (SB r v b)"
  "\<not> is_load (SH r v b)" "\<not> is_load (SW r v b)" "\<not> is_load (BEQ r b v)" "\<not> is_load (BNE r b v)"
  "\<not> is_load (BLT r b v)" "\<not> is_load (BGE r b v)" "\<not> is_load (BLTU r b v)" "\<not> is_load (BGEU r b v)"
  "\<not> is_load (JAL r v)" "\<not> is_load (JALR r b v)" "\<not> is_load FENCE" "\<not> is_load ECALL" "\<not> is_load EBREAK"
  "\<not> is_store (LUI r v)" "\<not> is_store (AUIPC r v)" "\<not> is_store (ADDI r b v)" "\<not> is_store (SLTI r b v)"
  "\<not> is_store (SLTIU r b v)" "\<not> is_store (XORI r b v)" "\<not> is_store (ORI r b v)" "\<not> is_store (ANDI r b v)"
  "\<not> is_store (SLLI r b v)" "\<not> is_store (SRLI r b v)" "\<not> is_store (SRAI r b v)" "\<not> is_store (OP f r b c)"
  "\<not> is_store (LB r v b)" "\<not> is_store (LH r v b)" "\<not> is_store (LW r v b)" "\<not> is_store (LBU r v b)"
  "\<not> is_store (LHU r v b)" "is_store (SB r v b)" "is_store (SH r v b)" "is_store (SW r v b)" "\<not> is_store (BEQ r b v)"
  "\<not> is_store (BNE r b v)" "\<not> is_store (BLT r b v)" "\<not> is_store (BGE r b v)" "\<not> is_store (BLTU r b v)"
  "\<not> is_store (BGEU r b v)" "\<not> is_store (JAL r v)" "\<not> is_store (JALR r b v)" "\<not> is_store FENCE"
  "\<not> is_store ECALL" "\<not> is_store EBREAK"
  by (simp_all add: is_data_def is_load_def is_store_def)

definition asm_cycles :: "asm \<Rightarrow> nat" where
  "asm_cycles i = (if is_load i then 6 else if is_store i then 5 else 4)"

definition names_csr :: "asm \<Rightarrow> bool" where
  "names_csr i \<longleftrightarrow> (ucast (asm_imm i) :: 12 word) \<in> {0x035, 0x341, 0x342, 0x300}"

definition asm_step :: "asm \<Rightarrow> arch \<Rightarrow> arch" where
  "asm_step i a = (asm_exec i a)\<lparr>a_cycle := a_cycle a + of_nat (asm_cycles i), a_insn := a_insn a + 1,
     a_load := a_load a + of_bool (is_load i), a_store := a_store a + of_bool (is_store i)\<rparr>"

lemma asm_opcode_class:
  "\<not> is_data i \<Longrightarrow> opcode_of (asm_word i) = 0x03 \<longleftrightarrow> is_load i" "\<not> is_data i \<Longrightarrow> opcode_of (asm_word i) = 0x23 \<longleftrightarrow> is_store i"
  "\<not> is_data i \<Longrightarrow> opcode_of (asm_word i) \<noteq> 0x5B"
  by (cases i; simp add: asm_opcode op_fields is_load_def is_store_def is_data_def; simp add: asm_word_def ebreak_fields)+

lemma asm_word_cycles: "\<not> is_data i \<Longrightarrow> isa_cycles (asm_word i) = asm_cycles i"
  using asm_opcode_class [of i] by (auto simp: isa_cycles_def asm_cycles_def Let_def)

lemma set_xreg_other [simp]:
  "a_pc (set_xreg r v a) = a_pc a" "a_mem (set_xreg r v a) = a_mem a" "a_cycle (set_xreg r v a) = a_cycle a"
  "a_insn (set_xreg r v a) = a_insn a" "a_load (set_xreg r v a) = a_load a" "a_store (set_xreg r v a) = a_store a"
  "a_mtvec (set_xreg r v a) = a_mtvec a" "a_mepc (set_xreg r v a) = a_mepc a" "a_mcause (set_xreg r v a) = a_mcause a"
  "a_mstatus (set_xreg r v a) = a_mstatus a" "a_break (set_xreg r v a) = a_break a" "a_vregs (set_xreg r v a) = a_vregs a"
  by (simp_all add: set_xreg_def)

lemma xreg_simps [simp]:
  "xreg (set_xreg r v a) q = (if q = r \<and> r \<noteq> 0 then v else xreg a q)" "xreg a 0 = 0"
  "xreg (a\<lparr>a_pc := p\<rparr>) q = xreg a q" "xreg (a\<lparr>a_mem := m\<rparr>) q = xreg a q" "xreg (a\<lparr>a_cycle := c\<rparr>) q = xreg a q"
  "xreg (a\<lparr>a_insn := c\<rparr>) q = xreg a q" "xreg (a\<lparr>a_load := c\<rparr>) q = xreg a q" "xreg (a\<lparr>a_store := c\<rparr>) q = xreg a q"
  "xreg (a\<lparr>a_break := b\<rparr>) q = xreg a q"
  by (auto simp: xreg_def set_xreg_def)

lemma asm_exec_keeps:
  assumes "\<not> is_data i"
  shows "a_mtvec (asm_exec i a) = a_mtvec a" "a_mepc (asm_exec i a) = a_mepc a" "a_mcause (asm_exec i a) = a_mcause a"
    "a_mstatus (asm_exec i a) = a_mstatus a"
  using assms by (cases i; simp add: asm_exec_def Let_def is_data_def)+

text \<open>
  Every instruction also writes its first source operand, whatever the bits 19:15 of its word select, to the
  control register that the low twelve bits of its immediate name.
\<close>

definition csr_source :: "asm \<Rightarrow> arch \<Rightarrow> i32" where
  "csr_source i a = (case i of LUI _ _ \<Rightarrow> 0 | AUIPC _ _ \<Rightarrow> 0 | _ \<Rightarrow> xreg a (rs1_of (asm_word i)))"

definition asm_csr :: "asm \<Rightarrow> arch \<Rightarrow> arch" where
  "asm_csr i a =
    (let csr = (ucast (asm_imm i) :: 12 word); b = asm_step i a in
     if csr = 0x035 then b\<lparr>a_mtvec := csr_source i a\<rparr> else if csr = 0x341 then b\<lparr>a_mepc := csr_source i a\<rparr>
     else if csr = 0x342 then b\<lparr>a_mcause := csr_source i a\<rparr> else if csr = 0x300 then b\<lparr>a_mstatus := csr_source i a\<rparr> else b)"

lemma csr_source_opcode:
  "\<not> is_data i \<Longrightarrow> csr_source i a = (if opcode_of (asm_word i) = 0x37 \<or> opcode_of (asm_word i) = 0x17 then 0 else xreg a (rs1_of (asm_word i)))"
  by (cases i) (simp_all add: csr_source_def asm_opcode op_fields, simp_all add: asm_word_def ebreak_fields)

lemma asm_csr_isa:
  assumes "isa_fetch a = asm_word i" "\<not> is_data i"
  shows "isa_step a = asm_csr i a"
  using asm_opcode_class [OF assms(2)] asm_exec_keeps [OF assms(2), of a]
  by (simp add: isa_step_def assms(1) isa_csr_def isa_count_def asm_exec_word asm_immediate asm_word_cycles [OF assms(2)]
      asm_csr_def csr_source_opcode [OF assms(2)] asm_step_def Let_def)

lemma asm_csr_step: "\<not> names_csr i \<Longrightarrow> asm_csr i a = asm_step i a"
  by (simp add: asm_csr_def names_csr_def Let_def)

lemma isa_step_asm:
  assumes "isa_fetch a = asm_word i" "\<not> is_data i" "\<not> names_csr i"
  shows "isa_step a = asm_step i a"
  using asm_csr_isa [OF assms(1,2)] asm_csr_step [OF assms(3)] by simp

section \<open>Code in memory\<close>

text \<open>The data address of an instruction.\<close>

definition asm_addr :: "asm \<Rightarrow> arch \<Rightarrow> i32" where
  "asm_addr i a = (case i of
     LBU _ _ rs1 \<Rightarrow> xreg a rs1 | LHU _ _ rs1 \<Rightarrow> xreg a rs1 | SH _ _ rs1 \<Rightarrow> xreg a rs1
   | LB _ _ rs1 \<Rightarrow> xreg a rs1 | LH _ _ rs1 \<Rightarrow> xreg a rs1 | LW _ _ rs1 \<Rightarrow> xreg a rs1
   | SB _ _ rs1 \<Rightarrow> xreg a rs1 | SW _ _ rs1 \<Rightarrow> xreg a rs1 | _ \<Rightarrow> 0) + asm_imm i"

definition asm_aligned :: "asm \<Rightarrow> arch \<Rightarrow> bool" where
  "asm_aligned i a \<longleftrightarrow> (case i of
     LHU _ _ _ \<Rightarrow> asm_addr i a AND 1 = 0 | SH _ _ _ \<Rightarrow> asm_addr i a AND 1 = 0
   | LH _ _ _ \<Rightarrow> asm_addr i a AND 1 = 0 | LW _ _ _ \<Rightarrow> asm_addr i a AND 3 = 0 | SW _ _ _ \<Rightarrow> asm_addr i a AND 3 = 0 | _ \<Rightarrow> True)"

definition asm_supported :: "asm \<Rightarrow> arch \<Rightarrow> bool" where
  "asm_supported i a \<longleftrightarrow> \<not> is_data i \<and> asm_aligned i a \<and> (is_load i \<or> is_store i \<longrightarrow> \<not> uart_page (asm_addr i a))"

lemma asm_funct7: "funct7_of (asm_word (SRAI rd rs1 sh)) = 0x20" "funct7_of (asm_word (SLLI rd rs1 sh)) = 0"
  "funct7_of (asm_word (SRLI rd rs1 sh)) = 0"
  by (rule word_eqI_list(2); simp add: asm_word_def asm_bits short_upts)+

lemma asm_isa_supported:
  assumes "isa_fetch a = asm_word i" "asm_supported i a"
  shows "isa_supported a"
proof (cases "i \<in> {FENCE, ECALL, EBREAK} \<or> (\<exists>op rd rs1 rs2. i = OP op rd rs1 rs2)")
  case True
  then consider "i \<in> {FENCE, ECALL, EBREAK}" | op rd rs1 rs2 where "i = OP op rd rs1 rs2" by blast
  then show ?thesis
  proof cases
    case 1
    then show ?thesis using assms(1) by (auto simp: isa_supported_def asm_word_def ebreak_fields)
  next
    case (2 op rd rs1 rs2)
    show ?thesis unfolding isa_supported_def assms(1) 2 op_fields Let_def by (cases op) (simp_all add: rop_fields_def)
  qed
next
  case False
  then show ?thesis
    unfolding isa_supported_def assms(1) asm_immediate Let_def using assms(2)
    by (cases i) (simp_all add: asm_supported_def asm_aligned_def asm_addr_def is_data_def is_load_def is_store_def
      asm_opcode asm_funct3 asm_funct7 asm_rs1 aligned_def)
qed

definition code_at :: "i32 \<Rightarrow> asm list \<Rightarrow> mem_words \<Rightarrow> bool" where
  "code_at p code mem \<longleftrightarrow> (\<forall>k < length code. mem (word_index (p + 4 * of_nat k)) = asm_word (code ! k))"

lemma code_at_Nil [simp]: "code_at p [] mem"
  by (simp add: code_at_def)

lemma code_at_Cons: "code_at p (i # code) mem \<longleftrightarrow> mem (word_index p) = asm_word i \<and> code_at (p + 4) code mem"
  by (simp add: code_at_def All_less_Suc2 algebra_simps)

text \<open>
  A run along a list of instructions: each is the next word at the program counter.  Code without
  jumps is run along itself, a loop along its unrolling.
\<close>

fun asm_runs :: "asm list \<Rightarrow> arch \<Rightarrow> bool" where
  "asm_runs [] a \<longleftrightarrow> True"
| "asm_runs (i # is) a \<longleftrightarrow> isa_fetch a = asm_word i \<and> asm_supported i a \<and> \<not> names_csr i \<and> asm_runs is (asm_step i a)"

lemma asm_runs_append: "asm_runs (is @ js) a \<longleftrightarrow> asm_runs is a \<and> asm_runs js (fold asm_step is a)"
  by (induction "is" a rule: asm_runs.induct) simp_all

lemma asm_runs_isa:
  "asm_runs is a \<Longrightarrow> isa_run_supported (length is) a \<and> isa_run (length is) a = fold asm_step is a
    \<and> isa_run_cycles (length is) a = (\<Sum>i \<leftarrow> is. asm_cycles i)"
proof (induction "is" a rule: asm_runs.induct)
  case (2 i "is" a)
  then have i: "isa_fetch a = asm_word i" "asm_supported i a" "\<not> names_csr i" "\<not> is_data i" by (simp_all add: asm_supported_def)
  from 2 show ?case
    by (simp add: isa_step_asm [OF i(1,4,3)] asm_isa_supported [OF i(1,2)] asm_word_cycles [OF i(4)] i(1))
qed simp

lemma asm_step_simps [simp]:
  "xreg (asm_step i a) r = xreg (asm_exec i a) r" "a_pc (asm_step i a) = a_pc (asm_exec i a)"
  "a_mem (asm_step i a) = a_mem (asm_exec i a)"
  by (simp_all add: asm_step_def)

end
