(* ===== verification/Start_Code.thy ===== *)
theory Start_Code
  imports Asm_Code Soc_Programs
begin

text \<open>
  The start-up code of the newlib programs (sw/mnist-newlib/start.S, and its copy in sw/sw-newlib)
  from reset to the entry of the C library: what it leaves in registers and memory, and when.
\<close>

section \<open>Words in memory\<close>

lemma store_value_word: "addr AND 3 = 0 \<Longrightarrow> store_value 2 addr v mem = mem(word_index addr := v)"
proof -
  assume addr: "addr AND 3 = 0"
  have "pack_lanes (map (\<lambda>i. lane i v :: i8) [0..<4]) = v" by (rule pack_lanes_of_lanes) simp
  then show ?thesis
    using add_low_bits [of 1 addr] add_low_bits [of 2 addr] add_low_bits [of 3 addr] aligned_bits [OF addr] addr
    by (simp add: store_value_def put_byte_bytes lane_bytes upt_four del: pack_lanes.simps)
qed

lemma exec_sw:
  "asm_addr (SW rs2 off rs1) a AND 3 = 0 \<Longrightarrow>
    asm_exec (SW rs2 off rs1) a = a\<lparr>a_pc := a_pc a + 4, a_mem := (a_mem a)(word_index (asm_addr (SW rs2 off rs1) a) := xreg a rs2)\<rparr>"
  by (simp add: asm_exec_def asm_addr_def store_value_word Let_def)

lemma exec_lw:
  "asm_addr (LW rd off rs1) a AND 3 = 0 \<Longrightarrow>
    asm_exec (LW rd off rs1) a = set_xreg rd (a_mem a (word_index (asm_addr (LW rd off rs1) a))) (a\<lparr>a_pc := a_pc a + 4\<rparr>)"
  by (simp add: asm_exec_def asm_addr_def word_lane Let_def)

section \<open>Assembled instructions on the hardware\<close>

text \<open>
  C15.  The words the macros of binutils build are the instructions they are named after: from a ready state
  the system executes the word of every instruction of RV32I, for all registers and immediates, with the effect of the
  instruction's name on registers, memory, counters and program counter, in 4 clocks, 5 for a store and 6 for a load,
  as long as an access to memory is aligned and outside the page of the serial port.  The one effect the name does
  not tell is that an instruction whose immediate is the number of a control register also overwrites that register.
\<close>

theorem instruction_words_execute:
  assumes "soc_ready s" "a = soc_arch s" "isa_fetch a = asm_word i" "asm_supported i a"
    "length ins = asm_cycles i" "\<forall>j \<in> set ins. in_resetn j"
  shows "\<exists>s'. soc_run ins s = Some s' \<and> soc_ready s' \<and> soc_arch s' = asm_csr i a
    \<and> (\<not> names_csr i \<longrightarrow> soc_arch s' = (asm_exec i a)\<lparr>a_cycle := a_cycle a + of_nat (asm_cycles i),
      a_insn := a_insn a + 1, a_load := a_load a + of_bool (is_load i), a_store := a_store a + of_bool (is_store i)\<rparr>)"
proof -
  have i: "\<not> is_data i" using assms(4) by (simp add: asm_supported_def)
  have "isa_run_supported 1 (soc_arch s)" "length ins = isa_run_cycles 1 (soc_arch s)" "isa_run 1 (soc_arch s) = asm_csr i a"
    unfolding assms(2) [symmetric]
    by (simp_all add: asm_isa_supported [OF assms(3,4)] asm_csr_isa [OF assms(3) i] assms(3,5) asm_word_cycles [OF i])
  with soc_runs_program [OF assms(1) this(1,2) assms(6)] asm_csr_step [of i a] show ?thesis
    unfolding asm_step_def by auto
qed

text \<open>\<open>addi x1,x0,5; addi x2,x1,0x341; sub x3,x2,x1\<close>: the second one puts 5 into \<open>mepc\<close>.\<close>

definition words_mem :: mem_words where
  "words_mem = (\<lambda>k. asm_word (if k = 0 then ADDI 1 0 5 else if k = 1 then ADDI 2 1 0x341 else OP R_SUB 3 2 1))"

theorem instruction_words_execute_witness:
  "map words_mem [0, 1, 2] = [0x00500093, 0x34108113, 0x401101b3] \<and> (\<exists>s1 s2 s3. soc_run (replicate 4 run_input) (soc_at_rest words_mem) = Some s1
    \<and> a_mepc (soc_arch s1) = 0 \<and> soc_run (replicate 4 run_input) s1 = Some s2 \<and> a_mepc (soc_arch s2) = 5
    \<and> soc_run (replicate 4 run_input) s2 = Some s3 \<and> xreg (soc_arch s3) 3 = 0x341)"
proof -
  let ?i = "ADDI 1 0 5" and ?j = "ADDI 2 1 0x341" and ?k = "OP R_SUB 3 2 1"
  have word: "map words_mem [0, 1, 2] = [0x00500093, 0x34108113, 0x401101b3]" by code_simp
  have imms: "asm_imm ?i = 5" "asm_imm ?j = 0x341" "asm_imm ?k = 0" "rs1_of (asm_word ?j) = 1" by code_simp+
  have ins: "length (replicate 4 run_input) = asm_cycles ?i" "length (replicate 4 run_input) = asm_cycles ?j"
    "length (replicate 4 run_input) = asm_cycles ?k" "\<forall>j \<in> set (replicate 4 run_input). in_resetn j"
    by (simp_all add: asm_cycles_def run_input_def)
  have ok: "asm_supported ?i b" "asm_supported ?j b" "asm_supported ?k b" for b by (simp_all add: asm_supported_def asm_aligned_def)
  have index: "word_index 0 = 0" "word_index 4 = 1" "word_index 8 = 2" by code_simp+
  note a0 = soc_at_rest_arch [of words_mem]
  have "isa_fetch (soc_arch (soc_at_rest words_mem)) = asm_word ?i"
    unfolding isa_fetch_def a0 by (simp add: words_mem_def index)
  from instruction_words_execute [OF soc_at_rest_ready refl this ok(1) ins(1,4)] obtain s1 where
    s1: "soc_run (replicate 4 run_input) (soc_at_rest words_mem) = Some s1" "soc_ready s1" "soc_arch s1 = asm_csr ?i (soc_arch (soc_at_rest words_mem))"
    by blast
  then have a1: "xreg (soc_arch s1) 1 = 5" "a_mepc (soc_arch s1) = 0" "a_pc (soc_arch s1) = 4" "a_mem (soc_arch s1) = words_mem"
    by (simp_all add: asm_csr_def asm_step_def asm_exec_def imms a0 set_xreg_def xreg_def Let_def)
  have "isa_fetch (soc_arch s1) = asm_word ?j" by (simp add: isa_fetch_def a1 words_mem_def index)
  from instruction_words_execute [OF s1(2) refl this ok(2) ins(2,4)] obtain s2 where
    s2: "soc_run (replicate 4 run_input) s1 = Some s2" "soc_ready s2" "soc_arch s2 = asm_csr ?j (soc_arch s1)" by blast
  then have a2: "xreg (soc_arch s2) 1 = 5" "xreg (soc_arch s2) 2 = 0x346" "a_mepc (soc_arch s2) = 5" "a_pc (soc_arch s2) = 8"
      "a_mem (soc_arch s2) = words_mem"
    using a1 by (simp_all add: asm_csr_def asm_step_def asm_exec_def csr_source_def imms set_xreg_def xreg_def Let_def)
  have "isa_fetch (soc_arch s2) = asm_word ?k" by (simp add: isa_fetch_def a2 words_mem_def index)
  from instruction_words_execute [OF s2(2) refl this ok(3) ins(3,4)] obtain s3 where
    s3: "soc_run (replicate 4 run_input) s2 = Some s3" "soc_arch s3 = asm_csr ?k (soc_arch s2)" by blast
  then have "xreg (soc_arch s3) 3 = 0x341"
    by (simp add: asm_csr_def asm_step_def asm_exec_def rop_result_def imms a2 Let_def)
  with word s1(1) a1(2) s2(1) a2(3) s3(1) show ?thesis by blast
qed

section \<open>start.S\<close>

definition clear_regs :: "nat list \<Rightarrow> asm list" where
  "clear_regs rs = map (\<lambda>r. ADDI (of_nat r) 0 0) rs"

definition set_stack :: "asm list" where
  "set_stack = [LUI 2 (RISCV_CONST_HIGH_PART 0x400000), ADDI 2 2 (RISCV_CONST_LOW_PART 0x400000), ADDI 2 2 (- 16),
     SW 0 0 2, SW 0 4 2, SW 0 8 2, SW 0 12 2, J (0x10000 - 152)]"

text \<open>The jump is 38 words after the start; start.ld puts \<open>_ftext\<close> at 0x10000.\<close>

definition start_S :: "asm list" where
  "start_S = clear_regs [1..<32] @ set_stack"

lemma clear_regs_run:
  "code_at (a_pc a) (clear_regs rs) (a_mem a) \<Longrightarrow>
    asm_runs (clear_regs rs) a \<and> fold asm_step (clear_regs rs) a
      = a\<lparr>a_pc := a_pc a + 4 * of_nat (length rs), a_regs := (\<lambda>r. if r \<noteq> 0 \<and> r \<in> of_nat ` set rs then 0 else a_regs a r),
          a_cycle := a_cycle a + 4 * of_nat (length rs), a_insn := a_insn a + of_nat (length rs)\<rparr>"
proof (induction rs arbitrary: a)
  case Nil
  then show ?case by (simp add: clear_regs_def)
next
  case (Cons r rs)
  let ?i = "ADDI (of_nat r) 0 0"
  have fetch: "isa_fetch a = asm_word ?i" and code: "code_at (a_pc a + 4) (clear_regs rs) (a_mem a)"
    using Cons.prems by (simp_all add: clear_regs_def code_at_Cons isa_fetch_def)
  have imm: "asm_imm ?i = 0" by (simp add: asm_imm_def)
  have step: "asm_step ?i a = (set_xreg (of_nat r) 0 a)\<lparr>a_pc := a_pc a + 4, a_cycle := a_cycle a + 4, a_insn := a_insn a + 1\<rparr>"
    by (simp add: asm_step_def asm_exec_def imm Let_def asm_cycles_def is_load_def is_store_def set_xreg_def)
  have "asm_supported ?i a" "\<not> names_csr ?i"
    by (simp_all add: asm_supported_def asm_aligned_def names_csr_def is_data_def is_load_def is_store_def imm)
  with Cons.IH [of "asm_step ?i a"] fetch code show ?case
    by (auto simp: clear_regs_def step set_xreg_def algebra_simps fun_eq_iff)
qed

lemma set_stack_imms:
  "asm_imm (LUI 2 (RISCV_CONST_HIGH_PART 0x400000)) = 0x400000" "asm_imm (ADDI 2 2 (RISCV_CONST_LOW_PART 0x400000)) = 0"
  "asm_imm (ADDI 2 2 (- 16)) = - 16" "asm_imm (SW 0 0 2) = 0" "asm_imm (SW 0 4 2) = 4" "asm_imm (SW 0 8 2) = 8" "asm_imm (SW 0 12 2) = 12"
  "asm_imm (JAL 0 65384) = 0xff68"
  by code_simp+

lemma set_stack_indices:
  "word_index 124 = 31" "word_index 128 = 32" "word_index 132 = 33" "word_index 136 = 34" "word_index 140 = 35" "word_index 144 = 36"
  "word_index 148 = 37" "word_index 152 = 38" "word_index 0x3FFFF0 = 0xFFFFC" "word_index 0x3FFFF4 = 0xFFFFD" "word_index 0x3FFFF8 = 0xFFFFE"
  "word_index 0x3FFFFC = 0xFFFFF"
  by code_simp+

lemma set_stack_steps:
  "asm_step (LUI rd imm) a = (set_xreg rd (asm_imm (LUI rd imm)) a)\<lparr>a_pc := a_pc a + 4, a_cycle := a_cycle a + 4, a_insn := a_insn a + 1\<rparr>"
  "asm_step (ADDI rd rs1 imm) a = (set_xreg rd (xreg a rs1 + asm_imm (ADDI rd rs1 imm)) a)\<lparr>a_pc := a_pc a + 4,
     a_cycle := a_cycle a + 4, a_insn := a_insn a + 1\<rparr>"
  "asm_step (JAL 0 t) a = a\<lparr>a_pc := a_pc a + asm_imm (JAL 0 t), a_cycle := a_cycle a + 4, a_insn := a_insn a + 1\<rparr>"
  "(xreg a rs1 + asm_imm (SW rs2 imm rs1)) AND 3 = 0 \<Longrightarrow> asm_step (SW rs2 imm rs1) a = a\<lparr>a_pc := a_pc a + 4,
     a_mem := (a_mem a)(word_index (xreg a rs1 + asm_imm (SW rs2 imm rs1)) := xreg a rs2),
     a_cycle := a_cycle a + 5, a_insn := a_insn a + 1, a_store := a_store a + 1\<rparr>"
  by (simp_all add: asm_step_def exec_sw asm_addr_def) (simp_all add: asm_exec_def asm_cycles_def is_load_def is_store_def set_xreg_def Let_def)

lemma set_stack_run:
  assumes "a_pc a = 124" "code_at 124 set_stack (a_mem a)"
  shows "asm_runs set_stack a" "fold asm_step set_stack a = a\<lparr>a_pc := 0x10000, a_regs := (a_regs a)(2 := 0x3FFFF0),
      a_mem := (a_mem a)(0xFFFFC := 0, 0xFFFFD := 0, 0xFFFFE := 0, 0xFFFFF := 0),
      a_cycle := a_cycle a + 36, a_insn := a_insn a + 8, a_store := a_store a + 4\<rparr>"
proof -
  note code = assms(2) [unfolded set_stack_def code_at_Cons, simplified set_stack_indices]
  have kinds: "\<not> names_csr i" if "i \<in> set set_stack" for i
    using that by (auto simp: set_stack_def names_csr_def set_stack_imms)
  show "asm_runs set_stack a"
    using kinds code assms(1)
    by (simp add: set_stack_def isa_fetch_def set_stack_steps set_stack_imms set_stack_indices asm_supported_def asm_aligned_def
        asm_addr_def is_data_def is_load_def is_store_def uart_page_def)
  show "fold asm_step set_stack a = a\<lparr>a_pc := 0x10000, a_regs := (a_regs a)(2 := 0x3FFFF0),
      a_mem := (a_mem a)(0xFFFFC := 0, 0xFFFFD := 0, 0xFFFFE := 0, 0xFFFFF := 0),
      a_cycle := a_cycle a + 36, a_insn := a_insn a + 8, a_store := a_store a + 4\<rparr>"
    using assms(1) by (simp add: set_stack_def set_stack_steps set_stack_imms set_stack_indices) (simp add: set_xreg_def)
qed

lemma code_at_append: "code_at p (is @ js) mem \<longleftrightarrow> code_at p is mem \<and> code_at (p + 4 * of_nat (length is)) js mem"
proof (induction "is" arbitrary: p)
  case (Cons i "is")
  then show ?case by (simp add: code_at_Cons algebra_simps)
qed simp

lemma registers_1_31: "r \<noteq> 0 \<Longrightarrow> r \<in> of_nat ` {1..<32}" for r :: reg
proof -
  assume "r \<noteq> 0"
  then have "0 < unat r" by (simp add: word_unat_eq_iff)
  then have "unat r \<in> {1..<32}" using unsigned_less [of r] by simp
  moreover have "r = of_nat (unat r)" by simp
  ultimately show ?thesis by (rule rev_image_eqI)
qed

lemma start_run:
  assumes "a_pc a = 0" "code_at 0 start_S (a_mem a)"
  shows "asm_runs start_S a" "fold asm_step start_S a = a\<lparr>a_pc := 0x10000,
      a_regs := (\<lambda>r. if r = 2 then 0x3FFFF0 else if r = 0 then a_regs a 0 else 0),
      a_mem := (a_mem a)(0xFFFFC := 0, 0xFFFFD := 0, 0xFFFFE := 0, 0xFFFFF := 0),
      a_cycle := a_cycle a + 160, a_insn := a_insn a + 39, a_store := a_store a + 4\<rparr>"
proof -
  have code: "code_at 0 (clear_regs [1..<32]) (a_mem a)" "code_at 124 set_stack (a_mem a)"
    using assms(2) by (simp_all add: start_S_def code_at_append clear_regs_def)
  define b where "b = fold asm_step (clear_regs [1..<32]) a"
  have b: "asm_runs (clear_regs [1..<32]) a" "b = a\<lparr>a_pc := 124, a_regs := (\<lambda>r. if r \<noteq> 0 then 0 else a_regs a r),
      a_cycle := a_cycle a + 124, a_insn := a_insn a + 31\<rparr>"
    using clear_regs_run [of a "[1..<32]"] code(1) assms(1) registers_1_31 unfolding b_def by (auto simp: fun_eq_iff)
  have "a_pc b = 124" "code_at 124 set_stack (a_mem b)" using code(2) by (simp_all add: b(2))
  note stack = set_stack_run [OF this]
  show "asm_runs start_S a" using b(1) stack(1) by (simp add: start_S_def asm_runs_append b_def)
  have "fold asm_step start_S a = fold asm_step set_stack b" by (simp only: start_S_def fold_append comp_def b_def)
  also have "\<dots> = a\<lparr>a_pc := 0x10000,
      a_regs := (\<lambda>r. if r = 2 then 0x3FFFF0 else if r = 0 then a_regs a 0 else 0),
      a_mem := (a_mem a)(0xFFFFC := 0, 0xFFFFD := 0, 0xFFFFE := 0, 0xFFFFF := 0),
      a_cycle := a_cycle a + 160, a_insn := a_insn a + 39, a_store := a_store a + 4\<rparr>"
    unfolding stack(2) by (simp add: b(2) fun_eq_iff)
  finally show "fold asm_step start_S a = \<dots>" .
qed

lemma start_cycles: "(\<Sum>i \<leftarrow> start_S. asm_cycles i) = 160" "length start_S = 39"
  by code_simp+

text \<open>
  C10.  From reset to the C library.  A core that comes out of reset with start.S at address 0 is at
  \<open>_ftext\<close> after exactly 160 clocks, whatever arrives on its inputs: every register is 0 but the stack
  pointer, which is 16 below 4 MB, the four words there are 0, and nothing else in the memory changed.
\<close>

theorem start_reaches_library:
  assumes "soc_ready s" "core_is_reset (cpu s)" "code_at 0 start_S (sr_mem (sram0 s))"
    "length ins = 160" "\<forall>i \<in> set ins. in_resetn i"
  shows "\<exists>s' a. soc_run ins s = Some s' \<and> soc_ready s' \<and> soc_arch s' = a \<and> a_pc a = 0x10000
    \<and> xreg a = (\<lambda>r. if r = 2 then 0x3FFFF0 else 0) \<and> word_at (a_mem a) 0x3FFFF0 = 0 \<and> word_at (a_mem a) 0x3FFFF4 = 0
    \<and> word_at (a_mem a) 0x3FFFF8 = 0 \<and> word_at (a_mem a) 0x3FFFFC = 0
    \<and> (\<forall>k. k \<notin> {0xFFFFC..0xFFFFF} \<longrightarrow> a_mem a k = sr_mem (sram0 s) k)
    \<and> (a_cycle a, a_insn a, a_load a, a_store a) = (160, 39, 0, 4)"
proof -
  let ?a = "soc_arch s"
  have a: "a_pc ?a = 0" "a_mem ?a = sr_mem (sram0 s)" "(a_cycle ?a, a_insn ?a, a_load ?a, a_store ?a) = (0, 0, 0, 0)"
    using assms(2) by (simp_all add: soc_arch_def mach_of_def core_is_reset_def)
  note run = start_run [of ?a, unfolded a(1,2), OF refl assms(3)]
  note isa = asm_runs_isa [OF run(1), unfolded start_cycles run(2)]
  obtain s' where s': "soc_run ins s = Some s'" "soc_ready s'" "soc_arch s' = isa_run 39 ?a"
    using soc_runs_program [OF assms(1), of 39 ins] isa assms(4,5) by auto
  then show ?thesis
    using isa a(3) by (intro exI [of _ s'] exI [of _ "soc_arch s'"]) (simp add: fun_eq_iff xreg_def word_lane set_stack_indices)
qed

text \<open>The start-up code at 0 in a memory full of fives.\<close>

definition start_mem :: mem_words where
  "start_mem = (\<lambda>k. if unat k < 39 then asm_word (start_S ! unat k) else 5)"

theorem start_reaches_library_witness:
  "start_mem 0 = 0x00000093 \<and> start_mem 0xFFFFC = 5 \<and> (\<exists>s'. soc_run (replicate 160 run_input) (soc_at_rest start_mem) = Some s'
    \<and> a_pc (soc_arch s') = 0x10000 \<and> xreg (soc_arch s') 2 = 0x3FFFF0 \<and> word_at (a_mem (soc_arch s')) 0x3FFFF0 = 0
    \<and> a_mem (soc_arch s') 0 = 0x00000093)"
proof -
  have "start_mem 0 = 0x00000093" by code_simp
  moreover have "start_mem 0xFFFFC = 5" by (simp add: start_mem_def)
  ultimately have words: "start_mem 0 = 0x00000093" "start_mem 0xFFFFC = 5" .
  have "unat (word_index (4 * of_nat k)) = k" if "k < 39" for k
    using that by (simp add: word_index_def unsigned_ucast_eq unsigned_drop_bit_eq drop_bit_eq_div unat_word_ariths unat_of_nat take_bit_nat_eq_self)
  then have code: "code_at 0 start_S start_mem" by (simp add: code_at_def start_cycles start_mem_def)
  have reset: "core_is_reset core_at_rest" by (simp add: core_is_reset_def core_at_rest_def quiet_def vmac_idle_def valu_idle_def)
  have rest: "cpu (soc_at_rest start_mem) = core_at_rest" "sr_mem (sram0 (soc_at_rest start_mem)) = start_mem"
    by (simp_all add: soc_at_rest_def)
  have ins: "length (replicate 160 run_input) = 160" "\<forall>i \<in> set (replicate 160 run_input). in_resetn i"
    by (simp_all add: run_input_def)
  from start_reaches_library [OF soc_at_rest_ready [of start_mem], unfolded rest, OF reset code ins] obtain s' where
    s': "soc_run (replicate 160 run_input) (soc_at_rest start_mem) = Some s'" "a_pc (soc_arch s') = 0x10000"
    "xreg (soc_arch s') = (\<lambda>r. if r = 2 then 0x3FFFF0 else 0)" "word_at (a_mem (soc_arch s')) 0x3FFFF0 = 0"
    "\<forall>k. k \<notin> {0xFFFFC..0xFFFFF} \<longrightarrow> a_mem (soc_arch s') k = start_mem k"
    by blast
  from s'(5) [rule_format, of 0] have "a_mem (soc_arch s') 0 = start_mem 0" by simp
  with words s'(3) have "a_mem (soc_arch s') 0 = 0x00000093" "xreg (soc_arch s') 2 = 0x3FFFF0" by (simp_all only: if_True refl)
  with s'(1,2,4) words show ?thesis by blast
qed

end
