(* ===== verification/Soc_Ports.thy ===== *)
theory Soc_Ports
  imports Soc_Programs
begin

text \<open>
  Loads and stores that go to the page of the serial port.  The first three clocks and the last one
  of such an access are those of any other; what happens between depends on which port is in use,
  the serial one or the parallel one.
\<close>

section \<open>The request of a load or store\<close>

definition requests :: "core \<Rightarrow> sram_state \<Rightarrow> bool \<Rightarrow> i32 \<Rightarrow> bool" where
  "requests c m wr addr \<longleftrightarrow> cpu_state c = MEM \<and> quiet c \<and> dmem_req_valid_reg c \<and> dmem_req_write_reg c = wr
     \<and> d_mem_read (ctl c) = (\<not> wr) \<and> dmem_req_addr_reg c = addr \<and> \<not> sr_dmem_resp_valid_reg m"

lemma requests_bus:
  assumes "requests c m wr addr"
  shows "dmem_req_valid c" "dmem_req_write c = wr" "dmem_req_addr c = addr" "dmem_req_wdata c = dmem_req_wdata_reg c"
    "dmem_req_wmask c = dmem_req_wmask_reg c" "\<not> ebreak_hit c"
  using assms quiet_requests [of c] by (simp_all add: requests_def ebreak_hit_def)

text \<open>The core after its store was accepted, and the memory.\<close>

definition after_store :: "core \<Rightarrow> core" where
  "after_store c = c\<lparr>cycle_counter := cycle_counter c + 1, dmem_req_valid_reg := False, pc_reg := pc_plus_4 c,
     cpu_state := WB, store_counter := store_counter c + 1\<rparr>"

definition stored :: "core \<Rightarrow> mem_words \<Rightarrow> mem_words" where
  "stored c mem = mem(word_index (dmem_req_addr_reg c) :=
     masked_write (dmem_req_wmask_reg c) (dmem_req_wdata_reg c) (mem (word_index (dmem_req_addr_reg c))))"

text \<open>The core that waits for the answer to its load, and the core that has got \<open>v\<close>.\<close>

definition load_sent :: "core \<Rightarrow> core" where
  "load_sent c = c\<lparr>cycle_counter := cycle_counter c + 1, dmem_req_valid_reg := False\<rparr>"

definition after_load :: "i32 \<Rightarrow> core \<Rightarrow> core" where
  "after_load v c = c\<lparr>cycle_counter := cycle_counter c + 2, dmem_req_valid_reg := False, pc_reg := pc_plus_4 c,
     cpu_state := WB, mem_data_reg := v, load_counter := load_counter c + 1\<rparr>"

text \<open>The byte lanes of a store all carry the low byte first.\<close>

lemma store_wdata_low: "lane 0 (store_wdata msk y) = (lane 0 y :: i8)"
proof -
  have "lane 0 (lane 0 y :: i16) = (lane 0 y :: i8)"
    by (rule bit_word_eqI) (auto simp: lane_def bit_simps)
  then show ?thesis
    by (simp add: store_wdata_def replicate_lanes lane_bytes bytes_of_halves del: pack_lanes.simps)
qed

lemma request_run:
  assumes "mach_ready (c, m, ia, b)" "a = arch_of (c, m, ia, b)" "w = isa_fetch a" "opcode_of w = 0x03 \<or> opcode_of w = 0x23"
    "addr = xreg a (rs1_of w) + isa_imm w" "d = decoder_control w"
  shows "\<exists>c1. mach_run 3 (c, m, ia, b) = Some (c1, m, pc_reg c, b) \<and> requests c1 m (opcode_of w = 0x23) addr
    \<and> in_flight d c (c1\<lparr>dmem_req_valid_reg := False\<rparr>) \<and> alu_out_reg c1 = addr \<and> pc_reg c1 = pc_reg c
    \<and> cycle_counter c1 = cycle_counter c + 3 \<and> insn_counter c1 = insn_counter c
    \<and> load_counter c1 = load_counter c \<and> store_counter c1 = store_counter c
    \<and> (opcode_of w = 0x23 \<longrightarrow> dmem_req_wdata_reg c1 = store_wdata (d_mem_mask d) (xreg a (rs2_of w))
         \<and> dmem_req_wmask_reg c1 = store_wmask (d_mem_mask d) addr)"
proof -
  let ?st = "opcode_of w = 0x23"
  have w: "w = sr_mem m (word_index (pc_reg c))" using assms(2,3) by (simp add: isa_fetch_def)
  have out: "dec_out d a = addr" using assms(4,5) unfolding assms(6) by (subst dec_out_add) auto
  have y: "rf_read (a_regs a) (d_rs2 d) = xreg a (rs2_of w)" by (simp add: assms(6) decoder_fields rf_read_xreg)
  have d: "is_scalar d" "d_mem_write d = ?st" "d_mem_read d = (\<not> ?st)" "\<not> d_is_jal d" "\<not> d_is_jalr d" "\<not> d_is_branch d"
    using assms(4) alu_add [of w] by (auto simp: assms(6) is_scalar_def decoder_fields type_defs)
  define c1 where "c1 = (exec_start w c)\<lparr>alu_out_reg := addr,
      dmem_req_valid_reg := True, dmem_req_write_reg := ?st, dmem_req_addr_reg := addr,
      dmem_req_wdata_reg := (if ?st then store_wdata (d_mem_mask d) (xreg a (rs2_of w)) else dmem_req_wdata_reg (exec_start w c)),
      dmem_req_wmask_reg := (if ?st then store_wmask (d_mem_mask d) addr else dmem_req_wmask_reg (exec_start w c)),
      cpu_state := MEM, cycle_counter := cycle_counter c + 3\<rparr>"
  have "mach_clock (exec_start w c, m, pc_reg c, b) = Some (c1, m, pc_reg c, b)"
    using exec_request [OF assms(1,6) d(1) _ d(4-6) assms(2)] d(2,3) out y
    by (simp add: c1_def del: mach_clock.simps)
  then have "mach_run (2 + 1) (c, m, ia, b) = Some (c1, m, pc_reg c, b)"
    unfolding mach_run_add using fetch_decode [OF assms(1)] w by (simp del: mach_clock.simps mach_run_numeral)
  moreover have "(3 :: nat) = 2 + 1" by simp
  ultimately have run: "mach_run 3 (c, m, ia, b) = Some (c1, m, pc_reg c, b)" by (simp only:)
  have req: "requests c1 m ?st addr"
    using assms(1) d(3) unfolding assms(6) by (simp add: requests_def c1_def quiet_def exec_start_def Let_def)
  have fl: "in_flight d c (c1\<lparr>dmem_req_valid_reg := False\<rparr>)"
    using exec_start_in_flight [of c w] assms(1) by (simp add: assms(6) in_flight_def quiet_def c1_def)
  show ?thesis
    by (rule exI [of _ c1]) (use run req fl in \<open>simp add: c1_def del: mach_clock.simps mach_run_numeral\<close>)
qed

text \<open>The last clock of a store is that of the specified step.\<close>

lemma store_end:
  assumes "mach_ready (c, m, ia, b)" "a = arch_of (c, m, ia, b)" "w = isa_fetch a" "opcode_of w = 0x23"
    "addr = xreg a (rs1_of w) + isa_imm w" "d = decoder_control w" "aligned (funct3_of w) addr"
    "funct3_of w = 0b000 \<or> funct3_of w = 0b001 \<or> funct3_of w = 0b010"
    "requests c1 m True addr" "in_flight d c (c1\<lparr>dmem_req_valid_reg := False\<rparr>)"
    "cycle_counter c1 = cycle_counter c + 3" "insn_counter c1 = insn_counter c"
    "load_counter c1 = load_counter c" "store_counter c1 = store_counter c"
    "dmem_req_wdata_reg c1 = store_wdata (d_mem_mask d) (xreg a (rs2_of w))" "dmem_req_wmask_reg c1 = store_wmask (d_mem_mask d) addr"
    "\<not> sr_dmem_resp_valid_reg m'" "sr_mem m' = stored c1 (sr_mem m)"
  shows "\<exists>x. mach_clock (after_store c1, m', ia', b) = Some x \<and> mach_ready x \<and> arch_of x = isa_step a"
proof -
  let ?c2 = "after_store c1"
  note a = arch_of_fields [OF assms(2)]
  have ctl: "ctl c1 = d" "pc_saved c1 = pc_reg c" using assms(10) by (simp_all add: in_flight_def)
  have fl: "in_flight d c ?c2" using assms(10) by (simp add: in_flight_def after_store_def quiet_def)
  have y: "xreg a (rs2_of w) = rf_read (a_regs a) (d_rs2 d)" by (simp add: assms(6) decoder_fields rf_read_xreg)
  have "cpu_state ?c2 = WB" by (simp add: after_store_def)
  from wb_clock [OF fl this assms(17), of ia' b m ia] obtain x where x: "mach_clock (?c2, m', ia', b) = Some x" "mach_ready x"
    "arch_of x = dec_arch d a (pc_reg ?c2) (wb_data ?c2) (vec_result_reg ?c2) (sr_mem m')
      (cycle_counter ?c2 + 1) (insn_counter ?c2 + 1) (load_counter ?c2) (store_counter ?c2)"
    unfolding assms(2) by blast
  have "dec_arch d a pc' (wb_data ?c2) (vec_result_reg ?c2) mem cyc ins ld st = dec_arch d a pc' 0 0 mem cyc ins ld st"
    for pc' mem cyc ins ld st
    using assms(4) unfolding assms(6) by (intro dec_arch_cong) (simp_all add: decoder_fields type_defs)
  then have "arch_of x = dec_arch d a (a_pc a + 4) 0 0
      ((a_mem a)(word_index addr := masked_write (store_wmask (d_mem_mask d) addr)
         (store_wdata (d_mem_mask d) (rf_read (a_regs a) (d_rs2 d))) (a_mem a (word_index addr))))
      (a_cycle a + 5) (a_insn a + 1) (a_load a) (a_store a + 1)"
    unfolding x(3) assms(18)
    using assms(9,11-16) ctl by (simp add: after_store_def stored_def requests_def pc_wires a y ac_simps)
  also have "\<dots> = isa_step a" by (rule store_dec_arch [OF assms(3-5,7,8,6)])
  finally show ?thesis using x(1,2) by blast
qed

text \<open>A load that is answered with the word \<open>v\<close>.\<close>

definition isa_load_io :: "i32 \<Rightarrow> arch \<Rightarrow> arch" where
  "isa_load_io v a =
    (let w = isa_fetch a; addr = xreg a (rs1_of w) + isa_imm w in
     isa_csr w a (isa_count w a (set_xreg (rd_of w)
       (load_value (funct3_of w) ((a_mem a)(word_index addr := v)) addr) (a\<lparr>a_pc := a_pc a + 4\<rparr>))))"

lemma load_io_dec_arch:
  assumes "w = isa_fetch a" "opcode_of w = 0x03" "addr = xreg a (rs1_of w) + isa_imm w" "aligned (funct3_of w) addr"
    "funct3_of w = 0b000 \<or> funct3_of w = 0b001 \<or> funct3_of w = 0b010 \<or> funct3_of w = 0b100 \<or> funct3_of w = 0b101"
    "d = decoder_control w"
  shows "dec_arch d a (a_pc a + 4) (dec_load d addr v) 0 (a_mem a) (a_cycle a + 6) (a_insn a + 1) (a_load a + 1) (a_store a)
    = isa_load_io v a"
proof -
  let ?mem = "(a_mem a)(word_index addr := v)"
  have val: "dec_load d addr v = load_value (funct3_of w) ?mem addr"
    using dec_load_value [of w addr ?mem] assms(2,4,5) by (simp add: assms(6))
  have x: "rf_read (a_regs a) (d_rs1 d) = xreg a (rs1_of w)" and i: "d_imm d = isa_imm w"
    using assms(2) by (simp_all add: assms(6) decoder_fields is_u_type_def rf_read_xreg dec_imm_isa)
  have "d_reg_write d" "d_rd d = rd_of w" "\<not> d_vec_reg_write d" "\<not> d_ebreak_hit d"
    using assms(2) by (simp_all add: assms(6) decoder_fields type_defs)
  then show ?thesis
    unfolding isa_load_io_def assms(1) [symmetric] assms(3) [symmetric] Let_def dec_arch_def isa_csr_def x i val
    using assms(2) by (intro arch.equality) (simp_all add: isa_count_def isa_cycles_def Let_def)
qed

lemma load_end:
  assumes "mach_ready (c, m, ia, b)" "a = arch_of (c, m, ia, b)" "w = isa_fetch a" "opcode_of w = 0x03"
    "addr = xreg a (rs1_of w) + isa_imm w" "d = decoder_control w" "aligned (funct3_of w) addr"
    "funct3_of w = 0b000 \<or> funct3_of w = 0b001 \<or> funct3_of w = 0b010 \<or> funct3_of w = 0b100 \<or> funct3_of w = 0b101"
    "requests c1 m False addr" "in_flight d c (c1\<lparr>dmem_req_valid_reg := False\<rparr>)" "alu_out_reg c1 = addr"
    "cycle_counter c1 = cycle_counter c + 3" "insn_counter c1 = insn_counter c"
    "load_counter c1 = load_counter c" "store_counter c1 = store_counter c"
    "\<not> sr_dmem_resp_valid_reg m'" "sr_mem m' = sr_mem m"
  shows "\<exists>x. mach_clock (after_load v c1, m', ia', b) = Some x \<and> mach_ready x \<and> arch_of x = isa_load_io v a"
proof -
  let ?c2 = "after_load v c1"
  note a = arch_of_fields [OF assms(2)]
  have ctl: "ctl c1 = d" "pc_saved c1 = pc_reg c" using assms(10) by (simp_all add: in_flight_def)
  have fl: "in_flight d c ?c2" using assms(10) by (simp add: in_flight_def after_load_def quiet_def)
  have "cpu_state ?c2 = WB" by (simp add: after_load_def)
  from wb_clock [OF fl this assms(16), of ia' b m ia] obtain x where x: "mach_clock (?c2, m', ia', b) = Some x" "mach_ready x"
    "arch_of x = dec_arch d a (pc_reg ?c2) (wb_data ?c2) (vec_result_reg ?c2) (sr_mem m')
      (cycle_counter ?c2 + 1) (insn_counter ?c2 + 1) (load_counter ?c2) (store_counter ?c2)"
    unfolding assms(2) by blast
  have "dec_arch d a pc' (wb_data ?c2) (vec_result_reg ?c2) mem cyc ins ld st = dec_arch d a pc' (dec_load d addr v) 0 mem cyc ins ld st"
    for pc' mem cyc ins ld st
    using assms(4,11) ctl unfolding assms(6)
    by (intro dec_arch_cong) (simp_all add: decoder_fields type_defs wb_data_def mem_data_extended_load after_load_def)
  then have "arch_of x = dec_arch d a (a_pc a + 4) (dec_load d addr v) 0 (a_mem a)
      (a_cycle a + 6) (a_insn a + 1) (a_load a + 1) (a_store a)"
    unfolding x(3) assms(17)
    using assms(12-15) ctl by (simp add: after_load_def pc_wires a ac_simps)
  also have "\<dots> = isa_load_io v a" by (rule load_io_dec_arch [OF assms(3-5,7,8,6)])
  finally show ?thesis using x(1,2) by blast
qed

section \<open>The clocks at the port\<close>

lemma store_request_clock:
  assumes "mach_of s = (c, m, ia, b)" "requests c m True addr" "dmem_req_ready s" "in_resetn i"
  shows "\<exists>s' m'. soc_clock i s = Some s' \<and> mach_of s' = (after_store c, m', pc_reg c, b) \<and> \<not> sr_dmem_resp_valid_reg m'
    \<and> sr_mem m' = stored c (sr_mem m) \<and> uart0 s' = uart_clock True (in_rx i) (uart_bus s) True (uart0 s)
    \<and> sim_use_par_txrx s' = sim_use_par_txrx s \<and> (par_tx s', par_tx_valid s') = par_tx_clock i s"
proof -
  have cs: "cpu s = c" "sram0 s = m" "imem_addr_reg s = ia" "break_hit s = b" using assms(1) by (simp_all add: mach_of_def)
  have c: "cpu_state c = MEM" "quiet c" "dmem_req_valid_reg c" "\<not> d_mem_read (ctl c)" "dmem_req_addr_reg c = addr"
    using assms(2) by (simp_all add: requests_def)
  note bus = requests_bus [OF assms(2)]
  have "fsm_clock True w True rv rd c = Some (after_store c)" for w rv rd
    using c by (simp add: fsm_clock_def fsm_mem_def Let_def pc_wires after_store_def)
  then have clock: "cpu_clock True w True rv rd c = Some (after_store c)" for w rv rd
    using c by (intro cpu_clock_quiet) simp_all
  obtain ack rxv rxl txb txv where par: "par_rx_clock i s = (ack, rxv, rxl)" "par_tx_clock i s = (txb, txv)"
    by (metis prod_cases3 surj_pair)
  show ?thesis
    using assms(3,4) bus c(5)
    by (simp add: soc_clock_def par clock cs mach_of_def sram_clock_def sram_step_def stored_def)
qed

lemma load_request_clock:
  assumes "mach_of s = (c, m, ia, b)" "requests c m False addr" "dmem_req_ready s" "in_resetn i"
  shows "\<exists>s'. soc_clock i s = Some s'
    \<and> mach_of s' = (load_sent c, m\<lparr>sr_dmem_addr_reg := addr, sr_dmem_resp_valid_reg := True\<rparr>, pc_reg c, b)
    \<and> dmem_raddr_reg s' = addr \<and> uart0 s' = uart_clock True (in_rx i) (uart_bus s) True (uart0 s)
    \<and> sim_use_par_txrx s' = sim_use_par_txrx s \<and> (par_tx s', par_tx_valid s') = par_tx_clock i s
    \<and> (par_rx_ack s', par_rx_valid_latch s', par_rx_latch s') = par_rx_clock i s"
proof -
  have cs: "cpu s = c" "sram0 s = m" "imem_addr_reg s = ia" "break_hit s = b" using assms(1) by (simp_all add: mach_of_def)
  have c: "cpu_state c = MEM" "quiet c" "dmem_req_valid_reg c" "d_mem_read (ctl c)"
    using assms(2) by (simp_all add: requests_def)
  note bus = requests_bus [OF assms(2)]
  have "fsm_clock True w True rv rd c = Some (load_sent c)" for w rv rd
    using c by (simp add: fsm_clock_def fsm_mem_def Let_def load_sent_def)
  then have clock: "cpu_clock True w True rv rd c = Some (load_sent c)" for w rv rd
    using c by (intro cpu_clock_quiet) simp_all
  obtain ack rxv rxl txb txv where par: "par_rx_clock i s = (ack, rxv, rxl)" "par_tx_clock i s = (txb, txv)"
    by (metis prod_cases3 surj_pair)
  show ?thesis
    using assms(3,4) bus by (simp add: soc_clock_def par clock cs mach_of_def sram_clock_def sram_step_def)
qed

lemma load_answer_clock:
  assumes "mach_of s = (load_sent c, m, ia, b)" "requests c m0 False addr" "dmem_resp_valid s" "dmem_resp_rdata s = v" "in_resetn i"
  shows "\<exists>s'. soc_clock i s = Some s'
    \<and> mach_of s' = (after_load v c, m\<lparr>sr_dmem_resp_valid_reg := False\<rparr>, pc_reg c, b)
    \<and> uart0 s' = uart_clock True (in_rx i) (uart_bus s) True (uart0 s) \<and> \<not> uq_valid (uart_bus s)
    \<and> sim_use_par_txrx s' = sim_use_par_txrx s \<and> (par_tx s', par_tx_valid s') = par_tx_clock i s"
proof -
  let ?c = "load_sent c"
  have cs: "cpu s = ?c" "sram0 s = m" "imem_addr_reg s = ia" "break_hit s = b" using assms(1) by (simp_all add: mach_of_def)
  have c: "cpu_state ?c = MEM" "quiet ?c" "\<not> dmem_req_valid_reg ?c" "d_mem_read (ctl ?c)" "pc_reg ?c = pc_reg c"
    using assms(2) by (simp_all add: requests_def load_sent_def quiet_def)
  note bus = quiet_requests [OF c(2)]
  have "fsm_clock True w rdy True v ?c = Some (after_load v c)" for w rdy
    using c by (simp add: fsm_clock_def fsm_mem_def Let_def pc_wires) (simp add: load_sent_def after_load_def pc_wires ac_simps)
  then have clock: "cpu_clock True w rdy True v ?c = Some (after_load v c)" for w rdy
    using c(1,2) by (intro cpu_clock_quiet) simp_all
  obtain ack rxv rxl txb txv where par: "par_rx_clock i s = (ack, rxv, rxl)" "par_tx_clock i s = (txb, txv)"
    by (metis prod_cases3 surj_pair)
  have "\<not> ebreak_hit ?c" using c(1) by (simp add: ebreak_hit_def)
  then show ?thesis
    using assms(3-5) bus c(3,5)
    by (simp add: soc_clock_def par clock cs mach_of_def sram_clock_def sram_step_def uart_bus_def)
qed

section \<open>Writing to the serial port\<close>

text \<open>A transmitter that is idle stays so until a request comes to its page.\<close>

definition tx_waits :: "soc \<Rightarrow> bool" where
  "tx_waits s \<longleftrightarrow> uart_req_ready (uart0 s) \<and> \<not> config_loopback (uart0 s) \<and> \<not> sim_use_par_txrx s"

lemma soc_clock_tx_waits:
  assumes "soc_clock i s = Some s'" "in_resetn i" "tx_waits s" "\<not> (uart_page (dmem_req_addr (cpu s)) \<and> dmem_req_valid (cpu s))"
  shows "tx_waits s'"
proof -
  have u: "uart0 s' = uart_clock True (in_rx i) (uart_bus s) True (uart0 s)" "sim_use_par_txrx s' = sim_use_par_txrx s"
    using assms(1,2) by (auto simp: soc_clock_def split: option.splits prod.splits)
  have "\<not> tx_accepts False (uart_bus s)" using assms(4) by (auto simp: tx_accepts_def uart_bus_def)
  then show ?thesis
    using assms(3) uart_clock_tx [of "uart0 s" "in_rx i" "uart_bus s" True]
    by (simp add: tx_waits_def u uart_req_ready_def uart_tx_step_def)
qed

lemma soc_run_tx_waits:
  assumes "mach_run n (mach_of s) = Some x" "port_ok s" "length ins = n" "\<forall>i \<in> set ins. in_resetn i" "tx_waits s"
  shows "\<exists>s'. soc_run ins s = Some s' \<and> mach_of s' = x \<and> port_ok s' \<and> tx_waits s'"
  using assms
proof (induction n arbitrary: s ins)
  case 0
  then show ?case by simp
next
  case (Suc n)
  obtain i js where ins: "ins = i # js" "in_resetn i" "length js = n" "\<forall>i \<in> set js. in_resetn i"
    using Suc.prems(3,4) by (cases ins) auto
  obtain y where y: "mach_clock (mach_of s) = Some y" "mach_run n y = Some x"
    using Suc.prems(1) by (auto split: option.splits)
  obtain s1 where s1: "soc_clock i s = Some s1" "mach_of s1 = y" "port_ok s1"
    using soc_refines_mach_clock [OF y(1) Suc.prems(2) ins(2)] by blast
  have "bus_ok (cpu s)" using y(1) by (simp add: mach_of_def split: if_splits)
  then have "tx_waits s1"
    using soc_clock_tx_waits [OF s1(1) ins(2) Suc.prems(5)] by (auto simp: bus_ok_def)
  with Suc.IH [of s1 js] s1 y(2) ins show ?case by simp
qed

lemma uart_store_result:
  assumes "soc_ready s" "tx_waits s" "a = soc_arch s" "w = isa_fetch a" "opcode_of w = 0x23"
    "funct3_of w = 0b000 \<or> funct3_of w = 0b001 \<or> funct3_of w = 0b010"
    "addr = xreg a (rs1_of w) + isa_imm w" "aligned (funct3_of w) addr" "uart_page addr" "(ucast addr :: i8) = 0"
    "length ins = 5" "\<forall>i \<in> set ins. in_resetn i"
  shows "\<exists>s'. soc_run ins s = Some s' \<and> soc_ready s' \<and> soc_arch s' = isa_step a
    \<and> tx_state (uart_tx_regs (uart0 s')) = TX_START \<and> data_to_send (uart_tx_regs (uart0 s')) = ucast (xreg a (rs2_of w))"
proof -
  obtain c m ia b where x: "mach_of s = (c, m, ia, b)" by (cases "mach_of s")
  have ready: "mach_ready (c, m, ia, b)" and port: "port_ok s" using assms(1) x by (simp_all add: soc_ready_def)
  have a: "a = arch_of (c, m, ia, b)" using assms(3) x by (simp add: soc_arch_def)
  from request_run [OF ready a assms(4) _ assms(7) refl] assms(5) obtain c1 where
    c1: "mach_run 3 (mach_of s) = Some (c1, m, pc_reg c, b)" "requests c1 m True addr"
      "in_flight (decoder_control w) c (c1\<lparr>dmem_req_valid_reg := False\<rparr>)"
      "cycle_counter c1 = cycle_counter c + 3" "insn_counter c1 = insn_counter c"
      "load_counter c1 = load_counter c" "store_counter c1 = store_counter c"
      "dmem_req_wdata_reg c1 = store_wdata (d_mem_mask (decoder_control w)) (xreg a (rs2_of w))"
      "dmem_req_wmask_reg c1 = store_wmask (d_mem_mask (decoder_control w)) addr"
    unfolding x by auto
  obtain i1 i2 i3 i4 i5 where ins: "ins = [i1, i2, i3] @ [i4, i5]"
    using assms(11) by (auto simp: length_Suc_conv eval_nat_numeral)
  have rst: "\<forall>i \<in> set [i1, i2, i3]. in_resetn i" "in_resetn i4" "in_resetn i5" using assms(12) ins by simp_all
  from soc_run_tx_waits [OF c1(1) port _ rst(1) assms(2)] obtain s3 where
    s3: "soc_run [i1, i2, i3] s = Some s3" "mach_of s3 = (c1, m, pc_reg c, b)" "port_ok s3" "tx_waits s3"
    by auto
  have "dmem_req_ready s3" using s3(4) by (simp add: dmem_req_ready_def tx_waits_def)
  from store_request_clock [OF s3(2) c1(2) this rst(2)] obtain s4 m' where s4: "soc_clock i4 s3 = Some s4"
    "mach_of s4 = (after_store c1, m', pc_reg c1, b)" "\<not> sr_dmem_resp_valid_reg m'" "sr_mem m' = stored c1 (sr_mem m)"
    "uart0 s4 = uart_clock True (in_rx i4) (uart_bus s3) True (uart0 s3)"
    by blast
  have q: "uq_valid (uart_bus s3)" "uq_write (uart_bus s3)" "uq_addr (uart_bus s3) = 0" "uq_data (uart_bus s3) = dmem_req_wdata_reg c1"
    using s3(2,4) assms(9,10) requests_bus [OF c1(2)] by (simp_all add: uart_bus_def mach_of_def tx_waits_def)
  have u: "uart_tx_regs (uart0 s4) = tx_load (ucast (dmem_req_wdata_reg c1)) (uart_tx_regs (uart0 s3))"
    "\<not> config_loopback (uart0 s4)" "\<not> uart_resp_valid (uart0 s4)"
    using s3(4) uart_clock_tx [of "uart0 s3" "in_rx i4" "uart_bus s3" True] q
    by (simp_all add: s4(5) tx_waits_def uart_req_ready_def uart_tx_step_def tx_accepts_def uart_clock_def uart_resp_step_def
        split: prod.split)
  have port4: "port_ok s4" using u(3) s4(2,3) by (simp add: port_ok_def mach_of_def)
  from store_end [OF ready a assms(4,5,7) refl assms(8,6) c1(2-9) s4(3,4)] obtain x' where
    x': "mach_clock (mach_of s4) = Some x'" "mach_ready x'" "arch_of x' = isa_step a"
    unfolding s4(2) by blast
  from soc_refines_mach_clock [OF x'(1) port4 rst(3)] obtain s5 where
    s5: "soc_clock i5 s4 = Some s5" "mach_of s5 = x'" "port_ok s5" by auto
  have u5: "uart0 s5 = uart_clock True (in_rx i5) (uart_bus s4) True (uart0 s4)"
    using s5(1) rst(3) by (auto simp: soc_clock_def split: option.splits prod.splits)
  have b: "(ucast (dmem_req_wdata_reg c1) :: i8) = ucast (xreg a (rs2_of w))"
    using store_wdata_low [of "d_mem_mask (decoder_control w)" "xreg a (rs2_of w)"] by (simp add: c1(8) lane_def)
  have "tx_state (uart_tx_regs (uart0 s5)) = TX_START" "data_to_send (uart_tx_regs (uart0 s5)) = ucast (xreg a (rs2_of w))"
    using uart_clock_tx [OF u(2), of "in_rx i5" "uart_bus s4" True]
    by (simp_all add: u5 u(1) uart_tx_step_def tx_load_def tx_bit_end_def CLOCK_DIV_def b del: tx_in_simps(1))
  moreover have "soc_run ins s = Some s5"
    unfolding ins soc_run_append using s3(1) s4(1) s5(1) by simp
  moreover have "soc_ready s5" "soc_arch s5 = isa_step a" using x' s5 by (simp_all add: soc_ready_def soc_arch_def)
  ultimately show ?thesis by blast
qed

section \<open>Reading the serial port's write-only registers\<close>

text \<open>A core that waits for an answer from the serial port which will not come.\<close>

definition stuck :: "soc \<Rightarrow> bool" where
  "stuck s \<longleftrightarrow> cpu_state (cpu s) = MEM \<and> quiet (cpu s) \<and> \<not> dmem_req_valid_reg (cpu s) \<and> d_mem_read (ctl (cpu s))
     \<and> uart_page (dmem_raddr_reg s) \<and> \<not> sim_use_par_txrx s \<and> \<not> uart_resp_valid (uart0 s)"

lemma stuck_clock:
  assumes "stuck s" "in_resetn i"
  shows "\<exists>s'. soc_clock i s = Some s' \<and> stuck s'"
proof -
  let ?c = "cpu s"
  have s: "cpu_state ?c = MEM" "quiet ?c" "\<not> dmem_req_valid_reg ?c" "d_mem_read (ctl ?c)" "uart_page (dmem_raddr_reg s)"
    "\<not> sim_use_par_txrx s" "\<not> uart_resp_valid (uart0 s)"
    using assms(1) by (simp_all add: stuck_def)
  note bus = quiet_requests [OF s(2)]
  have resp: "\<not> dmem_resp_valid s" using s(5-7) by (simp add: dmem_resp_valid_def)
  let ?c' = "?c\<lparr>cycle_counter := cycle_counter ?c + 1\<rparr>"
  have "fsm_clock True w rdy False rd ?c = Some ?c'" for w rdy rd
    using s(1,3,4) by (simp add: fsm_clock_def fsm_mem_def Let_def)
  then have clock: "cpu_clock True w rdy False rd ?c = Some ?c'" for w rdy rd
    using s(1,2) by (intro cpu_clock_quiet) simp_all
  have u: "\<not> uart_resp_valid (uart_clock True rx (uart_bus s) True (uart0 s))" for rx
    using s(3) bus by (simp add: uart_clock_def uart_resp_step_def uart_bus_def)
  obtain ack rxv rxl txb txv where par: "par_rx_clock i s = (ack, rxv, rxl)" "par_tx_clock i s = (txb, txv)"
    by (metis prod_cases3 surj_pair)
  show ?thesis
    using assms(2) s resp bus u by (simp add: soc_clock_def par clock stuck_def quiet_def)
qed

lemma stuck_run: "stuck s \<Longrightarrow> \<forall>i \<in> set ins. in_resetn i \<Longrightarrow> \<exists>s'. soc_run ins s = Some s' \<and> stuck s'"
proof (induction ins arbitrary: s)
  case Nil
  then show ?case by simp
next
  case (Cons i ins)
  obtain s1 where "soc_clock i s = Some s1" "stuck s1" using stuck_clock [of s i] Cons.prems by auto
  with Cons.IH [of s1] Cons.prems(2) show ?case by simp
qed

lemma uart_load_stuck:
  assumes "soc_ready s" "tx_waits s" "a = soc_arch s" "w = isa_fetch a" "opcode_of w = 0x03"
    "addr = xreg a (rs1_of w) + isa_imm w" "uart_page addr" "(ucast addr :: i8) \<noteq> 4" "(ucast addr :: i8) \<noteq> 8"
    "4 \<le> length ins" "\<forall>i \<in> set ins. in_resetn i"
  shows "\<exists>s'. soc_run ins s = Some s' \<and> stuck s'"
proof -
  obtain c m ia b where x: "mach_of s = (c, m, ia, b)" by (cases "mach_of s")
  have ready: "mach_ready (c, m, ia, b)" and port: "port_ok s" using assms(1) x by (simp_all add: soc_ready_def)
  have a: "a = arch_of (c, m, ia, b)" using assms(3) x by (simp add: soc_arch_def)
  from request_run [OF ready a assms(4) _ assms(6) refl] assms(5) obtain c1 where
    c1: "mach_run 3 (mach_of s) = Some (c1, m, pc_reg c, b)" "requests c1 m False addr"
    unfolding x by auto
  have ins: "ins = take 3 ins @ ins ! 3 # drop 4 ins"
    using assms(10) id_take_nth_drop [of 3 ins] by simp
  have rst: "\<forall>i \<in> set (take 3 ins). in_resetn i" "in_resetn (ins ! 3)" "\<forall>i \<in> set (drop 4 ins). in_resetn i"
    using assms(10,11) by (auto dest: in_set_takeD in_set_dropD)
  from soc_run_tx_waits [OF c1(1) port _ rst(1) assms(2)] obtain s3 where
    s3: "soc_run (take 3 ins) s = Some s3" "mach_of s3 = (c1, m, pc_reg c, b)" "port_ok s3" "tx_waits s3"
    using assms(10) by auto
  have "dmem_req_ready s3" using s3(4) by (simp add: dmem_req_ready_def tx_waits_def)
  from load_request_clock [OF s3(2) c1(2) this rst(2)] obtain s4 where s4: "soc_clock (ins ! 3) s3 = Some s4"
    "cpu s4 = load_sent c1" "dmem_raddr_reg s4 = addr" "sim_use_par_txrx s4 = sim_use_par_txrx s3"
    "uart0 s4 = uart_clock True (in_rx (ins ! 3)) (uart_bus s3) True (uart0 s3)"
    unfolding mach_of_def by auto
  have "\<not> uart_resp_valid (uart0 s4)"
    using assms(8,9) requests_bus [OF c1(2)] s3(2)
    by (simp add: s4(5) uart_clock_def uart_resp_step_def uart_bus_def mach_of_def split: prod.split)
  then have "stuck s4"
    using s3(4) s4(2-4) c1(2) assms(7) by (simp add: stuck_def requests_def load_sent_def quiet_def tx_waits_def)
  from stuck_run [OF this rst(3)] s3(1) s4(1) show ?thesis
    by (subst ins, subst soc_run_append) simp
qed

end
