(* ===== verification/Console.thy ===== *)
theory Console
  imports Soc_Ports
begin

text \<open>
  The system with the parallel port, as the simulator uses it: what a program stores to the port's
  page goes out byte by byte, and a load from it takes the byte that is offered at that clock.
\<close>

section \<open>Runs with their output\<close>

text \<open>What the parallel port shows after a clock: the byte it puts out, if any, and the acknowledgment of a byte it took.\<close>

type_synonym pins = "i8 option \<times> bool"

definition port_pins :: "soc \<Rightarrow> pins" where
  "port_pins s = (if par_tx_valid s then Some (par_tx s) else None, par_rx_ack s)"

abbreviation quiet_pins :: "nat \<Rightarrow> pins list" where
  "quiet_pins n \<equiv> replicate n (None, False)"

fun soc_pins :: "soc_in list \<Rightarrow> soc \<Rightarrow> (pins list \<times> soc) option" where
  "soc_pins [] s = Some ([], s)"
| "soc_pins (i # ins) s =
    (case soc_clock i s of None \<Rightarrow> None
     | Some s1 \<Rightarrow> (case soc_pins ins s1 of None \<Rightarrow> None | Some (ps, s') \<Rightarrow> Some (port_pins s1 # ps, s')))"

lemma soc_pins_append:
  "soc_pins (is @ js) s = (case soc_pins is s of None \<Rightarrow> None
     | Some (ps, s1) \<Rightarrow> (case soc_pins js s1 of None \<Rightarrow> None | Some (qs, s') \<Rightarrow> Some (ps @ qs, s')))"
  by (induction "is" s rule: soc_pins.induct) (auto split: option.splits)

lemma soc_pins_length: "soc_pins ins s = Some (ps, s') \<Longrightarrow> length ps = length ins"
  by (induction ins s arbitrary: ps rule: soc_pins.induct) (auto split: option.splits prod.splits)

lemma soc_clock_par:
  assumes "soc_clock i s = Some s'"
  shows "(par_rx_ack s', par_rx_valid_latch s', par_rx_latch s') = par_rx_clock i s" "(par_tx s', par_tx_valid s') = par_tx_clock i s"
    "in_resetn i \<Longrightarrow> sim_use_par_txrx s' = sim_use_par_txrx s"
  using assms by (auto simp: soc_clock_def split: option.splits prod.splits)

text \<open>The port does nothing at a clock without a request to its page.\<close>

lemma port_pins_quiet:
  assumes "soc_clock i s = Some s'" "in_resetn i" "\<not> (dmem_req_valid (cpu s) \<and> uart_page (dmem_req_addr (cpu s)))"
  shows "port_pins s' = (None, False)"
  using soc_clock_par(1,2) [OF assms(1)] assms(2,3) by (auto simp: par_rx_clock_def par_tx_clock_def port_pins_def)

lemma mach_clock_pins:
  assumes "mach_clock (mach_of s) = Some x" "port_ok s" "in_resetn i"
  shows "\<exists>s'. soc_clock i s = Some s' \<and> mach_of s' = x \<and> port_ok s' \<and> port_pins s' = (None, False)
    \<and> sim_use_par_txrx s' = sim_use_par_txrx s"
proof -
  obtain s' where s': "soc_clock i s = Some s'" "mach_of s' = x" "port_ok s'"
    using soc_refines_mach_clock [OF assms] by blast
  have "bus_ok (cpu s)" using assms(1) by (simp add: mach_of_def split: if_splits)
  then have "\<not> (dmem_req_valid (cpu s) \<and> uart_page (dmem_req_addr (cpu s)))" by (auto simp: bus_ok_def)
  with s' soc_clock_par(3) [OF s'(1) assms(3)] port_pins_quiet [OF s'(1) assms(3)] show ?thesis by blast
qed

lemma mach_run_pins:
  assumes "mach_run n (mach_of s) = Some x" "port_ok s" "length ins = n" "\<forall>i \<in> set ins. in_resetn i"
  shows "\<exists>s'. soc_pins ins s = Some (quiet_pins n, s') \<and> mach_of s' = x \<and> port_ok s' \<and> sim_use_par_txrx s' = sim_use_par_txrx s"
  using assms
proof (induction n arbitrary: s ins)
  case 0
  then show ?case by simp
next
  case (Suc n)
  obtain i js where ins: "ins = i # js" "in_resetn i" "length js = n" "\<forall>i \<in> set js. in_resetn i"
    using Suc.prems(3,4) by (cases ins) auto
  obtain y where y: "mach_clock (mach_of s) = Some y" "mach_run n y = Some x"
    using Suc.prems(1) by (auto split: option.splits)
  obtain s1 where s1: "soc_clock i s = Some s1" "mach_of s1 = y" "port_ok s1" "port_pins s1 = (None, False)"
    "sim_use_par_txrx s1 = sim_use_par_txrx s"
    using mach_clock_pins [OF y(1) Suc.prems(2) ins(2)] by blast
  with Suc.IH [of s1 js] y(2) ins show ?case by auto
qed

section \<open>Specification\<close>

text \<open>
  What a load from the page is answered: the status register reads as 0, any other address as the
  byte offered at the clock of the request with bit 8 set, or 0.
\<close>

definition port_answer :: "soc_in \<Rightarrow> i32 \<Rightarrow> i32" where
  "port_answer i addr =
    (if (ucast addr :: 12 word) = 0x008 \<or> \<not> in_par_rx_valid i then 0 else word_cat (1 :: 24 word) (in_par_rx i))"

definition access_addr :: "arch \<Rightarrow> i32" where
  "access_addr a = xreg a (rs1_of (isa_fetch a)) + isa_imm (isa_fetch a)"

definition page_load :: "arch \<Rightarrow> bool" where
  "page_load a \<longleftrightarrow> opcode_of (isa_fetch a) = 0x03 \<and> uart_page (access_addr a)"
definition page_store :: "arch \<Rightarrow> bool" where
  "page_store a \<longleftrightarrow> opcode_of (isa_fetch a) = 0x23 \<and> uart_page (access_addr a)"

text \<open>
  One instruction; \<open>i\<close> are the inputs at its fourth clock, the one of a memory request.  A store puts
  its low byte out at that clock, a load acknowledges the byte it finds there.
\<close>

definition io_step :: "soc_in \<Rightarrow> arch \<Rightarrow> pins list \<times> arch" where
  "io_step i a =
    (if page_load a then (quiet_pins 3 @ (None, in_par_rx_valid i) # quiet_pins 2, isa_load_io (port_answer i (access_addr a)) a)
     else if page_store a then (quiet_pins 3 @ (Some (lane 0 (xreg a (rs2_of (isa_fetch a)))), False) # quiet_pins 1, isa_step a)
     else (quiet_pins (isa_cycles (isa_fetch a)), isa_step a))"

definition io_supported :: "arch \<Rightarrow> bool" where
  "io_supported a \<longleftrightarrow>
    (let f3 = funct3_of (isa_fetch a) in
     if page_load a then (f3 = 0b000 \<or> f3 = 0b001 \<or> f3 = 0b010 \<or> f3 = 0b100 \<or> f3 = 0b101) \<and> aligned f3 (access_addr a)
     else if page_store a then (f3 = 0b000 \<or> f3 = 0b001 \<or> f3 = 0b010) \<and> aligned f3 (access_addr a)
     else isa_supported a)"

fun io_run :: "nat \<Rightarrow> soc_in list \<Rightarrow> arch \<Rightarrow> pins list \<times> arch" where
  "io_run 0 ins a = ([], a)"
| "io_run (Suc k) ins a =
    (case io_step (ins ! 3) a of (out, a') \<Rightarrow>
      case io_run k (drop (isa_cycles (isa_fetch a)) ins) a' of (outs, a'') \<Rightarrow> (out @ outs, a''))"

fun io_run_supported :: "nat \<Rightarrow> soc_in list \<Rightarrow> arch \<Rightarrow> bool" where
  "io_run_supported 0 ins a = True"
| "io_run_supported (Suc k) ins a \<longleftrightarrow>
    io_supported a \<and> io_run_supported k (drop (isa_cycles (isa_fetch a)) ins) (snd (io_step (ins ! 3) a))"

fun io_run_cycles :: "nat \<Rightarrow> soc_in list \<Rightarrow> arch \<Rightarrow> nat" where
  "io_run_cycles 0 ins a = 0"
| "io_run_cycles (Suc k) ins a =
    isa_cycles (isa_fetch a) + io_run_cycles k (drop (isa_cycles (isa_fetch a)) ins) (snd (io_step (ins ! 3) a))"

section \<open>One instruction\<close>

text \<open>Without the serial port every request is accepted, and only the memory answers.\<close>

lemma par_mode_wires:
  assumes "sim_use_par_txrx s"
  shows "dmem_req_ready s" "dmem_resp_valid s = sr_dmem_resp_valid_reg (sram0 s)" "\<not> uq_valid (uart_bus s)"
    "\<not> uart_resp_valid (uart_clock True rx (uart_bus s) True u)"
    "uart_page (dmem_raddr_reg s) \<Longrightarrow> dmem_resp_rdata s = (if (ucast (dmem_raddr_reg s) :: 12 word) = 0x008 then 0
       else word_cat (of_bool (par_rx_valid_latch s) :: 24 word) (par_rx_latch s))"
  using assms by (simp_all add: dmem_req_ready_def dmem_resp_valid_def uart_bus_def dmem_resp_rdata_def
      uart_clock_def uart_resp_step_def split: prod.split)

lemma page_store_instruction:
  assumes "soc_ready s" "sim_use_par_txrx s" "a = soc_arch s" "page_store a" "io_supported a"
    "length ins = 5" "\<forall>i \<in> set ins. in_resetn i"
  shows "\<exists>s'. soc_pins ins s = Some (quiet_pins 3 @ (Some (lane 0 (xreg a (rs2_of (isa_fetch a)))), False) # quiet_pins 1, s') \<and> soc_ready s' \<and> sim_use_par_txrx s'
    \<and> soc_arch s' = isa_step a"
proof -
  obtain c m ia b where x: "mach_of s = (c, m, ia, b)" by (cases "mach_of s")
  have ready: "mach_ready (c, m, ia, b)" and port: "port_ok s" using assms(1) x by (simp_all add: soc_ready_def)
  have a: "a = arch_of (c, m, ia, b)" using assms(3) x by (simp add: soc_arch_def)
  define w where "w = isa_fetch a"
  have w: "opcode_of w = 0x23" "uart_page (access_addr a)" "\<not> page_load a"
    using assms(4) by (auto simp: page_store_def page_load_def w_def)
  have sup: "funct3_of w = 0b000 \<or> funct3_of w = 0b001 \<or> funct3_of w = 0b010" "aligned (funct3_of w) (access_addr a)"
    using assms(4,5) w(3) by (simp_all add: io_supported_def Let_def w_def)
  have addr: "access_addr a = xreg a (rs1_of w) + isa_imm w" by (simp add: access_addr_def w_def)
  from request_run [OF ready a w_def _ addr refl] w(1) obtain c1 where
    c1: "mach_run 3 (mach_of s) = Some (c1, m, pc_reg c, b)" "requests c1 m True (access_addr a)"
      "in_flight (decoder_control w) c (c1\<lparr>dmem_req_valid_reg := False\<rparr>)"
      "cycle_counter c1 = cycle_counter c + 3" "insn_counter c1 = insn_counter c"
      "load_counter c1 = load_counter c" "store_counter c1 = store_counter c"
      "dmem_req_wdata_reg c1 = store_wdata (d_mem_mask (decoder_control w)) (xreg a (rs2_of w))"
      "dmem_req_wmask_reg c1 = store_wmask (d_mem_mask (decoder_control w)) (access_addr a)"
    unfolding x by auto
  obtain i1 i2 i3 i4 i5 where ins: "ins = [i1, i2, i3] @ [i4, i5]"
    using assms(6) by (auto simp: length_Suc_conv eval_nat_numeral)
  have rst: "\<forall>i \<in> set [i1, i2, i3]. in_resetn i" "in_resetn i4" "in_resetn i5" using assms(7) ins by simp_all
  from mach_run_pins [OF c1(1) port _ rst(1)] assms(2) obtain s3 where
    s3: "soc_pins [i1, i2, i3] s = Some (quiet_pins 3, s3)" "mach_of s3 = (c1, m, pc_reg c, b)" "port_ok s3" "sim_use_par_txrx s3"
    by auto
  note par = par_mode_wires [OF s3(4)]
  from store_request_clock [OF s3(2) c1(2) par(1) rst(2)] obtain s4 m' where s4: "soc_clock i4 s3 = Some s4"
    "mach_of s4 = (after_store c1, m', pc_reg c1, b)" "\<not> sr_dmem_resp_valid_reg m'" "sr_mem m' = stored c1 (sr_mem m)"
    "uart0 s4 = uart_clock True (in_rx i4) (uart_bus s3) True (uart0 s3)" "sim_use_par_txrx s4"
    "(par_tx s4, par_tx_valid s4) = par_tx_clock i4 s3"
    using s3(4) by blast
  have port4: "port_ok s4" using par(4) s4(2,3) by (simp add: port_ok_def mach_of_def s4(5))
  have "(ucast (dmem_req_wdata_reg c1) :: i8) = lane 0 (xreg a (rs2_of w))"
    using store_wdata_low [of "d_mem_mask (decoder_control w)" "xreg a (rs2_of w)"] by (simp add: c1(8) lane_def)
  then have out4: "port_pins s4 = (Some (lane 0 (xreg a (rs2_of w))), False)"
    using s4(7) soc_clock_par(1) [OF s4(1)] s3(2,4) rst(2) w(2) requests_bus [OF c1(2)]
    by (simp add: port_pins_def par_tx_clock_def par_rx_clock_def mach_of_def)
  from store_end [OF ready a w_def w(1) addr refl sup(2,1) c1(2-9) s4(3,4)] obtain x' where
    x': "mach_clock (mach_of s4) = Some x'" "mach_ready x'" "arch_of x' = isa_step a"
    unfolding s4(2) by blast
  from mach_clock_pins [OF x'(1) port4 rst(3)] s4(6) obtain s5 where
    s5: "soc_clock i5 s4 = Some s5" "mach_of s5 = x'" "port_ok s5" "port_pins s5 = (None, False)" "sim_use_par_txrx s5" by auto
  have "soc_pins ins s = Some (quiet_pins 3 @ (Some (lane 0 (xreg a (rs2_of w))), False) # quiet_pins 1, s5)"
    unfolding ins soc_pins_append using s3(1) s4(1) s5(1,4) out4 by simp
  then show ?thesis using x' s5 by (simp add: soc_ready_def soc_arch_def w_def)
qed

lemma page_load_instruction:
  assumes "soc_ready s" "sim_use_par_txrx s" "a = soc_arch s" "page_load a" "io_supported a"
    "length ins = 6" "\<forall>i \<in> set ins. in_resetn i"
  shows "\<exists>s'. soc_pins ins s = Some (quiet_pins 3 @ (None, in_par_rx_valid (ins ! 3)) # quiet_pins 2, s') \<and> soc_ready s'
    \<and> sim_use_par_txrx s' \<and> soc_arch s' = isa_load_io (port_answer (ins ! 3) (access_addr a)) a"
proof -
  obtain c m ia b where x: "mach_of s = (c, m, ia, b)" by (cases "mach_of s")
  have ready: "mach_ready (c, m, ia, b)" and port: "port_ok s" using assms(1) x by (simp_all add: soc_ready_def)
  have a: "a = arch_of (c, m, ia, b)" using assms(3) x by (simp add: soc_arch_def)
  define w where "w = isa_fetch a"
  have w: "opcode_of w = 0x03" "uart_page (access_addr a)"
    using assms(4) by (auto simp: page_load_def w_def)
  have sup: "funct3_of w = 0b000 \<or> funct3_of w = 0b001 \<or> funct3_of w = 0b010 \<or> funct3_of w = 0b100 \<or> funct3_of w = 0b101"
    "aligned (funct3_of w) (access_addr a)"
    using assms(4,5) by (simp_all add: io_supported_def Let_def w_def)
  have addr: "access_addr a = xreg a (rs1_of w) + isa_imm w" by (simp add: access_addr_def w_def)
  from request_run [OF ready a w_def _ addr refl] w(1) obtain c1 where
    c1: "mach_run 3 (mach_of s) = Some (c1, m, pc_reg c, b)" "requests c1 m False (access_addr a)"
      "in_flight (decoder_control w) c (c1\<lparr>dmem_req_valid_reg := False\<rparr>)" "alu_out_reg c1 = access_addr a"
      "cycle_counter c1 = cycle_counter c + 3" "insn_counter c1 = insn_counter c"
      "load_counter c1 = load_counter c" "store_counter c1 = store_counter c"
    unfolding x by auto
  obtain i1 i2 i3 i4 i5 i6 where ins: "ins = [i1, i2, i3] @ [i4, i5, i6]"
    using assms(6) by (auto simp: length_Suc_conv eval_nat_numeral)
  have rst: "\<forall>i \<in> set [i1, i2, i3]. in_resetn i" "in_resetn i4" "in_resetn i5" "in_resetn i6" using assms(7) ins by simp_all
  from mach_run_pins [OF c1(1) port _ rst(1)] assms(2) obtain s3 where
    s3: "soc_pins [i1, i2, i3] s = Some (quiet_pins 3, s3)" "mach_of s3 = (c1, m, pc_reg c, b)" "port_ok s3" "sim_use_par_txrx s3"
    by auto
  note par = par_mode_wires [OF s3(4)]
  from load_request_clock [OF s3(2) c1(2) par(1) rst(2)] obtain s4 where s4: "soc_clock i4 s3 = Some s4"
    "mach_of s4 = (load_sent c1, m\<lparr>sr_dmem_addr_reg := access_addr a, sr_dmem_resp_valid_reg := True\<rparr>, pc_reg c1, b)"
    "dmem_raddr_reg s4 = access_addr a" "sim_use_par_txrx s4" "(par_tx s4, par_tx_valid s4) = par_tx_clock i4 s3"
    "(par_rx_ack s4, par_rx_valid_latch s4, par_rx_latch s4) = par_rx_clock i4 s3"
    using s3(4) by auto
  have "par_rx_clock i4 s3 = (if in_par_rx_valid i4 then (True, True, in_par_rx i4) else (False, False, 0))"
    using s3(2,4) rst(2) w(2) requests_bus [OF c1(2)] by (simp add: par_rx_clock_def mach_of_def)
  then have latch: "par_rx_ack s4 = in_par_rx_valid i4" "par_rx_valid_latch s4 = in_par_rx_valid i4" "par_rx_latch s4 = (if in_par_rx_valid i4 then in_par_rx i4 else 0)"
    using s4(6) by (auto split: if_splits)
  note par4 = par_mode_wires [OF s4(4)]
  have valid: "dmem_resp_valid s4" using par4(2) s4(2) by (simp add: mach_of_def)
  have "(word_cat (0 :: 24 word) (0 :: i8) :: i32) = 0" by code_simp
  then have answer: "dmem_resp_rdata s4 = port_answer i4 (access_addr a)"
    using par4(5) s4(3) w(2) latch by (simp add: port_answer_def)
  from load_answer_clock [OF s4(2) c1(2) valid answer rst(3)] obtain s5 where s5: "soc_clock i5 s4 = Some s5"
    "mach_of s5 = (after_load (port_answer i4 (access_addr a)) c1,
       m\<lparr>sr_dmem_addr_reg := access_addr a, sr_dmem_resp_valid_reg := False\<rparr>, pc_reg c1, b)"
    "uart0 s5 = uart_clock True (in_rx i5) (uart_bus s4) True (uart0 s4)" "sim_use_par_txrx s5"
    "(par_tx s5, par_tx_valid s5) = par_tx_clock i5 s4" "\<not> uq_valid (uart_bus s4)"
    using s4(4) by auto
  have "\<not> uart_resp_valid (uart0 s5)" unfolding s5(3) by (rule par4(4))
  moreover have "\<not> sr_dmem_resp_valid_reg (sram0 s5)" using s5(2) by (simp add: mach_of_def)
  ultimately have port5: "port_ok s5" by (simp add: port_ok_def)
  have "\<not> dmem_req_write (cpu s3)" using requests_bus [OF c1(2)] s3(2) by (simp add: mach_of_def)
  then have out4: "port_pins s4 = (None, in_par_rx_valid i4)"
    using s4(5) rst(2) latch(1) by (simp add: port_pins_def par_tx_clock_def)
  have "quiet (load_sent c1)" "\<not> dmem_req_valid_reg (load_sent c1)"
    using c1(2) by (simp_all add: requests_def load_sent_def quiet_def)
  then have "\<not> dmem_req_valid (cpu s4)" using quiet_requests(1) [of "load_sent c1"] s4(2) by (simp add: mach_of_def)
  then have out5: "port_pins s5 = (None, False)" using port_pins_quiet [OF s5(1) rst(3)] by simp
  from load_end [OF ready a w_def w(1) addr refl sup(2,1) c1(2-8), of "m\<lparr>sr_dmem_addr_reg := access_addr a, sr_dmem_resp_valid_reg := False\<rparr>"
      "port_answer i4 (access_addr a)" "pc_reg c1"] obtain x' where
    x': "mach_clock (mach_of s5) = Some x'" "mach_ready x'" "arch_of x' = isa_load_io (port_answer i4 (access_addr a)) a"
    unfolding s5(2) by auto
  from mach_clock_pins [OF x'(1) port5 rst(4)] s5(4) obtain s6 where
    s6: "soc_clock i6 s5 = Some s6" "mach_of s6 = x'" "port_ok s6" "port_pins s6 = (None, False)" "sim_use_par_txrx s6" by auto
  have "soc_pins ins s = Some (quiet_pins 3 @ (None, in_par_rx_valid i4) # quiet_pins 2, s6)"
    unfolding ins soc_pins_append using s3(1) s4(1) s5(1) s6(1,4) out4 out5 by (simp add: numeral_2_eq_2)
  moreover have "ins ! 3 = i4" by (simp add: ins)
  ultimately show ?thesis using x' s6 by (simp add: soc_ready_def soc_arch_def)
qed

lemma io_instruction:
  assumes "soc_ready s" "sim_use_par_txrx s" "a = soc_arch s" "io_supported a"
    "length ins = isa_cycles (isa_fetch a)" "\<forall>i \<in> set ins. in_resetn i"
  shows "\<exists>s'. soc_pins ins s = Some (fst (io_step (ins ! 3) a), s') \<and> soc_ready s' \<and> sim_use_par_txrx s'
    \<and> soc_arch s' = snd (io_step (ins ! 3) a)"
proof -
  consider "page_load a" | "\<not> page_load a" "page_store a" | "\<not> page_load a" "\<not> page_store a" by blast
  then show ?thesis
  proof cases
    case 1
    then have "length ins = 6" using assms(5) by (simp add: page_load_def isa_cycles_def)
    from page_load_instruction [OF assms(1-3) 1 assms(4) this assms(6)] 1 show ?thesis by (simp add: io_step_def)
  next
    case 2
    then have "length ins = 5" using assms(5) by (simp add: page_store_def isa_cycles_def)
    from page_store_instruction [OF assms(1-3) 2(2) assms(4) this assms(6)] 2 show ?thesis by (simp add: io_step_def)
  next
    case 3
    then have sup: "isa_supported (arch_of (mach_of s))"
      using assms(3,4) by (simp add: io_supported_def Let_def soc_arch_def)
    have ready: "mach_ready (mach_of s)" "port_ok s" using assms(1) by (simp_all add: soc_ready_def)
    obtain x where x: "mach_run (isa_cycles (isa_fetch a)) (mach_of s) = Some x" "mach_ready x" "arch_of x = isa_step a"
      using isa_instruction [OF ready(1) sup] assms(3) by (auto simp: runs_to_def soc_arch_def)
    from mach_run_pins [OF x(1) ready(2) assms(5,6)] x(2,3) assms(2) 3 show ?thesis
      by (auto simp: io_step_def soc_ready_def soc_arch_def)
  qed
qed

section \<open>Programs\<close>

lemma io_step_take: "io_step (take (isa_cycles (isa_fetch a)) ins ! 3) a = io_step (ins ! 3) a"
  by (cases "page_load a") (simp_all add: io_step_def, simp add: page_load_def isa_cycles_def)

lemma console_run:
  "soc_ready s \<Longrightarrow> sim_use_par_txrx s \<Longrightarrow> io_run_supported k ins (soc_arch s) \<Longrightarrow>
    length ins = io_run_cycles k ins (soc_arch s) \<Longrightarrow> \<forall>i \<in> set ins. in_resetn i \<Longrightarrow>
    \<exists>s'. soc_pins ins s = Some (fst (io_run k ins (soc_arch s)), s') \<and> soc_ready s' \<and> sim_use_par_txrx s'
      \<and> soc_arch s' = snd (io_run k ins (soc_arch s))"
proof (induction k arbitrary: s ins)
  case 0
  then show ?case by simp
next
  case (Suc k)
  let ?a = "soc_arch s"
  let ?n = "isa_cycles (isa_fetch ?a)"
  have len: "length (take ?n ins) = ?n" using Suc.prems(4) by simp
  have rst: "\<forall>i \<in> set (take ?n ins). in_resetn i" "\<forall>i \<in> set (drop ?n ins). in_resetn i"
    using Suc.prems(5) by (auto dest: in_set_takeD in_set_dropD)
  from io_instruction [OF Suc.prems(1,2) refl _ len rst(1)] Suc.prems(3) io_step_take [of ?a ins] obtain s1 where
    s1: "soc_pins (take ?n ins) s = Some (fst (io_step (ins ! 3) ?a), s1)" "soc_ready s1" "sim_use_par_txrx s1"
      "soc_arch s1 = snd (io_step (ins ! 3) ?a)"
    by auto
  from Suc.IH [OF s1(2,3), of "drop ?n ins"] Suc.prems(3,4) rst(2) obtain s2 where
    s2: "soc_pins (drop ?n ins) s1 = Some (fst (io_run k (drop ?n ins) (soc_arch s1)), s2)" "soc_ready s2"
      "sim_use_par_txrx s2" "soc_arch s2 = snd (io_run k (drop ?n ins) (soc_arch s1))"
    by (auto simp: s1(4))
  have "soc_pins (take ?n ins @ drop ?n ins) s =
      Some (fst (io_step (ins ! 3) ?a) @ fst (io_run k (drop ?n ins) (soc_arch s1)), s2)"
    unfolding soc_pins_append using s1(1) s2(1) by simp
  then show ?case using s2 s1(4) by (simp add: split_beta)
qed

end
