(* ===== verification/Uart_Driver.thy ===== *)
theory Uart_Driver
  imports Uart
begin

text \<open>
  The host's end of the serial line, class \<open>UARTBitDriver\<close> of the simulator (top.cc): one call of
  \<open>tick\<close> and one of \<open>get_tx_line\<close> and \<open>sample_rx\<close> per clock.  It is proved to understand the port
  of uart.v and to be understood by it.
\<close>

section \<open>The driver\<close>

record uart_driver =
  drv_cycle :: i64
  drv_bit :: i64
  drv_tx_byte :: i8
  drv_tx_index :: int
  drv_tx_start :: i64
  drv_rx_index :: int
  drv_rx_start :: i64
  drv_rx_byte :: i8
  drv_rx_prev :: bool

text \<open>The constructor leaves \<open>tx_byte\<close> and \<open>rx_bit_start_cycle\<close>'s use to later calls; \<open>b\<close> is what \<open>tx_byte\<close> happens to hold.\<close>

definition driver_new :: "i64 \<Rightarrow> i64 \<Rightarrow> i8 \<Rightarrow> uart_driver" where
  "driver_new clk_freq baud_rate b = \<lparr>drv_cycle = 0, drv_bit = clk_freq div baud_rate, drv_tx_byte = b, drv_tx_index = - 1,
     drv_tx_start = 0, drv_rx_index = - 1, drv_rx_start = 0, drv_rx_byte = 0, drv_rx_prev = True\<rparr>"

definition driver_tick :: "uart_driver \<Rightarrow> uart_driver" where
  "driver_tick d = d\<lparr>drv_cycle := drv_cycle d + 1\<rparr>"

definition driver_is_idle :: "uart_driver \<Rightarrow> bool" where
  "driver_is_idle d \<longleftrightarrow> drv_tx_index d = - 1"

definition driver_start_tx :: "i8 \<Rightarrow> uart_driver \<Rightarrow> bool \<times> uart_driver" where
  "driver_start_tx b d =
    (if drv_tx_index d \<noteq> - 1 then (False, d)
     else (True, d\<lparr>drv_tx_byte := b, drv_tx_index := 0, drv_tx_start := drv_cycle d\<rparr>))"

definition driver_get_tx_line :: "uart_driver \<Rightarrow> bool \<times> uart_driver" where
  "driver_get_tx_line d =
    (if drv_tx_index d = - 1 then (True, d)
     else
       let d1 = (if drv_cycle d - drv_tx_start d \<ge> drv_bit d then
                   d\<lparr>drv_tx_index := (if drv_tx_index d + 1 \<ge> 10 then - 1 else drv_tx_index d + 1), drv_tx_start := drv_cycle d\<rparr>
                 else d)
       in (if drv_tx_index d1 = 0 then False
           else if drv_tx_index d1 \<ge> 1 \<and> drv_tx_index d1 \<le> 8 then bit (drv_tx_byte d1) (nat (drv_tx_index d1 - 1))
           else True, d1))"

definition driver_sample_rx :: "bool \<Rightarrow> uart_driver \<Rightarrow> i8 option \<times> uart_driver" where
  "driver_sample_rx rx_line d =
    (let d1 = (if drv_rx_index d = - 1 \<and> drv_rx_prev d \<and> \<not> rx_line
               then d\<lparr>drv_rx_index := 0, drv_rx_start := drv_cycle d, drv_rx_byte := 0\<rparr> else d);
         d2 = d1\<lparr>drv_rx_prev := rx_line\<rparr>;
         k = drv_rx_index d2;
         bit_elapsed = drv_cycle d2 - drv_rx_start d2;
         middle = (bit_elapsed \<ge> drv_bit d2 div 2 \<and> bit_elapsed < drv_bit d2 div 2 + 1)
     in if k = - 1 then (None, d2)
        else if middle \<and> (k = 0 \<and> rx_line \<or> k = 9 \<and> \<not> rx_line) then (None, d2\<lparr>drv_rx_index := - 1\<rparr>)
        else
          let d3 = (if middle \<and> k \<ge> 1 \<and> k \<le> 8 \<and> rx_line
                    then d2\<lparr>drv_rx_byte := drv_rx_byte d2 OR push_bit (nat (k - 1)) 1\<rparr> else d2)
          in if bit_elapsed \<ge> drv_bit d2 then
               (if k + 1 \<ge> 10 then (Some (drv_rx_byte d3), d3\<lparr>drv_rx_index := - 1, drv_rx_start := drv_cycle d3\<rparr>)
                else (None, d3\<lparr>drv_rx_index := k + 1, drv_rx_start := drv_cycle d3\<rparr>))
             else (None, d3))"

section \<open>Receiving\<close>

text \<open>One clock of the receiving side.\<close>

definition driver_rcv :: "bool \<Rightarrow> uart_driver \<Rightarrow> uart_driver \<times> i8 list" where
  "driver_rcv x d = (case driver_sample_rx x (driver_tick d) of (r, d') \<Rightarrow> (d', case r of None \<Rightarrow> [] | Some b \<Rightarrow> [b]))"

text \<open>The driver \<open>j\<close> clocks into bit \<open>k\<close> of a frame, with \<open>B\<close> received so far and \<open>x\<close> the last level.\<close>

definition in_bit :: "nat \<Rightarrow> nat \<Rightarrow> i8 \<Rightarrow> bool \<Rightarrow> uart_driver \<Rightarrow> bool" where
  "in_bit k j B x d \<longleftrightarrow> drv_bit d = of_nat CLOCK_DIV \<and> drv_rx_index d = int k \<and> drv_cycle d - drv_rx_start d = of_nat j
     \<and> drv_rx_byte d = B \<and> drv_rx_prev d = x"

definition driver_rests :: "uart_driver \<Rightarrow> bool" where
  "driver_rests d \<longleftrightarrow> drv_bit d = of_nat CLOCK_DIV \<and> drv_rx_index d = - 1 \<and> drv_rx_prev d"

definition sampled :: "nat \<Rightarrow> bool \<Rightarrow> i8 \<Rightarrow> i8" where
  "sampled k x B = (if 1 \<le> k \<and> k \<le> 8 \<and> x then B OR push_bit (k - 1) 1 else B)"

lemma small_word: "n < 2 ^ 64 \<Longrightarrow> unat (of_nat n :: i64) = n"
  by (simp add: unat_of_nat)

lemma elapsed_tick: "c - s = of_nat j \<Longrightarrow> c + 1 - s = (of_nat (Suc j) :: i64)"
  by (metis add.commute add_diff_eq of_nat_Suc)

lemma word_of_nat_le: "m < 2 ^ 64 \<Longrightarrow> n < 2 ^ 64 \<Longrightarrow> (of_nat m :: i64) \<le> of_nat n \<longleftrightarrow> m \<le> n"
  by (simp add: word_le_nat_alt small_word)

lemma word_of_nat_less: "m < 2 ^ 64 \<Longrightarrow> n < 2 ^ 64 \<Longrightarrow> (of_nat m :: i64) < of_nat n \<longleftrightarrow> m < n"
  by (simp add: word_less_nat_alt small_word)

lemma in_bit_step:
  assumes "in_bit k j B x' d" "j < 433" "k \<le> 9" "k = 0 \<Longrightarrow> \<not> x" "k = 9 \<Longrightarrow> x"
  shows "\<exists>d'. driver_rcv x d = (d', []) \<and> in_bit k (Suc j) (if Suc j = 217 then sampled k x B else B) x d'"
proof -
  have e: "drv_cycle d + 1 - drv_rx_start d = of_nat (Suc j)" using assms(1) by (intro elapsed_tick) (simp add: in_bit_def)
  have half: "(of_nat CLOCK_DIV :: i64) div 2 = 217" by (simp add: CLOCK_DIV_def)
  have mid: "(217 :: i64) \<le> of_nat (Suc j) \<longleftrightarrow> 217 \<le> Suc j" "(of_nat (Suc j) :: i64) < 218 \<longleftrightarrow> Suc j < 218"
    using assms(2) word_of_nat_le [of 217 "Suc j"] word_of_nat_less [of "Suc j" 218] by (simp_all del: of_nat_Suc)
  have ge: "\<not> (of_nat CLOCK_DIV \<le> (of_nat (Suc j) :: i64))"
    using assms(2) word_of_nat_le [of CLOCK_DIV "Suc j"] by (simp add: CLOCK_DIV_def)
  have k: "int k \<noteq> - 1" "int k = 0 \<longleftrightarrow> k = 0" "int k = 9 \<longleftrightarrow> k = 9" "1 \<le> int k \<longleftrightarrow> 1 \<le> k" "int k \<le> 8 \<longleftrightarrow> k \<le> 8"
    "nat (int k - 1) = k - 1" by auto
  have d: "drv_bit d = of_nat CLOCK_DIV" "drv_rx_index d = int k" "drv_rx_byte d = B" using assms(1) by (simp_all add: in_bit_def)
  show ?thesis
    using assms(4,5)
    by (cases "k = 0") (auto simp: driver_rcv_def driver_tick_def driver_sample_rx_def Let_def d e half mid ge k in_bit_def sampled_def simp del: of_nat_Suc)
qed

lemma in_bit_next:
  assumes "in_bit k 433 B x' d" "k < 9"
  shows "\<exists>d'. driver_rcv x d = (d', []) \<and> in_bit (Suc k) 0 B x d'"
proof -
  have e: "drv_cycle d + 1 - drv_rx_start d = of_nat 434" using assms(1) elapsed_tick [of "drv_cycle d" "drv_rx_start d" 433]
    by (simp add: in_bit_def)
  have half: "(of_nat CLOCK_DIV :: i64) div 2 = of_nat 217" by (simp add: CLOCK_DIV_def)
  have mid: "\<not> ((of_nat 434 :: i64) < of_nat 217 + 1)" "(of_nat CLOCK_DIV :: i64) \<le> of_nat 434" by (simp_all add: CLOCK_DIV_def)
  have d: "drv_bit d = of_nat CLOCK_DIV" "drv_rx_index d = int k" "drv_rx_byte d = B" using assms(1) by (simp_all add: in_bit_def)
  have k: "int k \<noteq> - 1" "\<not> 10 \<le> int k + 1" using assms(2) by simp_all
  show ?thesis
    by (simp add: driver_rcv_def driver_tick_def driver_sample_rx_def Let_def d e half mid k in_bit_def del: of_nat_numeral)
qed

lemma rests_start:
  assumes "driver_rests d"
  shows "\<exists>d'. driver_rcv False d = (d', []) \<and> in_bit 0 0 0 False d'"
  using assms by (simp add: driver_rests_def driver_rcv_def driver_tick_def driver_sample_rx_def Let_def in_bit_def CLOCK_DIV_def)

lemma last_bit_end:
  assumes "in_bit 9 433 B x' d"
  shows "\<exists>d'. driver_rcv True d = (d', [B]) \<and> driver_rests d'"
proof -
  have e: "drv_cycle d + 1 - drv_rx_start d = of_nat 434" using assms(1) elapsed_tick [of "drv_cycle d" "drv_rx_start d" 433]
    by (simp add: in_bit_def)
  have half: "(of_nat CLOCK_DIV :: i64) div 2 = of_nat 217" by (simp add: CLOCK_DIV_def)
  have mid: "\<not> ((of_nat 434 :: i64) < of_nat 217 + 1)" "(of_nat CLOCK_DIV :: i64) \<le> of_nat 434" by (simp_all add: CLOCK_DIV_def)
  have d: "drv_bit d = of_nat CLOCK_DIV" "drv_rx_index d = 9" "drv_rx_byte d = B" using assms(1) by (simp_all add: in_bit_def)
  show ?thesis
    by (simp add: driver_rcv_def driver_tick_def driver_sample_rx_def Let_def d e half mid driver_rests_def del: of_nat_numeral)
qed


text \<open>A whole bit, and a whole frame.\<close>

lemma in_bit_run:
  "in_bit k j B x' d \<Longrightarrow> j + n \<le> 433 \<Longrightarrow> k \<le> 9 \<Longrightarrow> (k = 0 \<Longrightarrow> \<not> x) \<Longrightarrow> (k = 9 \<Longrightarrow> x) \<Longrightarrow>
    \<exists>d'. line_run driver_rcv (replicate n x) d = (d', []) \<and>
      in_bit k (j + n) (if j < 217 \<and> 217 \<le> j + n then sampled k x B else B) (if n = 0 then x' else x) d'"
proof (induction n arbitrary: j B x' d)
  case 0
  then show ?case by auto
next
  case (Suc n)
  obtain d1 where d1: "driver_rcv x d = (d1, [])" "in_bit k (Suc j) (if Suc j = 217 then sampled k x B else B) x d1"
    using in_bit_step [OF Suc.prems(1) _ Suc.prems(3-5)] Suc.prems(2) by auto
  from Suc.IH [OF d1(2)] Suc.prems(2-5) obtain d2 where "line_run driver_rcv (replicate n x) d1 = (d2, [])"
    "in_bit k (Suc j + n) (if Suc j < 217 \<and> 217 \<le> Suc j + n then sampled k x (if Suc j = 217 then sampled k x B else B)
       else (if Suc j = 217 then sampled k x B else B)) x d2"
    by fastforce
  moreover have "(if Suc j < 217 \<and> 217 \<le> Suc j + n then sampled k x (if Suc j = 217 then sampled k x B else B)
       else (if Suc j = 217 then sampled k x B else B)) = (if j < 217 \<and> 217 \<le> j + Suc n then sampled k x B else B)"
    by auto
  ultimately show ?case using d1(1) by simp
qed

lemma whole_bit:
  assumes "in_bit k 433 B x' d" "k < 9" "Suc k = 9 \<Longrightarrow> x"
  shows "\<exists>d'. line_run driver_rcv (replicate 434 x) d = (d', []) \<and> in_bit (Suc k) 433 (sampled (Suc k) x B) x d'"
proof -
  obtain d1 where d1: "driver_rcv x d = (d1, [])" "in_bit (Suc k) 0 B x d1" using in_bit_next [OF assms(1,2)] by blast
  from in_bit_run [OF d1(2), of 433 x] assms(2,3) obtain d2 where
    "line_run driver_rcv (replicate 433 x) d1 = (d2, [])" "in_bit (Suc k) 433 (sampled (Suc k) x B) x d2" by auto
  moreover have "replicate 434 x = x # replicate 433 x" by (simp flip: replicate_Suc)
  ultimately show ?thesis using d1(1) by simp
qed

definition frame_part :: "i8 \<Rightarrow> nat \<Rightarrow> bool list" where
  "frame_part b n = concat (map (replicate CLOCK_DIV) (False # map (bit b) [0..<n]))"

lemma frame_part_simps:
  "frame_part b 0 = False # replicate 433 False" "frame_part b (Suc n) = frame_part b n @ replicate 434 (bit b n)"
  "uart_frame b = frame_part b 8 @ replicate 434 True"
  by (simp_all add: frame_part_def uart_frame_def CLOCK_DIV_def flip: replicate_Suc)

lemma data_bits:
  assumes "driver_rests d" "n \<le> 8"
  shows "\<exists>d' x. line_run driver_rcv (frame_part b n) d = (d', [])
    \<and> in_bit n 433 (take_bit n b) x d'"
  using assms(2)
proof (induction n)
  case 0
  obtain d1 where d1: "driver_rcv False d = (d1, [])" "in_bit 0 0 0 False d1" using rests_start [OF assms(1)] by blast
  from in_bit_run [OF d1(2), of 433 False] obtain d2 where
    "line_run driver_rcv (replicate 433 False) d1 = (d2, [])" "in_bit 0 433 0 False d2" by (auto simp: sampled_def)
  then show ?case using d1(1) by (auto simp: frame_part_simps(1))
next
  case (Suc n)
  then obtain d1 x where d1: "line_run driver_rcv (frame_part b n) d = (d1, [])"
    "in_bit n 433 (take_bit n b) x d1" by auto
  have "sampled (Suc n) (bit b n) (take_bit n b) = take_bit (Suc n) b"
    using Suc.prems by (intro bit_word_eqI) (auto simp: sampled_def bit_simps less_Suc_eq)
  with whole_bit [OF d1(2), of "bit b n"] Suc.prems obtain d2 where
    "line_run driver_rcv (replicate 434 (bit b n)) d1 = (d2, [])" "in_bit (Suc n) 433 (take_bit (Suc n) b) (bit b n) d2" by auto
  then show ?case using d1(1) by (auto simp: line_run_append frame_part_simps(2))
qed

lemma driver_frame:
  assumes "driver_rests d"
  shows "\<exists>d'. line_run driver_rcv (uart_frame b) d = (d', []) \<and> in_bit 9 433 b True d'"
proof -
  obtain d1 x where d1: "line_run driver_rcv (frame_part b 8) d = (d1, [])"
    "in_bit 8 433 (take_bit 8 b) x d1" using data_bits [OF assms, of 8 b] by auto
  moreover have "take_bit 8 b = b" using take_bit_length_eq [of b] by simp
  moreover have "sampled 9 True b = b" by (simp add: sampled_def)
  ultimately obtain d2 where "line_run driver_rcv (replicate 434 True) d1 = (d2, [])" "in_bit 9 433 b True d2"
    using whole_bit [of 8 b x d1 True] by auto
  then show ?thesis using d1(1) by (auto simp: frame_part_simps(3) line_run_append)
qed

interpretation driver_rx_line: line_receiver driver_rcv
  "\<lambda>p d. p = [] \<and> driver_rests d \<or> (\<exists>b. p = [b] \<and> in_bit 9 433 b True d)" driver_rests
proof
  fix p d assume "p = [] \<and> driver_rests d \<or> (\<exists>b. p = [b] \<and> in_bit 9 433 b True d)"
  then show "snd (driver_rcv True d) = p \<and> driver_rests (fst (driver_rcv True d))"
  proof
    assume "p = [] \<and> driver_rests d"
    then show ?thesis
      by (simp add: driver_rests_def driver_rcv_def driver_tick_def driver_sample_rx_def Let_def)
  next
    assume "\<exists>b. p = [b] \<and> in_bit 9 433 b True d"
    then show ?thesis using last_bit_end by force
  qed
next
  fix d b assume "driver_rests d"
  from driver_frame [OF this, of b] show "\<exists>p. snd (line_run driver_rcv (uart_frame b) d) @ p = [b]
    \<and> (p = [] \<and> driver_rests (fst (line_run driver_rcv (uart_frame b) d))
       \<or> (\<exists>b'. p = [b'] \<and> in_bit 9 433 b' True (fst (line_run driver_rcv (uart_frame b) d))))"
    by force
qed simp


section \<open>Sending\<close>

text \<open>One clock of the sending side with an optional request to send: the level, the bytes accepted, and the driver.\<close>

definition driver_snd :: "i8 option \<Rightarrow> uart_driver \<Rightarrow> bool \<times> i8 list \<times> uart_driver" where
  "driver_snd req d =
    (let d1 = driver_tick d;
         (acc, d2) = (case req of None \<Rightarrow> ([], d1) | Some b \<Rightarrow> case driver_start_tx b d1 of (ok, d') \<Rightarrow> (if ok then [b] else [], d'));
         (x, d3) = driver_get_tx_line d2
     in (x, acc, d3))"

fun driver_sends :: "i8 option list \<Rightarrow> uart_driver \<Rightarrow> bool list \<times> i8 list \<times> uart_driver" where
  "driver_sends [] d = ([], [], d)"
| "driver_sends (req # reqs) d =
    (case driver_snd req d of (x, acc, d1) \<Rightarrow> case driver_sends reqs d1 of (xs, accs, d2) \<Rightarrow> (x # xs, acc @ accs, d2))"

lemma driver_sends_append:
  "driver_sends (ps @ qs) d = (case driver_sends ps d of (xs, acc, d1) \<Rightarrow>
     case driver_sends qs d1 of (ys, acc', d2) \<Rightarrow> (xs @ ys, acc @ acc', d2))"
  by (induction ps arbitrary: d) (simp_all add: split_beta)

text \<open>The driver after \<open>m + 1\<close> clocks of a frame, and the level at clock \<open>m\<close>.\<close>

definition in_frame :: "nat \<Rightarrow> i8 \<Rightarrow> uart_driver \<Rightarrow> bool" where
  "in_frame m b d \<longleftrightarrow> drv_bit d = of_nat CLOCK_DIV \<and> drv_tx_index d = int (m div 434) \<and> drv_tx_byte d = b
     \<and> drv_cycle d - drv_tx_start d = of_nat (m mod 434) \<and> m < 4340"

definition snd_idle :: "uart_driver \<Rightarrow> bool" where
  "snd_idle d \<longleftrightarrow> drv_bit d = of_nat CLOCK_DIV \<and> driver_is_idle d"

definition frame_level :: "i8 \<Rightarrow> nat \<Rightarrow> bool" where
  "frame_level b m = (if m div 434 = 0 then False else if m div 434 \<le> 8 then bit b (m div 434 - 1) else True)"

lemma in_frame_step:
  assumes "in_frame m b d" "Suc m < 4340"
  shows "\<exists>d'. driver_snd req d = (frame_level b (Suc m), [], d') \<and> in_frame (Suc m) b d'"
proof -
  let ?k = "m div 434"
  have d: "drv_bit d = of_nat CLOCK_DIV" "drv_tx_index d = int ?k" "drv_tx_byte d = b"
    "drv_cycle d + 1 - drv_tx_start d = of_nat (Suc (m mod 434))"
    using assms(1) by (simp_all add: in_frame_def elapsed_tick del: of_nat_Suc)
  have busy: "int ?k \<noteq> - 1" by simp
  show ?thesis
  proof (cases "Suc (m mod 434) = 434")
    case True
    then have m: "Suc m div 434 = Suc ?k" "Suc m mod 434 = 0" by (simp_all add: div_Suc mod_Suc)
    have "Suc m div 434 < 10" using assms(2) by (intro less_mult_imp_div_less) simp
    then have k: "Suc ?k < 10" by (simp only: m(1))
    have full: "drv_cycle d + 1 - drv_tx_start d = of_nat CLOCK_DIV" using d(4) True by (simp add: CLOCK_DIV_def)
    have i: "\<not> 10 \<le> int ?k + 1" "int ?k + 1 \<noteq> 0" "1 \<le> int ?k + 1" "int ?k + 1 \<le> 8 \<longleftrightarrow> Suc ?k \<le> 8" "nat (int ?k + 1 - 1) = ?k"
      "int ?k + 1 \<noteq> - 1"
      using k by auto
    show ?thesis
      using assms(2) m
      by (cases req) (simp_all add: driver_snd_def driver_tick_def driver_start_tx_def driver_get_tx_line_def Let_def d(1-3) full busy i
          in_frame_def frame_level_def)
  next
    case False
    then have m: "Suc m div 434 = ?k" "Suc m mod 434 = Suc (m mod 434)" by (simp_all add: div_Suc mod_Suc)
    have "Suc (m mod 434) < 434" using False mod_less_divisor [of 434 m] by linarith
    then have wait: "\<not> of_nat CLOCK_DIV \<le> (of_nat (Suc (m mod 434)) :: i64)"
      using word_of_nat_le [of CLOCK_DIV "Suc (m mod 434)"] by (simp add: CLOCK_DIV_def)
    have i: "int ?k = 0 \<longleftrightarrow> ?k = 0" "1 \<le> int ?k \<longleftrightarrow> ?k \<noteq> 0" "int ?k \<le> 8 \<longleftrightarrow> ?k \<le> 8" "nat (int ?k - 1) = ?k - 1" by auto
    show ?thesis
      using assms(2)
      by (cases req) (auto simp: driver_snd_def driver_tick_def driver_start_tx_def driver_get_tx_line_def Let_def d wait busy i
          in_frame_def frame_level_def m simp del: of_nat_Suc)
  qed
qed

lemma in_frame_end:
  assumes "in_frame 4339 b d"
  shows "\<exists>d'. driver_snd req d = (True, [], d') \<and> snd_idle d'"
proof -
  have d: "drv_bit d = of_nat CLOCK_DIV" "drv_tx_index d = 9" "drv_cycle d + 1 - drv_tx_start d = of_nat CLOCK_DIV"
    using assms elapsed_tick [of "drv_cycle d" "drv_tx_start d" 433] by (simp_all add: in_frame_def CLOCK_DIV_def)
  show ?thesis
    by (cases req) (simp_all add: driver_snd_def driver_tick_def driver_start_tx_def driver_get_tx_line_def Let_def d snd_idle_def
        driver_is_idle_def)
qed

lemma snd_idle_step:
  assumes "snd_idle d"
  shows "\<exists>d'. driver_snd None d = (True, [], d') \<and> snd_idle d'" "\<exists>d'. driver_snd (Some b) d = (False, [b], d') \<and> in_frame 0 b d'"
  using assms
  by (simp_all add: driver_snd_def driver_tick_def driver_start_tx_def driver_get_tx_line_def Let_def snd_idle_def driver_is_idle_def
      in_frame_def CLOCK_DIV_def)

lemma in_frame_run:
  "in_frame m b d \<Longrightarrow> m + length reqs < 4340 \<Longrightarrow>
    \<exists>d'. driver_sends reqs d = (map (frame_level b) [Suc m..<Suc m + length reqs], [], d') \<and> in_frame (m + length reqs) b d'"
proof (induction reqs arbitrary: m d)
  case Nil
  then show ?case by simp
next
  case (Cons req reqs)
  obtain d1 where d1: "driver_snd req d = (frame_level b (Suc m), [], d1)" "in_frame (Suc m) b d1"
    using in_frame_step [OF Cons.prems(1)] Cons.prems(2) by auto
  obtain d2 where "driver_sends reqs d1 = (map (frame_level b) [Suc (Suc m)..<Suc (Suc m) + length reqs], [], d2)"
    "in_frame (Suc m + length reqs) b d2"
    using Cons.IH [OF d1(2)] Cons.prems(2) by auto
  moreover have "[Suc m..<Suc m + length (req # reqs)] = Suc m # [Suc (Suc m)..<Suc (Suc m) + length reqs]"
    by (subst upt_conv_Cons) simp_all
  ultimately show ?case using d1(1) by (simp del: upt_Suc)
qed

lemma frame_part_levels: "n \<le> 8 \<Longrightarrow> frame_part b n = map (frame_level b) [0..<434 * Suc n]"
proof (induction n)
  case 0
  have "map (frame_level b) [0..<434] = replicate 434 False"
    by (intro replicate_eqI) (auto simp: frame_level_def)
  then show ?case by (simp add: frame_part_simps(1) flip: replicate_Suc)
next
  case (Suc n)
  have "[0..<434 * Suc (Suc n)] = [0..<434 * Suc n] @ [434 * Suc n..<434 * Suc n + 434]"
    by (subst upt_add_eq_append [symmetric]) simp_all
  moreover have "map (frame_level b) [434 * Suc n..<434 * Suc n + 434] = replicate 434 (bit b n)"
  proof (intro replicate_eqI)
    fix x assume "x \<in> set (map (frame_level b) [434 * Suc n..<434 * Suc n + 434])"
    then obtain m where m: "x = frame_level b m" "434 * Suc n \<le> m" "m < 434 * Suc n + 434" by auto
    then have "m div 434 = Suc n" by (intro div_nat_eqI) simp_all
    with m(1) Suc.prems show "x = bit b n" by (simp add: frame_level_def)
  qed simp
  ultimately show ?case using Suc by (simp add: frame_part_simps(2))
qed

text \<open>The frame after its first clock.\<close>

definition frame_tail :: "i8 \<Rightarrow> bool list" where
  "frame_tail b = map (frame_level b) [1..<434 * Suc 8 + 434]"

lemma uart_frame_levels: "uart_frame b = False # frame_tail b"
proof -
  have "map (frame_level b) [434 * Suc 8..<434 * Suc 8 + 434] = replicate 434 True"
  proof (intro replicate_eqI)
    fix x assume "x \<in> set (map (frame_level b) [434 * Suc 8..<434 * Suc 8 + 434])"
    then have "x \<in> frame_level b ` {434 * Suc 8..<434 * Suc 8 + 434}" by (simp only: set_map set_upt)
    then obtain m where m: "x = frame_level b m" "m \<in> {434 * Suc 8..<434 * Suc 8 + 434}" by (rule imageE)
    from m(2) have "m div 434 = 9" by (intro div_nat_eqI) simp_all
    with m(1) show "x = True" by (simp add: frame_level_def)
  qed (simp only: length_map length_upt add_diff_cancel_left')
  then have "uart_frame b = map (frame_level b) [0..<434 * Suc 8 + 434]"
    by (simp only: frame_part_simps(3) frame_part_levels [of 8 b] order_refl upt_add_eq_append [of 0 "434 * Suc 8" 434] map_append le0)
  also have "[0..<434 * Suc 8 + 434] = 0 # [1..<434 * Suc 8 + 434]" by (subst upt_conv_Cons) simp_all
  finally show ?thesis by (simp only: frame_tail_def list.map) (simp add: frame_level_def)
qed

lemma length_frame_tail: "length (frame_tail b) = 4339"
  unfolding frame_tail_def length_map length_upt by simp

lemma in_frame_tail:
  assumes "in_frame 0 b d" "length reqs = 4339"
  shows "\<exists>d'. driver_sends reqs d = (frame_tail b, [], d') \<and> in_frame 4339 b d'"
proof -
  have "Suc 0 + length reqs = 434 * Suc 8 + 434" using assms(2) by simp
  with in_frame_run [OF assms(1), of reqs] assms(2) show ?thesis by (simp only: frame_tail_def One_nat_def) simp
qed

text \<open>From idle to idle the driver puts whole frames on the line, one for every byte it accepts.\<close>

lemma driver_line:
  "snd_idle d \<Longrightarrow> driver_sends reqs d = (xs, acc, d') \<Longrightarrow> snd_idle d' \<Longrightarrow>
    \<exists>segs. True # xs = line_of segs @ [True] \<and> acc = bytes_of segs"
proof (induction "length reqs" arbitrary: reqs d xs acc rule: less_induct)
  case less
  show ?case
  proof (cases reqs)
    case Nil
    then show ?thesis using less.prems(2) by (intro exI [of _ "[]"]) simp
  next
    case (Cons req rest)
    show ?thesis
    proof (cases req)
      case None
      obtain d1 where d1: "driver_snd None d = (True, [], d1)" "snd_idle d1" using snd_idle_step(1) [OF less.prems(1)] by blast
      obtain ys where ys: "driver_sends rest d1 = (ys, acc, d')" "xs = True # ys"
        using less.prems(2) d1(1) by (auto simp: Cons None split: prod.splits)
      from less.hyps [OF _ d1(2) ys(1) less.prems(3)] obtain segs where "True # ys = line_of segs @ [True]" "acc = bytes_of segs"
        by (auto simp: Cons)
      then show ?thesis using ys(2) by (intro exI [of _ "None # segs"]) simp
    next
      case (Some b)
      obtain d1 where d1: "driver_snd (Some b) d = (False, [b], d1)" "in_frame 0 b d1" using snd_idle_step(2) [OF less.prems(1)] by blast
      have long: "4340 \<le> length rest"
      proof (rule ccontr)
        assume "\<not> 4340 \<le> length rest"
        with in_frame_run [OF d1(2), of rest] obtain d2 where "snd (snd (driver_sends rest d1)) = d2" "in_frame (length rest) b d2"
          by auto
        with less.prems(2,3) d1(1) show False
          by (auto simp: Cons Some snd_idle_def driver_is_idle_def in_frame_def split: prod.splits)
      qed
      define ps where "ps = take 4339 rest"
      obtain q rs where rest: "rest = ps @ q # rs" "length ps = 4339"
        using long id_take_nth_drop [of 4339 rest] by (auto simp: ps_def)
      obtain d2 where d2: "driver_sends ps d1 = (frame_tail b, [], d2)" "in_frame 4339 b d2"
        using in_frame_tail [OF d1(2) rest(2)] by blast
      obtain d3 where d3: "driver_snd q d2 = (True, [], d3)" "snd_idle d3" using in_frame_end [OF d2(2)] by blast
      obtain ys acc' where ys: "driver_sends rs d3 = (ys, acc', d')"
        "xs = False # frame_tail b @ True # ys" "acc = b # acc'"
        using less.prems(2) d1(1) d2(1) d3(1) by (auto simp: Cons Some rest driver_sends_append split: prod.splits)
      from less.hyps [OF _ d3(2) ys(1) less.prems(3)] obtain segs where "True # ys = line_of segs @ [True]" "acc' = bytes_of segs"
        by (auto simp: Cons rest)
      then show ?thesis using ys(2,3) by (intro exI [of _ "Some b # segs"]) (simp add: uart_frame_levels)
    qed
  qed
qed

section \<open>The link\<close>

text \<open>
  C7.  The two ends of the serial line understand each other.  The bytes the host's driver decodes
  from the output pin of a port are exactly the bytes the port's bus was accepted to send, and the
  bytes a port reports from the driver's line are exactly those the driver accepted, for every
  sequence of requests and every phase, once the sender is idle again.
\<close>

theorem host_serial_link:
  assumes "\<not> config_loopback u" "uart_req_ready u" "uart_req_ready (snd (uart_line ins u))" "driver_rests d"
    "snd_idle e" "driver_sends reqs e = (xs, acc, e')" "snd_idle e'"
    "rx_state (uart_rx_regs v) = RX_IDLE" "rx_line_prev (uart_rx_regs v)" "length ins' = length xs"
  shows "snd (line_run driver_rcv (fst (uart_line ins u) @ [True]) d) = uart_accepted ins u
    \<and> uart_received xs ins' v = acc"
proof
  let ?qs = "map (fst \<circ> snd) ins"
  obtain segs where segs: "fst (uart_line ins u) = line_of segs" "uart_accepted ins u = bytes_of segs"
    using tx_line [of "uart_tx_regs u" ?qs] assms(1-3) uart_line_tx_run [OF assms(1), of ins] uart_accepted_tx [OF assms(1), of ins]
    by (auto simp: uart_req_ready_def)
  show "snd (line_run driver_rcv (fst (uart_line ins u) @ [True]) d) = uart_accepted ins u"
    unfolding segs using assms(4) by (intro driver_rx_line.line_delivered) simp
next
  let ?r = "uart_rx_regs v"
  obtain segs where segs: "True # xs = line_of segs @ [True]" "acc = bytes_of segs" using driver_line [OF assms(5-7)] by blast
  let ?r1 = "?r\<lparr>rx_line_prev := True, rx_byte_valid := False\<rparr>"
  have "snd (line_run uart_rcv (True # xs) ?r) = acc"
    unfolding segs using assms(8) by (intro uart_rx_line.line_delivered) simp
  moreover have "uart_rx_step True True ?r = ?r1" using assms(8) by (simp add: uart_rx_step_def Let_def)
  ultimately have "fst (rx_run xs ?r1) = acc" by (simp add: uart_rcv_def Let_def line_run_uart)
  moreover have "uart_rx_step True x ?r1 = uart_rx_step True x ?r" for x
    using assms(8,9) by (cases ?r) (simp add: uart_rx_step_def Let_def)
  then have "fst (rx_run xs ?r1) = fst (rx_run xs ?r)" by (cases xs) (simp_all add: Let_def split_beta)
  ultimately show "uart_received xs ins' v = acc" using uart_received_rx_run [OF assms(10)] by simp
qed

text \<open>Both ends new, one byte each way.\<close>

lemma driver_new_ready: "driver_rests (driver_new 50000000 115200 b)" "snd_idle (driver_new 50000000 115200 b)"
  by (simp_all add: driver_rests_def snd_idle_def driver_is_idle_def driver_new_def CLOCK_DIV_def)

theorem host_serial_link_witness:
  "\<exists>xs e'. driver_sends (Some 0x42 # replicate 4340 None) (driver_new 50000000 115200 0) = (xs, [0x42], e')
    \<and> snd (line_run driver_rcv (fst (uart_line (uart_send_one 0x41) uart_quiet) @ [True]) (driver_new 50000000 115200 0)) = [0x41]
    \<and> uart_received xs (replicate 4341 (uart_rest, True)) uart_quiet = [0x42]"
proof -
  let ?d = "driver_new 50000000 115200 0"
  obtain d1 where d1: "driver_snd (Some 0x42) ?d = (False, [0x42], d1)" "in_frame 0 0x42 d1"
    using snd_idle_step(2) [OF driver_new_ready(2)] by blast
  obtain d2 where d2: "driver_sends (replicate 4339 None) d1 = (frame_tail 0x42, [], d2)" "in_frame 4339 0x42 d2"
    using in_frame_tail [OF d1(2), of "replicate 4339 None"] by auto
  obtain d3 where d3: "driver_snd None d2 = (True, [], d3)" "snd_idle d3" using in_frame_end [OF d2(2)] by blast
  let ?xs = "False # frame_tail 0x42 @ [True]"
  have reqs: "replicate 4340 (None :: i8 option) = replicate 4339 None @ [None]"
    by (simp add: replicate_append_same flip: replicate_Suc)
  have send: "driver_sends (Some 0x42 # replicate 4340 None) ?d = (?xs, [0x42], d3)"
    by (simp add: reqs driver_sends_append d1(1) d2(1) d3(1))
  have loop: "\<not> config_loopback uart_quiet" by (simp add: uart_quiet_def)
  have "snd (line_run driver_rcv (fst (uart_line (uart_send_one 0x41) uart_quiet) @ [True]) ?d) = uart_accepted (uart_send_one 0x41) uart_quiet
      \<and> uart_received ?xs (replicate 4341 (uart_rest, True)) uart_quiet = [0x42]"
    by (rule host_serial_link [OF loop _ _ driver_new_ready send d3(2)])
      (use uart_send_one_run in \<open>simp_all add: uart_quiet_def uart_req_ready_def length_frame_tail\<close>)
  with send uart_send_one_run show ?thesis by auto
qed

end
