(* ===== verification/Hex_Loader.thy ===== *)
theory Hex_Loader
  imports Prelude "HOL-Library.Char_ord"
begin

text \<open>
  Loading a program image (sim/libSimHelper.cc): \<open>init\<close> fills the instruction buffer with break
  instructions, and \<open>validate_and_load_binary\<close> reads a text of hexadecimal numbers and address
  directives into it.  Of the C library the model has \<open>fgets\<close> and the conversions \<open>%x\<close> and \<open>%n\<close> of
  \<open>sscanf\<close>, after the C standard; a number beyond 32 bits, whose conversion the standard leaves
  undefined, and a write outside the buffer are the error \<open>Undefined\<close>.
\<close>

section \<open>The C library\<close>

text \<open>\<open>fgets\<close> with room for \<open>n\<close> characters: the line, its newline included, and the rest of the file.\<close>

fun fgets :: "nat \<Rightarrow> string \<Rightarrow> string \<times> string" where
  "fgets 0 cs = ([], cs)"
| "fgets (Suc n) [] = ([], [])"
| "fgets (Suc n) (c # cs) = (if c = CHR 0x0A then ([c], cs) else case fgets n cs of (l, rest) \<Rightarrow> (c # l, rest))"

definition c_string :: "string \<Rightarrow> string" where
  "c_string cs = takeWhile (\<lambda>c. c \<noteq> CHR 0x00) cs"

definition isspace :: "char \<Rightarrow> bool" where
  "isspace c \<longleftrightarrow> c \<in> set [CHR 0x20, CHR 0x09, CHR 0x0A, CHR 0x0B, CHR 0x0C, CHR 0x0D]"

definition hex_digit :: "char \<Rightarrow> nat option" where
  "hex_digit c = (let n = of_char c :: nat in
     if 48 \<le> n \<and> n \<le> 57 then Some (n - 48) else if 97 \<le> n \<and> n \<le> 102 then Some (n - 87)
     else if 65 \<le> n \<and> n \<le> 70 then Some (n - 55) else None)"

definition hex_number :: "string \<Rightarrow> nat" where
  "hex_number ds = foldl (\<lambda>v c. 16 * v + the (hex_digit c)) 0 ds"

text \<open>\<open>sscanf(s, "%x%n", ...)\<close>: white space, a sign, a prefix, digits; the value and the characters read.\<close>

datatype scan = No_Match | Out_Of_Range | Scanned i32 nat

definition hex_prefix :: "string \<Rightarrow> bool" where
  "hex_prefix s \<longleftrightarrow> take 2 s = ''0x'' \<or> take 2 s = ''0X''"

definition scan_hex :: "string \<Rightarrow> scan" where
  "scan_hex s =
    (let s1 = dropWhile isspace s;
         neg = (take 1 s1 = ''-'');
         s2 = (if neg \<or> take 1 s1 = ''+'' then tl s1 else s1);
         s3 = (if hex_prefix s2 then drop 2 s2 else s2);
         ds = takeWhile (\<lambda>c. hex_digit c \<noteq> None) s3
     in if ds = [] then No_Match
        else if hex_number ds \<ge> 2 ^ 32 then Out_Of_Range
        else Scanned (if neg then - of_nat (hex_number ds) else of_nat (hex_number ds)) (length s - length s3 + length ds))"

section \<open>The buffer\<close>

text \<open>\<open>init\<close>: the word 0x00100073 (ebreak) in every word of the buffer.\<close>

definition init_imem :: "(nat \<Rightarrow> i8) \<Rightarrow> nat \<Rightarrow> i8" where
  "init_imem imem =
    (let ebreak = 0x00100073 :: i32 in
     for_loop 0 0x1000000 4 (\<lambda>i imem. imem(i := ucast (drop_bit 0 ebreak), i + 1 := ucast (drop_bit 8 ebreak),
       i + 2 := ucast (drop_bit 16 ebreak), i + 3 := ucast (drop_bit 24 ebreak))) imem)"

record loader =
  buffer :: "nat \<Rightarrow> i8"
  current_addr :: i32
  max_addr :: i32

datatype load_error = Cannot_Open | Invalid_Address nat | Exceeds_Buffer i32 | No_Data | Undefined

text \<open>\<open>buffer[current_addr + i] = (value >> (i * 8)) & 0xFF\<close> for the first \<open>n\<close> bytes; the index wraps at 32 bits.\<close>

fun write_bytes :: "nat \<Rightarrow> i32 \<Rightarrow> i32 \<Rightarrow> nat \<Rightarrow> (nat \<Rightarrow> i8) \<Rightarrow> (nat \<Rightarrow> i8) option" where
  "write_bytes buffer_size addr value 0 buf = Some buf"
| "write_bytes buffer_size addr value (Suc i) buf =
    (case write_bytes buffer_size addr value i buf of None \<Rightarrow> None
     | Some buf' \<Rightarrow>
         (let k = unat (addr + of_nat i) in
          if k < buffer_size then Some (buf'(k := ucast (drop_bit (i * 8) value))) else None))"

definition bytes_to_write :: "nat \<Rightarrow> nat" where
  "bytes_to_write num_hex_digits = (if num_hex_digits \<le> 2 then 1 else if num_hex_digits \<le> 4 then 2 else 4)"

text \<open>One number of \<open>n\<close> bytes; the sum of the bounds check wraps at 32 bits.\<close>

definition load_number :: "nat \<Rightarrow> i32 \<Rightarrow> nat \<Rightarrow> loader \<Rightarrow> load_error + loader" where
  "load_number buffer_size value n l =
    (let a = current_addr l; a' = a + of_nat n in
     if unat a' > buffer_size then Inl (Exceeds_Buffer a)
     else case write_bytes buffer_size a value n (buffer l) of
       None \<Rightarrow> Inl Undefined
     | Some buf \<Rightarrow> Inr (l\<lparr>buffer := buf, current_addr := a', max_addr := (if a' > max_addr l then a' else max_addr l)\<rparr>))"

section \<open>Lines\<close>

definition is_blank :: "char \<Rightarrow> bool" where
  "is_blank c \<longleftrightarrow> c \<in> set [CHR 0x20, CHR 0x09, CHR 0x0D, CHR 0x0A]"

lemma dropWhile_Cons_length: "dropWhile P s = c # cs \<Longrightarrow> length cs < length s"
  using length_dropWhile_le [of P s] by simp

text \<open>The numbers of a line, from \<open>ptr\<close> on.\<close>

function load_data :: "nat \<Rightarrow> string \<Rightarrow> loader \<Rightarrow> load_error + loader" where
  "load_data buffer_size s l =
    (case dropWhile is_blank s of [] \<Rightarrow> Inr l
     | c # cs \<Rightarrow>
         (case scan_hex (c # cs) of
            Scanned value chars_read \<Rightarrow>
              if chars_read > 0 then
                (case load_number buffer_size value
                    (bytes_to_write (if hex_prefix (c # cs) then chars_read - 2 else chars_read)) l of
                   Inl e \<Rightarrow> Inl e
                 | Inr l' \<Rightarrow> load_data buffer_size (drop chars_read (c # cs)) l')
              else load_data buffer_size cs l
          | No_Match \<Rightarrow> load_data buffer_size cs l
          | Out_Of_Range \<Rightarrow> Inl Undefined))"
  by pat_completeness auto
termination
  by (relation "measure (\<lambda>(n, s, l). length s)") (auto dest!: dropWhile_Cons_length)

declare load_data.simps [simp del]

definition load_line :: "nat \<Rightarrow> nat \<Rightarrow> string \<Rightarrow> loader \<Rightarrow> load_error + loader" where
  "load_line buffer_size line_num line l =
    (case line of [] \<Rightarrow> Inr l
     | c # cs \<Rightarrow>
         if c \<in> set [CHR 0x0A, CHR 0x0D, CHR ''#'', CHR ''/''] then Inr l
         else if c = CHR ''@'' then
           (case scan_hex cs of Scanned a n \<Rightarrow> Inr (l\<lparr>current_addr := a\<rparr>)
            | No_Match \<Rightarrow> Inl (Invalid_Address line_num) | Out_Of_Range \<Rightarrow> Inl Undefined)
         else load_data buffer_size line l)"

lemma fgets_length: "fgets n cs = (l, rest) \<Longrightarrow> cs \<noteq> [] \<Longrightarrow> 0 < n \<Longrightarrow> length rest < length cs"
proof (induction n cs arbitrary: l rest rule: fgets.induct)
  case (3 n c cs)
  then show ?case
    by (cases "cs = []"; cases n) (auto split: if_splits prod.splits)
qed simp_all

function load_lines :: "nat \<Rightarrow> nat \<Rightarrow> string \<Rightarrow> loader \<Rightarrow> load_error + loader" where
  "load_lines buffer_size line_num cs l =
    (if cs = [] then Inr l
     else case fgets 255 cs of (line, rest) \<Rightarrow>
       (case load_line buffer_size (Suc line_num) (c_string line) l of
          Inl e \<Rightarrow> Inl e | Inr l' \<Rightarrow> load_lines buffer_size (Suc line_num) rest l'))"
  by pat_completeness auto
termination
  by (relation "measure (\<lambda>(n, k, cs, l). length cs)") (auto dest: fgets_length [OF sym])

declare load_lines.simps [simp del]

text \<open>The file is \<open>None\<close> when it cannot be opened; the result is the number of bytes and the buffer.\<close>

definition validate_and_load_binary :: "string option \<Rightarrow> nat \<Rightarrow> (nat \<Rightarrow> i8) \<Rightarrow> load_error + i32 \<times> (nat \<Rightarrow> i8)" where
  "validate_and_load_binary file buffer_size buf =
    (case file of None \<Rightarrow> Inl Cannot_Open
     | Some cs \<Rightarrow>
         (case load_lines buffer_size 0 cs \<lparr>buffer = buf, current_addr = 0, max_addr = 0\<rparr> of
            Inl e \<Rightarrow> Inl e
          | Inr l \<Rightarrow> if max_addr l = 0 then Inl No_Data else Inr (max_addr l, buffer l)))"

section \<open>Reading what was printed\<close>

text \<open>A number in \<open>n\<close> lower-case digits.\<close>

definition lower_hex :: "nat \<Rightarrow> char" where
  "lower_hex d = ''0123456789abcdef'' ! d"

fun hex_fixed :: "nat \<Rightarrow> nat \<Rightarrow> string" where
  "hex_fixed 0 v = []"
| "hex_fixed (Suc n) v = hex_fixed n (v div 16) @ [lower_hex (v mod 16)]"

lemma lower_hex_digit: "d < 16 \<Longrightarrow> hex_digit (lower_hex d) = Some d"
proof -
  have "\<forall>d < 16. hex_digit (lower_hex d) = Some d" by code_simp
  then show "d < 16 \<Longrightarrow> hex_digit (lower_hex d) = Some d" by blast
qed

lemma hex_fixed_facts:
  "length (hex_fixed n v) = n" "c \<in> set (hex_fixed n v) \<Longrightarrow> hex_digit c \<noteq> None"
  "hex_number (hex_fixed n v) = v mod 16 ^ n"
proof -
  show "length (hex_fixed n v) = n" by (induction n arbitrary: v) simp_all
  show "c \<in> set (hex_fixed n v) \<Longrightarrow> hex_digit c \<noteq> None"
    by (induction n arbitrary: v) (auto simp: lower_hex_digit)
  show "hex_number (hex_fixed n v) = v mod 16 ^ n"
    by (induction n arbitrary: v) (simp_all add: lower_hex_digit hex_number_def mod_mult2_eq)
qed

lemma hex_number_snoc: "hex_number (ds @ [c]) = 16 * hex_number ds + the (hex_digit c)"
  by (simp add: hex_number_def)

lemma hex_number_append: "hex_number (ds @ es) = hex_number ds * 16 ^ length es + hex_number es"
proof (induction es rule: rev_induct)
  case Nil
  then show ?case by (simp add: hex_number_def)
next
  case (snoc c es)
  have "hex_number (ds @ es @ [c]) = 16 * hex_number (ds @ es) + the (hex_digit c)"
    using hex_number_snoc [of "ds @ es" c] by simp
  then show ?case by (simp add: snoc hex_number_snoc)
qed

lemma hex_number_less: "\<forall>c \<in> set ds. hex_digit c \<noteq> None \<Longrightarrow> hex_number ds < 16 ^ length ds"
proof (induction ds rule: rev_induct)
  case Nil
  then show ?case by (simp add: hex_number_def)
next
  case (snoc c ds)
  have "the (hex_digit c) < 16" using snoc.prems by (auto simp: hex_digit_def Let_def split: if_splits)
  with snoc show ?case by (auto simp: hex_number_def)
qed

lemma hex_digit_x: "hex_digit CHR ''x'' = None" "hex_digit CHR ''X'' = None"
  by code_simp+

text \<open>A digit is none of the characters the loader looks for.\<close>

lemma hex_digit_plain:
  assumes "hex_digit c \<noteq> None"
  shows "\<not> isspace c" "\<not> is_blank c" "c \<noteq> CHR ''-''" "c \<noteq> CHR ''+''" "c \<noteq> CHR ''x''" "c \<noteq> CHR ''X''"
    "c \<notin> set [CHR 0x0A, CHR 0x0D, CHR ''#'', CHR ''/'', CHR ''@'', CHR 0x00]"
  using assms by (auto simp: hex_digit_def isspace_def is_blank_def Let_def)

lemma scan_digits:
  assumes "ds \<noteq> []" "\<forall>c \<in> set ds. hex_digit c \<noteq> None" "length ds \<le> 8"
  shows "scan_hex (ds @ [CHR 0x0A]) = Scanned (of_nat (hex_number ds)) (length ds)" "\<not> hex_prefix (ds @ [CHR 0x0A])"
proof -
  obtain c cs where ds: "ds = c # cs" using assms(1) by (cases ds) auto
  have c: "hex_digit c \<noteq> None" using assms(2) ds by simp
  show prefix: "\<not> hex_prefix (ds @ [CHR 0x0A])"
    using assms(2) ds by (cases cs) (auto simp: hex_prefix_def hex_digit_x)
  have "hex_number ds < 2 ^ 32"
    using hex_number_less [OF assms(2)] power_increasing [OF assms(3), of "16 :: nat"] by simp
  moreover have "takeWhile (\<lambda>c. hex_digit c \<noteq> None) (ds @ [CHR 0x0A]) = ds"
    using assms(2) by (simp add: takeWhile_append2 hex_digit_def)
  moreover have "dropWhile isspace (ds @ [CHR 0x0A]) = ds @ [CHR 0x0A]" "take 1 (ds @ [CHR 0x0A]) = [c]"
    using hex_digit_plain(1) [OF c] ds by simp_all
  ultimately show "scan_hex (ds @ [CHR 0x0A]) = Scanned (of_nat (hex_number ds)) (length ds)"
    using assms(1) prefix hex_digit_plain(3,4) [OF c] by (simp add: scan_hex_def Let_def)
qed

lemma load_address_line:
  assumes "ds \<noteq> []" "\<forall>c \<in> set ds. hex_digit c \<noteq> None" "length ds \<le> 8"
  shows "load_line sz k (CHR ''@'' # ds @ [CHR 0x0A]) l = Inr (l\<lparr>current_addr := of_nat (hex_number ds)\<rparr>)"
  using scan_digits [OF assms] by (simp add: load_line_def)

lemma load_number_line:
  assumes "ds \<noteq> []" "\<forall>c \<in> set ds. hex_digit c \<noteq> None" "length ds \<le> 8"
  shows "load_line sz k (ds @ [CHR 0x0A]) l = load_number sz (of_nat (hex_number ds)) (bytes_to_write (length ds)) l"
proof -
  obtain c cs where ds: "ds = c # cs" using assms(1) by (cases ds) auto
  have c: "hex_digit c \<noteq> None" using assms(2) ds by simp
  have rest: "load_data sz [CHR 0x0A] l' = Inr l'" for l' by (simp add: load_data.simps is_blank_def)
  have drop: "dropWhile is_blank (ds @ [CHR 0x0A]) = c # cs @ [CHR 0x0A]" using hex_digit_plain(2) [OF c] ds by simp
  have "load_data sz (ds @ [CHR 0x0A]) l = load_number sz (of_nat (hex_number ds)) (bytes_to_write (length ds)) l"
    using scan_digits [OF assms] ds
    by (subst load_data.simps) (simp add: drop rest hex_digit_plain(2) [OF c] split: sum.split)
  then show ?thesis using hex_digit_plain(7) [OF c] ds by (simp add: load_line_def)
qed

lemma fgets_line:
  "CHR 0x0A \<notin> set line \<Longrightarrow> length line < n \<Longrightarrow> fgets n (line @ CHR 0x0A # rest) = (line @ [CHR 0x0A], rest)"
  by (induction line arbitrary: n) (auto simp: less_Suc_eq_0_disj gr0_conv_Suc Suc_less_eq2)

lemma load_lines_line:
  assumes "CHR 0x0A \<notin> set line" "CHR 0x00 \<notin> set line" "length line < 255"
  shows "load_lines sz k (line @ CHR 0x0A # rest) l =
    (case load_line sz (Suc k) (line @ [CHR 0x0A]) l of Inl e \<Rightarrow> Inl e | Inr l' \<Rightarrow> load_lines sz (Suc k) rest l')"
proof -
  have "c_string (line @ [CHR 0x0A]) = line @ [CHR 0x0A]"
    using assms(2) by (auto simp: c_string_def intro!: takeWhile_append2)
  then show ?thesis by (subst load_lines.simps) (simp add: fgets_line [OF assms(1,3)])
qed

text \<open>Bytes at a place of the buffer, and a number as its little-endian bytes.\<close>

definition put_bytes :: "nat \<Rightarrow> i8 list \<Rightarrow> (nat \<Rightarrow> i8) \<Rightarrow> nat \<Rightarrow> i8" where
  "put_bytes k bs buf = (\<lambda>i. if k \<le> i \<and> i < k + length bs then bs ! (i - k) else buf i)"

lemma put_bytes_simps:
  "put_bytes k [] buf = buf" "put_bytes k (bs @ [b]) buf = (put_bytes k bs buf)(k + length bs := b)"
  "put_bytes (k + length bs) cs (put_bytes k bs buf) = put_bytes k (bs @ cs) buf"
  by (auto simp: put_bytes_def fun_eq_iff nth_append)

fun le_number :: "i8 list \<Rightarrow> nat" where
  "le_number [] = 0"
| "le_number (b # bs) = unat b + 256 * le_number bs"

lemma le_number_less: "le_number bs < 256 ^ length bs"
proof (induction bs)
  case (Cons b bs)
  have "unat b < 256" using unsigned_less [of b] by simp
  with Cons show ?case by simp
qed simp

lemma le_number_nth: "i < length bs \<Longrightarrow> le_number bs div 256 ^ i mod 256 = unat (bs ! i)"
proof (induction bs arbitrary: i)
  case (Cons b bs)
  have b: "unat b < 256" using unsigned_less [of b] by simp
  show ?case
  proof (cases i)
    case 0
    then show ?thesis using b by simp
  next
    case (Suc j)
    have "(unat b + 256 * le_number bs) div 256 = le_number bs" using b by simp
    then show ?thesis using Cons Suc by (simp add: div_mult2_eq)
  qed
qed simp

lemma byte_of_number:
  assumes "n < 2 ^ 32" "length bs \<le> 4" "i < length bs" "n = le_number bs"
  shows "ucast (drop_bit (i * 8) (of_nat n :: i32)) = bs ! i"
proof -
  have "unat (ucast (drop_bit (i * 8) (of_nat n :: i32)) :: i8) = n div 2 ^ (i * 8) mod 256"
    using assms(1) by (simp add: unsigned_ucast_eq unsigned_take_bit_eq unsigned_drop_bit_eq unsigned_of_nat)
      (simp add: take_bit_eq_mod drop_bit_eq_div)
  also have "(2 :: nat) ^ (i * 8) = 256 ^ i" by (simp add: power_mult mult.commute [of i 8])
  finally show ?thesis using le_number_nth [OF assms(3)] assms(4) by (simp add: word_unat_eq_iff)
qed

lemma write_bytes_all:
  "unat addr + n \<le> sz \<Longrightarrow> sz < 2 ^ 32 \<Longrightarrow>
    write_bytes sz addr v n buf = Some (put_bytes (unat addr) (map (\<lambda>i. ucast (drop_bit (i * 8) v)) [0..<n]) buf)"
proof (induction n)
  case 0
  then show ?case by (simp add: put_bytes_simps)
next
  case (Suc n)
  have "unat (addr + of_nat n) = unat addr + n"
    using Suc.prems by (simp add: unat_word_ariths unat_of_nat)
  with Suc show ?case by (simp add: put_bytes_simps(2) Let_def fun_upd_def)
qed

text \<open>The words of a text: four bytes each, the last one printed first.\<close>

fun words_of :: "'a list \<Rightarrow> 'a list list" where
  "words_of (a # b # c # d # xs) = [a, b, c, d] # words_of xs"
| "words_of xs = []"

definition word_text :: "i8 list \<Rightarrow> string" where
  "word_text bs = concat (map (\<lambda>b. hex_fixed 2 (unat b)) (rev bs))"

definition chunk_text :: "nat \<times> i8 list \<Rightarrow> string" where
  "chunk_text chunk = (case chunk of (a, bs) \<Rightarrow>
     CHR ''@'' # hex_fixed 8 a @ CHR 0x0A # concat (map (\<lambda>w. word_text w @ [CHR 0x0A]) (words_of bs)))"

lemma word_text_facts:
  "length (word_text bs) = 2 * length bs" "\<forall>c \<in> set (word_text bs). hex_digit c \<noteq> None" "hex_number (word_text bs) = le_number bs"
proof -
  show "length (word_text bs) = 2 * length bs"
    by (induction bs) (simp_all add: word_text_def hex_fixed_facts(1) del: hex_fixed.simps)
  show "\<forall>c \<in> set (word_text bs). hex_digit c \<noteq> None" unfolding word_text_def using hex_fixed_facts(2) by fastforce
  show "hex_number (word_text bs) = le_number bs"
  proof (induction bs)
    case Nil
    then show ?case by (simp add: word_text_def hex_number_def)
  next
    case (Cons b bs)
    have "word_text (b # bs) = word_text bs @ hex_fixed 2 (unat b)" by (simp add: word_text_def)
    moreover have "unat b < 256" using unsigned_less [of b] by simp
    ultimately show ?case
      using Cons by (simp add: hex_number_append hex_fixed_facts(1,3) del: hex_fixed.simps)
  qed
qed

lemma digits_no_newline:
  assumes "\<forall>c \<in> set ds. hex_digit c \<noteq> None"
  shows "CHR 0x0A \<notin> set ds" "CHR 0x00 \<notin> set ds"
  using assms hex_digit_plain(7) by fastforce+

definition advance :: "i8 list \<Rightarrow> loader \<Rightarrow> loader" where
  "advance bs l = l\<lparr>buffer := put_bytes (unat (current_addr l)) bs (buffer l), current_addr := current_addr l + of_nat (length bs),
     max_addr := (if bs = [] then max_addr l else max (max_addr l) (current_addr l + of_nat (length bs)))\<rparr>"

lemma load_word_line:
  assumes "length w = 4" "unat (current_addr l) + 4 \<le> sz" "sz < 2 ^ 32"
  shows "load_line sz k (word_text w @ [CHR 0x0A]) l = Inr (advance w l)"
proof -
  note t = word_text_facts [of w]
  have len: "length (word_text w) = 8" "word_text w \<noteq> []" using t(1) assms(1) by auto
  have n: "le_number w < 2 ^ 32" using le_number_less [of w] assms(1) by simp
  have "map (\<lambda>i. ucast (drop_bit (i * 8) (of_nat (le_number w) :: i32))) [0..<4] = w"
    using assms(1) byte_of_number [OF n _ _ refl] by (intro nth_equalityI) auto
  then have "write_bytes sz (current_addr l) (of_nat (le_number w)) 4 (buffer l) = Some (put_bytes (unat (current_addr l)) w (buffer l))"
    using write_bytes_all [OF assms(2,3)] by simp
  moreover have "unat (current_addr l + 4) = unat (current_addr l) + 4" using assms(2,3) by (simp add: unat_word_ariths)
  ultimately have "load_number sz (of_nat (le_number w)) 4 l = Inr (advance w l)"
    using assms(1,2) by (auto simp: load_number_def Let_def advance_def max_def)
  then show ?thesis using load_number_line [OF len(2) t(2)] len(1) t(3) by (simp add: bytes_to_write_def)
qed

lemma advance_append:
  assumes "unat (current_addr l) + length bs + length cs < 2 ^ 32"
  shows "advance cs (advance bs l) = advance (bs @ cs) l"
proof -
  have "unat (current_addr l + of_nat (length bs)) = unat (current_addr l) + length bs"
    using assms by (simp add: unat_word_ariths unat_of_nat)
  then have "put_bytes (unat (current_addr l + of_nat (length bs))) cs (put_bytes (unat (current_addr l)) bs b)
      = put_bytes (unat (current_addr l)) (bs @ cs) b" for b
    by (simp add: put_bytes_simps(3))
  moreover have "current_addr l + of_nat (length bs) \<le> current_addr l + of_nat (length bs) + of_nat (length cs)"
    using assms by (simp add: word_le_nat_alt unat_word_ariths unat_of_nat)
  ultimately show ?thesis by (simp add: advance_def add.assoc max.assoc)
qed

lemma advance_Nil: "advance [] l = l"
  by (simp add: advance_def put_bytes_simps)

lemma load_words:
  "4 dvd length bs \<Longrightarrow> unat (current_addr l) + length bs \<le> sz \<Longrightarrow> sz < 2 ^ 32 \<Longrightarrow>
    \<exists>k'. load_lines sz k (concat (map (\<lambda>w. word_text w @ [CHR 0x0A]) (words_of bs)) @ rest) l = load_lines sz k' rest (advance bs l)"
proof (induction bs arbitrary: k l rule: words_of.induct)
  case (1 a b c d bs)
  let ?w = "[a, b, c, d]"
  have w: "load_line sz (Suc k) (word_text ?w @ [CHR 0x0A]) l = Inr (advance ?w l)"
    using 1(3,4) by (intro load_word_line) simp_all
  have line: "CHR 0x0A \<notin> set (word_text ?w)" "CHR 0x00 \<notin> set (word_text ?w)" "length (word_text ?w) < 255"
    using digits_no_newline [OF word_text_facts(2)] word_text_facts(1) [of ?w] by simp_all
  have "unat (current_addr l + 4) = unat (current_addr l) + 4" using 1(3,4) by (simp add: unat_word_ariths)
  then have "unat (current_addr (advance ?w l)) + length bs \<le> sz" using 1(3) by (simp add: advance_def)
  moreover have "4 dvd length bs" using 1(2) by simp presburger
  ultimately obtain k' where "load_lines sz (Suc k) (concat (map (\<lambda>w. word_text w @ [CHR 0x0A]) (words_of bs)) @ rest) (advance ?w l)
      = load_lines sz k' rest (advance bs (advance ?w l))"
    using 1(1,4) by blast
  moreover have "advance bs (advance ?w l) = advance (a # b # c # d # bs) l"
    using 1(3,4) advance_append [of l ?w bs] by simp
  ultimately show ?case
    using load_lines_line [OF line] w by auto
next
  case "2_1"
  then show ?case by (auto simp: advance_Nil)
qed (simp_all; presburger)+

lemma load_chunk:
  assumes "4 dvd length bs" "a + length bs \<le> sz" "sz < 2 ^ 32"
  shows "\<exists>k'. load_lines sz k (chunk_text (a, bs) @ rest) l = load_lines sz k' rest (advance bs (l\<lparr>current_addr := of_nat a\<rparr>))"
proof -
  let ?ds = "hex_fixed 8 a"
  have a: "a mod 16 ^ 8 = a" "unat (of_nat a :: i32) = a" using assms(2,3) by (simp_all add: unat_of_nat)
  have ds: "\<forall>c \<in> set ?ds. hex_digit c \<noteq> None" using hex_fixed_facts(2) by blast
  have len: "length ?ds = 8" "?ds \<noteq> []" using hex_fixed_facts(1) [of 8 a] by auto
  have "load_line sz (Suc k) (CHR ''@'' # ?ds @ [CHR 0x0A]) l = Inr (l\<lparr>current_addr := of_nat a\<rparr>)"
    using load_address_line [OF len(2) ds] len(1) hex_fixed_facts(3) [of 8 a] a(1) by simp
  moreover have "CHR 0x0A \<notin> set (CHR ''@'' # ?ds)" "CHR 0x00 \<notin> set (CHR ''@'' # ?ds)" "length (CHR ''@'' # ?ds) < 255"
    using digits_no_newline [OF ds] len(1) by (simp_all del: hex_fixed.simps)
  ultimately have "load_lines sz k ((CHR ''@'' # ?ds) @ CHR 0x0A # concat (map (\<lambda>w. word_text w @ [CHR 0x0A]) (words_of bs)) @ rest) l
      = load_lines sz (Suc k) (concat (map (\<lambda>w. word_text w @ [CHR 0x0A]) (words_of bs)) @ rest) (l\<lparr>current_addr := of_nat a\<rparr>)"
    by (subst load_lines_line) simp_all
  then show ?thesis
    using load_words [OF assms(1) _ assms(3), of "l\<lparr>current_addr := of_nat a\<rparr>" "Suc k" rest] assms(2) a(2)
    by (simp add: chunk_text_def)
qed

text \<open>The loaded image: later chunks win; and the end of the last byte.\<close>

definition image_of :: "(nat \<times> i8 list) list \<Rightarrow> (nat \<Rightarrow> i8) \<Rightarrow> nat \<Rightarrow> i8" where
  "image_of chunks buf = fold (\<lambda>(a, bs). put_bytes a bs) chunks buf"

lemma image_of_cong: "buf k = buf' k \<Longrightarrow> image_of chunks buf k = image_of chunks buf' k"
proof (induction chunks arbitrary: buf buf')
  case Nil
  then show ?case by (simp add: image_of_def)
next
  case (Cons chunk chunks)
  obtain a bs where chunk: "chunk = (a, bs)" by (cases chunk)
  have "put_bytes a bs buf k = put_bytes a bs buf' k" using Cons.prems by (simp add: put_bytes_def)
  from Cons.IH [of "put_bytes a bs buf" "put_bytes a bs buf'", OF this] show ?case by (simp add: image_of_def chunk)
qed

definition image_end :: "(nat \<times> i8 list) list \<Rightarrow> nat" where
  "image_end chunks = fold (\<lambda>(a, bs) m. max m (a + length bs)) chunks 0"

definition chunk_ok :: "nat \<Rightarrow> nat \<times> i8 list \<Rightarrow> bool" where
  "chunk_ok sz chunk \<longleftrightarrow> (case chunk of (a, bs) \<Rightarrow> bs \<noteq> [] \<and> 4 dvd length bs \<and> a + length bs \<le> sz)"

lemma load_chunks:
  "\<forall>chunk \<in> set chunks. chunk_ok sz chunk \<Longrightarrow> sz < 2 ^ 32 \<Longrightarrow> max_addr l = of_nat m \<Longrightarrow> m \<le> sz \<Longrightarrow>
    \<exists>a. load_lines sz k (concat (map chunk_text chunks)) l
      = Inr \<lparr>buffer = image_of chunks (buffer l), current_addr = a,
          max_addr = of_nat (fold (\<lambda>(a, bs) m. max m (a + length bs)) chunks m)\<rparr>"
proof (induction chunks arbitrary: k l m)
  case Nil
  then show ?case by (cases l) (simp add: load_lines.simps image_of_def)
next
  case (Cons chunk chunks)
  obtain a bs where chunk: "chunk = (a, bs)" by (cases chunk)
  have ok: "bs \<noteq> []" "4 dvd length bs" "a + length bs \<le> sz" using Cons.prems(1) by (simp_all add: chunk chunk_ok_def)
  let ?l = "advance bs (l\<lparr>current_addr := of_nat a\<rparr>)"
  obtain k' where k': "load_lines sz k (chunk_text (a, bs) @ concat (map chunk_text chunks)) l
      = load_lines sz k' (concat (map chunk_text chunks)) ?l"
    using load_chunk [OF ok(2,3) Cons.prems(2)] by blast
  have "(of_nat m :: i32) \<le> of_nat (a + length bs) \<longleftrightarrow> m \<le> a + length bs" "unat (of_nat a :: i32) = a"
    using Cons.prems(2,4) ok(3) by (simp_all add: word_le_nat_alt unat_of_nat del: of_nat_add)
  then have l: "max_addr ?l = of_nat (max m (a + length bs))" "buffer ?l = put_bytes a bs (buffer l)"
    using ok(1) Cons.prems(3) by (auto simp: advance_def max_def)
  have "max m (a + length bs) \<le> sz" using Cons.prems(4) ok(3) by simp
  from Cons.IH [OF _ Cons.prems(2) l(1) this, of k'] Cons.prems(1) l(2) k' show ?case
    by (auto simp: chunk image_of_def)
qed

lemma end_bounds:
  "\<forall>chunk \<in> set cs. chunk_ok sz chunk \<Longrightarrow> m \<le> sz \<Longrightarrow>
    m \<le> fold (\<lambda>(a, bs) m. max m (a + length bs)) cs m \<and> fold (\<lambda>(a, bs) m. max m (a + length bs)) cs m \<le> sz"
proof (induction cs arbitrary: m)
  case (Cons chunk cs)
  obtain a bs where chunk: "chunk = (a, bs)" by (cases chunk)
  have "max m (a + length bs) \<le> sz" using Cons.prems by (simp add: chunk chunk_ok_def)
  from Cons.IH [OF _ this] Cons.prems(1) show ?case by (simp add: chunk)
qed simp

text \<open>A whole file.\<close>

lemma load_image:
  assumes "\<forall>chunk \<in> set chunks. chunk_ok buffer_size chunk" "chunks \<noteq> []" "buffer_size < 2 ^ 32"
  shows "validate_and_load_binary (Some (concat (map chunk_text chunks))) buffer_size buf
    = Inr (of_nat (image_end chunks), image_of chunks buf)"
proof -
  obtain a where a: "load_lines buffer_size 0 (concat (map chunk_text chunks)) \<lparr>buffer = buf, current_addr = 0, max_addr = 0\<rparr>
      = Inr \<lparr>buffer = image_of chunks buf, current_addr = a, max_addr = of_nat (image_end chunks)\<rparr>"
    using load_chunks [OF assms(1,3), of "\<lparr>buffer = buf, current_addr = 0, max_addr = 0\<rparr>" 0 0] by (auto simp: image_end_def)
  obtain x bs cs where chunks: "chunks = (x, bs) # cs" using assms(2) by (cases chunks) auto
  then have "0 < length bs" "x + length bs \<le> buffer_size" using assms(1) by (auto simp: chunk_ok_def)
  moreover have "x + length bs \<le> image_end chunks \<and> image_end chunks \<le> buffer_size"
    using end_bounds [of cs buffer_size "x + length bs"] assms(1) calculation by (simp add: image_end_def chunks)
  ultimately have "0 < image_end chunks" "image_end chunks < 2 ^ 32" using assms(3) by linarith+
  then have "(of_nat (image_end chunks) :: i32) \<noteq> 0" by (simp add: word_unat_eq_iff unat_of_nat)
  then show ?thesis using a by (simp add: validate_and_load_binary_def)
qed

text \<open>The break instructions around the image.\<close>

definition ebreak_byte :: "nat \<Rightarrow> i8" where
  "ebreak_byte k = [0x73, 0x00, 0x10, 0x00] ! (k mod 4)"

lemma init_loop:
  "4 dvd i \<Longrightarrow> 4 dvd n \<Longrightarrow>
    for_loop i n 4 (\<lambda>i imem. imem(i := 0x73, i + 1 := 0x00, i + 2 := 0x10, i + 3 := 0x00)) imem k
      = (if i \<le> k \<and> k < n then ebreak_byte k else imem k)"
proof (induction "n - i" arbitrary: i imem rule: less_induct)
  case less
  show ?case
  proof (cases "i < n")
    case True
    let ?imem = "imem(i := 0x73, i + 1 := 0x00, i + 2 := 0x10, i + 3 := 0x00)"
    have step: "4 dvd i + 4" "i + 4 \<le> n" using less.prems True by presburger+
    have IH: "for_loop (i + 4) n 4 (\<lambda>i imem. imem(i := 0x73, i + 1 := 0x00, i + 2 := 0x10, i + 3 := 0x00)) ?imem k
        = (if i + 4 \<le> k \<and> k < n then ebreak_byte k else ?imem k)"
      using True less.prems(2) by (intro less.hyps step) simp_all
    obtain q where q: "i = 4 * q" using less.prems(1) by (elim dvdE)
    have m: "Suc (4 * q) mod 4 = 1" "Suc (Suc (4 * q)) mod 4 = 2" "(4 * q + 3) mod 4 = 3" by presburger+
    consider "i + 4 \<le> k" | "k < i" | "k = i" | "k = i + 1" | "k = i + 2" | "k = i + 3" by linarith
    then have "(if i + 4 \<le> k \<and> k < n then ebreak_byte k else ?imem k) = (if i \<le> k \<and> k < n then ebreak_byte k else imem k)"
      by cases (use step(2) in \<open>simp_all add: ebreak_byte_def q m\<close>)
    then show ?thesis using True IH by (subst for_loop_step) simp_all
  next
    case False
    then show ?thesis by (auto simp: for_loop_stop)
  qed
qed

lemma init_imem_bytes: "init_imem imem k = (if k < 0x1000000 then ebreak_byte k else imem k)"
proof -
  have "(ucast (drop_bit 0 (0x00100073 :: i32)) :: i8) = 0x73" "(ucast (drop_bit 8 (0x00100073 :: i32)) :: i8) = 0x00"
    "(ucast (drop_bit 16 (0x00100073 :: i32)) :: i8) = 0x10" "(ucast (drop_bit 24 (0x00100073 :: i32)) :: i8) = 0x00"
    by code_simp+
  then show ?thesis using init_loop [of 0 "0x1000000"] by (simp only: init_imem_def Let_def) simp
qed

section \<open>Properties\<close>

text \<open>
  C25.  Loading reads back what the converter of the image prints: of a text of chunks, each an
  address and whole words in reversed byte order, \<open>validate_and_load_binary\<close> puts every byte at its
  place, leaves the rest of the buffer as it was, and returns the end of the last byte.
\<close>

theorem loader_reads_image:
  assumes "\<forall>chunk \<in> set chunks. chunk_ok buffer_size chunk" "chunks \<noteq> []" "buffer_size < 2 ^ 32"
  shows "validate_and_load_binary (Some (concat (map chunk_text chunks))) buffer_size buf
    = Inr (of_nat (image_end chunks), image_of chunks buf)"
  using assms by (rule load_image)

text \<open>\<open>lui x2,0x10000\<close> at 0 and two words at 0x20.\<close>

definition demo_chunks :: "(nat \<times> i8 list) list" where
  "demo_chunks = [(0, [0x37, 0x01, 0x00, 0x10]), (32, [1, 2, 3, 4, 5, 6, 7, 8])]"

theorem loader_reads_image_witness:
  "concat (map chunk_text demo_chunks) = concat (map (\<lambda>l. l @ [CHR 0x0A])
      [''@00000000'', ''10000137'', ''@00000020'', ''04030201'', ''08070605''])
   \<and> (\<exists>buf. validate_and_load_binary (Some (concat (map chunk_text demo_chunks))) 0x1000000 (\<lambda>_. 0) = Inr (40, buf)
      \<and> map buf [0, 3, 4, 32, 39] = [0x37, 0x10, 0, 1, 8])"
proof -
  have "\<forall>chunk \<in> set demo_chunks. chunk_ok 0x1000000 chunk"
    by (simp add: demo_chunks_def chunk_ok_def) presburger
  moreover have "image_end demo_chunks = 40" "map (image_of demo_chunks (\<lambda>_. 0)) [0, 3, 4, 32, 39] = [0x37, 0x10, 0, 1, 8]"
    by code_simp+
  moreover have "concat (map chunk_text demo_chunks) = concat (map (\<lambda>l. l @ [CHR 0x0A])
      [''@00000000'', ''10000137'', ''@00000020'', ''04030201'', ''08070605''])" by code_simp
  ultimately show ?thesis
    using loader_reads_image [of demo_chunks "0x1000000" "\<lambda>_. 0"] by (simp add: demo_chunks_def)
qed

lemma load_number_wraps:
  assumes "0 < n" "n \<le> 4" "4 \<le> sz" "sz < 2 ^ 32 - 4" "2 ^ 32 \<le> unat (current_addr l) + n"
  shows "load_number sz v n l = Inl Undefined"
proof -
  let ?a = "current_addr l"
  have a: "unat ?a < 2 ^ 32" using unsigned_less [of ?a] by simp
  then have "(unat ?a + n) mod 2 ^ 32 = unat ?a + n - 2 ^ 32" using assms(2,5) by (simp add: mod_if)
  then have "unat (?a + of_nat n) \<le> sz" using a assms(2,3) by (simp add: unat_word_ariths unat_of_nat)
  moreover have "write_bytes sz ?a v (Suc i) b = None" for i b
    using assms(2,4,5) by (induction i) (simp_all add: Let_def)
  then have "write_bytes sz ?a v n (buffer l) = None" using assms(1) by (cases n) simp_all
  ultimately show ?thesis by (simp add: load_number_def Let_def)
qed

text \<open>
  The bounds check of the loader wraps at 32 bits.  A number that ends within the buffer is
  stored, one that ends beyond it but below 4 GB is refused, and one that ends beyond 4 GB passes the
  check and is written outside the buffer; so the two lines \<open>@ffffffff\<close> and \<open>00\<close> break the loader.
\<close>

theorem loader_check_wraps:
  assumes "0 < n" "n \<le> 4" "4 \<le> sz" "sz < 2 ^ 32 - 4" "a = current_addr l"
  shows "(unat a + n \<le> sz \<longrightarrow> load_number sz v n l
        = Inr (l\<lparr>buffer := put_bytes (unat a) (map (\<lambda>i. ucast (drop_bit (i * 8) v)) [0..<n]) (buffer l), current_addr := a + of_nat n,
            max_addr := max (max_addr l) (a + of_nat n)\<rparr>))
    \<and> (sz < unat a + n \<longrightarrow> unat a + n < 2 ^ 32 \<longrightarrow> load_number sz v n l = Inl (Exceeds_Buffer a))
    \<and> (2 ^ 32 \<le> unat a + n \<longrightarrow> load_number sz v n l = Inl Undefined)
    \<and> validate_and_load_binary (Some (''@ffffffff'' @ [CHR 0x0A] @ ''00'' @ [CHR 0x0A])) 0x1000000 buf = Inl Undefined"
proof (intro conjI impI)
  assume *: "unat a + n \<le> sz"
  then have "unat (a + of_nat n) = unat a + n" using assms(2,4) by (simp add: unat_word_ariths unat_of_nat)
  with * write_bytes_all [of a n sz v "buffer l"] assms(4)
  show "load_number sz v n l = Inr (l\<lparr>buffer := put_bytes (unat a) (map (\<lambda>i. ucast (drop_bit (i * 8) v)) [0..<n]) (buffer l),
      current_addr := a + of_nat n, max_addr := max (max_addr l) (a + of_nat n)\<rparr>)"
    by (auto simp: load_number_def Let_def max_def assms(5) [symmetric])
next
  assume "sz < unat a + n" "unat a + n < 2 ^ 32"
  then have "unat (a + of_nat n) = unat a + n" using assms(2) by (simp add: unat_word_ariths unat_of_nat)
  with \<open>sz < unat a + n\<close> show "load_number sz v n l = Inl (Exceeds_Buffer a)"
    by (simp add: load_number_def Let_def assms(5) [symmetric])
next
  assume "2 ^ 32 \<le> unat a + n"
  then show "load_number sz v n l = Inl Undefined" using assms by (intro load_number_wraps) simp_all
next
  have line1: "load_line 0x1000000 k (''@ffffffff'' @ [CHR 0x0A]) l = Inr (l\<lparr>current_addr := 0xffffffff\<rparr>)" for k l
  proof -
    have f: "hex_digit CHR ''f'' = Some 15" by code_simp
    have "hex_number ''ffffffff'' = 0xffffffff" by (simp add: hex_number_def f)
    then show ?thesis using load_address_line [of "''ffffffff''" "0x1000000" k l] by (simp add: f)
  qed
  have "load_line 0x1000000 k (''00'' @ [CHR 0x0A]) l = Inl Undefined" if "current_addr l = 0xffffffff" for k l
  proof -
    have digits: "\<forall>c \<in> set ''00''. hex_digit c \<noteq> None" by code_simp
    have "load_number 0x1000000 (of_nat (hex_number ''00'')) 1 l = Inl Undefined"
      by (rule load_number_wraps) (simp_all add: that)
    then show ?thesis by (subst load_number_line [OF _ digits]) (simp_all add: bytes_to_write_def)
  qed
  then show "validate_and_load_binary (Some (''@ffffffff'' @ [CHR 0x0A] @ ''00'' @ [CHR 0x0A])) 0x1000000 buf = Inl Undefined"
    using load_lines_line [of "''@ffffffff''" "0x1000000"] load_lines_line [of "''00''" "0x1000000" _ "[]"] line1
    by (simp add: validate_and_load_binary_def)
qed

theorem loader_check_wraps_witness:
  "load_number 0x1000000 0x5a 1 \<lparr>buffer = (\<lambda>_. 0), current_addr = 0xffffff, max_addr = 0\<rparr>
      = Inr \<lparr>buffer = (\<lambda>_. 0)(0xffffff := 0x5a), current_addr = 0x1000000, max_addr = 0x1000000\<rparr>
    \<and> load_number 0x1000000 0x5a 2 \<lparr>buffer = (\<lambda>_. 0), current_addr = 0xffffff, max_addr = 0\<rparr> = Inl (Exceeds_Buffer 0xffffff)
    \<and> load_number 0x1000000 0x5a 2 \<lparr>buffer = (\<lambda>_. 0), current_addr = 0xffffffff, max_addr = 0\<rparr> = Inl Undefined"
proof -
  let ?l = "\<lambda>a. \<lparr>buffer = (\<lambda>_. 0), current_addr = a, max_addr = 0\<rparr>"
  have 1: "load_number 0x1000000 0x5a 1 (?l 0xffffff) = Inr (?l 0xffffff\<lparr>buffer := put_bytes 0xffffff [0x5a] (\<lambda>_. 0),
      current_addr := 0x1000000, max_addr := 0x1000000\<rparr>)"
    using loader_check_wraps [of 1 "0x1000000" "0xffffff" "?l 0xffffff" "0x5a" "\<lambda>_. 0"] by simp
  have "put_bytes 0xffffff [0x5a] (\<lambda>_. 0) = (\<lambda>_. 0)(0xffffff := 0x5a)"
    using put_bytes_simps(2) [of "0xffffff" "[]"] by (simp add: put_bytes_simps)
  with 1 loader_check_wraps [of 2 "0x1000000" "0xffffff" "?l 0xffffff" "0x5a" "\<lambda>_. 0"]
    loader_check_wraps [of 2 "0x1000000" "0xffffffff" "?l 0xffffffff" "0x5a" "\<lambda>_. 0"] show ?thesis by simp
qed

end
