(* ===== verification/Simulator.thy ===== *)
theory Simulator
  imports Console Uart_Driver Hex_Loader
begin

text \<open>
  The simulator that runs the system (top.cc): loading the program, the reset clock, and the main
  loop, which moves bytes between the terminal and the parallel port.  It is proved that a program
  under the simulator prints and reads what the instruction-set specification with a terminal says.
\<close>

section \<open>The program\<close>

text \<open>
  The variables of \<open>main\<close> and the input ports it drives.  The counters for statistics, the wave
  dump and the trace file are left out.
\<close>

record simulator =
  dut :: soc
  port_par_rx :: i8
  port_par_rx_valid :: bool
  bit_driver :: uart_driver
  rx_fifo :: "i8 list"
  rx_fifo_head :: nat
  rx_fifo_tail :: nat
  par_txrx :: bool

text \<open>The copy of the loaded bytes into the memory, a word at a time.\<close>

definition image_word :: "(nat \<Rightarrow> i8) \<Rightarrow> nat \<Rightarrow> i32" where
  "image_word imem i = ucast (imem i) OR push_bit 8 (ucast (imem (i + 1))) OR push_bit 16 (ucast (imem (i + 2)))
     OR push_bit 24 (ucast (imem (i + 3)))"

definition load_sram :: "nat \<Rightarrow> (nat \<Rightarrow> i8) \<Rightarrow> mem_words \<Rightarrow> mem_words" where
  "load_sram bytes_loaded imem mem =
    for_loop 0 (min bytes_loaded 0x1000000) 4 (\<lambda>i mem. mem(of_nat (i div 4) := image_word imem i)) mem"

text \<open>
  From the constructor of the model to the main loop: \<open>d\<close>, \<open>p\<close> and \<open>v\<close> are what the constructor leaves in
  the registers and the parallel input, \<open>b\<close> and \<open>fifo\<close> the uninitialised variables.
\<close>

definition sim_start :: "soc \<Rightarrow> i8 \<Rightarrow> bool \<Rightarrow> i8 \<Rightarrow> i8 list \<Rightarrow> nat \<Rightarrow> (nat \<Rightarrow> i8) \<Rightarrow> simulator option" where
  "sim_start d p v b fifo bytes_loaded imem =
    (case soc_clock \<lparr>in_resetn = False, in_rx = True, in_par_rx = p, in_par_rx_valid = v\<rparr>
        (d\<lparr>sram0 := (sram0 d)\<lparr>sr_mem := load_sram bytes_loaded imem (sr_mem (sram0 d))\<rparr>\<rparr>) of
       None \<Rightarrow> None
     | Some d' \<Rightarrow> Some \<lparr>dut = d'\<lparr>sim_use_par_txrx := True\<rparr>, port_par_rx = p, port_par_rx_valid = v,
         bit_driver = driver_new 50000000 115200 b, rx_fifo = fifo, rx_fifo_head = 0, rx_fifo_tail = 0, par_txrx = True\<rparr>)"

text \<open>
  The start of \<open>main\<close> for a file (\<open>None\<close> when it cannot be opened): the error of the loader, or the
  check of \<open>main\<close> on the size, which is an \<open>int\<close>, ends the program.
\<close>

definition sim_main :: "soc \<Rightarrow> i8 \<Rightarrow> bool \<Rightarrow> i8 \<Rightarrow> i8 list \<Rightarrow> (nat \<Rightarrow> i8) \<Rightarrow> string option \<Rightarrow> load_error option + simulator option" where
  "sim_main d p v b fifo imem file =
    (case validate_and_load_binary file 0x1000000 (init_imem imem) of
       Inl e \<Rightarrow> Inl (Some e)
     | Inr (bytes_loaded, imem') \<Rightarrow>
         if sint bytes_loaded < 0 then Inl None else Inr (sim_start d p v b fifo (unat bytes_loaded) imem'))"

text \<open>A byte from the terminal goes into the ring buffer unless it is full.\<close>

definition sim_enqueue :: "i8 \<Rightarrow> simulator \<Rightarrow> simulator" where
  "sim_enqueue ch s =
    (let next_tail = (rx_fifo_tail s + 1) mod 256 in
     if next_tail \<noteq> rx_fifo_head s
     then s\<lparr>rx_fifo := (rx_fifo s)[rx_fifo_tail s := ch], rx_fifo_tail := next_tail\<rparr> else s)"

text \<open>The oldest byte goes to the parallel port or to the bit driver.\<close>

definition sim_offer :: "simulator \<Rightarrow> simulator" where
  "sim_offer s =
    (if par_txrx s then
       let s1 = (if par_rx_ack (dut s) then s\<lparr>port_par_rx_valid := False\<rparr> else s) in
       if \<not> port_par_rx_valid s1 \<and> rx_fifo_head s1 \<noteq> rx_fifo_tail s1
       then s1\<lparr>port_par_rx := rx_fifo s1 ! rx_fifo_head s1, port_par_rx_valid := True,
               rx_fifo_head := (rx_fifo_head s1 + 1) mod 256\<rparr>
       else s1
     else if rx_fifo_head s \<noteq> rx_fifo_tail s \<and> driver_is_idle (bit_driver s)
     then s\<lparr>bit_driver := snd (driver_start_tx (rx_fifo s ! rx_fifo_head s) (bit_driver s)),
            rx_fifo_head := (rx_fifo_head s + 1) mod 256\<rparr>
     else s)"

text \<open>One clock of the system, with the serial input from the bit driver.\<close>

definition sim_clock :: "simulator \<Rightarrow> simulator option" where
  "sim_clock s =
    (case driver_get_tx_line (bit_driver s) of (rx, d) \<Rightarrow>
       case soc_clock \<lparr>in_resetn = True, in_rx = rx, in_par_rx = port_par_rx s, in_par_rx_valid = port_par_rx_valid s\<rparr> (dut s) of
         None \<Rightarrow> None
       | Some s' \<Rightarrow> Some (s\<lparr>bit_driver := d, dut := s'\<rparr>))"

text \<open>What goes to the terminal after the clock.\<close>

definition sim_sample :: "simulator \<Rightarrow> i8 option \<times> simulator" where
  "sim_sample s =
    (if par_txrx s then (if par_tx_valid (dut s) then Some (par_tx (dut s)) else None, s)
     else case driver_sample_rx (tx_pin (uart_tx_regs (uart0 (dut s)))) (bit_driver s) of (r, d) \<Rightarrow> (r, s\<lparr>bit_driver := d\<rparr>))"

text \<open>The body of the main loop after the check for Ctrl-D; \<open>r\<close> is what \<open>read\<close> gave.\<close>

definition sim_body :: "i8 option \<Rightarrow> simulator \<Rightarrow> (i8 option \<times> simulator) option" where
  "sim_body r s =
    (case sim_clock (sim_offer (case r of None \<Rightarrow> s | Some ch \<Rightarrow> sim_enqueue ch s)) of
       None \<Rightarrow> None | Some s' \<Rightarrow> Some (sim_sample s'))"

text \<open>
  The main loop.  The list holds what the successive \<open>read\<close>s give; the loop ends with the list, when
  a signal or the thread that watches the stop flag ends it, or at a Ctrl-D.
\<close>

fun sim_loop :: "i8 option list \<Rightarrow> simulator \<Rightarrow> (i8 list \<times> simulator) option" where
  "sim_loop [] s = Some ([], s)"
| "sim_loop (r # rs) s =
    (let s1 = s\<lparr>bit_driver := driver_tick (bit_driver s)\<rparr> in
     if r = Some 4 then Some ([], s1)
     else case sim_body r s1 of None \<Rightarrow> None
     | Some (received, s2) \<Rightarrow>
         (case sim_loop rs s2 of None \<Rightarrow> None
          | Some (out, s') \<Rightarrow> Some (case received of None \<Rightarrow> out | Some b \<Rightarrow> b # out, s')))"

section \<open>The ring buffer\<close>

definition fifo_bytes :: "simulator \<Rightarrow> i8 list" where
  "fifo_bytes s = map (\<lambda>k. rx_fifo s ! ((rx_fifo_head s + k) mod 256)) [0..<(rx_fifo_tail s + 256 - rx_fifo_head s) mod 256]"

definition fifo_ok :: "simulator \<Rightarrow> bool" where
  "fifo_ok s \<longleftrightarrow> length (rx_fifo s) = 256 \<and> rx_fifo_head s < 256 \<and> rx_fifo_tail s < 256"

text \<open>Distances around a ring of 256 slots.\<close>

lemma ring_mod: "a < 512 \<Longrightarrow> a mod 256 = (if a < 256 then a else a - 256)" for a :: nat
  by (simp add: mod_if)

lemma ring_distance:
  fixes h t :: nat
  assumes "h < 256" "t < 256"
  shows "(h + (t + 256 - h) mod 256) mod 256 = t" "(t + 256 - h) mod 256 = 0 \<longleftrightarrow> h = t"
    "(t + 1) mod 256 = h \<longleftrightarrow> (t + 256 - h) mod 256 = 255"
    "(t + 1) mod 256 \<noteq> h \<Longrightarrow> ((t + 1) mod 256 + 256 - h) mod 256 = Suc ((t + 256 - h) mod 256)"
    "h \<noteq> t \<Longrightarrow> Suc ((t + 256 - (h + 1) mod 256) mod 256) = (t + 256 - h) mod 256"
    "k < (t + 256 - h) mod 256 \<Longrightarrow> (h + k) mod 256 \<noteq> t"
  using assms by (auto simp: ring_mod split: if_splits)

lemma fifo_length: "fifo_ok s \<Longrightarrow> length (fifo_bytes s) \<le> 255"
  using mod_less_divisor [of 256 "rx_fifo_tail s + 256 - rx_fifo_head s"] by (simp add: fifo_bytes_def)

lemma fifo_enqueue:
  assumes "fifo_ok s"
  shows "fifo_ok (sim_enqueue ch s)"
    "fifo_bytes (sim_enqueue ch s) = (if length (fifo_bytes s) < 255 then fifo_bytes s @ [ch] else fifo_bytes s)"
    "dut (sim_enqueue ch s) = dut s" "port_par_rx (sim_enqueue ch s) = port_par_rx s"
    "port_par_rx_valid (sim_enqueue ch s) = port_par_rx_valid s" "bit_driver (sim_enqueue ch s) = bit_driver s"
    "par_txrx (sim_enqueue ch s) = par_txrx s"
proof -
  let ?h = "rx_fifo_head s" and ?t = "rx_fifo_tail s"
  have ok: "length (rx_fifo s) = 256" "?h < 256" "?t < 256" using assms by (simp_all add: fifo_ok_def)
  let ?d = "(?t + 256 - ?h) mod 256"
  have len: "length (fifo_bytes s) = ?d" by (simp add: fifo_bytes_def)
  have full: "(?t + 1) mod 256 = ?h \<longleftrightarrow> \<not> length (fifo_bytes s) < 255"
    using fifo_length [OF assms] ring_distance(3) [OF ok(2,3)] by (auto simp: len)
  show "fifo_bytes (sim_enqueue ch s) = (if length (fifo_bytes s) < 255 then fifo_bytes s @ [ch] else fifo_bytes s)"
  proof (cases "length (fifo_bytes s) < 255")
    case True
    then have free: "(?t + 1) mod 256 \<noteq> ?h" using full by simp
    have keep: "(rx_fifo s)[?t := ch] ! ((?h + k) mod 256) = rx_fifo s ! ((?h + k) mod 256)" if "k < ?d" for k
      using ring_distance(6) [OF ok(2,3) that] by (metis nth_list_update_neq)
    have last: "(rx_fifo s)[?t := ch] ! ((?h + ?d) mod 256) = ch"
      using ok by (simp only: ring_distance(1) [OF ok(2,3)]) simp
    have "fifo_bytes (sim_enqueue ch s) = map (\<lambda>k. (rx_fifo s)[?t := ch] ! ((?h + k) mod 256)) [0..<Suc ?d]"
      unfolding ring_distance(4) [OF ok(2,3) free, symmetric] using free by (simp add: fifo_bytes_def sim_enqueue_def)
    also have "\<dots> = fifo_bytes s @ [ch]"
      using keep last by (simp add: fifo_bytes_def)
    finally show ?thesis using True by simp
  next
    case False
    then show ?thesis using full by (simp add: sim_enqueue_def)
  qed
qed (use assms in \<open>simp_all add: sim_enqueue_def Let_def fifo_ok_def\<close>)

lemma fifo_dequeue:
  assumes "fifo_ok s" "rx_fifo_head s \<noteq> rx_fifo_tail s"
  shows "fifo_bytes s = rx_fifo s ! rx_fifo_head s # fifo_bytes (s\<lparr>rx_fifo_head := (rx_fifo_head s + 1) mod 256\<rparr>)"
    "fifo_ok (s\<lparr>rx_fifo_head := (rx_fifo_head s + 1) mod 256\<rparr>)"
proof -
  let ?h = "rx_fifo_head s" and ?t = "rx_fifo_tail s"
  have ok: "?h < 256" "?t < 256" using assms(1) by (simp_all add: fifo_ok_def)
  let ?e = "(?t + 256 - (?h + 1) mod 256) mod 256"
  have e: "(?t + 256 - ?h) mod 256 = Suc ?e" using ring_distance(5) [OF ok assms(2)] by simp
  have shift: "(Suc ?h mod 256 + k) mod 256 = Suc (?h + k) mod 256" for k by (simp add: mod_simps)
  have "fifo_bytes s = map (\<lambda>k. rx_fifo s ! ((?h + k) mod 256)) [0..<Suc ?e]" by (simp only: fifo_bytes_def e)
  also have "\<dots> = rx_fifo s ! (?h mod 256) # map (\<lambda>k. rx_fifo s ! ((?h + Suc k) mod 256)) [0..<?e]"
    by (simp only: upt_conv_Cons zero_less_Suc list.map map_Suc_upt [symmetric] map_map comp_def) simp
  finally show "fifo_bytes s = rx_fifo s ! ?h # fifo_bytes (s\<lparr>rx_fifo_head := (?h + 1) mod 256\<rparr>)"
    using ok by (simp add: fifo_bytes_def shift del: upt_Suc)
qed (use assms in \<open>simp add: fifo_ok_def\<close>)

lemma fifo_empty: "fifo_ok s \<Longrightarrow> fifo_bytes s = [] \<longleftrightarrow> rx_fifo_head s = rx_fifo_tail s"
  using ring_distance(2) [of "rx_fifo_head s" "rx_fifo_tail s"] by (simp add: fifo_bytes_def fifo_ok_def) 

section \<open>The terminal\<close>

text \<open>
  The simulator as a program sees it: the bytes waiting, the byte offered at the port, and whether
  the last clock took it.  At every clock a byte may arrive, which is lost when 255 bytes wait, and
  the next byte is offered when none is or the last one was taken.
\<close>

record terminal =
  waiting :: "i8 list"
  offered :: "i8 option"
  taken :: bool

definition term_read :: "i8 option \<Rightarrow> terminal \<Rightarrow> terminal" where
  "term_read r h = (case r of None \<Rightarrow> h | Some ch \<Rightarrow> if length (waiting h) < 255 then h\<lparr>waiting := waiting h @ [ch]\<rparr> else h)"

definition term_offer :: "terminal \<Rightarrow> terminal" where
  "term_offer h =
    (let h1 = (if taken h then h\<lparr>offered := None\<rparr> else h) in
     case waiting h1 of [] \<Rightarrow> h1
     | b # bs \<Rightarrow> if offered h1 = None then h1\<lparr>offered := Some b, waiting := bs\<rparr> else h1)"

definition term_prepare :: "i8 option \<Rightarrow> terminal \<Rightarrow> terminal" where
  "term_prepare r h = term_offer (term_read r h)"

text \<open>A clock without a load from the port, and many.\<close>

definition term_clock :: "i8 option \<Rightarrow> terminal \<Rightarrow> terminal" where
  "term_clock r h = (term_prepare r h)\<lparr>taken := False\<rparr>"

definition term_idle :: "i8 option list \<Rightarrow> terminal \<Rightarrow> terminal" where
  "term_idle rs h = fold term_clock rs h"

text \<open>
  An instruction over the bytes that arrive during its clocks.  A load from the port gets the byte
  offered at its fourth clock and takes it, the status register included, which itself reads as 0.
\<close>

definition port_value :: "i8 option \<Rightarrow> i32 \<Rightarrow> i32" where
  "port_value o_b addr = (case o_b of Some b \<Rightarrow> if (ucast addr :: 12 word) = 0x008 then 0 else word_cat (1 :: 24 word) b | None \<Rightarrow> 0)"

definition term_step :: "i8 option list \<Rightarrow> terminal \<Rightarrow> arch \<Rightarrow> i8 list \<times> terminal \<times> arch" where
  "term_step rs h a =
    (if page_load a then
       let h3 = term_prepare (rs ! 3) (term_idle (take 3 rs) h)
       in ([], term_idle (drop 4 rs) (h3\<lparr>taken := offered h3 \<noteq> None\<rparr>), isa_load_io (port_value (offered h3) (access_addr a)) a)
     else (if page_store a then [lane 0 (xreg a (rs2_of (isa_fetch a)))] else [], term_idle rs h, isa_step a))"

fun term_run :: "nat \<Rightarrow> i8 option list \<Rightarrow> terminal \<Rightarrow> arch \<Rightarrow> i8 list \<times> terminal \<times> arch" where
  "term_run 0 rs h a = ([], h, a)"
| "term_run (Suc k) rs h a =
    (let n = isa_cycles (isa_fetch a) in
     case term_step (take n rs) h a of (out, h1, a1) \<Rightarrow>
       case term_run k (drop n rs) h1 a1 of (outs, h2, a2) \<Rightarrow> (out @ outs, h2, a2))"

text \<open>The first \<open>k\<close> instructions are supported, and \<open>rs\<close> covers exactly their clocks.\<close>

fun term_covers :: "nat \<Rightarrow> i8 option list \<Rightarrow> terminal \<Rightarrow> arch \<Rightarrow> bool" where
  "term_covers 0 rs h a \<longleftrightarrow> rs = []"
| "term_covers (Suc k) rs h a \<longleftrightarrow>
    (let n = isa_cycles (isa_fetch a) in
     io_supported a \<and> n \<le> length rs \<and>
     (case term_step (take n rs) h a of (out, h1, a1) \<Rightarrow> term_covers k (drop n rs) h1 a1))"

section \<open>The simulator as a terminal\<close>

definition terminal_of :: "simulator \<Rightarrow> terminal" where
  "terminal_of s = \<lparr>waiting = fifo_bytes s, offered = (if port_par_rx_valid s then Some (port_par_rx s) else None),
     taken = par_rx_ack (dut s)\<rparr>"

definition sim_ok :: "simulator \<Rightarrow> bool" where
  "sim_ok s \<longleftrightarrow> fifo_ok s \<and> par_txrx s \<and> driver_is_idle (bit_driver s)"

definition term_input :: "terminal \<Rightarrow> soc_in" where
  "term_input h = \<lparr>in_resetn = True, in_rx = True, in_par_rx = (case offered h of None \<Rightarrow> 0 | Some b \<Rightarrow> b),
     in_par_rx_valid = (offered h \<noteq> None)\<rparr>"

lemma tick_terminal:
  "terminal_of (s\<lparr>bit_driver := d\<rparr>) = terminal_of s" "dut (s\<lparr>bit_driver := d\<rparr>) = dut s"
  "sim_ok s \<Longrightarrow> sim_ok (s\<lparr>bit_driver := driver_tick (bit_driver s)\<rparr>)"
  by (simp_all add: terminal_of_def fifo_bytes_def sim_ok_def fifo_ok_def driver_is_idle_def driver_tick_def)

lemma read_terminal:
  assumes "sim_ok s" "s' = (case r of None \<Rightarrow> s | Some ch \<Rightarrow> sim_enqueue ch s)"
  shows "sim_ok s'" "terminal_of s' = term_read r (terminal_of s)" "dut s' = dut s"
  using assms fifo_enqueue [of s] by (auto simp: sim_ok_def terminal_of_def term_read_def split: option.split)

lemma offer_terminal:
  assumes "sim_ok s"
  shows "sim_ok (sim_offer s)" "terminal_of (sim_offer s) = term_offer (terminal_of s)" "dut (sim_offer s) = dut s"
    "bit_driver (sim_offer s) = bit_driver s"
proof -
  have ok: "fifo_ok s" "par_txrx s" using assms by (simp_all add: sim_ok_def)
  define s1 where "s1 = (if par_rx_ack (dut s) then s\<lparr>port_par_rx_valid := False\<rparr> else s)"
  have s1: "fifo_ok s1" "par_txrx s1" "rx_fifo_head s1 = rx_fifo_head s" "rx_fifo_tail s1 = rx_fifo_tail s" "sim_ok s1"
    "dut s1 = dut s" "bit_driver s1 = bit_driver s" "fifo_bytes s1 = fifo_bytes s"
    "port_par_rx_valid s1 \<longleftrightarrow> port_par_rx_valid s \<and> \<not> par_rx_ack (dut s)"
    "terminal_of s1 = (if taken (terminal_of s) then (terminal_of s)\<lparr>offered := None\<rparr> else terminal_of s)"
    using assms ok by (simp_all add: s1_def fifo_ok_def sim_ok_def fifo_bytes_def terminal_of_def)
  let ?s2 = "s1\<lparr>port_par_rx := rx_fifo s1 ! rx_fifo_head s1, port_par_rx_valid := True, rx_fifo_head := (rx_fifo_head s1 + 1) mod 256\<rparr>"
  have offer: "sim_offer s = (if \<not> port_par_rx_valid s1 \<and> rx_fifo_head s1 \<noteq> rx_fifo_tail s1 then ?s2 else s1)"
    using ok(2) by (simp add: sim_offer_def s1_def Let_def)
  have "sim_ok (sim_offer s) \<and> terminal_of (sim_offer s) = term_offer (terminal_of s) \<and> dut (sim_offer s) = dut s
    \<and> bit_driver (sim_offer s) = bit_driver s"
  proof (cases "rx_fifo_head s1 = rx_fifo_tail s1")
    case True
    then have "waiting (terminal_of s) = []" using fifo_empty [OF s1(1)] s1(8) by (simp add: terminal_of_def)
    then show ?thesis using True offer s1 by (simp add: term_offer_def Let_def)
  next
    case False
    let ?t = "s1\<lparr>rx_fifo_head := (rx_fifo_head s1 + 1) mod 256\<rparr>"
    note deq = fifo_dequeue [OF s1(1) False]
    have "waiting (terminal_of s) = rx_fifo s1 ! rx_fifo_head s1 # fifo_bytes ?t"
      using deq(1) s1(8) by (simp add: terminal_of_def)
    moreover have "fifo_bytes ?s2 = fifo_bytes ?t" "sim_ok ?s2"
      using deq(2) s1(5) by (simp_all add: fifo_bytes_def sim_ok_def fifo_ok_def)
    ultimately show ?thesis
      using False offer s1 by (auto simp: term_offer_def Let_def terminal_of_def)
  qed
  then show "sim_ok (sim_offer s)" "terminal_of (sim_offer s) = term_offer (terminal_of s)" "dut (sim_offer s) = dut s"
    "bit_driver (sim_offer s) = bit_driver s" by blast+
qed

lemma soc_clock_term_input:
  assumes "v = (offered h \<noteq> None)" "\<And>b. offered h = Some b \<Longrightarrow> p = b"
  shows "soc_clock \<lparr>in_resetn = True, in_rx = True, in_par_rx = p, in_par_rx_valid = v\<rparr> s = soc_clock (term_input h) s"
proof -
  let ?i = "\<lparr>in_resetn = True, in_rx = True, in_par_rx = p, in_par_rx_valid = v\<rparr>"
  have "par_rx_clock ?i s = par_rx_clock (term_input h) s" "par_tx_clock ?i s = par_tx_clock (term_input h) s"
    "in_resetn (term_input h)" "in_rx (term_input h)"
    using assms by (cases "offered h"; simp add: term_input_def par_rx_clock_def par_tx_clock_def)+
  then show ?thesis by (simp only: soc_clock_def soc_in.simps)
qed

lemma body_terminal:
  assumes "sim_ok s" "h = term_prepare r (terminal_of s)"
  shows "\<exists>f. sim_body r s = map_option (\<lambda>d. (fst (port_pins d), f d)) (soc_clock (term_input h) (dut s))
    \<and> (\<forall>d. sim_ok (f d) \<and> dut (f d) = d \<and> terminal_of (f d) = h\<lparr>taken := snd (port_pins d)\<rparr>)"
proof -
  define s1 where "s1 = (case r of None \<Rightarrow> s | Some ch \<Rightarrow> sim_enqueue ch s)"
  note s1 = read_terminal [OF assms(1) s1_def]
  note s2 = offer_terminal [OF s1(1)]
  let ?s2 = "sim_offer s1"
  let ?f = "\<lambda>d. ?s2\<lparr>bit_driver := bit_driver ?s2, dut := d\<rparr>"
  have h: "terminal_of ?s2 = h" using s1 s2 assms(2) by (simp add: term_prepare_def)
  have line: "driver_get_tx_line (bit_driver ?s2) = (True, bit_driver ?s2)"
    using s2(1) by (simp add: sim_ok_def driver_is_idle_def driver_get_tx_line_def)
  have "soc_clock \<lparr>in_resetn = True, in_rx = True, in_par_rx = port_par_rx ?s2, in_par_rx_valid = port_par_rx_valid ?s2\<rparr> (dut ?s2)
      = soc_clock (term_input h) (dut s)"
    using s1(3) s2(3) by (subst soc_clock_term_input [where h = h]) (auto simp flip: h simp: terminal_of_def split: if_splits)
  then have "sim_clock ?s2 = map_option ?f (soc_clock (term_input h) (dut s))"
    by (simp add: sim_clock_def line split: option.split)
  moreover have "par_txrx ?s2" using s2(1) by (simp add: sim_ok_def)
  ultimately have "sim_body r s = map_option (\<lambda>d. (fst (port_pins d), ?f d)) (soc_clock (term_input h) (dut s))"
    by (auto simp: sim_body_def s1_def [symmetric] sim_sample_def port_pins_def split: option.split)
  moreover have "sim_ok (?f d) \<and> dut (?f d) = d \<and> terminal_of (?f d) = h\<lparr>taken := snd (port_pins d)\<rparr>" for d
    using s2(1) by (auto simp: sim_ok_def fifo_ok_def terminal_of_def fifo_bytes_def port_pins_def simp flip: h)
  ultimately show ?thesis by (intro exI [of _ ?f]) blast
qed

section \<open>Instructions and programs\<close>

text \<open>The inputs of the system at the clocks whose acknowledgments are \<open>ts\<close>, and the terminal after them.\<close>

fun term_feed :: "bool list \<Rightarrow> i8 option list \<Rightarrow> terminal \<Rightarrow> soc_in list \<times> terminal" where
  "term_feed (t # ts) (r # rs) h =
    (let h1 = term_prepare r h in case term_feed ts rs (h1\<lparr>taken := t\<rparr>) of (ins, h2) \<Rightarrow> (term_input h1 # ins, h2))"
| "term_feed ts rs h = ([], h)"

lemma term_feed_append:
  "length ts = length rs \<Longrightarrow> term_feed (ts @ ts') (rs @ rs') h =
    (case term_feed ts rs h of (ins, h1) \<Rightarrow> case term_feed ts' rs' h1 of (ins', h2) \<Rightarrow> (ins @ ins', h2))"
  by (induction ts rs h rule: term_feed.induct) (simp_all add: Let_def split: prod.split)

lemma term_feed_idle: "length rs = n \<Longrightarrow> snd (term_feed (replicate n False) rs h) = term_idle rs h"
  by (induction rs arbitrary: n h) (auto simp: term_idle_def term_clock_def Let_def split_beta)

lemma term_feed_inputs:
  "length ts = length rs \<Longrightarrow> length (fst (term_feed ts rs h)) = length rs"
  "\<forall>i \<in> set (fst (term_feed ts rs h)). in_resetn i"
  by (induction ts rs h rule: term_feed.induct) (auto simp: Let_def term_input_def split: prod.split)

lemma loop_terminal:
  "sim_ok s \<Longrightarrow> Some 4 \<notin> set rs \<Longrightarrow> length ps = length rs \<Longrightarrow>
    soc_pins (fst (term_feed (map snd ps) rs (terminal_of s))) (dut s) = Some (ps, d) \<Longrightarrow>
    \<exists>s'. sim_loop rs s = Some (List.map_filter fst ps, s') \<and> sim_ok s' \<and> dut s' = d
      \<and> terminal_of s' = snd (term_feed (map snd ps) rs (terminal_of s))"
proof (induction rs arbitrary: s ps)
  case Nil
  then show ?case by (simp add: List.map_filter_def)
next
  case (Cons r rs)
  then obtain p qs where ps: "ps = p # qs" "length qs = length rs" by (cases ps) auto
  let ?s1 = "s\<lparr>bit_driver := driver_tick (bit_driver s)\<rparr>"
  let ?h1 = "term_prepare r (terminal_of s)"
  obtain d1 where d1: "soc_clock (term_input ?h1) (dut s) = Some d1" "port_pins d1 = p"
      "soc_pins (fst (term_feed (map snd qs) rs (?h1\<lparr>taken := snd p\<rparr>))) d1 = Some (qs, d)"
    using Cons.prems(4) by (auto simp: ps(1) Let_def split: option.splits prod.splits)
  have "soc_clock (term_input ?h1) (dut ?s1) = Some d1" "?h1 = term_prepare r (terminal_of ?s1)"
    using d1(1) by (simp_all add: tick_terminal)
  from body_terminal [OF tick_terminal(3) [OF Cons.prems(1)] this(2)] this(1) d1(2) obtain s2 where
    s2: "sim_body r ?s1 = Some (fst p, s2)" "sim_ok s2" "dut s2 = d1" "terminal_of s2 = ?h1\<lparr>taken := snd p\<rparr>"
    by auto
  from Cons.IH [OF s2(2) _ ps(2)] Cons.prems(2) d1(3) s2(3,4) obtain s' where
    "sim_loop rs s2 = Some (List.map_filter fst qs, s')" "sim_ok s'" "dut s' = d"
    "terminal_of s' = snd (term_feed (map snd qs) rs (terminal_of s2))"
    by auto
  with s2 Cons.prems(2) show ?case
    by (auto simp: ps(1) Let_def map_filter_simps split: option.split prod.split)
qed

definition sim_ready :: "simulator \<Rightarrow> bool" where
  "sim_ready s \<longleftrightarrow> sim_ok s \<and> soc_ready (dut s) \<and> sim_use_par_txrx (dut s)"

text \<open>Where a load acknowledges, the feed is that of the terminal.\<close>

lemma term_feed_load:
  assumes "length rs = 6" "h3 = term_prepare (rs ! 3) (term_idle (take 3 rs) h)"
  shows "fst (term_feed (map snd (quiet_pins 3 @ (None, t) # quiet_pins 2)) rs h) ! 3 = term_input h3"
    "snd (term_feed (map snd (quiet_pins 3 @ (None, t) # quiet_pins 2)) rs h) = term_idle (drop 4 rs) (h3\<lparr>taken := t\<rparr>)"
proof -
  have rs: "rs = take 3 rs @ rs ! 3 # drop 4 rs" using assms(1) id_take_nth_drop [of 3 rs] by simp
  have len: "length (take 3 rs) = 3" "length (drop 4 rs) = 2" using assms(1) by simp_all
  obtain ins where ins: "term_feed (replicate 3 False) (take 3 rs) h = (ins, term_idle (take 3 rs) h)" "length ins = 3"
    using term_feed_idle [OF len(1), of h] term_feed_inputs(1) [of "replicate 3 False" "take 3 rs" h] len(1)
    by (cases "term_feed (replicate 3 False) (take 3 rs) h") auto
  obtain ins' where ins': "term_feed (replicate 2 False) (drop 4 rs) (h3\<lparr>taken := t\<rparr>) = (ins', term_idle (drop 4 rs) (h3\<lparr>taken := t\<rparr>))"
    using term_feed_idle [OF len(2), of "h3\<lparr>taken := t\<rparr>"]
    by (cases "term_feed (replicate 2 False) (drop 4 rs) (h3\<lparr>taken := t\<rparr>)") auto
  have "term_feed (replicate 3 False @ t # replicate 2 False) (take 3 rs @ rs ! 3 # drop 4 rs) h
      = (ins @ term_input h3 # ins', term_idle (drop 4 rs) (h3\<lparr>taken := t\<rparr>))"
    by (subst term_feed_append) (use len in \<open>simp_all add: ins(1) ins' Let_def assms(2) [symmetric]\<close>)
  then have "term_feed (map snd (quiet_pins 3 @ (None :: i8 option, t) # quiet_pins 2)) rs h
      = (ins @ term_input h3 # ins', term_idle (drop 4 rs) (h3\<lparr>taken := t\<rparr>))"
    using rs by simp
  then show "fst (term_feed (map snd (quiet_pins 3 @ (None, t) # quiet_pins 2)) rs h) ! 3 = term_input h3"
    "snd (term_feed (map snd (quiet_pins 3 @ (None, t) # quiet_pins 2)) rs h) = term_idle (drop 4 rs) (h3\<lparr>taken := t\<rparr>)"
    using ins(2) by (simp_all add: nth_append)
qed

lemma step_terminal:
  assumes "sim_ready s" "a = soc_arch (dut s)" "h = terminal_of s" "io_supported a" "length rs = isa_cycles (isa_fetch a)" "Some 4 \<notin> set rs"
  shows "\<exists>s' out. sim_loop rs s = Some (out, s') \<and> sim_ready s' \<and> (out, terminal_of s', soc_arch (dut s')) = term_step rs h a"
proof -
  let ?h3 = "term_prepare (rs ! 3) (term_idle (take 3 rs) h)"
  define i where "i = term_input ?h3"
  obtain ps a' where step: "io_step i a = (ps, a')" by (cases "io_step i a")
  define ins where "ins = fst (term_feed (map snd ps) rs h)"
  have load: "length rs = 6" if "page_load a" using that assms(5) by (simp add: page_load_def isa_cycles_def)
  have store: "length rs = 5" if "page_store a" using that assms(5) by (simp add: page_store_def isa_cycles_def)
  have len: "length ps = length rs" using step assms(5) load store by (auto simp: io_step_def split: if_splits)
  have ins3: "io_step (ins ! 3) a = (ps, a')"
  proof (cases "page_load a")
    case True
    then have "ps = quiet_pins 3 @ (None, in_par_rx_valid i) # quiet_pins 2" using step by (simp add: io_step_def)
    then have "ins ! 3 = i" using term_feed_load(1) [OF load [OF True] refl] by (simp add: ins_def i_def)
    then show ?thesis using step by simp
  next
    case False
    then show ?thesis using step by (simp add: io_step_def)
  qed
  have "length ins = isa_cycles (isa_fetch a)" "\<forall>i \<in> set ins. in_resetn i"
    using term_feed_inputs [of "map snd ps" rs h] len assms(5) by (auto simp: ins_def)
  from io_instruction [OF _ _ assms(2,4) this] assms(1) obtain d where
    d: "soc_pins ins (dut s) = Some (ps, d)" "soc_ready d" "sim_use_par_txrx d" "soc_arch d = a'"
    by (auto simp: sim_ready_def ins3)
  from loop_terminal [OF _ assms(6) len, of s d] d(1) assms(1,3) obtain s' where
    s': "sim_loop rs s = Some (List.map_filter fst ps, s')" "sim_ok s'" "dut s' = d"
      "terminal_of s' = snd (term_feed (map snd ps) rs h)"
    by (auto simp: sim_ready_def ins_def)
  have "(List.map_filter fst ps, terminal_of s', a') = term_step rs h a"
  proof (cases "page_load a")
    case True
    then have ps: "ps = quiet_pins 3 @ (None, in_par_rx_valid i) # quiet_pins 2" "a' = isa_load_io (port_answer i (access_addr a)) a"
      using step by (simp_all add: io_step_def)
    have "port_answer i (access_addr a) = port_value (offered ?h3) (access_addr a)"
      by (cases "offered ?h3") (simp_all add: i_def term_input_def port_answer_def port_value_def)
    then show ?thesis
      using True term_feed_load(2) [OF load [OF True] refl, of "in_par_rx_valid i" h]
      by (simp add: term_step_def Let_def s'(4) ps i_def term_input_def map_filter_simps List.map_filter_def)
  next
    case False
    then have "map snd ps = replicate (length rs) False"
      "List.map_filter fst ps = (if page_store a then [lane 0 (xreg a (rs2_of (isa_fetch a)))] else [])" "a' = isa_step a"
      using step assms(5) store
      by (auto simp: io_step_def List.map_filter_def numeral_3_eq_3 eval_nat_numeral split: if_splits)
    then show ?thesis
      using False term_feed_idle [of rs "length rs" h] by (simp add: term_step_def s'(4))
  qed
  with s' d show ?thesis by (intro exI [of _ s'] exI) (auto simp: sim_ready_def)
qed

lemma sim_loop_append:
  "Some 4 \<notin> set rs \<Longrightarrow> sim_loop (rs @ rs') s = (case sim_loop rs s of None \<Rightarrow> None
     | Some (out, s1) \<Rightarrow> (case sim_loop rs' s1 of None \<Rightarrow> None | Some (out', s') \<Rightarrow> Some (out @ out', s')))"
  by (induction rs s rule: sim_loop.induct) (auto simp: Let_def split: option.splits prod.splits)

lemma program_terminal:
  "sim_ready s \<Longrightarrow> term_covers k rs (terminal_of s) (soc_arch (dut s)) \<Longrightarrow> Some 4 \<notin> set rs \<Longrightarrow>
    \<exists>s' out. sim_loop rs s = Some (out, s') \<and> sim_ready s'
      \<and> (out, terminal_of s', soc_arch (dut s')) = term_run k rs (terminal_of s) (soc_arch (dut s))"
proof (induction k arbitrary: s rs)
  case 0
  then show ?case by simp
next
  case (Suc k)
  let ?a = "soc_arch (dut s)"
  let ?n = "isa_cycles (isa_fetch ?a)"
  have sup: "io_supported ?a" "length (take ?n rs) = ?n" using Suc.prems(2) by (auto simp: Let_def)
  have no4: "Some 4 \<notin> set (take ?n rs)" "Some 4 \<notin> set (drop ?n rs)"
    using Suc.prems(3) by (auto dest: in_set_takeD in_set_dropD)
  from step_terminal [OF Suc.prems(1) refl refl sup no4(1)] obtain s1 out where
    s1: "sim_loop (take ?n rs) s = Some (out, s1)" "sim_ready s1"
      "term_step (take ?n rs) (terminal_of s) ?a = (out, terminal_of s1, soc_arch (dut s1))"
    by metis
  from Suc.IH [OF s1(2) _ no4(2)] Suc.prems(2) s1(3) obtain s2 outs where
    s2: "sim_loop (drop ?n rs) s1 = Some (outs, s2)" "sim_ready s2"
      "(outs, terminal_of s2, soc_arch (dut s2)) = term_run k (drop ?n rs) (terminal_of s1) (soc_arch (dut s1))"
    by (auto simp: Let_def)
  have "sim_loop (take ?n rs @ drop ?n rs) s = Some (out @ outs, s2)"
    unfolding sim_loop_append [OF no4(1)] using s1(1) s2(1) by simp
  then show ?case using s1(3) s2(2) by (simp add: Let_def flip: s2(3))
qed

section \<open>Start\<close>

lemma mult_step_le: "i mod 4 = 0 \<Longrightarrow> i < 4 * m \<Longrightarrow> i + 4 \<le> 4 * m" for i m :: nat
  by presburger

lemma load_loop:
  "i mod 4 = 0 \<Longrightarrow> n \<le> 0x1000000 \<Longrightarrow>
    for_loop i n 4 (\<lambda>i mem. mem(of_nat (i div 4) := image_word imem i)) (mem :: mem_words) x
      = (if i \<le> 4 * unat x \<and> 4 * unat x < n then image_word imem (4 * unat x) else mem x)"
proof (induction "n - i" arbitrary: i mem rule: less_induct)
  case less
  show ?case
  proof (cases "i < n")
    case True
    have "i div 4 < 2 ^ 22" using True less.prems(2) by simp
    then have idx: "unat (of_nat (i div 4) :: 22 word) = i div 4" by (simp add: unat_of_nat)
    have i: "4 * (i div 4) = i" using less.prems(1) by presburger
    have "x = of_nat (i div 4) \<longleftrightarrow> unat x = i div 4" by (simp only: word_unat_eq_iff idx)
    then have here: "x = of_nat (i div 4) \<longleftrightarrow> 4 * unat x = i" using i by linarith
    let ?mem = "mem(of_nat (i div 4) := image_word imem i)"
    have "for_loop (i + 4) n 4 (\<lambda>i mem. mem(of_nat (i div 4) := image_word imem i)) ?mem x
        = (if i + 4 \<le> 4 * unat x \<and> 4 * unat x < n then image_word imem (4 * unat x) else ?mem x)"
      using less.hyps [of "i + 4" ?mem] True less.prems by simp
    then have loop: "for_loop i n 4 (\<lambda>i mem. mem(of_nat (i div 4) := image_word imem i)) mem x
        = (if i + 4 \<le> 4 * unat x \<and> 4 * unat x < n then image_word imem (4 * unat x) else ?mem x)"
      using True by (simp only: for_loop_step zero_less_numeral)
    consider "4 * unat x = i" | "i + 4 \<le> 4 * unat x" | "4 * unat x < i"
      using mult_step_le [OF less.prems(1), of "unat x"] by linarith
    then show ?thesis using True here loop by cases simp_all
  next
    case False
    then show ?thesis by (auto simp: for_loop_stop)
  qed
qed

lemma image_word_lane:
  assumes "k < 4"
  shows "lane k (image_word imem i) = imem (i + k)"
proof -
  have beyond: "\<not> bit (b :: i8) m" if "8 \<le> m" for b m using that bit_imp_le_length [of b m] by auto
  from assms have "k \<in> {0, 1, 2, 3}" by auto
  then show ?thesis
    by (auto intro!: bit_word_eqI simp: lane_def image_word_def bit_simps beyond)
qed

lemma load_sram_bytes:
  assumes "k < n" "k < 0x1000000"
  shows "byte_at (load_sram n imem mem) (of_nat k) = imem k"
proof -
  have k: "uint (of_nat k :: i32) = int k" using assms(2) by (simp add: uint_nat unat_of_nat)
  have "int k AND 3 = take_bit 2 (int k)" by (simp add: take_bit_eq_mask mask_eq_exp_minus_1)
  then have "uint ((of_nat k :: i32) AND 3) = int (k mod 4)" by (simp add: uint_and k take_bit_eq_mod zmod_int)
  then have "unat ((of_nat k :: i32) AND 3) = k mod 4" by (simp add: unat_eq_nat_uint)
  moreover have "unat (word_index (of_nat k)) = k div 4"
    using assms(2) by (simp add: word_index_int k drop_bit_eq_div unat_eq_nat_uint uint_word_of_int zdiv_int [symmetric])
  moreover have "4 * (k div 4) < n" "k div 4 < 4194304" using assms by linarith+
  ultimately show ?thesis
    using assms load_loop [of 0 "min n 0x1000000"]
    by (simp add: byte_at_def load_sram_def image_word_lane)
qed

text \<open>
  What the constructor of the model leaves: Verilator fills registers with zeros, of which only the
  program counter and the absence of a memory request matter.
\<close>

definition powered_up :: "soc \<Rightarrow> bool" where
  "powered_up d \<longleftrightarrow> pc_reg (cpu d) = 0 \<and> \<not> dmem_req_valid (cpu d)"

lemma sim_boot:
  assumes "powered_up d" "length fifo = 256"
  shows "\<exists>s. sim_start d p v b fifo n imem = Some s \<and> sim_ready s
    \<and> terminal_of s = \<lparr>waiting = [], offered = (if v then Some p else None), taken = False\<rparr>
    \<and> core_is_reset (cpu (dut s)) \<and> \<not> break_hit (dut s) \<and> sr_mem (sram0 (dut s)) = load_sram n imem (sr_mem (sram0 d))"
proof -
  let ?i = "\<lparr>in_resetn = False, in_rx = True, in_par_rx = p, in_par_rx_valid = v\<rparr>"
  define d0 where "d0 = d\<lparr>sram0 := (sram0 d)\<lparr>sr_mem := load_sram n imem (sr_mem (sram0 d))\<rparr>\<rparr>"
  have d0: "cpu d0 = cpu d" "sr_mem (sram0 d0) = load_sram n imem (sr_mem (sram0 d))" by (simp_all add: d0_def)
  obtain d1 where d1: "soc_clock ?i d0 = Some d1" "core_is_reset (cpu d1)" "\<not> uart_resp_valid (uart0 d1)" "\<not> break_hit d1"
    "imem_addr_reg d1 = 0" "\<not> sr_dmem_resp_valid_reg (sram0 d1)"
    using soc_clock_reset [of ?i d0] assms(1) by (auto simp: powered_up_def d0(1))
  have mem: "sr_mem (sram0 d1) = load_sram n imem (sr_mem (sram0 d))"
    using d1(1) assms(1) d0 by (auto simp: soc_clock_def sram_clock_def sram_step_def powered_up_def split: option.splits prod.splits)
  have ack: "\<not> par_rx_ack d1" using soc_clock_par(1) [OF d1(1)] by (simp add: par_rx_clock_def)
  let ?s = "\<lparr>dut = d1\<lparr>sim_use_par_txrx := True\<rparr>, port_par_rx = p, port_par_rx_valid = v,
    bit_driver = driver_new 50000000 115200 b, rx_fifo = fifo, rx_fifo_head = 0, rx_fifo_tail = 0, par_txrx = True\<rparr>"
  have "sim_start d p v b fifo n imem = Some ?s" using d1(1) by (simp add: sim_start_def d0_def)
  moreover have "soc_ready (dut ?s)"
    using d1 by (simp add: soc_ready_def mach_of_def port_ok_def core_is_reset_def)
  ultimately show ?thesis
    using d1 mem ack assms(2)
    by (intro exI [of _ ?s]) (simp add: sim_ready_def sim_ok_def fifo_ok_def driver_is_idle_def driver_new_def terminal_of_def fifo_bytes_def)
qed

section \<open>What the program reads\<close>

text \<open>
  The main loop for any program: at a clock for which the model has no value, because the machine uses
  a control code that the decoder left \<open>x\<close>, the code is given any value.
\<close>

definition sim_body_driven :: "codes \<Rightarrow> i8 option \<Rightarrow> simulator \<Rightarrow> (i8 option \<times> simulator) option" where
  "sim_body_driven v r s =
    (case sim_body r s of None \<Rightarrow> sim_body r (s\<lparr>dut := (dut s)\<lparr>cpu := drive v (cpu (dut s))\<rparr>\<rparr>) | Some x \<Rightarrow> Some x)"

fun sim_loop_driven :: "(codes \<times> i8 option) list \<Rightarrow> simulator \<Rightarrow> (i8 list \<times> simulator) option" where
  "sim_loop_driven [] s = Some ([], s)"
| "sim_loop_driven ((v, r) # rs) s =
    (let s1 = s\<lparr>bit_driver := driver_tick (bit_driver s)\<rparr> in
     if r = Some 4 then Some ([], s1)
     else case sim_body_driven v r s1 of None \<Rightarrow> None
     | Some (received, s2) \<Rightarrow>
         (case sim_loop_driven rs s2 of None \<Rightarrow> None
          | Some (out, s') \<Rightarrow> Some (case received of None \<Rightarrow> out | Some b \<Rightarrow> b # out, s')))"

lemma loop_driven_agrees: "sim_loop (map snd rs) s = Some t \<Longrightarrow> sim_loop_driven rs s = Some t"
proof (induction rs s arbitrary: t rule: sim_loop_driven.induct)
  case (2 v r rs s)
  show ?case
  proof (cases "r = Some 4")
    case False
    let ?s1 = "s\<lparr>bit_driver := driver_tick (bit_driver s)\<rparr>"
    obtain b s2 out s' where run: "sim_body r ?s1 = Some (b, s2)" "sim_loop (map snd rs) s2 = Some (out, s')"
      "t = (case b of None \<Rightarrow> out | Some b \<Rightarrow> b # out, s')"
      using 2(2) False by (auto simp: Let_def split: option.splits prod.splits)
    then have body: "sim_body_driven v r ?s1 = Some (b, s2)" by (simp add: sim_body_driven_def)
    have "sim_loop_driven rs s2 = Some (out, s')"
      by (rule 2(1) [OF refl False body refl run(2)])
    with False body run(3) show ?thesis by (simp add: Let_def)
  qed (use 2(2) in \<open>simp add: Let_def\<close>)
qed simp

text \<open>The bytes that entered the ring buffer and the bytes the port took.\<close>

fun sim_traffic :: "(codes \<times> i8 option) list \<Rightarrow> simulator \<Rightarrow> (i8 list \<times> i8 list \<times> simulator) option" where
  "sim_traffic [] s = Some ([], [], s)"
| "sim_traffic ((v, r) # rs) s =
    (let s1 = s\<lparr>bit_driver := driver_tick (bit_driver s)\<rparr> in
     if r = Some 4 then Some ([], [], s1)
     else case sim_body_driven v r s1 of None \<Rightarrow> None
     | Some (received, s2) \<Rightarrow>
         (case sim_traffic rs s2 of None \<Rightarrow> None
          | Some (entered, took, s') \<Rightarrow>
              Some ((case r of Some ch \<Rightarrow> if length (fifo_bytes s) < 255 then [ch] else [] | None \<Rightarrow> []) @ entered,
                (if par_rx_ack (dut s2) then [port_par_rx s2] else []) @ took, s')))"

definition unread :: "simulator \<Rightarrow> i8 list" where
  "unread s = (if port_par_rx_valid s \<and> \<not> par_rx_ack (dut s) then [port_par_rx s] else []) @ fifo_bytes s"

definition term_unread :: "terminal \<Rightarrow> i8 list" where
  "term_unread h = (case offered h of Some b \<Rightarrow> if taken h then [] else [b] | None \<Rightarrow> []) @ waiting h"

lemma unread_terminal: "unread s = term_unread (terminal_of s)"
  by (simp add: unread_def term_unread_def terminal_of_def)

lemma prepare_unread:
  "(case offered (term_prepare r h) of Some b \<Rightarrow> [b] | None \<Rightarrow> []) @ waiting (term_prepare r h)
    = term_unread h @ (case r of Some ch \<Rightarrow> if length (waiting h) < 255 then [ch] else [] | None \<Rightarrow> [])"
  by (cases h; cases r; cases "waiting h")
    (auto simp: term_prepare_def term_offer_def term_read_def term_unread_def Let_def split: option.split)

lemma body_unread:
  assumes "sim_ok s" "sim_body r s = Some (received, s')"
  shows "sim_ok s'" "unread s @ (case r of Some ch \<Rightarrow> if length (fifo_bytes s) < 255 then [ch] else [] | None \<Rightarrow> [])
    = (if par_rx_ack (dut s') then [port_par_rx s'] else []) @ unread s'"
proof -
  define h where "h = term_prepare r (terminal_of s)"
  obtain f where f: "sim_body r s = map_option (\<lambda>d. (fst (port_pins d), f d)) (soc_clock (term_input h) (dut s))"
      "\<And>d. sim_ok (f d)" "\<And>d. dut (f d) = d" "\<And>d. terminal_of (f d) = h\<lparr>taken := snd (port_pins d)\<rparr>"
    using body_terminal [OF assms(1) h_def] by blast
  with assms(2) obtain d where d: "soc_clock (term_input h) (dut s) = Some d" "s' = f d" by (auto simp only: map_option_eq_Some prod.inject)
  note s' = f(2-4) [of d, folded d(2)]
  show "sim_ok s'" by (rule s'(1))
  have ack: "par_rx_ack d \<Longrightarrow> offered h \<noteq> None"
    using soc_clock_par(1) [OF d(1)] by (auto simp: par_rx_clock_def term_input_def split: if_splits)
  have "waiting h = fifo_bytes s'" "offered h = (if port_par_rx_valid s' then Some (port_par_rx s') else None)"
    using arg_cong [OF s'(3), of waiting] arg_cong [OF s'(3), of offered] by (simp_all add: terminal_of_def)
  then have after: "(case offered h of Some b \<Rightarrow> [b] | None \<Rightarrow> []) @ waiting h = (if par_rx_ack d then [port_par_rx s'] else []) @ unread s'"
    using ack s'(2) by (auto simp: unread_def split: if_splits)
  have "waiting (terminal_of s) = fifo_bytes s" by (simp add: terminal_of_def)
  with prepare_unread [of r "terminal_of s"] show "unread s @ (case r of Some ch \<Rightarrow> if length (fifo_bytes s) < 255 then [ch] else [] | None \<Rightarrow> [])
    = (if par_rx_ack (dut s') then [port_par_rx s'] else []) @ unread s'"
    by (simp only: s'(2) after [symmetric] unread_terminal [of s] h_def)
qed

lemma body_driven:
  assumes "sim_ok s"
  shows "\<exists>received s'. sim_body_driven v r s = Some (received, s') \<and> sim_ok s'
    \<and> unread s @ (case r of Some ch \<Rightarrow> if length (fifo_bytes s) < 255 then [ch] else [] | None \<Rightarrow> [])
      = (if par_rx_ack (dut s') then [port_par_rx s'] else []) @ unread s'"
proof -
  let ?d = "(dut s)\<lparr>cpu := drive v (cpu (dut s))\<rparr>"
  let ?s = "s\<lparr>dut := ?d\<rparr>"
  have same: "sim_ok ?s" "unread ?s = unread s" "fifo_bytes ?s = fifo_bytes s"
    using assms by (simp_all add: sim_ok_def fifo_ok_def unread_def fifo_bytes_def)
  obtain t where "t = s \<or> t = ?s" "sim_body_driven v r s = sim_body r t" "\<exists>x. sim_body r t = Some x"
  proof (cases "sim_body r s")
    case None
    define h where "h = term_prepare r (terminal_of ?s)"
    obtain f where f: "sim_body r ?s = map_option (\<lambda>d. (fst (port_pins d), f d)) (soc_clock (term_input h) (dut ?s))"
      using body_terminal [OF same(1) h_def] by blast
    obtain d where "soc_clock (term_input h) ?d = Some d"
      using soc_clock_value [of "term_input h" ?d] cpu_clock_driven by auto
    then have "\<exists>x. sim_body r ?s = Some x" using f by simp
    with None show ?thesis by (intro that [of ?s]) (simp_all add: sim_body_driven_def)
  qed (rule that [of s]; simp add: sim_body_driven_def)
  then obtain received s' where t: "sim_body r t = Some (received, s')" "sim_body_driven v r s = Some (received, s')"
    and ok: "sim_ok t" "unread t = unread s" "fifo_bytes t = fifo_bytes s"
    using assms same by (metis surj_pair)
  show ?thesis using body_unread [OF ok(1) t(1), unfolded ok(2,3)] t(2) by blast
qed

text \<open>The loop always goes on; what enters, what is taken and what is left.\<close>

lemma loop_traffic:
  "sim_ok s \<Longrightarrow>
    \<exists>out s' entered took. sim_loop_driven rs s = Some (out, s') \<and> sim_traffic rs s = Some (entered, took, s')
      \<and> unread s @ entered = took @ unread s'
      \<and> (length (unread s) + length (List.map_filter snd rs) \<le> 255 \<longrightarrow> Some 4 \<notin> snd ` set rs \<longrightarrow> entered = List.map_filter snd rs)"
proof (induction rs arbitrary: s)
  case Nil
  then show ?case by (simp add: List.map_filter_def)
next
  case (Cons vr rs)
  obtain v r where vr: "vr = (v, r)" by (cases vr)
  let ?s1 = "s\<lparr>bit_driver := driver_tick (bit_driver s)\<rparr>"
  have s1: "sim_ok ?s1" "unread ?s1 = unread s" "fifo_bytes ?s1 = fifo_bytes s"
    using tick_terminal(3) [OF Cons.prems(1)] by (simp_all add: unread_def fifo_bytes_def)
  show ?case
  proof (cases "r = Some 4")
    case True
    then show ?thesis using s1 by (auto simp: vr Let_def unread_def)
  next
    case False
    define e where "e = (case r of Some ch \<Rightarrow> if length (fifo_bytes s) < 255 then [ch] else [] | None \<Rightarrow> [])"
    obtain received s2 where s2: "sim_body_driven v r ?s1 = Some (received, s2)" "sim_ok s2"
      "unread s @ e = (if par_rx_ack (dut s2) then [port_par_rx s2] else []) @ unread s2"
      using body_driven [OF s1(1), of v r] unfolding s1(2,3) e_def by blast
    from Cons.IH [OF s2(2)] obtain out s' entered took where IH:
      "sim_loop_driven rs s2 = Some (out, s')" "sim_traffic rs s2 = Some (entered, took, s')" "unread s2 @ entered = took @ unread s'"
      "length (unread s2) + length (List.map_filter snd rs) \<le> 255 \<longrightarrow> Some 4 \<notin> snd ` set rs \<longrightarrow> entered = List.map_filter snd rs"
      by blast
    let ?t = "if par_rx_ack (dut s2) then [port_par_rx s2] else []"
    have "sim_traffic (vr # rs) s = Some (e @ entered, ?t @ took, s')" "\<exists>out. sim_loop_driven (vr # rs) s = Some (out, s')"
      using False s2(1) IH(1,2) by (simp_all add: vr Let_def e_def)
    moreover have "unread s @ e @ entered = (?t @ took) @ unread s'"
      using s2(3) IH(3) by (metis append_assoc)
    moreover have "e @ entered = List.map_filter snd (vr # rs)"
      if room: "length (unread s) + length (List.map_filter snd (vr # rs)) \<le> 255" and no4: "Some 4 \<notin> snd ` set (vr # rs)"
    proof -
      have "length (fifo_bytes s) \<le> length (unread s)" by (simp add: unread_def)
      then have e: "e = (case r of Some ch \<Rightarrow> [ch] | None \<Rightarrow> [])"
        using room by (cases r) (simp_all add: e_def vr map_filter_simps)
      have "length (unread s2) \<le> length (unread s) + length e"
        using arg_cong [OF s2(3), of length] by (simp only: length_append)
      then have "entered = List.map_filter snd rs"
        using IH(4) room no4 by (auto simp: e vr map_filter_simps split: option.splits)
      then show ?thesis by (simp add: e vr map_filter_simps split: option.split)
    qed
    ultimately show ?thesis by blast
  qed
qed

section \<open>Properties\<close>

text \<open>
  C8.  A program under the simulator does what the instruction set and the terminal say: from a
  ready state, over any bytes that arrive while its first \<open>k\<close> instructions run, the simulator prints
  exactly the specified bytes and leaves the specified registers, memory, waiting bytes and port.
\<close>

theorem simulator_runs_program:
  assumes "sim_ready s" "term_covers k rs (terminal_of s) (soc_arch (dut s))" "Some 4 \<notin> set rs"
  shows "\<exists>s' out. sim_loop rs s = Some (out, s') \<and> sim_ready s'
    \<and> (out, terminal_of s', soc_arch (dut s')) = term_run k rs (terminal_of s) (soc_arch (dut s))"
  using assms by (rule program_terminal)

text \<open>\<open>lui x2,0x10000; lb x1,0(x2); sb x1,0(x2)\<close>: the echo of one byte.\<close>

definition echo_mem :: mem_words where
  "echo_mem = (\<lambda>_. 0)(0 := 0x10000137, 1 := 0x00010083, 2 := 0x00110023)"

definition sim_at_rest :: "mem_words \<Rightarrow> simulator" where
  "sim_at_rest mem = \<lparr>dut = (soc_at_rest mem)\<lparr>sim_use_par_txrx := True\<rparr>, port_par_rx = 0, port_par_rx_valid = False,
     bit_driver = driver_new 50000000 115200 0, rx_fifo = replicate 256 0, rx_fifo_head = 0, rx_fifo_tail = 0, par_txrx = True\<rparr>"

lemma sim_at_rest_ready:
  "sim_ready (sim_at_rest mem)" "terminal_of (sim_at_rest mem) = \<lparr>waiting = [], offered = None, taken = False\<rparr>"
  "soc_arch (dut (sim_at_rest mem)) = soc_arch (soc_at_rest mem)"
  using soc_at_rest_ready [of mem]
  by (simp_all add: sim_ready_def sim_ok_def fifo_ok_def sim_at_rest_def driver_is_idle_def driver_new_def soc_ready_def mach_of_def
      port_ok_def soc_arch_def terminal_of_def fifo_bytes_def soc_at_rest_def)

lemma echo_run:
  "term_covers 3 (Some 0x68 # replicate 14 None) \<lparr>waiting = [], offered = None, taken = False\<rparr> (soc_arch (soc_at_rest echo_mem))"
  "fst (term_run 3 (Some 0x68 # replicate 14 None) \<lparr>waiting = [], offered = None, taken = False\<rparr> (soc_arch (soc_at_rest echo_mem))) = [0x68]"
  unfolding soc_at_rest_arch by code_simp+

theorem simulator_runs_program_witness:
  "\<exists>s'. sim_loop (Some 0x68 # replicate 14 None) (sim_at_rest echo_mem) = Some ([0x68], s') \<and> sim_ready s'"
proof -
  have "Some 4 \<notin> set (Some 0x68 # replicate 14 None :: i8 option list)" by simp
  from simulator_runs_program [OF sim_at_rest_ready(1) _ this, of 3 echo_mem] echo_run show ?thesis
    by (simp only: sim_at_rest_ready(2,3)) (metis fst_conv)
qed

lemma size_not_negative: "n \<le> 0x1000000 \<Longrightarrow> \<not> sint (of_nat n :: i32) < 0"
proof -
  assume n: "n \<le> 0x1000000"
  have k: "sint (word_of_int k :: i32) = k" if "0 \<le> k" "k \<le> 0x1000000" for k
    using that by (simp add: sint_sbintrunc' signed_take_bit_int_eq_self)
  have "sint (word_of_int (int n) :: i32) = int n" using n by (intro k) simp_all
  then show ?thesis by (metis of_int_of_nat_eq of_nat_less_0_iff)
qed

text \<open>
  C20.  The simulator starts the program of its file.  For the text of an image and a powered-up
  model with no byte offered, the loader succeeds and the reset clock leaves the system ready at
  address 0 with its counters at 0 and the stop flag clear, nothing waiting, and the bytes of the
  image in its memory, break instructions between them.
\<close>

theorem simulator_boots:
  assumes "powered_up d" "length fifo = 256" "\<forall>chunk \<in> set chunks. chunk_ok 0x1000000 chunk" "chunks \<noteq> []"
  shows "\<exists>s. sim_main d p False b fifo imem (Some (concat (map chunk_text chunks))) = Inr (Some s) \<and> sim_ready s
    \<and> terminal_of s = \<lparr>waiting = [], offered = None, taken = False\<rparr>
    \<and> (a_pc (soc_arch (dut s)), a_cycle (soc_arch (dut s)), a_insn (soc_arch (dut s)), a_load (soc_arch (dut s)),
        a_store (soc_arch (dut s)), a_break (soc_arch (dut s))) = (0, 0, 0, 0, 0, False)
    \<and> (\<forall>k < image_end chunks. byte_at (a_mem (soc_arch (dut s))) (of_nat k) = image_of chunks ebreak_byte k)"
proof -
  let ?n = "image_end chunks" and ?imem = "image_of chunks (init_imem imem)"
  have small: "?n \<le> 0x1000000" using end_bounds [of chunks "0x1000000" 0] assms(3) by (simp add: image_end_def)
  then have n: "unat (of_nat ?n :: i32) = ?n" "\<not> sint (of_nat ?n :: i32) < 0"
    by (simp add: unat_of_nat, rule size_not_negative)
  obtain s where s: "sim_start d p False b fifo ?n ?imem = Some s" "sim_ready s"
    "terminal_of s = \<lparr>waiting = [], offered = None, taken = False\<rparr>" "core_is_reset (cpu (dut s))" "\<not> break_hit (dut s)"
    "sr_mem (sram0 (dut s)) = load_sram ?n ?imem (sr_mem (sram0 d))"
    using sim_boot [OF assms(1,2), of p False b ?n ?imem] by auto
  have "?imem k = image_of chunks ebreak_byte k" if "k < ?n" for k
    using that small by (intro image_of_cong) (simp add: init_imem_bytes)
  then have "\<forall>k < ?n. byte_at (load_sram ?n ?imem (sr_mem (sram0 d))) (of_nat k) = image_of chunks ebreak_byte k"
    using small by (simp add: load_sram_bytes)
  moreover have "sim_main d p False b fifo imem (Some (concat (map chunk_text chunks))) = Inr (Some s)"
    using load_image [OF assms(3,4), of "init_imem imem"] n s(1) by (simp add: sim_main_def)
  ultimately show ?thesis
    using s(2-) by (intro exI [of _ s]) (simp add: soc_arch_def mach_of_def core_is_reset_def)
qed

text \<open>The image of the echo program.\<close>

definition echo_chunks :: "(nat \<times> i8 list) list" where
  "echo_chunks = [(0, [0x37, 0x01, 0x00, 0x10, 0x83, 0x00, 0x01, 0x00, 0x23, 0x00, 0x11, 0x00])]"

theorem simulator_boots_witness:
  "\<exists>s. sim_main (soc_at_rest (\<lambda>_. 0)) 0 False 0 (replicate 256 0) (\<lambda>_. 0) (Some (concat (map chunk_text echo_chunks))) = Inr (Some s)
    \<and> sim_ready s \<and> byte_at (a_mem (soc_arch (dut s))) (of_nat 3) = 0x10"
proof -
  have "powered_up (soc_at_rest (\<lambda>_. 0))" by code_simp
  moreover have "\<forall>chunk \<in> set echo_chunks. chunk_ok 0x1000000 chunk" by (simp add: echo_chunks_def chunk_ok_def) presburger
  ultimately obtain s where s: "sim_main (soc_at_rest (\<lambda>_. 0)) 0 False 0 (replicate 256 0) (\<lambda>_. 0) (Some (concat (map chunk_text echo_chunks))) = Inr (Some s)"
      "sim_ready s" "\<forall>k < image_end echo_chunks. byte_at (a_mem (soc_arch (dut s))) (of_nat k) = image_of echo_chunks ebreak_byte k"
    using simulator_boots [of "soc_at_rest (\<lambda>_. 0)" "replicate 256 0" echo_chunks 0 0 "\<lambda>_. 0"] by (auto simp: echo_chunks_def)
  have "3 < image_end echo_chunks" "image_of echo_chunks ebreak_byte 3 = 0x10" by code_simp+
  with s(1,2) s(3) [rule_format, of 3] show ?thesis by (intro exI [of _ s]) simp
qed

text \<open>
  C21.  For every program, supported or not, the bytes the port takes and those not read yet are, in
  order, those that were unread before and those that entered since; and while at most 255 bytes are
  unread or to come, every byte typed enters.  No program is left out: where a word leaves a control
  code undriven the loop goes on with any value of it, so that it always has a result, which is the
  result of the model's loop wherever that has one.
\<close>

theorem simulator_input_order:
  assumes "sim_ok s"
  shows "\<exists>out s' entered took. sim_loop_driven rs s = Some (out, s') \<and> sim_traffic rs s = Some (entered, took, s')
    \<and> unread s @ entered = took @ unread s'
    \<and> (length (unread s) + length (List.map_filter snd rs) \<le> 255 \<longrightarrow> Some 4 \<notin> snd ` set rs \<longrightarrow> entered = List.map_filter snd rs)
    \<and> (\<forall>t. sim_loop (map snd rs) s = Some t \<longrightarrow> t = (out, s'))"
proof -
  have "t = r" if "sim_loop_driven rs s = Some r" "sim_loop (map snd rs) s = Some t" for r t
    using loop_driven_agrees [OF that(2)] that(1) by simp
  with loop_traffic [OF assms, of rs] show ?thesis by blast
qed

text \<open>A multiplication, which the decoder does not know, while a byte is typed.\<close>

lemma x_loop_stops: "sim_loop (Some 0x68 # replicate 5 None) (sim_at_rest ((\<lambda>_. 0)(0 := 0x023100B3))) = None"
  by code_simp

theorem simulator_input_order_witness:
  "sim_loop (Some 0x68 # replicate 5 None) (sim_at_rest ((\<lambda>_. 0)(0 := 0x023100B3))) = None
    \<and> (\<exists>out s' took. sim_loop_driven (map (Pair (9, 0)) (Some 0x68 # replicate 5 None)) (sim_at_rest ((\<lambda>_. 0)(0 := 0x023100B3))) = Some (out, s')
      \<and> [0x68] = took @ unread s')"
proof -
  let ?mem = "(\<lambda>_. 0)(0 := 0x023100B3) :: mem_words" and ?rs = "map (Pair (9, 0)) (Some 0x68 # replicate 5 None) :: (codes \<times> i8 option) list"
  have ok: "sim_ok (sim_at_rest ?mem)" using sim_at_rest_ready(1) by (simp add: sim_ready_def)
  have "unread (sim_at_rest ?mem) = []" by (simp add: unread_terminal sim_at_rest_ready(2) term_unread_def)
  moreover have "List.map_filter snd ?rs = [0x68]" "Some 4 \<notin> snd ` set ?rs" by code_simp+
  moreover obtain out s' entered took where "sim_loop_driven ?rs (sim_at_rest ?mem) = Some (out, s')"
    "unread (sim_at_rest ?mem) @ entered = took @ unread s'"
    "length (unread (sim_at_rest ?mem)) + length (List.map_filter snd ?rs) \<le> 255 \<longrightarrow> Some 4 \<notin> snd ` set ?rs
      \<longrightarrow> entered = List.map_filter snd ?rs"
    using simulator_input_order [OF ok, of ?rs] by blast
  ultimately show ?thesis
    by (intro conjI x_loop_stops exI [of _ out] exI [of _ s'] exI [of _ took]) (simp_all only: append.simps list.size, simp)
qed

text \<open>
  Reading the status register of the port in the simulator gives 0 whatever is waiting, and
  throws away the byte offered, which no later load sees.
\<close>

theorem status_load_drops_byte:
  assumes "sim_ready s" "a = soc_arch (dut s)" "page_load a" "io_supported a" "(ucast (access_addr a) :: 12 word) = 8"
    "terminal_of s = \<lparr>waiting = bs, offered = Some b, taken = False\<rparr>"
  shows "\<exists>s'. sim_loop (replicate 6 None) s = Some ([], s') \<and> soc_arch (dut s') = isa_load_io 0 a
    \<and> unread s = b # bs \<and> unread s' = bs"
proof -
  let ?h = "\<lparr>waiting = bs, offered = Some b, taken = False\<rparr>"
  have idle: "term_clock None ?h = ?h" "term_prepare None ?h = ?h"
    by (cases bs; simp add: term_clock_def term_prepare_def term_read_def term_offer_def)+
  have "isa_cycles (isa_fetch a) = 6" using assms(3) by (simp add: page_load_def isa_cycles_def)
  then obtain s' out where s': "sim_loop (replicate 6 None) s = Some (out, s')"
    "(out, terminal_of s', soc_arch (dut s')) = term_step (replicate 6 None) ?h a"
    using step_terminal [OF assms(1,2) assms(6) [symmetric] assms(4), of "replicate 6 None"] by auto
  have "term_step (replicate 6 None) ?h a = ([], term_idle [None, None] (?h\<lparr>taken := True\<rparr>), isa_load_io 0 a)"
    using assms(3,5) idle by (simp add: term_step_def term_idle_def port_value_def eval_nat_numeral)
  moreover have "term_unread (term_idle [None, None] (?h\<lparr>taken := True\<rparr>)) = bs"
    by (cases bs; cases "tl bs")
      (simp_all add: term_idle_def term_clock_def term_prepare_def term_read_def term_offer_def term_unread_def)
  ultimately have "out = []" "soc_arch (dut s') = isa_load_io 0 a" "unread s' = bs"
    using s'(2) by (simp_all only: unread_terminal prod.inject)
  with s'(1) assms(6) show ?thesis by (simp add: unread_terminal term_unread_def)
qed

text \<open>\<open>lw x1,8(x2)\<close> with \<open>x2\<close> the address of the port and one byte offered.\<close>

definition status_demo :: simulator where
  "status_demo = (sim_at_rest ((\<lambda>_. 0)(0 := 0x00812083)))\<lparr>dut := (soc_at_rest ((\<lambda>_. 0)(0 := 0x00812083)))\<lparr>sim_use_par_txrx := True,
     cpu := core_at_rest\<lparr>regs := (\<lambda>_. 0)(2 := 0x10000000)\<rparr>\<rparr>, port_par_rx := 0x68, port_par_rx_valid := True\<rparr>"

theorem status_load_drops_byte_witness:
  "unread status_demo = [0x68] \<and> (\<exists>s'. sim_loop (replicate 6 None) status_demo = Some ([], s')
    \<and> xreg (soc_arch (dut s')) 1 = 0 \<and> unread s' = [])"
proof -
  let ?a = "soc_arch (dut status_demo)"
  have ready: "sim_ready status_demo"
    by (simp add: status_demo_def sim_at_rest_def sim_ready_def sim_ok_def fifo_ok_def driver_is_idle_def driver_new_def soc_ready_def
        mach_of_def soc_at_rest_def core_at_rest_def port_ok_def quiet_def vmac_idle_def valu_idle_def uart_quiet_def)
  have load: "page_load ?a \<and> io_supported ?a \<and> (ucast (access_addr ?a) :: 12 word) = 8 \<and> xreg (isa_load_io 0 ?a) 1 = 0"
    unfolding status_demo_def by code_simp
  have port: "terminal_of status_demo = \<lparr>waiting = [], offered = Some 0x68, taken = False\<rparr>"
    by (simp add: status_demo_def sim_at_rest_def terminal_of_def fifo_bytes_def soc_at_rest_def)
  show ?thesis
    using status_load_drops_byte [OF ready refl _ _ _ port] load by auto
qed

end
