(* ===== verification/Hal_Code.thy ===== *)
theory Hal_Code
  imports Start_Code Simulator
begin

text \<open>
  The console and timer routines of the programs (hal.S of sw/mnist-newlib and sw/test) as they run
  under the simulator: what reaches the terminal, what comes from it, and when the routines return.
\<close>

section \<open>Instructions with a terminal\<close>

lemma asm_page_access:
  assumes "isa_fetch a = asm_word i" "\<not> is_data i"
  shows "page_load a \<longleftrightarrow> is_load i \<and> uart_page (asm_addr i a)" "page_store a \<longleftrightarrow> is_store i \<and> uart_page (asm_addr i a)"
    "is_load i \<or> is_store i \<Longrightarrow> access_addr a = asm_addr i a"
proof -
  show addr: "access_addr a = asm_addr i a" if "is_load i \<or> is_store i"
    using that assms by (cases i) (simp_all add: access_addr_def asm_addr_def asm_immediate asm_rs1 is_load_def is_store_def)
  show "page_load a \<longleftrightarrow> is_load i \<and> uart_page (asm_addr i a)" "page_store a \<longleftrightarrow> is_store i \<and> uart_page (asm_addr i a)"
    using asm_opcode_class(1,2) [OF assms(2)] addr assms(1) by (auto simp: page_load_def page_store_def)
qed

lemma term_plain:
  assumes "isa_fetch a = asm_word i" "asm_supported i a" "\<not> names_csr i"
  shows "io_supported a" "term_step rs h a = ([], term_idle rs h, asm_step i a)"
proof -
  have i: "\<not> is_data i" "is_load i \<or> is_store i \<longrightarrow> \<not> uart_page (asm_addr i a)" using assms(2) by (simp_all add: asm_supported_def)
  then have "\<not> page_load a" "\<not> page_store a" using asm_page_access [OF assms(1) i(1)] by blast+
  then show "io_supported a" "term_step rs h a = ([], term_idle rs h, asm_step i a)"
    using asm_isa_supported [OF assms(1,2)] isa_step_asm [OF assms(1) i(1) assms(3)]
    by (simp_all add: io_supported_def term_step_def)
qed

lemma term_put:
  assumes "isa_fetch a = asm_word (SB r off b)" "uart_page (asm_addr (SB r off b) a)" "\<not> names_csr (SB r off b)"
  shows "io_supported a" "term_step rs h a = ([lane 0 (xreg a r)], term_idle rs h, asm_step (SB r off b) a)"
proof -
  have i: "\<not> is_data (SB r off b)" "is_store (SB r off b)" "\<not> is_load (SB r off b)"
    by (simp_all add: is_data_def is_store_def is_load_def)
  then have "\<not> page_load a" "page_store a" using asm_page_access [OF assms(1) i(1)] assms(2) by blast+
  then show "io_supported a" "term_step rs h a = ([lane 0 (xreg a r)], term_idle rs h, asm_step (SB r off b) a)"
    using isa_step_asm [OF assms(1) i(1) assms(3)] assms(1)
    by (simp_all add: io_supported_def term_step_def asm_funct3 asm_rs2 aligned_def)
qed

text \<open>A load from the port takes the byte offered at its fourth clock.\<close>

definition after_port_load :: "reg \<Rightarrow> i32 \<Rightarrow> arch \<Rightarrow> arch" where
  "after_port_load rd v a = (set_xreg rd v a)\<lparr>a_pc := a_pc a + 4, a_cycle := a_cycle a + 6, a_insn := a_insn a + 1, a_load := a_load a + 1\<rparr>"

definition term_polled :: "i8 option list \<Rightarrow> terminal \<Rightarrow> terminal" where
  "term_polled rs h = term_prepare (rs ! 3) (term_idle (take 3 rs) h)"

definition term_poll :: "i8 option list \<Rightarrow> terminal \<Rightarrow> terminal" where
  "term_poll rs h = term_idle (drop 4 rs) ((term_polled rs h)\<lparr>taken := offered (term_polled rs h) \<noteq> None\<rparr>)"

lemma load_io_asm:
  assumes "isa_fetch a = asm_word i" "is_load i" "\<not> is_data i" "\<not> names_csr i"
  shows "isa_load_io v a = after_port_load (rd_of (asm_word i))
     (load_value (funct3_of (asm_word i)) ((a_mem a)(word_index (asm_addr i a) := v)) (asm_addr i a)) a"
proof -
  have addr: "xreg a (rs1_of (asm_word i)) + isa_imm (asm_word i) = asm_addr i a"
    using asm_page_access(3) [OF assms(1,3)] assms(1,2) by (simp add: access_addr_def)
  show ?thesis
    unfolding isa_load_io_def assms(1) Let_def addr after_port_load_def
    using asm_opcode_class [OF assms(3)] assms(2,4)
    by (simp add: isa_csr_def isa_count_def asm_immediate asm_word_cycles [OF assms(3)] asm_cycles_def names_csr_def Let_def)
qed

lemma byte_bit: "8 \<le> n \<Longrightarrow> \<not> bit (c :: i8) n"
  by (auto dest: bit_imp_le_length)

lemma port_half: "scast (ucast (word_cat (1 :: 24 word) c :: i32) :: i16) = (0x100 OR ucast c :: i32)" for c :: i8
  by (rule word_eqI_list(1)) (simp add: upt_32 bit_simps bit_word_cat_iff byte_bit)

lemma term_get:
  assumes "isa_fetch a = asm_word (LH rd off b)" "uart_page (asm_addr (LH rd off b) a)" "\<not> names_csr (LH rd off b)"
    "asm_addr (LH rd off b) a AND 3 = 0" "ucast (asm_addr (LH rd off b) a) \<noteq> (8 :: 12 word)"
  shows "io_supported a" "term_step rs h a = ([], term_poll rs h,
    after_port_load rd (case offered (term_polled rs h) of None \<Rightarrow> 0 | Some c \<Rightarrow> 0x100 OR ucast c) a)"
proof -
  let ?i = "LH rd off b"
  have i: "\<not> is_data ?i" "is_load ?i" "\<not> is_store ?i" by (simp_all add: is_data_def is_store_def is_load_def)
  note page = asm_page_access [OF assms(1) i(1)]
  have load: "page_load a" "access_addr a = asm_addr ?i a" using page(1,3) i(2) assms(2) by blast+
  have odd: "asm_addr ?i a AND 1 = 0" "\<not> bit (asm_addr ?i a) 1"
    using aligned_bits [OF assms(4)] by (auto simp: bit_iff_and_push_bit_not_eq_0)
  show "io_supported a"
    using load odd assms(1) by (simp add: io_supported_def asm_funct3 aligned_def)
  have "load_value 1 ((a_mem a)(word_index (asm_addr ?i a) := v)) (asm_addr ?i a) = scast (lane 0 v :: i16)" for v
    using half_lane [OF odd(1)] odd(2) by (simp add: load_value_def)
  then show "term_step rs h a = ([], term_poll rs h,
    after_port_load rd (case offered (term_polled rs h) of None \<Rightarrow> 0 | Some c \<Rightarrow> 0x100 OR ucast c) a)"
    using load load_io_asm [OF assms(1) i(2,1) assms(3)] assms(5)
    by (simp add: term_step_def term_poll_def term_polled_def Let_def asm_funct3 asm_rd port_value_def port_half lane_def split: option.split)
qed

lemma term_get_status:
  assumes "isa_fetch a = asm_word (LB rd off b)" "uart_page (asm_addr (LB rd off b) a)" "\<not> names_csr (LB rd off b)"
    "ucast (asm_addr (LB rd off b) a) = (8 :: 12 word)"
  shows "io_supported a" "term_step rs h a = ([], term_poll rs h,
    after_port_load rd 0 a)"
proof -
  let ?i = "LB rd off b"
  have i: "\<not> is_data ?i" "is_load ?i" "\<not> is_store ?i" by (simp_all add: is_data_def is_store_def is_load_def)
  note page = asm_page_access [OF assms(1) i(1)]
  have load: "page_load a" "access_addr a = asm_addr ?i a" using page(1,3) i(2) assms(2) by blast+
  show "io_supported a"
    using load assms(1) by (simp add: io_supported_def asm_funct3 aligned_def)
  have "load_value 0 ((a_mem a)(word_index (asm_addr ?i a) := 0)) (asm_addr ?i a) = 0"
    by (simp add: load_value_def byte_at_def lane_def)
  then show "term_step rs h a = ([], term_poll rs h,
    after_port_load rd 0 a)"
    using load load_io_asm [OF assms(1) i(2,1) assms(3)] assms(4)
    by (simp add: term_step_def term_poll_def term_polled_def Let_def asm_funct3 asm_rd port_value_def split: option.split)
qed

section \<open>The routines\<close>

definition putchar_S :: "asm list" where
  "putchar_S = [LUI 31 0x10000000, SB 10 0 31, ADDI 10 0 0, RET]"
definition getchar_S :: "asm list" where
  "getchar_S = [LUI 31 0x10000000, LH 5 4 31, SRAI 6 5 8, BEQ 6 0 (- 8), ANDI 10 5 0xFF, RET]"
definition fflush_S :: "asm list" where
  "fflush_S = [LUI 31 0x10000000, LB 5 8 31, BNE 5 0 (- 4), ADDI 10 0 0, RET]"
definition set_timer_S :: "asm list" where
  "set_timer_S = [LUI 5 0x20000000, SW 10 8 5, SW 11 12 5, RET]"
definition read_timer_S :: "asm list" where
  "read_timer_S = [LUI 5 0x20000000, LW 6 8 5, LW 7 12 5, SW 6 0 10, SW 7 0 11, RET]"
definition clear_timer_S :: "asm list" where
  "clear_timer_S = [LUI 5 0x20000000, SW 0 8 5, SW 0 12 5, RET]"

lemma hal_imms:
  "asm_imm (LUI r 0x10000000) = 0x10000000" "asm_imm (LUI r 0x20000000) = 0x20000000" "asm_imm (SB r 0 b) = 0" "asm_imm (LH r 4 b) = 4"
  "asm_imm (LB r 8 b) = 8" "asm_imm (ADDI r b 0) = 0" "asm_imm (JALR r b 0) = 0" "asm_imm (SRAI r b 8) = 0x408" "asm_imm (BEQ r b (- 8)) = - 8"
  "asm_imm (BNE r b (- 4)) = - 4" "asm_imm (ANDI r b 0xFF) = 0xFF" "asm_imm (SW r 8 b) = 8" "asm_imm (SW r 12 b) = 12"
  "asm_imm (SW r 0 b) = 0" "asm_imm (LW r 8 b) = 8" "asm_imm (LW r 12 b) = 12"
  unfolding asm_imm_def asm.case by code_simp+

section \<open>Runs with a terminal\<close>

definition term_does :: "nat \<Rightarrow> i8 option list \<Rightarrow> terminal \<Rightarrow> arch \<Rightarrow> i8 list \<Rightarrow> terminal \<Rightarrow> arch \<Rightarrow> bool" where
  "term_does k rs h a out h' a' \<longleftrightarrow> term_covers k rs h a \<and> term_run k rs h a = (out, h', a')"

lemma term_does_step:
  assumes "io_supported a" "term_step rs h a = (out, h', a')" "length rs = isa_cycles (isa_fetch a)"
  shows "term_does 1 rs h a out h' a'"
  using assms by (simp add: term_does_def)

lemma term_does_append:
  "term_does k rs h a out h1 a1 \<Longrightarrow> term_does m qs h1 a1 out' h2 a2 \<Longrightarrow> term_does (k + m) (rs @ qs) h a (out @ out') h2 a2"
proof (induction k arbitrary: rs h a out)
  case 0
  then show ?case by (simp add: term_does_def)
next
  case (Suc k)
  let ?n = "isa_cycles (isa_fetch a)"
  obtain o1 h3 a3 where step: "term_step (take ?n rs) h a = (o1, h3, a3)" by (cases "term_step (take ?n rs) h a")
  from Suc.prems(1) step have n: "?n \<le> length rs" and io: "io_supported a" by (simp_all add: term_does_def Let_def)
  from Suc.prems(1) step obtain o2 where o2: "term_does k (drop ?n rs) h3 a3 o2 h1 a1" "out = o1 @ o2"
    by (auto simp: term_does_def Let_def split: prod.splits)
  from Suc.IH [OF o2(1) Suc.prems(2)] have "term_does (k + m) (drop ?n rs @ qs) h3 a3 (o2 @ out') h2 a2" .
  with step n io o2(2) show ?case by (simp add: term_does_def Let_def)
qed

lemma term_idle_append: "term_idle (rs @ qs) h = term_idle qs (term_idle rs h)"
  by (simp add: term_idle_def)

lemma term_does_plain:
  "asm_runs is a \<Longrightarrow> length rs = (\<Sum>i \<leftarrow> is. asm_cycles i) \<Longrightarrow>
    term_does (length is) rs h a [] (term_idle rs h) (fold asm_step is a)"
proof (induction "is" a arbitrary: rs h rule: asm_runs.induct)
  case (1 a)
  then show ?case by (simp add: term_does_def term_idle_def)
next
  case (2 i "is" a)
  then have i: "isa_fetch a = asm_word i" "asm_supported i a" "\<not> names_csr i" "\<not> is_data i" by (simp_all add: asm_supported_def)
  let ?n = "asm_cycles i"
  have n: "length (take ?n rs) = ?n" "length (drop ?n rs) = (\<Sum>i \<leftarrow> is. asm_cycles i)" using "2.prems"(2) by simp_all
  have "term_does 1 (take ?n rs) h a [] (term_idle (take ?n rs) h) (asm_step i a)"
    using n(1) by (intro term_does_step term_plain [OF i(1-3)]) (simp add: i(1) asm_word_cycles [OF i(4)])
  from term_does_append [OF this "2.IH" [OF _ n(2)]] "2.prems"(1) show ?case
    by (simp add: term_idle_append [symmetric])
qed

lemma hal_pages:
  "uart_page 0x10000000" "uart_page 0x10000004" "uart_page 0x10000008" "\<not> uart_page 0x20000008" "\<not> uart_page 0x2000000C"
  by code_simp+

lemma hal_csrs:
  "\<not> names_csr (LUI r 0x10000000)" "\<not> names_csr (LUI r 0x20000000)" "\<not> names_csr (SB r 0 b)" "\<not> names_csr (LH r 4 b)"
  "\<not> names_csr (LB r 8 b)" "\<not> names_csr (ADDI r b 0)" "\<not> names_csr (JALR r b 0)" "\<not> names_csr (SRAI r b 8)" "\<not> names_csr (BEQ r b (- 8))"
  "\<not> names_csr (BNE r b (- 4))" "\<not> names_csr (ANDI r b 0xFF)" "\<not> names_csr (SW r 8 b)" "\<not> names_csr (SW r 12 b)"
  "\<not> names_csr (SW r 0 b)" "\<not> names_csr (LW r 8 b)" "\<not> names_csr (LW r 12 b)"
  by (simp_all add: names_csr_def hal_imms)

text \<open>A routine that came back: the program counter is the return address.\<close>

definition returned :: "arch \<Rightarrow> reg set \<Rightarrow> arch \<Rightarrow> bool" where
  "returned a changed a' \<longleftrightarrow> a_pc a' = xreg a 1 AND NOT 1 \<and> (\<forall>r. r \<notin> changed \<longrightarrow> xreg a' r = xreg a r)"

lemmas hal_step = asm_exec_def asm_supported_def asm_aligned_def asm_addr_def asm_cycles_def hal_imms hal_csrs hal_pages
  code_at_Cons isa_fetch_def

lemma put_byte_other: "k \<noteq> word_index addr \<Longrightarrow> put_byte addr b mem k = mem k"
  by (simp add: put_byte_def)

lemma list_pieces: "length rs = m + n \<Longrightarrow> \<exists>ps qs. rs = ps @ qs \<and> length ps = m \<and> length qs = n"
  by (rule exI [of _ "take m rs"], rule exI [of _ "drop m rs"]) simp

lemma putchar_does:
  assumes "code_at (a_pc a) putchar_S (a_mem a)" "word_index (a_pc a + 8) \<noteq> 0" "word_index (a_pc a + 12) \<noteq> 0" "length rs = 17"
  shows "\<exists>a'. term_does 4 rs h a [lane 0 (xreg a 10)] (term_idle rs h) a' \<and> returned a {10, 31} a' \<and> xreg a' 10 = 0
    \<and> a_mem a' = put_byte 0x10000000 (lane 0 (xreg a 10)) (a_mem a)"
proof -
  let ?lui = "LUI 31 0x10000000" and ?sb = "SB 10 0 31"
  let ?b = "asm_step ?lui a"
  let ?c = "asm_step ?sb ?b"
  let ?a' = "fold asm_step [ADDI 10 0 0, RET] ?c"
  have addr: "asm_addr ?sb ?b = 0x10000000" by (simp add: hal_step)
  have idx: "word_index 0x10000000 = 0" by code_simp
  have mem: "a_mem ?c = put_byte 0x10000000 (lane 0 (xreg a 10)) (a_mem a)"
    using addr by (simp add: asm_addr_def) (simp add: asm_exec_def store_value_def Let_def)
  obtain r1 r2 r3 where rs: "rs = r1 @ r2 @ r3" "length r1 = 4" "length r2 = 5" "length r3 = 8"
    using list_pieces [of rs 4 13] list_pieces [of _ 5 8] assms(4) by force
  have 1: "term_does 1 r1 h a [] (term_idle r1 h) ?b"
    using term_does_plain [of "[?lui]" a r1 h] assms(1) rs(2) by (simp add: putchar_S_def hal_step)
  have fetch: "isa_fetch ?b = asm_word ?sb" using assms(1) by (simp add: putchar_S_def hal_step)
  have "xreg ?b 10 = xreg a 10" by (simp add: hal_step)
  with term_put [OF fetch] addr rs(3) have 2: "term_does 1 r2 (term_idle r1 h) ?b [lane 0 (xreg a 10)] (term_idle r2 (term_idle r1 h)) ?c"
    by (intro term_does_step) (simp_all add: hal_csrs hal_pages fetch asm_word_cycles asm_cycles_def)
  have "word_index (8 + a_pc a) \<noteq> 0" "word_index (12 + a_pc a) \<noteq> 0" using assms(2,3) by (simp_all add: add.commute)
  then have "asm_runs [ADDI 10 0 0, RET] ?c"
    using assms(1) idx mem by (simp add: putchar_S_def hal_step put_byte_other)
  from term_does_plain [OF this, of r3] rs(4) have 3: "term_does 2 r3 hh ?c [] (term_idle r3 hh) ?a'" for hh
    by (simp add: asm_cycles_def numeral_2_eq_2)
  from term_does_append [OF 1 term_does_append [OF 2 3]] have "term_does 4 rs h a [lane 0 (xreg a 10)] (term_idle rs h) ?a'"
    by (simp add: rs(1) term_idle_append eval_nat_numeral)
  moreover have "returned a {10, 31} ?a'" "xreg ?a' 10 = 0" by (simp_all add: returned_def hal_step)
  moreover have "a_mem ?a' = a_mem ?c" by (simp add: asm_exec_def Let_def)
  ultimately show ?thesis using mem by metis
qed

text \<open>The bytes that arrive, the byte at the port, and what the terminal still holds.\<close>

fun arrivals :: "i8 option list \<Rightarrow> i8 list" where
  "arrivals [] = []"
| "arrivals (None # rs) = arrivals rs"
| "arrivals (Some b # rs) = b # arrivals rs"

lemma arrivals_append: "arrivals (rs @ qs) = arrivals rs @ arrivals qs"
  by (induction rs rule: arrivals.induct) simp_all

lemma arrivals_Cons: "arrivals (r # rs) = arrivals [r] @ arrivals rs"
  by (cases r) simp_all

definition held :: "terminal \<Rightarrow> i8 list" where
  "held h = (case offered h of None \<Rightarrow> [] | Some b \<Rightarrow> [b])"

lemma term_clock_unread:
  assumes "length (term_unread h) + length (arrivals [r]) \<le> 255"
  shows "held (term_prepare r h) @ waiting (term_prepare r h) = term_unread h @ arrivals [r]"
    "term_unread (term_clock r h) = term_unread h @ arrivals [r]"
proof -
  have "length (waiting h) \<le> length (term_unread h)" by (simp add: term_unread_def)
  with assms have "(case r of Some ch \<Rightarrow> if length (waiting h) < 255 then [ch] else [] | None \<Rightarrow> []) = arrivals [r]"
    by (cases r) simp_all
  with prepare_unread [of r h] show 1: "held (term_prepare r h) @ waiting (term_prepare r h) = term_unread h @ arrivals [r]"
    by (simp only: held_def)
  have "term_unread (term_clock r h) = held (term_prepare r h) @ waiting (term_prepare r h)"
    by (simp add: term_clock_def term_unread_def held_def split: option.split)
  with 1 show "term_unread (term_clock r h) = term_unread h @ arrivals [r]" by simp
qed

lemma term_idle_unread:
  "length (term_unread h) + length (arrivals rs) \<le> 255 \<Longrightarrow> term_unread (term_idle rs h) = term_unread h @ arrivals rs"
proof (induction rs arbitrary: h)
  case Nil
  then show ?case by (simp add: term_idle_def)
next
  case (Cons r rs)
  note split = arrivals_Cons [of r rs]
  have "length (term_unread h) + length (arrivals [r]) \<le> 255" using Cons.prems unfolding split by simp
  from term_clock_unread(2) [OF this] have 1: "term_unread (term_clock r h) = term_unread h @ arrivals [r]" .
  have "length (term_unread (term_clock r h)) + length (arrivals rs) \<le> 255" using Cons.prems unfolding split 1 by simp
  from Cons.IH [OF this] show ?case unfolding split 1 by (simp add: term_idle_def)
qed

text \<open>A poll takes the first byte when there is one.\<close>

lemma term_poll_unread:
  assumes "3 < length rs" "length (term_unread h) + length (arrivals rs) \<le> 255"
  shows "held (term_polled rs h) @ term_unread (term_poll rs h) = term_unread h @ arrivals rs"
    "offered (term_polled rs h) = None \<Longrightarrow> term_unread h @ arrivals (take 4 rs) = []"
proof -
  let ?h3 = "term_polled rs h" and ?h = "term_idle (take 3 rs) h"
  have four: "arrivals (take 4 rs) = arrivals (take 3 rs) @ arrivals [rs ! 3]"
    using assms(1) take_Suc_conv_app_nth [of 3 rs] by (simp add: arrivals_append [symmetric])
  have split: "arrivals rs = arrivals (take 3 rs) @ arrivals [rs ! 3] @ arrivals (drop 4 rs)"
    using arrivals_append [of "take 4 rs" "drop 4 rs"] four by simp
  have 1: "term_unread ?h = term_unread h @ arrivals (take 3 rs)"
    using assms(2) unfolding split by (intro term_idle_unread) simp
  have "length (term_unread ?h) + length (arrivals [rs ! 3]) \<le> 255" using assms(2) unfolding split 1 by simp
  from term_clock_unread(1) [OF this] have prep: "held ?h3 @ waiting ?h3 = term_unread h @ arrivals (take 4 rs)"
    unfolding 1 four by (simp add: term_polled_def)
  have "offered (term_offer t) = None \<Longrightarrow> waiting (term_offer t) = []" for t
    by (auto simp: term_offer_def Let_def split: list.splits if_splits)
  then have "offered ?h3 = None \<Longrightarrow> waiting ?h3 = []" by (simp add: term_polled_def term_prepare_def)
  then show "offered ?h3 = None \<Longrightarrow> term_unread h @ arrivals (take 4 rs) = []" using prep by (simp add: held_def)
  have taken: "term_unread (?h3\<lparr>taken := offered ?h3 \<noteq> None\<rparr>) = waiting ?h3"
    by (simp add: term_unread_def split: option.split)
  have "length (waiting ?h3) \<le> length (term_unread h @ arrivals (take 4 rs))"
    unfolding prep [symmetric] by simp
  then have "term_unread (term_poll rs h) = waiting ?h3 @ arrivals (drop 4 rs)"
    using assms(2) unfolding term_poll_def split by (subst term_idle_unread) (simp_all only: taken, simp add: four)
  then show "held ?h3 @ term_unread (term_poll rs h) = term_unread h @ arrivals rs"
    using prep by (simp add: split four)
qed

lemma term_poll_append:
  assumes "3 < length rs"
  shows "term_polled (rs @ qs) h = term_polled rs h" "term_poll (rs @ qs) h = term_idle qs (term_poll rs h)"
proof -
  show "term_polled (rs @ qs) h = term_polled rs h" using assms by (simp add: term_polled_def nth_append)
  then show "term_poll (rs @ qs) h = term_idle qs (term_poll rs h)" using assms by (simp add: term_poll_def term_idle_append)
qed

section \<open>getchar\<close>

definition polling :: "i32 \<Rightarrow> arch \<Rightarrow> bool" where
  "polling p a \<longleftrightarrow> code_at p getchar_S (a_mem a) \<and> a_pc a = p + 4 \<and> xreg a 31 = 0x10000000"

lemma byte_with_flag:
  fixes b :: i8
  shows "signed_drop_bit 8 (0x100 OR ucast b :: i32) = 1" "(0x100 OR ucast b :: i32) AND 0xFF = ucast b"
  by (rule word_eqI_list(1); simp add: upt_32 bit_simps byte_bit)+

lemma after_port_load_simps [simp]:
  "a_pc (after_port_load rd v a) = a_pc a + 4" "a_mem (after_port_load rd v a) = a_mem a"
  "xreg (after_port_load rd v a) r = (if r = rd \<and> rd \<noteq> 0 then v else xreg a r)"
  by (simp_all add: after_port_load_def)

lemma poll_load:
  assumes "polling p a" "length rs = 6"
  shows "term_does 1 rs h a [] (term_poll rs h) (after_port_load 5 (case offered (term_polled rs h) of None \<Rightarrow> 0 | Some c \<Rightarrow> 0x100 OR ucast c) a)"
proof -
  have fetch: "isa_fetch a = asm_word (LH 5 4 31)" using assms(1) by (simp add: polling_def getchar_S_def code_at_Cons isa_fetch_def)
  have addr: "asm_addr (LH 5 4 31) a = 0x10000004" using assms(1) by (simp add: polling_def asm_addr_def hal_imms)
  have "ucast (0x10000004 :: i32) \<noteq> (8 :: 12 word)" "(0x10000004 :: i32) AND 3 = 0" by code_simp+
  with term_get [OF fetch, unfolded addr, OF hal_pages(2)] assms(2) show ?thesis
    by (intro term_does_step) (simp_all add: hal_csrs fetch asm_word_cycles asm_cycles_def)
qed

lemma poll_miss:
  assumes "polling p a" "length rs = 14" "offered (term_polled rs h) = None"
  shows "\<exists>a'. term_does 3 rs h a [] (term_poll rs h) a' \<and> polling p a' \<and> a_mem a' = a_mem a \<and> (\<forall>r. r \<notin> {5, 6} \<longrightarrow> xreg a' r = xreg a r)"
proof -
  obtain r1 r2 where rs: "rs = r1 @ r2" "length r1 = 6" "length r2 = 8" using list_pieces [of rs 6 8] assms(2) by auto
  note poll = term_poll_append [of r1 r2 h, folded rs(1)]
  let ?b = "after_port_load 5 0 a" and ?code = "[SRAI 6 5 8, BEQ 6 0 (- 8)]"
  have 1: "term_does 1 r1 h a [] (term_poll r1 h) ?b"
    using poll_load [OF assms(1) rs(2), of h] assms(3) poll(1) rs(2) by simp
  have "asm_runs ?code ?b"
    using assms(1) by (simp add: polling_def getchar_S_def hal_step)
  from term_does_plain [OF this, of r2] rs(3) have 2: "term_does 2 r2 hh ?b [] (term_idle r2 hh) (fold asm_step ?code ?b)" for hh
    by (simp add: asm_cycles_def numeral_2_eq_2)
  have "term_does 3 rs h a [] (term_poll rs h) (fold asm_step ?code ?b)"
    using term_does_append [OF 1 2] poll(2) rs(1,2) by (simp add: eval_nat_numeral)
  moreover have "polling p (fold asm_step ?code ?b)" "a_mem (fold asm_step ?code ?b) = a_mem a"
      "\<forall>r. r \<notin> {5, 6} \<longrightarrow> xreg (fold asm_step ?code ?b) r = xreg a r"
    using assms(1) by (simp_all add: polling_def hal_step Let_def)
  ultimately show ?thesis by blast
qed

lemma poll_hit:
  assumes "polling p a" "length rs = 22" "offered (term_polled rs h) = Some b"
  shows "\<exists>a'. term_does 5 rs h a [] (term_poll rs h) a' \<and> returned a {5, 6, 10} a' \<and> xreg a' 10 = ucast b \<and> a_mem a' = a_mem a"
proof -
  obtain r1 r2 where rs: "rs = r1 @ r2" "length r1 = 6" "length r2 = 16" using list_pieces [of rs 6 16] assms(2) by auto
  note poll = term_poll_append [of r1 r2 h, folded rs(1)]
  let ?b = "after_port_load 5 (0x100 OR ucast b) a" and ?code = "[SRAI 6 5 8, BEQ 6 0 (- 8), ANDI 10 5 0xFF, RET]"
  have 1: "term_does 1 r1 h a [] (term_poll r1 h) ?b"
    using poll_load [OF assms(1) rs(2), of h] assms(3) poll(1) rs(2) by simp
  have "asm_runs ?code ?b"
    using assms(1) by (simp add: polling_def getchar_S_def hal_step byte_with_flag)
  from term_does_plain [OF this, of r2] rs(3) have 2: "term_does 4 r2 hh ?b [] (term_idle r2 hh) (fold asm_step ?code ?b)" for hh
    by (simp add: asm_cycles_def eval_nat_numeral)
  have "term_does 5 rs h a [] (term_poll rs h) (fold asm_step ?code ?b)"
    using term_does_append [OF 1 2] poll(2) rs(1,2) by (simp add: eval_nat_numeral)
  moreover have "returned a {5, 6, 10} (fold asm_step ?code ?b)" "a_mem (fold asm_step ?code ?b) = a_mem a"
      "xreg (fold asm_step ?code ?b) 10 = ucast b"
    by (simp_all add: returned_def hal_step Let_def byte_with_flag)
  ultimately show ?thesis by blast
qed

text \<open>However many polls find nothing, the first byte that is there or arrives is the result.\<close>

lemma arrivals_take_drop: "arrivals (take (m + n) rs) = arrivals (take m rs) @ arrivals (take n (drop m rs))"
  by (simp add: take_add arrivals_append)

definition got :: "nat \<Rightarrow> nat \<Rightarrow> i8 option list \<Rightarrow> terminal \<Rightarrow> arch \<Rightarrow> bool" where
  "got k n rs h a \<longleftrightarrow> (\<exists>b h' a'. n \<le> length rs \<and> term_does k (take n rs) h a [] h' a' \<and> returned a {5, 6, 10, 31} a'
     \<and> xreg a' 10 = ucast b \<and> a_mem a' = a_mem a \<and> b # term_unread h' = term_unread h @ arrivals (take n rs))"

lemma got_prefix:
  assumes "term_does k rs h a [] h1 a1" "got m n qs h1 a1" "a_mem a1 = a_mem a" "\<forall>r. r \<notin> {5, 6, 31} \<longrightarrow> xreg a1 r = xreg a r"
    "term_unread h1 = term_unread h @ arrivals rs"
  shows "got (k + m) (length rs + n) (rs @ qs) h a"
proof -
  obtain b h' a' where b: "n \<le> length qs" "term_does m (take n qs) h1 a1 [] h' a'" "returned a1 {5, 6, 10, 31} a'"
    "xreg a' 10 = ucast b" "a_mem a' = a_mem a1" "b # term_unread h' = term_unread h1 @ arrivals (take n qs)"
    using assms(2) unfolding got_def by blast
  have "term_does (k + m) (rs @ take n qs) h a [] h' a'" using term_does_append [OF assms(1) b(2)] by simp
  moreover have "returned a {5, 6, 10, 31} a'" using b(3) assms(4) by (simp add: returned_def)
  moreover have "b # term_unread h' = term_unread h @ arrivals (take (length rs + n) (rs @ qs))"
    using b(6) assms(5) by (simp add: arrivals_append)
  ultimately show ?thesis using b(1,4,5) assms(3) unfolding got_def by force
qed

lemma getchar_polls:
  "polling p a \<Longrightarrow> length (term_unread h) + length (arrivals rs) \<le> 255 \<Longrightarrow> term_unread h @ arrivals (take m rs) \<noteq> [] \<Longrightarrow>
    (if m = 0 then 22 else m + 32) \<le> length rs \<Longrightarrow> \<exists>k n. got k n rs h a"
proof (induction "length rs" arbitrary: rs h a m rule: less_induct)
  case less
  show ?case
  proof (cases "offered (term_polled rs h)")
    case (Some b)
    have len: "length (take 22 rs) = 22" using less.prems(4) by (simp split: if_splits)
    note poll = term_poll_append [of "take 22 rs" "drop 22 rs" h, simplified]
    have off: "offered (term_polled (take 22 rs) h) = Some b" using poll(1) len Some by simp
    from poll_hit [OF less.prems(1) len off] obtain a' where a': "term_does 5 (take 22 rs) h a [] (term_poll (take 22 rs) h) a'"
      "returned a {5, 6, 10} a'" "xreg a' 10 = ucast b" "a_mem a' = a_mem a" by blast
    have "length (arrivals rs) = length (arrivals (take 22 rs)) + length (arrivals (drop 22 rs))"
      using arrivals_append [of "take 22 rs" "drop 22 rs"] by simp
    then have "held (term_polled (take 22 rs) h) @ term_unread (term_poll (take 22 rs) h) = term_unread h @ arrivals (take 22 rs)"
      using less.prems(2) len by (intro term_poll_unread(1)) simp_all
    then have "b # term_unread (term_poll (take 22 rs) h) = term_unread h @ arrivals (take 22 rs)" by (simp add: held_def off)
    with a' len have "got 5 22 rs h a" unfolding got_def returned_def by force
    then show ?thesis by blast
  next
    case None
    have big: "3 < length rs" using less.prems(4) by (simp split: if_splits)
    have none: "term_unread h @ arrivals (take 4 rs) = []" by (rule term_poll_unread(2) [OF big less.prems(2) None])
    have m: "4 < m"
    proof (rule ccontr)
      assume "\<not> 4 < m"
      then have "arrivals (take 4 rs) = arrivals (take m rs) @ arrivals (take (4 - m) (drop m rs))"
        using arrivals_take_drop [of m "4 - m" rs] by simp
      with none less.prems(3) show False by simp
    qed
    have len: "length (take 14 rs) = 14" "m + 32 \<le> length rs" using less.prems(4) m by simp_all
    note poll = term_poll_append [of "take 14 rs" "drop 14 rs" h, simplified]
    have off: "offered (term_polled (take 14 rs) h) = None" using poll(1) len(1) None by simp
    from poll_miss [OF less.prems(1) len(1) off] obtain a1 where a1: "term_does 3 (take 14 rs) h a [] (term_poll (take 14 rs) h) a1"
      "polling p a1" "a_mem a1 = a_mem a" "\<forall>r. r \<notin> {5, 6} \<longrightarrow> xreg a1 r = xreg a r" by blast
    have split: "arrivals rs = arrivals (take 14 rs) @ arrivals (drop 14 rs)"
      using arrivals_append [of "take 14 rs" "drop 14 rs"] by simp
    have "held (term_polled (take 14 rs) h) @ term_unread (term_poll (take 14 rs) h) = term_unread h @ arrivals (take 14 rs)"
      using less.prems(2) len(1) unfolding split by (intro term_poll_unread(1)) simp_all
    then have unread: "term_unread (term_poll (take 14 rs) h) = term_unread h @ arrivals (take 14 rs)" by (simp add: held_def off)
    have "arrivals (take (14 + (m - 14)) rs) = arrivals (take m rs) @ arrivals (take (14 - m) (drop m rs))"
      using arrivals_take_drop [of m "14 - m" rs] by (cases "m \<le> 14") simp_all
    then have "arrivals (take 14 rs) @ arrivals (take (m - 14) (drop 14 rs)) = arrivals (take m rs) @ arrivals (take (14 - m) (drop m rs))"
      unfolding arrivals_take_drop .
    then have "term_unread (term_poll (take 14 rs) h) @ arrivals (take (m - 14) (drop 14 rs)) \<noteq> []"
      using less.prems(3) unread by (metis append_is_Nil_conv)
    moreover have "(if m - 14 = 0 then 22 else m - 14 + 32) \<le> length (drop 14 rs)" "length (drop 14 rs) < length rs"
      using m len(2) by (cases "m - 14 = 0"; simp; linarith)+
    moreover have "length (term_unread (term_poll (take 14 rs) h)) + length (arrivals (drop 14 rs)) \<le> 255"
      using less.prems(2) unfolding unread split by simp
    ultimately obtain k n where "got k n (drop 14 rs) (term_poll (take 14 rs) h) a1" using less.hyps a1(2) by blast
    from got_prefix [OF a1(1) this a1(3) _ unread] a1(4) have "got (3 + k) (14 + n) rs h a" using len(1) by simp
    then show ?thesis by blast
  qed
qed

lemma getchar_gets:
  assumes "code_at (a_pc a) getchar_S (a_mem a)" "length (term_unread h) + length (arrivals rs) \<le> 255"
    "term_unread h @ arrivals (take m rs) \<noteq> []" "m + 36 \<le> length rs"
  shows "\<exists>k n. got k n rs h a"
proof -
  let ?b = "asm_step (LUI 31 0x10000000) a"
  have len: "length (take 4 rs) = 4" using assms(4) by simp
  have 1: "term_does 1 (take 4 rs) h a [] (term_idle (take 4 rs) h) ?b"
    using term_does_plain [of "[LUI 31 0x10000000]" a "take 4 rs" h] assms(1) len by (simp add: getchar_S_def hal_step)
  have split: "arrivals rs = arrivals (take 4 rs) @ arrivals (drop 4 rs)" using arrivals_append [of "take 4 rs" "drop 4 rs"] by simp
  have unread: "term_unread (term_idle (take 4 rs) h) = term_unread h @ arrivals (take 4 rs)"
    using assms(2) unfolding split by (intro term_idle_unread) simp
  have "arrivals (take (4 + m) rs) = arrivals (take m rs) @ arrivals (take 4 (drop m rs))"
    using arrivals_take_drop [of m 4 rs] by (simp add: add.commute)
  then have some: "term_unread (term_idle (take 4 rs) h) @ arrivals (take m (drop 4 rs)) \<noteq> []"
    using assms(3) arrivals_take_drop unread by (metis append_is_Nil_conv)
  have room: "length (term_unread (term_idle (take 4 rs) h)) + length (arrivals (drop 4 rs)) \<le> 255"
    using assms(2) unfolding unread split by simp
  have "polling (a_pc a) ?b" using assms(1) by (simp add: polling_def hal_step Let_def)
  moreover have "(if m = 0 then 22 else m + 32) \<le> length (drop 4 rs)"
    using assms(4) by (cases "m = 0"; simp; linarith)
  ultimately obtain k n where "got k n (drop 4 rs) (term_idle (take 4 rs) h) ?b" using getchar_polls room some by blast
  from got_prefix [OF 1 this _ _ unread] have "got (1 + k) (4 + n) rs h a" using len by (simp add: hal_step Let_def)
  then show ?thesis by blast
qed

section \<open>fflush and the timer\<close>

lemma fflush_does:
  assumes "code_at (a_pc a) fflush_S (a_mem a)" "length rs = 22"
  shows "\<exists>a'. term_does 5 rs h a [] (term_poll (drop 4 rs) (term_idle (take 4 rs) h)) a' \<and> returned a {5, 10, 31} a' \<and> xreg a' 10 = 0
    \<and> a_mem a' = a_mem a"
proof -
  let ?b = "asm_step (LUI 31 0x10000000) a" and ?lb = "LB 5 8 31"
  let ?c = "after_port_load 5 0 ?b" and ?code = "[BNE 5 0 (- 4), ADDI 10 0 0, RET]"
  obtain r1 r2 r3 where rs: "rs = r1 @ r2 @ r3" "length r1 = 4" "length r2 = 6" "length r3 = 12"
    using list_pieces [of rs 4 18] list_pieces [of _ 6 12] assms(2) by force
  have 1: "term_does 1 r1 h a [] (term_idle r1 h) ?b"
    using term_does_plain [of "[LUI 31 0x10000000]" a r1 h] assms(1) rs(2) by (simp add: fflush_S_def hal_step)
  have fetch: "isa_fetch ?b = asm_word ?lb" using assms(1) by (simp add: fflush_S_def hal_step)
  have addr: "asm_addr ?lb ?b = 0x10000008" by (simp add: hal_step)
  have "ucast (0x10000008 :: i32) = (8 :: 12 word)" by code_simp
  from term_get_status [OF fetch, unfolded addr, OF hal_pages(3) _ this] rs(3) have
    2: "term_does 1 r2 hh ?b [] (term_poll r2 hh) ?c" for hh
    by (intro term_does_step) (simp_all add: hal_csrs fetch asm_word_cycles asm_cycles_def)
  have "asm_runs ?code ?c" using assms(1) by (simp add: fflush_S_def hal_step)
  from term_does_plain [OF this, of r3] rs(4) have 3: "term_does 3 r3 hh ?c [] (term_idle r3 hh) (fold asm_step ?code ?c)" for hh
    by (simp add: asm_cycles_def eval_nat_numeral)
  have "term_poll (r2 @ r3) hh = term_idle r3 (term_poll r2 hh)" for hh using term_poll_append(2) rs(3) by simp
  with term_does_append [OF 1 term_does_append [OF 2 3]] rs(1,2)
  have "term_does 5 rs h a [] (term_poll (drop 4 rs) (term_idle (take 4 rs) h)) (fold asm_step ?code ?c)"
    by (simp add: eval_nat_numeral)
  moreover have "returned a {5, 10, 31} (fold asm_step ?code ?c)" "xreg (fold asm_step ?code ?c) 10 = 0"
      "a_mem (fold asm_step ?code ?c) = a_mem a"
    by (simp_all add: returned_def hal_step Let_def)
  ultimately show ?thesis by blast
qed

lemma fflush_unread:
  assumes "length rs = 22" "length (term_unread h) + length (arrivals rs) \<le> 255"
    "h' = term_poll (drop 4 rs) (term_idle (take 4 rs) h)"
  shows "\<exists>lost. lost @ term_unread h' = term_unread h @ arrivals rs \<and> length lost \<le> 1 \<and> (term_unread h \<noteq> [] \<longrightarrow> length lost = 1)"
proof -
  let ?h = "term_idle (take 4 rs) h" and ?qs = "drop 4 rs"
  have split: "arrivals rs = arrivals (take 4 rs) @ arrivals ?qs" using arrivals_append [of "take 4 rs" ?qs] by simp
  have unread: "term_unread ?h = term_unread h @ arrivals (take 4 rs)"
    using assms(2) unfolding split by (intro term_idle_unread) simp
  have "3 < length ?qs" "length (term_unread ?h) + length (arrivals ?qs) \<le> 255" using assms(1,2) unfolding unread split by simp_all
  note poll = term_poll_unread [OF this]
  let ?lost = "held (term_polled ?qs ?h)"
  have "?lost @ term_unread h' = term_unread h @ arrivals rs" using poll(1) by (simp add: assms(3) unread split)
  moreover have "length ?lost \<le> 1" "term_unread h \<noteq> [] \<longrightarrow> length ?lost = 1"
    using poll(2) unread by (auto simp: held_def split: option.split)
  ultimately show ?thesis by blast
qed

lemma set_timer_runs:
  assumes "code_at (a_pc a) set_timer_S (a_mem a)" "word_index (a_pc a + 8) \<noteq> 2" "word_index (a_pc a + 12) \<notin> {2, 3}"
  shows "asm_runs set_timer_S a" "a_mem (fold asm_step set_timer_S a) = (a_mem a)(2 := xreg a 10, 3 := xreg a 11)"
    "returned a {5} (fold asm_step set_timer_S a)"
proof -
  have idx: "word_index 0x20000008 = 2" "word_index 0x2000000C = 3" "word_index (8 + a_pc a) \<noteq> 2" "word_index (12 + a_pc a) \<notin> {2, 3}"
    using assms(2,3) by (simp_all add: add.commute, code_simp+)
  have low: "(0x20000008 :: i32) AND 3 = 0" "(0x2000000C :: i32) AND 3 = 0" by code_simp+
  show "asm_runs set_timer_S a" "a_mem (fold asm_step set_timer_S a) = (a_mem a)(2 := xreg a 10, 3 := xreg a 11)"
    using assms(1) idx by (simp_all add: set_timer_S_def hal_step store_value_word low Let_def)
  show "returned a {5} (fold asm_step set_timer_S a)" by (simp add: returned_def set_timer_S_def hal_step Let_def)
qed

section \<open>Properties\<close>

lemma sim_does:
  assumes "sim_ready s" "term_does k rs (terminal_of s) (soc_arch (dut s)) out h' a'" "Some 4 \<notin> set rs"
  shows "\<exists>s'. sim_loop rs s = Some (out, s') \<and> sim_ready s' \<and> terminal_of s' = h' \<and> soc_arch (dut s') = a'"
  using program_terminal [OF assms(1) _ assms(3)] assms(2) unfolding term_does_def by fastforce

text \<open>A simulator with code at address 0, given registers, and possibly a byte at the port.\<close>

definition code_mem :: "asm list \<Rightarrow> mem_words" where
  "code_mem code = (\<lambda>k. if unat k < length code then asm_word (code ! unat k) else 0)"

definition sim_calling :: "asm list \<Rightarrow> (reg \<Rightarrow> i32) \<Rightarrow> i8 option \<Rightarrow> simulator" where
  "sim_calling code x r = (sim_at_rest (code_mem code))\<lparr>dut := (soc_at_rest (code_mem code))\<lparr>sim_use_par_txrx := True,
     cpu := core_at_rest\<lparr>regs := x\<rparr>\<rparr>, port_par_rx := (case r of None \<Rightarrow> 0 | Some b \<Rightarrow> b), port_par_rx_valid := (r \<noteq> None)\<rparr>"

lemma sim_calling_state:
  "sim_ready (sim_calling code x r)" "a_pc (soc_arch (dut (sim_calling code x r))) = 0"
  "a_mem (soc_arch (dut (sim_calling code x r))) = code_mem code"
  "xreg (soc_arch (dut (sim_calling code x r))) q = (if q = 0 then 0 else x q)"
  "unread (sim_calling code x r) = (case r of None \<Rightarrow> [] | Some b \<Rightarrow> [b])"
  by (simp_all add: sim_calling_def sim_at_rest_def sim_ready_def sim_ok_def fifo_ok_def driver_is_idle_def driver_new_def soc_ready_def
      mach_of_def soc_at_rest_def core_at_rest_def port_ok_def quiet_def vmac_idle_def valu_idle_def uart_quiet_def soc_arch_def xreg_def
      unread_def fifo_bytes_def split: option.split)

lemma code_mem_at: "length code \<le> 1000 \<Longrightarrow> code_at 0 code (code_mem code)"
proof -
  assume "length code \<le> 1000"
  then have "unat (word_index (4 * of_nat k)) = k" if "k < length code" for k
    using that by (simp add: word_index_def unsigned_ucast_eq unsigned_drop_bit_eq drop_bit_eq_div unat_word_ariths unat_of_nat take_bit_nat_eq_self)
  then show ?thesis by (simp add: code_at_def code_mem_def)
qed

text \<open>
  C9.  The whole system echoes the keyboard: called under the simulator, \<open>getchar\<close> of hal.S returns the
  first byte that is unread or arrives, however long that takes, with the return address, the memory and the
  registers it does not name unchanged; the bytes after it stay unread, in order.
\<close>

theorem getchar_returns_typed:
  assumes "sim_ready s" "a = soc_arch (dut s)" "code_at (a_pc a) getchar_S (a_mem a)" "Some 4 \<notin> set rs"
    "length (unread s) + length (arrivals rs) \<le> 255" "unread s @ arrivals (take m rs) \<noteq> []" "m + 36 \<le> length rs"
  shows "\<exists>n s' a' b. n \<le> length rs \<and> sim_loop (take n rs) s = Some ([], s') \<and> sim_ready s' \<and> a' = soc_arch (dut s')
    \<and> a_pc a' = xreg a 1 AND NOT 1 \<and> xreg a' 10 = ucast b \<and> (\<forall>r. r \<notin> {5, 6, 10, 31} \<longrightarrow> xreg a' r = xreg a r) \<and> a_mem a' = a_mem a
    \<and> b # unread s' = unread s @ arrivals (take n rs)"
proof -
  obtain k n where "got k n rs (terminal_of s) a"
    using getchar_gets [OF assms(3) assms(5-7) [unfolded unread_terminal]] by blast
  then obtain b h' a' where g: "n \<le> length rs" "term_does k (take n rs) (terminal_of s) (soc_arch (dut s)) [] h' a'"
    "returned a {5, 6, 10, 31} a'" "xreg a' 10 = ucast b" "a_mem a' = a_mem a"
    "b # term_unread h' = unread s @ arrivals (take n rs)"
    unfolding got_def assms(2) unread_terminal by blast
  have "Some 4 \<notin> set (take n rs)" using assms(4) by (auto dest: in_set_takeD)
  from sim_does [OF assms(1) g(2) this] obtain s' where "sim_loop (take n rs) s = Some ([], s')" "sim_ready s'"
    "terminal_of s' = h'" "soc_arch (dut s') = a'" by blast
  with g show ?thesis unfolding returned_def by (metis unread_terminal)
qed

text \<open>The \<open>h\<close> arrives at the twenty-first clock.\<close>

theorem getchar_returns_typed_witness:
  "\<exists>n s'. sim_loop (take n (replicate 20 None @ Some 0x68 # replicate 60 None)) (sim_calling getchar_S (\<lambda>_. 0x40) None) = Some ([], s')
    \<and> sim_ready s' \<and> a_pc (soc_arch (dut s')) = 0x40 \<and> xreg (soc_arch (dut s')) 10 = 0x68"
proof -
  let ?rs = "replicate 20 None @ Some 0x68 # replicate 60 None :: i8 option list" and ?s = "sim_calling getchar_S (\<lambda>_. 0x40) None"
  have typed: "arrivals ?rs = [0x68]" "arrivals (take 21 ?rs) = [0x68]" by code_simp+
  have code: "code_at (a_pc (soc_arch (dut ?s))) getchar_S (a_mem (soc_arch (dut ?s)))"
    using code_mem_at [of getchar_S] by (simp add: sim_calling_state getchar_S_def)
  have rest: "Some 4 \<notin> set ?rs" "length (unread ?s) + length (arrivals ?rs) \<le> 255" "unread ?s @ arrivals (take 21 ?rs) \<noteq> []" "21 + 36 \<le> length ?rs"
    using typed by (simp_all add: sim_calling_state del: take_append)
  from getchar_returns_typed [OF sim_calling_state(1) refl code rest] obtain n s' b where
    s': "sim_loop (take n ?rs) ?s = Some ([], s')" "sim_ready s'" "a_pc (soc_arch (dut s')) = xreg (soc_arch (dut ?s)) 1 AND NOT 1"
    "xreg (soc_arch (dut s')) 10 = ucast b" "b # unread s' = unread ?s @ arrivals (take n ?rs)"
    by blast
  have "arrivals (take n ?rs) @ arrivals (drop n ?rs) = [0x68]"
    using arrivals_append [of "take n ?rs" "drop n ?rs"] typed(1) by (simp only: append_take_drop_id)
  with s'(5) have "b = 0x68" by (cases "arrivals (take n ?rs)") (simp_all add: sim_calling_state)
  with s' have "a_pc (soc_arch (dut s')) = 0x40" "xreg (soc_arch (dut s')) 10 = 0x68" by (simp_all add: sim_calling_state)
  with s'(1,2) show ?thesis by blast
qed

text \<open>
  C22.  \<open>putchar\<close> of hal.S prints the low byte of its argument, takes 17 clocks and returns 0; the same
  byte also lands in the first byte of the memory, where the start-up code is.
\<close>

theorem putchar_prints:
  assumes "sim_ready s" "a = soc_arch (dut s)" "code_at (a_pc a) putchar_S (a_mem a)" "word_index (a_pc a + 8) \<noteq> 0"
    "word_index (a_pc a + 12) \<noteq> 0" "Some 4 \<notin> set rs" "length rs = 17"
  shows "\<exists>s' a'. sim_loop rs s = Some ([lane 0 (xreg a 10)], s') \<and> sim_ready s' \<and> a' = soc_arch (dut s')
    \<and> a_pc a' = xreg a 1 AND NOT 1 \<and> xreg a' 10 = 0 \<and> (\<forall>r. r \<notin> {10, 31} \<longrightarrow> xreg a' r = xreg a r)
    \<and> byte_at (a_mem a') 0 = lane 0 (xreg a 10) \<and> (\<forall>k. k \<noteq> 0 \<longrightarrow> a_mem a' k = a_mem a k)"
proof -
  obtain a' where a': "term_does 4 rs (terminal_of s) (soc_arch (dut s)) [lane 0 (xreg a 10)] (term_idle rs (terminal_of s)) a'"
    "returned a {10, 31} a'" "xreg a' 10 = 0" "a_mem a' = put_byte 0x10000000 (lane 0 (xreg a 10)) (a_mem a)"
    using putchar_does [OF assms(3-5,7)] unfolding assms(2) by blast
  have idx: "word_index 0x10000000 = 0" "word_index 0 = 0" "(0x10000000 :: i32) AND 3 = 0" by code_simp+
  have "byte_at (a_mem a') 0 = lane 0 (xreg a 10)" "\<forall>k. k \<noteq> 0 \<longrightarrow> a_mem a' k = a_mem a k"
    by (simp_all add: a'(4) byte_at_def put_byte_bytes idx lane_bytes del: pack_lanes.simps)
  with sim_does [OF assms(1) a'(1) assms(6)] a'(2,3) show ?thesis unfolding returned_def by blast
qed

text \<open>\<open>putchar('H')\<close>; the first word of the memory is the first of the routine itself.\<close>

theorem putchar_prints_witness:
  "\<exists>s'. sim_loop (replicate 17 None) (sim_calling putchar_S (\<lambda>_. 0x48) None) = Some ([0x48], s') \<and> sim_ready s'
    \<and> xreg (soc_arch (dut s')) 10 = 0 \<and> byte_at (a_mem (soc_arch (dut s'))) 0 = 0x48"
proof -
  let ?s = "sim_calling putchar_S (\<lambda>_. 0x48) None" and ?rs = "replicate 17 None :: i8 option list"
  have code: "code_at (a_pc (soc_arch (dut ?s))) putchar_S (a_mem (soc_arch (dut ?s)))"
    using code_mem_at [of putchar_S] by (simp add: sim_calling_state putchar_S_def)
  have idx: "word_index (a_pc (soc_arch (dut ?s)) + 8) \<noteq> 0" "word_index (a_pc (soc_arch (dut ?s)) + 12) \<noteq> 0"
    unfolding sim_calling_state(2) by code_simp+
  have rs: "Some 4 \<notin> set ?rs" "length ?rs = 17" by simp_all
  have "lane 0 (xreg (soc_arch (dut ?s)) 10) = (0x48 :: i8)" by (simp add: sim_calling_state lane_def)
  with putchar_prints [OF sim_calling_state(1) refl code idx rs] show ?thesis by metis
qed

text \<open>
  C23.  \<open>fflush\<close> of hal.S throws input away: it reads the status register, and when a byte is unread
  the read takes it; \<open>fflush\<close> returns after 22 clocks and no later \<open>getchar\<close> sees the byte.
\<close>

theorem fflush_loses_input:
  assumes "sim_ready s" "a = soc_arch (dut s)" "code_at (a_pc a) fflush_S (a_mem a)" "Some 4 \<notin> set rs" "length rs = 22"
    "length (unread s) + length (arrivals rs) \<le> 255"
  shows "\<exists>s' a' lost. sim_loop rs s = Some ([], s') \<and> sim_ready s' \<and> a' = soc_arch (dut s') \<and> a_pc a' = xreg a 1 AND NOT 1
    \<and> xreg a' 10 = 0 \<and> lost @ unread s' = unread s @ arrivals rs \<and> length lost \<le> 1 \<and> (unread s \<noteq> [] \<longrightarrow> length lost = 1)"
proof -
  obtain h' a' where a': "h' = term_poll (drop 4 rs) (term_idle (take 4 rs) (terminal_of s))"
    "term_does 5 rs (terminal_of s) (soc_arch (dut s)) [] h' a'" "returned a {5, 10, 31} a'" "xreg a' 10 = 0"
    using fflush_does [OF assms(3,5)] unfolding assms(2) by blast
  from sim_does [OF assms(1) a'(2) assms(4)] fflush_unread [OF assms(5) _ a'(1)] a'(3,4) assms(6) show ?thesis
    unfolding returned_def unread_terminal by metis
qed

text \<open>The \<open>h\<close> at the port is gone after \<open>fflush\<close>.\<close>

theorem fflush_loses_input_witness:
  "unread (sim_calling fflush_S (\<lambda>_. 0x40) (Some 0x68)) = [0x68] \<and>
    (\<exists>s'. sim_loop (replicate 22 None) (sim_calling fflush_S (\<lambda>_. 0x40) (Some 0x68)) = Some ([], s') \<and> sim_ready s' \<and> unread s' = [])"
proof -
  let ?s = "sim_calling fflush_S (\<lambda>_. 0x40) (Some 0x68)" and ?rs = "replicate 22 None :: i8 option list"
  have code: "code_at (a_pc (soc_arch (dut ?s))) fflush_S (a_mem (soc_arch (dut ?s)))"
    using code_mem_at [of fflush_S] by (simp add: sim_calling_state fflush_S_def)
  have typed: "arrivals ?rs = []" by code_simp
  have unread: "unread ?s = [0x68]" by (simp add: sim_calling_state)
  have rs: "Some 4 \<notin> set ?rs" "length ?rs = 22" "length (unread ?s) + length (arrivals ?rs) \<le> 255" using typed unread by simp_all
  from fflush_loses_input [OF sim_calling_state(1) refl code rs] obtain s' lost where
    s': "sim_loop ?rs ?s = Some ([], s')" "sim_ready s'" "lost @ unread s' = unread ?s @ arrivals ?rs" "unread ?s \<noteq> [] \<longrightarrow> length lost = 1"
    by blast
  then have "length lost = 1" "lost @ unread s' = [0x68]" using typed unread by simp_all
  then have "unread s' = []" by (cases lost) simp_all
  with s'(1,2) unread show ?thesis by blast
qed

text \<open>
  C37.  There is no timer behind \<open>set_timer\<close> of hal.S: its stores to the page 0x20000000 wrap around to words 2 and
  3 of the memory, so it overwrites two instructions of the start-up code and \<open>read_timer\<close> would read them back.
\<close>

theorem set_timer_overwrites_code:
  assumes "soc_ready s" "a = soc_arch s" "code_at (a_pc a) set_timer_S (a_mem a)" "word_index (a_pc a + 8) \<noteq> 2"
    "word_index (a_pc a + 12) \<notin> {2, 3}" "length ins = 18" "\<forall>i \<in> set ins. in_resetn i"
  shows "\<exists>s' a'. soc_run ins s = Some s' \<and> soc_ready s' \<and> a' = soc_arch s' \<and> a_pc a' = xreg a 1 AND NOT 1
    \<and> (\<forall>r. r \<noteq> 5 \<longrightarrow> xreg a' r = xreg a r) \<and> a_mem a' = (a_mem a)(2 := xreg a 10, 3 := xreg a 11)"
proof -
  note runs = set_timer_runs [OF assms(3-5)]
  have "(\<Sum>i \<leftarrow> set_timer_S. asm_cycles i) = 18" "length set_timer_S = 4" by (simp_all add: set_timer_S_def asm_cycles_def)
  note isa = asm_runs_isa [OF runs(1), unfolded this]
  then have "isa_run_supported 4 (soc_arch s)" "length ins = isa_run_cycles 4 (soc_arch s)" by (simp_all only: assms(2,6))
  from soc_runs_program [OF assms(1) this assms(7)] obtain s' where
    s': "soc_run ins s = Some s'" "soc_ready s'" "soc_arch s' = isa_run 4 (soc_arch s)" by blast
  moreover have "isa_run 4 (soc_arch s) = fold asm_step set_timer_S a" using isa by (simp only: assms(2))
  ultimately show ?thesis using runs(2,3) unfolding returned_def singleton_iff by metis
qed

text \<open>\<open>set_timer\<close> at 64 with both arguments 7.\<close>

definition timer_soc :: soc where
  "timer_soc = (soc_at_rest (\<lambda>k. if 16 \<le> unat k \<and> unat k < 20 then asm_word (set_timer_S ! (unat k - 16)) else 0))
     \<lparr>cpu := core_at_rest\<lparr>pc_reg := 64, regs := (\<lambda>_. 7)\<rparr>, imem_addr_reg := 64\<rparr>"

theorem set_timer_overwrites_code_witness:
  "\<exists>s'. soc_run (replicate 18 run_input) timer_soc = Some s' \<and> a_mem (soc_arch timer_soc) 2 = 0 \<and> a_mem (soc_arch s') 2 = 7"
proof -
  have ready: "soc_ready timer_soc"
    by (simp add: timer_soc_def soc_ready_def mach_of_def soc_at_rest_def core_at_rest_def port_ok_def quiet_def vmac_idle_def
        valu_idle_def uart_quiet_def)
  have state: "a_pc (soc_arch timer_soc) = 64" "xreg (soc_arch timer_soc) 10 = 7"
    "a_mem (soc_arch timer_soc) = (\<lambda>k. if 16 \<le> unat k \<and> unat k < 20 then asm_word (set_timer_S ! (unat k - 16)) else 0)"
    by (simp_all add: timer_soc_def soc_arch_def mach_of_def soc_at_rest_def core_at_rest_def xreg_def)
  have idx: "word_index 64 = 16" "word_index 68 = 17" "word_index 72 = 18" "word_index 76 = 19" by code_simp+
  have code: "code_at (a_pc (soc_arch timer_soc)) set_timer_S (a_mem (soc_arch timer_soc))"
    unfolding state by (simp add: set_timer_S_def code_at_Cons idx)
  have free: "word_index (a_pc (soc_arch timer_soc) + 8) \<noteq> 2" "word_index (a_pc (soc_arch timer_soc) + 12) \<notin> {2, 3}"
    unfolding state by (simp_all add: idx)
  have ins: "length (replicate 18 run_input) = 18" "\<forall>i \<in> set (replicate 18 run_input). in_resetn i" by (simp_all add: run_input_def)
  from set_timer_overwrites_code [OF ready refl code free ins] obtain s' where s': "soc_run (replicate 18 run_input) timer_soc = Some s'"
    "a_mem (soc_arch s') = (a_mem (soc_arch timer_soc))(2 := xreg (soc_arch timer_soc) 10, 3 := xreg (soc_arch timer_soc) 11)"
    by blast
  then have "a_mem (soc_arch s') 2 = 7" "a_mem (soc_arch timer_soc) 2 = 0" using state by simp_all
  with s'(1) show ?thesis by blast
qed

text \<open>The counter routines of rdwrctr.S.\<close>

definition rdwrctr_S :: "nat \<Rightarrow> asm list" where
  "rdwrctr_S i = [DATA ([0x0000055B, 0x0010055B, 0x0020055B, 0x0030055B] ! i), RET]"

lemma counter_word_step:
  assumes "i < 4" "w = [0x0000055B, 0x0010055B, 0x0020055B, 0x0030055B] ! i" "isa_fetch a = w"
  shows "isa_supported a" "isa_cycles w = 4" "isa_step a = (set_xreg 10 ([a_cycle a + 2, a_insn a, a_load a, a_store a] ! i) a)
    \<lparr>a_pc := a_pc a + 4, a_cycle := a_cycle a + 4, a_insn := a_insn a + 1\<rparr>"
proof -
  have "i = 0 \<or> i = 1 \<or> i = 2 \<or> i = 3" using assms(1) by auto
  then have fields: "opcode_of w = 0x5B" "funct3_of w = 0" "\<not> bit w 31" "rd_of w = 10" "isa_imm w = 0"
      "field 20 w = (of_nat i :: 2 word)"
    unfolding assms(2) by (elim disjE; hypsubst; code_simp)+
  then show "isa_supported a" "isa_cycles w = 4" using assms(3) by (simp_all add: isa_supported_def isa_cycles_def)
  have "counter_read w a = [a_cycle a + 2, a_insn a, a_load a, a_store a] ! i"
    using \<open>i = 0 \<or> i = 1 \<or> i = 2 \<or> i = 3\<close> fields(6) by (elim disjE) (simp_all add: counter_read_def)
  then show "isa_step a = (set_xreg 10 ([a_cycle a + 2, a_insn a, a_load a, a_store a] ! i) a)
    \<lparr>a_pc := a_pc a + 4, a_cycle := a_cycle a + 4, a_insn := a_insn a + 1\<rparr>"
    using fields assms(3) by (simp add: isa_step_def isa_csr_def isa_count_def isa_exec_def isa_cycles_def set_xreg_def Let_def)
qed

text \<open>
  C24.  The counter routines of the benchmarks return what they are named after: the clocks (two clocks into
  the routine), instructions, loads and stores since reset, 8 clocks after the call, and change nothing else.
\<close>

theorem counter_routines_return:
  assumes "soc_ready s" "a = soc_arch s" "i < 4" "code_at (a_pc a) (rdwrctr_S i) (a_mem a)" "length ins = 8"
    "\<forall>i \<in> set ins. in_resetn i"
  shows "\<exists>s' a'. soc_run ins s = Some s' \<and> soc_ready s' \<and> a' = soc_arch s' \<and> a_pc a' = xreg a 1 AND NOT 1
    \<and> xreg a' 10 = [a_cycle a + 2, a_insn a, a_load a, a_store a] ! i \<and> (\<forall>r. r \<noteq> 10 \<longrightarrow> xreg a' r = xreg a r) \<and> a_mem a' = a_mem a
    \<and> (a_cycle a', a_insn a', a_load a', a_store a') = (a_cycle a + 8, a_insn a + 2, a_load a, a_store a)"
proof -
  let ?v = "[a_cycle a + 2, a_insn a, a_load a, a_store a] ! i"
  let ?b = "(set_xreg 10 ?v a)\<lparr>a_pc := a_pc a + 4, a_cycle := a_cycle a + 4, a_insn := a_insn a + 1\<rparr>"
  have fetch: "isa_fetch a = [0x0000055B, 0x0010055B, 0x0020055B, 0x0030055B] ! i"
    using assms(4) by (simp add: rdwrctr_S_def code_at_Cons isa_fetch_def asm_word_def)
  note first = counter_word_step [OF assms(3) refl fetch]
  have "isa_fetch ?b = asm_word RET"
    using assms(4) by (simp add: rdwrctr_S_def code_at_Cons isa_fetch_def)
  then have ret: "asm_runs [RET] ?b" by (simp add: hal_step)
  note second = asm_runs_isa [OF ret]
  have two: "isa_run_supported 2 (soc_arch s)" "length ins = isa_run_cycles 2 (soc_arch s)" "isa_run 2 (soc_arch s) = asm_step RET ?b"
    using first second fetch assms(5) unfolding assms(2) [symmetric] by (simp_all add: numeral_2_eq_2 asm_cycles_def)
  from soc_runs_program [OF assms(1) two(1,2) assms(6)] obtain s' where
    "soc_run ins s = Some s'" "soc_ready s'" "soc_arch s' = asm_step RET ?b" unfolding two(3) by blast
  moreover have "a_pc (asm_step RET ?b) = xreg a 1 AND NOT 1" "xreg (asm_step RET ?b) 10 = ?v" "a_mem (asm_step RET ?b) = a_mem a"
      "\<forall>r. r \<noteq> 10 \<longrightarrow> xreg (asm_step RET ?b) r = xreg a r"
    by (simp_all add: hal_step Let_def)
  moreover have "(a_cycle (asm_step RET ?b), a_insn (asm_step RET ?b), a_load (asm_step RET ?b), a_store (asm_step RET ?b))
      = (a_cycle a + 8, a_insn a + 2, a_load a, a_store a)"
    by (simp add: asm_step_def asm_exec_def asm_cycles_def set_xreg_def Let_def)
  ultimately show ?thesis by metis
qed

theorem counter_routines_return_witness:
  "\<exists>s'. soc_run (replicate 8 run_input) (soc_at_rest (code_mem (rdwrctr_S 0))) = Some s' \<and> xreg (soc_arch s') 10 = 2 \<and> a_cycle (soc_arch s') = 8"
proof -
  let ?s = "soc_at_rest (code_mem (rdwrctr_S 0))"
  have state: "a_pc (soc_arch ?s) = 0" "a_cycle (soc_arch ?s) = 0" "a_mem (soc_arch ?s) = code_mem (rdwrctr_S 0)"
    by (simp_all add: soc_at_rest_arch)
  have code: "code_at (a_pc (soc_arch ?s)) (rdwrctr_S 0) (a_mem (soc_arch ?s))"
    unfolding state using code_mem_at [of "rdwrctr_S 0"] by (simp add: rdwrctr_S_def)
  have ins: "length (replicate 8 run_input) = 8" "\<forall>i \<in> set (replicate 8 run_input). in_resetn i" by (simp_all add: run_input_def)
  from counter_routines_return [OF soc_at_rest_ready refl _ code ins] show ?thesis by (auto simp: state)
qed

end
