(* ===== verification/Hex_Convert.thy ===== *)
theory Hex_Convert
  imports Hex_Loader
begin

text \<open>
  The conversion of a program image (sw/mnist-newlib/hex8tohex32.py) from the text of single bytes
  that objcopy prints to the text of words that the simulator loads.  Python's unbounded integers
  are \<open>int\<close>, a line is its characters with its newline, all of them ASCII, and \<open>None\<close> is an
  exception.  It is proved to be read back by the loader.
\<close>

section \<open>The Python library\<close>

definition py_space :: "char \<Rightarrow> bool" where
  "py_space c \<longleftrightarrow> c \<in> set [CHR 0x09, CHR 0x0A, CHR 0x0B, CHR 0x0C, CHR 0x0D, CHR 0x1C, CHR 0x1D, CHR 0x1E, CHR 0x1F, CHR 0x20]"

text \<open>\<open>line.split()\<close>\<close>

function py_split :: "string \<Rightarrow> string list" where
  "py_split s = (case dropWhile py_space s of [] \<Rightarrow> []
     | c # cs \<Rightarrow> takeWhile (Not \<circ> py_space) (c # cs) # py_split (dropWhile (Not \<circ> py_space) cs))"
  by pat_completeness auto
termination
proof (relation "measure length", goal_cases)
  case (2 s c cs)
  have "length (dropWhile (Not \<circ> py_space) cs) \<le> length cs" by (rule length_dropWhile_le)
  with dropWhile_Cons_length [OF 2] show ?case by simp
qed simp

declare py_split.simps [simp del]

definition py_strip :: "string \<Rightarrow> string" where
  "py_strip s = rev (dropWhile py_space (rev (dropWhile py_space s)))"

text \<open>Digits with single underscores between them.\<close>

fun py_digits :: "string \<Rightarrow> bool" where
  "py_digits [] \<longleftrightarrow> False"
| "py_digits [c] \<longleftrightarrow> hex_digit c \<noteq> None"
| "py_digits (c # d # cs) \<longleftrightarrow> hex_digit c \<noteq> None \<and> (if d = CHR ''_'' then py_digits cs else py_digits (d # cs))"

text \<open>\<open>int(s, 16)\<close>\<close>

definition py_int16 :: "string \<Rightarrow> int option" where
  "py_int16 s =
    (let s1 = py_strip s;
         neg = (take 1 s1 = ''-'');
         s2 = (if neg \<or> take 1 s1 = ''+'' then tl s1 else s1);
         s3 = (if hex_prefix s2 then (if take 1 (drop 2 s2) = ''_'' then drop 3 s2 else drop 2 s2) else s2);
         v = int (hex_number (filter (\<lambda>c. c \<noteq> CHR ''_'') s3))
     in if py_digits s3 then Some (if neg then - v else v) else None)"

text \<open>\<open>"%0nx" % v\<close>\<close>

fun hex_numeral :: "nat \<Rightarrow> string" where
  "hex_numeral n = (if n < 16 then [lower_hex n] else hex_numeral (n div 16) @ [lower_hex (n mod 16)])"

declare hex_numeral.simps [simp del]

definition zero_pad :: "nat \<Rightarrow> string \<Rightarrow> string" where
  "zero_pad n s = replicate (n - length s) CHR ''0'' @ s"

definition py_hex :: "nat \<Rightarrow> int \<Rightarrow> string" where
  "py_hex n v = (if v < 0 then CHR ''-'' # zero_pad (n - 1) (hex_numeral (nat (- v))) else zero_pad n (hex_numeral (nat v)))"

section \<open>The script\<close>

lemma four_steps:
  fixes n :: nat
  assumes "0 < n mod 4"
  shows "(4 - Suc n mod 4) mod 4 < 4 - n mod 4"
proof -
  have "n mod 4 < 4" by simp
  with assms have "n mod 4 \<in> {1, 2, 3}" by auto
  then show ?thesis by (auto simp: mod_Suc)
qed

text \<open>\<open>while len(data) % 4 != 0: data.append(0)\<close>\<close>

function pad_words :: "int list \<Rightarrow> int list" where
  "pad_words data = (if length data mod 4 \<noteq> 0 then pad_words (data @ [0]) else data)"
  by pat_completeness auto
termination
  by (relation "measure (\<lambda>data. (4 - length data mod 4) mod 4)") (simp_all add: four_steps del: mod_Suc_eq)

declare pad_words.simps [simp del]

definition write_data :: "int \<Rightarrow> int list \<Rightarrow> string" where
  "write_data ptr data =
    (if length data \<noteq> 0 then
       CHR ''@'' # py_hex 8 ptr @ CHR 0x0A #
         concat (map (\<lambda>word_bytes. concat (map (py_hex 2) (rev word_bytes)) @ [CHR 0x0A]) (words_of (pad_words data)))
     else [])"

text \<open>\<open>while ptr % 4 != 0: data.append(0); ptr -= 1\<close>\<close>

function align_down :: "int \<Rightarrow> int list \<Rightarrow> int \<times> int list" where
  "align_down ptr data = (if ptr mod 4 \<noteq> 0 then align_down (ptr - 1) (data @ [0]) else (ptr, data))"
  by pat_completeness auto
termination
  by (relation "measure (\<lambda>(ptr, data). nat (ptr mod 4))") (auto, presburger)

declare align_down.simps [simp del]

text \<open>\<open>while ptr + len(data) < addr: data.append(0)\<close>\<close>

function fill_to :: "int \<Rightarrow> int \<Rightarrow> int list \<Rightarrow> int list" where
  "fill_to addr ptr data = (if ptr + int (length data) < addr then fill_to addr ptr (data @ [0]) else data)"
  by pat_completeness auto
termination
  by (relation "measure (\<lambda>(addr, ptr, data). nat (addr - ptr - int (length data)))") auto

declare fill_to.simps [simp del]

text \<open>A line is an address or bytes.\<close>

datatype hex_line = At int | Bytes "int list"

definition parse_line :: "string \<Rightarrow> hex_line option" where
  "parse_line line =
    (if take 1 line = ''@'' then map_option At (py_int16 (tl line))
     else map_option Bytes (those (map py_int16 (py_split line))))"

fun convert_lines :: "string list \<Rightarrow> int \<Rightarrow> int list \<Rightarrow> string option" where
  "convert_lines [] ptr data = Some (write_data ptr data)"
| "convert_lines (line # lines) ptr data =
    (case parse_line line of None \<Rightarrow> None
     | Some (At addr) \<Rightarrow>
         if addr > ptr + 4 then
           (case align_down addr [] of (ptr', data') \<Rightarrow>
              map_option (\<lambda>out. write_data ptr data @ out) (convert_lines lines ptr' data'))
         else convert_lines lines ptr (fill_to addr ptr data)
     | Some (Bytes bs) \<Rightarrow> convert_lines lines ptr (data @ bs))"

definition hex8tohex32 :: "string list \<Rightarrow> string option" where
  "hex8tohex32 lines = convert_lines lines 0 []"

section \<open>What the loops do\<close>

definition padding :: "nat \<Rightarrow> nat" where
  "padding n = (4 - n mod 4) mod 4"

lemma padding_simps:
  "n mod 4 = 0 \<Longrightarrow> padding n = 0" "n mod 4 \<noteq> 0 \<Longrightarrow> padding n = Suc (padding (Suc n))" "4 dvd n + padding n" "padding n < 4"
  "4 dvd p \<Longrightarrow> padding (p + n) = padding n"
proof -
  show "n mod 4 = 0 \<Longrightarrow> padding n = 0" by (simp add: padding_def)
  have n: "n mod 4 = 0 \<or> n mod 4 = 1 \<or> n mod 4 = 2 \<or> n mod 4 = 3" by presburger
  then show "n mod 4 \<noteq> 0 \<Longrightarrow> padding n = Suc (padding (Suc n))" by (auto simp: padding_def mod_Suc)
  have "padding n = (if n mod 4 = 0 then 0 else 4 - n mod 4)" by (simp add: padding_def)
  then show "4 dvd n + padding n" by presburger
  show "padding n < 4" by (simp add: padding_def)
  show "4 dvd p \<Longrightarrow> padding (p + n) = padding n" by (auto simp: padding_def elim!: dvdE)
qed

lemma pad_words_spec: "pad_words data = data @ replicate (padding (length data)) 0"
proof (induction data rule: pad_words.induct)
  case (1 data)
  then show ?case
    by (subst pad_words.simps) (simp add: padding_simps(1,2))
qed

lemma align_down_spec: "align_down ptr data = (ptr - ptr mod 4, data @ replicate (nat (ptr mod 4)) 0)"
proof (induction ptr data rule: align_down.induct)
  case (1 ptr data)
  show ?case
  proof (cases "ptr mod 4 = 0")
    case True
    then show ?thesis by (simp add: align_down.simps)
  next
    case False
    then have "ptr mod 4 = (ptr - 1) mod 4 + 1" by presburger
    then have "ptr - 1 - (ptr - 1) mod 4 = ptr - ptr mod 4" "nat (ptr mod 4) = Suc (nat ((ptr - 1) mod 4))"
      by (simp_all add: Suc_nat_eq_nat_zadd1 ac_simps)
    with 1 False show ?thesis by (subst align_down.simps) simp
  qed
qed

lemma fill_to_spec: "fill_to addr ptr data = data @ replicate (nat (addr - ptr - int (length data))) 0"
proof (induction addr ptr data rule: fill_to.induct)
  case (1 addr ptr data)
  show ?case
  proof (cases "ptr + int (length data) < addr")
    case True
    then have "nat (addr - ptr - int (length data)) = Suc (nat (addr - ptr - int (length (data @ [0]))))" by simp
    with 1 True show ?thesis by (subst fill_to.simps) simp
  next
    case False
    then show ?thesis by (simp add: fill_to.simps)
  qed
qed

lemma hex_fixed_zero: "hex_fixed n 0 = replicate n CHR ''0''"
  by (induction n) (simp_all add: lower_hex_def replicate_append_same)

lemma hex_fixed_numeral: "0 < n \<Longrightarrow> v < 16 ^ n \<Longrightarrow> length (hex_numeral v) \<le> n \<and> zero_pad n (hex_numeral v) = hex_fixed n v"
proof (induction n arbitrary: v)
  case (Suc n)
  show ?case
  proof (cases "v < 16")
    case True
    then show ?thesis by (subst (1 2) hex_numeral.simps) (simp add: hex_fixed_zero zero_pad_def)
  next
    case False
    then have "0 < n" "v div 16 < 16 ^ n" using Suc.prems(2) by (cases n; simp add: less_mult_imp_div_less)+
    with Suc.IH [of "v div 16"] False show ?thesis
      by (subst (1 2) hex_numeral.simps) (simp add: zero_pad_def)
  qed
qed simp

lemma py_hex_fixed: "0 < n \<Longrightarrow> v < 16 ^ n \<Longrightarrow> py_hex n (int v) = hex_fixed n v"
  using hex_fixed_numeral [of n v] by (simp add: py_hex_def)

lemma words_of_map: "words_of (map f xs) = map (map f) (words_of xs)"
  by (induction xs rule: words_of.induct) simp_all

text \<open>What \<open>write_data\<close> prints.\<close>

definition flush :: "nat \<Rightarrow> i8 list \<Rightarrow> (nat \<times> i8 list) list" where
  "flush p d = (if d = [] then [] else [(p, d @ replicate (padding (length d)) 0)])"

lemma write_data_flush:
  assumes "p < 2 ^ 32"
  shows "write_data (int p) (map uint d) = concat (map chunk_text (flush p d))"
proof -
  have byte: "py_hex 2 (uint b) = hex_fixed 2 (unat b)" for b :: i8
    using py_hex_fixed [of 2 "unat b"] unsigned_less [of b] by simp
  have "pad_words (map uint d) = map uint (d @ replicate (padding (length d)) 0)" by (simp add: pad_words_spec)
  moreover have "py_hex 8 (int p) = hex_fixed 8 p" using py_hex_fixed [of 8 p] assms by simp
  ultimately show ?thesis
    by (simp add: write_data_def flush_def chunk_text_def words_of_map comp_def byte word_text_def rev_map [symmetric] del: map_append hex_fixed.simps)
qed

section \<open>Sections of a program\<close>

text \<open>The chunks of a list of sections, from a chunk at \<open>p\<close> that holds \<open>d\<close> so far.\<close>

fun image_chunks :: "(nat \<times> i8 list) list \<Rightarrow> nat \<Rightarrow> i8 list \<Rightarrow> (nat \<times> i8 list) list" where
  "image_chunks [] p d = flush p d"
| "image_chunks ((a, bs) # secs) p d =
    (if a > p + 4 then flush p d @ image_chunks secs (a - a mod 4) (replicate (a mod 4) 0 @ bs)
     else image_chunks secs p (d @ replicate (a - (p + length d)) 0 @ bs))"

text \<open>The lines of a list of sections, each with its address and the bytes of its lines, sixteen in objcopy's.\<close>

definition section_lines :: "(nat \<times> i8 list list) list \<Rightarrow> hex_line list" where
  "section_lines secs = concat (map (\<lambda>(a, ls). At (int a) # map (\<lambda>l. Bytes (map uint l)) ls) secs)"

definition section_bytes :: "(nat \<times> i8 list list) list \<Rightarrow> (nat \<times> i8 list) list" where
  "section_bytes secs = map (\<lambda>(a, ls). (a, concat ls)) secs"

lemma convert_bytes:
  "map parse_line ts = map (\<lambda>l. Some (Bytes (map uint l))) ls \<Longrightarrow>
    convert_lines (ts @ rest) ptr (map uint d) = convert_lines rest ptr (map uint (d @ concat ls))" for d :: "i8 list"
proof (induction ls arbitrary: ts d)
  case (Cons l ls)
  then obtain t ts' where "ts = t # ts'" "parse_line t = Some (Bytes (map uint l))"
    "map parse_line ts' = map (\<lambda>l. Some (Bytes (map uint l))) ls" by auto
  with Cons.IH [of ts' "d @ l"] show ?case by simp
qed simp

lemma convert_chunks:
  "map parse_line lines = map Some (section_lines secs) \<Longrightarrow> p < 2 ^ 32 \<Longrightarrow> \<forall>(a, ls) \<in> set secs. a < 2 ^ 32 \<Longrightarrow>
    convert_lines lines (int p) (map uint d) = Some (concat (map chunk_text (image_chunks (section_bytes secs) p d)))"
proof (induction secs arbitrary: lines p d)
  case Nil
  then show ?case by (simp add: section_lines_def section_bytes_def write_data_flush)
next
  case (Cons sec secs)
  obtain a ls where sec: "sec = (a, ls)" by (cases sec)
  let ?bs = "concat ls"
  have "map parse_line lines = Some (At (int a)) # map (\<lambda>l. Some (Bytes (map uint l))) ls @ map Some (section_lines secs)"
    using Cons.prems(1) by (simp add: sec section_lines_def comp_def)
  then obtain t ts rest where lines: "lines = t # ts @ rest" "parse_line t = Some (At (int a))"
    "map parse_line ts = map (\<lambda>l. Some (Bytes (map uint l))) ls" "map parse_line rest = map Some (section_lines secs)"
    by (auto simp: map_eq_Cons_conv map_eq_append_conv)
  have bounds: "a < 2 ^ 32" "\<forall>(a, ls) \<in> set secs. a < 2 ^ 32" using Cons.prems(3) by (auto simp: sec)
  show ?case
  proof (cases "a > p + 4")
    case True
    let ?z = "replicate (a mod 4) 0 :: i8 list"
    have "align_down (int a) [] = (int (a - a mod 4), map uint ?z)"
      by (simp add: align_down_spec nat_mod_distrib of_nat_diff zmod_int)
    moreover have "convert_lines (ts @ rest) (int (a - a mod 4)) (map uint ?z)
        = Some (concat (map chunk_text (image_chunks (section_bytes secs) (a - a mod 4) (?z @ ?bs))))"
      unfolding convert_bytes [OF lines(3)] using bounds by (intro Cons.IH lines(4)) simp_all
    ultimately show ?thesis using True lines(2) write_data_flush [OF Cons.prems(2), of d]
      by (simp add: sec section_bytes_def lines(1))
  next
    case False
    let ?d = "d @ replicate (a - (p + length d)) 0"
    have "fill_to (int a) (int p) (map uint d) = map uint ?d" by (simp add: fill_to_spec)
    moreover have "convert_lines (ts @ rest) (int p) (map uint ?d)
        = Some (concat (map chunk_text (image_chunks (section_bytes secs) p (?d @ ?bs))))"
      unfolding convert_bytes [OF lines(3)] using bounds by (intro Cons.IH lines(4) Cons.prems(2)) simp_all
    ultimately show ?thesis using False lines(2) by (simp add: sec section_bytes_def lines(1))
  qed
qed

text \<open>Sections in order, each starting where the words of the one before end or later.\<close>

fun sections_ok :: "nat \<Rightarrow> nat \<Rightarrow> (nat \<times> i8 list) list \<Rightarrow> bool" where
  "sections_ok sz e [] \<longleftrightarrow> True"
| "sections_ok sz e ((a, bs) # secs) \<longleftrightarrow>
    e + padding e \<le> a \<and> bs \<noteq> [] \<and> a + length bs \<le> sz \<and> sections_ok sz (a + length bs) secs"

lemma sections_bounds: "sections_ok sz e secs \<Longrightarrow> (a, bs) \<in> set secs \<Longrightarrow> a \<le> sz"
  by (induction secs arbitrary: e) auto

lemma word_end:
  assumes "4 dvd sz" "e \<le> sz"
  shows "e + padding e \<le> sz"
  using assms padding_simps(3) [of e] padding_simps(4) [of e] by presburger

lemma image_of_append: "image_of (cs @ ds) buf = image_of ds (image_of cs buf)"
  by (simp add: image_of_def)

lemma image_flush:
  "image_of (flush p d) buf i = (if p \<le> i \<and> i < p + length d + (if d = [] then 0 else padding (length d))
     then (d @ replicate (padding (length d)) 0) ! (i - p) else buf i)"
  by (cases "d = []") (auto simp: flush_def image_of_def put_bytes_def)

lemma image_flush_at: "k < length ys \<Longrightarrow> image_of (flush p (xs @ ys @ zs)) buf (p + (length xs + k)) = ys ! k"
  by (cases "ys = []") (simp_all add: image_flush nth_append)

lemma flush_ok:
  assumes "4 dvd p" "p + length d \<le> sz" "4 dvd sz"
  shows "\<forall>chunk \<in> set (flush p d). chunk_ok sz chunk"
  using assms word_end [OF assms(3,2)] padding_simps(3) [of "length d"] padding_simps(5) [OF assms(1), of "length d"]
  by (auto simp: flush_def chunk_ok_def)

lemma image_chunks_bytes:
  "4 dvd p \<Longrightarrow> 4 dvd sz \<Longrightarrow> p + length d \<le> sz \<Longrightarrow> sections_ok sz (p + length d) secs \<Longrightarrow>
    (\<forall>(a, bs) \<in> set secs. \<forall>j < length bs. image_of (image_chunks secs p d) buf (a + j) = bs ! j)
    \<and> (\<forall>j < length d. image_of (image_chunks secs p d) buf (p + j) = d ! j)
    \<and> (\<forall>i < p. image_of (image_chunks secs p d) buf i = buf i)
    \<and> (\<forall>chunk \<in> set (image_chunks secs p d). chunk_ok sz chunk)"
proof (induction secs arbitrary: p d buf)
  case Nil
  then show ?case using flush_ok [of p d sz] by (auto simp: image_flush nth_append)
next
  case (Cons sec secs)
  obtain a bs where sec: "sec = (a, bs)" by (cases sec)
  have ok: "p + length d + padding (p + length d) \<le> a" "bs \<noteq> []" "a + length bs \<le> sz" "sections_ok sz (a + length bs) secs"
    using Cons.prems(4) by (simp_all add: sec)
  show ?case
  proof (cases "a > p + 4")
    case True
    let ?p = "a - a mod 4" and ?d = "replicate (a mod 4) 0 @ bs" and ?buf = "image_of (flush p d) buf"
    have p: "4 dvd ?p" "?p + length ?d = a + length bs" "?p + a mod 4 = a" by (simp_all add: dvd_minus_mod)
    have gap: "p + length d + padding (p + length d) \<le> ?p"
      using ok(1) padding_simps(3) [of "p + length d"] by presburger
    have IH: "\<forall>(a, bs) \<in> set secs. \<forall>j < length bs. image_of (image_chunks secs ?p ?d) ?buf (a + j) = bs ! j"
      "\<forall>j < length ?d. image_of (image_chunks secs ?p ?d) ?buf (?p + j) = ?d ! j"
      "\<forall>i < ?p. image_of (image_chunks secs ?p ?d) ?buf i = ?buf i"
      "\<forall>chunk \<in> set (image_chunks secs ?p ?d). chunk_ok sz chunk"
      using Cons.IH [OF p(1) Cons.prems(2), of ?d ?buf] ok(3,4) p(2) by simp_all
    have "image_of (image_chunks secs ?p ?d) ?buf (a + j) = bs ! j" if "j < length bs" for j
      using IH(2) [rule_format, of "a mod 4 + j"] that p(3) by (simp add: nth_append add.assoc [symmetric])
    moreover have "image_of (image_chunks secs ?p ?d) ?buf (p + j) = d ! j" if "j < length d" for j
      using IH(3) [rule_format, of "p + j"] that gap by (simp add: image_flush nth_append)
    moreover have "image_of (image_chunks secs ?p ?d) ?buf i = buf i" if "i < p" for i
      using IH(3) [rule_format, of i] that gap by (simp add: image_flush)
    ultimately show ?thesis
      using True IH(1,4) flush_ok [OF Cons.prems(1,3,2)] by (auto simp: sec image_of_append)
  next
    case False
    let ?d = "d @ replicate (a - (p + length d)) 0 @ bs"
    have d: "p + length ?d = a + length bs" using ok(1) by simp
    have IH: "\<forall>(a, bs) \<in> set secs. \<forall>j < length bs. image_of (image_chunks secs p ?d) buf (a + j) = bs ! j"
      "\<forall>j < length ?d. image_of (image_chunks secs p ?d) buf (p + j) = ?d ! j"
      "\<forall>i < p. image_of (image_chunks secs p ?d) buf i = buf i"
      "\<forall>chunk \<in> set (image_chunks secs p ?d). chunk_ok sz chunk"
      using Cons.IH [OF Cons.prems(1,2), of ?d buf] ok(3,4) d by simp_all
    have "image_of (image_chunks secs p ?d) buf (a + j) = bs ! j" if "j < length bs" for j
    proof -
      have place: "p + (length d + (a - (p + length d) + j)) = a + j" using ok(1) by simp
      have "?d ! (length d + (a - (p + length d) + j)) = bs ! j" by (simp add: nth_append)
      then show ?thesis using IH(2) [rule_format, of "length d + (a - (p + length d) + j)"] that unfolding place by simp
    qed
    moreover have "image_of (image_chunks secs p ?d) buf (p + j) = d ! j" if "j < length d" for j
      using IH(2) [rule_format, of j] that by (simp add: nth_append)
    ultimately show ?thesis using False IH(1,3,4) by (auto simp: sec)
  qed
qed

lemma image_chunks_nonempty: "d \<noteq> [] \<Longrightarrow> image_chunks secs p d \<noteq> []"
  by (induction secs arbitrary: p d) (auto simp: flush_def split: if_splits)

lemma convert_image:
  assumes "map parse_line lines = map Some (section_lines secs)" "\<forall>(a, ls) \<in> set secs. a < 2 ^ 32"
    "chunks = image_chunks (section_bytes secs) 0 []" "\<forall>chunk \<in> set chunks. chunk_ok sz chunk" "chunks \<noteq> []" "sz < 2 ^ 32"
  shows "\<exists>out n. hex8tohex32 lines = Some out \<and> validate_and_load_binary (Some out) sz buf = Inr (n, image_of chunks buf)"
  using convert_chunks [OF assms(1) _ assms(2), of 0 "[]"] load_image [OF assms(4-6)] assms(3) by (simp add: hex8tohex32_def)

section \<open>Properties\<close>

text \<open>
  C11.  From objcopy's text to the buffer of the simulator nothing is lost: the lines of any
  sections in ascending order, no two of which share a word, each an address and any number of lines
  of any number of bytes, are converted without an exception, and the loader puts every byte of every
  section at its address.
\<close>

theorem image_text_roundtrip:
  assumes "map parse_line lines = map Some (section_lines secs)" "secs \<noteq> []" "sections_ok sz 0 (section_bytes secs)" "4 dvd sz"
    "sz < 2 ^ 32"
  shows "\<exists>out n buf'. hex8tohex32 lines = Some out \<and> validate_and_load_binary (Some out) sz buf = Inr (n, buf')
    \<and> (\<forall>(a, bs) \<in> set (section_bytes secs). \<forall>j < length bs. buf' (a + j) = bs ! j)"
proof -
  let ?secs = "section_bytes secs"
  have "a < 2 ^ 32" if "(a, ls) \<in> set secs" for a ls
    using sections_bounds [OF assms(3), of a "concat ls"] that assms(5) by (force simp: section_bytes_def)
  then have small: "\<forall>(a, ls) \<in> set secs. a < 2 ^ 32" by blast
  note image = image_chunks_bytes [of 0 sz "[]" ?secs buf]
  obtain a bs secs' where secs: "?secs = (a, bs) # secs'" "bs \<noteq> []"
    using assms(2,3) by (cases secs) (auto simp: section_bytes_def)
  then have nonempty: "image_chunks ?secs 0 [] \<noteq> []" using image_chunks_nonempty by simp
  have ok: "\<forall>chunk \<in> set (image_chunks ?secs 0 []). chunk_ok sz chunk"
    "\<forall>(a, bs) \<in> set ?secs. \<forall>j < length bs. image_of (image_chunks ?secs 0 []) buf (a + j) = bs ! j"
    using image assms(3,4) by simp_all
  from convert_image [OF assms(1) small refl ok(1) nonempty assms(5), of buf] ok(2) show ?thesis by blast
qed

text \<open>Two sections as objcopy prints them, the first on two lines, the second in a chunk of its own.\<close>

definition demo_lines :: "string list" where
  "demo_lines = map (\<lambda>l. l @ [CHR 0x0D, CHR 0x0A])
    [''@00000000'', ''37 01 00 10 83 00 01 00 23 00 11 00 6F F0 9F FF '', ''13 05 '', ''@00000018'', ''83 00 01'']"

definition demo_secs :: "(nat \<times> i8 list list) list" where
  "demo_secs = [(0, [[0x37, 0x01, 0x00, 0x10, 0x83, 0x00, 0x01, 0x00, 0x23, 0x00, 0x11, 0x00, 0x6F, 0xF0, 0x9F, 0xFF], [0x13, 0x05]]),
     (24, [[0x83, 0x00, 0x01]])]"

theorem image_text_roundtrip_witness:
  "\<exists>out n buf'. hex8tohex32 demo_lines = Some out \<and> validate_and_load_binary (Some out) 64 (\<lambda>_. 0) = Inr (n, buf')
    \<and> buf' 3 = 0x10 \<and> buf' 17 = 0x05 \<and> buf' 24 = 0x83"
proof -
  have "map parse_line demo_lines = map Some (section_lines demo_secs)" by code_simp
  moreover have "demo_secs \<noteq> []" by (simp add: demo_secs_def)
  moreover have "sections_ok 64 0 (section_bytes demo_secs)" by code_simp
  ultimately obtain out n buf' where r: "hex8tohex32 demo_lines = Some out" "validate_and_load_binary (Some out) 64 (\<lambda>_. 0) = Inr (n, buf')"
    "\<forall>(a, bs) \<in> set (section_bytes demo_secs). \<forall>j < length bs. buf' (a + j) = bs ! j"
    using image_text_roundtrip [of demo_lines demo_secs 64 "\<lambda>_. 0"] by auto
  from r(3) have "buf' (0 + 3) = 0x10" "buf' (0 + 17) = 0x05" "buf' (24 + 0) = 0x83"
    by (simp_all add: demo_secs_def section_bytes_def eval_nat_numeral)
  with r(1,2) show ?thesis by auto
qed

text \<open>The chunks of two sections of which the first starts at \<open>a\<close>; its chunk starts at \<open>chunk_start a\<close>.\<close>

definition chunk_start :: "nat \<Rightarrow> nat" where
  "chunk_start a = (if a > 4 then a - a mod 4 else 0)"

lemma chunk_start_bounds: "4 dvd chunk_start a" "chunk_start a \<le> a" "a \<le> chunk_start a + 4"
  by (simp_all add: chunk_start_def dvd_minus_mod) presburger

lemma image_chunks_first:
  "image_chunks ((a, bs) # secs) 0 [] = image_chunks secs (chunk_start a) (replicate (a - chunk_start a) 0 @ bs)"
  by (simp add: chunk_start_def flush_def)

lemma shared_chunks:
  assumes "a + length bs1 \<le> b" "b - b mod 4 < a + length bs1" "chunk_start a + 4 < b" "b + length bs2 \<le> sz" "bs1 \<noteq> []" "4 dvd sz"
    "chunks = image_chunks [(a, bs1), (b, bs2)] 0 []"
  shows "\<forall>chunk \<in> set chunks. chunk_ok sz chunk" "chunks \<noteq> []"
    "\<And>i. a \<le> i \<Longrightarrow> i < b - b mod 4 \<Longrightarrow> image_of chunks buf i = bs1 ! (i - a)"
    "\<And>i. b - b mod 4 \<le> i \<Longrightarrow> i < b \<Longrightarrow> bs2 \<noteq> [] \<Longrightarrow> image_of chunks buf i = 0"
    "\<And>j. j < length bs2 \<Longrightarrow> image_of chunks buf (b + j) = bs2 ! j"
proof -
  note p = chunk_start_bounds [of a]
  let ?p = "chunk_start a" and ?d = "replicate (a - chunk_start a) 0 @ bs1" and ?q = "b - b mod 4" and ?e = "replicate (b mod 4) 0 @ bs2"
  have chunks: "chunks = flush ?p ?d @ flush ?q ?e" using assms(3) by (simp add: assms(7) image_chunks_first del: image_chunks.simps(2)) simp
  have q: "4 dvd ?q" "?q + b mod 4 = b" by (simp_all add: dvd_minus_mod)
  have "?p + length ?d = a + length bs1" "?q + length ?e = b + length bs2" using p(2) q(2) by simp_all
  then show "\<forall>chunk \<in> set chunks. chunk_ok sz chunk"
    using flush_ok [OF p(1), of ?d sz] flush_ok [OF q(1), of ?e sz] assms(1,4,6) by (auto simp: chunks)
  show "chunks \<noteq> []" using assms(5) by (simp add: chunks flush_def)
  have image: "image_of chunks buf i = image_of (flush ?q ?e) (image_of (flush ?p ?d) buf) i" for i by (simp add: chunks image_of_append)
  show "image_of chunks buf i = bs1 ! (i - a)" if "a \<le> i" "i < ?q" for i
  proof -
    have "?p + (length (replicate (a - ?p) (0 :: i8)) + (i - a)) = i" "i - a < length bs1" using that p(2) assms(2) by simp_all
    then show ?thesis
      using that image_flush_at [of "i - a" bs1 ?p "replicate (a - ?p) 0" "[]" buf] by (simp add: image image_flush [of ?q])
  qed
  show "image_of chunks buf i = 0" if "?q \<le> i" "i < b" "bs2 \<noteq> []" for i
  proof -
    have "b - r \<le> i \<Longrightarrow> i < b \<Longrightarrow> r \<le> b \<Longrightarrow> i - (b - r) < r \<and> (b - r) + (i - (b - r)) = i" for r by linarith
    from this [of "b mod 4"] that have "i - ?q < b mod 4" "?q + (i - ?q) = i" by simp_all
    then show ?thesis using image_flush_at [of "i - ?q" "replicate (b mod 4) 0" ?q "[]" bs2] by (simp add: image)
  qed
  show "image_of chunks buf (b + j) = bs2 ! j" if "j < length bs2" for j
  proof -
    have "b + j - ?q = b mod 4 + j" using q(2) by simp
    then show ?thesis using that q(2) by (auto simp: image image_flush nth_append)
  qed
qed

lemma descending_chunks:
  assumes "b < a" "a + length bs1 + length bs2 \<le> sz" "bs1 \<noteq> []" "4 dvd sz" "chunks = image_chunks [(a, bs1), (b, bs2)] 0 []"
  shows "\<forall>chunk \<in> set chunks. chunk_ok sz chunk" "chunks \<noteq> []"
    "\<And>j. j < length bs2 \<Longrightarrow> image_of chunks buf (a + length bs1 + j) = bs2 ! j"
    "\<And>i. i < chunk_start a \<Longrightarrow> image_of chunks buf i = buf i"
proof -
  note p = chunk_start_bounds [of a]
  let ?p = "chunk_start a" and ?d = "replicate (a - chunk_start a) 0 @ bs1 @ bs2"
  have chunks: "chunks = flush ?p ?d" using assms(1) p by (simp add: assms(5) image_chunks_first del: image_chunks.simps(2)) simp
  have len: "?p + length ?d = a + length bs1 + length bs2" using p(2) by simp
  then show "\<forall>chunk \<in> set chunks. chunk_ok sz chunk"
    using flush_ok [OF p(1), of ?d sz] assms(2,4) by (simp add: chunks)
  show "chunks \<noteq> []" using assms(3) by (simp add: chunks flush_def)
  show "image_of chunks buf (a + length bs1 + j) = bs2 ! j" if "j < length bs2" for j
  proof -
    have "?p + (length (replicate (a - ?p) (0 :: i8) @ bs1) + j) = a + length bs1 + j" using p(2) by simp
    then show ?thesis
      using that image_flush_at [of j bs2 ?p "replicate (a - ?p) 0 @ bs1" "[]" buf] by (simp add: chunks)
  qed
  show "image_of chunks buf i = buf i" if "i < ?p" for i
    using that by (simp add: chunks image_flush)
qed

text \<open>
  C40.  Other sections are corrupted without a word.  When the second of two sections, beyond the first
  word of the chunk of the first, starts inside the word in which the first one ends, the new chunk begins
  with zeros in the place of the last bytes of the first section, which are lost; and when the second
  section starts before the first, its bytes are put behind the first section instead, and its own
  addresses, below the chunk of the first, keep what they held.
\<close>

theorem converter_loses_bytes:
  assumes "map parse_line lines = map Some (section_lines [(a, ls1), (b, ls2)])" "bs1 = concat ls1" "bs2 = concat ls2"
    "bs1 \<noteq> []" "bs2 \<noteq> []" "4 dvd sz" "sz < 2 ^ 32"
    "a + length bs1 \<le> b \<and> b - b mod 4 < a + length bs1 \<and> chunk_start a + 4 < b \<and> b + length bs2 \<le> sz
      \<or> b < a \<and> a + length bs1 + length bs2 \<le> sz"
  shows "\<exists>out n buf'. hex8tohex32 lines = Some out \<and> validate_and_load_binary (Some out) sz buf = Inr (n, buf')
    \<and> (if a \<le> b
       then (\<forall>i. a \<le> i \<and> i < b - b mod 4 \<longrightarrow> buf' i = bs1 ! (i - a))
         \<and> (\<forall>i. b - b mod 4 \<le> i \<and> i < a + length bs1 \<longrightarrow> buf' i = 0) \<and> (\<forall>j < length bs2. buf' (b + j) = bs2 ! j)
       else (\<forall>j < length bs2. buf' (a + length bs1 + j) = bs2 ! j) \<and> (\<forall>i < chunk_start a. buf' i = buf i))"
proof -
  let ?chunks = "image_chunks [(a, bs1), (b, bs2)] 0 []"
  have small: "\<forall>(a, ls) \<in> set [(a, ls1), (b, ls2)]. a < 2 ^ 32" using assms(7,8) by auto
  have chunks: "?chunks = image_chunks (section_bytes [(a, ls1), (b, ls2)]) 0 []" by (simp add: section_bytes_def assms(2,3))
  show ?thesis
  proof (cases "a \<le> b")
    case True
    then have c: "a + length bs1 \<le> b" "b - b mod 4 < a + length bs1" "chunk_start a + 4 < b" "b + length bs2 \<le> sz"
      using assms(8) by auto
    note sh = shared_chunks [OF c assms(4,6) refl]
    from sh(3-5) [where buf = buf] assms(5) c(1) convert_image [OF assms(1) small chunks sh(1,2) assms(7), of buf] True show ?thesis by auto
  next
    case False
    then have c: "b < a" "a + length bs1 + length bs2 \<le> sz" using assms(8) by auto
    note de = descending_chunks [OF c assms(4,6) refl]
    from de(3,4) [where buf = buf] convert_image [OF assms(1) small chunks de(1,2) assms(7), of buf] False show ?thesis by auto
  qed
qed

text \<open>Sections of which the second starts in the last word of the first, and descending ones.\<close>

definition shared_word :: "string list" where
  "shared_word = map (\<lambda>l. l @ [CHR 0x0A]) [''@00000000'', ''01 02 03 04'', ''05 06'', ''@00000007'', ''08'']"
definition descending :: "string list" where
  "descending = map (\<lambda>l. l @ [CHR 0x0A]) [''@00000010'', ''AA'', ''@00000000'', ''BB'']"

theorem converter_loses_bytes_witness:
  "(\<exists>out n buf'. hex8tohex32 shared_word = Some out \<and> validate_and_load_binary (Some out) 64 (\<lambda>_. 0xff) = Inr (n, buf')
      \<and> buf' 3 = 4 \<and> buf' 4 = 0 \<and> buf' 5 = 0 \<and> buf' 7 = 8)
   \<and> (\<exists>out n buf'. hex8tohex32 descending = Some out \<and> validate_and_load_binary (Some out) 64 (\<lambda>_. 0xff) = Inr (n, buf')
      \<and> buf' 0 = 0xff \<and> buf' 17 = 0xBB)"
proof -
  let ?l1 = "[[1, 2, 3, 4], [5, 6]] :: i8 list list"
  have "map parse_line shared_word = map Some (section_lines [(0, ?l1), (7, [[8]])])"
    "map parse_line descending = map Some (section_lines [(16, [[0xAA]]), (0, [[0xBB]])])" by code_simp+
  note lines = this
  obtain out n buf' where s: "hex8tohex32 shared_word = Some out" "validate_and_load_binary (Some out) 64 (\<lambda>_. 0xff) = Inr (n, buf')"
    "\<forall>i. 0 \<le> i \<and> i < 4 \<longrightarrow> buf' i = concat ?l1 ! i" "\<forall>i. 4 \<le> i \<and> i < 6 \<longrightarrow> buf' i = 0" "buf' 7 = 8"
    using converter_loses_bytes [OF lines(1) refl refl, of 64 "\<lambda>_. 0xff"] by (auto simp: chunk_start_def)
  from s(3) have "buf' 3 = 4" by (simp add: eval_nat_numeral)
  moreover obtain out2 n2 buf2 where "hex8tohex32 descending = Some out2"
    "validate_and_load_binary (Some out2) 64 (\<lambda>_. 0xff) = Inr (n2, buf2)" "buf2 17 = 0xBB" "\<forall>i < 16. buf2 i = 0xff"
    using converter_loses_bytes [OF lines(2) refl refl, of 64 "\<lambda>_. 0xff"] by (auto simp: chunk_start_def)
  ultimately show ?thesis using s by auto
qed

end
