(* ===== verification/Soc_Properties.thy ===== *)
theory Soc_Properties
  imports Soc_Ports
begin

text \<open>
  The properties of the whole system, each with an instance on a concrete memory: programs,
  reset, the invariant of the core, the writes and reads of the serial port's registers, and the
  two places where the core departs from the instruction set.
\<close>

section \<open>Programs\<close>

text \<open>
  C1.  The system implements the instruction set.  From a ready state, \<open>k\<close> supported instructions
  take exactly the clocks the specification gives them, whatever arrives on the serial and the
  parallel input, and leave the system ready with the specified registers, vector registers,
  memory, counters, control registers and stop flag.
\<close>

theorem soc_implements_isa:
  assumes "soc_ready s" "isa_run_supported k (soc_arch s)" "length ins = isa_run_cycles k (soc_arch s)"
    "\<forall>i \<in> set ins. in_resetn i"
  shows "\<exists>s'. soc_run ins s = Some s' \<and> soc_ready s' \<and> soc_arch s' = isa_run k (soc_arch s)"
  using assms by (rule soc_runs_program)

theorem soc_implements_isa_witness:
  "soc_ready (soc_at_rest demo_mem) \<and>
   (\<exists>s'. soc_run (replicate 21 run_input) (soc_at_rest demo_mem) = Some s' \<and> soc_ready s' \<and> a_mem (soc_arch s') 16 = 50)"
proof -
  have "\<exists>s'. soc_run (replicate 21 run_input) (soc_at_rest demo_mem) = Some s' \<and> soc_ready s'
      \<and> soc_arch s' = isa_run 4 (soc_arch (soc_at_rest demo_mem))"
    using demo_cycles by (intro soc_implements_isa soc_at_rest_ready) (simp_all add: run_input_def)
  then show ?thesis using demo_cycles soc_at_rest_ready by metis
qed

section \<open>Reset\<close>

text \<open>
  C18.  Two or more clocks in reset bring the system, from any state whatever, to a ready state
  at address 0 with the counters and the control registers at 0 and the stop flag clear.
\<close>

theorem soc_boots:
  assumes "\<forall>i \<in> set ins. \<not> in_resetn i" "2 \<le> length ins"
  shows "\<exists>s'. soc_run ins s = Some s' \<and> soc_ready s' \<and> a_pc (soc_arch s') = 0 \<and> \<not> a_break (soc_arch s') \<and>
    (a_cycle (soc_arch s'), a_insn (soc_arch s'), a_load (soc_arch s'), a_store (soc_arch s')) = (0, 0, 0, 0) \<and>
    (a_mtvec (soc_arch s'), a_mepc (soc_arch s'), a_mcause (soc_arch s'), a_mstatus (soc_arch s')) = (0, 0, 0, 0)"
proof -
  obtain s' where s': "soc_run ins s = Some s'" "soc_ready s'" "core_is_reset (cpu s')" "\<not> break_hit s'"
    using soc_reset [OF assms] by blast
  then show ?thesis by (intro exI [of _ s']) (simp add: soc_arch_def mach_of_def core_is_reset_def)
qed

theorem soc_boots_witness:
  "\<exists>s'. soc_run [reset_input, reset_input] (soc_at_rest demo_mem) = Some s' \<and> soc_ready s' \<and> a_pc (soc_arch s') = 0"
  using soc_boots [of "[reset_input, reset_input]" "soc_at_rest demo_mem"] by (auto simp: reset_input_def)

section \<open>Every clock\<close>

text \<open>
  C19.  From the first clock in reset on, for every memory contents, every instruction word,
  supported or not, and all inputs, the registers of the core stay well formed: a unit is busy or
  started only in EXEC of its own instructions, a scalar request stands only in MEM, the load/store
  unit leaves its idle state only for a vector load or store; so the two users of the memory
  port never request together, and no two units run together.  No program is left out: where a word
  leaves a control code undriven, the run goes on with any value of it, and such a run never stops;
  it is the run of the model wherever that has a value.
\<close>

theorem core_invariant:
  assumes "\<not> in_resetn i"
  shows "\<exists>s'. soc_run_driven ((v, i) # ins) s = Some s' \<and> core_wf (cpu s')
    \<and> \<not> (dmem_req_valid_reg (cpu s') \<and> vl_mem_valid (vlsu_inst (cpu s'))) \<and> \<not> (vec_busy (cpu s') \<and> vmac_busy (cpu s'))
    \<and> (\<forall>t. soc_run (i # map snd ins) s = Some t \<longrightarrow> t = s')"
proof -
  obtain s1 where s1: "soc_clock i s = Some s1" "core_is_reset (cpu s1)"
    using soc_clock_reset [OF assms(1), of s] by blast
  then have "core_wf (cpu s1)" by (simp add: core_is_reset_def quiet_def core_wf_def)
  then obtain s' where s': "soc_run_driven ins s1 = Some s'" "core_wf (cpu s')" using core_wf_run_driven by blast
  moreover have "soc_run_driven ((v, i) # ins) s = Some s'" using s1(1) s'(1) by (simp add: soc_clock_driven_def)
  moreover have "t = s'" if "soc_run (i # map snd ins) s = Some t" for t
    using run_driven_agrees [of ins s1 t] that s1(1) s'(1) by simp
  ultimately show ?thesis using core_wf_exclusive [OF s'(2)] by blast
qed

text \<open>A multiplication, which the decoder does not know: the model has no value, the driven run goes on.\<close>

definition x_mem :: mem_words where
  "x_mem = (\<lambda>_. 0)(0 := 0x023100B3)"

lemma x_mem_stops: "soc_run [reset_input, run_input, run_input, run_input] (soc_at_rest x_mem) = None"
  by code_simp

theorem core_invariant_witness:
  "soc_run [reset_input, run_input, run_input, run_input] (soc_at_rest x_mem) = None
    \<and> (\<exists>s'. soc_run_driven (map (Pair ((9, 0) :: codes)) [reset_input, run_input, run_input, run_input]) (soc_at_rest x_mem) = Some s'
      \<and> core_wf (cpu s'))"
proof -
  have "\<not> in_resetn reset_input" by (simp add: reset_input_def)
  from core_invariant [OF this, of "(9, 0)" "map (Pair ((9, 0) :: codes)) [run_input, run_input, run_input]" "soc_at_rest x_mem"] x_mem_stops
  show ?thesis by auto
qed

section \<open>The serial port\<close>

text \<open>
  C26.  A store to the transmit register of an idle serial port takes the five clocks of a store
  and starts the transmission of its low byte; it is also a store to the memory, at the address
  modulo 16 MB, so that writing to 0x10000000 overwrites the word at address 0.
\<close>

theorem uart_store_effect:
  assumes "soc_ready s" "tx_waits s" "a = soc_arch s" "w = isa_fetch a" "opcode_of w = 0x23"
    "funct3_of w = 0b000 \<or> funct3_of w = 0b001 \<or> funct3_of w = 0b010"
    "addr = xreg a (rs1_of w) + isa_imm w" "aligned (funct3_of w) addr" "uart_page addr" "(ucast addr :: i8) = 0"
    "length ins = 5" "\<forall>i \<in> set ins. in_resetn i"
  shows "\<exists>s'. soc_run ins s = Some s' \<and> soc_ready s' \<and> soc_arch s' = isa_step a
    \<and> tx_state (uart_tx_regs (uart0 s')) = TX_START \<and> data_to_send (uart_tx_regs (uart0 s')) = ucast (xreg a (rs2_of w))
    \<and> a_mem (soc_arch s') = store_value (funct3_of w) addr (xreg a (rs2_of w)) (a_mem a)"
proof -
  have "a_mem (isa_step a) = store_value (funct3_of w) addr (xreg a (rs2_of w)) (a_mem a)"
    using assms(4,5,7) by (simp add: isa_step_def isa_csr_def isa_count_def isa_exec_def Let_def)
  with uart_store_result [OF assms] show ?thesis by auto
qed

text \<open>\<open>sb x1,0(x2)\<close> and \<open>lw x1,0(x2)\<close> with \<open>x2\<close> the address of the transmit register.\<close>

definition soc_uart_demo :: "i32 \<Rightarrow> soc" where
  "soc_uart_demo w = (soc_at_rest ((\<lambda>_. 0)(0 := w)))\<lparr>cpu := core_at_rest\<lparr>regs := (\<lambda>_. 0)(1 := 0x41, 2 := 0x10000000)\<rparr>\<rparr>"

lemma soc_uart_demo_ready: "soc_ready (soc_uart_demo w)" "tx_waits (soc_uart_demo w)"
  by (simp_all add: soc_uart_demo_def soc_ready_def mach_of_def soc_at_rest_def core_at_rest_def port_ok_def quiet_def
      vmac_idle_def valu_idle_def uart_quiet_def tx_waits_def uart_req_ready_def)

lemma soc_uart_demo_arch:
  "soc_arch (soc_uart_demo w) = \<lparr>a_pc = 0, a_regs = (\<lambda>_. 0)(1 := 0x41, 2 := 0x10000000), a_vregs = (\<lambda>_. 0),
     a_mem = (\<lambda>_. 0)(0 := w), a_cycle = 0, a_insn = 0, a_load = 0, a_store = 0, a_mtvec = 0, a_mepc = 0, a_mcause = 0,
     a_mstatus = 0, a_break = False\<rparr>"
  by (simp add: soc_uart_demo_def soc_arch_def mach_of_def soc_at_rest_def core_at_rest_def)

theorem uart_store_effect_witness:
  "\<exists>s'. soc_run (replicate 5 run_input) (soc_uart_demo 0x00110023) = Some s'
    \<and> data_to_send (uart_tx_regs (uart0 s')) = 0x41 \<and> a_mem (soc_arch s') 0 = 0x00110041"
proof -
  let ?a = "soc_arch (soc_uart_demo 0x00110023)"
  let ?w = "isa_fetch ?a"
  have w: "?w = 0x00110023" "opcode_of ?w = 0x23" "funct3_of ?w = 0b000"
    "xreg ?a (rs1_of ?w) + isa_imm ?w = 0x10000000" "xreg ?a (rs2_of ?w) = 0x41"
    unfolding soc_uart_demo_arch by code_simp+
  have "uart_page 0x10000000" "(ucast (0x10000000 :: i32) :: i8) = 0" "aligned 0 0x10000000"
    "store_value 0 0x10000000 0x41 (a_mem ?a) 0 = 0x00110041"
    unfolding soc_uart_demo_arch by code_simp+
  then have "\<exists>s'. soc_run (replicate 5 run_input) (soc_uart_demo 0x00110023) = Some s' \<and> soc_ready s' \<and> soc_arch s' = isa_step ?a
    \<and> tx_state (uart_tx_regs (uart0 s')) = TX_START \<and> data_to_send (uart_tx_regs (uart0 s')) = ucast (xreg ?a (rs2_of ?w))
    \<and> a_mem (soc_arch s') = store_value (funct3_of ?w) 0x10000000 (xreg ?a (rs2_of ?w)) (a_mem ?a)"
    using w by (intro uart_store_effect soc_uart_demo_ready refl) (simp_all add: run_input_def)
  with w \<open>store_value 0 0x10000000 0x41 (a_mem ?a) 0 = 0x00110041\<close> show ?thesis by auto
qed

text \<open>
  C31.  A load from the serial port's registers other than the receive and the status register,
  such as the transmit register, is never answered: the core waits in MEM for ever.
\<close>

theorem uart_load_hangs:
  assumes "soc_ready s" "tx_waits s" "a = soc_arch s" "w = isa_fetch a" "opcode_of w = 0x03"
    "addr = xreg a (rs1_of w) + isa_imm w" "uart_page addr" "(ucast addr :: i8) \<noteq> 4" "(ucast addr :: i8) \<noteq> 8"
    "4 \<le> length ins" "\<forall>i \<in> set ins. in_resetn i"
  shows "\<exists>s'. soc_run ins s = Some s' \<and> cpu_state (cpu s') = MEM"
  using uart_load_stuck [OF assms] by (auto simp: stuck_def)

theorem uart_load_hangs_witness:
  "\<exists>s'. soc_run (replicate 1000 run_input) (soc_uart_demo 0x00012083) = Some s' \<and> cpu_state (cpu s') = MEM"
proof -
  let ?a = "soc_arch (soc_uart_demo 0x00012083)"
  let ?w = "isa_fetch ?a"
  have w: "opcode_of ?w = 0x03" "0x10000000 = xreg ?a (rs1_of ?w) + isa_imm ?w"
    unfolding soc_uart_demo_arch by code_simp+
  have addr: "uart_page 0x10000000" "(ucast (0x10000000 :: i32) :: i8) \<noteq> 4" "(ucast (0x10000000 :: i32) :: i8) \<noteq> 8"
    by code_simp+
  show ?thesis
    by (rule uart_load_hangs [OF soc_uart_demo_ready refl refl w addr]) (simp_all add: run_input_def)
qed

section \<open>Departures from the instruction set\<close>

text \<open>
  C32.  Writing a performance counter also writes the destination register, with whatever the last
  instruction that computed a result left in \<open>alu_out_reg\<close>, although only a counter read is meant
  to write it.
\<close>

theorem counter_write_clobbers:
  assumes "soc_ready s" "w = isa_fetch (soc_arch s)" "opcode_of w = 0x5B" "funct3_of w = 0" "bit w 31" "rd_of w \<noteq> 0"
    "length ins = 4" "\<forall>i \<in> set ins. in_resetn i"
  shows "\<exists>s'. soc_run ins s = Some s' \<and> soc_ready s' \<and> xreg (soc_arch s') (rd_of w) = alu_out_reg (cpu s)"
  using counter_write_result [OF assms(1-5,7,8)] assms(6) by simp

text \<open>\<open>rdwrctr x10,x0,0\<close> as a write, with 7 left in \<open>alu_out_reg\<close>.\<close>

definition soc_counter_demo :: soc where
  "soc_counter_demo = (soc_at_rest ((\<lambda>_. 0)(0 := 0x8000055B)))\<lparr>cpu := core_at_rest\<lparr>alu_out_reg := 7\<rparr>\<rparr>"

theorem counter_write_clobbers_witness:
  "\<exists>s'. soc_run (replicate 4 run_input) soc_counter_demo = Some s' \<and> xreg (soc_arch s') 10 = 7"
proof -
  have ready: "soc_ready soc_counter_demo"
    by (simp add: soc_counter_demo_def soc_ready_def mach_of_def soc_at_rest_def core_at_rest_def port_ok_def quiet_def
      vmac_idle_def valu_idle_def uart_quiet_def)
  have arch: "0x8000055B = isa_fetch (soc_arch soc_counter_demo)"
    by (simp add: soc_counter_demo_def soc_arch_def mach_of_def soc_at_rest_def core_at_rest_def isa_fetch_def word_index_def)
  have w: "opcode_of 0x8000055B = 0x5B" "funct3_of 0x8000055B = 0" "bit (0x8000055B :: i32) 31" "rd_of 0x8000055B = 10"
    by code_simp+
  have "\<exists>s'. soc_run (replicate 4 run_input) soc_counter_demo = Some s' \<and> soc_ready s'
      \<and> xreg (soc_arch s') (rd_of 0x8000055B) = alu_out_reg (cpu soc_counter_demo)"
    using w by (intro counter_write_clobbers [OF ready arch]) (simp_all add: run_input_def)
  moreover have "alu_out_reg (cpu soc_counter_demo) = 7" by (simp add: soc_counter_demo_def)
  ultimately show ?thesis by (auto simp: w)
qed

text \<open>
  C33.  The instructions on control and status registers do not read them: the destination gets the
  sum of the first operand and the register's number, and the register itself the first operand,
  so that \<open>csrr\<close> returns the number and clears the register.
\<close>

theorem csr_read_destroys:
  assumes "soc_ready s" "w = isa_fetch (soc_arch s)" "opcode_of w = 0x73" "length ins = 4" "\<forall>i \<in> set ins. in_resetn i"
  shows "\<exists>s'. soc_run ins s = Some s' \<and> soc_ready s' \<and> a_pc (soc_arch s') = a_pc (soc_arch s) + 4 \<and>
    xreg (soc_arch s') (rd_of w) = (if rd_of w = 0 then 0 else xreg (soc_arch s) (rs1_of w) + imm_i w) \<and>
    a_mepc (soc_arch s') = (if (ucast (imm_i w) :: 12 word) = 0x341 then xreg (soc_arch s) (rs1_of w) else a_mepc (soc_arch s))"
  using assms by (rule csr_result)

text \<open>\<open>csrr x1,mepc\<close> with 0x1234 in \<open>mepc\<close>.\<close>

definition soc_csr_demo :: soc where
  "soc_csr_demo = (soc_at_rest ((\<lambda>_. 0)(0 := 0x341020F3)))\<lparr>cpu := core_at_rest\<lparr>mepc := 0x1234\<rparr>\<rparr>"

theorem csr_read_destroys_witness:
  "\<exists>s'. soc_run (replicate 4 run_input) soc_csr_demo = Some s' \<and> xreg (soc_arch s') 1 = 0x341 \<and> a_mepc (soc_arch s') = 0"
proof -
  have ready: "soc_ready soc_csr_demo"
    by (simp add: soc_csr_demo_def soc_ready_def mach_of_def soc_at_rest_def core_at_rest_def port_ok_def quiet_def
      vmac_idle_def valu_idle_def uart_quiet_def)
  have arch: "0x341020F3 = isa_fetch (soc_arch soc_csr_demo)"
    by (simp add: soc_csr_demo_def soc_arch_def mach_of_def soc_at_rest_def core_at_rest_def isa_fetch_def word_index_def)
  have w: "opcode_of 0x341020F3 = 0x73" "rd_of 0x341020F3 = 1" "rs1_of 0x341020F3 = 0" "imm_i 0x341020F3 = 0x341"
    "(ucast (0x341 :: i32) :: 12 word) = 0x341"
    by code_simp+
  have "xreg (soc_arch soc_csr_demo) 0 = 0" by (simp add: xreg_def)
  then show ?thesis
    using csr_read_destroys [OF ready arch w(1), of "replicate 4 run_input"] by (auto simp: w run_input_def)
qed

end
