(* ===== verification/Spec2Isabelle.thy ===== *)
theory Spec2Isabelle
  imports Matmul Mnist_Float Test_Firmware Syscalls Riscv_Custom Hal_Code Hex_Convert Soc_Properties
begin

text \<open>
  \<^bold>\<open>A RISC-V core with packed and wide SIMD instructions, its firmware and its toolchain.\<close>

  The repository holds a small RV32 core in Verilog with a custom SIMD extension (opcode custom-2),
  C programs that use the extension (neural-network benchmarks, a test firmware with its own
  console library, newlib system calls), and a copy of binutils to which rows for the custom
  instructions were added.  The parts meet at three places: the programs call the SIMD units
  through instruction words, the toolchain turns mnemonics into those words, and the decoder of
  the core turns the words into control signals.  The core, its memory and a serial port form the
  system that runs the compiled programs.  The theories follow these parts.

  \<^bold>\<open>Hardware.\<close>
  \<^item> \<open>Exec_Handshake\<close>: the start/ready protocol between the EXEC state of ucrv32.v and a unit, as a
    locale; the three units interpret it.
  \<^item> \<open>Vmac_Unit\<close> (vmac.v), \<open>Valu_Unit\<close> (valu.v), \<open>Vlsu_Unit\<close> (vlsu.v and the data port of sram.v): one
    clock edge of each unit as a function on a record of its registers, and the proof that an
    operation delivers the lane-wise result of its specification after a fixed number of cycles.
  \<^item> \<open>Decoder\<close> (decoder_control.v): instruction fields, immediates and all control signals; a
    signal the source drives with \<open>x\<close> is an option.
  \<^item> \<open>Simd_Core\<close> (the SIMD part of ucrv32.v, vreg_file.v): decoding, execution and write-back of a
    custom instruction over the units, \<open>simd_exec\<close> and \<open>simd_run\<close>, and the architectural semantics
    \<open>simd_spec\<close> that the core is proved to implement in this theory.  The fuel of a run counts EXEC
    cycles of one instruction; ten are enough because no unit takes more.
  \<^item> \<open>Simd_Intrinsics\<close>: instruction words, C arrays in the data memory, and the value of each
    intrinsic of the programs.

  \<^bold>\<open>The whole system.\<close>
  \<^item> \<open>Alu\<close> (alu.v): full adders, the carry chain, the five-stage shifter and the result selection,
    proved equal to word arithmetic.
  \<^item> \<open>Core_Clock\<close> (ucrv32.v): one clock edge of the core as a function on the record of all its
    registers: state machine, register files, memory interface, CSRs, counters and the three units,
    every block reading the state before the edge.  \<open>None\<close> is a clock whose outcome hangs on a signal
    the decoder drives with \<open>x\<close>.
  \<^item> \<open>Uart\<close> (uart.v): transmitter, receiver and bus side at one clock edge, and the proof that what
    one port sends another receives.  Status bits without a driver are read as 0.
  \<^item> \<open>Soc\<close> (top.v and the instruction port of sram.v): core, memory, serial and parallel port on one
    clock edge, \<open>soc_clock\<close>, and runs over a list of inputs, \<open>soc_run\<close>.
  \<^item> \<open>Isa\<close>: the specification, one step per instruction on registers, byte-addressed memory, counters
    and CSRs, with its cycle count; it knows neither the decoder's signals nor the clock.  The departures
    of the core from RISC-V that software can see (CSRs written by any instruction whose immediate names
    one, an environment call that only raises the stop flag) are written out there.  \<open>isa_supported\<close>
    excludes illegal encodings, misaligned accesses, accesses to the serial port, CSR instructions,
    the return from a trap, and a counter write or FENCE with a destination register.
  \<^item> \<open>Soc_Steps\<close>, \<open>Core_Timing\<close>, \<open>Core_Units\<close>, \<open>Isa_Decode\<close>, \<open>Isa_Refinement\<close>: the simulation proof.  The
    first three follow the clocks of each instruction class through the state machine and the units; the
    fourth relates fields, immediates and byte enables to the specification; the last concludes that one
    instruction's clocks on the system are one step of the specification.
  \<^item> \<open>Core_Invariant\<close>: well-formedness of the core's registers, kept by every clock for every instruction
    word and all inputs.  \<open>soc_clock_driven\<close> goes on where \<open>soc_clock\<close> has no value, with any value of a
    control code that the decoder leaves \<open>x\<close>, as two-state hardware does; no program stops it.
  \<^item> \<open>Soc_Programs\<close>, \<open>Soc_Ports\<close>, \<open>Soc_Properties\<close>: runs of whole programs, reset, loads and stores on the
    port page, the serial port as programs see it, and the instructions on counters and CSRs that do
    not do what they are meant to.
  \<^item> \<open>Console\<close>: programs that talk to the parallel port, the mode the simulator runs the system in:
    \<open>io_run\<close> specifies instructions with input and output, and the system is proved to follow it on
    the pins of the port at every clock.
  \<^item> \<open>Uart_Driver\<close> (class \<open>UARTBitDriver\<close> of top.cc): the host's end of the serial line, proved to
    understand the serial port and to be understood by it.  \<open>Uart\<close> states in the locale \<open>line_receiver\<close>
    what a receiver of frames promises; the port and the driver interpret it.
  \<^item> \<open>Hex_Loader\<close> (\<open>init\<close> and \<open>validate_and_load_binary\<close> of sim/libSimHelper.cc), \<open>Hex_Convert\<close>
    (sw/mnist-newlib/hex8tohex32.py): the way of a program image into the simulator, as text.  The
    lemmas show that converter and loader together put every byte of an image in its place.
  \<^item> \<open>Simulator\<close> (\<open>main\<close> of top.cc): loading, reset and the main loop with its input queue.  The
    record \<open>terminal\<close> and \<open>term_run\<close> are the specification, the instruction set with a terminal whose
    input is a list, and the simulator is proved to refine it; the list of reads bounds the loop.
    \<open>sim_loop_driven\<close> is the loop for any program, by the driven clock.
  \<^item> \<open>Asm_Code\<close> (the encoding macros of include/opcode/riscv.h), \<open>Start_Code\<close> (start.S), \<open>Hal_Code\<close>
    (hal.S, rdwrctr.S): the instructions of RV32I by name, each proved to execute as it is named, and
    assembly routines as lists of them; what the routines do on the system, and the console routines under the simulator.

  \<^bold>\<open>Programs.\<close>
  \<^item> \<open>Mlp_Common\<close>, \<open>Mnist_Sew\<close> (benchmark_mnist_sew.c), \<open>Mnist_Variants\<close> (benchmark_pvmac.c,
    benchmark_wide_vec.c, benchmark_sew_compare.c), \<open>Mnist_Fixed\<close> (benchmark_int32.c,
    benchmark_int32_relu.c, benchmark_int8_relu.c), \<open>Mnist_Mains\<close> (their remaining main functions),
    \<open>Mnist_Float\<close> (benchmark.c): forward passes with their buffers as explicit state, 32- and 64-bit
    accumulators as words.  The lemmas show that the vector passes agree with the scalar pass, that
    no accumulator overflows on int8 data (and where one does), and what the programs print.
    Weights and images are arguments; the properties hold for all of them.  Float operations are a
    record of functions, the arguments that stand for the compiler's runtime.
  \<^item> \<open>Matmul\<close> (matmul.c), \<open>Stdio\<close> (the printf output of the newlib programs as a list of items).
  \<^item> \<open>Print\<close> (sw/test/print.c), \<open>Test_Firmware\<close> (sw/test/main.c, trap_handler.c, hal.S), \<open>Syscalls\<close>
    (syscalls.c): reads outside an array or the argument list are the value \<open>None\<close>.  The test
    firmware acts on any file of CSRs, and \<open>core_csrs\<close> is that of the core, as proved on the system; the
    loop of \<open>echo\<close> runs along the bytes typed in each turn, and no list of turns ends it.

  \<^bold>\<open>Toolchain\<close> (tools/binutils-2.41).
  \<^item> \<open>Riscv_Encoding\<close>, \<open>Riscv_Opcodes\<close> (include/opcode/riscv.h, match functions of
    opcodes/riscv-opc.c): immediates, operand fields, rows.
  \<^item> \<open>Riscv_Validate\<close> (gas/config/tc-riscv.c): \<open>validate_riscv_insn\<close> and \<open>init_opcode_hash\<close>.
  \<^item> \<open>Riscv_Table1\<close> to \<open>Riscv_Table4\<close>, \<open>Riscv_Assembler\<close>: the complete table \<open>riscv_opcodes\<close> with
    its macros expanded, in sixteen parts, the \<open>.insn\<close> formats, and the start-up of the assembler
    on them.  Each part is checked row by row; names are compared through a numeric key.  The
    locale \<open>opcode_table\<close> states what start-up needs of a table; both tables interpret it.
  \<^item> \<open>Riscv_Registers\<close>, \<open>Riscv_Text\<close>: register names and lookup, row selection and register
    operands of \<open>riscv_ip\<close>, printing of a word by \<open>riscv_disassemble_insn\<close>.
  \<^item> \<open>Riscv_Disassembler\<close>: the hashed row search of opcodes/riscv-dis.c; the locale \<open>indexed_rows\<close>
    states what makes an index lossless, and the table interprets it.
  \<^item> \<open>Riscv_Custom\<close>: the custom rows through assembler, disassembler and the decoder of the core.

  \<open>Prelude\<close> holds lanes of words, counted loops and the list lemmas the theories share.  This theory
  holds the properties that span the hardware and the programs.

  \<^bold>\<open>Not modelled.\<close> The trace and debug output of the core
  (\<open>$display\<close>, \<open>$fwrite\<close>), the modules csr.v and efu.v, which hold no
  logic and are not instantiated, the test bench; of the simulator, the wave and trace files, the
  statistics, the set-up of the terminal, the thread that watches the stop flag, and
  \<open>print_imem\<close> and \<open>load_elf\<close>, which run other programs; the start-up
  code and the trap vector of the test firmware, its assembly tests, and the part of its \<open>main\<close> that calls
  them and provokes traps; the weights as concrete data and the script that
  quantises them. Of binutils: operand kinds of the assembler and the disassembler other than
  integer registers, macro expansion, relocations, directives, control register tables, address
  tracking and mapping symbols of the disassembler, and everything outside the RISC-V target.
  \<open>riscv_multi_subset_supports\<close> (bfd) is an argument, the set of supported
  instruction classes.
\<close>

section \<open>Programs on the SIMD core\<close>

lemma simd_insns_supported:
  "simd_supported PVMAC_INSN" "simd_supported VLD_V1_INSN" "simd_supported VLD_V2_INSN"
  "simd_supported VMAC_B_INSN" "simd_supported VMAC_H_INSN" "simd_supported VMAC_W_INSN"
  by (simp_all add: simd_supported_def simd_insn_defs decode_simps valu_supported_def)

lemma simd_insns_latency:
  "simd_latency PVMAC_INSN = 5" "simd_latency VLD_V1_INSN = 10" "simd_latency VLD_V2_INSN = 10"
  "simd_latency VMAC_B_INSN = 6" "simd_latency VMAC_H_INSN = 5" "simd_latency VMAC_W_INSN = 5"
  by (simp_all add: simd_latency_def simd_insn_defs decode_simps valu_latency_def vlsu_latency_def vmac_latency_def)

text \<open>
  C5.  The core implements the SIMD architecture: from a state with idle units, any sequence of
  supported custom instructions runs to completion within ten EXEC cycles per instruction and
  delivers, instruction by instruction, the scalar results, vector registers and memory of the
  architectural semantics, in exactly the sum of the instructions' latencies.
\<close>

theorem core_implements_simd:
  assumes "simd_idle s" "\<forall>x \<in> set prog. simd_supported (fst x)"
  shows "\<exists>s'. simd_run 10 prog s
      = Some (fst (simd_spec_run prog (ss_vregs s) (sr_mem (ss_sram s))), (\<Sum>(insn, _) \<leftarrow> prog. simd_latency insn), s')
    \<and> simd_idle s' \<and> (ss_vregs s', sr_mem (ss_sram s')) = snd (simd_spec_run prog (ss_vregs s) (sr_mem (ss_sram s)))"
  using simd_run_implements [OF assms] by (simp add: simd_arch_def)

definition simd_reset :: simd_state where
  "simd_reset = \<lparr>ss_vregs = (\<lambda>_. 0),
     ss_vmac = \<lparr>vm_cycle_counter = 0, vm_computing = False, vm_result = 0, vm_valid_out = False, vm_mult_results = (\<lambda>_. 0)\<rparr>,
     ss_valu = \<lparr>va_mul_counter = 0, va_computing = False, va_result = 0, va_valid_out = False, va_mul8 = (\<lambda>_. 0), va_mul16 = (\<lambda>_. 0),
       va_mul32 = (\<lambda>_. 0), va_mac8_prod = (\<lambda>_. 0), va_mac16_prod = (\<lambda>_. 0), va_mac32_prod = (\<lambda>_. 0)\<rparr>,
     ss_vlsu = \<lparr>vl_state = IDLE, vl_addr_reg = 0, vl_data_reg = 0, vl_is_store_reg = False, vl_done = False, vl_load_data = 0,
       vl_mem_addr = 0, vl_mem_wdata = 0, vl_mem_wmask = 0, vl_mem_write = False, vl_mem_valid = False\<rparr>,
     ss_sram = \<lparr>sr_mem = (\<lambda>_. 0x01010101), sr_dmem_addr_reg = 0, sr_dmem_resp_valid_reg = False\<rparr>\<rparr>"

lemma simd_reset_idle: "simd_idle simd_reset"
  by (simp add: simd_reset_def simd_idle_def vmac_idle_def valu_idle_def vlsu_idle_def)

theorem core_implements_simd_witness:
  "simd_idle simd_reset \<and> simd_supported VLD_V1_INSN \<and> simd_supported VMAC_B_INSN \<and>
   (\<exists>s'. simd_run 10 [(VLD_V1_INSN, 0x100, 0), (VMAC_B_INSN, 0, 0)] simd_reset = Some ([None, Some 0], 16, s'))"
proof -
  let ?prog = "[(VLD_V1_INSN, 0x100, 0), (VMAC_B_INSN, 0, 0)]"
  have "lane_dot 0 v 0 = 0" for v by (simp add: lane_dot_def lane_def)
  then have "fst (simd_spec_run ?prog (ss_vregs simd_reset) (sr_mem (ss_sram simd_reset))) = [None, Some 0]"
    by (simp add: simd_insn_defs insn_spec_simps vrf_read_write split_beta) (simp add: simd_reset_def vrf_read_def)
  moreover have "(\<Sum>(insn, _) \<leftarrow> ?prog. simd_latency insn) = 16" by (simp add: simd_insns_latency)
  ultimately show ?thesis
    using core_implements_simd [OF simd_reset_idle, of ?prog] by (auto simp: simd_insns_supported simd_reset_idle)
qed

text \<open>
  C16.  A dot product on the hardware: with two int8 arrays in the data memory at word-aligned
  positions, the three instructions \<open>vld v1\<close>, \<open>vld v2\<close>, \<open>vmac.b\<close> deliver the exact sum of the
  eight products to the scalar register, in 26 EXEC cycles, and leave the memory unchanged.
\<close>

theorem hardware_dot_product:
  fixes xs ys :: "i8 list"
  assumes "simd_idle s" "array_at (sr_mem (ss_sram s)) a xs" "array_at (sr_mem (ss_sram s)) b ys"
    "i + 8 \<le> length xs" "i + 8 \<le> length ys"
    "unat (elem_addr TYPE(i8) a i) mod 4 = 0" "unat (elem_addr TYPE(i8) b i) mod 4 = 0"
  shows "\<exists>s'. simd_run 10 [(VLD_V1_INSN, elem_addr TYPE(i8) a i, 0), (VLD_V2_INSN, elem_addr TYPE(i8) b i, 0), (VMAC_B_INSN, 0, 0)] s
      = Some ([None, None, Some (word_of_int (\<Sum>k \<leftarrow> [0..<8]. sint (xs ! (i + k)) * sint (ys ! (i + k))))], 26, s')
    \<and> simd_idle s' \<and> sr_mem (ss_sram s') = sr_mem (ss_sram s)"
proof -
  let ?prog = "[(VLD_V1_INSN, elem_addr TYPE(i8) a i, 0), (VLD_V2_INSN, elem_addr TYPE(i8) b i, 0), (VMAC_B_INSN, 0, 0)]"
  let ?mem = "sr_mem (ss_sram s)"
  note load1 = vld_v1_exec(1) [where s = 1 and m = 8, OF assms(2) _ _ assms(4,6), simplified]
  note load2 = vld_v1_exec(2) [where s = 1 and m = 8, OF assms(3) _ _ assms(5,7), simplified]
  have "simd_spec VMAC_B_INSN 0 0 vr mem = (Some (vmac_b vr), vr, mem)" for vr mem
    by (simp add: VMAC_B_INSN_def vmac_b_def insn_spec_simps)
  then have "simd_spec_run ?prog (ss_vregs s) ?mem
      = ([None, None, Some (vmac_b (vld_v2 ys i (vld_v1 xs i (ss_vregs s))))], vld_v2 ys i (vld_v1 xs i (ss_vregs s)), ?mem)"
    by (simp add: load1 load2)
  moreover have "(\<Sum>(insn, _) \<leftarrow> ?prog. simd_latency insn) = 26" by (simp add: simd_insns_latency)
  ultimately show ?thesis
    using simd_run_implements [OF assms(1), of ?prog] vmac_b_kernel.kernel_dot [OF assms(4,5), of "ss_vregs s"]
    by (auto simp: simd_insns_supported simd_arch_def)
qed

text \<open>The memory of \<open>simd_reset\<close> holds the byte 1 everywhere.\<close>

lemma simd_reset_bytes: "mem_byte (sr_mem (ss_sram simd_reset)) addr = 1"
proof -
  have "(lane k (0x01010101 :: i32) :: i8) = 1" if "k < 4" for k
  proof -
    from that have "k \<in> {0, 1, 2, 3}" by auto
    then show ?thesis by (auto simp: lane_def)
  qed
  then show ?thesis by (simp add: mem_byte_def simd_reset_def)
qed

lemma simd_reset_array: "array_at (sr_mem (ss_sram simd_reset)) a (replicate n (1 :: i8))"
  by (simp add: array_at_def mem_elem_def simd_reset_bytes)

theorem hardware_dot_product_witness:
  "\<exists>s'. simd_run 10 [(VLD_V1_INSN, elem_addr TYPE(i8) 0x100 8, 0), (VLD_V2_INSN, elem_addr TYPE(i8) 0x200 8, 0), (VMAC_B_INSN, 0, 0)] simd_reset
      = Some ([None, None, Some 8], 26, s')"
proof -
  have "(\<Sum>k \<leftarrow> [0..<8]. sint (replicate 16 (1 :: i8) ! (8 + k)) * sint (replicate 16 (1 :: i8) ! (8 + k))) = 8"
    by (simp add: sum_upt_lanes)
  then show ?thesis
    using hardware_dot_product [OF simd_reset_idle simd_reset_array [of "0x100" 16] simd_reset_array [of "0x200" 16], of 8]
    by (auto simp: elem_addr_def)
qed

end
